(* ===== verification/Prelude.thy ===== *)
theory Prelude
imports Main "HOL-Library.Word"
begin

text \<open>
  Shared vocabulary of the development: the machine-integer types of
  \<^verbatim>\<open>include/m33mu/types.h\<close>, the C shift and cast operators on them, and
  the generic word and list lemmas that the component theories use.

  Conventions.  A \<^verbatim>\<open>mm_u32\<close> is a \<^verbatim>\<open>32 word\<close>; C's wrapping \<^verbatim>\<open>+ - * << >> & | ^ ~\<close>
  are the word operations.  A \<^verbatim>\<open>mm_bool\<close> is a bool.  A pointer argument that
  the code tests against null is modelled for the non-null case.
\<close>

unbundle bit_operations_syntax

type_synonym u8 = "8 word"
type_synonym u16 = "16 word"
type_synonym u32 = "32 word"
type_synonym u64 = "64 word"

named_theorems bits \<open>bit-level characterisations of the operations of the model\<close>
named_theorems step_simps \<open>equations that evaluate one operation of the model\<close>

definition to_u8 :: "'a::len word \<Rightarrow> u8"
  where "to_u8 x = ucast x"

definition to_u16 :: "'a::len word \<Rightarrow> u16"
  where "to_u16 x = ucast x"

definition to_u32 :: "'a::len word \<Rightarrow> u32"
  where "to_u32 x = ucast x"

definition to_u64 :: "'a::len word \<Rightarrow> u64"
  where "to_u64 x = ucast x"

definition b2u :: "bool \<Rightarrow> 'a::len word"
  where "b2u b = (if b then 1 else 0)"

lemmas casts = to_u8_def to_u16_def to_u32_def to_u64_def

subsection \<open>Bits of words\<close>

lemma and_bit_nonzero: "(x AND push_bit n 1 \<noteq> (0 :: 'a::len word)) = bit x n" for x :: "'a::len word"
proof -
  have "x AND push_bit n 1 = (if bit x n then push_bit n 1 else 0)"
    by (rule bit_word_eqI) (auto simp: bit_simps)
  moreover have "bit x n \<Longrightarrow> push_bit n 1 \<noteq> (0 :: 'a word)"
    by (metis and_zero_eq bit_0_eq bit_and_iff bit_push_bit_iff bit_1_iff bit_imp_le_length
        diff_self_eq_0 impossible_bit le_refl not_le bot_apply bot_bool_def)
  ultimately show ?thesis by simp
qed

lemma drop_and_one: "(drop_bit n x AND 1 \<noteq> (0 :: 'a::len word)) = bit x n"
  by (simp add: and_one_eq bit_iff_odd_drop_bit odd_iff_mod_2_eq_one)

lemma and_one_nonzero: "(x AND 1 \<noteq> (0 :: 'a::len word)) = bit x 0"
  by (simp add: and_one_eq bit_0 odd_iff_mod_2_eq_one)

lemma u32_bit31: "(x AND 0x80000000 \<noteq> 0) = bit x 31" for x :: u32
  using and_bit_nonzero [of x 31] by (simp add: push_bit_eq_mult)

lemma u32_bit31_eq: "(x AND 0x80000000 = 0) = (\<not> bit x 31)" for x :: u32
  using u32_bit31 by blast

lemma u32_bit29: "(x AND 0x20000000 \<noteq> 0) = bit x 29" for x :: u32
  using and_bit_nonzero [of x 29] by (simp add: push_bit_eq_mult)

lemma drop31_nonzero: "(drop_bit 31 x \<noteq> 0) = bit x 31" for x :: u32
proof -
  have "bit (drop_bit 31 x) n = bit (b2u (bit x 31) :: u32) n" for n
    by (cases n) (auto simp: bit_simps b2u_def dest: bit_imp_le_length)
  then have "drop_bit 31 x = b2u (bit x 31)"
    by (simp add: bit_eq_iff)
  then show ?thesis by (simp add: b2u_def)
qed

text \<open>The bits of the mask constants, in the form that \<^verbatim>\<open>bit_numeral_word_iff\<close> leaves.\<close>

lemma mask_const_bits [bits]:
  "bit (4294967295 :: int) k = (k < 32)"
  "bit (65535 :: int) k = (k < 16)"
  "bit (255 :: int) k = (k < 8)"
  "bit (127 :: int) k = (k < 7)"
  "bit (31 :: int) k = (k < 5)"
  "bit (15 :: int) k = (k < 4)"
  "bit (7 :: int) k = (k < 3)"
  "bit (3 :: int) k = (k < 2)"
proof -
  have "bit ((2 :: int) ^ n - 1) k = (k < n)" for n
    using bit_mask_iff [where 'a = int, of n k] by (simp add: mask_eq_exp_minus_1)
  from this [of 32] this [of 16] this [of 8] this [of 7] this [of 5] this [of 4] this [of 3] this [of 2]
  show "bit (4294967295 :: int) k = (k < 32)" "bit (65535 :: int) k = (k < 16)"
    "bit (255 :: int) k = (k < 8)" "bit (127 :: int) k = (k < 7)" "bit (31 :: int) k = (k < 5)"
    "bit (15 :: int) k = (k < 4)" "bit (7 :: int) k = (k < 3)" "bit (3 :: int) k = (k < 2)"
    by simp_all
qed

lemma and_255_bit: "bit (x AND 255) n \<longleftrightarrow> n < 8 \<and> bit x n" for x :: u32
  by (auto simp: bit_simps bits)

lemma byte_lane:
  assumes "n < (32 :: nat)"
  shows "(n < 8 \<and> n div 8 = 0 \<and> n mod 8 = n) \<or> (8 \<le> n \<and> n < 16 \<and> n div 8 = 1 \<and> n mod 8 = n - 8) \<or>
    (16 \<le> n \<and> n < 24 \<and> n div 8 = 2 \<and> n mod 8 = n - 16) \<or>
    (24 \<le> n \<and> n div 8 = 3 \<and> n mod 8 = n - 24)"
proof -
  define q m where "q = n div 8" and "m = n mod 8"
  have "n = 8 * q + m" "m < 8" by (simp_all add: q_def m_def)
  moreover from this assms have "q = 0 \<or> q = 1 \<or> q = 2 \<or> q = 3" by linarith
  ultimately show ?thesis unfolding q_def [symmetric] m_def [symmetric] by auto
qed

lemma bytes4_bit:
  fixes b0 b1 b2 b3 :: u32
  assumes "\<And>k. bit b0 k \<Longrightarrow> k < 8" "\<And>k. bit b1 k \<Longrightarrow> k < 8" "\<And>k. bit b2 k \<Longrightarrow> k < 8"
    "\<And>k. bit b3 k \<Longrightarrow> k < 8"
  shows "bit (b0 OR push_bit 8 b1 OR push_bit 16 b2 OR push_bit 24 b3) n =
    (n < 32 \<and> bit ([b0, b1, b2, b3] ! (n div 8)) (n mod 8))"
proof (cases "n < 32")
  case True
  have "\<not> bit b0 k" "\<not> bit b1 k" "\<not> bit b2 k" "\<not> bit b3 k" if "8 \<le> k" for k
    using assms [of k] that by auto
  with byte_lane [OF True] True show ?thesis
    by (elim disjE conjE) (simp_all add: bit_or_iff bit_push_bit_iff)
next
  case False
  then show ?thesis by (auto dest!: bit_imp_le_length)
qed

subsection \<open>Numeric readings of words\<close>

lemma unat_u32_less: "unat w < 4294967296" for w :: u32
  using unsigned_less [of w] by simp

lemma unat_u8_less: "unat w < 256" for w :: u8
  using unsigned_less [of w] by simp

lemma unat_u64_less: "unat w < 18446744073709551616" for w :: u64
  using unsigned_less [of w] by simp

lemma unat_to_u64: "unat (to_u64 w) = unat w" for w :: u32
proof -
  have "unat w < 2 ^ 64" using unat_u32_less [of w] by simp
  then show ?thesis by (simp add: to_u64_def unsigned_ucast_eq take_bit_nat_eq_self)
qed

lemma to_u32_of_nat: "to_u32 (of_nat m :: u64) = of_nat m"
  unfolding word_unat_eq_iff to_u32_def unsigned_ucast_eq unsigned_of_nat by simp

lemma unat_u8_to_u32: "unat (to_u32 w) = unat w" for w :: u8
proof -
  have "unat w < 2 ^ 32" using unat_u8_less [of w] by simp
  then show ?thesis by (simp add: to_u32_def unsigned_ucast_eq take_bit_nat_eq_self)
qed

lemma bit31_unat: "bit w 31 = (2 ^ 31 \<le> unat w)" for w :: u32
proof -
  have "bit w 31 = odd (unat w div 2 ^ 31)"
    using bit_unsigned_iff [where 'a = nat, of w 31] by (simp add: bit_iff_odd)
  moreover have "unat w div 2 ^ 31 = (if 2 ^ 31 \<le> unat w then 1 else 0)"
    using unat_u32_less [of w] by auto
  ultimately show ?thesis by simp
qed

lemma sint_u32: "sint w = int (unat w) - (if bit w 31 then 2 ^ 32 else 0)" for w :: u32
proof -
  have "take_bit 32 (uint w) = uint w"
    by (rule take_bit_int_eq_self) (use uint_lt2p [of w] in simp_all)
  moreover have "sint w = take_bit 32 (uint w) - 2 ^ 32 * of_bool (bit (uint w) 31)"
    unfolding sint_uint signed_take_bit_eq_take_bit_minus by simp
  ultimately show ?thesis by (simp add: bit_uint_iff)
qed

lemma align4_eq: "w AND NOT 0x3 = push_bit 2 (drop_bit 2 w)" for w :: u32
proof (rule bit_word_eqI)
  fix n assume "n < LENGTH(32)"
  moreover have "Suc (Suc (n - 2)) = n" if "2 \<le> n" using that by simp
  ultimately show "bit (w AND NOT 0x3) n = bit (push_bit 2 (drop_bit 2 w)) n"
    by (cases "n < 2") (simp_all add: bit_simps bits not_less)
qed

lemma unat_align4: "unat (w AND NOT 0x3) = unat w div 4 * 4" for w :: u32
proof -
  have "unat (drop_bit 2 w) = unat w div 4"
    by (simp add: drop_bit_eq_div unat_div)
  then have "unat (push_bit 2 (drop_bit 2 w)) = take_bit 32 (unat w div 4 * 4)"
    unfolding unsigned_push_bit_eq by (simp add: push_bit_eq_mult)
  also have "\<dots> = unat w div 4 * 4"
    using unat_u32_less [of w] by (intro take_bit_nat_eq_self) simp
  finally show ?thesis unfolding align4_eq .
qed

lemma align4_le: "4 * k \<le> unat w \<Longrightarrow> 4 * k \<le> unat (w AND NOT 0x3)" for w :: u32
  unfolding unat_align4 by presburger

lemma align4_idem: "(w AND NOT 0x3) AND NOT 0x3 = w AND NOT 0x3" for w :: u32
  by (simp only: and.assoc and.idem)

subsection \<open>Words by enumeration\<close>

lemma u8_eq_bits: "list_all (\<lambda>n. bit a n = bit b n) [0..<8] \<Longrightarrow> a = b" for a b :: u8
  by (rule bit_word_eqI) (simp add: list_all_iff)

lemma u32_eq_bits: "list_all (\<lambda>n. bit a n = bit b n) [0..<32] \<Longrightarrow> a = b" for a b :: u32
  by (rule bit_word_eqI) (simp add: list_all_iff)

lemma u8_all: "(\<forall>s :: u8. P s) \<longleftrightarrow> list_all (\<lambda>n. P (of_nat n)) [0..<256]"
proof
  assume a: "list_all (\<lambda>n. P (of_nat n)) [0..<256]"
  show "\<forall>s :: u8. P s"
  proof
    fix s :: u8
    have "unat s \<in> set [0..<256]" using unat_u8_less [of s] by simp
    with a have "P (of_nat (unat s))" unfolding list_all_iff by blast
    then show "P s" by simp
  qed
qed (simp add: list_all_iff)

subsection \<open>Buffers\<close>

text \<open>An erased range reads as ones, and nothing else changes.\<close>

definition erased :: "nat \<Rightarrow> nat \<Rightarrow> u8 list \<Rightarrow> u8 list"
  where "erased a n d = map (\<lambda>i. if a \<le> i \<and> i < a + n then 0xFF else d ! i) [0..<length d]"

lemma erased_length [simp]: "length (erased a n d) = length d"
  by (simp add: erased_def)

lemma erased_nth: "i < length d \<Longrightarrow> erased a n d ! i = (if a \<le> i \<and> i < a + n then 0xFF else d ! i)"
  by (simp add: erased_def)

lemma erased_splice:
  "a \<le> e \<Longrightarrow> e \<le> length d \<Longrightarrow> e = min (a + n) (length d) \<Longrightarrow>
   take a d @ replicate (e - a) 0xFF @ drop e d = erased a n d"
  by (rule nth_equalityI) (auto simp: erased_nth nth_append)

lemma u8_u32: "to_u8 (to_u32 b AND 0xFF) = b" "to_u8 (to_u32 b) = b"
proof -
  have f: "(0xFF :: u32) = mask 8" by (simp add: mask_eq_exp_minus_1)
  show "to_u8 (to_u32 b AND 0xFF) = b" "to_u8 (to_u32 b) = b"
    unfolding f by (auto simp: to_u8_def to_u32_def bit_simps intro!: bit_word_eqI)
qed

end
