(* ===== verification/Decode_Types.thy ===== *)
theory Decode_Types
imports Prelude
begin

text \<open>
  The decoder's data (\<^verbatim>\<open>include/m33mu/decode.h\<close>): condition codes, instruction kinds
  and \<^verbatim>\<open>struct mm_decoded\<close>, with the two helpers that open \<^verbatim>\<open>src/m33mu/decode.c\<close>.

  A decoding routine either returns (the C \<^verbatim>\<open>return d\<close> or \<^verbatim>\<open>return MM_TRUE\<close>) or falls
  through to the next pattern with a possibly changed \<^verbatim>\<open>d\<close>; that is \<^verbatim>\<open>dec_result\<close>.
\<close>

datatype mm_cond =
  MM_COND_EQ | MM_COND_NE | MM_COND_CS | MM_COND_CC | MM_COND_MI | MM_COND_PL | MM_COND_VS
  | MM_COND_VC | MM_COND_HI | MM_COND_LS | MM_COND_GE | MM_COND_LT | MM_COND_GT | MM_COND_LE
  | MM_COND_AL | MM_COND_NV

text \<open>The enumeration \<^verbatim>\<open>mm_op_kind\<close> by its numeric values, in the order of the header.\<close>

datatype mm_op_kind = OpKind nat

abbreviation MM_OP_UNDEFINED :: mm_op_kind where "MM_OP_UNDEFINED \<equiv> OpKind 0"
abbreviation MM_OP_NOP :: mm_op_kind where "MM_OP_NOP \<equiv> OpKind 1"
abbreviation MM_OP_IT :: mm_op_kind where "MM_OP_IT \<equiv> OpKind 2"
abbreviation MM_OP_B_COND :: mm_op_kind where "MM_OP_B_COND \<equiv> OpKind 3"
abbreviation MM_OP_B_UNCOND :: mm_op_kind where "MM_OP_B_UNCOND \<equiv> OpKind 4"
abbreviation MM_OP_BL :: mm_op_kind where "MM_OP_BL \<equiv> OpKind 5"
abbreviation MM_OP_BX :: mm_op_kind where "MM_OP_BX \<equiv> OpKind 6"
abbreviation MM_OP_BLX :: mm_op_kind where "MM_OP_BLX \<equiv> OpKind 7"
abbreviation MM_OP_CBZ :: mm_op_kind where "MM_OP_CBZ \<equiv> OpKind 8"
abbreviation MM_OP_CBNZ :: mm_op_kind where "MM_OP_CBNZ \<equiv> OpKind 9"
abbreviation MM_OP_ADR :: mm_op_kind where "MM_OP_ADR \<equiv> OpKind 10"
abbreviation MM_OP_MOV_IMM :: mm_op_kind where "MM_OP_MOV_IMM \<equiv> OpKind 11"
abbreviation MM_OP_MOV_REG :: mm_op_kind where "MM_OP_MOV_REG \<equiv> OpKind 12"
abbreviation MM_OP_MVN_REG :: mm_op_kind where "MM_OP_MVN_REG \<equiv> OpKind 13"
abbreviation MM_OP_ADD_IMM :: mm_op_kind where "MM_OP_ADD_IMM \<equiv> OpKind 14"
abbreviation MM_OP_ADD_REG :: mm_op_kind where "MM_OP_ADD_REG \<equiv> OpKind 15"
abbreviation MM_OP_SUB_IMM :: mm_op_kind where "MM_OP_SUB_IMM \<equiv> OpKind 16"
abbreviation MM_OP_SUB_REG :: mm_op_kind where "MM_OP_SUB_REG \<equiv> OpKind 17"
abbreviation MM_OP_CMP_IMM :: mm_op_kind where "MM_OP_CMP_IMM \<equiv> OpKind 18"
abbreviation MM_OP_CMP_REG :: mm_op_kind where "MM_OP_CMP_REG \<equiv> OpKind 19"
abbreviation MM_OP_AND_REG :: mm_op_kind where "MM_OP_AND_REG \<equiv> OpKind 20"
abbreviation MM_OP_EOR_REG :: mm_op_kind where "MM_OP_EOR_REG \<equiv> OpKind 21"
abbreviation MM_OP_ORR_REG :: mm_op_kind where "MM_OP_ORR_REG \<equiv> OpKind 22"
abbreviation MM_OP_BIC_REG :: mm_op_kind where "MM_OP_BIC_REG \<equiv> OpKind 23"
abbreviation MM_OP_TST_REG :: mm_op_kind where "MM_OP_TST_REG \<equiv> OpKind 24"
abbreviation MM_OP_UXTB :: mm_op_kind where "MM_OP_UXTB \<equiv> OpKind 25"
abbreviation MM_OP_SXTB :: mm_op_kind where "MM_OP_SXTB \<equiv> OpKind 26"
abbreviation MM_OP_SXTH :: mm_op_kind where "MM_OP_SXTH \<equiv> OpKind 27"
abbreviation MM_OP_UXTH :: mm_op_kind where "MM_OP_UXTH \<equiv> OpKind 28"
abbreviation MM_OP_LSL_IMM :: mm_op_kind where "MM_OP_LSL_IMM \<equiv> OpKind 29"
abbreviation MM_OP_LSL_REG :: mm_op_kind where "MM_OP_LSL_REG \<equiv> OpKind 30"
abbreviation MM_OP_LSR_IMM :: mm_op_kind where "MM_OP_LSR_IMM \<equiv> OpKind 31"
abbreviation MM_OP_LSR_REG :: mm_op_kind where "MM_OP_LSR_REG \<equiv> OpKind 32"
abbreviation MM_OP_ASR_IMM :: mm_op_kind where "MM_OP_ASR_IMM \<equiv> OpKind 33"
abbreviation MM_OP_ASR_REG :: mm_op_kind where "MM_OP_ASR_REG \<equiv> OpKind 34"
abbreviation MM_OP_ROR_REG :: mm_op_kind where "MM_OP_ROR_REG \<equiv> OpKind 35"
abbreviation MM_OP_ROR_IMM :: mm_op_kind where "MM_OP_ROR_IMM \<equiv> OpKind 36"
abbreviation MM_OP_NEG :: mm_op_kind where "MM_OP_NEG \<equiv> OpKind 37"
abbreviation MM_OP_ADD_SP_IMM :: mm_op_kind where "MM_OP_ADD_SP_IMM \<equiv> OpKind 38"
abbreviation MM_OP_SUB_SP_IMM :: mm_op_kind where "MM_OP_SUB_SP_IMM \<equiv> OpKind 39"
abbreviation MM_OP_LDR_IMM :: mm_op_kind where "MM_OP_LDR_IMM \<equiv> OpKind 40"
abbreviation MM_OP_STR_IMM :: mm_op_kind where "MM_OP_STR_IMM \<equiv> OpKind 41"
abbreviation MM_OP_LDR_REG :: mm_op_kind where "MM_OP_LDR_REG \<equiv> OpKind 42"
abbreviation MM_OP_STR_REG :: mm_op_kind where "MM_OP_STR_REG \<equiv> OpKind 43"
abbreviation MM_OP_LDR_POST_IMM :: mm_op_kind where "MM_OP_LDR_POST_IMM \<equiv> OpKind 44"
abbreviation MM_OP_LDR_PRE_IMM :: mm_op_kind where "MM_OP_LDR_PRE_IMM \<equiv> OpKind 45"
abbreviation MM_OP_LDRB_POST_IMM :: mm_op_kind where "MM_OP_LDRB_POST_IMM \<equiv> OpKind 46"
abbreviation MM_OP_LDRB_PRE_IMM :: mm_op_kind where "MM_OP_LDRB_PRE_IMM \<equiv> OpKind 47"
abbreviation MM_OP_STRB_POST_IMM :: mm_op_kind where "MM_OP_STRB_POST_IMM \<equiv> OpKind 48"
abbreviation MM_OP_STRB_PRE_IMM :: mm_op_kind where "MM_OP_STRB_PRE_IMM \<equiv> OpKind 49"
abbreviation MM_OP_STR_POST_IMM :: mm_op_kind where "MM_OP_STR_POST_IMM \<equiv> OpKind 50"
abbreviation MM_OP_STR_PRE_IMM :: mm_op_kind where "MM_OP_STR_PRE_IMM \<equiv> OpKind 51"
abbreviation MM_OP_LDRD :: mm_op_kind where "MM_OP_LDRD \<equiv> OpKind 52"
abbreviation MM_OP_STRD :: mm_op_kind where "MM_OP_STRD \<equiv> OpKind 53"
abbreviation MM_OP_LDR_LITERAL :: mm_op_kind where "MM_OP_LDR_LITERAL \<equiv> OpKind 54"
abbreviation MM_OP_LDM :: mm_op_kind where "MM_OP_LDM \<equiv> OpKind 55"
abbreviation MM_OP_STM :: mm_op_kind where "MM_OP_STM \<equiv> OpKind 56"
abbreviation MM_OP_LDRB_IMM :: mm_op_kind where "MM_OP_LDRB_IMM \<equiv> OpKind 57"
abbreviation MM_OP_STRB_IMM :: mm_op_kind where "MM_OP_STRB_IMM \<equiv> OpKind 58"
abbreviation MM_OP_STRB_REG :: mm_op_kind where "MM_OP_STRB_REG \<equiv> OpKind 59"
abbreviation MM_OP_LDRB_REG :: mm_op_kind where "MM_OP_LDRB_REG \<equiv> OpKind 60"
abbreviation MM_OP_LDRH_IMM :: mm_op_kind where "MM_OP_LDRH_IMM \<equiv> OpKind 61"
abbreviation MM_OP_LDRH_PRE_IMM :: mm_op_kind where "MM_OP_LDRH_PRE_IMM \<equiv> OpKind 62"
abbreviation MM_OP_LDRH_POST_IMM :: mm_op_kind where "MM_OP_LDRH_POST_IMM \<equiv> OpKind 63"
abbreviation MM_OP_STRH_IMM :: mm_op_kind where "MM_OP_STRH_IMM \<equiv> OpKind 64"
abbreviation MM_OP_STRH_PRE_IMM :: mm_op_kind where "MM_OP_STRH_PRE_IMM \<equiv> OpKind 65"
abbreviation MM_OP_STRH_POST_IMM :: mm_op_kind where "MM_OP_STRH_POST_IMM \<equiv> OpKind 66"
abbreviation MM_OP_STRH_REG :: mm_op_kind where "MM_OP_STRH_REG \<equiv> OpKind 67"
abbreviation MM_OP_LDRH_REG :: mm_op_kind where "MM_OP_LDRH_REG \<equiv> OpKind 68"
abbreviation MM_OP_LDRSB_REG :: mm_op_kind where "MM_OP_LDRSB_REG \<equiv> OpKind 69"
abbreviation MM_OP_LDRSB_IMM :: mm_op_kind where "MM_OP_LDRSB_IMM \<equiv> OpKind 70"
abbreviation MM_OP_LDRSH_REG :: mm_op_kind where "MM_OP_LDRSH_REG \<equiv> OpKind 71"
abbreviation MM_OP_LDRSH_IMM :: mm_op_kind where "MM_OP_LDRSH_IMM \<equiv> OpKind 72"
abbreviation MM_OP_CLZ :: mm_op_kind where "MM_OP_CLZ \<equiv> OpKind 73"
abbreviation MM_OP_RBIT :: mm_op_kind where "MM_OP_RBIT \<equiv> OpKind 74"
abbreviation MM_OP_PUSH :: mm_op_kind where "MM_OP_PUSH \<equiv> OpKind 75"
abbreviation MM_OP_POP :: mm_op_kind where "MM_OP_POP \<equiv> OpKind 76"
abbreviation MM_OP_ADCS_REG :: mm_op_kind where "MM_OP_ADCS_REG \<equiv> OpKind 77"
abbreviation MM_OP_ADC_IMM :: mm_op_kind where "MM_OP_ADC_IMM \<equiv> OpKind 78"
abbreviation MM_OP_SBCS_REG :: mm_op_kind where "MM_OP_SBCS_REG \<equiv> OpKind 79"
abbreviation MM_OP_SUB_IMM_NF :: mm_op_kind where "MM_OP_SUB_IMM_NF \<equiv> OpKind 80"
abbreviation MM_OP_REV :: mm_op_kind where "MM_OP_REV \<equiv> OpKind 81"
abbreviation MM_OP_REV16 :: mm_op_kind where "MM_OP_REV16 \<equiv> OpKind 82"
abbreviation MM_OP_REVSH :: mm_op_kind where "MM_OP_REVSH \<equiv> OpKind 83"
abbreviation MM_OP_MUL :: mm_op_kind where "MM_OP_MUL \<equiv> OpKind 84"
abbreviation MM_OP_WFI :: mm_op_kind where "MM_OP_WFI \<equiv> OpKind 85"
abbreviation MM_OP_WFE :: mm_op_kind where "MM_OP_WFE \<equiv> OpKind 86"
abbreviation MM_OP_SEV :: mm_op_kind where "MM_OP_SEV \<equiv> OpKind 87"
abbreviation MM_OP_YIELD :: mm_op_kind where "MM_OP_YIELD \<equiv> OpKind 88"
abbreviation MM_OP_SVC :: mm_op_kind where "MM_OP_SVC \<equiv> OpKind 89"
abbreviation MM_OP_BKPT :: mm_op_kind where "MM_OP_BKPT \<equiv> OpKind 90"
abbreviation MM_OP_UDF :: mm_op_kind where "MM_OP_UDF \<equiv> OpKind 91"
abbreviation MM_OP_B_UNCOND_WIDE :: mm_op_kind where "MM_OP_B_UNCOND_WIDE \<equiv> OpKind 92"
abbreviation MM_OP_B_COND_WIDE :: mm_op_kind where "MM_OP_B_COND_WIDE \<equiv> OpKind 93"
abbreviation MM_OP_MOVW :: mm_op_kind where "MM_OP_MOVW \<equiv> OpKind 94"
abbreviation MM_OP_MOVT :: mm_op_kind where "MM_OP_MOVT \<equiv> OpKind 95"
abbreviation MM_OP_UBFX :: mm_op_kind where "MM_OP_UBFX \<equiv> OpKind 96"
abbreviation MM_OP_SBFX :: mm_op_kind where "MM_OP_SBFX \<equiv> OpKind 97"
abbreviation MM_OP_BFI :: mm_op_kind where "MM_OP_BFI \<equiv> OpKind 98"
abbreviation MM_OP_BFC :: mm_op_kind where "MM_OP_BFC \<equiv> OpKind 99"
abbreviation MM_OP_TBB :: mm_op_kind where "MM_OP_TBB \<equiv> OpKind 100"
abbreviation MM_OP_TBH :: mm_op_kind where "MM_OP_TBH \<equiv> OpKind 101"
abbreviation MM_OP_LDREX :: mm_op_kind where "MM_OP_LDREX \<equiv> OpKind 102"
abbreviation MM_OP_STREX :: mm_op_kind where "MM_OP_STREX \<equiv> OpKind 103"
abbreviation MM_OP_CLREX :: mm_op_kind where "MM_OP_CLREX \<equiv> OpKind 104"
abbreviation MM_OP_TST_IMM :: mm_op_kind where "MM_OP_TST_IMM \<equiv> OpKind 105"
abbreviation MM_OP_MRS :: mm_op_kind where "MM_OP_MRS \<equiv> OpKind 106"
abbreviation MM_OP_MSR :: mm_op_kind where "MM_OP_MSR \<equiv> OpKind 107"
abbreviation MM_OP_MVN_IMM :: mm_op_kind where "MM_OP_MVN_IMM \<equiv> OpKind 108"
abbreviation MM_OP_CMN_IMM :: mm_op_kind where "MM_OP_CMN_IMM \<equiv> OpKind 109"
abbreviation MM_OP_CMN_REG :: mm_op_kind where "MM_OP_CMN_REG \<equiv> OpKind 110"
abbreviation MM_OP_CPS :: mm_op_kind where "MM_OP_CPS \<equiv> OpKind 111"
abbreviation MM_OP_SG :: mm_op_kind where "MM_OP_SG \<equiv> OpKind 112"
abbreviation MM_OP_BXNS :: mm_op_kind where "MM_OP_BXNS \<equiv> OpKind 113"
abbreviation MM_OP_BLXNS :: mm_op_kind where "MM_OP_BLXNS \<equiv> OpKind 114"
abbreviation MM_OP_TT :: mm_op_kind where "MM_OP_TT \<equiv> OpKind 115"
abbreviation MM_OP_TTT :: mm_op_kind where "MM_OP_TTT \<equiv> OpKind 116"
abbreviation MM_OP_TTA :: mm_op_kind where "MM_OP_TTA \<equiv> OpKind 117"
abbreviation MM_OP_TTAT :: mm_op_kind where "MM_OP_TTAT \<equiv> OpKind 118"
abbreviation MM_OP_UDIV :: mm_op_kind where "MM_OP_UDIV \<equiv> OpKind 119"
abbreviation MM_OP_SDIV :: mm_op_kind where "MM_OP_SDIV \<equiv> OpKind 120"
abbreviation MM_OP_UMULL :: mm_op_kind where "MM_OP_UMULL \<equiv> OpKind 121"
abbreviation MM_OP_UMLAL :: mm_op_kind where "MM_OP_UMLAL \<equiv> OpKind 122"
abbreviation MM_OP_UMAAL :: mm_op_kind where "MM_OP_UMAAL \<equiv> OpKind 123"
abbreviation MM_OP_SMULL :: mm_op_kind where "MM_OP_SMULL \<equiv> OpKind 124"
abbreviation MM_OP_SMLAL :: mm_op_kind where "MM_OP_SMLAL \<equiv> OpKind 125"
abbreviation MM_OP_SMLA :: mm_op_kind where "MM_OP_SMLA \<equiv> OpKind 126"
abbreviation MM_OP_MLA :: mm_op_kind where "MM_OP_MLA \<equiv> OpKind 127"
abbreviation MM_OP_MLS :: mm_op_kind where "MM_OP_MLS \<equiv> OpKind 128"
abbreviation MM_OP_MUL_W :: mm_op_kind where "MM_OP_MUL_W \<equiv> OpKind 129"
abbreviation MM_OP_ORN_REG :: mm_op_kind where "MM_OP_ORN_REG \<equiv> OpKind 130"
abbreviation MM_OP_ORN_IMM :: mm_op_kind where "MM_OP_ORN_IMM \<equiv> OpKind 131"
abbreviation MM_OP_RSB_IMM :: mm_op_kind where "MM_OP_RSB_IMM \<equiv> OpKind 132"
abbreviation MM_OP_RSB_REG :: mm_op_kind where "MM_OP_RSB_REG \<equiv> OpKind 133"
abbreviation MM_OP_ROR_REG_NF :: mm_op_kind where "MM_OP_ROR_REG_NF \<equiv> OpKind 134"
abbreviation MM_OP_SBC_IMM :: mm_op_kind where "MM_OP_SBC_IMM \<equiv> OpKind 135"
abbreviation MM_OP_SBC_IMM_NF :: mm_op_kind where "MM_OP_SBC_IMM_NF \<equiv> OpKind 136"
abbreviation MM_OP_DSB :: mm_op_kind where "MM_OP_DSB \<equiv> OpKind 137"
abbreviation MM_OP_DMB :: mm_op_kind where "MM_OP_DMB \<equiv> OpKind 138"
abbreviation MM_OP_ISB :: mm_op_kind where "MM_OP_ISB \<equiv> OpKind 139"

text \<open>The cast \<^verbatim>\<open>(enum mm_cond)\<close> of a four-bit field.\<close>

definition mm_cond_of :: "u32 \<Rightarrow> mm_cond"
  where "mm_cond_of c = [
    MM_COND_EQ, MM_COND_NE, MM_COND_CS, MM_COND_CC, MM_COND_MI, MM_COND_PL, MM_COND_VS
   , MM_COND_VC, MM_COND_HI, MM_COND_LS, MM_COND_GE, MM_COND_LT, MM_COND_GT, MM_COND_LE
   , MM_COND_AL, MM_COND_NV] ! unat (c AND 15)"

record mm_decoded =
  d_kind :: mm_op_kind
  d_cond :: mm_cond
  d_rd :: u8
  d_rn :: u8
  d_rm :: u8
  d_ra :: u8
  d_imm :: u32
  d_len :: u8
  d_raw :: u32
  d_undefined :: bool

definition thumb_expand_imm12 :: "u32 \<Rightarrow> u32"
  where "thumb_expand_imm12 imm12 =
    (let imm8 = imm12 AND 0xff;
         top = drop_bit 10 imm12 AND 0x3;
         pat = drop_bit 8 imm12 AND 0x3
     in if top = 0 then
          (if pat = 0 then imm8
           else if pat = 1 then push_bit 16 imm8 OR imm8
           else if pat = 2 then push_bit 24 imm8 OR push_bit 8 imm8
           else push_bit 24 imm8 OR push_bit 16 imm8 OR push_bit 8 imm8 OR imm8)
        else
          (let unrot = push_bit 7 1 OR (imm12 AND 0x7f);
               rot = drop_bit 7 imm12 AND 0x1f;
               rot = rot AND 0x1f
           in if rot = 0 then unrot
              else drop_bit (unat rot) unrot OR push_bit (32 - unat rot) unrot))"

text \<open>\<^verbatim>\<open>mm_decoded_default(fetch)\<close>, by the length and instruction word of the fetch
  (0 and 0 for a null fetch).\<close>

definition mm_decoded_default :: "u8 \<Rightarrow> u32 \<Rightarrow> mm_decoded"
  where "mm_decoded_default len raw =
    \<lparr>d_kind = MM_OP_UNDEFINED, d_cond = MM_COND_AL, d_rd = 0, d_rn = 0, d_rm = 0, d_ra = 0,
     d_imm = 0, d_len = len, d_raw = raw, d_undefined = True\<rparr>"

datatype dec_result = Ret mm_decoded | Fall mm_decoded

fun dec_then :: "dec_result \<Rightarrow> (mm_decoded \<Rightarrow> dec_result) \<Rightarrow> dec_result" where
  "dec_then (Ret d) k = Ret d"
| "dec_then (Fall d) k = k d"

fun dec_out :: "dec_result \<Rightarrow> mm_decoded" where
  "dec_out (Ret d) = d"
| "dec_out (Fall d) = d"

text \<open>What a decoded instruction always satisfies: register fields index the 16-entry
  register file and an instruction marked as defined has a kind.\<close>

definition regs_ok :: "mm_decoded \<Rightarrow> bool"
  where "regs_ok d = (d_rd d < 16 \<and> d_rn d < 16 \<and> d_rm d < 16 \<and> d_ra d < 16)"

definition pristine :: "mm_decoded \<Rightarrow> bool"
  where "pristine d = (regs_ok d \<and> d_kind d = MM_OP_UNDEFINED \<and> d_undefined d)"

definition dec_ok :: "mm_decoded \<Rightarrow> bool"
  where "dec_ok d = (regs_ok d \<and> (d_undefined d \<or> d_kind d \<noteq> MM_OP_UNDEFINED))"

text \<open>The invariant of one decoding step from \<^verbatim>\<open>d0\<close>: a returned instruction is well formed,
  a fall-through leaves the kind unset, and length and raw bits never change.\<close>

definition step_ok :: "mm_decoded \<Rightarrow> dec_result \<Rightarrow> bool"
  where "step_ok d0 r =
    (d_len (dec_out r) = d_len d0 \<and> d_raw (dec_out r) = d_raw d0 \<and>
     (case r of Ret d \<Rightarrow> dec_ok d | Fall d \<Rightarrow> pristine d))"

lemma pristine_dec_ok: "pristine d \<Longrightarrow> dec_ok d"
  by (simp add: pristine_def dec_ok_def)

lemma default_pristine [simp]: "pristine (mm_decoded_default len raw)"
  by (simp add: pristine_def regs_ok_def mm_decoded_default_def)

lemma step_ok_Fall: "pristine d \<Longrightarrow> step_ok d (Fall d)"
  by (simp add: step_ok_def)

lemma step_ok_then:
  assumes "step_ok d r" and "\<And>d'. pristine d' \<Longrightarrow> step_ok d' (k d')"
  shows "step_ok d (dec_then r k)"
proof (cases r)
  case (Ret x)
  then show ?thesis using assms(1) by simp
next
  case (Fall x)
  then have "pristine x" "d_len x = d_len d" "d_raw x = d_raw d"
    using assms(1) by (simp_all add: step_ok_def)
  then show ?thesis using assms(2) [of x] Fall by (simp add: step_ok_def)
qed

lemma step_ok_out: "step_ok d r \<Longrightarrow> dec_ok (dec_out r)"
  by (cases r) (simp_all add: step_ok_def pristine_dec_ok)

text \<open>A masked field of at most four bits is a register number.\<close>

lemma to_u8_le: "x \<le> 255 \<Longrightarrow> unat (to_u8 x) = unat x" for x :: u32
proof -
  assume "x \<le> 255"
  then have "unat x < 2 ^ 8" by (simp add: word_le_nat_alt)
  then show ?thesis by (simp add: to_u8_def unsigned_ucast_eq take_bit_nat_eq_self)
qed

lemma field_less_16:
  fixes x m :: u32
  assumes "m \<le> 15"
  shows "to_u8 (x AND m) < 16"
proof -
  have "x AND m \<le> 15" using assms word_and_le1 order_trans by blast
  moreover have "(15 :: u32) \<le> 255" by simp
  ultimately have "x AND m \<le> 255" using order_trans by blast
  with \<open>x AND m \<le> 15\<close> show ?thesis
    by (simp add: word_less_nat_alt word_le_nat_alt to_u8_le)
qed

lemma nibble_less_16 [simp]: "to_u8 (x AND 15) < 16" for x :: u32
  by (rule field_less_16) simp

lemma three_bits_less_16 [simp]: "to_u8 (x AND 7) < 16" for x :: u32
  by (rule field_less_16) simp

lemma high_reg_less_16 [simp]: "to_u8 (x AND 7 OR y AND 8) < 16" for x y :: u32
proof -
  have "(x AND 7 OR y AND 8) AND 15 = x AND 7 OR y AND 8"
    by (simp add: bit.conj_disj_distrib2 and.assoc)
  then show ?thesis by (metis nibble_less_16)
qed

end
