(* ===== verification/Decode16.thy ===== *)
theory Decode16
imports Decode_Types
begin

text \<open>
  The 16-bit half of the T32 decoder: the \<^verbatim>\<open>decode_16_*\<close> routines and \<^verbatim>\<open>decode_16\<close> of
  \<^verbatim>\<open>src/m33mu/decode.c\<close>.  Each routine is the C function statement by statement; the
  16-bit halfword is promoted to 32 bits where C promotes it.
\<close>

definition decode_16_control :: "u16 \<Rightarrow> mm_decoded \<Rightarrow> dec_result"
  where "decode_16_control hw1 d = (
    if to_u32 hw1 AND 0xff00 = 0xde00 then
      Ret (d\<lparr>d_kind := MM_OP_UDF, d_imm := to_u32 hw1 AND 0x00ff,
          d_undefined := False\<rparr>)
    else if to_u32 hw1 AND 0xff00 = 0xbe00 then
      Ret (d\<lparr>d_kind := MM_OP_BKPT, d_imm := to_u32 hw1 AND 0x00ff,
          d_undefined := False\<rparr>)
    else if to_u32 hw1 AND 0xff00 = 0xdf00 then
      Ret (d\<lparr>d_kind := MM_OP_SVC, d_imm := to_u32 hw1 AND 0x00ff,
          d_undefined := False\<rparr>)
    else if hw1 = 0xbf00 then
      Ret (d\<lparr>d_kind := MM_OP_NOP, d_undefined := False\<rparr>)
    else
    dec_then
      (if to_u32 hw1 AND 0xff0f = 0xbf00 then
        let op = to_u8 (to_u32 hw1 AND 0x00f0) in
        let d = (
          if op = 0x10 then
            d\<lparr>d_kind := MM_OP_YIELD\<rparr>
          else if op = 0x20 then
            d\<lparr>d_kind := MM_OP_WFE\<rparr>
          else if op = 0x30 then
            d\<lparr>d_kind := MM_OP_WFI\<rparr>
          else if op = 0x40 then
            d\<lparr>d_kind := MM_OP_SEV\<rparr>
          else
            d) in
        if d_kind d \<noteq> MM_OP_UNDEFINED then
          Ret (d\<lparr>d_undefined := False\<rparr>)
        else Fall d
      else Fall d)
      (\<lambda>d.
      if to_u32 hw1 AND 0xffe0 = 0xb660 then
        Ret (d\<lparr>d_kind := MM_OP_CPS, d_imm := to_u32 hw1 AND 0x001f,
            d_undefined := False\<rparr>)
      else if to_u32 hw1 AND 0xff00 = 0xbf00 then
        Ret (d\<lparr>d_kind := MM_OP_IT, d_imm := to_u32 hw1 AND 0x00ff,
            d_undefined := False\<rparr>)
      else Fall d))"

definition decode_16_branch_cond :: "u16 \<Rightarrow> mm_decoded \<Rightarrow> dec_result"
  where "decode_16_branch_cond hw1 d = (
    if to_u32 hw1 AND 0xf000 = 0xd000 then
      let cond = to_u8 (drop_bit 8 (to_u32 hw1) AND 0x0f) in
      if cond \<noteq> 15 then
        let imm11 = to_u32 hw1 AND 0x00ff;
            imm = push_bit 1 imm11 in
        let imm = (
          if imm AND 0x0000100 \<noteq> 0 then
            imm OR 0xfffffe00
          else
            imm) in
        Ret (d\<lparr>d_kind := MM_OP_B_COND, d_cond := mm_cond_of (to_u32 cond), d_imm := imm,
            d_undefined := False\<rparr>)
      else Fall d
    else Fall d)"

definition decode_16_branch_uncond :: "u16 \<Rightarrow> mm_decoded \<Rightarrow> dec_result"
  where "decode_16_branch_uncond hw1 d = (
    if to_u32 hw1 AND 0xf800 = 0xe000 then
      let imm11 = to_u32 hw1 AND 0x07ff;
          imm = push_bit 1 imm11 in
      let imm = (
        if imm AND 0x00000800 \<noteq> 0 then
          imm OR 0xfffff000
        else
          imm) in
      Ret (d\<lparr>d_kind := MM_OP_B_UNCOND, d_imm := imm, d_undefined := False\<rparr>)
    else Fall d)"

definition decode_16_branch_misc :: "u16 \<Rightarrow> mm_decoded \<Rightarrow> dec_result"
  where "decode_16_branch_misc hw1 d = (
    if to_u32 hw1 AND 0xf500 = 0xb100 then
      let i = to_u8 (drop_bit 9 (to_u32 hw1) AND 0x1);
          imm5 = to_u8 (drop_bit 3 (to_u32 hw1) AND 0x1f);
          rn = to_u8 (to_u32 hw1 AND 0x7);
          imm = push_bit 6 (to_u32 i) OR push_bit 1 (to_u32 imm5) in
      let d = (
        if to_u32 hw1 AND 0x0800 \<noteq> 0 then
          d\<lparr>d_kind := MM_OP_CBNZ\<rparr>
        else
          d\<lparr>d_kind := MM_OP_CBZ\<rparr>) in
      Ret (d\<lparr>d_rn := rn, d_imm := imm, d_undefined := False\<rparr>)
    else if to_u32 hw1 AND 0xff87 = 0x4704 then
      Ret (d\<lparr>d_kind := MM_OP_BXNS, d_rm := to_u8 (drop_bit 3 (to_u32 hw1) AND 0x0f),
          d_undefined := False\<rparr>)
    else if to_u32 hw1 AND 0xff87 = 0x4784 then
      Ret (d\<lparr>d_kind := MM_OP_BLXNS, d_rm := to_u8 (drop_bit 3 (to_u32 hw1) AND 0x0f),
          d_undefined := False\<rparr>)
    else if to_u32 hw1 AND 0xff87 = 0x4700 then
      Ret (d\<lparr>d_kind := MM_OP_BX, d_rm := to_u8 (drop_bit 3 (to_u32 hw1) AND 0x0f),
          d_undefined := False\<rparr>)
    else if to_u32 hw1 AND 0xff87 = 0x4780 then
      Ret (d\<lparr>d_kind := MM_OP_BLX, d_rm := to_u8 (drop_bit 3 (to_u32 hw1) AND 0x0f),
          d_undefined := False\<rparr>)
    else Fall d)"

definition decode_16_ext_rev :: "u16 \<Rightarrow> mm_decoded \<Rightarrow> dec_result"
  where "decode_16_ext_rev hw1 d = (
    if to_u32 hw1 AND 0xffc0 = 0xb2c0 then
      Ret (d\<lparr>d_kind := MM_OP_UXTB, d_rd := to_u8 (to_u32 hw1 AND 0x7),
          d_rm := to_u8 (drop_bit 3 (to_u32 hw1) AND 0x7), d_imm := 0, d_undefined := False\<rparr>)
    else if to_u32 hw1 AND 0xffc0 = 0xb240 then
      Ret (d\<lparr>d_kind := MM_OP_SXTB, d_rm := to_u8 (drop_bit 3 (to_u32 hw1) AND 0x7),
          d_rd := to_u8 (to_u32 hw1 AND 0x7), d_imm := 0, d_undefined := False\<rparr>)
    else if to_u32 hw1 AND 0xffc0 = 0xb200 then
      Ret (d\<lparr>d_kind := MM_OP_SXTH, d_rm := to_u8 (drop_bit 3 (to_u32 hw1) AND 0x7),
          d_rd := to_u8 (to_u32 hw1 AND 0x7), d_undefined := False\<rparr>)
    else if to_u32 hw1 AND 0xffc0 = 0xb280 then
      Ret (d\<lparr>d_kind := MM_OP_UXTH, d_rm := to_u8 (drop_bit 3 (to_u32 hw1) AND 0x7),
          d_rd := to_u8 (to_u32 hw1 AND 0x7), d_undefined := False\<rparr>)
    else if to_u32 hw1 AND 0xffc0 = 0xba00 then
      Ret (d\<lparr>d_kind := MM_OP_REV, d_rd := to_u8 (to_u32 hw1 AND 0x7),
          d_rm := to_u8 (drop_bit 3 (to_u32 hw1) AND 0x7), d_undefined := False\<rparr>)
    else if to_u32 hw1 AND 0xffc0 = 0xba40 then
      Ret (d\<lparr>d_kind := MM_OP_REV16, d_rd := to_u8 (to_u32 hw1 AND 0x7),
          d_rm := to_u8 (drop_bit 3 (to_u32 hw1) AND 0x7), d_undefined := False\<rparr>)
    else if to_u32 hw1 AND 0xffc0 = 0xbac0 then
      Ret (d\<lparr>d_kind := MM_OP_REVSH, d_rd := to_u8 (to_u32 hw1 AND 0x7),
          d_rm := to_u8 (drop_bit 3 (to_u32 hw1) AND 0x7), d_undefined := False\<rparr>)
    else Fall d)"

definition decode_16_data_proc :: "u16 \<Rightarrow> mm_decoded \<Rightarrow> dec_result"
  where "decode_16_data_proc hw1 d = (
    dec_then
      (if to_u32 hw1 AND 0xfc00 = 0x4400 then
        let op = to_u8 (drop_bit 8 (to_u32 hw1) AND 0x3);
            rm = to_u8 (drop_bit 3 (to_u32 hw1) AND 0x0f);
            rd = to_u8 ((to_u32 hw1 AND 0x7) OR (drop_bit 4 (to_u32 hw1) AND 0x8));
            d = d\<lparr>d_rm := rm, d_rd := rd, d_rn := rd\<rparr> in
        let d = (
          if op = 0 then
            d\<lparr>d_kind := MM_OP_ADD_REG\<rparr>
          else if op = 1 then
            d\<lparr>d_kind := MM_OP_CMP_REG\<rparr>
          else if op = 2 then
            d\<lparr>d_kind := MM_OP_MOV_REG\<rparr>
          else
            d) in
        if d_kind d \<noteq> MM_OP_UNDEFINED then
          Ret (d\<lparr>d_undefined := False\<rparr>)
        else Fall d
      else Fall d)
      (\<lambda>d.
      if to_u32 hw1 AND 0xf800 = 0x2000 then
        Ret (d\<lparr>d_kind := MM_OP_MOV_IMM, d_rd := to_u8 (drop_bit 8 (to_u32 hw1) AND 0x7),
            d_imm := to_u32 hw1 AND 0x00ff, d_undefined := False\<rparr>)
      else if to_u32 hw1 AND 0xf800 = 0x2800 then
        Ret (d\<lparr>d_kind := MM_OP_CMP_IMM, d_rn := to_u8 (drop_bit 8 (to_u32 hw1) AND 0x7),
            d_imm := to_u32 hw1 AND 0x00ff, d_undefined := False\<rparr>)
      else if to_u32 hw1 AND 0xf800 = 0x3000 then
        let d = d\<lparr>d_kind := MM_OP_ADD_IMM,
            d_rd := to_u8 (drop_bit 8 (to_u32 hw1) AND 0x7)\<rparr> in
        Ret (d\<lparr>d_rn := d_rd d, d_imm := to_u32 hw1 AND 0x00ff, d_undefined := False\<rparr>)
      else if to_u32 hw1 AND 0xf800 = 0x3800 then
        let d = d\<lparr>d_kind := MM_OP_SUB_IMM,
            d_rd := to_u8 (drop_bit 8 (to_u32 hw1) AND 0x7)\<rparr> in
        Ret (d\<lparr>d_rn := d_rd d, d_imm := to_u32 hw1 AND 0x00ff, d_undefined := False\<rparr>)
      else if to_u32 hw1 AND 0xf800 = 0x1800 then
        let is_imm = to_u8 (drop_bit 10 (to_u32 hw1) AND 0x1);
            op = to_u8 (drop_bit 9 (to_u32 hw1) AND 0x1);
            bits8_6 = to_u8 (drop_bit 6 (to_u32 hw1) AND 0x7);
            rn = to_u8 (drop_bit 3 (to_u32 hw1) AND 0x7);
            rd = to_u8 (to_u32 hw1 AND 0x7);
            d = d\<lparr>d_rn := rn, d_rd := rd\<rparr> in
        let d = (
          if is_imm \<noteq> 0 then
            d\<lparr>d_imm := to_u32 bits8_6,
                d_kind := (if op = 0 then MM_OP_ADD_IMM else MM_OP_SUB_IMM)\<rparr>
          else
            d\<lparr>d_rm := bits8_6,
                d_kind := (if op = 0 then MM_OP_ADD_REG else MM_OP_SUB_REG)\<rparr>) in
        Ret (d\<lparr>d_undefined := False\<rparr>)
      else
      dec_then
        (if to_u32 hw1 AND 0xfc00 = 0x4000 then
          let opcode = to_u8 (drop_bit 6 (to_u32 hw1) AND 0x0f);
              rm = to_u8 (drop_bit 3 (to_u32 hw1) AND 0x7);
              rd = to_u8 (to_u32 hw1 AND 0x7);
              d = d\<lparr>d_rm := rm, d_rd := rd\<rparr> in
          let d = (
            if opcode = 0x0 then
              d\<lparr>d_kind := MM_OP_AND_REG, d_rn := rd\<rparr>
            else if opcode = 0x1 then
              d\<lparr>d_kind := MM_OP_EOR_REG, d_rn := rd\<rparr>
            else if opcode = 0x2 then
              d\<lparr>d_kind := MM_OP_LSL_REG, d_rn := rd\<rparr>
            else if opcode = 0x3 then
              d\<lparr>d_kind := MM_OP_LSR_REG, d_rn := rd\<rparr>
            else if opcode = 0x4 then
              d\<lparr>d_kind := MM_OP_ASR_REG, d_rn := rd\<rparr>
            else if opcode = 0x5 then
              d\<lparr>d_kind := MM_OP_ADCS_REG, d_rn := rd\<rparr>
            else if opcode = 0x6 then
              d\<lparr>d_kind := MM_OP_SBCS_REG, d_rn := rd\<rparr>
            else if opcode = 0x7 then
              d\<lparr>d_kind := MM_OP_ROR_REG, d_rn := rd\<rparr>
            else if opcode = 0x8 then
              d\<lparr>d_kind := MM_OP_TST_REG, d_rn := rd\<rparr>
            else if opcode = 0x9 then
              d\<lparr>d_kind := MM_OP_NEG\<rparr>
            else if opcode = 0xa then
              d\<lparr>d_kind := MM_OP_CMP_REG, d_rn := rd\<rparr>
            else if opcode = 0xb then
              d\<lparr>d_kind := MM_OP_CMN_REG, d_rn := rd\<rparr>
            else if opcode = 0xc then
              d\<lparr>d_kind := MM_OP_ORR_REG, d_rn := rd\<rparr>
            else if opcode = 0xd then
              d\<lparr>d_kind := MM_OP_MUL, d_rn := rd\<rparr>
            else if opcode = 0xe then
              d\<lparr>d_kind := MM_OP_BIC_REG, d_rn := rd\<rparr>
            else if opcode = 0xf then
              d\<lparr>d_kind := MM_OP_MVN_REG, d_rn := rd\<rparr>
            else
              d\<lparr>d_kind := MM_OP_UNDEFINED\<rparr>) in
          if d_kind d \<noteq> MM_OP_UNDEFINED then
            Ret (d\<lparr>d_undefined := False\<rparr>)
          else Fall d
        else Fall d)
        (\<lambda>d.
        if to_u32 hw1 AND 0xe000 = 0x0000 then
          let op = to_u8 (drop_bit 11 (to_u32 hw1) AND 0x3);
              imm5 = to_u8 (drop_bit 6 (to_u32 hw1) AND 0x1f);
              rm = to_u8 (drop_bit 3 (to_u32 hw1) AND 0x7);
              rd = to_u8 (to_u32 hw1 AND 0x7) in
          if op \<le> 2 then
            let d = d\<lparr>d_rm := rm, d_rd := rd, d_imm := to_u32 imm5\<rparr> in
            let d = (
              if op = 0 then
                d\<lparr>d_kind := MM_OP_LSL_IMM\<rparr>
              else if op = 1 then
                d\<lparr>d_kind := MM_OP_LSR_IMM\<rparr>
              else
                d\<lparr>d_kind := MM_OP_ASR_IMM\<rparr>) in
            Ret (d\<lparr>d_undefined := False\<rparr>)
          else Fall d
        else Fall d)))"

definition decode_16_loadstore :: "u16 \<Rightarrow> mm_decoded \<Rightarrow> dec_result"
  where "decode_16_loadstore hw1 d = (
    if to_u32 hw1 AND 0xf800 = 0x4800 then
      let rd = to_u8 (drop_bit 8 (to_u32 hw1) AND 0x7);
          imm = push_bit 2 (to_u32 hw1 AND 0x00ff) in
      Ret (d\<lparr>d_kind := MM_OP_LDR_LITERAL, d_rd := rd, d_imm := imm,
          d_undefined := False\<rparr>)
    else if to_u32 hw1 AND 0xf800 = 0x6000 \<or> to_u32 hw1 AND 0xf800 = 0x6800 then
      let imm5 = to_u8 (drop_bit 6 (to_u32 hw1) AND 0x1f);
          rn = to_u8 (drop_bit 3 (to_u32 hw1) AND 0x7);
          rt = to_u8 (to_u32 hw1 AND 0x7);
          imm = push_bit 2 (to_u32 imm5);
          d = d\<lparr>d_rn := rn, d_rd := rt, d_imm := imm\<rparr> in
      let d = (
        if to_u32 hw1 AND 0x0800 \<noteq> 0 then
          d\<lparr>d_kind := MM_OP_LDR_IMM\<rparr>
        else
          d\<lparr>d_kind := MM_OP_STR_IMM\<rparr>) in
      Ret (d\<lparr>d_undefined := False\<rparr>)
    else if to_u32 hw1 AND 0xf800 = 0x9000 \<or> to_u32 hw1 AND 0xf800 = 0x9800 then
      let rt = to_u8 (drop_bit 8 (to_u32 hw1) AND 0x7);
          imm8 = to_u8 (to_u32 hw1 AND 0xff);
          imm = push_bit 2 (to_u32 imm8);
          d = d\<lparr>d_rn := 13, d_rd := rt, d_imm := imm\<rparr> in
      let d = (
        if to_u32 hw1 AND 0x0800 \<noteq> 0 then
          d\<lparr>d_kind := MM_OP_LDR_IMM\<rparr>
        else
          d\<lparr>d_kind := MM_OP_STR_IMM\<rparr>) in
      Ret (d\<lparr>d_undefined := False\<rparr>)
    else if to_u32 hw1 AND 0xf000 = 0x7000 then
      let imm5 = to_u8 (drop_bit 6 (to_u32 hw1) AND 0x1f);
          rn = to_u8 (drop_bit 3 (to_u32 hw1) AND 0x7);
          rt = to_u8 (to_u32 hw1 AND 0x7) in
      Ret (d\<lparr>d_rn := rn, d_rd := rt, d_imm := to_u32 imm5,
          d_kind := (if to_u32 hw1 AND 0x0800 \<noteq> 0 then MM_OP_LDRB_IMM else MM_OP_STRB_IMM),
          d_undefined := False\<rparr>)
    else if to_u32 hw1 AND 0xf000 = 0x8000 then
      let imm5 = to_u8 (drop_bit 6 (to_u32 hw1) AND 0x1f);
          rn = to_u8 (drop_bit 3 (to_u32 hw1) AND 0x7);
          rt = to_u8 (to_u32 hw1 AND 0x7);
          d = d\<lparr>d_rn := rn, d_rd := rt, d_imm := push_bit 1 (to_u32 imm5)\<rparr> in
      let d = (
        if to_u32 hw1 AND 0x0800 \<noteq> 0 then
          d\<lparr>d_kind := MM_OP_LDRH_IMM\<rparr>
        else
          d\<lparr>d_kind := MM_OP_STRH_IMM\<rparr>) in
      Ret (d\<lparr>d_undefined := False\<rparr>)
    else if to_u32 hw1 AND 0xfe00 = 0x5000 \<or> to_u32 hw1 AND 0xfe00 = 0x5800 then
      let rm = to_u8 (drop_bit 6 (to_u32 hw1) AND 0x7);
          rn = to_u8 (drop_bit 3 (to_u32 hw1) AND 0x7);
          rt = to_u8 (to_u32 hw1 AND 0x7);
          d = d\<lparr>d_rn := rn, d_rm := rm, d_rd := rt\<rparr> in
      let d = (
        if to_u32 hw1 AND 0x0800 \<noteq> 0 then
          d\<lparr>d_kind := MM_OP_LDR_REG\<rparr>
        else
          d\<lparr>d_kind := MM_OP_STR_REG\<rparr>) in
      Ret (d\<lparr>d_undefined := False\<rparr>)
    else if to_u32 hw1 AND 0xfe00 = 0x5200 \<or> to_u32 hw1 AND 0xfe00 = 0x5a00 then
      let rm = to_u8 (drop_bit 6 (to_u32 hw1) AND 0x7);
          rn = to_u8 (drop_bit 3 (to_u32 hw1) AND 0x7);
          rt = to_u8 (to_u32 hw1 AND 0x7) in
      Ret (d\<lparr>d_rn := rn, d_rm := rm, d_rd := rt,
          d_kind := (if to_u32 hw1 AND 0xfe00 = 0x5a00 then MM_OP_LDRH_REG else MM_OP_STRH_REG),
          d_undefined := False\<rparr>)
    else if to_u32 hw1 AND 0xfe00 = 0x5400 then
      Ret (d\<lparr>d_kind := MM_OP_STRB_REG, d_rm := to_u8 (drop_bit 6 (to_u32 hw1) AND 0x7),
          d_rn := to_u8 (drop_bit 3 (to_u32 hw1) AND 0x7), d_rd := to_u8 (to_u32 hw1 AND 0x7),
          d_undefined := False\<rparr>)
    else if to_u32 hw1 AND 0xfe00 = 0x5c00 then
      Ret (d\<lparr>d_kind := MM_OP_LDRB_REG, d_rm := to_u8 (drop_bit 6 (to_u32 hw1) AND 0x7),
          d_rn := to_u8 (drop_bit 3 (to_u32 hw1) AND 0x7), d_rd := to_u8 (to_u32 hw1 AND 0x7),
          d_undefined := False\<rparr>)
    else if to_u32 hw1 AND 0xfe00 = 0x5600 then
      Ret (d\<lparr>d_kind := MM_OP_LDRSB_REG, d_rm := to_u8 (drop_bit 6 (to_u32 hw1) AND 0x7),
          d_rn := to_u8 (drop_bit 3 (to_u32 hw1) AND 0x7), d_rd := to_u8 (to_u32 hw1 AND 0x7),
          d_undefined := False\<rparr>)
    else if to_u32 hw1 AND 0xfe00 = 0x5e00 then
      Ret (d\<lparr>d_kind := MM_OP_LDRSH_REG, d_rm := to_u8 (drop_bit 6 (to_u32 hw1) AND 0x7),
          d_rn := to_u8 (drop_bit 3 (to_u32 hw1) AND 0x7), d_rd := to_u8 (to_u32 hw1 AND 0x7),
          d_undefined := False\<rparr>)
    else Fall d)"

definition decode_16_stack_misc :: "u16 \<Rightarrow> mm_decoded \<Rightarrow> dec_result"
  where "decode_16_stack_misc hw1 d = (
    if to_u32 hw1 AND 0xf800 = 0xa000 then
      let rd = to_u8 (drop_bit 8 (to_u32 hw1) AND 0x7);
          imm = push_bit 2 (to_u32 hw1 AND 0x00ff) in
      Ret (d\<lparr>d_kind := MM_OP_ADR, d_rd := rd, d_imm := imm, d_undefined := False\<rparr>)
    else if to_u32 hw1 AND 0xf800 = 0xa800 then
      let rd = to_u8 (drop_bit 8 (to_u32 hw1) AND 0x7);
          imm = push_bit 2 (to_u32 hw1 AND 0x00ff) in
      Ret (d\<lparr>d_kind := MM_OP_ADD_SP_IMM, d_rd := rd, d_rn := 13, d_imm := imm,
          d_undefined := False\<rparr>)
    else if to_u32 hw1 AND 0xff80 = 0xb000 then
      let imm = push_bit 2 (to_u32 hw1 AND 0x007f) in
      Ret (d\<lparr>d_kind := MM_OP_ADD_SP_IMM, d_rd := 13, d_rn := 13, d_imm := imm,
          d_undefined := False\<rparr>)
    else if to_u32 hw1 AND 0xff80 = 0xb080 then
      let imm = push_bit 2 (to_u32 hw1 AND 0x007f) in
      Ret (d\<lparr>d_kind := MM_OP_SUB_SP_IMM, d_rd := 13, d_rn := 13, d_imm := imm,
          d_undefined := False\<rparr>)
    else if to_u32 hw1 AND 0xf600 = 0xb400 then
      let reglist = to_u16 (to_u32 hw1 AND 0x00ff) in
      let reglist = (
        if to_u32 hw1 AND 0x0100 \<noteq> 0 then
          to_u16 (to_u32 reglist OR 0x0100)
        else
          reglist) in
      let d = d\<lparr>d_imm := to_u32 reglist\<rparr> in
      let d = (
        if to_u32 hw1 AND 0x0800 \<noteq> 0 then
          d\<lparr>d_kind := MM_OP_POP\<rparr>
        else
          d\<lparr>d_kind := MM_OP_PUSH\<rparr>) in
      Ret (d\<lparr>d_undefined := False\<rparr>)
    else Fall d)"

definition decode_16_stm_ldm :: "u16 \<Rightarrow> mm_decoded \<Rightarrow> dec_result"
  where "decode_16_stm_ldm hw1 d = (
    if to_u32 hw1 AND 0xf000 = 0xc000 then
      let l = to_u8 (drop_bit 11 (to_u32 hw1) AND 0x1);
          rn = to_u8 (drop_bit 8 (to_u32 hw1) AND 0x7);
          reglist = to_u16 (to_u32 hw1 AND 0x00ff) in
      if reglist = 0 then
        Fall d
      else
      Ret (d\<lparr>d_kind := (if l \<noteq> 0 then MM_OP_LDM else MM_OP_STM), d_rn := rn,
          d_imm := push_bit 24 1 OR push_bit 16 1 OR to_u32 reglist, d_undefined := False\<rparr>)
    else Fall d)"

text \<open>The body of \<^verbatim>\<open>decode_16\<close> after the initialisation of \<^verbatim>\<open>d\<close>.\<close>

definition decode_16_body :: "u16 \<Rightarrow> mm_decoded \<Rightarrow> dec_result"
  where "decode_16_body hw1 d =
    (let top = to_u16 (to_u32 hw1 AND 0xf000) in
     dec_then (decode_16_control hw1 d) (\<lambda>d.
       if top = 0x0000 \<or> top = 0x1000 then decode_16_data_proc hw1 d
       else if top = 0x2000 \<or> top = 0x3000 then decode_16_data_proc hw1 d
       else if top = 0x4000 \<or> top = 0x5000 then
         dec_then (decode_16_branch_misc hw1 d) (\<lambda>d.
         dec_then (decode_16_data_proc hw1 d) (\<lambda>d.
         dec_then (decode_16_ext_rev hw1 d) (\<lambda>d.
         decode_16_loadstore hw1 d)))
       else if top = 0x6000 \<or> top = 0x7000 \<or> top = 0x8000 \<or> top = 0x9000 then
         decode_16_loadstore hw1 d
       else if top = 0xa000 \<or> top = 0xb000 then
         dec_then (decode_16_stack_misc hw1 d) (\<lambda>d.
         dec_then (decode_16_branch_misc hw1 d) (\<lambda>d.
         decode_16_ext_rev hw1 d))
       else if top = 0xc000 then decode_16_stm_ldm hw1 d
       else if top = 0xd000 then decode_16_branch_cond hw1 d
       else if top = 0xe000 then decode_16_branch_uncond hw1 d
       else Fall d))"

definition decode_16 :: "u16 \<Rightarrow> mm_decoded"
  where "decode_16 hw1 =
    dec_out (decode_16_body hw1 ((mm_decoded_default 0 0)\<lparr>d_len := 2, d_raw := to_u32 hw1\<rparr>))"

end
