(* ===== verification/Decode32.thy ===== *)
theory Decode32
imports Decode_Types
begin

text \<open>
  The 32-bit half of the T32 decoder.  The C function \<^verbatim>\<open>decode_32\<close> is one sequence of
  patterns; each pattern is one definition here, and \<^verbatim>\<open>decode_32\<close> tries them in the
  order of the source.
\<close>

definition dec32_ldr_literal :: "u32 \<Rightarrow> mm_decoded \<Rightarrow> dec_result"
  where "dec32_ldr_literal insn d = (
    if insn AND 0xff7f0000 = 0xf85f0000 then
      let u = drop_bit 23 insn AND 0x1;
          rt = to_u8 (drop_bit 12 insn AND 0x0f);
          imm12 = insn AND 0xfff in
      Ret (d\<lparr>d_kind := MM_OP_LDR_LITERAL, d_rd := rt,
          d_imm := (if u \<noteq> 0 then imm12 else 0 - imm12), d_undefined := False\<rparr>)
    else Fall d)"

definition dec32_sg :: "u32 \<Rightarrow> mm_decoded \<Rightarrow> dec_result"
  where "dec32_sg insn d = (
    if insn = 0xe97fe97f then
      Ret (d\<lparr>d_kind := MM_OP_SG, d_undefined := False\<rparr>)
    else Fall d)"

definition dec32_clrex :: "u32 \<Rightarrow> mm_decoded \<Rightarrow> dec_result"
  where "dec32_clrex insn d = (
    if insn = 0xf3bf8f2f then
      Ret (d\<lparr>d_kind := MM_OP_CLREX, d_undefined := False\<rparr>)
    else Fall d)"

definition dec32_rev :: "u32 \<Rightarrow> mm_decoded \<Rightarrow> dec_result"
  where "dec32_rev insn d = (
    let hw1 = to_u16 (drop_bit 16 insn);
        hw2 = to_u16 (insn AND 0xffff) in
    if to_u32 hw1 AND 0xfff0 = 0xfa90 then
      let rm = to_u8 (to_u32 hw1 AND 0x0f);
          rd = to_u8 (drop_bit 8 (to_u32 hw2) AND 0x0f);
          rm2 = to_u8 (to_u32 hw2 AND 0x0f) in
      if rm = rm2 \<and> rd \<noteq> 15 \<and> rm \<noteq> 15 then
        let op = to_u16 (to_u32 hw2 AND 0xf0f0) in
        let d = (
          if op = 0xf080 then
            d\<lparr>d_kind := MM_OP_REV\<rparr>
          else if op = 0xf090 then
            d\<lparr>d_kind := MM_OP_REV16\<rparr>
          else if op = 0xf0b0 then
            d\<lparr>d_kind := MM_OP_REVSH\<rparr>
          else
            d) in
        if d_kind d \<noteq> MM_OP_UNDEFINED then
          Ret (d\<lparr>d_rd := rd, d_rm := rm, d_undefined := False\<rparr>)
        else Fall d
      else Fall d
    else Fall d)"

definition dec32_rbit :: "u32 \<Rightarrow> mm_decoded \<Rightarrow> dec_result"
  where "dec32_rbit insn d = (
    let hw1 = to_u16 (drop_bit 16 insn);
        hw2 = to_u16 (insn AND 0xffff) in
    if to_u32 hw1 AND 0xfff0 = 0xfa90 \<and> to_u32 hw2 AND 0xf0f0 = 0xf0a0 then
      let rm = to_u8 (to_u32 hw1 AND 0x0f);
          rd = to_u8 (drop_bit 8 (to_u32 hw2) AND 0x0f);
          rm2 = to_u8 (to_u32 hw2 AND 0x0f) in
      if rm = rm2 \<and> rd \<noteq> 15 \<and> rm \<noteq> 15 then
        Ret (d\<lparr>d_kind := MM_OP_RBIT, d_rd := rd, d_rm := rm, d_undefined := False\<rparr>)
      else Fall d
    else Fall d)"

definition dec32_tt :: "u32 \<Rightarrow> mm_decoded \<Rightarrow> dec_result"
  where "dec32_tt insn d = (
    let hw1 = to_u16 (drop_bit 16 insn);
        hw2 = to_u16 (insn AND 0xffff) in
    if to_u32 hw1 AND 0xfff0 = 0xe840 \<and> to_u32 hw2 AND 0xf03f = 0xf000 then
      let rn = to_u8 (to_u32 hw1 AND 0x0f);
          rt = to_u8 (drop_bit 8 (to_u32 hw2) AND 0x0f);
          variant = to_u8 (drop_bit 6 (to_u32 hw2) AND 0x3) in
      if rt = 15 \<or> rn = 15 then
        Ret d
      else
      let d = (
        if variant = 0 then
          d\<lparr>d_kind := MM_OP_TT\<rparr>
        else if variant = 1 then
          d\<lparr>d_kind := MM_OP_TTT\<rparr>
        else if variant = 2 then
          d\<lparr>d_kind := MM_OP_TTA\<rparr>
        else if variant = 3 then
          d\<lparr>d_kind := MM_OP_TTAT\<rparr>
        else
          d) in
      if d_kind d \<noteq> MM_OP_UNDEFINED then
        Ret (d\<lparr>d_rn := rn, d_rd := rt, d_undefined := False\<rparr>)
      else Fall d
    else Fall d)"

definition dec32_div :: "u32 \<Rightarrow> mm_decoded \<Rightarrow> dec_result"
  where "dec32_div insn d = (
    let hw1 = to_u16 (drop_bit 16 insn);
        hw2 = to_u16 (insn AND 0xffff) in
    if to_u32 hw2 AND 0xf0f0 = 0xf0f0 then
      let rn = to_u8 (to_u32 hw1 AND 0x0f);
          rd = to_u8 (drop_bit 8 (to_u32 hw2) AND 0x0f);
          rm = to_u8 (to_u32 hw2 AND 0x0f) in
      if rn \<noteq> 15 \<and> rd \<noteq> 15 \<and> rm \<noteq> 15 then
        if to_u32 hw1 AND 0xfff0 = 0xfbb0 then
          Ret (d\<lparr>d_kind := MM_OP_UDIV, d_rd := rd, d_rn := rn, d_rm := rm,
              d_undefined := False\<rparr>)
        else if to_u32 hw1 AND 0xfff0 = 0xfb90 then
          Ret (d\<lparr>d_kind := MM_OP_SDIV, d_rd := rd, d_rn := rn, d_rm := rm,
              d_undefined := False\<rparr>)
        else Fall d
      else Fall d
    else Fall d)"

definition dec32_mul_w :: "u32 \<Rightarrow> mm_decoded \<Rightarrow> dec_result"
  where "dec32_mul_w insn d = (
    let hw1 = to_u16 (drop_bit 16 insn);
        hw2 = to_u16 (insn AND 0xffff) in
    if to_u32 hw1 AND 0xfff0 = 0xfb00 \<and> drop_bit 12 (to_u32 hw2) AND 0x0f = 0x0f \<and>
        to_u32 hw2 AND 0x00f0 = 0x0000 then
      let rn = to_u8 (to_u32 hw1 AND 0x0f);
          rd = to_u8 (drop_bit 8 (to_u32 hw2) AND 0x0f);
          rm = to_u8 (to_u32 hw2 AND 0x0f) in
      if rn \<noteq> 15 \<and> rd \<noteq> 15 \<and> rm \<noteq> 15 then
        Ret (d\<lparr>d_kind := MM_OP_MUL_W, d_rn := rn, d_rd := rd, d_rm := rm,
            d_imm := drop_bit 4 (to_u32 hw1) AND 0x1, d_undefined := False\<rparr>)
      else Fall d
    else Fall d)"

definition dec32_long_mul :: "u32 \<Rightarrow> mm_decoded \<Rightarrow> dec_result"
  where "dec32_long_mul insn d = (
    let hw1 = to_u16 (drop_bit 16 insn);
        hw2 = to_u16 (insn AND 0xffff) in
    dec_then
      (if to_u32 hw1 AND 0xfff0 = 0xfbe0 \<and> to_u32 hw2 AND 0x00f0 = 0x0060 then
        let rn = to_u8 (to_u32 hw1 AND 0x0f);
            rdlo = to_u8 (drop_bit 12 (to_u32 hw2) AND 0x0f);
            rdhi = to_u8 (drop_bit 8 (to_u32 hw2) AND 0x0f);
            rm = to_u8 (to_u32 hw2 AND 0x0f) in
        if rn \<noteq> 15 \<and> rm \<noteq> 15 \<and> rdlo \<noteq> 15 \<and> rdhi \<noteq> 15 \<and>
            rdlo \<noteq> rdhi then
          Ret (d\<lparr>d_kind := MM_OP_UMAAL, d_rn := rn, d_rd := rdlo, d_rm := rm, d_ra := rdhi,
              d_undefined := False\<rparr>)
        else Fall d
      else Fall d)
      (\<lambda>d.
      if to_u32 hw2 AND 0x00f0 = 0x0000 then
        let rn = to_u8 (to_u32 hw1 AND 0x0f);
            rdlo = to_u8 (drop_bit 12 (to_u32 hw2) AND 0x0f);
            rdhi = to_u8 (drop_bit 8 (to_u32 hw2) AND 0x0f);
            rm = to_u8 (to_u32 hw2 AND 0x0f) in
        if rn \<noteq> 15 \<and> rm \<noteq> 15 \<and> rdlo \<noteq> 15 \<and> rdhi \<noteq> 15 \<and>
            rdlo \<noteq> rdhi then
          let d = (
            if to_u32 hw1 AND 0xfff0 = 0xfba0 then
              d\<lparr>d_kind := MM_OP_UMULL\<rparr>
            else if to_u32 hw1 AND 0xfff0 = 0xfbe0 then
              d\<lparr>d_kind := MM_OP_UMLAL\<rparr>
            else if to_u32 hw1 AND 0xfff0 = 0xfb80 then
              d\<lparr>d_kind := MM_OP_SMULL\<rparr>
            else if to_u32 hw1 AND 0xfff0 = 0xfbc0 then
              d\<lparr>d_kind := MM_OP_SMLAL\<rparr>
            else
              d) in
          if d_kind d \<noteq> MM_OP_UNDEFINED then
            Ret (d\<lparr>d_rn := rn, d_rd := rdlo, d_rm := rm, d_ra := rdhi,
                d_undefined := False\<rparr>)
          else Fall d
        else Fall d
      else Fall d))"

definition dec32_smla :: "u32 \<Rightarrow> mm_decoded \<Rightarrow> dec_result"
  where "dec32_smla insn d = (
    let hw1 = to_u16 (drop_bit 16 insn);
        hw2 = to_u16 (insn AND 0xffff) in
    if to_u32 hw1 AND 0xfff0 = 0xfb10 \<and> to_u32 hw2 AND 0x00c0 = 0x0000 then
      let rn = to_u8 (to_u32 hw1 AND 0x0f);
          ra = to_u8 (drop_bit 12 (to_u32 hw2) AND 0x0f);
          rd = to_u8 (drop_bit 8 (to_u32 hw2) AND 0x0f);
          rm = to_u8 (to_u32 hw2 AND 0x0f);
          xy = to_u8 (drop_bit 4 (to_u32 hw2) AND 0x3) in
      if ra \<noteq> 15 \<and> rn \<noteq> 15 \<and> rd \<noteq> 15 \<and> rm \<noteq> 15 then
        Ret (d\<lparr>d_kind := MM_OP_SMLA, d_rn := rn, d_rm := rm, d_rd := rd, d_ra := ra,
            d_imm := to_u32 xy, d_undefined := False\<rparr>)
      else Fall d
    else Fall d)"

definition dec32_mla_mls :: "u32 \<Rightarrow> mm_decoded \<Rightarrow> dec_result"
  where "dec32_mla_mls insn d = (
    let hw1 = to_u16 (drop_bit 16 insn);
        hw2 = to_u16 (insn AND 0xffff) in
    if to_u32 hw1 AND 0xfff0 = 0xfb00 then
      let rn = to_u8 (to_u32 hw1 AND 0x0f);
          ra = to_u8 (drop_bit 12 (to_u32 hw2) AND 0x0f);
          rd = to_u8 (drop_bit 8 (to_u32 hw2) AND 0x0f);
          rm = to_u8 (to_u32 hw2 AND 0x0f);
          is_mls = to_u8 (drop_bit 4 (to_u32 hw2) AND 0x1) in
      if ra \<noteq> 15 \<and> rn \<noteq> 15 \<and> rd \<noteq> 15 \<and> rm \<noteq> 15 then
        Ret (d\<lparr>d_kind := (if is_mls \<noteq> 0 then MM_OP_MLS else MM_OP_MLA), d_rn := rn,
            d_rm := rm, d_rd := rd, d_ra := ra, d_undefined := False\<rparr>)
      else Fall d
    else Fall d)"

definition dec32_clz :: "u32 \<Rightarrow> mm_decoded \<Rightarrow> dec_result"
  where "dec32_clz insn d = (
    let hw1 = to_u16 (drop_bit 16 insn);
        hw2 = to_u16 (insn AND 0xffff) in
    if to_u32 hw1 AND 0xfff0 = 0xfab0 \<and> to_u32 hw2 AND 0xf0f0 = 0xf080 then
      let rm = to_u8 (to_u32 hw1 AND 0x0f);
          rd = to_u8 (drop_bit 8 (to_u32 hw2) AND 0x0f);
          rm2 = to_u8 (to_u32 hw2 AND 0x0f) in
      if rm = rm2 \<and> rd \<noteq> 15 \<and> rm \<noteq> 15 then
        Ret (d\<lparr>d_kind := MM_OP_CLZ, d_rd := rd, d_rm := rm, d_undefined := False\<rparr>)
      else Fall d
    else Fall d)"

definition dec32_ldrsh_imm12 :: "u32 \<Rightarrow> mm_decoded \<Rightarrow> dec_result"
  where "dec32_ldrsh_imm12 insn d = (
    if insn AND 0xfff00000 = 0xf9b00000 then
      let rn = to_u8 (drop_bit 16 insn AND 0x0f);
          rt = to_u8 (drop_bit 12 insn AND 0x0f);
          imm12 = insn AND 0x0fff in
      if rt = 15 then
        Ret d
      else
      Ret (d\<lparr>d_kind := MM_OP_LDRSH_IMM, d_rn := rn, d_rd := rt, d_imm := imm12,
          d_undefined := False\<rparr>)
    else Fall d)"

definition dec32_ldrsh_imm8 :: "u32 \<Rightarrow> mm_decoded \<Rightarrow> dec_result"
  where "dec32_ldrsh_imm8 insn d = (
    if insn AND 0xfff00000 = 0xf9300000 \<and> insn AND 0x00000800 = 0x00000800 then
      let p = to_u8 (drop_bit 10 insn AND 1);
          u = to_u8 (drop_bit 9 insn AND 1);
          w = to_u8 (drop_bit 8 insn AND 1) in
      if p = 1 \<and> w = 0 then
        let rn = to_u8 (drop_bit 16 insn AND 0x0f);
            rt = to_u8 (drop_bit 12 insn AND 0x0f);
            imm8 = insn AND 0xff;
            off = (if u \<noteq> 0 then imm8 else 0 - imm8) in
        if rt = 15 then
          Ret d
        else
        Ret (d\<lparr>d_kind := MM_OP_LDRSH_IMM, d_rn := rn, d_rd := rt, d_imm := off,
            d_undefined := False\<rparr>)
      else Fall d
    else Fall d)"

definition dec32_ldrex :: "u32 \<Rightarrow> mm_decoded \<Rightarrow> dec_result"
  where "dec32_ldrex insn d = (
    if insn AND 0xfff00f00 = 0xe8500f00 then
      Ret (d\<lparr>d_kind := MM_OP_LDREX, d_rn := to_u8 (drop_bit 16 insn AND 0x0f),
          d_rd := to_u8 (drop_bit 12 insn AND 0x0f), d_undefined := False\<rparr>)
    else Fall d)"

definition dec32_strex :: "u32 \<Rightarrow> mm_decoded \<Rightarrow> dec_result"
  where "dec32_strex insn d = (
    if insn AND 0xfff000ff = 0xe8400000 then
      Ret (d\<lparr>d_kind := MM_OP_STREX, d_rn := to_u8 (drop_bit 16 insn AND 0x0f),
          d_rm := to_u8 (drop_bit 12 insn AND 0x0f), d_rd := to_u8 (drop_bit 8 insn AND 0x0f),
          d_undefined := False\<rparr>)
    else Fall d)"

definition dec32_stm_ldm :: "u32 \<Rightarrow> mm_decoded \<Rightarrow> dec_result"
  where "dec32_stm_ldm insn d = (
    if insn AND 0xfe400000 = 0xe8000000 then
      let opc = to_u8 (drop_bit 23 insn AND 0x3);
          w = to_u8 (drop_bit 21 insn AND 0x1);
          l = to_u8 (drop_bit 20 insn AND 0x1);
          rn = to_u8 (drop_bit 16 insn AND 0x0f);
          msk = insn AND 0xffff in
      Ret (d\<lparr>d_kind := (if l \<noteq> 0 then MM_OP_LDM else MM_OP_STM), d_rn := rn,
          d_imm := push_bit 24 (to_u32 opc) OR push_bit 16 (to_u32 w) OR msk,
          d_undefined := False\<rparr>)
    else Fall d)"

definition dec32_mrs :: "u32 \<Rightarrow> mm_decoded \<Rightarrow> dec_result"
  where "dec32_mrs insn d = (
    if insn AND 0xffff0000 = 0xf3ef0000 then
      let d = d\<lparr>d_kind := MM_OP_MRS, d_rd := to_u8 (drop_bit 8 insn AND 0x0f)\<rparr> in
      if d_rd d = 15 then
        Ret d
      else
      Ret (d\<lparr>d_imm := insn AND 0xff, d_undefined := False\<rparr>)
    else Fall d)"

definition dec32_dsb :: "u32 \<Rightarrow> mm_decoded \<Rightarrow> dec_result"
  where "dec32_dsb insn d = (
    if insn AND 0xfffffff0 = 0xf3bf8f40 then
      Ret (d\<lparr>d_kind := MM_OP_DSB, d_undefined := False\<rparr>)
    else Fall d)"

definition dec32_dmb :: "u32 \<Rightarrow> mm_decoded \<Rightarrow> dec_result"
  where "dec32_dmb insn d = (
    if insn AND 0xfffffff0 = 0xf3bf8f50 then
      Ret (d\<lparr>d_kind := MM_OP_DMB, d_undefined := False\<rparr>)
    else Fall d)"

definition dec32_isb :: "u32 \<Rightarrow> mm_decoded \<Rightarrow> dec_result"
  where "dec32_isb insn d = (
    if insn AND 0xfffffff0 = 0xf3bf8f60 then
      Ret (d\<lparr>d_kind := MM_OP_ISB, d_undefined := False\<rparr>)
    else Fall d)"

definition dec32_mvn_reg :: "u32 \<Rightarrow> mm_decoded \<Rightarrow> dec_result"
  where "dec32_mvn_reg insn d = (
    if insn AND 0xffef8000 = 0xea6f0000 then
      let rd = to_u8 (drop_bit 8 insn AND 0x0f);
          rm = to_u8 (insn AND 0x0f) in
      if rd = 13 \<or> rd = 15 \<or> rm = 13 \<or> rm = 15 then
        Ret d
      else
      Ret (d\<lparr>d_kind := MM_OP_MVN_REG, d_rd := rd, d_rm := rm, d_undefined := False\<rparr>)
    else Fall d)"

definition dec32_mvn_imm :: "u32 \<Rightarrow> mm_decoded \<Rightarrow> dec_result"
  where "dec32_mvn_imm insn d = (
    if insn AND 0xfbef8000 = 0xf06f0000 then
      let i = drop_bit 26 insn AND 1;
          rd = to_u8 (drop_bit 8 insn AND 0x0f);
          imm3 = drop_bit 12 insn AND 0x7;
          imm8 = insn AND 0xff;
          imm12 = push_bit 11 i OR push_bit 8 imm3 OR imm8 in
      if rd = 13 \<or> rd = 15 then
        Ret d
      else
      Ret (d\<lparr>d_kind := MM_OP_MVN_IMM, d_rd := rd, d_imm := imm12,
          d_undefined := False\<rparr>)
    else Fall d)"

definition dec32_msr :: "u32 \<Rightarrow> mm_decoded \<Rightarrow> dec_result"
  where "dec32_msr insn d = (
    if insn AND 0xfff08000 = 0xf3808000 then
      let msk = to_u8 (drop_bit 8 insn AND 0xf);
          sysm = to_u8 (insn AND 0xff) in
      Ret (d\<lparr>d_kind := MM_OP_MSR, d_rm := to_u8 (drop_bit 16 insn AND 0x0f),
          d_imm := push_bit 8 (to_u32 msk) OR to_u32 sysm, d_undefined := False\<rparr>)
    else Fall d)"

definition dec32_bl :: "u32 \<Rightarrow> mm_decoded \<Rightarrow> dec_result"
  where "dec32_bl insn d = (
    if insn AND 0xf800d000 = 0xf000d000 then
      let s = drop_bit 26 insn AND 0x1;
          j1 = drop_bit 13 insn AND 0x1;
          j2 = drop_bit 11 insn AND 0x1;
          imm10 = drop_bit 16 insn AND 0x3ff;
          imm11 = insn AND 0x7ff;
          i1 = j1 XOR 1 XOR s;
          i2 = j2 XOR 1 XOR s;
          imm = push_bit 24 s OR push_bit 23 i1 OR push_bit 22 i2 OR push_bit 12 imm10 OR
                push_bit 1 imm11 in
      let imm = (
        if s \<noteq> 0 then
          imm OR 0xfe000000
        else
          imm) in
      Ret (d\<lparr>d_kind := MM_OP_BL, d_imm := imm, d_undefined := False\<rparr>)
    else Fall d)"

definition dec32_b_cond_w :: "u32 \<Rightarrow> mm_decoded \<Rightarrow> dec_result"
  where "dec32_b_cond_w insn d = (
    if insn AND 0xf800d000 = 0xf0008000 then
      let s = drop_bit 26 insn AND 0x1;
          cond = drop_bit 22 insn AND 0x0f;
          imm6 = drop_bit 16 insn AND 0x003f;
          j1 = drop_bit 13 insn AND 0x1;
          j2 = drop_bit 11 insn AND 0x1;
          imm11 = insn AND 0x07ff;
          imm = push_bit 20 s OR push_bit 19 j1 OR push_bit 18 j2 OR push_bit 12 imm6 OR
                push_bit 1 imm11 in
      let imm = (
        if s \<noteq> 0 then
          imm OR 0xffe00000
        else
          imm) in
      Ret (d\<lparr>d_kind := MM_OP_B_COND_WIDE, d_cond := mm_cond_of cond, d_imm := imm,
          d_undefined := False\<rparr>)
    else Fall d)"

definition dec32_b_uncond_w :: "u32 \<Rightarrow> mm_decoded \<Rightarrow> dec_result"
  where "dec32_b_uncond_w insn d = (
    if insn AND 0xf800d000 = 0xf0009000 then
      let s = drop_bit 26 insn AND 0x1;
          imm10 = drop_bit 16 insn AND 0x03ff;
          j1 = drop_bit 13 insn AND 0x1;
          j2 = drop_bit 11 insn AND 0x1;
          imm11 = insn AND 0x07ff;
          i1 = j1 XOR 1 XOR s;
          i2 = j2 XOR 1 XOR s;
          imm = push_bit 24 s OR push_bit 23 i1 OR push_bit 22 i2 OR push_bit 12 imm10 OR
                push_bit 1 imm11 in
      let imm = (
        if s \<noteq> 0 then
          imm OR 0xfe000000
        else
          imm) in
      Ret (d\<lparr>d_kind := MM_OP_B_UNCOND_WIDE, d_imm := imm, d_undefined := False\<rparr>)
    else Fall d)"

definition dec32_lsl_reg :: "u32 \<Rightarrow> mm_decoded \<Rightarrow> dec_result"
  where "dec32_lsl_reg insn d = (
    if insn AND 0xffe0f0f0 = 0xfa00f000 then
      Ret (d\<lparr>d_kind := MM_OP_LSL_REG, d_rn := to_u8 (drop_bit 16 insn AND 0x0f),
          d_rd := to_u8 (drop_bit 8 insn AND 0x0f), d_rm := to_u8 (insn AND 0x0f),
          d_undefined := False\<rparr>)
    else Fall d)"

definition dec32_lsr_reg :: "u32 \<Rightarrow> mm_decoded \<Rightarrow> dec_result"
  where "dec32_lsr_reg insn d = (
    if insn AND 0xffe0f0f0 = 0xfa20f000 then
      Ret (d\<lparr>d_kind := MM_OP_LSR_REG, d_rn := to_u8 (drop_bit 16 insn AND 0x0f),
          d_rd := to_u8 (drop_bit 8 insn AND 0x0f), d_rm := to_u8 (insn AND 0x0f),
          d_undefined := False\<rparr>)
    else Fall d)"

definition dec32_asr_reg :: "u32 \<Rightarrow> mm_decoded \<Rightarrow> dec_result"
  where "dec32_asr_reg insn d = (
    if insn AND 0xffe0f0f0 = 0xfa40f000 then
      Ret (d\<lparr>d_kind := MM_OP_ASR_REG, d_rn := to_u8 (drop_bit 16 insn AND 0x0f),
          d_rd := to_u8 (drop_bit 8 insn AND 0x0f), d_rm := to_u8 (insn AND 0x0f),
          d_undefined := False\<rparr>)
    else Fall d)"

definition dec32_ror_reg :: "u32 \<Rightarrow> mm_decoded \<Rightarrow> dec_result"
  where "dec32_ror_reg insn d = (
    if insn AND 0xffe0f0f0 = 0xfa60f000 then
      Ret (d\<lparr>d_kind := MM_OP_ROR_REG_NF, d_rn := to_u8 (drop_bit 16 insn AND 0x0f),
          d_rd := to_u8 (drop_bit 8 insn AND 0x0f), d_rm := to_u8 (insn AND 0x0f),
          d_undefined := False\<rparr>)
    else Fall d)"

definition dec32_rsb_imm :: "u32 \<Rightarrow> mm_decoded \<Rightarrow> dec_result"
  where "dec32_rsb_imm insn d = (
    if insn AND 0xfbe08000 = 0xf1c00000 then
      let imm12 = push_bit 11 (drop_bit 26 insn AND 1) OR push_bit 8 (drop_bit 12 insn AND 0x7) OR
            (insn AND 0xff) in
      Ret (d\<lparr>d_kind := MM_OP_RSB_IMM, d_rn := to_u8 (drop_bit 16 insn AND 0x0f),
          d_rd := to_u8 (drop_bit 8 insn AND 0x0f), d_imm := thumb_expand_imm12 imm12,
          d_undefined := False\<rparr>)
    else Fall d)"

definition dec32_addw :: "u32 \<Rightarrow> mm_decoded \<Rightarrow> dec_result"
  where "dec32_addw insn d = (
    if insn AND 0xfbf08000 = 0xf2000000 then
      let imm12 = push_bit 11 (drop_bit 26 insn AND 1) OR push_bit 8 (drop_bit 12 insn AND 0x7) OR
            (insn AND 0xff) in
      Ret (d\<lparr>d_kind := MM_OP_ADD_IMM, d_rn := to_u8 (drop_bit 16 insn AND 0x0f),
          d_rd := to_u8 (drop_bit 8 insn AND 0x0f), d_imm := imm12, d_undefined := False\<rparr>)
    else Fall d)"

definition dec32_mov_imm :: "u32 \<Rightarrow> mm_decoded \<Rightarrow> dec_result"
  where "dec32_mov_imm insn d = (
    if insn AND 0xfbf08000 = 0xf0400000 \<and> drop_bit 16 insn AND 0x0f = 0x0f then
      let imm12 = push_bit 11 (drop_bit 26 insn AND 1) OR push_bit 8 (drop_bit 12 insn AND 0x7) OR
            (insn AND 0xff) in
      Ret (d\<lparr>d_kind := MM_OP_MOV_IMM, d_rd := to_u8 (drop_bit 8 insn AND 0x0f),
          d_imm := thumb_expand_imm12 imm12, d_undefined := False\<rparr>)
    else Fall d)"

definition dec32_orr_imm :: "u32 \<Rightarrow> mm_decoded \<Rightarrow> dec_result"
  where "dec32_orr_imm insn d = (
    if insn AND 0xff700000 = 0xf0400000 then
      let imm12 = push_bit 11 (drop_bit 26 insn AND 1) OR push_bit 8 (drop_bit 12 insn AND 0x7) OR
            (insn AND 0xff) in
      Ret (d\<lparr>d_kind := MM_OP_ORR_REG, d_rn := to_u8 (drop_bit 16 insn AND 0x0f),
          d_rd := to_u8 (drop_bit 8 insn AND 0x0f), d_imm := thumb_expand_imm12 imm12,
          d_undefined := False\<rparr>)
    else Fall d)"

definition dec32_dp_reg :: "u32 \<Rightarrow> mm_decoded \<Rightarrow> dec_result"
  where "dec32_dp_reg insn d = (
    if insn AND 0xfe000000 = 0xea000000 then
      let opcode = to_u8 (drop_bit 21 insn AND 0x0f);
          imm3 = drop_bit 12 insn AND 0x7;
          imm2 = drop_bit 6 insn AND 0x3;
          ty = drop_bit 4 insn AND 0x3;
          imm5 = push_bit 2 imm3 OR imm2;
          rn = to_u8 (drop_bit 16 insn AND 0x0f);
          rd = to_u8 (drop_bit 8 insn AND 0x0f);
          rm = to_u8 (insn AND 0x0f) in
      if opcode = 0x8 then
        Ret (d\<lparr>d_kind := MM_OP_ADD_REG, d_rn := rn, d_rd := rd, d_rm := rm,
            d_imm := push_bit 5 ty OR imm5, d_undefined := False\<rparr>)
      else if opcode = 0xD then
        let d = (
          if rd = 0x0f then
            d\<lparr>d_kind := MM_OP_CMP_REG, d_rn := rn\<rparr>
          else
            d\<lparr>d_kind := MM_OP_SUB_REG, d_rn := rn, d_rd := rd\<rparr>) in
        Ret (d\<lparr>d_rm := rm, d_imm := push_bit 5 ty OR imm5, d_undefined := False\<rparr>)
      else if opcode = 0x4 then
        Ret (d\<lparr>d_kind := MM_OP_EOR_REG, d_rn := rn, d_rd := rd, d_rm := rm,
            d_imm := push_bit 5 ty OR imm5, d_undefined := False\<rparr>)
      else if opcode = 0xA then
        Ret (d\<lparr>d_kind := MM_OP_ADCS_REG, d_rn := rn, d_rd := rd, d_rm := rm,
            d_imm := push_bit 5 ty OR imm5, d_undefined := False\<rparr>)
      else if opcode = 0xB then
        Ret (d\<lparr>d_kind := MM_OP_SBCS_REG, d_rn := rn, d_rd := rd, d_rm := rm,
            d_imm := push_bit 5 ty OR imm5, d_undefined := False\<rparr>)
      else if opcode = 0xE then
        Ret (d\<lparr>d_kind := MM_OP_RSB_REG, d_rn := rn, d_rd := rd, d_rm := rm,
            d_imm := push_bit 5 ty OR imm5, d_undefined := False\<rparr>)
      else if opcode = 0x1 then
        Ret (d\<lparr>d_kind := MM_OP_BIC_REG, d_rn := rn, d_rd := rd, d_rm := rm,
            d_imm := push_bit 5 ty OR imm5, d_undefined := False\<rparr>)
      else if opcode = 0x0 then
        if rd = 0x0f then
          Ret (d\<lparr>d_kind := MM_OP_TST_REG, d_rn := rn, d_rm := rm,
              d_imm := push_bit 5 ty OR imm5, d_undefined := False\<rparr>)
        else
        Ret (d\<lparr>d_kind := MM_OP_AND_REG, d_rn := rn, d_rd := rd, d_rm := rm,
            d_imm := push_bit 5 ty OR imm5, d_undefined := False\<rparr>)
      else if opcode = 0x2 then
        if rn = 0x0f \<and> ty \<le> 3 then
          let d = d\<lparr>d_rd := rd, d_rm := rm, d_imm := imm5\<rparr> in
          let d = (
            if ty = 0 then
              if imm5 = 0 then
                d\<lparr>d_kind := MM_OP_MOV_REG\<rparr>
              else
                d\<lparr>d_kind := MM_OP_LSL_IMM\<rparr>
            else if ty = 1 then
              d\<lparr>d_kind := MM_OP_LSR_IMM\<rparr>
            else if ty = 2 then
              d\<lparr>d_kind := MM_OP_ASR_IMM\<rparr>
            else
              d\<lparr>d_kind := MM_OP_ROR_IMM\<rparr>) in
          Ret (d\<lparr>d_undefined := False\<rparr>)
        else
        Ret (d\<lparr>d_kind := MM_OP_ORR_REG, d_rn := rn, d_rd := rd, d_rm := rm,
            d_imm := push_bit 5 ty OR imm5, d_undefined := False\<rparr>)
      else if opcode = 0x3 then
        Ret (d\<lparr>d_kind := MM_OP_ORN_REG, d_rn := rn, d_rd := rd, d_rm := rm,
            d_imm := push_bit 5 ty OR imm5, d_undefined := False\<rparr>)
      else Fall d
    else Fall d)"

definition dec32_extend :: "u32 \<Rightarrow> mm_decoded \<Rightarrow> dec_result"
  where "dec32_extend insn d = (
    let msk = 0xfff0f000;
        pat_uxtb = 0xfa50f000;
        pat_sxtb = 0xfa40f000;
        pat_uxth = 0xfa10f000;
        pat_sxth = 0xfa00f000 in
    if insn AND msk = pat_uxtb \<or> insn AND msk = pat_sxtb \<or> insn AND msk = pat_uxth \<or>
        insn AND msk = pat_sxth then
      let rn = to_u8 (drop_bit 16 insn AND 0x0f);
          rd = to_u8 (drop_bit 8 insn AND 0x0f);
          rm = to_u8 (insn AND 0x0f);
          rot2 = to_u8 (drop_bit 4 insn AND 0x3);
          addp = (if rn \<noteq> 15 then True else False) in
      if rd = 15 \<or> rm = 15 then
        Ret d
      else
      let d = (
        if insn AND msk = pat_sxtb then
          d\<lparr>d_kind := MM_OP_SXTB\<rparr>
        else if insn AND msk = pat_uxtb then
          d\<lparr>d_kind := MM_OP_UXTB\<rparr>
        else if insn AND msk = pat_sxth then
          d\<lparr>d_kind := MM_OP_SXTH\<rparr>
        else
          d\<lparr>d_kind := MM_OP_UXTH\<rparr>) in
      Ret (d\<lparr>d_rd := rd, d_rm := rm, d_rn := rn,
          d_imm := push_bit 3 (to_u32 rot2) OR (if addp then 0x80000000 else 0),
          d_undefined := False\<rparr>)
    else Fall d)"

definition dec32_ldrsb_imm12 :: "u32 \<Rightarrow> mm_decoded \<Rightarrow> dec_result"
  where "dec32_ldrsb_imm12 insn d = (
    let hw1 = to_u16 (drop_bit 16 insn);
        hw2 = to_u16 (insn AND 0xffff) in
    if to_u32 hw1 AND 0xfff0 = 0xf990 then
      let rn = to_u8 (to_u32 hw1 AND 0x0f);
          rt = to_u8 (drop_bit 12 (to_u32 hw2) AND 0x0f);
          imm12 = to_u32 hw2 AND 0x0fff in
      if rt = 15 then
        Ret d
      else
      Ret (d\<lparr>d_kind := MM_OP_LDRSB_IMM, d_rn := rn, d_rd := rt, d_imm := imm12,
          d_undefined := False\<rparr>)
    else Fall d)"

definition dec32_ldrsb_imm8 :: "u32 \<Rightarrow> mm_decoded \<Rightarrow> dec_result"
  where "dec32_ldrsb_imm8 insn d = (
    let hw1 = to_u16 (drop_bit 16 insn);
        hw2 = to_u16 (insn AND 0xffff) in
    if to_u32 hw1 AND 0xfff0 = 0xf910 \<and> to_u32 hw2 AND 0x0800 = 0x0800 then
      let p = to_u8 (drop_bit 10 (to_u32 hw2) AND 1);
          u = to_u8 (drop_bit 9 (to_u32 hw2) AND 1);
          w = to_u8 (drop_bit 8 (to_u32 hw2) AND 1) in
      if p = 1 \<and> w = 0 then
        let rn = to_u8 (to_u32 hw1 AND 0x0f);
            rt = to_u8 (drop_bit 12 (to_u32 hw2) AND 0x0f);
            imm8 = to_u32 hw2 AND 0x00ff;
            off = (if u \<noteq> 0 then imm8 else 0 - imm8) in
        if rt = 15 then
          Ret d
        else
        Ret (d\<lparr>d_kind := MM_OP_LDRSB_IMM, d_rn := rn, d_rd := rt, d_imm := off,
            d_undefined := False\<rparr>)
      else Fall d
    else Fall d)"

definition dec32_movw :: "u32 \<Rightarrow> mm_decoded \<Rightarrow> dec_result"
  where "dec32_movw insn d = (
    if insn AND 0xfbf08000 = 0xf2400000 then
      let imm4 = drop_bit 16 insn AND 0x0f;
          i = drop_bit 26 insn AND 0x1;
          imm3 = drop_bit 12 insn AND 0x7;
          imm8 = insn AND 0xff in
      Ret (d\<lparr>d_rd := to_u8 (drop_bit 8 insn AND 0x0f),
          d_imm := push_bit 11 i OR push_bit 12 imm4 OR push_bit 8 imm3 OR imm8,
          d_kind := MM_OP_MOVW, d_undefined := False\<rparr>)
    else Fall d)"

definition dec32_movt :: "u32 \<Rightarrow> mm_decoded \<Rightarrow> dec_result"
  where "dec32_movt insn d = (
    if insn AND 0xfbf08000 = 0xf2c00000 then
      let imm4 = drop_bit 16 insn AND 0x0f;
          i = drop_bit 26 insn AND 0x1;
          imm3 = drop_bit 12 insn AND 0x7;
          imm8 = insn AND 0xff in
      Ret (d\<lparr>d_rd := to_u8 (drop_bit 8 insn AND 0x0f),
          d_imm := push_bit 11 i OR push_bit 12 imm4 OR push_bit 8 imm3 OR imm8,
          d_kind := MM_OP_MOVT, d_undefined := False\<rparr>)
    else Fall d)"

definition dec32_dp_imm :: "u32 \<Rightarrow> mm_decoded \<Rightarrow> dec_result"
  where "dec32_dp_imm insn d = (
    if insn AND 0xfa000000 = 0xf0000000 then
      let opcode = to_u8 (drop_bit 21 insn AND 0xf);
          sbit = to_u8 (drop_bit 20 insn AND 0x1);
          rn = to_u8 (drop_bit 16 insn AND 0x0f);
          rd = to_u8 (drop_bit 8 insn AND 0x0f);
          imm12 = push_bit 11 (drop_bit 26 insn AND 0x1);
          imm12 = imm12 OR push_bit 8 (drop_bit 12 insn AND 0x7);
          imm12 = imm12 OR (insn AND 0xff);
          d = d\<lparr>d_imm := thumb_expand_imm12 imm12, d_rn := rn, d_rd := rd\<rparr> in
      let d = (
        if opcode = 0x0 then
          d\<lparr>d_kind := (if rd = 15 then MM_OP_TST_IMM else MM_OP_AND_REG)\<rparr>
        else if opcode = 0x1 then
          d\<lparr>d_kind := MM_OP_BIC_REG\<rparr>
        else if opcode = 0x2 then
          d\<lparr>d_kind := MM_OP_ORR_REG\<rparr>
        else if opcode = 0x3 then
          d\<lparr>d_kind := MM_OP_ORN_IMM\<rparr>
        else if opcode = 0x4 then
          d\<lparr>d_kind := MM_OP_EOR_REG\<rparr>
        else if opcode = 0xA then
          d\<lparr>d_kind := MM_OP_ADC_IMM\<rparr>
        else if opcode = 0x8 then
          if rd = 15 \<and> sbit \<noteq> 0 then
            d\<lparr>d_kind := MM_OP_CMN_IMM\<rparr>
          else
            d\<lparr>d_kind := MM_OP_ADD_IMM\<rparr>
        else if opcode = 0xB then
          d\<lparr>d_kind := (if sbit \<noteq> 0 then MM_OP_SBC_IMM else MM_OP_SBC_IMM_NF)\<rparr>
        else if opcode = 0xD then
          if rd = 15 then
            d\<lparr>d_kind := MM_OP_CMP_IMM\<rparr>
          else
            d\<lparr>d_kind := (if sbit \<noteq> 0 then MM_OP_SUB_IMM else MM_OP_SUB_IMM_NF)\<rparr>
        else
          d\<lparr>d_kind := MM_OP_UNDEFINED\<rparr>) in
      if d_kind d \<noteq> MM_OP_UNDEFINED then
        Ret (d\<lparr>d_undefined := False\<rparr>)
      else Fall d
    else Fall d)"

definition dec32_subw :: "u32 \<Rightarrow> mm_decoded \<Rightarrow> dec_result"
  where "dec32_subw insn d = (
    if (insn AND 0xff700000 = 0xf2200000 \<or> insn AND 0xff700000 = 0xf6200000) \<and>
        drop_bit 20 insn AND 1 = 0 then
      let imm12 = push_bit 11 (drop_bit 26 insn AND 1) OR push_bit 8 (drop_bit 12 insn AND 0x7) OR
            (insn AND 0xff) in
      Ret (d\<lparr>d_kind := MM_OP_SUB_IMM_NF, d_rn := to_u8 (drop_bit 16 insn AND 0x0f),
          d_rd := to_u8 (drop_bit 8 insn AND 0x0f), d_imm := imm12, d_undefined := False\<rparr>)
    else Fall d)"

definition dec32_strh_imm12 :: "u32 \<Rightarrow> mm_decoded \<Rightarrow> dec_result"
  where "dec32_strh_imm12 insn d = (
    if insn AND 0xfff00000 = 0xf8a00000 then
      Ret (d\<lparr>d_kind := MM_OP_STRH_IMM, d_rn := to_u8 (drop_bit 16 insn AND 0x0f),
          d_rd := to_u8 (drop_bit 12 insn AND 0x0f), d_imm := insn AND 0x0fff,
          d_undefined := False\<rparr>)
    else Fall d)"

definition dec32_ldrh_imm12 :: "u32 \<Rightarrow> mm_decoded \<Rightarrow> dec_result"
  where "dec32_ldrh_imm12 insn d = (
    if insn AND 0xfff00000 = 0xf8b00000 then
      Ret (d\<lparr>d_kind := MM_OP_LDRH_IMM, d_rn := to_u8 (drop_bit 16 insn AND 0x0f),
          d_rd := to_u8 (drop_bit 12 insn AND 0x0f), d_imm := insn AND 0x0fff,
          d_undefined := False\<rparr>)
    else Fall d)"

definition dec32_str_imm12 :: "u32 \<Rightarrow> mm_decoded \<Rightarrow> dec_result"
  where "dec32_str_imm12 insn d = (
    if insn AND 0xfff00000 = 0xf8c00000 then
      Ret (d\<lparr>d_kind := MM_OP_STR_IMM, d_rn := to_u8 (drop_bit 16 insn AND 0x0f),
          d_rd := to_u8 (drop_bit 12 insn AND 0x0f), d_imm := insn AND 0x0fff,
          d_undefined := False\<rparr>)
    else Fall d)"

definition dec32_ldr_imm12 :: "u32 \<Rightarrow> mm_decoded \<Rightarrow> dec_result"
  where "dec32_ldr_imm12 insn d = (
    if insn AND 0xfff00000 = 0xf8d00000 then
      Ret (d\<lparr>d_kind := MM_OP_LDR_IMM, d_rn := to_u8 (drop_bit 16 insn AND 0x0f),
          d_rd := to_u8 (drop_bit 12 insn AND 0x0f), d_imm := insn AND 0x0fff,
          d_undefined := False\<rparr>)
    else Fall d)"

definition dec32_ldst_reg :: "u32 \<Rightarrow> mm_decoded \<Rightarrow> dec_result"
  where "dec32_ldst_reg insn d = (
    if insn AND 0xffc00f00 = 0xf8400000 then
      let load = drop_bit 20 insn AND 1 \<noteq> 0;
          wbit = drop_bit 21 insn AND 1 \<noteq> 0 in
      if \<not> wbit then
        Ret (d\<lparr>d_kind := (if load then MM_OP_LDR_REG else MM_OP_STR_REG),
            d_rn := to_u8 (drop_bit 16 insn AND 0x0f), d_rd := to_u8 (drop_bit 12 insn AND 0x0f),
            d_rm := to_u8 (insn AND 0x0f), d_imm := drop_bit 4 insn AND 0x3,
            d_undefined := False\<rparr>)
      else Fall d
    else Fall d)"

definition dec32_str_post :: "u32 \<Rightarrow> mm_decoded \<Rightarrow> dec_result"
  where "dec32_str_post insn d = (
    if insn AND 0xfff00f00 = 0xf8400b00 \<or> insn AND 0xfff00f00 = 0xf8400900 then
      let u = to_u8 (drop_bit 9 insn AND 1);
          imm8 = to_u8 (insn AND 0xff);
          offset = (if u \<noteq> 0 then to_u32 imm8 else - (to_u32 imm8)) in
      Ret (d\<lparr>d_kind := MM_OP_STR_POST_IMM, d_rn := to_u8 (drop_bit 16 insn AND 0x0f),
          d_rd := to_u8 (drop_bit 12 insn AND 0x0f), d_imm := offset, d_undefined := False\<rparr>)
    else Fall d)"

definition dec32_ldr_post :: "u32 \<Rightarrow> mm_decoded \<Rightarrow> dec_result"
  where "dec32_ldr_post insn d = (
    if insn AND 0xfff00f00 = 0xf8500b00 \<or> insn AND 0xfff00f00 = 0xf8500900 then
      let u = to_u8 (drop_bit 9 insn AND 1);
          imm8 = to_u8 (insn AND 0xff);
          offset = (if u \<noteq> 0 then to_u32 imm8 else - (to_u32 imm8)) in
      Ret (d\<lparr>d_kind := MM_OP_LDR_POST_IMM, d_rn := to_u8 (drop_bit 16 insn AND 0x0f),
          d_rd := to_u8 (drop_bit 12 insn AND 0x0f), d_imm := offset, d_undefined := False\<rparr>)
    else Fall d)"

definition dec32_str_off8 :: "u32 \<Rightarrow> mm_decoded \<Rightarrow> dec_result"
  where "dec32_str_off8 insn d = (
    if insn AND 0xfff00f00 = 0xf8400c00 then
      let u = to_u8 (drop_bit 9 insn AND 1);
          imm8 = to_u8 (insn AND 0xff);
          offset = (if u \<noteq> 0 then to_u32 imm8 else - (to_u32 imm8)) in
      Ret (d\<lparr>d_kind := MM_OP_STR_IMM, d_rn := to_u8 (drop_bit 16 insn AND 0x0f),
          d_rd := to_u8 (drop_bit 12 insn AND 0x0f), d_imm := offset, d_undefined := False\<rparr>)
    else Fall d)"

definition dec32_ldr_off8 :: "u32 \<Rightarrow> mm_decoded \<Rightarrow> dec_result"
  where "dec32_ldr_off8 insn d = (
    if insn AND 0xfff00f00 = 0xf8500c00 then
      let u = to_u8 (drop_bit 9 insn AND 1);
          imm8 = to_u8 (insn AND 0xff);
          offset = (if u \<noteq> 0 then to_u32 imm8 else - (to_u32 imm8)) in
      Ret (d\<lparr>d_kind := MM_OP_LDR_IMM, d_rn := to_u8 (drop_bit 16 insn AND 0x0f),
          d_rd := to_u8 (drop_bit 12 insn AND 0x0f), d_imm := offset, d_undefined := False\<rparr>)
    else Fall d)"

definition dec32_str_pre :: "u32 \<Rightarrow> mm_decoded \<Rightarrow> dec_result"
  where "dec32_str_pre insn d = (
    if insn AND 0xfff00f00 = 0xf8400f00 \<or> insn AND 0xfff00f00 = 0xf8400d00 then
      let u = to_u8 (drop_bit 9 insn AND 1);
          imm8 = to_u8 (insn AND 0xff);
          offset = (if u \<noteq> 0 then to_u32 imm8 else - (to_u32 imm8)) in
      Ret (d\<lparr>d_kind := MM_OP_STR_PRE_IMM, d_rn := to_u8 (drop_bit 16 insn AND 0x0f),
          d_rd := to_u8 (drop_bit 12 insn AND 0x0f), d_imm := offset, d_undefined := False\<rparr>)
    else Fall d)"

definition dec32_ldr_pre :: "u32 \<Rightarrow> mm_decoded \<Rightarrow> dec_result"
  where "dec32_ldr_pre insn d = (
    if insn AND 0xfff00f00 = 0xf8500f00 \<or> insn AND 0xfff00f00 = 0xf8500d00 then
      let u = to_u8 (drop_bit 9 insn AND 1);
          imm8 = to_u8 (insn AND 0xff);
          offset = (if u \<noteq> 0 then to_u32 imm8 else - (to_u32 imm8)) in
      Ret (d\<lparr>d_kind := MM_OP_LDR_PRE_IMM, d_rn := to_u8 (drop_bit 16 insn AND 0x0f),
          d_rd := to_u8 (drop_bit 12 insn AND 0x0f), d_imm := offset, d_undefined := False\<rparr>)
    else Fall d)"

definition dec32_ldstb_reg :: "u32 \<Rightarrow> mm_decoded \<Rightarrow> dec_result"
  where "dec32_ldstb_reg insn d = (
    if insn AND 0xfff00fc0 = 0xf8000000 \<or> insn AND 0xfff00fc0 = 0xf8100000 then
      let load = drop_bit 20 insn AND 1 \<noteq> 0;
          imm2 = to_u8 (drop_bit 4 insn AND 0x3) in
      Ret (d\<lparr>d_kind := (if load then MM_OP_LDRB_REG else MM_OP_STRB_REG),
          d_rn := to_u8 (drop_bit 16 insn AND 0x0f), d_rd := to_u8 (drop_bit 12 insn AND 0x0f),
          d_rm := to_u8 (insn AND 0x0f), d_imm := to_u32 imm2, d_undefined := False\<rparr>)
    else Fall d)"

definition dec32_ldrsh_reg :: "u32 \<Rightarrow> mm_decoded \<Rightarrow> dec_result"
  where "dec32_ldrsh_reg insn d = (
    if insn AND 0xfff00fc0 = 0xf9300000 then
      let imm2 = to_u8 (drop_bit 4 insn AND 0x3) in
      Ret (d\<lparr>d_kind := MM_OP_LDRSH_REG, d_rn := to_u8 (drop_bit 16 insn AND 0x0f),
          d_rd := to_u8 (drop_bit 12 insn AND 0x0f), d_rm := to_u8 (insn AND 0x0f),
          d_imm := to_u32 imm2, d_undefined := False\<rparr>)
    else Fall d)"

definition dec32_ldstb_imm12 :: "u32 \<Rightarrow> mm_decoded \<Rightarrow> dec_result"
  where "dec32_ldstb_imm12 insn d = (
    if insn AND 0xfff00000 = 0xf8800000 \<or> insn AND 0xfff00000 = 0xf8900000 then
      let u = to_u8 (drop_bit 23 insn AND 1);
          l = to_u8 (drop_bit 20 insn AND 1);
          rn = to_u8 (drop_bit 16 insn AND 0x0f);
          rt = to_u8 (drop_bit 12 insn AND 0x0f);
          imm12 = insn AND 0x0fff;
          offset = (if u \<noteq> 0 then imm12 else 0 - imm12) in
      Ret (d\<lparr>d_kind := (if l \<noteq> 0 then MM_OP_LDRB_IMM else MM_OP_STRB_IMM),
          d_rn := rn, d_rd := rt, d_imm := offset, d_undefined := False\<rparr>)
    else Fall d)"

definition dec32_ldstb_imm8 :: "u32 \<Rightarrow> mm_decoded \<Rightarrow> dec_result"
  where "dec32_ldstb_imm8 insn d = (
    if insn AND 0xff000000 = 0xf8000000 then
      let op1 = to_u8 (drop_bit 20 insn AND 0x7);
          l = to_u8 (drop_bit 20 insn AND 1);
          p = to_u8 (drop_bit 10 insn AND 1);
          u = to_u8 (drop_bit 9 insn AND 1);
          w = to_u8 (drop_bit 8 insn AND 1);
          imm8 = to_u8 (insn AND 0xff);
          rn = to_u8 (drop_bit 16 insn AND 0x0f);
          rt = to_u8 (drop_bit 12 insn AND 0x0f);
          offset = to_u32 imm8 in
      if op1 > 1 then
        Fall d
      else
        let offset = (
          if u = 0 then
            - (to_u32 imm8)
          else
            offset) in
        if p = 0 \<and> w = 1 then
          Ret (d\<lparr>
              d_kind := (if l \<noteq> 0 then MM_OP_LDRB_POST_IMM else MM_OP_STRB_POST_IMM),
              d_rn := rn, d_rd := rt, d_imm := offset, d_undefined := False\<rparr>)
        else if p = 1 \<and> w = 1 then
          Ret (d\<lparr>
              d_kind := (if l \<noteq> 0 then MM_OP_LDRB_PRE_IMM else MM_OP_STRB_PRE_IMM),
              d_rn := rn, d_rd := rt, d_imm := offset, d_undefined := False\<rparr>)
        else
        Ret (d\<lparr>d_kind := (if l \<noteq> 0 then MM_OP_LDRB_IMM else MM_OP_STRB_IMM),
            d_rn := rn, d_rd := rt, d_imm := offset, d_undefined := False\<rparr>)
    else Fall d)"

definition dec32_ldrh_imm8 :: "u32 \<Rightarrow> mm_decoded \<Rightarrow> dec_result"
  where "dec32_ldrh_imm8 insn d = (
    if insn AND 0xfff00000 = 0xf8300000 \<and> insn AND 0x00000800 \<noteq> 0 then
      let p = to_u8 (drop_bit 10 insn AND 1);
          u = to_u8 (drop_bit 9 insn AND 1);
          w = to_u8 (drop_bit 8 insn AND 1);
          rn = to_u8 (drop_bit 16 insn AND 0x0f);
          rt = to_u8 (drop_bit 12 insn AND 0x0f);
          imm8 = insn AND 0xff in
      if p = 0 \<and> w = 1 \<and> rt \<noteq> 13 \<and> rt \<noteq> 15 then
        Ret (d\<lparr>d_kind := MM_OP_LDRH_POST_IMM, d_rn := rn, d_rd := rt,
            d_imm := (if u \<noteq> 0 then imm8 else 0 - imm8), d_undefined := False\<rparr>)
      else if p = 1 \<and> w = 1 \<and> rt \<noteq> 13 \<and> rt \<noteq> 15 then
        Ret (d\<lparr>d_kind := MM_OP_LDRH_PRE_IMM, d_rn := rn, d_rd := rt,
            d_imm := (if u \<noteq> 0 then imm8 else 0 - imm8), d_undefined := False\<rparr>)
      else if p = 1 \<and> w = 0 \<and> rt \<noteq> 13 \<and> rt \<noteq> 15 then
        Ret (d\<lparr>d_kind := MM_OP_LDRH_IMM, d_rn := rn, d_rd := rt,
            d_imm := (if u \<noteq> 0 then imm8 else 0 - imm8), d_undefined := False\<rparr>)
      else Fall d
    else Fall d)"

definition dec32_strh_imm8 :: "u32 \<Rightarrow> mm_decoded \<Rightarrow> dec_result"
  where "dec32_strh_imm8 insn d = (
    if insn AND 0xfff00000 = 0xf8200000 \<and> insn AND 0x00000800 \<noteq> 0 then
      let p = to_u8 (drop_bit 10 insn AND 1);
          u = to_u8 (drop_bit 9 insn AND 1);
          w = to_u8 (drop_bit 8 insn AND 1);
          rn = to_u8 (drop_bit 16 insn AND 0x0f);
          rt = to_u8 (drop_bit 12 insn AND 0x0f);
          imm8 = insn AND 0xff in
      if p = 0 \<and> w = 1 \<and> rt \<noteq> 13 \<and> rt \<noteq> 15 then
        Ret (d\<lparr>d_kind := MM_OP_STRH_POST_IMM, d_rn := rn, d_rd := rt,
            d_imm := (if u \<noteq> 0 then imm8 else 0 - imm8), d_undefined := False\<rparr>)
      else if p = 1 \<and> w = 1 \<and> rt \<noteq> 13 \<and> rt \<noteq> 15 then
        Ret (d\<lparr>d_kind := MM_OP_STRH_PRE_IMM, d_rn := rn, d_rd := rt,
            d_imm := (if u \<noteq> 0 then imm8 else 0 - imm8), d_undefined := False\<rparr>)
      else if p = 1 \<and> w = 0 \<and> rt \<noteq> 13 \<and> rt \<noteq> 15 then
        Ret (d\<lparr>d_kind := MM_OP_STRH_IMM, d_rn := rn, d_rd := rt,
            d_imm := (if u \<noteq> 0 then imm8 else 0 - imm8), d_undefined := False\<rparr>)
      else Fall d
    else Fall d)"

definition dec32_strh_reg :: "u32 \<Rightarrow> mm_decoded \<Rightarrow> dec_result"
  where "dec32_strh_reg insn d = (
    if insn AND 0xfff00fc0 = 0xf8200000 then
      let imm2 = to_u8 (drop_bit 4 insn AND 0x3) in
      Ret (d\<lparr>d_kind := MM_OP_STRH_REG, d_rn := to_u8 (drop_bit 16 insn AND 0x0f),
          d_rd := to_u8 (drop_bit 12 insn AND 0x0f), d_rm := to_u8 (insn AND 0x0f),
          d_imm := to_u32 imm2, d_undefined := False\<rparr>)
    else Fall d)"

definition dec32_ldrh_reg :: "u32 \<Rightarrow> mm_decoded \<Rightarrow> dec_result"
  where "dec32_ldrh_reg insn d = (
    if insn AND 0xfff00fc0 = 0xf8300000 then
      let imm2 = to_u8 (drop_bit 4 insn AND 0x3) in
      Ret (d\<lparr>d_kind := MM_OP_LDRH_REG, d_rn := to_u8 (drop_bit 16 insn AND 0x0f),
          d_rd := to_u8 (drop_bit 12 insn AND 0x0f), d_rm := to_u8 (insn AND 0x0f),
          d_imm := to_u32 imm2, d_undefined := False\<rparr>)
    else Fall d)"

definition dec32_ubfx :: "u32 \<Rightarrow> mm_decoded \<Rightarrow> dec_result"
  where "dec32_ubfx insn d = (
    let hw1 = to_u16 (drop_bit 16 insn);
        hw2 = to_u16 (insn AND 0xffff) in
    if to_u32 hw1 AND 0xfff0 = 0xf3c0 then
      let rn = to_u8 (to_u32 hw1 AND 0x0f);
          rd = to_u8 (drop_bit 8 (to_u32 hw2) AND 0x0f);
          imm3 = to_u8 (drop_bit 12 (to_u32 hw2) AND 0x7);
          imm2 = to_u8 (drop_bit 6 (to_u32 hw2) AND 0x3);
          lsb = to_u8 (push_bit 2 (to_u32 imm3) OR to_u32 imm2);
          widthm1 = to_u8 (to_u32 hw2 AND 0x1f) in
      if rn \<noteq> 15 \<and> rd \<noteq> 15 then
        Ret (d\<lparr>d_kind := MM_OP_UBFX, d_rd := rd, d_rn := rn,
            d_imm := to_u32 lsb OR push_bit 8 (to_u32 widthm1), d_undefined := False\<rparr>)
      else Fall d
    else Fall d)"

definition dec32_sbfx :: "u32 \<Rightarrow> mm_decoded \<Rightarrow> dec_result"
  where "dec32_sbfx insn d = (
    if insn AND 0xfff00000 = 0xf3400000 then
      Ret (d\<lparr>d_kind := MM_OP_SBFX, d_rd := to_u8 (drop_bit 8 insn AND 0x0f),
          d_rn := to_u8 (drop_bit 16 insn AND 0x0f), d_undefined := False\<rparr>)
    else Fall d)"

definition dec32_bf :: "u32 \<Rightarrow> mm_decoded \<Rightarrow> dec_result"
  where "dec32_bf insn d = (
    if insn AND 0xfff08020 = 0xf3600000 then
      let rn = to_u8 (drop_bit 16 insn AND 0x0f) in
      Ret (d\<lparr>d_kind := (if rn = 0x0f then MM_OP_BFC else MM_OP_BFI),
          d_rd := to_u8 (drop_bit 8 insn AND 0x0f), d_rn := rn, d_undefined := False\<rparr>)
    else Fall d)"

definition dec32_tb :: "u32 \<Rightarrow> mm_decoded \<Rightarrow> dec_result"
  where "dec32_tb insn d = (
    if insn AND 0xfff0ffe0 = 0xe8d0f000 then
      let h = to_u8 (drop_bit 4 insn AND 1) in
      Ret (d\<lparr>d_kind := (if h \<noteq> 0 then MM_OP_TBH else MM_OP_TBB),
          d_rn := to_u8 (drop_bit 16 insn AND 0x0f), d_rm := to_u8 (insn AND 0x0f),
          d_undefined := False\<rparr>)
    else Fall d)"

definition dec32_ldrd_strd :: "u32 \<Rightarrow> mm_decoded \<Rightarrow> dec_result"
  where "dec32_ldrd_strd insn d = (
    if insn AND 0xfe000000 = 0xe8000000 then
      let load = drop_bit 20 insn AND 1 \<noteq> 0;
          u = drop_bit 23 insn AND 1 \<noteq> 0;
          w = drop_bit 21 insn AND 1 \<noteq> 0;
          p = drop_bit 24 insn AND 1 \<noteq> 0;
          imm = push_bit 2 (insn AND 0xff) in
      Ret (d\<lparr>d_kind := (if load then MM_OP_LDRD else MM_OP_STRD),
          d_rn := to_u8 (drop_bit 16 insn AND 0x0f), d_rd := to_u8 (drop_bit 12 insn AND 0x0f),
          d_rm := to_u8 (drop_bit 8 insn AND 0x0f),
          d_imm := imm OR (if u then 0x80000000 else 0) OR (if w then 0x40000000 else 0) OR (if p then 0x20000000 else 0),
          d_undefined := False\<rparr>)
    else Fall d)"

definition dec32_chain :: "(u32 \<Rightarrow> mm_decoded \<Rightarrow> dec_result) list"
  where "dec32_chain = [
    dec32_ldr_literal, dec32_sg, dec32_clrex, dec32_rev,
    dec32_rbit, dec32_tt, dec32_div, dec32_mul_w,
    dec32_long_mul, dec32_smla, dec32_mla_mls, dec32_clz,
    dec32_ldrsh_imm12, dec32_ldrsh_imm8, dec32_ldrex, dec32_strex,
    dec32_stm_ldm, dec32_mrs, dec32_dsb, dec32_dmb,
    dec32_isb, dec32_mvn_reg, dec32_mvn_imm, dec32_msr,
    dec32_bl, dec32_b_cond_w, dec32_b_uncond_w, dec32_lsl_reg,
    dec32_lsr_reg, dec32_asr_reg, dec32_ror_reg, dec32_rsb_imm,
    dec32_addw, dec32_mov_imm, dec32_orr_imm, dec32_dp_reg,
    dec32_extend, dec32_ldrsb_imm12, dec32_ldrsb_imm8, dec32_movw,
    dec32_movt, dec32_dp_imm, dec32_subw, dec32_strh_imm12,
    dec32_ldrh_imm12, dec32_str_imm12, dec32_ldr_imm12, dec32_ldst_reg,
    dec32_str_post, dec32_ldr_post, dec32_str_off8, dec32_ldr_off8,
    dec32_str_pre, dec32_ldr_pre, dec32_ldstb_reg, dec32_ldrsh_reg,
    dec32_ldstb_imm12, dec32_ldstb_imm8, dec32_ldrh_imm8, dec32_strh_imm8,
    dec32_strh_reg, dec32_ldrh_reg, dec32_ubfx, dec32_sbfx,
    dec32_bf, dec32_tb, dec32_ldrd_strd]"

fun run_chain :: "(u32 \<Rightarrow> mm_decoded \<Rightarrow> dec_result) list \<Rightarrow> u32 \<Rightarrow> mm_decoded \<Rightarrow> dec_result" where
  "run_chain [] insn d = Fall d"
| "run_chain (f # fs) insn d = dec_then (f insn d) (run_chain fs insn)"

definition decode_32 :: "u32 \<Rightarrow> mm_decoded"
  where "decode_32 insn =
    dec_out (run_chain dec32_chain insn ((mm_decoded_default 0 0)\<lparr>d_len := 4, d_raw := insn\<rparr>))"

end
