(* ===== verification/Exec_Helpers.thy ===== *)
theory Exec_Helpers
imports Prelude
begin

text \<open>
  The arithmetic helpers of the instruction executor, \<^verbatim>\<open>src/m33mu/exec_helpers.c\<close>:
  add-with-carry, the four shifts, the modified-immediate expansion, bit-field,
  byte-reversal, extension, counting and long-multiply routines.  Out-parameters
  become components of the result; \<^verbatim>\<open>*xpsr_inout\<close> becomes an argument and a result.
\<close>

record mm_shift_result =
  sr_value :: u32
  sr_carry :: bool

record mm_fetch_result =
  f_insn :: u32
  f_len :: u8
  f_fault :: bool
  f_fault_addr :: u32
  f_pc_fetch :: u32

definition mm_add_with_carry :: "u32 \<Rightarrow> u32 \<Rightarrow> bool \<Rightarrow> u32 \<times> bool \<times> bool"
  where "mm_add_with_carry a b carry_in =
    (let ures = to_u64 a + to_u64 b + b2u carry_in;
         res = to_u32 ures;
         carry = (drop_bit 32 ures \<noteq> 0);
         overflow = ((NOT (a XOR b) AND (a XOR res)) AND 0x80000000 \<noteq> 0)
     in (res, carry, overflow))"

definition shift_zero :: "u32 \<Rightarrow> bool \<Rightarrow> mm_shift_result"
  where "shift_zero value carry_in = \<lparr>sr_value = value, sr_carry = carry_in\<rparr>"

definition mm_lsl :: "u32 \<Rightarrow> u8 \<Rightarrow> bool \<Rightarrow> mm_shift_result"
  where "mm_lsl value amount carry_in =
    (if amount = 0 then shift_zero value carry_in
     else if amount < 32 then
       \<lparr>sr_value = push_bit (unat amount) value,
        sr_carry = (drop_bit (32 - unat amount) value AND 1 \<noteq> 0)\<rparr>
     else if amount = 32 then \<lparr>sr_value = 0, sr_carry = (value AND 1 \<noteq> 0)\<rparr>
     else \<lparr>sr_value = 0, sr_carry = False\<rparr>)"

definition mm_lsr :: "u32 \<Rightarrow> u8 \<Rightarrow> bool \<Rightarrow> mm_shift_result"
  where "mm_lsr value amount carry_in =
    (if amount = 0 then shift_zero value carry_in
     else if amount < 32 then
       \<lparr>sr_value = drop_bit (unat amount) value,
        sr_carry = (drop_bit (unat amount - 1) value AND 1 \<noteq> 0)\<rparr>
     else if amount = 32 then \<lparr>sr_value = 0, sr_carry = (drop_bit 31 value \<noteq> 0)\<rparr>
     else \<lparr>sr_value = 0, sr_carry = False\<rparr>)"

definition mm_asr :: "u32 \<Rightarrow> u8 \<Rightarrow> bool \<Rightarrow> mm_shift_result"
  where "mm_asr value amount carry_in =
    (if amount = 0 then shift_zero value carry_in
     else if amount < 32 then
       (let sign = value AND 0x80000000 in
        \<lparr>sr_value = drop_bit (unat amount) value OR
           (if sign \<noteq> 0 then push_bit (32 - unat amount) (NOT 0) else 0),
         sr_carry = (drop_bit (unat amount - 1) value AND 1 \<noteq> 0)\<rparr>)
     else
       \<lparr>sr_value = (if value AND 0x80000000 \<noteq> 0 then 0xffffffff else 0),
        sr_carry = (value AND 0x80000000 \<noteq> 0)\<rparr>)"

definition mm_ror :: "u32 \<Rightarrow> u8 \<Rightarrow> bool \<Rightarrow> mm_shift_result"
  where "mm_ror value amount carry_in =
    (if amount = 0 then shift_zero value carry_in
     else let rot = amount AND 31 in
       if rot = 0 then \<lparr>sr_value = value, sr_carry = (value AND 0x80000000 \<noteq> 0)\<rparr>
       else let v = drop_bit (unat rot) value OR push_bit (32 - unat rot) value
            in \<lparr>sr_value = v, sr_carry = (drop_bit 31 v \<noteq> 0)\<rparr>)"

definition mm_pc_operand :: "mm_fetch_result \<Rightarrow> u32"
  where "mm_pc_operand f = (f_pc_fetch f + 4) AND NOT 3"

definition mm_adr_value :: "mm_fetch_result \<Rightarrow> u32 \<Rightarrow> u32"
  where "mm_adr_value f imm32 = mm_pc_operand f + imm32"

definition mm_xpsr_write_nzcvq :: "u32 \<Rightarrow> u32 \<Rightarrow> u32"
  where "mm_xpsr_write_nzcvq x reg_value =
    (let msk = 0xF8000000 in (x AND NOT msk) OR (reg_value AND msk))"

definition mm_bswap32 :: "u32 \<Rightarrow> u32"
  where "mm_bswap32 value =
    (let b0 = value AND 0xff;
         b1 = drop_bit 8 value AND 0xff;
         b2 = drop_bit 16 value AND 0xff;
         b3 = drop_bit 24 value AND 0xff
     in push_bit 24 b0 OR push_bit 16 b1 OR push_bit 8 b2 OR b3)"

definition mm_rev16 :: "u32 \<Rightarrow> u32"
  where "mm_rev16 value = push_bit 8 (value AND 0x00ff00ff) OR drop_bit 8 (value AND 0xff00ff00)"

definition mm_revsh :: "u32 \<Rightarrow> u32"
  where "mm_revsh value =
    (let half = value AND 0xffff;
         swapped = push_bit 8 (half AND 0xff) OR (drop_bit 8 half AND 0xff)
     in if swapped AND 0x8000 \<noteq> 0 then swapped OR 0xffff0000 else swapped)"

definition mm_sxtb :: "u32 \<Rightarrow> u8 \<Rightarrow> u32"
  where "mm_sxtb value rotation =
    (let rotated = (if rotation \<noteq> 0 then
                      (let r = rotation AND 31 in
                       if r \<noteq> 0 then drop_bit (unat r) value OR push_bit (32 - unat r) value
                       else value)
                    else value)
     in scast (to_u8 (rotated AND 0xff)))"

definition mm_sxth :: "u32 \<Rightarrow> u32"
  where "mm_sxth value = scast (to_u16 (value AND 0xffff))"

definition mm_uxth :: "u32 \<Rightarrow> u32"
  where "mm_uxth value = value AND 0xffff"

function clz_loop :: "u32 \<Rightarrow> u32 \<Rightarrow> u32 \<Rightarrow> u32" where
  "clz_loop value msk count =
    (if value AND msk = 0 \<and> msk \<noteq> 0 then clz_loop value (drop_bit 1 msk) (count + 1) else count)"
  by pat_completeness auto

lemma drop_bit_1_less: "w \<noteq> 0 \<Longrightarrow> unat (drop_bit (Suc 0) w) < unat w" for w :: "'a::len word"
  by (simp only: unat_drop_bit_eq) (simp add: drop_bit_Suc unat_gt_0)

termination clz_loop
  by (relation "measure (\<lambda>(v, m, c). unat m)") (auto simp: drop_bit_1_less)

declare clz_loop.simps [simp del]

definition mm_clz :: "u32 \<Rightarrow> u32"
  where "mm_clz value = (if value = 0 then 32 else clz_loop value 0x80000000 0)"

definition mm_rbit :: "u32 \<Rightarrow> u32"
  where "mm_rbit value = foldl (\<lambda>out i. push_bit 1 out OR (drop_bit i value AND 1)) 0 [0..<32]"

definition mm_umul64 :: "u32 \<Rightarrow> u32 \<Rightarrow> u32 \<times> u32"
  where "mm_umul64 a b =
    (let prod = to_u64 a * to_u64 b in (to_u32 prod, to_u32 (drop_bit 32 prod)))"

definition mm_smul64 :: "u32 \<Rightarrow> u32 \<Rightarrow> u32 \<times> u32"
  where "mm_smul64 a b =
    (let prod = (scast a :: u64) * scast b in (to_u32 prod, to_u32 (drop_bit 32 prod)))"

definition mm_ubfx :: "u32 \<Rightarrow> u8 \<Rightarrow> u8 \<Rightarrow> u32"
  where "mm_ubfx value lsb width =
    (if width = 0 \<or> width > 32 then 0
     else if lsb \<ge> 32 then 0
     else if to_u32 lsb + to_u32 width > 32 then 0
     else let msk = (if width = 32 then 0xffffffff else push_bit (unat width) 1 - 1)
          in drop_bit (unat lsb) value AND msk)"

definition mm_sbfx :: "u32 \<Rightarrow> u8 \<Rightarrow> u8 \<Rightarrow> u32"
  where "mm_sbfx value lsb width =
    (let extracted = mm_ubfx value lsb width in
     if width = 0 \<or> width > 32 then 0
     else if width = 32 then extracted
     else let sign_bit = push_bit (unat width - 1) (1 :: u32)
          in if extracted AND sign_bit \<noteq> 0
             then extracted OR NOT (push_bit 1 sign_bit - 1) else extracted)"

definition mm_bfi :: "u32 \<Rightarrow> u32 \<Rightarrow> u8 \<Rightarrow> u8 \<Rightarrow> u32"
  where "mm_bfi dst src lsb width =
    (if width = 0 \<or> width > 32 then dst
     else if lsb \<ge> 32 then dst
     else if to_u32 lsb + to_u32 width > 32 then dst
     else let msk = (if width = 32 then 0xffffffff
                     else push_bit (unat lsb) (push_bit (unat width) 1 - 1))
          in (dst AND NOT msk) OR (push_bit (unat lsb) src AND msk))"

definition mm_bfc :: "u32 \<Rightarrow> u8 \<Rightarrow> u8 \<Rightarrow> u32"
  where "mm_bfc dst lsb width = mm_bfi dst 0 lsb width"

definition mm_mvn_reg :: "u32 \<Rightarrow> u32 \<Rightarrow> bool \<Rightarrow> u32 \<times> u32"
  where "mm_mvn_reg rm_value x setflags =
    (let res = NOT rm_value in
     (res,
      if setflags then
        (let x1 = x AND NOT 0xC0000000;
             x2 = (if res = 0 then x1 OR push_bit 30 1 else x1)
         in if res AND 0x80000000 \<noteq> 0 then x2 OR push_bit 31 1 else x2)
      else x))"

definition mm_thumb_expand_imm12_c :: "u32 \<Rightarrow> bool \<Rightarrow> u32 \<times> bool"
  where "mm_thumb_expand_imm12_c imm12 carry_in =
    (let imm8 = imm12 AND 0xff;
         top = drop_bit 10 imm12 AND 0x3;
         pat = drop_bit 8 imm12 AND 0x3
     in if top = 0 then
          ((if pat = 0 then imm8
            else if pat = 1 then push_bit 16 imm8 OR imm8
            else if pat = 2 then push_bit 24 imm8 OR push_bit 8 imm8
            else push_bit 24 imm8 OR push_bit 16 imm8 OR push_bit 8 imm8 OR imm8), carry_in)
        else
          (let unrot = push_bit 7 1 OR (imm12 AND 0x7f);
               rot = drop_bit 7 imm12 AND 0x1f;
               imm32 = (if rot = 0 then unrot
                        else drop_bit (unat rot) unrot OR push_bit (32 - unat rot) unrot)
           in (imm32, imm32 AND 0x80000000 \<noteq> 0)))"

definition mm_shift_c_imm :: "u32 \<Rightarrow> u8 \<Rightarrow> u8 \<Rightarrow> bool \<Rightarrow> u32 \<times> bool"
  where "mm_shift_c_imm value type imm5 carry_in =
    (let ty = type AND 0x3 in
     if ty = 0 then
       (if imm5 = 0 then (value, carry_in)
        else let r = mm_lsl value imm5 carry_in in (sr_value r, sr_carry r))
     else if ty = 1 then
       (let r = mm_lsr value (if imm5 = 0 then 32 else imm5) carry_in in (sr_value r, sr_carry r))
     else if ty = 2 then
       (let r = mm_asr value (if imm5 = 0 then 32 else imm5) carry_in in (sr_value r, sr_carry r))
     else
       (if imm5 = 0 then (push_bit 31 (b2u carry_in) OR drop_bit 1 value, value AND 1 \<noteq> 0)
        else let r = mm_ror value imm5 carry_in in (sr_value r, sr_carry r)))"

definition mm_ror_reg_shift_c :: "u32 \<Rightarrow> u32 \<Rightarrow> bool \<Rightarrow> u32 \<times> bool"
  where "mm_ror_reg_shift_c value shift_n carry_in =
    (let amount = shift_n AND 0xff in
     if amount = 0 then (value, carry_in)
     else let rot = amount AND 31 in
       if rot = 0 then (value, value AND 0x80000000 \<noteq> 0)
       else let res = drop_bit (unat rot) value OR push_bit (32 - unat rot) value
            in (res, res AND 0x80000000 \<noteq> 0))"

text \<open>The NZCV update shared by the two flag-setting helpers below.\<close>

definition xpsr_put_nzcv :: "u32 \<Rightarrow> u32 \<Rightarrow> bool \<Rightarrow> bool \<Rightarrow> u32"
  where "xpsr_put_nzcv x res carry overflow =
    (let x1 = x AND NOT 0xF0000000;
         x2 = (if res = 0 then x1 OR push_bit 30 1 else x1);
         x3 = (if res AND 0x80000000 \<noteq> 0 then x2 OR push_bit 31 1 else x2);
         x4 = (if carry then x3 OR push_bit 29 1 else x3)
     in if overflow then x4 OR push_bit 28 1 else x4)"

definition mm_sbcs_reg :: "u32 \<Rightarrow> u32 \<Rightarrow> u32 \<Rightarrow> bool \<Rightarrow> u32 \<times> u32"
  where "mm_sbcs_reg rn_value rm_value x setflags =
    (let (res, carry, overflow) =
           mm_add_with_carry rn_value (NOT rm_value) (x AND push_bit 29 1 \<noteq> 0)
     in (res, if setflags then xpsr_put_nzcv x res carry overflow else x))"

definition mm_adcs_reg :: "u32 \<Rightarrow> u32 \<Rightarrow> u32 \<Rightarrow> bool \<Rightarrow> u32 \<times> u32"
  where "mm_adcs_reg rn_value rm_value x setflags =
    (let (res, carry, overflow) =
           mm_add_with_carry rn_value rm_value (x AND push_bit 29 1 \<noteq> 0)
     in (res, if setflags then xpsr_put_nzcv x res carry overflow else x))"

subsection \<open>Add with carry\<close>

lemma add_with_carry_parts:
  fixes a b :: u32
  assumes "mm_add_with_carry a b c = (res, carry, overflow)"
  shows awc_total: "unat a + unat b + of_bool c = unat res + (if carry then 2 ^ 32 else 0)"
    and awc_overflow: "overflow = (bit a 31 = bit b 31 \<and> bit a 31 \<noteq> bit res 31)"
proof -
  let ?u = "to_u64 a + to_u64 b + b2u c"
  have la: "unat a < 2 ^ 32" and lb: "unat b < 2 ^ 32"
    using unat_u32_less [of a] unat_u32_less [of b] by simp_all
  note ua = unat_to_u64 [of a] and ub = unat_to_u64 [of b]
  have u: "unat ?u = unat a + unat b + of_bool c"
    using la lb ua ub by (simp add: unat_word_ariths b2u_def)
  have res: "res = to_u32 ?u" and carry: "carry = (drop_bit 32 ?u \<noteq> 0)"
    using assms by (auto simp: mm_add_with_carry_def Let_def)
  have r: "unat res = unat ?u mod 2 ^ 32"
    by (simp add: res casts unsigned_ucast_eq take_bit_eq_mod)
  have cy: "carry = (2 ^ 32 \<le> unat ?u)"
    unfolding carry word_unat_eq_iff unat_drop_bit_eq
    by (simp add: drop_bit_eq_div div_eq_0_iff not_less)
  show "unat a + unat b + of_bool c = unat res + (if carry then 2 ^ 32 else 0)"
  proof -
    define n where "n = unat a + unat b + of_bool c"
    have "n < 2 * 2 ^ 32" using la lb by (cases c) (simp_all add: n_def)
    then have "n mod 2 ^ 32 = (if n < 2 ^ 32 then n else n - 2 ^ 32)" by (simp add: le_mod_geq)
    then show ?thesis unfolding r cy u n_def [symmetric] by simp
  qed
  show "overflow = (bit a 31 = bit b 31 \<and> bit a 31 \<noteq> bit res 31)"
    using assms u32_bit31 by (auto simp: mm_add_with_carry_def Let_def bit_simps)
qed

lemma add_with_carry_signed:
  fixes a b :: u32
  assumes "mm_add_with_carry a b c = (res, carry, overflow)"
  shows "overflow \<longleftrightarrow> sint res \<noteq> sint a + sint b + of_bool c"
  using awc_total [OF assms] awc_overflow [OF assms] unat_u32_less [of a] unat_u32_less [of b]
    unat_u32_less [of res]
  by (cases c; cases carry; auto simp: sint_u32 bit31_unat simp del: of_nat_unat)

subsection \<open>Shifts\<close>

lemma u8_less_32: "n < 32 \<longleftrightarrow> unat n < 32" for n :: u8
  by (simp add: word_less_nat_alt)

lemma u8_eq_32: "n = 32 \<longleftrightarrow> unat n = 32" for n :: u8
  by (simp add: word_unat_eq_iff)

lemma u8_eq_0: "n = 0 \<longleftrightarrow> unat n = 0" for n :: u8
  by (simp add: word_unat_eq_iff)

lemmas u8_amount = u8_less_32 u8_eq_32 u8_eq_0

lemma lsl_value: "sr_value (mm_lsl v n c) = push_bit (unat n) v"
  by (rule bit_word_eqI) (auto simp: mm_lsl_def shift_zero_def u8_amount bit_simps)

lemma lsl_carry: "n \<noteq> 0 \<Longrightarrow> sr_carry (mm_lsl v n c) = (unat n \<le> 32 \<and> bit v (32 - unat n))"
  by (auto simp: mm_lsl_def u8_amount and_one_nonzero bit_drop_bit_eq)

lemma lsr_value: "sr_value (mm_lsr v n c) = drop_bit (unat n) v"
  by (rule bit_word_eqI)
    (auto simp: mm_lsr_def shift_zero_def u8_amount bit_simps dest: bit_imp_le_length)

lemma lsr_carry: "n \<noteq> 0 \<Longrightarrow> sr_carry (mm_lsr v n c) = bit v (unat n - 1)"
  by (auto simp: mm_lsr_def u8_amount drop_and_one drop31_nonzero dest: bit_imp_le_length)

lemma asr_value: "sr_value (mm_asr v n c) = signed_drop_bit (unat n) v"
proof (rule bit_word_eqI)
  fix k
  assume "k < LENGTH(32)"
  then show "bit (sr_value (mm_asr v n c)) k = bit (signed_drop_bit (unat n) v) k"
    by (auto simp: mm_asr_def shift_zero_def u8_amount bit_simps u32_bit31_eq Let_def
        bit_signed_drop_bit_iff min_def not_le not_less bits
        dest: bit_imp_le_length)
qed

lemma asr_carry: "n \<noteq> 0 \<Longrightarrow> sr_carry (mm_asr v n c) = bit v (min 31 (unat n - 1))"
  by (auto simp: mm_asr_def u8_amount and_one_nonzero bit_drop_bit_eq u32_bit31 Let_def min_def)

text \<open>Rotation by a shift pair, the idiom of \<^verbatim>\<open>mm_ror\<close>, \<^verbatim>\<open>mm_sxtb\<close> and the immediate expansion.\<close>

lemma rot_pair:
  assumes "k < 32"
  shows "drop_bit k v OR push_bit (32 - k) v = word_rotr k (v :: u32)"
proof (cases "k = 0")
  case True
  moreover have "v OR push_bit 32 v = word_rotr 0 v"
    by (simp add: bit_eq_iff bit_simps bit_word_rotr_iff)
  ultimately show ?thesis by simp
next
  case False
  show ?thesis
  proof (rule bit_word_eqI)
    fix i
    assume "i < LENGTH(32)"
    then show "bit (drop_bit k v OR push_bit (32 - k) v) i = bit (word_rotr k v) i"
      using assms False
      by (cases "i + k < 32")
        (auto simp: bit_simps bit_word_rotr_iff le_mod_geq add.commute dest: bit_imp_le_length)
  qed
qed

lemma unat_and_31: "unat (n AND 31) = unat n mod 32" for n :: "'a::len word"
proof -
  have "n AND 31 = take_bit 5 n"
    by (simp add: take_bit_eq_mask mask_eq_exp_minus_1)
  then have "unat (n AND 31) = take_bit 5 (unat n)" by (simp only: unsigned_take_bit_eq)
  then show ?thesis by (simp add: take_bit_eq_mod)
qed

lemma word_rotr_0: "word_rotr 0 v = (v :: u32)"
  by (simp add: bit_eq_iff bit_word_rotr_iff)

lemma word_rotr_mod32: "word_rotr (k mod 32) v = word_rotr k (v :: u32)"
  by (rule bit_word_eqI) (simp add: bit_word_rotr_iff mod_simps)

lemma ror_value: "sr_value (mm_ror v n c) = word_rotr (unat n) v"
proof -
  have "n AND 31 = 0 \<longleftrightarrow> unat n mod 32 = 0"
    by (simp add: word_unat_eq_iff unat_and_31)
  then show ?thesis
    using rot_pair [of "unat n mod 32" v] word_rotr_mod32 [of "unat n" v]
    by (auto simp: mm_ror_def shift_zero_def unat_and_31 Let_def word_rotr_0)
qed

lemma ror_carry: "n \<noteq> 0 \<Longrightarrow> sr_carry (mm_ror v n c) = bit (sr_value (mm_ror v n c)) 31"
  by (simp add: mm_ror_def u32_bit31 drop31_nonzero Let_def)

subsection \<open>Modified immediates\<close>

text \<open>The architecture's reference: a byte replicated in one of four patterns, or
  an 8-bit value with its top bit set rotated right by a 5-bit amount.\<close>

definition expand_imm_lanes :: "u32 \<Rightarrow> nat list"
  where "expand_imm_lanes pat =
    (if pat = 0 then [0] else if pat = 1 then [0, 2] else if pat = 2 then [1, 3] else [0, 1, 2, 3])"

definition expand_imm_bit :: "u32 \<Rightarrow> nat \<Rightarrow> bool"
  where "expand_imm_bit imm12 n =
    (if drop_bit 10 imm12 AND 3 = 0
     then n < 32 \<and> n div 8 \<in> set (expand_imm_lanes (drop_bit 8 imm12 AND 3)) \<and> bit imm12 (n mod 8)
     else bit (word_rotr (unat (drop_bit 7 imm12 AND 0x1f)) (0x80 OR (imm12 AND 0x7f))) n)"

lemma expand_imm_bits:
  "bit (fst (mm_thumb_expand_imm12_c imm12 c)) n = expand_imm_bit imm12 n"
proof (cases "drop_bit 10 imm12 AND 3 = 0")
  case True
  show ?thesis
  proof (cases "n < 32")
    case True
    define b where "b = imm12 AND 0xff"
    have b: "bit b k \<longleftrightarrow> k < 8 \<and> bit imm12 k" for k
      by (simp add: b_def and_255_bit)
    from byte_lane [OF True] show ?thesis
      using \<open>drop_bit 10 imm12 AND 3 = 0\<close> True
      by (elim disjE conjE)
        (simp_all add: mm_thumb_expand_imm12_c_def expand_imm_bit_def expand_imm_lanes_def Let_def
          bit_or_iff bit_push_bit_iff b less_diff_conv2 flip: b_def)
  next
    case False
    then have "\<not> bit (fst (mm_thumb_expand_imm12_c imm12 c)) n"
      by (auto dest: bit_imp_le_length)
    with False True show ?thesis
      by (simp add: expand_imm_bit_def)
  qed
next
  case False
  define rot u :: u32 where "rot = drop_bit 7 imm12 AND 0x1f" and "u = 0x80 OR (imm12 AND 0x7f)"
  have "unat rot < 32" unfolding rot_def unat_and_31 by simp
  note pair = rot_pair [OF this, of u]
  have "push_bit 7 1 OR (imm12 AND 0x7f) = u" by (simp add: u_def)
  with False have "fst (mm_thumb_expand_imm12_c imm12 c) =
      (if rot = 0 then u else drop_bit (unat rot) u OR push_bit (32 - unat rot) u)"
    by (simp only: mm_thumb_expand_imm12_c_def Let_def rot_def [symmetric]) simp
  then have "fst (mm_thumb_expand_imm12_c imm12 c) = word_rotr (unat rot) u"
    by (simp only: pair) (simp add: word_rotr_0)
  with False show ?thesis
    by (simp only: expand_imm_bit_def rot_def [symmetric] u_def [symmetric]) simp
qed

lemma expand_imm_carry:
  "snd (mm_thumb_expand_imm12_c imm12 c) =
    (if drop_bit 10 imm12 AND 3 = 0 then c else bit (fst (mm_thumb_expand_imm12_c imm12 c)) 31)"
  by (simp add: mm_thumb_expand_imm12_c_def Let_def u32_bit31)

subsection \<open>Reversals and counting\<close>

lemma rbit_fold:
  "k \<le> 32 \<Longrightarrow>
   bit (foldl (\<lambda>out i. push_bit 1 out OR (drop_bit i v AND 1)) 0 [0..<k]) n =
     (n < k \<and> bit (v :: u32) (k - 1 - n))"
proof (induction k arbitrary: n)
  case 0
  then show ?case by simp
next
  case (Suc k)
  define out where "out = foldl (\<lambda>out i. push_bit 1 out OR (drop_bit i v AND 1)) 0 [0..<k]"
  have IH: "bit out m = (m < k \<and> bit v (k - 1 - m))" for m
    using Suc by (simp add: out_def)
  have "bit (push_bit 1 out OR (drop_bit k v AND 1)) n = (n < Suc k \<and> bit v (k - n))"
  proof -
    have "bit (push_bit 1 out) n = (1 \<le> n \<and> n < 32 \<and> bit out (n - 1))"
      by (simp only: bit_push_bit_iff possible_bit_word) simp
    moreover have "bit (drop_bit k v AND 1) n = (n = 0 \<and> bit v k)"
      by (auto simp: bit_and_iff bit_1_iff bit_drop_bit_eq)
    ultimately show ?thesis
      using Suc.prems by (cases n) (auto simp: bit_or_iff IH)
  qed
  then show ?case by (simp add: out_def)
qed

lemma rbit_bits: "bit (mm_rbit v) n = (n < 32 \<and> bit v (31 - n))"
  using rbit_fold [of 32 v n] by (simp add: mm_rbit_def)

lemma rbit_rbit: "mm_rbit (mm_rbit v) = v"
  by (rule bit_word_eqI) (auto simp: rbit_bits)

lemma bswap32_bits:
  "bit (mm_bswap32 v) n = (n < 32 \<and> bit v (8 * (3 - n div 8) + n mod 8))"
proof (cases "n < 32")
  case True
  have "mm_bswap32 v = (drop_bit 24 v AND 0xff) OR push_bit 8 (drop_bit 16 v AND 0xff) OR
      push_bit 16 (drop_bit 8 v AND 0xff) OR push_bit 24 (v AND 0xff)"
    by (simp only: mm_bswap32_def Let_def ac_simps)
  moreover have "k < 8" if "bit (x AND 255) k" for k and x :: u32
    using that by (simp only: and_255_bit)
  ultimately have "bit (mm_bswap32 v) n = (n < 32 \<and> bit ([drop_bit 24 v AND 0xff, drop_bit 16 v AND 0xff,
      drop_bit 8 v AND 0xff, v AND 0xff] ! (n div 8)) (n mod 8))"
    by (simp only: bytes4_bit)
  with byte_lane [OF True] True show ?thesis
    by (elim disjE conjE) (simp_all add: and_255_bit bit_drop_bit_eq less_diff_conv2)
next
  case False
  then show ?thesis by (auto dest: bit_imp_le_length)
qed

lemma bswap32_bswap32: "mm_bswap32 (mm_bswap32 v) = v"
proof (rule bit_word_eqI)
  fix n
  assume "n < LENGTH(32)"
  then have n: "n < 32" by simp
  define q m where "q = n div 8" and "m = n mod 8"
  have qm: "n = 8 * q + m" "m < 8" "q \<le> 3" using n by (simp_all add: q_def m_def)
  then have "(8 * (3 - q) + m) div 8 = 3 - q" "(8 * (3 - q) + m) mod 8 = m" "8 * (3 - q) + m < 32"
    by simp_all
  with n qm show "bit (mm_bswap32 (mm_bswap32 v)) n = bit v n"
    by (simp only: bswap32_bits q_def [symmetric] m_def [symmetric]) simp
qed

lemma clz_loop_push:
  assumes "v \<noteq> 0" and "k < 32" and "\<forall>j > k. \<not> bit v j"
  shows "\<exists>m \<le> k. bit v m \<and> (\<forall>j > m. \<not> bit v j) \<and>
    clz_loop v (push_bit k 1) (of_nat (31 - k)) = of_nat (31 - m)"
  using assms(2,3)
proof (induction k)
  case 0
  have "bit v 0"
    using 0 assms(1) by (metis bit_eq_iff bit_0_eq bot_apply bot_bool_def gr0I)
  then have "v AND push_bit 0 1 \<noteq> 0" by (simp only: and_bit_nonzero)
  with \<open>bit v 0\<close> show ?case
    using 0 by (simp add: clz_loop.simps)
next
  case (Suc k)
  show ?case
  proof (cases "bit v (Suc k)")
    case True
    then have "v AND push_bit (Suc k) 1 \<noteq> 0" by (simp only: and_bit_nonzero)
    then show ?thesis using True Suc.prems
      by (intro exI [of _ "Suc k"]) (simp add: clz_loop.simps)
  next
    case False
    then have z: "v AND push_bit (Suc k) 1 = 0" using and_bit_nonzero by blast
    have nz: "push_bit (Suc k) (1 :: u32) \<noteq> 0"
    proof -
      have "bit (push_bit (Suc k) (1 :: u32)) (Suc k)"
        using Suc.prems(1) by (simp only: bit_push_bit_iff possible_bit_word) simp
      then show ?thesis by (metis bit_0_eq bot_apply bot_bool_def)
    qed
    have d: "drop_bit 1 (push_bit (Suc k) 1) = (push_bit k 1 :: u32)"
      by (rule bit_word_eqI)
        (simp only: bit_push_bit_iff bit_drop_bit_eq o_apply bit_1_iff possible_bit_word,
         use Suc.prems(1) in auto)
    have c: "of_nat (31 - Suc k) + 1 = (of_nat (31 - k) :: u32)"
      using Suc.prems(1) by (simp flip: of_nat_Suc add: Suc_diff_Suc)
    have "\<forall>j > k. \<not> bit v j"
      using Suc.prems(2) False by (metis Suc_lessI)
    from Suc.IH [OF _ this] Suc.prems(1) obtain m where
      "m \<le> k" "bit v m" "\<forall>j > m. \<not> bit v j"
      "clz_loop v (push_bit k 1) (of_nat (31 - k)) = of_nat (31 - m)" by auto
    moreover from this have "clz_loop v (push_bit (Suc k) 1) (of_nat (31 - Suc k)) = of_nat (31 - m)"
      using z nz d c by (subst clz_loop.simps) simp
    ultimately show ?thesis by (intro exI [of _ m]) simp
  qed
qed

lemma clz_spec:
  assumes "v \<noteq> 0"
  shows "\<exists>m < 32. bit v m \<and> (\<forall>j > m. \<not> bit v j) \<and> mm_clz v = of_nat (31 - m)"
proof -
  have "\<forall>j > 31. \<not> bit v j" by (auto dest: bit_imp_le_length)
  from clz_loop_push [OF assms _ this] obtain m where m: "m \<le> 31" "bit v m" "\<forall>j > m. \<not> bit v j"
    and l: "clz_loop v (push_bit 31 1) (of_nat (31 - 31)) = of_nat (31 - m)" by auto
  from l assms have "mm_clz v = of_nat (31 - m)" by (simp add: mm_clz_def)
  with m show ?thesis by (intro exI [of _ m]) simp
qed

subsection \<open>Bit fields\<close>

definition field_ok :: "u8 \<Rightarrow> u8 \<Rightarrow> bool"
  where "field_ok lsb width = (0 < unat width \<and> unat lsb + unat width \<le> 32)"

lemma field_guards:
  "(\<not> (width = 0 \<or> width > 32) \<and> \<not> lsb \<ge> 32 \<and> \<not> to_u32 lsb + to_u32 width > 32) = field_ok lsb width"
proof -
  have "unat (to_u32 lsb + to_u32 width) = unat lsb + unat width"
    using unat_u8_less [of lsb] unat_u8_less [of width]
    by (simp add: unat_word_ariths unat_u8_to_u32)
  then show ?thesis
    by (auto simp: field_ok_def word_less_nat_alt word_le_nat_alt word_unat_eq_iff)
qed

lemma exp_minus_1_bits: "k \<le> 32 \<Longrightarrow> bit (2 ^ k - 1 :: u32) n = (n < k)"
proof -
  assume "k \<le> 32"
  have "2 ^ k - 1 = (mask k :: u32)"
    by (simp add: mask_eq_exp_minus_1)
  then show ?thesis using \<open>k \<le> 32\<close> by (auto simp: bit_mask_iff)
qed

lemma ubfx_bits: "bit (mm_ubfx v lsb width) n = (field_ok lsb width \<and> n < unat width \<and> bit v (unat lsb + n))"
proof (cases "field_ok lsb width")
  case True
  then have "unat width \<le> 32" by (simp add: field_ok_def)
  moreover have "mm_ubfx v lsb width = drop_bit (unat lsb) v AND
      (if width = 32 then 0xffffffff else push_bit (unat width) 1 - 1)"
    using True by (simp add: mm_ubfx_def flip: field_guards)
  ultimately show ?thesis
    using True exp_minus_1_bits [of "unat width" n]
    by (auto simp: bit_and_iff bit_drop_bit_eq bits u8_eq_32 dest: bit_imp_le_length)
next
  case False
  then have "mm_ubfx v lsb width = 0" by (auto simp: mm_ubfx_def simp flip: field_guards)
  with False show ?thesis by simp
qed

lemma bfi_bits:
  "bit (mm_bfi dst src lsb width) n =
    (if field_ok lsb width \<and> unat lsb \<le> n \<and> n < unat lsb + unat width
     then bit src (n - unat lsb) else bit dst n)"
proof (cases "field_ok lsb width")
  case True
  then have w: "unat width \<le> 32" "unat lsb + unat width \<le> 32" by (simp_all add: field_ok_def)
  define msk :: u32 where
    "msk = (if width = 32 then 0xffffffff else push_bit (unat lsb) (push_bit (unat width) 1 - 1))"
  have m: "bit msk k = (unat lsb \<le> k \<and> k < unat lsb + unat width)" for k
    using w exp_minus_1_bits [of "unat width" "k - unat lsb"]
    by (auto simp: msk_def bit_push_bit_iff bits u8_eq_32)
  have "mm_bfi dst src lsb width = (dst AND NOT msk) OR (push_bit (unat lsb) src AND msk)"
    using True by (simp add: mm_bfi_def msk_def Let_def flip: field_guards)
  then have "bit (mm_bfi dst src lsb width) n =
      (bit dst n \<and> n < 32 \<and> \<not> bit msk n \<or> unat lsb \<le> n \<and> n < 32 \<and> bit src (n - unat lsb) \<and> bit msk n)"
    by (simp only: bit_or_iff bit_and_iff bit_push_bit_iff bit_not_iff possible_bit_word) auto
  moreover have "bit dst n \<Longrightarrow> n < 32" using bit_imp_le_length [of dst n] by simp
  ultimately show ?thesis using True w m [of n] by auto
next
  case False
  then have "mm_bfi dst src lsb width = dst" by (auto simp: mm_bfi_def simp flip: field_guards)
  with False show ?thesis by simp
qed

lemma ubfx_bfi: "field_ok lsb width \<Longrightarrow> mm_ubfx (mm_bfi dst src lsb width) lsb width = take_bit (unat width) src"
  by (rule bit_word_eqI) (auto simp: ubfx_bits bfi_bits bit_take_bit_iff field_ok_def)

lemma sbfx_signed:
  assumes "field_ok lsb width"
  shows "mm_sbfx v lsb width = signed_take_bit (unat width - 1) (mm_ubfx v lsb width)"
proof (rule bit_word_eqI)
  fix n
  assume "n < LENGTH(32)"
  then have n: "n < 32" by simp
  from assms have w: "0 < unat width" "unat width \<le> 32" by (auto simp: field_ok_def)
  define e where "e = mm_ubfx v lsb width"
  have e: "bit e k \<Longrightarrow> k < unat width" for k by (simp add: e_def ubfx_bits)
  have g: "\<not> (width = 0 \<or> width > 32)" using assms by (simp flip: field_guards)
  have p: "push_bit 1 (push_bit (unat width - 1) 1) = (push_bit (unat width) 1 :: u32)"
    using w by (simp only: push_bit_push_bit) simp
  have "mm_sbfx v lsb width = (if unat width = 32 then e
      else if bit e (unat width - 1) then e OR NOT (push_bit (unat width) 1 - 1) else e)"
    using g by (simp only: mm_sbfx_def Let_def e_def [symmetric] p if_False and_bit_nonzero
        u8_eq_32)
  moreover have "n < unat width - 1 \<or> n = unat width - 1 \<or> unat width \<le> n" by linarith
  moreover have "unat width \<le> n \<Longrightarrow> \<not> bit e n" using e [of n] by auto
  ultimately show
    "bit (mm_sbfx v lsb width) n = bit (signed_take_bit (unat width - 1) (mm_ubfx v lsb width)) n"
    unfolding e_def [symmetric] using w n exp_minus_1_bits [of "unat width" n]
    by (elim disjE; simp add: bit_signed_take_bit_iff bit_or_iff bit_not_iff min_def)
      linarith+
qed

subsection \<open>Long multiplication\<close>

lemma umul64_exact:
  "mm_umul64 a b = (lo, hi) \<Longrightarrow> unat a * unat b = unat hi * 2 ^ 32 + unat lo"
proof -
  assume asm: "mm_umul64 a b = (lo, hi)"
  define p where "p = to_u64 a * to_u64 b"
  have "unat a * unat b < 2 ^ 32 * 2 ^ 32"
    by (rule mult_strict_mono) (use unat_u32_less [of a] unat_u32_less [of b] in simp_all)
  then have p: "unat p = unat a * unat b"
    by (simp add: p_def unat_word_ariths unat_to_u64)
  have "unat lo = unat p mod 2 ^ 32"
    using asm by (auto simp: mm_umul64_def Let_def casts unsigned_ucast_eq take_bit_eq_mod p_def)
  moreover have "unat hi = unat p div 2 ^ 32"
  proof -
    have "hi = to_u32 (drop_bit 32 p)" using asm by (auto simp: mm_umul64_def Let_def p_def)
    then have "unat hi = take_bit 32 (drop_bit 32 (unat p))"
      by (simp only: casts unsigned_ucast_eq unat_drop_bit_eq) simp
    moreover have "unat p div 2 ^ 32 < 2 ^ 32"
      using unsigned_less [where 'a = nat, of p] by (simp add: less_mult_imp_div_less)
    ultimately show ?thesis by (simp add: drop_bit_eq_div take_bit_nat_eq_self)
  qed
  ultimately show ?thesis using p by (simp add: div_mult_mod_eq)
qed

end
