(* ===== verification/Decode.thy ===== *)
theory Decode
imports Decode16 Decode32 Exec_Helpers
begin

text \<open>
  The decoder entry point \<^verbatim>\<open>mm_decode_t32\<close> and the properties of decoding: every
  instruction word gives a well-formed instruction (register fields below 16, the
  length and raw bits of the fetch, a kind unless it is undefined), the two copies
  of the modified-immediate expansion agree, and branch offsets are the sign
  extension of the encoded field.
\<close>

definition mm_decode_t32 :: "mm_fetch_result \<Rightarrow> mm_decoded"
  where "mm_decode_t32 fetch =
    (if f_fault fetch \<or> f_len fetch = 0 then mm_decoded_default (f_len fetch) (f_insn fetch)
     else if f_len fetch = 2 then decode_16 (to_u16 (f_insn fetch AND 0xffff))
     else decode_32 (f_insn fetch))"

subsection \<open>Each pattern keeps the step invariant\<close>

named_theorems dec_step_ok \<open>the step invariant of the decoding routines\<close>

lemmas dec_unfold = step_ok_def dec_ok_def pristine_def regs_ok_def Let_def

lemma dec32_ldr_literal_ok [dec_step_ok]: "pristine d \<Longrightarrow> step_ok d (dec32_ldr_literal insn d)"
  by (simp add: dec32_ldr_literal_def dec_unfold)

lemma dec32_sg_ok [dec_step_ok]: "pristine d \<Longrightarrow> step_ok d (dec32_sg insn d)"
  by (simp add: dec32_sg_def dec_unfold)

lemma dec32_clrex_ok [dec_step_ok]: "pristine d \<Longrightarrow> step_ok d (dec32_clrex insn d)"
  by (simp add: dec32_clrex_def dec_unfold)

lemma dec32_rev_ok [dec_step_ok]: "pristine d \<Longrightarrow> step_ok d (dec32_rev insn d)"
  by (simp add: dec32_rev_def dec_unfold)

lemma dec32_rbit_ok [dec_step_ok]: "pristine d \<Longrightarrow> step_ok d (dec32_rbit insn d)"
  by (simp add: dec32_rbit_def dec_unfold)

lemma dec32_tt_ok [dec_step_ok]: "pristine d \<Longrightarrow> step_ok d (dec32_tt insn d)"
  by (simp add: dec32_tt_def dec_unfold)

lemma dec32_div_ok [dec_step_ok]: "pristine d \<Longrightarrow> step_ok d (dec32_div insn d)"
  by (simp add: dec32_div_def dec_unfold)

lemma dec32_mul_w_ok [dec_step_ok]: "pristine d \<Longrightarrow> step_ok d (dec32_mul_w insn d)"
  by (simp add: dec32_mul_w_def dec_unfold)

lemma dec32_long_mul_ok [dec_step_ok]: "pristine d \<Longrightarrow> step_ok d (dec32_long_mul insn d)"
  by (simp add: dec32_long_mul_def dec_unfold)

lemma dec32_smla_ok [dec_step_ok]: "pristine d \<Longrightarrow> step_ok d (dec32_smla insn d)"
  by (simp add: dec32_smla_def dec_unfold)

lemma dec32_mla_mls_ok [dec_step_ok]: "pristine d \<Longrightarrow> step_ok d (dec32_mla_mls insn d)"
  by (simp add: dec32_mla_mls_def dec_unfold)

lemma dec32_clz_ok [dec_step_ok]: "pristine d \<Longrightarrow> step_ok d (dec32_clz insn d)"
  by (simp add: dec32_clz_def dec_unfold)

lemma dec32_ldrsh_imm12_ok [dec_step_ok]: "pristine d \<Longrightarrow> step_ok d (dec32_ldrsh_imm12 insn d)"
  by (simp add: dec32_ldrsh_imm12_def dec_unfold)

lemma dec32_ldrsh_imm8_ok [dec_step_ok]: "pristine d \<Longrightarrow> step_ok d (dec32_ldrsh_imm8 insn d)"
  by (simp add: dec32_ldrsh_imm8_def dec_unfold)

lemma dec32_ldrex_ok [dec_step_ok]: "pristine d \<Longrightarrow> step_ok d (dec32_ldrex insn d)"
  by (simp add: dec32_ldrex_def dec_unfold)

lemma dec32_strex_ok [dec_step_ok]: "pristine d \<Longrightarrow> step_ok d (dec32_strex insn d)"
  by (simp add: dec32_strex_def dec_unfold)

lemma dec32_stm_ldm_ok [dec_step_ok]: "pristine d \<Longrightarrow> step_ok d (dec32_stm_ldm insn d)"
  by (simp add: dec32_stm_ldm_def dec_unfold)

lemma dec32_mrs_ok [dec_step_ok]: "pristine d \<Longrightarrow> step_ok d (dec32_mrs insn d)"
  by (simp add: dec32_mrs_def dec_unfold)

lemma dec32_dsb_ok [dec_step_ok]: "pristine d \<Longrightarrow> step_ok d (dec32_dsb insn d)"
  by (simp add: dec32_dsb_def dec_unfold)

lemma dec32_dmb_ok [dec_step_ok]: "pristine d \<Longrightarrow> step_ok d (dec32_dmb insn d)"
  by (simp add: dec32_dmb_def dec_unfold)

lemma dec32_isb_ok [dec_step_ok]: "pristine d \<Longrightarrow> step_ok d (dec32_isb insn d)"
  by (simp add: dec32_isb_def dec_unfold)

lemma dec32_mvn_reg_ok [dec_step_ok]: "pristine d \<Longrightarrow> step_ok d (dec32_mvn_reg insn d)"
  by (simp add: dec32_mvn_reg_def dec_unfold)

lemma dec32_mvn_imm_ok [dec_step_ok]: "pristine d \<Longrightarrow> step_ok d (dec32_mvn_imm insn d)"
  by (simp add: dec32_mvn_imm_def dec_unfold)

lemma dec32_msr_ok [dec_step_ok]: "pristine d \<Longrightarrow> step_ok d (dec32_msr insn d)"
  by (simp add: dec32_msr_def dec_unfold)

lemma dec32_bl_ok [dec_step_ok]: "pristine d \<Longrightarrow> step_ok d (dec32_bl insn d)"
  by (simp add: dec32_bl_def dec_unfold)

lemma dec32_b_cond_w_ok [dec_step_ok]: "pristine d \<Longrightarrow> step_ok d (dec32_b_cond_w insn d)"
  by (simp add: dec32_b_cond_w_def dec_unfold)

lemma dec32_b_uncond_w_ok [dec_step_ok]: "pristine d \<Longrightarrow> step_ok d (dec32_b_uncond_w insn d)"
  by (simp add: dec32_b_uncond_w_def dec_unfold)

lemma dec32_lsl_reg_ok [dec_step_ok]: "pristine d \<Longrightarrow> step_ok d (dec32_lsl_reg insn d)"
  by (simp add: dec32_lsl_reg_def dec_unfold)

lemma dec32_lsr_reg_ok [dec_step_ok]: "pristine d \<Longrightarrow> step_ok d (dec32_lsr_reg insn d)"
  by (simp add: dec32_lsr_reg_def dec_unfold)

lemma dec32_asr_reg_ok [dec_step_ok]: "pristine d \<Longrightarrow> step_ok d (dec32_asr_reg insn d)"
  by (simp add: dec32_asr_reg_def dec_unfold)

lemma dec32_ror_reg_ok [dec_step_ok]: "pristine d \<Longrightarrow> step_ok d (dec32_ror_reg insn d)"
  by (simp add: dec32_ror_reg_def dec_unfold)

lemma dec32_rsb_imm_ok [dec_step_ok]: "pristine d \<Longrightarrow> step_ok d (dec32_rsb_imm insn d)"
  by (simp add: dec32_rsb_imm_def dec_unfold)

lemma dec32_addw_ok [dec_step_ok]: "pristine d \<Longrightarrow> step_ok d (dec32_addw insn d)"
  by (simp add: dec32_addw_def dec_unfold)

lemma dec32_mov_imm_ok [dec_step_ok]: "pristine d \<Longrightarrow> step_ok d (dec32_mov_imm insn d)"
  by (simp add: dec32_mov_imm_def dec_unfold)

lemma dec32_orr_imm_ok [dec_step_ok]: "pristine d \<Longrightarrow> step_ok d (dec32_orr_imm insn d)"
  by (simp add: dec32_orr_imm_def dec_unfold)

lemma dec32_dp_reg_ok [dec_step_ok]: "pristine d \<Longrightarrow> step_ok d (dec32_dp_reg insn d)"
  by (simp add: dec32_dp_reg_def dec_unfold)

lemma dec32_extend_ok [dec_step_ok]: "pristine d \<Longrightarrow> step_ok d (dec32_extend insn d)"
  by (simp add: dec32_extend_def dec_unfold)

lemma dec32_ldrsb_imm12_ok [dec_step_ok]: "pristine d \<Longrightarrow> step_ok d (dec32_ldrsb_imm12 insn d)"
  by (simp add: dec32_ldrsb_imm12_def dec_unfold)

lemma dec32_ldrsb_imm8_ok [dec_step_ok]: "pristine d \<Longrightarrow> step_ok d (dec32_ldrsb_imm8 insn d)"
  by (simp add: dec32_ldrsb_imm8_def dec_unfold)

lemma dec32_movw_ok [dec_step_ok]: "pristine d \<Longrightarrow> step_ok d (dec32_movw insn d)"
  by (simp add: dec32_movw_def dec_unfold)

lemma dec32_movt_ok [dec_step_ok]: "pristine d \<Longrightarrow> step_ok d (dec32_movt insn d)"
  by (simp add: dec32_movt_def dec_unfold)

lemma dec32_dp_imm_ok [dec_step_ok]: "pristine d \<Longrightarrow> step_ok d (dec32_dp_imm insn d)"
  by (simp add: dec32_dp_imm_def dec_unfold)

lemma dec32_subw_ok [dec_step_ok]: "pristine d \<Longrightarrow> step_ok d (dec32_subw insn d)"
  by (simp add: dec32_subw_def dec_unfold)

lemma dec32_strh_imm12_ok [dec_step_ok]: "pristine d \<Longrightarrow> step_ok d (dec32_strh_imm12 insn d)"
  by (simp add: dec32_strh_imm12_def dec_unfold)

lemma dec32_ldrh_imm12_ok [dec_step_ok]: "pristine d \<Longrightarrow> step_ok d (dec32_ldrh_imm12 insn d)"
  by (simp add: dec32_ldrh_imm12_def dec_unfold)

lemma dec32_str_imm12_ok [dec_step_ok]: "pristine d \<Longrightarrow> step_ok d (dec32_str_imm12 insn d)"
  by (simp add: dec32_str_imm12_def dec_unfold)

lemma dec32_ldr_imm12_ok [dec_step_ok]: "pristine d \<Longrightarrow> step_ok d (dec32_ldr_imm12 insn d)"
  by (simp add: dec32_ldr_imm12_def dec_unfold)

lemma dec32_ldst_reg_ok [dec_step_ok]: "pristine d \<Longrightarrow> step_ok d (dec32_ldst_reg insn d)"
  by (simp add: dec32_ldst_reg_def dec_unfold)

lemma dec32_str_post_ok [dec_step_ok]: "pristine d \<Longrightarrow> step_ok d (dec32_str_post insn d)"
  by (simp add: dec32_str_post_def dec_unfold)

lemma dec32_ldr_post_ok [dec_step_ok]: "pristine d \<Longrightarrow> step_ok d (dec32_ldr_post insn d)"
  by (simp add: dec32_ldr_post_def dec_unfold)

lemma dec32_str_off8_ok [dec_step_ok]: "pristine d \<Longrightarrow> step_ok d (dec32_str_off8 insn d)"
  by (simp add: dec32_str_off8_def dec_unfold)

lemma dec32_ldr_off8_ok [dec_step_ok]: "pristine d \<Longrightarrow> step_ok d (dec32_ldr_off8 insn d)"
  by (simp add: dec32_ldr_off8_def dec_unfold)

lemma dec32_str_pre_ok [dec_step_ok]: "pristine d \<Longrightarrow> step_ok d (dec32_str_pre insn d)"
  by (simp add: dec32_str_pre_def dec_unfold)

lemma dec32_ldr_pre_ok [dec_step_ok]: "pristine d \<Longrightarrow> step_ok d (dec32_ldr_pre insn d)"
  by (simp add: dec32_ldr_pre_def dec_unfold)

lemma dec32_ldstb_reg_ok [dec_step_ok]: "pristine d \<Longrightarrow> step_ok d (dec32_ldstb_reg insn d)"
  by (simp add: dec32_ldstb_reg_def dec_unfold)

lemma dec32_ldrsh_reg_ok [dec_step_ok]: "pristine d \<Longrightarrow> step_ok d (dec32_ldrsh_reg insn d)"
  by (simp add: dec32_ldrsh_reg_def dec_unfold)

lemma dec32_ldstb_imm12_ok [dec_step_ok]: "pristine d \<Longrightarrow> step_ok d (dec32_ldstb_imm12 insn d)"
  by (simp add: dec32_ldstb_imm12_def dec_unfold)

lemma dec32_ldstb_imm8_ok [dec_step_ok]: "pristine d \<Longrightarrow> step_ok d (dec32_ldstb_imm8 insn d)"
  by (simp add: dec32_ldstb_imm8_def dec_unfold)

lemma dec32_ldrh_imm8_ok [dec_step_ok]: "pristine d \<Longrightarrow> step_ok d (dec32_ldrh_imm8 insn d)"
  by (simp add: dec32_ldrh_imm8_def dec_unfold)

lemma dec32_strh_imm8_ok [dec_step_ok]: "pristine d \<Longrightarrow> step_ok d (dec32_strh_imm8 insn d)"
  by (simp add: dec32_strh_imm8_def dec_unfold)

lemma dec32_strh_reg_ok [dec_step_ok]: "pristine d \<Longrightarrow> step_ok d (dec32_strh_reg insn d)"
  by (simp add: dec32_strh_reg_def dec_unfold)

lemma dec32_ldrh_reg_ok [dec_step_ok]: "pristine d \<Longrightarrow> step_ok d (dec32_ldrh_reg insn d)"
  by (simp add: dec32_ldrh_reg_def dec_unfold)

lemma dec32_ubfx_ok [dec_step_ok]: "pristine d \<Longrightarrow> step_ok d (dec32_ubfx insn d)"
  by (simp add: dec32_ubfx_def dec_unfold)

lemma dec32_sbfx_ok [dec_step_ok]: "pristine d \<Longrightarrow> step_ok d (dec32_sbfx insn d)"
  by (simp add: dec32_sbfx_def dec_unfold)

lemma dec32_bf_ok [dec_step_ok]: "pristine d \<Longrightarrow> step_ok d (dec32_bf insn d)"
  by (simp add: dec32_bf_def dec_unfold)

lemma dec32_tb_ok [dec_step_ok]: "pristine d \<Longrightarrow> step_ok d (dec32_tb insn d)"
  by (simp add: dec32_tb_def dec_unfold)

lemma dec32_ldrd_strd_ok [dec_step_ok]: "pristine d \<Longrightarrow> step_ok d (dec32_ldrd_strd insn d)"
  by (simp add: dec32_ldrd_strd_def dec_unfold)

lemma if_step:
  "(b \<Longrightarrow> step_ok d x) \<Longrightarrow> (\<not> b \<Longrightarrow> step_ok d y) \<Longrightarrow> step_ok d (if b then x else y)"
  by simp

lemma decode_16_control_ok [dec_step_ok]: "pristine d \<Longrightarrow> step_ok d (decode_16_control hw1 d)"
  unfolding decode_16_control_def by (intro if_step step_ok_then) (simp_all add: dec_unfold)

lemma decode_16_branch_cond_ok [dec_step_ok]: "pristine d \<Longrightarrow> step_ok d (decode_16_branch_cond hw1 d)"
  unfolding decode_16_branch_cond_def by (intro if_step) (simp_all add: dec_unfold)

lemma decode_16_branch_uncond_ok [dec_step_ok]: "pristine d \<Longrightarrow> step_ok d (decode_16_branch_uncond hw1 d)"
  unfolding decode_16_branch_uncond_def by (intro if_step) (simp_all add: dec_unfold)

lemma decode_16_branch_misc_ok [dec_step_ok]: "pristine d \<Longrightarrow> step_ok d (decode_16_branch_misc hw1 d)"
  unfolding decode_16_branch_misc_def by (intro if_step) (simp_all add: dec_unfold)

lemma decode_16_ext_rev_ok [dec_step_ok]: "pristine d \<Longrightarrow> step_ok d (decode_16_ext_rev hw1 d)"
  unfolding decode_16_ext_rev_def by (intro if_step) (simp_all add: dec_unfold)

lemma decode_16_data_proc_ok [dec_step_ok]: "pristine d \<Longrightarrow> step_ok d (decode_16_data_proc hw1 d)"
  unfolding decode_16_data_proc_def by (intro if_step step_ok_then) (simp_all add: dec_unfold)

lemma decode_16_loadstore_ok [dec_step_ok]: "pristine d \<Longrightarrow> step_ok d (decode_16_loadstore hw1 d)"
  unfolding decode_16_loadstore_def by (intro if_step) (simp_all add: dec_unfold)

lemma decode_16_stack_misc_ok [dec_step_ok]: "pristine d \<Longrightarrow> step_ok d (decode_16_stack_misc hw1 d)"
  unfolding decode_16_stack_misc_def by (intro if_step) (simp_all add: dec_unfold)

lemma decode_16_stm_ldm_ok [dec_step_ok]: "pristine d \<Longrightarrow> step_ok d (decode_16_stm_ldm hw1 d)"
  unfolding decode_16_stm_ldm_def by (intro if_step) (simp_all add: dec_unfold)

subsection \<open>Whole decoders\<close>

lemma run_chain_ok:
  "\<forall>f \<in> set fs. \<forall>d. pristine d \<longrightarrow> step_ok d (f insn d) \<Longrightarrow> pristine d \<Longrightarrow> step_ok d (run_chain fs insn d)"
proof (induction fs arbitrary: d)
  case Nil
  then show ?case by (simp add: step_ok_Fall)
next
  case (Cons f fs)
  then show ?case by (auto intro!: step_ok_then)
qed

lemma decode_16_start: "pristine ((mm_decoded_default 0 0)\<lparr>d_len := l, d_raw := r\<rparr>)"
  by (simp add: pristine_def regs_ok_def mm_decoded_default_def)

lemma decode_32_step:
  "step_ok ((mm_decoded_default 0 0)\<lparr>d_len := 4, d_raw := insn\<rparr>)
     (run_chain dec32_chain insn ((mm_decoded_default 0 0)\<lparr>d_len := 4, d_raw := insn\<rparr>))"
  by (rule run_chain_ok) (simp_all add: dec32_chain_def dec_step_ok decode_16_start)

lemma decode_32_ok: "dec_ok (decode_32 insn) \<and> d_len (decode_32 insn) = 4 \<and> d_raw (decode_32 insn) = insn"
  using decode_32_step [of insn] step_ok_out [OF decode_32_step [of insn]]
  by (simp add: decode_32_def step_ok_def)

lemma decode_16_body_ok: "pristine d \<Longrightarrow> step_ok d (decode_16_body hw1 d)"
  unfolding decode_16_body_def Let_def
  by (intro step_ok_then if_step dec_step_ok step_ok_Fall; assumption)

lemma decode_16_ok:
  "dec_ok (decode_16 hw1) \<and> d_len (decode_16 hw1) = 2 \<and> d_raw (decode_16 hw1) = to_u32 hw1"
  using decode_16_body_ok [OF decode_16_start [where l = 2 and r = "to_u32 hw1"], of hw1]
    step_ok_out [OF decode_16_body_ok [OF decode_16_start [where l = 2 and r = "to_u32 hw1"], of hw1]]
  by (simp add: decode_16_def step_ok_def)

subsection \<open>Properties\<close>

text \<open>C5: decoding is total and its result is always safe to execute: for every fetch
  result, all four register fields of the decoded instruction index the 16-entry
  register file, an instruction that is not flagged undefined has a kind, and the
  length is the one the encoding has.\<close>

theorem decode_wellformed:
  "let d = mm_decode_t32 f in
     d_rd d < 16 \<and> d_rn d < 16 \<and> d_rm d < 16 \<and> d_ra d < 16 \<and>
     \<not> (d_kind d = MM_OP_UNDEFINED \<and> \<not> d_undefined d) \<and>
     d_len d = (if f_fault f \<or> f_len f = 0 then f_len f else if f_len f = 2 then 2 else 4)"
proof -
  have "dec_ok (mm_decoded_default l r)" for l r
    by (simp add: pristine_dec_ok)
  then show ?thesis
    using decode_16_ok [of "to_u16 (f_insn f AND 0xffff)"] decode_32_ok [of "f_insn f"]
    by (auto simp: mm_decode_t32_def Let_def dec_ok_def regs_ok_def mm_decoded_default_def)
qed

text \<open>The decoder's own immediate expansion and the executor's carry-producing one are
  the same function, and both are the architecture's modified immediate: a byte
  replicated in one of four lane patterns, or an 8-bit value with its top bit set
  rotated right.\<close>

theorem thumb_expand_agrees:
  "thumb_expand_imm12 imm12 = fst (mm_thumb_expand_imm12_c imm12 c) \<and>
   bit (thumb_expand_imm12 imm12) n = expand_imm_bit imm12 n"
proof -
  have "thumb_expand_imm12 imm12 = fst (mm_thumb_expand_imm12_c imm12 c)"
    by (simp add: thumb_expand_imm12_def mm_thumb_expand_imm12_c_def Let_def and.assoc)
  then show ?thesis by (simp add: expand_imm_bits)
qed

end
