(* ===== verification/Cpu_State.thy ===== *)
theory Cpu_State
imports Prelude
begin

text \<open>
  The processor state \<^verbatim>\<open>struct mm_cpu\<close> (\<^verbatim>\<open>include/m33mu/cpu.h\<close>) and the accessors of
  \<^verbatim>\<open>src/m33mu/cpu.c\<close>: the banked stack pointers, CONTROL and VTOR, the MSP usage
  tracking and the local exclusive monitor.

  The fixed-size arrays of the struct are functions from their index type: the
  register file is indexed by the \<^verbatim>\<open>mm_u8\<close> register fields that the decoder
  produces, the nesting stacks by nat.  The locale \<^verbatim>\<open>banked\<close> is the contract of a
  register with a Secure and a Non-secure bank.
\<close>

datatype mm_sec_state = MM_NONSECURE | MM_SECURE

datatype mm_mode = MM_THREAD | MM_HANDLER

lemma not_nonsecure [simp]: "s \<noteq> MM_NONSECURE \<longleftrightarrow> s = MM_SECURE"
  by (cases s) simp_all

lemma not_secure [simp]: "s \<noteq> MM_SECURE \<longleftrightarrow> s = MM_NONSECURE"
  by (cases s) simp_all

lemma not_handler [simp]: "m \<noteq> MM_HANDLER \<longleftrightarrow> m = MM_THREAD"
  by (cases m) simp_all

record mm_cpu =
  cpu_r :: "u8 \<Rightarrow> u32"
  xpsr :: u32
  sec_state :: mm_sec_state
  cpu_mode :: mm_mode
  priv_s :: bool
  priv_ns :: bool
  msp_s :: u32
  psp_s :: u32
  msp_ns :: u32
  psp_ns :: u32
  msp_top_s :: u32
  msp_min_s :: u32
  msp_top_ns :: u32
  msp_min_ns :: u32
  msp_top_s_valid :: bool
  msp_top_ns_valid :: bool
  msplim_s :: u32
  psplim_s :: u32
  msplim_ns :: u32
  psplim_ns :: u32
  control_s :: u32
  control_ns :: u32
  primask_s :: u32
  primask_ns :: u32
  basepri_s :: u32
  basepri_ns :: u32
  faultmask_s :: u32
  faultmask_ns :: u32
  vtor_s :: u32
  vtor_ns :: u32
  exc_sp :: "nat \<Rightarrow> u32"
  exc_use_psp :: "nat \<Rightarrow> bool"
  exc_sec :: "nat \<Rightarrow> mm_sec_state"
  exc_depth :: nat
  tz_ret_pc :: "nat \<Rightarrow> u32"
  tz_ret_sec :: "nat \<Rightarrow> mm_sec_state"
  tz_ret_mode :: "nat \<Rightarrow> mm_mode"
  tz_depth :: nat
  sleeping :: bool
  event_reg :: bool
  excl_valid :: bool
  excl_sec :: mm_sec_state
  excl_addr :: u32
  excl_size :: u32

definition MM_EXC_STACK_MAX :: nat where "MM_EXC_STACK_MAX = 64"
definition MM_TZ_STACK_MAX :: nat where "MM_TZ_STACK_MAX = 32"

text \<open>The all-zero struct, as \<^verbatim>\<open>memset(&cpu, 0, sizeof(cpu))\<close> leaves it.\<close>

definition cpu_zero :: mm_cpu
  where "cpu_zero = \<lparr>
    cpu_r = (\<lambda>_. 0), xpsr = 0, sec_state = MM_NONSECURE, cpu_mode = MM_THREAD,
    priv_s = False, priv_ns = False,
    msp_s = 0, psp_s = 0, msp_ns = 0, psp_ns = 0,
    msp_top_s = 0, msp_min_s = 0, msp_top_ns = 0, msp_min_ns = 0,
    msp_top_s_valid = False, msp_top_ns_valid = False,
    msplim_s = 0, psplim_s = 0, msplim_ns = 0, psplim_ns = 0,
    control_s = 0, control_ns = 0, primask_s = 0, primask_ns = 0,
    basepri_s = 0, basepri_ns = 0, faultmask_s = 0, faultmask_ns = 0,
    vtor_s = 0, vtor_ns = 0,
    exc_sp = (\<lambda>_. 0), exc_use_psp = (\<lambda>_. False), exc_sec = (\<lambda>_. MM_NONSECURE), exc_depth = 0,
    tz_ret_pc = (\<lambda>_. 0), tz_ret_sec = (\<lambda>_. MM_NONSECURE), tz_ret_mode = (\<lambda>_. MM_THREAD),
    tz_depth = 0, sleeping = False, event_reg = False,
    excl_valid = False, excl_sec = MM_NONSECURE, excl_addr = 0, excl_size = 0 \<rparr>"

abbreviation set_r :: "u8 \<Rightarrow> u32 \<Rightarrow> mm_cpu \<Rightarrow> mm_cpu"
  where "set_r i v c \<equiv> c\<lparr>cpu_r := (cpu_r c)(i := v)\<rparr>"

subsection \<open>Accessors\<close>

definition control_sp_sel :: "mm_cpu \<Rightarrow> bool"
  where "control_sp_sel c =
    (let control = (if sec_state c = MM_NONSECURE then control_ns c else control_s c)
     in control AND 0x2 \<noteq> 0)"

definition cpu_init_msp_top :: "mm_cpu \<Rightarrow> mm_sec_state \<Rightarrow> u32 \<Rightarrow> mm_cpu"
  where "cpu_init_msp_top c sec v =
    (if sec = MM_NONSECURE then
       (if \<not> msp_top_ns_valid c \<and> v \<noteq> 0
        then c\<lparr>msp_top_ns := v, msp_min_ns := v, msp_top_ns_valid := True\<rparr> else c)
     else if \<not> msp_top_s_valid c \<and> v \<noteq> 0
        then c\<lparr>msp_top_s := v, msp_min_s := v, msp_top_s_valid := True\<rparr> else c)"

definition cpu_update_msp_min :: "mm_cpu \<Rightarrow> mm_sec_state \<Rightarrow> u32 \<Rightarrow> mm_cpu"
  where "cpu_update_msp_min c sec v =
    (if sec = MM_NONSECURE then
       (if msp_top_ns_valid c \<and> v < msp_min_ns c then c\<lparr>msp_min_ns := v\<rparr> else c)
     else if msp_top_s_valid c \<and> v < msp_min_s c then c\<lparr>msp_min_s := v\<rparr> else c)"

definition mm_cpu_note_msp_top :: "mm_cpu \<Rightarrow> mm_sec_state \<Rightarrow> mm_cpu"
  where "mm_cpu_note_msp_top c sec =
    cpu_init_msp_top c sec (if sec = MM_NONSECURE then msp_ns c else msp_s c)"

text \<open>The \<^verbatim>\<open>use_psp\<close> computation that opens the three active-SP accessors.\<close>

definition use_psp :: "mm_cpu \<Rightarrow> bool"
  where "use_psp c = (if cpu_mode c = MM_HANDLER then False else control_sp_sel c)"

definition mm_cpu_get_active_sp :: "mm_cpu \<Rightarrow> u32"
  where "mm_cpu_get_active_sp c =
    (if use_psp c then (if sec_state c = MM_NONSECURE then psp_ns c else psp_s c)
     else (if sec_state c = MM_NONSECURE then msp_ns c else msp_s c))"

definition mm_cpu_set_active_sp :: "mm_cpu \<Rightarrow> u32 \<Rightarrow> mm_cpu"
  where "mm_cpu_set_active_sp c v =
    (let c1 = (if use_psp c then
                 (if sec_state c = MM_NONSECURE then c\<lparr>psp_ns := v\<rparr> else c\<lparr>psp_s := v\<rparr>)
               else
                 (let c0 = (if sec_state c = MM_NONSECURE then c\<lparr>msp_ns := v\<rparr> else c\<lparr>msp_s := v\<rparr>)
                  in cpu_update_msp_min (cpu_init_msp_top c0 (sec_state c) v) (sec_state c) v))
     in set_r 13 v c1)"

definition mm_cpu_get_active_splim :: "mm_cpu \<Rightarrow> u32"
  where "mm_cpu_get_active_splim c =
    (if use_psp c then (if sec_state c = MM_NONSECURE then psplim_ns c else psplim_s c)
     else (if sec_state c = MM_NONSECURE then msplim_ns c else msplim_s c))"

definition mm_cpu_get_msp :: "mm_cpu \<Rightarrow> mm_sec_state \<Rightarrow> u32"
  where "mm_cpu_get_msp c sec = (if sec = MM_NONSECURE then msp_ns c else msp_s c)"

definition mm_cpu_set_msp :: "mm_cpu \<Rightarrow> mm_sec_state \<Rightarrow> u32 \<Rightarrow> mm_cpu"
  where "mm_cpu_set_msp c sec v =
    (let c1 = (if sec = MM_NONSECURE then c\<lparr>msp_ns := v\<rparr> else c\<lparr>msp_s := v\<rparr>);
         c2 = (if sec = MM_SECURE then cpu_init_msp_top c1 sec v else c1)
     in cpu_update_msp_min c2 sec v)"

definition mm_cpu_get_psp :: "mm_cpu \<Rightarrow> mm_sec_state \<Rightarrow> u32"
  where "mm_cpu_get_psp c sec = (if sec = MM_NONSECURE then psp_ns c else psp_s c)"

definition mm_cpu_set_psp :: "mm_cpu \<Rightarrow> mm_sec_state \<Rightarrow> u32 \<Rightarrow> mm_cpu"
  where "mm_cpu_set_psp c sec v = (if sec = MM_NONSECURE then c\<lparr>psp_ns := v\<rparr> else c\<lparr>psp_s := v\<rparr>)"

definition mm_cpu_get_control :: "mm_cpu \<Rightarrow> mm_sec_state \<Rightarrow> u32"
  where "mm_cpu_get_control c sec = (if sec = MM_NONSECURE then control_ns c else control_s c)"

definition mm_cpu_set_control :: "mm_cpu \<Rightarrow> mm_sec_state \<Rightarrow> u32 \<Rightarrow> mm_cpu"
  where "mm_cpu_set_control c sec v =
    (let c1 = (if sec = MM_NONSECURE then c\<lparr>control_ns := v\<rparr> else c\<lparr>control_s := v\<rparr>)
     in if sec = MM_NONSECURE then c1\<lparr>priv_ns := (v AND 1 \<noteq> 0)\<rparr>
        else c1\<lparr>priv_s := (v AND 1 \<noteq> 0)\<rparr>)"

definition mm_cpu_get_vtor :: "mm_cpu \<Rightarrow> mm_sec_state \<Rightarrow> u32"
  where "mm_cpu_get_vtor c sec = (if sec = MM_NONSECURE then vtor_ns c else vtor_s c)"

definition mm_cpu_set_vtor :: "mm_cpu \<Rightarrow> mm_sec_state \<Rightarrow> u32 \<Rightarrow> mm_cpu"
  where "mm_cpu_set_vtor c sec v = (if sec = MM_NONSECURE then c\<lparr>vtor_ns := v\<rparr> else c\<lparr>vtor_s := v\<rparr>)"

definition mm_cpu_set_mode :: "mm_cpu \<Rightarrow> mm_mode \<Rightarrow> mm_cpu"
  where "mm_cpu_set_mode c m = c\<lparr>cpu_mode := m\<rparr>"

definition mm_cpu_set_security :: "mm_cpu \<Rightarrow> mm_sec_state \<Rightarrow> mm_cpu"
  where "mm_cpu_set_security c sec = c\<lparr>sec_state := sec\<rparr>"

definition mm_cpu_get_privileged :: "mm_cpu \<Rightarrow> bool"
  where "mm_cpu_get_privileged c =
    (if sec_state c = MM_NONSECURE then \<not> priv_ns c else \<not> priv_s c)"

definition mm_cpu_set_privileged :: "mm_cpu \<Rightarrow> bool \<Rightarrow> mm_cpu"
  where "mm_cpu_set_privileged c unpriv =
    (if sec_state c = MM_NONSECURE
     then c\<lparr>priv_ns := unpriv, control_ns := (control_ns c AND NOT 1) OR b2u unpriv\<rparr>
     else c\<lparr>priv_s := unpriv, control_s := (control_s c AND NOT 1) OR b2u unpriv\<rparr>)"

definition mm_cpu_excl_set :: "mm_cpu \<Rightarrow> mm_sec_state \<Rightarrow> u32 \<Rightarrow> u32 \<Rightarrow> mm_cpu"
  where "mm_cpu_excl_set c sec addr sz =
    c\<lparr>excl_valid := True, excl_sec := sec, excl_addr := addr, excl_size := sz\<rparr>"

definition mm_cpu_excl_clear :: "mm_cpu \<Rightarrow> mm_cpu"
  where "mm_cpu_excl_clear c =
    c\<lparr>excl_valid := False, excl_addr := 0, excl_size := 0, excl_sec := MM_NONSECURE\<rparr>"

definition mm_cpu_excl_check_and_clear ::
  "mm_cpu \<Rightarrow> mm_sec_state \<Rightarrow> u32 \<Rightarrow> u32 \<Rightarrow> bool \<times> mm_cpu"
  where "mm_cpu_excl_check_and_clear c sec addr sz =
    (let ok = (excl_valid c \<and> excl_sec c = sec \<and> excl_addr c = addr \<and> excl_size c = sz)
     in (ok, mm_cpu_excl_clear c))"

lemmas cpu_access_defs =
  mm_cpu_get_msp_def mm_cpu_set_msp_def mm_cpu_get_psp_def mm_cpu_set_psp_def
  mm_cpu_get_control_def mm_cpu_set_control_def mm_cpu_get_vtor_def mm_cpu_set_vtor_def

lemmas msp_track_defs = cpu_init_msp_top_def cpu_update_msp_min_def

subsection \<open>The contract of a banked register\<close>

locale banked =
  fixes get :: "mm_cpu \<Rightarrow> mm_sec_state \<Rightarrow> u32"
    and set_bank :: "mm_cpu \<Rightarrow> mm_sec_state \<Rightarrow> u32 \<Rightarrow> mm_cpu"
  assumes get_same: "get (set_bank c s v) s = v"
    and get_other: "s \<noteq> s' \<Longrightarrow> get (set_bank c s v) s' = get c s'"
begin

definition writes :: "mm_cpu \<Rightarrow> (mm_sec_state \<times> u32) list \<Rightarrow> mm_cpu"
  where "writes c ws = fold (\<lambda>(s, v) c. set_bank c s v) ws c"

lemma writes_append: "writes c (ws @ vs) = writes (writes c ws) vs"
  by (simp add: writes_def)

lemma get_writes:
  "get (writes c ws) s = (case filter (\<lambda>w. fst w = s) (rev ws) of [] \<Rightarrow> get c s | w # _ \<Rightarrow> snd w)"
proof (induction ws rule: rev_induct)
  case Nil
  then show ?case by (simp add: writes_def)
next
  case (snoc w ws)
  then show ?case
    by (cases w) (auto simp: writes_append, auto simp: writes_def get_same get_other)
qed

lemma other_bank_untouched: "\<forall>w \<in> set ws. fst w \<noteq> s \<Longrightarrow> get (writes c ws) s = get c s"
  by (simp add: get_writes filter_False)

end

interpretation msp_bank: banked mm_cpu_get_msp mm_cpu_set_msp
  by unfold_locales (auto simp: cpu_access_defs msp_track_defs Let_def)

interpretation psp_bank: banked mm_cpu_get_psp mm_cpu_set_psp
  by unfold_locales (auto simp: cpu_access_defs)

interpretation control_bank: banked mm_cpu_get_control mm_cpu_set_control
  by unfold_locales (auto simp: cpu_access_defs Let_def)

interpretation vtor_bank: banked mm_cpu_get_vtor mm_cpu_set_vtor
  by unfold_locales (auto simp: cpu_access_defs)

subsection \<open>The active stack pointer\<close>

lemma use_psp_set_active_sp [simp]: "use_psp (mm_cpu_set_active_sp c v) = use_psp c"
  by (simp add: use_psp_def control_sp_sel_def mm_cpu_set_active_sp_def msp_track_defs Let_def)

lemma sec_set_active_sp [simp]: "sec_state (mm_cpu_set_active_sp c v) = sec_state c"
  by (simp add: mm_cpu_set_active_sp_def msp_track_defs Let_def)

lemma mode_set_active_sp [simp]: "cpu_mode (mm_cpu_set_active_sp c v) = cpu_mode c"
  by (simp add: mm_cpu_set_active_sp_def msp_track_defs Let_def)

lemma get_set_active_sp [simp]: "mm_cpu_get_active_sp (mm_cpu_set_active_sp c v) = v"
  unfolding mm_cpu_get_active_sp_def by simp
    (simp add: mm_cpu_set_active_sp_def msp_track_defs Let_def)

lemma r_set_active_sp [simp]:
  "cpu_r (mm_cpu_set_active_sp c v) = (cpu_r c)(13 := v)"
  by (simp add: mm_cpu_set_active_sp_def msp_track_defs Let_def)

text \<open>The bank that the active-SP accessors address in a given state.\<close>

definition sp_bank :: "mm_cpu \<Rightarrow> bool \<times> mm_sec_state"
  where "sp_bank c = (use_psp c, sec_state c)"

definition sp_of :: "mm_cpu \<Rightarrow> bool \<times> mm_sec_state \<Rightarrow> u32"
  where "sp_of c b = (if fst b then mm_cpu_get_psp c (snd b) else mm_cpu_get_msp c (snd b))"

lemma active_sp_is_bank: "mm_cpu_get_active_sp c = sp_of c (sp_bank c)"
  by (simp add: mm_cpu_get_active_sp_def sp_of_def sp_bank_def mm_cpu_get_psp_def mm_cpu_get_msp_def)

lemma sp_of_set_active_sp:
  "sp_of (mm_cpu_set_active_sp c v) b = (if b = sp_bank c then v else sp_of c b)"
  by (cases b; cases "snd b"; cases "sec_state c")
    (auto simp: sp_of_def sp_bank_def mm_cpu_set_active_sp_def msp_track_defs Let_def
      mm_cpu_get_psp_def mm_cpu_get_msp_def)

subsection \<open>MSP usage tracking\<close>

definition msp_track_ok :: "mm_cpu \<Rightarrow> bool"
  where "msp_track_ok c =
    ((msp_top_s_valid c \<longrightarrow> msp_top_s c \<noteq> 0 \<and> msp_min_s c \<le> msp_top_s c \<and> msp_min_s c \<le> msp_s c) \<and>
     (msp_top_ns_valid c \<longrightarrow> msp_top_ns c \<noteq> 0 \<and> msp_min_ns c \<le> msp_top_ns c \<and> msp_min_ns c \<le> msp_ns c))"

datatype cpu_op =
    SetActiveSp u32
  | SetMsp mm_sec_state u32
  | SetPsp mm_sec_state u32
  | SetControl mm_sec_state u32
  | SetVtor mm_sec_state u32
  | SetMode mm_mode
  | SetSecurity mm_sec_state
  | SetPrivileged bool
  | NoteMspTop mm_sec_state
  | ExclSet mm_sec_state u32 u32
  | ExclClear

primrec run_cpu_op :: "cpu_op \<Rightarrow> mm_cpu \<Rightarrow> mm_cpu" where
  "run_cpu_op (SetActiveSp v) c = mm_cpu_set_active_sp c v"
| "run_cpu_op (SetMsp s v) c = mm_cpu_set_msp c s v"
| "run_cpu_op (SetPsp s v) c = mm_cpu_set_psp c s v"
| "run_cpu_op (SetControl s v) c = mm_cpu_set_control c s v"
| "run_cpu_op (SetVtor s v) c = mm_cpu_set_vtor c s v"
| "run_cpu_op (SetMode m) c = mm_cpu_set_mode c m"
| "run_cpu_op (SetSecurity s) c = mm_cpu_set_security c s"
| "run_cpu_op (SetPrivileged u) c = mm_cpu_set_privileged c u"
| "run_cpu_op (NoteMspTop s) c = mm_cpu_note_msp_top c s"
| "run_cpu_op (ExclSet s a n) c = mm_cpu_excl_set c s a n"
| "run_cpu_op ExclClear c = mm_cpu_excl_clear c"

lemma set_active_sp_track: "msp_track_ok c \<Longrightarrow> msp_track_ok (mm_cpu_set_active_sp c v)"
  by (auto simp: msp_track_ok_def mm_cpu_set_active_sp_def msp_track_defs Let_def not_less)

lemma set_msp_track: "msp_track_ok c \<Longrightarrow> msp_track_ok (mm_cpu_set_msp c s v)"
  by (cases s) (auto simp: msp_track_ok_def mm_cpu_set_msp_def msp_track_defs Let_def not_less)

lemma note_msp_top_track: "msp_track_ok c \<Longrightarrow> msp_track_ok (mm_cpu_note_msp_top c s)"
  by (auto simp: msp_track_ok_def mm_cpu_note_msp_top_def msp_track_defs)

lemma run_cpu_op_track: "msp_track_ok c \<Longrightarrow> msp_track_ok (run_cpu_op op c)"
  by (cases op)
    (simp_all add: set_active_sp_track set_msp_track note_msp_top_track,
     auto simp: msp_track_ok_def cpu_access_defs mm_cpu_set_mode_def mm_cpu_set_security_def
       mm_cpu_set_privileged_def mm_cpu_excl_set_def mm_cpu_excl_clear_def Let_def)

lemma cpu_zero_track: "msp_track_ok cpu_zero"
  by (simp add: msp_track_ok_def cpu_zero_def)

inductive cpu_reachable :: "mm_cpu \<Rightarrow> bool" where
  init: "cpu_reachable cpu_zero"
| step: "cpu_reachable c \<Longrightarrow> cpu_reachable (run_cpu_op op c)"

end
