(* ===== verification/Exec_Alu.thy ===== *)
theory Exec_Alu
imports Decode_Types Exec_Helpers Cpu_State
begin

text \<open>
  Data processing in \<^verbatim>\<open>src/execute.c\<close>: the cases of \<^verbatim>\<open>mm_execute_decoded\<close> that read and
  write only the register file and the flags.  Each case is one operation on the processor
  with the number of instructions left in the IT block, the fetch and the decoded
  instruction as arguments; the \<^verbatim>\<open>switch\<close> is a table from instruction kinds to operations.
\<close>

type_synonym alu_op = "u8 \<Rightarrow> mm_fetch_result \<Rightarrow> mm_decoded \<Rightarrow> mm_cpu \<Rightarrow> mm_cpu"

subsection \<open>Operands and flags\<close>

definition c_flag :: "u32 \<Rightarrow> bool"
  where "c_flag x = (x AND push_bit 29 1 \<noteq> 0)"

definition s_bit :: "mm_decoded \<Rightarrow> bool"
  where "s_bit d = (drop_bit 20 (d_raw d) AND 1 \<noteq> 0)"

definition reg_form :: "mm_decoded \<Rightarrow> bool"
  where "reg_form d = (d_raw d AND 0xfe000000 = 0xea000000)"

definition shift_reg_operand :: "u32 \<Rightarrow> u32 \<Rightarrow> u32 \<Rightarrow> u32 \<times> bool"
  where "shift_reg_operand rm_val packed_shift x =
    (let type = to_u8 (drop_bit 5 packed_shift AND 0x3);
         imm5 = to_u8 (packed_shift AND 0x1f)
     in mm_shift_c_imm rm_val type imm5 (c_flag x))"

abbreviation shifted_rm :: "mm_decoded \<Rightarrow> mm_cpu \<Rightarrow> u32 \<times> bool"
  where "shifted_rm d c \<equiv> shift_reg_operand (cpu_r c (d_rm d)) (d_imm d) (xpsr c)"

text \<open>The immediate field as the encoding holds it, re-read for the carry of the expansion.\<close>

definition raw_imm12 :: "mm_decoded \<Rightarrow> u32"
  where "raw_imm12 d =
    push_bit 11 (drop_bit 26 (d_raw d) AND 1) OR push_bit 8 (drop_bit 12 (d_raw d) AND 0x7) OR
    (d_raw d AND 0xff)"

text \<open>The flag updates: N and Z; N, Z and C; and \<^verbatim>\<open>xpsr_put_nzcv\<close> for all four.\<close>

definition xpsr_put_nz :: "u32 \<Rightarrow> u32 \<Rightarrow> u32"
  where "xpsr_put_nz x res =
    (let x1 = x AND NOT 0xC0000000;
         x2 = (if res = 0 then x1 OR push_bit 30 1 else x1)
     in if res AND 0x80000000 \<noteq> 0 then x2 OR push_bit 31 1 else x2)"

definition xpsr_put_nzc :: "u32 \<Rightarrow> u32 \<Rightarrow> bool \<Rightarrow> u32"
  where "xpsr_put_nzc x res carry =
    (let x1 = x AND NOT 0xE0000000;
         x2 = (if res = 0 then x1 OR push_bit 30 1 else x1);
         x3 = (if res AND 0x80000000 \<noteq> 0 then x2 OR push_bit 31 1 else x2)
     in if carry then x3 OR push_bit 29 1 else x3)"

text \<open>The three ways the code decides whether the instruction sets flags.\<close>

definition flags_le1 :: "u8 \<Rightarrow> mm_decoded \<Rightarrow> bool"
  where "flags_le1 it d =
    (if d_len d = 2 then it \<le> 1 else if d_len d = 4 \<and> s_bit d then it \<le> 1 else False)"

definition flags_eq0 :: "u8 \<Rightarrow> mm_decoded \<Rightarrow> bool"
  where "flags_eq0 it d =
    (if d_len d = 2 then it = 0 else if d_len d = 4 \<and> s_bit d then it \<le> 1 else False)"

definition put_result :: "u8 \<Rightarrow> u32 \<Rightarrow> u32 \<Rightarrow> mm_cpu \<Rightarrow> mm_cpu"
  where "put_result rd res x c = (set_r rd res c)\<lparr>xpsr := x\<rparr>"

text \<open>A sum written to \<^verbatim>\<open>rd\<close> with all four flags, and the flags alone.\<close>

definition sum_flags :: "u8 \<Rightarrow> u32 \<Rightarrow> u32 \<Rightarrow> bool \<Rightarrow> mm_cpu \<Rightarrow> mm_cpu"
  where "sum_flags rd a b carry_in c =
    (let (res, cflag, vflag) = mm_add_with_carry a b carry_in
     in put_result rd res (xpsr_put_nzcv (xpsr c) res cflag vflag) c)"

definition compare_flags :: "u32 \<Rightarrow> u32 \<Rightarrow> bool \<Rightarrow> mm_cpu \<Rightarrow> mm_cpu"
  where "compare_flags a b carry_in c =
    (let (res, cflag, vflag) = mm_add_with_carry a b carry_in
     in c\<lparr>xpsr := xpsr_put_nzcv (xpsr c) res cflag vflag\<rparr>)"

text \<open>A shift result: the shifts clear V together with N, Z and C.\<close>

definition shift_result :: "bool \<Rightarrow> u8 \<Rightarrow> u32 \<Rightarrow> bool \<Rightarrow> mm_cpu \<Rightarrow> mm_cpu"
  where "shift_result setflags rd res carry c =
    put_result rd res (if setflags then xpsr_put_nzcv (xpsr c) res carry False else xpsr c) c"

definition logic_result :: "bool \<Rightarrow> u8 \<Rightarrow> u32 \<Rightarrow> bool \<Rightarrow> mm_cpu \<Rightarrow> mm_cpu"
  where "logic_result setflags rd res carry c =
    put_result rd res (if setflags then xpsr_put_nzc (xpsr c) res carry else xpsr c) c"

subsection \<open>Moves, additions and subtractions\<close>

definition op_MOV_IMM :: alu_op
  where "op_MOV_IMM it f d c = set_r (d_rd d) (d_imm d) c"

definition op_MOVW :: alu_op
  where "op_MOVW it f d c = set_r (d_rd d) (d_imm d AND 0xffff) c"

definition op_MOVT :: alu_op
  where "op_MOVT it f d c =
    set_r (d_rd d) ((cpu_r c (d_rd d) AND 0x0000ffff) OR push_bit 16 (d_imm d AND 0xffff)) c"

definition op_RSB_IMM :: alu_op
  where "op_RSB_IMM it f d c =
    (let (res, cflag, vflag) = mm_add_with_carry (d_imm d) (NOT (cpu_r c (d_rn d))) True
     in put_result (d_rd d) res
          (if d_raw d AND push_bit 20 1 \<noteq> 0 then xpsr_put_nzcv (xpsr c) res cflag vflag else xpsr c) c)"

definition op_ADD_REG :: alu_op
  where "op_ADD_REG it f d c =
    (if reg_form d then
       (let rhs = fst (shifted_rm d c) in
        if d_raw d AND push_bit 20 1 \<noteq> 0 then sum_flags (d_rd d) (cpu_r c (d_rn d)) rhs False c
        else set_r (d_rd d) (cpu_r c (d_rn d) + rhs) c)
     else
       (let setflags = (if d_len d = 2 then (if d_raw d AND 0xfc00 = 0x4400 then False else it \<le> 1) else False) in
        if setflags then sum_flags (d_rd d) (cpu_r c (d_rn d)) (cpu_r c (d_rm d)) False c
        else set_r (d_rd d) (cpu_r c (d_rn d) + cpu_r c (d_rm d)) c))"

definition op_SUB_REG :: alu_op
  where "op_SUB_REG it f d c =
    (if reg_form d then
       (let rhs = fst (shifted_rm d c) in
        if d_raw d AND push_bit 20 1 \<noteq> 0 then sum_flags (d_rd d) (cpu_r c (d_rn d)) (NOT rhs) True c
        else set_r (d_rd d) (cpu_r c (d_rn d) - rhs) c)
     else
       (let setflags = (if d_len d = 2 then it \<le> 1 else False) in
        if setflags then sum_flags (d_rd d) (cpu_r c (d_rn d)) (NOT (cpu_r c (d_rm d))) True c
        else set_r (d_rd d) (cpu_r c (d_rn d) - cpu_r c (d_rm d)) c))"

definition op_RSB_REG :: alu_op
  where "op_RSB_REG it f d c =
    (let rhs = fst (shifted_rm d c) in
     if d_raw d AND push_bit 20 1 \<noteq> 0 then sum_flags (d_rd d) rhs (NOT (cpu_r c (d_rn d))) True c
     else set_r (d_rd d) (rhs - cpu_r c (d_rn d)) c)"

definition op_NEG :: alu_op
  where "op_NEG it f d c = sum_flags (d_rd d) 0 (NOT (cpu_r c (d_rm d))) True c"

definition op_SBCS_REG :: alu_op
  where "op_SBCS_REG it f d c =
    (let (res, x) =
       (if reg_form d then
          mm_sbcs_reg (cpu_r c (d_rn d)) (fst (shifted_rm d c)) (xpsr c) (if s_bit d then it \<le> 1 else False)
        else mm_sbcs_reg (cpu_r c (d_rn d)) (cpu_r c (d_rm d)) (xpsr c) (it \<le> 1))
     in put_result (d_rd d) res x c)"

definition op_ADCS_REG :: alu_op
  where "op_ADCS_REG it f d c =
    (let setflags = flags_le1 it d;
         (res, x) =
       (if reg_form d then mm_adcs_reg (cpu_r c (d_rn d)) (fst (shifted_rm d c)) (xpsr c) setflags
        else mm_adcs_reg (cpu_r c (d_rn d)) (cpu_r c (d_rm d)) (xpsr c) setflags)
     in put_result (d_rd d) res x c)"

definition op_ADC_IMM :: alu_op
  where "op_ADC_IMM it f d c =
    (let (res, cflag, vflag) = mm_add_with_carry (cpu_r c (d_rn d)) (d_imm d) (c_flag (xpsr c));
         setflags = (if d_len d = 4 \<and> s_bit d then it \<le> 1 else False)
     in put_result (d_rd d) res (if setflags then xpsr_put_nzcv (xpsr c) res cflag vflag else xpsr c) c)"

definition op_SBC_IMM :: alu_op
  where "op_SBC_IMM it f d c =
    (let (res, cflag, vflag) = mm_add_with_carry (cpu_r c (d_rn d)) (NOT (d_imm d)) (c_flag (xpsr c))
     in put_result (d_rd d) res
          (if d_kind d = MM_OP_SBC_IMM then xpsr_put_nzcv (xpsr c) res cflag vflag else xpsr c) c)"

definition op_ADR :: alu_op
  where "op_ADR it f d c = set_r (d_rd d) (mm_adr_value f (d_imm d)) c"

definition op_CMP_IMM :: alu_op
  where "op_CMP_IMM it f d c = compare_flags (cpu_r c (d_rn d)) (NOT (d_imm d)) True c"

definition op_CMN_IMM :: alu_op
  where "op_CMN_IMM it f d c = compare_flags (cpu_r c (d_rn d)) (d_imm d) False c"

definition op_CMP_REG :: alu_op
  where "op_CMP_REG it f d c =
    (let rhs = (if reg_form d then fst (shifted_rm d c) else cpu_r c (d_rm d))
     in compare_flags (cpu_r c (d_rn d)) (NOT rhs) True c)"

definition op_CMN_REG :: alu_op
  where "op_CMN_REG it f d c = compare_flags (cpu_r c (d_rn d)) (cpu_r c (d_rm d)) False c"

subsection \<open>Shifts\<close>

definition op_LSL_REG :: alu_op
  where "op_LSL_REG it f d c =
    (let r = mm_lsl (cpu_r c (d_rn d)) (to_u8 (cpu_r c (d_rm d) AND 0xff)) (c_flag (xpsr c))
     in shift_result (flags_eq0 it d) (d_rd d) (sr_value r) (sr_carry r) c)"

definition op_LSL_IMM :: alu_op
  where "op_LSL_IMM it f d c =
    (let val = cpu_r c (d_rm d); sh = d_imm d AND 0x1f;
         (res, carry) =
           (if sh = 0 then (val, c_flag (xpsr c))
            else (push_bit (unat sh) val, drop_bit (32 - unat sh) val AND 1 \<noteq> 0))
     in shift_result (flags_le1 it d) (d_rd d) res carry c)"

definition op_LSR_REG :: alu_op
  where "op_LSR_REG it f d c =
    (let r = mm_lsr (cpu_r c (d_rn d)) (to_u8 (cpu_r c (d_rm d) AND 0xff)) (c_flag (xpsr c))
     in shift_result (flags_eq0 it d) (d_rd d) (sr_value r) (sr_carry r) c)"

definition op_LSR_IMM :: alu_op
  where "op_LSR_IMM it f d c =
    (let val = cpu_r c (d_rm d); sh = d_imm d AND 0x1f;
         (res, carry) =
           (if sh = 0 then (0, drop_bit 31 val AND 1 \<noteq> 0)
            else (drop_bit (unat sh) val, drop_bit (unat sh - 1) val AND 1 \<noteq> 0))
     in shift_result (flags_eq0 it d) (d_rd d) res carry c)"

definition op_ROR_IMM :: alu_op
  where "op_ROR_IMM it f d c =
    (let sh = d_imm d AND 0x1f;
         (res, carry) = mm_shift_c_imm (cpu_r c (d_rm d)) 3 (to_u8 sh) (c_flag (xpsr c))
     in shift_result (flags_le1 it d) (d_rd d) res carry c)"

definition op_ASR_REG :: alu_op
  where "op_ASR_REG it f d c =
    (let r = mm_asr (cpu_r c (d_rn d)) (to_u8 (cpu_r c (d_rm d) AND 0xff)) (c_flag (xpsr c));
         setflags = (if d_len d = 2 then it = 0 else False)
     in shift_result setflags (d_rd d) (sr_value r) (sr_carry r) c)"

definition op_ASR_IMM :: alu_op
  where "op_ASR_IMM it f d c =
    (let val = cpu_r c (d_rm d); sh = d_imm d AND 0x1f;
         (res, carry) =
           (if sh = 0 then (if val AND 0x80000000 \<noteq> 0 then 0xffffffff else 0, drop_bit 31 val AND 1 \<noteq> 0)
            else (signed_drop_bit (unat sh) val, drop_bit (unat sh - 1) val AND 1 \<noteq> 0))
     in shift_result (flags_eq0 it d) (d_rd d) res carry c)"

definition op_ROR_REG :: alu_op
  where "op_ROR_REG it f d c =
    (let (res, carry) = mm_ror_reg_shift_c (cpu_r c (d_rn d)) (cpu_r c (d_rm d) AND 0xff) (c_flag (xpsr c))
     in logic_result (it \<le> 1) (d_rd d) res carry c)"

definition op_ROR_REG_NF :: alu_op
  where "op_ROR_REG_NF it f d c =
    (let (res, carry) = mm_ror_reg_shift_c (cpu_r c (d_rn d)) (cpu_r c (d_rm d) AND 0xff) (c_flag (xpsr c))
     in set_r (d_rd d) res c)"

subsection \<open>Logical operations\<close>

text \<open>The second operand and its carry: a shifted register, a modified immediate whose carry is
  recomputed only when flags are set, or the register of the 16-bit form.\<close>

definition dp_rhs :: "bool \<Rightarrow> mm_decoded \<Rightarrow> mm_cpu \<Rightarrow> u32 \<times> bool"
  where "dp_rhs setflags d c =
    (if reg_form d then shifted_rm d c
     else if d_len d = 4 then
       (d_imm d, if setflags then snd (mm_thumb_expand_imm12_c (raw_imm12 d) (c_flag (xpsr c))) else c_flag (xpsr c))
     else (cpu_r c (d_rm d), c_flag (xpsr c)))"

definition op_AND_REG :: alu_op
  where "op_AND_REG it f d c =
    (let setflags = flags_le1 it d; (rhs, carry) = dp_rhs setflags d c
     in logic_result setflags (d_rd d) (cpu_r c (d_rn d) AND rhs) carry c)"

definition op_EOR_REG :: alu_op
  where "op_EOR_REG it f d c =
    (let setflags = flags_le1 it d; (rhs, carry) = dp_rhs setflags d c
     in logic_result setflags (d_rd d) (cpu_r c (d_rn d) XOR rhs) carry c)"

definition op_ORR_REG :: alu_op
  where "op_ORR_REG it f d c =
    (let setflags = flags_le1 it d;
         lhs = (if d_rn d = 15 then 0 else cpu_r c (d_rn d));
         (rhs, carry) = dp_rhs setflags d c
     in logic_result setflags (d_rd d) (lhs OR rhs) carry c)"

definition op_ORN :: alu_op
  where "op_ORN it f d c =
    (let setflags = (if d_len d = 4 \<and> s_bit d then it \<le> 1 else False);
         (rhs, carry) =
           (if d_kind d = MM_OP_ORN_REG then shifted_rm d c
            else (d_imm d,
              if setflags then snd (mm_thumb_expand_imm12_c (raw_imm12 d) (c_flag (xpsr c))) else c_flag (xpsr c)))
     in logic_result setflags (d_rd d) (cpu_r c (d_rn d) OR NOT rhs) carry c)"

definition op_BIC_REG :: alu_op
  where "op_BIC_REG it f d c =
    (let setflags = flags_le1 it d; (rhs, carry) = dp_rhs setflags d c
     in logic_result setflags (d_rd d) (cpu_r c (d_rn d) AND NOT rhs) carry c)"

definition op_TST_REG :: alu_op
  where "op_TST_REG it f d c =
    (let (rhs, carry) = (if reg_form d then shifted_rm d c else (cpu_r c (d_rm d), c_flag (xpsr c)))
     in c\<lparr>xpsr := xpsr_put_nzc (xpsr c) (cpu_r c (d_rn d) AND rhs) carry\<rparr>)"

definition op_TST_IMM :: alu_op
  where "op_TST_IMM it f d c =
    (let carry = (if d_len d = 4 then snd (mm_thumb_expand_imm12_c (raw_imm12 d) (c_flag (xpsr c)))
                  else c_flag (xpsr c))
     in c\<lparr>xpsr := xpsr_put_nzc (xpsr c) (cpu_r c (d_rn d) AND d_imm d) carry\<rparr>)"

definition op_MVN_IMM :: alu_op
  where "op_MVN_IMM it f d c =
    (let (imm32, carry) = mm_thumb_expand_imm12_c (d_imm d) (c_flag (xpsr c))
     in logic_result (d_raw d AND push_bit 20 1 \<noteq> 0) (d_rd d) (NOT imm32) carry c)"

definition op_MVN_REG :: alu_op
  where "op_MVN_REG it f d c =
    (if d_len d = 2 then
       (let (res, x) = mm_mvn_reg (cpu_r c (d_rm d)) (xpsr c) (it \<le> 1)
        in put_result (d_rd d) res x c)
     else
       (let rd = to_u8 (drop_bit 8 (d_raw d) AND 0x0f);
            rm = to_u8 (d_raw d AND 0x0f);
            imm3 = to_u8 (drop_bit 12 (d_raw d) AND 0x7);
            imm2 = to_u8 (drop_bit 6 (d_raw d) AND 0x3);
            type = to_u8 (drop_bit 4 (d_raw d) AND 0x3);
            imm5 = push_bit 2 imm3 OR imm2;
            (shifted, carry) = mm_shift_c_imm (cpu_r c rm) type imm5 (c_flag (xpsr c))
        in logic_result (s_bit d) rd (NOT shifted) carry c))"

subsection \<open>Multiplication, bit manipulation and extension\<close>

definition op_MUL :: alu_op
  where "op_MUL it f d c =
    (let res = cpu_r c (d_rd d) * cpu_r c (d_rm d)
     in put_result (d_rd d) res (xpsr_put_nz (xpsr c) res) c)"

definition op_MUL_W :: alu_op
  where "op_MUL_W it f d c =
    (let res = cpu_r c (d_rn d) * cpu_r c (d_rm d)
     in put_result (d_rd d) res (if d_imm d AND 1 \<noteq> 0 then xpsr_put_nz (xpsr c) res else xpsr c) c)"

definition op_MLA :: alu_op
  where "op_MLA it f d c =
    set_r (d_rd d) (cpu_r c (d_rn d) * cpu_r c (d_rm d) + cpu_r c (d_ra d)) c"

definition op_MLS :: alu_op
  where "op_MLS it f d c =
    set_r (d_rd d) (cpu_r c (d_ra d) - cpu_r c (d_rn d) * cpu_r c (d_rm d)) c"

text \<open>The 64-bit accumulator in \<^verbatim>\<open>ra:rd\<close> plus a product, split again.\<close>

definition acc64 :: "mm_decoded \<Rightarrow> mm_cpu \<Rightarrow> u32 \<times> u32 \<Rightarrow> u32 \<times> u32"
  where "acc64 d c p =
    (let (lo, hi) = p;
         acc = push_bit 32 (to_u64 (cpu_r c (d_ra d))) OR to_u64 (cpu_r c (d_rd d));
         acc = acc + (push_bit 32 (to_u64 hi) OR to_u64 lo)
     in (to_u32 acc, to_u32 (drop_bit 32 acc)))"

definition op_UMULL :: alu_op
  where "op_UMULL it f d c =
    (let p = mm_umul64 (cpu_r c (d_rn d)) (cpu_r c (d_rm d));
         (lo, hi) = (if d_kind d = MM_OP_UMLAL then acc64 d c p else p)
     in set_r (d_ra d) hi (set_r (d_rd d) lo c))"

definition op_UMAAL :: alu_op
  where "op_UMAAL it f d c =
    (let acc = to_u64 (cpu_r c (d_rn d)) * to_u64 (cpu_r c (d_rm d));
         acc = acc + to_u64 (cpu_r c (d_rd d));
         acc = acc + to_u64 (cpu_r c (d_ra d))
     in set_r (d_ra d) (to_u32 (drop_bit 32 acc)) (set_r (d_rd d) (to_u32 acc) c))"

definition op_SMULL :: alu_op
  where "op_SMULL it f d c =
    (let p = mm_smul64 (cpu_r c (d_rn d)) (cpu_r c (d_rm d));
         (lo, hi) = (if d_kind d = MM_OP_SMLAL then acc64 d c p else p)
     in set_r (d_ra d) hi (set_r (d_rd d) lo c))"

definition op_REV :: alu_op
  where "op_REV it f d c = set_r (d_rd d) (mm_bswap32 (cpu_r c (d_rm d))) c"

definition op_REV16 :: alu_op
  where "op_REV16 it f d c = set_r (d_rd d) (mm_rev16 (cpu_r c (d_rm d))) c"

definition op_REVSH :: alu_op
  where "op_REVSH it f d c = set_r (d_rd d) (mm_revsh (cpu_r c (d_rm d))) c"

definition op_CLZ :: alu_op
  where "op_CLZ it f d c = set_r (d_rd d) (mm_clz (cpu_r c (d_rm d))) c"

definition op_RBIT :: alu_op
  where "op_RBIT it f d c = set_r (d_rd d) (mm_rbit (cpu_r c (d_rm d))) c"

definition op_TT :: alu_op
  where "op_TT it f d c = set_r (d_rd d) 0 c"

definition rotated_rm :: "mm_decoded \<Rightarrow> mm_cpu \<Rightarrow> u32"
  where "rotated_rm d c =
    (let val = cpu_r c (d_rm d); rot = unat (d_imm d AND 0x1f)
     in if rot \<noteq> 0 then drop_bit rot val OR push_bit (32 - rot) val else val)"

definition extend_result :: "u32 \<Rightarrow> mm_decoded \<Rightarrow> mm_cpu \<Rightarrow> mm_cpu"
  where "extend_result ext d c =
    (if d_imm d AND 0x80000000 \<noteq> 0 \<and> d_rn d \<noteq> 15 then set_r (d_rd d) (cpu_r c (d_rn d) + ext) c
     else set_r (d_rd d) ext c)"

definition op_UXTB :: alu_op
  where "op_UXTB it f d c = extend_result (rotated_rm d c AND 0xff) d c"

definition op_SXTB :: alu_op
  where "op_SXTB it f d c = extend_result (scast (to_u8 (rotated_rm d c AND 0xff))) d c"

definition op_SXTH :: alu_op
  where "op_SXTH it f d c = extend_result (scast (to_u16 (rotated_rm d c AND 0xffff))) d c"

definition op_UXTH :: alu_op
  where "op_UXTH it f d c = extend_result (rotated_rm d c AND 0xffff) d c"

subsection \<open>The table of data-processing instructions\<close>

definition alu_table :: "(mm_op_kind \<times> alu_op) list"
  where "alu_table =
    [(MM_OP_MOV_IMM, op_MOV_IMM), (MM_OP_MOVW, op_MOVW), (MM_OP_MOVT, op_MOVT),
     (MM_OP_RSB_IMM, op_RSB_IMM), (MM_OP_ADD_REG, op_ADD_REG),
     (MM_OP_LSL_REG, op_LSL_REG), (MM_OP_LSL_IMM, op_LSL_IMM), (MM_OP_LSR_REG, op_LSR_REG),
     (MM_OP_LSR_IMM, op_LSR_IMM), (MM_OP_ROR_IMM, op_ROR_IMM), (MM_OP_ASR_REG, op_ASR_REG),
     (MM_OP_ASR_IMM, op_ASR_IMM), (MM_OP_ROR_REG, op_ROR_REG), (MM_OP_ROR_REG_NF, op_ROR_REG_NF),
     (MM_OP_NEG, op_NEG), (MM_OP_SBCS_REG, op_SBCS_REG), (MM_OP_ADCS_REG, op_ADCS_REG),
     (MM_OP_ADC_IMM, op_ADC_IMM), (MM_OP_AND_REG, op_AND_REG), (MM_OP_EOR_REG, op_EOR_REG),
     (MM_OP_TST_REG, op_TST_REG), (MM_OP_TST_IMM, op_TST_IMM), (MM_OP_ORR_REG, op_ORR_REG),
     (MM_OP_ORN_REG, op_ORN), (MM_OP_ORN_IMM, op_ORN), (MM_OP_BIC_REG, op_BIC_REG),
     (MM_OP_MUL, op_MUL), (MM_OP_REV, op_REV), (MM_OP_REV16, op_REV16), (MM_OP_REVSH, op_REVSH),
     (MM_OP_UMULL, op_UMULL), (MM_OP_UMLAL, op_UMULL), (MM_OP_UMAAL, op_UMAAL),
     (MM_OP_SMULL, op_SMULL), (MM_OP_SMLAL, op_SMULL), (MM_OP_MLA, op_MLA), (MM_OP_MLS, op_MLS),
     (MM_OP_MUL_W, op_MUL_W), (MM_OP_UXTB, op_UXTB), (MM_OP_SXTB, op_SXTB), (MM_OP_SXTH, op_SXTH),
     (MM_OP_UXTH, op_UXTH), (MM_OP_MVN_IMM, op_MVN_IMM), (MM_OP_MVN_REG, op_MVN_REG),
     (MM_OP_SUB_REG, op_SUB_REG), (MM_OP_RSB_REG, op_RSB_REG), (MM_OP_ADR, op_ADR),
     (MM_OP_CMP_IMM, op_CMP_IMM), (MM_OP_CMN_IMM, op_CMN_IMM), (MM_OP_SBC_IMM, op_SBC_IMM),
     (MM_OP_SBC_IMM_NF, op_SBC_IMM), (MM_OP_CMP_REG, op_CMP_REG), (MM_OP_CMN_REG, op_CMN_REG),
     (MM_OP_CLZ, op_CLZ), (MM_OP_RBIT, op_RBIT), (MM_OP_TT, op_TT), (MM_OP_TTT, op_TT),
     (MM_OP_TTA, op_TT), (MM_OP_TTAT, op_TT)]"

subsection \<open>What a data-processing instruction may change\<close>

text \<open>The registers an instruction names as destinations: \<^verbatim>\<open>rd\<close>, the high half \<^verbatim>\<open>ra\<close> of a long
  product, and the field that the wide MVN reads again from the encoding.\<close>

definition alu_dests :: "mm_decoded \<Rightarrow> u8 set"
  where "alu_dests d = {d_rd d, d_ra d, to_u8 (drop_bit 8 (d_raw d) AND 0x0f)}"

definition alu_frame :: "mm_decoded \<Rightarrow> mm_cpu \<Rightarrow> mm_cpu \<Rightarrow> bool"
  where "alu_frame d c c' =
    (c' = c\<lparr>cpu_r := cpu_r c', xpsr := xpsr c'\<rparr> \<and>
     xpsr c' AND 0x0fffffff = xpsr c AND 0x0fffffff \<and>
     (\<forall>r. r \<notin> alu_dests d \<longrightarrow> cpu_r c' r = cpu_r c r))"

named_theorems frames

lemma frame_put_result [frames]:
  "rd \<in> alu_dests d \<Longrightarrow> x AND 0x0fffffff = xpsr c AND 0x0fffffff \<Longrightarrow> alu_frame d c (put_result rd res x c)"
  by (auto simp: alu_frame_def put_result_def)

lemma frame_set_r [frames]: "rd \<in> alu_dests d \<Longrightarrow> alu_frame d c (set_r rd v c)"
  by (auto simp: alu_frame_def)

lemma frame_set_r2 [frames]:
  "rd \<in> alu_dests d \<Longrightarrow> ra \<in> alu_dests d \<Longrightarrow> alu_frame d c (c\<lparr>cpu_r := (cpu_r c)(rd := w, ra := v)\<rparr>)"
  by (auto simp: alu_frame_def)

lemma frame_xpsr [frames]: "x AND 0x0fffffff = xpsr c AND 0x0fffffff \<Longrightarrow> alu_frame d c (c\<lparr>xpsr := x\<rparr>)"
  by (simp add: alu_frame_def)

lemma dests [simp]: "d_rd d \<in> alu_dests d" "d_ra d \<in> alu_dests d" "to_u8 (drop_bit 8 (d_raw d) AND 0x0f) \<in> alu_dests d"
  by (simp_all add: alu_dests_def)

lemma put_low [simp]:
  "xpsr_put_nzcv x res c v AND 0x0fffffff = x AND 0x0fffffff"
  "xpsr_put_nzc x res c AND 0x0fffffff = x AND 0x0fffffff"
  "xpsr_put_nz x res AND 0x0fffffff = x AND 0x0fffffff"
  by (simp_all add: xpsr_put_nzcv_def xpsr_put_nzc_def xpsr_put_nz_def Let_def bit.conj_disj_distrib2
      and.assoc)

lemma mvn_low [simp]: "snd (mm_mvn_reg v x sf) AND 0x0fffffff = x AND 0x0fffffff"
  by (simp add: mm_mvn_reg_def Let_def bit.conj_disj_distrib2 and.assoc)

lemma sbcs_low [simp]:
  "snd (mm_sbcs_reg a b x sf) AND 0x0fffffff = x AND 0x0fffffff"
  "snd (mm_adcs_reg a b x sf) AND 0x0fffffff = x AND 0x0fffffff"
  by (simp_all add: mm_sbcs_reg_def mm_adcs_reg_def split_def Let_def)

lemmas alu_result_defs = sum_flags_def compare_flags_def shift_result_def logic_result_def extend_result_def

lemmas alu_op_defs =
  op_MOV_IMM_def op_MOVW_def op_MOVT_def op_RSB_IMM_def op_ADD_REG_def op_SUB_REG_def
  op_RSB_REG_def op_NEG_def op_SBCS_REG_def op_ADCS_REG_def op_ADC_IMM_def op_SBC_IMM_def
  op_ADR_def op_CMP_IMM_def op_CMN_IMM_def op_CMP_REG_def op_CMN_REG_def op_LSL_REG_def
  op_LSL_IMM_def op_LSR_REG_def op_LSR_IMM_def op_ROR_IMM_def op_ASR_REG_def op_ASR_IMM_def
  op_ROR_REG_def op_ROR_REG_NF_def op_AND_REG_def op_EOR_REG_def op_ORR_REG_def op_ORN_def
  op_BIC_REG_def op_TST_REG_def op_TST_IMM_def op_MVN_IMM_def op_MVN_REG_def op_MUL_def
  op_MUL_W_def op_MLA_def op_MLS_def op_UMULL_def op_UMAAL_def op_SMULL_def op_REV_def op_REV16_def
  op_REVSH_def op_CLZ_def op_RBIT_def op_TT_def op_UXTB_def op_SXTB_def op_SXTH_def op_UXTH_def

lemma alu_frames: "\<forall>(k, op) \<in> set alu_table. \<forall>it f d c. alu_frame d c (op it f d c)"
  unfolding alu_table_def list.set ball_simps prod.case
  by (intro conjI allI TrueI) (simp_all add: alu_op_defs alu_result_defs split_def Let_def frames)



subsection \<open>Multi-word arithmetic\<close>

lemma c_flag_bit: "c_flag x = bit x 29"
  by (simp only: c_flag_def and_bit_nonzero)

lemma put_nzcv_bits:
  "bit (xpsr_put_nzcv x res c v) 31 = bit res 31"
  "bit (xpsr_put_nzcv x res c v) 30 = (res = 0)"
  "bit (xpsr_put_nzcv x res c v) 29 = c"
  "bit (xpsr_put_nzcv x res c v) 28 = v"
  unfolding xpsr_put_nzcv_def Let_def u32_bit31 by (auto simp: bit_simps)

text \<open>The two 16-bit instructions outside an IT block.\<close>

definition thumb1 :: "mm_op_kind \<Rightarrow> u8 \<Rightarrow> u8 \<Rightarrow> u8 \<Rightarrow> u32 \<Rightarrow> mm_decoded"
  where "thumb1 k rd rn rm raw =
    (mm_decoded_default 2 raw)\<lparr>d_kind := k, d_rd := rd, d_rn := rn, d_rm := rm, d_undefined := False\<rparr>"

definition pair64 :: "(u8 \<Rightarrow> u32) \<Rightarrow> u8 \<Rightarrow> u8 \<Rightarrow> nat"
  where "pair64 r lo hi = unat (r lo) + unat (r hi) * 2 ^ 32"

lemma sum_flags_total:
  assumes "sum_flags rd a b ci c = c'"
  shows "cpu_r c' = (cpu_r c)(rd := cpu_r c' rd)"
    and "unat a + unat b + of_bool ci = unat (cpu_r c' rd) + (if c_flag (xpsr c') then 2 ^ 32 else 0)"
proof -
  obtain res cf vf where r: "mm_add_with_carry a b ci = (res, cf, vf)" by (metis prod_cases3)
  then have "c' = put_result rd res (xpsr_put_nzcv (xpsr c) res cf vf) c"
    using assms by (simp add: sum_flags_def)
  then show "cpu_r c' = (cpu_r c)(rd := cpu_r c' rd)"
    "unat a + unat b + of_bool ci = unat (cpu_r c' rd) + (if c_flag (xpsr c') then 2 ^ 32 else 0)"
    using awc_total [OF r] by (simp_all add: put_result_def c_flag_bit put_nzcv_bits)
qed

lemma thumb1_simps [simp]:
  "d_kind (thumb1 k rd rn rm raw) = k" "d_rd (thumb1 k rd rn rm raw) = rd" "d_rn (thumb1 k rd rn rm raw) = rn"
  "d_rm (thumb1 k rd rn rm raw) = rm" "d_len (thumb1 k rd rn rm raw) = 2" "d_raw (thumb1 k rd rn rm raw) = raw"
  by (simp_all add: thumb1_def mm_decoded_default_def)

text \<open>In 16-bit form outside an IT block the four instructions are sums with flags.\<close>

lemma thumb1_sums:
  "op_ADD_REG 0 f (thumb1 k rd rn rm 0x1800) c = sum_flags rd (cpu_r c rn) (cpu_r c rm) False c"
  "op_SUB_REG 0 f (thumb1 k rd rn rm 0x1a00) c = sum_flags rd (cpu_r c rn) (NOT (cpu_r c rm)) True c"
  "op_ADCS_REG 0 f (thumb1 k rd rn rm 0x4140) c = sum_flags rd (cpu_r c rn) (cpu_r c rm) (c_flag (xpsr c)) c"
  "op_SBCS_REG 0 f (thumb1 k rd rn rm 0x4180) c = sum_flags rd (cpu_r c rn) (NOT (cpu_r c rm)) (c_flag (xpsr c)) c"
  by (simp_all add: op_ADD_REG_def op_SUB_REG_def op_ADCS_REG_def op_SBCS_REG_def reg_form_def flags_le1_def
      sum_flags_def mm_adcs_reg_def mm_sbcs_reg_def c_flag_def split_def Let_def)

lemma unat_not32: "unat (NOT w) = 2 ^ 32 - 1 - unat w" for w :: u32
proof -
  have "NOT w = -1 - w" by (simp add: not_eq_complement)
  moreover have "w \<le> -1" by simp
  ultimately show ?thesis by (simp add: unat_sub unsigned_minus_1_eq_mask mask_eq_exp_minus_1)
qed

text \<open>The carry flag chains words: ADDS on the low words followed by ADCS on the high words is
  64-bit addition with the carry out in C, and SUBS followed by SBCS is 64-bit subtraction
  with C clear exactly on a borrow.\<close>

theorem double_word_arithmetic:
  assumes "lo \<noteq> hi" and "lo \<noteq> bhi"
    and "a = op_ADCS_REG 0 f (thumb1 MM_OP_ADCS_REG hi hi bhi 0x4140)
           (op_ADD_REG 0 f (thumb1 MM_OP_ADD_REG lo lo blo 0x1800) c)"
    and "s = op_SBCS_REG 0 f (thumb1 MM_OP_SBCS_REG hi hi bhi 0x4180)
           (op_SUB_REG 0 f (thumb1 MM_OP_SUB_REG lo lo blo 0x1a00) c)"
  shows "pair64 (cpu_r c) lo hi + pair64 (cpu_r c) blo bhi =
      pair64 (cpu_r a) lo hi + (if c_flag (xpsr a) then 2 ^ 64 else 0) \<and>
    pair64 (cpu_r c) lo hi + (if c_flag (xpsr s) then 0 else 2 ^ 64) =
      pair64 (cpu_r s) lo hi + pair64 (cpu_r c) blo bhi"
proof
  define a1 where "a1 = sum_flags lo (cpu_r c lo) (cpu_r c blo) False c"
  note l = sum_flags_total [OF a1_def [symmetric]]
  have "a = sum_flags hi (cpu_r a1 hi) (cpu_r a1 bhi) (c_flag (xpsr a1)) a1"
    using assms(3) by (simp add: thumb1_sums a1_def)
  note h = sum_flags_total [OF this [symmetric]]
  have r: "cpu_r a1 hi = cpu_r c hi" "cpu_r a1 bhi = cpu_r c bhi" "cpu_r a lo = cpu_r a1 lo"
    using l(1) h(1) assms(1,2) by (metis fun_upd_apply)+
  show "pair64 (cpu_r c) lo hi + pair64 (cpu_r c) blo bhi =
      pair64 (cpu_r a) lo hi + (if c_flag (xpsr a) then 2 ^ 64 else 0)"
    using l(2) h(2) unfolding r pair64_def by (cases "c_flag (xpsr a1)") (simp_all split: if_splits)
next
  define s1 where "s1 = sum_flags lo (cpu_r c lo) (NOT (cpu_r c blo)) True c"
  note l = sum_flags_total [OF s1_def [symmetric]]
  have "s = sum_flags hi (cpu_r s1 hi) (NOT (cpu_r s1 bhi)) (c_flag (xpsr s1)) s1"
    using assms(4) by (simp add: thumb1_sums s1_def)
  note h = sum_flags_total [OF this [symmetric]]
  have r: "cpu_r s1 hi = cpu_r c hi" "cpu_r s1 bhi = cpu_r c bhi" "cpu_r s lo = cpu_r s1 lo"
    using l(1) h(1) assms(1,2) by (metis fun_upd_apply)+
  show "pair64 (cpu_r c) lo hi + (if c_flag (xpsr s) then 0 else 2 ^ 64) =
      pair64 (cpu_r s) lo hi + pair64 (cpu_r c) blo bhi"
    using l(2) h(2) unat_u32_less [of "cpu_r c blo"] unat_u32_less [of "cpu_r c bhi"]
    unfolding r pair64_def unat_not32 by (cases "c_flag (xpsr s1)") (simp_all split: if_splits)
qed

theorem double_word_arithmetic_witness:
  "\<forall>f. let c = cpu_zero\<lparr>cpu_r := (\<lambda>_. 0)(0 := 0xffffffff, 1 := 5, 2 := 1, 3 := 7)\<rparr>;
       a = op_ADCS_REG 0 f (thumb1 MM_OP_ADCS_REG 1 1 3 0x4140)
             (op_ADD_REG 0 f (thumb1 MM_OP_ADD_REG 0 0 2 0x1800) c)
   in pair64 (cpu_r a) 0 1 + (if c_flag (xpsr a) then 2 ^ 64 else 0) = 13 * 2 ^ 32"
  (is "\<forall>f. ?P f")
proof
  fix f
  show "?P f"
    using double_word_arithmetic [of 0 1 3 _ f 2 "cpu_zero\<lparr>cpu_r := (\<lambda>_. 0)(0 := 0xffffffff, 1 := 5, 2 := 1, 3 := 7)\<rparr>",
        OF _ _ refl refl, THEN conjunct1]
    by (simp add: Let_def pair64_def)
qed

end
