(* ===== verification/Tz.thy ===== *)
theory Tz
imports Cpu_State
begin

text \<open>
  Changes of security state by instruction: \<^verbatim>\<open>src/m33mu/tz.c\<close>, and the return from a
  Non-secure callback that \<^verbatim>\<open>BX LR\<close> performs in \<^verbatim>\<open>src/execute.c\<close>.
\<close>

definition MM_TZ_RET_LR_SENTINEL :: u32 where "MM_TZ_RET_LR_SENTINEL = 0xDEAD0001"

definition tz_sync_r13_from_active_sp :: "mm_cpu \<Rightarrow> mm_cpu"
  where "tz_sync_r13_from_active_sp c = mm_cpu_set_active_sp c (mm_cpu_get_active_sp c)"

definition tz_note_ns_msp_top :: "mm_cpu \<Rightarrow> mm_cpu"
  where "tz_note_ns_msp_top c =
    (if sec_state c = MM_NONSECURE then mm_cpu_note_msp_top c MM_NONSECURE else c)"

definition mm_tz_exec_sg :: "mm_cpu \<Rightarrow> mm_cpu"
  where "mm_tz_exec_sg c =
    (if sec_state c = MM_NONSECURE then tz_sync_r13_from_active_sp (c\<lparr>sec_state := MM_SECURE\<rparr>) else c)"

definition mm_tz_exec_bxns :: "mm_cpu \<Rightarrow> u32 \<Rightarrow> mm_cpu"
  where "mm_tz_exec_bxns c target =
    (let c = c\<lparr>sec_state := MM_NONSECURE\<rparr>;
         c = tz_note_ns_msp_top c;
         c = tz_sync_r13_from_active_sp c
     in set_r 15 (target OR 1) c)"

definition mm_tz_exec_blxns :: "mm_cpu \<Rightarrow> u32 \<Rightarrow> u32 \<Rightarrow> mm_cpu"
  where "mm_tz_exec_blxns c target return_addr =
    (let ra = return_addr OR 1;
         c = (if tz_depth c < MM_TZ_STACK_MAX then
                c\<lparr>tz_ret_pc := (tz_ret_pc c)(tz_depth c := ra),
                  tz_ret_sec := (tz_ret_sec c)(tz_depth c := sec_state c),
                  tz_ret_mode := (tz_ret_mode c)(tz_depth c := cpu_mode c),
                  tz_depth := Suc (tz_depth c)\<rparr>
              else c);
         c = set_r 14 MM_TZ_RET_LR_SENTINEL c;
         c = c\<lparr>sec_state := MM_NONSECURE\<rparr>;
         c = tz_note_ns_msp_top c;
         c = tz_sync_r13_from_active_sp c
     in set_r 15 (target OR 1) c)"

text \<open>The pop of the call record when Non-secure code branches to the sentinel; the stack
  pointer is refreshed by the caller.\<close>

definition tz_return :: "mm_cpu \<Rightarrow> mm_cpu"
  where "tz_return c =
    (let c = c\<lparr>tz_depth := tz_depth c - 1\<rparr>;
         c = c\<lparr>sec_state := tz_ret_sec c (tz_depth c)\<rparr>;
         c = c\<lparr>cpu_mode := tz_ret_mode c (tz_depth c)\<rparr>;
         c = set_r 15 (tz_ret_pc c (tz_depth c) OR 1) c
     in set_r 14 (tz_ret_pc c (tz_depth c) OR 1) c)"

definition takes_tz_return :: "mm_cpu \<Rightarrow> u32 \<Rightarrow> bool"
  where "takes_tz_return c target =
    (sec_state c = MM_NONSECURE \<and> tz_depth c > 0 \<and> target = 0xDEAD0001)"

subsection \<open>Frames\<close>

lemma set_active_sp_tz [simp]:
  "tz_ret_pc (mm_cpu_set_active_sp c v) = tz_ret_pc c"
  "tz_ret_sec (mm_cpu_set_active_sp c v) = tz_ret_sec c"
  "tz_ret_mode (mm_cpu_set_active_sp c v) = tz_ret_mode c"
  "tz_depth (mm_cpu_set_active_sp c v) = tz_depth c"
  "control_s (mm_cpu_set_active_sp c v) = control_s c"
  "control_ns (mm_cpu_set_active_sp c v) = control_ns c"
  by (simp_all add: mm_cpu_set_active_sp_def msp_track_defs Let_def)

lemma note_msp_top_simps [simp]:
  "tz_ret_pc (mm_cpu_note_msp_top c s) = tz_ret_pc c"
  "tz_ret_sec (mm_cpu_note_msp_top c s) = tz_ret_sec c"
  "tz_ret_mode (mm_cpu_note_msp_top c s) = tz_ret_mode c"
  "tz_depth (mm_cpu_note_msp_top c s) = tz_depth c"
  "control_s (mm_cpu_note_msp_top c s) = control_s c"
  "control_ns (mm_cpu_note_msp_top c s) = control_ns c"
  "cpu_mode (mm_cpu_note_msp_top c s) = cpu_mode c"
  "sec_state (mm_cpu_note_msp_top c s) = sec_state c"
  "cpu_r (mm_cpu_note_msp_top c s) = cpu_r c"
  "sp_of (mm_cpu_note_msp_top c s) b = sp_of c b"
  by (simp_all add: mm_cpu_note_msp_top_def msp_track_defs sp_of_def mm_cpu_get_psp_def mm_cpu_get_msp_def)

lemma sync_r13_simps [simp]:
  "sec_state (tz_sync_r13_from_active_sp c) = sec_state c"
  "cpu_mode (tz_sync_r13_from_active_sp c) = cpu_mode c"
  "tz_ret_pc (tz_sync_r13_from_active_sp c) = tz_ret_pc c"
  "tz_ret_sec (tz_sync_r13_from_active_sp c) = tz_ret_sec c"
  "tz_ret_mode (tz_sync_r13_from_active_sp c) = tz_ret_mode c"
  "tz_depth (tz_sync_r13_from_active_sp c) = tz_depth c"
  "control_s (tz_sync_r13_from_active_sp c) = control_s c"
  "control_ns (tz_sync_r13_from_active_sp c) = control_ns c"
  "cpu_r (tz_sync_r13_from_active_sp c) = (cpu_r c)(13 := mm_cpu_get_active_sp c)"
  by (simp_all add: tz_sync_r13_from_active_sp_def)

lemma sync_r13_sp [simp]: "sp_of (tz_sync_r13_from_active_sp c) b = sp_of c b"
  by (simp add: tz_sync_r13_from_active_sp_def sp_of_set_active_sp active_sp_is_bank)

lemma sp_of_frame [simp]:
  "sp_of (c\<lparr>cpu_r := r\<rparr>) b = sp_of c b"
  "sp_of (c\<lparr>sec_state := s\<rparr>) b = sp_of c b"
  "sp_of (c\<lparr>cpu_mode := m\<rparr>) b = sp_of c b"
  "sp_of (c\<lparr>tz_ret_pc := p\<rparr>) b = sp_of c b"
  "sp_of (c\<lparr>tz_ret_sec := q\<rparr>) b = sp_of c b"
  "sp_of (c\<lparr>tz_ret_mode := t\<rparr>) b = sp_of c b"
  "sp_of (c\<lparr>tz_depth := n\<rparr>) b = sp_of c b"
  by (simp_all add: sp_of_def mm_cpu_get_psp_def mm_cpu_get_msp_def)

subsection \<open>Calls between security states\<close>

text \<open>The call record of a BLXNS is under the records of the callback's own calls, so any
  callback that balances its calls leaves it on top.\<close>

definition tz_frames :: "mm_cpu \<Rightarrow> (u32 \<times> mm_sec_state \<times> mm_mode) list"
  where "tz_frames c = map (\<lambda>i. (tz_ret_pc c i, tz_ret_sec c i, tz_ret_mode c i)) (rev [0..<tz_depth c])"

lemma blxns_pushes:
  "tz_depth c < MM_TZ_STACK_MAX \<Longrightarrow>
    tz_frames (mm_tz_exec_blxns c t ra) = (ra OR 1, sec_state c, cpu_mode c) # tz_frames c"
  by (simp add: tz_frames_def mm_tz_exec_blxns_def tz_note_ns_msp_top_def Let_def)

lemma tz_return_pops:
  assumes "tz_frames c = (ra, sec, md) # fs"
  shows "tz_frames (tz_return c) = fs" and "sec_state (tz_return c) = sec" and "cpu_mode (tz_return c) = md"
    and "cpu_r (tz_return c) = (cpu_r c)(15 := ra OR 1, 14 := ra OR 1)"
proof -
  obtain n where n: "tz_depth c = Suc n" using assms by (cases "tz_depth c") (auto simp: tz_frames_def)
  show "tz_frames (tz_return c) = fs" "sec_state (tz_return c) = sec" "cpu_mode (tz_return c) = md"
    "cpu_r (tz_return c) = (cpu_r c)(15 := ra OR 1, 14 := ra OR 1)"
    using assms n by (auto simp: tz_frames_def tz_return_def Let_def)
qed

text \<open>C15: a Secure BLXNS enters Non-secure state at the target with the sentinel in LR and
  r13 on the Non-secure stack; when the callback has undone its own calls and branches to that
  LR, execution continues after the BLXNS in the caller's security state and mode, and no
  stack pointer bank has been changed by the two transitions.\<close>

theorem blxns_round_trip:
  assumes depth: "tz_depth c < MM_TZ_STACK_MAX"
    and call: "c1 = mm_tz_exec_blxns c target ret"
    and callback: "sec_state c2 = MM_NONSECURE" "tz_frames c2 = tz_frames c1"
  shows "sec_state c1 = MM_NONSECURE \<and> cpu_r c1 15 = target OR 1 \<and>
    cpu_r c1 13 = mm_cpu_get_active_sp c1 \<and> (\<forall>b. sp_of c1 b = sp_of c b) \<and>
    takes_tz_return c2 (cpu_r c1 14) \<and>
    (let c3 = tz_return c2 in
     sec_state c3 = sec_state c \<and> cpu_mode c3 = cpu_mode c \<and> cpu_r c3 15 = ret OR 1 \<and>
     tz_frames c3 = tz_frames c \<and> (\<forall>b. sp_of c3 b = sp_of c2 b))"
proof -
  have fr: "tz_frames c2 = (ret OR 1, sec_state c, cpu_mode c) # tz_frames c"
    using blxns_pushes [OF depth] call callback(2) by simp
  then have "tz_depth c2 > 0" by (cases "tz_depth c2") (auto simp: tz_frames_def)
  moreover have "cpu_r c1 14 = 0xDEAD0001"
    by (simp add: call mm_tz_exec_blxns_def tz_note_ns_msp_top_def MM_TZ_RET_LR_SENTINEL_def Let_def)
  ultimately have t: "takes_tz_return c2 (cpu_r c1 14)" using callback(1) by (simp add: takes_tz_return_def)
  have s: "\<forall>b. sp_of (tz_return c2) b = sp_of c2 b" by (simp add: tz_return_def Let_def)
  have c1: "sec_state c1 = MM_NONSECURE \<and> cpu_r c1 15 = target OR 1 \<and>
      cpu_r c1 13 = mm_cpu_get_active_sp c1 \<and> (\<forall>b. sp_of c1 b = sp_of c b)"
    by (simp add: call mm_tz_exec_blxns_def tz_note_ns_msp_top_def Let_def active_sp_is_bank sp_bank_def
        use_psp_def control_sp_sel_def)
  show ?thesis using c1 t s tz_return_pops [OF fr] by (simp add: Let_def or.assoc)
qed

theorem blxns_round_trip_witness:
  "let c = cpu_zero\<lparr>sec_state := MM_SECURE\<rparr>; c1 = mm_tz_exec_blxns c 0x2000 0x1004
   in takes_tz_return c1 (cpu_r c1 14) \<and> sec_state (tz_return c1) = MM_SECURE \<and>
      cpu_r (tz_return c1) 15 = 0x1005"
  using blxns_round_trip [of "cpu_zero\<lparr>sec_state := MM_SECURE\<rparr>" _ "0x2000" "0x1004", OF _ refl _ refl]
  by (simp add: Let_def cpu_zero_def MM_TZ_STACK_MAX_def mm_tz_exec_blxns_def tz_note_ns_msp_top_def)

end
