(* ===== verification/Core_Interfaces.thy ===== *)
theory Core_Interfaces
imports Cpu_State "HOL-Library.Multiset"
begin

text \<open>
  The device-facing interfaces of \<^verbatim>\<open>src/core_interfaces.c\<close>: the MMIO bus, interrupt
  lines and the event scheduler.  A region's \<^verbatim>\<open>read\<close>/\<^verbatim>\<open>write\<close> callbacks with their
  opaque pointer are functions on a device world \<^verbatim>\<open>'e\<close>; a null callback is None.  Their
  first argument is the value of the global \<^verbatim>\<open>g_mmio_active_sec\<close> at the call.  A
  scheduler callback is named by a number, and what it does to the event queue and
  the device world is a parameter of \<^verbatim>\<open>mm_scheduler_run_due\<close>.
\<close>

subsection \<open>MMIO bus\<close>

record 'e mmio_region =
  mr_base :: u32
  mr_size :: u32
  mr_read :: "(mm_sec_state \<Rightarrow> u32 \<Rightarrow> u32 \<Rightarrow> 'e \<Rightarrow> u32 option \<times> 'e) option"
  mr_write :: "(mm_sec_state \<Rightarrow> u32 \<Rightarrow> u32 \<Rightarrow> u32 \<Rightarrow> 'e \<Rightarrow> bool \<times> 'e) option"

record 'e mmio_bus =
  mb_regions :: "'e mmio_region list"
  mb_capacity :: nat

definition mmio_bus_init :: "nat \<Rightarrow> 'e mmio_bus"
  where "mmio_bus_init capacity = \<lparr>mb_regions = [], mb_capacity = capacity\<rparr>"

definition mmio_regions_overlap :: "u32 \<Rightarrow> u32 \<Rightarrow> u32 \<Rightarrow> u32 \<Rightarrow> bool"
  where "mmio_regions_overlap abase asize bbase bsize =
    (let aend = abase + asize; bend = bbase + bsize in abase < bend \<and> bbase < aend)"

definition mmio_bus_register_region :: "'e mmio_bus \<Rightarrow> 'e mmio_region \<Rightarrow> bool \<times> 'e mmio_bus"
  where "mmio_bus_register_region bus region =
    (if length (mb_regions bus) \<ge> mb_capacity bus then (False, bus)
     else if \<exists>r \<in> set (mb_regions bus).
         mmio_regions_overlap (mr_base r) (mr_size r) (mr_base region) (mr_size region)
       then (False, bus)
     else (True, bus\<lparr>mb_regions := mb_regions bus @ [region]\<rparr>))"

text \<open>The test of one region in \<^verbatim>\<open>mmio_bus_find\<close>.\<close>

definition mmio_region_has :: "u32 \<Rightarrow> 'e mmio_region \<Rightarrow> bool"
  where "mmio_region_has addr r = (addr \<ge> mr_base r \<and> addr - mr_base r < mr_size r)"

definition mmio_bus_find :: "'e mmio_bus \<Rightarrow> u32 \<Rightarrow> 'e mmio_region option"
  where "mmio_bus_find bus addr = find (mmio_region_has addr) (mb_regions bus)"

definition mmio_bus_read :: "'e mmio_bus \<Rightarrow> mm_sec_state \<Rightarrow> u32 \<Rightarrow> u32 \<Rightarrow> 'e \<Rightarrow> u32 option \<times> 'e"
  where "mmio_bus_read bus asec addr size_bytes e =
    (case mmio_bus_find bus addr of
       None \<Rightarrow> (None, e)
     | Some region \<Rightarrow> (case mr_read region of
         None \<Rightarrow> (None, e)
       | Some rd \<Rightarrow> rd asec (addr - mr_base region) size_bytes e))"

definition mmio_bus_write :: "'e mmio_bus \<Rightarrow> mm_sec_state \<Rightarrow> u32 \<Rightarrow> u32 \<Rightarrow> u32 \<Rightarrow> 'e \<Rightarrow> bool \<times> 'e"
  where "mmio_bus_write bus asec addr size_bytes v e =
    (case mmio_bus_find bus addr of
       None \<Rightarrow> (False, e)
     | Some region \<Rightarrow> (case mr_write region of
         None \<Rightarrow> (False, e)
       | Some wr \<Rightarrow> wr asec (addr - mr_base region) size_bytes v e))"

subsection \<open>Interrupt lines\<close>

record mm_irq_line =
  line_level :: bool
  line_sink :: bool

text \<open>The sink callback is observed through the levels it is called with.\<close>

definition mm_irq_line_init :: "bool \<Rightarrow> mm_irq_line"
  where "mm_irq_line_init sink = \<lparr>line_level = False, line_sink = sink\<rparr>"

definition mm_irq_apply :: "mm_irq_line \<Rightarrow> bool \<Rightarrow> mm_irq_line \<times> bool list"
  where "mm_irq_apply line level =
    (if line_level line \<noteq> level then
       (line\<lparr>line_level := level\<rparr>, if line_sink line then [level] else [])
     else (line, []))"

definition mm_irq_line_raise :: "mm_irq_line \<Rightarrow> mm_irq_line \<times> bool list"
  where "mm_irq_line_raise line = mm_irq_apply line True"

definition mm_irq_line_lower :: "mm_irq_line \<Rightarrow> mm_irq_line \<times> bool list"
  where "mm_irq_line_lower line = mm_irq_apply line False"

definition mm_irq_line_level :: "mm_irq_line \<Rightarrow> bool"
  where "mm_irq_line_level line = line_level line"

subsection \<open>GPIO lines, character backends and DMA masters\<close>

text \<open>A GPIO line notifies its listener of every change; the notifications are the observed
  levels.  The callbacks of the character backend and of the DMA master act on the
  device world.\<close>

record mm_gpio_line =
  gl_level :: u8
  gl_listener :: bool

definition mm_gpio_line_init :: "bool \<Rightarrow> mm_gpio_line"
  where "mm_gpio_line_init listener = \<lparr>gl_level = 0, gl_listener = listener\<rparr>"

definition mm_gpio_set_level :: "mm_gpio_line \<Rightarrow> u8 \<Rightarrow> mm_gpio_line \<times> u8 list"
  where "mm_gpio_set_level line level =
    (if gl_level line \<noteq> level then
       (line\<lparr>gl_level := level\<rparr>, if gl_listener line then [level] else [])
     else (line, []))"

definition mm_gpio_get_level :: "mm_gpio_line \<Rightarrow> u8"
  where "mm_gpio_get_level line = gl_level line"

text \<open>The GPIO-bank readers that an SoC registers; an unregistered reader has a default answer.\<close>

record mm_gpio_readers =
  g_gpio_bank_reader :: "(int \<Rightarrow> u32) option"
  g_gpio_bank_moder_reader :: "(int \<Rightarrow> u32) option"
  g_gpio_bank_clock_reader :: "(int \<Rightarrow> bool) option"
  g_gpio_bank_seccfgr_reader :: "(int \<Rightarrow> u32) option"

definition mm_gpio_bank_set_reader :: "(int \<Rightarrow> u32) option \<Rightarrow> mm_gpio_readers \<Rightarrow> mm_gpio_readers"
  where "mm_gpio_bank_set_reader reader g = g\<lparr>g_gpio_bank_reader := reader\<rparr>"

definition mm_gpio_bank_set_moder_reader :: "(int \<Rightarrow> u32) option \<Rightarrow> mm_gpio_readers \<Rightarrow> mm_gpio_readers"
  where "mm_gpio_bank_set_moder_reader reader g = g\<lparr>g_gpio_bank_moder_reader := reader\<rparr>"

definition mm_gpio_bank_set_clock_reader :: "(int \<Rightarrow> bool) option \<Rightarrow> mm_gpio_readers \<Rightarrow> mm_gpio_readers"
  where "mm_gpio_bank_set_clock_reader reader g = g\<lparr>g_gpio_bank_clock_reader := reader\<rparr>"

definition mm_gpio_bank_set_seccfgr_reader :: "(int \<Rightarrow> u32) option \<Rightarrow> mm_gpio_readers \<Rightarrow> mm_gpio_readers"
  where "mm_gpio_bank_set_seccfgr_reader reader g = g\<lparr>g_gpio_bank_seccfgr_reader := reader\<rparr>"

definition mm_gpio_bank_read :: "mm_gpio_readers \<Rightarrow> int \<Rightarrow> u32"
  where "mm_gpio_bank_read g bank = (case g_gpio_bank_reader g of None \<Rightarrow> 0 | Some r \<Rightarrow> r bank)"

definition mm_gpio_bank_read_moder :: "mm_gpio_readers \<Rightarrow> int \<Rightarrow> u32"
  where "mm_gpio_bank_read_moder g bank = (case g_gpio_bank_moder_reader g of None \<Rightarrow> 0 | Some r \<Rightarrow> r bank)"

definition mm_gpio_bank_clock_enabled :: "mm_gpio_readers \<Rightarrow> int \<Rightarrow> bool"
  where "mm_gpio_bank_clock_enabled g bank = (case g_gpio_bank_clock_reader g of None \<Rightarrow> True | Some r \<Rightarrow> r bank)"

definition mm_gpio_bank_read_seccfgr :: "mm_gpio_readers \<Rightarrow> int \<Rightarrow> u32"
  where "mm_gpio_bank_read_seccfgr g bank = (case g_gpio_bank_seccfgr_reader g of None \<Rightarrow> 0 | Some r \<Rightarrow> r bank)"

definition mm_gpio_bank_reader_present :: "mm_gpio_readers \<Rightarrow> bool"
  where "mm_gpio_bank_reader_present g = (g_gpio_bank_reader g \<noteq> None)"

record 'e mm_char_backend =
  cb_write :: "(u8 \<Rightarrow> 'e \<Rightarrow> bool \<times> 'e) option"
  cb_flush :: "('e \<Rightarrow> 'e) option"

definition mm_char_putc :: "'e mm_char_backend \<Rightarrow> u8 \<Rightarrow> 'e \<Rightarrow> bool \<times> 'e"
  where "mm_char_putc backend byte e =
    (case cb_write backend of None \<Rightarrow> (False, e) | Some w \<Rightarrow> w byte e)"

definition mm_char_flush :: "'e mm_char_backend \<Rightarrow> 'e \<Rightarrow> 'e"
  where "mm_char_flush backend e = (case cb_flush backend of None \<Rightarrow> e | Some f \<Rightarrow> f e)"

definition mm_dma_transfer ::
  "(u32 \<Rightarrow> u8 list \<Rightarrow> bool \<Rightarrow> 'e \<Rightarrow> bool \<times> u8 list \<times> 'e) option \<Rightarrow> u32 \<Rightarrow> u8 list \<Rightarrow> bool \<Rightarrow> 'e \<Rightarrow>
   bool \<times> u8 list \<times> 'e"
  where "mm_dma_transfer request addr buffer write_direction e =
    (case request of None \<Rightarrow> (False, buffer, e) | Some rq \<Rightarrow> rq addr buffer write_direction e)"

subsection \<open>Scheduler\<close>

record mm_sched_event =
  ev_due :: u64
  ev_cb :: nat

fun mm_scheduler_schedule :: "mm_sched_event list \<Rightarrow> mm_sched_event \<Rightarrow> mm_sched_event list" where
  "mm_scheduler_schedule [] ev = [ev]"
| "mm_scheduler_schedule (cur # q) ev =
    (if ev_due cur \<le> ev_due ev then cur # mm_scheduler_schedule q ev else ev # cur # q)"

definition mm_scheduler_next_due :: "mm_sched_event list \<Rightarrow> u64"
  where "mm_scheduler_next_due q = (case q of [] \<Rightarrow> -1 | ev # _ \<Rightarrow> ev_due ev)"

partial_function (option) mm_scheduler_run_due ::
  "(nat \<Rightarrow> u64 \<Rightarrow> mm_sched_event list \<times> 'e \<Rightarrow> mm_sched_event list \<times> 'e) \<Rightarrow> u64 \<Rightarrow>
   mm_sched_event list \<times> 'e \<Rightarrow> (mm_sched_event list \<times> 'e) option"
  where "mm_scheduler_run_due run_cb now s =
    (case fst s of
       [] \<Rightarrow> Some s
     | ev # q \<Rightarrow>
         if ev_due ev \<le> now then mm_scheduler_run_due run_cb now (run_cb (ev_cb ev) now (q, snd s))
         else Some s)"

subsection \<open>The contract of a time-ordered queue\<close>

locale timed_queue =
  fixes put :: "'q \<Rightarrow> 'v \<Rightarrow> 'q"
    and items :: "'q \<Rightarrow> 'v list"
    and due :: "'v \<Rightarrow> u64"
  assumes put_items: "\<exists>xs ys. items q = xs @ ys \<and> items (put q v) = xs @ v # ys \<and>
      (sorted (map due (items q)) \<longrightarrow> (\<forall>x \<in> set xs. due x \<le> due v) \<and> (\<forall>y \<in> set ys. due v < due y))"
begin

lemma put_sorted: "sorted (map due (items q)) \<Longrightarrow> sorted (map due (items (put q v)))"
  using put_items [of q v] by (auto simp: sorted_append less_imp_le intro: order_trans)

lemma put_mset: "mset (items (put q v)) = add_mset v (mset (items q))"
  using put_items [of q v] by auto

text \<open>First in, first out among equal times: a new item goes behind every item due at
  the same time, and the order of the others is kept.\<close>

lemma put_fifo:
  assumes "sorted (map due (items q))"
  shows "filter (\<lambda>x. due x = t) (items (put q v)) =
    filter (\<lambda>x. due x = t) (items q) @ (if due v = t then [v] else [])"
proof -
  obtain xs ys where xy: "items q = xs @ ys" "items (put q v) = xs @ v # ys"
    "\<forall>y \<in> set ys. due v < due y" using put_items [of q v] assms by blast
  have "due v = t \<Longrightarrow> filter (\<lambda>x. due x = t) ys = []"
    using xy(3) by (auto simp: filter_empty_conv)
  then show ?thesis using xy by auto
qed

lemma puts_sorted: "sorted (map due (items q)) \<Longrightarrow> sorted (map due (items (foldl put q vs)))"
  by (induction vs arbitrary: q) (auto simp: put_sorted)

lemma puts_fifo:
  "sorted (map due (items q)) \<Longrightarrow>
   filter (\<lambda>x. due x = t) (items (foldl put q vs)) =
     filter (\<lambda>x. due x = t) (items q) @ filter (\<lambda>x. due x = t) vs"
  by (induction vs arbitrary: q) (auto simp: put_sorted put_fifo)

lemma puts_mset: "mset (items (foldl put q vs)) = mset (items q) + mset vs"
  by (induction vs arbitrary: q) (auto simp: put_mset)

end

lemma schedule_split:
  "\<exists>xs ys. q = xs @ ys \<and> mm_scheduler_schedule q v = xs @ v # ys \<and>
    (sorted (map ev_due q) \<longrightarrow> (\<forall>x \<in> set xs. ev_due x \<le> ev_due v) \<and> (\<forall>y \<in> set ys. ev_due v < ev_due y))"
proof (induction q)
  case Nil
  then show ?case by simp
next
  case (Cons c q)
  then obtain xs ys where IH: "q = xs @ ys" "mm_scheduler_schedule q v = xs @ v # ys"
    "sorted (map ev_due q) \<longrightarrow> (\<forall>x \<in> set xs. ev_due x \<le> ev_due v) \<and> (\<forall>y \<in> set ys. ev_due v < ev_due y)"
    by blast
  show ?case
  proof (cases "ev_due c \<le> ev_due v")
    case True
    then show ?thesis using IH by (intro exI [of _ "c # xs"] exI [of _ ys]) auto
  next
    case False
    then show ?thesis by (intro exI [of _ "[]"] exI [of _ "c # q"]) (auto simp: not_le)
  qed
qed

interpretation sched: timed_queue mm_scheduler_schedule "\<lambda>q. q" ev_due
  by unfold_locales (rule schedule_split)

subsection \<open>Dispatch\<close>

lemma run_due_passive:
  "mm_scheduler_run_due (\<lambda>cb now (q, e). (q, f cb now e)) now (q, e) =
    Some (dropWhile (\<lambda>ev. ev_due ev \<le> now) q,
          foldl (\<lambda>e ev. f (ev_cb ev) now e) e (takeWhile (\<lambda>ev. ev_due ev \<le> now) q))"
proof (induction q arbitrary: e)
  case Nil
  then show ?case by (subst mm_scheduler_run_due.simps) simp
next
  case (Cons ev q)
  then show ?case by (subst mm_scheduler_run_due.simps) simp
qed

lemma sorted_takeWhile_filter:
  "sorted (map d q) \<Longrightarrow> takeWhile (\<lambda>x. d x \<le> t) q = filter (\<lambda>x. d x \<le> t) q" for t :: u64
proof (induction q)
  case (Cons x q)
  show ?case
  proof (cases "d x \<le> t")
    case False
    with Cons.prems have "\<forall>y \<in> set q. \<not> d y \<le> t" by (auto dest: order_trans)
    with False show ?thesis by (simp add: filter_empty_conv)
  qed (use Cons in simp)
qed simp

lemma sorted_dropWhile_filter:
  "sorted (map d q) \<Longrightarrow> dropWhile (\<lambda>x. d x \<le> t) q = filter (\<lambda>x. t < d x) q" for t :: u64
proof (induction q)
  case (Cons x q)
  show ?case
  proof (cases "d x \<le> t")
    case False
    with Cons.prems have "\<forall>y \<in> set q. t < d y" by (auto simp: not_le intro: less_le_trans)
    with False show ?thesis by (simp add: not_le filter_id_conv)
  qed (use Cons in \<open>simp add: not_less [symmetric]\<close>)
qed simp

lemma foldl_snoc_map: "foldl (\<lambda>e v. e @ [g v]) e vs = e @ map g vs"
  by (induction vs arbitrary: e) simp_all

subsection \<open>Bus lookup\<close>

definition region_span :: "'e mmio_region \<Rightarrow> nat set"
  where "region_span r = {unat (mr_base r) ..< unat (mr_base r) + unat (mr_size r)}"

definition no_wrap :: "'e mmio_region \<Rightarrow> bool"
  where "no_wrap r = (unat (mr_base r) + unat (mr_size r) < 2 ^ 32)"

definition bus_ok :: "'e mmio_bus \<Rightarrow> bool"
  where "bus_ok bus = (list_all no_wrap (mb_regions bus) \<and>
    sorted_wrt (\<lambda>r r'. region_span r \<inter> region_span r' = {}) (mb_regions bus) \<and>
    length (mb_regions bus) \<le> mb_capacity bus)"

lemma region_has_span: "mmio_region_has addr r = (unat addr \<in> region_span r)"
  by (auto simp: mmio_region_has_def region_span_def word_le_nat_alt word_less_nat_alt unat_sub)

lemma overlap_span:
  assumes "no_wrap r" "no_wrap r'" "\<not> mmio_regions_overlap (mr_base r) (mr_size r) (mr_base r') (mr_size r')"
  shows "region_span r \<inter> region_span r' = {}"
proof -
  have e: "unat (mr_base x + mr_size x) = unat (mr_base x) + unat (mr_size x)" if "no_wrap x" for x :: "'e mmio_region"
    using that by (simp add: no_wrap_def unat_word_ariths)
  show ?thesis
    using assms(3) e [OF assms(1)] e [OF assms(2)]
    by (auto simp: mmio_regions_overlap_def region_span_def word_less_nat_alt)
qed

lemma register_ok:
  assumes "bus_ok bus" "no_wrap r"
  shows "bus_ok (snd (mmio_bus_register_region bus r))"
  using assms overlap_span
  by (fastforce simp: bus_ok_def mmio_bus_register_region_def sorted_wrt_append list_all_iff)

lemma bus_init_ok: "bus_ok (mmio_bus_init n)"
  by (simp add: bus_ok_def mmio_bus_init_def)

definition register_all :: "'e mmio_bus \<Rightarrow> 'e mmio_region list \<Rightarrow> 'e mmio_bus"
  where "register_all bus rs = foldl (\<lambda>b r. snd (mmio_bus_register_region b r)) bus rs"

lemma register_all_ok: "bus_ok bus \<Longrightarrow> list_all no_wrap rs \<Longrightarrow> bus_ok (register_all bus rs)"
  by (induction rs arbitrary: bus) (auto simp: register_all_def register_ok)

lemma find_disjoint:
  assumes "sorted_wrt (\<lambda>r r'. \<not> (P r \<and> P r')) rs"
  shows "find P rs = Some r \<longleftrightarrow> r \<in> set rs \<and> P r"
  using assms by (induction rs) auto

lemma bus_find_unique:
  assumes "bus_ok bus"
  shows "mmio_bus_find bus addr = Some r \<longleftrightarrow> r \<in> set (mb_regions bus) \<and> unat addr \<in> region_span r"
proof -
  have "sorted_wrt (\<lambda>r r'. \<not> (mmio_region_has addr r \<and> mmio_region_has addr r')) (mb_regions bus)"
    using assms by (auto simp: bus_ok_def region_has_span elim!: sorted_wrt_mono_rel [rotated])
  from find_disjoint [OF this] show ?thesis
    by (simp add: mmio_bus_find_def flip: region_has_span)
qed

subsection \<open>Properties\<close>

text \<open>The scheduler is a time-ordered queue.  Whatever events are scheduled, in whatever
  order, the queue is sorted by due cycle and holds exactly those events, events due
  at the same cycle stay in the order they were scheduled, and one dispatch returns
  after calling exactly the events that are due, in queue order, keeping the rest.\<close>

theorem scheduler_dispatch:
  "let q = foldl mm_scheduler_schedule [] vs in
     sorted (map ev_due q) \<and> mset q = mset vs \<and>
     filter (\<lambda>ev. ev_due ev = t) q = filter (\<lambda>ev. ev_due ev = t) vs \<and>
     mm_scheduler_run_due (\<lambda>cb now (q, fired). (q, fired @ [cb])) now (q, []) =
       Some (filter (\<lambda>ev. now < ev_due ev) q, map ev_cb (filter (\<lambda>ev. ev_due ev \<le> now) q))"
proof -
  define q where "q = foldl mm_scheduler_schedule [] vs"
  have q: "sorted (map ev_due q)" "mset q = mset vs"
    "filter (\<lambda>ev. ev_due ev = t) q = filter (\<lambda>ev. ev_due ev = t) vs"
    using sched.puts_sorted [of "[]" vs] sched.puts_mset [of "[]" vs] sched.puts_fifo [of "[]" t vs]
    by (simp_all add: q_def)
  have "mm_scheduler_run_due (\<lambda>cb now (q, fired). (q, fired @ [cb])) now (q, []) =
      Some (filter (\<lambda>ev. now < ev_due ev) q, map ev_cb (filter (\<lambda>ev. ev_due ev \<le> now) q))"
    using run_due_passive [of "\<lambda>cb now e. e @ [cb]" now q "[]"] q(1)
    by (simp add: foldl_snoc_map sorted_takeWhile_filter sorted_dropWhile_filter)
  with q show ?thesis unfolding q_def [symmetric] Let_def by simp
qed

text \<open>Bus decoding is unambiguous.  After registering any list of regions none of
  which runs past the end of the address space, an address reaches a region exactly
  when that region was accepted and contains the address, so the order of
  registration does not matter for where an access goes.\<close>

theorem bus_lookup_unambiguous:
  assumes "list_all no_wrap rs"
  shows "mmio_bus_find (register_all (mmio_bus_init n) rs) addr = Some r \<longleftrightarrow>
    r \<in> set (mb_regions (register_all (mmio_bus_init n) rs)) \<and> unat addr \<in> region_span r"
  by (rule bus_find_unique [OF register_all_ok [OF bus_init_ok assms]])

theorem bus_lookup_unambiguous_witness:
  "mmio_bus_find (register_all (mmio_bus_init 2)
      [\<lparr>mr_base = 0x40000000, mr_size = 0x400, mr_read = None, mr_write = None\<rparr>]) 0x40000004 =
    Some \<lparr>mr_base = 0x40000000, mr_size = 0x400, mr_read = None, mr_write = (None :: (mm_sec_state \<Rightarrow> u32 \<Rightarrow> u32 \<Rightarrow> u32 \<Rightarrow> unit \<Rightarrow> bool \<times> unit) option)\<rparr>"
  by (subst bus_lookup_unambiguous)
    (simp_all add: no_wrap_def register_all_def mmio_bus_init_def mmio_bus_register_region_def region_span_def)

end
