(* ===== verification/Memmap.thy ===== *)
theory Memmap
imports Core_Interfaces
begin

text \<open>
  The guest memory map of \<^verbatim>\<open>src/memmap.c\<close>: flash and RAM windows in their Secure and
  Non-secure aliases, the RAM region table, the access interceptor and the MMIO
  fall-back, with every accessor.

  The host buffers are byte lists.  C does not check an index into them, so the model
  records an access outside the list in the ghost field \<^verbatim>\<open>mm_host_oob\<close>; after that the
  C program has undefined behaviour and the values the model returns mean nothing.
  The device world is the field \<^verbatim>\<open>mm_env\<close> and \<^verbatim>\<open>g_mmio_active_sec\<close> is \<^verbatim>\<open>mm_active_sec\<close>.
  The write-watch of \<^verbatim>\<open>mm_memmap_set_watch\<close> only prints and is left out.
\<close>

record mm_mem =
  m_buffer :: "u8 list option"
  m_length :: nat
  m_base :: u32

record mm_ram_region =
  rr_base_s :: u32
  rr_base_ns :: u32
  rr_size :: u32
  rr_mpcbb_index :: int

record mm_target_cfg =
  cfg_flash_base_s :: u32
  cfg_flash_size_s :: u32
  cfg_flash_base_ns :: u32
  cfg_flash_size_ns :: u32
  cfg_ram_base_s :: u32
  cfg_ram_size_s :: u32
  cfg_ram_base_ns :: u32
  cfg_ram_size_ns :: u32
  cfg_ram_regions :: "mm_ram_region list"
  cfg_mpcbb_block_size :: u32
  cfg_mpcbb_block_secure :: "(int \<Rightarrow> u32 \<Rightarrow> bool) option"

datatype mm_access_type = MM_ACCESS_READ | MM_ACCESS_WRITE | MM_ACCESS_EXEC

record 'e mm_memmap =
  mm_flash :: mm_mem
  mm_ram :: mm_mem
  mm_ram_regions :: "(mm_ram_region \<times> u32) list"
  mm_ram_total_size :: u32
  flash_base_s :: u32
  flash_size_s :: u32
  flash_base_ns :: u32
  flash_size_ns :: u32
  ram_base_s :: u32
  ram_size_s :: u32
  ram_base_ns :: u32
  ram_size_ns :: u32
  mm_mmio :: "'e mmio_bus"
  mm_interceptor :: "(mm_access_type \<Rightarrow> mm_sec_state \<Rightarrow> u32 \<Rightarrow> u32 \<Rightarrow> 'e \<Rightarrow> bool \<times> 'e) option"
  mm_flash_write :: "(mm_sec_state \<Rightarrow> u32 \<Rightarrow> u32 \<Rightarrow> u32 \<Rightarrow> u8 list \<Rightarrow> 'e \<Rightarrow> bool \<times> u8 list \<times> 'e) option"
  mm_env :: 'e
  mm_active_sec :: mm_sec_state
  mm_host_oob :: bool

subsection \<open>Buffers\<close>

definition buf_byte :: "u8 list \<Rightarrow> u32 \<Rightarrow> u32"
  where "buf_byte b i = (if unat i < length b then to_u32 (b ! unat i) else 0)"

definition buf_oob :: "u8 list \<Rightarrow> u32 \<Rightarrow> bool"
  where "buf_oob b i = (length b \<le> unat i)"

text \<open>None is the C result MM_FALSE; otherwise the value and whether the read left the buffer.\<close>

definition read_buf_le :: "u8 list option \<Rightarrow> u32 \<Rightarrow> u32 \<Rightarrow> (u32 \<times> bool) option"
  where "read_buf_le buf offset sz =
    (case buf of None \<Rightarrow> None
     | Some b \<Rightarrow>
       if sz = 1 then Some (buf_byte b offset, buf_oob b offset)
       else if sz = 2 then
         Some (buf_byte b offset OR push_bit 8 (buf_byte b (offset + 1)),
               buf_oob b offset \<or> buf_oob b (offset + 1))
       else if sz = 4 then
         Some (buf_byte b offset OR push_bit 8 (buf_byte b (offset + 1)) OR
               push_bit 16 (buf_byte b (offset + 2)) OR push_bit 24 (buf_byte b (offset + 3)),
               buf_oob b offset \<or> buf_oob b (offset + 1) \<or> buf_oob b (offset + 2) \<or> buf_oob b (offset + 3))
       else if sz > 0 \<and> sz \<le> 4 then
         Some (foldl (\<lambda>v i. v OR push_bit (i * 8) (buf_byte b (offset + of_nat i))) 0 [0..<unat sz],
               list_ex (\<lambda>i. buf_oob b (offset + of_nat i)) [0..<unat sz])
       else None)"

definition buf_put :: "u8 list \<Rightarrow> u32 \<Rightarrow> u8 \<Rightarrow> u8 list"
  where "buf_put b i v = b[unat i := v]"

subsection \<open>Windows\<close>

definition in_window :: "u32 \<Rightarrow> u32 \<Rightarrow> u32 \<Rightarrow> u32 \<Rightarrow> bool"
  where "in_window base lim addr sz = (addr \<ge> base \<and> (addr - base) + sz \<le> lim)"

text \<open>The base and size limit of the Secure and the Non-secure flash window, with the
  fall-back to the \<^verbatim>\<open>mm_mem\<close> view when no size is configured.\<close>

definition flash_win :: "'e mm_memmap \<Rightarrow> mm_sec_state \<Rightarrow> u32 \<times> u32"
  where "flash_win m w =
    (let base = (if w = MM_SECURE then flash_base_s m else flash_base_ns m);
         size_limit = (if w = MM_SECURE then flash_size_s m else flash_size_ns m)
     in if size_limit = 0 \<and> m_length (mm_flash m) > 0
        then (m_base (mm_flash m), of_nat (m_length (mm_flash m))) else (base, size_limit))"

fun ram_scan :: "(mm_ram_region \<times> u32) list \<Rightarrow> u32 \<Rightarrow> u32 \<Rightarrow> u32 option" where
  "ram_scan [] addr sz = None"
| "ram_scan ((r, off) # rs) addr sz =
    (if addr \<ge> rr_base_s r \<and> (addr - rr_base_s r) + sz \<le> rr_size r then
       Some (off + (addr - rr_base_s r))
     else if addr \<ge> rr_base_ns r \<and> (addr - rr_base_ns r) + sz \<le> rr_size r then
       Some (off + (addr - rr_base_ns r))
     else ram_scan rs addr sz)"

definition ram_offset_for_addr :: "'e mm_memmap \<Rightarrow> u32 \<Rightarrow> u32 \<Rightarrow> u32 option"
  where "ram_offset_for_addr m addr sz =
    (case (if mm_ram_regions m \<noteq> [] then ram_scan (mm_ram_regions m) addr sz
           else if in_window (ram_base_s m) (ram_size_s m) addr sz then Some (addr - ram_base_s m)
           else if in_window (ram_base_ns m) (ram_size_ns m) addr sz then Some (addr - ram_base_ns m)
           else None) of
       Some off \<Rightarrow> Some off
     | None \<Rightarrow>
       if mm_ram_total_size m > 0 \<and> addr + sz \<le> mm_ram_total_size m then Some addr else None)"

definition intercept_ok ::
  "'e mm_memmap \<Rightarrow> mm_access_type \<Rightarrow> mm_sec_state \<Rightarrow> u32 \<Rightarrow> u32 \<Rightarrow> bool \<times> 'e mm_memmap"
  where "intercept_ok m type sec addr sz =
    (case mm_interceptor m of None \<Rightarrow> (True, m)
     | Some f \<Rightarrow> let (ok, e) = f type sec addr sz (mm_env m) in (ok, m\<lparr>mm_env := e\<rparr>))"

subsection \<open>Configuration\<close>

definition mm_memmap_init :: "nat \<Rightarrow> 'e \<Rightarrow> 'e mm_memmap"
  where "mm_memmap_init region_capacity e = \<lparr>
    mm_flash = \<lparr>m_buffer = None, m_length = 0, m_base = 0\<rparr>,
    mm_ram = \<lparr>m_buffer = None, m_length = 0, m_base = 0\<rparr>,
    mm_ram_regions = [], mm_ram_total_size = 0,
    flash_base_s = 0, flash_size_s = 0, flash_base_ns = 0, flash_size_ns = 0,
    ram_base_s = 0, ram_size_s = 0, ram_base_ns = 0, ram_size_ns = 0,
    mm_mmio = mmio_bus_init region_capacity,
    mm_interceptor = None, mm_flash_write = None,
    mm_env = e, mm_active_sec = MM_SECURE, mm_host_oob = False \<rparr>"

definition mm_memmap_set_interceptor ::
  "'e mm_memmap \<Rightarrow> (mm_access_type \<Rightarrow> mm_sec_state \<Rightarrow> u32 \<Rightarrow> u32 \<Rightarrow> 'e \<Rightarrow> bool \<times> 'e) option \<Rightarrow> 'e mm_memmap"
  where "mm_memmap_set_interceptor m fn = m\<lparr>mm_interceptor := fn\<rparr>"

definition mm_memmap_set_flash_writer ::
  "'e mm_memmap \<Rightarrow> (mm_sec_state \<Rightarrow> u32 \<Rightarrow> u32 \<Rightarrow> u32 \<Rightarrow> u8 list \<Rightarrow> 'e \<Rightarrow> bool \<times> u8 list \<times> 'e) option \<Rightarrow>
   'e mm_memmap"
  where "mm_memmap_set_flash_writer m fn = m\<lparr>mm_flash_write := fn\<rparr>"

definition mm_memmap_configure_flash ::
  "'e mm_memmap \<Rightarrow> mm_target_cfg \<Rightarrow> u8 list \<Rightarrow> bool \<Rightarrow> 'e mm_memmap"
  where "mm_memmap_configure_flash m cfg backing secure_view =
    m\<lparr>flash_base_s := cfg_flash_base_s cfg, flash_base_ns := cfg_flash_base_ns cfg,
        flash_size_s := cfg_flash_size_s cfg, flash_size_ns := cfg_flash_size_ns cfg,
        mm_flash := (if secure_view
          then \<lparr>m_buffer = Some backing, m_length = unat (cfg_flash_size_s cfg), m_base = cfg_flash_base_s cfg\<rparr>
          else \<lparr>m_buffer = Some backing, m_length = unat (cfg_flash_size_ns cfg), m_base = cfg_flash_base_ns cfg\<rparr>)\<rparr>"

text \<open>The loop that copies at most eight regions and lays them out one after the other.\<close>

fun ram_layout :: "mm_ram_region list \<Rightarrow> u32 \<Rightarrow> (mm_ram_region \<times> u32) list \<times> u32" where
  "ram_layout [] tot = ([], tot)"
| "ram_layout (r # rs) tot =
    (let (rest, t) = ram_layout rs (tot + rr_size r) in ((r, tot) # rest, t))"

definition mm_memmap_configure_ram ::
  "'e mm_memmap \<Rightarrow> mm_target_cfg \<Rightarrow> u8 list \<Rightarrow> bool \<Rightarrow> 'e mm_memmap"
  where "mm_memmap_configure_ram m cfg backing secure_view =
    (let (regions, tot) =
           (if cfg_ram_regions cfg \<noteq> [] then ram_layout (take 8 (cfg_ram_regions cfg)) 0
            else ([], cfg_ram_size_s cfg));
         fallback = (if secure_view then cfg_ram_size_s cfg else cfg_ram_size_ns cfg)
     in m\<lparr>ram_base_s := cfg_ram_base_s cfg, ram_base_ns := cfg_ram_base_ns cfg,
            ram_size_s := cfg_ram_size_s cfg, ram_size_ns := cfg_ram_size_ns cfg,
            mm_ram_regions := regions, mm_ram_total_size := tot,
            mm_ram := \<lparr>m_buffer = Some backing,
                       m_length = unat (if tot \<noteq> 0 then tot else fallback),
                       m_base = (if secure_view then cfg_ram_base_s cfg else cfg_ram_base_ns cfg)\<rparr>\<rparr>)"

subsection \<open>Accesses\<close>

abbreviation note_oob :: "bool \<Rightarrow> 'e mm_memmap \<Rightarrow> 'e mm_memmap"
  where "note_oob b m \<equiv> m\<lparr>mm_host_oob := mm_host_oob m \<or> b\<rparr>"

text \<open>One flash window of a read, then whatever follows it.\<close>

definition try_flash ::
  "'e mm_memmap \<Rightarrow> mm_sec_state \<Rightarrow> u32 \<Rightarrow> u32 \<Rightarrow> u32 option \<times> 'e mm_memmap \<Rightarrow> u32 option \<times> 'e mm_memmap"
  where "try_flash m w addr sz other =
    (let (base, lim) = flash_win m w in
     if m_buffer (mm_flash m) \<noteq> None \<and> in_window base lim addr sz then
       (case read_buf_le (m_buffer (mm_flash m)) (addr - base) sz of
          Some (v, bad) \<Rightarrow> (Some v, note_oob bad m)
        | None \<Rightarrow> other)
     else other)"

definition try_ram ::
  "'e mm_memmap \<Rightarrow> u32 \<Rightarrow> u32 \<Rightarrow> u32 option \<times> 'e mm_memmap \<Rightarrow> u32 option \<times> 'e mm_memmap"
  where "try_ram m addr sz other =
    (if m_buffer (mm_ram m) \<noteq> None then
       (case ram_offset_for_addr m addr sz of
          Some offset \<Rightarrow> (case read_buf_le (m_buffer (mm_ram m)) offset sz of
              Some (v, bad) \<Rightarrow> (Some v, note_oob bad m)
            | None \<Rightarrow> other)
        | None \<Rightarrow> other)
     else other)"

definition bus_read :: "'e mm_memmap \<Rightarrow> u32 \<Rightarrow> u32 \<Rightarrow> u32 option \<times> 'e mm_memmap"
  where "bus_read m addr sz =
    (let (v, e) = mmio_bus_read (mm_mmio m) (mm_active_sec m) addr sz (mm_env m)
     in (v, m\<lparr>mm_env := e\<rparr>))"

definition bus_write :: "'e mm_memmap \<Rightarrow> u32 \<Rightarrow> u32 \<Rightarrow> u32 \<Rightarrow> bool \<times> 'e mm_memmap"
  where "bus_write m addr sz v =
    (let (ok, e) = mmio_bus_write (mm_mmio m) (mm_active_sec m) addr sz v (mm_env m)
     in (ok, m\<lparr>mm_env := e\<rparr>))"

definition mm_memmap_read ::
  "'e mm_memmap \<Rightarrow> mm_sec_state \<Rightarrow> u32 \<Rightarrow> u32 \<Rightarrow> u32 option \<times> 'e mm_memmap"
  where "mm_memmap_read m0 sec addr sz =
    (let (ok, m) = intercept_ok m0 MM_ACCESS_READ sec addr sz in
     if \<not> ok then (None, m)
     else try_flash m MM_SECURE addr sz
       (try_flash m MM_NONSECURE addr sz
         (try_ram m addr sz
           (bus_read (m\<lparr>mm_active_sec := sec\<rparr>) addr sz))))"

text \<open>The bytes stored by a write of 4, 2 or 1 bytes; other sizes are not stored.\<close>

definition write_bytes :: "u32 \<Rightarrow> u32 \<Rightarrow> u8 list option"
  where "write_bytes sz v =
    (if sz = 4 then Some [to_u8 (v AND 0xff), to_u8 (drop_bit 8 v AND 0xff),
                          to_u8 (drop_bit 16 v AND 0xff), to_u8 (drop_bit 24 v AND 0xff)]
     else if sz = 2 then Some [to_u8 (v AND 0xff), to_u8 (drop_bit 8 v AND 0xff)]
     else if sz = 1 then Some [to_u8 (v AND 0xff)]
     else None)"

fun put_bytes :: "u8 list \<Rightarrow> u32 \<Rightarrow> u8 list \<Rightarrow> u8 list \<times> bool" where
  "put_bytes b off [] = (b, False)"
| "put_bytes b off (x # xs) =
    (let (b', bad) = put_bytes (buf_put b off x) (off + 1) xs in (b', buf_oob b off \<or> bad))"

definition ram_store :: "'e mm_memmap \<Rightarrow> u32 \<Rightarrow> u8 list \<Rightarrow> 'e mm_memmap"
  where "ram_store m offset bytes =
    (case m_buffer (mm_ram m) of None \<Rightarrow> m
     | Some b \<Rightarrow> let (b', bad) = put_bytes b offset bytes
                in note_oob bad (m\<lparr>mm_ram := (mm_ram m)\<lparr>m_buffer := Some b'\<rparr>\<rparr>))"

definition flash_store ::
  "'e mm_memmap \<Rightarrow> mm_sec_state \<Rightarrow> u32 \<Rightarrow> u32 \<Rightarrow> u32 \<Rightarrow> bool \<times> 'e mm_memmap"
  where "flash_store m sec addr sz v =
    (case (mm_flash_write m, m_buffer (mm_flash m)) of
       (Some f, Some b) \<Rightarrow>
         let (ok, b', e) = f sec addr sz v b (mm_env m)
         in (ok, m\<lparr>mm_flash := (mm_flash m)\<lparr>m_buffer := Some b'\<rparr>, mm_env := e\<rparr>)
     | _ \<Rightarrow> (False, m))"

text \<open>The last stage of a write: MMIO, then the write-ignored System Control Space.\<close>

definition write_mmio ::
  "'e mm_memmap \<Rightarrow> mm_sec_state \<Rightarrow> u32 \<Rightarrow> u32 \<Rightarrow> u32 \<Rightarrow> bool \<times> 'e mm_memmap"
  where "write_mmio m sec addr sz v =
    (let (ok, m') = bus_write (m\<lparr>mm_active_sec := sec\<rparr>) addr sz v
     in if ok then (True, m')
        else if addr \<ge> 0xE000E000 \<and> addr < 0xE0010000 then (True, m') else (False, m'))"

definition mm_memmap_write ::
  "'e mm_memmap \<Rightarrow> mm_sec_state \<Rightarrow> u32 \<Rightarrow> u32 \<Rightarrow> u32 \<Rightarrow> bool \<times> 'e mm_memmap"
  where "mm_memmap_write m0 sec addr sz v =
    (let (ok, m) = intercept_ok m0 MM_ACCESS_WRITE sec addr sz in
     if \<not> ok then (False, m)
     else
       let (bs, ls) = flash_win m MM_SECURE; (bn, ln) = flash_win m MM_NONSECURE in
       if m_buffer (mm_flash m) \<noteq> None \<and> mm_flash_write m \<noteq> None \<and>
          (in_window bs ls addr sz \<or> in_window bn ln addr sz)
       then flash_store m sec addr sz v
       else if m_buffer (mm_ram m) \<noteq> None then
         (case (ram_offset_for_addr m addr sz, write_bytes sz v) of
            (Some offset, Some bytes) \<Rightarrow> (True, ram_store m offset bytes)
          | _ \<Rightarrow> write_mmio m sec addr sz v)
       else write_mmio m sec addr sz v)"

text \<open>An instruction fetch looks at flash and RAM only; a hit that cannot be read fails.\<close>

definition mm_memmap_fetch_read16 ::
  "'e mm_memmap \<Rightarrow> mm_sec_state \<Rightarrow> u32 \<Rightarrow> u32 option \<times> 'e mm_memmap"
  where "mm_memmap_fetch_read16 m0 sec addr =
    (let (ok, m) = intercept_ok m0 MM_ACCESS_EXEC sec addr 2 in
     if \<not> ok then (None, m)
     else try_flash m MM_SECURE addr 2
       (try_flash m MM_NONSECURE addr 2
         (try_ram m addr 2 (None, m))))"

definition try_flash8 ::
  "'e mm_memmap \<Rightarrow> mm_sec_state \<Rightarrow> u32 \<Rightarrow> u8 option \<times> 'e mm_memmap \<Rightarrow> u8 option \<times> 'e mm_memmap"
  where "try_flash8 m w addr other =
    (let (base, lim) = flash_win m w in
     case m_buffer (mm_flash m) of
       Some b \<Rightarrow> if addr \<ge> base \<and> addr - base < lim
                 then (Some (to_u8 (buf_byte b (addr - base))), note_oob (buf_oob b (addr - base)) m)
                 else other
     | None \<Rightarrow> other)"

definition mm_memmap_read8 :: "'e mm_memmap \<Rightarrow> mm_sec_state \<Rightarrow> u32 \<Rightarrow> u8 option \<times> 'e mm_memmap"
  where "mm_memmap_read8 m0 sec addr =
    (let (ok, m) = intercept_ok m0 MM_ACCESS_READ sec addr 1 in
     if \<not> ok then (None, m)
     else try_flash8 m MM_SECURE addr
       (try_flash8 m MM_NONSECURE addr
         (let mmio = (let (v, m') = bus_read m addr 1
                      in (map_option (\<lambda>t. to_u8 (t AND 0xff)) v, m'))
          in case m_buffer (mm_ram m) of
               None \<Rightarrow> mmio
             | Some b \<Rightarrow> (case ram_offset_for_addr m addr 1 of
                 None \<Rightarrow> mmio
               | Some off \<Rightarrow> (Some (to_u8 (buf_byte b off)), note_oob (buf_oob b off) m)))))"

definition mm_memmap_write8 :: "'e mm_memmap \<Rightarrow> mm_sec_state \<Rightarrow> u32 \<Rightarrow> u8 \<Rightarrow> bool \<times> 'e mm_memmap"
  where "mm_memmap_write8 m0 sec addr v =
    (let (ok, m) = intercept_ok m0 MM_ACCESS_WRITE sec addr 1 in
     if \<not> ok then (False, m)
     else case (m_buffer (mm_ram m), ram_offset_for_addr m addr 1) of
       (Some b, Some off) \<Rightarrow> (True, ram_store m off [v])
     | _ \<Rightarrow> bus_write m addr 1 (to_u32 v))"

subsection \<open>Bounds\<close>

lemma unat_add_le: "unat (x + y) \<le> unat x + unat y" for x y :: "'a::len word"
  by (simp add: unat_word_ariths)

lemma in_window_bound:
  assumes "in_window base lim addr sz" and "unat addr + unat sz < 2 ^ 32"
  shows "unat (addr - base) + unat sz \<le> unat lim"
proof -
  have le: "base \<le> addr" and l: "(addr - base) + sz \<le> lim"
    using assms(1) by (auto simp: in_window_def)
  have "unat (addr - base) = unat addr - unat base" using le by (rule unat_sub)
  then have "unat (addr - base) + unat sz < 2 ^ 32" using assms(2) by simp
  then have "unat ((addr - base) + sz) = unat (addr - base) + unat sz"
    by (simp add: unat_word_ariths)
  with l show ?thesis by (simp add: word_le_nat_alt)
qed

text \<open>The buffers are as large as the windows that lead to them.\<close>

definition ram_ok :: "'e mm_memmap \<Rightarrow> bool"
  where "ram_ok m = (\<forall>b. m_buffer (mm_ram m) = Some b \<longrightarrow>
    unat (mm_ram_total_size m) \<le> length b \<and>
    (mm_ram_regions m = [] \<longrightarrow> unat (ram_size_s m) \<le> length b \<and> unat (ram_size_ns m) \<le> length b) \<and>
    (\<forall>(r, off) \<in> set (mm_ram_regions m). unat off + unat (rr_size r) \<le> length b))"

definition flash_ok :: "'e mm_memmap \<Rightarrow> bool"
  where "flash_ok m =
    ((\<forall>b w. m_buffer (mm_flash m) = Some b \<longrightarrow> unat (snd (flash_win m w)) \<le> length b) \<and>
     (\<forall>f sec addr sz v b e. mm_flash_write m = Some f \<longrightarrow> length (fst (snd (f sec addr sz v b e))) = length b))"

definition map_ok :: "'e mm_memmap \<Rightarrow> bool"
  where "map_ok m = (ram_ok m \<and> flash_ok m)"

lemma ram_scan_bound:
  "ram_scan rs addr sz = Some off \<Longrightarrow> unat addr + unat sz < 2 ^ 32 \<Longrightarrow>
   \<forall>(r, o1) \<in> set rs. unat o1 + unat (rr_size r) \<le> n \<Longrightarrow> unat off + unat sz \<le> n"
proof (induction rs addr sz rule: ram_scan.induct)
  case (2 r o1 rs addr sz)
  have step: "unat (o1 + (addr - base)) + unat sz \<le> n"
    if "addr \<ge> base" "(addr - base) + sz \<le> rr_size r" for base
    using in_window_bound [of base "rr_size r" addr sz] that 2(3,4) unat_add_le [of o1 "addr - base"]
    by (simp add: in_window_def)
  then show ?case using 2 by (auto split: if_splits)
qed simp

lemma ram_offset_bound:
  assumes "ram_ok m" "m_buffer (mm_ram m) = Some b" "ram_offset_for_addr m addr sz = Some off"
    "unat addr + unat sz < 2 ^ 32"
  shows "unat off + unat sz \<le> length b"
proof -
  have tot: "addr + sz \<le> mm_ram_total_size m \<Longrightarrow> unat addr + unat sz \<le> length b"
    using assms(1,2,4) by (simp add: ram_ok_def word_le_nat_alt unat_word_ariths)
  show ?thesis
  proof (cases "mm_ram_regions m = []")
    case True
    then show ?thesis
      using assms in_window_bound [of "ram_base_s m" "ram_size_s m" addr sz]
        in_window_bound [of "ram_base_ns m" "ram_size_ns m" addr sz] tot
      by (auto simp: ram_offset_for_addr_def ram_ok_def split: if_splits)
  next
    case False
    then show ?thesis
      using assms tot ram_scan_bound [of "mm_ram_regions m" addr sz off "length b"]
      by (auto simp: ram_offset_for_addr_def ram_ok_def split: if_splits option.splits)
  qed
qed

lemma read_buf_le_safe:
  assumes "unat off + unat sz \<le> length b" "read_buf_le (Some b) off sz = Some (v, bad)"
  shows "\<not> bad"
proof -
  have "\<not> buf_oob b (off + of_nat i)" if "i < unat sz" for i
  proof -
    have "unat (off + of_nat i) \<le> unat off + unat (of_nat i :: u32)" by (rule unat_add_le)
    also have "unat (of_nat i :: u32) \<le> i" by (simp add: unat_of_nat)
    finally show ?thesis using that assms(1) by (simp add: buf_oob_def)
  qed
  from this [of 0] this [of 1] this [of 2] this [of 3] this show ?thesis
    using assms(2) by (auto simp: read_buf_le_def list_ex_iff word_le_nat_alt split: if_splits)
qed

lemma put_bytes_eq:
  "unat off + length xs \<le> length b \<Longrightarrow> length b \<le> 2 ^ 32 \<Longrightarrow>
   put_bytes b off xs = (take (unat off) b @ xs @ drop (unat off + length xs) b, False)"
proof (induction xs arbitrary: b off)
  case Nil
  then show ?case by simp
next
  case (Cons x xs)
  show ?case
  proof (cases "xs = []")
    case True
    then show ?thesis using Cons.prems
      by (simp add: buf_put_def buf_oob_def upd_conv_take_nth_drop)
  next
    case False
    then have "unat off + 1 < 2 ^ 32" using Cons.prems by (cases xs) auto
    then have o1: "unat (off + 1) = unat off + 1" by (simp add: unat_word_ariths)
    have "put_bytes (buf_put b off x) (off + 1) xs =
        (take (unat (off + 1)) (buf_put b off x) @ xs @ drop (unat (off + 1) + length xs) (buf_put b off x), False)"
      by (rule Cons.IH) (use Cons.prems o1 in \<open>simp_all add: buf_put_def\<close>)
    then show ?thesis using Cons.prems o1
      by (simp add: buf_put_def buf_oob_def take_Suc_conv_app_nth)
  qed
qed

lemma put_bytes_length: "length (fst (put_bytes b off xs)) = length b"
  by (induction xs arbitrary: b off) (simp_all add: buf_put_def case_prod_beta Let_def)

lemma put_bytes_safe: "unat off + length xs \<le> length b \<Longrightarrow> \<not> snd (put_bytes b off xs)"
proof (induction xs arbitrary: b off)
  case (Cons x xs)
  have "unat (off + 1) \<le> unat off + 1" using unat_add_le [of off 1] by simp
  then have "\<not> snd (put_bytes (buf_put b off x) (off + 1) xs)"
    using Cons by (intro Cons.IH) (simp add: buf_put_def)
  then show ?case using Cons.prems by (simp add: buf_oob_def split: prod.splits)
qed simp

subsection \<open>Host safety of every access\<close>

lemma intercept_same:
  "intercept_ok m t sec addr sz = (ok, m1) \<Longrightarrow> \<exists>e. m1 = m\<lparr>mm_env := e\<rparr>"
proof (cases "mm_interceptor m")
  case None
  assume "intercept_ok m t sec addr sz = (ok, m1)"
  with None have "m1 = m\<lparr>mm_env := mm_env m\<rparr>" by (simp add: intercept_ok_def)
  then show ?thesis ..
qed (auto simp: intercept_ok_def split: prod.splits)

lemma flash_win_update [simp]:
  "flash_win (m\<lparr>mm_env := e\<rparr>) w = flash_win m w"
  "flash_win (m\<lparr>mm_active_sec := s\<rparr>) w = flash_win m w"
  "flash_win (m\<lparr>mm_host_oob := b\<rparr>) w = flash_win m w"
  "flash_win (m\<lparr>mm_ram := r\<rparr>) w = flash_win m w"
  "flash_win (m\<lparr>mm_flash := (mm_flash m)\<lparr>m_buffer := x\<rparr>\<rparr>) w = flash_win m w"
  by (simp_all add: flash_win_def Let_def)

lemma map_ok_update [simp]:
  "map_ok (m\<lparr>mm_env := e\<rparr>) = map_ok m"
  "map_ok (m\<lparr>mm_active_sec := s\<rparr>) = map_ok m"
  "map_ok (m\<lparr>mm_host_oob := b\<rparr>) = map_ok m"
  by (simp_all add: map_ok_def ram_ok_def flash_ok_def)

text \<open>What an access keeps: the map stays well formed and nothing outside a host buffer is touched.\<close>

definition safe_step :: "'e mm_memmap \<Rightarrow> 'e mm_memmap \<Rightarrow> bool"
  where "safe_step m m' = (map_ok m' \<and> mm_host_oob m' = mm_host_oob m)"

lemma try_flash_safe:
  assumes "map_ok m" "unat addr + unat sz < 2 ^ 32" "safe_step m (snd other)"
  shows "safe_step m (snd (try_flash m w addr sz other))"
proof -
  obtain base lim where win: "flash_win m w = (base, lim)" by (cases "flash_win m w") auto
  have "read_buf_le (Some b) (addr - base) sz \<noteq> Some (v, True)"
    if "m_buffer (mm_flash m) = Some b" "in_window base lim addr sz" for b v
  proof -
    have "unat lim \<le> length b" using assms(1) that(1) win
      unfolding map_ok_def flash_ok_def by (metis snd_conv)
    then have "unat (addr - base) + unat sz \<le> length b"
      using in_window_bound [OF that(2) assms(2)] by simp
    from read_buf_le_safe [OF this] show ?thesis by blast
  qed
  then show ?thesis using assms win
    by (auto simp: try_flash_def safe_step_def split: option.splits)
qed

lemma try_ram_safe:
  assumes "map_ok m" "unat addr + unat sz < 2 ^ 32" "safe_step m (snd other)"
  shows "safe_step m (snd (try_ram m addr sz other))"
proof -
  have "read_buf_le (Some b) off sz \<noteq> Some (v, True)"
    if "m_buffer (mm_ram m) = Some b" "ram_offset_for_addr m addr sz = Some off" for b off v
    using read_buf_le_safe [of off sz b v True] ram_offset_bound [OF _ that assms(2)] assms(1)
    by (auto simp: map_ok_def)
  then show ?thesis using assms
    by (auto simp: try_ram_def safe_step_def split: option.splits)
qed

lemma bus_read_safe: "map_ok m \<Longrightarrow> safe_step m (snd (bus_read m addr sz))"
  by (simp add: bus_read_def safe_step_def split: prod.splits)

lemma bus_write_safe: "map_ok m \<Longrightarrow> safe_step m (snd (bus_write m addr sz v))"
  by (simp add: bus_write_def safe_step_def split: prod.splits)

lemma write_mmio_safe: "map_ok m \<Longrightarrow> safe_step m (snd (write_mmio m sec addr sz v))"
  using bus_write_safe [of "m\<lparr>mm_active_sec := sec\<rparr>" addr sz v]
  by (cases "bus_write (m\<lparr>mm_active_sec := sec\<rparr>) addr sz v") (auto simp: write_mmio_def safe_step_def)

lemma write_bytes_length: "write_bytes sz v = Some xs \<Longrightarrow> length xs = unat sz"
  by (auto simp: write_bytes_def split: if_splits)

lemma ram_store_ok: "map_ok m \<Longrightarrow> map_ok (ram_store m off xs)"
proof -
  assume ok: "map_ok m"
  show ?thesis
  proof (cases "m_buffer (mm_ram m)")
    case (Some b)
    then show ?thesis using ok put_bytes_length [of b off xs]
      by (auto simp: ram_store_def map_ok_def ram_ok_def flash_ok_def split: prod.splits)
  qed (use ok in \<open>simp add: ram_store_def\<close>)
qed

lemma ram_store_safe:
  assumes "map_ok m" "ram_offset_for_addr m addr sz = Some off" "length xs = unat sz"
    "unat addr + unat sz < 2 ^ 32"
  shows "safe_step m (ram_store m off xs)"
proof (cases "m_buffer (mm_ram m)")
  case None
  then show ?thesis using assms(1) by (simp add: ram_store_def safe_step_def)
next
  case (Some b)
  have "\<not> snd (put_bytes b off xs)"
    using ram_offset_bound [OF _ Some assms(2,4)] assms(1,3)
    by (intro put_bytes_safe) (simp add: map_ok_def)
  then show ?thesis using Some ram_store_ok [OF assms(1)]
    by (cases "put_bytes b off xs") (simp add: safe_step_def, simp add: ram_store_def)
qed

lemma flash_store_safe: "map_ok m \<Longrightarrow> safe_step m (snd (flash_store m sec addr sz v))"
proof (cases "mm_flash_write m")
  case (Some f)
  assume ok: "map_ok m"
  show ?thesis
  proof (cases "m_buffer (mm_flash m)")
    case B: (Some b)
    obtain r b' e where f: "f sec addr sz v b (mm_env m) = (r, b', e)"
      by (cases "f sec addr sz v b (mm_env m)") auto
    have "length b' = length b"
      using ok Some f unfolding map_ok_def flash_ok_def by (metis fst_conv snd_conv)
    then show ?thesis using ok B Some f
      by (auto simp: flash_store_def safe_step_def map_ok_def ram_ok_def flash_ok_def)
  qed (use ok in \<open>simp add: flash_store_def safe_step_def split: option.splits\<close>)
qed (simp add: flash_store_def safe_step_def)

lemma mm_memmap_read_safe:
  assumes "map_ok m" "unat addr + unat sz < 2 ^ 32"
  shows "safe_step m (snd (mm_memmap_read m sec addr sz))"
proof -
  obtain ok m1 where i: "intercept_ok m MM_ACCESS_READ sec addr sz = (ok, m1)"
    by (cases "intercept_ok m MM_ACCESS_READ sec addr sz") auto
  then obtain e where m1: "m1 = m\<lparr>mm_env := e\<rparr>" using intercept_same by blast
  have ok1: "map_ok m1" using assms(1) m1 by simp
  have "safe_step m1 (snd (bus_read (m1\<lparr>mm_active_sec := sec\<rparr>) addr sz))"
    using bus_read_safe [of "m1\<lparr>mm_active_sec := sec\<rparr>" addr sz] ok1 by (simp add: safe_step_def)
  note try_flash_safe [OF ok1 assms(2) try_flash_safe [OF ok1 assms(2) try_ram_safe [OF ok1 assms(2) this]]]
  then show ?thesis using i ok1 m1 by (simp add: mm_memmap_read_def safe_step_def)
qed

lemma mm_memmap_fetch_safe:
  assumes "map_ok m" "unat addr + 2 < 2 ^ 32"
  shows "safe_step m (snd (mm_memmap_fetch_read16 m sec addr))"
proof -
  obtain ok m1 where i: "intercept_ok m MM_ACCESS_EXEC sec addr 2 = (ok, m1)"
    by (cases "intercept_ok m MM_ACCESS_EXEC sec addr 2") auto
  then obtain e where m1: "m1 = m\<lparr>mm_env := e\<rparr>" using intercept_same by blast
  have ok1: "map_ok m1" using assms(1) m1 by simp
  have n: "unat addr + unat (2 :: u32) < 2 ^ 32" using assms(2) by simp
  have "safe_step m1 (snd (None :: u32 option, m1))" using ok1 by (simp add: safe_step_def)
  note try_flash_safe [OF ok1 n try_flash_safe [OF ok1 n try_ram_safe [OF ok1 n this]]]
  then show ?thesis using i ok1 m1 by (simp add: mm_memmap_fetch_read16_def safe_step_def)
qed

lemma mm_memmap_write_safe:
  assumes "map_ok m" "unat addr + unat sz < 2 ^ 32"
  shows "safe_step m (snd (mm_memmap_write m sec addr sz v))"
proof -
  obtain ok m1 where i: "intercept_ok m MM_ACCESS_WRITE sec addr sz = (ok, m1)"
    by (cases "intercept_ok m MM_ACCESS_WRITE sec addr sz") auto
  then obtain e where m1: "m1 = m\<lparr>mm_env := e\<rparr>" using intercept_same by blast
  have ok1: "map_ok m1" using assms(1) m1 by simp
  have s: "safe_step m x" if "safe_step m1 x" for x using that m1 by (simp add: safe_step_def)
  have "safe_step m (ram_store m1 off xs)"
    if "ram_offset_for_addr m1 addr sz = Some off" "write_bytes sz v = Some xs" for off xs
    by (rule s [OF ram_store_safe [OF ok1 that(1) write_bytes_length [OF that(2)] assms(2)]])
  moreover have "safe_step m (snd (write_mmio m1 sec addr sz v))" by (rule s [OF write_mmio_safe [OF ok1]])
  moreover have "safe_step m (snd (flash_store m1 sec addr sz v))" by (rule s [OF flash_store_safe [OF ok1]])
  moreover have "safe_step m m1" using ok1 m1 by (simp add: safe_step_def)
  ultimately show ?thesis using i
    by (auto simp: mm_memmap_write_def Let_def split: option.splits prod.splits)
qed

subsection \<open>Stores and loads\<close>

lemma to_u8_byte: "to_u32 (to_u8 (x AND 0xff)) = x AND 0xff" for x :: u32
  by (rule bit_word_eqI) (auto simp: casts bit_simps bits)

lemma and_255_le: "bit (x AND 255) k \<Longrightarrow> k < 8" for x :: u32
  by (simp only: and_255_bit)

lemma bytes_of_word:
  "(v AND 0xff) OR push_bit 8 (drop_bit 8 v AND 0xff) OR push_bit 16 (drop_bit 16 v AND 0xff) OR
   push_bit 24 (drop_bit 24 v AND 0xff) = (v :: u32)"
proof (rule bit_word_eqI)
  fix n
  assume "n < LENGTH(32)"
  then have n: "n < 32" by simp
  have "bit ((v AND 0xff) OR push_bit 8 (drop_bit 8 v AND 0xff) OR
      push_bit 16 (drop_bit 16 v AND 0xff) OR push_bit 24 (drop_bit 24 v AND 0xff)) n =
      (n < 32 \<and> bit ([v AND 0xff, drop_bit 8 v AND 0xff, drop_bit 16 v AND 0xff,
        drop_bit 24 v AND 0xff] ! (n div 8)) (n mod 8))"
    by (rule bytes4_bit) (auto dest: and_255_le)
  also have "\<dots> = bit v n"
    using byte_lane [OF n] n
    by (elim disjE conjE) (simp_all add: and_255_bit bit_drop_bit_eq less_diff_conv2)
  finally show "bit ((v AND 0xff) OR push_bit 8 (drop_bit 8 v AND 0xff) OR
      push_bit 16 (drop_bit 16 v AND 0xff) OR push_bit 24 (drop_bit 24 v AND 0xff)) n = bit v n" .
qed

lemma bytes_of_half:
  "(v AND 0xff) OR push_bit 8 (drop_bit 8 v AND 0xff) = take_bit 16 (v :: u32)"
proof (rule bit_word_eqI)
  fix n
  assume "n < LENGTH(32)"
  then have n: "n < 32" by simp
  have "(v AND 0xff) OR push_bit 8 (drop_bit 8 v AND 0xff) =
      (v AND 0xff) OR push_bit 8 (drop_bit 8 v AND 0xff) OR push_bit 16 0 OR push_bit 24 0" by simp
  also have "bit \<dots> n = (n < 32 \<and> bit ([v AND 0xff, drop_bit 8 v AND 0xff, 0, 0] ! (n div 8)) (n mod 8))"
    by (rule bytes4_bit) (auto dest: and_255_le)
  finally show "bit ((v AND 0xff) OR push_bit 8 (drop_bit 8 v AND 0xff)) n = bit (take_bit 16 v) n"
    using byte_lane [OF n] n
    by (elim disjE conjE) (simp_all add: and_255_bit bit_drop_bit_eq bit_take_bit_iff less_diff_conv2)
qed

lemma buf_byte_splice:
  assumes "unat off + length xs \<le> length b" "length b \<le> 2 ^ 32" "i < length xs"
  shows "buf_byte (take (unat off) b @ xs @ drop (unat off + length xs) b) (off + of_nat i) = to_u32 (xs ! i)"
proof -
  have i: "unat (of_nat i :: u32) = i" using assms by (simp add: unat_of_nat)
  have "unat off + i < 2 ^ 32" using assms by simp
  then have "unat (off + of_nat i) = unat off + i" using i by (simp add: unat_word_ariths)
  then show ?thesis using assms by (simp add: buf_byte_def nth_append)
qed

lemma read_after_splice:
  assumes "unat off + unat sz \<le> length b" "length b \<le> 2 ^ 32" "write_bytes sz v = Some xs"
  shows "\<exists>bad. read_buf_le (Some (take (unat off) b @ xs @ drop (unat off + length xs) b)) off sz =
    Some (take_bit (8 * unat sz) v, bad)"
proof -
  let ?b = "take (unat off) b @ xs @ drop (unat off + length xs) b"
  have l: "length xs = unat sz" by (rule write_bytes_length [OF assms(3)])
  have byte: "buf_byte ?b (off + of_nat i) = to_u32 (xs ! i)" if "i < length xs" for i
    using buf_byte_splice [of off xs b i] assms l that by simp
  consider "sz = 1" | "sz = 2" | "sz = 4"
    using assms(3) by (auto simp: write_bytes_def split: if_splits)
  then show ?thesis
  proof cases
    case 1
    then have "xs = [to_u8 (v AND 0xff)]" using assms(3) by (simp add: write_bytes_def)
    with byte [of 0] have "buf_byte ?b off = v AND 0xff" by (simp add: to_u8_byte)
    moreover have "v AND 0xff = take_bit 8 v" by (simp add: take_bit_eq_mask mask_eq_exp_minus_1)
    ultimately show ?thesis using 1 by (simp only: read_buf_le_def option.case) simp
  next
    case 2
    then have "xs = [to_u8 (v AND 0xff), to_u8 (drop_bit 8 v AND 0xff)]"
      using assms(3) by (simp add: write_bytes_def)
    with byte [of 0] byte [of 1]
    have "buf_byte ?b off = v AND 0xff" "buf_byte ?b (off + 1) = drop_bit 8 v AND 0xff"
      by (simp_all add: to_u8_byte)
    then show ?thesis using 2 bytes_of_half [of v] by (simp only: read_buf_le_def option.case) simp
  next
    case 3
    then have "xs = [to_u8 (v AND 0xff), to_u8 (drop_bit 8 v AND 0xff),
        to_u8 (drop_bit 16 v AND 0xff), to_u8 (drop_bit 24 v AND 0xff)]"
      using assms(3) by (simp add: write_bytes_def)
    with byte [of 0] byte [of 1] byte [of 2] byte [of 3]
    have "buf_byte ?b off = v AND 0xff" "buf_byte ?b (off + 1) = drop_bit 8 v AND 0xff"
      "buf_byte ?b (off + 2) = drop_bit 16 v AND 0xff" "buf_byte ?b (off + 3) = drop_bit 24 v AND 0xff"
      by (simp_all add: to_u8_byte)
    then show ?thesis using 3 bytes_of_word [of v]
      by (simp only: read_buf_le_def option.case) (simp add: take_bit_word_eq_self)
  qed
qed

lemma fst_intercept: "fst (intercept_ok m t sec addr sz) \<Longrightarrow> \<exists>e. intercept_ok m t sec addr sz = (True, m\<lparr>mm_env := e\<rparr>)"
  using intercept_same [of m t sec addr sz] by (cases "intercept_ok m t sec addr sz") auto

lemma ram_offset_update [simp]:
  "ram_offset_for_addr (m\<lparr>mm_env := e\<rparr>) a z = ram_offset_for_addr m a z"
  "ram_offset_for_addr (m\<lparr>mm_host_oob := b\<rparr>) a z = ram_offset_for_addr m a z"
  "ram_offset_for_addr (m\<lparr>mm_ram := r\<rparr>) a z = ram_offset_for_addr m a z"
  by (simp_all add: ram_offset_for_addr_def cong: if_cong option.case_cong)

definition in_flash :: "'e mm_memmap \<Rightarrow> u32 \<Rightarrow> u32 \<Rightarrow> bool"
  where "in_flash m addr sz =
    (m_buffer (mm_flash m) \<noteq> None \<and>
     (in_window (fst (flash_win m MM_SECURE)) (snd (flash_win m MM_SECURE)) addr sz \<or>
      in_window (fst (flash_win m MM_NONSECURE)) (snd (flash_win m MM_NONSECURE)) addr sz))"

lemma try_flash_skip: "\<not> in_flash m addr sz \<Longrightarrow> try_flash m w addr sz other = other"
  by (cases w) (auto simp: try_flash_def in_flash_def split: prod.splits)

lemma write_ram_env:
  assumes "map_ok m" "m_buffer (mm_ram m) = Some b" "length b \<le> 2 ^ 32"
    "unat addr + unat sz < 2 ^ 32" "write_bytes sz v = Some xs"
    and i: "intercept_ok m MM_ACCESS_WRITE sec addr sz = (True, m\<lparr>mm_env := e\<rparr>)"
    and "\<not> in_flash m addr sz" "ram_offset_for_addr m addr sz = Some off"
  shows "mm_memmap_write m sec addr sz v =
    (True, m\<lparr>mm_env := e,
      mm_ram := (mm_ram m)\<lparr>m_buffer := Some (take (unat off) b @ xs @ drop (unat off + length xs) b)\<rparr>\<rparr>)"
proof -
  have "unat off + length xs \<le> length b"
    using ram_offset_bound [OF _ assms(2,8,4)] assms(1) write_bytes_length [OF assms(5)]
    by (simp add: map_ok_def)
  note put = put_bytes_eq [OF this assms(3)]
  have nf: "\<not> (m_buffer (mm_flash m) \<noteq> None \<and> mm_flash_write m \<noteq> None \<and>
      (in_window bs ls addr sz \<or> in_window bn ln addr sz))"
    if "flash_win m MM_SECURE = (bs, ls)" "flash_win m MM_NONSECURE = (bn, ln)" for bs ls bn ln
    using assms(7) that by (auto simp: in_flash_def)
  obtain bs ls bn ln where w: "flash_win m MM_SECURE = (bs, ls)" "flash_win m MM_NONSECURE = (bn, ln)"
    by (cases "flash_win m MM_SECURE"; cases "flash_win m MM_NONSECURE") auto
  show ?thesis
    using nf [OF w] assms(2,5,8) put
    by (simp add: mm_memmap_write_def i w ram_store_def Let_def del: de_Morgan_conj not_Some_eq)
qed

lemma write_ram:
  assumes "map_ok m" "m_buffer (mm_ram m) = Some b" "length b \<le> 2 ^ 32"
    "unat addr + unat sz < 2 ^ 32" "write_bytes sz v = Some xs"
    "fst (intercept_ok m MM_ACCESS_WRITE sec addr sz)" "\<not> in_flash m addr sz"
    "ram_offset_for_addr m addr sz = Some off"
  shows "\<exists>e. mm_memmap_write m sec addr sz v =
    (True, m\<lparr>mm_env := e,
      mm_ram := (mm_ram m)\<lparr>m_buffer := Some (take (unat off) b @ xs @ drop (unat off + length xs) b)\<rparr>\<rparr>)"
  using fst_intercept [OF assms(6)] write_ram_env [OF assms(1-5) _ assms(7,8)] by blast

lemma read_ram:
  assumes "m_buffer (mm_ram m) = Some b" "read_buf_le (Some b) off sz = Some (x, bad)"
    "fst (intercept_ok m MM_ACCESS_READ sec addr sz)" "\<not> in_flash m addr sz"
    "ram_offset_for_addr m addr sz = Some off"
  shows "fst (mm_memmap_read m sec addr sz) = Some x"
proof -
  obtain e where i: "intercept_ok m MM_ACCESS_READ sec addr sz = (True, m\<lparr>mm_env := e\<rparr>)"
    using fst_intercept [OF assms(3)] by blast
  have "\<not> in_flash (m\<lparr>mm_env := e\<rparr>) addr sz" using assms(4) by (simp add: in_flash_def)
  then show ?thesis using assms(1,2,5)
    by (simp add: mm_memmap_read_def i try_flash_skip try_ram_def)
qed

subsection \<open>Properties\<close>

text \<open>C4: RAM behaves as memory.  A permitted store of one, two or four bytes to an
  address that maps to RAM changes exactly the addressed bytes of the host buffer,
  and a permitted load of the same size from any address that maps to the same RAM
  offset (the same address, or its alias in the other security view) returns the
  stored value, truncated to the access size.\<close>

theorem ram_store_load:
  assumes "map_ok m" "m_buffer (mm_ram m) = Some b" "length b \<le> 2 ^ 32"
    and "unat addr + unat sz < 2 ^ 32" "write_bytes sz v = Some xs"
    and "fst (intercept_ok m MM_ACCESS_WRITE sec addr sz)" "\<not> in_flash m addr sz"
    and "ram_offset_for_addr m addr sz = Some off"
    and "mm_memmap_write m sec addr sz v = (ok, m')"
    and "fst (intercept_ok m' MM_ACCESS_READ sec' addr' sz)" "\<not> in_flash m addr' sz"
    and "ram_offset_for_addr m addr' sz = Some off"
  shows "ok \<and>
    m_buffer (mm_ram m') = Some (take (unat off) b @ xs @ drop (unat off + unat sz) b) \<and>
    fst (mm_memmap_read m' sec' addr' sz) = Some (take_bit (8 * unat sz) v)"
proof -
  note l = write_bytes_length [OF assms(5)]
  obtain e where m': "ok" "m' = m\<lparr>mm_env := e,
      mm_ram := (mm_ram m)\<lparr>m_buffer := Some (take (unat off) b @ xs @ drop (unat off + length xs) b)\<rparr>\<rparr>"
    using write_ram [OF assms(1-8)] assms(9) by auto
  have bound: "unat off + unat sz \<le> length b"
    using ram_offset_bound [OF _ assms(2,8,4)] assms(1) by (simp add: map_ok_def)
  obtain bad where r: "read_buf_le (Some (take (unat off) b @ xs @ drop (unat off + length xs) b)) off sz =
      Some (take_bit (8 * unat sz) v, bad)"
    using read_after_splice [OF bound assms(3,5)] by blast
  have "fst (mm_memmap_read m' sec' addr' sz) = Some (take_bit (8 * unat sz) v)"
  proof (rule read_ram [OF _ r assms(10)])
    show "m_buffer (mm_ram m') = Some (take (unat off) b @ xs @ drop (unat off + length xs) b)"
      by (simp add: m'(2))
    show "\<not> in_flash m' addr' sz" using assms(11) by (simp add: m'(2) in_flash_def)
    show "ram_offset_for_addr m' addr' sz = Some off" using assms(12) by (simp add: m'(2))
  qed
  then show ?thesis using m' l by simp
qed

text \<open>A small map: eight bytes of RAM with a Secure view at 0x30000000 and a Non-secure view
  at 0x20000000, no flash, no interceptor.\<close>

definition demo_cfg :: mm_target_cfg
  where "demo_cfg = \<lparr>cfg_flash_base_s = 0, cfg_flash_size_s = 0, cfg_flash_base_ns = 0,
    cfg_flash_size_ns = 0, cfg_ram_base_s = 0x30000000, cfg_ram_size_s = 8,
    cfg_ram_base_ns = 0x20000000, cfg_ram_size_ns = 8, cfg_ram_regions = [],
    cfg_mpcbb_block_size = 0, cfg_mpcbb_block_secure = None\<rparr>"

definition demo_map :: "unit mm_memmap"
  where "demo_map = mm_memmap_configure_ram (mm_memmap_init 4 ()) demo_cfg (replicate 8 0) True"

lemma demo_map_simps:
  "map_ok demo_map" "m_buffer (mm_ram demo_map) = Some (replicate 8 0)"
  "intercept_ok demo_map t sec a z = (True, demo_map)" "\<not> in_flash demo_map a z"
  "mm_interceptor demo_map = None"
  by (auto simp: demo_map_def demo_cfg_def mm_memmap_configure_ram_def mm_memmap_init_def map_ok_def
      ram_ok_def flash_ok_def intercept_ok_def in_flash_def)

lemma demo_offset:
  "ram_offset_for_addr demo_map 0x30000004 4 = Some 4" "ram_offset_for_addr demo_map 0x20000004 4 = Some 4"
  by (simp_all add: demo_map_def demo_cfg_def mm_memmap_configure_ram_def mm_memmap_init_def
      ram_offset_for_addr_def in_window_def)

theorem ram_store_load_witness:
  "fst (mm_memmap_read (snd (mm_memmap_write demo_map MM_SECURE 0x30000004 4 0x11223344))
     MM_NONSECURE 0x20000004 4) = Some 0x11223344"
proof -
  have xs: "write_bytes 4 0x11223344 = Some [0x44, 0x33, 0x22, 0x11]"
    by (simp add: write_bytes_def casts)
  have "\<exists>e. mm_memmap_write demo_map MM_SECURE 0x30000004 4 0x11223344 = (True, demo_map\<lparr>mm_env := e,
      mm_ram := (mm_ram demo_map)\<lparr>m_buffer := Some (take (unat (4 :: u32)) (replicate 8 0) @
        [0x44, 0x33, 0x22, 0x11] @ drop (unat (4 :: u32) + length [0x44, 0x33, 0x22, 0x11 :: u8]) (replicate 8 0))\<rparr>\<rparr>)"
    by (rule write_ram) (simp_all add: demo_map_simps demo_offset xs)
  then obtain m' where w: "mm_memmap_write demo_map MM_SECURE 0x30000004 4 0x11223344 = (True, m')"
    and i: "mm_interceptor m' = None" by (auto simp: demo_map_simps)
  have "fst (intercept_ok m' MM_ACCESS_READ MM_NONSECURE 0x20000004 4)" using i by (simp add: intercept_ok_def)
  from ram_store_load [OF demo_map_simps(1,2) _ _ xs _ demo_map_simps(4) demo_offset(1) w this
      demo_map_simps(4) demo_offset(2)]
  show ?thesis using w by (simp add: demo_map_simps)
qed

text \<open>A guest memory access: the five entry points of the memory map.\<close>

datatype mem_op =
    MRead mm_sec_state u32 u32
  | MWrite mm_sec_state u32 u32 u32
  | MFetch mm_sec_state u32

primrec run_mem_op :: "mem_op \<Rightarrow> 'e mm_memmap \<Rightarrow> 'e mm_memmap" where
  "run_mem_op (MRead sec addr sz) m = snd (mm_memmap_read m sec addr sz)"
| "run_mem_op (MWrite sec addr sz v) m = snd (mm_memmap_write m sec addr sz v)"
| "run_mem_op (MFetch sec addr) m = snd (mm_memmap_fetch_read16 m sec addr)"

primrec op_fits :: "mem_op \<Rightarrow> bool" where
  "op_fits (MRead sec addr sz) = (unat addr + unat sz < 2 ^ 32)"
| "op_fits (MWrite sec addr sz v) = (unat addr + unat sz < 2 ^ 32)"
| "op_fits (MFetch sec addr) = (unat addr + 2 < 2 ^ 32)"

lemma run_mem_op_safe: "map_ok m \<Longrightarrow> op_fits op \<Longrightarrow> safe_step m (run_mem_op op m)"
  by (cases op) (simp_all add: mm_memmap_read_safe mm_memmap_write_safe mm_memmap_fetch_safe)



text \<open>The bound of the previous property is needed: the range tests add the access size
  in 32 bits, so a four-byte load at 0xFFFFFFFE wraps, passes the test against the RAM
  size and indexes the host buffer far outside its end.\<close>

theorem memmap_wrap_leaves_buffer:
  "mm_host_oob (snd (mm_memmap_read demo_map sec 0xFFFFFFFE 4)) \<and>
   mm_host_oob (snd (mm_memmap_write demo_map sec 0xFFFFFFFE 4 v))"
proof
  have off: "ram_offset_for_addr demo_map 0xFFFFFFFE 4 = Some 0xFFFFFFFE"
    by (simp add: demo_map_def demo_cfg_def mm_memmap_configure_ram_def mm_memmap_init_def
        ram_offset_for_addr_def in_window_def)
  have bad: "buf_oob (replicate 8 0) 0xFFFFFFFE" by (simp add: buf_oob_def)
  show "mm_host_oob (snd (mm_memmap_read demo_map sec 0xFFFFFFFE 4))"
    using bad by (simp add: mm_memmap_read_def demo_map_simps try_flash_skip try_ram_def off read_buf_le_def)
  have "m_buffer (mm_flash demo_map) = None"
    by (simp add: demo_map_def demo_cfg_def mm_memmap_configure_ram_def mm_memmap_init_def)
  then show "mm_host_oob (snd (mm_memmap_write demo_map sec 0xFFFFFFFE 4 v))"
    using bad by (simp add: mm_memmap_write_def demo_map_simps off write_bytes_def ram_store_def
        case_prod_beta Let_def)
qed

end
