(* ===== verification/Fetch.thy ===== *)
theory Fetch
imports Memmap Exec_Helpers
begin

text \<open>
  Instruction fetch: \<^verbatim>\<open>src/m33mu/mem.c\<close>, \<^verbatim>\<open>src/m33mu/fetch.c\<close> and
  \<^verbatim>\<open>src/m33mu/table_branch.c\<close>.  The two fetch functions of the code differ only in where a
  halfword comes from; the locale \<^verbatim>\<open>halfwords\<close> is what they need from that source, and it is
  interpreted on the flat buffer and on the memory map.
\<close>

subsection \<open>Flat buffers\<close>

text \<open>A null buffer holds no byte, so reading it is recorded as an access outside the buffer.\<close>

definition mem_bytes :: "mm_mem \<Rightarrow> u8 list"
  where "mem_bytes m = (case m_buffer m of Some b \<Rightarrow> b | None \<Rightarrow> [])"

definition mem_read16 :: "mm_mem \<Rightarrow> u32 \<Rightarrow> (u32 \<times> bool) option"
  where "mem_read16 m addr =
    (if addr < m_base m then None
     else if unat (addr - m_base m) + 2 > m_length m then None
     else let b = mem_bytes m; off = addr - m_base m in
       Some (buf_byte b off OR push_bit 8 (buf_byte b (off + 1)), buf_oob b off \<or> buf_oob b (off + 1)))"

definition mem_read32 :: "mm_mem \<Rightarrow> u32 \<Rightarrow> (u32 \<times> bool) option"
  where "mem_read32 m addr =
    (if addr < m_base m then None
     else if unat (addr - m_base m) + 4 > m_length m then None
     else let b = mem_bytes m; off = addr - m_base m in
       Some (buf_byte b off OR push_bit 8 (buf_byte b (off + 1)) OR
             push_bit 16 (buf_byte b (off + 2)) OR push_bit 24 (buf_byte b (off + 3)),
             buf_oob b off \<or> buf_oob b (off + 1) \<or> buf_oob b (off + 2) \<or> buf_oob b (off + 3)))"

fun mem_copy :: "u8 list \<Rightarrow> u32 \<Rightarrow> nat \<Rightarrow> u8 list \<times> bool" where
  "mem_copy b off 0 = ([], False)"
| "mem_copy b off (Suc n) =
    (let (xs, bad) = mem_copy b (off + 1) n in (to_u8 (buf_byte b off) # xs, buf_oob b off \<or> bad))"

definition mem_read :: "mm_mem \<Rightarrow> u32 \<Rightarrow> nat \<Rightarrow> (u8 list \<times> bool) option"
  where "mem_read m addr len =
    (if addr < m_base m then None
     else if unat (addr - m_base m) + len > m_length m then None
     else Some (mem_copy (mem_bytes m) (addr - m_base m) len))"

subsection \<open>Fetching an instruction\<close>

definition t32_is_32bit_prefix :: "u16 \<Rightarrow> bool"
  where "t32_is_32bit_prefix prefix = (prefix AND 0xF800 \<ge> 0xE800)"

text \<open>The body of both fetch functions over a halfword reader \<^verbatim>\<open>rd\<close>.\<close>

definition fetch_with ::
  "('m \<Rightarrow> u32 \<Rightarrow> u32 option \<times> 'm) \<Rightarrow> mm_cpu \<Rightarrow> 'm \<Rightarrow> mm_fetch_result \<times> mm_cpu \<times> 'm"
  where "fetch_with rd c m =
    (let pc = cpu_r c 15 AND NOT 1;
         res = \<lparr>f_insn = 0, f_len = 0, f_fault = True, f_fault_addr = 0, f_pc_fetch = pc\<rparr>;
         (h1, m1) = rd m pc in
     case h1 of
       None \<Rightarrow> (res\<lparr>f_fault_addr := pc\<rparr>, c, m1)
     | Some hw1 \<Rightarrow>
       if t32_is_32bit_prefix (to_u16 hw1) then
         (let (h2, m2) = rd m1 (pc + 2) in
          case h2 of
            None \<Rightarrow> (res\<lparr>f_fault_addr := pc + 2\<rparr>, c, m2)
          | Some hw2 \<Rightarrow>
            (res\<lparr>f_insn := push_bit 16 hw1 OR hw2, f_len := 4, f_fault := False\<rparr>,
             set_r 15 ((pc + 4) OR 1) c, m2))
       else
         (res\<lparr>f_insn := hw1, f_len := 2, f_fault := False\<rparr>, set_r 15 ((pc + 2) OR 1) c, m1))"

definition mem_halfword :: "mm_mem \<times> bool \<Rightarrow> u32 \<Rightarrow> u32 option \<times> mm_mem \<times> bool"
  where "mem_halfword mb addr =
    (case mem_read16 (fst mb) addr of
       None \<Rightarrow> (None, mb) | Some (v, bad) \<Rightarrow> (Some v, fst mb, snd mb \<or> bad))"

definition mm_fetch_t32 :: "mm_cpu \<Rightarrow> mm_mem \<Rightarrow> mm_fetch_result \<times> mm_cpu \<times> bool"
  where "mm_fetch_t32 c m =
    (let (res, c', mb) = fetch_with mem_halfword c (m, False) in (res, c', snd mb))"

definition mm_fetch_t32_memmap ::
  "mm_cpu \<Rightarrow> 'e mm_memmap \<Rightarrow> mm_sec_state \<Rightarrow> mm_fetch_result \<times> mm_cpu \<times> 'e mm_memmap"
  where "mm_fetch_t32_memmap c m sec =
    fetch_with (\<lambda>m addr. mm_memmap_fetch_read16 m sec addr) c m"

subsection \<open>Table branches\<close>

text \<open>The target, or the address that could not be read.\<close>

definition mm_table_branch_target ::
  "'e mm_memmap \<Rightarrow> mm_sec_state \<Rightarrow> u32 \<Rightarrow> u32 \<Rightarrow> u32 \<Rightarrow> bool \<Rightarrow> (u32 + u32) \<times> 'e mm_memmap"
  where "mm_table_branch_target m sec pc_fetch rn_value rm_value is_tbh =
    (let addr = rn_value + (if is_tbh then push_bit 1 rm_value else rm_value);
         (entry, m') =
           (if is_tbh then
              (let (v, m') = mm_memmap_read m sec addr 2 in (map_option (\<lambda>e. e AND 0xffff) v, m'))
            else (let (b, m') = mm_memmap_read8 m sec addr in (map_option to_u32 b, m')))
     in case entry of
          None \<Rightarrow> (Inl addr, m')
        | Some e \<Rightarrow>
          (let base_pc = (pc_fetch + 4) AND NOT 1; offset = e * 2
           in (Inr ((base_pc + offset) OR 1), m')))"

subsection \<open>What a halfword source gives\<close>

lemma high_half:
  fixes v w :: u32
  assumes "w < 0x10000" and "v < 0x10000"
  shows "drop_bit 16 (push_bit 16 v OR w) = v"
proof (rule bit_word_eqI)
  fix n assume n: "n < LENGTH(32)"
  have small: "\<not> bit u k" if "u < 0x10000" "16 \<le> k" for u :: u32 and k
  proof -
    have "unat u < 2 ^ 16" using that(1) by (simp add: word_less_nat_alt)
    also have "(2 :: nat) ^ 16 \<le> 2 ^ k" using that(2) by (rule power_increasing) simp
    finally have "\<not> bit (unat u) k" by (simp add: bit_iff_odd)
    then show ?thesis by (simp add: bit_unsigned_iff)
  qed
  show "bit (drop_bit 16 (push_bit 16 v OR w)) n = bit v n"
    using small [OF assms(1), of "16 + n"] small [OF assms(2), of n] n
    by (cases "16 \<le> n") (auto simp: bit_simps)
qed

locale halfwords =
  fixes rd :: "'m \<Rightarrow> u32 \<Rightarrow> u32 option \<times> 'm"
  assumes halfword: "rd m a = (Some v, m') \<Longrightarrow> v < 0x10000"
begin

lemma fetch_len:
  "(f, c', m') = fetch_with rd c m \<Longrightarrow> \<not> f_fault f \<Longrightarrow>
    f_len f = 2 \<and> f_insn f < 0x10000 \<and> \<not> t32_is_32bit_prefix (to_u16 (f_insn f)) \<or>
    f_len f = 4 \<and> t32_is_32bit_prefix (to_u16 (drop_bit 16 (f_insn f)))"
proof -
  assume a: "(f, c', m') = fetch_with rd c m" "\<not> f_fault f"
  obtain h1 m1 where r1: "rd m (cpu_r c 15 AND NOT 1) = (h1, m1)" by fastforce
  obtain h2 m2 where r2: "rd m1 ((cpu_r c 15 AND NOT 1) + 2) = (h2, m2)" by fastforce
  obtain v where v: "h1 = Some v" using a r1 by (cases h1) (auto simp: fetch_with_def Let_def)
  show ?thesis
  proof (cases "t32_is_32bit_prefix (to_u16 v)")
    case False
    then show ?thesis using a r1 v halfword [of m _ v m1] by (auto simp: fetch_with_def Let_def)
  next
    case True
    then obtain w where w: "h2 = Some w" using a r1 r2 v by (cases h2) (auto simp: fetch_with_def Let_def)
    then have "w < 0x10000" "v < 0x10000" using halfword r1 r2 v by blast+
    then have "drop_bit 16 (push_bit 16 v OR w) = v" by (rule high_half)
    then show ?thesis using a r1 r2 v w True by (auto simp: fetch_with_def Let_def)
  qed
qed

lemma fetch_pc:
  "(f, c', m') = fetch_with rd c m \<Longrightarrow> f_pc_fetch f = cpu_r c 15 AND NOT 1 \<and>
    (if f_fault f then c' = c \<and> f_fault_addr f \<in> {f_pc_fetch f, f_pc_fetch f + 2}
     else c' = set_r 15 ((f_pc_fetch f + to_u32 (f_len f)) OR 1) c)"
  by (auto simp: fetch_with_def Let_def to_u32_def split: prod.splits option.splits if_splits)

end

lemma two_bytes: "buf_byte b i OR push_bit 8 (buf_byte b j) < 0x10000"
proof -
  let ?v = "buf_byte b i OR push_bit 8 (buf_byte b j)"
  have "?v AND mask 16 = ?v"
    by (rule bit_word_eqI) (auto simp: buf_byte_def to_u32_def bit_simps dest: bit_imp_le_length)
  then have "take_bit 16 ?v = ?v" by (simp add: take_bit_eq_mask)
  then have "take_bit 16 (unat ?v) = unat ?v" by (metis unsigned_take_bit_eq)
  then have "unat ?v < 2 ^ 16" by (metis take_bit_nat_less_exp)
  then show ?thesis by (simp add: word_less_nat_alt)
qed

lemma read_buf_le_2: "read_buf_le b off 2 = Some (v, bad) \<Longrightarrow> v < 0x10000"
  by (auto simp: read_buf_le_def two_bytes Let_def split: option.splits)

interpretation flat: halfwords mem_halfword
  by unfold_locales
    (auto simp: mem_halfword_def mem_read16_def two_bytes Let_def split: option.splits if_splits)

lemma try_flash_2:
  "(\<And>v m'. other = (Some v, m') \<Longrightarrow> v < 0x10000) \<Longrightarrow> try_flash m w addr 2 other = (Some v, m') \<Longrightarrow> v < 0x10000"
  by (auto simp: try_flash_def Let_def dest: read_buf_le_2 split: prod.splits option.splits if_splits)

lemma try_ram_2:
  "(\<And>v m'. other = (Some v, m') \<Longrightarrow> v < 0x10000) \<Longrightarrow> try_ram m addr 2 other = (Some v, m') \<Longrightarrow> v < 0x10000"
  by (auto simp: try_ram_def Let_def dest: read_buf_le_2 split: prod.splits option.splits if_splits)

lemma fetch_read16_halfword: "mm_memmap_fetch_read16 m sec a = (Some v, m') \<Longrightarrow> v < 0x10000"
  by (auto simp: mm_memmap_fetch_read16_def Let_def elim!: try_flash_2 [rotated] try_ram_2 [rotated]
      split: prod.splits if_splits)

interpretation mapped: halfwords "\<lambda>m addr. mm_memmap_fetch_read16 m sec addr" for sec
  by unfold_locales (rule fetch_read16_halfword)

subsection \<open>Properties\<close>

text \<open>A fetch from the memory map either faults, leaving the processor as it was and
  reporting the first halfword that could not be read, or delivers the instruction at PC with
  bit 0 cleared and moves PC past it: two bytes when the first halfword is not a 32-bit
  prefix, four bytes with the prefix halfword on top otherwise.\<close>

theorem fetch_outcome:
  "case mm_fetch_t32_memmap c m sec of (f, c', m') \<Rightarrow>
    f_pc_fetch f = cpu_r c 15 AND NOT 1 \<and>
    (if f_fault f then c' = c \<and> f_fault_addr f \<in> {f_pc_fetch f, f_pc_fetch f + 2}
     else c' = set_r 15 ((f_pc_fetch f + to_u32 (f_len f)) OR 1) c \<and>
       (f_len f = 2 \<and> f_insn f < 0x10000 \<and> \<not> t32_is_32bit_prefix (to_u16 (f_insn f)) \<or>
        f_len f = 4 \<and> t32_is_32bit_prefix (to_u16 (drop_bit 16 (f_insn f)))))"
proof -
  obtain f c' m' where r: "mm_fetch_t32_memmap c m sec = (f, c', m')" by (metis prod_cases3)
  then have e: "(f, c', m') = fetch_with (\<lambda>m addr. mm_memmap_fetch_read16 m sec addr) c m"
    by (simp add: mm_fetch_t32_memmap_def)
  show ?thesis using mapped.fetch_pc [OF e] mapped.fetch_len [OF e] r by (cases "f_fault f") auto
qed

end
