(* ===== verification/Scs_State.thy ===== *)
theory Scs_State
imports Cpu_State
begin

text \<open>
  The System Control Space state \<^verbatim>\<open>struct mm_scs\<close> (\<^verbatim>\<open>include/m33mu/scs.h\<close>) and the
  attribution units that read it: the SAU of \<^verbatim>\<open>src/m33mu/sau.c\<close> and the MPU lookup
  of \<^verbatim>\<open>src/m33mu/mpu.c\<close>.  Register arrays are functions of the region number.

  The locale \<^verbatim>\<open>region_priority\<close> is the contract that both units promise: among the
  eight regions, the highest-numbered one that matches wins.
\<close>

record mm_scs =
  sc_cpuid :: u32
  sc_icsr_s :: u32
  sc_icsr_ns :: u32
  sc_vtor_s :: u32
  sc_vtor_ns :: u32
  sc_scr_s :: u32
  sc_scr_ns :: u32
  sc_ccr :: u32
  sc_aircr_s :: u32
  sc_aircr_ns :: u32
  sc_shpr1_s :: u32
  sc_shpr2_s :: u32
  sc_shpr3_s :: u32
  sc_shpr1_ns :: u32
  sc_shpr2_ns :: u32
  sc_shpr3_ns :: u32
  sc_shcsr_s :: u32
  sc_shcsr_ns :: u32
  sc_cfsr :: u32
  sc_hfsr :: u32
  sc_dfsr :: u32
  sc_mmfar :: u32
  sc_bfar :: u32
  sc_afsr :: u32
  sc_mpu_type :: u32
  sc_mpu_ctrl_s :: u32
  sc_mpu_ctrl_ns :: u32
  sc_mpu_rnr_s :: u32
  sc_mpu_rnr_ns :: u32
  sc_mpu_rbar_s :: "nat \<Rightarrow> u32"
  sc_mpu_rbar_ns :: "nat \<Rightarrow> u32"
  sc_mpu_rlar_s :: "nat \<Rightarrow> u32"
  sc_mpu_rlar_ns :: "nat \<Rightarrow> u32"
  sc_mpu_mair0_s :: u32
  sc_mpu_mair0_ns :: u32
  sc_mpu_mair1_s :: u32
  sc_mpu_mair1_ns :: u32
  sc_sau_type :: u32
  sc_sau_ctrl :: u32
  sc_sau_rnr :: u32
  sc_sau_rbar :: "nat \<Rightarrow> u32"
  sc_sau_rlar :: "nat \<Rightarrow> u32"
  sc_sau_sfsr :: u32
  sc_sau_sfar :: u32
  sc_securefault_pending :: bool
  sc_last_access_sec :: mm_sec_state
  sc_systick_ctrl :: u32
  sc_systick_load :: u32
  sc_systick_val :: u32
  sc_systick_calib :: u32
  sc_systick_countflag :: bool
  sc_systick_wraps :: u64
  sc_pend_sv :: bool
  sc_pend_st :: bool
  sc_trace_enabled :: bool

definition scs_zero :: mm_scs
  where "scs_zero = \<lparr>
    sc_cpuid = 0, sc_icsr_s = 0, sc_icsr_ns = 0, sc_vtor_s = 0, sc_vtor_ns = 0, sc_scr_s = 0,
    sc_scr_ns = 0, sc_ccr = 0, sc_aircr_s = 0, sc_aircr_ns = 0, sc_shpr1_s = 0, sc_shpr2_s = 0,
    sc_shpr3_s = 0, sc_shpr1_ns = 0, sc_shpr2_ns = 0, sc_shpr3_ns = 0, sc_shcsr_s = 0,
    sc_shcsr_ns = 0, sc_cfsr = 0, sc_hfsr = 0, sc_dfsr = 0, sc_mmfar = 0, sc_bfar = 0,
    sc_afsr = 0, sc_mpu_type = 0, sc_mpu_ctrl_s = 0, sc_mpu_ctrl_ns = 0, sc_mpu_rnr_s = 0,
    sc_mpu_rnr_ns = 0, sc_mpu_rbar_s = (\<lambda>_. 0), sc_mpu_rbar_ns = (\<lambda>_. 0),
    sc_mpu_rlar_s = (\<lambda>_. 0), sc_mpu_rlar_ns = (\<lambda>_. 0), sc_mpu_mair0_s = 0,
    sc_mpu_mair0_ns = 0, sc_mpu_mair1_s = 0, sc_mpu_mair1_ns = 0, sc_sau_type = 0,
    sc_sau_ctrl = 0, sc_sau_rnr = 0, sc_sau_rbar = (\<lambda>_. 0),
    sc_sau_rlar = (\<lambda>_. 0), sc_sau_sfsr = 0, sc_sau_sfar = 0,
    sc_securefault_pending = False, sc_last_access_sec = MM_NONSECURE, sc_systick_ctrl = 0,
    sc_systick_load = 0, sc_systick_val = 0, sc_systick_calib = 0,
    sc_systick_countflag = False, sc_systick_wraps = 0, sc_pend_sv = False, sc_pend_st = False,
    sc_trace_enabled = False\<rparr>"

datatype mm_sau_attr = MM_SAU_SECURE | MM_SAU_NONSECURE | MM_SAU_NSC

subsection \<open>SAU\<close>

definition sau_region_matches :: "u32 \<Rightarrow> u32 \<Rightarrow> u32 \<Rightarrow> bool"
  where "sau_region_matches rbar rlar addr =
    (if rlar AND 0x1 = 0 then False
     else let base = rbar AND NOT 0x1F;
              limit = (rlar AND NOT 0x1F) OR 0x1F
          in if addr < base then False else addr \<le> limit)"

text \<open>The loop \<^verbatim>\<open>for (i = 7; i >= 0; --i)\<close>, called with 8.\<close>

fun sau_scan :: "mm_scs \<Rightarrow> u32 \<Rightarrow> nat \<Rightarrow> nat option" where
  "sau_scan scs addr 0 = None"
| "sau_scan scs addr (Suc i) =
    (if sau_region_matches (sc_sau_rbar scs i) (sc_sau_rlar scs i) addr then Some i
     else sau_scan scs addr i)"

definition mm_sau_attr_for_addr :: "mm_scs \<Rightarrow> u32 \<Rightarrow> mm_sau_attr"
  where "mm_sau_attr_for_addr scs addr =
    (let enable = (sc_sau_ctrl scs AND 0x1 \<noteq> 0);
         allns = (sc_sau_ctrl scs AND 0x2 \<noteq> 0)
     in if \<not> enable then MM_SAU_SECURE
        else case sau_scan scs addr 8 of
          Some i \<Rightarrow> if sc_sau_rlar scs i AND 0x2 \<noteq> 0 then MM_SAU_NSC else MM_SAU_NONSECURE
        | None \<Rightarrow> if allns then MM_SAU_NONSECURE else MM_SAU_SECURE)"

subsection \<open>MPU\<close>

definition mpu_select_banks :: "mm_scs \<Rightarrow> mm_sec_state \<Rightarrow> (nat \<Rightarrow> u32) \<times> (nat \<Rightarrow> u32) \<times> u32"
  where "mpu_select_banks scs sec =
    (if sec = MM_NONSECURE then (sc_mpu_rbar_ns scs, sc_mpu_rlar_ns scs, sc_mpu_ctrl_ns scs)
     else (sc_mpu_rbar_s scs, sc_mpu_rlar_s scs, sc_mpu_ctrl_s scs))"

definition mm_mpu_enabled :: "mm_scs \<Rightarrow> mm_sec_state \<Rightarrow> bool"
  where "mm_mpu_enabled scs sec =
    (let (rbar, rlar, ctrl) = mpu_select_banks scs sec in ctrl AND 1 \<noteq> 0)"

text \<open>One iteration of the region loop: does region (rb, rl) hold addr?\<close>

definition mpu_region_hit :: "u32 \<Rightarrow> u32 \<Rightarrow> u32 \<Rightarrow> bool"
  where "mpu_region_hit rb rl addr =
    (if rl AND 0x1 = 0 then False
     else let base = rb AND 0xFFFFFFE0; limit = rl AND 0xFFFFFFE0 in
       if base > limit then False
       else let lim_end = limit OR 0x1F in \<not> (addr < base \<or> addr > lim_end))"

definition mpu_scan :: "(nat \<Rightarrow> u32) \<Rightarrow> (nat \<Rightarrow> u32) \<Rightarrow> u32 \<Rightarrow> nat option"
  where "mpu_scan rbar rlar addr =
    foldl (\<lambda>best i. if mpu_region_hit (rbar i) (rlar i) addr then Some i else best) None [0..<8]"

definition mm_mpu_region_lookup :: "mm_scs \<Rightarrow> mm_sec_state \<Rightarrow> u32 \<Rightarrow> (u32 \<times> u32) option"
  where "mm_mpu_region_lookup scs sec addr =
    (let (rbar, rlar, ctrl) = mpu_select_banks scs sec in
     if ctrl AND 1 = 0 then None
     else case mpu_scan rbar rlar addr of None \<Rightarrow> None | Some best \<Rightarrow> Some (rbar best, rlar best))"

definition mm_mpu_is_xn_exec :: "mm_scs \<Rightarrow> mm_sec_state \<Rightarrow> u32 \<Rightarrow> bool"
  where "mm_mpu_is_xn_exec scs sec addr =
    (case mm_mpu_region_lookup scs sec addr of None \<Rightarrow> False | Some (rbar, rlar) \<Rightarrow> rbar AND 0x1 \<noteq> 0)"

subsection \<open>The contract of a region table\<close>

lemma if_Some_iff: "(if E then Some m else None) = Some i \<longleftrightarrow> E \<and> i = m"
  by auto

lemma if_None_iff: "(if E then Some m else None) = None \<longleftrightarrow> \<not> E"
  by simp

lemma case_if_Some: "(case if E then Some m else None of None \<Rightarrow> y | Some x \<Rightarrow> f x) = (if E then f m else y)"
  by simp

lemma nested_if: "(if \<not> A then y else if E then x else y) = (if A \<and> E then x else y)"
  by simp

lemma Max_hit:
  fixes P :: "nat \<Rightarrow> bool"
  assumes "i < n" "P i"
  shows "Max {i. i < n \<and> P i} < n \<and> P (Max {i. i < n \<and> P i}) \<and>
    (\<forall>j. Max {i. i < n \<and> P i} < j \<and> j < n \<longrightarrow> \<not> P j)"
proof -
  define S where "S = {i. i < n \<and> P i}"
  have f: "finite S" by (simp add: S_def)
  define m where "m = Max S"
  have m: "m \<in> S" using assms f unfolding m_def by (intro Max_in) (auto simp: S_def)
  have "\<not> P j" if "m < j" "j < n" for j
  proof
    assume "P j"
    with that have "j \<in> S" by (simp add: S_def)
    from Max_ge [OF f this] that show False by (simp add: m_def)
  qed
  with m show ?thesis unfolding S_def [symmetric] m_def [symmetric] by (simp add: S_def)
qed

locale region_priority =
  fixes lookup :: "'t \<Rightarrow> u32 \<Rightarrow> nat option"
    and hit :: "'t \<Rightarrow> nat \<Rightarrow> u32 \<Rightarrow> bool"
  assumes lookup_Some: "lookup t a = Some i \<Longrightarrow> i < 8 \<and> hit t i a \<and> (\<forall>j. i < j \<and> j < 8 \<longrightarrow> \<not> hit t j a)"
    and lookup_None: "lookup t a = None \<Longrightarrow> j < 8 \<Longrightarrow> \<not> hit t j a"
begin

lemma lookup_iff:
  "lookup t a = Some i \<longleftrightarrow> i < 8 \<and> hit t i a \<and> (\<forall>j. i < j \<and> j < 8 \<longrightarrow> \<not> hit t j a)"
proof
  assume i: "i < 8 \<and> hit t i a \<and> (\<forall>j. i < j \<and> j < 8 \<longrightarrow> \<not> hit t j a)"
  then obtain k where k: "lookup t a = Some k"
    using lookup_None [of t a i] by (cases "lookup t a") auto
  have "k = i"
  proof (rule linorder_cases [of k i])
    assume "k < i"
    then show ?thesis using lookup_Some [OF k] i by blast
  next
    assume "i < k"
    then show ?thesis using lookup_Some [OF k] i by blast
  qed
  with k show "lookup t a = Some i" by simp
qed (rule lookup_Some)

lemma lookup_None_iff: "lookup t a = None \<longleftrightarrow> (\<forall>j < 8. \<not> hit t j a)"
proof
  assume "\<forall>j < 8. \<not> hit t j a"
  then show "lookup t a = None" using lookup_Some [of t a] by (cases "lookup t a") auto
qed (use lookup_None in blast)

lemma lookup_Max:
  "lookup t a = (if \<exists>i < 8. hit t i a then Some (Max {i. i < 8 \<and> hit t i a}) else None)"
proof (cases "\<exists>i < 8. hit t i a")
  case True
  then obtain k where "k < 8" "hit t k a" by auto
  from Max_hit [of k 8 "\<lambda>i. hit t i a", OF this] True show ?thesis
    by (simp add: lookup_iff)
next
  case False
  then show ?thesis using lookup_None_iff by auto
qed

lemma lookup_cong: "(\<And>j. j < 8 \<Longrightarrow> hit t j a = hit t' j a') \<Longrightarrow> lookup t a = lookup t' a'"
  by (auto simp: lookup_Max cong: conj_cong)

end

definition sau_hit :: "mm_scs \<Rightarrow> nat \<Rightarrow> u32 \<Rightarrow> bool"
  where "sau_hit scs i addr = sau_region_matches (sc_sau_rbar scs i) (sc_sau_rlar scs i) addr"

lemma sau_scan_Some: "sau_scan scs addr n = Some i \<Longrightarrow>
    i < n \<and> sau_hit scs i addr \<and> (\<forall>j. i < j \<and> j < n \<longrightarrow> \<not> sau_hit scs j addr)"
  by (induction n) (auto simp: sau_hit_def less_Suc_eq split: if_splits)

lemma sau_scan_None: "sau_scan scs addr n = None \<Longrightarrow> j < n \<Longrightarrow> \<not> sau_hit scs j addr"
  by (induction n) (auto simp: sau_hit_def less_Suc_eq split: if_splits)

interpretation sau: region_priority "\<lambda>scs addr. sau_scan scs addr 8" sau_hit
  by unfold_locales (auto dest: sau_scan_Some sau_scan_None)

definition mpu_hit :: "(nat \<Rightarrow> u32) \<times> (nat \<Rightarrow> u32) \<Rightarrow> nat \<Rightarrow> u32 \<Rightarrow> bool"
  where "mpu_hit t i addr = mpu_region_hit (fst t i) (snd t i) addr"

lemma mpu_fold:
  "foldl (\<lambda>best i. if P i then Some i else best) None [0..<n] =
    (if \<exists>i < n. P i then Some (Max {i. i < n \<and> P i}) else (None :: nat option))"
proof (induction n)
  case 0
  then show ?case by simp
next
  case (Suc n)
  show ?case
  proof (cases "P n")
    case True
    then have "Max {i. i < Suc n \<and> P i} = n"
      by (intro Max_eqI) auto
    with True show ?thesis by auto
  next
    case False
    then have "{i. i < Suc n \<and> P i} = {i. i < n \<and> P i}" by (auto simp: less_Suc_eq)
    with False Suc show ?thesis by (auto simp: less_Suc_eq)
  qed
qed

lemma mpu_scan_Max: "mpu_scan rbar rlar addr =
    (if \<exists>i < 8. mpu_hit (rbar, rlar) i addr then Some (Max {i. i < 8 \<and> mpu_hit (rbar, rlar) i addr}) else None)"
  using mpu_fold [of "\<lambda>i. mpu_region_hit (rbar i) (rlar i) addr" 8]
  by (simp add: mpu_scan_def mpu_hit_def)

interpretation mpu: region_priority "\<lambda>t addr. mpu_scan (fst t) (snd t) addr" mpu_hit
proof unfold_locales
  fix t :: "(nat \<Rightarrow> u32) \<times> (nat \<Rightarrow> u32)" and a :: u32 and i :: nat
  assume asm: "mpu_scan (fst t) (snd t) a = Some i"
  note max = mpu_scan_Max [of "fst t" "snd t" a, unfolded prod.collapse]
  from asm have ex: "\<exists>k < 8. mpu_hit t k a" and i: "i = Max {i. i < 8 \<and> mpu_hit t i a}"
    unfolding max if_Some_iff by blast+
  from ex obtain k where "k < 8" "mpu_hit t k a" by blast
  from Max_hit [of k 8 "\<lambda>i. mpu_hit t i a", OF this]
  show "i < 8 \<and> mpu_hit t i a \<and> (\<forall>j. i < j \<and> j < 8 \<longrightarrow> \<not> mpu_hit t j a)" unfolding i .
next
  fix t :: "(nat \<Rightarrow> u32) \<times> (nat \<Rightarrow> u32)" and a :: u32 and j :: nat
  assume "mpu_scan (fst t) (snd t) a = None" and j: "j < 8"
  then have "\<not> (\<exists>k < 8. mpu_hit t k a)"
    unfolding mpu_scan_Max [of "fst t" "snd t" a, unfolded prod.collapse] if_None_iff by blast
  with j show "\<not> mpu_hit t j a" by blast
qed

subsection \<open>Properties\<close>

text \<open>The SAU attributes an address by the documented rules: Secure while the unit is
  disabled; otherwise the highest-numbered enabled region that holds the address
  decides between Non-secure and Non-secure callable; with no such region the
  address is Secure unless ALLNS is set.\<close>

theorem sau_highest_region_wins:
  "mm_sau_attr_for_addr scs addr =
    (if \<not> bit (sc_sau_ctrl scs) 0 then MM_SAU_SECURE
     else if \<exists>i < 8. sau_hit scs i addr then
       (if bit (sc_sau_rlar scs (Max {i. i < 8 \<and> sau_hit scs i addr})) 1
        then MM_SAU_NSC else MM_SAU_NONSECURE)
     else if bit (sc_sau_ctrl scs) 1 then MM_SAU_NONSECURE else MM_SAU_SECURE)"
proof -
  have b1: "(x AND 2 \<noteq> 0) = bit x 1" for x :: u32
    using and_bit_nonzero [of x 1] by simp
  show ?thesis
    unfolding mm_sau_attr_for_addr_def Let_def sau.lookup_Max b1 and_one_nonzero case_if_Some ..
qed

text \<open>The MPU lookup of either security bank returns the registers of the
  highest-numbered enabled region that holds the address, and nothing when the MPU
  of that bank is disabled or no region holds it.\<close>

theorem mpu_highest_region_wins:
  "mm_mpu_region_lookup scs sec addr =
    (let (rbar, rlar, ctrl) = mpu_select_banks scs sec;
         H = {i. i < 8 \<and> mpu_hit (rbar, rlar) i addr}
     in if bit ctrl 0 \<and> H \<noteq> {} then Some (rbar (Max H), rlar (Max H)) else None)"
proof -
  obtain rbar rlar ctrl where b: "mpu_select_banks scs sec = (rbar, rlar, ctrl)"
    by (cases "mpu_select_banks scs sec") auto
  have z: "(ctrl AND 1 = 0) = (\<not> bit ctrl 0)"
    using and_one_nonzero [of ctrl] by blast
  have e: "({i. i < 8 \<and> mpu_hit (rbar, rlar) i addr} \<noteq> {}) = (\<exists>i < 8. mpu_hit (rbar, rlar) i addr)"
    by blast
  show ?thesis
    unfolding mm_mpu_region_lookup_def b Let_def prod.case mpu_scan_Max e case_if_Some z nested_if ..
qed

end
