(* ===== verification/Nvic.thy ===== *)
theory Nvic
imports Core_Interfaces
begin

text \<open>
  The interrupt controller of \<^verbatim>\<open>src/nvic.c\<close>: the enable, pending and target-security
  bit arrays, the priority bytes with their MMIO window, and the selection of the
  interrupt to take.  The locale \<^verbatim>\<open>bit_array\<close> is the contract of one bit array.
\<close>

definition MM_MAX_IRQ :: nat where "MM_MAX_IRQ = 128"

record mm_nvic =
  enable_mask :: "nat \<Rightarrow> u32"
  pending_mask :: "nat \<Rightarrow> u32"
  active_mask :: "nat \<Rightarrow> u32"
  itns_mask :: "nat \<Rightarrow> u32"
  nv_priority :: "nat \<Rightarrow> u8"

definition mm_nvic_init :: mm_nvic
  where "mm_nvic_init = \<lparr>enable_mask = (\<lambda>_. 0), pending_mask = (\<lambda>_. 0), active_mask = (\<lambda>_. 0),
    itns_mask = (\<lambda>_. 0), nv_priority = (\<lambda>_. 0xff)\<rparr>"

text \<open>The test \<^verbatim>\<open>arr[irq / 32] & (1u << (irq % 32))\<close>.\<close>

definition mask_bit :: "(nat \<Rightarrow> u32) \<Rightarrow> u32 \<Rightarrow> bool"
  where "mask_bit arr irq = (arr (unat (irq div 32)) AND push_bit (unat (irq mod 32)) 1 \<noteq> 0)"

definition bitop :: "(nat \<Rightarrow> u32) \<Rightarrow> u32 \<Rightarrow> bool \<Rightarrow> (nat \<Rightarrow> u32)"
  where "bitop arr idx v =
    (let w = idx div 32; b = idx mod 32; msk = push_bit (unat b) 1 in
     if w \<ge> 4 then arr
     else if v then arr(unat w := arr (unat w) OR msk)
     else arr(unat w := arr (unat w) AND NOT msk))"

definition mm_nvic_set_enable :: "mm_nvic \<Rightarrow> u32 \<Rightarrow> bool \<Rightarrow> mm_nvic"
  where "mm_nvic_set_enable n irq enable = n\<lparr>enable_mask := bitop (enable_mask n) irq enable\<rparr>"

definition mm_nvic_set_pending :: "mm_nvic \<Rightarrow> u32 \<Rightarrow> bool \<Rightarrow> mm_nvic"
  where "mm_nvic_set_pending n irq pending = n\<lparr>pending_mask := bitop (pending_mask n) irq pending\<rparr>"

definition mm_nvic_set_itns :: "mm_nvic \<Rightarrow> u32 \<Rightarrow> bool \<Rightarrow> mm_nvic"
  where "mm_nvic_set_itns n irq target_nonsecure = n\<lparr>itns_mask := bitop (itns_mask n) irq target_nonsecure\<rparr>"

definition mm_nvic_irq_target_sec :: "mm_nvic \<Rightarrow> u32 \<Rightarrow> mm_sec_state"
  where "mm_nvic_irq_target_sec n irq =
    (if irq div 32 \<ge> 4 then MM_SECURE
     else if mask_bit (itns_mask n) irq then MM_NONSECURE else MM_SECURE)"

definition mm_nvic_is_pending :: "mm_nvic \<Rightarrow> u32 \<Rightarrow> bool"
  where "mm_nvic_is_pending n irq = (if irq div 32 \<ge> 4 then False else mask_bit (pending_mask n) irq)"

definition primask_blocks_target :: "mm_cpu \<Rightarrow> mm_sec_state \<Rightarrow> bool"
  where "primask_blocks_target c target_sec =
    (if target_sec = MM_NONSECURE then primask_ns c \<noteq> 0 else primask_s c \<noteq> 0)"

text \<open>One iteration of the selection loop; the state is the best interrupt so far and its priority.\<close>

definition select_step :: "mm_nvic \<Rightarrow> mm_cpu \<Rightarrow> nat option \<times> u8 \<Rightarrow> nat \<Rightarrow> nat option \<times> u8"
  where "select_step n c best irq =
    (if \<not> mask_bit (enable_mask n) (of_nat irq) then best
     else if \<not> mask_bit (pending_mask n) (of_nat irq) then best
     else if primask_blocks_target c (mm_nvic_irq_target_sec n (of_nat irq)) then best
     else if fst best = None \<or> nv_priority n irq < snd best then (Some irq, nv_priority n irq)
     else best)"

definition mm_nvic_select_routed :: "mm_nvic \<Rightarrow> mm_cpu \<Rightarrow> (nat \<times> mm_sec_state) option"
  where "mm_nvic_select_routed n c =
    (case fst (foldl (select_step n c) (None, 0xff) [0..<MM_MAX_IRQ]) of
       None \<Rightarrow> None
     | Some irq \<Rightarrow> Some (irq, mm_nvic_irq_target_sec n (of_nat irq)))"

definition nvic_mmio_read :: "mm_nvic \<Rightarrow> u32 \<Rightarrow> u32 \<Rightarrow> u32 option"
  where "nvic_mmio_read n offset size_bytes =
    (if offset \<ge> 0x100 then None
     else if size_bytes = 1 then
       Some (if unat offset \<ge> MM_MAX_IRQ then 0xFF else to_u32 (nv_priority n (unat offset)) AND 0xFF)
     else if size_bytes = 4 \<and> offset mod 4 = 0 then
       Some (foldl (\<lambda>val i.
         let idx = unat (offset + of_nat i);
             p = (if idx < MM_MAX_IRQ then nv_priority n idx else 0xFF)
         in val OR push_bit (i * 8) (to_u32 p)) 0 [0..<4])
     else None)"

definition nvic_mmio_write :: "mm_nvic \<Rightarrow> u32 \<Rightarrow> u32 \<Rightarrow> u32 \<Rightarrow> bool \<times> mm_nvic"
  where "nvic_mmio_write n offset size_bytes v =
    (if offset \<ge> 0x100 then (False, n)
     else if size_bytes = 1 then
       (True, if unat offset < MM_MAX_IRQ
              then n\<lparr>nv_priority := (nv_priority n)(unat offset := to_u8 (v AND 0xFF))\<rparr> else n)
     else if size_bytes = 4 \<and> offset mod 4 = 0 then
       (True, foldl (\<lambda>n i.
         let idx = unat (offset + of_nat i);
             p = to_u8 (drop_bit (i * 8) v AND 0xFF)
         in if idx < MM_MAX_IRQ then n\<lparr>nv_priority := (nv_priority n)(idx := p)\<rparr> else n) n [0..<4])
     else (False, n))"

text \<open>The window is registered over a device world that holds the controller.\<close>

definition mm_nvic_register_mmio ::
  "('e \<Rightarrow> mm_nvic) \<Rightarrow> (mm_nvic \<Rightarrow> 'e \<Rightarrow> 'e) \<Rightarrow> 'e mmio_bus \<Rightarrow> bool \<times> 'e mmio_bus"
  where "mm_nvic_register_mmio get put bus =
    mmio_bus_register_region bus
      \<lparr>mr_base = 0xE000E400, mr_size = 0x100,
       mr_read = Some (\<lambda>_ offset size_bytes e. (nvic_mmio_read (get e) offset size_bytes, e)),
       mr_write = Some (\<lambda>_ offset size_bytes v e.
         let (ok, n) = nvic_mmio_write (get e) offset size_bytes v in (ok, put n e))\<rparr>"

definition mm_nvic_select :: "mm_nvic \<Rightarrow> mm_cpu \<Rightarrow> nat option"
  where "mm_nvic_select n c = map_option fst (mm_nvic_select_routed n c)"

subsection \<open>The contract of a bit array\<close>

locale bit_array =
  fixes get :: "'s \<Rightarrow> u32 \<Rightarrow> bool"
    and put :: "'s \<Rightarrow> u32 \<Rightarrow> bool \<Rightarrow> 's"
  assumes get_put: "irq < 128 \<Longrightarrow> get (put s irq v) i = (if i = irq then v else get s i)"
    and put_out: "irq \<ge> 128 \<Longrightarrow> put s irq v = s"
begin

definition puts :: "'s \<Rightarrow> (u32 \<times> bool) list \<Rightarrow> 's"
  where "puts s ws = foldl (\<lambda>s (i, v). put s i v) s ws"

lemma get_puts:
  "get (puts s ws) i = (case filter (\<lambda>w. fst w = i \<and> fst w < 128) (rev ws) of [] \<Rightarrow> get s i | w # _ \<Rightarrow> snd w)"
proof (induction ws rule: rev_induct)
  case Nil
  then show ?case by (simp add: puts_def)
next
  case (snoc w ws)
  have p: "puts s (ws @ [w]) = put (puts s ws) (fst w) (snd w)"
    by (simp add: puts_def case_prod_beta)
  show ?case
  proof (cases "fst w < 128")
    case True
    then show ?thesis using get_put [OF True] snoc unfolding p by auto
  next
    case False
    then have "put (puts s ws) (fst w) (snd w) = puts s ws" by (intro put_out) simp
    then show ?thesis using False snoc unfolding p by auto
  qed
qed

end

lemma div32_less_4: "irq div 32 \<ge> 4 \<longleftrightarrow> irq \<ge> 128" for irq :: u32
proof -
  have "4 \<le> unat irq div 32 \<longleftrightarrow> 128 \<le> unat irq" by linarith
  then show ?thesis by (simp add: word_le_nat_alt unat_div)
qed

lemma mask_bit_iff: "mask_bit arr irq = bit (arr (unat irq div 32)) (unat irq mod 32)"
  unfolding mask_bit_def and_bit_nonzero by (simp add: unat_div unat_mod)

lemma mask_bit_bitop:
  assumes "irq < 128"
  shows "mask_bit (bitop arr irq v) i = (if i = irq then v else mask_bit arr i)"
proof -
  define q b where "q = unat irq div 32" and "b = unat irq mod 32"
  have b: "b < 32" by (simp add: b_def)
  have same: "i = irq \<longleftrightarrow> unat i div 32 = q \<and> unat i mod 32 = b"
    unfolding q_def b_def word_unat_eq_iff by (metis div_mult_mod_eq)
  have "bitop arr irq v = (if v then arr(q := arr q OR push_bit b 1) else arr(q := arr q AND NOT (push_bit b 1)))"
  proof -
    have "\<not> irq div 32 \<ge> 4" using assms unfolding div32_less_4 by (simp add: not_le)
    then show ?thesis by (simp add: bitop_def Let_def q_def b_def unat_div unat_mod)
  qed
  then show ?thesis
    using b same by (auto simp: mask_bit_iff bit_or_iff bit_and_iff bit_not_iff bit_exp_iff)
qed

lemma bitop_out: "irq \<ge> 128 \<Longrightarrow> bitop arr irq v = arr"
  using div32_less_4 [of irq] by (simp add: bitop_def)

interpretation pending: bit_array "\<lambda>n. mask_bit (pending_mask n)" mm_nvic_set_pending
  by unfold_locales (simp_all add: mm_nvic_set_pending_def mask_bit_bitop bitop_out)

lemma set_pending_idem: "mm_nvic_set_pending (mm_nvic_set_pending n i v) i v = mm_nvic_set_pending n i v"
  by (auto simp: mm_nvic_set_pending_def bitop_def Let_def or.assoc and.assoc intro!: mm_nvic.equality)

interpretation enable: bit_array "\<lambda>n. mask_bit (enable_mask n)" mm_nvic_set_enable
  by unfold_locales (simp_all add: mm_nvic_set_enable_def mask_bit_bitop bitop_out)

interpretation itns: bit_array "\<lambda>n. mask_bit (itns_mask n)" mm_nvic_set_itns
  by unfold_locales (simp_all add: mm_nvic_set_itns_def mask_bit_bitop bitop_out)

subsection \<open>Selection\<close>

definition irq_eligible :: "mm_nvic \<Rightarrow> mm_cpu \<Rightarrow> nat \<Rightarrow> bool"
  where "irq_eligible n c irq =
    (mask_bit (enable_mask n) (of_nat irq) \<and> mask_bit (pending_mask n) (of_nat irq) \<and>
     \<not> primask_blocks_target c (mm_nvic_irq_target_sec n (of_nat irq)))"

lemma select_fold:
  "case foldl (select_step n c) (None, 0xff) [0..<k] of
     (None, p) \<Rightarrow> \<forall>i < k. \<not> irq_eligible n c i
   | (Some b, p) \<Rightarrow> b < k \<and> irq_eligible n c b \<and> p = nv_priority n b \<and>
       (\<forall>i < k. irq_eligible n c i \<longrightarrow> p < nv_priority n i \<or> p = nv_priority n i \<and> b \<le> i)"
proof (induction k)
  case 0
  then show ?case by simp
next
  case (Suc k)
  obtain ob p where s: "foldl (select_step n c) (None, 0xff) [0..<k] = (ob, p)"
    by (cases "foldl (select_step n c) (None, 0xff) [0..<k]") auto
  have step: "foldl (select_step n c) (None, 0xff) [0..<Suc k] =
      (if irq_eligible n c k \<and> (ob = None \<or> nv_priority n k < p) then (Some k, nv_priority n k) else (ob, p))"
    by (simp add: s select_step_def irq_eligible_def)
  show ?case
  proof (cases ob)
    case None
    then show ?thesis using Suc.IH s unfolding step by (auto simp: less_Suc_eq)
  next
    case (Some b)
    then have IH: "b < k" "irq_eligible n c b" "p = nv_priority n b"
      "\<And>i. i < k \<Longrightarrow> irq_eligible n c i \<Longrightarrow> p < nv_priority n i \<or> p = nv_priority n i \<and> b \<le> i"
      using Suc.IH s by auto
    show ?thesis
    proof (cases "irq_eligible n c k \<and> nv_priority n k < p")
      case True
      then show ?thesis using IH Some unfolding step by (auto simp: less_Suc_eq dest: IH(4) less_trans)
    next
      case False
      then show ?thesis using IH Some unfolding step by (auto simp: less_Suc_eq not_less dest: IH(4) le_neq_trans)
    qed
  qed
qed

subsection \<open>Properties\<close>

text \<open>C12: interrupt selection.  The controller picks an interrupt exactly when some enabled,
  pending interrupt is not blocked by the PRIMASK of the security state it targets,
  and then it picks the one with the least priority value, the lowest number among
  equals, together with the security state that ITNS routes it to.\<close>

theorem nvic_selects_best:
  "case mm_nvic_select_routed n c of
     None \<Rightarrow> \<not> (\<exists>i < MM_MAX_IRQ. irq_eligible n c i)
   | Some (irq, tsec) \<Rightarrow> irq < MM_MAX_IRQ \<and> irq_eligible n c irq \<and>
       tsec = mm_nvic_irq_target_sec n (of_nat irq) \<and>
       \<not> (\<exists>i < MM_MAX_IRQ. irq_eligible n c i \<and>
            (nv_priority n i < nv_priority n irq \<or> nv_priority n i = nv_priority n irq \<and> i < irq))"
proof -
  obtain ob p where f: "foldl (select_step n c) (None, 0xff) [0..<MM_MAX_IRQ] = (ob, p)"
    by (cases "foldl (select_step n c) (None, 0xff) [0..<MM_MAX_IRQ]") auto
  note sel = select_fold [where n = n and c = c and k = MM_MAX_IRQ, unfolded f prod.case]
  show ?thesis
  proof (cases ob)
    case None
    with sel show ?thesis by (simp add: mm_nvic_select_routed_def f)
  next
    case (Some b)
    with sel have b: "b < MM_MAX_IRQ" "irq_eligible n c b"
      and least: "\<And>i. i < MM_MAX_IRQ \<Longrightarrow> irq_eligible n c i \<Longrightarrow>
        nv_priority n b < nv_priority n i \<or> nv_priority n b = nv_priority n i \<and> b \<le> i" by auto
    have "\<not> (nv_priority n i < nv_priority n b \<or> nv_priority n i = nv_priority n b \<and> i < b)"
      if "i < MM_MAX_IRQ" "irq_eligible n c i" for i
      using least [OF that] by auto
    with b show ?thesis using Some by (auto simp: mm_nvic_select_routed_def f)
  qed
qed

text \<open>The enable, pending and routing arrays are independent bit arrays.  After any
  sequence of enable, pending or routing updates, an interrupt's pending state is
  the one last written for that number, and updates for numbers of 128 and above
  have no effect.\<close>

theorem nvic_pending_history:
  "mm_nvic_is_pending (foldl (\<lambda>n (i, v). mm_nvic_set_pending n i v) n ws) irq =
    (irq < 128 \<and> (case filter (\<lambda>w. fst w = irq \<and> fst w < 128) (rev ws) of
       [] \<Rightarrow> mask_bit (pending_mask n) irq | w # _ \<Rightarrow> snd w)) \<and>
   mm_nvic_irq_target_sec (foldl (\<lambda>n (i, v). mm_nvic_set_pending n i v) n ws) irq =
     mm_nvic_irq_target_sec n irq"
proof -
  have "itns_mask (foldl (\<lambda>n (i, v). mm_nvic_set_pending n i v) n ws) = itns_mask n"
    by (induction ws arbitrary: n) (auto simp: mm_nvic_set_pending_def)
  then show ?thesis
    using pending.get_puts [of n ws irq] div32_less_4 [of irq]
    by (auto simp: mm_nvic_is_pending_def pending.puts_def mm_nvic_irq_target_sec_def)
qed

end
