(* ===== verification/Scs.thy ===== *)
theory Scs
imports Scs_State Nvic
begin

text \<open>
  The System Control Space page of \<^verbatim>\<open>src/scs.c\<close>: the SysTick timer, the NVIC windows,
  the SCB, MPU and SAU registers, their MMIO read and write handlers and the two bus
  regions that expose them.  The world of the handlers is \<^verbatim>\<open>scs_dev\<close>: the SCS record,
  the interrupt controller (None for a null pointer), the file-level variable
  \<^verbatim>\<open>g_sau_layout\<close> and the flag that \<^verbatim>\<open>mm_system_request_reset\<close> sets.  The switch over
  the register offset is cut into groups, each falling through to the next.  Trace
  output and the variables that only throttle it are left out.
\<close>

record scs_dev =
  sd_scs :: mm_scs
  sd_nvic :: "mm_nvic option"
  sd_sau_layout :: nat
  sd_reset_requested :: bool

definition mm_scs_init :: "mm_scs \<Rightarrow> u32 \<Rightarrow> bool \<Rightarrow> mm_scs"
  where "mm_scs_init scs cpuid_const trace = scs\<lparr>
    sc_cpuid := cpuid_const, sc_icsr_s := 0, sc_icsr_ns := 0, sc_vtor_s := 0, sc_vtor_ns := 0,
    sc_scr_s := 0, sc_scr_ns := 0, sc_ccr := 0, sc_aircr_s := 0, sc_aircr_ns := 0,
    sc_shpr1_s := 0, sc_shpr2_s := 0, sc_shpr3_s := 0,
    sc_shpr1_ns := 0, sc_shpr2_ns := 0, sc_shpr3_ns := 0, sc_shcsr_s := 0, sc_shcsr_ns := 0,
    sc_cfsr := 0, sc_hfsr := 0, sc_dfsr := 0, sc_mmfar := 0, sc_bfar := 0, sc_afsr := 0,
    sc_mpu_type := 0x00000800, sc_mpu_ctrl_s := 0, sc_mpu_ctrl_ns := 0,
    sc_mpu_rnr_s := 0, sc_mpu_rnr_ns := 0,
    sc_mpu_rbar_s := (\<lambda>_. 0), sc_mpu_rbar_ns := (\<lambda>_. 0),
    sc_mpu_rlar_s := (\<lambda>_. 0), sc_mpu_rlar_ns := (\<lambda>_. 0),
    sc_mpu_mair0_s := 0, sc_mpu_mair0_ns := 0, sc_mpu_mair1_s := 0, sc_mpu_mair1_ns := 0,
    sc_sau_type := 0x00000007, sc_sau_ctrl := 0, sc_sau_rnr := 0,
    sc_sau_rbar := (\<lambda>_. 0), sc_sau_rlar := (\<lambda>_. 0), sc_sau_sfsr := 0, sc_sau_sfar := 0,
    sc_securefault_pending := False, sc_last_access_sec := MM_SECURE,
    sc_systick_ctrl := 0, sc_systick_load := 0, sc_systick_val := 0, sc_systick_calib := 0,
    sc_systick_countflag := False, sc_systick_wraps := 0, sc_pend_sv := False,
    sc_pend_st := False, sc_trace_enabled := trace\<rparr>"

text \<open>Banking by the initiator's security in the window of the Secure context.\<close>

definition eff_sec :: "mm_sec_state \<Rightarrow> mm_scs \<Rightarrow> mm_sec_state"
  where "eff_sec ctx_sec scs = (if ctx_sec = MM_SECURE then sc_last_access_sec scs else ctx_sec)"

abbreviation bank :: "mm_sec_state \<Rightarrow> 'a \<Rightarrow> 'a \<Rightarrow> 'a"
  where "bank sec ns s \<equiv> (if sec = MM_NONSECURE then ns else s)"

subsection \<open>Reads\<close>

text \<open>The label \<^verbatim>\<open>done_subword\<close>.\<close>

definition read_subword :: "u32 \<Rightarrow> u32 \<Rightarrow> u32 \<Rightarrow> u32 option"
  where "read_subword offset size_bytes val =
    (let shift = unat ((offset AND 0x3) * 8) in
     if size_bytes = 1 then Some (drop_bit shift val AND 0xFF)
     else if size_bytes = 2 then Some (drop_bit shift val AND 0xFFFF)
     else if size_bytes = 4 then Some val
     else None)"

text \<open>The word of the NVIC bit registers, with \<^verbatim>\<open>0xffffffff\<close> for no register.\<close>

definition nvic_window_word :: "mm_nvic \<Rightarrow> mm_sec_state \<Rightarrow> u32 \<Rightarrow> u32"
  where "nvic_window_word n sec aligned =
    (if aligned \<ge> 0x100 \<and> aligned < 0x108 then enable_mask n (unat ((aligned - 0x100) div 4))
     else if aligned \<ge> 0x180 \<and> aligned < 0x188 then enable_mask n (unat ((aligned - 0x180) div 4))
     else if aligned \<ge> 0x200 \<and> aligned < 0x208 then pending_mask n (unat ((aligned - 0x200) div 4))
     else if aligned \<ge> 0x280 \<and> aligned < 0x288 then pending_mask n (unat ((aligned - 0x280) div 4))
     else if aligned \<ge> 0x300 \<and> aligned < 0x308 then active_mask n (unat ((aligned - 0x300) div 4))
     else if aligned \<ge> 0x380 \<and> aligned < 0x388 then
       (if sec = MM_SECURE then itns_mask n (unat ((aligned - 0x380) div 4)) else 0)
     else 0xffffffff)"

definition nvic_window_read :: "mm_nvic \<Rightarrow> mm_sec_state \<Rightarrow> u32 \<Rightarrow> u32 option"
  where "nvic_window_read n sec aligned =
    (let word = nvic_window_word n sec aligned in
     if word \<noteq> 0xffffffff then
       Some (if sec = MM_NONSECURE then
           (let idx = (if aligned \<ge> 0x380 \<and> aligned < 0x388 then (aligned - 0x380) div 4
                       else (aligned - 0x100) div 4)
            in if idx < 4 then word AND itns_mask n (unat idx) else word)
         else word)
     else None)"

definition nvic_ipr_read :: "mm_nvic \<Rightarrow> u32 \<Rightarrow> u32 \<Rightarrow> u32 option"
  where "nvic_ipr_read n offset size_bytes =
    (if offset \<ge> 0x400 \<and> offset < 0x500 then
       (let idx = offset - 0x400 in
        if size_bytes = 1 then Some (if unat idx < MM_MAX_IRQ then to_u32 (nv_priority n (unat idx)) else 0xff)
        else if size_bytes = 4 \<and> idx mod 4 = 0 then
          Some (foldl (\<lambda>v i.
            let pidx = unat (idx + of_nat i);
                p = (if pidx < MM_MAX_IRQ then nv_priority n pidx else 0xff)
            in v OR push_bit (i * 8) (to_u32 p)) 0 [0..<4])
        else None)
     else None)"

definition scs_read_low :: "mm_sec_state \<Rightarrow> u32 \<Rightarrow> u32 \<Rightarrow> 'x scs_dev_scheme \<Rightarrow> u32 option \<times> 'x scs_dev_scheme"
  where "scs_read_low sec offset size_bytes d =
    (let scs = sd_scs d; aligned = offset AND NOT 0x3 in
     if aligned = 0x10 then
       (read_subword offset size_bytes
          (sc_systick_ctrl scs AND 0x7 OR (if sc_systick_countflag scs then push_bit 16 1 else 0)),
        d\<lparr>sd_scs := scs\<lparr>sc_systick_countflag := False\<rparr>\<rparr>)
     else if aligned = 0x14 then (read_subword offset size_bytes (sc_systick_load scs), d)
     else if aligned = 0x18 then (read_subword offset size_bytes (sc_systick_val scs), d)
     else if aligned = 0x1C then (read_subword offset size_bytes (sc_systick_calib scs), d)
     else case sd_nvic d of
       None \<Rightarrow> (Some 0, d)
     | Some n \<Rightarrow> (case nvic_window_read n sec aligned of
         Some val \<Rightarrow> (read_subword offset size_bytes val, d)
       | None \<Rightarrow> (case nvic_ipr_read n offset size_bytes of
           Some val \<Rightarrow> (Some val, d)
         | None \<Rightarrow> (Some 0, d))))"

definition scb_read_sau :: "mm_sec_state \<Rightarrow> nat \<Rightarrow> mm_scs \<Rightarrow> u32 \<Rightarrow> u32"
  where "scb_read_sau sec layout scs reg_off =
    (let r = unat (sc_sau_rnr scs AND 0x7) in
     if sec \<noteq> MM_SECURE then 0
     else if reg_off = 0xCC then sc_sau_type scs
     else if reg_off = 0xD0 then sc_sau_ctrl scs
     else if reg_off = 0xD4 then sc_sau_rnr scs
     else if reg_off = 0xD8 then (if layout = 2 then sc_sau_rnr scs else sc_sau_rbar scs r)
     else if reg_off = 0xDC then (if layout = 2 then sc_sau_rbar scs r else sc_sau_rlar scs r)
     else if reg_off = 0xE0 then (if layout = 2 then sc_sau_rlar scs r else sc_sau_sfsr scs)
     else if reg_off = 0xE4 then (if layout = 2 then sc_sau_sfsr scs else sc_sau_sfar scs)
     else if reg_off = 0xE8 then sc_sau_sfar scs
     else 0)"

definition mpu_sel :: "mm_sec_state \<Rightarrow> mm_scs \<Rightarrow> nat"
  where "mpu_sel sec scs = bank sec (unat (sc_mpu_rnr_ns scs AND 0x7)) (unat (sc_mpu_rnr_s scs AND 0x7))"

definition scb_read_mpu :: "mm_sec_state \<Rightarrow> nat \<Rightarrow> mm_scs \<Rightarrow> u32 \<Rightarrow> u32"
  where "scb_read_mpu sec layout scs reg_off =
    (let r = mpu_sel sec scs in
     if reg_off = 0x90 then sc_mpu_type scs
     else if reg_off = 0x94 then bank sec (sc_mpu_ctrl_ns scs) (sc_mpu_ctrl_s scs)
     else if reg_off = 0x98 then bank sec (sc_mpu_rnr_ns scs) (sc_mpu_rnr_s scs)
     else if reg_off = 0x9C then bank sec (sc_mpu_rbar_ns scs r) (sc_mpu_rbar_s scs r)
     else if reg_off = 0xA0 then bank sec (sc_mpu_rlar_ns scs r) (sc_mpu_rlar_s scs r)
     else if reg_off = 0xC0 then bank sec (sc_mpu_mair0_ns scs) (sc_mpu_mair0_s scs)
     else if reg_off = 0xC4 then bank sec (sc_mpu_mair1_ns scs) (sc_mpu_mair1_s scs)
     else scb_read_sau sec layout scs reg_off)"

definition scb_read :: "mm_sec_state \<Rightarrow> mm_sec_state \<Rightarrow> nat \<Rightarrow> mm_scs \<Rightarrow> u32 \<Rightarrow> u32"
  where "scb_read ctx_sec sec layout scs reg_off =
    (if reg_off = 0x0 then sc_cpuid scs
     else if reg_off = 0x4 then
       bank ctx_sec (sc_icsr_ns scs) (sc_icsr_s scs)
         OR (if sc_pend_sv scs then push_bit 28 1 else 0) OR (if sc_pend_st scs then push_bit 26 1 else 0)
     else if reg_off = 0x8 then bank sec (sc_vtor_ns scs) (sc_vtor_s scs)
     else if reg_off = 0xC then bank sec (sc_aircr_ns scs) (sc_aircr_s scs)
     else if reg_off = 0x10 then bank sec (sc_scr_ns scs) (sc_scr_s scs)
     else if reg_off = 0x14 then sc_ccr scs
     else if reg_off = 0x18 then bank sec (sc_shpr1_ns scs) (sc_shpr1_s scs)
     else if reg_off = 0x1C then bank sec (sc_shpr2_ns scs) (sc_shpr2_s scs)
     else if reg_off = 0x20 then bank sec (sc_shpr3_ns scs) (sc_shpr3_s scs)
     else if reg_off = 0x24 then bank sec (sc_shcsr_ns scs) (sc_shcsr_s scs)
     else if reg_off = 0x28 then sc_cfsr scs
     else if reg_off = 0x2C then sc_hfsr scs
     else if reg_off = 0x30 then sc_dfsr scs
     else if reg_off = 0x34 then sc_mmfar scs
     else if reg_off = 0x38 then sc_bfar scs
     else if reg_off = 0x3C then sc_afsr scs
     else scb_read_mpu sec layout scs reg_off)"

text \<open>The handler; its result pointer is never null on the bus.\<close>

definition scs_read :: "mm_sec_state \<Rightarrow> u32 \<Rightarrow> u32 \<Rightarrow> 'x scs_dev_scheme \<Rightarrow> u32 option \<times> 'x scs_dev_scheme"
  where "scs_read ctx_sec offset size_bytes d =
    (let sec = eff_sec ctx_sec (sd_scs d) in
     if offset \<ge> 0x1000 then (None, d)
     else if offset < 0x0D00 then scs_read_low sec offset size_bytes d
     else
       (read_subword offset size_bytes
          (scb_read ctx_sec sec (sd_sau_layout d) (sd_scs d) ((offset AND NOT 0x3) - 0x0D00)), d))"

subsection \<open>Writes\<close>

text \<open>The read-modify-write of a byte or halfword: \<^verbatim>\<open>(cur & ~(mask << shift)) | ((value & mask) << shift)\<close>.\<close>

definition sub_mask :: "u32 \<Rightarrow> u32"
  where "sub_mask size_bytes = (if size_bytes = 1 then 0xFF else 0xFFFF)"

definition merge_subword :: "u32 \<Rightarrow> u32 \<Rightarrow> u32 \<Rightarrow> u32 \<Rightarrow> u32"
  where "merge_subword offset size_bytes cur v =
    (let shift = unat ((offset AND 0x3) * 8); mask = sub_mask size_bytes in
     (cur AND NOT (push_bit shift mask)) OR push_bit shift (v AND mask))"

text \<open>The set and clear registers of the NVIC; None where no case of the chain returns.\<close>

definition nvic_window_write :: "mm_nvic \<Rightarrow> mm_sec_state \<Rightarrow> u32 \<Rightarrow> u32 \<Rightarrow> mm_nvic option"
  where "nvic_window_write n sec aligned value =
    (if aligned \<ge> 0x100 \<and> aligned < 0x110 then
       (let idx = unat ((aligned - 0x100) div 4);
            v = (if sec = MM_NONSECURE then value AND itns_mask n idx else value)
        in Some (n\<lparr>enable_mask := (enable_mask n)(idx := enable_mask n idx OR v)\<rparr>))
     else if aligned \<ge> 0x180 \<and> aligned < 0x190 then
       (let idx = unat ((aligned - 0x180) div 4);
            v = (if sec = MM_NONSECURE then value AND itns_mask n idx else value)
        in Some (n\<lparr>enable_mask := (enable_mask n)(idx := enable_mask n idx AND NOT v)\<rparr>))
     else if aligned \<ge> 0x200 \<and> aligned < 0x210 then
       (let idx = unat ((aligned - 0x200) div 4);
            v = (if sec = MM_NONSECURE then value AND itns_mask n idx else value)
        in Some (n\<lparr>pending_mask := (pending_mask n)(idx := pending_mask n idx OR v)\<rparr>))
     else if aligned \<ge> 0x280 \<and> aligned < 0x290 then
       (let idx = unat ((aligned - 0x280) div 4);
            v = (if sec = MM_NONSECURE then value AND itns_mask n idx else value)
        in Some (n\<lparr>pending_mask := (pending_mask n)(idx := pending_mask n idx AND NOT v)\<rparr>))
     else if aligned \<ge> 0x380 \<and> aligned < 0x390 then
       (let idx = unat ((aligned - 0x380) div 4)
        in Some (if sec = MM_SECURE then n\<lparr>itns_mask := (itns_mask n)(idx := value)\<rparr> else n))
     else None)"

definition nvic_ipr_write :: "mm_nvic \<Rightarrow> u32 \<Rightarrow> u32 \<Rightarrow> u32 \<Rightarrow> mm_nvic"
  where "nvic_ipr_write n offset size_bytes value =
    (if offset \<ge> 0x400 \<and> offset < 0x500 then
       (let idx = offset - 0x400 in
        if size_bytes = 1 then
          (if unat idx < MM_MAX_IRQ
           then n\<lparr>nv_priority := (nv_priority n)(unat idx := to_u8 (value AND 0xFF))\<rparr> else n)
        else if size_bytes = 4 \<and> idx mod 4 = 0 then
          foldl (\<lambda>n i.
            let pidx = unat (idx + of_nat i); p = to_u8 (drop_bit (i * 8) value AND 0xFF)
            in if pidx < MM_MAX_IRQ then n\<lparr>nv_priority := (nv_priority n)(pidx := p)\<rparr> else n) n [0..<4]
        else n)
     else n)"

definition scs_write_low :: "mm_sec_state \<Rightarrow> u32 \<Rightarrow> u32 \<Rightarrow> u32 \<Rightarrow> 'x scs_dev_scheme \<Rightarrow> 'x scs_dev_scheme"
  where "scs_write_low sec offset size_bytes value d =
    (let scs = sd_scs d; aligned = offset AND NOT 0x3; shift = unat ((offset AND 0x3) * 8) in
     if aligned = 0x10 then
       (let v = (if size_bytes = 1 \<or> size_bytes = 2
                 then merge_subword offset size_bytes (sc_systick_ctrl scs) value else value)
        in d\<lparr>sd_scs := scs\<lparr>sc_systick_ctrl := v AND 0x7\<rparr>\<rparr>)
     else if aligned = 0x14 then
       d\<lparr>sd_scs := scs\<lparr>sc_systick_load :=
         (if size_bytes = 4 then value else push_bit shift (value AND sub_mask size_bytes)) AND 0x00FFFFFF\<rparr>\<rparr>
     else if aligned = 0x18 then
       d\<lparr>sd_scs := scs\<lparr>sc_systick_val := 0, sc_systick_countflag := False\<rparr>\<rparr>
     else case sd_nvic d of
       None \<Rightarrow> d
     | Some n \<Rightarrow>
         (case (if size_bytes = 4 then nvic_window_write n sec aligned value else None) of
            Some n' \<Rightarrow> d\<lparr>sd_nvic := Some n'\<rparr>
          | None \<Rightarrow> d\<lparr>sd_nvic := Some (nvic_ipr_write n offset size_bytes value)\<rparr>))"

definition sau_set_layout :: "nat \<Rightarrow> 'x scs_dev_scheme \<Rightarrow> 'x scs_dev_scheme"
  where "sau_set_layout layout d =
    (if layout = 0 \<or> layout = sd_sau_layout d then d else d\<lparr>sd_sau_layout := layout\<rparr>)"

definition scb_write_sau :: "mm_sec_state \<Rightarrow> u32 \<Rightarrow> u32 \<Rightarrow> 'x scs_dev_scheme \<Rightarrow> 'x scs_dev_scheme"
  where "scb_write_sau sec reg_off value d =
    (let scs = sd_scs d; idx = unat (sc_sau_rnr scs AND 0x7) in
     if sec \<noteq> MM_SECURE then d
     else if reg_off = 0xD0 then d\<lparr>sd_scs := scs\<lparr>sc_sau_ctrl := value\<rparr>\<rparr>
     else if reg_off = 0xD4 then d\<lparr>sd_scs := scs\<lparr>sc_sau_rnr := value AND 0x7\<rparr>\<rparr>
     else if reg_off = 0xD8 then
       (if value AND NOT 0x7 = 0 then
          sau_set_layout 2 (d\<lparr>sd_scs := scs\<lparr>sc_sau_rnr := value AND 0x7\<rparr>\<rparr>)
        else d\<lparr>sd_scs := scs\<lparr>sc_sau_rbar := (sc_sau_rbar scs)(idx := value)\<rparr>\<rparr>)
     else if reg_off = 0xDC then
       (if value AND 0x1F = 0 then
          sau_set_layout 2 (d\<lparr>sd_scs := scs\<lparr>sc_sau_rbar := (sc_sau_rbar scs)(idx := value)\<rparr>\<rparr>)
        else d\<lparr>sd_scs := scs\<lparr>sc_sau_rlar := (sc_sau_rlar scs)(idx := value)\<rparr>\<rparr>)
     else if reg_off = 0xE0 then
       (if value \<le> 0xFF then d\<lparr>sd_scs := scs\<lparr>sc_sau_sfsr := value\<rparr>\<rparr>
        else sau_set_layout 2 (d\<lparr>sd_scs := scs\<lparr>sc_sau_rlar := (sc_sau_rlar scs)(idx := value)\<rparr>\<rparr>))
     else if reg_off = 0xE4 then
       (if value \<le> 0xFF then sau_set_layout 2 (d\<lparr>sd_scs := scs\<lparr>sc_sau_sfsr := value\<rparr>\<rparr>)
        else d\<lparr>sd_scs := scs\<lparr>sc_sau_sfar := value\<rparr>\<rparr>)
     else if reg_off = 0xE8 then sau_set_layout 2 (d\<lparr>sd_scs := scs\<lparr>sc_sau_sfar := value\<rparr>\<rparr>)
     else d)"

definition scb_write_mpu :: "mm_sec_state \<Rightarrow> u32 \<Rightarrow> u32 \<Rightarrow> 'x scs_dev_scheme \<Rightarrow> 'x scs_dev_scheme"
  where "scb_write_mpu sec reg_off value d =
    (let scs = sd_scs d; r = mpu_sel sec scs in
     if reg_off = 0x94 then
       d\<lparr>sd_scs := bank sec (scs\<lparr>sc_mpu_ctrl_ns := value\<rparr>) (scs\<lparr>sc_mpu_ctrl_s := value\<rparr>)\<rparr>
     else if reg_off = 0x98 then
       d\<lparr>sd_scs := bank sec (scs\<lparr>sc_mpu_rnr_ns := value AND 0x7\<rparr>) (scs\<lparr>sc_mpu_rnr_s := value AND 0x7\<rparr>)\<rparr>
     else if reg_off = 0x9C then
       d\<lparr>sd_scs := bank sec (scs\<lparr>sc_mpu_rbar_ns := (sc_mpu_rbar_ns scs)(r := value)\<rparr>)
         (scs\<lparr>sc_mpu_rbar_s := (sc_mpu_rbar_s scs)(r := value)\<rparr>)\<rparr>
     else if reg_off = 0xA0 then
       d\<lparr>sd_scs := bank sec (scs\<lparr>sc_mpu_rlar_ns := (sc_mpu_rlar_ns scs)(r := value)\<rparr>)
         (scs\<lparr>sc_mpu_rlar_s := (sc_mpu_rlar_s scs)(r := value)\<rparr>)\<rparr>
     else if reg_off = 0xC0 then
       d\<lparr>sd_scs := bank sec (scs\<lparr>sc_mpu_mair0_ns := value\<rparr>) (scs\<lparr>sc_mpu_mair0_s := value\<rparr>)\<rparr>
     else if reg_off = 0xC4 then
       d\<lparr>sd_scs := bank sec (scs\<lparr>sc_mpu_mair1_ns := value\<rparr>) (scs\<lparr>sc_mpu_mair1_s := value\<rparr>)\<rparr>
     else scb_write_sau sec reg_off value d)"

definition icsr_write :: "mm_sec_state \<Rightarrow> u32 \<Rightarrow> mm_scs \<Rightarrow> mm_scs"
  where "icsr_write ctx_sec v scs =
    (let scs = (if v AND push_bit 28 1 \<noteq> 0 then scs\<lparr>sc_pend_sv := True\<rparr> else scs);
         scs = (if v AND push_bit 27 1 \<noteq> 0 then scs\<lparr>sc_pend_sv := False\<rparr> else scs);
         scs = (if v AND push_bit 26 1 \<noteq> 0 then scs\<lparr>sc_pend_st := True\<rparr> else scs);
         scs = (if v AND push_bit 25 1 \<noteq> 0 then scs\<lparr>sc_pend_st := False\<rparr> else scs)
     in bank ctx_sec (scs\<lparr>sc_icsr_ns := v AND NOT (push_bit 25 0x3)\<rparr>)
          (scs\<lparr>sc_icsr_s := v AND NOT (push_bit 25 0x3)\<rparr>))"

definition aircr_write :: "mm_sec_state \<Rightarrow> u32 \<Rightarrow> 'x scs_dev_scheme \<Rightarrow> bool \<times> 'x scs_dev_scheme"
  where "aircr_write ctx_sec value d =
    (if drop_bit 16 value AND 0xFFFF = 0x05FA then
       (let scs = sd_scs d;
            d = d\<lparr>sd_scs := bank ctx_sec (scs\<lparr>sc_aircr_ns := value\<rparr>) (scs\<lparr>sc_aircr_s := value\<rparr>)\<rparr>
        in (True, if value AND push_bit 2 1 \<noteq> 0 then d\<lparr>sd_reset_requested := True\<rparr> else d))
     else (False, d))"

definition scb_write :: "mm_sec_state \<Rightarrow> mm_sec_state \<Rightarrow> u32 \<Rightarrow> u32 \<Rightarrow> 'x scs_dev_scheme \<Rightarrow> bool \<times> 'x scs_dev_scheme"
  where "scb_write ctx_sec sec reg_off value d =
    (let scs = sd_scs d in
     if reg_off = 0x4 then (True, d\<lparr>sd_scs := icsr_write ctx_sec value scs\<rparr>)
     else if reg_off = 0x8 then
       (True, d\<lparr>sd_scs := bank sec (scs\<lparr>sc_vtor_ns := value\<rparr>) (scs\<lparr>sc_vtor_s := value\<rparr>)\<rparr>)
     else if reg_off = 0xC then aircr_write ctx_sec value d
     else if reg_off = 0x10 then
       (True, d\<lparr>sd_scs := bank sec (scs\<lparr>sc_scr_ns := value\<rparr>) (scs\<lparr>sc_scr_s := value\<rparr>)\<rparr>)
     else if reg_off = 0x14 then (True, d\<lparr>sd_scs := scs\<lparr>sc_ccr := value\<rparr>\<rparr>)
     else if reg_off = 0x18 then
       (True, d\<lparr>sd_scs := bank sec (scs\<lparr>sc_shpr1_ns := value\<rparr>) (scs\<lparr>sc_shpr1_s := value\<rparr>)\<rparr>)
     else if reg_off = 0x1C then
       (True, d\<lparr>sd_scs := bank sec (scs\<lparr>sc_shpr2_ns := value\<rparr>) (scs\<lparr>sc_shpr2_s := value\<rparr>)\<rparr>)
     else if reg_off = 0x20 then
       (True, d\<lparr>sd_scs := bank sec (scs\<lparr>sc_shpr3_ns := value\<rparr>) (scs\<lparr>sc_shpr3_s := value\<rparr>)\<rparr>)
     else if reg_off = 0x24 then
       (True, d\<lparr>sd_scs := bank sec (scs\<lparr>sc_shcsr_ns := value\<rparr>) (scs\<lparr>sc_shcsr_s := value\<rparr>)\<rparr>)
     else if reg_off = 0x28 then (True, d\<lparr>sd_scs := scs\<lparr>sc_cfsr := sc_cfsr scs AND NOT value\<rparr>\<rparr>)
     else if reg_off = 0x2C then (True, d\<lparr>sd_scs := scs\<lparr>sc_hfsr := value\<rparr>\<rparr>)
     else if reg_off = 0x30 then (True, d\<lparr>sd_scs := scs\<lparr>sc_dfsr := value\<rparr>\<rparr>)
     else if reg_off = 0x34 then (True, d\<lparr>sd_scs := scs\<lparr>sc_mmfar := value\<rparr>\<rparr>)
     else if reg_off = 0x38 then (True, d\<lparr>sd_scs := scs\<lparr>sc_bfar := value\<rparr>\<rparr>)
     else if reg_off = 0x3C then (True, d\<lparr>sd_scs := scs\<lparr>sc_afsr := value\<rparr>\<rparr>)
     else (True, scb_write_mpu sec reg_off value d))"

definition scs_write :: "mm_sec_state \<Rightarrow> u32 \<Rightarrow> u32 \<Rightarrow> u32 \<Rightarrow> 'x scs_dev_scheme \<Rightarrow> bool \<times> 'x scs_dev_scheme"
  where "scs_write ctx_sec offset size_bytes value d =
    (let sec = eff_sec ctx_sec (sd_scs d) in
     if offset \<ge> 0x1000 then (False, d)
     else if offset < 0x0D00 then (True, scs_write_low sec offset size_bytes value d)
     else
       (let aligned = offset AND NOT 0x3; reg_off = aligned - 0x0D00 in
        if size_bytes = 1 \<or> size_bytes = 2 then
          (let (cur, d') = scs_read ctx_sec aligned 4 d;
               cur' = (case cur of None \<Rightarrow> 0 | Some v \<Rightarrow> v)
           in scb_write ctx_sec sec reg_off (merge_subword offset size_bytes cur' value) d')
        else if size_bytes \<noteq> 4 then (False, d)
        else scb_write ctx_sec sec reg_off value d))"

subsection \<open>SysTick\<close>

definition mm_scs_systick_advance :: "mm_scs \<Rightarrow> u64 \<Rightarrow> u32 \<times> mm_scs"
  where "mm_scs_systick_advance scs cycles =
    (if cycles = 0 then (0, scs)
     else if sc_systick_ctrl scs AND 0x1 = 0 then (0, scs)
     else
       (let tickint = (sc_systick_ctrl scs AND 0x2 \<noteq> 0);
            load = sc_systick_load scs AND 0x00FFFFFF in
        if load = 0 then (0, scs)
        else
          (let cur0 = sc_systick_val scs AND 0x00FFFFFF;
               cur1 = (if cur0 = 0 then load else cur0);
               (cur, wraps) =
                 (if cycles < to_u64 cur1 then (cur1 - to_u32 cycles, 0)
                  else
                    (let remaining = cycles - to_u64 cur1;
                         rem = to_u32 (remaining mod to_u64 load)
                     in (if rem = 0 then load else load - rem, 1 + remaining div to_u64 load)));
               scs1 = scs\<lparr>sc_systick_val := cur AND 0x00FFFFFF\<rparr>;
               scs2 = (if wraps > 0 then
                   (let s = scs1\<lparr>sc_systick_wraps := sc_systick_wraps scs1 + wraps,
                                 sc_systick_countflag := True\<rparr>
                    in if tickint then s\<lparr>sc_pend_st := True\<rparr> else s)
                 else scs1)
           in (to_u32 wraps, scs2))))"

definition mm_scs_systick_cycles_until_fire :: "mm_scs \<Rightarrow> u64"
  where "mm_scs_systick_cycles_until_fire scs =
    (if sc_systick_ctrl scs AND 0x1 = 0 then -1
     else
       (let load = sc_systick_load scs AND 0x00FFFFFF in
        if load = 0 then -1
        else
          (let cur = sc_systick_val scs AND 0x00FFFFFF
           in to_u64 (if cur = 0 then load else cur))))"

definition mm_scs_systick_wrap_count :: "mm_scs \<Rightarrow> u64"
  where "mm_scs_systick_wrap_count scs = sc_systick_wraps scs"

definition mm_scs_systick_step :: "mm_scs \<Rightarrow> mm_scs"
  where "mm_scs_systick_step scs = snd (mm_scs_systick_advance scs 1)"

subsection \<open>Registration on the bus\<close>

definition scs_region :: "u32 \<Rightarrow> mm_sec_state \<Rightarrow> 'x scs_dev_scheme mmio_region"
  where "scs_region base sec = \<lparr>mr_base = base - 0x0D00, mr_size = 0x1000,
    mr_read = Some (\<lambda>_ offset size_bytes d. scs_read sec offset size_bytes d),
    mr_write = Some (\<lambda>_ offset size_bytes v d. scs_write sec offset size_bytes v d)\<rparr>"

definition mm_scs_register_regions ::
  "'x scs_dev_scheme mmio_bus \<Rightarrow> u32 \<Rightarrow> u32 \<Rightarrow> bool \<times> 'x scs_dev_scheme mmio_bus"
  where "mm_scs_register_regions bus base_secure base_nonsecure =
    (let (ok, bus1) = mmio_bus_register_region bus (scs_region base_secure MM_SECURE) in
     if \<not> ok then (False, bus1)
     else if base_nonsecure \<noteq> base_secure then
       (let (ok2, bus2) = mmio_bus_register_region bus1 (scs_region base_nonsecure MM_NONSECURE)
        in (ok2, bus2))
     else (True, bus1))"


subsection \<open>SysTick: skipping cycles is stepping\<close>

text \<open>
  The counter on natural numbers: from value \<^verbatim>\<open>c\<close> with reload \<^verbatim>\<open>l\<close>, the value and the
  number of wraps after \<^verbatim>\<open>n\<close> cycles.
\<close>

definition tick :: "nat \<Rightarrow> nat \<Rightarrow> nat \<Rightarrow> nat \<times> nat"
  where "tick l c n = (if n < c then (c - n, 0) else (l - (n - c) mod l, Suc ((n - c) div l)))"

lemma tick_one: "0 < l \<Longrightarrow> 0 < c \<Longrightarrow> tick l c 1 = (if c = 1 then (l, 1) else (c - 1, 0))"
  by (auto simp: tick_def)

lemma tick_0: "0 < c \<Longrightarrow> tick l c 0 = (c, 0)"
  by (simp add: tick_def)

lemma tick_Suc:
  assumes "0 < l" "0 < c" "tick l c n = (c', w)"
  shows "tick l c (Suc n) = (if c' = 1 then (l, Suc w) else (c' - 1, w))"
proof (cases "n < c")
  case True
  then show ?thesis using assms by (auto simp: tick_def)
next
  case False
  define m where "m = n - c"
  have w: "w = Suc (m div l)" "c' = l - m mod l" using assms False by (auto simp: tick_def m_def)
  have S: "tick l c (Suc n) = (l - Suc m mod l, Suc (Suc m div l))"
    using False by (simp add: tick_def m_def Suc_diff_le)
  show ?thesis
  proof (cases "Suc (m mod l) = l")
    case True
    then have "Suc m mod l = 0" "Suc m div l = Suc (m div l)" by (simp_all add: mod_Suc div_Suc)
    then show ?thesis using True w unfolding S by simp
  next
    case False
    then have "Suc m mod l = Suc (m mod l)" "Suc m div l = m div l" by (simp_all add: mod_Suc div_Suc)
    moreover have "m mod l < l" using assms by simp
    ultimately show ?thesis using False w unfolding S by simp
  qed
qed

lemma tick_range: "0 < l \<Longrightarrow> 0 < c \<Longrightarrow> 0 < fst (tick l c n) \<and> fst (tick l c n) \<le> max l c \<and> snd (tick l c n) \<le> n"
proof -
  assume "0 < l" "0 < c"
  moreover have "(n - c) div l \<le> n - c" by (rule div_le_dividend)
  then have "Suc ((n - c) div l) \<le> n" if "\<not> n < c" using that \<open>0 < c\<close> by linarith
  ultimately show ?thesis by (auto simp: tick_def le_max_iff_disj)
qed

text \<open>The state of a running timer, and the state after the counter moved to \<^verbatim>\<open>(c, w)\<close>.\<close>

definition systick_runs :: "mm_scs \<Rightarrow> bool"
  where "systick_runs scs = (sc_systick_ctrl scs AND 0x1 \<noteq> 0 \<and> sc_systick_load scs AND 0x00FFFFFF \<noteq> 0)"

definition systick_cur :: "mm_scs \<Rightarrow> u32"
  where "systick_cur scs =
    (if sc_systick_val scs AND 0x00FFFFFF = 0 then sc_systick_load scs AND 0x00FFFFFF
     else sc_systick_val scs AND 0x00FFFFFF)"

definition systick_moved :: "mm_scs \<Rightarrow> nat \<times> nat \<Rightarrow> mm_scs"
  where "systick_moved scs cw = scs\<lparr>sc_systick_val := of_nat (fst cw),
     sc_systick_wraps := sc_systick_wraps scs + of_nat (snd cw),
     sc_systick_countflag := (sc_systick_countflag scs \<or> snd cw > 0),
     sc_pend_st := (sc_pend_st scs \<or> snd cw > 0 \<and> sc_systick_ctrl scs AND 0x2 \<noteq> 0)\<rparr>"

lemma and_24_take: "x AND 0x00FFFFFF = take_bit 24 x" for x :: u32
  by (simp add: take_bit_eq_mask mask_eq_exp_minus_1)

lemma and_24_less: "unat (x AND 0x00FFFFFF :: u32) < 2 ^ 24"
proof -
  have "unat (take_bit 24 x) = take_bit 24 (unat x)" by (simp add: unsigned_take_bit_eq)
  then show ?thesis unfolding and_24_take by (simp add: take_bit_eq_mod)
qed

lemma and_24_id: "unat x < 2 ^ 24 \<Longrightarrow> x AND 0x00FFFFFF = x" for x :: u32
  unfolding and_24_take by (simp add: word_unat_eq_iff unsigned_take_bit_eq take_bit_nat_eq_self)

lemma systick_cur_pos: "systick_runs scs \<Longrightarrow> 0 < unat (systick_cur scs)"
  by (auto simp: systick_runs_def systick_cur_def unat_gt_0)

lemma systick_cur_less: "unat (systick_cur scs) < 2 ^ 24"
  using and_24_less by (simp add: systick_cur_def)

lemma systick_idle: "\<not> systick_runs scs \<Longrightarrow> mm_scs_systick_advance scs n = (0, scs)"
  by (auto simp: systick_runs_def mm_scs_systick_advance_def Let_def)

lemma systick_advance_0: "mm_scs_systick_advance scs 0 = (0, scs)"
  by (simp add: mm_scs_systick_advance_def)

lemma systick_advance_tick:
  assumes "systick_runs scs" and n: "n \<noteq> 0"
  defines "cw \<equiv> tick (unat (sc_systick_load scs AND 0x00FFFFFF)) (unat (systick_cur scs)) (unat n)"
  shows "mm_scs_systick_advance scs n = (of_nat (snd cw), systick_moved scs cw)"
proof -
  define l c where "l = sc_systick_load scs AND 0x00FFFFFF" and "c = systick_cur scs"
  have l0: "0 < unat l" "unat l < 2 ^ 24" and c0: "0 < unat c" "unat c < 2 ^ 24"
    using assms(1) and_24_less systick_cur_pos systick_cur_less
    by (auto simp: l_def c_def systick_runs_def unat_gt_0)
  have r: "l \<noteq> 0" "sc_systick_ctrl scs AND 0x1 \<noteq> 0"
    using assms(1) by (auto simp: systick_runs_def l_def)
  define rem where "rem = to_u32 ((n - to_u64 c) mod to_u64 l)"
  define cur wraps where
    "cur = (if n < to_u64 c then c - to_u32 n else if rem = 0 then l else l - rem)"
    and "wraps = (if n < to_u64 c then 0 else 1 + (n - to_u64 c) div to_u64 l)"
  have cw: "cw = tick (unat l) (unat c) (unat n)" by (simp add: cw_def l_def c_def)
  have lt: "n < to_u64 c \<longleftrightarrow> unat n < unat c" by (simp add: word_less_nat_alt unat_to_u64)
  have sub: "unat (n - to_u64 c) = unat n - unat c" if "\<not> unat n < unat c"
    using that by (subst unat_sub) (simp_all add: word_le_nat_alt unat_to_u64)
  have rem: "unat rem = (unat n - unat c) mod unat l" if "\<not> unat n < unat c"
  proof -
    have "unat ((n - to_u64 c) mod to_u64 l) = (unat n - unat c) mod unat l"
      using that by (simp add: unat_mod sub unat_to_u64)
    moreover have "(unat n - unat c) mod unat l < unat l" using l0 by simp
    then have "(unat n - unat c) mod unat l < 2 ^ 24" using l0(2) by (rule order.strict_trans)
    then have "(unat n - unat c) mod unat l < 2 ^ 32" by (rule order.strict_trans) simp
    ultimately show ?thesis by (simp add: rem_def to_u32_def unsigned_ucast_eq take_bit_nat_eq_self)
  qed
  have rem_l: "unat rem < unat l" if "\<not> unat n < unat c" using rem [OF that] l0 by simp
  have cur: "unat cur = fst cw"
  proof (cases "unat n < unat c")
    case True
    then have "unat (to_u32 n) = unat n"
      using c0 by (simp add: to_u32_def unsigned_ucast_eq take_bit_nat_eq_self)
    then show ?thesis using True
      by (simp add: cur_def cw tick_def lt unat_sub word_le_nat_alt)
  next
    case False
    then have "unat (l - rem) = unat l - unat rem" 
      using rem_l by (simp add: unat_sub word_le_nat_alt less_imp_le)
    then show ?thesis using False rem
      by (simp add: cur_def cw tick_def lt word_unat_eq_iff [of rem])
  qed
  have wraps: "unat wraps = snd cw"
  proof (cases "unat n < unat c")
    case True
    then show ?thesis by (simp add: wraps_def cw tick_def lt)
  next
    case False
    have d: "unat ((n - to_u64 c) div to_u64 l) = (unat n - unat c) div unat l"
      using False by (simp add: unat_div sub unat_to_u64)
    have "(unat n - unat c) div unat l \<le> unat n - unat c" by (rule div_le_dividend)
    moreover have "unat n < 18446744073709551616" by (rule unat_u64_less)
    ultimately have "1 + (unat n - unat c) div unat l < 18446744073709551616"
      using False c0(1) by linarith
    then have "unat (1 + (n - to_u64 c) div to_u64 l) = Suc ((unat n - unat c) div unat l)"
      using d by (subst unat_word_ariths(1)) simp
    then show ?thesis using False by (simp add: wraps_def cw tick_def lt)
  qed
  have "fst cw < 2 ^ 24"
    using tick_range [OF l0(1) c0(1), of "unat n"] l0 c0 by (auto simp: cw max_def split: if_splits)
  then have c24: "cur AND 0x00FFFFFF = cur" using cur by (simp add: and_24_id)
  have eqs: "of_nat (fst cw) = cur" "of_nat (snd cw) = wraps" "of_nat (snd cw) = to_u32 wraps"
    "0 < snd cw \<longleftrightarrow> wraps \<noteq> 0"
    by (simp_all add: to_u32_def unat_gt_0 flip: cur wraps)
  have c_eq: "(if sc_systick_val scs AND 0x00FFFFFF = 0 then l else sc_systick_val scs AND 0x00FFFFFF) = c"
    by (simp add: c_def systick_cur_def l_def)
  have pair: "(if n < to_u64 c then (c - to_u32 n, 0)
      else (if to_u32 ((n - to_u64 c) mod to_u64 l) = 0 then l
            else l - to_u32 ((n - to_u64 c) mod to_u64 l), 1 + (n - to_u64 c) div to_u64 l)) = (cur, wraps)"
    by (simp add: cur_def wraps_def rem_def)
  show ?thesis
    unfolding mm_scs_systick_advance_def Let_def l_def [symmetric] c_eq pair
    using n r c24 by (simp add: systick_moved_def eqs word_greater_zero_iff)
qed

lemma systick_moved_ctrl [simp]:
  "sc_systick_load (systick_moved scs cw) = sc_systick_load scs"
  "systick_runs (systick_moved scs cw) = systick_runs scs"
  by (simp_all add: systick_moved_def systick_runs_def)

lemma systick_moved_flags:
  "sc_systick_countflag (systick_moved scs cw) = (sc_systick_countflag scs \<or> snd cw > 0)"
  "sc_pend_st (systick_moved scs cw) = (sc_pend_st scs \<or> snd cw > 0 \<and> sc_systick_ctrl scs AND 0x2 \<noteq> 0)"
  by (simp_all add: systick_moved_def)

lemma systick_cur_moved:
  "0 < fst cw \<Longrightarrow> fst cw < 2 ^ 24 \<Longrightarrow> unat (systick_cur (systick_moved scs cw)) = fst cw"
proof -
  assume c: "0 < fst cw" "fst cw < 2 ^ 24"
  then have u: "unat (of_nat (fst cw) :: u32) = fst cw" by (simp add: unsigned_of_nat take_bit_nat_eq_self)
  then have "(of_nat (fst cw) :: u32) AND 0x00FFFFFF = of_nat (fst cw)" using c by (intro and_24_id) simp
  moreover have "(of_nat (fst cw) :: u32) \<noteq> 0" using u c by auto
  ultimately show ?thesis using u by (simp add: systick_cur_def systick_moved_def)
qed

lemma systick_moved_moved:
  "systick_moved (systick_moved scs (c, w)) (c', w') = systick_moved scs (c', w + w')"
  by (simp add: systick_moved_def add_ac conj_disj_distribR disj_ac)

lemma systick_steps:
  assumes "systick_runs scs"
  shows "(mm_scs_systick_step ^^ Suc k) scs =
    systick_moved scs (tick (unat (sc_systick_load scs AND 0x00FFFFFF)) (unat (systick_cur scs)) (Suc k))"
proof (induction k)
  case 0
  then show ?case using systick_advance_tick [OF assms, of 1] by (simp add: mm_scs_systick_step_def)
next
  case (Suc k)
  define l c where "l = unat (sc_systick_load scs AND 0x00FFFFFF)" and "c = unat (systick_cur scs)"
  obtain c' w where cw: "tick l c (Suc k) = (c', w)" by fastforce
  have l0: "0 < l" "0 < c" using assms systick_cur_pos by (auto simp: l_def c_def systick_runs_def unat_gt_0)
  have "l < 2 ^ 24" "c < 2 ^ 24" unfolding l_def c_def by (rule and_24_less, rule systick_cur_less)
  then have c': "0 < c'" "c' < 2 ^ 24" using tick_range [OF l0, of "Suc k"] cw by (auto simp: max_def split: if_splits)
  have "(mm_scs_systick_step ^^ Suc (Suc k)) scs = mm_scs_systick_step (systick_moved scs (c', w))"
    using Suc.IH cw by (simp add: l_def c_def)
  also have "\<dots> = systick_moved (systick_moved scs (c', w)) (tick l c' 1)"
    using systick_advance_tick [of "systick_moved scs (c', w)" 1] assms systick_cur_moved [of "(c', w)" scs] c'
    by (simp add: mm_scs_systick_step_def l_def)
  also have "\<dots> = systick_moved scs (tick l c (Suc (Suc k)))"
    using tick_Suc [OF l0 cw] tick_one [OF l0(1) c'(1)] by (simp add: systick_moved_moved)
  finally show ?case by (simp add: l_def c_def)
qed

lemma systick_steps_idle: "\<not> systick_runs scs \<Longrightarrow> (mm_scs_systick_step ^^ k) scs = scs"
  by (induction k) (simp_all add: mm_scs_systick_step_def systick_idle)

text \<open>C10: fast-forwarding the SysTick timer by any 64-bit number of cycles leaves exactly
  the state of stepping it that many times one cycle at a time, whatever the control,
  reload and current values are, and returns the number of wraps that happened on the
  way modulo 2^32.\<close>

theorem systick_advance_is_stepping:
  "snd (mm_scs_systick_advance scs n) = (mm_scs_systick_step ^^ unat n) scs \<and>
   fst (mm_scs_systick_advance scs n) =
     to_u32 (mm_scs_systick_wrap_count (snd (mm_scs_systick_advance scs n)) - mm_scs_systick_wrap_count scs)"
proof (cases "systick_runs scs \<and> n \<noteq> 0")
  case True
  then have run: "systick_runs scs" and n: "n \<noteq> 0" by auto
  obtain k where k: "unat n = Suc k" using n by (metis unat_eq_0 not0_implies_Suc)
  have adv: "mm_scs_systick_advance scs n =
      (let cw = tick (unat (sc_systick_load scs AND 0x00FFFFFF)) (unat (systick_cur scs)) (Suc k)
       in (of_nat (snd cw), systick_moved scs cw))"
    using systick_advance_tick [OF run n] by (simp add: k Let_def)
  show ?thesis unfolding adv k systick_steps [OF run]
    by (simp add: Let_def mm_scs_systick_wrap_count_def systick_moved_def to_u32_of_nat)
next
  case False
  then have "mm_scs_systick_advance scs n = (0, scs)" "(mm_scs_systick_step ^^ unat n) scs = scs"
    by (auto simp: systick_idle systick_steps_idle systick_advance_0)
  then show ?thesis by (simp add: to_u32_def)
qed

lemma systick_fires:
  assumes "\<not> sc_systick_countflag scs" and "\<not> sc_pend_st scs"
  shows "sc_systick_countflag (snd (mm_scs_systick_advance scs n)) =
      (systick_runs scs \<and> mm_scs_systick_cycles_until_fire scs \<le> n) \<and>
    sc_pend_st (snd (mm_scs_systick_advance scs n)) =
      (systick_runs scs \<and> mm_scs_systick_cycles_until_fire scs \<le> n \<and> sc_systick_ctrl scs AND 0x2 \<noteq> 0)"
proof (cases "systick_runs scs")
  case True
  have fire: "mm_scs_systick_cycles_until_fire scs = to_u64 (systick_cur scs)"
    using True by (simp add: systick_runs_def mm_scs_systick_cycles_until_fire_def systick_cur_def Let_def)
  show ?thesis
  proof (cases "n = 0")
    case True
    then show ?thesis using assms fire systick_cur_pos [OF \<open>systick_runs scs\<close>]
      by (simp add: systick_advance_0 word_le_nat_alt unat_to_u64)
  next
    case False
    define cw where
      "cw = tick (unat (sc_systick_load scs AND 0x00FFFFFF)) (unat (systick_cur scs)) (unat n)"
    have "snd (mm_scs_systick_advance scs n) = systick_moved scs cw"
      using systick_advance_tick [OF True False] by (simp add: cw_def)
    moreover have "snd cw > 0 \<longleftrightarrow> to_u64 (systick_cur scs) \<le> n"
      by (simp add: cw_def tick_def word_le_nat_alt unat_to_u64)
    ultimately show ?thesis using assms fire True by (simp add: systick_moved_flags)
  qed
next
  case False
  then show ?thesis using assms systick_idle [OF False, of n] by simp
qed

text \<open>The distance to the next SysTick event is exact.  Advancing a timer whose
  COUNTFLAG is clear sets COUNTFLAG precisely when the timer runs and at least
  \<^verbatim>\<open>mm_scs_systick_cycles_until_fire\<close> cycles pass, and then pends the SysTick exception
  precisely when TICKINT is on.\<close>

theorem systick_fires_exactly:
  assumes "\<not> sc_systick_countflag scs" and "\<not> sc_pend_st scs"
  shows "sc_systick_countflag (snd (mm_scs_systick_advance scs n)) =
      (systick_runs scs \<and> mm_scs_systick_cycles_until_fire scs \<le> n) \<and>
    sc_pend_st (snd (mm_scs_systick_advance scs n)) =
      (systick_runs scs \<and> mm_scs_systick_cycles_until_fire scs \<le> n \<and> sc_systick_ctrl scs AND 0x2 \<noteq> 0)"
  by (rule systick_fires [OF assms])

definition demo_tick :: mm_scs
  where "demo_tick = scs_zero\<lparr>sc_systick_ctrl := 3, sc_systick_load := 5, sc_systick_val := 2\<rparr>"

theorem systick_fires_exactly_witness:
  "\<not> sc_pend_st (snd (mm_scs_systick_advance demo_tick 1)) \<and> sc_pend_st (snd (mm_scs_systick_advance demo_tick 2))"
proof -
  have "\<not> sc_systick_countflag demo_tick \<and> \<not> sc_pend_st demo_tick \<and> systick_runs demo_tick \<and>
      \<not> mm_scs_systick_cycles_until_fire demo_tick \<le> 1 \<and> mm_scs_systick_cycles_until_fire demo_tick \<le> 2 \<and>
      sc_systick_ctrl demo_tick AND 0x2 \<noteq> 0"
    by code_simp
  then show ?thesis using systick_fires_exactly [of demo_tick] by blast
qed

subsection \<open>Non-secure writes\<close>

text \<open>
  What the Secure world configures: the SAU, the Secure banks of the SCB and MPU
  registers, the interrupt targets and, of the enable and pending bits, those of the
  interrupts that target the Secure state.
\<close>

definition secure_banks :: "mm_scs \<Rightarrow> u32 list \<times> (nat \<Rightarrow> u32) list \<times> mm_sec_state"
  where "secure_banks s =
    ([sc_vtor_s s, sc_scr_s s, sc_shpr1_s s, sc_shpr2_s s, sc_shpr3_s s, sc_shcsr_s s,
      sc_mpu_ctrl_s s, sc_mpu_rnr_s s, sc_mpu_mair0_s s, sc_mpu_mair1_s s,
      sc_sau_type s, sc_sau_ctrl s, sc_sau_rnr s, sc_sau_sfsr s, sc_sau_sfar s],
     [sc_mpu_rbar_s s, sc_mpu_rlar_s s, sc_sau_rbar s, sc_sau_rlar s], sc_last_access_sec s)"

definition secure_irqs :: "mm_nvic \<Rightarrow> (nat \<Rightarrow> u32) \<times> (nat \<Rightarrow> u32) \<times> (nat \<Rightarrow> u32)"
  where "secure_irqs n = (itns_mask n, \<lambda>i. enable_mask n i AND NOT (itns_mask n i),
     \<lambda>i. pending_mask n i AND NOT (itns_mask n i))"

lemma ns_window_write_secure:
  "nvic_window_write n MM_NONSECURE aligned v = Some n' \<Longrightarrow> secure_irqs n' = secure_irqs n"
proof -
  assume w: "nvic_window_write n MM_NONSECURE aligned v = Some n'"
  have m: "(e OR v AND i) AND NOT i = e AND NOT i" "(e AND (NOT v OR NOT i)) AND NOT i = e AND NOT i" for e i :: u32
    by (auto intro!: bit_word_eqI simp: bit_simps)
  show ?thesis
    using w by (auto simp: nvic_window_write_def secure_irqs_def Let_def fun_eq_iff m split: if_splits)
qed

lemma priority_secure_irqs [simp]: "secure_irqs (n\<lparr>nv_priority := p\<rparr>) = secure_irqs n"
  by (simp add: secure_irqs_def)

lemma fold_invariant: "(\<And>s x. g (f s x) = g s) \<Longrightarrow> g (foldl f s xs) = g s"
  by (induction xs arbitrary: s) simp_all

lemma ipr_write_secure_irqs: "secure_irqs (nvic_ipr_write n offset size_bytes v) = secure_irqs n"
  unfolding nvic_ipr_write_def Let_def
  by (simp del: upt_conv_Cons upt_rec_numeral add: fold_invariant [where g = secure_irqs])

lemma ns_write_low_secure:
  "secure_banks (sd_scs (scs_write_low MM_NONSECURE offset size_bytes v d)) = secure_banks (sd_scs d) \<and>
   map_option secure_irqs (sd_nvic (scs_write_low MM_NONSECURE offset size_bytes v d)) =
     map_option secure_irqs (sd_nvic d) \<and>
   sd_sau_layout (scs_write_low MM_NONSECURE offset size_bytes v d) = sd_sau_layout d"
  by (simp add: scs_write_low_def Let_def secure_banks_def ipr_write_secure_irqs ns_window_write_secure
      split: option.split)

lemma ns_write_mpu_secure:
  "secure_banks (sd_scs (scb_write_mpu MM_NONSECURE reg_off v d)) = secure_banks (sd_scs d) \<and>
   sd_nvic (scb_write_mpu MM_NONSECURE reg_off v d) = sd_nvic d \<and>
   sd_sau_layout (scb_write_mpu MM_NONSECURE reg_off v d) = sd_sau_layout d"
  by (simp add: scb_write_mpu_def scb_write_sau_def Let_def secure_banks_def)

lemma icsr_write_secure: "secure_banks (icsr_write ctx v s) = secure_banks s"
  by (simp add: icsr_write_def Let_def secure_banks_def)

lemma aircr_write_secure:
  "secure_banks (sd_scs (snd (aircr_write ctx v d))) = secure_banks (sd_scs d) \<and>
   sd_nvic (snd (aircr_write ctx v d)) = sd_nvic d \<and>
   sd_sau_layout (snd (aircr_write ctx v d)) = sd_sau_layout d"
  by (simp add: aircr_write_def Let_def secure_banks_def)

lemma ns_scb_write_secure:
  "secure_banks (sd_scs (snd (scb_write ctx MM_NONSECURE reg_off v d))) = secure_banks (sd_scs d) \<and>
   sd_nvic (snd (scb_write ctx MM_NONSECURE reg_off v d)) = sd_nvic d \<and>
   sd_sau_layout (snd (scb_write ctx MM_NONSECURE reg_off v d)) = sd_sau_layout d"
  unfolding scb_write_def Let_def
  by (simp add: icsr_write_secure aircr_write_secure ns_write_mpu_secure)
    (simp add: secure_banks_def)

lemma aligned_high: "0x0D00 \<le> offset \<Longrightarrow> 0x0D00 \<le> (offset AND NOT 0x3 :: u32)"
proof -
  assume "0x0D00 \<le> offset"
  then have "4 * 0x340 \<le> unat (offset AND NOT 0x3)" by (intro align4_le) (simp add: word_le_nat_alt)
  then show ?thesis by (simp add: word_le_nat_alt)
qed

lemma scs_read_high: "0x0D00 \<le> offset \<Longrightarrow> snd (scs_read ctx offset size_bytes d) = d"
  by (simp add: scs_read_def Let_def not_le)


definition demo_dev :: scs_dev
  where "demo_dev = \<lparr>sd_scs = (mm_scs_init scs_zero 0x410FD210 False)\<lparr>sc_last_access_sec := MM_NONSECURE\<rparr>,
    sd_nvic = Some (mm_nvic_init\<lparr>itns_mask := (\<lambda>i. if i = 0 then 0xF0 else 0), enable_mask := (\<lambda>_. 0x0F)\<rparr>),
    sd_sau_layout = 0, sd_reset_requested = False\<rparr>"


text \<open>The AIRCR and ICSR writes are banked by the window instead of the initiator: a
  Non-secure write through the main SCS window replaces the Secure AIRCR and requests a
  system reset.\<close>

theorem ns_aircr_write_hits_secure_bank:
  "eff_sec MM_SECURE (sd_scs demo_dev) = MM_NONSECURE \<and>
   sc_aircr_s (sd_scs demo_dev) = 0 \<and>
   sc_aircr_s (sd_scs (snd (scs_write MM_SECURE 0xD0C 4 0x05FA0004 demo_dev))) = 0x05FA0004 \<and>
   sc_aircr_ns (sd_scs (snd (scs_write MM_SECURE 0xD0C 4 0x05FA0004 demo_dev))) = 0 \<and>
   sd_reset_requested (snd (scs_write MM_SECURE 0xD0C 4 0x05FA0004 demo_dev))"
  by code_simp

text \<open>The Non-secure view of the interrupt registers is not uniform: ISER hides the
  enables of Secure interrupts, while the ICER address of the same register shows them;
  and an enable word whose 32 bits are all set reads as zero.\<close>

theorem ns_icer_read_leaks:
  "fst (scs_read MM_SECURE 0x100 4 demo_dev) = Some 0 \<and>
   fst (scs_read MM_SECURE 0x180 4 demo_dev) = Some 0x0F \<and>
   fst (scs_read MM_NONSECURE 0x100 4
      (demo_dev\<lparr>sd_nvic := Some (mm_nvic_init\<lparr>enable_mask := (\<lambda>_. -1), itns_mask := (\<lambda>_. -1)\<rparr>)\<rparr>)) = Some 0"
  by code_simp

subsection \<open>Register round trips\<close>

text \<open>The plain read-write registers, by their offset from the SCB base.\<close>

definition scb_rw :: "u32 list"
  where "scb_rw = [0x8, 0x10, 0x14, 0x18, 0x1C, 0x20, 0x24, 0x2C, 0x30, 0x34, 0x38, 0x3C,
    0x94, 0x9C, 0xA0, 0xC0, 0xC4]"

lemma scb_write_rw:
  assumes "r \<in> set scb_rw"
  shows "scb_read ctx sec lay (sd_scs (snd (scb_write ctx sec r v d))) r = v"
proof -
  have "r = 0x8 \<or> r = 0x10 \<or> r = 0x14 \<or> r = 0x18 \<or> r = 0x1C \<or> r = 0x20 \<or> r = 0x24 \<or> r = 0x2C \<or>
      r = 0x30 \<or> r = 0x34 \<or> r = 0x38 \<or> r = 0x3C \<or> r = 0x94 \<or> r = 0x9C \<or> r = 0xA0 \<or> r = 0xC0 \<or> r = 0xC4"
    using assms by (simp add: scb_rw_def)
  then show ?thesis
    by (elim disjE)
      (simp_all add: scb_write_def scb_read_def scb_read_mpu_def scb_write_mpu_def mpu_sel_def Let_def)
qed

lemma scb_write_keeps_sec:
  "sc_last_access_sec (sd_scs (snd (scb_write ctx sec r v d))) = sc_last_access_sec (sd_scs d)"
  by (simp add: scb_write_def Let_def aircr_write_def icsr_write_def scb_write_mpu_def scb_write_sau_def
      sau_set_layout_def)

lemma scb_write_accepts: "r \<noteq> 0xC \<Longrightarrow> fst (scb_write ctx sec r v d)"
  by (simp add: scb_write_def Let_def)

lemma scs_read_word:
  assumes "0x0D00 \<le> offset" "offset < 0x1000"
  shows "scs_read ctx (offset AND NOT 0x3) 4 d =
    (Some (scb_read ctx (eff_sec ctx (sd_scs d)) (sd_sau_layout d) (sd_scs d) ((offset AND NOT 0x3) - 0x0D00)), d)"
proof -
  have "unat (offset AND NOT 0x3) \<le> unat offset" unfolding unat_align4 by simp
  then have "offset AND NOT 0x3 < 0x1000"
    using assms(2) unfolding word_less_nat_alt by (rule le_less_trans)
  moreover have "\<not> offset AND NOT 0x3 < 0x0D00" using aligned_high [OF assms(1)] by (simp only: not_less)
  ultimately show ?thesis
    unfolding scs_read_def Let_def align4_idem by (simp add: read_subword_def Let_def not_le)
qed

text \<open>The plain read-write SCB and MPU registers hold what is written to them, for
  both windows and both security banks: a word write is read back, and a byte or
  halfword write replaces its lanes of the previous word and nothing else.\<close>

theorem scs_register_roundtrip:
  assumes "0x0D00 \<le> offset" and "offset < 0x1000" and "(offset AND NOT 0x3) - 0x0D00 \<in> set scb_rw"
    and "size_bytes = 1 \<or> size_bytes = 2 \<or> size_bytes = 4"
  shows "fst (scs_write ctx offset size_bytes v d) \<and>
    fst (scs_read ctx (offset AND NOT 0x3) 4 (snd (scs_write ctx offset size_bytes v d))) =
      Some (if size_bytes = 4 then v
            else merge_subword offset size_bytes (the (fst (scs_read ctx (offset AND NOT 0x3) 4 d))) v)"
proof -
  define r where "r = (offset AND NOT 0x3) - 0x0D00"
  define v' where "v' = (if size_bytes = 4 then v
    else merge_subword offset size_bytes (the (fst (scs_read ctx (offset AND NOT 0x3) 4 d))) v)"
  have r: "r \<in> set scb_rw" using assms(3) by (simp add: r_def)
  then have "r \<noteq> 0xC" by (auto simp: scb_rw_def)
  have w: "scs_write ctx offset size_bytes v d = scb_write ctx (eff_sec ctx (sd_scs d)) r v' d"
    using assms(1,2,4) unfolding scs_write_def Let_def v'_def r_def scs_read_word [OF assms(1,2)]
    by (auto simp: not_less not_le)
  have "eff_sec ctx (sd_scs (snd (scb_write ctx (eff_sec ctx (sd_scs d)) r v' d))) = eff_sec ctx (sd_scs d)"
    by (simp add: eff_sec_def scb_write_keeps_sec)
  then have "fst (scs_write ctx offset size_bytes v d) \<and>
      fst (scs_read ctx (offset AND NOT 0x3) 4 (snd (scs_write ctx offset size_bytes v d))) = Some v'"
    unfolding w scs_read_word [OF assms(1,2)] r_def [symmetric]
    by (simp add: scb_write_rw [OF r] scb_write_accepts [OF \<open>r \<noteq> 0xC\<close>])
  then show ?thesis unfolding v'_def .
qed

theorem scs_register_roundtrip_witness:
  "fst (scs_read MM_SECURE 0xD34 4 (snd (scs_write MM_SECURE 0xD35 1 0xAB demo_dev))) = Some 0xAB00"
proof -
  have "(0x0D00 :: u32) \<le> 0xD35 \<and> (0xD35 :: u32) < 0x1000 \<and> ((0xD35 :: u32) AND NOT 0x3) - 0x0D00 \<in> set scb_rw"
    by code_simp
  moreover have "(0xD35 :: u32) AND NOT 0x3 = 0xD34" by simp
  moreover have "merge_subword 0xD35 1 (the (fst (scs_read MM_SECURE 0xD34 4 demo_dev))) 0xAB = 0xAB00"
    by code_simp
  ultimately show ?thesis
    using scs_register_roundtrip [of "0xD35" 1 MM_SECURE "0xAB" demo_dev] by simp
qed

end
