(* ===== verification/Stack_Memory.thy ===== *)
theory Stack_Memory
imports Memmap
begin

text \<open>
  Words on a stack.  The stacking and unstacking loops of the exception code run over
  the memory map's word accesses; the locale \<^verbatim>\<open>word_store\<close> is what they rely on, word
  addresses that can be written and read back independently of each other, and RAM
  behind the memory map provides it.
\<close>

definition wr32 :: "mm_sec_state \<Rightarrow> 'e mm_memmap \<Rightarrow> u32 \<Rightarrow> u32 \<Rightarrow> bool \<times> 'e mm_memmap"
  where "wr32 sec m addr v = mm_memmap_write m sec addr 4 v"

definition rd32 :: "mm_sec_state \<Rightarrow> 'e mm_memmap \<Rightarrow> u32 \<Rightarrow> u32 option \<times> 'e mm_memmap"
  where "rd32 sec m addr = mm_memmap_read m sec addr 4"

text \<open>The stacking loop, given the words in the order they are stored: the last word of
  the frame first.\<close>

fun push_words :: "('m \<Rightarrow> u32 \<Rightarrow> u32 \<Rightarrow> bool \<times> 'm) \<Rightarrow> 'm \<Rightarrow> u32 \<Rightarrow> u32 list \<Rightarrow> u32 option \<times> 'm" where
  "push_words wr m sp [] = (Some sp, m)"
| "push_words wr m sp (v # vs) =
    (let sp = sp - 4; (ok, m') = wr m sp v
     in if ok then push_words wr m' sp vs else (None, m'))"

text \<open>The unstacking loop.\<close>

fun pop_words :: "('m \<Rightarrow> u32 \<Rightarrow> u32 option \<times> 'm) \<Rightarrow> 'm \<Rightarrow> u32 \<Rightarrow> nat \<Rightarrow> u32 list option \<times> 'm" where
  "pop_words rd m addr 0 = (Some [], m)"
| "pop_words rd m addr (Suc n) =
    (let (v, m') = rd m addr in
     case v of None \<Rightarrow> (None, m')
     | Some w \<Rightarrow> (let (ws, m'') = pop_words rd m' (addr + 4) n in (map_option ((#) w) ws, m'')))"

text \<open>Words stored at ascending addresses, as the multiple stores do.\<close>

fun store_words :: "('m \<Rightarrow> u32 \<Rightarrow> u32 \<Rightarrow> bool \<times> 'm) \<Rightarrow> 'm \<Rightarrow> u32 \<Rightarrow> u32 list \<Rightarrow> bool \<times> 'm" where
  "store_words wr m a [] = (True, m)"
| "store_words wr m a (w # ws) =
    (let (ok, m') = wr m a w in if ok then store_words wr m' (a + 4) ws else (False, m'))"

definition words_apart :: "u32 \<Rightarrow> u32 \<Rightarrow> bool"
  where "words_apart a b = (unat a + 4 \<le> unat b \<or> unat b + 4 \<le> unat a)"

locale word_store =
  fixes ok :: "'m \<Rightarrow> u32 \<Rightarrow> bool"
    and rd :: "'m \<Rightarrow> u32 \<Rightarrow> u32 option \<times> 'm"
    and wr :: "'m \<Rightarrow> u32 \<Rightarrow> u32 \<Rightarrow> bool \<times> 'm"
    and word :: "'m \<Rightarrow> u32 \<Rightarrow> u32"
  assumes rd_ok: "ok m a \<Longrightarrow> rd m a = (Some (word m a), m)"
    and wr_ok: "ok m a \<Longrightarrow> fst (wr m a v)"
    and wr_keeps_ok: "ok m a \<Longrightarrow> ok m b \<Longrightarrow> ok (snd (wr m a v)) b"
    and wr_same: "ok m a \<Longrightarrow> word (snd (wr m a v)) a = v"
    and wr_other: "ok m a \<Longrightarrow> ok m b \<Longrightarrow> words_apart a b \<Longrightarrow> word (snd (wr m a v)) b = word m b"
begin

lemma push_state:
  assumes "4 * length ws \<le> unat sp"
    and "\<And>i. i < length ws \<Longrightarrow> ok m (sp - of_nat (4 * Suc i))"
  shows "\<exists>m'. push_words wr m sp ws = (Some (sp - of_nat (4 * length ws)), m') \<and>
    (\<forall>a. ok m a \<longrightarrow> ok m' a) \<and>
    (\<forall>i < length ws. word m' (sp - of_nat (4 * Suc i)) = ws ! i) \<and>
    (\<forall>a. ok m a \<longrightarrow> unat sp \<le> unat a \<longrightarrow> word m' a = word m a)"
  using assms
proof (induction ws arbitrary: m sp)
  case Nil
  then show ?case by simp
next
  case (Cons w ws)
  define sp1 where "sp1 = sp - 4"
  have sp1: "unat sp1 = unat sp - 4" using Cons.prems(1) by (simp add: sp1_def unat_sub word_le_nat_alt)
  have shift: "sp - of_nat (4 * Suc n) = sp1 - of_nat (4 * n)" for n by (simp add: sp1_def algebra_simps)
  have ok1: "ok m sp1" using Cons.prems(2) [of 0] by (simp add: sp1_def)
  obtain m1 where wr1: "wr m sp1 w = (True, m1)" using wr_ok [OF ok1, of w] by (cases "wr m sp1 w") auto
  have m1: "ok m a \<Longrightarrow> ok m1 a" "word m1 sp1 = w"
    "ok m a \<Longrightarrow> words_apart sp1 a \<Longrightarrow> word m1 a = word m a" for a
    using wr_keeps_ok [OF ok1, of a w] wr_same [OF ok1, of w] wr_other [OF ok1, of a w] wr1 by auto
  have len1: "4 * length ws \<le> unat sp1" using Cons.prems(1) sp1 by simp
  have ok_ws: "ok m1 (sp1 - of_nat (4 * Suc i))" if "i < length ws" for i
    by (rule m1(1)) (use Cons.prems(2) [of "Suc i"] that in \<open>simp only: shift length_Cons Suc_less_eq\<close>)
  obtain m' where IH: "push_words wr m1 sp1 ws = (Some (sp1 - of_nat (4 * length ws)), m')"
    "\<And>a. ok m1 a \<Longrightarrow> ok m' a" "\<And>i. i < length ws \<Longrightarrow> word m' (sp1 - of_nat (4 * Suc i)) = ws ! i"
    "\<And>a. ok m1 a \<Longrightarrow> unat sp1 \<le> unat a \<Longrightarrow> word m' a = word m1 a"
    using Cons.IH [OF len1 ok_ws] by blast
  have "push_words wr m sp (w # ws) = (Some (sp - of_nat (4 * length (w # ws))), m')"
    using IH(1) wr1 shift [of "length ws"] by (simp add: sp1_def)
  moreover have "word m' (sp - of_nat (4 * Suc i)) = (w # ws) ! i" if "i < length (w # ws)" for i
  proof (cases i)
    case 0
    then show ?thesis using IH(4) [of sp1] m1 ok1 by (simp add: sp1_def)
  next
    case (Suc j)
    then show ?thesis unfolding shift using IH(3) [of j] that by (simp only: nth_Cons_Suc length_Cons Suc_less_eq)
  qed
  moreover have "word m' a = word m a" if "ok m a" "unat sp \<le> unat a" for a
    using that IH(4) [of a] m1 sp1 Cons.prems(1) by (simp add: words_apart_def)
  ultimately show ?case using IH(2) m1(1) by blast
qed

lemma pop_state:
  "(\<And>i. i < length vs \<Longrightarrow> ok m (lo + of_nat (4 * i)) \<and> word m (lo + of_nat (4 * i)) = vs ! i) \<Longrightarrow>
   pop_words rd m lo (length vs) = (Some vs, m)"
proof (induction vs arbitrary: lo)
  case (Cons v vs)
  have "ok m lo" "word m lo = v" using Cons.prems [of 0] by simp_all
  moreover have "pop_words rd m (lo + 4) (length vs) = (Some vs, m)"
    using Cons.prems [of "Suc i" for i] by (intro Cons.IH) (simp add: algebra_simps)
  ultimately show ?case by (simp add: rd_ok)
qed simp

lemma store_state:
  assumes "unat a + 4 * length ws \<le> 2 ^ 32" and "\<And>i. i < length ws \<Longrightarrow> ok m (a + of_nat (4 * i))"
  shows "\<exists>m'. store_words wr m a ws = (True, m') \<and> (\<forall>b. ok m b \<longrightarrow> ok m' b) \<and>
    (\<forall>i < length ws. word m' (a + of_nat (4 * i)) = ws ! i) \<and>
    (\<forall>b. ok m b \<longrightarrow> unat b + 4 \<le> unat a \<longrightarrow> word m' b = word m b)"
  using assms
proof (induction ws arbitrary: m a)
  case Nil
  then show ?case by simp
next
  case (Cons w ws)
  show ?case
  proof (cases ws)
    case Nil
    have "ok m a" using Cons.prems(2) [of 0] by simp
    then show ?thesis using Nil wr_ok [of m a w] wr_keeps_ok [of m a _ w] wr_same [of m a w] wr_other [of m a _ w]
      by (cases "wr m a w") (auto simp: words_apart_def)
  next
    case (Cons w2 ws2)
    have a4: "unat (a + 4) = unat a + 4" using Cons.prems(1) Cons by (simp add: unat_word_ariths)
    have shift: "a + of_nat (4 * Suc i) = a + 4 + of_nat (4 * i)" for i by (simp add: algebra_simps)
    have oka: "ok m a" using Cons.prems(2) [of 0] by simp
    obtain m1 where wr1: "wr m a w = (True, m1)" using wr_ok [OF oka, of w] by (cases "wr m a w") auto
    have m1: "ok m b \<Longrightarrow> ok m1 b" "word m1 a = w" "ok m b \<Longrightarrow> words_apart a b \<Longrightarrow> word m1 b = word m b" for b
      using wr_keeps_ok [OF oka, of b w] wr_same [OF oka, of w] wr_other [OF oka, of b w] wr1 by auto
    have "ok m1 (a + 4 + of_nat (4 * i))" if "i < length ws" for i
      by (rule m1(1)) (use Cons.prems(2) [of "Suc i"] that in \<open>simp only: shift length_Cons Suc_less_eq\<close>)
    then obtain m' where IH: "store_words wr m1 (a + 4) ws = (True, m')" "\<And>b. ok m1 b \<Longrightarrow> ok m' b"
      "\<And>i. i < length ws \<Longrightarrow> word m' (a + 4 + of_nat (4 * i)) = ws ! i"
      "\<And>b. ok m1 b \<Longrightarrow> unat b + 4 \<le> unat (a + 4) \<Longrightarrow> word m' b = word m1 b"
      using Cons.IH [of "a + 4" m1] Cons.prems(1) a4 by auto
    have "word m' (a + of_nat (4 * i)) = (w # ws) ! i" if "i < length (w # ws)" for i
    proof (cases i)
      case 0
      then show ?thesis using IH(4) [of a] m1 oka a4 by simp
    next
      case (Suc j)
      then have "j < length ws" using that by simp
      then show ?thesis unfolding Suc shift nth_Cons_Suc by (rule IH(3))
    qed
    moreover have "word m' b = word m b" if "ok m b" "unat b + 4 \<le> unat a" for b
      using that IH(4) [of b] m1 a4 by (simp add: words_apart_def)
    ultimately show ?thesis using IH(1,2) m1(1) wr1 by auto
  qed
qed

lemma store_load:
  assumes "unat a + 4 * length ws \<le> 2 ^ 32" and "\<And>i. i < length ws \<Longrightarrow> ok m (a + of_nat (4 * i))"
  shows "\<exists>m'. store_words wr m a ws = (True, m') \<and> pop_words rd m' a (length ws) = (Some ws, m')"
proof -
  obtain m' where m': "store_words wr m a ws = (True, m')" "\<And>b. ok m b \<Longrightarrow> ok m' b"
    "\<And>i. i < length ws \<Longrightarrow> word m' (a + of_nat (4 * i)) = ws ! i"
    using store_state [OF assms] by blast
  then have "pop_words rd m' a (length ws) = (Some ws, m')" using assms(2) by (intro pop_state) blast
  with m'(1) show ?thesis by blast
qed

text \<open>A frame that is pushed on good stack memory is popped from the resulting address.\<close>

lemma push_pop:
  assumes "4 * length vs \<le> unat sp" and "\<And>i. i < length vs \<Longrightarrow> ok m (sp - of_nat (4 * Suc i))"
  shows "\<exists>m'. push_words wr m sp (rev vs) = (Some (sp - of_nat (4 * length vs)), m') \<and>
    pop_words rd m' (sp - of_nat (4 * length vs)) (length vs) = (Some vs, m')"
proof -
  obtain m' where m': "push_words wr m sp (rev vs) = (Some (sp - of_nat (4 * length vs)), m')"
    "\<And>a. ok m a \<Longrightarrow> ok m' a" "\<And>i. i < length vs \<Longrightarrow> word m' (sp - of_nat (4 * Suc i)) = rev vs ! i"
    using push_state [of "rev vs" sp m] assms by auto
  have "ok m' (sp - of_nat (4 * length vs) + of_nat (4 * i)) \<and>
      word m' (sp - of_nat (4 * length vs) + of_nat (4 * i)) = vs ! i" if i: "i < length vs" for i
  proof -
    define j where "j = length vs - Suc i"
    have j: "j < length vs" "length vs = i + Suc j" using i by (simp_all add: j_def)
    have "of_nat (length vs) = (of_nat i + of_nat (Suc j) :: u32)" using j(2) by (metis of_nat_add)
    then have e: "sp - of_nat (4 * length vs) + of_nat (4 * i) = sp - of_nat (4 * Suc j)"
      by (simp add: algebra_simps)
    have "rev vs ! j = vs ! i" using j i by (simp add: rev_nth)
    then show ?thesis unfolding e using m'(2) [OF assms(2) [OF j(1)]] m'(3) [OF j(1)] by (simp only: simp_thms)
  qed
  then have "pop_words rd m' (sp - of_nat (4 * length vs)) (length vs) = (Some vs, m')"
    by (rule pop_state)
  then show ?thesis using m'(1) by blast
qed

end

subsection \<open>RAM as a word store\<close>

text \<open>The interceptor grants word reads and writes at an address without changing its state.\<close>

definition grants32 :: "'e mm_memmap \<Rightarrow> mm_sec_state \<Rightarrow> u32 \<Rightarrow> bool"
  where "grants32 m sec a = (case mm_interceptor m of None \<Rightarrow> True
     | Some f \<Rightarrow> f MM_ACCESS_READ sec a 4 (mm_env m) = (True, mm_env m) \<and>
         f MM_ACCESS_WRITE sec a 4 (mm_env m) = (True, mm_env m))"

text \<open>A word of a RAM window that starts at the address \<^verbatim>\<open>base\<close> of the host buffer.\<close>

definition ram_word :: "mm_sec_state \<Rightarrow> u32 \<Rightarrow> 'e mm_memmap \<Rightarrow> u32 \<Rightarrow> bool"
  where "ram_word sec base m a =
    (map_ok m \<and> (\<exists>b. m_buffer (mm_ram m) = Some b \<and> length b \<le> 2 ^ 32) \<and>
     base \<le> a \<and> unat a + 4 < 2 ^ 32 \<and> \<not> in_flash m a 4 \<and>
     ram_offset_for_addr m a 4 = Some (a - base) \<and> grants32 m sec a)"

definition ram_contents :: "u32 \<Rightarrow> 'e mm_memmap \<Rightarrow> u32 \<Rightarrow> u32"
  where "ram_contents base m a =
    (case read_buf_le (m_buffer (mm_ram m)) (a - base) 4 of Some (v, _) \<Rightarrow> v | None \<Rightarrow> 0)"

lemma grants32_intercept:
  "grants32 m sec a \<Longrightarrow> t = MM_ACCESS_READ \<or> t = MM_ACCESS_WRITE \<Longrightarrow> intercept_ok m t sec a 4 = (True, m)"
  by (auto simp: grants32_def intercept_ok_def split: option.splits)

lemma ram_word_bound:
  assumes "ram_word sec base m a" "m_buffer (mm_ram m) = Some b"
  shows "unat (a - base) + 4 \<le> length b"
proof -
  have "ram_ok m" "ram_offset_for_addr m a 4 = Some (a - base)" "unat a + unat (4 :: u32) < 2 ^ 32"
    using assms(1) by (simp_all add: ram_word_def map_ok_def)
  then show ?thesis using ram_offset_bound [OF _ assms(2)] by fastforce
qed

lemma read_word_buf:
  "unat off + 4 \<le> length b \<Longrightarrow> \<exists>v. read_buf_le (Some b) off 4 = Some (v, False)"
  using read_buf_le_safe [of off 4 b] by (auto simp: read_buf_le_def)

abbreviation spliced :: "'a list \<Rightarrow> nat \<Rightarrow> 'a list \<Rightarrow> 'a list"
  where "spliced b off xs \<equiv> take off b @ xs @ drop (off + length xs) b"

lemma spliced_nth:
  "off + length xs \<le> length b \<Longrightarrow> k < length b \<Longrightarrow> k < off \<or> off + length xs \<le> k \<Longrightarrow>
   spliced b off xs ! k = b ! k"
  by (auto simp: nth_append)

lemma read_word_other:
  assumes "off + length xs \<le> length b" "length b \<le> 2 ^ 32" "unat k + 4 \<le> length b"
    and "unat k + 4 \<le> off \<or> off + length xs \<le> unat k"
  shows "read_buf_le (Some (spliced b off xs)) k 4 = read_buf_le (Some b) k 4"
proof -
  have len: "length (spliced b off xs) = length b" using assms(1) by simp
  have u: "unat (k + of_nat i) = unat k + i" if "i < 4" for i
  proof -
    have "unat (of_nat i :: u32) = i" using that by (simp add: unsigned_of_nat take_bit_nat_eq_self)
    then show ?thesis using that assms(2,3) by (simp add: unat_word_ariths)
  qed
  have byte: "buf_byte (spliced b off xs) (k + of_nat i) = buf_byte b (k + of_nat i)" if "i < 4" for i
  proof -
    have "spliced b off xs ! (unat k + i) = b ! (unat k + i)"
      using that assms by (intro spliced_nth) auto
    then show ?thesis unfolding buf_byte_def len u [OF that] by (simp only:)
  qed
  have "buf_oob (spliced b off xs) i = buf_oob b i" for i
    unfolding buf_oob_def len by (rule refl)
  then show ?thesis
    using byte [of 0] byte [of 1] byte [of 2] byte [of 3] by (simp add: read_buf_le_def)
qed

lemma ram_word_read:
  assumes "ram_word sec base m a"
  shows "rd32 sec m a = (Some (ram_contents base m a), m)"
proof -
  obtain b where b: "m_buffer (mm_ram m) = Some b" using assms by (auto simp: ram_word_def)
  obtain v where v: "read_buf_le (Some b) (a - base) 4 = Some (v, False)"
    using read_word_buf [OF ram_word_bound [OF assms b]] by blast
  have i: "intercept_ok m MM_ACCESS_READ sec a 4 = (True, m)"
    using assms by (intro grants32_intercept) (simp_all add: ram_word_def)
  show ?thesis using assms b v
    by (simp add: rd32_def mm_memmap_read_def i try_flash_skip try_ram_def ram_word_def ram_contents_def)
qed

lemma ram_word_write:
  assumes "ram_word sec base m a" "m_buffer (mm_ram m) = Some b"
  shows "\<exists>xs. write_bytes 4 v = Some xs \<and> length xs = 4 \<and> wr32 sec m a v =
    (True, m\<lparr>mm_ram := (mm_ram m)\<lparr>m_buffer := Some (spliced b (unat (a - base)) xs)\<rparr>\<rparr>)"
proof -
  have "intercept_ok m MM_ACCESS_WRITE sec a 4 = (True, m\<lparr>mm_env := mm_env m\<rparr>)"
    using assms grants32_intercept [of m sec a MM_ACCESS_WRITE] by (simp add: ram_word_def)
  moreover obtain xs where "write_bytes 4 v = Some xs" "length xs = 4" by (simp add: write_bytes_def)
  ultimately show ?thesis using assms write_ram_env [of m b a 4 v xs sec "mm_env m" "a - base"]
    by (simp add: wr32_def ram_word_def)
qed

lemma ram_word_after:
  assumes "ram_word sec base m a" "m_buffer (mm_ram m) = Some b" "length b' = length b"
  shows "ram_word sec base (m\<lparr>mm_ram := (mm_ram m)\<lparr>m_buffer := Some b'\<rparr>\<rparr>) a"
  using assms
  by (simp add: ram_word_def map_ok_def ram_ok_def flash_ok_def in_flash_def grants32_def
      cong: option.case_cong)

interpretation ram: word_store "ram_word sec base" "rd32 sec" "wr32 sec" "ram_contents base"
  for sec base
proof
  fix m :: "'e mm_memmap" and a c :: u32 and v :: u32
  assume a: "ram_word sec base m a"
  then obtain b where b: "m_buffer (mm_ram m) = Some b" "length b \<le> 2 ^ 32" by (auto simp: ram_word_def)
  obtain xs where xs: "write_bytes 4 v = Some xs" "length xs = 4"
    and w: "wr32 sec m a v = (True, m\<lparr>mm_ram := (mm_ram m)\<lparr>m_buffer := Some (spliced b (unat (a - base)) xs)\<rparr>\<rparr>)"
    using ram_word_write [OF a b(1)] by blast
  have bound: "unat (a - base) + 4 \<le> length b" by (rule ram_word_bound [OF a b(1)])
  show "rd32 sec m a = (Some (ram_contents base m a), m)" by (rule ram_word_read [OF a])
  show "fst (wr32 sec m a v)" by (simp add: w)
  show "ram_contents base (snd (wr32 sec m a v)) a = v"
    using read_after_splice [of "a - base" 4 b v xs] bound b(2) xs
    by (auto simp: w ram_contents_def take_bit_word_eq_self)
  assume c: "ram_word sec base m c"
  show "ram_word sec base (snd (wr32 sec m a v)) c"
    unfolding w snd_conv using bound xs(2) by (intro ram_word_after [OF c b(1)]) simp
  assume "words_apart a c"
  moreover have "base \<le> a" "base \<le> c" using a c by (simp_all add: ram_word_def)
  then have "unat (a - base) = unat a - unat base" "unat (c - base) = unat c - unat base"
    "unat base \<le> unat a" "unat base \<le> unat c"
    by (simp_all add: unat_sub word_le_nat_alt)
  ultimately have "unat (c - base) + 4 \<le> unat (a - base) \<or> unat (a - base) + 4 \<le> unat (c - base)"
    unfolding words_apart_def by linarith
  then show "ram_contents base (snd (wr32 sec m a v)) c = ram_contents base m c"
    using read_word_other [of "unat (a - base)" xs b "c - base"] bound b xs(2) ram_word_bound [OF c b(1)]
    by (simp add: w ram_contents_def)
qed

end
