(* ===== verification/Mem_Prot.thy ===== *)
theory Mem_Prot
imports Memmap Scs_State
begin

text \<open>
  The memory-protection interceptor of \<^verbatim>\<open>src/m33mu/mem_prot.c\<close>: TrustZone attribution
  (MPCBB blocks first, then the SAU), the MPU execute-never check, the table of
  permitted ranges, and the fault registers that a denial writes.  The trace output
  (\<^verbatim>\<open>prot_trace_*\<close>, \<^verbatim>\<open>sau_match_index\<close>) is left out.
\<close>

record mm_prot_region =
  pr_base :: u32
  pr_size :: u32
  pr_perms :: u8
  pr_sec :: mm_sec_state

record mm_prot_ctx =
  prot_regions :: "mm_prot_region list"
  prot_cfg :: mm_target_cfg

definition mm_prot_init :: "mm_target_cfg \<Rightarrow> mm_prot_ctx"
  where "mm_prot_init cfg = \<lparr>prot_regions = [], prot_cfg = cfg\<rparr>"

definition mm_prot_add_region ::
  "mm_prot_ctx \<Rightarrow> u32 \<Rightarrow> u32 \<Rightarrow> u8 \<Rightarrow> mm_sec_state \<Rightarrow> bool \<times> mm_prot_ctx"
  where "mm_prot_add_region ctx base sz perms sec =
    (if length (prot_regions ctx) \<ge> 16 then (False, ctx)
     else if sz = 0 then (False, ctx)
     else (True, ctx\<lparr>prot_regions := prot_regions ctx @
       [\<lparr>pr_base = base, pr_size = sz, pr_perms = perms, pr_sec = sec\<rparr>]\<rparr>))"

definition range_contains :: "mm_prot_region \<Rightarrow> u32 \<Rightarrow> u32 \<Rightarrow> bool"
  where "range_contains r addr sz =
    (if sz = 0 then False else if addr < pr_base r then False
     else (addr - pr_base r) + sz \<le> pr_size r)"

fun mpcbb_scan :: "(int \<Rightarrow> u32 \<Rightarrow> bool) \<Rightarrow> u32 \<Rightarrow> mm_ram_region list \<Rightarrow> u32 \<Rightarrow> bool option" where
  "mpcbb_scan block_secure block_size [] addr = None"
| "mpcbb_scan block_secure block_size (r # rs) addr =
    (if addr \<ge> rr_base_s r \<and> addr - rr_base_s r < rr_size r then
       Some (block_secure (rr_mpcbb_index r) ((addr - rr_base_s r) div block_size))
     else if addr \<ge> rr_base_ns r \<and> addr - rr_base_ns r < rr_size r then
       Some (block_secure (rr_mpcbb_index r) ((addr - rr_base_ns r) div block_size))
     else mpcbb_scan block_secure block_size rs addr)"

definition mpcbb_attr_for_addr :: "mm_prot_ctx \<Rightarrow> u32 \<Rightarrow> (mm_sau_attr \<times> mm_sec_state) option"
  where "mpcbb_attr_for_addr ctx addr =
    (let cfg = prot_cfg ctx in
     case cfg_mpcbb_block_secure cfg of
       None \<Rightarrow> None
     | Some block_secure \<Rightarrow>
       if cfg_ram_regions cfg = [] \<or> cfg_mpcbb_block_size cfg = 0 then None
       else case mpcbb_scan block_secure (cfg_mpcbb_block_size cfg) (cfg_ram_regions cfg) addr of
         None \<Rightarrow> None
       | Some sec \<Rightarrow> Some (if sec then MM_SAU_SECURE else MM_SAU_NONSECURE,
                           if sec then MM_SECURE else MM_NONSECURE))"

definition record_securefault :: "mm_scs \<Rightarrow> mm_access_type \<Rightarrow> u32 \<Rightarrow> mm_scs"
  where "record_securefault scs type addr =
    (let bits = push_bit 6 1 OR (if type = MM_ACCESS_EXEC then push_bit 0 1 else push_bit 3 1)
     in scs\<lparr>sc_sau_sfsr := sc_sau_sfsr scs OR bits, sc_sau_sfar := addr, sc_securefault_pending := True\<rparr>)"

definition record_memfault :: "mm_scs \<Rightarrow> mm_sec_state \<Rightarrow> mm_access_type \<Rightarrow> u32 \<Rightarrow> mm_scs"
  where "record_memfault scs sec type addr =
    (let bits = (if type = MM_ACCESS_EXEC then 0x1 else 0x2) OR push_bit 7 1;
         scs1 = scs\<lparr>sc_cfsr := (sc_cfsr scs AND NOT 0x00010000) OR bits, sc_mmfar := addr\<rparr>
     in if sec = MM_NONSECURE then scs1\<lparr>sc_shcsr_ns := sc_shcsr_ns scs OR 0x1\<rparr>
        else scs1\<lparr>sc_shcsr_s := sc_shcsr_s scs OR 0x1\<rparr>)"

definition scs_window :: "u32 \<Rightarrow> bool"
  where "scs_window addr =
    ((addr \<ge> 0xE000E000 \<and> addr < 0xE0010000) \<or>
     (addr \<ge> 0xE002E000 \<and> addr < 0xE0030000) \<or>
     (addr \<ge> 0x00E00000 \<and> addr < 0x00E10000))"

definition perm_needed :: "mm_access_type \<Rightarrow> u8"
  where "perm_needed type =
    (case type of MM_ACCESS_READ \<Rightarrow> 1 | MM_ACCESS_WRITE \<Rightarrow> 2 | MM_ACCESS_EXEC \<Rightarrow> 4)"

text \<open>The attribution step: the SAU/MPCBB attribute and the security of the address.\<close>

definition prot_attr :: "mm_prot_ctx \<Rightarrow> mm_scs \<Rightarrow> u32 \<Rightarrow> mm_sau_attr \<times> mm_sec_state"
  where "prot_attr ctx scs addr =
    (case mpcbb_attr_for_addr ctx addr of
       Some a \<Rightarrow> a
     | None \<Rightarrow> let attr = mm_sau_attr_for_addr scs addr
              in (attr, if attr = MM_SAU_NONSECURE then MM_NONSECURE else MM_SECURE))"

fun prot_scan :: "mm_prot_region list \<Rightarrow> bool \<Rightarrow> mm_sec_state \<Rightarrow> u8 \<Rightarrow> u32 \<Rightarrow> u32 \<Rightarrow> bool" where
  "prot_scan [] ignore_addr_sec addr_sec needed addr sz = False"
| "prot_scan (r # rs) ignore_addr_sec addr_sec needed addr sz =
    (if \<not> range_contains r addr sz then prot_scan rs ignore_addr_sec addr_sec needed addr sz
     else if \<not> ignore_addr_sec \<and> pr_sec r \<noteq> addr_sec
       then prot_scan rs ignore_addr_sec addr_sec needed addr sz
     else pr_perms r AND needed \<noteq> 0)"

definition mm_prot_interceptor ::
  "mm_prot_ctx \<Rightarrow> mm_access_type \<Rightarrow> mm_sec_state \<Rightarrow> u32 \<Rightarrow> u32 \<Rightarrow> mm_scs \<Rightarrow> bool \<times> mm_scs"
  where "mm_prot_interceptor ctx type sec addr size_bytes scs =
    (if scs_window addr then (True, scs\<lparr>sc_last_access_sec := sec\<rparr>)
     else
       let ignore_addr_sec = (sec = MM_SECURE \<and> type \<noteq> MM_ACCESS_EXEC);
           (attr, addr_sec) = prot_attr ctx scs addr
       in if sec = MM_NONSECURE \<and> attr = MM_SAU_SECURE then
            (False, record_memfault (record_securefault scs type addr) sec type addr)
          else if sec = MM_NONSECURE \<and> attr = MM_SAU_NSC \<and> type \<noteq> MM_ACCESS_EXEC then
            (False, record_memfault (record_securefault scs type addr) sec type addr)
          else if type = MM_ACCESS_EXEC \<and> mm_mpu_is_xn_exec scs sec addr then
            (False, record_memfault scs sec type addr)
          else if prot_scan (prot_regions ctx) ignore_addr_sec addr_sec (perm_needed type) addr size_bytes then
            (True, scs)
          else (False, record_memfault scs sec type addr))"

lemma prot_scan_region:
  "prot_scan rs ign asec needed addr sz \<Longrightarrow>
   \<exists>r \<in> set rs. range_contains r addr sz \<and> (ign \<or> pr_sec r = asec) \<and> pr_perms r AND needed \<noteq> 0"
  by (induction rs) (auto split: if_splits)

text \<open>The registers of a denial.\<close>

lemma record_memfault_regs:
  "sc_mmfar (record_memfault scs sec type addr) = addr"
  "bit (sc_cfsr (record_memfault scs sec type addr)) 7"
  "bit (sc_cfsr (record_memfault scs sec type addr)) (if type = MM_ACCESS_EXEC then 0 else 1)"
  by (auto simp: record_memfault_def Let_def bit_simps)

lemma record_securefault_regs:
  "sc_sau_sfar (record_securefault scs type addr) = addr"
  "sc_securefault_pending (record_securefault scs type addr)"
  "bit (sc_sau_sfsr (record_securefault scs type addr)) 6"
  "bit (sc_sau_sfsr (record_securefault scs type addr)) (if type = MM_ACCESS_EXEC then 0 else 3)"
  by (auto simp: record_securefault_def Let_def bit_simps)

lemma record_memfault_keeps:
  "sc_sau_sfar (record_memfault scs sec type addr) = sc_sau_sfar scs"
  "sc_sau_sfsr (record_memfault scs sec type addr) = sc_sau_sfsr scs"
  "sc_securefault_pending (record_memfault scs sec type addr) = sc_securefault_pending scs"
  by (simp_all add: record_memfault_def Let_def)

subsection \<open>Properties\<close>

text \<open>C2: TrustZone isolation of data and code.  A Non-secure access outside the System
  Control Space is only granted at an address whose attribute is not Secure; a
  Non-secure-callable address is granted for instruction fetch only; and some
  configured range of the address's own security holds the whole access and has the
  permission for it.\<close>

theorem nonsecure_access_isolated:
  assumes "fst (mm_prot_interceptor ctx type MM_NONSECURE addr sz scs)" "\<not> scs_window addr"
  shows "fst (prot_attr ctx scs addr) \<noteq> MM_SAU_SECURE \<and>
    \<not> (fst (prot_attr ctx scs addr) = MM_SAU_NSC \<and> type \<noteq> MM_ACCESS_EXEC) \<and>
    (\<exists>r. r \<in> set (prot_regions ctx) \<and> range_contains r addr sz \<and>
       pr_sec r = snd (prot_attr ctx scs addr) \<and> pr_perms r AND perm_needed type \<noteq> 0)"
proof -
  obtain attr asec where a: "prot_attr ctx scs addr = (attr, asec)" by (cases "prot_attr ctx scs addr") auto
  from assms a have g: "attr \<noteq> MM_SAU_SECURE" "\<not> (attr = MM_SAU_NSC \<and> type \<noteq> MM_ACCESS_EXEC)"
    "prot_scan (prot_regions ctx) False asec (perm_needed type) addr sz"
    by (auto simp: mm_prot_interceptor_def split: if_splits)
  from prot_scan_region [OF g(3)] g(1,2) a show ?thesis by auto
qed

text \<open>C39: a denied access always leaves its cause.  The MemManage status says whether the
  fetch or the data access was refused and holds the address; when a Non-secure
  access was refused because of its security attribute, the SecureFault status and
  address are written and the SecureFault is pending as well.\<close>

theorem denial_is_recorded:
  assumes "mm_prot_interceptor ctx type sec addr sz scs = (False, scs')"
  shows "sc_mmfar scs' = addr \<and> bit (sc_cfsr scs') 7 \<and>
    bit (sc_cfsr scs') (if type = MM_ACCESS_EXEC then 0 else 1) \<and>
    (sec = MM_NONSECURE \<and> (fst (prot_attr ctx scs addr) = MM_SAU_SECURE \<or>
       fst (prot_attr ctx scs addr) = MM_SAU_NSC \<and> type \<noteq> MM_ACCESS_EXEC) \<longrightarrow>
     sc_securefault_pending scs' \<and> sc_sau_sfar scs' = addr \<and> bit (sc_sau_sfsr scs') 6 \<and>
     bit (sc_sau_sfsr scs') (if type = MM_ACCESS_EXEC then 0 else 3))"
proof -
  obtain attr asec where a: "prot_attr ctx scs addr = (attr, asec)" by (cases "prot_attr ctx scs addr") auto
  have "\<exists>s. scs' = record_memfault s sec type addr \<and>
      (sec = MM_NONSECURE \<and> (attr = MM_SAU_SECURE \<or> attr = MM_SAU_NSC \<and> type \<noteq> MM_ACCESS_EXEC) \<longrightarrow>
       s = record_securefault scs type addr)"
    using assms a by (auto simp: mm_prot_interceptor_def split: if_splits)
  then obtain s where s: "scs' = record_memfault s sec type addr"
    "sec = MM_NONSECURE \<and> (attr = MM_SAU_SECURE \<or> attr = MM_SAU_NSC \<and> type \<noteq> MM_ACCESS_EXEC) \<Longrightarrow>
       s = record_securefault scs type addr" by blast
  have regs: "sc_mmfar scs' = addr" "bit (sc_cfsr scs') 7"
    "bit (sc_cfsr scs') (if type = MM_ACCESS_EXEC then 0 else 1)"
    unfolding s(1) by (rule record_memfault_regs)+
  have "sc_securefault_pending scs' \<and> sc_sau_sfar scs' = addr \<and> bit (sc_sau_sfsr scs') 6 \<and>
      bit (sc_sau_sfsr scs') (if type = MM_ACCESS_EXEC then 0 else 3)"
    if "sec = MM_NONSECURE \<and> (attr = MM_SAU_SECURE \<or> attr = MM_SAU_NSC \<and> type \<noteq> MM_ACCESS_EXEC)"
    unfolding s(1) s(2) [OF that] record_memfault_keeps
    by (intro conjI record_securefault_regs)
  with regs show ?thesis unfolding a fst_conv by blast
qed

text \<open>A concrete system: one Non-secure SAU region of 32 bytes at 0x20000000, and a range
  table that permits Non-secure data in the 256 bytes from there.\<close>

definition demo_scs :: mm_scs
  where "demo_scs = scs_zero\<lparr>sc_sau_ctrl := 1, sc_sau_rbar := (\<lambda>_. 0)(0 := 0x20000000),
    sc_sau_rlar := (\<lambda>_. 0)(0 := 0x20000001)\<rparr>"

definition demo_prot :: mm_prot_ctx
  where "demo_prot = snd (mm_prot_add_region (mm_prot_init demo_cfg) 0x20000000 0x100 3 MM_NONSECURE)"

lemma demo_prot_simps:
  "prot_regions demo_prot = [\<lparr>pr_base = 0x20000000, pr_size = 0x100, pr_perms = 3, pr_sec = MM_NONSECURE\<rparr>]"
  "prot_attr demo_prot scs addr = (mm_sau_attr_for_addr scs addr,
     if mm_sau_attr_for_addr scs addr = MM_SAU_NONSECURE then MM_NONSECURE else MM_SECURE)"
  by (simp_all add: demo_prot_def mm_prot_add_region_def mm_prot_init_def prot_attr_def
      mpcbb_attr_for_addr_def demo_cfg_def)

lemma demo_scs_attr:
  "mm_sau_attr_for_addr demo_scs addr = (if 0x20000000 \<le> addr \<and> addr \<le> 0x2000001F then MM_SAU_NONSECURE else MM_SAU_SECURE)"
  by (auto simp: demo_scs_def mm_sau_attr_for_addr_def scs_zero_def sau_region_matches_def
      eval_nat_numeral not_less)

theorem nonsecure_access_isolated_witness:
  "fst (mm_prot_interceptor demo_prot MM_ACCESS_READ MM_NONSECURE 0x20000004 4 demo_scs) \<and>
   fst (prot_attr demo_prot demo_scs 0x20000004) \<noteq> MM_SAU_SECURE"
proof -
  have g: "fst (mm_prot_interceptor demo_prot MM_ACCESS_READ MM_NONSECURE 0x20000004 4 demo_scs)"
    "\<not> scs_window 0x20000004"
    by (simp_all add: mm_prot_interceptor_def scs_window_def demo_prot_simps demo_scs_attr
        range_contains_def perm_needed_def)
  from nonsecure_access_isolated [OF g] g(1) show ?thesis by simp
qed

theorem denial_is_recorded_witness:
  "sc_securefault_pending (snd (mm_prot_interceptor demo_prot MM_ACCESS_WRITE MM_NONSECURE 0x20000040 4 demo_scs)) \<and>
   sc_mmfar (snd (mm_prot_interceptor demo_prot MM_ACCESS_WRITE MM_NONSECURE 0x20000040 4 demo_scs)) = 0x20000040"
proof -
  have "fst (mm_prot_interceptor demo_prot MM_ACCESS_WRITE MM_NONSECURE 0x20000040 4 demo_scs) = False"
    by (simp add: mm_prot_interceptor_def scs_window_def demo_prot_simps demo_scs_attr)
  then have "mm_prot_interceptor demo_prot MM_ACCESS_WRITE MM_NONSECURE 0x20000040 4 demo_scs =
      (False, snd (mm_prot_interceptor demo_prot MM_ACCESS_WRITE MM_NONSECURE 0x20000040 4 demo_scs))"
    by (metis prod.collapse)
  from denial_is_recorded [OF this] show ?thesis by (simp add: demo_prot_simps demo_scs_attr)
qed

text \<open>Attribution looks at the first byte of an access only.  A Non-secure word load
  that starts two bytes before the end of the Non-secure SAU region is granted,
  although its last two bytes are Secure.\<close>

theorem nonsecure_straddle_granted:
  "fst (mm_prot_interceptor demo_prot MM_ACCESS_READ MM_NONSECURE 0x2000001E 4 demo_scs) \<and>
   fst (prot_attr demo_prot demo_scs (0x2000001E + 3)) = MM_SAU_SECURE"
  by (simp add: mm_prot_interceptor_def scs_window_def demo_prot_simps demo_scs_attr
      range_contains_def perm_needed_def)

end
