(* ===== verification/It_State.thy ===== *)
theory It_State
imports Prelude
begin

text \<open>
  The IT-block state of \<^verbatim>\<open>src/execute.c\<close>.  The emulator keeps it twice: as the ITSTATE
  bits of the xPSR, and as a triple of local variables of the run loop, a pattern of
  then/else bits, a count and the base condition.  The conditions of the instructions
  that remain in the block are the abstraction that both have to agree on.
\<close>

text \<open>The first loop: \<^verbatim>\<open>4 - i\<close> for the lowest bit \<^verbatim>\<open>i\<close> of the mask, 0 when there is none.\<close>

definition it_count :: "u8 \<Rightarrow> u8"
  where "it_count msk =
    (case find (\<lambda>i. msk AND push_bit i 1 \<noteq> 0) [0..<4] of None \<Rightarrow> 0 | Some i \<Rightarrow> of_nat (4 - i))"

definition it_mask_to_pattern :: "u8 \<Rightarrow> u8 \<Rightarrow> u8 \<times> u8"
  where "it_mask_to_pattern cond msk =
    (if msk = 0 then (0, 0)
     else
       (let remaining = it_count msk in
        if remaining = 0 then (0, 0)
        else
          (let pattern = foldl (\<lambda>pattern i.
                 let b = drop_bit (4 - i) msk AND 1;
                     pat_bit = (if b \<noteq> 0 then 0 else 1)
                 in pattern OR push_bit i pat_bit) 1 [1..<unat remaining];
               flip = (push_bit (unat remaining) 1 - 1) AND 0x0e
           in (if cond AND 1 \<noteq> 0 \<and> remaining > 1 then pattern XOR flip else pattern, remaining))))"

definition itstate_get :: "u32 \<Rightarrow> u8"
  where "itstate_get x =
    (let hi6 = to_u8 (drop_bit 10 x AND 0x3f); lo2 = to_u8 (drop_bit 25 x AND 0x3)
     in push_bit 2 hi6 OR lo2)"

definition itstate_set :: "u32 \<Rightarrow> u8 \<Rightarrow> u32"
  where "itstate_set x itstate =
    (let v = x AND NOT (push_bit 25 0x3 OR push_bit 10 0x3f);
         v = v OR push_bit 25 (to_u32 (itstate AND 0x3))
     in v OR push_bit 10 (to_u32 (drop_bit 2 itstate AND 0x3f)))"

definition itstate_advance :: "u8 \<Rightarrow> u8"
  where "itstate_advance itstate =
    (if itstate AND 0x0f = 0 then 0
     else
       (let nxt = (itstate AND 0xE0) OR push_bit 1 (itstate AND 0x1F)
        in if nxt AND 0x0f = 0 then 0 else nxt))"

text \<open>The result is the triple (pattern, remaining, cond).\<close>

definition itstate_sync_from_xpsr :: "u32 \<Rightarrow> u8 \<times> u8 \<times> u8"
  where "itstate_sync_from_xpsr x =
    (let raw = itstate_get x; msk = raw AND 0x0f; cond = drop_bit 4 raw;
         (pattern, remaining) = it_mask_to_pattern cond msk
     in (pattern, remaining, cond))"

subsection \<open>Encoding in the xPSR\<close>

text \<open>The ITSTATE byte is stored in the xPSR without loss, and storing it leaves the
  other bits of the xPSR alone.\<close>

theorem itstate_roundtrip:
  "itstate_get (itstate_set x s) = s \<and> itstate_set x (itstate_get x) = x \<and>
   itstate_set x s AND NOT 0x0600FC00 = x AND NOT 0x0600FC00"
proof (intro conjI)
  show "itstate_get (itstate_set x s) = s"
    by (rule u8_eq_bits) (simp add: itstate_get_def itstate_set_def Let_def bit_simps casts upt_rec)
  show "itstate_set x (itstate_get x) = x"
    by (rule u32_eq_bits)
      (simp add: itstate_get_def itstate_set_def Let_def bit_simps casts upt_rec, simp add: eval_nat_numeral)
  show "itstate_set x s AND NOT 0x0600FC00 = x AND NOT 0x0600FC00"
    by (rule u32_eq_bits) (simp add: itstate_set_def Let_def bit_simps casts upt_rec)
qed

subsection \<open>The remaining conditions\<close>

text \<open>
  The architecture's reading of ITSTATE: the condition of the current instruction is in
  the upper four bits, and ITAdvance shifts the lower five bits left in place until only
  the marker bit of the mask is left.
\<close>

definition it_arch_advance :: "u8 \<Rightarrow> u8"
  where "it_arch_advance s = (if s AND 0x7 = 0 then 0 else (s AND 0xE0) OR (push_bit 1 s AND 0x1F))"

fun it_conds :: "nat \<Rightarrow> u8 \<Rightarrow> u8 list" where
  "it_conds 0 s = []"
| "it_conds (Suc n) s = (if s AND 0x0f = 0 then [] else drop_bit 4 s # it_conds n (it_arch_advance s))"

text \<open>The run loop's reading: bit 0 of the pattern selects the condition or its inverse.\<close>

definition it_local :: "u8 \<times> u8 \<times> u8 \<Rightarrow> u8 list"
  where "it_local t = (case t of (pattern, remaining, cond) \<Rightarrow>
     map (\<lambda>i. if drop_bit i pattern AND 1 \<noteq> 0 then cond else cond XOR 1) [0..<unat remaining])"

lemma it_mask_conds:
  "\<forall>s. it_local (case it_mask_to_pattern (drop_bit 4 s) (s AND 0x0f) of (p, r) \<Rightarrow> (p, r, drop_bit 4 s)) = it_conds 4 s"
  unfolding u8_all by code_simp

text \<open>The run loop's triple stands for the conditions that the architecture gives to the
  instructions left in the IT block, at most four, for every value of the xPSR.\<close>

theorem it_sync_correct:
  "it_local (itstate_sync_from_xpsr x) = it_conds 4 (itstate_get x) \<and> length (it_conds 4 (itstate_get x)) \<le> 4"
proof -
  have "it_local (itstate_sync_from_xpsr x) = it_conds 4 (itstate_get x)"
    using it_mask_conds by (simp add: itstate_sync_from_xpsr_def Let_def case_prod_beta)
  moreover have "length (it_conds n s) \<le> n" for n s by (induction n s rule: it_conds.induct) simp_all
  ultimately show ?thesis by simp
qed

text \<open>ITSTATE does not advance as the architecture says exactly from the states, inside
  a block, whose condition has its low bit set and the next bit clear.  From these the
  low condition bit is shifted into the next one: after one instruction of an ITT NE
  block the stored condition is CC.\<close>

theorem itstate_advance_wrong:
  "(\<forall>s. itstate_advance s \<noteq> it_arch_advance s \<longleftrightarrow> s AND 0x7 \<noteq> 0 \<and> s AND 0x10 \<noteq> 0 \<and> s AND 0x20 = 0) \<and>
   it_conds 4 0x14 = [1, 0] \<and> it_conds 4 0x1C = [1, 1] \<and>
   it_conds 4 (it_arch_advance 0x1C) = [1] \<and> it_conds 4 (itstate_advance 0x1C) = [3]"
  unfolding u8_all by code_simp

end
