(* ===== verification/Exceptions.thy ===== *)
theory Exceptions
imports Scs Stack_Memory Mem_Prot Exec_Helpers It_State
begin

text \<open>
  Vector reads, exception entry and exception return: \<^verbatim>\<open>src/vector.c\<close>,
  \<^verbatim>\<open>src/exc_return.c\<close>, \<^verbatim>\<open>src/m33mu/exception.c\<close> and the exception functions of
  \<^verbatim>\<open>src/main.c\<close>.  The functions work on the processor, the memory map and the SCS that
  the map's device world holds, so a register that the firmware writes over the bus is
  the one that exception entry reads; the reads done only to print a diagnostic stay in
  the model because they pass the access interceptor.  The record \<^verbatim>\<open>mach\<close> adds the
  run loop's variables: the IT triple, \<^verbatim>\<open>done\<close>, the two fault globals, the debugger
  option and the stop signals sent to the debugger.
\<close>

type_synonym 'x xmap = "'x scs_dev_scheme mm_memmap"

abbreviation map_scs :: "'x xmap \<Rightarrow> mm_scs"
  where "map_scs m \<equiv> sd_scs (mm_env m)"

definition upd_scs :: "(mm_scs \<Rightarrow> mm_scs) \<Rightarrow> 'x xmap \<Rightarrow> 'x xmap"
  where "upd_scs f m = m\<lparr>mm_env := (mm_env m)\<lparr>sd_scs := f (sd_scs (mm_env m))\<rparr>\<rparr>"

record 'x mach =
  mc_cpu :: mm_cpu
  mc_map :: "'x xmap"
  it_pattern :: u8
  it_remaining :: u8
  it_cond :: u8
  mc_done :: bool
  mc_quit_on_faults :: bool
  mc_fault_pending :: bool
  mc_opt_gdb :: bool
  mc_gdb_stops :: "nat list"
  mc_cycles_since_poll :: u64

subsection \<open>Vectors\<close>

definition MM_VECT_RESET :: u32 where "MM_VECT_RESET = 1"
definition MM_VECT_HARDFAULT :: u32 where "MM_VECT_HARDFAULT = 3"
definition MM_VECT_MEMMANAGE :: u32 where "MM_VECT_MEMMANAGE = 4"
definition MM_VECT_USAGEFAULT :: u32 where "MM_VECT_USAGEFAULT = 6"
definition MM_VECT_SECUREFAULT :: u32 where "MM_VECT_SECUREFAULT = 7"
definition MM_VECT_SVCALL :: u32 where "MM_VECT_SVCALL = 11"
definition MM_VECT_PENDSV :: u32 where "MM_VECT_PENDSV = 14"
definition MM_VECT_SYSTICK :: u32 where "MM_VECT_SYSTICK = 15"

lemmas vect_defs = MM_VECT_RESET_def MM_VECT_HARDFAULT_def MM_VECT_MEMMANAGE_def
  MM_VECT_USAGEFAULT_def MM_VECT_SECUREFAULT_def MM_VECT_SVCALL_def MM_VECT_PENDSV_def
  MM_VECT_SYSTICK_def

definition mm_vector_read :: "'e mm_memmap \<Rightarrow> mm_sec_state \<Rightarrow> u32 \<Rightarrow> u32 \<Rightarrow> u32 option \<times> 'e mm_memmap"
  where "mm_vector_read m sec vtor index = mm_memmap_read m sec (vtor + index * 4) 4"

definition mm_vector_apply_reset :: "mm_cpu \<Rightarrow> 'e mm_memmap \<Rightarrow> mm_sec_state \<Rightarrow> bool \<times> mm_cpu \<times> 'e mm_memmap"
  where "mm_vector_apply_reset c m sec =
    (let vtor = (if sec = MM_NONSECURE then vtor_ns c else vtor_s c);
         (initial_sp, m1) = mm_vector_read m sec vtor 0 in
     case initial_sp of
       None \<Rightarrow> (False, c, m1)
     | Some sp \<Rightarrow>
       (let (reset_pc, m2) = mm_vector_read m1 sec vtor MM_VECT_RESET in
        case reset_pc of
          None \<Rightarrow> (False, c, m2)
        | Some pc \<Rightarrow>
          (let c = c\<lparr>xpsr := 0x01000000\<rparr>;
               c = mm_cpu_set_active_sp c sp;
               c = set_r 15 (pc OR 1) c;
               c = c\<lparr>sec_state := sec, cpu_mode := MM_THREAD\<rparr>
           in (True, mm_cpu_set_privileged c False, m2))))"

text \<open>The flash fall-back reads the buffer directly, as a little-endian word.\<close>

definition flash_word :: "'e mm_memmap \<Rightarrow> u32 \<Rightarrow> u32 \<Rightarrow> (u32 \<times> bool) option"
  where "flash_word m vtor index =
    (case m_buffer (mm_flash m) of
       None \<Rightarrow> None
     | Some b \<Rightarrow>
       if vtor \<ge> m_base (mm_flash m) \<and>
          unat ((vtor - m_base (mm_flash m)) + (index + 1) * 4) \<le> m_length (mm_flash m)
       then read_buf_le (Some b) ((vtor - m_base (mm_flash m)) + index * 4) 4
       else None)"

definition mm_exception_read_handler :: "'x xmap \<Rightarrow> mm_sec_state \<Rightarrow> u32 \<Rightarrow> u32 option \<times> 'x xmap"
  where "mm_exception_read_handler m sec index =
    (let vtor = (if sec = MM_NONSECURE then sc_vtor_ns (map_scs m) else sc_vtor_s (map_scs m));
         (h, m1) = mm_vector_read m sec vtor index
     in case h of
          Some v \<Rightarrow> (Some v, m1)
        | None \<Rightarrow> (case flash_word m1 vtor index of
            Some (v, bad) \<Rightarrow> (Some v, note_oob bad m1) | None \<Rightarrow> (None, m1)))"

subsection \<open>EXC\_RETURN values\<close>

record mm_exc_return_info =
  er_valid :: bool
  er_use_psp :: bool
  er_basic_frame :: bool
  er_to_thread :: bool
  er_target_sec :: mm_sec_state

definition is_exc_return :: "u32 \<Rightarrow> bool"
  where "is_exc_return v = (v AND 0xffffff00 = 0xffffff00)"

definition mm_exc_return_decode :: "u32 \<Rightarrow> mm_exc_return_info"
  where "mm_exc_return_decode v =
    (if \<not> is_exc_return v then
       \<lparr>er_valid = False, er_use_psp = False, er_basic_frame = True, er_to_thread = True,
        er_target_sec = MM_SECURE\<rparr>
     else
       \<lparr>er_valid = True, er_use_psp = (v AND push_bit 2 1 \<noteq> 0),
        er_basic_frame = (v AND push_bit 4 1 \<noteq> 0), er_to_thread = (v AND push_bit 3 1 \<noteq> 0),
        er_target_sec = (if v AND push_bit 6 1 \<noteq> 0 then MM_SECURE else MM_NONSECURE)\<rparr>)"

definition exc_return_encode :: "mm_sec_state \<Rightarrow> bool \<Rightarrow> bool \<Rightarrow> u32"
  where "exc_return_encode sec psp to_thread =
    (let b = (if to_thread then (if sec = MM_NONSECURE then 0xFFFFFFB9 else 0xFFFFFFF9)
              else (if sec = MM_NONSECURE then 0xFFFFFFB1 else 0xFFFFFFF1))
     in if to_thread \<and> psp then b OR 0x4 else b)"

subsection \<open>Stacking\<close>

definition exc_frame :: "mm_cpu \<Rightarrow> u32 \<Rightarrow> u32 \<Rightarrow> u32 list"
  where "exc_frame c pc xpsr_in =
    [cpu_r c 0, cpu_r c 1, cpu_r c 2, cpu_r c 3, cpu_r c 12, cpu_r c 14, pc OR 1, xpsr_in OR 0x01000000]"

definition use_psp_entry :: "mm_cpu \<Rightarrow> bool"
  where "use_psp_entry c = (cpu_mode c = MM_THREAD \<and>
     (if sec_state c = MM_NONSECURE then control_ns c else control_s c) AND 0x2 \<noteq> 0)"

definition bank_sp :: "mm_sec_state \<Rightarrow> bool \<Rightarrow> mm_cpu \<Rightarrow> u32"
  where "bank_sp sec psp c =
    (if psp then (if sec = MM_NONSECURE then psp_ns c else psp_s c)
     else (if sec = MM_NONSECURE then msp_ns c else msp_s c))"

definition set_bank_sp :: "mm_sec_state \<Rightarrow> bool \<Rightarrow> u32 \<Rightarrow> mm_cpu \<Rightarrow> mm_cpu"
  where "set_bank_sp sec psp v c =
    (if psp then (if sec = MM_NONSECURE then c\<lparr>psp_ns := v\<rparr> else c\<lparr>psp_s := v\<rparr>)
     else (if sec = MM_NONSECURE then c\<lparr>msp_ns := v\<rparr> else c\<lparr>msp_s := v\<rparr>))"

text \<open>The bookkeeping after stacking: the stack pointer bank and the nesting record.\<close>

definition commit_frame :: "mm_sec_state \<Rightarrow> bool \<Rightarrow> u32 \<Rightarrow> mm_cpu \<Rightarrow> mm_cpu"
  where "commit_frame sec psp sp c =
    (let c = set_bank_sp sec psp sp c in
     if exc_depth c < MM_EXC_STACK_MAX then
       c\<lparr>exc_sp := (exc_sp c)(exc_depth c := sp),
         exc_use_psp := (exc_use_psp c)(exc_depth c := psp),
         exc_sec := (exc_sec c)(exc_depth c := sec),
         exc_depth := Suc (exc_depth c)\<rparr>
     else c)"

subsection \<open>Exception return\<close>

text \<open>The choice of the stack pointer, which also pops the nesting record.\<close>

definition unstack_sp :: "mm_cpu \<Rightarrow> mm_exc_return_info \<Rightarrow> u32 \<times> mm_cpu"
  where "unstack_sp c info =
    (if exc_depth c > 0 then
       (let c = c\<lparr>exc_depth := exc_depth c - 1\<rparr> in
        (if exc_sec c (exc_depth c) \<noteq> er_target_sec info
         then bank_sp (er_target_sec info) (er_use_psp info) c else exc_sp c (exc_depth c), c))
     else (bank_sp (er_target_sec info) (er_use_psp info) c, c))"

definition restore_frame :: "mm_exc_return_info \<Rightarrow> u32 \<Rightarrow> u32 list \<Rightarrow> mm_cpu \<Rightarrow> mm_cpu"
  where "restore_frame info sp frame c =
    (let c = set_r 0 (frame ! 0) c; c = set_r 1 (frame ! 1) c; c = set_r 2 (frame ! 2) c;
         c = set_r 3 (frame ! 3) c; c = set_r 12 (frame ! 4) c; c = set_r 14 (frame ! 5) c;
         c = set_r 15 (frame ! 6 OR 1) c;
         c = c\<lparr>xpsr := (if er_to_thread info then frame ! 7 AND NOT 0x1FF else frame ! 7)\<rparr>;
         c = set_bank_sp (er_target_sec info) (er_use_psp info) (sp + 32) c;
         c = set_r 13 (bank_sp (er_target_sec info) (er_use_psp info) c) c
     in c\<lparr>sec_state := er_target_sec info,
          cpu_mode := (if er_to_thread info then MM_THREAD else MM_HANDLER)\<rparr>)"

definition exc_return_unstack :: "'x mach \<Rightarrow> u32 \<Rightarrow> bool \<times> 'x mach"
  where "exc_return_unstack s exc_ret =
    (let info = mm_exc_return_decode exc_ret in
     if \<not> er_valid info then (False, s)
     else
       (let (sp, c) = unstack_sp (mc_cpu s) info;
            (frame, m) = pop_words (rd32 (er_target_sec info)) (mc_map s) sp 8
        in case frame of
             None \<Rightarrow> (False, s\<lparr>mc_cpu := c, mc_map := m\<rparr>)
           | Some fr \<Rightarrow> (True, s\<lparr>mc_cpu := restore_frame info sp fr c, mc_map := m\<rparr>)))"

definition it_sync :: "'x mach \<Rightarrow> 'x mach"
  where "it_sync s =
    (let (p, r, c) = itstate_sync_from_xpsr (xpsr (mc_cpu s))
     in s\<lparr>it_pattern := p, it_remaining := r, it_cond := c\<rparr>)"

definition handle_pc_write :: "'x mach \<Rightarrow> u32 \<Rightarrow> bool \<times> 'x mach"
  where "handle_pc_write s v =
    (if is_exc_return v then
       (let (ok, s') = exc_return_unstack s v in if ok then (True, it_sync s') else (False, s'))
     else (True, s\<lparr>mc_cpu := set_r 15 (v OR 1) (mc_cpu s)\<rparr>))"

subsection \<open>Exception entry\<close>

definition scs_shcsr_or :: "mm_sec_state \<Rightarrow> u32 \<Rightarrow> mm_scs \<Rightarrow> mm_scs"
  where "scs_shcsr_or sec b scs =
    (if sec = MM_NONSECURE then scs\<lparr>sc_shcsr_ns := sc_shcsr_ns scs OR b\<rparr>
     else scs\<lparr>sc_shcsr_s := sc_shcsr_s scs OR b\<rparr>)"

text \<open>Stacking and bookkeeping, shared by the three entry functions; \<^verbatim>\<open>fin\<close> sets the registers
  of the handler.\<close>

definition stack_and_enter ::
  "mm_cpu \<Rightarrow> u32 \<Rightarrow> u32 \<Rightarrow> (u32 \<Rightarrow> mm_cpu \<Rightarrow> mm_cpu) \<Rightarrow> 'x mach \<Rightarrow> bool \<times> 'x mach"
  where "stack_and_enter c pc xpsr_in fin s =
    (let sec = sec_state c; psp = use_psp_entry c;
         exc_ret_val = exc_return_encode sec psp (cpu_mode c = MM_THREAD);
         (sp, m) = push_words (wr32 sec) (mc_map s) (bank_sp sec psp c) (rev (exc_frame c pc xpsr_in))
     in case sp of
          None \<Rightarrow> (False, s\<lparr>mc_map := m\<rparr>)
        | Some v \<Rightarrow> (True, s\<lparr>mc_map := m, mc_cpu := fin exc_ret_val (commit_frame sec psp v c)\<rparr>))"

text \<open>The handler address and the SCS updates that come before stacking.\<close>

definition exc_prepare :: "'x xmap \<Rightarrow> mm_sec_state \<Rightarrow> u32 \<Rightarrow> mm_sec_state \<Rightarrow> u32 \<times> 'x xmap"
  where "exc_prepare m sec exc_num handler_sec =
    (let (h, m1) =
           (if exc_num \<ge> 16 then
              (let vtor = (if handler_sec = MM_NONSECURE then sc_vtor_ns (map_scs m) else sc_vtor_s (map_scs m))
               in mm_vector_read m handler_sec vtor exc_num)
            else mm_exception_read_handler m handler_sec exc_num);
         m2 =
           (if exc_num = MM_VECT_SVCALL then upd_scs (scs_shcsr_or sec (push_bit 7 1)) m1
            else if exc_num = MM_VECT_PENDSV then
              upd_scs (\<lambda>scs. scs_shcsr_or sec (push_bit 10 1) (scs\<lparr>sc_pend_sv := False\<rparr>)) m1
            else if exc_num = MM_VECT_SYSTICK then
              upd_scs (\<lambda>scs. scs_shcsr_or sec (push_bit 11 1) (scs\<lparr>sc_pend_st := False\<rparr>)) m1
            else m1)
     in (case h of Some v \<Rightarrow> v | None \<Rightarrow> 0, m2))"

definition enter_exception_ex ::
  "'x mach \<Rightarrow> u32 \<Rightarrow> u32 \<Rightarrow> u32 \<Rightarrow> mm_sec_state \<Rightarrow> bool \<times> 'x mach"
  where "enter_exception_ex s exc_num return_pc xpsr_in handler_sec =
    (let c = mc_cpu s;
         (handler, m) = exc_prepare (mc_map s) (sec_state c) exc_num handler_sec
     in stack_and_enter c return_pc xpsr_in (\<lambda>exc_ret_val c.
          let c = set_r 13 (if handler_sec = MM_NONSECURE then msp_ns c else msp_s c) c;
              c = c\<lparr>xpsr := (xpsr_in AND 0xF8000000) OR 0x01000000 OR (exc_num AND 0x1FF)\<rparr>;
              c = set_r 14 exc_ret_val c;
              c = c\<lparr>cpu_mode := MM_HANDLER, sec_state := handler_sec\<rparr>;
              c = set_r 15 (handler OR 1) c
          in c\<lparr>sleeping := False, event_reg := False\<rparr>) (s\<lparr>mc_map := m\<rparr>))"

definition enter_exception :: "'x mach \<Rightarrow> u32 \<Rightarrow> u32 \<Rightarrow> u32 \<Rightarrow> bool \<times> 'x mach"
  where "enter_exception s exc_num return_pc xpsr_in =
    enter_exception_ex s exc_num return_pc xpsr_in (sec_state (mc_cpu s))"

subsection \<open>Faults\<close>

text \<open>The registers of the HardFault and UsageFault handlers.\<close>

definition fault_regs :: "mm_sec_state \<Rightarrow> u32 \<Rightarrow> u32 \<Rightarrow> u32 \<Rightarrow> u32 \<Rightarrow> mm_cpu \<Rightarrow> mm_cpu"
  where "fault_regs sec fault_xpsr num handler exc_ret_val c =
    (let c = set_r 13 (if sec = MM_NONSECURE then msp_ns c else msp_s c) c;
         c = c\<lparr>xpsr := (fault_xpsr AND 0xF8000000) OR (0x01000000 OR num)\<rparr>;
         c = set_r 14 exc_ret_val c;
         c = c\<lparr>cpu_mode := MM_HANDLER\<rparr>
     in set_r 15 (handler OR 1) c)"

definition raise_hard_fault :: "'x mach \<Rightarrow> u32 \<Rightarrow> u32 \<Rightarrow> bool \<times> 'x mach"
  where "raise_hard_fault s fault_pc fault_xpsr =
    (let c = mc_cpu s; sec = sec_state c;
         m = upd_scs (\<lambda>scs. scs_shcsr_or sec (push_bit 1 1)
               (scs\<lparr>sc_hfsr := sc_hfsr scs OR push_bit 30 1\<rparr>)) (mc_map s);
         (h, m) = mm_exception_read_handler m sec MM_VECT_HARDFAULT;
         handler = (case h of Some v \<Rightarrow> v | None \<Rightarrow> 0);
         m = snd (mm_memmap_read m sec 0xE000ED28 4);
         m = snd (mm_memmap_read m sec 0xE000ED34 4);
         m = snd (mm_memmap_read m sec (fault_pc AND NOT 1) 2);
         m = snd (mm_memmap_read m sec (handler AND NOT 1) 2);
         s = s\<lparr>mc_map := m, mc_fault_pending := mc_fault_pending s \<or> mc_quit_on_faults s\<rparr>
     in stack_and_enter c fault_pc fault_xpsr (fault_regs sec fault_xpsr 3 handler) s)"

definition raise_mem_fault :: "'x mach \<Rightarrow> u32 \<Rightarrow> u32 \<Rightarrow> u32 \<Rightarrow> bool \<Rightarrow> bool \<times> 'x mach"
  where "raise_mem_fault s fault_pc fault_xpsr addr is_exec =
    (let sec = sec_state (mc_cpu s);
         s = s\<lparr>mc_fault_pending := mc_fault_pending s \<or> mc_quit_on_faults s\<rparr> in
     if sec = MM_SECURE \<and> sc_securefault_pending (map_scs (mc_map s)) then
       enter_exception_ex
         (s\<lparr>mc_map := upd_scs (\<lambda>scs. scs\<lparr>sc_securefault_pending := False\<rparr>) (mc_map s)\<rparr>)
         MM_VECT_SECUREFAULT fault_pc fault_xpsr MM_SECURE
     else
       (let b = (if is_exec then 0x1 else 0x2) OR push_bit 7 1;
            s = s\<lparr>mc_map := upd_scs (\<lambda>scs. scs_shcsr_or sec 0x1
                  (scs\<lparr>sc_cfsr := sc_cfsr scs OR b, sc_mmfar := addr\<rparr>)) (mc_map s)\<rparr>;
            shcsr = (if sec = MM_NONSECURE then sc_shcsr_ns (map_scs (mc_map s))
                     else sc_shcsr_s (map_scs (mc_map s)))
        in if shcsr AND push_bit 16 1 \<noteq> 0
           then enter_exception s MM_VECT_MEMMANAGE fault_pc fault_xpsr
           else raise_hard_fault s fault_pc fault_xpsr))"

definition raise_usage_fault :: "'x mach \<Rightarrow> u32 \<Rightarrow> u32 \<Rightarrow> u32 \<Rightarrow> bool \<times> 'x mach"
  where "raise_usage_fault s fault_pc fault_xpsr ufsr_bits0 =
    (let c = mc_cpu s; sec = sec_state c;
         ufsr_bits = (if ufsr_bits0 = 0 then push_bit 16 1 else ufsr_bits0);
         m = upd_scs (\<lambda>scs. scs_shcsr_or sec (push_bit 2 1)
               (scs\<lparr>sc_cfsr := sc_cfsr scs OR ufsr_bits\<rparr>)) (mc_map s);
         (h, m) = mm_exception_read_handler m sec MM_VECT_USAGEFAULT;
         handler = (case h of Some v \<Rightarrow> v | None \<Rightarrow> 0);
         m = snd (mm_memmap_read m sec 0xE000ED28 4);
         (hw, m) = mm_memmap_read m sec (fault_pc AND NOT 1) 2;
         m = (if hw \<noteq> None then snd (mm_memmap_read m sec (fault_pc AND NOT 3) 4) else m);
         s = s\<lparr>mc_map := m\<rparr>
     in if mc_quit_on_faults s then (False, s)
        else stack_and_enter c fault_pc fault_xpsr (fault_regs sec fault_xpsr 6 handler) s)"

subsection \<open>Properties\<close>

lemma decode_encode:
  "mm_exc_return_decode (exc_return_encode sec psp to_thread) =
    \<lparr>er_valid = True, er_use_psp = (to_thread \<and> psp), er_basic_frame = True,
     er_to_thread = to_thread, er_target_sec = sec\<rparr>"
  by (cases sec; cases psp; cases to_thread)
    (simp_all add: mm_exc_return_decode_def exc_return_encode_def is_exc_return_def)

text \<open>The EXC\_RETURN value built at exception entry decodes to the context it was built
  from: the security state, the mode, the basic frame, and the process stack exactly when
  Thread mode was using it.\<close>

theorem exc_return_decode_encode:
  "mm_exc_return_decode (exc_return_encode sec psp to_thread) =
    \<lparr>er_valid = True, er_use_psp = (to_thread \<and> psp), er_basic_frame = True,
     er_to_thread = to_thread, er_target_sec = sec\<rparr>"
  by (rule decode_encode)

lemma stack_and_enter_fail: "fst (stack_and_enter c pc x fin s) \<or> mc_cpu (snd (stack_and_enter c pc x fin s)) = mc_cpu s"
  by (simp add: stack_and_enter_def Let_def split: prod.split option.split)

lemma enter_fail: "fst (enter_exception_ex s n pc x hs) \<or> mc_cpu (snd (enter_exception_ex s n pc x hs)) = mc_cpu s"
  using stack_and_enter_fail
  by (fastforce simp: enter_exception_ex_def Let_def split: prod.split)

lemma hard_fault_fail: "fst (raise_hard_fault s pc x) \<or> mc_cpu (snd (raise_hard_fault s pc x)) = mc_cpu s"
  using stack_and_enter_fail
  by (fastforce simp: raise_hard_fault_def Let_def split: prod.split)

lemma usage_fault_fail: "fst (raise_usage_fault s pc x b) \<or> mc_cpu (snd (raise_usage_fault s pc x b)) = mc_cpu s"
  using stack_and_enter_fail
  by (fastforce simp: raise_usage_fault_def Let_def split: prod.split)

lemma mem_fault_fail: "fst (raise_mem_fault s pc x a e) \<or> mc_cpu (snd (raise_mem_fault s pc x a e)) = mc_cpu s"
  using enter_fail hard_fault_fail
  by (fastforce simp: raise_mem_fault_def enter_exception_def Let_def)

text \<open>Exception entry is all or nothing for the processor: when entry, a UsageFault, a
  MemManage fault or a HardFault reports failure, no register, mode, stack pointer or
  nesting record of the processor has changed.\<close>

theorem failed_entry_keeps_cpu:
  "(fst (enter_exception_ex s n pc x hs) \<or> mc_cpu (snd (enter_exception_ex s n pc x hs)) = mc_cpu s) \<and>
   (fst (raise_usage_fault s pc x b) \<or> mc_cpu (snd (raise_usage_fault s pc x b)) = mc_cpu s) \<and>
   (fst (raise_mem_fault s pc x a e) \<or> mc_cpu (snd (raise_mem_fault s pc x a e)) = mc_cpu s) \<and>
   (fst (raise_hard_fault s pc x) \<or> mc_cpu (snd (raise_hard_fault s pc x)) = mc_cpu s)"
  by (intro conjI enter_fail usage_fault_fail mem_fault_fail hard_fault_fail)

lemma set_bank_sp_simps [simp]:
  "cpu_r (set_bank_sp sec psp v c) = cpu_r c"
  "xpsr (set_bank_sp sec psp v c) = xpsr c"
  "sec_state (set_bank_sp sec psp v c) = sec_state c"
  "cpu_mode (set_bank_sp sec psp v c) = cpu_mode c"
  "exc_depth (set_bank_sp sec psp v c) = exc_depth c"
  "exc_sp (set_bank_sp sec psp v c) = exc_sp c"
  "exc_sec (set_bank_sp sec psp v c) = exc_sec c"
  "bank_sp sec' psp' (set_bank_sp sec psp v c) = (if sec' = sec \<and> psp' = psp then v else bank_sp sec' psp' c)"
  by (cases sec; cases sec'; simp add: set_bank_sp_def bank_sp_def)+

lemma bank_sp_upd [simp]:
  "bank_sp sec psp (c\<lparr>cpu_r := r\<rparr>) = bank_sp sec psp c"
  "bank_sp sec psp (c\<lparr>xpsr := x\<rparr>) = bank_sp sec psp c"
  "bank_sp sec psp (c\<lparr>sec_state := s\<rparr>) = bank_sp sec psp c"
  "bank_sp sec psp (c\<lparr>cpu_mode := m\<rparr>) = bank_sp sec psp c"
  "bank_sp sec psp (c\<lparr>sleeping := b\<rparr>) = bank_sp sec psp c"
  "bank_sp sec psp (c\<lparr>event_reg := b\<rparr>) = bank_sp sec psp c"
  "bank_sp sec psp (c\<lparr>exc_sp := es\<rparr>) = bank_sp sec psp c"
  "bank_sp sec psp (c\<lparr>exc_use_psp := eu\<rparr>) = bank_sp sec psp c"
  "bank_sp sec psp (c\<lparr>exc_sec := ec\<rparr>) = bank_sp sec psp c"
  "bank_sp sec psp (c\<lparr>exc_depth := d\<rparr>) = bank_sp sec psp c"
  by (simp_all add: bank_sp_def)

lemma msp_bank: "(if sec = MM_NONSECURE then msp_ns c else msp_s c) = bank_sp sec False c"
  by (simp add: bank_sp_def)

text \<open>The registers and banks after entry.\<close>

definition entered :: "u32 \<Rightarrow> u32 \<Rightarrow> u32 \<Rightarrow> mm_sec_state \<Rightarrow> u32 \<Rightarrow> mm_cpu \<Rightarrow> mm_cpu"
  where "entered exc_num xpsr_in handler handler_sec exc_ret c =
    (let c = set_r 13 (bank_sp handler_sec False c) c;
         c = c\<lparr>xpsr := (xpsr_in AND 0xF8000000) OR 0x01000000 OR (exc_num AND 0x1FF)\<rparr>;
         c = set_r 14 exc_ret c;
         c = c\<lparr>cpu_mode := MM_HANDLER, sec_state := handler_sec\<rparr>;
         c = set_r 15 (handler OR 1) c
     in c\<lparr>sleeping := False, event_reg := False\<rparr>)"

lemma enter_exception_ex_success:
  assumes "exc_prepare (mc_map s) (sec_state (mc_cpu s)) n hs = (h, m)"
    and "push_words (wr32 (sec_state (mc_cpu s))) m
      (bank_sp (sec_state (mc_cpu s)) (use_psp_entry (mc_cpu s)) (mc_cpu s))
      (rev (exc_frame (mc_cpu s) pc x)) = (Some sp, m')"
  shows "enter_exception_ex s n pc x hs =
    (True, s\<lparr>mc_map := m', mc_cpu := entered n x h hs
      (exc_return_encode (sec_state (mc_cpu s)) (use_psp_entry (mc_cpu s)) (cpu_mode (mc_cpu s) = MM_THREAD))
      (commit_frame (sec_state (mc_cpu s)) (use_psp_entry (mc_cpu s)) sp (mc_cpu s))\<rparr>)"
  using assms
  by (simp add: enter_exception_ex_def stack_and_enter_def entered_def Let_def bank_sp_def)

subsection \<open>Entry followed by return\<close>

abbreviation entry_sp :: "mm_cpu \<Rightarrow> u32"
  where "entry_sp c \<equiv> bank_sp (sec_state c) (use_psp_entry c) c"

text \<open>Thirty-two bytes of RAM below the stack pointer, seen at the time of stacking.\<close>

definition stack_ready :: "'x mach \<Rightarrow> u32 \<Rightarrow> mm_sec_state \<Rightarrow> u32 \<Rightarrow> bool"
  where "stack_ready s n hs base =
    (32 \<le> unat (entry_sp (mc_cpu s)) \<and>
     (\<forall>i < 8. ram_word (sec_state (mc_cpu s)) base
        (snd (exc_prepare (mc_map s) (sec_state (mc_cpu s)) n hs)) (entry_sp (mc_cpu s) - of_nat (4 * Suc i))))"

lemma enter_on_good_stack:
  assumes "stack_ready s n hs base"
  obtains h m' where
    "enter_exception_ex s n pc x hs = (True, s\<lparr>mc_map := m', mc_cpu := entered n x h hs
      (exc_return_encode (sec_state (mc_cpu s)) (use_psp_entry (mc_cpu s)) (cpu_mode (mc_cpu s) = MM_THREAD))
      (commit_frame (sec_state (mc_cpu s)) (use_psp_entry (mc_cpu s)) (entry_sp (mc_cpu s) - 32) (mc_cpu s))\<rparr>)"
    "pop_words (rd32 (sec_state (mc_cpu s))) m' (entry_sp (mc_cpu s) - 32) 8 = (Some (exc_frame (mc_cpu s) pc x), m')"
proof -
  define c where "c = mc_cpu s"
  obtain h m where p: "exc_prepare (mc_map s) (sec_state c) n hs = (h, m)" by fastforce
  have len: "length (exc_frame c pc x) = 8" by (simp add: exc_frame_def)
  obtain m' where m': "push_words (wr32 (sec_state c)) m (entry_sp c) (rev (exc_frame c pc x)) =
      (Some (entry_sp c - of_nat (4 * 8)), m')"
    "pop_words (rd32 (sec_state c)) m' (entry_sp c - of_nat (4 * 8)) 8 = (Some (exc_frame c pc x), m')"
    using ram.push_pop [of "exc_frame c pc x" "entry_sp c" "sec_state c" base m, unfolded len] assms p
    by (auto simp: stack_ready_def c_def)
  have "of_nat (4 * 8) = (32 :: u32)" by simp
  then show thesis using that enter_exception_ex_success [OF p [unfolded c_def]] m' by (simp add: c_def)
qed

text \<open>What a return must restore: every register, stack pointer, the mode, the security state and the nesting depth.\<close>

definition context_restored :: "mm_cpu \<Rightarrow> u32 \<Rightarrow> u32 \<Rightarrow> mm_cpu \<Rightarrow> bool"
  where "context_restored c pc x c' =
    ((\<forall>r. cpu_r c' r = (if r = 13 then entry_sp c else if r = 15 then pc OR 1 else cpu_r c r)) \<and>
     (\<forall>sec psp. bank_sp sec psp c' = bank_sp sec psp c) \<and>
     sec_state c' = sec_state c \<and> cpu_mode c' = cpu_mode c \<and> exc_depth c' = exc_depth c \<and>
     xpsr c' = (if cpu_mode c = MM_THREAD then (x OR 0x01000000) AND NOT 0x1FF else x OR 0x01000000))"

lemma restore_entered:
  assumes "exc_depth c < MM_EXC_STACK_MAX"
    and "info = mm_exc_return_decode (exc_return_encode (sec_state c) (use_psp_entry c) (cpu_mode c = MM_THREAD))"
    and "c1 = entered n x h hs r (commit_frame (sec_state c) (use_psp_entry c) (entry_sp c - 32) c)"
  shows "fst (unstack_sp c1 info) = entry_sp c - 32"
    and "context_restored c pc x (restore_frame info (entry_sp c - 32) (exc_frame c pc x) (snd (unstack_sp c1 info)))"
proof -
  have psp: "(cpu_mode c = MM_THREAD \<and> use_psp_entry c) = use_psp_entry c" by (auto simp: use_psp_entry_def)
  have info: "er_use_psp info = use_psp_entry c" "er_to_thread info = (cpu_mode c = MM_THREAD)"
    "er_target_sec info = sec_state c"
    unfolding assms(2) decode_encode by (simp_all add: psp)
  define c2 where "c2 = commit_frame (sec_state c) (use_psp_entry c) (entry_sp c - 32) c"
  have c2: "cpu_r c2 = cpu_r c" "exc_depth c2 = Suc (exc_depth c)" "exc_sp c2 (exc_depth c) = entry_sp c - 32"
    "exc_sec c2 (exc_depth c) = sec_state c"
    "bank_sp sec psp c2 = (if sec = sec_state c \<and> psp = use_psp_entry c then entry_sp c - 32 else bank_sp sec psp c)"
    for sec psp
    using assms(1) by (simp_all add: c2_def commit_frame_def Let_def)
  have c1: "exc_depth c1 = Suc (exc_depth c)" "exc_sp c1 (exc_depth c) = entry_sp c - 32"
    "exc_sec c1 (exc_depth c) = sec_state c" "bank_sp sec psp c1 = bank_sp sec psp c2"
    "cpu_r c1 = (cpu_r c)(13 := bank_sp hs False c2, 14 := r, 15 := h OR 1)" for sec psp
    unfolding assms(3) c2_def [symmetric] by (simp_all add: entered_def Let_def c2)
  have u: "unstack_sp c1 info = (entry_sp c - 32, c1\<lparr>exc_depth := exc_depth c\<rparr>)"
    by (simp add: unstack_sp_def Let_def c1 info)
  then show "fst (unstack_sp c1 info) = entry_sp c - 32" by simp
  show "context_restored c pc x (restore_frame info (entry_sp c - 32) (exc_frame c pc x) (snd (unstack_sp c1 info)))"
    unfolding u context_restored_def restore_frame_def Let_def info
    by (cases "cpu_mode c") (simp_all add: c1 c2 exc_frame_def or.assoc)
qed

text \<open>C3: returning from an exception resumes the interrupted context.  When thirty-two
  bytes of accessible RAM lie below the stack pointer in use and the nesting record is
  not full, entering any exception, in either security state, succeeds, and an exception
  return with the link register that entry has set restores every register (the program
  counter from the return address), all four stack pointers, the mode, the security
  state, the nesting depth and the flags.\<close>

theorem exception_return_restores:
  assumes "stack_ready s n hs base" and "exc_depth (mc_cpu s) < MM_EXC_STACK_MAX"
  shows "\<exists>s1 s2. enter_exception_ex s n pc x hs = (True, s1) \<and>
    exc_return_unstack s1 (cpu_r (mc_cpu s1) 14) = (True, s2) \<and> context_restored (mc_cpu s) pc x (mc_cpu s2)"
proof -
  define c where "c = mc_cpu s"
  define r where "r = exc_return_encode (sec_state c) (use_psp_entry c) (cpu_mode c = MM_THREAD)"
  obtain h m' where e: "enter_exception_ex s n pc x hs = (True, s\<lparr>mc_map := m', mc_cpu := entered n x h hs r
      (commit_frame (sec_state c) (use_psp_entry c) (entry_sp c - 32) c)\<rparr>)"
    "pop_words (rd32 (sec_state c)) m' (entry_sp c - 32) 8 = (Some (exc_frame c pc x), m')"
    using enter_on_good_stack [OF assms(1)] unfolding c_def r_def by blast
  define c1 where "c1 = entered n x h hs r (commit_frame (sec_state c) (use_psp_entry c) (entry_sp c - 32) c)"
  have lr: "cpu_r c1 14 = r" by (simp add: c1_def entered_def Let_def)
  note rest = restore_entered [OF assms(2) [folded c_def] refl c1_def, folded r_def]
  have info: "er_valid (mm_exc_return_decode r)" "er_target_sec (mm_exc_return_decode r) = sec_state c"
    by (simp_all add: r_def decode_encode)
  show ?thesis
    using e rest info lr unfolding c1_def [symmetric]
    by (auto simp: exc_return_unstack_def Let_def c_def split: prod.split)
qed

text \<open>A machine with 64 bytes of RAM at 0x30000000, in Secure Thread mode on the main stack.\<close>

definition demo_mach :: "unit mach"
  where "demo_mach = \<lparr>mc_cpu = cpu_zero\<lparr>sec_state := MM_SECURE, msp_s := 0x30000040\<rparr>,
    mc_map = mm_memmap_configure_ram
      (mm_memmap_init 4 \<lparr>sd_scs = scs_zero, sd_nvic = None, sd_sau_layout = 0, sd_reset_requested = False\<rparr>)
      (demo_cfg\<lparr>cfg_ram_size_s := 64, cfg_ram_size_ns := 64\<rparr>) (replicate 64 0) True,
    it_pattern = 0, it_remaining = 0, it_cond = 0, mc_done = False, mc_quit_on_faults = False,
    mc_fault_pending = False, mc_opt_gdb = False, mc_gdb_stops = [], mc_cycles_since_poll = 0\<rparr>"

lemma demo_ram_word:
  assumes "i < 8"
  shows "ram_word MM_SECURE 0x30000000 (mc_map demo_mach) (0x30000040 - of_nat (4 * Suc i))"
proof -
  have "i = 0 \<or> i = 1 \<or> i = 2 \<or> i = 3 \<or> i = 4 \<or> i = 5 \<or> i = 6 \<or> i = 7" using assms by linarith
  then show ?thesis
    by (elim disjE) (simp_all add: ram_word_def demo_mach_def demo_cfg_def mm_memmap_configure_ram_def
      mm_memmap_init_def map_ok_def ram_ok_def flash_ok_def in_flash_def grants32_def
      ram_offset_for_addr_def in_window_def)
qed

lemma demo_mach_ready: "stack_ready demo_mach 20 MM_SECURE 0x30000000"
proof -
  let ?c = "mc_cpu demo_mach"
  have c: "sec_state ?c = MM_SECURE" "bank_sp MM_SECURE (use_psp_entry ?c) ?c = 0x30000040"
    by (simp_all add: demo_mach_def cpu_zero_def use_psp_entry_def bank_sp_def)
  have "snd (exc_prepare (mc_map demo_mach) MM_SECURE 20 MM_SECURE) = mc_map demo_mach"
    by (simp add: exc_prepare_def mm_vector_read_def mm_memmap_read_def demo_mach_def demo_cfg_def
        mm_memmap_configure_ram_def mm_memmap_init_def intercept_ok_def try_flash_def try_ram_def
        ram_offset_for_addr_def in_window_def bus_read_def mmio_bus_read_def mmio_bus_find_def
        mmio_bus_init_def vect_defs scs_zero_def)
  then have "\<forall>i < 8. ram_word MM_SECURE 0x30000000 (snd (exc_prepare (mc_map demo_mach) MM_SECURE 20 MM_SECURE))
      (0x30000040 - of_nat (4 * Suc i))" using demo_ram_word by (simp only: simp_thms) blast
  then show ?thesis unfolding stack_ready_def c by simp
qed

theorem exception_return_restores_witness:
  "\<exists>s1 s2. enter_exception_ex demo_mach 20 0x1000 0x61000000 MM_SECURE = (True, s1) \<and>
    exc_return_unstack s1 (cpu_r (mc_cpu s1) 14) = (True, s2) \<and>
    context_restored (mc_cpu demo_mach) 0x1000 0x61000000 (mc_cpu s2)"
proof -
  have "exc_depth (mc_cpu demo_mach) < MM_EXC_STACK_MAX"
    by (simp add: demo_mach_def cpu_zero_def MM_EXC_STACK_MAX_def)
  with demo_mach_ready show ?thesis by (rule exception_return_restores)
qed

end
