(* ===== verification/Exec_Ctl.thy ===== *)
theory Exec_Ctl
imports Exec_Alu Tz Fetch Exceptions
begin

text \<open>
  Control flow and system instructions in \<^verbatim>\<open>src/execute.c\<close>: branches, IT, status and mask
  registers, the stack-pointer writes with their limit check, division, bit fields, SVC and
  BKPT.  \<^verbatim>\<open>cpu_table\<close> holds the cases that only touch the processor, \<^verbatim>\<open>ctl_table\<close> those that
  can fault or enter an exception.

  An operation gives the C result \<^verbatim>\<open>MM_EXEC_OK\<close> or \<^verbatim>\<open>MM_EXEC_CONTINUE\<close>; the third status,
  \<^verbatim>\<open>HOST_UB\<close>, marks the two signed operations whose C meaning is undefined for some operands.
\<close>

datatype mm_exec_status = MM_EXEC_OK | MM_EXEC_CONTINUE | HOST_UB

type_synonym 'x exec_op = "mm_fetch_result \<Rightarrow> mm_decoded \<Rightarrow> 'x mach \<Rightarrow> mm_exec_status \<times> 'x mach"

definition on_cpu :: "(mm_cpu \<Rightarrow> mm_cpu) \<Rightarrow> 'x mach \<Rightarrow> 'x mach"
  where "on_cpu g s = s\<lparr>mc_cpu := g (mc_cpu s)\<rparr>"

definition set_done :: "'x mach \<Rightarrow> 'x mach"
  where "set_done s = s\<lparr>mc_done := True\<rparr>"

text \<open>\<^verbatim>\<open>if (!call) done = MM_TRUE;\<close> for a call that reports success.\<close>

definition or_done :: "bool \<times> 'x mach \<Rightarrow> 'x mach"
  where "or_done r = (if fst r then snd r else set_done (snd r))"

definition write_pc :: "u32 \<Rightarrow> 'x mach \<Rightarrow> 'x mach"
  where "write_pc v s = or_done (handle_pc_write s v)"

definition usage_fault :: "mm_fetch_result \<Rightarrow> u32 \<Rightarrow> 'x mach \<Rightarrow> mm_exec_status \<times> 'x mach"
  where "usage_fault f bits s =
    (MM_EXEC_CONTINUE, or_done (raise_usage_fault s (f_pc_fetch f) (xpsr (mc_cpu s)) bits))"

definition mem_fault :: "mm_fetch_result \<Rightarrow> u32 \<Rightarrow> bool \<Rightarrow> 'x mach \<Rightarrow> 'x mach"
  where "mem_fault f addr is_exec s =
    or_done (raise_mem_fault s (f_pc_fetch f) (xpsr (mc_cpu s)) addr is_exec)"

subsection \<open>The stack-pointer limit\<close>

definition UFSR_STKOF :: u32 where "UFSR_STKOF = push_bit 20 1"
definition UFSR_DIVBYZERO :: u32 where "UFSR_DIVBYZERO = push_bit 25 1"
definition CCR_DIV_0_TRP :: u32 where "CCR_DIV_0_TRP = push_bit 4 1"

definition exec_set_active_sp :: "mm_fetch_result \<Rightarrow> u32 \<Rightarrow> 'x mach \<Rightarrow> bool \<times> 'x mach"
  where "exec_set_active_sp f value s =
    (let splim = mm_cpu_get_active_splim (mc_cpu s) in
     if splim \<noteq> 0 \<and> value < splim then
       (False, set_done (or_done (raise_usage_fault s (f_pc_fetch f) (xpsr (mc_cpu s)) UFSR_STKOF)))
     else (True, on_cpu (\<lambda>c. mm_cpu_set_active_sp c value) s))"

text \<open>The macro \<^verbatim>\<open>EXEC_SET_SP\<close> where it ends a case.\<close>

definition EXEC_SET_SP :: "mm_fetch_result \<Rightarrow> u32 \<Rightarrow> 'x mach \<Rightarrow> mm_exec_status \<times> 'x mach"
  where "EXEC_SET_SP f value s =
    (let (ok, s') = exec_set_active_sp f value s in (if ok then MM_EXEC_OK else MM_EXEC_CONTINUE, s'))"

subsection \<open>Branches\<close>

definition cond_passed :: "mm_cond \<Rightarrow> u32 \<Rightarrow> bool"
  where "cond_passed cond x =
    (let n = (x AND push_bit 31 1 \<noteq> 0); z = (x AND push_bit 30 1 \<noteq> 0);
         c = (x AND push_bit 29 1 \<noteq> 0); v = (x AND push_bit 28 1 \<noteq> 0)
     in case cond of
          MM_COND_EQ \<Rightarrow> z | MM_COND_NE \<Rightarrow> \<not> z | MM_COND_CS \<Rightarrow> c | MM_COND_CC \<Rightarrow> \<not> c
        | MM_COND_MI \<Rightarrow> n | MM_COND_PL \<Rightarrow> \<not> n | MM_COND_VS \<Rightarrow> v | MM_COND_VC \<Rightarrow> \<not> v
        | MM_COND_HI \<Rightarrow> c \<and> \<not> z | MM_COND_LS \<Rightarrow> \<not> c \<or> z | MM_COND_GE \<Rightarrow> n = v
        | MM_COND_LT \<Rightarrow> n \<noteq> v | MM_COND_GT \<Rightarrow> \<not> z \<and> n = v | MM_COND_LE \<Rightarrow> z \<or> n \<noteq> v
        | MM_COND_AL \<Rightarrow> True | MM_COND_NV \<Rightarrow> False)"

definition branch_to :: "mm_fetch_result \<Rightarrow> mm_decoded \<Rightarrow> mm_cpu \<Rightarrow> mm_cpu"
  where "branch_to f d c = set_r 15 ((f_pc_fetch f + 4 + d_imm d) OR 1) c"

definition op_B_UNCOND :: alu_op
  where "op_B_UNCOND it f d c = branch_to f d c"

definition op_B_COND :: alu_op
  where "op_B_COND it f d c = (if cond_passed (d_cond d) (xpsr c) then branch_to f d c else c)"

definition op_CBZ :: alu_op
  where "op_CBZ it f d c =
    (let zero = (cpu_r c (d_rn d) = 0);
         taken = (if d_kind d = MM_OP_CBZ then zero else \<not> zero)
     in if taken then branch_to f d c else c)"

definition op_BLX :: alu_op
  where "op_BLX it f d c =
    (let target = cpu_r c (d_rm d);
         c = set_r 14 ((f_pc_fetch f + to_u32 (d_len d)) OR 1) c
     in set_r 15 (target OR 1) c)"

definition op_BL :: alu_op
  where "op_BL it f d c = branch_to f d (set_r 14 ((f_pc_fetch f + 4) OR 1) c)"

definition op_SG :: alu_op
  where "op_SG it f d c = mm_tz_exec_sg c"

definition op_BXNS :: alu_op
  where "op_BXNS it f d c = mm_tz_exec_bxns c (cpu_r c (d_rm d))"

definition op_BLXNS :: alu_op
  where "op_BLXNS it f d c = mm_tz_exec_blxns c (cpu_r c (d_rm d)) (f_pc_fetch f + to_u32 (d_len d))"

definition op_BX :: "'x exec_op"
  where "op_BX f d s =
    (let c = mc_cpu s; target = cpu_r c (d_rm d) in
     if d_rm d = 14 \<and> is_exc_return target then
       (MM_EXEC_OK, let (ok, s') = exc_return_unstack s target in if ok then it_sync s' else set_done s')
     else if target AND 0xF0000000 = 0xF0000000 then
       (MM_EXEC_OK, on_cpu (set_r 15 (target OR 1)) s)
     else if d_rm d = 14 \<and> takes_tz_return c target then
       (let c' = tz_return c in EXEC_SET_SP f (mm_cpu_get_active_sp c') (s\<lparr>mc_cpu := c'\<rparr>))
     else (MM_EXEC_OK, on_cpu (set_r 15 (target OR 1)) s))"

definition op_TBB :: "'x exec_op"
  where "op_TBB f d s =
    (let c = mc_cpu s;
         rn_val = (if d_rn d = 15 then (f_pc_fetch f + 4) AND NOT 1 else cpu_r c (d_rn d));
         (r, m) = mm_table_branch_target (mc_map s) (sec_state c) (f_pc_fetch f) rn_val
                    (cpu_r c (d_rm d)) (d_kind d = MM_OP_TBH);
         s = s\<lparr>mc_map := m\<rparr>
     in case r of
          Inl fault_addr \<Rightarrow> (MM_EXEC_CONTINUE, mem_fault f fault_addr False s)
        | Inr target_pc \<Rightarrow> (MM_EXEC_CONTINUE, write_pc target_pc s))"

subsection \<open>IT, hints, masks and special registers\<close>

definition op_IT :: "'x exec_op"
  where "op_IT f d s =
    (let cond = to_u8 (drop_bit 4 (d_imm d) AND 0x0f);
         (pat, rem) = it_mask_to_pattern cond (to_u8 (d_imm d AND 0x0f));
         itstate_val = push_bit 4 cond OR to_u8 (d_imm d AND 0x0f)
     in (MM_EXEC_OK,
         on_cpu (\<lambda>c. c\<lparr>xpsr := itstate_set (xpsr c) itstate_val\<rparr>)
           (s\<lparr>it_cond := cond, it_pattern := pat, it_remaining := rem\<rparr>)))"

definition op_NOP :: alu_op
  where "op_NOP it f d c = c"

definition op_CPS :: alu_op
  where "op_CPS it f d c =
    (let v = (if d_imm d AND 0x10 \<noteq> 0 then 1 else 0) in
     if d_imm d AND 0x02 \<noteq> 0 then
       (if sec_state c = MM_NONSECURE then c\<lparr>primask_ns := v\<rparr> else c\<lparr>primask_s := v\<rparr>)
     else c)"

definition op_CLREX :: alu_op
  where "op_CLREX it f d c = mm_cpu_excl_clear c"

definition op_WFI :: alu_op
  where "op_WFI it f d c = c\<lparr>sleeping := True\<rparr>"

definition op_WFE :: alu_op
  where "op_WFE it f d c = (if event_reg c then c\<lparr>event_reg := False\<rparr> else c\<lparr>sleeping := True\<rparr>)"

definition op_SEV :: alu_op
  where "op_SEV it f d c = c\<lparr>event_reg := True\<rparr>"

definition mrs_value :: "u32 \<Rightarrow> mm_cpu \<Rightarrow> u32"
  where "mrs_value sysm c =
    (let ns = (sec_state c = MM_NONSECURE) in
     if sysm = 0x08 then mm_cpu_get_active_sp c
     else if sysm = 0x09 then (if ns then psp_ns c else psp_s c)
     else if sysm = 0x0a then (if ns then msplim_ns c else msplim_s c)
     else if sysm = 0x0b then (if ns then psplim_ns c else psplim_s c)
     else if sysm = 0x88 then msp_ns c
     else if sysm = 0x89 then psp_ns c
     else if sysm = 0x8a then msplim_ns c
     else if sysm = 0x8b then psplim_ns c
     else if sysm = 0x94 then control_ns c
     else if sysm = 0x14 then control_s c
     else 0)"

definition op_MRS :: alu_op
  where "op_MRS it f d c =
    (if d_rd d = 15 then c else set_r (d_rd d) (mrs_value (d_imm d AND 0xff) c) c)"

definition msr_write :: "u32 \<Rightarrow> u32 \<Rightarrow> mm_cpu \<Rightarrow> mm_cpu"
  where "msr_write sysm val c =
    (let ns = (sec_state c = MM_NONSECURE) in
     if sysm = 0x08 then mm_cpu_set_msp c (sec_state c) val
     else if sysm = 0x09 then mm_cpu_set_psp c (sec_state c) val
     else if sysm = 0x0a then (if ns then c\<lparr>msplim_ns := val\<rparr> else c\<lparr>msplim_s := val\<rparr>)
     else if sysm = 0x0b then (if ns then c\<lparr>psplim_ns := val\<rparr> else c\<lparr>psplim_s := val\<rparr>)
     else if sysm = 0x88 then mm_cpu_set_msp c MM_NONSECURE val
     else if sysm = 0x89 then mm_cpu_set_psp c MM_NONSECURE val
     else if sysm = 0x8a then c\<lparr>msplim_ns := val\<rparr>
     else if sysm = 0x8b then c\<lparr>psplim_ns := val\<rparr>
     else if sysm = 0x14 then mm_cpu_set_control c MM_SECURE val
     else if sysm = 0x94 then mm_cpu_set_control c MM_NONSECURE val
     else c)"

definition op_MSR :: alu_op
  where "op_MSR it f d c =
    (let sysm = d_imm d AND 0xff; msk = drop_bit 8 (d_imm d) AND 0xf; val = cpu_r c (d_rm d) in
     if msk = 8 then msr_write sysm val c
     else if sysm = 0 then
       (if msk AND 8 \<noteq> 0 then c\<lparr>xpsr := mm_xpsr_write_nzcvq (xpsr c) val\<rparr> else c)
     else c)"

definition cpu_table :: "(mm_op_kind \<times> alu_op) list"
  where "cpu_table =
    [(MM_OP_NOP, op_NOP), (MM_OP_DSB, op_NOP), (MM_OP_DMB, op_NOP), (MM_OP_ISB, op_NOP),
     (MM_OP_YIELD, op_NOP), (MM_OP_B_UNCOND, op_B_UNCOND), (MM_OP_B_UNCOND_WIDE, op_B_UNCOND),
     (MM_OP_B_COND, op_B_COND), (MM_OP_B_COND_WIDE, op_B_COND), (MM_OP_CBZ, op_CBZ), (MM_OP_CBNZ, op_CBZ),
     (MM_OP_BLX, op_BLX), (MM_OP_BL, op_BL), (MM_OP_SG, op_SG), (MM_OP_BXNS, op_BXNS),
     (MM_OP_BLXNS, op_BLXNS), (MM_OP_CPS, op_CPS), (MM_OP_CLREX, op_CLREX), (MM_OP_WFI, op_WFI),
     (MM_OP_WFE, op_WFE), (MM_OP_SEV, op_SEV), (MM_OP_MRS, op_MRS), (MM_OP_MSR, op_MSR)]"

subsection \<open>Instructions that can write SP\<close>

definition op_ADD_IMM :: "'x exec_op"
  where "op_ADD_IMM f d s =
    (let c = mc_cpu s; it = it_remaining s;
         setflags = (if d_len d = 2 then it = 0 else if s_bit d then it \<le> 1 else False);
         c' = (if setflags then sum_flags (d_rd d) (cpu_r c (d_rn d)) (d_imm d) False c
               else set_r (d_rd d) (cpu_r c (d_rn d) + d_imm d) c);
         s' = s\<lparr>mc_cpu := c'\<rparr>
     in if d_rd d = 13 then EXEC_SET_SP f (cpu_r c' 13) s' else (MM_EXEC_OK, s'))"

definition op_SUB_IMM :: "'x exec_op"
  where "op_SUB_IMM f d s =
    (let c = mc_cpu s; it = it_remaining s;
         setflags = (if d_len d = 2 then it \<le> 1 else if s_bit d then it \<le> 1 else False);
         c' = (if setflags then sum_flags (d_rd d) (cpu_r c (d_rn d)) (NOT (d_imm d)) True c
               else set_r (d_rd d) (cpu_r c (d_rn d) - d_imm d) c);
         s' = s\<lparr>mc_cpu := c'\<rparr>
     in if d_rd d = 13 then EXEC_SET_SP f (cpu_r c' 13) s' else (MM_EXEC_OK, s'))"

definition op_SUB_IMM_NF :: "'x exec_op"
  where "op_SUB_IMM_NF f d s =
    (let c = mc_cpu s; c' = set_r (d_rd d) (cpu_r c (d_rn d) - d_imm d) c; s' = s\<lparr>mc_cpu := c'\<rparr>
     in if d_rd d = 13 then EXEC_SET_SP f (cpu_r c' 13) s' else (MM_EXEC_OK, s'))"

definition op_ADD_SP_IMM :: "'x exec_op"
  where "op_ADD_SP_IMM f d s =
    (if d_rd d = 13 then EXEC_SET_SP f (mm_cpu_get_active_sp (mc_cpu s) + d_imm d) s
     else (MM_EXEC_OK, on_cpu (\<lambda>c. set_r (d_rd d) (cpu_r c 13 + d_imm d) c) s))"

definition op_SUB_SP_IMM :: "'x exec_op"
  where "op_SUB_SP_IMM f d s =
    (if d_rd d = 13 then EXEC_SET_SP f (mm_cpu_get_active_sp (mc_cpu s) - d_imm d) s
     else (MM_EXEC_OK, on_cpu (\<lambda>c. set_r (d_rd d) (cpu_r c 13 - d_imm d) c) s))"

definition op_MOV_REG :: "'x exec_op"
  where "op_MOV_REG f d s =
    (if d_rd d = 15 then (MM_EXEC_OK, write_pc (cpu_r (mc_cpu s) (d_rm d)) s)
     else if d_rd d = 13 then EXEC_SET_SP f (cpu_r (mc_cpu s) (d_rm d)) s
     else (MM_EXEC_OK, on_cpu (\<lambda>c. set_r (d_rd d) (cpu_r c (d_rm d)) c) s))"

subsection \<open>Bit fields, division, SMLA\<close>

definition bf_lsb :: "mm_decoded \<Rightarrow> u32"
  where "bf_lsb d = push_bit 2 (drop_bit 12 (d_raw d) AND 0x7) OR (drop_bit 6 (d_raw d) AND 0x3)"

definition op_BFX :: "(u32 \<Rightarrow> u8 \<Rightarrow> u8 \<Rightarrow> u32) \<Rightarrow> 'x exec_op"
  where "op_BFX g f d s =
    (let lsb = bf_lsb d; width = (d_raw d AND 0x1f) + 1 in
     if d_rd d = 15 \<or> d_rn d = 15 \<or> lsb \<ge> 32 \<or> width = 0 \<or> lsb + width > 32
     then usage_fault f (push_bit 16 1) s
     else (MM_EXEC_OK, on_cpu (\<lambda>c. set_r (d_rd d) (g (cpu_r c (d_rn d)) (to_u8 lsb) (to_u8 width)) c) s))"

definition op_UBFX :: "'x exec_op" where "op_UBFX = op_BFX mm_ubfx"
definition op_SBFX :: "'x exec_op" where "op_SBFX = op_BFX mm_sbfx"

definition op_BFI :: "'x exec_op"
  where "op_BFI f d s =
    (let lsb = bf_lsb d; msb = d_raw d AND 0x1f in
     if msb < lsb then usage_fault f (push_bit 16 1) s
     else let width = (msb - lsb) + 1 in
       if d_rd d = 15 \<or> d_rn d = 15 \<or> lsb \<ge> 32 \<or> width = 0 \<or> lsb + width > 32
       then usage_fault f (push_bit 16 1) s
       else (MM_EXEC_OK, on_cpu (\<lambda>c. set_r (d_rd d)
              (mm_bfi (cpu_r c (d_rd d)) (cpu_r c (d_rn d)) (to_u8 lsb) (to_u8 width)) c) s))"

definition op_BFC :: "'x exec_op"
  where "op_BFC f d s =
    (let lsb = bf_lsb d; msb = d_raw d AND 0x1f in
     if msb < lsb then usage_fault f (push_bit 16 1) s
     else let width = (msb - lsb) + 1 in
       if d_rd d = 15 \<or> lsb \<ge> 32 \<or> width = 0 \<or> lsb + width > 32
       then usage_fault f (push_bit 16 1) s
       else (MM_EXEC_OK, on_cpu (\<lambda>c. set_r (d_rd d)
              (mm_bfc (cpu_r c (d_rd d)) (to_u8 lsb) (to_u8 width)) c) s))"

text \<open>The zero-divisor branch that UDIV and SDIV share, then the quotient.\<close>

definition divide :: "(u32 \<Rightarrow> u32 \<Rightarrow> u32 option) \<Rightarrow> 'x exec_op"
  where "divide q f d s =
    (let divisor = cpu_r (mc_cpu s) (d_rm d) in
     if divisor = 0 then
       (if sc_ccr (map_scs (mc_map s)) AND CCR_DIV_0_TRP \<noteq> 0 then usage_fault f UFSR_DIVBYZERO s
        else (MM_EXEC_OK, on_cpu (set_r (d_rd d) 0) s))
     else case q (cpu_r (mc_cpu s) (d_rn d)) divisor of
       Some v \<Rightarrow> (MM_EXEC_OK, on_cpu (set_r (d_rd d) v) s)
     | None \<Rightarrow> (HOST_UB, s))"

definition op_UDIV :: "'x exec_op" where "op_UDIV = divide (\<lambda>a b. Some (a div b))"

text \<open>C division truncates towards zero and is undefined for INT\_MIN / -1.\<close>

definition op_SDIV :: "'x exec_op"
  where "op_SDIV = divide (\<lambda>a b.
    if a = 0x80000000 \<and> b = 0xffffffff then None
    else Some (word_of_int (sgn (sint a) * sgn (sint b) * (\<bar>sint a\<bar> div \<bar>sint b\<bar>))))"

definition half :: "bool \<Rightarrow> u32 \<Rightarrow> int"
  where "half hi v = sint (to_u16 (if hi then drop_bit 16 v else v AND 0xffff))"

definition op_SMLA :: "'x exec_op"
  where "op_SMLA f d s =
    (let c = mc_cpu s;
         prod = half (d_imm d AND 0x2 \<noteq> 0) (cpu_r c (d_rn d)) * half (d_imm d AND 0x1 \<noteq> 0) (cpu_r c (d_rm d));
         acc = prod + sint (cpu_r c (d_ra d))
     in if acc < - (2 ^ 31) \<or> acc \<ge> 2 ^ 31 then (HOST_UB, s)
        else (MM_EXEC_OK, s\<lparr>mc_cpu := set_r (d_rd d) (word_of_int acc) c\<rparr>))"

subsection \<open>SVC and BKPT\<close>

definition op_SVC :: "'x exec_op"
  where "op_SVC f d s =
    (MM_EXEC_OK, or_done (enter_exception s MM_VECT_SVCALL (f_pc_fetch f + to_u32 (d_len d)) (xpsr (mc_cpu s))))"

definition gdb_notify_stop :: "nat \<Rightarrow> 'x mach \<Rightarrow> 'x mach"
  where "gdb_notify_stop sig s = s\<lparr>mc_gdb_stops := mc_gdb_stops s @ [sig]\<rparr>"

definition op_BKPT :: "'x exec_op"
  where "op_BKPT f d s = (MM_EXEC_OK, if mc_opt_gdb s then gdb_notify_stop 5 s else set_done s)"

definition ctl_table :: "(mm_op_kind \<times> 'x exec_op) list"
  where "ctl_table =
    [(MM_OP_IT, op_IT), (MM_OP_BX, op_BX), (MM_OP_TBB, op_TBB), (MM_OP_TBH, op_TBB),
     (MM_OP_ADD_IMM, op_ADD_IMM), (MM_OP_SUB_IMM, op_SUB_IMM), (MM_OP_SUB_IMM_NF, op_SUB_IMM_NF),
     (MM_OP_ADD_SP_IMM, op_ADD_SP_IMM), (MM_OP_SUB_SP_IMM, op_SUB_SP_IMM), (MM_OP_MOV_REG, op_MOV_REG),
     (MM_OP_UBFX, op_UBFX), (MM_OP_SBFX, op_SBFX), (MM_OP_BFI, op_BFI), (MM_OP_BFC, op_BFC),
     (MM_OP_UDIV, op_UDIV), (MM_OP_SDIV, op_SDIV), (MM_OP_SMLA, op_SMLA), (MM_OP_SVC, op_SVC),
     (MM_OP_BKPT, op_BKPT)]"

subsection \<open>Comparison and conditional branch\<close>

lemma cond_passed_bits:
  "cond_passed cond x =
    (case cond of
       MM_COND_EQ \<Rightarrow> bit x 30 | MM_COND_NE \<Rightarrow> \<not> bit x 30 | MM_COND_CS \<Rightarrow> bit x 29 | MM_COND_CC \<Rightarrow> \<not> bit x 29
     | MM_COND_MI \<Rightarrow> bit x 31 | MM_COND_PL \<Rightarrow> \<not> bit x 31 | MM_COND_VS \<Rightarrow> bit x 28 | MM_COND_VC \<Rightarrow> \<not> bit x 28
     | MM_COND_HI \<Rightarrow> bit x 29 \<and> \<not> bit x 30 | MM_COND_LS \<Rightarrow> \<not> bit x 29 \<or> bit x 30
     | MM_COND_GE \<Rightarrow> bit x 31 = bit x 28 | MM_COND_LT \<Rightarrow> bit x 31 \<noteq> bit x 28
     | MM_COND_GT \<Rightarrow> \<not> bit x 30 \<and> bit x 31 = bit x 28 | MM_COND_LE \<Rightarrow> bit x 30 \<or> bit x 31 \<noteq> bit x 28
     | MM_COND_AL \<Rightarrow> True | MM_COND_NV \<Rightarrow> False)"
  unfolding cond_passed_def Let_def and_bit_nonzero by (rule refl)

text \<open>What each condition says about two compared words.\<close>

definition compares :: "mm_cond \<Rightarrow> u32 \<Rightarrow> u32 \<Rightarrow> bool"
  where "compares cond a b =
    (case cond of
       MM_COND_EQ \<Rightarrow> a = b | MM_COND_NE \<Rightarrow> a \<noteq> b | MM_COND_CS \<Rightarrow> b \<le> a | MM_COND_CC \<Rightarrow> a < b
     | MM_COND_MI \<Rightarrow> sint (a - b) < 0 | MM_COND_PL \<Rightarrow> 0 \<le> sint (a - b)
     | MM_COND_VS \<Rightarrow> sint (a - b) \<noteq> sint a - sint b | MM_COND_VC \<Rightarrow> sint (a - b) = sint a - sint b
     | MM_COND_HI \<Rightarrow> b < a | MM_COND_LS \<Rightarrow> a \<le> b
     | MM_COND_GE \<Rightarrow> sint b \<le> sint a | MM_COND_LT \<Rightarrow> sint a < sint b
     | MM_COND_GT \<Rightarrow> sint b < sint a | MM_COND_LE \<Rightarrow> sint a \<le> sint b
     | MM_COND_AL \<Rightarrow> True | MM_COND_NV \<Rightarrow> False)"

lemma difference_flags:
  assumes "mm_add_with_carry a (NOT b) True = (res, cf, vf)"
  shows "res = a - b" and "cf = (b \<le> a)" and "vf = (sint (a - b) \<noteq> sint a - sint b)"
    and "(bit res 31 = vf) = (sint b \<le> sint a)"
proof -
  note t = awc_total [OF assms, unfolded unat_not32] and v = add_with_carry_signed [OF assms]
  have l: "unat a < 2 ^ 32" "unat b < 2 ^ 32" "unat res < 2 ^ 32"
    using unat_u32_less [of a] unat_u32_less [of b] unat_u32_less [of res] by simp_all
  have n: "sint (NOT b) = - sint b - 1"
    using l by (auto simp: sint_u32 unat_not32 bit31_unat simp del: of_nat_unat)
  show res: "res = a - b"
    using t l by (cases cf) (auto simp: word_unat_eq_iff unat_sub_if')
  show "cf = (b \<le> a)" using t l by (cases cf) (simp_all add: word_le_nat_alt)
  show vf: "vf = (sint (a - b) \<noteq> sint a - sint b)" using v n res by simp
  show "(bit res 31 = vf) = (sint b \<le> sint a)"
    using vf t l res n by (cases cf; auto simp: sint_u32 bit31_unat simp del: of_nat_unat)
qed

lemma compare_flags_cond: "cond_passed cond (xpsr (compare_flags a (NOT b) True c)) = compares cond a b"
proof -
  obtain res cf vf where r: "mm_add_with_carry a (NOT b) True = (res, cf, vf)" by (metis prod_cases3)
  note d = difference_flags [OF r]
  have x: "xpsr (compare_flags a (NOT b) True c) = xpsr_put_nzcv (xpsr c) res cf vf"
    using r by (simp add: compare_flags_def)
  have z: "(res = 0) = (a = b)" using d(1) by simp
  have neg: "bit res 31 = (sint (a - b) < 0)"
    using d(1) unat_u32_less [of res] by (simp add: sint_u32 bit31_unat del: of_nat_unat)
  have eq: "(a = b) = (sint a = sint b)" by (auto intro: signed_word_eqI)
  show ?thesis
    using d(2-4) z eq neg unfolding x cond_passed_bits put_nzcv_bits compares_def
    by (cases cond) (auto simp: not_le le_less)
qed

text \<open>C6: a compare followed by a conditional branch takes the branch exactly when the named
  relation holds between the operands: the unsigned order for CS, CC, HI and LS, the signed
  order for GE, LT, GT and LE, equality for EQ and NE, the sign and the overflow of the
  difference for MI, PL, VS and VC.\<close>

theorem compare_and_branch:
  "cpu_r (op_B_COND it f' d' (op_CMP_IMM it f d c)) 15 =
    (if compares (d_cond d') (cpu_r c (d_rn d)) (d_imm d)
     then (f_pc_fetch f' + 4 + d_imm d') OR 1 else cpu_r c 15)"
proof -
  have "cpu_r (compare_flags a b k c) = cpu_r c" for a b k by (simp add: compare_flags_def split_def Let_def)
  then show ?thesis by (simp add: op_B_COND_def op_CMP_IMM_def compare_flags_cond branch_to_def)
qed

subsection \<open>The stack limit\<close>

text \<open>An instruction that writes SP through the checked path never moves the active stack
  pointer below a limit that is set: it either stores the value, and then the limit is zero
  or not above it, or raises a stack-overflow UsageFault, stops the run and leaves every
  stack pointer to the fault entry.\<close>

theorem stack_limit_enforced:
  "case exec_set_active_sp f v s of (ok, s') \<Rightarrow>
    if ok then mm_cpu_get_active_sp (mc_cpu s') = v \<and> cpu_r (mc_cpu s') 13 = v \<and>
        (mm_cpu_get_active_splim (mc_cpu s) = 0 \<or> mm_cpu_get_active_splim (mc_cpu s) \<le> v)
    else v < mm_cpu_get_active_splim (mc_cpu s) \<and> mc_done s' \<and>
        mc_cpu s' = mc_cpu (snd (raise_usage_fault s (f_pc_fetch f) (xpsr (mc_cpu s)) UFSR_STKOF))"
  by (auto simp: exec_set_active_sp_def Let_def on_cpu_def set_done_def or_done_def not_less)

subsection \<open>Signed division\<close>

abbreviation tdiv :: "int \<Rightarrow> int \<Rightarrow> int"
  where "tdiv a b \<equiv> sgn a * sgn b * (\<bar>a\<bar> div \<bar>b\<bar>)"

lemma tdiv_rem:
  assumes "b \<noteq> 0"
  shows "\<bar>a - tdiv a b * b\<bar> < \<bar>b\<bar> \<and> 0 \<le> (a - tdiv a b * b) * a"
proof -
  have e: "a - tdiv a b * b = sgn a * (\<bar>a\<bar> mod \<bar>b\<bar>)"
  proof -
    have "tdiv a b * b = sgn a * (\<bar>a\<bar> div \<bar>b\<bar> * \<bar>b\<bar>)"
      by (simp add: abs_sgn algebra_simps)
    moreover have "a = sgn a * \<bar>a\<bar>" by (simp add: sgn_mult_abs)
    ultimately have "a - tdiv a b * b = sgn a * (\<bar>a\<bar> - \<bar>a\<bar> div \<bar>b\<bar> * \<bar>b\<bar>)"
      by (simp add: right_diff_distrib)
    then show ?thesis by (simp add: minus_div_mult_eq_mod)
  qed
  have "\<bar>a\<bar> mod \<bar>b\<bar> < \<bar>b\<bar>" "0 \<le> \<bar>a\<bar> mod \<bar>b\<bar>" using assms by simp_all
  then show ?thesis unfolding e by (cases "a = 0") (auto simp: abs_mult sgn_if mult_nonneg_nonpos mult_nonpos_nonneg)
qed

lemma sint_bounds: "- (2 ^ 31) \<le> sint a \<and> sint a < 2 ^ 31" for a :: u32
  using unat_u32_less [of a] by (auto simp: sint_u32 bit31_unat simp del: of_nat_unat)

lemma sint_back: "- (2 ^ 31) \<le> v \<Longrightarrow> v < 2 ^ 31 \<Longrightarrow> sint (word_of_int v :: u32) = v"
  by (simp add: signed_of_int signed_take_bit_int_eq_self)

lemma tdiv_range:
  fixes a b :: u32
  assumes "b \<noteq> 0" and "\<not> (sint a = - (2 ^ 31) \<and> sint b = -1)"
  shows "- (2 ^ 31) \<le> tdiv (sint a) (sint b) \<and> tdiv (sint a) (sint b) < 2 ^ 31"
proof -
  define q where "q = \<bar>sint a\<bar> div \<bar>sint b\<bar>"
  have b: "sint b \<noteq> 0" using assms(1) signed_word_eqI [of b 0] by auto
  have le: "q \<le> \<bar>sint a\<bar>" "0 \<le> q"
    unfolding q_def using b zdiv_mono2 [of "\<bar>sint a\<bar>" 1 "\<bar>sint b\<bar>"]
    by (simp_all add: pos_imp_zdiv_nonneg_iff)
  have "q < 2 ^ 31" if "sint a * sint b > 0"
  proof (cases "\<bar>sint b\<bar> = 1")
    case True
    then show ?thesis using that assms(2) sint_bounds [of a] by (auto simp: q_def abs_if zero_less_mult_iff split: if_splits)
  next
    case False
    then have "2 \<le> \<bar>sint b\<bar>" using b by linarith
    then have "q * 2 \<le> \<bar>sint a\<bar>"
      using le(2) div_mult_mod_eq [of "\<bar>sint a\<bar>" "\<bar>sint b\<bar>"] mult_left_mono [of 2 "\<bar>sint b\<bar>" q] b
        pos_mod_sign [of "\<bar>sint b\<bar>" "\<bar>sint a\<bar>"]
      unfolding q_def by linarith
    then show ?thesis using sint_bounds [of a] by linarith
  qed
  then show ?thesis
    using le sint_bounds [of a] unfolding q_def [symmetric]
    by (auto simp: sgn_if zero_less_mult_iff mult_less_0_iff not_less)
qed

text \<open>C40: SDIV by a non-zero register gives the quotient rounded towards zero: the remainder is
  smaller than the divisor in magnitude and has the sign of the dividend.  The only operands
  for which the C expression has no value are INT\_MIN and -1, where the architecture
  defines the result to be INT\_MIN.\<close>

theorem sdiv_rounds_to_zero:
  assumes "cpu_r (mc_cpu s) (d_rm d) \<noteq> 0"
  shows "let a = sint (cpu_r (mc_cpu s) (d_rn d)); b = sint (cpu_r (mc_cpu s) (d_rm d)); (st, s') = op_SDIV f d s;
      q = sint (cpu_r (mc_cpu s') (d_rd d))
    in if a = - (2 ^ 31) \<and> b = -1 then st = HOST_UB
       else st = MM_EXEC_OK \<and> \<bar>a - q * b\<bar> < \<bar>b\<bar> \<and> 0 \<le> (a - q * b) * a"
proof -
  let ?a = "cpu_r (mc_cpu s) (d_rn d)" and ?b = "cpu_r (mc_cpu s) (d_rm d)"
  have min: "(?a = 0x80000000 \<and> ?b = 0xffffffff) = (sint ?a = - (2 ^ 31) \<and> sint ?b = -1)"
  proof -
    have "sint (0x80000000 :: u32) = - (2 ^ 31)" "sint (0xffffffff :: u32) = -1" by simp_all
    then show ?thesis using signed_word_eqI [of ?a "0x80000000"] signed_word_eqI [of ?b "0xffffffff"] by auto
  qed
  show ?thesis
  proof (cases "sint ?a = - (2 ^ 31) \<and> sint ?b = -1")
    case True
    then show ?thesis using assms min by (simp add: op_SDIV_def divide_def Let_def)
  next
    case False
    have "sint ?b \<noteq> 0" using assms signed_word_eqI [of ?b 0] by auto
    note r = tdiv_rem [OF this, of "sint ?a"] and t = tdiv_range [OF assms False]
    have e: "op_SDIV f d s = (MM_EXEC_OK, on_cpu (set_r (d_rd d) (word_of_int (tdiv (sint ?a) (sint ?b)))) s)"
      using assms False unfolding min [symmetric] by (simp add: op_SDIV_def divide_def Let_def)
    have v: "cpu_r (mc_cpu (on_cpu (set_r (d_rd d) v) s)) (d_rd d) = v" for v by (simp add: on_cpu_def)
    show ?thesis
      using False r unfolding e Let_def prod.case v sint_back [OF conjunct1 [OF t] conjunct2 [OF t]]
      by (simp only: if_False simp_thms)
  qed
qed

theorem sdiv_rounds_to_zero_witness:
  "\<forall>f. let s = demo_mach\<lparr>mc_cpu := (mc_cpu demo_mach)\<lparr>cpu_r := (\<lambda>_. 0)(1 := - 7, 2 := 2)\<rparr>\<rparr>;
        d = (mm_decoded_default 4 0)\<lparr>d_rn := 1, d_rm := 2\<rparr>; (st, s') = op_SDIV f d s
    in st = MM_EXEC_OK"
proof
  fix f
  let ?s = "demo_mach\<lparr>mc_cpu := (mc_cpu demo_mach)\<lparr>cpu_r := (\<lambda>_. 0)(1 := - 7, 2 := 2)\<rparr>\<rparr>"
  let ?d = "(mm_decoded_default 4 0)\<lparr>d_rn := 1, d_rm := 2\<rparr>"
  have "cpu_r (mc_cpu ?s) (d_rm ?d) \<noteq> 0" by simp
  from sdiv_rounds_to_zero [OF this, of f]
  show "let s = ?s; d = ?d; (st, s') = op_SDIV f d s in st = MM_EXEC_OK"
    by (simp add: Let_def split_def)
qed

end
