(* ===== verification/Exec_Mem.thy ===== *)
theory Exec_Mem
imports Exec_Ctl
begin

text \<open>
  Loads and stores in \<^verbatim>\<open>src/execute.c\<close>: single transfers with their addressing modes, the
  exclusive pair, LDRD/STRD, LDM/STM, PUSH and POP.  A transfer that the memory map refuses
  raises a memory fault and ends the instruction, except in the multiple transfers, where the
  code only leaves the loop.
\<close>

subsection \<open>One transfer\<close>

definition exec_read ::
  "mm_fetch_result \<Rightarrow> u32 \<Rightarrow> u32 \<Rightarrow> bool \<Rightarrow> (u32 \<Rightarrow> 'x mach \<Rightarrow> mm_exec_status \<times> 'x mach) \<Rightarrow> 'x mach
    \<Rightarrow> mm_exec_status \<times> 'x mach"
  where "exec_read f addr sz is_exec k s =
    (let (v, m) = mm_memmap_read (mc_map s) (sec_state (mc_cpu s)) addr sz; s = s\<lparr>mc_map := m\<rparr>
     in case v of None \<Rightarrow> (MM_EXEC_CONTINUE, mem_fault f addr is_exec s) | Some val \<Rightarrow> k val s)"

definition exec_write ::
  "mm_fetch_result \<Rightarrow> u32 \<Rightarrow> u32 \<Rightarrow> u32 \<Rightarrow> ('x mach \<Rightarrow> mm_exec_status \<times> 'x mach) \<Rightarrow> 'x mach
    \<Rightarrow> mm_exec_status \<times> 'x mach"
  where "exec_write f addr sz val k s =
    (let (ok, m) = mm_memmap_write (mc_map s) (sec_state (mc_cpu s)) addr sz val; s = s\<lparr>mc_map := m\<rparr>
     in if ok then k s else (MM_EXEC_CONTINUE, mem_fault f addr False s))"

definition put_reg :: "u8 \<Rightarrow> u32 \<Rightarrow> 'x mach \<Rightarrow> mm_exec_status \<times> 'x mach"
  where "put_reg r v s = (MM_EXEC_OK, on_cpu (set_r r v) s)"

text \<open>Write-back of the base register, through the stack limit check when the base is SP.\<close>

definition writeback :: "mm_fetch_result \<Rightarrow> u8 \<Rightarrow> u32 \<Rightarrow> 'x mach \<Rightarrow> mm_exec_status \<times> 'x mach"
  where "writeback f rn v s = (if rn = 13 then EXEC_SET_SP f v s else put_reg rn v s)"

abbreviation rn_of :: "mm_decoded \<Rightarrow> 'x mach \<Rightarrow> u32"
  where "rn_of d s \<equiv> cpu_r (mc_cpu s) (d_rn d)"

abbreviation rm_of :: "mm_decoded \<Rightarrow> 'x mach \<Rightarrow> u32"
  where "rm_of d s \<equiv> cpu_r (mc_cpu s) (d_rm d)"

abbreviation rd_of :: "mm_decoded \<Rightarrow> 'x mach \<Rightarrow> u32"
  where "rd_of d s \<equiv> cpu_r (mc_cpu s) (d_rd d)"

abbreviation shifted_addr :: "u32 \<Rightarrow> mm_decoded \<Rightarrow> 'x mach \<Rightarrow> u32"
  where "shifted_addr msk d s \<equiv> rn_of d s + push_bit (unat (d_imm d AND msk)) (rm_of d s)"

definition sext8 :: "u32 \<Rightarrow> u32"
  where "sext8 val = (if val AND 0x80 \<noteq> 0 then val OR 0xffffff80 else val AND 0xff)"

definition sext16 :: "u32 \<Rightarrow> u32"
  where "sext16 val = (if val AND 0x8000 \<noteq> 0 then val OR 0xffff0000 else val)"

subsection \<open>Word loads and stores\<close>

text \<open>A loaded word goes to a register, or through \<^verbatim>\<open>handle_pc_write\<close> to PC.\<close>

definition load_word_to :: "mm_decoded \<Rightarrow> u32 \<Rightarrow> 'x mach \<Rightarrow> mm_exec_status \<times> 'x mach"
  where "load_word_to d val s =
    (if d_rd d = 15 then (MM_EXEC_CONTINUE, write_pc val s) else put_reg (d_rd d) val s)"

definition op_LDR_LITERAL :: "'x exec_op"
  where "op_LDR_LITERAL f d s =
    exec_read f (((f_pc_fetch f + 4) AND NOT 3) + d_imm d) 4 True (load_word_to d) s"

definition op_LDR_IMM :: "'x exec_op"
  where "op_LDR_IMM f d s = exec_read f (rn_of d s + d_imm d) 4 False (load_word_to d) s"

definition op_LDR_REG :: "'x exec_op"
  where "op_LDR_REG f d s = exec_read f (shifted_addr 0x3 d s) 4 False (load_word_to d) s"

definition op_LDREX :: "'x exec_op"
  where "op_LDREX f d s =
    (let addr = rn_of d s in
     exec_read f addr 4 False (\<lambda>val s. (MM_EXEC_OK,
       on_cpu (\<lambda>c. let c = (if d_rd d \<noteq> 15 then set_r (d_rd d) val c else c)
                   in mm_cpu_excl_set c (sec_state c) addr 4) s)) s)"

definition op_STREX :: "'x exec_op"
  where "op_STREX f d s =
    (let addr = rn_of d s;
         (ok, c) = mm_cpu_excl_check_and_clear (mc_cpu s) (sec_state (mc_cpu s)) addr 4;
         fin = (\<lambda>s. (MM_EXEC_OK, on_cpu (\<lambda>c. if d_rd d \<noteq> 15 then set_r (d_rd d) (if ok then 0 else 1) c else c) s));
         s = s\<lparr>mc_cpu := c\<rparr>
     in if ok then exec_write f addr 4 (rm_of d s) fin s else fin s)"

definition op_STR_IMM :: "'x exec_op"
  where "op_STR_IMM f d s = exec_write f (rn_of d s + d_imm d) 4 (rd_of d s) (Pair MM_EXEC_OK) s"

definition op_STR_REG :: "'x exec_op"
  where "op_STR_REG f d s = exec_write f (shifted_addr 0x3 d s) 4 (rd_of d s) (Pair MM_EXEC_OK) s"

text \<open>The indexed loads of a word write PC before the base register is updated.\<close>

definition load_then_writeback :: "mm_fetch_result \<Rightarrow> mm_decoded \<Rightarrow> u32 \<Rightarrow> u32 \<Rightarrow> 'x mach \<Rightarrow> mm_exec_status \<times> 'x mach"
  where "load_then_writeback f d new_rn val s =
    (let s = (if d_rd d = 15 then write_pc val s else on_cpu (set_r (d_rd d) val) s)
     in writeback f (d_rn d) new_rn s)"

definition op_LDR_POST_IMM :: "'x exec_op"
  where "op_LDR_POST_IMM f d s =
    (let addr = rn_of d s in exec_read f addr 4 False (load_then_writeback f d (addr + d_imm d)) s)"

definition op_LDR_PRE_IMM :: "'x exec_op"
  where "op_LDR_PRE_IMM f d s =
    (let addr = rn_of d s + d_imm d in exec_read f addr 4 False (load_then_writeback f d addr) s)"

definition op_STR_POST_IMM :: "'x exec_op"
  where "op_STR_POST_IMM f d s =
    (let addr = rn_of d s in exec_write f addr 4 (rd_of d s) (writeback f (d_rn d) (addr + d_imm d)) s)"

definition op_STR_PRE_IMM :: "'x exec_op"
  where "op_STR_PRE_IMM f d s =
    (let addr = rn_of d s + d_imm d in exec_write f addr 4 (rd_of d s) (writeback f (d_rn d) addr) s)"

subsection \<open>Byte loads and stores\<close>

definition op_LDRB_POST_IMM :: "'x exec_op"
  where "op_LDRB_POST_IMM f d s =
    (let addr = rn_of d s in
     exec_read f addr 1 False (\<lambda>val s. writeback f (d_rn d) (addr + d_imm d)
       (on_cpu (set_r (d_rd d) (val AND 0xff)) s)) s)"

definition op_LDRB_PRE_IMM :: "'x exec_op"
  where "op_LDRB_PRE_IMM f d s =
    (let addr = rn_of d s + d_imm d in
     exec_read f addr 1 False (\<lambda>val s. writeback f (d_rn d) addr (on_cpu (set_r (d_rd d) (val AND 0xff)) s)) s)"

definition op_STRB_POST_IMM :: "'x exec_op"
  where "op_STRB_POST_IMM f d s =
    (let addr = rn_of d s in exec_write f addr 1 (rd_of d s) (writeback f (d_rn d) (addr + d_imm d)) s)"

definition op_STRB_PRE_IMM :: "'x exec_op"
  where "op_STRB_PRE_IMM f d s =
    (let addr = rn_of d s + d_imm d in exec_write f addr 1 (rd_of d s) (writeback f (d_rn d) addr) s)"

definition op_STRB_REG :: "'x exec_op"
  where "op_STRB_REG f d s = exec_write f (shifted_addr 0x1f d s) 1 (rd_of d s) (Pair MM_EXEC_OK) s"

definition op_LDRB_REG :: "'x exec_op"
  where "op_LDRB_REG f d s =
    exec_read f (shifted_addr 0x1f d s) 1 False (\<lambda>val. put_reg (d_rd d) (val AND 0xff)) s"

definition op_LDRB_IMM :: "'x exec_op"
  where "op_LDRB_IMM f d s =
    exec_read f (rn_of d s + d_imm d) 1 False (\<lambda>val. put_reg (d_rd d) (val AND 0xff)) s"

definition op_LDRSB_IMM :: "'x exec_op"
  where "op_LDRSB_IMM f d s =
    exec_read f (rn_of d s + d_imm d) 1 False (\<lambda>val. put_reg (d_rd d) (sext8 val)) s"

definition op_LDRSB_REG :: "'x exec_op"
  where "op_LDRSB_REG f d s =
    exec_read f (rn_of d s + rm_of d s) 1 False (\<lambda>val. put_reg (d_rd d) (sext8 val)) s"

definition op_STRB_IMM :: "'x exec_op"
  where "op_STRB_IMM f d s = exec_write f (rn_of d s + d_imm d) 1 (rd_of d s) (Pair MM_EXEC_OK) s"

subsection \<open>Halfword loads and stores\<close>

definition op_LDRSH_IMM :: "'x exec_op"
  where "op_LDRSH_IMM f d s =
    exec_read f (rn_of d s + d_imm d) 2 False (\<lambda>val. put_reg (d_rd d) (sext16 val)) s"

definition op_LDRSH_REG :: "'x exec_op"
  where "op_LDRSH_REG f d s =
    exec_read f (shifted_addr 0x3 d s) 2 False (\<lambda>val. put_reg (d_rd d) (sext16 val)) s"

definition op_LDRH_IMM :: "'x exec_op"
  where "op_LDRH_IMM f d s =
    exec_read f (rn_of d s + d_imm d) 2 False (\<lambda>val. put_reg (d_rd d) (val AND 0xffff)) s"

text \<open>The indexed halfword forms write the base register directly, SP included.\<close>

definition op_LDRH_PRE_IMM :: "'x exec_op"
  where "op_LDRH_PRE_IMM f d s =
    (let addr = rn_of d s + d_imm d in
     exec_read f addr 2 False (\<lambda>val s. put_reg (d_rn d) addr (on_cpu (set_r (d_rd d) (val AND 0xffff)) s)) s)"

definition op_LDRH_POST_IMM :: "'x exec_op"
  where "op_LDRH_POST_IMM f d s =
    (let base = rn_of d s in
     exec_read f base 2 False (\<lambda>val s. put_reg (d_rn d) (base + d_imm d)
       (on_cpu (set_r (d_rd d) (val AND 0xffff)) s)) s)"

definition op_LDRH_REG :: "'x exec_op"
  where "op_LDRH_REG f d s =
    exec_read f (shifted_addr 0x3 d s) 2 False (\<lambda>val. put_reg (d_rd d) (val AND 0xffff)) s"

definition op_STRH_IMM :: "'x exec_op"
  where "op_STRH_IMM f d s =
    exec_write f (rn_of d s + d_imm d) 2 (rd_of d s AND 0xffff) (Pair MM_EXEC_OK) s"

definition op_STRH_PRE_IMM :: "'x exec_op"
  where "op_STRH_PRE_IMM f d s =
    (let addr = rn_of d s + d_imm d in exec_write f addr 2 (rd_of d s AND 0xffff) (put_reg (d_rn d) addr) s)"

definition op_STRH_POST_IMM :: "'x exec_op"
  where "op_STRH_POST_IMM f d s =
    (let base = rn_of d s in
     exec_write f base 2 (rd_of d s AND 0xffff) (put_reg (d_rn d) (base + d_imm d)) s)"

definition op_STRH_REG :: "'x exec_op"
  where "op_STRH_REG f d s =
    exec_write f (shifted_addr 0x3 d s) 2 (rd_of d s AND 0xffff) (Pair MM_EXEC_OK) s"

subsection \<open>Double words\<close>

definition op_LDRD :: "'x exec_op"
  where "op_LDRD f d s =
    (let load = (d_kind d = MM_OP_LDRD);
         u = (d_imm d AND 0x80000000 \<noteq> 0); w = (d_imm d AND 0x40000000 \<noteq> 0);
         p = (d_imm d AND 0x20000000 \<noteq> 0);
         imm = d_imm d AND 0x3ff; base = rn_of d s;
         indexed = (if u then base + imm else base - imm);
         addr = (if p then indexed else base);
         fin = (\<lambda>s. if w then writeback f (d_rn d) indexed s else (MM_EXEC_OK, s))
     in if load then
          exec_read f addr 4 False (\<lambda>v1.
            exec_read f (addr + 4) 4 False (\<lambda>v2 s.
              fin (on_cpu (set_r (d_rm d) v2) (on_cpu (set_r (d_rd d) v1) s)))) s
        else
          exec_write f addr 4 (rd_of d s) (\<lambda>s. exec_write f (addr + 4) 4 (rm_of d s) fin s) s)"

subsection \<open>Multiple transfers\<close>

definition in_list :: "u32 \<Rightarrow> nat \<Rightarrow> bool"
  where "in_list msk reg = (msk AND push_bit reg 1 \<noteq> 0)"

definition count_regs :: "u32 \<Rightarrow> nat list \<Rightarrow> u32"
  where "count_regs msk regs = of_nat (length (filter (in_list msk) regs))"

text \<open>The store loop ends at the first refused word; the result carries the next address.\<close>

fun stm_loop :: "mm_fetch_result \<Rightarrow> u32 \<Rightarrow> nat list \<Rightarrow> u32 \<Rightarrow> 'x mach \<Rightarrow> u32 \<times> 'x mach" where
  "stm_loop f msk [] addr s = (addr, s)"
| "stm_loop f msk (reg # regs) addr s =
    (if \<not> in_list msk reg then stm_loop f msk regs addr s
     else
       (let c = mc_cpu s;
            val = (if reg = 15 then cpu_r c 15 OR 1 else cpu_r c (of_nat reg));
            (ok, m) = mm_memmap_write (mc_map s) (sec_state c) addr 4 val;
            s = s\<lparr>mc_map := m\<rparr>
        in if ok then stm_loop f msk regs (addr + 4) s else (addr, mem_fault f addr False s)))"

text \<open>The load loop also ends after an exception return through PC, which its flag reports.\<close>

fun ldm_loop :: "mm_fetch_result \<Rightarrow> (nat \<Rightarrow> bool) \<Rightarrow> nat list \<Rightarrow> u32 \<Rightarrow> 'x mach \<Rightarrow> bool \<times> u32 \<times> 'x mach" where
  "ldm_loop f sel [] addr s = (False, addr, s)"
| "ldm_loop f sel (reg # regs) addr s =
    (if \<not> sel reg then ldm_loop f sel regs addr s
     else
       (let (v, m) = mm_memmap_read (mc_map s) (sec_state (mc_cpu s)) addr 4; s = s\<lparr>mc_map := m\<rparr>
        in case v of
             None \<Rightarrow> (False, addr, mem_fault f addr False s)
           | Some val \<Rightarrow>
             if reg = 15 then
               (let s = write_pc val s in
                if is_exc_return val then (True, addr + 4, s) else ldm_loop f sel regs (addr + 4) s)
             else ldm_loop f sel regs (addr + 4) (on_cpu (set_r (of_nat reg) val) s)))"

definition op_STM :: "'x exec_op"
  where "op_STM f d s =
    (let opc = drop_bit 24 (d_imm d) AND 0x3; wbit = drop_bit 16 (d_imm d) AND 0x1;
         msk = d_imm d AND 0xffff; base = rn_of d s;
         count = count_regs msk [0..<16]
     in if count = 0 then (MM_EXEC_OK, s)
        else
          (let start = (if opc = 2 then base - 4 * count else base);
               (taken, s1) =
                 (if d_kind d = MM_OP_STM then (False, snd (stm_loop f msk [0..<16] start s))
                  else (let (t, _, s') = ldm_loop f (in_list msk) [0..<16] start s in (t, s')))
           in if wbit \<noteq> 0 \<and> \<not> mc_done s1 \<and> \<not> taken then
                (if d_kind d = MM_OP_LDM \<and> in_list msk (unat (d_rn d)) then (MM_EXEC_OK, s1)
                 else
                   (let new_rn = (if opc = 2 then base - 4 * count else base + 4 * count);
                        s2 = on_cpu (set_r (d_rn d) new_rn) s1
                    in if d_rn d = 13 then EXEC_SET_SP f (cpu_r (mc_cpu s2) 13) s2 else (MM_EXEC_OK, s2)))
              else (MM_EXEC_OK, s1)))"

definition store_lr :: "mm_fetch_result \<Rightarrow> u32 \<Rightarrow> 'x mach \<Rightarrow> 'x mach"
  where "store_lr f addr s =
    (let (ok, m) = mm_memmap_write (mc_map s) (sec_state (mc_cpu s)) addr 4 (cpu_r (mc_cpu s) 14);
         s' = s\<lparr>mc_map := m\<rparr>
     in if ok then s' else mem_fault f addr False s')"

definition op_PUSH :: "'x exec_op"
  where "op_PUSH f d s =
    (let sp = mm_cpu_get_active_sp (mc_cpu s);
         msk = to_u32 (to_u16 (d_imm d));
         lr = (msk AND 0x0100 \<noteq> 0);
         count = count_regs msk [0..<8] + (if lr then 1 else 0);
         (addr, s1) = stm_loop f msk [0..<8] (sp - count * 4) s;
         s2 = (if \<not> mc_done s1 \<and> lr then store_lr f addr s1 else s1)
     in if \<not> mc_done s2 then EXEC_SET_SP f (sp - count * 4) s2 else (MM_EXEC_OK, s2))"

definition op_POP :: "'x exec_op"
  where "op_POP f d s =
    (let sp = mm_cpu_get_active_sp (mc_cpu s);
         msk = to_u32 (to_u16 (d_imm d));
         sel = (\<lambda>reg. if reg > 7 \<and> reg \<noteq> 15 then False
                      else if reg = 15 then msk AND 0x0100 \<noteq> 0 else in_list msk reg);
         (taken, sp', s1) = ldm_loop f sel [0..<16] sp s
     in if \<not> taken then EXEC_SET_SP f sp' s1 else (MM_EXEC_OK, s1))"

definition mem_table :: "(mm_op_kind \<times> 'x exec_op) list"
  where "mem_table =
    [(MM_OP_LDR_LITERAL, op_LDR_LITERAL), (MM_OP_LDR_IMM, op_LDR_IMM), (MM_OP_LDR_REG, op_LDR_REG),
     (MM_OP_LDREX, op_LDREX), (MM_OP_STREX, op_STREX), (MM_OP_STR_IMM, op_STR_IMM), (MM_OP_STR_REG, op_STR_REG),
     (MM_OP_LDR_POST_IMM, op_LDR_POST_IMM), (MM_OP_LDR_PRE_IMM, op_LDR_PRE_IMM),
     (MM_OP_LDRB_POST_IMM, op_LDRB_POST_IMM), (MM_OP_STRB_POST_IMM, op_STRB_POST_IMM),
     (MM_OP_LDRB_PRE_IMM, op_LDRB_PRE_IMM), (MM_OP_STRB_PRE_IMM, op_STRB_PRE_IMM),
     (MM_OP_STR_POST_IMM, op_STR_POST_IMM), (MM_OP_STR_PRE_IMM, op_STR_PRE_IMM),
     (MM_OP_STRB_REG, op_STRB_REG), (MM_OP_LDRB_REG, op_LDRB_REG), (MM_OP_LDRB_IMM, op_LDRB_IMM),
     (MM_OP_LDRSB_IMM, op_LDRSB_IMM), (MM_OP_LDRSH_IMM, op_LDRSH_IMM), (MM_OP_LDRSH_REG, op_LDRSH_REG),
     (MM_OP_STRB_IMM, op_STRB_IMM), (MM_OP_LDRH_IMM, op_LDRH_IMM), (MM_OP_LDRH_PRE_IMM, op_LDRH_PRE_IMM),
     (MM_OP_LDRH_POST_IMM, op_LDRH_POST_IMM), (MM_OP_LDRH_REG, op_LDRH_REG), (MM_OP_LDRSB_REG, op_LDRSB_REG),
     (MM_OP_STRH_IMM, op_STRH_IMM), (MM_OP_STRH_PRE_IMM, op_STRH_PRE_IMM), (MM_OP_STRH_POST_IMM, op_STRH_POST_IMM),
     (MM_OP_STRH_REG, op_STRH_REG), (MM_OP_LDRD, op_LDRD), (MM_OP_STRD, op_LDRD),
     (MM_OP_STM, op_STM), (MM_OP_LDM, op_STM), (MM_OP_PUSH, op_PUSH), (MM_OP_POP, op_POP)]"

subsection \<open>The loops on good memory\<close>

lemma stm_loop_stores:
  assumes "15 \<notin> set regs"
    and "store_words (wr32 (sec_state (mc_cpu s))) (mc_map s) addr
      (map (\<lambda>r. cpu_r (mc_cpu s) (of_nat r)) (filter (in_list msk) regs)) = (True, m)"
  shows "stm_loop f msk regs addr s = (addr + 4 * count_regs msk regs, s\<lparr>mc_map := m\<rparr>)"
  using assms
proof (induction regs arbitrary: addr s)
  case (Cons r regs)
  then show ?case
    by (cases "in_list msk r")
      (auto simp: wr32_def Let_def count_regs_def algebra_simps split: prod.splits if_splits)
qed (simp add: count_regs_def)

definition load_regs :: "nat list \<Rightarrow> u32 list \<Rightarrow> mm_cpu \<Rightarrow> mm_cpu"
  where "load_regs rs vs c = c\<lparr>cpu_r := fold (\<lambda>(r, v) f. f(of_nat r := v)) (zip rs vs) (cpu_r c)\<rparr>"

lemma ldm_loop_loads:
  assumes "15 \<notin> set (filter sel regs)"
    and "pop_words (rd32 (sec_state (mc_cpu s))) (mc_map s) addr (length (filter sel regs)) = (Some vs, m)"
  shows "ldm_loop f sel regs addr s =
    (False, addr + 4 * of_nat (length (filter sel regs)),
     s\<lparr>mc_map := m, mc_cpu := load_regs (filter sel regs) vs (mc_cpu s)\<rparr>)"
  using assms
proof (induction regs arbitrary: addr s vs)
  case (Cons r regs)
  show ?case
  proof (cases "sel r")
    case False
    then show ?thesis using Cons by simp
  next
    case True
    obtain v m1 where v: "rd32 (sec_state (mc_cpu s)) (mc_map s) addr = (Some v, m1)"
      using Cons.prems(2) True by (auto split: prod.splits option.splits)
    obtain ws where ws: "pop_words (rd32 (sec_state (mc_cpu s))) m1 (addr + 4) (length (filter sel regs)) = (Some ws, m)"
      "vs = v # ws"
      using Cons.prems(2) True v by (auto split: prod.splits option.splits)
    let ?s = "s\<lparr>mc_map := m1, mc_cpu := set_r (of_nat r) v (mc_cpu s)\<rparr>"
    have "ldm_loop f sel (r # regs) addr s = ldm_loop f sel regs (addr + 4) ?s"
      using True v Cons.prems(1) by (simp add: rd32_def on_cpu_def)
    also have "\<dots> = (False, addr + 4 + 4 * of_nat (length (filter sel regs)),
        ?s\<lparr>mc_map := m, mc_cpu := load_regs (filter sel regs) ws (mc_cpu ?s)\<rparr>)"
      using ws(1) Cons.prems(1) True by (intro Cons.IH) simp_all
    finally show ?thesis using True ws(2) by (simp add: load_regs_def algebra_simps)
  qed
qed (simp add: load_regs_def)

lemma load_regs_get:
  assumes "distinct rs" "length vs = length rs" "i < length rs" "\<forall>r \<in> set rs. r < 256"
  shows "cpu_r (load_regs rs vs c) (of_nat (rs ! i)) = vs ! i"
  using assms
proof (induction rs arbitrary: vs c i)
  case (Cons r rs)
  obtain v ws where vs: "vs = v # ws" using Cons.prems(2) by (cases vs) auto
  have keep: "cpu_r (load_regs rs ws c) (of_nat r) = cpu_r c (of_nat r)" for c
  proof -
    have ne: "(of_nat r :: u8) \<noteq> of_nat q" if "q \<in> set rs" for q
      using that Cons.prems(1,4) by (auto simp: word_of_nat_eq_iff take_bit_nat_eq_self)
    have "(of_nat r :: u8) \<notin> of_nat ` set ps \<Longrightarrow>
      fold (\<lambda>(r, v) f. f(of_nat r := v)) (zip ps us) g (of_nat r) = g (of_nat r)" for ps us and g :: "u8 \<Rightarrow> u32"
    proof (induction ps arbitrary: us g)
      case (Cons p ps)
      then show ?case by (cases us) auto
    qed simp
    then show ?thesis using ne by (auto simp: load_regs_def)
  qed
  show ?case
  proof (cases i)
    case 0
    then show ?thesis using keep [of "set_r (of_nat r) v c"] vs by (simp add: load_regs_def)
  next
    case (Suc j)
    then show ?thesis using Cons.IH [of ws j "set_r (of_nat r) v c"] Cons.prems vs by (simp add: load_regs_def)
  qed
qed simp

subsection \<open>PUSH and POP\<close>

abbreviation low_regs :: "u32 \<Rightarrow> nat list"
  where "low_regs msk \<equiv> filter (in_list msk) [0..<8]"

lemma mask_small:
  fixes v :: u32
  assumes "v < 0x100"
  shows "to_u32 (to_u16 v) = v" and "v AND 0x100 = 0"
proof -
  have "take_bit 8 (unat v) = unat v"
    using assms by (simp add: take_bit_nat_eq_self word_less_nat_alt)
  then have b: "v = take_bit 8 v" by (simp add: word_unat_eq_iff unsigned_take_bit_eq)
  show "to_u32 (to_u16 v) = v" by (subst (1 2) b) (rule bit_word_eqI, auto simp: casts bit_simps)
  have "\<not> bit v 8" by (subst b) (simp add: bit_simps)
  then show "v AND 0x100 = 0" using and_bit_nonzero [of v 8] by simp
qed

lemma pop_selects:
  assumes "msk AND 0x100 = 0"
  shows "filter (\<lambda>reg. if reg > 7 \<and> reg \<noteq> 15 then False else if reg = 15 then msk AND 0x100 \<noteq> 0 else in_list msk reg)
     [0..<16] = low_regs msk" (is "filter ?sel _ = _")
proof -
  have "[0..<16] = [0..<8] @ [8..<16]" using upt_add_eq_append [of 0 8 8] by simp
  moreover have "filter ?sel [8..<16] = []" using assms by (auto simp: filter_empty_conv)
  moreover have "filter ?sel [0..<8] = low_regs msk" by (rule filter_cong) auto
  ultimately show ?thesis by simp
qed

text \<open>Changing the register file does not change what the stack pointer accessors see.\<close>

lemma cpu_r_sp [simp]:
  "mm_cpu_get_active_sp (c\<lparr>cpu_r := r\<rparr>) = mm_cpu_get_active_sp c"
  "mm_cpu_get_active_splim (c\<lparr>cpu_r := r\<rparr>) = mm_cpu_get_active_splim c"
  by (simp_all add: mm_cpu_get_active_sp_def mm_cpu_get_active_splim_def use_psp_def control_sp_sel_def)

lemma splim_set_active_sp [simp]:
  "mm_cpu_get_active_splim (mm_cpu_set_active_sp c v) = mm_cpu_get_active_splim c"
  by (simp add: mm_cpu_get_active_splim_def) (simp add: mm_cpu_set_active_sp_def msp_track_defs Let_def)

lemma set_sp_ok:
  "mm_cpu_get_active_splim (mc_cpu s) = 0 \<or> mm_cpu_get_active_splim (mc_cpu s) \<le> v \<Longrightarrow>
   EXEC_SET_SP f v s = (MM_EXEC_OK, on_cpu (\<lambda>c. mm_cpu_set_active_sp c v) s)"
  by (auto simp: EXEC_SET_SP_def exec_set_active_sp_def Let_def not_less)

lemma push_stores:
  assumes "d_imm d < 0x100" and "n = 4 * count_regs (d_imm d) [0..<8]" and "sp = mm_cpu_get_active_sp (mc_cpu s)"
    and "mm_cpu_get_active_splim (mc_cpu s) = 0 \<or> mm_cpu_get_active_splim (mc_cpu s) \<le> sp - n" and "\<not> mc_done s"
    and "store_words (wr32 (sec_state (mc_cpu s))) (mc_map s) (sp - n)
      (map (\<lambda>r. cpu_r (mc_cpu s) (of_nat r)) (low_regs (d_imm d))) = (True, m)"
  shows "op_PUSH f d s = (MM_EXEC_OK, on_cpu (\<lambda>c. mm_cpu_set_active_sp c (sp - n)) (s\<lparr>mc_map := m\<rparr>))"
proof -
  have "stm_loop f (d_imm d) [0..<8] (sp - n) s = (sp - n + n, s\<lparr>mc_map := m\<rparr>)"
    unfolding assms(2) by (rule stm_loop_stores) (use assms(2,6) in simp_all)
  moreover have "sp - count_regs (d_imm d) [0..<8] * 4 = sp - n" by (simp add: assms(2))
  ultimately show ?thesis
    using assms(4,5) by (simp add: op_PUSH_def mask_small [OF assms(1)] Let_def set_sp_ok flip: assms(3))
qed

lemma pop_loads:
  assumes "d_imm d < 0x100" and "sp = mm_cpu_get_active_sp (mc_cpu s)"
    and "sp' = sp + 4 * count_regs (d_imm d) [0..<8]"
    and "mm_cpu_get_active_splim (mc_cpu s) = 0 \<or> mm_cpu_get_active_splim (mc_cpu s) \<le> sp'"
    and "pop_words (rd32 (sec_state (mc_cpu s))) (mc_map s) sp (length (low_regs (d_imm d))) = (Some vs, m)"
  shows "op_POP f d s = (MM_EXEC_OK, s\<lparr>mc_map := m, mc_cpu :=
    mm_cpu_set_active_sp (load_regs (low_regs (d_imm d)) vs (mc_cpu s)) sp'\<rparr>)"
proof -
  note z = mask_small [OF assms(1)]
  note l = ldm_loop_loads [of "\<lambda>reg. if reg > 7 \<and> reg \<noteq> 15 then False else if reg = 15 then d_imm d AND 0x100 \<noteq> 0
      else in_list (d_imm d) reg" "[0..<16]", unfolded pop_selects [OF z(2)], OF _ assms(5)]
  have lim: "mm_cpu_get_active_splim (load_regs r v c) = mm_cpu_get_active_splim c" for r v c
    by (simp add: load_regs_def)
  show ?thesis
    using assms(3,4) l
    by (simp add: op_POP_def z Let_def set_sp_ok lim on_cpu_def count_regs_def flip: assms(2))
qed

lemma popped_values:
  "list_all (\<lambda>r. cpu_r (mm_cpu_set_active_sp (load_regs (low_regs msk) (map (\<lambda>r. g (of_nat r)) (low_regs msk)) c) sp)
     (of_nat r) = g (of_nat r)) (low_regs msk)"
proof (unfold list_all_length, intro allI impI)
  fix i assume i: "i < length (low_regs msk)"
  then have "low_regs msk ! i \<in> set (low_regs msk)" by (rule nth_mem)
  then have "low_regs msk ! i < 8" by simp
  then have "(of_nat (low_regs msk ! i) :: u8) \<noteq> 13"
    by (auto simp: word_unat_eq_iff unsigned_of_nat take_bit_nat_eq_self)
  moreover have "cpu_r (load_regs (low_regs msk) (map (\<lambda>r. g (of_nat r)) (low_regs msk)) c) (of_nat (low_regs msk ! i)) =
      map (\<lambda>r. g (of_nat r)) (low_regs msk) ! i"
    using i by (intro load_regs_get) auto
  ultimately show "cpu_r (mm_cpu_set_active_sp (load_regs (low_regs msk) (map (\<lambda>r. g (of_nat r)) (low_regs msk)) c) sp)
      (of_nat (low_regs msk ! i)) = g (of_nat (low_regs msk ! i))"
    using i by simp
qed

text \<open>C7: PUSH and POP of the same low registers are inverse: with room on a RAM stack above the
  limit, PUSH moves the stack pointer down by four bytes per register, and POP, whatever the
  registers hold by then, brings back the pushed values and the stack pointer.\<close>

theorem push_pop_restores:
  assumes small: "d_imm d < 0x100" and sp: "sp = mm_cpu_get_active_sp (mc_cpu s)"
    and n: "n = length (low_regs (d_imm d))" and room: "4 * n \<le> unat sp"
    and ram: "\<And>i. i < n \<Longrightarrow> ram_word (sec_state (mc_cpu s)) base (mc_map s) (sp - of_nat (4 * n) + of_nat (4 * i))"
    and lim: "mm_cpu_get_active_splim (mc_cpu s) = 0 \<or> mm_cpu_get_active_splim (mc_cpu s) \<le> sp - of_nat (4 * n)"
    and run: "\<not> mc_done s"
  shows "\<exists>s1. op_PUSH f d s = (MM_EXEC_OK, s1) \<and> mm_cpu_get_active_sp (mc_cpu s1) = sp - of_nat (4 * n) \<and>
    (\<forall>r'. \<exists>s3. op_POP f' d (on_cpu (\<lambda>c. c\<lparr>cpu_r := r'\<rparr>) s1) = (MM_EXEC_OK, s3) \<and>
       mm_cpu_get_active_sp (mc_cpu s3) = sp \<and>
       list_all (\<lambda>r. cpu_r (mc_cpu s3) (of_nat r) = cpu_r (mc_cpu s) (of_nat r)) (low_regs (d_imm d)))"
proof -
  define lo where "lo = sp - of_nat (4 * n)"
  define vs where "vs = map (\<lambda>r. cpu_r (mc_cpu s) (of_nat r)) (low_regs (d_imm d))"
  have "n \<le> 8" using length_filter_le [of "in_list (d_imm d)" "[0..<8]"] by (simp add: n)
  then have un: "unat (of_nat (4 * n) :: u32) = 4 * n" by (simp add: unsigned_of_nat take_bit_nat_eq_self del: of_nat_mult)
  have lo: "unat lo + 4 * n = unat sp" "lo \<le> sp"
    using room un by (simp_all add: lo_def unat_sub word_le_nat_alt)
  have len: "length vs = n" by (simp add: vs_def n)
  have "unat lo + 4 * length vs \<le> 2 ^ 32" using lo(1) len unat_u32_less [of sp] by simp
  then obtain m where m: "store_words (wr32 (sec_state (mc_cpu s))) (mc_map s) lo vs = (True, m)"
    "pop_words (rd32 (sec_state (mc_cpu s))) m lo n = (Some vs, m)"
    using ram.store_load [of lo vs "sec_state (mc_cpu s)" base "mc_map s"] ram unfolding lo_def [symmetric] len by blast
  have cnt: "4 * count_regs (d_imm d) [0..<8] = of_nat (4 * n)" by (simp add: count_regs_def n)
  define s1 where "s1 = on_cpu (\<lambda>c. mm_cpu_set_active_sp c lo) (s\<lparr>mc_map := m\<rparr>)"
  have push: "op_PUSH f d s = (MM_EXEC_OK, s1)"
    unfolding s1_def lo_def using small cnt [symmetric] sp lim run m(1)
    by (intro push_stores) (simp_all add: lo_def vs_def)
  have c1: "mm_cpu_get_active_sp (mc_cpu s1) = lo" "sec_state (mc_cpu s1) = sec_state (mc_cpu s)"
    "mm_cpu_get_active_splim (mc_cpu s1) = mm_cpu_get_active_splim (mc_cpu s)" "mc_map s1 = m"
    by (simp_all add: s1_def on_cpu_def)
  have "\<exists>s3. op_POP f' d (on_cpu (\<lambda>c. c\<lparr>cpu_r := r'\<rparr>) s1) = (MM_EXEC_OK, s3) \<and>
       mm_cpu_get_active_sp (mc_cpu s3) = sp \<and>
       list_all (\<lambda>r. cpu_r (mc_cpu s3) (of_nat r) = cpu_r (mc_cpu s) (of_nat r)) (low_regs (d_imm d))" for r'
  proof -
    let ?s2 = "on_cpu (\<lambda>c. c\<lparr>cpu_r := r'\<rparr>) s1"
    let ?c3 = "mm_cpu_set_active_sp (load_regs (low_regs (d_imm d)) vs (mc_cpu ?s2)) sp"
    have "op_POP f' d ?s2 = (MM_EXEC_OK, ?s2\<lparr>mc_map := m, mc_cpu := ?c3\<rparr>)"
    proof (rule pop_loads [OF small, of lo])
      show "sp = lo + 4 * count_regs (d_imm d) [0..<8]" by (simp add: cnt lo_def)
      show "mm_cpu_get_active_splim (mc_cpu ?s2) = 0 \<or> mm_cpu_get_active_splim (mc_cpu ?s2) \<le> sp"
        using lim lo(2) unfolding lo_def [symmetric] by (auto simp: on_cpu_def c1)
    qed (use m(2) in \<open>simp_all add: on_cpu_def c1 flip: n\<close>)
    moreover have "list_all (\<lambda>r. cpu_r ?c3 (of_nat r) = cpu_r (mc_cpu s) (of_nat r)) (low_regs (d_imm d))"
      unfolding vs_def by (rule popped_values)
    ultimately show ?thesis by simp
  qed
  then show ?thesis using push c1(1) unfolding lo_def by blast
qed

theorem push_pop_restores_witness:
  "\<exists>s1. op_PUSH \<lparr>f_insn = 0xb40f, f_len = 2, f_fault = False, f_fault_addr = 0, f_pc_fetch = 0\<rparr>
       ((mm_decoded_default 2 0xb40f)\<lparr>d_kind := MM_OP_PUSH, d_imm := 0x0f\<rparr>) demo_mach = (MM_EXEC_OK, s1) \<and>
     mm_cpu_get_active_sp (mc_cpu s1) = 0x30000030"
proof -
  let ?f = "\<lparr>f_insn = 0xb40f, f_len = 2, f_fault = False, f_fault_addr = 0, f_pc_fetch = 0\<rparr>"
  let ?d = "(mm_decoded_default 2 0xb40f)\<lparr>d_kind := MM_OP_PUSH, d_imm := 0x0f\<rparr>"
  have c: "mm_cpu_get_active_sp (mc_cpu demo_mach) = 0x30000040" "sec_state (mc_cpu demo_mach) = MM_SECURE"
    "mm_cpu_get_active_splim (mc_cpu demo_mach) = 0" "\<not> mc_done demo_mach"
    by (simp_all add: demo_mach_def cpu_zero_def mm_cpu_get_active_sp_def mm_cpu_get_active_splim_def
        use_psp_def control_sp_sel_def)
  have n: "length (low_regs 0x0f) = 4"
    by (simp add: upt_rec_numeral upt_conv_Cons in_list_def)
  have "ram_word MM_SECURE 0x30000000 (mc_map demo_mach) (0x30000040 - of_nat (4 * 4) + of_nat (4 * i))" if "i < 4" for i
  proof -
    have "i = 0 \<or> i = 1 \<or> i = 2 \<or> i = 3" using that by linarith
    then have "(0x30000040 :: u32) - of_nat (4 * 4) + of_nat (4 * i) = 0x30000040 - of_nat (4 * Suc (3 - i))"
      by (elim disjE) simp_all
    then show ?thesis using demo_ram_word [of "3 - i"] by (simp only:)
  qed
  note r = this
  have d: "d_imm ?d = 0x0f" by simp
  have "\<exists>s1. op_PUSH ?f ?d demo_mach = (MM_EXEC_OK, s1) \<and>
      mm_cpu_get_active_sp (mc_cpu s1) = 0x30000040 - of_nat (4 * 4)"
  proof (rule exE [OF push_pop_restores [of ?d "0x30000040" demo_mach 4 "0x30000000" ?f ?f]])
    show "d_imm ?d < 0x100" unfolding d by simp
    show "(0x30000040 :: u32) = mm_cpu_get_active_sp (mc_cpu demo_mach)" unfolding c by (rule refl)
    show "4 = length (low_regs (d_imm ?d))" unfolding d n by (rule refl)
    show "4 * 4 \<le> unat (0x30000040 :: u32)" by simp
    show "ram_word (sec_state (mc_cpu demo_mach)) 0x30000000 (mc_map demo_mach)
        (0x30000040 - of_nat (4 * 4) + of_nat (4 * i))" if "i < 4" for i
      unfolding c using that by (rule r)
    show "mm_cpu_get_active_splim (mc_cpu demo_mach) = 0 \<or>
        mm_cpu_get_active_splim (mc_cpu demo_mach) \<le> 0x30000040 - of_nat (4 * 4)" unfolding c by simp
  qed (use c in blast)+
  then show ?thesis by simp
qed

end
