(* ===== verification/Execute.thy ===== *)
theory Execute
imports Exec_Mem
begin

text \<open>
  The dispatch of \<^verbatim>\<open>mm_execute_decoded\<close> (\<^verbatim>\<open>src/execute.c\<close>): the \<^verbatim>\<open>switch\<close> over the kind of
  the decoded instruction is one table, put together from the tables of the data-processing,
  control and memory instructions.  The trace output of the function is left out.
\<close>

definition cpu_case :: "alu_op \<Rightarrow> 'x exec_op"
  where "cpu_case op f d s = (MM_EXEC_OK, on_cpu (op (it_remaining s) f d) s)"

definition exec_table :: "(mm_op_kind \<times> 'x exec_op) list"
  where "exec_table = map (\<lambda>(k, op). (k, cpu_case op)) (alu_table @ cpu_table) @ ctl_table @ mem_table"

text \<open>The \<^verbatim>\<open>default:\<close> case.\<close>

definition exec_default :: "'x exec_op"
  where "exec_default f d s =
    (MM_EXEC_CONTINUE,
     let (ok, s') = raise_usage_fault s (f_pc_fetch f) (xpsr (mc_cpu s)) (push_bit 16 1)
     in if ok then s' else set_done (if mc_opt_gdb s' then gdb_notify_stop 4 s' else s'))"

definition mm_execute_decoded :: "'x exec_op"
  where "mm_execute_decoded f d s =
    (case map_of exec_table (d_kind d) of Some op \<Rightarrow> op f d s | None \<Rightarrow> exec_default f d s)"

lemmas table_defs = alu_table_def cpu_table_def ctl_table_def mem_table_def

subsection \<open>The switch is complete\<close>

lemma exec_table_kinds:
  "map fst (exec_table :: (mm_op_kind \<times> 'x exec_op) list) = map fst alu_table @ map fst cpu_table @
    map fst (ctl_table :: (mm_op_kind \<times> 'x exec_op) list) @ map fst (mem_table :: (mm_op_kind \<times> 'x exec_op) list)"
  by (simp add: exec_table_def split_def)

text \<open>The switch handles every instruction kind of the decoder's enumeration exactly once,
  apart from MM\_OP\_UNDEFINED, which the run loop rejects earlier, and MM\_OP\_UDF; those two
  take the default branch, which raises a UsageFault.\<close>

theorem switch_complete:
  "distinct (map fst (exec_table :: (mm_op_kind \<times> 'x exec_op) list)) \<and>
   set (map fst (exec_table :: (mm_op_kind \<times> 'x exec_op) list)) = OpKind ` ({1..139} - {91}) \<and>
   mm_execute_decoded f (d\<lparr>d_kind := MM_OP_UDF\<rparr>) s = exec_default f (d\<lparr>d_kind := MM_OP_UDF\<rparr>) (s :: 'x mach)"
proof -
  let ?T = "exec_table :: (mm_op_kind \<times> 'x exec_op) list" and ?K = "OpKind ` ({1..139} - {91})"
  have inj: "inj OpKind" by (simp add: inj_def)
  have d: "distinct (map fst ?T)" unfolding exec_table_kinds by (simp add: table_defs)
  have "set (map fst ?T) \<subseteq> ?K"
    unfolding exec_table_kinds by (simp add: table_defs inj_image_mem_iff [OF inj])
  moreover have "card ?K = 138" using inj by (subst card_image) (auto intro: inj_on_subset)
  moreover have "card (set (map fst ?T)) = 138"
    unfolding distinct_card [OF d] unfolding exec_table_kinds by (simp add: table_defs)
  ultimately have e: "set (map fst ?T) = ?K" by (intro card_subset_eq) simp_all
  have "MM_OP_UDF \<notin> ?K" by (simp add: inj_image_mem_iff [OF inj])
  then have "map_of ?T MM_OP_UDF = None" unfolding e [symmetric] by (simp add: map_of_eq_None_iff)
  then show ?thesis using d e by (simp add: mm_execute_decoded_def)
qed

end
