(* ===== verification/Run_Loop.thy ===== *)
theory Run_Loop
imports Execute Decode
begin

text \<open>
  The emulator around the executor: \<^verbatim>\<open>src/main.c\<close> from the reset of the machine to the end of
  one iteration of its main loop, \<^verbatim>\<open>src/timer.c\<close>, \<^verbatim>\<open>src/core_sys.c\<close> and the small loop of
  \<^verbatim>\<open>src/runloop.c\<close>.

  What the target description supplies through function pointers (the SoC's peripherals,
  its timers, the polling of host devices) is the record \<^verbatim>\<open>target_hooks\<close>, an argument of the
  definitions.  The debugger, the terminal user interface, the traces, the Capstone cross-check
  and the pacing against host time are not part of an iteration here.
\<close>

record 'e target_hooks =
  th_timer_tick :: "(u64 \<Rightarrow> 'e \<Rightarrow> 'e) option"
  th_poll :: "'e \<Rightarrow> 'e"
  th_bind :: "'e mm_memmap \<Rightarrow> 'e mm_memmap"
  th_prot :: "mm_prot_ctx \<Rightarrow> mm_prot_ctx"

definition mm_timer_tick :: "'e target_hooks \<Rightarrow> u64 \<Rightarrow> 'e \<Rightarrow> 'e"
  where "mm_timer_tick h cycles e = (case th_timer_tick h of None \<Rightarrow> e | Some t \<Rightarrow> t cycles e)"

subsection \<open>Core debug stubs\<close>

definition stub_read :: "u32 \<Rightarrow> u32 \<Rightarrow> u32 option"
  where "stub_read offset size_bytes =
    (if size_bytes \<noteq> 1 \<and> size_bytes \<noteq> 2 \<and> size_bytes \<noteq> 4 then None else Some 0)"

definition stub_write :: "u32 \<Rightarrow> u32 \<Rightarrow> u32 \<Rightarrow> bool"
  where "stub_write offset size_bytes v =
    (if size_bytes \<noteq> 1 \<and> size_bytes \<noteq> 2 \<and> size_bytes \<noteq> 4 then False else True)"

fun core_sys_register :: "u32 list \<Rightarrow> 'e mmio_bus \<Rightarrow> bool \<times> 'e mmio_bus" where
  "core_sys_register [] bus = (True, bus)"
| "core_sys_register (base # rest) bus =
    (let (ok, bus) = mmio_bus_register_region bus
       \<lparr>mr_base = base, mr_size = 0x1000,
        mr_read = Some (\<lambda>_ offset size_bytes e. (stub_read offset size_bytes, e)),
        mr_write = Some (\<lambda>_ offset size_bytes v e. (stub_write offset size_bytes v, e))\<rparr>
     in if ok then core_sys_register rest bus else (False, bus))"

definition mm_core_sys_register :: "'e mmio_bus \<Rightarrow> bool \<times> 'e mmio_bus"
  where "mm_core_sys_register bus = core_sys_register [0xE0000000, 0xE0001000, 0xE0002000] bus"

subsection \<open>Reset of the machine\<close>

definition cfg_total_ram :: "mm_target_cfg \<Rightarrow> u32"
  where "cfg_total_ram cfg =
    (if cfg_ram_regions cfg \<noteq> [] then foldl (\<lambda>t r. t + rr_size r) 0 (cfg_ram_regions cfg)
     else cfg_ram_size_s cfg)"

abbreviation MM_PROT_RWX :: u8 where "MM_PROT_RWX \<equiv> 7"
abbreviation MM_PROT_RW :: u8 where "MM_PROT_RW \<equiv> 3"

definition add_region :: "u32 \<times> u32 \<times> u8 \<times> mm_sec_state \<Rightarrow> mm_prot_ctx \<Rightarrow> mm_prot_ctx"
  where "add_region r ctx = (case r of (base, sz, perms, sec) \<Rightarrow> snd (mm_prot_add_region ctx base sz perms sec))"

definition boot_regions :: "mm_target_cfg \<Rightarrow> (u32 \<times> u32 \<times> u8 \<times> mm_sec_state) list"
  where "boot_regions cfg =
    [(cfg_flash_base_s cfg, cfg_flash_size_s cfg, MM_PROT_RWX, MM_SECURE),
     (cfg_flash_base_ns cfg, cfg_flash_size_ns cfg, MM_PROT_RWX, MM_NONSECURE)] @
    (if cfg_ram_regions cfg \<noteq> [] then
       concat (map (\<lambda>r. [(rr_base_s r, rr_size r, MM_PROT_RWX, MM_SECURE),
                         (rr_base_ns r, rr_size r, MM_PROT_RWX, MM_NONSECURE)]) (cfg_ram_regions cfg))
     else [(cfg_ram_base_s cfg, cfg_ram_size_s cfg, MM_PROT_RWX, MM_SECURE),
           (cfg_ram_base_ns cfg, cfg_ram_size_ns cfg, MM_PROT_RWX, MM_NONSECURE)]) @
    [(0x40000000, 0x20000000, MM_PROT_RW, MM_SECURE), (0x40000000, 0x20000000, MM_PROT_RW, MM_NONSECURE)]"

definition boot_prot :: "'e target_hooks \<Rightarrow> mm_target_cfg \<Rightarrow> mm_prot_ctx"
  where "boot_prot h cfg = th_prot h (fold add_region (boot_regions cfg) (mm_prot_init cfg))"

definition scs_interceptor ::
  "mm_prot_ctx \<Rightarrow> mm_access_type \<Rightarrow> mm_sec_state \<Rightarrow> u32 \<Rightarrow> u32 \<Rightarrow> 'x scs_dev_scheme \<Rightarrow> bool \<times> 'x scs_dev_scheme"
  where "scs_interceptor ctx type sec addr sz e =
    (let (ok, scs) = mm_prot_interceptor ctx type sec addr sz (sd_scs e) in (ok, e\<lparr>sd_scs := scs\<rparr>))"

definition boot_map ::
  "'x scs_dev_scheme target_hooks \<Rightarrow> mm_target_cfg \<Rightarrow> u8 list \<Rightarrow> u8 list \<Rightarrow> bool \<Rightarrow> 'x scs_dev_scheme \<Rightarrow> 'x xmap"
  where "boot_map h cfg flash ram trace e =
    (let m = mm_memmap_init 128 (e\<lparr>sd_reset_requested := False\<rparr>);
         m = mm_memmap_configure_flash m cfg flash True;
         m = mm_memmap_configure_flash m cfg flash False;
         m = m\<lparr>mm_flash := (mm_flash m)\<lparr>m_base := cfg_flash_base_s cfg, m_length := unat (cfg_flash_size_s cfg)\<rparr>\<rparr>;
         m = mm_memmap_configure_ram m cfg ram True;
         m = mm_memmap_configure_ram m cfg ram False;
         m = m\<lparr>mm_ram := (mm_ram m)\<lparr>m_base := cfg_ram_base_s cfg, m_length := unat (cfg_total_ram cfg)\<rparr>\<rparr>;
         m = th_bind h m;
         m = upd_scs (\<lambda>scs. mm_scs_init scs 0x410fc241 trace) m;
         m = m\<lparr>mm_mmio := snd (mm_scs_register_regions (mm_mmio m) 0xE000ED00 0xE002ED00)\<rparr>;
         m = m\<lparr>mm_mmio := snd (mm_core_sys_register (mm_mmio m))\<rparr>;
         m = mm_memmap_set_interceptor m (Some (scs_interceptor (boot_prot h cfg)))
     in m\<lparr>mm_env := (mm_env m)\<lparr>sd_nvic := Some mm_nvic_init\<rparr>\<rparr>)"

definition cpu_reset :: "mm_target_cfg \<Rightarrow> mm_cpu \<Rightarrow> mm_cpu"
  where "cpu_reset cfg c = c\<lparr>
    cpu_r := (\<lambda>_. 0), xpsr := 0, sec_state := MM_SECURE, cpu_mode := MM_THREAD,
    priv_s := False, priv_ns := False, control_s := 0, control_ns := 0,
    primask_s := 0, primask_ns := 0, basepri_s := 0, basepri_ns := 0,
    faultmask_s := 0, faultmask_ns := 0, msp_s := 0, msp_ns := 0, psp_s := 0, psp_ns := 0,
    vtor_s := cfg_flash_base_s cfg, vtor_ns := cfg_flash_base_ns cfg,
    exc_depth := 0, tz_depth := 0, sleeping := False, event_reg := False\<rparr>"

text \<open>The body of the outer loop up to the main loop; None when the reset vector cannot be read.\<close>

definition machine_reset ::
  "'x scs_dev_scheme target_hooks \<Rightarrow> mm_target_cfg \<Rightarrow> u8 list \<Rightarrow> u8 list \<Rightarrow> bool \<Rightarrow> 'x mach \<Rightarrow> 'x mach option"
  where "machine_reset h cfg flash ram trace s =
    (let m = boot_map h cfg flash ram trace (mm_env (mc_map s));
         c = cpu_reset cfg (mc_cpu s);
         (ok, c, m) = mm_vector_apply_reset c m MM_SECURE
     in if \<not> ok then None
        else
          (let m = upd_scs (\<lambda>scs. scs\<lparr>sc_vtor_s := vtor_s c, sc_vtor_ns := vtor_ns c\<rparr>) m;
               s = (if mc_opt_gdb s then gdb_notify_stop 5 s else s)
           in Some (s\<lparr>mc_cpu := set_r 14 0xFFFFFFFF c, mc_map := m, mc_done := False,
                        mc_cycles_since_poll := 0\<rparr>)))"

subsection \<open>One iteration of the main loop\<close>

datatype loop_outcome =
    LOOP_TAIL
  | LOOP_CONTINUE
  | LOOP_BREAK
  | LOOP_RESET
  | LOOP_UB

definition irq_selected :: "'x mach \<Rightarrow> (nat \<times> mm_sec_state) option"
  where "irq_selected s =
    (case sd_nvic (mm_env (mc_map s)) of None \<Rightarrow> None | Some n \<Rightarrow> mm_nvic_select_routed n (mc_cpu s))"

definition irq_accept :: "nat \<Rightarrow> 'x mach \<Rightarrow> 'x mach"
  where "irq_accept irq s =
    s\<lparr>mc_map := (mc_map s)\<lparr>mm_env := (mm_env (mc_map s))\<lparr>sd_nvic :=
        map_option (\<lambda>n. mm_nvic_set_pending n (of_nat irq) False) (sd_nvic (mm_env (mc_map s)))\<rparr>\<rparr>\<rparr>"

definition advance :: "'x scs_dev_scheme target_hooks \<Rightarrow> u64 \<Rightarrow> 'x mach \<Rightarrow> 'x mach"
  where "advance h cycles s =
    (let m = upd_scs (\<lambda>scs. snd (mm_scs_systick_advance scs cycles)) (mc_map s)
     in s\<lparr>mc_map := m\<lparr>mm_env := mm_timer_tick h cycles (mm_env m)\<rparr>,
          mc_cycles_since_poll := mc_cycles_since_poll s + cycles\<rparr>)"

definition poll_hosts :: "'x scs_dev_scheme target_hooks \<Rightarrow> 'x mach \<Rightarrow> 'x mach"
  where "poll_hosts h s = s\<lparr>mc_map := (mc_map s)\<lparr>mm_env := th_poll h (mm_env (mc_map s))\<rparr>\<rparr>"

definition DEFAULT_BATCH_CYCLES :: u64 where "DEFAULT_BATCH_CYCLES = 64"

definition sync_r13 :: "'x mach \<Rightarrow> 'x mach"
  where "sync_r13 s = on_cpu (\<lambda>c. set_r 13 (mm_cpu_get_active_sp c) c) s"

text \<open>The IT block: whether the current slot executes, and the step to the next slot.\<close>

definition it_take :: "'x mach \<Rightarrow> bool"
  where "it_take s =
    (let cond_true = (if it_cond s < 16 then cond_passed (mm_cond_of (to_u32 (it_cond s))) (xpsr (mc_cpu s))
                      else False)
     in if it_pattern s AND 0x1 \<noteq> 0 then cond_true else \<not> cond_true)"

definition it_next :: "'x mach \<Rightarrow> 'x mach"
  where "it_next s =
    (let raw = itstate_advance (itstate_get (xpsr (mc_cpu s)))
     in on_cpu (\<lambda>c. c\<lparr>xpsr := itstate_set (xpsr c) raw\<rparr>)
          (s\<lparr>it_pattern := drop_bit 1 (it_pattern s), it_remaining := it_remaining s - 1\<rparr>))"

definition in_it_block :: "mm_decoded \<Rightarrow> 'x mach \<Rightarrow> bool"
  where "in_it_block d s = (it_remaining s > 0 \<and> d_kind d \<noteq> MM_OP_IT)"

text \<open>A decoded instruction: skipped by its IT condition, or executed and followed by the IT step.\<close>

definition run_decoded :: "mm_fetch_result \<Rightarrow> mm_decoded \<Rightarrow> 'x mach \<Rightarrow> loop_outcome \<times> 'x mach"
  where "run_decoded f d s =
    (if in_it_block d s \<and> \<not> it_take s then (LOOP_CONTINUE, it_next s)
     else
       (let (st, s') = mm_execute_decoded f d s in
        case st of
          MM_EXEC_CONTINUE \<Rightarrow> (LOOP_CONTINUE, s')
        | HOST_UB \<Rightarrow> (LOOP_UB, s')
        | MM_EXEC_OK \<Rightarrow> (LOOP_TAIL, if in_it_block d s' then it_next s' else s')))"

definition fault_or_break :: "nat \<Rightarrow> bool \<times> 'x mach \<Rightarrow> loop_outcome \<times> 'x mach"
  where "fault_or_break sig r =
    (let (ok, s) = r in
     if ok then (LOOP_CONTINUE, s) else (LOOP_BREAK, if mc_opt_gdb s then gdb_notify_stop sig s else s))"

definition fetch_execute :: "'x scs_dev_scheme target_hooks \<Rightarrow> 'x mach \<Rightarrow> loop_outcome \<times> 'x mach"
  where "fetch_execute h s =
    (let s = sync_r13 (advance h 1 s);
         (f, c, m) = mm_fetch_t32_memmap (mc_cpu s) (mc_map s) (sec_state (mc_cpu s));
         s = s\<lparr>mc_cpu := c, mc_map := m\<rparr>
     in if f_fault f then
          fault_or_break 11 (raise_mem_fault s (cpu_r (mc_cpu s) 15 AND NOT 1) (xpsr (mc_cpu s)) (f_fault_addr f) True)
        else
          (let d = mm_decode_t32 f in
           if d_undefined d
           then fault_or_break 4 (raise_usage_fault s (f_pc_fetch f) (xpsr (mc_cpu s)) (push_bit 16 1))
           else run_decoded f d s))"

definition take_exception :: "bool \<times> 'x mach \<Rightarrow> loop_outcome \<times> 'x mach"
  where "take_exception r = (LOOP_CONTINUE, if fst r then it_sync (snd r) else set_done (snd r))"

text \<open>The label \<^verbatim>\<open>handle_pending\<close> and what follows it.\<close>

definition handle_pending :: "'x scs_dev_scheme target_hooks \<Rightarrow> 'x mach \<Rightarrow> loop_outcome \<times> 'x mach"
  where "handle_pending h s =
    (let c = mc_cpu s; scs = map_scs (mc_map s); pc = cpu_r c 15 AND NOT 1 in
     if sc_pend_st scs then take_exception (enter_exception s MM_VECT_SYSTICK pc (xpsr c))
     else if sc_pend_sv scs then take_exception (enter_exception s MM_VECT_PENDSV pc (xpsr c))
     else case irq_selected s of
       Some (irq, irq_sec) \<Rightarrow>
         take_exception (enter_exception_ex (irq_accept irq s) (16 + of_nat irq) pc (xpsr c) irq_sec)
     | None \<Rightarrow> fetch_execute h s)"

definition wake_up :: "'x mach \<Rightarrow> 'x mach"
  where "wake_up s = on_cpu (\<lambda>c. c\<lparr>sleeping := False, event_reg := False\<rparr>) s"

definition clear_reset :: "'x mach \<Rightarrow> 'x mach"
  where "clear_reset s =
    s\<lparr>mc_map := (mc_map s)\<lparr>mm_env := (mm_env (mc_map s))\<lparr>sd_reset_requested := False\<rparr>\<rparr>\<rparr>"

definition reset_pending :: "'x mach \<Rightarrow> bool"
  where "reset_pending s = sd_reset_requested (mm_env (mc_map s))"

definition pends :: "'x mach \<Rightarrow> bool"
  where "pends s = (sc_pend_st (map_scs (mc_map s)) \<or> sc_pend_sv (map_scs (mc_map s)))"

text \<open>A poll that ends the current batch of cycles, and the one at the end of an iteration.\<close>

definition poll_batch :: "'x scs_dev_scheme target_hooks \<Rightarrow> 'x mach \<Rightarrow> 'x mach"
  where "poll_batch h s = (poll_hosts h s)\<lparr>mc_cycles_since_poll := 0\<rparr>"

definition loop_tail :: "'x scs_dev_scheme target_hooks \<Rightarrow> 'x mach \<Rightarrow> loop_outcome \<times> 'x mach"
  where "loop_tail h s =
    (let s = (if mc_cycles_since_poll s \<ge> DEFAULT_BATCH_CYCLES then poll_batch h s else s)
     in if reset_pending s then (LOOP_RESET, clear_reset s) else (LOOP_TAIL, s))"

text \<open>A sleeping processor skips to the next SysTick event; with no timer running it idles.\<close>

definition sleep_step :: "'x scs_dev_scheme target_hooks \<Rightarrow> 'x mach \<Rightarrow> loop_outcome \<times> 'x mach"
  where "sleep_step h s =
    (if event_reg (mc_cpu s) \<or> pends s \<or> irq_selected s \<noteq> None then handle_pending h (wake_up s)
     else
       (let delta = mm_scs_systick_cycles_until_fire (map_scs (mc_map s)) in
        if delta = -1 then
          (let s = poll_hosts h s
           in if reset_pending s then (LOOP_RESET, clear_reset s) else (LOOP_CONTINUE, s))
        else
          (let s = advance h delta s;
               s = (if pends s then wake_up s else s);
               s = poll_batch h s
           in if reset_pending s then (LOOP_RESET, clear_reset s)
              else if \<not> sleeping (mc_cpu s) then handle_pending h s
              else (LOOP_CONTINUE, s))))"

definition loop_iteration :: "'x scs_dev_scheme target_hooks \<Rightarrow> 'x mach \<Rightarrow> loop_outcome \<times> 'x mach"
  where "loop_iteration h s =
    (if mc_fault_pending s then (LOOP_BREAK, set_done s)
     else
       (let (out, s') = (if sleeping (mc_cpu s) then sleep_step h s else handle_pending h s)
        in if out = LOOP_TAIL then loop_tail h s' else (out, s')))"

text \<open>At most \<^verbatim>\<open>n\<close> iterations of \<^verbatim>\<open>while (!done)\<close>.\<close>

fun run_loop :: "'x scs_dev_scheme target_hooks \<Rightarrow> nat \<Rightarrow> 'x mach \<Rightarrow> loop_outcome \<times> 'x mach" where
  "run_loop h 0 s = (LOOP_CONTINUE, s)"
| "run_loop h (Suc n) s =
    (if mc_done s then (LOOP_BREAK, s)
     else (let (out, s') = loop_iteration h s in
       if out = LOOP_TAIL \<or> out = LOOP_CONTINUE then run_loop h n s' else (out, s')))"

subsection \<open>The stand-alone stepper\<close>

datatype mm_step_status = MM_STEP_OK | MM_STEP_FAULT | MM_STEP_HALT

definition step_execute :: "mm_cpu \<Rightarrow> mm_decoded \<Rightarrow> mm_fetch_result \<Rightarrow> mm_step_status \<times> mm_cpu"
  where "step_execute c dec fetch =
    (if d_kind dec = MM_OP_NOP then (MM_STEP_OK, c)
     else if d_kind dec = MM_OP_B_UNCOND \<or> d_kind dec = MM_OP_B_UNCOND_WIDE
       then (MM_STEP_OK, set_r 15 ((f_pc_fetch fetch + d_imm dec) OR 1) c)
     else (MM_STEP_HALT, c))"

definition mm_step :: "mm_cpu \<Rightarrow> mm_mem \<Rightarrow> mm_step_status \<times> mm_cpu"
  where "mm_step c m =
    (let (fetch, c, _) = mm_fetch_t32 c m in
     if f_fault fetch then (MM_STEP_FAULT, c)
     else (let dec = mm_decode_t32 fetch in
       if d_undefined dec then (MM_STEP_HALT, c) else step_execute c dec fetch))"

end
