(* ===== verification/Machine_Inv.thy ===== *)
theory Machine_Inv
imports Run_Loop
begin

text \<open>
  Invariants of the processor under the whole emulator.  The locale \<^verbatim>\<open>cpu_invariant\<close> states what
  a property of the processor must satisfy to be kept by everything the emulator does: it may
  depend on the nesting records, CONTROL and the privilege bits, and has to survive the five
  primitive operations that touch those.  Inside the locale the property is carried through
  exception entry and return, every instruction, and an iteration of the main loop.  Two
  interpretations follow: the nesting depths stay within their arrays, and the privilege bits
  agree with CONTROL.
\<close>

lemmas cpu_op_defs =
  op_NOP_def op_B_UNCOND_def op_B_COND_def op_CBZ_def op_BLX_def op_BL_def op_SG_def op_BXNS_def
  op_BLXNS_def op_CPS_def op_CLREX_def op_WFI_def op_WFE_def op_SEV_def op_MRS_def op_MSR_def

lemmas ctl_op_defs =
  op_IT_def op_BX_def op_TBB_def op_ADD_IMM_def op_SUB_IMM_def op_SUB_IMM_NF_def op_ADD_SP_IMM_def
  op_SUB_SP_IMM_def op_MOV_REG_def op_UBFX_def op_SBFX_def op_BFI_def op_BFC_def op_UDIV_def
  op_SDIV_def op_SMLA_def op_SVC_def op_BKPT_def

lemmas mem_op_defs =
  op_LDR_LITERAL_def op_LDR_IMM_def op_LDR_REG_def op_LDREX_def op_STREX_def op_STR_IMM_def
  op_STR_REG_def op_LDR_POST_IMM_def op_LDR_PRE_IMM_def op_LDRB_POST_IMM_def op_STRB_POST_IMM_def
  op_LDRB_PRE_IMM_def op_STRB_PRE_IMM_def op_STR_POST_IMM_def op_STR_PRE_IMM_def op_STRB_REG_def
  op_LDRB_REG_def op_LDRB_IMM_def op_LDRSB_IMM_def op_LDRSH_IMM_def op_LDRSH_REG_def
  op_STRB_IMM_def op_LDRH_IMM_def op_LDRH_PRE_IMM_def op_LDRH_POST_IMM_def op_LDRH_REG_def
  op_LDRSB_REG_def op_STRH_IMM_def op_STRH_PRE_IMM_def op_STRH_POST_IMM_def op_STRH_REG_def
  op_LDRD_def

locale cpu_invariant =
  fixes I :: "mm_cpu \<Rightarrow> bool"
  assumes regs: "I (c\<lparr>cpu_r := r\<rparr>) = I c" "I (c\<lparr>xpsr := x\<rparr>) = I c"
    and banks: "I (c\<lparr>msp_s := v\<rparr>) = I c" "I (c\<lparr>psp_s := v\<rparr>) = I c" "I (c\<lparr>msp_ns := v\<rparr>) = I c" "I (c\<lparr>psp_ns := v\<rparr>) = I c"
    and tracking: "I (c\<lparr>msp_top_s := v\<rparr>) = I c" "I (c\<lparr>msp_min_s := v\<rparr>) = I c" "I (c\<lparr>msp_top_s_valid := b\<rparr>) = I c"
      "I (c\<lparr>msp_top_ns := v\<rparr>) = I c" "I (c\<lparr>msp_min_ns := v\<rparr>) = I c" "I (c\<lparr>msp_top_ns_valid := b\<rparr>) = I c"
    and limits: "I (c\<lparr>msplim_s := v\<rparr>) = I c" "I (c\<lparr>psplim_s := v\<rparr>) = I c" "I (c\<lparr>msplim_ns := v\<rparr>) = I c" "I (c\<lparr>psplim_ns := v\<rparr>) = I c"
    and masks: "I (c\<lparr>primask_s := v\<rparr>) = I c" "I (c\<lparr>primask_ns := v\<rparr>) = I c"
    and state: "I (c\<lparr>sec_state := sec\<rparr>) = I c" "I (c\<lparr>cpu_mode := md\<rparr>) = I c"
      "I (c\<lparr>sleeping := b\<rparr>) = I c" "I (c\<lparr>event_reg := b\<rparr>) = I c"
    and monitor: "I (c\<lparr>excl_valid := b\<rparr>) = I c" "I (c\<lparr>excl_sec := sec\<rparr>) = I c" "I (c\<lparr>excl_addr := v\<rparr>) = I c"
      "I (c\<lparr>excl_size := v\<rparr>) = I c"
    and commit: "I c \<Longrightarrow> I (commit_frame sec psp v c)"
    and unstack: "I c \<Longrightarrow> I (snd (unstack_sp c info))"
    and blxns: "I c \<Longrightarrow> I (mm_tz_exec_blxns c v v')"
    and tz_ret: "I c \<Longrightarrow> takes_tz_return c v \<Longrightarrow> I (tz_return c)"
    and control: "I c \<Longrightarrow> I (mm_cpu_set_control c sec v)"
begin

lemmas frame = regs banks tracking limits masks state monitor

lemma set_sp: "I (mm_cpu_set_active_sp c v) = I c"
  by (simp add: mm_cpu_set_active_sp_def msp_track_defs Let_def frame)

lemma set_msp: "I (mm_cpu_set_msp c sec v) = I c"
  by (simp add: mm_cpu_set_msp_def msp_track_defs Let_def frame)

lemma set_psp: "I (mm_cpu_set_psp c sec v) = I c"
  by (simp add: mm_cpu_set_psp_def frame)

lemma bank: "I (set_bank_sp sec psp v c) = I c"
  by (simp add: set_bank_sp_def frame)

lemma note_top: "I (mm_cpu_note_msp_top c sec) = I c"
  by (simp add: mm_cpu_note_msp_top_def cpu_init_msp_top_def frame)

lemma excl: "I (mm_cpu_excl_set c sec a n) = I c" "I (mm_cpu_excl_clear c) = I c"
  by (simp_all add: mm_cpu_excl_set_def mm_cpu_excl_clear_def frame)

lemmas frame_all = frame set_sp set_msp set_psp bank note_top excl

abbreviation J :: "'x mach \<Rightarrow> bool" where "J s \<equiv> I (mc_cpu s)"

subsection \<open>Exceptions\<close>

lemma stack_enter:
  "I c \<Longrightarrow> J s \<Longrightarrow> (\<And>e c. I c \<Longrightarrow> I (fin e c)) \<Longrightarrow> J (snd (stack_and_enter c pc x fin s))"
  by (auto simp: stack_and_enter_def Let_def commit split: prod.split option.split)

lemma enter_ex: "J s \<Longrightarrow> J (snd (enter_exception_ex s n pc x hs))"
  by (auto simp: enter_exception_ex_def Let_def frame intro!: stack_enter split: prod.split)

lemma enter: "J s \<Longrightarrow> J (snd (enter_exception s n pc x))"
  unfolding enter_exception_def by (rule enter_ex)

lemma fault_regs_keep: "I c \<Longrightarrow> I (fault_regs sec x n h e c)"
  by (simp add: fault_regs_def Let_def frame)

lemma hard_fault: "J s \<Longrightarrow> J (snd (raise_hard_fault s pc x))"
  by (auto simp: raise_hard_fault_def Let_def intro!: stack_enter fault_regs_keep split: prod.split)

lemma usage: "J s \<Longrightarrow> J (snd (raise_usage_fault s pc x b))"
  by (auto simp: raise_usage_fault_def Let_def intro!: stack_enter fault_regs_keep split: prod.split)

lemma memory: "J s \<Longrightarrow> J (snd (raise_mem_fault s pc x a e))"
  by (auto simp: raise_mem_fault_def Let_def intro!: enter_ex enter hard_fault)

lemma restore_keep: "I (restore_frame info sp fr c) = I c"
  by (simp add: restore_frame_def Let_def frame_all)

lemma unstacked: "J s \<Longrightarrow> J (snd (exc_return_unstack s v))"
  using unstack [of "mc_cpu s" "mm_exc_return_decode v"]
  by (auto simp: exc_return_unstack_def Let_def restore_keep split: prod.split option.split)

lemma sync: "J (it_sync s) = J s"
  by (simp add: it_sync_def split: prod.split)

lemma pc_write: "J s \<Longrightarrow> J (snd (handle_pc_write s v))"
  using unstacked [of s v] by (auto simp: handle_pc_write_def Let_def sync frame split: prod.split)

subsection \<open>Instructions\<close>

lemma done_keep: "J (set_done s) = J s" "J (or_done r) = J (snd r)" "J (gdb_notify_stop n s) = J s"
  by (simp_all add: set_done_def or_done_def gdb_notify_stop_def)

lemma write_pc_keep: "J s \<Longrightarrow> J (write_pc v s)"
  by (simp add: write_pc_def done_keep pc_write)

lemma mem_fault_keep: "J s \<Longrightarrow> J (mem_fault f a e s)"
  by (simp add: mem_fault_def done_keep memory)

lemma usage_keep: "J s \<Longrightarrow> J (snd (usage_fault f b s))"
  by (simp add: usage_fault_def done_keep usage)

lemma on_cpu_keep: "I (g (mc_cpu s)) \<Longrightarrow> J (on_cpu g s)"
  by (simp add: on_cpu_def)

lemma set_active_keep: "J s \<Longrightarrow> J (snd (exec_set_active_sp f v s))"
  by (auto simp: exec_set_active_sp_def Let_def done_keep usage on_cpu_def set_sp)

lemma set_sp_keep: "J s \<Longrightarrow> J (snd (EXEC_SET_SP f v s))"
  using set_active_keep [of s f v] by (auto simp: EXEC_SET_SP_def Let_def split: prod.split)

lemma put_reg_keep: "J s \<Longrightarrow> J (snd (put_reg r v s))"
  by (simp add: put_reg_def on_cpu_def frame)

lemma writeback_keep: "J s \<Longrightarrow> J (snd (writeback f r v s))"
  by (simp add: writeback_def set_sp_keep put_reg_keep)

lemma read_keep:
  "J s \<Longrightarrow> (\<And>v s'. J s' \<Longrightarrow> J (snd (k v s'))) \<Longrightarrow> J (snd (exec_read f a n e k s))"
  by (auto simp: exec_read_def Let_def intro!: mem_fault_keep split: prod.split option.split)

lemma write_keep:
  "J s \<Longrightarrow> (\<And>s'. J s' \<Longrightarrow> J (snd (k s'))) \<Longrightarrow> J (snd (exec_write f a n v k s))"
  by (auto simp: exec_write_def Let_def intro!: mem_fault_keep split: prod.split)

lemma alu_keep: "(k, op) \<in> set alu_table \<Longrightarrow> I (op it f d c) = I c"
proof -
  assume "(k, op) \<in> set alu_table"
  then have "alu_frame d c (op it f d c)" using alu_frames by blast
  then have "op it f d c = c\<lparr>cpu_r := cpu_r (op it f d c), xpsr := xpsr (op it f d c)\<rparr>"
    by (simp add: alu_frame_def)
  then show ?thesis using frame by metis
qed

lemma msr_keep: "I c \<Longrightarrow> I (msr_write sysm v c)"
  by (simp add: msr_write_def Let_def frame_all control)

lemma cpu_keep: "\<forall>(k, op) \<in> set cpu_table. \<forall>it f d c. I c \<longrightarrow> I (op it f d c)"
  unfolding cpu_table_def list.set ball_simps prod.case
  by (intro conjI allI TrueI)
    (simp_all add: cpu_op_defs branch_to_def mm_tz_exec_sg_def mm_tz_exec_bxns_def tz_note_ns_msp_top_def
      tz_sync_r13_from_active_sp_def Let_def frame_all blxns msr_keep)

lemma sum_keep: "I (sum_flags rd a b ci c) = I c"
  by (simp add: sum_flags_def put_result_def frame split: prod.split)

lemma bx_keep: "J s \<Longrightarrow> J (snd (op_BX f d s))"
  using unstacked [of s "cpu_r (mc_cpu s) (d_rm d)"] tz_ret [of "mc_cpu s"]
  by (auto simp: op_BX_def Let_def sync done_keep on_cpu_def frame intro!: set_sp_keep split: prod.split)

lemma tbb_keep: "J s \<Longrightarrow> J (snd (op_TBB f d s))"
  by (auto simp: op_TBB_def Let_def intro!: mem_fault_keep write_pc_keep split: prod.split sum.split)

lemma divide_keep: "J s \<Longrightarrow> J (snd (divide q f d s))"
  by (auto simp: divide_def Let_def on_cpu_def frame intro!: usage_keep split: option.split)

lemma bfx_keep: "J s \<Longrightarrow> J (snd (op_BFX g f d s))"
  by (auto simp: op_BFX_def Let_def on_cpu_def frame intro!: usage_keep)

lemma ctl_keep: "\<forall>(k, op) \<in> set ctl_table. \<forall>f d s. J s \<longrightarrow> J (snd (op f d s))"
  unfolding ctl_table_def list.set ball_simps prod.case
  by (intro conjI allI TrueI impI bx_keep tbb_keep)
    (auto simp: op_IT_def op_ADD_IMM_def op_SUB_IMM_def op_SUB_IMM_NF_def op_ADD_SP_IMM_def op_SUB_SP_IMM_def
      op_MOV_REG_def op_UBFX_def op_SBFX_def op_BFI_def op_BFC_def op_UDIV_def op_SDIV_def op_SMLA_def
      op_SVC_def op_BKPT_def Let_def on_cpu_def frame sum_keep done_keep enter
      intro!: set_sp_keep usage_keep write_pc_keep divide_keep bfx_keep split: prod.split)

lemma load_word_keep: "J s \<Longrightarrow> J (snd (load_word_to d v s))"
  by (simp add: load_word_to_def write_pc_keep put_reg_keep)

lemma load_wb_keep: "J s \<Longrightarrow> J (snd (load_then_writeback f d v w s))"
  by (auto simp: load_then_writeback_def Let_def on_cpu_def frame intro!: writeback_keep write_pc_keep)

lemma stm_keep: "J s \<Longrightarrow> J (snd (stm_loop f msk regs a s))"
  by (induction regs arbitrary: a s) (auto simp: Let_def intro!: mem_fault_keep split: prod.split)

lemma ldm_keep: "J s \<Longrightarrow> J (snd (snd (ldm_loop f sel regs a s)))"
  by (induction regs arbitrary: a s)
    (auto simp: Let_def on_cpu_def frame write_pc_keep intro!: mem_fault_keep split: prod.split option.split)

lemma stm_op_keep: "J s \<Longrightarrow> J (snd (op_STM f d s))"
proof -
  assume s: "J s"
  define s1 where "s1 = (let start = (if drop_bit 24 (d_imm d) AND 0x3 = 2
      then rn_of d s - 4 * count_regs (d_imm d AND 0xffff) [0..<16] else rn_of d s) in
    if d_kind d = MM_OP_STM then (False, snd (stm_loop f (d_imm d AND 0xffff) [0..<16] start s))
    else (let (t, _, s') = ldm_loop f (in_list (d_imm d AND 0xffff)) [0..<16] start s in (t, s')))"
  have "J (snd s1)"
    using s stm_keep ldm_keep by (auto simp: s1_def Let_def split_def)
  then show ?thesis
    using s unfolding op_STM_def Let_def s1_def [unfolded Let_def, symmetric]
    by (auto simp: on_cpu_def frame intro!: set_sp_keep split: prod.split)
qed

lemma store_lr_keep: "J s \<Longrightarrow> J (store_lr f a s)"
  by (auto simp: store_lr_def Let_def intro!: mem_fault_keep split: prod.split)

lemma push_keep: "J s \<Longrightarrow> J (snd (op_PUSH f d s))"
  using stm_keep [of s f] by (auto simp: op_PUSH_def Let_def split_def intro!: set_sp_keep store_lr_keep)

lemma pop_keep: "J s \<Longrightarrow> J (snd (op_POP f d s))"
  using ldm_keep [of s f] by (auto simp: op_POP_def Let_def split_def intro!: set_sp_keep)

lemma strex_keep: "J s \<Longrightarrow> J (snd (op_STREX f d s))"
  by (auto simp: op_STREX_def mm_cpu_excl_check_and_clear_def Let_def on_cpu_def excl frame intro!: write_keep)

lemma ldrex_keep: "J s \<Longrightarrow> J (snd (op_LDREX f d s))"
  by (auto simp: op_LDREX_def Let_def on_cpu_def excl frame intro!: read_keep)

lemma ldrd_keep: "J s \<Longrightarrow> J (snd (op_LDRD f d s))"
  by (auto simp: op_LDRD_def Let_def on_cpu_def frame intro!: read_keep write_keep writeback_keep)

lemma mem_keep: "\<forall>(k, op) \<in> set mem_table. \<forall>f d s. J s \<longrightarrow> J (snd (op f d s))"
  unfolding mem_table_def list.set ball_simps prod.case
  by (intro conjI allI TrueI impI strex_keep ldrex_keep ldrd_keep stm_op_keep push_keep pop_keep)
    (auto simp: mem_op_defs Let_def on_cpu_def frame
      intro!: read_keep write_keep writeback_keep put_reg_keep load_word_keep load_wb_keep)

lemma exec_keep: "J s \<Longrightarrow> J (snd (mm_execute_decoded f d s))" for s :: "'x mach"
proof (cases "map_of (exec_table :: (mm_op_kind \<times> 'x exec_op) list) (d_kind d)")
  case None
  assume "J s"
  then have "J (snd (raise_usage_fault s (f_pc_fetch f) (xpsr (mc_cpu s)) (push_bit 16 1)))" by (rule usage)
  then show ?thesis using None
    by (auto simp: mm_execute_decoded_def exec_default_def Let_def done_keep split: prod.split)
next
  case (Some op)
  assume s: "J s"
  from Some have "(d_kind d, op) \<in> set exec_table" by (rule map_of_SomeD)
  then consider (alu) g where "(d_kind d, g) \<in> set alu_table" "op = cpu_case g"
    | (cpu) g where "(d_kind d, g) \<in> set cpu_table" "op = cpu_case g"
    | (ctl) "(d_kind d, op) \<in> set ctl_table" | (mem) "(d_kind d, op) \<in> set mem_table"
    by (auto simp: exec_table_def)
  then have "J (snd (op f d s))"
  proof cases
    case alu
    then show ?thesis using s by (simp add: cpu_case_def on_cpu_def alu_keep)
  next
    case cpu
    then have "I (g (it_remaining s) f d (mc_cpu s))" using s cpu_keep by blast
    then show ?thesis using cpu by (simp add: cpu_case_def on_cpu_def)
  next
    case ctl
    then show ?thesis using s ctl_keep by blast
  next
    case mem
    then show ?thesis using s mem_keep by blast
  qed
  then show ?thesis using Some by (simp add: mm_execute_decoded_def)
qed

subsection \<open>The main loop\<close>

lemma loop_pieces:
  "J (advance h n s) = J s" "J (poll_hosts h s) = J s" "J (sync_r13 s) = J s" "J (it_next s) = J s"
  "J (wake_up s) = J s" "J (clear_reset s) = J s" "J (irq_accept irq s) = J s"
  "J (poll_batch h s) = J s"
  by (simp_all add: advance_def poll_hosts_def sync_r13_def it_next_def wake_up_def clear_reset_def irq_accept_def
      poll_batch_def       on_cpu_def Let_def frame)

lemma run_decoded_keep: "J s \<Longrightarrow> J (snd (run_decoded f d s))"
  using exec_keep [of s f d]
  by (auto simp: run_decoded_def loop_pieces split: prod.split mm_exec_status.split)

lemma fault_keep: "J (snd r) \<Longrightarrow> J (snd (fault_or_break n r))"
  by (auto simp: fault_or_break_def done_keep split: prod.split)

lemma fetch_keep: "I (fst (snd (mm_fetch_t32_memmap c m sec))) = I c"
  by (auto simp: mm_fetch_t32_memmap_def fetch_with_def Let_def frame split: prod.split option.split)

lemma fetch_execute_keep: "J s \<Longrightarrow> J (snd (fetch_execute h s))"
proof -
  assume s: "J s"
  let ?s = "sync_r13 (advance h 1 s)"
  obtain f c m where f: "mm_fetch_t32_memmap (mc_cpu ?s) (mc_map ?s) (sec_state (mc_cpu ?s)) = (f, c, m)"
    by (metis prod_cases3)
  have "I c" using fetch_keep [of "mc_cpu ?s" "mc_map ?s" "sec_state (mc_cpu ?s)"] f s by (simp add: loop_pieces)
  then show ?thesis
    using f by (auto simp: fetch_execute_def Let_def intro!: fault_keep memory usage run_decoded_keep)
qed

lemma take_keep: "J (snd r) \<Longrightarrow> J (snd (take_exception r))"
  by (simp add: take_exception_def sync done_keep)

lemma pending_keep: "J s \<Longrightarrow> J (snd (handle_pending h s))"
  by (auto simp: handle_pending_def Let_def loop_pieces
      intro!: take_keep enter enter_ex fetch_execute_keep split: option.split)

lemma sleep_keep: "J s \<Longrightarrow> J (snd (sleep_step h s))"
  by (auto simp: sleep_step_def Let_def loop_pieces intro!: pending_keep)

lemma iteration_keep: "J s \<Longrightarrow> J (snd (loop_iteration h s))"
  using sleep_keep [of s h] pending_keep [of s h]
  by (auto simp: loop_iteration_def loop_tail_def Let_def loop_pieces done_keep split: prod.split)

lemma run_keep: "J s \<Longrightarrow> J (snd (run_loop h n s))"
proof (induction n arbitrary: s)
  case (Suc n)
  then show ?case using iteration_keep [of s h] by (auto simp: Let_def split: prod.split)
qed simp

end

subsection \<open>Nesting depths\<close>

definition depths_ok :: "mm_cpu \<Rightarrow> bool"
  where "depths_ok c = (exc_depth c \<le> MM_EXC_STACK_MAX \<and> tz_depth c \<le> MM_TZ_STACK_MAX)"

lemma sp_writes_keep [simp]:
  "exc_depth (mm_cpu_set_active_sp c v) = exc_depth c" "exc_depth (mm_cpu_note_msp_top c sec) = exc_depth c"
  "priv_s (mm_cpu_set_active_sp c v) = priv_s c" "priv_s (mm_cpu_note_msp_top c sec) = priv_s c"
  "priv_ns (mm_cpu_set_active_sp c v) = priv_ns c" "priv_ns (mm_cpu_note_msp_top c sec) = priv_ns c"
  by (simp_all add: mm_cpu_note_msp_top_def mm_cpu_set_active_sp_def msp_track_defs Let_def)

lemma blxns_depths:
  "exc_depth (mm_tz_exec_blxns c v v') = exc_depth c"
  "tz_depth (mm_tz_exec_blxns c v v') = (if tz_depth c < MM_TZ_STACK_MAX then Suc (tz_depth c) else tz_depth c)"
  by (simp_all add: mm_tz_exec_blxns_def tz_note_ns_msp_top_def tz_sync_r13_from_active_sp_def Let_def)

lemma commit_depths:
  "exc_depth (commit_frame sec psp v c) = (if exc_depth c < MM_EXC_STACK_MAX then Suc (exc_depth c) else exc_depth c)"
  "tz_depth (commit_frame sec psp v c) = tz_depth c"
  by (simp_all add: commit_frame_def Let_def set_bank_sp_def)

lemma unstack_depths:
  "exc_depth (snd (unstack_sp c info)) = exc_depth c - 1" "tz_depth (snd (unstack_sp c info)) = tz_depth c"
  by (simp_all add: unstack_sp_def Let_def)

lemma tz_return_depths: "exc_depth (tz_return c) = exc_depth c" "tz_depth (tz_return c) = tz_depth c - 1"
  by (simp_all add: tz_return_def Let_def)

lemma control_depths:
  "exc_depth (mm_cpu_set_control c sec v) = exc_depth c" "tz_depth (mm_cpu_set_control c sec v) = tz_depth c"
  by (simp_all add: mm_cpu_set_control_def Let_def)

interpretation depths: cpu_invariant depths_ok
  by unfold_locales
    (simp_all add: depths_ok_def commit_depths unstack_depths tz_return_depths control_depths blxns_depths
      le_diff_conv)

subsection \<open>Privilege\<close>

definition priv_ok :: "mm_cpu \<Rightarrow> bool"
  where "priv_ok c = (priv_s c = bit (control_s c) 0 \<and> priv_ns c = bit (control_ns c) 0)"

lemma priv_frames:
  "priv_ok (commit_frame sec psp v c) = priv_ok c" "priv_ok (snd (unstack_sp c info)) = priv_ok c"
  "priv_ok (mm_tz_exec_blxns c v v') = priv_ok c" "priv_ok (tz_return c) = priv_ok c"
  by (simp_all add: priv_ok_def commit_frame_def set_bank_sp_def unstack_sp_def tz_return_def mm_tz_exec_blxns_def
      tz_note_ns_msp_top_def tz_sync_r13_from_active_sp_def Let_def)

lemma priv_control: "priv_ok c \<Longrightarrow> priv_ok (mm_cpu_set_control c sec v)"
  by (simp add: priv_ok_def mm_cpu_set_control_def Let_def and_one_nonzero)

interpretation privilege: cpu_invariant priv_ok
  by unfold_locales (simp_all add: priv_frames priv_control, simp_all add: priv_ok_def)

end
