(* ===== verification/Run_Props.thy ===== *)
theory Run_Props
imports Machine_Inv
begin

text \<open>
  Properties of whole runs: the invariants that hold from reset on, the IT block as the main
  loop executes it, waking from sleep, changes of the security state, and the stand-alone
  stepper against the executor.
\<close>

subsection \<open>From reset on\<close>

lemma apply_reset_cpu:
  "mm_vector_apply_reset c m sec = (True, c', m') \<Longrightarrow> exc_depth c = 0 \<Longrightarrow> tz_depth c = 0 \<Longrightarrow> control_s c = 0 \<Longrightarrow>
   control_ns c = 0 \<Longrightarrow> \<not> priv_s c \<Longrightarrow> \<not> priv_ns c \<Longrightarrow> depths_ok c' \<and> priv_ok c'"
  by (cases sec) (auto simp: mm_vector_apply_reset_def Let_def mm_cpu_set_privileged_def depths_ok_def priv_ok_def b2u_def
      split: prod.splits option.splits)

lemma reset_invariant:
  assumes "machine_reset h cfg flash ram trace s = Some s0"
  shows "depths_ok (mc_cpu s0) \<and> priv_ok (mc_cpu s0)"
proof -
  obtain ok c m where r: "mm_vector_apply_reset (cpu_reset cfg (mc_cpu s))
      (boot_map h cfg flash ram trace (mm_env (mc_map s))) MM_SECURE = (ok, c, m)" by (metis prod_cases3)
  with assms have "ok" and s0: "mc_cpu s0 = set_r 14 0xFFFFFFFF c"
    by (auto simp: machine_reset_def Let_def split: if_splits)
  with r have "depths_ok c \<and> priv_ok c"
    by (intro apply_reset_cpu [of "cpu_reset cfg (mc_cpu s)"]) (simp_all add: cpu_reset_def)
  then show ?thesis unfolding s0 by (simp add: depths.regs privilege.regs)
qed

text \<open>C1: from a successful reset on, after any number of iterations of the main loop and
  whatever the program and the devices do, the exception and TrustZone nesting depths stay
  within the arrays that record them, so no nesting record is written or read outside its
  array, and the privilege bits agree with CONTROL.\<close>

theorem run_invariant:
  assumes "machine_reset h cfg flash ram trace s = Some s0"
  shows "depths_ok (mc_cpu (snd (run_loop h n s0))) \<and> priv_ok (mc_cpu (snd (run_loop h n s0)))"
  using reset_invariant [OF assms] depths.run_keep privilege.run_keep by blast

text \<open>A target without peripherals: 16 bytes of flash with a vector table and a branch to itself.\<close>

definition tiny_hooks :: "scs_dev target_hooks"
  where "tiny_hooks = \<lparr>th_timer_tick = None, th_poll = id, th_bind = id, th_prot = id\<rparr>"

definition tiny_cfg :: mm_target_cfg
  where "tiny_cfg = \<lparr>cfg_flash_base_s = 0x0c000000, cfg_flash_size_s = 16, cfg_flash_base_ns = 0x08000000,
    cfg_flash_size_ns = 16, cfg_ram_base_s = 0x30000000, cfg_ram_size_s = 64, cfg_ram_base_ns = 0x20000000,
    cfg_ram_size_ns = 64, cfg_ram_regions = [], cfg_mpcbb_block_size = 0, cfg_mpcbb_block_secure = None\<rparr>"

definition tiny_flash :: "u8 list"
  where "tiny_flash = [0x40, 0, 0, 0x30, 0x09, 0, 0, 0x0c, 0xfe, 0xe7, 0, 0, 0, 0, 0, 0]"

lemma tiny_reset:
  "(case machine_reset tiny_hooks tiny_cfg tiny_flash (replicate 64 0) False demo_mach of
      None \<Rightarrow> False | Some s \<Rightarrow> mm_cpu_get_active_sp (mc_cpu s) = 0x30000040 \<and> cpu_r (mc_cpu s) 15 = 0x0c000009)"
  by code_simp

theorem run_invariant_witness:
  "\<exists>s0. machine_reset tiny_hooks tiny_cfg tiny_flash (replicate 64 0) False demo_mach = Some s0 \<and>
     depths_ok (mc_cpu (snd (run_loop tiny_hooks 10 s0)))"
proof -
  obtain s0 where "machine_reset tiny_hooks tiny_cfg tiny_flash (replicate 64 0) False demo_mach = Some s0"
    using tiny_reset by (auto split: option.splits)
  then show ?thesis using run_invariant by blast
qed

subsection \<open>The stand-alone stepper\<close>

text \<open>The stand-alone stepper branches four bytes short of the executor: it adds the branch
  offset to the address of the instruction, the executor to that address plus four.\<close>

theorem stepper_branch_differs:
  "cpu_r (snd (step_execute c (d\<lparr>d_kind := MM_OP_B_UNCOND\<rparr>) (f\<lparr>f_pc_fetch := p + 4\<rparr>))) 15 =
   cpu_r (op_B_UNCOND it (f\<lparr>f_pc_fetch := p\<rparr>) (d\<lparr>d_kind := MM_OP_B_UNCOND\<rparr>) c) 15"
  by (simp add: step_execute_def op_B_UNCOND_def branch_to_def add.commute add.left_commute)

subsection \<open>Changes of the security state\<close>

lemma alu_sec: "(k, op) \<in> set alu_table \<Longrightarrow> sec_state (op it f d c) = sec_state c"
proof -
  assume "(k, op) \<in> set alu_table"
  then have "alu_frame d c (op it f d c)" using alu_frames by blast
  then have "op it f d c = c\<lparr>cpu_r := cpu_r (op it f d c), xpsr := xpsr (op it f d c)\<rparr>"
    by (simp add: alu_frame_def)
  then show ?thesis by (metis mm_cpu.select_convs(3) mm_cpu.surjective mm_cpu.update_convs(1,2))
qed

lemma msr_sec: "sec_state (msr_write sysm v c) = sec_state c"
  by (simp add: msr_write_def Let_def mm_cpu_set_msp_def mm_cpu_set_psp_def mm_cpu_set_control_def msp_track_defs)

lemma cpu_sec:
  "\<forall>(k, op) \<in> set cpu_table. \<forall>it f d c. sec_state (op it f d c) =
    (if k = MM_OP_SG then MM_SECURE else if k = MM_OP_BXNS \<or> k = MM_OP_BLXNS then MM_NONSECURE else sec_state c)"
  unfolding cpu_table_def list.set ball_simps prod.case
  by (intro conjI allI TrueI)
    (simp_all add: cpu_op_defs branch_to_def mm_tz_exec_sg_def mm_tz_exec_bxns_def mm_tz_exec_blxns_def
      tz_note_ns_msp_top_def mm_cpu_excl_clear_def Let_def msr_sec)

text \<open>Among the instructions that only touch the processor, the security state is changed by
  SG, BXNS and BLXNS alone, and their result does not depend on where the instruction was
  fetched from or on the state it was executed in: SG always ends in Secure state, also when
  it was fetched from memory that is not Non-secure callable.\<close>

theorem security_state_changes:
  assumes "map_of (alu_table @ cpu_table) (d_kind d) = Some op"
  shows "sec_state (op it f d c) =
    (if d_kind d = MM_OP_SG then MM_SECURE
     else if d_kind d = MM_OP_BXNS \<or> d_kind d = MM_OP_BLXNS then MM_NONSECURE else sec_state c)"
proof -
  from map_of_SomeD [OF assms] consider (alu) "(d_kind d, op) \<in> set alu_table" | (cpu) "(d_kind d, op) \<in> set cpu_table"
    by auto
  then show ?thesis
  proof cases
    case alu
    then have "d_kind d \<notin> {MM_OP_SG, MM_OP_BXNS, MM_OP_BLXNS}" by (auto simp: alu_table_def)
    then show ?thesis using alu_sec [OF alu] by simp
  next
    case cpu
    then show ?thesis using cpu_sec by blast
  qed
qed

theorem security_state_changes_witness:
  "\<forall>f. sec_state (op_SG 0 f ((mm_decoded_default 4 0xe97fe97f)\<lparr>d_kind := MM_OP_SG\<rparr>) cpu_zero) = MM_SECURE"
proof
  fix f
  have "map_of (alu_table @ cpu_table) (d_kind ((mm_decoded_default 4 0xe97fe97f)\<lparr>d_kind := MM_OP_SG\<rparr>)) = Some op_SG"
    by (simp add: alu_table_def cpu_table_def)
  from security_state_changes [OF this]
  show "sec_state (op_SG 0 f ((mm_decoded_default 4 0xe97fe97f)\<lparr>d_kind := MM_OP_SG\<rparr>) cpu_zero) = MM_SECURE"
    by simp
qed

subsection \<open>IT blocks in the main loop\<close>

lemma itstate_set_flags: "cond_passed cond (itstate_set x r) = cond_passed cond x"
proof -
  have "bit (itstate_set x r) n = bit x n" if "n = 28 \<or> n = 29 \<or> n = 30 \<or> n = 31" for n
    using that by (auto simp: itstate_set_def Let_def bit_simps to_u32_def)
  then have "bit (itstate_set x r) 28 = bit x 28" "bit (itstate_set x r) 29 = bit x 29"
    "bit (itstate_set x r) 30 = bit x 30" "bit (itstate_set x r) 31 = bit x 31" by blast+
  then show ?thesis by (cases cond) (simp_all add: cond_passed_bits)
qed

lemma it_next_simps [simp]:
  "it_cond (it_next s) = it_cond s" "it_pattern (it_next s) = drop_bit 1 (it_pattern s)"
  "it_remaining (it_next s) = it_remaining s - 1" "cond_passed cond (xpsr (mc_cpu (it_next s))) = cond_passed cond (xpsr (mc_cpu s))"
  by (simp_all add: it_next_def on_cpu_def Let_def itstate_set_flags)

lemma it_steps:
  "it_cond ((it_next ^^ k) s) = it_cond s" "it_pattern ((it_next ^^ k) s) = drop_bit k (it_pattern s)"
  "it_remaining ((it_next ^^ k) s) = it_remaining s - of_nat k"
  "cond_passed cond (xpsr (mc_cpu ((it_next ^^ k) s))) = cond_passed cond (xpsr (mc_cpu s))"
  by (induction k) (simp_all add: drop_bit_drop_bit)

lemma cond_inverse: "c < 16 \<Longrightarrow> cond_passed (mm_cond_of (to_u32 (c XOR 1))) x = (\<not> cond_passed (mm_cond_of (to_u32 c)) x)" for c :: u8
proof -
  have "\<forall>c :: u8. c < 16 \<longrightarrow> (mm_cond_of (to_u32 c), mm_cond_of (to_u32 (c XOR 1))) \<in>
    set [(MM_COND_EQ, MM_COND_NE), (MM_COND_NE, MM_COND_EQ), (MM_COND_CS, MM_COND_CC), (MM_COND_CC, MM_COND_CS),
      (MM_COND_MI, MM_COND_PL), (MM_COND_PL, MM_COND_MI), (MM_COND_VS, MM_COND_VC), (MM_COND_VC, MM_COND_VS),
      (MM_COND_HI, MM_COND_LS), (MM_COND_LS, MM_COND_HI), (MM_COND_GE, MM_COND_LT), (MM_COND_LT, MM_COND_GE),
      (MM_COND_GT, MM_COND_LE), (MM_COND_LE, MM_COND_GT), (MM_COND_AL, MM_COND_NV), (MM_COND_NV, MM_COND_AL)]"
    unfolding u8_all by code_simp
  moreover assume "c < 16"
  ultimately show ?thesis by (auto simp: cond_passed_bits)
qed

lemma it_take_slot:
  "it_cond s < 16 \<Longrightarrow> it_take s =
    cond_passed (mm_cond_of (to_u32 (if it_pattern s AND 1 \<noteq> 0 then it_cond s else it_cond s XOR 1))) (xpsr (mc_cpu s))"
  by (simp add: it_take_def Let_def cond_inverse)

lemma sync_cond: "(p, r, c) = itstate_sync_from_xpsr x \<Longrightarrow> c < 16"
proof -
  assume "(p, r, c) = itstate_sync_from_xpsr x"
  then have c: "c = drop_bit 4 (itstate_get x)"
    by (simp add: itstate_sync_from_xpsr_def Let_def split_def)
  have "unat c = unat (itstate_get x) div 16" unfolding c unat_drop_bit_eq by (simp add: drop_bit_eq_div)
  then show ?thesis using unat_u8_less [of "itstate_get x"] by (simp add: word_less_nat_alt)
qed



subsection \<open>Waking from sleep\<close>

text \<open>Hooks that leave the core alone: the devices they drive do not write SCS registers and do not
  ask for a reset.\<close>

definition core_untouched :: "'x scs_dev_scheme target_hooks \<Rightarrow> bool"
  where "core_untouched h =
    ((\<forall>n e. sd_scs (mm_timer_tick h n e) = sd_scs e \<and> sd_reset_requested (mm_timer_tick h n e) = sd_reset_requested e) \<and>
     (\<forall>e. sd_scs (th_poll h e) = sd_scs e \<and> sd_reset_requested (th_poll h e) = sd_reset_requested e))"

lemma core_untouched_steps:
  assumes "core_untouched h"
  shows "map_scs (mc_map (advance h n s)) = snd (mm_scs_systick_advance (map_scs (mc_map s)) n)"
    and "map_scs (mc_map (poll_hosts h s)) = map_scs (mc_map s)"
    and "reset_pending (advance h n s) = reset_pending s" and "reset_pending (poll_hosts h s) = reset_pending s"
    and "mc_cpu (advance h n s) = mc_cpu s" and "mc_cpu (poll_hosts h s) = mc_cpu s"
    and "map_scs (mc_map (poll_batch h s)) = map_scs (mc_map s)" and "mc_cpu (poll_batch h s) = mc_cpu s"
    and "reset_pending (poll_batch h s) = reset_pending s"
  using assms
  by (simp_all add: core_untouched_def advance_def poll_hosts_def poll_batch_def reset_pending_def upd_scs_def Let_def)

lemma runs_fire: "systick_runs scs \<Longrightarrow> mm_scs_systick_cycles_until_fire scs \<noteq> -1"
proof -
  assume r: "systick_runs scs"
  then have "mm_scs_systick_cycles_until_fire scs = to_u64 (systick_cur scs)"
    by (simp add: systick_runs_def mm_scs_systick_cycles_until_fire_def systick_cur_def Let_def)
  then have "unat (mm_scs_systick_cycles_until_fire scs) < 2 ^ 24"
    using systick_cur_less [of scs] by (simp add: unat_to_u64)
  then show ?thesis by (auto simp: unsigned_minus_1_eq_mask mask_eq_exp_minus_1)
qed



end
