(* ===== verification/Spi_Bus.thy ===== *)
theory Spi_Bus
imports Prelude
begin

text \<open>
  The SPI bus of \<^verbatim>\<open>src/m33mu/spi_bus.c\<close>: a table of devices with their chip-select callbacks.  A
  callback may change the device behind it (sampling a chip select can end a command), so the
  state of the devices, of arbitrary type, is threaded through every call.

  The locale \<^verbatim>\<open>serial_device\<close> is the contract of a device on the bus: a predicate that is kept by
  every byte shifted through the device, for bytes that satisfy a side condition, and by the end
  of a frame; its lemmas lift the predicate to every sequence of frames.
\<close>

definition MM_SPI_BUS_DEVICE_MAX :: nat where "MM_SPI_BUS_DEVICE_MAX = 16"

record 'e mm_spi_device =
  spd_bus :: int
  spd_xfer :: "('e \<Rightarrow> u8 \<Rightarrow> u8 \<times> 'e) option"
  spd_end :: "('e \<Rightarrow> 'e) option"
  spd_cs_level :: "('e \<Rightarrow> u8 \<times> 'e) option"

definition mm_spi_bus_register_device :: "'e mm_spi_device list \<Rightarrow> 'e mm_spi_device \<Rightarrow> bool \<times> 'e mm_spi_device list"
  where "mm_spi_bus_register_device devs dev =
    (if spd_xfer dev = None then (False, devs)
     else if length devs \<ge> MM_SPI_BUS_DEVICE_MAX then (False, devs)
     else (True, devs @ [dev]))"

text \<open>The scan of \<^verbatim>\<open>spi_bus_select\<close>, with the fallback found so far.\<close>

fun spi_bus_scan ::
  "'e mm_spi_device option \<Rightarrow> 'e mm_spi_device list \<Rightarrow> int \<Rightarrow> 'e \<Rightarrow> 'e mm_spi_device option \<times> 'e" where
  "spi_bus_scan fallback [] bus e = (fallback, e)"
| "spi_bus_scan fallback (dev # devs) bus e =
    (if spd_bus dev \<noteq> bus then spi_bus_scan fallback devs bus e
     else case spd_cs_level dev of
       None \<Rightarrow> spi_bus_scan (if fallback = None then Some dev else fallback) devs bus e
     | Some cs_level \<Rightarrow>
         (let (level, e) = cs_level e in
          if level = 0 then (Some dev, e) else spi_bus_scan fallback devs bus e))"

definition spi_bus_select :: "'e mm_spi_device list \<Rightarrow> int \<Rightarrow> 'e \<Rightarrow> 'e mm_spi_device option \<times> 'e"
  where "spi_bus_select devs bus e = spi_bus_scan None devs bus e"

definition mm_spi_bus_xfer :: "'e mm_spi_device list \<Rightarrow> int \<Rightarrow> u8 \<Rightarrow> 'e \<Rightarrow> u8 \<times> 'e"
  where "mm_spi_bus_xfer devs bus out e =
    (let (dev, e) = spi_bus_select devs bus e in
     case dev of None \<Rightarrow> (0xFF, e)
     | Some dev \<Rightarrow> (case spd_xfer dev of None \<Rightarrow> (0xFF, e) | Some xfer \<Rightarrow> xfer e out))"

fun mm_spi_bus_end :: "'e mm_spi_device list \<Rightarrow> int \<Rightarrow> 'e \<Rightarrow> 'e" where
  "mm_spi_bus_end [] bus e = e"
| "mm_spi_bus_end (dev # devs) bus e =
    (if spd_bus dev \<noteq> bus then mm_spi_bus_end devs bus e
     else mm_spi_bus_end devs bus (case spd_end dev of None \<Rightarrow> e | Some f \<Rightarrow> f e))"

subsection \<open>Devices on the bus\<close>

datatype spi_event = Shift u8 | Release

text \<open>Bytes shifted through a device, with its replies, and sequences of bytes and frame ends.\<close>

fun spi_shift :: "('s \<Rightarrow> u8 \<Rightarrow> u8 \<times> 's) \<Rightarrow> 's \<Rightarrow> u8 list \<Rightarrow> u8 list \<times> 's" where
  "spi_shift xfer s [] = ([], s)"
| "spi_shift xfer s (b # bs) = (let (r, s) = xfer s b; (rs, s) = spi_shift xfer s bs in (r # rs, s))"

fun spi_events :: "('s \<Rightarrow> u8 \<Rightarrow> u8 \<times> 's) \<Rightarrow> ('s \<Rightarrow> 's) \<Rightarrow> 's \<Rightarrow> spi_event list \<Rightarrow> 's" where
  "spi_events xfer release s [] = s"
| "spi_events xfer release s (Shift b # evs) = spi_events xfer release (snd (xfer s b)) evs"
| "spi_events xfer release s (Release # evs) = spi_events xfer release (release s) evs"

lemma spi_shift_append:
  "spi_shift xfer s (xs @ ys) =
    (let (r, s) = spi_shift xfer s xs; (r', s) = spi_shift xfer s ys in (r @ r', s))"
  by (induction xs arbitrary: s) (simp_all add: Let_def case_prod_beta)

lemma spi_shift_length [simp]: "length (fst (spi_shift xfer s bs)) = length bs"
  by (induction bs arbitrary: s) (simp_all add: Let_def case_prod_beta)

lemma spi_shift_events: "snd (spi_shift xfer s bs) = spi_events xfer release s (map Shift bs)"
  by (induction bs arbitrary: s) (simp_all add: Let_def case_prod_beta)

locale serial_device =
  fixes xfer :: "'s \<Rightarrow> u8 \<Rightarrow> u8 \<times> 's" and release :: "'s \<Rightarrow> 's"
    and good :: "u8 \<Rightarrow> bool" and inv :: "'s \<Rightarrow> bool"
  assumes xfer_keeps: "good b \<Longrightarrow> inv s \<Longrightarrow> inv (snd (xfer s b))"
    and release_keeps: "inv s \<Longrightarrow> inv (release s)"
begin

lemma events_keep: "(\<And>b. Shift b \<in> set evs \<Longrightarrow> good b) \<Longrightarrow> inv s \<Longrightarrow> inv (spi_events xfer release s evs)"
proof (induction evs arbitrary: s)
  case (Cons ev evs)
  then show ?case by (cases ev) (auto simp: xfer_keeps release_keeps)
qed simp

lemma shift_keeps: "(\<And>b. b \<in> set bs \<Longrightarrow> good b) \<Longrightarrow> inv s \<Longrightarrow> inv (snd (spi_shift xfer s bs))"
  unfolding spi_shift_events [where release = release] by (rule events_keep) auto

end

subsection \<open>Selection\<close>

text \<open>With callbacks that only read, the device selected is the first on the bus whose chip
  select is low, and failing that the first without a chip select.\<close>

definition selectable :: "int \<Rightarrow> 'e \<Rightarrow> 'e mm_spi_device \<Rightarrow> bool"
  where "selectable bus e dev =
    (spd_bus dev = bus \<and> (case spd_cs_level dev of None \<Rightarrow> False | Some f \<Rightarrow> fst (f e) = 0))"

definition unselected :: "int \<Rightarrow> 'e mm_spi_device \<Rightarrow> bool"
  where "unselected bus dev = (spd_bus dev = bus \<and> spd_cs_level dev = None)"

lemma spi_scan_find:
  assumes "\<forall>dev \<in> set devs. \<forall>f. spd_cs_level dev = Some f \<longrightarrow> snd (f e) = e"
  shows "spi_bus_scan fb devs bus e =
    (case find (selectable bus e) devs of Some dev \<Rightarrow> Some dev
     | None \<Rightarrow> if fb = None then find (unselected bus) devs else fb, e)"
  using assms
proof (induction devs arbitrary: fb)
  case (Cons dev devs)
  then show ?case
    by (cases "spd_cs_level dev") (auto simp: selectable_def unselected_def split: prod.split option.split)
qed simp

end
