(* ===== verification/Spi_Flash.thy ===== *)
theory Spi_Flash
imports Spi_Bus Mem_Prot
begin

text \<open>
  The serial NOR flash of \<^verbatim>\<open>src/m33mu/spiflash.c\<close>: its command state machine, the chip select
  sampled from a GPIO bank, the memory-mapped window, and the attachment of flashes to the SPI
  bus, the MMIO bus and the protection regions.  The trace output is left out.

  The image file of a flash is part of its record: \<^verbatim>\<open>fl_file\<close> is what the file holds (None while it
  does not exist) and \<^verbatim>\<open>fl_can_open\<close> whether it can be opened for writing.  A file that opens is
  written completely, and no two flashes share one.
\<close>

definition SPIFLASH_MAX :: nat where "SPIFLASH_MAX = 8"
definition SPIFLASH_PAGE_SIZE :: u32 where "SPIFLASH_PAGE_SIZE = 256"

datatype spiflash_state =
    SPIFLASH_IDLE
  | SPIFLASH_ADDR
  | SPIFLASH_READ
  | SPIFLASH_PP
  | SPIFLASH_STATUS_READ
  | SPIFLASH_STATUS_WRITE

record mm_spiflash =
  fl_bus :: int
  fl_size :: u32
  fl_data :: "u8 list option"
  fl_locked :: bool
  fl_write_enable :: bool
  fl_status_bp :: u8
  fl_cmd :: u8
  fl_addr :: u32
  fl_page_base :: u32
  fl_dummy_left :: nat
  fl_addr_bytes :: "u8 list"
  fl_addr_need :: nat
  fl_addr_have :: nat
  fl_state :: spiflash_state
  fl_mmap :: bool
  fl_mmap_base :: u32
  fl_path :: string
  fl_dirty :: bool
  fl_cs_valid :: bool
  fl_cs_mask :: u32
  fl_cs_bank :: int
  fl_cs_pin :: int
  fl_cs_level :: u8
  fl_file :: "u8 list option"
  fl_can_open :: bool

subsection \<open>Image file\<close>

definition spiflash_sync :: "mm_spiflash \<Rightarrow> mm_spiflash"
  where "spiflash_sync f =
    (if \<not> fl_dirty f then f
     else if \<not> fl_can_open f then f
     else f\<lparr>fl_file := Some (case fl_data f of Some d \<Rightarrow> if fl_size f > 0 then d else [] | None \<Rightarrow> []), fl_dirty := False\<rparr>)"

definition spiflash_load :: "mm_spiflash \<Rightarrow> bool \<times> mm_spiflash"
  where "spiflash_load f =
    (if fl_size f = 0 then (False, f)
     else
       (let n = unat (fl_size f) in
        case fl_file f of
          Some bytes \<Rightarrow>
            (let got = take n bytes;
                 f = f\<lparr>fl_data := Some (got @ replicate (n - length got) 0xFF)\<rparr>
             in (True, if length got < n then spiflash_sync (f\<lparr>fl_dirty := True\<rparr>) else f))
        | None \<Rightarrow> (True, spiflash_sync (f\<lparr>fl_data := Some (replicate n 0xFF), fl_dirty := True\<rparr>))))"

subsection \<open>Commands\<close>

definition spiflash_set_locked :: "mm_spiflash \<Rightarrow> bool \<Rightarrow> mm_spiflash"
  where "spiflash_set_locked f locked = f\<lparr>fl_locked := locked\<rparr>"

definition spiflash_set_bp :: "mm_spiflash \<Rightarrow> u8 \<Rightarrow> mm_spiflash"
  where "spiflash_set_bp f bp =
    (let f = f\<lparr>fl_status_bp := bp AND 0x1C\<rparr> in spiflash_set_locked f (fl_status_bp f \<noteq> 0))"

definition spiflash_status :: "mm_spiflash \<Rightarrow> u8"
  where "spiflash_status f = (if fl_write_enable f then 0x02 else 0) OR fl_status_bp f"

definition spiflash_erase_range :: "mm_spiflash \<Rightarrow> u32 \<Rightarrow> u32 \<Rightarrow> mm_spiflash"
  where "spiflash_erase_range f addr sz =
    (case fl_data f of
       None \<Rightarrow> f
     | Some d \<Rightarrow>
       if sz = 0 then f
       else
         (let end = addr + sz in
          if end < addr then f
          else if addr \<ge> fl_size f then f
          else
            (let end = (if end > fl_size f then fl_size f else end);
                 d = take (unat addr) d @ replicate (unat (end - addr)) 0xFF @ drop (unat end) d
             in spiflash_sync (f\<lparr>fl_data := Some d, fl_dirty := True\<rparr>))))"

definition spiflash_read_byte :: "mm_spiflash \<Rightarrow> u32 \<Rightarrow> u8"
  where "spiflash_read_byte f addr =
    (case fl_data f of
       None \<Rightarrow> 0xFF
     | Some d \<Rightarrow> if fl_size f = 0 then 0xFF else d ! unat (addr mod fl_size f))"

text \<open>The cases of the switch in \<^verbatim>\<open>mm_spiflash_xfer\<close>.\<close>

definition spiflash_idle :: "mm_spiflash \<Rightarrow> u8 \<Rightarrow> u8 \<times> mm_spiflash"
  where "spiflash_idle f out =
    (let f = f\<lparr>fl_cmd := out, fl_addr := 0, fl_addr_have := 0, fl_addr_need := 0\<rparr> in
     if out = 0x06 then (0xFF, f\<lparr>fl_write_enable := True\<rparr>)
     else if out = 0x04 then (0xFF, f\<lparr>fl_write_enable := False\<rparr>)
     else if out = 0x05 then (spiflash_status f, f\<lparr>fl_state := SPIFLASH_STATUS_READ\<rparr>)
     else if out = 0x01 then (0xFF, f\<lparr>fl_state := SPIFLASH_STATUS_WRITE\<rparr>)
     else if out = 0x9F then (0xC2, f\<lparr>fl_state := SPIFLASH_READ, fl_addr := 0\<rparr>)
     else if out = 0x03 \<or> out = 0x0B then (0xFF, f\<lparr>fl_addr_need := 3, fl_state := SPIFLASH_ADDR\<rparr>)
     else if out = 0x02 then (0xFF, f\<lparr>fl_addr_need := 3, fl_state := SPIFLASH_ADDR\<rparr>)
     else if out = 0x20 \<or> out = 0xD8 \<or> out = 0xC7 \<or> out = 0x60 then
       (let f = f\<lparr>fl_addr_need := (if out = 0xC7 \<or> out = 0x60 then 0 else 3)\<rparr> in
        if fl_addr_need f = 0 then
          (0xFF, if fl_write_enable f then (spiflash_erase_range f 0 (fl_size f))\<lparr>fl_write_enable := False\<rparr> else f)
        else (0xFF, f\<lparr>fl_state := SPIFLASH_ADDR\<rparr>))
     else (0xFF, f))"

definition spiflash_erase_cmd :: "mm_spiflash \<Rightarrow> u32 \<Rightarrow> u32 \<Rightarrow> mm_spiflash"
  where "spiflash_erase_cmd f addr sz =
    (if fl_write_enable f then (spiflash_erase_range f addr sz)\<lparr>fl_write_enable := False\<rparr> else f)
      \<lparr>fl_state := SPIFLASH_IDLE\<rparr>"

definition spiflash_addr_byte :: "mm_spiflash \<Rightarrow> u8 \<Rightarrow> u8 \<times> mm_spiflash"
  where "spiflash_addr_byte f out =
    (let f = f\<lparr>fl_addr_bytes := (fl_addr_bytes f)[fl_addr_have f := out], fl_addr_have := Suc (fl_addr_have f)\<rparr> in
     if fl_addr_have f \<ge> fl_addr_need f then
       (let b = fl_addr_bytes f;
            f = f\<lparr>fl_addr := push_bit 16 (to_u32 (b ! 0)) OR push_bit 8 (to_u32 (b ! 1)) OR to_u32 (b ! 2)\<rparr>;
            f = f\<lparr>fl_page_base := fl_addr f AND NOT (SPIFLASH_PAGE_SIZE - 1)\<rparr>
        in (0xFF,
          if fl_cmd f = 0x03 \<or> fl_cmd f = 0x0B then
            f\<lparr>fl_dummy_left := (if fl_cmd f = 0x0B then 1 else 0), fl_state := SPIFLASH_READ\<rparr>
          else if fl_cmd f = 0x02 then f\<lparr>fl_state := SPIFLASH_PP\<rparr>
          else if fl_cmd f = 0x20 then spiflash_erase_cmd f (fl_addr f AND NOT 0xFFF) 0x1000
          else if fl_cmd f = 0xD8 then spiflash_erase_cmd f (fl_addr f AND NOT 0xFFFF) 0x10000
          else f\<lparr>fl_state := SPIFLASH_IDLE\<rparr>))
     else (0xFF, f))"

definition spiflash_read_out :: "mm_spiflash \<Rightarrow> u8 \<times> mm_spiflash"
  where "spiflash_read_out f =
    (if fl_cmd f = 0x9F then
       (if fl_addr f = 0 then 0xC2 else if fl_addr f = 1 then 0x20 else 0x18, f\<lparr>fl_addr := fl_addr f + 1\<rparr>)
     else if fl_dummy_left f > 0 then (0xFF, f\<lparr>fl_dummy_left := fl_dummy_left f - 1\<rparr>)
     else (spiflash_read_byte f (fl_addr f), f\<lparr>fl_addr := fl_addr f + 1\<rparr>))"

definition spiflash_program :: "mm_spiflash \<Rightarrow> u8 \<Rightarrow> u8 \<times> mm_spiflash"
  where "spiflash_program f out =
    (let f = (case fl_data f of
                None \<Rightarrow> f
              | Some d \<Rightarrow>
                if fl_write_enable f then
                  (let idx = unat (fl_addr f mod fl_size f); cur = d ! idx; nxt = cur AND out
                   in if nxt \<noteq> cur then f\<lparr>fl_data := Some (d[idx := nxt]), fl_dirty := True\<rparr> else f)
                else f);
         f = f\<lparr>fl_addr := fl_addr f + 1\<rparr>
     in (0xFF, if fl_addr f AND NOT (SPIFLASH_PAGE_SIZE - 1) \<noteq> fl_page_base f
               then f\<lparr>fl_addr := fl_page_base f\<rparr> else f))"

definition mm_spiflash_xfer :: "mm_spiflash \<Rightarrow> u8 \<Rightarrow> u8 \<times> mm_spiflash"
  where "mm_spiflash_xfer f out =
    (case fl_state f of
       SPIFLASH_IDLE \<Rightarrow> spiflash_idle f out
     | SPIFLASH_ADDR \<Rightarrow> spiflash_addr_byte f out
     | SPIFLASH_READ \<Rightarrow> spiflash_read_out f
     | SPIFLASH_PP \<Rightarrow> spiflash_program f out
     | SPIFLASH_STATUS_READ \<Rightarrow> (spiflash_status f, f)
     | SPIFLASH_STATUS_WRITE \<Rightarrow>
         (0xFF, (if fl_write_enable f then (spiflash_set_bp f (out AND 0x1C))\<lparr>fl_write_enable := False\<rparr> else f)
                  \<lparr>fl_state := SPIFLASH_IDLE\<rparr>))"

definition mm_spiflash_cs_deassert :: "mm_spiflash \<Rightarrow> mm_spiflash"
  where "mm_spiflash_cs_deassert f =
    (let f = (if fl_state f = SPIFLASH_PP \<and> fl_dirty f then spiflash_sync f else f);
         f = (if fl_cmd f = 0x02 then f\<lparr>fl_write_enable := False\<rparr> else f)
     in f\<lparr>fl_state := SPIFLASH_IDLE, fl_cmd := 0, fl_addr := 0, fl_addr_have := 0, fl_addr_need := 0,
          fl_dummy_left := 0\<rparr>)"

definition mm_spiflash_is_locked :: "mm_spiflash \<Rightarrow> bool"
  where "mm_spiflash_is_locked f = fl_locked f"

subsection \<open>Chip select and bus callbacks\<close>

definition mm_spiflash_set_cs :: "mm_spiflash \<Rightarrow> u8 \<Rightarrow> mm_spiflash"
  where "mm_spiflash_set_cs f level =
    (if \<not> fl_cs_valid f then f
     else
       (let prev = fl_cs_level f; f = f\<lparr>fl_cs_level := (if level \<noteq> 0 then 1 else 0)\<rparr> in
        if prev = fl_cs_level f then f
        else if fl_cs_level f \<noteq> 0 then mm_spiflash_cs_deassert f else f))"

definition spiflash_sample_cs :: "mm_gpio_readers \<Rightarrow> mm_spiflash \<Rightarrow> u8 \<times> mm_spiflash"
  where "spiflash_sample_cs g f =
    (if \<not> fl_cs_valid f then (0, f)
     else if \<not> mm_gpio_bank_reader_present g then (1, f)
     else
       (let moder = mm_gpio_bank_read_moder g (fl_cs_bank f);
            mode_bits = drop_bit (nat (fl_cs_pin f * 2)) moder AND 0x3;
            level = (if mode_bits \<noteq> 1 then 1
                     else if mm_gpio_bank_read g (fl_cs_bank f) AND fl_cs_mask f \<noteq> 0 then 1 else 0)
        in (level, if level \<noteq> fl_cs_level f then mm_spiflash_set_cs f level else f)))"

definition spiflash_cs_level :: "mm_gpio_readers \<Rightarrow> mm_spiflash \<Rightarrow> u8 \<times> mm_spiflash"
  where "spiflash_cs_level g f = (if \<not> fl_cs_valid f then (0, f) else spiflash_sample_cs g f)"

definition spiflash_bus_xfer :: "mm_gpio_readers \<Rightarrow> mm_spiflash \<Rightarrow> u8 \<Rightarrow> u8 \<times> mm_spiflash"
  where "spiflash_bus_xfer g f out =
    (let (cs_level, f) = spiflash_sample_cs g f in
     if fl_cs_valid f \<and> cs_level \<noteq> 0 then (0xFF, f) else mm_spiflash_xfer f out)"

definition spiflash_bus_end :: "mm_spiflash \<Rightarrow> mm_spiflash"
  where "spiflash_bus_end f = mm_spiflash_cs_deassert f"

subsection \<open>Memory-mapped window\<close>

definition spiflash_mmio_read :: "mm_spiflash \<Rightarrow> u32 \<Rightarrow> u32 \<Rightarrow> u32 option"
  where "spiflash_mmio_read f offset size_bytes =
    (let byte = (\<lambda>i. to_u32 (spiflash_read_byte f (offset + i))) in
     if mm_spiflash_is_locked f then None
     else if offset + size_bytes > fl_size f then None
     else if size_bytes = 1 then Some (byte 0)
     else if size_bytes = 2 then Some (byte 0 OR push_bit 8 (byte 1))
     else if size_bytes = 4 then
       Some (byte 0 OR push_bit 8 (byte 1) OR push_bit 16 (byte 2) OR push_bit 24 (byte 3))
     else None)"

definition spiflash_mmio_write :: "mm_spiflash \<Rightarrow> u32 \<Rightarrow> u32 \<Rightarrow> u32 \<Rightarrow> bool"
  where "spiflash_mmio_write f offset size_bytes v = False"

subsection \<open>Attached flashes\<close>

text \<open>The table \<^verbatim>\<open>g_spiflash\<close> and the GPIO readers, the state behind the callbacks.  The \<^verbatim>\<open>opaque\<close> pointer
  of a callback is an index into the table.\<close>

record mm_spiflash_cfg =
  fc_bus :: int
  fc_size :: u32
  fc_mmap :: bool
  fc_mmap_base :: u32
  fc_cs_valid :: bool
  fc_cs_bank :: int
  fc_cs_pin :: int
  fc_path :: string

record flash_world =
  g_spiflash :: "mm_spiflash list"
  fw_gpio :: mm_gpio_readers

definition on_flash :: "nat \<Rightarrow> (mm_spiflash \<Rightarrow> 'a \<times> mm_spiflash) \<Rightarrow> flash_world \<Rightarrow> 'a \<times> flash_world"
  where "on_flash i op w =
    (let (r, f) = op (g_spiflash w ! i) in (r, w\<lparr>g_spiflash := (g_spiflash w)[i := f]\<rparr>))"

definition spiflash_device :: "int \<Rightarrow> nat \<Rightarrow> flash_world mm_spi_device"
  where "spiflash_device bus i =
    \<lparr>spd_bus = bus,
     spd_xfer = Some (\<lambda>w out. on_flash i (\<lambda>f. spiflash_bus_xfer (fw_gpio w) f out) w),
     spd_end = Some (\<lambda>w. snd (on_flash i (\<lambda>f. ((), spiflash_bus_end f)) w)),
     spd_cs_level = Some (\<lambda>w. on_flash i (spiflash_cs_level (fw_gpio w)) w)\<rparr>"

text \<open>The record that \<^verbatim>\<open>mm_spiflash_register_cfg\<close> fills in, before the image is loaded.\<close>

definition spiflash_fresh :: "mm_spiflash_cfg \<Rightarrow> u8 list option \<Rightarrow> bool \<Rightarrow> mm_spiflash"
  where "spiflash_fresh cfg file can_open =
    \<lparr>fl_bus = fc_bus cfg, fl_size = fc_size cfg, fl_data = None, fl_locked = False, fl_write_enable = False,
     fl_status_bp = 0, fl_cmd = 0, fl_addr = 0, fl_page_base = 0, fl_dummy_left = 0,
     fl_addr_bytes = [0, 0, 0, 0], fl_addr_need = 0, fl_addr_have = 0, fl_state = SPIFLASH_IDLE,
     fl_mmap = fc_mmap cfg, fl_mmap_base = fc_mmap_base cfg, fl_path = take 255 (fc_path cfg), fl_dirty = False,
     fl_cs_valid = fc_cs_valid cfg,
     fl_cs_mask = (if fc_cs_valid cfg \<and> fc_cs_pin cfg \<ge> 0 then push_bit (nat (fc_cs_pin cfg)) 1 else 0),
     fl_cs_bank = fc_cs_bank cfg, fl_cs_pin = fc_cs_pin cfg, fl_cs_level = 1,
     fl_file = file, fl_can_open = can_open\<rparr>"

definition mm_spiflash_register_cfg ::
  "mm_spiflash_cfg \<Rightarrow> u8 list option \<Rightarrow> bool \<Rightarrow> flash_world \<Rightarrow> flash_world mm_spi_device list \<Rightarrow>
   bool \<times> flash_world \<times> flash_world mm_spi_device list"
  where "mm_spiflash_register_cfg cfg file can_open w devs =
    (let i = length (g_spiflash w) in
     if i \<ge> SPIFLASH_MAX then (False, w, devs)
     else
       (let (ok, f) = spiflash_load (spiflash_fresh cfg file can_open);
            w = w\<lparr>g_spiflash := g_spiflash w @ [f]\<rparr>
        in if \<not> ok then (False, w, devs)
           else (let (ok, devs) = mm_spi_bus_register_device devs (spiflash_device (fl_bus f) i)
                 in (ok, w, devs))))"

definition mm_spiflash_get_for_bus :: "flash_world \<Rightarrow> int \<Rightarrow> mm_spiflash option"
  where "mm_spiflash_get_for_bus w bus = find (\<lambda>f. fl_bus f = bus) (g_spiflash w)"

definition mm_spiflash_reset_all :: "flash_world \<Rightarrow> flash_world"
  where "mm_spiflash_reset_all w = w\<lparr>g_spiflash := map mm_spiflash_cs_deassert (g_spiflash w)\<rparr>"

text \<open>Shutting down releases the buffers; what remains is the files.\<close>

definition mm_spiflash_shutdown_all :: "flash_world \<Rightarrow> u8 list option list \<times> flash_world"
  where "mm_spiflash_shutdown_all w = (map (fl_file \<circ> spiflash_sync) (g_spiflash w), w\<lparr>g_spiflash := []\<rparr>)"

definition mm_spiflash_count :: "flash_world \<Rightarrow> nat"
  where "mm_spiflash_count w = length (g_spiflash w)"

fun register_mmap_from :: "nat \<Rightarrow> mm_spiflash list \<Rightarrow> flash_world mmio_bus \<Rightarrow> flash_world mmio_bus" where
  "register_mmap_from i [] bus = bus"
| "register_mmap_from i (f # fs) bus =
    (if \<not> fl_mmap f then register_mmap_from (Suc i) fs bus
     else register_mmap_from (Suc i) fs (snd (mmio_bus_register_region bus
       \<lparr>mr_base = fl_mmap_base f, mr_size = fl_size f,
        mr_read = Some (\<lambda>_ offset size_bytes w. (spiflash_mmio_read (g_spiflash w ! i) offset size_bytes, w)),
        mr_write = Some (\<lambda>_ offset size_bytes v w. (spiflash_mmio_write (g_spiflash w ! i) offset size_bytes v, w))\<rparr>)))"

definition mm_spiflash_register_mmap_regions :: "flash_world \<Rightarrow> flash_world mmio_bus \<Rightarrow> flash_world mmio_bus"
  where "mm_spiflash_register_mmap_regions w bus = register_mmap_from 0 (g_spiflash w) bus"

definition register_prot_one :: "mm_spiflash \<Rightarrow> mm_prot_ctx \<Rightarrow> mm_prot_ctx"
  where "register_prot_one f ctx =
    (if \<not> fl_mmap f then ctx
     else
       (let perms = 0x1 OR 0x4;
            ctx = snd (mm_prot_add_region ctx (fl_mmap_base f) (fl_size f) perms MM_SECURE)
        in snd (mm_prot_add_region ctx (fl_mmap_base f) (fl_size f) perms MM_NONSECURE)))"

definition mm_spiflash_register_prot_regions :: "flash_world \<Rightarrow> mm_prot_ctx \<Rightarrow> mm_prot_ctx"
  where "mm_spiflash_register_prot_regions w ctx = fold register_prot_one (g_spiflash w) ctx"

subsection \<open>Invariant\<close>

text \<open>The buffer has the size of the chip, the address bytes fit their array, the lock flag follows
  the protection bits, and the image file is at most as far behind the buffer as the current page
  program.\<close>

definition flash_synced :: "mm_spiflash \<Rightarrow> bool"
  where "flash_synced f =
    ((\<not> fl_dirty f \<longrightarrow> fl_data f \<noteq> None \<longrightarrow> map_option (take (unat (fl_size f))) (fl_file f) = fl_data f) \<and>
     (fl_state f \<noteq> SPIFLASH_PP \<longrightarrow> fl_can_open f \<longrightarrow> \<not> fl_dirty f))"

definition flash_ok :: "mm_spiflash \<Rightarrow> bool"
  where "flash_ok f =
    ((\<forall>d. fl_data f = Some d \<longrightarrow> fl_size f \<noteq> 0 \<and> length d = unat (fl_size f)) \<and>
     length (fl_addr_bytes f) = 4 \<and>
     (fl_state f = SPIFLASH_ADDR \<longrightarrow> fl_addr_need f = 3 \<and> fl_addr_have f < 3) \<and>
     (fl_locked f \<longleftrightarrow> fl_status_bp f \<noteq> 0) \<and> flash_synced f)"

lemma sync_fields [simp]:
  "fl_data (spiflash_sync f) = fl_data f" "fl_size (spiflash_sync f) = fl_size f"
  "fl_state (spiflash_sync f) = fl_state f" "fl_can_open (spiflash_sync f) = fl_can_open f"
  "fl_addr_bytes (spiflash_sync f) = fl_addr_bytes f" "fl_addr_need (spiflash_sync f) = fl_addr_need f"
  "fl_addr_have (spiflash_sync f) = fl_addr_have f" "fl_locked (spiflash_sync f) = fl_locked f"
  "fl_status_bp (spiflash_sync f) = fl_status_bp f" "fl_write_enable (spiflash_sync f) = fl_write_enable f"
  "fl_cmd (spiflash_sync f) = fl_cmd f" "fl_dirty (spiflash_sync f) = (fl_dirty f \<and> \<not> fl_can_open f)"
  "fl_addr (spiflash_sync f) = fl_addr f" "fl_page_base (spiflash_sync f) = fl_page_base f"
  by (simp_all add: spiflash_sync_def)

lemma sync_file:
  "fl_data f = Some d \<Longrightarrow> fl_size f \<noteq> 0 \<Longrightarrow>
   fl_file (spiflash_sync f) = (if fl_dirty f \<and> fl_can_open f then Some d else fl_file f)"
  by (simp add: spiflash_sync_def word_neq_0_conv)

lemma load_ok: "fl_data f = None \<Longrightarrow> length (fl_addr_bytes f) = 4 \<Longrightarrow> fl_state f = SPIFLASH_IDLE \<Longrightarrow>
    (fl_locked f \<longleftrightarrow> fl_status_bp f \<noteq> 0) \<Longrightarrow> \<not> fl_dirty f \<Longrightarrow> flash_ok (snd (spiflash_load f))"
  by (auto simp: flash_ok_def flash_synced_def spiflash_load_def Let_def sync_file unat_eq_0 split: option.split)

lemma fresh_ok: "flash_ok (snd (spiflash_load (spiflash_fresh cfg file can_open)))"
  by (rule load_ok) (simp_all add: spiflash_fresh_def)

lemma erase_fields [simp]:
  "fl_size (spiflash_erase_range f a n) = fl_size f" "fl_state (spiflash_erase_range f a n) = fl_state f"
  "fl_can_open (spiflash_erase_range f a n) = fl_can_open f"
  "fl_addr_bytes (spiflash_erase_range f a n) = fl_addr_bytes f"
  "fl_addr_need (spiflash_erase_range f a n) = fl_addr_need f"
  "fl_addr_have (spiflash_erase_range f a n) = fl_addr_have f"
  "fl_locked (spiflash_erase_range f a n) = fl_locked f"
  "fl_status_bp (spiflash_erase_range f a n) = fl_status_bp f"
  "fl_cmd (spiflash_erase_range f a n) = fl_cmd f"
  "fl_write_enable (spiflash_erase_range f a n) = fl_write_enable f"
  by (simp_all add: spiflash_erase_range_def Let_def split: option.split)

lemma erase_data:
  assumes "fl_data f = Some d" "length d = unat (fl_size f)" "unat a + unat n < 2 ^ 32"
  shows "fl_data (spiflash_erase_range f a n) = Some (erased (unat a) (unat n) d)"
proof (cases "n = 0 \<or> fl_size f \<le> a")
  case True
  have "erased (unat a) (unat n) d = d"
    using True assms(2) by (intro nth_equalityI) (auto simp: erased_nth word_le_nat_alt)
  then show ?thesis
    using True assms(1) by (auto simp: spiflash_erase_range_def Let_def)
next
  case False
  have u: "unat (a + n) = unat a + unat n" using assms(3) by (simp add: unat_word_ariths)
  define e where "e = (if a + n > fl_size f then fl_size f else a + n)"
  have le: "a \<le> e" using False u by (auto simp: e_def word_le_nat_alt)
  have "take (unat a) d @ replicate (unat (e - a)) 0xFF @ drop (unat e) d = erased (unat a) (unat n) d"
    unfolding unat_sub [OF le]
    using False u assms(2) by (intro erased_splice) (auto simp: e_def word_le_nat_alt word_less_nat_alt)
  moreover have "\<not> a + n < a" using u by (simp add: word_less_nat_alt)
  ultimately show ?thesis
    using False assms(1) by (simp add: spiflash_erase_range_def Let_def flip: e_def)
qed

lemma erase_cases:
  "spiflash_erase_range f a n = f \<or>
   (\<exists>d'. spiflash_erase_range f a n = spiflash_sync (f\<lparr>fl_data := Some d', fl_dirty := True\<rparr>))"
  by (auto simp: spiflash_erase_range_def Let_def split: option.split)

lemma erase_ok:
  assumes "flash_ok f" "unat a + unat n < 2 ^ 32" "fl_state f \<noteq> SPIFLASH_PP"
  shows "flash_ok (spiflash_erase_range f a n)"
proof (cases "fl_data f")
  case None
  then show ?thesis using assms(1) by (simp add: spiflash_erase_range_def)
next
  case (Some d)
  then have d: "length d = unat (fl_size f)" "fl_size f \<noteq> 0" using assms(1) by (simp_all add: flash_ok_def)
  note new = erase_data [OF Some d(1) assms(2)]
  have "flash_synced (spiflash_erase_range f a n)"
    using erase_cases [of f a n]
  proof (elim disjE exE)
    fix d' assume e: "spiflash_erase_range f a n = spiflash_sync (f\<lparr>fl_data := Some d', fl_dirty := True\<rparr>)"
    then have "length d' = unat (fl_size f)" using new d by simp
    then show ?thesis using d by (simp add: e flash_synced_def sync_file)
  qed (use assms(1) in \<open>simp add: flash_ok_def\<close>)
  then show ?thesis using assms(1,3) new d by (simp add: flash_ok_def)
qed

definition addr24 :: "u8 \<Rightarrow> u8 \<Rightarrow> u8 \<Rightarrow> u32"
  where "addr24 b0 b1 b2 = push_bit 16 (to_u32 b0) OR push_bit 8 (to_u32 b1) OR to_u32 b2"

lemma addr24_less: "unat (addr24 b0 b1 b2) < 2 ^ 24"
proof -
  have "take_bit 24 (addr24 b0 b1 b2) = addr24 b0 b1 b2"
    by (rule bit_word_eqI) (auto simp: addr24_def to_u32_def bit_simps dest: bit_imp_le_length)
  then have "unat (addr24 b0 b1 b2) = take_bit 24 (unat (addr24 b0 b1 b2))" by (metis unsigned_take_bit_eq)
  then show ?thesis by (metis take_bit_nat_less_exp)
qed

lemma addr24_masked: "n \<le> 2 ^ 24 \<Longrightarrow> unat (addr24 b0 b1 b2 AND m) + n < 2 ^ 32"
  using addr24_less [of b0 b1 b2] word_and_le2 [of "addr24 b0 b1 b2" m] by (simp add: word_le_nat_alt)

lemma flash_ok_write_enable [simp]: "flash_ok (f\<lparr>fl_write_enable := w\<rparr>) = flash_ok f"
  by (simp add: flash_ok_def flash_synced_def)

lemma flash_ok_command [simp]:
  "flash_ok (f\<lparr>fl_cmd := c\<rparr>) = flash_ok f" "flash_ok (f\<lparr>fl_addr := a\<rparr>) = flash_ok f"
  "flash_ok (f\<lparr>fl_page_base := a\<rparr>) = flash_ok f" "flash_ok (f\<lparr>fl_dummy_left := n\<rparr>) = flash_ok f"
  by (simp_all add: flash_ok_def flash_synced_def)

lemma idle_ok: "flash_ok f \<Longrightarrow> fl_state f = SPIFLASH_IDLE \<Longrightarrow> flash_ok (snd (spiflash_idle f b))"
proof (cases "(b = 0xC7 \<or> b = 0x60) \<and> fl_write_enable f")
  assume f: "flash_ok f" "fl_state f = SPIFLASH_IDLE"
  let ?g = "f\<lparr>fl_cmd := b, fl_addr := 0, fl_addr_have := 0, fl_addr_need := 0\<rparr>"
  case True
  have "flash_ok ?g" using f by (simp add: flash_ok_def flash_synced_def)
  then have "flash_ok (spiflash_erase_range ?g 0 (fl_size f))"
    using f unat_u32_less [of "fl_size f"] by (intro erase_ok) simp_all
  then show ?thesis using True by (auto simp: spiflash_idle_def)
next
  assume f: "flash_ok f" "fl_state f = SPIFLASH_IDLE"
  case False
  then show ?thesis using f by (auto simp: spiflash_idle_def Let_def flash_ok_def flash_synced_def)
qed

lemma erase_cmd_ok:
  assumes "flash_ok f" "unat a + unat n < 2 ^ 32" "fl_state f \<noteq> SPIFLASH_PP"
  shows "flash_ok (spiflash_erase_cmd f a n)"
proof -
  have "flash_ok (g\<lparr>fl_state := SPIFLASH_IDLE\<rparr>)" if "flash_ok g" "fl_state g \<noteq> SPIFLASH_PP" for g
    using that by (simp add: flash_ok_def flash_synced_def)
  then show ?thesis using erase_ok [OF assms] assms by (simp add: spiflash_erase_cmd_def)
qed

lemma addr_byte_ok:
  assumes f: "flash_ok f" "fl_state f = SPIFLASH_ADDR"
  shows "flash_ok (snd (spiflash_addr_byte f b))"
proof (cases "fl_addr_need f \<le> Suc (fl_addr_have f)")
  case True
  define bs where "bs = (fl_addr_bytes f)[fl_addr_have f := b]"
  define a where "a = addr24 (bs ! 0) (bs ! 1) (bs ! 2)"
  define g where "g = f\<lparr>fl_addr_bytes := bs, fl_addr_have := Suc (fl_addr_have f), fl_addr := a,
    fl_page_base := a AND NOT (SPIFLASH_PAGE_SIZE - 1)\<rparr>"
  have st: "flash_ok (g\<lparr>fl_dummy_left := n, fl_state := st\<rparr>)" if "st \<noteq> SPIFLASH_ADDR" for st n
    using f that by (simp add: g_def bs_def flash_ok_def flash_synced_def)
  have er: "flash_ok (spiflash_erase_cmd g (a AND m) n)" if "unat n \<le> 2 ^ 24" for m n
  proof -
    have "spiflash_erase_cmd g (a AND m) n = spiflash_erase_cmd (g\<lparr>fl_state := SPIFLASH_IDLE\<rparr>) (a AND m) n"
      by (simp add: spiflash_erase_cmd_def spiflash_erase_range_def spiflash_sync_def Let_def split: option.split)
    moreover have "flash_ok (g\<lparr>fl_state := SPIFLASH_IDLE\<rparr>)" using st [of SPIFLASH_IDLE "fl_dummy_left g"] by simp
    ultimately show ?thesis using addr24_masked [OF that] by (simp add: erase_cmd_ok a_def)
  qed
  have "spiflash_addr_byte f b = (0xFF,
          if fl_cmd f = 0x03 \<or> fl_cmd f = 0x0B then
            g\<lparr>fl_dummy_left := (if fl_cmd f = 0x0B then 1 else 0), fl_state := SPIFLASH_READ\<rparr>
          else if fl_cmd f = 0x02 then g\<lparr>fl_state := SPIFLASH_PP\<rparr>
          else if fl_cmd f = 0x20 then spiflash_erase_cmd g (a AND NOT 0xFFF) 0x1000
          else if fl_cmd f = 0xD8 then spiflash_erase_cmd g (a AND NOT 0xFFFF) 0x10000
          else g\<lparr>fl_state := SPIFLASH_IDLE\<rparr>)"
    using True by (simp add: spiflash_addr_byte_def Let_def g_def a_def bs_def addr24_def)
  then show ?thesis
    using st [of _ "fl_dummy_left g"] st [of SPIFLASH_READ] er by simp
next
  case False
  then show ?thesis using f by (simp add: spiflash_addr_byte_def flash_ok_def flash_synced_def)
qed

lemma program_ok:
  assumes f: "flash_ok f" "fl_state f = SPIFLASH_PP"
  shows "flash_ok (snd (spiflash_program f b))"
  using f by (auto simp: spiflash_program_def Let_def flash_ok_def flash_synced_def split: option.split)

lemma xfer_ok: "flash_ok f \<Longrightarrow> flash_ok (snd (mm_spiflash_xfer f b))"
  by (cases "fl_state f")
    (auto simp: mm_spiflash_xfer_def idle_ok addr_byte_ok program_ok spiflash_read_out_def,
     auto simp: flash_ok_def flash_synced_def spiflash_set_bp_def spiflash_set_locked_def)

lemma deassert_ok: "flash_ok f \<Longrightarrow> flash_ok (mm_spiflash_cs_deassert f)"
proof -
  assume f: "flash_ok f"
  define g where "g = (if fl_state f = SPIFLASH_PP \<and> fl_dirty f then spiflash_sync f else f)"
  have "flash_ok (g\<lparr>fl_state := SPIFLASH_IDLE\<rparr>)"
    using f by (auto simp: g_def flash_ok_def flash_synced_def sync_file)
  then show ?thesis by (simp add: mm_spiflash_cs_deassert_def Let_def flash_ok_def flash_synced_def flip: g_def)
qed

interpretation flash: serial_device mm_spiflash_xfer mm_spiflash_cs_deassert "\<lambda>_. True" flash_ok
  by unfold_locales (simp_all add: xfer_ok deassert_ok)

lemma sample_ok: "flash_ok f \<Longrightarrow> flash_ok (snd (spiflash_sample_cs g f))"
proof -
  assume f: "flash_ok f"
  then have l: "flash_ok (f\<lparr>fl_cs_level := n\<rparr>)" for n by (simp add: flash_ok_def flash_synced_def)
  show ?thesis
    using f l deassert_ok [OF l] by (simp add: spiflash_sample_cs_def mm_spiflash_set_cs_def Let_def)
qed

interpretation flash_bus: serial_device "spiflash_bus_xfer g" spiflash_bus_end "\<lambda>_. True" flash_ok for g
proof
  show "flash_ok (snd (spiflash_bus_xfer g f b))" if "flash_ok f" for f b
    using sample_ok [OF that, of g] by (simp add: spiflash_bus_xfer_def xfer_ok case_prod_beta)
qed (simp add: spiflash_bus_end_def deassert_ok)

subsection \<open>Write protection\<close>

definition flash_sealed :: "u8 list option \<times> u8 \<Rightarrow> mm_spiflash \<Rightarrow> bool"
  where "flash_sealed c f = (\<not> fl_write_enable f \<and> (fl_data f, fl_status_bp f) = c)"

lemma sealed_xfer: "b \<noteq> 0x06 \<Longrightarrow> flash_sealed c f \<Longrightarrow> flash_sealed c (snd (mm_spiflash_xfer f b))"
  by (cases "fl_state f")
    (auto simp: flash_sealed_def mm_spiflash_xfer_def spiflash_idle_def spiflash_addr_byte_def spiflash_erase_cmd_def
       spiflash_read_out_def spiflash_program_def Let_def split: option.split)

interpretation sealed: serial_device mm_spiflash_xfer mm_spiflash_cs_deassert "\<lambda>b. b \<noteq> 0x06" "flash_sealed c" for c
proof
  show "flash_sealed c (snd (mm_spiflash_xfer f b))" if "b \<noteq> 0x06" "flash_sealed c f" for f b
    using that by (rule sealed_xfer)
qed (simp add: flash_sealed_def mm_spiflash_cs_deassert_def Let_def)

subsection \<open>Programming a page\<close>

text \<open>The reference: byte by byte, an offset that wraps inside the page, and bits that only clear.\<close>

fun page_program :: "nat \<Rightarrow> nat \<Rightarrow> u8 list \<Rightarrow> u8 list \<Rightarrow> u8 list" where
  "page_program p j [] d = d"
| "page_program p j (b # bs) d = page_program p (Suc j mod 256) bs (d[p + j := d ! (p + j) AND b])"

lemma page_program_length [simp]: "length (page_program p j bs d) = length d"
  by (induction p j bs d rule: page_program.induct) simp_all

lemma page_program_outside: "j < 256 \<Longrightarrow> i < p \<or> p + 256 \<le> i \<Longrightarrow> page_program p j bs d ! i = d ! i"
  by (induction p j bs d rule: page_program.induct) auto

definition page_slot :: "nat \<Rightarrow> nat \<Rightarrow> nat"
  where "page_slot j i = (if j \<le> i then i - j else i + 256 - j)"

lemma page_slot_Suc:
  "j < 256 \<Longrightarrow> i < 256 \<Longrightarrow> page_slot (Suc j mod 256) i = (if i = j then 255 else page_slot j i - 1)"
  by (cases "j = 255") (auto simp: page_slot_def)

lemma page_slot_0: "j < 256 \<Longrightarrow> i < 256 \<Longrightarrow> page_slot j i = 0 \<longleftrightarrow> i = j"
  by (auto simp: page_slot_def)

lemma page_program_nth:
  "length bs \<le> 256 \<Longrightarrow> j < 256 \<Longrightarrow> i < 256 \<Longrightarrow> p + 256 \<le> length d \<Longrightarrow>
   page_program p j bs d ! (p + i) =
     (if page_slot j i < length bs then d ! (p + i) AND bs ! page_slot j i else d ! (p + i))"
proof (induction p j bs d rule: page_program.induct)
  case (2 p j b bs d)
  have "page_slot j i < 256" using 2 by (auto simp: page_slot_def)
  then show ?case
    using 2 page_slot_0 [of j i] by (cases "page_slot j i") (auto simp: page_slot_Suc)
qed simp

definition programming :: "nat \<Rightarrow> nat \<Rightarrow> u8 list \<Rightarrow> mm_spiflash \<Rightarrow> bool"
  where "programming p j d f =
    (fl_state f = SPIFLASH_PP \<and> fl_cmd f = 0x02 \<and> fl_write_enable f \<and> fl_data f = Some d \<and>
     unat (fl_addr f) = p + j \<and> unat (fl_page_base f) = p \<and> j < 256 \<and> 256 dvd p \<and> p + 256 \<le> unat (fl_size f))"

lemma unat_align: "n < 32 \<Longrightarrow> unat (w AND NOT (mask n)) = 2 ^ n * (unat w div 2 ^ n)" for w :: u32
proof -
  assume n: "n < 32"
  have "w AND NOT (mask n) = push_bit n (drop_bit n w)"
    by (rule bit_word_eqI) (auto simp: bit_simps)
  moreover have "unat (drop_bit n w) = unat w div 2 ^ n"
    using unat_u32_less [of w] by (simp only: unsigned_drop_bit_eq) (simp add: drop_bit_eq_div take_bit_nat_eq_self)
  then have "unat (push_bit n (drop_bit n w)) = take_bit 32 (2 ^ n * (unat w div 2 ^ n))"
    unfolding unsigned_push_bit_eq by (simp add: push_bit_eq_mult mult.commute)
  moreover have "2 ^ n * (unat w div 2 ^ n) < 2 ^ 32"
    using unat_u32_less [of w] by (intro le_less_trans [OF times_div_less_eq_dividend]) simp
  ultimately show ?thesis by (simp add: take_bit_nat_eq_self)
qed

lemma unat_page: "unat (w AND NOT (SPIFLASH_PAGE_SIZE - 1)) = 256 * (unat w div 256)"
  using unat_align [of 8 w] by (simp add: SPIFLASH_PAGE_SIZE_def mask_eq_exp_minus_1)

lemma unat_sector: "unat (w AND NOT 0xFFF) = 4096 * (unat w div 4096)" for w :: u32
  using unat_align [of 12 w] by (simp add: mask_eq_exp_minus_1)

lemma program_step:
  assumes f: "programming p j d f"
  shows "programming p (Suc j mod 256) (d[p + j := d ! (p + j) AND b]) (snd (spiflash_program f b))"
proof -
  obtain q where q: "p = 256 * q" using f by (auto simp: programming_def elim: dvdE)
  have size: "p + 256 < 2 ^ 32" "p + j < unat (fl_size f)" "j < 256"
    using f unat_u32_less [of "fl_size f"] by (auto simp: programming_def)
  have idx: "unat (fl_addr f mod fl_size f) = p + j" using f size by (simp add: programming_def unat_mod)
  have nxt: "unat (fl_addr f + 1) = p + Suc j" using f size by (simp add: programming_def unat_word_ariths)
  have "(p + Suc j) div 256 = (if j = 255 then q + 1 else q)" using size(3) by (intro div_nat_eqI) (auto simp: q)
  then have "unat ((fl_addr f + 1) AND NOT (SPIFLASH_PAGE_SIZE - 1)) = (if j = 255 then p + 256 else p)"
    unfolding unat_page nxt by (simp add: q)
  then have same: "(fl_addr f + 1) AND NOT (SPIFLASH_PAGE_SIZE - 1) = fl_page_base f \<longleftrightarrow> j \<noteq> 255"
    using f unfolding word_unat_eq_iff by (simp add: programming_def)
  define g where "g = (if d ! (p + j) AND b \<noteq> d ! (p + j)
    then f\<lparr>fl_data := Some (d[p + j := d ! (p + j) AND b]), fl_dirty := True\<rparr> else f)"
  have g: "programming p j (d[p + j := d ! (p + j) AND b]) g" "fl_addr g = fl_addr f" "fl_page_base g = fl_page_base f"
    using f by (auto simp: g_def programming_def)
  have "snd (spiflash_program f b) = g\<lparr>fl_addr := (if j = 255 then fl_page_base f else fl_addr f + 1)\<rparr>"
    using f same by (simp add: spiflash_program_def programming_def idx Let_def g_def)
  then show ?thesis using g nxt size by (auto simp: programming_def)
qed

lemma program_run:
  "programming p j d f \<Longrightarrow>
   \<exists>j'. programming p j' (page_program p j bs d) (snd (spi_shift mm_spiflash_xfer f bs))"
proof (induction bs arbitrary: j d f)
  case (Cons b bs)
  have "mm_spiflash_xfer f b = spiflash_program f b"
    using Cons.prems by (simp add: mm_spiflash_xfer_def programming_def)
  then show ?case using Cons.IH [OF program_step [OF Cons.prems, of b]] by (simp add: case_prod_beta Let_def)
qed auto

lemma erase_cmd_fields [simp]:
  "fl_can_open (spiflash_erase_cmd f a n) = fl_can_open f" "fl_size (spiflash_erase_cmd f a n) = fl_size f"
  by (simp_all add: spiflash_erase_cmd_def)

lemma xfer_keeps_host [simp]:
  "fl_can_open (snd (mm_spiflash_xfer f b)) = fl_can_open f" "fl_size (snd (mm_spiflash_xfer f b)) = fl_size f"
proof -
  have idle: "fl_can_open (snd (spiflash_idle f b)) = fl_can_open f" "fl_size (snd (spiflash_idle f b)) = fl_size f"
    by (simp_all add: spiflash_idle_def Let_def)
  have addr: "fl_can_open (snd (spiflash_addr_byte f b)) = fl_can_open f" "fl_size (snd (spiflash_addr_byte f b)) = fl_size f"
    by (simp_all add: spiflash_addr_byte_def Let_def)
  have pp: "fl_can_open (snd (spiflash_program f b)) = fl_can_open f" "fl_size (snd (spiflash_program f b)) = fl_size f"
    by (simp_all add: spiflash_program_def Let_def split: option.split)
  show "fl_can_open (snd (mm_spiflash_xfer f b)) = fl_can_open f" "fl_size (snd (mm_spiflash_xfer f b)) = fl_size f"
    by (cases "fl_state f"; simp add: mm_spiflash_xfer_def idle addr pp spiflash_read_out_def spiflash_set_bp_def
        spiflash_set_locked_def Let_def)+
qed

lemma deassert_fields [simp]:
  "fl_can_open (mm_spiflash_cs_deassert f) = fl_can_open f" "fl_size (mm_spiflash_cs_deassert f) = fl_size f"
  "fl_data (mm_spiflash_cs_deassert f) = fl_data f" "fl_state (mm_spiflash_cs_deassert f) = SPIFLASH_IDLE"
  "fl_write_enable (mm_spiflash_cs_deassert f) = (fl_write_enable f \<and> fl_cmd f \<noteq> 0x02)"
  by (auto simp: mm_spiflash_cs_deassert_def Let_def)

lemma shift_keeps_host [simp]:
  "fl_can_open (snd (spi_shift mm_spiflash_xfer f bs)) = fl_can_open f"
  "fl_size (snd (spi_shift mm_spiflash_xfer f bs)) = fl_size f"
  by (induction bs arbitrary: f) (simp_all add: Let_def case_prod_beta)

text \<open>The command byte and the three address bytes of a command.\<close>

definition addressed :: "u8 \<Rightarrow> u8 \<Rightarrow> u8 \<Rightarrow> u8 \<Rightarrow> mm_spiflash \<Rightarrow> mm_spiflash"
  where "addressed c b0 b1 b2 f = f\<lparr>fl_cmd := c, fl_addr := addr24 b0 b1 b2,
    fl_page_base := addr24 b0 b1 b2 AND NOT (SPIFLASH_PAGE_SIZE - 1),
    fl_addr_bytes := [b0, b1, b2, fl_addr_bytes f ! 3], fl_addr_need := 3, fl_addr_have := 3,
    fl_state := SPIFLASH_ADDR\<rparr>"

lemma address_phase:
  assumes f: "length (fl_addr_bytes f) = 4" "fl_state f = SPIFLASH_IDLE"
    and c: "c = 0x02 \<or> c = 0x03 \<or> c = 0x0B \<or> c = 0x20"
  shows "spi_shift mm_spiflash_xfer f [c, b0, b1, b2] = ([0xFF, 0xFF, 0xFF, 0xFF],
    let g = addressed c b0 b1 b2 f in
    if c = 0x20 then spiflash_erase_cmd g (addr24 b0 b1 b2 AND NOT 0xFFF) 0x1000
    else if c = 0x02 then g\<lparr>fl_state := SPIFLASH_PP\<rparr>
    else g\<lparr>fl_dummy_left := (if c = 0x0B then 1 else 0), fl_state := SPIFLASH_READ\<rparr>)"
proof -
  obtain x0 x1 x2 x3 where b: "fl_addr_bytes f = [x0, x1, x2, x3]"
    using f(1) by (auto simp: eval_nat_numeral length_Suc_conv)
  define g where "g bs n = f\<lparr>fl_cmd := c, fl_addr := 0, fl_addr_bytes := bs, fl_addr_need := 3, fl_addr_have := n,
    fl_state := SPIFLASH_ADDR\<rparr>" for bs n
  have "spiflash_idle f c =
      (0xFF, f\<lparr>fl_cmd := c, fl_addr := 0, fl_addr_have := 0, fl_addr_need := 3, fl_state := SPIFLASH_ADDR\<rparr>)"
    using c by (elim disjE) (simp_all add: spiflash_idle_def Let_def)
  also have "f\<lparr>fl_cmd := c, fl_addr := 0, fl_addr_have := 0, fl_addr_need := 3, fl_state := SPIFLASH_ADDR\<rparr> =
      g [x0, x1, x2, x3] 0"
    by (rule mm_spiflash.equality) (simp_all add: g_def b)
  finally have 1: "mm_spiflash_xfer f c = (0xFF, g [x0, x1, x2, x3] 0)"
    using f by (simp add: mm_spiflash_xfer_def)
  have 2: "mm_spiflash_xfer (g [x0, x1, x2, x3] 0) b0 = (0xFF, g [b0, x1, x2, x3] 1)"
    by (auto simp: mm_spiflash_xfer_def spiflash_addr_byte_def Let_def g_def intro!: mm_spiflash.equality)
  have 3: "mm_spiflash_xfer (g [b0, x1, x2, x3] 1) b1 = (0xFF, g [b0, b1, x2, x3] 2)"
    by (auto simp: mm_spiflash_xfer_def spiflash_addr_byte_def Let_def g_def intro!: mm_spiflash.equality)
  have 4: "(g [b0, b1, x2, x3] 2)\<lparr>fl_addr_bytes := [b0, b1, b2, x3], fl_addr_have := 3,
      fl_addr := addr24 b0 b1 b2, fl_page_base := addr24 b0 b1 b2 AND NOT (SPIFLASH_PAGE_SIZE - 1)\<rparr> =
      addressed c b0 b1 b2 f"
    using b by (auto simp: g_def addressed_def intro!: mm_spiflash.equality)
  have 5: "mm_spiflash_xfer (g [b0, b1, x2, x3] 2) b2 = spiflash_addr_byte (g [b0, b1, x2, x3] 2) b2"
    "fl_addr_need (g [b0, b1, x2, x3] 2) = 3" "fl_addr_have (g [b0, b1, x2, x3] 2) = 2"
    "fl_cmd (g [b0, b1, x2, x3] 2) = c" "fl_addr_bytes (g [b0, b1, x2, x3] 2) = [b0, b1, x2, x3]"
    by (simp_all add: mm_spiflash_xfer_def g_def)
  have "mm_spiflash_xfer (g [b0, b1, x2, x3] 2) b2 = (0xFF, let g = addressed c b0 b1 b2 f in
    if c = 0x20 then spiflash_erase_cmd g (addr24 b0 b1 b2 AND NOT 0xFFF) 0x1000
    else if c = 0x02 then g\<lparr>fl_state := SPIFLASH_PP\<rparr>
    else g\<lparr>fl_dummy_left := (if c = 0x0B then 1 else 0), fl_state := SPIFLASH_READ\<rparr>)"
    unfolding 5(1) spiflash_addr_byte_def using c
    by (auto simp: 5 Let_def simp flip: 4 addr24_def)
  then show ?thesis by (simp add: 1 2 3 del: One_nat_def)
qed

text \<open>A frame: bytes shifted through the chip, then the chip select released.\<close>

definition flash_frame :: "mm_spiflash \<Rightarrow> u8 list \<Rightarrow> mm_spiflash"
  where "flash_frame f bs = mm_spiflash_cs_deassert (snd (spi_shift mm_spiflash_xfer f bs))"

lemma frame_ok: "flash_ok f \<Longrightarrow> flash_ok (flash_frame f bs)"
  unfolding flash_frame_def by (intro flash.release_keeps flash.shift_keeps) simp_all

lemma frame_fields [simp]:
  "fl_state (flash_frame f bs) = SPIFLASH_IDLE" "fl_can_open (flash_frame f bs) = fl_can_open f"
  "fl_size (flash_frame f bs) = fl_size f"
  by (simp_all add: flash_frame_def)

lemma frame_wren:
  assumes "fl_state f = SPIFLASH_IDLE"
  shows "fl_data (flash_frame f [0x06]) = fl_data f" "fl_write_enable (flash_frame f [0x06])"
  using assms by (simp_all add: flash_frame_def mm_spiflash_xfer_def spiflash_idle_def Let_def)

lemma frame_image:
  "flash_ok f \<Longrightarrow> fl_can_open f \<Longrightarrow> fl_data (flash_frame f bs) = Some d \<Longrightarrow>
   map_option (take (length d)) (fl_file (flash_frame f bs)) = Some d"
  using frame_ok [of f bs] by (auto simp: flash_ok_def flash_synced_def)

lemma ok_data: "flash_ok f \<Longrightarrow> fl_data f = Some d \<Longrightarrow> length d = unat (fl_size f) \<and> fl_size f \<noteq> 0"
  by (simp add: flash_ok_def)

abbreviation page_of :: "u32 \<Rightarrow> nat" where "page_of a \<equiv> 256 * (unat a div 256)"

lemma program_entry:
  assumes f: "flash_ok f" "fl_state f = SPIFLASH_IDLE" "fl_data f = Some d" "fl_write_enable f"
    and fits: "page_of (addr24 b0 b1 b2) + 256 \<le> length d"
  shows "programming (page_of (addr24 b0 b1 b2)) (unat (addr24 b0 b1 b2) mod 256) d
    (snd (spi_shift mm_spiflash_xfer f [0x02, b0, b1, b2]))"
proof -
  have "length (fl_addr_bytes f) = 4" using f(1) by (simp add: flash_ok_def)
  then show ?thesis
    using f fits ok_data [OF f(1,3)] unat_page [of "addr24 b0 b1 b2"]
    by (subst address_phase) (simp_all add: programming_def addressed_def)
qed

lemma frame_program:
  assumes f: "flash_ok f" "fl_state f = SPIFLASH_IDLE" "fl_data f = Some d" "fl_write_enable f"
    and fits: "page_of (addr24 b0 b1 b2) + 256 \<le> length d"
  shows "fl_data (flash_frame f (0x02 # b0 # b1 # b2 # bs)) =
      Some (page_program (page_of (addr24 b0 b1 b2)) (unat (addr24 b0 b1 b2) mod 256) bs d)"
    and "\<not> fl_write_enable (flash_frame f (0x02 # b0 # b1 # b2 # bs))"
proof -
  have "spi_shift mm_spiflash_xfer f (0x02 # b0 # b1 # b2 # bs) =
    (let (r, s) = spi_shift mm_spiflash_xfer f [0x02, b0, b1, b2]; (r', s) = spi_shift mm_spiflash_xfer s bs in (r @ r', s))"
    using spi_shift_append [of mm_spiflash_xfer f "[0x02, b0, b1, b2]" bs] by simp
  then show "fl_data (flash_frame f (0x02 # b0 # b1 # b2 # bs)) =
      Some (page_program (page_of (addr24 b0 b1 b2)) (unat (addr24 b0 b1 b2) mod 256) bs d)"
    "\<not> fl_write_enable (flash_frame f (0x02 # b0 # b1 # b2 # bs))"
    using program_run [OF program_entry [OF f fits], of bs]
    by (auto simp: flash_frame_def programming_def case_prod_beta Let_def)
qed

text \<open>A page program changes one page and nothing else.  The bytes go to consecutive addresses
  that wrap inside the page of the start address; a cell ends up as the AND of what it held and
  what was sent to it, so programming only clears bits.  When the frame ends the write enable
  latch is cleared and the image file, if it can be opened, holds the new contents.\<close>

theorem page_program_effect:
  assumes f: "flash_ok f" "fl_state f = SPIFLASH_IDLE" "fl_data f = Some d"
    and fits: "page_of (addr24 b0 b1 b2) + 256 \<le> length d" and len: "length bs \<le> 256"
  shows "\<exists>d'. fl_data (flash_frame (flash_frame f [0x06]) (0x02 # b0 # b1 # b2 # bs)) = Some d' \<and>
    length d' = length d \<and>
    (\<forall>i. i < page_of (addr24 b0 b1 b2) \<or> page_of (addr24 b0 b1 b2) + 256 \<le> i \<longrightarrow> d' ! i = d ! i) \<and>
    (\<forall>i < 256. d' ! (page_of (addr24 b0 b1 b2) + i) =
      (let k = page_slot (unat (addr24 b0 b1 b2) mod 256) i; old = d ! (page_of (addr24 b0 b1 b2) + i)
       in if k < length bs then old AND bs ! k else old)) \<and>
    \<not> fl_write_enable (flash_frame (flash_frame f [0x06]) (0x02 # b0 # b1 # b2 # bs)) \<and>
    (fl_can_open f \<longrightarrow>
      map_option (take (length d)) (fl_file (flash_frame (flash_frame f [0x06]) (0x02 # b0 # b1 # b2 # bs))) = Some d')"
proof -
  define d' where "d' = page_program (page_of (addr24 b0 b1 b2)) (unat (addr24 b0 b1 b2) mod 256) bs d"
  note wren = frame_ok [OF f(1)] frame_fields(1) frame_wren [OF f(2)]
  have new: "fl_data (flash_frame (flash_frame f [0x06]) (0x02 # b0 # b1 # b2 # bs)) = Some d'"
    "\<not> fl_write_enable (flash_frame (flash_frame f [0x06]) (0x02 # b0 # b1 # b2 # bs))"
    unfolding d'_def using wren f(3) fits by (simp_all add: frame_program)
  moreover have "length d' = length d" by (simp add: d'_def)
  moreover have "d' ! i = d ! i" if "i < page_of (addr24 b0 b1 b2) \<or> page_of (addr24 b0 b1 b2) + 256 \<le> i" for i
    unfolding d'_def using that by (intro page_program_outside) simp_all
  moreover have "d' ! (page_of (addr24 b0 b1 b2) + i) =
      (if page_slot (unat (addr24 b0 b1 b2) mod 256) i < length bs
       then d ! (page_of (addr24 b0 b1 b2) + i) AND bs ! page_slot (unat (addr24 b0 b1 b2) mod 256) i
       else d ! (page_of (addr24 b0 b1 b2) + i))" if "i < 256" for i
    unfolding d'_def using that len fits by (intro page_program_nth) simp_all
  ultimately show ?thesis
    using frame_image [OF wren(1) _ new(1)] by (intro exI [of _ d']) (simp add: Let_def)
qed

definition demo_flash :: mm_spiflash
  where "demo_flash = snd (spiflash_load (spiflash_fresh
    \<lparr>fc_bus = 1, fc_size = 256, fc_mmap = False, fc_mmap_base = 0, fc_cs_valid = False, fc_cs_bank = 0,
     fc_cs_pin = 0, fc_path = ''flash.bin''\<rparr> None True))"

lemma demo_flash_ready:
  "flash_ok demo_flash" "fl_state demo_flash = SPIFLASH_IDLE" "fl_data demo_flash = Some (replicate 256 0xFF)"
  "fl_can_open demo_flash" "\<not> fl_write_enable demo_flash"
  using fresh_ok unfolding demo_flash_def
  by (blast, simp_all add: spiflash_load_def spiflash_fresh_def Let_def)

theorem page_program_effect_witness:
  "\<exists>d'. fl_data (flash_frame (flash_frame demo_flash [0x06]) [0x02, 0, 0, 0xFE, 0x12, 0x34, 0x56]) = Some d' \<and>
    d' ! 254 = 0x12 \<and> d' ! 255 = 0x34 \<and> d' ! 0 = 0x56 \<and> d' ! 1 = 0xFF"
proof -
  have a: "unat (addr24 0 0 0xFE) = 254" by (simp add: addr24_def to_u32_def)
  obtain d' where d: "fl_data (flash_frame (flash_frame demo_flash [0x06]) [0x02, 0, 0, 0xFE, 0x12, 0x34, 0x56]) = Some d'"
    and v: "\<forall>i < 256. d' ! (0 + i) = (let k = page_slot 254 i; old = replicate 256 0xFF ! (0 + i)
       in if k < length [0x12, 0x34, 0x56 :: u8] then old AND [0x12, 0x34, 0x56] ! k else old)"
    using page_program_effect [of demo_flash "replicate 256 0xFF" 0 0 "0xFE" "[0x12, 0x34, 0x56]"] demo_flash_ready
    by (auto simp: a)
  then show ?thesis
    using spec [OF v, of 254] spec [OF v, of 255] spec [OF v, of 0] spec [OF v, of 1]
    by (auto simp: page_slot_def Let_def)
qed

subsection \<open>Reading back\<close>

lemma read_run:
  "fl_state f = SPIFLASH_READ \<Longrightarrow> fl_cmd f \<noteq> 0x9F \<Longrightarrow> fl_dummy_left f = 0 \<Longrightarrow> fl_data f = Some d \<Longrightarrow>
   fl_size f \<noteq> 0 \<Longrightarrow> unat (fl_addr f) + length xs < 2 ^ 32 \<Longrightarrow>
   fst (spi_shift mm_spiflash_xfer f xs) =
     map (\<lambda>i. d ! ((unat (fl_addr f) + i) mod unat (fl_size f))) [0..<length xs]"
proof (induction xs arbitrary: f)
  case (Cons x xs)
  have step: "mm_spiflash_xfer f x =
      (d ! (unat (fl_addr f) mod unat (fl_size f)), f\<lparr>fl_addr := fl_addr f + 1\<rparr>)"
    using Cons.prems by (simp add: mm_spiflash_xfer_def spiflash_read_out_def spiflash_read_byte_def unat_mod)
  have u: "unat (fl_addr f + 1) = Suc (unat (fl_addr f))"
    using Cons.prems(6) by (simp add: unat_word_ariths)
  have "fst (spi_shift mm_spiflash_xfer (f\<lparr>fl_addr := fl_addr f + 1\<rparr>) xs) =
      map (\<lambda>i. d ! ((unat (fl_addr f) + Suc i) mod unat (fl_size f))) [0..<length xs]"
    using Cons.IH [of "f\<lparr>fl_addr := fl_addr f + 1\<rparr>"] Cons.prems u by simp
  also have "\<dots> = map (\<lambda>i. d ! ((unat (fl_addr f) + i) mod unat (fl_size f))) [Suc 0..<Suc (length xs)]"
    by (simp add: map_Suc_upt [symmetric] del: map_Suc_upt upt_Suc)
  finally show ?case by (simp add: step case_prod_beta Let_def upt_conv_Cons del: upt_Suc)
qed simp

lemma frame_read:
  assumes f: "flash_ok f" "fl_state f = SPIFLASH_IDLE" "fl_data f = Some d"
    and len: "length xs \<le> 2 ^ 24"
  shows "drop 4 (fst (spi_shift mm_spiflash_xfer f (0x03 # b0 # b1 # b2 # xs))) =
      map (\<lambda>i. d ! ((unat (addr24 b0 b1 b2) + i) mod length d)) [0..<length xs]"
proof -
  define g where "g = (addressed 0x03 b0 b1 b2 f)\<lparr>fl_dummy_left := 0, fl_state := SPIFLASH_READ\<rparr>"
  have "length (fl_addr_bytes f) = 4" using f(1) by (simp add: flash_ok_def)
  then have "spi_shift mm_spiflash_xfer f [0x03, b0, b1, b2] = ([0xFF, 0xFF, 0xFF, 0xFF], g)"
    using f(2) by (subst address_phase) (simp_all add: g_def)
  then have "drop 4 (fst (spi_shift mm_spiflash_xfer f ([0x03, b0, b1, b2] @ xs))) = fst (spi_shift mm_spiflash_xfer g xs)"
    unfolding spi_shift_append by (simp add: case_prod_beta Let_def)
  also have "\<dots> = map (\<lambda>i. d ! ((unat (addr24 b0 b1 b2) + i) mod length d)) [0..<length xs]"
    using f(3) ok_data [OF f(1,3)] addr24_less [of b0 b1 b2] len
    by (subst read_run [of _ d]) (simp_all add: g_def addressed_def)
  finally show ?thesis by simp
qed

lemma frame_erase:
  assumes f: "flash_ok f" "fl_state f = SPIFLASH_IDLE" "fl_data f = Some d" "fl_write_enable f"
  shows "fl_data (flash_frame f [0x20, b0, b1, b2]) =
    Some (erased (4096 * (unat (addr24 b0 b1 b2) div 4096)) 4096 d)"
proof -
  have "length (fl_addr_bytes f) = 4" using f(1) by (simp add: flash_ok_def)
  moreover have "fl_data (spiflash_erase_range (addressed 0x20 b0 b1 b2 f) (addr24 b0 b1 b2 AND NOT 0xFFF) 0x1000) =
      Some (erased (unat (addr24 b0 b1 b2 AND NOT 0xFFF)) (unat (0x1000 :: u32)) d)"
    using f ok_data [OF f(1,3)] addr24_masked [of 4096 b0 b1 b2 "NOT 0xFFF"]
    by (intro erase_data) (simp_all add: addressed_def)
  ultimately show ?thesis
    using f unat_sector [of "addr24 b0 b1 b2"]
    by (simp add: flash_frame_def address_phase spiflash_erase_cmd_def addressed_def del: spi_shift.simps)
qed

text \<open>C16: data written to the flash is read back.  After a sector erase, a page program of bytes
  that fit in the rest of their page, each in its own frame behind a write enable, a READ from the
  same address returns exactly those bytes.\<close>

theorem flash_erase_program_read:
  assumes f: "flash_ok f" "fl_state f = SPIFLASH_IDLE" "fl_data f = Some d"
    and fits: "page_of (addr24 b0 b1 b2) + 256 \<le> length d"
    and len: "unat (addr24 b0 b1 b2) mod 256 + length bs \<le> 256" "length xs = length bs"
  shows "let f1 = flash_frame (flash_frame f [0x06]) [0x20, b0, b1, b2];
             f2 = flash_frame (flash_frame f1 [0x06]) (0x02 # b0 # b1 # b2 # bs)
         in drop 4 (fst (spi_shift mm_spiflash_xfer f2 (0x03 # b0 # b1 # b2 # xs))) = bs"
proof -
  define a where "a = unat (addr24 b0 b1 b2)"
  define f1 where "f1 = flash_frame (flash_frame f [0x06]) [0x20, b0, b1, b2]"
  define f2 where "f2 = flash_frame (flash_frame f1 [0x06]) (0x02 # b0 # b1 # b2 # bs)"
  define d1 where "d1 = erased (4096 * (a div 4096)) 4096 d"
  define d2 where "d2 = page_program (256 * (a div 256)) (a mod 256) bs d1"
  have f1: "flash_ok f1" "fl_state f1 = SPIFLASH_IDLE" "fl_data f1 = Some d1"
    using f by (simp_all add: f1_def d1_def a_def frame_ok frame_erase frame_wren)
  have "fl_data f2 = Some d2"
    unfolding f2_def d2_def a_def using f1 fits
    by (intro frame_program(1)) (simp_all add: frame_ok frame_wren d1_def)
  moreover have "flash_ok f2" "fl_state f2 = SPIFLASH_IDLE" using f1 by (simp_all add: f2_def frame_ok)
  ultimately have read: "drop 4 (fst (spi_shift mm_spiflash_xfer f2 (0x03 # b0 # b1 # b2 # xs))) =
      map (\<lambda>i. d2 ! ((a + i) mod length d2)) [0..<length bs]"
    using frame_read [of f2 d2 xs b0 b1 b2] len by (simp add: a_def)
  have "d2 ! ((a + i) mod length d2) = bs ! i" if i: "i < length bs" for i
  proof -
    let ?p = "256 * (a div 256)" and ?j = "a mod 256"
    have ai: "a + i = ?p + (?j + i)" "?j + i < 256" using i len(1) by (simp_all add: a_def)
    have "?p + 256 \<le> length d1" using fits by (simp add: a_def d1_def)
    with ai have p: "?p + 256 \<le> length d1" "a + i < length d1" by linarith+
    have "a div 4096 = a div 256 div 16" by (simp flip: div_mult2_eq)
    moreover have "16 * (a div 256 div 16) \<le> a div 256" "a div 256 < 16 * (a div 256 div 16) + 16"
      by (simp_all add: div_less_iff_less_mult flip: div_add_self1)
    ultimately have "4096 * (a div 4096) \<le> a + i" "a + i < 4096 * (a div 4096) + 4096" using ai by linarith+
    then have ff: "d1 ! (?p + (?j + i)) = 0xFF" using p by (simp add: d1_def erased_nth flip: ai(1))
    have "d2 ! (?p + (?j + i)) = d1 ! (?p + (?j + i)) AND bs ! i"
      unfolding d2_def using i len(1) p ai by (subst page_program_nth) (simp_all add: page_slot_def a_def)
    moreover have "(0xFF :: u8) = - 1" by simp
    then have "0xFF AND bs ! i = bs ! i" by (simp only: and.left_neutral)
    moreover have "(a + i) mod length d2 = ?p + (?j + i)" using p(2) unfolding ai(1) [symmetric] by (simp add: d2_def)
    ultimately show ?thesis by (simp only: ff)
  qed
  then show ?thesis
    unfolding Let_def f1_def [symmetric] f2_def [symmetric] read by (intro nth_equalityI) simp_all
qed

theorem flash_erase_program_read_witness:
  "let f1 = flash_frame (flash_frame demo_flash [0x06]) [0x20, 0, 0, 0x10];
       f2 = flash_frame (flash_frame f1 [0x06]) [0x02, 0, 0, 0x10, 0xAB, 0xCD]
   in drop 4 (fst (spi_shift mm_spiflash_xfer f2 [0x03, 0, 0, 0x10, 0, 0])) = [0xAB, 0xCD]"
proof -
  have "unat (addr24 0 0 0x10) = 16" by (simp add: addr24_def to_u32_def)
  then show ?thesis
    using flash_erase_program_read [of demo_flash "replicate 256 0xFF" 0 0 "0x10" "[0xAB, 0xCD]" "[0, 0]"]
      demo_flash_ready by simp
qed

text \<open>C17: without a write enable command the flash is read-only.  Starting with the latch clear, no
  sequence of bytes and chip-select releases that does not contain the byte 0x06 changes the
  contents or the protection bits, whatever commands it forms.\<close>

theorem flash_write_protected:
  assumes "\<not> fl_write_enable f" "Shift 0x06 \<notin> set evs"
  shows "fl_data (spi_events mm_spiflash_xfer mm_spiflash_cs_deassert f evs) = fl_data f \<and>
    fl_status_bp (spi_events mm_spiflash_xfer mm_spiflash_cs_deassert f evs) = fl_status_bp f"
  using sealed.events_keep [of evs "(fl_data f, fl_status_bp f)" f] assms by (auto simp: flash_sealed_def)

theorem flash_write_protected_witness:
  "fl_data (spi_events mm_spiflash_xfer mm_spiflash_cs_deassert demo_flash
     [Shift 0x02, Shift 0, Shift 0, Shift 0, Shift 0x55, Release, Shift 0xC7, Release]) = fl_data demo_flash"
  using flash_write_protected [of demo_flash
      "[Shift 0x02, Shift 0, Shift 0, Shift 0, Shift 0x55, Release, Shift 0xC7, Release]"]
    demo_flash_ready by simp

text \<open>The states a flash reaches behind the bus, the GPIO pins changing at will.\<close>

inductive flash_reachable :: "mm_spiflash_cfg \<Rightarrow> u8 list option \<Rightarrow> bool \<Rightarrow> mm_spiflash \<Rightarrow> bool"
  for cfg :: mm_spiflash_cfg and img :: "u8 list option" and can_open :: bool where
  attach: "flash_reachable cfg img can_open (snd (spiflash_load (spiflash_fresh cfg img can_open)))"
| exchange: "flash_reachable cfg img can_open f \<Longrightarrow> flash_reachable cfg img can_open (snd (spiflash_bus_xfer g f b))"
| sample: "flash_reachable cfg img can_open f \<Longrightarrow> flash_reachable cfg img can_open (snd (spiflash_cs_level g f))"
| finish: "flash_reachable cfg img can_open f \<Longrightarrow> flash_reachable cfg img can_open (spiflash_bus_end f)"

text \<open>C18: in every state a flash reaches, whatever the firmware sends and however the pins move, the
  buffer has the size of the chip, an address byte is stored inside its array, and outside a page
  program the image file, if it can be opened, holds what the buffer holds.\<close>

theorem flash_reachable_ok:
  assumes "flash_reachable cfg img can_open f"
  shows "flash_ok f"
  using assms
proof induction
  case attach
  show ?case by (rule fresh_ok)
next
  case (exchange f g b)
  show ?case by (rule flash_bus.xfer_keeps) (simp_all add: exchange)
next
  case (sample f g)
  then show ?case by (simp add: spiflash_cs_level_def sample_ok)
next
  case (finish f)
  show ?case by (rule flash_bus.release_keeps) (rule finish.IH)
qed

theorem flash_reachable_ok_witness:
  "flash_ok (snd (spiflash_bus_xfer \<lparr>g_gpio_bank_reader = None, g_gpio_bank_moder_reader = None,
      g_gpio_bank_clock_reader = None, g_gpio_bank_seccfgr_reader = None\<rparr> demo_flash 0xC7))"
  unfolding demo_flash_def
  by (rule flash_reachable_ok, rule flash_reachable.exchange, rule flash_reachable.attach)

end
