(* ===== verification/Soc_Regs.thy ===== *)
theory Soc_Regs
imports Core_Interfaces Nvic
begin

text \<open>
  Register files of the SoC peripherals.  The device models under \<^verbatim>\<open>cpu/\<close> keep their registers in
  arrays of 32-bit words which the handlers access by index and, with \<^verbatim>\<open>memcpy\<close>, bytewise; hosts are
  little endian.  \<^verbatim>\<open>regs_load\<close> and \<^verbatim>\<open>regs_store\<close> are those copies, of at most four bytes.

  The locale \<^verbatim>\<open>plain_block\<close> is the contract of a block whose handlers check the range of an access
  and copy; it is interpreted on the blocks of each SoC that have no side effects.  The last section
  is about tables of regions: which tables the bus accepts, and that lookups on them are unambiguous.
\<close>

type_synonym regs = "nat \<Rightarrow> u32"

definition reg_byte :: "regs \<Rightarrow> nat \<Rightarrow> u8"
  where "reg_byte r k = to_u8 (drop_bit (8 * (k mod 4)) (r (k div 4)))"

definition set_reg_byte :: "regs \<Rightarrow> nat \<Rightarrow> u8 \<Rightarrow> regs"
  where "set_reg_byte r k b = r(k div 4 :=
    (r (k div 4) AND NOT (push_bit (8 * (k mod 4)) 0xFF)) OR push_bit (8 * (k mod 4)) (to_u32 b))"

fun regs_load :: "regs \<Rightarrow> nat \<Rightarrow> nat \<Rightarrow> u32" where
  "regs_load r k 0 = 0"
| "regs_load r k (Suc n) = to_u32 (reg_byte r k) OR push_bit 8 (regs_load r (Suc k) n)"

fun regs_store :: "regs \<Rightarrow> nat \<Rightarrow> nat \<Rightarrow> u32 \<Rightarrow> regs" where
  "regs_store r k 0 v = r"
| "regs_store r k (Suc n) v = regs_store (set_reg_byte r k (to_u8 v)) (Suc k) n (drop_bit 8 v)"

lemma bit_reg_byte: "bit (reg_byte r k) i \<longleftrightarrow> i < 8 \<and> bit (r (k div 4)) (8 * (k mod 4) + i)"
  by (auto simp: reg_byte_def to_u8_def bit_simps)

lemma bit_set_reg_byte:
  "bit (set_reg_byte r k b w) i \<longleftrightarrow>
    (if w = k div 4 \<and> 8 * (k mod 4) \<le> i \<and> i < 8 * (k mod 4) + 8 then bit b (i - 8 * (k mod 4)) else bit (r w) i)"
proof (cases "i < 32")
  case True
  have ff: "(0xFF :: u32) = mask 8" by (simp add: mask_eq_exp_minus_1)
  have m: "8 * (k mod 4) + 8 \<le> 32" by simp
  show ?thesis
    using True m by (auto simp: set_reg_byte_def ff to_u32_def bit_simps dest: bit_imp_le_length)
next
  case False
  then show ?thesis using bit_imp_le_length [of "set_reg_byte r k b w" i] bit_imp_le_length [of "r w" i] by auto
qed

lemma reg_byte_set: "reg_byte (set_reg_byte r k b) j = (if j = k then b else reg_byte r j)"
proof (rule bit_word_eqI)
  fix i assume i: "i < LENGTH(8)"
  have "j = k \<longleftrightarrow> j div 4 = k div 4 \<and> j mod 4 = k mod 4" by (metis div_mult_mod_eq)
  moreover have "8 * (k mod 4) \<le> 8 * (j mod 4) + i \<and> 8 * (j mod 4) + i < 8 * (k mod 4) + 8 \<longleftrightarrow> j mod 4 = k mod 4"
    using i by auto
  ultimately show "bit (reg_byte (set_reg_byte r k b) j) i = bit (if j = k then b else reg_byte r j) i"
    using i by (auto simp: bit_reg_byte bit_set_reg_byte)
qed

lemma reg_byte_store:
  "n \<le> 4 \<Longrightarrow> reg_byte (regs_store r k n v) j =
    (if k \<le> j \<and> j < k + n then to_u8 (drop_bit (8 * (j - k)) v) else reg_byte r j)"
proof (induction n arbitrary: r k v)
  case (Suc n)
  have "8 * (j - Suc k) + 8 = 8 * (j - k)" if "Suc k \<le> j" using that by simp
  then have "drop_bit (8 * (j - Suc k)) (drop_bit 8 v) = drop_bit (8 * (j - k)) v" if "Suc k \<le> j"
    using that by (metis drop_bit_drop_bit)
  then show ?case using Suc by (auto simp: reg_byte_set)
qed auto

text \<open>What is stored is loaded back, at its width, and bytes outside are untouched.\<close>

lemma bit_load: "n \<le> 4 \<Longrightarrow> bit (regs_load r k n) i \<longleftrightarrow> i < 8 * n \<and> bit (reg_byte r (k + i div 8)) (i mod 8)"
proof (induction n arbitrary: k i)
  case (Suc n)
  show ?case
  proof (cases "i < 8")
    case True
    then show ?thesis by (simp add: to_u32_def bit_simps)
  next
    case False
    then have "k + i div 8 = Suc k + (i - 8) div 8" "i mod 8 = (i - 8) mod 8"
      by (simp_all add: le_div_geq le_mod_geq)
    then show ?thesis
      using False Suc by (auto simp: to_u32_def bit_simps bit_reg_byte)
  qed
qed simp

lemma load_store: "n \<le> 4 \<Longrightarrow> regs_load (regs_store r k n v) k n = take_bit (8 * n) v"
proof (rule bit_word_eqI)
  fix i assume n: "n \<le> 4" and i: "i < LENGTH(32)"
  have d: "8 * (i div 8) + i mod 8 = i" by simp
  show "bit (regs_load (regs_store r k n v) k n) i = bit (take_bit (8 * n) v) i"
    using n by (auto simp: bit_load reg_byte_store to_u8_def bit_simps d)
qed

lemma load_store_other:
  "n \<le> 4 \<Longrightarrow> m \<le> 4 \<Longrightarrow> j + m \<le> k \<or> k + n \<le> j \<Longrightarrow> regs_load (regs_store r k n v) j m = regs_load r j m"
proof (rule bit_word_eqI)
  fix i assume a: "n \<le> 4" "m \<le> 4" "j + m \<le> k \<or> k + n \<le> j"
  have "i < 8 * m \<Longrightarrow> i div 8 < m" by (simp add: less_mult_imp_div_less mult.commute)
  then show "bit (regs_load (regs_store r k n v) j m) i = bit (regs_load r j m) i"
    using a by (auto simp: bit_load reg_byte_store)
qed

lemma store_word: "4 dvd k \<Longrightarrow> regs_store r k 4 v = r(k div 4 := v)"
proof
  fix w assume k: "4 dvd k"
  show "regs_store r k 4 v w = (r(k div 4 := v)) w"
  proof (rule bit_word_eqI)
    fix i assume i: "i < LENGTH(32)"
    define j where "j = 4 * w + i div 8"
    have j: "j div 4 = w" "8 * (j mod 4) + i mod 8 = i" using i by (simp_all add: j_def)
    have b: "bit (s w) i = bit (reg_byte s j) (i mod 8)" for s
      unfolding bit_reg_byte j by simp
    have "k \<le> j \<and> j < k + 4 \<longleftrightarrow> w = k div 4" using k i by (auto simp: j_def elim!: dvdE)
    moreover have "w = k div 4 \<Longrightarrow> 8 * (j - k) + i mod 8 = i" using k j by (auto simp: j_def elim!: dvdE)
    ultimately show "bit (regs_store r k 4 v w) i = bit ((r(k div 4 := v)) w) i"
      using i unfolding b by (auto simp: reg_byte_store to_u8_def bit_simps) (simp_all add: bit_reg_byte j)
  qed
qed

text \<open>The slice helpers of the timer models, and the test of an access width in the handlers.\<close>

definition slice_mask :: "u32 \<Rightarrow> u32"
  where "slice_mask size_bytes = (if size_bytes = 4 then 0xFFFFFFFF else push_bit (unat (size_bytes * 8)) 1 - 1)"

definition read_slice :: "u32 \<Rightarrow> u32 \<Rightarrow> u32 \<Rightarrow> u32"
  where "read_slice reg offset_in_reg size_bytes =
    drop_bit (unat (offset_in_reg * 8)) reg AND slice_mask size_bytes"

definition apply_write :: "u32 \<Rightarrow> u32 \<Rightarrow> u32 \<Rightarrow> u32 \<Rightarrow> u32"
  where "apply_write cur offset_in_reg size_bytes v =
    (let shift = unat (offset_in_reg * 8); msk = slice_mask size_bytes; shifted = push_bit shift (v AND msk)
     in (cur AND NOT (push_bit shift msk)) OR shifted)"

definition bad_size :: "u32 \<Rightarrow> bool"
  where "bad_size size_bytes = (size_bytes = 0 \<or> size_bytes > 4)"

text \<open>A register block without side effects: the handlers check width and range, then copy.\<close>

definition block_read :: "u32 \<Rightarrow> regs \<Rightarrow> u32 \<Rightarrow> u32 \<Rightarrow> u32 option"
  where "block_read sz r offset size_bytes =
    (if bad_size size_bytes then None else if offset + size_bytes > sz then None
     else Some (regs_load r (unat offset) (unat size_bytes)))"

definition block_write :: "u32 \<Rightarrow> regs \<Rightarrow> u32 \<Rightarrow> u32 \<Rightarrow> u32 \<Rightarrow> regs option"
  where "block_write sz r offset size_bytes v =
    (if bad_size size_bytes then None else if offset + size_bytes > sz then None
     else Some (regs_store r (unat offset) (unat size_bytes) v))"

lemma bad_size_iff: "\<not> bad_size n \<longleftrightarrow> unat n \<in> {1..4}"
  by (auto simp: bad_size_def word_less_nat_alt Suc_le_eq unat_gt_0)

locale plain_block =
  fixes rd :: "'b \<Rightarrow> u32 \<Rightarrow> u32 \<Rightarrow> u32 option" and wr :: "'b \<Rightarrow> u32 \<Rightarrow> u32 \<Rightarrow> u32 \<Rightarrow> bool \<times> 'b"
    and regs_of :: "'b \<Rightarrow> regs" and block_size :: u32
  assumes rd_block: "rd b offset n = block_read block_size (regs_of b) offset n"
    and wr_block: "case block_write block_size (regs_of b) offset n v of
        None \<Rightarrow> wr b offset n v = (False, b)
      | Some r \<Rightarrow> fst (wr b offset n v) \<and> regs_of (snd (wr b offset n v)) = r"
begin

lemma read_after_write:
  "fst (wr b offset n v) \<Longrightarrow> rd (snd (wr b offset n v)) offset n = Some (take_bit (8 * unat n) v)"
  using wr_block [of b offset n v] bad_size_iff [of n]
  by (auto simp: rd_block block_read_def block_write_def load_store split: if_splits)

lemma read_other:
  assumes "unat j + unat m \<le> unat offset \<or> unat offset + unat n \<le> unat j"
  shows "rd (snd (wr b offset n v)) j m = rd b j m"
  using wr_block [of b offset n v] bad_size_iff [of n] bad_size_iff [of m] assms
  by (auto simp: rd_block block_read_def block_write_def load_store_other split: if_splits)

end

subsection \<open>Registering the blocks of a SoC\<close>

text \<open>Registration in order, up to the first region that the bus refuses.\<close>

fun register_seq :: "'e mmio_region list \<Rightarrow> 'e mmio_bus \<Rightarrow> bool \<times> 'e mmio_bus" where
  "register_seq [] bus = (True, bus)"
| "register_seq (r # rs) bus = (let (ok, bus) = mmio_bus_register_region bus r in if ok then register_seq rs bus else (False, bus))"

definition apart :: "'e mmio_region \<Rightarrow> 'e mmio_region \<Rightarrow> bool"
  where "apart r r' = (\<not> mmio_regions_overlap (mr_base r) (mr_size r) (mr_base r') (mr_size r'))"

lemma register_one:
  assumes "length (mb_regions bus) < mb_capacity bus" "\<forall>r' \<in> set (mb_regions bus). apart r' r"
  shows "mmio_bus_register_region bus r = (True, bus\<lparr>mb_regions := mb_regions bus @ [r]\<rparr>)"
  using assms by (auto simp: mmio_bus_register_region_def apart_def)

lemma register_seq_all:
  assumes "length (mb_regions bus) + length rs \<le> mb_capacity bus" "sorted_wrt apart (mb_regions bus @ rs)"
  shows "register_seq rs bus = (True, bus\<lparr>mb_regions := mb_regions bus @ rs\<rparr>)"
  using assms
proof (induction rs arbitrary: bus)
  case (Cons r rs)
  then show ?case using register_one [of bus r] by (simp add: sorted_wrt_append)
qed simp

lemma register_all_seq: "register_seq rs bus = (True, bus') \<Longrightarrow> register_all bus rs = bus'"
  by (induction rs arbitrary: bus) (auto simp: register_all_def split: prod.splits if_splits)

lemma register_seq_append:
  assumes "sorted_wrt apart (xs @ ys)" "length (xs @ ys) \<le> n"
  shows "register_seq ys \<lparr>mb_regions = xs, mb_capacity = n\<rparr> = (True, \<lparr>mb_regions = xs @ ys, mb_capacity = n\<rparr>)"
  using register_seq_all [of "\<lparr>mb_regions = xs, mb_capacity = n\<rparr>" ys] assms by simp

lemma register_seq_first:
  assumes "sorted_wrt apart (xs @ ys)" "length xs \<le> n"
  shows "register_seq xs (mmio_bus_init n) = (True, \<lparr>mb_regions = xs, mb_capacity = n\<rparr>)"
  using register_seq_append [of "[]" xs n] assms by (simp add: mmio_bus_init_def sorted_wrt_append)

text \<open>The same on natural numbers, for regions that do not wrap.\<close>

fun spans_apart :: "(nat \<times> nat) list \<Rightarrow> bool" where
  "spans_apart [] = True"
| "spans_apart ((b, n) # bs) = (list_all (\<lambda>(b', n'). b + n \<le> b' \<or> b' + n' \<le> b) bs \<and> spans_apart bs)"

definition span_of :: "'e mmio_region \<Rightarrow> nat \<times> nat"
  where "span_of r = (unat (mr_base r), unat (mr_size r))"

lemma apart_spans: "list_all no_wrap rs \<Longrightarrow> spans_apart (map span_of rs) \<Longrightarrow> sorted_wrt apart rs"
proof (induction rs)
  case (Cons r rs)
  have "apart r r'" if "r' \<in> set rs" for r'
  proof -
    have "no_wrap r" "no_wrap r'" using Cons.prems(1) that by (auto simp: list_all_iff)
    then have "unat (mr_base r + mr_size r) = unat (mr_base r) + unat (mr_size r)"
      "unat (mr_base r' + mr_size r') = unat (mr_base r') + unat (mr_size r')"
      by (simp_all add: no_wrap_def unat_word_ariths)
    then show ?thesis
      using Cons.prems(2) that
      by (auto simp: apart_def mmio_regions_overlap_def Let_def span_of_def list_all_iff word_less_nat_alt)
  qed
  then show ?case using Cons by (simp add: span_of_def)
qed simp

lemma spans_no_wrap:
  assumes "list_all (\<lambda>(b, n). b + n < 2 ^ 32) (map span_of rs)"
  shows "list_all no_wrap rs"
  using assms unfolding list.pred_map by (simp add: no_wrap_def [abs_def] span_of_def o_def)

text \<open>A table of disjoint regions makes a bus on which every address has at most one region.\<close>

lemma apart_bus_ok:
  assumes "list_all no_wrap rs" "sorted_wrt apart rs" "length rs \<le> n"
  shows "bus_ok \<lparr>mb_regions = rs, mb_capacity = n\<rparr>"
proof -
  have "sorted_wrt (\<lambda>r r'. region_span r \<inter> region_span r' = {}) rs"
    by (rule sorted_wrt_mono_rel [OF _ assms(2)])
     (use assms(1) overlap_span in \<open>auto simp: apart_def list_all_iff\<close>)
  with assms(1,3) show ?thesis by (simp add: bus_ok_def)
qed

end
