(* ===== verification/Ring_Buffer.thy ===== *)
theory Ring_Buffer
imports Prelude
begin

text \<open>
  Ring buffers with one slot kept free, as the serial controllers use them: the contents between a
  head and a tail index, what storing at the tail and advancing either index does to them, and the
  locale \<^verbatim>\<open>bounded_queue\<close>, the contract between a ring and its clients.
\<close>

definition ring_len :: "nat \<Rightarrow> nat \<Rightarrow> nat \<Rightarrow> nat"
  where "ring_len n h t = (t + n - h) mod n"

definition ring_list :: "'a list \<Rightarrow> nat \<Rightarrow> nat \<Rightarrow> 'a list"
  where "ring_list buf h t = map (\<lambda>i. buf ! ((h + i) mod length buf)) [0..<ring_len (length buf) h t]"

lemma length_ring [simp]: "length (ring_list buf h t) = ring_len (length buf) h t"
  by (simp add: ring_list_def)

lemma ring_len_cases:
  "h < n \<Longrightarrow> t < n \<Longrightarrow> ring_len n h t = (if h \<le> t then t - h else t + n - h)"
  by (auto simp: ring_len_def mod_if)

lemma ring_len_less: "0 < n \<Longrightarrow> ring_len n h t < n"
  by (simp add: ring_len_def)

lemma ring_empty_iff: "h < length buf \<Longrightarrow> t < length buf \<Longrightarrow> ring_list buf h t = [] \<longleftrightarrow> h = t"
  by (auto simp: ring_list_def ring_len_cases)

lemma ring_full_iff:
  "h < n \<Longrightarrow> t < n \<Longrightarrow> Suc t mod n = h \<longleftrightarrow> ring_len n h t = n - 1"
  by (auto simp: ring_len_cases mod_if)

lemma ring_len_tail:
  "h < n \<Longrightarrow> t < n \<Longrightarrow> Suc t mod n \<noteq> h \<Longrightarrow> ring_len n h (Suc t mod n) = Suc (ring_len n h t)"
  by (auto simp: ring_len_cases mod_if split: if_splits)

lemma ring_len_head:
  "h < n \<Longrightarrow> t < n \<Longrightarrow> k \<le> ring_len n h t \<Longrightarrow> ring_len n ((h + k) mod n) t = ring_len n h t - k"
  by (cases "h + k < n") (auto simp: ring_len_cases le_mod_geq split: if_splits)

lemma ring_tail_slot:
  assumes "h < n" "t < n" shows "(h + ring_len n h t) mod n = t"
  using assms by (auto simp: ring_len_cases)

lemma ring_inner_slot:
  assumes "h < n" "t < n" "i < ring_len n h t" shows "(h + i) mod n \<noteq> t"
  using assms by (cases "h + i < n") (auto simp: ring_len_cases le_mod_geq split: if_splits)

lemma ring_push:
  assumes "h < length buf" "t < length buf" "Suc t mod length buf \<noteq> h"
  shows "ring_list (buf[t := b]) h (Suc t mod length buf) = ring_list buf h t @ [b]"
proof -
  have "t \<noteq> (h + i) mod length buf" if "i < ring_len (length buf) h t" for i
    using ring_inner_slot [OF assms(1,2) that] by simp
  then show ?thesis
    using assms ring_tail_slot [OF assms(1,2)] by (simp add: ring_list_def ring_len_tail nth_list_update)
qed

lemma ring_advance:
  assumes "h < length buf" "t < length buf" "k \<le> ring_len (length buf) h t"
  shows "ring_list buf ((h + k) mod length buf) t = drop k (ring_list buf h t)"
proof (rule nth_equalityI)
  show "length (ring_list buf ((h + k) mod length buf) t) = length (drop k (ring_list buf h t))"
    using assms by (simp add: ring_len_head)
  fix i assume "i < length (ring_list buf ((h + k) mod length buf) t)"
  then have "k + i < ring_len (length buf) h t" using assms by (simp add: ring_len_head)
  then show "ring_list buf ((h + k) mod length buf) t ! i = drop k (ring_list buf h t) ! i"
    using assms by (simp add: ring_list_def ring_len_head mod_simps add.assoc)
qed

lemma ring_front:
  assumes "h < length buf" "t < length buf" "h \<noteq> t"
  shows "ring_list buf h t = buf ! h # ring_list buf (Suc h mod length buf) t"
proof -
  have l: "0 < ring_len (length buf) h t" using assms by (auto simp: ring_len_cases)
  then have "ring_list buf h t = ring_list buf h t ! 0 # drop 1 (ring_list buf h t)"
    by (metis Cons_nth_drop_Suc drop_0 length_ring One_nat_def)
  moreover have "ring_list buf h t ! 0 = buf ! h" using l assms(1) by (simp add: ring_list_def)
  moreover have "drop 1 (ring_list buf h t) = ring_list buf (Suc h mod length buf) t"
    using ring_advance [OF assms(1,2), of 1] l by simp
  ultimately show ?thesis by simp
qed

text \<open>The stretch of the buffer that can be handed out without wrapping is a prefix of the contents.\<close>

lemma ring_chunk:
  assumes "h < length buf" "t < length buf" "k = (if t > h then t - h else length buf - h)" "h \<noteq> t"
  shows "take k (drop h buf) = take k (ring_list buf h t)"
proof (rule nth_equalityI)
  have k: "k \<le> ring_len (length buf) h t" "k \<le> length buf - h"
    using assms by (auto simp: ring_len_cases)
  then show "length (take k (drop h buf)) = length (take k (ring_list buf h t))" by simp
  fix i assume "i < length (take k (drop h buf))"
  then show "take k (drop h buf) ! i = take k (ring_list buf h t) ! i"
    using k by (simp add: ring_list_def)
qed

subsection \<open>Bounded queues\<close>

text \<open>A queue with a capacity: what it holds after a byte is put is what a policy \<^verbatim>\<open>trim\<close> makes of the
  contents followed by the byte, and the policy acts only on what would exceed the capacity.\<close>

locale bounded_queue =
  fixes contents :: "'s \<Rightarrow> 'a list" and ok :: "'s \<Rightarrow> bool" and put :: "'s \<Rightarrow> 'a \<Rightarrow> 's"
    and trim :: "'a list \<Rightarrow> 'a list" and cap :: nat
  assumes put_ok: "ok s \<Longrightarrow> ok (put s x)"
    and put_contents: "ok s \<Longrightarrow> contents (put s x) = trim (contents s @ [x])"
    and trim_short: "length xs \<le> cap \<Longrightarrow> trim xs = xs"
    and trim_cap: "length xs \<le> Suc cap \<Longrightarrow> length (trim xs) \<le> cap"
    and cap_contents: "ok s \<Longrightarrow> length (contents s) \<le> cap"
begin

lemma puts_ok: "ok s \<Longrightarrow> ok (foldl put s xs)"
  by (induction xs arbitrary: s) (simp_all add: put_ok)

lemma puts_contents:
  "ok s \<Longrightarrow> length (contents s) + length xs \<le> cap \<Longrightarrow> contents (foldl put s xs) = contents s @ xs"
  by (induction xs arbitrary: s) (simp_all add: put_ok put_contents trim_short)

lemma puts_bounded: "ok s \<Longrightarrow> length (contents (foldl put s xs)) \<le> cap"
  by (rule cap_contents [OF puts_ok])

end

text \<open>The two policies: refuse the new byte, or give up the oldest one.\<close>

definition keep_first :: "nat \<Rightarrow> 'a list \<Rightarrow> 'a list" where "keep_first cap xs = take cap xs"

definition keep_last :: "nat \<Rightarrow> 'a list \<Rightarrow> 'a list" where "keep_last cap xs = drop (length xs - cap) xs"

end
