(* ===== verification/Target_Hal.thy ===== *)
theory Target_Hal
imports Ring_Buffer Nvic Memmap
begin

text \<open>
  The hardware abstraction of \<^verbatim>\<open>src/target_hal.c\<close>: the host side of a UART, a ring of 1024 bytes in
  front of a file descriptor, and the dispatch of a target's hooks.

  The host is a record: for each system call the answers it gives, by number of the call, and what
  the calls did.  The answer of \<^verbatim>\<open>write\<close> is its result and whether \<^verbatim>\<open>errno\<close> says that the call would
  block; \<^verbatim>\<open>posix_write\<close> is what POSIX promises of it.  The flush loop is a partial function, None
  standing for a loop that does not end.  The name of the descriptor and the messages printed are
  left out.
\<close>

record mm_uart_io =
  io_fd :: int
  io_tx_buf :: "u8 list"
  io_tx_head :: nat
  io_tx_tail :: nat
  io_rx_pending :: bool
  io_rx_byte :: u8
  io_stdout_only :: bool

record uart_host =
  uh_uart_stdout :: bool
  uh_tui_active :: bool
  uh_break_on_macro :: bool
  uh_open_pty :: "nat \<Rightarrow> int"
  uh_opens :: nat
  uh_write :: "nat \<Rightarrow> u8 list \<Rightarrow> int \<times> bool"
  uh_writes :: nat
  uh_read :: "nat \<Rightarrow> u8 option"
  uh_reads :: nat
  uh_out :: "int \<Rightarrow> u8 list"
  uh_closed :: "int list"

abbreviation "TX_BUF_SIZE \<equiv> (1024 :: nat)"
abbreviation "STDOUT_FILENO \<equiv> (1 :: int)"

text \<open>A \<^verbatim>\<open>mm_uart_io\<close> with every byte zero, as \<^verbatim>\<open>memset\<close> and static storage leave it.\<close>

definition zero_uart_io :: mm_uart_io
  where "zero_uart_io = \<lparr>io_fd = 0, io_tx_buf = replicate TX_BUF_SIZE 0, io_tx_head = 0, io_tx_tail = 0,
    io_rx_pending = False, io_rx_byte = 0, io_stdout_only = False\<rparr>"

definition mm_uart_io_init :: mm_uart_io
  where "mm_uart_io_init = zero_uart_io\<lparr>io_fd := -1\<rparr>"

definition mm_uart_io_open :: "mm_uart_io \<times> uart_host \<Rightarrow> bool \<times> mm_uart_io \<times> uart_host"
  where "mm_uart_io_open s =
    (let (io, h) = s in
     if uh_uart_stdout h \<and> \<not> uh_tui_active h then
       (True, io\<lparr>io_fd := STDOUT_FILENO, io_stdout_only := True\<rparr>, h)
     else
       (let fd = uh_open_pty h (uh_opens h) in
        (fd \<ge> 0, io\<lparr>io_fd := fd\<rparr>, h\<lparr>uh_opens := Suc (uh_opens h)\<rparr>)))"

definition mm_uart_io_close :: "mm_uart_io \<times> uart_host \<Rightarrow> mm_uart_io \<times> uart_host"
  where "mm_uart_io_close s =
    (let (io, h) = s;
         (io, h) = (if io_fd io \<ge> 0 \<and> \<not> io_stdout_only io
                    then (io\<lparr>io_fd := -1\<rparr>, h\<lparr>uh_closed := uh_closed h @ [io_fd io]\<rparr>) else (io, h))
     in (io\<lparr>io_rx_pending := False, io_tx_head := 0, io_tx_tail := 0\<rparr>, h))"

definition mm_uart_io_queue_tx :: "mm_uart_io \<Rightarrow> u8 \<Rightarrow> mm_uart_io"
  where "mm_uart_io_queue_tx io byte =
    (let next_tail = Suc (io_tx_tail io) mod TX_BUF_SIZE;
         io = (if next_tail = io_tx_head io then io\<lparr>io_tx_head := Suc (io_tx_head io) mod TX_BUF_SIZE\<rparr> else io)
     in io\<lparr>io_tx_buf := (io_tx_buf io)[io_tx_tail io := byte], io_tx_tail := next_tail\<rparr>)"

text \<open>The bytes that one round of the flush loop offers to \<^verbatim>\<open>write\<close>.\<close>

definition tx_chunk :: "mm_uart_io \<Rightarrow> u8 list"
  where "tx_chunk io =
    take (if io_tx_tail io > io_tx_head io then io_tx_tail io - io_tx_head io else TX_BUF_SIZE - io_tx_head io)
      (drop (io_tx_head io) (io_tx_buf io))"

partial_function (option) flush_loop :: "mm_uart_io \<Rightarrow> uart_host \<Rightarrow> (bool \<times> mm_uart_io \<times> uart_host) option"
  where "flush_loop io h =
    (if io_tx_head io = io_tx_tail io then Some (True, io, h)
     else
       (let (n, again) = uh_write h (uh_writes h) (tx_chunk io); h = h\<lparr>uh_writes := Suc (uh_writes h)\<rparr> in
        if n > 0 then
          flush_loop (io\<lparr>io_tx_head := (io_tx_head io + nat n) mod TX_BUF_SIZE\<rparr>)
            (h\<lparr>uh_out := (uh_out h)(io_fd io := uh_out h (io_fd io) @ take (nat n) (tx_chunk io))\<rparr>)
        else if n < 0 \<and> again then Some (False, io, h)
        else Some (False, io\<lparr>io_tx_head := 0, io_tx_tail := 0\<rparr>, h)))"

definition mm_uart_io_flush :: "mm_uart_io \<times> uart_host \<Rightarrow> (bool \<times> mm_uart_io \<times> uart_host) option"
  where "mm_uart_io_flush s = (let (io, h) = s in if io_fd io < 0 then Some (False, io, h) else flush_loop io h)"

text \<open>The read of one byte that follows the flush in \<^verbatim>\<open>mm_uart_io_poll\<close>.\<close>

definition poll_rx :: "mm_uart_io \<times> uart_host \<Rightarrow> bool \<times> mm_uart_io \<times> uart_host"
  where "poll_rx s =
    (let (io, h) = s in
     if io_rx_pending io then (False, io, h)
     else
       (let r = uh_read h (uh_reads h); h = h\<lparr>uh_reads := Suc (uh_reads h)\<rparr> in
        case r of None \<Rightarrow> (False, io, h)
        | Some b \<Rightarrow> (True, io\<lparr>io_rx_byte := b, io_rx_pending := True\<rparr>, h)))"

definition mm_uart_io_poll :: "mm_uart_io \<times> uart_host \<Rightarrow> (bool \<times> mm_uart_io \<times> uart_host) option"
  where "mm_uart_io_poll s =
    (let (io, h) = s in
     if io_fd io < 0 then Some (False, io, h)
     else if io_stdout_only io then Some (False, io, h)
     else map_option (\<lambda>(_, s). poll_rx s) (mm_uart_io_flush s))"

definition mm_uart_io_tx_empty :: "mm_uart_io \<Rightarrow> bool"
  where "mm_uart_io_tx_empty io = (io_tx_head io = io_tx_tail io)"

definition mm_uart_io_has_rx :: "mm_uart_io \<Rightarrow> bool"
  where "mm_uart_io_has_rx io = io_rx_pending io"

definition mm_uart_io_read :: "mm_uart_io \<Rightarrow> u8 \<times> mm_uart_io"
  where "mm_uart_io_read io =
    (if io_stdout_only io then (0, io)
     else if io_rx_pending io then (io_rx_byte io, io\<lparr>io_rx_pending := False\<rparr>)
     else (0, io))"

definition mm_uart_io_set_stdout :: "bool \<Rightarrow> uart_host \<Rightarrow> uart_host"
  where "mm_uart_io_set_stdout enable h = h\<lparr>uh_uart_stdout := enable\<rparr>"

definition mm_uart_break_on_macro_set :: "uart_host \<Rightarrow> uart_host"
  where "mm_uart_break_on_macro_set h = h\<lparr>uh_break_on_macro := True\<rparr>"

definition mm_uart_break_on_macro_take :: "uart_host \<Rightarrow> bool \<times> uart_host"
  where "mm_uart_break_on_macro_take h = (uh_break_on_macro h, h\<lparr>uh_break_on_macro := False\<rparr>)"

subsection \<open>Target hooks\<close>

text \<open>The function pointers of a target description, on the state \<^verbatim>\<open>'s\<close> they change; a null pointer is
  None, and the null target description is a record of Nones.\<close>

record 's target_ops =
  to_soc_reset :: "('s \<Rightarrow> 's) option"
  to_soc_register_mmio :: "('s \<Rightarrow> bool \<times> 's) option"
  to_flash_bind :: "(u8 list \<Rightarrow> u32 \<Rightarrow> bool \<Rightarrow> 's \<Rightarrow> 's) option"
  to_clock_get_hz :: "('s \<Rightarrow> u64) option"
  to_usart_init :: "('s \<Rightarrow> 's) option"
  to_usart_reset :: "('s \<Rightarrow> 's) option"
  to_usart_poll :: "('s \<Rightarrow> 's) option"
  to_spi_init :: "('s \<Rightarrow> 's) option"
  to_spi_reset :: "('s \<Rightarrow> 's) option"
  to_spi_poll :: "('s \<Rightarrow> 's) option"
  to_eth_init :: "('s \<Rightarrow> 's) option"
  to_eth_reset :: "('s \<Rightarrow> 's) option"
  to_eth_poll :: "('s \<Rightarrow> 's) option"

definition call_hook :: "('s \<Rightarrow> 's) option \<Rightarrow> 's \<Rightarrow> 's"
  where "call_hook hook s = (case hook of None \<Rightarrow> s | Some f \<Rightarrow> f s)"

definition mm_target_soc_reset :: "'s target_ops \<Rightarrow> 's \<Rightarrow> 's"
  where "mm_target_soc_reset cfg = call_hook (to_soc_reset cfg)"

definition mm_target_register_mmio :: "'s target_ops \<Rightarrow> 's \<Rightarrow> bool \<times> 's"
  where "mm_target_register_mmio cfg s = (case to_soc_register_mmio cfg of None \<Rightarrow> (True, s) | Some f \<Rightarrow> f s)"

definition mm_target_flash_bind :: "'s target_ops \<Rightarrow> u8 list \<Rightarrow> u32 \<Rightarrow> bool \<Rightarrow> 's \<Rightarrow> 's"
  where "mm_target_flash_bind cfg flash flash_size persist =
    call_hook (map_option (\<lambda>f. f flash flash_size persist) (to_flash_bind cfg))"

definition mm_target_cpu_hz :: "'s target_ops \<Rightarrow> 's \<Rightarrow> u64"
  where "mm_target_cpu_hz cfg s = (case to_clock_get_hz cfg of None \<Rightarrow> 0 | Some f \<Rightarrow> f s)"

definition mm_target_usart_init :: "'s target_ops \<Rightarrow> 's \<Rightarrow> 's"
  where "mm_target_usart_init cfg = call_hook (to_usart_init cfg)"

definition mm_target_usart_reset :: "'s target_ops \<Rightarrow> 's \<Rightarrow> 's"
  where "mm_target_usart_reset cfg = call_hook (to_usart_reset cfg)"

definition mm_target_usart_poll :: "'s target_ops \<Rightarrow> 's \<Rightarrow> 's"
  where "mm_target_usart_poll cfg = call_hook (to_usart_poll cfg)"

definition mm_target_spi_init :: "'s target_ops \<Rightarrow> 's \<Rightarrow> 's"
  where "mm_target_spi_init cfg = call_hook (to_spi_init cfg)"

definition mm_target_spi_reset :: "'s target_ops \<Rightarrow> 's \<Rightarrow> 's"
  where "mm_target_spi_reset cfg = call_hook (to_spi_reset cfg)"

definition mm_target_spi_poll :: "'s target_ops \<Rightarrow> 's \<Rightarrow> 's"
  where "mm_target_spi_poll cfg = call_hook (to_spi_poll cfg)"

definition mm_target_eth_init :: "'s target_ops \<Rightarrow> 's \<Rightarrow> 's"
  where "mm_target_eth_init cfg = call_hook (to_eth_init cfg)"

definition mm_target_eth_reset :: "'s target_ops \<Rightarrow> 's \<Rightarrow> 's"
  where "mm_target_eth_reset cfg = call_hook (to_eth_reset cfg)"

definition mm_target_eth_poll :: "'s target_ops \<Rightarrow> 's \<Rightarrow> 's"
  where "mm_target_eth_poll cfg = call_hook (to_eth_poll cfg)"

subsection \<open>The transmit ring\<close>

definition io_ok :: "mm_uart_io \<Rightarrow> bool"
  where "io_ok io = (length (io_tx_buf io) = TX_BUF_SIZE \<and> io_tx_head io < TX_BUF_SIZE \<and> io_tx_tail io < TX_BUF_SIZE)"

definition tx_contents :: "mm_uart_io \<Rightarrow> u8 list"
  where "tx_contents io = ring_list (io_tx_buf io) (io_tx_head io) (io_tx_tail io)"

definition posix_write :: "uart_host \<Rightarrow> bool"
  where "posix_write h = (\<forall>k bs. fst (uh_write h k bs) \<le> int (length bs))"

lemma init_ok: "io_ok mm_uart_io_init" "tx_contents mm_uart_io_init = []"
  by (simp_all add: io_ok_def mm_uart_io_init_def zero_uart_io_def tx_contents_def ring_empty_iff)

lemma tx_contents_length: "io_ok io \<Longrightarrow> length (tx_contents io) < TX_BUF_SIZE"
  by (simp add: io_ok_def tx_contents_def ring_len_less)

lemma queue_ok: "io_ok io \<Longrightarrow> io_ok (mm_uart_io_queue_tx io b)"
  by (simp add: io_ok_def mm_uart_io_queue_tx_def Let_def)

lemma queue_contents:
  assumes "io_ok io"
  shows "tx_contents (mm_uart_io_queue_tx io b) = keep_last 1023 (tx_contents io @ [b])"
proof -
  define buf h t where "buf = io_tx_buf io" and "h = io_tx_head io" and "t = io_tx_tail io"
  have r: "length buf = 1024" "h < 1024" "t < 1024"
    using assms by (simp_all add: io_ok_def buf_def h_def t_def)
  have len: "length (ring_list buf h t) = ring_len 1024 h t" using r by simp
  show ?thesis
  proof (cases "Suc t mod 1024 = h")
    case True
    then have full: "ring_len 1024 h t = 1023" using r ring_full_iff [of h 1024 t] by simp
    have adv: "ring_list buf (Suc h mod 1024) t = drop 1 (ring_list buf h t)"
      using ring_advance [of h buf t 1] r full by simp
    have "Suc t mod 1024 \<noteq> Suc h mod 1024" using True r by (auto simp: mod_if split: if_splits)
    then have "ring_list (buf[t := b]) (Suc h mod 1024) (Suc t mod 1024) = ring_list buf (Suc h mod 1024) t @ [b]"
      using ring_push [of "Suc h mod 1024" buf t b] r by simp
    then show ?thesis
      using True full len r adv
      by (simp add: tx_contents_def mm_uart_io_queue_tx_def Let_def keep_last_def flip: buf_def h_def t_def)
  next
    case False
    moreover have "ring_len 1024 h t < 1023"
      using False r ring_full_iff [of h 1024 t] ring_len_less [of 1024 h t] by simp
    ultimately show ?thesis
      using ring_push [of h buf t b] r len
      by (simp add: tx_contents_def mm_uart_io_queue_tx_def Let_def keep_last_def flip: buf_def h_def t_def)
  qed
qed

interpretation tx_ring: bounded_queue tx_contents io_ok mm_uart_io_queue_tx "keep_last 1023" 1023
  by unfold_locales (use tx_contents_length in \<open>fastforce simp: queue_ok queue_contents keep_last_def\<close>)+

lemma keep_last_step: "keep_last c (keep_last c xs @ ys) = keep_last c (xs @ ys)"
proof (cases "length xs \<le> c")
  case False
  then have "drop (length ys) (drop (length xs - c) xs) = drop (length xs + length ys - c) xs"
    by (simp add: algebra_simps)
  with False show ?thesis
    by (cases "length ys \<le> c") (auto simp: keep_last_def algebra_simps)
qed (simp add: keep_last_def)

lemma puts_keep_last:
  "io_ok io \<Longrightarrow> tx_contents (foldl mm_uart_io_queue_tx io bs) = keep_last 1023 (tx_contents io @ bs)"
proof (induction bs arbitrary: io)
  case Nil
  then show ?case using tx_ring.cap_contents [of io] by (simp add: keep_last_def)
next
  case (Cons b bs)
  then show ?case by (simp add: queue_ok queue_contents keep_last_step)
qed

lemma puts_fd: "io_fd (foldl mm_uart_io_queue_tx io bs) = io_fd io"
  by (induction bs arbitrary: io) (simp_all add: mm_uart_io_queue_tx_def Let_def)

lemma chunk_prefix:
  assumes "io_ok io" "io_tx_head io \<noteq> io_tx_tail io" "0 < n" "n \<le> length (tx_chunk io)"
  shows "let io' = io\<lparr>io_tx_head := (io_tx_head io + n) mod TX_BUF_SIZE\<rparr>
    in io_ok io' \<and> tx_contents io = take n (tx_chunk io) @ tx_contents io' \<and>
       length (tx_contents io') < length (tx_contents io)"
proof -
  define buf h t where "buf = io_tx_buf io" and "h = io_tx_head io" and "t = io_tx_tail io"
  define k where "k = (if t > h then t - h else length buf - h)"
  have r: "length buf = 1024" "h < length buf" "t < length buf" "h \<noteq> t"
    using assms(1,2) by (simp_all add: io_ok_def buf_def h_def t_def)
  have chunk: "tx_chunk io = take k (ring_list buf h t)"
    using ring_chunk [OF r(2,3) k_def r(4)] r(1)
    by (auto simp: tx_chunk_def k_def split: if_splits simp flip: buf_def h_def t_def)
  have n: "n \<le> k" "n \<le> ring_len (length buf) h t" using assms(4) chunk by simp_all
  have "ring_list buf ((h + n) mod length buf) t = drop n (ring_list buf h t)"
    by (rule ring_advance [OF r(2,3) n(2)])
  moreover have "take n (tx_chunk io) = take n (ring_list buf h t)" using n(1) chunk by (simp add: min_def)
  ultimately show ?thesis
    using assms n r(1) by (simp add: Let_def tx_contents_def io_ok_def ring_len_head flip: buf_def h_def t_def)
qed

lemma flush_spec:
  assumes "io_ok io" "posix_write h"
  shows "\<exists>r io' h' sent rest. flush_loop io h = Some (r, io', h') \<and> io_ok io' \<and> io_fd io' = io_fd io \<and>
    tx_contents io = sent @ rest \<and> uh_out h' = (uh_out h)(io_fd io := uh_out h (io_fd io) @ sent) \<and>
    (r \<longrightarrow> rest = [] \<and> tx_contents io' = []) \<and> (\<not> r \<longrightarrow> tx_contents io' \<in> {rest, []}) \<and>
    posix_write h' \<and> uh_break_on_macro h' = uh_break_on_macro h"
  using assms
proof (induction "length (tx_contents io)" arbitrary: io h rule: less_induct)
  case less
  define ans where "ans = uh_write h (uh_writes h) (tx_chunk io)"
  define h1 where "h1 = h\<lparr>uh_writes := Suc (uh_writes h)\<rparr>"
  show ?case
  proof (cases "io_tx_head io = io_tx_tail io")
    case True
    then have "tx_contents io = []" using less.prems(1) by (simp add: io_ok_def tx_contents_def ring_empty_iff)
    with True less.prems show ?thesis by (subst flush_loop.simps) auto
  next
    case ne: False
    show ?thesis
    proof (cases "fst ans > 0")
      case True
      define n where "n = nat (fst ans)"
      define io1 where "io1 = io\<lparr>io_tx_head := (io_tx_head io + n) mod TX_BUF_SIZE\<rparr>"
      define h2 where "h2 = h1\<lparr>uh_out := (uh_out h1)(io_fd io := uh_out h1 (io_fd io) @ take n (tx_chunk io))\<rparr>"
      have "0 < n" "n \<le> length (tx_chunk io)"
        using True less.prems(2) by (auto simp: n_def ans_def posix_write_def nat_le_iff)
      from chunk_prefix [OF less.prems(1) ne this]
      have io1: "io_ok io1" "tx_contents io = take n (tx_chunk io) @ tx_contents io1"
        "length (tx_contents io1) < length (tx_contents io)" unfolding io1_def Let_def by blast+
      have "posix_write h2" using less.prems(2) by (simp add: posix_write_def h2_def h1_def)
      from less.hyps [OF io1(3,1) this] obtain r io' h' sent rest where
        f: "flush_loop io1 h2 = Some (r, io', h')" "io_ok io'" "io_fd io' = io_fd io1"
          "tx_contents io1 = sent @ rest" "uh_out h' = (uh_out h2)(io_fd io1 := uh_out h2 (io_fd io1) @ sent)"
          "r \<longrightarrow> rest = [] \<and> tx_contents io' = []" "\<not> r \<longrightarrow> tx_contents io' \<in> {rest, []}"
          "posix_write h'" "uh_break_on_macro h' = uh_break_on_macro h2" by blast
      have "flush_loop io h = Some (r, io', h')"
        using ne True f(1) by (subst flush_loop.simps)
          (simp add: case_prod_beta Let_def flip: ans_def h1_def n_def io1_def h2_def)
      moreover have "uh_out h' = (uh_out h)(io_fd io := uh_out h (io_fd io) @ (take n (tx_chunk io) @ sent))"
        using f(5) by (simp add: h2_def h1_def io1_def)
      moreover have "tx_contents io = (take n (tx_chunk io) @ sent) @ rest" using io1(2) f(4) by simp
      moreover have "io_fd io' = io_fd io" using f(3) by (simp add: io1_def)
      moreover have "uh_break_on_macro h' = uh_break_on_macro h" using f(9) by (simp add: h2_def h1_def)
      ultimately show ?thesis using f(2,6-8) by blast
    next
      case False
      define io2 where "io2 = io\<lparr>io_tx_head := 0, io_tx_tail := 0\<rparr>"
      have "io_ok io2" "tx_contents io2 = []" "io_fd io2 = io_fd io"
        using less.prems(1) by (simp_all add: io2_def io_ok_def tx_contents_def ring_empty_iff)
      moreover have "flush_loop io h = (if fst ans < 0 \<and> snd ans then Some (False, io, h1) else Some (False, io2, h1))"
        using ne False by (subst flush_loop.simps) (simp add: case_prod_beta Let_def io2_def flip: ans_def h1_def)
      moreover have "uh_out h1 = (uh_out h)(io_fd io := uh_out h (io_fd io) @ [])" by (simp add: h1_def)
      moreover have "posix_write h1" "uh_break_on_macro h1 = uh_break_on_macro h"
        using less.prems(2) by (simp_all add: posix_write_def h1_def)
      ultimately show ?thesis using less.prems(1) by (smt (verit) append_Nil insertCI)
    qed
  qed
qed

lemma flush_total:
  assumes "io_ok io" "posix_write h"
  shows "\<exists>r io' h'. mm_uart_io_flush (io, h) = Some (r, io', h') \<and> io_ok io' \<and> posix_write h' \<and>
    uh_break_on_macro h' = uh_break_on_macro h"
  using flush_spec [OF assms] assms by (auto simp: mm_uart_io_flush_def)


definition demo_uart_host :: uart_host
  where "demo_uart_host = \<lparr>uh_uart_stdout = False, uh_tui_active = False, uh_break_on_macro = False,
    uh_open_pty = (\<lambda>_. 5), uh_opens = 0, uh_write = (\<lambda>_ bs. (min 1 (int (length bs)), False)), uh_writes = 0,
    uh_read = (\<lambda>_. None), uh_reads = 0, uh_out = (\<lambda>_. []), uh_closed = []\<rparr>"


end
