(* ===== verification/Stm32_Usart.thy ===== *)
theory Stm32_Usart
imports Soc_Regs Target_Hal "HOL-Library.Sublist"
begin

text \<open>
  The USARTs of the STM32H563, \<^verbatim>\<open>cpu/stm32h563/stm32h563_usart.c\<close>: twelve instances on the host side of
  \<^verbatim>\<open>Target_Hal\<close>, with their clock gating, the TrustZone attribution of each, the interrupts, and the
  watch for the text that makes the debugger stop.

  The registers of the clock controller and of the TrustZone controller, which the instances reach
  by pointer, are arguments; whether an instance has the pointers is part of it.  A handler that
  flushes the transmit ring is None if the flush does not end.  Attaching the terminal user
  interface is left out, and an access that runs over the end of the register array is recorded
  in \<^verbatim>\<open>us_oob\<close>.
\<close>

abbreviation "USART_CR1 \<equiv> (0x00 :: u32)"
abbreviation "USART_ISR \<equiv> (0x1C :: u32)"
abbreviation "USART_RDR \<equiv> (0x24 :: u32)"
abbreviation "USART_TDR \<equiv> (0x28 :: u32)"
abbreviation "ISR_RXNE \<equiv> (0x20 :: u32)"
abbreviation "ISR_TXE \<equiv> (0x80 :: u32)"

text \<open>The clock functions that \<^verbatim>\<open>clock_on\<close> points to; \<^verbatim>\<open>CLOCK_AT\<close> stands for those of the other STM32
  parts, which read one bit of the enable register at an offset.\<close>

datatype usart_clock = CLOCK_NONE | CLOCK_APB2 | CLOCK_APB1L | CLOCK_APB1H | CLOCK_AT nat nat

record usart_inst =
  us_base :: u32
  us_index :: nat
  us_regs :: regs
  us_io :: mm_uart_io
  us_enabled :: bool
  us_irq :: int
  us_rcc :: bool
  us_clock_on :: usart_clock
  us_sec_reg :: "nat option"
  us_sec_bitmask :: u32
  us_secure_only :: bool
  us_current_sec :: mm_sec_state
  us_macro_match :: nat
  us_watch_macro :: bool
  us_oob :: bool

abbreviation usart_reg :: "usart_inst \<Rightarrow> u32 \<Rightarrow> u32"
  where "usart_reg u offset \<equiv> us_regs u (unat offset div 4)"

definition set_usart_reg :: "u32 \<Rightarrow> u32 \<Rightarrow> usart_inst \<Rightarrow> usart_inst"
  where "set_usart_reg offset v u = u\<lparr>us_regs := (us_regs u)(unat offset div 4 := v)\<rparr>"

subsection \<open>Clocks\<close>

definition clock_apb2_usart1 :: "regs \<Rightarrow> usart_inst \<Rightarrow> bool"
  where "clock_apb2_usart1 rcc u = (if \<not> us_rcc u then True else drop_bit 14 (rcc (0xA4 div 4)) AND 1 \<noteq> 0)"

definition clock_apb1lenr_generic :: "regs \<Rightarrow> usart_inst \<Rightarrow> bool"
  where "clock_apb1lenr_generic rcc u =
    (case map_of [(1, 17), (2, 18), (3, 19), (4, 20), (5, 25), (6, 30), (7, 31)] (us_index u) of
       None \<Rightarrow> True
     | Some b \<Rightarrow> if \<not> us_rcc u then True else drop_bit b (rcc (0x9C div 4)) AND 1 \<noteq> 0)"

definition clock_apb1henr_generic :: "regs \<Rightarrow> usart_inst \<Rightarrow> bool"
  where "clock_apb1henr_generic rcc u =
    (case map_of [(8, 0), (11, 1)] (us_index u) of
       None \<Rightarrow> True
     | Some b \<Rightarrow> if \<not> us_rcc u then True else drop_bit b (rcc (0xA0 div 4)) AND 1 \<noteq> 0)"

text \<open>The call through the function pointer \<^verbatim>\<open>clock_on\<close>.\<close>

definition usart_clock_on :: "regs \<Rightarrow> usart_inst \<Rightarrow> bool"
  where "usart_clock_on rcc u =
    (case us_clock_on u of CLOCK_NONE \<Rightarrow> True | CLOCK_APB2 \<Rightarrow> clock_apb2_usart1 rcc u
     | CLOCK_APB1L \<Rightarrow> clock_apb1lenr_generic rcc u | CLOCK_APB1H \<Rightarrow> clock_apb1henr_generic rcc u
     | CLOCK_AT offset b \<Rightarrow> if \<not> us_rcc u then True else drop_bit b (rcc (offset div 4)) AND 1 \<noteq> 0)"

definition ensure_enabled :: "regs \<Rightarrow> usart_inst \<times> uart_host \<Rightarrow> usart_inst \<times> uart_host"
  where "ensure_enabled rcc x =
    (let (u, h) = x;
         ue = (usart_reg u USART_CR1 AND 1 \<noteq> 0 \<and> usart_clock_on rcc u);
         was = us_enabled u; u = u\<lparr>us_enabled := ue\<rparr> in
     if ue \<and> \<not> was then
       (let (opened, io, h) = mm_uart_io_open (us_io u, h); u = u\<lparr>us_io := io\<rparr>
        in (if opened then set_usart_reg USART_ISR (usart_reg u USART_ISR OR ISR_TXE) u else u, h))
     else if \<not> ue \<and> was then (let (io, h) = mm_uart_io_close (us_io u, h) in (u\<lparr>us_io := io\<rparr>, h))
     else (u, h))"

subsection \<open>Register access\<close>

text \<open>The first lines of both handlers: the access is refused silently when the TrustZone controller
  gives the instance to the Secure side only.\<close>

definition usart_sec_check :: "mm_sec_state \<Rightarrow> regs \<Rightarrow> usart_inst \<Rightarrow> bool \<times> usart_inst"
  where "usart_sec_check asec tzsc u =
    (let u = u\<lparr>us_current_sec := asec,
               us_secure_only := (case us_sec_reg u of None \<Rightarrow> False | Some w \<Rightarrow> tzsc w AND us_sec_bitmask u \<noteq> 0)\<rparr>
     in (\<not> (us_secure_only u \<and> us_current_sec u = MM_NONSECURE), u))"

definition usart_past_end :: "u32 \<Rightarrow> u32 \<Rightarrow> usart_inst \<Rightarrow> usart_inst"
  where "usart_past_end offset size_bytes u = u\<lparr>us_oob := us_oob u \<or> offset + size_bytes > 0x30\<rparr>"

definition usart_read ::
  "mm_sec_state \<Rightarrow> regs \<Rightarrow> regs \<Rightarrow> u32 \<Rightarrow> u32 \<Rightarrow> usart_inst \<times> uart_host \<Rightarrow> u32 option \<times> usart_inst \<times> uart_host"
  where "usart_read asec tzsc rcc offset size_bytes x =
    (let (ok, u) = usart_sec_check asec tzsc (fst x); h = snd x in
     if \<not> ok then (Some 0, u, h)
     else if bad_size size_bytes then (None, u, h)
     else if offset \<ge> 0x30 then (None, u, h)
     else
       (let (u, h) = ensure_enabled rcc (u, h) in
        if offset = USART_RDR then
          (let (v, io) = (if mm_uart_io_has_rx (us_io u) then mm_uart_io_read (us_io u) else (0, us_io u));
               u = u\<lparr>us_io := io\<rparr>
           in (Some (to_u32 v), set_usart_reg USART_ISR (usart_reg u USART_ISR AND NOT ISR_RXNE) u, h))
        else
          (let u = (if offset = USART_ISR then set_usart_reg USART_ISR (usart_reg u USART_ISR OR ISR_TXE) u else u)
           in (Some (regs_load (us_regs u) (unat offset) (unat size_bytes)), usart_past_end offset size_bytes u, h))))"

text \<open>The bytes of \<^verbatim>\<open>macro   error\<close>, and the matching of one transmitted byte against them.\<close>

definition macro_pat :: "u8 list"
  where "macro_pat = [0x6D, 0x61, 0x63, 0x72, 0x6F, 0x20, 0x20, 0x20, 0x65, 0x72, 0x72, 0x6F, 0x72]"

definition macro_step :: "nat \<times> bool \<Rightarrow> u8 \<Rightarrow> nat \<times> bool"
  where "macro_step s ch =
    (let (m, brk) = s in
     if m < length macro_pat \<and> ch = macro_pat ! m then
       (if Suc m = length macro_pat then (0, True) else (Suc m, brk))
     else if ch = macro_pat ! 0 then (1, brk)
     else (0, brk))"

definition usart_watch :: "u8 \<Rightarrow> usart_inst \<times> uart_host \<Rightarrow> usart_inst \<times> uart_host"
  where "usart_watch ch x =
    (let (u, h) = x in
     if us_watch_macro u then
       (let (m, brk) = macro_step (us_macro_match u, False) ch
        in (u\<lparr>us_macro_match := m\<rparr>, if brk then mm_uart_break_on_macro_set h else h))
     else x)"

definition usart_write ::
  "mm_sec_state \<Rightarrow> regs \<Rightarrow> regs \<Rightarrow> u32 \<Rightarrow> u32 \<Rightarrow> u32 \<Rightarrow> usart_inst \<times> uart_host \<Rightarrow> (bool \<times> usart_inst \<times> uart_host) option"
  where "usart_write asec tzsc rcc offset size_bytes v x =
    (let (ok, u) = usart_sec_check asec tzsc (fst x); h = snd x in
     if \<not> ok then Some (True, u, h)
     else if bad_size size_bytes then Some (False, u, h)
     else if offset \<ge> 0x30 then Some (False, u, h)
     else if offset = USART_TDR then
       (let (u, h) = ensure_enabled rcc (u, h) in
        if \<not> us_enabled u then Some (True, u, h)
        else
          (let (u, h) = usart_watch (to_u8 v) (u, h);
               u = u\<lparr>us_io := mm_uart_io_queue_tx (us_io u) (to_u8 v)\<rparr>;
               u = set_usart_reg USART_ISR (usart_reg u USART_ISR AND NOT ISR_TXE) u
           in case mm_uart_io_flush (us_io u, h) of
                None \<Rightarrow> None
              | Some (r, io, h) \<Rightarrow>
                  (let u = u\<lparr>us_io := io\<rparr>
                   in Some (True, if r \<and> mm_uart_io_tx_empty io
                                  then set_usart_reg USART_ISR (usart_reg u USART_ISR OR ISR_TXE) u else u, h))))
     else Some (True, usart_past_end offset size_bytes
                        (u\<lparr>us_regs := regs_store (us_regs u) (unat offset) (unat size_bytes) v\<rparr>), h))"

subsection \<open>Polling, initialisation and reset\<close>

definition usart_poll_instance ::
  "regs \<Rightarrow> usart_inst \<times> uart_host \<times> mm_nvic option \<Rightarrow> (usart_inst \<times> uart_host \<times> mm_nvic option) option"
  where "usart_poll_instance rcc x =
    (let (u, h, g_nvic) = x; (u, h) = ensure_enabled rcc (u, h) in
     if \<not> us_enabled u then Some (u, h, g_nvic)
     else case mm_uart_io_poll (us_io u, h) of
       None \<Rightarrow> None
     | Some (rx, io, h) \<Rightarrow>
         (let u = u\<lparr>us_io := io\<rparr>;
              u = (if rx then set_usart_reg USART_ISR (usart_reg u USART_ISR OR ISR_RXNE) u else u);
              u = (if mm_uart_io_tx_empty io then set_usart_reg USART_ISR (usart_reg u USART_ISR OR ISR_TXE) u else u);
              cr1 = usart_reg u USART_CR1; isr = usart_reg u USART_ISR;
              raise = (us_irq u \<ge> 0 \<and>
                (cr1 AND 0x20 \<noteq> 0 \<and> isr AND ISR_RXNE \<noteq> 0 \<or> cr1 AND 0x80 \<noteq> 0 \<and> isr AND ISR_TXE \<noteq> 0))
          in Some (u, h, if raise then map_option (\<lambda>n. mm_nvic_set_pending n (of_int (us_irq u)) True) g_nvic
                         else g_nvic)))"

fun usart_poll ::
  "regs \<Rightarrow> usart_inst list \<Rightarrow> uart_host \<Rightarrow> mm_nvic option \<Rightarrow> (usart_inst list \<times> uart_host \<times> mm_nvic option) option" where
  "usart_poll rcc [] h g_nvic = Some ([], h, g_nvic)"
| "usart_poll rcc (u # us) h g_nvic =
    (case usart_poll_instance rcc (u, h, g_nvic) of
       None \<Rightarrow> None
     | Some (u, h, g_nvic) \<Rightarrow> map_option (\<lambda>(us, y). (u # us, y)) (usart_poll rcc us h g_nvic))"

definition zero_usart :: "nat \<Rightarrow> usart_inst"
  where "zero_usart i = \<lparr>us_base = 0, us_index = i, us_regs = (\<lambda>_. 0), us_io = zero_uart_io, us_enabled = False,
    us_irq = 0, us_rcc = False, us_clock_on = CLOCK_NONE, us_sec_reg = None, us_sec_bitmask = 0,
    us_secure_only = False, us_current_sec = MM_NONSECURE, us_macro_match = 0, us_watch_macro = False, us_oob = False\<rparr>"

definition usart_init_inst :: "nat \<Rightarrow> usart_inst"
  where "usart_init_inst i =
    (let u = set_usart_reg USART_ISR ISR_TXE ((zero_usart i)\<lparr>
           us_base := [0x40013800, 0x40004400, 0x40004800, 0x40004C00, 0x40005000, 0x40006400,
                       0x40007800, 0x40007C00, 0x40008000, 0x40006800, 0x40006C00, 0x40008400] ! i,
           us_io := mm_uart_io_init, us_irq := [37, 38, 39, 52, 53, 71, 82, 83, 140, 141, 142, 143] ! i,
           us_rcc := True, us_current_sec := MM_SECURE, us_watch_macro := (i = 2), us_sec_reg := Some (0x10 div 4)\<rparr>)
     in if i = 0 then u\<lparr>us_clock_on := CLOCK_APB2, us_sec_bitmask := 0x800, us_sec_reg := Some (0x14 div 4)\<rparr>
        else if 1 \<le> i \<and> i \<le> 7 then
          u\<lparr>us_clock_on := CLOCK_APB1L,
            us_sec_bitmask :=
              (if i = 1 then 0x2000 else if i = 2 then 0x4000 else if i = 5 then 0x200000
               else if i = 9 then 0x400000 else if i = 10 then 0x800000 else 0)\<rparr>
        else u\<lparr>us_clock_on := CLOCK_APB1H, us_sec_bitmask := 0\<rparr>)"

definition usart_init :: "usart_inst list"
  where "usart_init = map usart_init_inst [0..<12]"

text \<open>The reset closes every instance's descriptor before it clears the instance.\<close>

definition usart_reset :: "usart_inst list \<times> uart_host \<Rightarrow> usart_inst list \<times> uart_host"
  where "usart_reset x =
    (map zero_usart [0..<length (fst x)],
     fold (\<lambda>u h. snd (mm_uart_io_close (us_io u, h))) (fst x) (snd x))"

subsection \<open>The watch for the macro text\<close>

lemma pat_length: "length macro_pat = 13"
  by (simp add: macro_pat_def)

lemma macro_first_only: "0 < i \<Longrightarrow> i < 13 \<Longrightarrow> macro_pat ! i \<noteq> macro_pat ! 0"
proof -
  have "list_all (\<lambda>i. macro_pat ! i \<noteq> macro_pat ! 0) [1..<13]" by code_simp
  then show "0 < i \<Longrightarrow> i < 13 \<Longrightarrow> macro_pat ! i \<noteq> macro_pat ! 0" by (simp add: list_all_iff)
qed

text \<open>The first byte of the pattern does not occur again in it, so of all prefixes of the pattern at
  most one that is not empty ends a given text.\<close>

lemma pat_suffix_unique:
  assumes "suffix (take j macro_pat) xs" "suffix (take m macro_pat) xs" "0 < j" "j < m" "m \<le> 13"
  shows False
proof -
  have "suffix (take j macro_pat) (take m macro_pat)"
    using suffix_same_cases [OF assms(1,2)] assms(4,5) pat_length by (auto dest: suffix_length_le)
  then obtain zs where z: "take m macro_pat = zs @ take j macro_pat" by (auto simp: suffix_def)
  from arg_cong [OF z, of length] have l: "length zs = m - j" using assms(4,5) pat_length by simp
  have "take m macro_pat ! (m - j) = macro_pat ! 0"
    unfolding z using l assms(3-5) pat_length by (simp add: nth_append)
  moreover have "take m macro_pat ! (m - j) = macro_pat ! (m - j)" using assms(3,4) by simp
  ultimately show False using macro_first_only [of "m - j"] assms(3-5) by simp
qed

lemma suffix_snoc_take:
  "j < 13 \<Longrightarrow> suffix (take (Suc j) macro_pat) (xs @ [c]) \<longleftrightarrow> suffix (take j macro_pat) xs \<and> c = macro_pat ! j"
  by (auto simp: take_Suc_conv_app_nth pat_length)

lemma pat_take: "take 13 macro_pat = macro_pat" "take (Suc 12) macro_pat = macro_pat"
  by (simp_all add: pat_length)

text \<open>The state after a text: the length of the only prefix of the pattern that ends it, and whether
  the pattern occurred.\<close>

definition watch_inv :: "u8 list \<Rightarrow> nat \<times> bool \<Rightarrow> bool"
  where "watch_inv xs s = (fst s < 13 \<and> (\<forall>j<13. suffix (take j macro_pat) xs \<longleftrightarrow> j = 0 \<or> j = fst s) \<and>
    (snd s \<longleftrightarrow> sublist macro_pat xs))"

lemma watch_step:
  assumes "watch_inv xs (m, brk)" shows "watch_inv (xs @ [c]) (macro_step (m, brk) c)"
proof -
  have m: "m < 13" "\<And>j. j < 13 \<Longrightarrow> suffix (take j macro_pat) xs \<longleftrightarrow> j = 0 \<or> j = m" "brk \<longleftrightarrow> sublist macro_pat xs"
    using assms by (auto simp: watch_inv_def)
  have ext: "suffix (take (Suc j) macro_pat) (xs @ [c]) \<longleftrightarrow> (j = 0 \<or> j = m) \<and> c = macro_pat ! j" if "j < 13" for j
    using suffix_snoc_take [OF that] m(2) [OF that] by simp
  have found: "sublist macro_pat (xs @ [c]) \<longleftrightarrow> brk \<or> m = 12 \<and> c = macro_pat ! 12"
    using ext [of 12] m(3) by (auto simp: sublist_snoc pat_take)
  have tail: "suffix (take j macro_pat) (xs @ [c]) \<longleftrightarrow>
      j = 0 \<or> (j = 1 \<and> c = macro_pat ! 0) \<or> (j = Suc m \<and> c = macro_pat ! m)" if "j < 13" for j
    using that ext [of "j - 1"] by (cases j) auto
  have "c = macro_pat ! m \<Longrightarrow> c = macro_pat ! 0 \<Longrightarrow> m = 0" using macro_first_only [of m] m(1) by auto
  then have pos: "j = 0 \<or> (j = 1 \<and> c = macro_pat ! 0) \<or> (j = Suc m \<and> c = macro_pat ! m) \<longleftrightarrow>
      j = 0 \<or> j = fst (macro_step (m, brk) c)" if "j < 13" for j
    using that by (auto simp: macro_step_def pat_length)
  have "fst (macro_step (m, brk) c) < 13" "snd (macro_step (m, brk) c) \<longleftrightarrow> brk \<or> m = 12 \<and> c = macro_pat ! 12"
    using m(1) by (auto simp: macro_step_def pat_length)
  with tail pos found show ?thesis unfolding watch_inv_def by simp
qed

lemma watch_fold: "watch_inv xs (foldl macro_step (0, False) xs)"
proof (induction xs rule: rev_induct)
  case Nil
  have "\<forall>j<13. take j macro_pat = [] \<longleftrightarrow> j = 0" by (auto simp: macro_pat_def)
  then show ?case by (simp add: watch_inv_def) (simp add: macro_pat_def)
next
  case (snoc c xs)
  then show ?case using watch_step [of xs "fst (foldl macro_step (0, False) xs)" "snd (foldl macro_step (0, False) xs)" c]
    by simp
qed

subsection \<open>Properties\<close>

text \<open>A sequence of byte stores to TDR.\<close>

fun usart_sends ::
  "mm_sec_state \<Rightarrow> regs \<Rightarrow> regs \<Rightarrow> u8 list \<Rightarrow> usart_inst \<times> uart_host \<Rightarrow> (usart_inst \<times> uart_host) option" where
  "usart_sends asec tzsc rcc [] x = Some x"
| "usart_sends asec tzsc rcc (b # bs) x =
    (case usart_write asec tzsc rcc USART_TDR 1 (to_u32 b) x of
       None \<Rightarrow> None | Some (_, x) \<Rightarrow> usart_sends asec tzsc rcc bs x)"

definition usart_running :: "regs \<Rightarrow> usart_inst \<Rightarrow> bool"
  where "usart_running rcc u = (io_ok (us_io u) \<and> us_enabled u \<and> usart_reg u USART_CR1 AND 1 \<noteq> 0 \<and>
    usart_clock_on rcc u)"

lemma running_stays: "us_enabled u \<Longrightarrow> usart_reg u USART_CR1 AND 1 \<noteq> 0 \<Longrightarrow> usart_clock_on rcc u \<Longrightarrow>
    ensure_enabled rcc (u, h) = (u, h)"
  by (simp add: ensure_enabled_def Let_def)

lemma clock_on_cong:
  "us_clock_on u' = us_clock_on u \<Longrightarrow> us_index u' = us_index u \<Longrightarrow> us_rcc u' = us_rcc u \<Longrightarrow>
   usart_clock_on rcc u' = usart_clock_on rcc u"
  by (simp add: usart_clock_on_def clock_apb2_usart1_def clock_apb1lenr_generic_def clock_apb1henr_generic_def
      split: usart_clock.split)

lemma send_step:
  assumes "usart_running rcc u" "posix_write h" "us_watch_macro u"
  shows "\<exists>u' h'. usart_write MM_SECURE tzsc rcc USART_TDR 1 (to_u32 b) (u, h) = Some (True, u', h') \<and>
    usart_running rcc u' \<and> posix_write h' \<and> us_watch_macro u' \<and>
    (us_macro_match u', uh_break_on_macro h') = macro_step (us_macro_match u, uh_break_on_macro h) b"
proof -
  define u1 where "u1 = snd (usart_sec_check MM_SECURE tzsc u)"
  have u1: "usart_sec_check MM_SECURE tzsc u = (True, u1)" by (simp add: u1_def usart_sec_check_def Let_def)
  have same: "us_io u1 = us_io u" "us_enabled u1 = us_enabled u" "us_regs u1 = us_regs u"
    "us_watch_macro u1 = us_watch_macro u" "us_macro_match u1 = us_macro_match u"
    "us_clock_on u1 = us_clock_on u" "us_index u1 = us_index u" "us_rcc u1 = us_rcc u"
    by (simp_all add: u1_def usart_sec_check_def Let_def)
  have clk: "usart_clock_on rcc u1 = usart_clock_on rcc u" by (rule clock_on_cong [OF same(6-8)])
  have b: "to_u8 (to_u32 b) = b" by (rule bit_word_eqI) (simp add: to_u8_def to_u32_def bit_simps)
  obtain m brk where mb: "macro_step (us_macro_match u, False) b = (m, brk)" by fastforce
  define h2 where "h2 = (if brk then mm_uart_break_on_macro_set h else h)"
  have step: "macro_step (us_macro_match u, uh_break_on_macro h) b = (m, uh_break_on_macro h2)"
    using mb by (auto simp: macro_step_def h2_def mm_uart_break_on_macro_set_def split: if_splits)
  define u2 where "u2 = set_usart_reg USART_ISR (usart_reg u1 USART_ISR AND NOT ISR_TXE)
    (u1\<lparr>us_macro_match := m, us_io := mm_uart_io_queue_tx (us_io u1) b\<rparr>)"
  have "posix_write h2" using assms(2) by (simp add: posix_write_def h2_def mm_uart_break_on_macro_set_def)
  moreover have "io_ok (us_io u2)" using assms(1) same by (simp add: u2_def set_usart_reg_def usart_running_def queue_ok)
  ultimately obtain r io3 h3 where f: "mm_uart_io_flush (us_io u2, h2) = Some (r, io3, h3)" "io_ok io3"
    "posix_write h3" "uh_break_on_macro h3 = uh_break_on_macro h2" using flush_total by blast
  define u4 where "u4 = (if r \<and> mm_uart_io_tx_empty io3
    then set_usart_reg USART_ISR (usart_reg u2 USART_ISR OR ISR_TXE) (u2\<lparr>us_io := io3\<rparr>) else u2\<lparr>us_io := io3\<rparr>)"
  have "ensure_enabled rcc (u1, h) = (u1, h)" using assms(1) same clk by (simp add: running_stays usart_running_def)
  moreover have "us_enabled u1" using assms(1) same by (simp add: usart_running_def)
  ultimately have "usart_write MM_SECURE tzsc rcc USART_TDR 1 (to_u32 b) (u, h) = Some (True, u4, h3)"
    using u1 same assms(3) mb f(1) b
    by (simp add: usart_write_def bad_size_def usart_watch_def u4_def u2_def h2_def set_usart_reg_def Let_def)
  moreover have "usart_clock_on rcc u4 = usart_clock_on rcc u1"
    by (rule clock_on_cong) (simp_all add: u4_def u2_def set_usart_reg_def)
  ultimately show ?thesis
    using assms(1,3) same clk f step
    by (auto simp: usart_running_def u4_def u2_def set_usart_reg_def)
qed

text \<open>C33: the debugger stop on a macro error is exact.  While the instance that is watched is enabled,
  every sequence of stores to its data register completes, on any host that obeys POSIX, and the
  stop is requested if and only if the text sent contains \<^verbatim>\<open>macro   error\<close>: the one-register
  matcher misses no occurrence, because the first letter of the text does not recur in it.\<close>

theorem usart_macro_watch:
  assumes "usart_running rcc u" "posix_write h" "us_watch_macro u" "us_macro_match u = 0" "\<not> uh_break_on_macro h"
  shows "\<exists>u' h'. usart_sends MM_SECURE tzsc rcc bs (u, h) = Some (u', h') \<and>
    (uh_break_on_macro h' \<longleftrightarrow> sublist macro_pat bs)"
proof -
  have "\<exists>u' h'. usart_sends MM_SECURE tzsc rcc bs (u, h) = Some (u', h') \<and>
      (us_macro_match u', uh_break_on_macro h') = foldl macro_step (us_macro_match u, uh_break_on_macro h) bs"
    using assms(1-3)
  proof (induction bs arbitrary: u h)
    case (Cons b bs)
    obtain u1 h1 where s: "usart_write MM_SECURE tzsc rcc USART_TDR 1 (to_u32 b) (u, h) = Some (True, u1, h1)"
      "usart_running rcc u1" "posix_write h1" "us_watch_macro u1"
      "(us_macro_match u1, uh_break_on_macro h1) = macro_step (us_macro_match u, uh_break_on_macro h) b"
      using send_step [OF Cons.prems] by blast
    from Cons.IH [OF s(2-4)] show ?case using s(1,5) by simp
  qed simp
  then show ?thesis using assms(4,5) watch_fold [of bs] by (auto simp: watch_inv_def) (metis snd_conv)+
qed

text \<open>Clock controller registers with every clock on, and the watched instance enabled.\<close>

definition demo_usart :: usart_inst
  where "demo_usart = (usart_init ! 2)\<lparr>us_enabled := True, us_regs := (\<lambda>k. if k = 0 then 1 else 0)\<rparr>"

theorem usart_macro_watch_witness:
  "\<exists>u' h'. usart_sends MM_SECURE (\<lambda>_. 0) (\<lambda>_. 0xFFFFFFFF) (0x6D # macro_pat) (demo_usart, demo_uart_host) = Some (u', h') \<and>
    uh_break_on_macro h'"
proof -
  have "io_ok (us_io demo_usart)" using init_ok(1) by (simp add: demo_usart_def usart_init_def usart_init_inst_def set_usart_reg_def)
  then have "usart_running (\<lambda>_. 0xFFFFFFFF) demo_usart" "us_watch_macro demo_usart" "us_macro_match demo_usart = 0"
    by (simp_all add: usart_running_def demo_usart_def usart_init_def usart_init_inst_def set_usart_reg_def zero_usart_def
      usart_clock_on_def clock_apb1lenr_generic_def)
  moreover have "posix_write demo_uart_host" "\<not> uh_break_on_macro demo_uart_host"
    by (simp_all add: posix_write_def demo_uart_host_def)
  moreover have "sublist macro_pat (0x6D # macro_pat)" by (simp add: sublist_Cons_right)
  ultimately show ?thesis using usart_macro_watch by blast
qed

text \<open>An instance that the TrustZone controller gives to the Secure side is closed to Non-secure
  code: a Non-secure access of any width to any offset reads zero, and neither the registers, the
  host side, the descriptor's data nor the watch change.\<close>

theorem usart_secure_closed:
  assumes "us_sec_reg u = Some w" "tzsc w AND us_sec_bitmask u \<noteq> 0"
  shows "\<exists>u'. usart_read MM_NONSECURE tzsc rcc offset n (u, h) = (Some 0, u', h) \<and>
    usart_write MM_NONSECURE tzsc rcc offset n v (u, h) = Some (True, u', h) \<and>
    us_regs u' = us_regs u \<and> us_io u' = us_io u \<and> us_enabled u' = us_enabled u \<and> us_macro_match u' = us_macro_match u"
  using assms by (simp add: usart_read_def usart_write_def usart_sec_check_def Let_def)

theorem usart_secure_closed_witness:
  "\<exists>u'. usart_read MM_NONSECURE (\<lambda>_. 0x4000) (\<lambda>_. 0) USART_RDR 4 (usart_init ! 2, demo_uart_host) = (Some 0, u', demo_uart_host)"
  using usart_secure_closed [of "usart_init ! 2" 4 "\<lambda>_. 0x4000" "\<lambda>_. 0" USART_RDR 4 demo_uart_host]
  by (auto simp: usart_init_def usart_init_inst_def set_usart_reg_def)

text \<open>The first reset closes the standard input.  Before any initialisation the instances are zero,
  and a zero descriptor counts as open, so the reset that precedes the first initialisation closes
  descriptor 0, once for each of the twelve instances.\<close>

theorem usart_cold_reset_closes_stdin:
  "uh_closed (snd (usart_reset (map zero_usart [0..<12], h))) = uh_closed h @ replicate 12 0"
proof -
  have "uh_closed (fold (\<lambda>u h. snd (mm_uart_io_close (us_io u, h))) us h) = uh_closed h @ replicate (length us) 0"
    if "\<forall>u\<in>set us. us_io u = zero_uart_io" for us :: "usart_inst list" and h
    using that
    by (induction us arbitrary: h)
      (simp_all add: mm_uart_io_close_def zero_uart_io_def replicate_app_Cons_same)
  then show ?thesis by (simp add: usart_reset_def zero_usart_def)
qed

end
