(* ===== verification/Stm32_Spi.thy ===== *)
theory Stm32_Spi
imports Soc_Regs Ring_Buffer Spi_Bus
begin

text \<open>
  The SPI controllers of the STM32H563, \<^verbatim>\<open>cpu/stm32h563/stm32h563_spi.c\<close>: six instances, each in front of
  one bus of \<^verbatim>\<open>Spi_Bus\<close>.  A byte written to TXDR is exchanged at once and the reply is put into a
  receive ring of 32 bytes, from which RXDR reads.

  Operations that reach the bus take the device table and thread the state of the devices.  An
  access that runs over the end of the register array is recorded in \<^verbatim>\<open>sp_oob\<close>.  The trace
  output is left out.
\<close>

abbreviation "SPI_CR1 \<equiv> (0x00 :: u32)"
abbreviation "SPI_CR2 \<equiv> (0x04 :: u32)"
abbreviation "SPI_CFG1 \<equiv> (0x08 :: u32)"
abbreviation "SPI_IER \<equiv> (0x10 :: u32)"
abbreviation "SPI_SR \<equiv> (0x14 :: u32)"
abbreviation "SPI_IFCR \<equiv> (0x18 :: u32)"
abbreviation "SPI_TXDR \<equiv> (0x20 :: u32)"
abbreviation "SPI_RXDR \<equiv> (0x30 :: u32)"

abbreviation "SR_RXP \<equiv> (0x1 :: u32)"
abbreviation "SR_TXP \<equiv> (0x2 :: u32)"
abbreviation "SR_DXP \<equiv> (0x4 :: u32)"
abbreviation "SR_EOT \<equiv> (0x8 :: u32)"
abbreviation "SR_TXTF \<equiv> (0x10 :: u32)"
abbreviation "SR_BUSY \<equiv> (0x400 :: u32)"
abbreviation "SR_TXC \<equiv> (0x1000 :: u32)"
abbreviation "SR_RXWNE \<equiv> (0x8000 :: u32)"

record spi_inst =
  sp_base :: u32
  sp_regs :: regs
  sp_rx_fifo :: "u8 list"
  sp_rx_head :: u8
  sp_rx_tail :: u8
  sp_enabled :: bool
  sp_transfer_active :: bool
  sp_eot_pending :: bool
  sp_tsize_rem :: u32
  sp_irq :: int
  sp_bus_index :: int
  sp_oob :: bool

abbreviation spi_reg :: "spi_inst \<Rightarrow> u32 \<Rightarrow> u32"
  where "spi_reg s offset \<equiv> sp_regs s (unat offset div 4)"

definition set_spi_reg :: "u32 \<Rightarrow> u32 \<Rightarrow> spi_inst \<Rightarrow> spi_inst"
  where "set_spi_reg offset v s = s\<lparr>sp_regs := (sp_regs s)(unat offset div 4 := v)\<rparr>"

definition spi_frame_bytes :: "spi_inst \<Rightarrow> u32"
  where "spi_frame_bytes s =
    (let cfg1 = spi_reg s SPI_CFG1;
         dsize = (if cfg1 AND 0x1F = 0 then 8 else (cfg1 AND 0x1F) + 1)
     in if dsize \<le> 8 then 1 else if dsize \<le> 16 then 2 else 4)"

definition fifo_count :: "spi_inst \<Rightarrow> u8"
  where "fifo_count s = (sp_rx_tail s - sp_rx_head s) AND 0x1F"

definition fifo_push :: "spi_inst \<Rightarrow> u8 \<Rightarrow> bool \<times> spi_inst"
  where "fifo_push s v =
    (let next_tail = (sp_rx_tail s + 1) AND 0x1F in
     if next_tail = sp_rx_head s then (False, s)
     else (True, s\<lparr>sp_rx_fifo := (sp_rx_fifo s)[unat (sp_rx_tail s) := v], sp_rx_tail := next_tail\<rparr>))"

definition fifo_pop :: "spi_inst \<Rightarrow> u8 option \<times> spi_inst"
  where "fifo_pop s =
    (if sp_rx_head s = sp_rx_tail s then (None, s)
     else (Some (sp_rx_fifo s ! unat (sp_rx_head s)), s\<lparr>sp_rx_head := (sp_rx_head s + 1) AND 0x1F\<rparr>))"

definition update_sr :: "spi_inst \<Rightarrow> spi_inst"
  where "update_sr s =
    (let count = fifo_count s;
         tsize = (if sp_transfer_active s then sp_tsize_rem s else 0);
         busy = (sp_enabled s \<and> (sp_transfer_active s \<or> count > 0));
         sr = (if count > 0 then SR_RXP else 0);
         sr = sr OR SR_TXP;
         sr = (if sr AND (SR_RXP OR SR_TXP) = (SR_RXP OR SR_TXP) then sr OR SR_DXP else sr);
         sr = (if busy then sr OR SR_BUSY else sr);
         sr = (if sp_eot_pending s then sr OR (SR_EOT OR SR_TXTF OR SR_TXC) else sr);
         sr = (if count \<ge> 4 then sr OR SR_RXWNE else sr);
         sr = sr OR push_bit 13 (to_u32 (if count > 3 then 3 else count));
         sr = sr OR push_bit 16 (tsize AND 0xFFFF)
     in set_spi_reg SPI_SR sr s)"

definition spi_set_enabled :: "'e mm_spi_device list \<Rightarrow> bool \<Rightarrow> spi_inst \<times> 'e \<Rightarrow> spi_inst \<times> 'e"
  where "spi_set_enabled devs enable x =
    (let (s, e) = x in
     if enable then (update_sr (s\<lparr>sp_enabled := True\<rparr>), e)
     else (update_sr (s\<lparr>sp_enabled := False, sp_transfer_active := False, sp_eot_pending := False,
                        sp_tsize_rem := 0, sp_rx_head := 0, sp_rx_tail := 0\<rparr>),
           mm_spi_bus_end devs (sp_bus_index s) e))"

definition spi_start_transfer :: "spi_inst \<Rightarrow> spi_inst"
  where "spi_start_transfer s =
    (let tsize = spi_reg s SPI_CR2 AND 0xFFFF;
         s = s\<lparr>sp_transfer_active := True, sp_eot_pending := False,
               sp_tsize_rem := (if tsize = 0 then 0xFFFFFFFF else tsize)\<rparr>
     in set_spi_reg SPI_SR (spi_reg s SPI_SR AND NOT (SR_EOT OR SR_TXTF OR SR_TXC)) s)"

definition spi_xfer_byte :: "'e mm_spi_device list \<Rightarrow> u8 \<Rightarrow> spi_inst \<times> 'e \<Rightarrow> u8 \<times> 'e"
  where "spi_xfer_byte devs out x = mm_spi_bus_xfer devs (sp_bus_index (fst x)) out (snd x)"

text \<open>One round of the loop of \<^verbatim>\<open>spi_handle_tx\<close>, and the loop over the bytes of the frame.\<close>

definition spi_tx_byte :: "'e mm_spi_device list \<Rightarrow> u8 \<Rightarrow> spi_inst \<times> 'e \<Rightarrow> spi_inst \<times> 'e"
  where "spi_tx_byte devs out x =
    (let (inb, e) = spi_xfer_byte devs out x; s = snd (fifo_push (fst x) inb) in
     (if sp_transfer_active s \<and> sp_tsize_rem s \<noteq> 0 then s\<lparr>sp_tsize_rem := sp_tsize_rem s - 1\<rparr> else s, e))"

definition spi_handle_tx :: "'e mm_spi_device list \<Rightarrow> u32 \<Rightarrow> u32 \<Rightarrow> spi_inst \<times> 'e \<Rightarrow> spi_inst \<times> 'e"
  where "spi_handle_tx devs v size_bytes x =
    (if \<not> sp_enabled (fst x) then x
     else
       (let send_bytes = min (spi_frame_bytes (fst x)) size_bytes;
            (s, e) = fold (\<lambda>i. spi_tx_byte devs (to_u8 (drop_bit (i * 8) v AND 0xFF))) [0..<unat send_bytes] x;
            (s, e) = (if sp_transfer_active s \<and> sp_tsize_rem s = 0
                      then (s\<lparr>sp_transfer_active := False, sp_eot_pending := True\<rparr>, mm_spi_bus_end devs (sp_bus_index s) e)
                      else (s, e))
        in (update_sr s, e)))"

text \<open>The loop that assembles a value from the receive ring.\<close>

fun spi_rx_bytes :: "nat \<Rightarrow> nat \<Rightarrow> u32 \<times> spi_inst \<Rightarrow> u32 \<times> spi_inst" where
  "spi_rx_bytes i 0 x = x"
| "spi_rx_bytes i (Suc k) x =
    (let (v, s) = x; (b, s) = fifo_pop s; b = (case b of None \<Rightarrow> 0 | Some b \<Rightarrow> b)
     in spi_rx_bytes (Suc i) k (v OR push_bit (i * 8) (to_u32 b), s))"

definition spi_past_end :: "u32 \<Rightarrow> u32 \<Rightarrow> spi_inst \<Rightarrow> spi_inst"
  where "spi_past_end offset size_bytes s = s\<lparr>sp_oob := sp_oob s \<or> offset + size_bytes > 0x50\<rparr>"

definition spi_read :: "u32 \<Rightarrow> u32 \<Rightarrow> spi_inst \<Rightarrow> u32 option \<times> spi_inst"
  where "spi_read offset size_bytes s =
    (if bad_size size_bytes then (None, s)
     else if offset \<ge> 0x50 then (None, s)
     else if offset = SPI_RXDR then
       (let (v, s) = spi_rx_bytes 0 (unat (min (spi_frame_bytes s) size_bytes)) (0, s) in (Some v, update_sr s))
     else
       (let s = update_sr s
        in (Some (regs_load (sp_regs s) (unat offset) (unat size_bytes)), spi_past_end offset size_bytes s)))"

definition spi_write_cr1 :: "'e mm_spi_device list \<Rightarrow> u32 \<Rightarrow> spi_inst \<times> 'e \<Rightarrow> spi_inst \<times> 'e"
  where "spi_write_cr1 devs v x =
    (let (s, e) = x;
         was_enabled = (spi_reg s SPI_CR1 AND 1 \<noteq> 0);
         busy = (spi_reg s SPI_SR AND SR_BUSY \<noteq> 0);
         s = set_spi_reg SPI_CR1 v s;
         (s, e) = (if v AND 1 \<noteq> 0 then spi_set_enabled devs True (s, e)
                   else if \<not> busy then spi_set_enabled devs False (s, e)
                   else (set_spi_reg SPI_CR1 (spi_reg s SPI_CR1 OR 1) s, e));
         s = (if v AND 0x200 \<noteq> 0 \<and> sp_enabled s then spi_start_transfer s else s)
     in (s, if was_enabled \<and> v AND 1 = 0 then mm_spi_bus_end devs (sp_bus_index s) e else e))"

definition spi_write_ifcr :: "u32 \<Rightarrow> spi_inst \<Rightarrow> spi_inst"
  where "spi_write_ifcr v s =
    (let sr = spi_reg s SPI_SR;
         eot = (v AND 0x8 \<noteq> 0);
         sr = (if eot then sr AND NOT SR_EOT else sr);
         s = (if eot then s\<lparr>sp_eot_pending := False\<rparr> else s);
         sr = (if v AND 0x10 \<noteq> 0 then sr AND NOT SR_TXTF else sr);
         sr = (if v AND 0x800 \<noteq> 0 then sr AND NOT 0x800 else sr)
     in set_spi_reg SPI_SR sr s)"

definition spi_write :: "'e mm_spi_device list \<Rightarrow> u32 \<Rightarrow> u32 \<Rightarrow> u32 \<Rightarrow> spi_inst \<times> 'e \<Rightarrow> bool \<times> spi_inst \<times> 'e"
  where "spi_write devs offset size_bytes v x =
    (let (s, e) = x in
     if bad_size size_bytes then (False, x)
     else if offset \<ge> 0x50 then (False, x)
     else if offset = SPI_CR1 then (True, spi_write_cr1 devs v x)
     else if offset = SPI_TXDR then (True, spi_handle_tx devs v size_bytes x)
     else if offset = SPI_IFCR then (True, spi_write_ifcr v s, e)
     else (True, spi_past_end offset size_bytes
                   (s\<lparr>sp_regs := regs_store (sp_regs s) (unat offset) (unat size_bytes) v\<rparr>), e))"

definition spi_poll_instance :: "spi_inst \<times> mm_nvic option \<Rightarrow> spi_inst \<times> mm_nvic option"
  where "spi_poll_instance x =
    (let (s, g_nvic) = x in
     if \<not> sp_enabled s then x
     else
       (let s = update_sr s; ier = spi_reg s SPI_IER; sr = spi_reg s SPI_SR in
        if sp_irq s < 0 then (s, g_nvic)
        else
          (s, map_option (\<lambda>n.
             fold (\<lambda>(ie, flags) n. if ier AND ie \<noteq> 0 \<and> sr AND flags \<noteq> 0
                 then mm_nvic_set_pending n (of_int (sp_irq s)) True else n)
               [(0x1, SR_RXP), (0x2, SR_TXP), (0x4, SR_DXP), (0x8, SR_EOT OR SR_TXC), (0x10, SR_TXTF)] n) g_nvic)))"

fun spi_poll :: "spi_inst list \<Rightarrow> mm_nvic option \<Rightarrow> spi_inst list \<times> mm_nvic option" where
  "spi_poll [] g_nvic = ([], g_nvic)"
| "spi_poll (s # ss) g_nvic =
    (let (s, g_nvic) = spi_poll_instance (s, g_nvic); (ss, g_nvic) = spi_poll ss g_nvic in (s # ss, g_nvic))"

definition zero_spi :: spi_inst
  where "zero_spi = \<lparr>sp_base = 0, sp_regs = (\<lambda>_. 0), sp_rx_fifo = replicate 32 0, sp_rx_head = 0, sp_rx_tail = 0,
    sp_enabled = False, sp_transfer_active = False, sp_eot_pending = False, sp_tsize_rem = 0, sp_irq = 0,
    sp_bus_index = 0, sp_oob = False\<rparr>"

text \<open>An instance as \<^verbatim>\<open>mm_stm32h563_spi_init\<close> leaves it, and all of them after it and after a reset.\<close>

definition spi_init_inst :: "nat \<Rightarrow> spi_inst"
  where "spi_init_inst i = set_spi_reg SPI_SR SR_TXP
    (zero_spi\<lparr>sp_base := [0x40013000, 0x40003800, 0x40003C00, 0x40014C00, 0x44002000, 0x40015000] ! i,
      sp_bus_index := int i + 1, sp_irq := [55, 56, 57, 82, 83, 84] ! i\<rparr>)"

definition spi_init :: "spi_inst list"
  where "spi_init = map spi_init_inst [0..<6]"

definition spi_reset :: "spi_inst list"
  where "spi_reset = replicate 6 zero_spi"

subsection \<open>The receive ring\<close>

definition fifo_ok :: "spi_inst \<Rightarrow> bool"
  where "fifo_ok s = (length (sp_rx_fifo s) = 32 \<and> sp_rx_head s < 32 \<and> sp_rx_tail s < 32)"

definition fifo_list :: "spi_inst \<Rightarrow> u8 list"
  where "fifo_list s = ring_list (sp_rx_fifo s) (unat (sp_rx_head s)) (unat (sp_rx_tail s))"

lemma and_1F: "unat ((i + 1) AND 0x1F) = Suc (unat i) mod 32" if "i < 32" for i :: u8
proof -
  have m: "(0x1F :: u8) = mask 5" by (simp add: mask_eq_exp_minus_1)
  have "unat (i + 1) = Suc (unat i)" using that by (simp add: unat_word_ariths word_less_nat_alt)
  then show ?thesis by (simp add: m take_bit_eq_mod unat_mod_distrib flip: take_bit_eq_mask)
qed

lemma fifo_ok_nat:
  "fifo_ok s \<Longrightarrow> length (sp_rx_fifo s) = 32 \<and> unat (sp_rx_head s) < 32 \<and> unat (sp_rx_tail s) < 32"
  by (simp add: fifo_ok_def word_less_nat_alt)

lemma push_ok:
  assumes "fifo_ok s"
  shows "fifo_ok (snd (fifo_push s b))"
    and "fifo_list (snd (fifo_push s b)) = keep_first 31 (fifo_list s @ [b])"
proof -
  have r: "length (sp_rx_fifo s) = 32" "unat (sp_rx_head s) < 32" "unat (sp_rx_tail s) < 32"
    using fifo_ok_nat [OF assms] by auto
  have n: "unat ((sp_rx_tail s + 1) AND 0x1F) = Suc (unat (sp_rx_tail s)) mod 32"
    using assms by (simp add: fifo_ok_def and_1F)
  have full: "(sp_rx_tail s + 1) AND 0x1F = sp_rx_head s \<longleftrightarrow> ring_len 32 (unat (sp_rx_head s)) (unat (sp_rx_tail s)) = 31"
    using ring_full_iff [OF r(2,3)] n by (simp add: word_unat_eq_iff)
  show "fifo_ok (snd (fifo_push s b))"
    using assms n by (simp add: fifo_push_def Let_def fifo_ok_def word_less_nat_alt)
  show "fifo_list (snd (fifo_push s b)) = keep_first 31 (fifo_list s @ [b])"
  proof (cases "(sp_rx_tail s + 1) AND 0x1F = sp_rx_head s")
    case True
    then show ?thesis using full r by (simp add: fifo_push_def keep_first_def fifo_list_def)
  next
    case False
    then have "ring_len 32 (unat (sp_rx_head s)) (unat (sp_rx_tail s)) < 31"
      using full ring_len_less [of 32 "unat (sp_rx_head s)" "unat (sp_rx_tail s)"] by linarith
    moreover have "Suc (unat (sp_rx_tail s)) mod 32 \<noteq> unat (sp_rx_head s)"
      using False n by (simp add: word_unat_eq_iff)
    ultimately show ?thesis
      using ring_push [of "unat (sp_rx_head s)" "sp_rx_fifo s" "unat (sp_rx_tail s)" b] False r n
      by (simp add: fifo_push_def Let_def keep_first_def fifo_list_def)
  qed
qed

lemma pop_ok:
  assumes "fifo_ok s"
  shows "fifo_ok (snd (fifo_pop s))"
    and "fifo_pop s = (case fifo_list s of [] \<Rightarrow> None | b # bs \<Rightarrow> Some b, snd (fifo_pop s))"
    and "fifo_list (snd (fifo_pop s)) = tl (fifo_list s)"
proof -
  have r: "length (sp_rx_fifo s) = 32" "unat (sp_rx_head s) < 32" "unat (sp_rx_tail s) < 32"
    using fifo_ok_nat [OF assms] by auto
  have n: "unat ((sp_rx_head s + 1) AND 0x1F) = Suc (unat (sp_rx_head s)) mod 32"
    using assms by (simp add: fifo_ok_def and_1F)
  show "fifo_ok (snd (fifo_pop s))"
    using assms n by (simp add: fifo_pop_def fifo_ok_def word_less_nat_alt)
  have e: "sp_rx_head s = sp_rx_tail s \<longleftrightarrow> fifo_list s = []"
    using ring_empty_iff [of "unat (sp_rx_head s)" "sp_rx_fifo s" "unat (sp_rx_tail s)"] r
    by (simp add: fifo_list_def word_unat_eq_iff)
  have ne: "fifo_list s = sp_rx_fifo s ! unat (sp_rx_head s) # fifo_list (snd (fifo_pop s))"
    if "sp_rx_head s \<noteq> sp_rx_tail s"
    using ring_front [of "unat (sp_rx_head s)" "sp_rx_fifo s" "unat (sp_rx_tail s)"] that r n
    by (simp add: fifo_list_def fifo_pop_def word_unat_eq_iff)
  show "fifo_pop s = (case fifo_list s of [] \<Rightarrow> None | b # bs \<Rightarrow> Some b, snd (fifo_pop s))"
    using e ne by (cases "sp_rx_head s = sp_rx_tail s") (auto simp: fifo_pop_def)
  show "fifo_list (snd (fifo_pop s)) = tl (fifo_list s)"
    using e ne by (cases "sp_rx_head s = sp_rx_tail s") (auto simp: fifo_pop_def)
qed

interpretation rx_ring: bounded_queue fifo_list fifo_ok "\<lambda>s b. snd (fifo_push s b)" "keep_first 31" 31
proof
  show "length (fifo_list s) \<le> 31" if "fifo_ok s" for s
    using ring_len_less [of 32] fifo_ok_nat [OF that] by (simp add: fifo_list_def less_Suc_eq_le [symmetric])
qed (simp_all add: push_ok keep_first_def)

subsection \<open>Whole transfers\<close>

text \<open>The guest's side of an exchange: a byte store to TXDR, and a number of byte loads from RXDR.\<close>

definition send_byte :: "'e mm_spi_device list \<Rightarrow> spi_inst \<times> 'e \<Rightarrow> u8 \<Rightarrow> spi_inst \<times> 'e"
  where "send_byte devs x b = snd (spi_write devs SPI_TXDR 1 (to_u32 b) x)"

fun receive_bytes :: "nat \<Rightarrow> spi_inst \<Rightarrow> u32 option list \<times> spi_inst" where
  "receive_bytes 0 s = ([], s)"
| "receive_bytes (Suc n) s =
    (let (v, s) = spi_read SPI_RXDR 1 s; (vs, s) = receive_bytes n s in (v # vs, s))"

text \<open>The bus as the device that the controller talks to.\<close>

abbreviation on_bus :: "'e mm_spi_device list \<Rightarrow> int \<Rightarrow> 'e \<Rightarrow> u8 \<Rightarrow> u8 \<times> 'e"
  where "on_bus devs bus \<equiv> \<lambda>e b. mm_spi_bus_xfer devs bus b e"

text \<open>The parts of an instance that an exchange leaves alone.\<close>

definition byte_mode :: "spi_inst \<Rightarrow> bool"
  where "byte_mode s = (fifo_ok s \<and> sp_enabled s \<and> spi_frame_bytes s = 1)"

lemma update_sr_keeps [simp]:
  "sp_rx_fifo (update_sr s) = sp_rx_fifo s" "sp_rx_head (update_sr s) = sp_rx_head s"
  "sp_rx_tail (update_sr s) = sp_rx_tail s" "sp_enabled (update_sr s) = sp_enabled s"
  "sp_transfer_active (update_sr s) = sp_transfer_active s" "sp_eot_pending (update_sr s) = sp_eot_pending s"
  "sp_tsize_rem (update_sr s) = sp_tsize_rem s" "sp_bus_index (update_sr s) = sp_bus_index s"
  "k \<noteq> 5 \<Longrightarrow> sp_regs (update_sr s) k = sp_regs s k"
  by (simp_all add: update_sr_def set_spi_reg_def Let_def)

lemma push_keeps [simp]:
  "sp_enabled (snd (fifo_push s b)) = sp_enabled s" "sp_bus_index (snd (fifo_push s b)) = sp_bus_index s"
  "sp_transfer_active (snd (fifo_push s b)) = sp_transfer_active s"
  "sp_tsize_rem (snd (fifo_push s b)) = sp_tsize_rem s" "sp_regs (snd (fifo_push s b)) = sp_regs s"
  by (simp_all add: fifo_push_def Let_def)

lemma pop_keeps [simp]: "sp_enabled (snd (fifo_pop s)) = sp_enabled s" "sp_regs (snd (fifo_pop s)) = sp_regs s"
  by (simp_all add: fifo_pop_def)

lemma fifo_fields:
  "fifo_list (update_sr s) = fifo_list s" "fifo_ok (update_sr s) = fifo_ok s"
  "fifo_list (s\<lparr>sp_tsize_rem := k\<rparr>) = fifo_list s" "fifo_ok (s\<lparr>sp_tsize_rem := k\<rparr>) = fifo_ok s"
  "fifo_list (s\<lparr>sp_transfer_active := a, sp_eot_pending := p\<rparr>) = fifo_list s"
  "fifo_ok (s\<lparr>sp_transfer_active := a, sp_eot_pending := p\<rparr>) = fifo_ok s"
  by (simp_all add: fifo_list_def fifo_ok_def)

lemma frame_bytes_cfg: "sp_regs s' 2 = sp_regs s 2 \<Longrightarrow> spi_frame_bytes s' = spi_frame_bytes s"
  by (simp add: spi_frame_bytes_def)

lemma eot_flag: "sp_eot_pending s \<Longrightarrow> spi_reg (update_sr s) SPI_SR AND SR_EOT \<noteq> 0"
proof -
  assume "sp_eot_pending s"
  then have "bit (spi_reg (update_sr s) SPI_SR) 3"
    by (simp add: update_sr_def set_spi_reg_def Let_def bit_simps)
  then have "bit (spi_reg (update_sr s) SPI_SR AND SR_EOT) 3" by (simp add: bit_simps)
  then show ?thesis by force
qed

text \<open>One byte: the reply joins the receive ring, and the last byte of a sized transfer ends it.\<close>

lemma send_byte_step:
  assumes "byte_mode s" "sp_transfer_active s" "sp_tsize_rem s \<noteq> 0"
    "mm_spi_bus_xfer devs (sp_bus_index s) b e = (r, e1)" "send_byte devs (s, e) b = (s', e')"
  shows "byte_mode s'" "fifo_list s' = keep_first 31 (fifo_list s @ [r])" "sp_bus_index s' = sp_bus_index s"
    "sp_tsize_rem s' = sp_tsize_rem s - 1"
    "sp_transfer_active s' = (sp_tsize_rem s \<noteq> 1)"
    "e' = (if sp_tsize_rem s = 1 then mm_spi_bus_end devs (sp_bus_index s) e1 else e1)"
    "sp_tsize_rem s = 1 \<Longrightarrow> spi_reg s' SPI_SR AND SR_EOT \<noteq> 0"
proof -
  define p where "p = (snd (fifo_push s r))\<lparr>sp_tsize_rem := sp_tsize_rem s - 1\<rparr>"
  define q where "q = (if sp_tsize_rem s = 1 then p\<lparr>sp_transfer_active := False, sp_eot_pending := True\<rparr> else p)"
  have b: "to_u8 (to_u32 b AND 0xFF) = b"
  proof -
    have ff: "(0xFF :: u32) = mask 8" by (simp add: mask_eq_exp_minus_1)
    show ?thesis unfolding ff by (rule bit_word_eqI) (simp add: to_u8_def to_u32_def bit_simps)
  qed
  have "spi_tx_byte devs b (s, e) = (p, e1)"
    using assms(2-4) by (simp add: spi_tx_byte_def spi_xfer_byte_def p_def)
  then have x: "s' = update_sr q"
    "e' = (if sp_tsize_rem s = 1 then mm_spi_bus_end devs (sp_bus_index s) e1 else e1)"
    using assms(1,2,5) b
    by (auto simp: send_byte_def spi_write_def bad_size_def spi_handle_tx_def byte_mode_def p_def q_def split: if_splits)
  have fr: "spi_frame_bytes s' = spi_frame_bytes s"
    unfolding x by (rule frame_bytes_cfg) (simp add: q_def p_def)
  show "byte_mode s'" "fifo_list s' = keep_first 31 (fifo_list s @ [r])" "sp_bus_index s' = sp_bus_index s"
    "sp_tsize_rem s' = sp_tsize_rem s - 1" "sp_transfer_active s' = (sp_tsize_rem s \<noteq> 1)"
    using assms(1,2) push_ok [of s r] fr by (auto simp: byte_mode_def x(1) q_def p_def fifo_fields)
  show "e' = (if sp_tsize_rem s = 1 then mm_spi_bus_end devs (sp_bus_index s) e1 else e1)" by (rule x(2))
  show "spi_reg s' SPI_SR AND SR_EOT \<noteq> 0" if "sp_tsize_rem s = 1"
    unfolding x(1) by (rule eot_flag) (simp add: q_def that)
qed

lemma send_all:
  assumes "byte_mode s" "sp_transfer_active s" "sp_tsize_rem s = of_nat (length bs)" "bs \<noteq> []"
    "length (fifo_list s) + length bs \<le> 31"
    "spi_shift (on_bus devs (sp_bus_index s)) e bs = (rs, e1)" "foldl (send_byte devs) (s, e) bs = (s', e')"
  shows "byte_mode s' \<and> fifo_list s' = fifo_list s @ rs \<and> e' = mm_spi_bus_end devs (sp_bus_index s) e1 \<and>
    spi_reg s' SPI_SR AND SR_EOT \<noteq> 0"
  using assms
proof (induction bs arbitrary: s e rs)
  case (Cons b bs)
  obtain r e2 where r: "mm_spi_bus_xfer devs (sp_bus_index s) b e = (r, e2)" by fastforce
  obtain s2 e3 where s2: "send_byte devs (s, e) b = (s2, e3)" by fastforce
  have len: "length bs < 31" using Cons.prems(5) by simp
  then have t: "(of_nat (length (b # bs)) :: u32) \<noteq> 0" "(of_nat (length (b # bs)) :: u32) = 1 \<longleftrightarrow> bs = []"
    by (simp_all add: word_unat_eq_iff unat_word_ariths unat_of_nat)
  have nz: "sp_tsize_rem s \<noteq> 0" unfolding Cons.prems(3) by (rule t(1))
  note st = send_byte_step [OF Cons.prems(1,2) nz r s2]
  have f2: "fifo_list s2 = fifo_list s @ [r]"
    using st(2) Cons.prems(5) by (simp add: keep_first_def)
  show ?case
  proof (cases "bs = []")
    case True
    then show ?thesis using st t(2) Cons.prems(3,6,7) r s2 f2 by auto
  next
    case False
    then have one: "sp_tsize_rem s \<noteq> 1" unfolding Cons.prems(3) t(2) by simp
    obtain rs2 where rs: "spi_shift (on_bus devs (sp_bus_index s2)) e2 bs = (rs2, e1)" "rs = r # rs2"
      using Cons.prems(6) r st(3) by (auto simp: Let_def split: prod.splits)
    have "sp_tsize_rem s2 = of_nat (length bs)" using st(4) Cons.prems(3) by simp
    moreover have "foldl (send_byte devs) (s2, e2) bs = (s', e')" using Cons.prems(7) s2 st(6) one by simp
    ultimately show ?thesis
      using Cons.IH [OF st(1) _ _ False _ rs(1)] st(3,5) one f2 rs(2) Cons.prems(5) by simp
  qed
qed simp

lemma receive_all:
  "byte_mode s \<Longrightarrow> fst (receive_bytes (length (fifo_list s)) s) = map (\<lambda>b. Some (to_u32 b)) (fifo_list s)"
proof (induction "fifo_list s" arbitrary: s)
  case (Cons b bs)
  define s1 where "s1 = update_sr (snd (fifo_pop s))"
  have ok: "fifo_ok s" using Cons.prems by (simp add: byte_mode_def)
  have "fifo_pop s = (Some b, snd (fifo_pop s))"
    using pop_ok(2) [OF ok] Cons.hyps(2) [symmetric] by simp
  then have rd: "spi_read SPI_RXDR 1 s = (Some (to_u32 b), s1)"
    using Cons.prems by (auto simp: spi_read_def bad_size_def byte_mode_def s1_def Let_def split: prod.split)
  have "spi_frame_bytes s1 = spi_frame_bytes s" by (rule frame_bytes_cfg) (simp add: s1_def)
  then have "byte_mode s1" "fifo_list s1 = bs"
    using Cons.prems pop_ok(1,3) [OF ok] Cons.hyps(2) [symmetric]
    by (simp_all add: byte_mode_def s1_def fifo_fields)
  with Cons.hyps(1) [of s1] rd Cons.hyps(2) [symmetric] show ?case
    by (simp add: Let_def case_prod_beta)
qed simp

text \<open>C26: a transfer through the controller is an exchange with the device.  With the receive ring empty,
  byte frames, and a size of up to 31 bytes in CR2, setting SPE and CSTART and storing that many
  bytes to TXDR delivers exactly those bytes to the bus, ends the frame once, after the last of
  them, and raises EOT; as many loads from RXDR then return the device's replies in order.\<close>

theorem spi_transfer_exchanges:
  assumes "fifo_ok s" "fifo_list s = []" "spi_frame_bytes s = 1" "outs \<noteq> []" "length outs \<le> 31"
    "spi_reg s SPI_CR2 AND 0xFFFF = of_nat (length outs)"
  shows "let bus = sp_bus_index s;
      x = snd (spi_write devs SPI_CR1 4 0x201 (s, e));
      (s', e') = foldl (send_byte devs) x outs;
      (replies, e1) = spi_shift (on_bus devs bus) e outs
    in e' = mm_spi_bus_end devs bus e1 \<and> spi_reg s' SPI_SR AND SR_EOT \<noteq> 0 \<and>
       fst (receive_bytes (length outs) s') = map (\<lambda>b. Some (to_u32 b)) replies"
proof -
  define s0 where "s0 = spi_start_transfer (update_sr ((set_spi_reg SPI_CR1 0x201 s)\<lparr>sp_enabled := True\<rparr>))"
  have x: "snd (spi_write devs SPI_CR1 4 0x201 (s, e)) = (s0, e)"
    by (simp add: spi_write_def bad_size_def spi_write_cr1_def spi_set_enabled_def s0_def)
  have nz: "(of_nat (length outs) :: u32) \<noteq> 0"
    using assms(4,5) by (simp add: word_unat_eq_iff unat_of_nat)
  have "spi_frame_bytes s0 = spi_frame_bytes s"
    by (rule frame_bytes_cfg) (simp add: s0_def spi_start_transfer_def set_spi_reg_def Let_def)
  then have "byte_mode s0" "sp_transfer_active s0" "sp_tsize_rem s0 = of_nat (length outs)"
    "fifo_list s0 = []" "sp_bus_index s0 = sp_bus_index s"
    using assms(1-3,6) nz
    by (simp_all add: byte_mode_def s0_def spi_start_transfer_def set_spi_reg_def Let_def fifo_ok_def fifo_list_def)
  note s0 = this
  obtain s' e' where f: "foldl (send_byte devs) (s0, e) outs = (s', e')" by fastforce
  obtain rs e1 where rs: "spi_shift (on_bus devs (sp_bus_index s)) e outs = (rs, e1)" by fastforce
  have "length rs = length outs" using spi_shift_length [of "on_bus devs (sp_bus_index s)" e outs] rs by simp
  with send_all [OF s0(1-3) assms(4) _ _ f, of rs e1] s0(4,5) rs assms(5) receive_all [of s']
  show ?thesis by (simp add: x f rs Let_def)
qed

text \<open>A device that counts the bytes and answers with their complement.\<close>

definition demo_device :: "nat mm_spi_device"
  where "demo_device = \<lparr>spd_bus = 1, spd_xfer = Some (\<lambda>e b. (b XOR 0xFF, Suc e)), spd_end = None, spd_cs_level = None\<rparr>"

theorem spi_transfer_exchanges_witness:
  "let s = (spi_init ! 0)\<lparr>sp_regs := (\<lambda>k. if k = 1 then 2 else 0)\<rparr>;
       (s', e') = foldl (send_byte [demo_device]) (snd (spi_write [demo_device] SPI_CR1 4 0x201 (s, 0))) [0x12, 0x34]
   in e' = 2 \<and> fst (receive_bytes 2 s') = [Some 0xED, Some 0xCB]"
proof -
  let ?s = "(spi_init ! 0)\<lparr>sp_regs := (\<lambda>k. if k = 1 then 2 else 0)\<rparr>"
  have "fifo_ok ?s" "fifo_list ?s = []" "spi_frame_bytes ?s = 1" "sp_bus_index ?s = 1"
    "spi_reg ?s SPI_CR2 AND 0xFFFF = 2"
    by (simp_all add: spi_init_def spi_init_inst_def zero_spi_def set_spi_reg_def fifo_ok_def fifo_list_def
      ring_empty_iff spi_frame_bytes_def)
  note cfg = this
  have shift: "spi_shift (on_bus [demo_device] 1) 0 [0x12, 0x34] = ([0xED, 0xCB], 2)"
    "mm_spi_bus_end [demo_device] 1 2 = 2"
    by (simp_all add: mm_spi_bus_xfer_def spi_bus_select_def demo_device_def)
  have bytes: "to_u32 (0xED :: u8) = 0xED" "to_u32 (0xCB :: u8) = 0xCB" by (simp_all add: to_u32_def)
  have n: "length [0x12 :: u8, 0x34] = 2" "[0x12 :: u8, 0x34] \<noteq> []" "length [0x12 :: u8, 0x34] \<le> 31"
    "spi_reg ?s SPI_CR2 AND 0xFFFF = of_nat (length [0x12 :: u8, 0x34])" using cfg(5) by simp_all
  show ?thesis
    using spi_transfer_exchanges [OF cfg(1-3) n(2-4), of "[demo_device]" 0]
    unfolding cfg(4) n(1) shift Let_def case_prod_beta by (simp only: fst_conv snd_conv shift list.map bytes)
qed

end
