(* ===== verification/Stm32_Sys.thy ===== *)
theory Stm32_Sys
imports Soc_Regs
begin

text \<open>
  The system blocks of the STM32H563 model, \<^verbatim>\<open>cpu/stm32h563/stm32h563_mmio.c\<close>, first part: reset and
  clock control, power control, the TrustZone controller's register blocks, the block-based RAM
  protection, GPIO banks and external interrupts.

  Each C structure is a record; where a structure holds nothing but its registers the registers
  themselves are the state.  Handlers take the structures they reach by pointer as arguments and
  return what they change.  An access that passes the width checks but runs over the end of a
  register array is recorded in a flag.
\<close>

subsection \<open>Reset and clock control\<close>

abbreviation "RCC_SIZE \<equiv> (0x400 :: u32)"

record rcc_state =
  rcc_regs :: regs
  rcc_cpu_hz :: u64

definition rcc_read :: "rcc_state \<Rightarrow> u32 \<Rightarrow> u32 \<Rightarrow> u32 option"
  where "rcc_read r offset size_bytes =
    (if bad_size size_bytes then None else if offset + size_bytes > RCC_SIZE then None
     else Some (regs_load (rcc_regs r) (unat offset) (unat size_bytes)))"

text \<open>A ready bit follows its enable bit.\<close>

definition mirror_bit :: "nat \<Rightarrow> nat \<Rightarrow> u32 \<Rightarrow> u32"
  where "mirror_bit on rdy cr =
    (if cr AND push_bit on 1 \<noteq> 0 then cr OR push_bit rdy 1 else cr AND NOT (push_bit rdy 1))"

definition rcc_update_ready :: "rcc_state \<Rightarrow> rcc_state"
  where "rcc_update_ready r =
    (let cr = rcc_regs r 0;
         cr = mirror_bit 0 1 cr; cr = mirror_bit 8 9 cr; cr = mirror_bit 12 13 cr;
         cr = mirror_bit 16 17 cr; cr = mirror_bit 24 25 cr
     in r\<lparr>rcc_regs := (rcc_regs r)(0 := cr)\<rparr>)"

definition rcc_pll1_p_clk :: "rcc_state \<Rightarrow> u64"
  where "rcc_pll1_p_clk r =
    (let pllcfgr = rcc_regs r (0x28 div 4); plldivr = rcc_regs r (0x34 div 4);
         src = pllcfgr AND 0x3; divm = drop_bit 8 pllcfgr AND 0x3F;
         n = (plldivr AND 0x1FF) + 1; p = (drop_bit 9 plldivr AND 0x7F) + 1;
         fin = (if src = 1 then 64000000 else if src = 2 then 4000000 else if src = 3 then 8000000 else 0 :: u64)
     in if fin = 0 \<or> divm = 0 \<or> p = 0 then 0
        else (fin div to_u64 divm) * to_u64 n div to_u64 p)"

definition hpre_div :: "u32 \<Rightarrow> u32"
  where "hpre_div hpre =
    (if hpre \<ge> 8 then
       (if hpre = 8 then 2 else if hpre = 9 then 4 else if hpre = 10 then 8 else if hpre = 11 then 16
        else if hpre = 12 then 64 else if hpre = 13 then 128 else if hpre = 14 then 256
        else if hpre = 15 then 512 else 1)
     else 1)"

definition rcc_update_sysclk :: "rcc_state \<Rightarrow> rcc_state"
  where "rcc_update_sysclk r =
    (let cfgr1 = rcc_regs r (0x1C div 4); cfgr2 = rcc_regs r (0x20 div 4);
         sw = cfgr1 AND 0x7; hpre = cfgr2 AND 0xF;
         sys = (if sw = 0 then 64000000 else if sw = 1 then 4000000 else if sw = 2 then 8000000
                else if sw = 3 then rcc_pll1_p_clk r else 0);
         hz = (if sys = 0 then 0
               else (let hz = sys div to_u64 (hpre_div hpre) in if hz = 0 then 1 else hz))
     in r\<lparr>rcc_cpu_hz := hz,
          rcc_regs := (rcc_regs r)(0x1C div 4 := (cfgr1 AND NOT (push_bit 3 0x7)) OR push_bit 3 sw)\<rparr>)"

definition rcc_write :: "rcc_state \<Rightarrow> u32 \<Rightarrow> u32 \<Rightarrow> u32 \<Rightarrow> bool \<times> rcc_state"
  where "rcc_write r offset size_bytes v =
    (if bad_size size_bytes then (False, r) else if offset + size_bytes > RCC_SIZE then (False, r)
     else
       (let r = r\<lparr>rcc_regs := regs_store (rcc_regs r) (unat offset) (unat size_bytes) v\<rparr>;
            r = (if offset = 0x000 then rcc_update_ready r else r)
        in (True, if offset = 0x01C \<or> offset = 0x020 \<or> offset = 0x028 \<or> offset = 0x034 \<or> offset = 0x000
                  then rcc_update_sysclk r else r)))"

subsection \<open>Power control and plain blocks\<close>

definition pwr_read :: "regs \<Rightarrow> u32 \<Rightarrow> u32 \<Rightarrow> u32 option"
  where "pwr_read p offset size_bytes =
    (if bad_size size_bytes then None else if offset + size_bytes > 0x400 then None
     else Some (regs_load p (unat offset) (unat size_bytes)))"

definition pwr_update_vos :: "regs \<Rightarrow> regs"
  where "pwr_update_vos p =
    (let vos = drop_bit 4 (p (0x10 div 4)) AND 0x3;
         vossr = p (0x14 div 4) AND NOT (push_bit 14 1 OR push_bit 13 1);
         vossr = vossr OR push_bit 14 vos; vossr = vossr OR push_bit 13 1; vossr = vossr OR push_bit 3 1
     in p(0x14 div 4 := vossr))"

definition pwr_write :: "regs \<Rightarrow> u32 \<Rightarrow> u32 \<Rightarrow> u32 \<Rightarrow> bool \<times> regs"
  where "pwr_write p offset size_bytes v =
    (if bad_size size_bytes then (False, p) else if offset + size_bytes > 0x400 then (False, p)
     else
       (let p = regs_store p (unat offset) (unat size_bytes) v
        in (True, if offset = 0x10 then pwr_update_vos p else p)))"

definition simple_blk_read :: "regs \<Rightarrow> u32 \<Rightarrow> u32 \<Rightarrow> u32 option"
  where "simple_blk_read b offset size_bytes =
    (if bad_size size_bytes then None else if offset + size_bytes > 0x1000 then None
     else Some (regs_load b (unat offset) (unat size_bytes)))"

definition simple_blk_write :: "regs \<Rightarrow> u32 \<Rightarrow> u32 \<Rightarrow> u32 \<Rightarrow> bool \<times> regs"
  where "simple_blk_write b offset size_bytes v =
    (if bad_size size_bytes then (False, b) else if offset + size_bytes > 0x1000 then (False, b)
     else (True, regs_store b (unat offset) (unat size_bytes) v))"

definition gpdma_read :: "regs \<Rightarrow> u32 \<Rightarrow> u32 \<Rightarrow> u32 option"
  where "gpdma_read d offset size_bytes =
    (if bad_size size_bytes then None else if offset + size_bytes > 0x1000 then None
     else Some (regs_load d (unat offset) (unat size_bytes)))"

definition gpdma_write :: "regs \<Rightarrow> u32 \<Rightarrow> u32 \<Rightarrow> u32 \<Rightarrow> bool \<times> regs"
  where "gpdma_write d offset size_bytes v =
    (if bad_size size_bytes then (False, d) else if offset + size_bytes > 0x1000 then (False, d)
     else (True, regs_store d (unat offset) (unat size_bytes) v))"

interpretation tzsc: plain_block simple_blk_read simple_blk_write "\<lambda>b. b" "0x1000"
  by unfold_locales (auto simp: simple_blk_read_def simple_blk_write_def block_read_def block_write_def)

interpretation gpdma: plain_block gpdma_read gpdma_write "\<lambda>b. b" "0x1000"
  by unfold_locales (auto simp: gpdma_read_def gpdma_write_def block_read_def block_write_def)

subsection \<open>Block-based RAM protection\<close>

definition mpcbb_read :: "regs \<Rightarrow> u32 \<Rightarrow> u32 \<Rightarrow> u32 option"
  where "mpcbb_read b offset size_bytes =
    (if bad_size size_bytes then None else if offset + size_bytes > 0x400 then None
     else Some (regs_load b (unat offset) (unat size_bytes)))"

definition mpcbb_write :: "regs \<Rightarrow> u32 \<Rightarrow> u32 \<Rightarrow> u32 \<Rightarrow> bool \<times> regs"
  where "mpcbb_write b offset size_bytes v =
    (if bad_size size_bytes then (False, b) else if offset + size_bytes > 0x400 then (False, b)
     else (True, regs_store b (unat offset) (unat size_bytes) v))"

interpretation mpcbb: plain_block mpcbb_read mpcbb_write "\<lambda>b. b" "0x400"
  by unfold_locales (auto simp: mpcbb_read_def mpcbb_write_def block_read_def block_write_def)

definition mpcbb_init_defaults :: "nat \<Rightarrow> regs"
  where "mpcbb_init_defaults bank = (\<lambda>w. if 0x100 div 4 \<le> w \<and> w < 0x100 div 4 + 32 then 0xFFFFFFFF else 0)"

definition mpcbb_block_secure :: "(nat \<Rightarrow> regs) \<Rightarrow> int \<Rightarrow> u32 \<Rightarrow> bool"
  where "mpcbb_block_secure mpcbb bank block_index =
    (if bank < 0 \<or> bank \<ge> 3 then False
     else
       (let word = block_index div 32 in
        if word \<ge> 32 then False
        else
          (let b = block_index mod 32; val = mpcbb (nat bank) (0x100 div 4 + unat word);
               sec = (drop_bit (unat b) val AND 1 \<noteq> 0)
           in if mpcbb (nat bank) 0 AND push_bit 30 1 \<noteq> 0 then \<not> sec else sec)))"

subsection \<open>External interrupts\<close>

text \<open>The EXTI registers and the interrupt controller behind \<^verbatim>\<open>g_exti_nvic\<close>, None while it is null.\<close>

type_synonym exti_state = "regs \<times> mm_nvic option"

definition exti_line_bank :: "regs \<Rightarrow> nat \<Rightarrow> int"
  where "exti_line_bank e line =
    (if line > 15 then -1
     else
       (let reg = e ((0x060 + line div 4 * 4) div 4); val = drop_bit (line mod 4 * 8) reg AND 0xFF
        in if val > 8 then -1 else uint val))"

definition exti_raise_irq :: "nat \<Rightarrow> mm_nvic option \<Rightarrow> mm_nvic option"
  where "exti_raise_irq line g = map_option (\<lambda>n. mm_nvic_set_pending n (of_nat (11 + line)) True) g"

definition exti_set_pending :: "nat \<Rightarrow> nat \<Rightarrow> exti_state \<Rightarrow> exti_state"
  where "exti_set_pending reg line s =
    (let (e, g) = s; e = e(reg := e reg OR push_bit line 1)
     in (e, if e (0x080 div 4) AND push_bit line 1 \<noteq> 0 then exti_raise_irq line g else g))"

definition exti_set_pending_rise :: "nat \<Rightarrow> exti_state \<Rightarrow> exti_state"
  where "exti_set_pending_rise line s = exti_set_pending (0x00C div 4) line s"

definition exti_set_pending_fall :: "nat \<Rightarrow> exti_state \<Rightarrow> exti_state"
  where "exti_set_pending_fall line s = exti_set_pending (0x010 div 4) line s"

definition exti_line_update :: "int \<Rightarrow> u32 \<Rightarrow> u32 \<Rightarrow> nat \<Rightarrow> exti_state \<Rightarrow> exti_state"
  where "exti_line_update bank changed new_level line s =
    (let msk = push_bit line 1 in
     if changed AND msk = 0 then s
     else if exti_line_bank (fst s) line \<noteq> bank then s
     else if new_level AND msk \<noteq> 0 then
       (if fst s (0x000 div 4) AND msk \<noteq> 0 then exti_set_pending_rise line s else s)
     else (if fst s (0x004 div 4) AND msk \<noteq> 0 then exti_set_pending_fall line s else s))"

definition exti_gpio_update :: "int \<Rightarrow> u32 \<Rightarrow> u32 \<Rightarrow> exti_state \<Rightarrow> exti_state"
  where "exti_gpio_update bank old_level new_level s =
    (let changed = old_level XOR new_level in
     if changed = 0 then s else fold (exti_line_update bank changed new_level) [0..<16] s)"

definition exti_read :: "regs \<Rightarrow> u32 \<Rightarrow> u32 \<Rightarrow> u32 option"
  where "exti_read e offset size_bytes =
    (if bad_size size_bytes then None else if offset + size_bytes > 0x400 then None
     else if offset = 0x008 then Some 0
     else Some (regs_load e (unat offset) (unat size_bytes)))"

definition exti_write :: "exti_state \<Rightarrow> u32 \<Rightarrow> u32 \<Rightarrow> u32 \<Rightarrow> bool \<times> exti_state"
  where "exti_write s offset size_bytes v =
    (let (e, g) = s in
     if bad_size size_bytes then (False, s) else if offset + size_bytes > 0x400 then (False, s)
     else if offset = 0x008 then
       (True, fold (\<lambda>line s. if v AND 0xFFFF AND push_bit line 1 \<noteq> 0 then exti_set_pending_rise line s else s) [0..<16] s)
     else if offset = 0x00C \<or> offset = 0x010 then
       (True, e(unat offset div 4 := e (unat offset div 4) AND NOT v), g)
     else (True, regs_store e (unat offset) (unat size_bytes) v, g))"

subsection \<open>GPIO banks\<close>

text \<open>One bank: its registers up to SECCFGR, thirteen words, and whether an access ran over their end.\<close>

record gpio_state =
  gpio_regs :: regs
  gpio_oob :: bool

abbreviation "GPIO_REGS_SIZE \<equiv> (0x34 :: u32)"

definition gpio_clock_enabled :: "rcc_state \<Rightarrow> nat \<Rightarrow> bool"
  where "gpio_clock_enabled rcc index = (drop_bit index (rcc_regs rcc (0x8C div 4)) AND 1 \<noteq> 0)"

definition gpio_past_end :: "u32 \<Rightarrow> u32 \<Rightarrow> gpio_state \<Rightarrow> gpio_state"
  where "gpio_past_end offset size_bytes g = g\<lparr>gpio_oob := gpio_oob g \<or> offset + size_bytes > GPIO_REGS_SIZE\<rparr>"

definition gpio_read :: "bool \<Rightarrow> rcc_state \<Rightarrow> nat \<Rightarrow> gpio_state \<Rightarrow> u32 \<Rightarrow> u32 \<Rightarrow> u32 option \<times> gpio_state"
  where "gpio_read is_secure_alias rcc index g offset size_bytes =
    (let msk = NOT (gpio_regs g (0x30 div 4)) in
     if bad_size size_bytes then (None, g)
     else if offset \<ge> GPIO_REGS_SIZE then (None, g)
     else if \<not> gpio_clock_enabled rcc index then (Some 0, g)
     else
       (let v = regs_load (gpio_regs g) (unat offset) (unat size_bytes);
            v = (if is_secure_alias then v
                 else if offset = 0x30 then 0
                 else if offset = 0x10 \<or> offset = 0x14 \<or> offset = 0x18 \<or> offset = 0x1C \<or> offset = 0x20 \<or>
                   offset = 0x24 \<or> offset = 0x28 \<or> offset = 0x2C then v AND msk
                 else if offset \<le> 0x0C \<or> offset = 0x04 \<or> offset = 0x08 then v AND (msk OR push_bit 16 msk)
                 else v)
        in (Some v, gpio_past_end offset size_bytes g)))"

abbreviation gpio_odr :: "gpio_state \<Rightarrow> u32"
  where "gpio_odr g \<equiv> gpio_regs g (0x14 div 4)"

definition gpio_apply_brr :: "u32 \<Rightarrow> u32 \<Rightarrow> gpio_state \<Rightarrow> gpio_state"
  where "gpio_apply_brr bits msk g = g\<lparr>gpio_regs := (gpio_regs g)(0x14 div 4 := gpio_odr g AND NOT (bits AND msk))\<rparr>"

definition gpio_apply_bsrr :: "u32 \<Rightarrow> u32 \<Rightarrow> gpio_state \<Rightarrow> gpio_state"
  where "gpio_apply_bsrr val msk g =
    (let setb = val AND 0xFFFF; reset = drop_bit 16 val AND 0xFFFF;
         odr = gpio_odr g OR (setb AND msk); odr = odr AND NOT (reset AND msk)
     in g\<lparr>gpio_regs := (gpio_regs g)(0x14 div 4 := odr)\<rparr>)"

definition gpio_sync_odr :: "nat \<Rightarrow> u32 \<Rightarrow> gpio_state \<times> exti_state \<Rightarrow> gpio_state \<times> exti_state"
  where "gpio_sync_odr bank old_odr s =
    (let (g, e) = s; new_odr = gpio_odr g in
     if new_odr \<noteq> old_odr then
       (g\<lparr>gpio_regs := (gpio_regs g)(0x10 div 4 := new_odr)\<rparr>, exti_gpio_update (int bank) old_odr new_odr e)
     else s)"

definition gpio_mask_to_2bit :: "u32 \<Rightarrow> u32"
  where "gpio_mask_to_2bit msk =
    fold (\<lambda>i out. if msk AND push_bit i 1 \<noteq> 0 then out OR push_bit (i * 2) 3 else out) [0..<16] 0"

text \<open>The part of \<^verbatim>\<open>gpio_write\<close> that both aliases share.\<close>

definition gpio_store :: "nat \<Rightarrow> u32 \<Rightarrow> u32 \<Rightarrow> u32 \<Rightarrow> gpio_state \<times> exti_state \<Rightarrow> gpio_state \<times> exti_state"
  where "gpio_store index offset size_bytes v s =
    (let (g, e) = s; old_odr = gpio_odr g in
     if offset = 0x18 then gpio_sync_odr index old_odr (gpio_apply_bsrr v 0xFFFF g, e)
     else if offset = 0x28 then gpio_sync_odr index old_odr (gpio_apply_brr (v AND 0xFFFF) 0xFFFF g, e)
     else
       (let g = gpio_past_end offset size_bytes
                  (g\<lparr>gpio_regs := regs_store (gpio_regs g) (unat offset) (unat size_bytes) v\<rparr>)
        in if offset = 0x14 then gpio_sync_odr index old_odr (g, e) else (g, e)))"

definition gpio_write ::
  "bool \<Rightarrow> rcc_state \<Rightarrow> nat \<Rightarrow> u32 \<Rightarrow> u32 \<Rightarrow> u32 \<Rightarrow> gpio_state \<times> exti_state \<Rightarrow> bool \<times> gpio_state \<times> exti_state"
  where "gpio_write is_secure_alias rcc index offset size_bytes v s =
    (let (g, e) = s; msk = NOT (gpio_regs g (0x30 div 4)); old_odr = gpio_odr g in
     if bad_size size_bytes then (False, s)
     else if offset \<ge> GPIO_REGS_SIZE then (False, s)
     else if \<not> gpio_clock_enabled rcc index then (True, s)
     else if is_secure_alias then (True, gpio_store index offset size_bytes v s)
     else if offset = 0x30 then (True, s)
     else if offset = 0x18 then (True, gpio_sync_odr index old_odr (gpio_apply_bsrr v (msk AND 0xFFFF) g, e))
     else if offset = 0x28 then (True, gpio_sync_odr index old_odr (gpio_apply_brr (v AND 0xFFFF) (msk AND 0xFFFF) g, e))
     else if offset = 0x00 then
       (let m2 = gpio_mask_to_2bit (msk AND 0xFFFF)
        in (True, gpio_store index offset size_bytes (v AND (m2 OR push_bit 16 m2)) s))
     else (True, gpio_store index offset size_bytes (v AND (msk OR push_bit 16 msk)) s))"

text \<open>The readers that the model registers for the SPI chip selects and the user interface.\<close>

definition gpio_bank_read :: "(nat \<Rightarrow> gpio_state) \<Rightarrow> int \<Rightarrow> u32"
  where "gpio_bank_read gpio bank = (if bank < 0 \<or> bank \<ge> 9 then 0 else gpio_regs (gpio (nat bank)) (0x14 div 4))"

definition gpio_bank_read_moder :: "(nat \<Rightarrow> gpio_state) \<Rightarrow> int \<Rightarrow> u32"
  where "gpio_bank_read_moder gpio bank = (if bank < 0 \<or> bank \<ge> 9 then 0 else gpio_regs (gpio (nat bank)) (0x00 div 4))"

definition gpio_bank_read_seccfgr :: "(nat \<Rightarrow> gpio_state) \<Rightarrow> int \<Rightarrow> u32"
  where "gpio_bank_read_seccfgr gpio bank = (if bank < 0 \<or> bank \<ge> 9 then 0 else gpio_regs (gpio (nat bank)) (0x30 div 4))"

definition gpio_bank_clock :: "rcc_state \<Rightarrow> int \<Rightarrow> bool"
  where "gpio_bank_clock rcc bank = gpio_clock_enabled rcc (nat bank)"

subsection \<open>Properties\<close>

text \<open>A word write to a SECCFGR register of an MPCBB assigns the 32 blocks of that word and no others.\<close>

lemma mpcbb_write_word:
  assumes "w < 32" "nat bank = k" "0 \<le> bank" "bank < 3" "m k 0 AND push_bit 30 1 = 0"
  shows "mpcbb_block_secure (m(k := snd (mpcbb_write (m k) (0x100 + 4 * w) 4 v))) bank i =
    (if i div 32 = w then bit v (unat (i mod 32)) else mpcbb_block_secure m bank i)"
proof -
  have w: "unat (0x100 + 4 * w) = 0x100 + 4 * unat w"
    using assms(1) by (simp add: unat_word_ariths word_less_nat_alt)
  have s: "snd (mpcbb_write (m k) (0x100 + 4 * w) 4 v) = (m k)(0x40 + unat w := v)"
  proof -
    have "\<not> 0x100 + 4 * w + 4 > (0x400 :: u32)"
      using assms(1) w by (simp add: word_less_nat_alt unat_word_ariths)
    moreover have "regs_store (m k) (unat (0x100 + 4 * w)) 4 v = (m k)(0x40 + unat w := v)"
      unfolding w by (subst store_word) (auto intro!: dvd_add)
    ultimately show ?thesis by (simp add: mpcbb_write_def bad_size_def)
  qed
  have "unat (i div 32) = unat w \<longleftrightarrow> i div 32 = w" by (simp add: word_unat_eq_iff)
  moreover have "drop_bit n v AND 1 \<noteq> 0 \<longleftrightarrow> bit v n" for n
    by (simp add: and_one_eq odd_iff_mod_2_eq_one [symmetric] bit_iff_odd_drop_bit)
  moreover have "k < 3" using assms(2-4) by auto
  ultimately show ?thesis
    using assms s by (auto simp: mpcbb_block_secure_def Let_def)
qed

lemma sync_regs: "gpio_regs (fst (gpio_sync_odr bank old s)) w =
    (if w = 4 \<and> gpio_odr (fst s) \<noteq> old then gpio_odr (fst s) else gpio_regs (fst s) w)"
  by (cases s) (simp add: gpio_sync_odr_def Let_def)

lemma apply_keeps_masked:
  "gpio_regs (gpio_apply_bsrr v (NOT c AND m) g) 5 AND c = gpio_regs g 5 AND c"
  "gpio_regs (gpio_apply_brr v (NOT c AND m) g) 5 AND c = gpio_regs g 5 AND c"
  by (rule bit_word_eqI, auto simp: gpio_apply_bsrr_def gpio_apply_brr_def Let_def bit_simps)+

lemma apply_other_regs:
  "w \<noteq> 5 \<Longrightarrow> gpio_regs (gpio_apply_bsrr v msk g) w = gpio_regs g w"
  "w \<noteq> 5 \<Longrightarrow> gpio_regs (gpio_apply_brr v msk g) w = gpio_regs g w"
  by (simp_all add: gpio_apply_bsrr_def gpio_apply_brr_def Let_def)

text \<open>Through the Non-secure alias the set and reset registers never move a Secure pin: BSRR and BRR
  writes of any width and value leave the output latch of every pin that SECCFGR marks Secure as it
  was, and SECCFGR itself.\<close>

theorem gpio_ns_set_reset_isolated:
  assumes "offset = 0x18 \<or> offset = 0x28"
  shows "let g' = fst (snd (gpio_write False rcc index offset n v (g, e))); sec = gpio_regs g (0x30 div 4)
    in gpio_odr g' AND sec = gpio_odr g AND sec \<and> gpio_regs g' (0x30 div 4) = sec"
proof -
  have "\<exists>g1. fst (snd (gpio_write False rcc index offset n v (g, e))) = g \<or>
      (fst (snd (gpio_write False rcc index offset n v (g, e))) = fst (gpio_sync_odr index (gpio_odr g) (g1, e)) \<and>
       (g1 = gpio_apply_bsrr v (NOT (gpio_regs g (0x30 div 4)) AND 0xFFFF) g \<or>
        g1 = gpio_apply_brr (v AND 0xFFFF) (NOT (gpio_regs g (0x30 div 4)) AND 0xFFFF) g))"
    using assms by (auto simp: gpio_write_def Let_def)
  then show ?thesis by (auto simp: Let_def sync_regs apply_keeps_masked apply_other_regs)
qed

theorem gpio_ns_set_reset_isolated_witness:
  "let g = \<lparr>gpio_regs = (\<lambda>w. if w = 5 then 0x0003 else if w = 12 then 0x0001 else 0), gpio_oob = False\<rparr>;
       g' = fst (snd (gpio_write False \<lparr>rcc_regs = (\<lambda>_. 1), rcc_cpu_hz = 0\<rparr> 0 0x18 4 0x00030000 (g, (\<lambda>_. 0, None))))
   in gpio_odr g' AND 0x0001 = 0x0001"
  using gpio_ns_set_reset_isolated [of "0x18" "\<lparr>rcc_regs = (\<lambda>_. 1), rcc_cpu_hz = 0\<rparr>" 0 4 "0x00030000"
      "\<lparr>gpio_regs = (\<lambda>w. if w = 5 then 0x0003 else if w = 12 then 0x0001 else 0), gpio_oob = False\<rparr>" "(\<lambda>_. 0, None)"]
  by (simp add: Let_def)

text \<open>The other Non-secure writes do reach Secure pins.  A word write to ODR, whatever its value,
  drives every Secure pin low, because the masked value is stored instead of being merged; and a
  byte write to the second byte of SECCFGR, which only its first byte is protected from, turns
  pins 8 to 15 Non-secure.\<close>

theorem gpio_secure_pins_exposed:
  assumes "gpio_clock_enabled rcc index"
  shows "(let g' = fst (snd (gpio_write False rcc index 0x14 4 v (g, e)))
      in gpio_odr g' AND gpio_regs g (0x30 div 4) AND 0xFFFF = 0) \<and>
    (let g' = fst (snd (gpio_write False rcc index 0x31 1 0 (g, e)))
      in gpio_regs g' (0x30 div 4) AND 0xFF00 = 0)"
proof -
  have ff: "(0xFFFF :: u32) = mask 16" "(0xFF00 :: u32) = push_bit 8 (mask 8)"
    by (simp_all add: mask_eq_exp_minus_1 push_bit_eq_mult)
  have "(v AND (NOT c OR push_bit 16 (NOT c))) AND c AND 0xFFFF = 0" for c
    unfolding ff by (rule bit_word_eqI) (auto simp: bit_simps)
  then have odr: "gpio_odr (fst (snd (gpio_write False rcc index 0x14 4 v (g, e)))) AND gpio_regs g (0x30 div 4) AND 0xFFFF = 0"
    using assms
    by (simp add: gpio_write_def bad_size_def gpio_store_def gpio_past_end_def Let_def sync_regs store_word)
  have "regs_store r (Suc 48) 1 0 12 AND 0xFF00 = 0" for r
    unfolding ff by (rule bit_word_eqI) (auto simp: bit_simps bit_set_reg_byte to_u8_def)
  then have "gpio_regs (fst (snd (gpio_write False rcc index 0x31 1 0 (g, e)))) (0x30 div 4) AND 0xFF00 = 0"
    using assms by (simp add: gpio_write_def bad_size_def gpio_store_def gpio_past_end_def Let_def)
  with odr show ?thesis by (simp add: Let_def)
qed

theorem gpio_secure_pins_exposed_witness:
  "let rcc = \<lparr>rcc_regs = (\<lambda>_. 1), rcc_cpu_hz = 0\<rparr>;
       g = \<lparr>gpio_regs = (\<lambda>w. if w = 5 then 1 else if w = 12 then 0x0101 else 0), gpio_oob = False\<rparr>;
       g' = fst (snd (gpio_write False rcc 0 0x14 4 0xFFFF (g, (\<lambda>_. 0, None))))
   in gpio_clock_enabled rcc 0 \<and> gpio_odr g AND 0x0101 = 1 \<and> gpio_odr g' AND 0x0101 AND 0xFFFF = 0"
  using gpio_secure_pins_exposed [of "\<lparr>rcc_regs = (\<lambda>_. 1), rcc_cpu_hz = 0\<rparr>" 0 "0xFFFF"
      "\<lparr>gpio_regs = (\<lambda>w. if w = 5 then 1 else if w = 12 then 0x0101 else 0), gpio_oob = False\<rparr>" "(\<lambda>_. 0, None)"]
  by (simp add: Let_def gpio_clock_enabled_def)

end
