(* ===== verification/Stm32_Flash.thy ===== *)
theory Stm32_Flash
imports Stm32_Sys
begin

text \<open>
  The STM32H563 model (\<^verbatim>\<open>cpu/stm32h563/stm32h563_mmio.c\<close>), second part: the flash controller with the
  write callback it installs in the memory map, the random number generator and the two watchdogs.

  The flash array is part of the controller's record, None while no flash is bound; the ranges
  handed to the persistence layer are recorded in \<^verbatim>\<open>fls_flushed\<close>.  The entropy source is a sequence of
  answers, None for a failed call.  The watchdog loops are partial functions, None standing for a
  loop that does not end; that they end is proved below.
\<close>

subsection \<open>Flash controller\<close>

record flash_state =
  fls_regs :: regs
  fls_flash :: "u8 list option"
  fls_size :: u32
  fls_base_s :: u32
  fls_base_ns :: u32
  fls_persist :: bool
  fls_flags :: u32
  fls_ns_key_stage :: u8
  fls_sec_key_stage :: u8
  fls_flushed :: "(u32 \<times> u32) list"

abbreviation "FLASH_NSKEYR \<equiv> (0x004 :: u32)"
abbreviation "FLASH_SECKEYR \<equiv> (0x008 :: u32)"
abbreviation "FLASH_NSSR \<equiv> (0x020 :: u32)"
abbreviation "FLASH_SECSR \<equiv> (0x024 :: u32)"
abbreviation "FLASH_NSCR \<equiv> (0x028 :: u32)"
abbreviation "FLASH_SECCR \<equiv> (0x02C :: u32)"
abbreviation "FLASH_NSCCR \<equiv> (0x030 :: u32)"
abbreviation "FLASH_SECCCR \<equiv> (0x034 :: u32)"
abbreviation "FLASH_KEY1 \<equiv> (0x45670123 :: u32)"
abbreviation "FLASH_KEY2 \<equiv> (0xCDEF89AB :: u32)"
abbreviation "FLASH_SECTOR_COUNT \<equiv> (128 :: u32)"
abbreviation "FLASH_BANK_COUNT \<equiv> (2 :: u32)"

abbreviation fls_reg :: "flash_state \<Rightarrow> u32 \<Rightarrow> u32"
  where "fls_reg f reg_offset \<equiv> fls_regs f (unat reg_offset div 4)"

definition set_fls_reg :: "u32 \<Rightarrow> u32 \<Rightarrow> flash_state \<Rightarrow> flash_state"
  where "set_fls_reg reg_offset v f = f\<lparr>fls_regs := (fls_regs f)(unat reg_offset div 4 := v)\<rparr>"

definition flash_sector_size :: "flash_state \<Rightarrow> u32"
  where "flash_sector_size f =
    (if fls_size f = 0 then 0
     else (let banks = (if fls_size f mod FLASH_BANK_COUNT \<noteq> 0 then 1 else FLASH_BANK_COUNT)
           in fls_size f div banks div FLASH_SECTOR_COUNT))"

definition flash_set_busy :: "u32 \<Rightarrow> bool \<Rightarrow> flash_state \<Rightarrow> flash_state"
  where "flash_set_busy reg_offset busy f =
    set_fls_reg reg_offset (if busy then fls_reg f reg_offset OR 1 else fls_reg f reg_offset AND NOT 1) f"

definition flash_set_eop :: "u32 \<Rightarrow> flash_state \<Rightarrow> flash_state"
  where "flash_set_eop reg_offset f = set_fls_reg reg_offset (fls_reg f reg_offset OR push_bit 16 1) f"

definition flash_clear_eop :: "u32 \<Rightarrow> flash_state \<Rightarrow> flash_state"
  where "flash_clear_eop reg_offset f = set_fls_reg reg_offset (fls_reg f reg_offset AND NOT (push_bit 16 1)) f"

definition flash_is_unlocked :: "flash_state \<Rightarrow> u32 \<Rightarrow> bool"
  where "flash_is_unlocked f reg_offset = (fls_reg f reg_offset AND 1 = 0)"

text \<open>One step of the unlock sequence, on the stage counter of one state and its control register.\<close>

definition key_step :: "u32 \<Rightarrow> u8 \<Rightarrow> u32 \<Rightarrow> u8 \<times> u32"
  where "key_step v stage cr =
    (if stage = 0 then (if v = FLASH_KEY1 then 1 else 0, cr)
     else if stage = 1 then (0, if v = FLASH_KEY2 then cr AND NOT 1 else cr)
     else (stage, cr))"

definition flash_handle_key :: "u32 \<Rightarrow> u32 \<Rightarrow> flash_state \<Rightarrow> flash_state"
  where "flash_handle_key offset v f =
    (if offset = FLASH_NSKEYR then
       (let (stage, cr) = key_step v (fls_ns_key_stage f) (fls_reg f FLASH_NSCR)
        in (set_fls_reg FLASH_NSCR cr f)\<lparr>fls_ns_key_stage := stage\<rparr>)
     else
       (let (stage, cr) = key_step v (fls_sec_key_stage f) (fls_reg f FLASH_SECCR)
        in (set_fls_reg FLASH_SECCR cr f)\<lparr>fls_sec_key_stage := stage\<rparr>))"

definition flash_persist_range :: "u32 \<Rightarrow> u32 \<Rightarrow> flash_state \<Rightarrow> flash_state"
  where "flash_persist_range start len f =
    (if fls_persist f then f\<lparr>fls_flushed := fls_flushed f @ [(start, len)]\<rparr> else f)"

text \<open>The range that the control register selects for erasure.\<close>

definition flash_erase_range :: "flash_state \<Rightarrow> u32 \<Rightarrow> (u32 \<times> u32) option"
  where "flash_erase_range f cr =
    (let sector_size = flash_sector_size f in
     if cr AND 0x8 \<noteq> 0 then Some (0, fls_size f)
     else if cr AND 0x4 \<noteq> 0 then
       (let snb = drop_bit 6 (cr AND push_bit 6 0x7F);
            start = snb * sector_size;
            bank_size = fls_size f div FLASH_BANK_COUNT;
            start = (if bank_size \<noteq> 0 \<and> cr AND push_bit 31 1 \<noteq> 0 then start + bank_size else start)
        in if start \<ge> fls_size f then None
           else Some (start, if start + sector_size > fls_size f then fls_size f - start else sector_size))
     else None)"

definition flash_apply_erase :: "u32 \<Rightarrow> u32 \<Rightarrow> flash_state \<Rightarrow> flash_state"
  where "flash_apply_erase cr_off sr_off f =
    (let cr = fls_reg f cr_off; sector_size = flash_sector_size f in
     case fls_flash f of
       None \<Rightarrow> f
     | Some d \<Rightarrow>
       if fls_size f = 0 \<or> sector_size = 0 then f
       else case flash_erase_range f cr of
         None \<Rightarrow> f
       | Some (start, len) \<Rightarrow>
           (let f = flash_set_busy sr_off True f;
                f = f\<lparr>fls_flash := Some (take (unat start) d @ replicate (unat len) 0xFF @ drop (unat start + unat len) d)\<rparr>;
                f = flash_set_busy sr_off False f;
                f = flash_set_eop sr_off f
            in flash_persist_range start len f))"

definition flash_read :: "flash_state \<Rightarrow> u32 \<Rightarrow> u32 \<Rightarrow> u32 option"
  where "flash_read f offset size_bytes =
    (if bad_size size_bytes then None else if offset + size_bytes > 0x400 then None
     else Some (regs_load (fls_regs f) (unat offset) (unat size_bytes)))"

definition flash_write :: "flash_state \<Rightarrow> u32 \<Rightarrow> u32 \<Rightarrow> u32 \<Rightarrow> bool \<times> flash_state"
  where "flash_write f offset size_bytes v =
    (if bad_size size_bytes then (False, f) else if offset + size_bytes > 0x400 then (False, f)
     else if offset = FLASH_NSKEYR \<or> offset = FLASH_SECKEYR then (True, flash_handle_key offset v f)
     else if offset = FLASH_NSCCR \<or> offset = FLASH_SECCCR then
       (let sr_off = (if offset = FLASH_NSCCR then FLASH_NSSR else FLASH_SECSR)
        in (True, if v AND push_bit 16 1 \<noteq> 0 then flash_clear_eop sr_off f else f))
     else if offset = FLASH_NSCR \<or> offset = FLASH_SECCR then
       (let sr_off = (if offset = FLASH_NSCR then FLASH_NSSR else FLASH_SECSR) in
        if \<not> flash_is_unlocked f offset \<and> v AND 1 = 0 then (True, f)
        else
          (let f = f\<lparr>fls_regs := regs_store (fls_regs f) (unat offset) (unat size_bytes) v\<rparr>;
               f = (if v AND 1 \<noteq> 0 then set_fls_reg offset (fls_reg f offset OR 1) f else f)
           in (True,
               if v AND 0x20 \<noteq> 0 then
                 (let f = flash_apply_erase offset sr_off f in set_fls_reg offset (fls_reg f offset AND NOT 0x20) f)
               else f)))
     else (True, f\<lparr>fls_regs := regs_store (fls_regs f) (unat offset) (unat size_bytes) v\<rparr>))"

text \<open>The write-once rule: a sector that holds anything but ones is not written.\<close>

definition sector_clean :: "flash_state \<Rightarrow> u8 list \<Rightarrow> u32 \<Rightarrow> bool"
  where "sector_clean f d offset =
    (let sector_size = flash_sector_size f; sector_base = offset div sector_size * sector_size
     in list_all (\<lambda>i. unat sector_base + i \<ge> unat (fls_size f) \<or> d ! (unat sector_base + i) = 0xFF) [0..<unat sector_size])"

definition flash_write_cb :: "flash_state \<Rightarrow> mm_sec_state \<Rightarrow> u32 \<Rightarrow> u32 \<Rightarrow> u32 \<Rightarrow> bool \<times> flash_state"
  where "flash_write_cb f sec addr size_bytes v =
    (case fls_flash f of
       None \<Rightarrow> (False, f)
     | Some d \<Rightarrow>
       if fls_size f = 0 then (False, f)
       else
         (let in_s = (addr \<ge> fls_base_s f \<and> addr < fls_base_s f + fls_size f);
              in_ns = (addr \<ge> fls_base_ns f \<and> addr < fls_base_ns f + fls_size f)
          in if \<not> in_s \<and> \<not> in_ns then (False, f)
             else
               (let offset = addr - (if in_s then fls_base_s f else fls_base_ns f);
                    cr_off = (if sec = MM_SECURE then FLASH_SECCR else FLASH_NSCR);
                    sr_off = (if sec = MM_SECURE then FLASH_SECSR else FLASH_NSSR);
                    ofs = unat offset
                in if offset + size_bytes > fls_size f then (False, f)
                   else if \<not> flash_is_unlocked f cr_off then (True, f)
                   else if fls_reg f cr_off AND 0x2 = 0 then (True, f)
                   else if fls_flags f AND 1 \<noteq> 0 \<and> flash_sector_size f \<noteq> 0 \<and> \<not> sector_clean f d offset then (True, f)
                   else
                     (let d' = (if size_bytes = 4 then
                                  Some (d[ofs := to_u8 v, ofs + 1 := to_u8 (drop_bit 8 v), ofs + 2 := to_u8 (drop_bit 16 v),
                                          ofs + 3 := to_u8 (drop_bit 24 v)])
                                else if size_bytes = 2 then Some (d[ofs := to_u8 v, ofs + 1 := to_u8 (drop_bit 8 v)])
                                else if size_bytes = 1 then Some (d[ofs := to_u8 v])
                                else None)
                      in case d' of
                           None \<Rightarrow> (False, f)
                         | Some d' \<Rightarrow>
                             (True, flash_persist_range offset size_bytes
                                (flash_set_eop sr_off (f\<lparr>fls_flash := Some d'\<rparr>)))))))"

definition flash_bind :: "u32 \<Rightarrow> u32 \<Rightarrow> u8 list \<Rightarrow> u32 \<Rightarrow> bool \<Rightarrow> u32 \<Rightarrow> flash_state \<Rightarrow> flash_state"
  where "flash_bind map_base_s map_base_ns flash flash_size persist flags f =
    f\<lparr>fls_flash := Some flash, fls_size := flash_size, fls_persist := persist, fls_flags := flags,
      fls_base_s := map_base_s, fls_base_ns := map_base_ns\<rparr>"

subsection \<open>Random number generator\<close>

record rng_state =
  rng_regs :: regs
  rng_dr :: u32
  rng_dr_valid :: bool
  rng_entropy :: "nat \<Rightarrow> u32 option"
  rng_drawn :: nat

definition rng_clock_enabled :: "rcc_state \<Rightarrow> bool"
  where "rng_clock_enabled rcc = (drop_bit 18 (rcc_regs rcc (0x8C div 4)) AND 1 \<noteq> 0)"

definition rng_requires_secure :: "regs \<Rightarrow> bool"
  where "rng_requires_secure tzsc = (drop_bit 18 (tzsc (0x14 div 4)) AND 1 \<noteq> 0)"

text \<open>What differs between the parts that share this code: the interrupt number and the two tests.\<close>

record rng_hw =
  rh_irq :: u32
  rh_requires_secure :: "regs \<Rightarrow> bool"
  rh_clock_enabled :: "rcc_state \<Rightarrow> bool"

definition h563_rng :: rng_hw
  where "h563_rng = \<lparr>rh_irq = 114, rh_requires_secure = rng_requires_secure, rh_clock_enabled = rng_clock_enabled\<rparr>"

definition rng_raise :: "rng_hw \<Rightarrow> mm_nvic option \<Rightarrow> mm_nvic option"
  where "rng_raise hw g = map_option (\<lambda>n. mm_nvic_set_pending n (rh_irq hw) True) g"

definition rng_fill :: "rng_hw \<Rightarrow> rng_state \<times> mm_nvic option \<Rightarrow> rng_state \<times> mm_nvic option"
  where "rng_fill hw s =
    (let (r, g) = s;
         v = (case rng_entropy r (rng_drawn r) of None \<Rightarrow> 0 | Some v \<Rightarrow> v);
         r = r\<lparr>rng_dr := v, rng_dr_valid := True, rng_drawn := Suc (rng_drawn r),
               rng_regs := (rng_regs r)(1 := rng_regs r 1 OR 1)\<rparr>
     in (r, if rng_regs r 0 AND push_bit 3 1 \<noteq> 0 then rng_raise hw g else g))"

definition rng_read ::
  "rng_hw \<Rightarrow> bool \<Rightarrow> rcc_state \<Rightarrow> regs \<Rightarrow> u32 \<Rightarrow> u32 \<Rightarrow> rng_state \<times> mm_nvic option \<Rightarrow> u32 option \<times> rng_state \<times> mm_nvic option"
  where "rng_read hw secure_alias rcc tzsc offset size_bytes s =
    (if bad_size size_bytes then (None, s) else if offset + size_bytes > 0x400 then (None, s)
     else if \<not> secure_alias \<and> rh_requires_secure hw tzsc then (Some 0, s)
     else if \<not> rh_clock_enabled hw rcc then (Some 0, s)
     else if offset = 0x4 then
       (let s = (if \<not> rng_dr_valid (fst s) then rng_fill hw s else s) in (Some (rng_regs (fst s) 1), s))
     else if offset = 0x8 then
       (let s = (if \<not> rng_dr_valid (fst s) then rng_fill hw s else s); (r, g) = s
        in (Some (rng_dr r), r\<lparr>rng_dr_valid := False, rng_regs := (rng_regs r)(1 := rng_regs r 1 AND NOT 1)\<rparr>, g))
     else (Some (regs_load (rng_regs (fst s)) (unat offset) (unat size_bytes)), s))"

definition rng_write ::
  "rng_hw \<Rightarrow> bool \<Rightarrow> rcc_state \<Rightarrow> regs \<Rightarrow> u32 \<Rightarrow> u32 \<Rightarrow> u32 \<Rightarrow> rng_state \<times> mm_nvic option \<Rightarrow> bool \<times> rng_state \<times> mm_nvic option"
  where "rng_write hw secure_alias rcc tzsc offset size_bytes v s =
    (let (r, g) = s in
     if bad_size size_bytes then (False, s) else if offset + size_bytes > 0x400 then (False, s)
     else if \<not> secure_alias \<and> rh_requires_secure hw tzsc then (True, s)
     else if \<not> rh_clock_enabled hw rcc then (True, s)
     else if offset = 0x4 \<or> offset = 0x8 then (True, s)
     else
       (let r = r\<lparr>rng_regs := regs_store (rng_regs r) (unat offset) (unat size_bytes) v\<rparr> in
        if offset = 0x0 then
          (let r = (if v AND push_bit 2 1 = 0
                    then r\<lparr>rng_dr_valid := False, rng_regs := (rng_regs r)(1 := rng_regs r 1 AND NOT 1)\<rparr> else r)
           in (True, r, if v AND push_bit 3 1 \<noteq> 0 \<and> rng_regs r 1 AND 1 \<noteq> 0 then rng_raise hw g else g))
        else (True, r, g)))"

subsection \<open>Watchdogs\<close>

record iwdg_state =
  iw_regs :: regs
  iw_counter :: u32
  iw_running :: bool
  iw_write_access :: bool
  iw_accum :: u64

record wwdg_state =
  ww_regs :: regs
  ww_counter :: u32
  ww_accum :: u64

definition iwdg_read :: "iwdg_state \<Rightarrow> u32 \<Rightarrow> u32 \<Rightarrow> u32 option"
  where "iwdg_read w offset size_bytes =
    (if bad_size size_bytes then None else if offset + size_bytes > 0x400 then None
     else if offset = 0x000 then Some 0
     else Some (regs_load (iw_regs w) (unat offset) (unat size_bytes)))"

definition iwdg_apply_key :: "u32 \<Rightarrow> iwdg_state \<Rightarrow> iwdg_state"
  where "iwdg_apply_key key w =
    (if key = 0x5555 then w\<lparr>iw_write_access := True\<rparr>
     else if key = 0xAAAA then w\<lparr>iw_counter := iw_regs w (0x008 div 4) AND 0x0FFF\<rparr>
     else if key = 0xCCCC then
       w\<lparr>iw_running := True, iw_write_access := False, iw_counter := iw_regs w (0x008 div 4) AND 0x0FFF\<rparr>
     else w)"

definition iwdg_write :: "iwdg_state \<Rightarrow> u32 \<Rightarrow> u32 \<Rightarrow> u32 \<Rightarrow> bool \<times> iwdg_state"
  where "iwdg_write w offset size_bytes v =
    (if bad_size size_bytes then (False, w) else if offset + size_bytes > 0x400 then (False, w)
     else if offset = 0x000 then (True, iwdg_apply_key (v AND 0xFFFF) w)
     else if \<not> iw_write_access w then (True, w)
     else if offset = 0x004 then (True, w\<lparr>iw_regs := (iw_regs w)(0x004 div 4 := v AND 0x7)\<rparr>)
     else if offset = 0x008 then (True, w\<lparr>iw_regs := (iw_regs w)(0x008 div 4 := v AND 0x0FFF)\<rparr>)
     else if offset = 0x010 then (True, w\<lparr>iw_regs := (iw_regs w)(0x010 div 4 := v AND 0x0FFF)\<rparr>)
     else if offset = 0x014 then (True, w\<lparr>iw_regs := (iw_regs w)(0x014 div 4 := v)\<rparr>)
     else (True, w))"

definition wwdg_clock_enabled :: "rcc_state \<Rightarrow> bool"
  where "wwdg_clock_enabled rcc = (drop_bit 11 (rcc_regs rcc (0x9C div 4)) AND 1 \<noteq> 0)"

definition wwdg_read :: "rcc_state \<Rightarrow> wwdg_state \<Rightarrow> u32 \<Rightarrow> u32 \<Rightarrow> u32 option"
  where "wwdg_read rcc w offset size_bytes =
    (if bad_size size_bytes then None else if offset + size_bytes > 0x400 then None
     else if \<not> wwdg_clock_enabled rcc then Some 0
     else Some (regs_load (ww_regs w) (unat offset) (unat size_bytes)))"

definition wwdg_write :: "rcc_state \<Rightarrow> wwdg_state \<Rightarrow> u32 \<Rightarrow> u32 \<Rightarrow> u32 \<Rightarrow> bool \<times> wwdg_state"
  where "wwdg_write rcc w offset size_bytes v =
    (if bad_size size_bytes then (False, w) else if offset + size_bytes > 0x400 then (False, w)
     else if \<not> wwdg_clock_enabled rcc then (True, w)
     else if offset = 0x000 then
       (True, w\<lparr>ww_regs := (ww_regs w)(0 := v AND 0xFF), ww_counter := v AND 0xFF AND 0x7F\<rparr>)
     else if offset = 0x004 then (True, w\<lparr>ww_regs := (ww_regs w)(1 := v)\<rparr>)
     else if offset = 0x008 then (True, w\<lparr>ww_regs := (ww_regs w)(2 := ww_regs w 2 AND NOT v)\<rparr>)
     else (True, w\<lparr>ww_regs := regs_store (ww_regs w) (unat offset) (unat size_bytes) v\<rparr>))"

text \<open>One round of the window watchdog's loop: the state, the interrupt controller, and whether a
  reset was requested, which leaves the loop.\<close>

definition wwdg_round :: "u64 \<Rightarrow> wwdg_state \<times> mm_nvic option \<Rightarrow> (wwdg_state \<times> mm_nvic option) \<times> bool"
  where "wwdg_round step s =
    (let (w, g) = s; w = w\<lparr>ww_accum := ww_accum w - step\<rparr> in
     if ww_counter w > 0 then
       (let c = ww_counter w - 1;
            w = w\<lparr>ww_counter := c, ww_regs := (ww_regs w)(0 := (ww_regs w 0 AND NOT 0x7F) OR (c AND 0x7F))\<rparr>;
            early = (c = 0x40 \<and> ww_regs w 1 AND push_bit 9 1 \<noteq> 0);
            g = (if early then map_option (\<lambda>n. mm_nvic_set_pending n 0 True) g else g);
            w = (if early then w\<lparr>ww_regs := (ww_regs w)(2 := ww_regs w 2 OR 1)\<rparr> else w)
        in ((w, g), c = 0x3F))
     else ((w, g), False))"

partial_function (option) wwdg_loop ::
  "u64 \<Rightarrow> wwdg_state \<times> mm_nvic option \<Rightarrow> ((wwdg_state \<times> mm_nvic option) \<times> bool) option"
  where "wwdg_loop step s =
    (if ww_accum (fst s) \<ge> step then
       (let (s', reset) = wwdg_round step s in if reset then Some (s', True) else wwdg_loop step s')
     else Some (s, False))"

definition iwdg_round :: "u64 \<Rightarrow> iwdg_state \<Rightarrow> iwdg_state \<times> bool"
  where "iwdg_round cycles_per_tick w =
    (let w = w\<lparr>iw_accum := iw_accum w - cycles_per_tick\<rparr>;
         w = (if iw_counter w > 0 then w\<lparr>iw_counter := iw_counter w - 1\<rparr> else w)
     in (w, iw_counter w = 0))"

partial_function (option) iwdg_loop :: "u64 \<Rightarrow> iwdg_state \<Rightarrow> (iwdg_state \<times> bool) option"
  where "iwdg_loop cycles_per_tick w =
    (if iw_accum w \<ge> cycles_per_tick then
       (let (w', reset) = iwdg_round cycles_per_tick w
        in if reset then Some (w', True) else iwdg_loop cycles_per_tick w')
     else Some (w, False))"

definition iwdg_cycles_per_tick :: "u64 \<Rightarrow> iwdg_state \<Rightarrow> u64"
  where "iwdg_cycles_per_tick cpu_hz w =
    (let pr = unat (iw_regs w (0x004 div 4) AND 0x7);
         dv = [4, 8, 16, 32, 64, 128, 256, 256] ! pr :: u64;
         ticks_per_sec = 32000 div dv;
         ticks_per_sec = (if ticks_per_sec = 0 then 1 else ticks_per_sec);
         cpu_hz = (if cpu_hz = 0 then 1 else cpu_hz);
         c = cpu_hz div ticks_per_sec
     in if c = 0 then 1 else c)"

definition wwdg_step :: "wwdg_state \<Rightarrow> u64"
  where "wwdg_step w = 4096 * to_u64 (push_bit (unat (drop_bit 11 (ww_regs w 1) AND 0x7)) (1 :: u32))"

record wdg_state =
  wd_wwdg :: wwdg_state
  wd_iwdg :: iwdg_state
  wd_nvic :: "mm_nvic option"
  wd_reset_requested :: bool

definition watchdog_tick :: "rcc_state \<Rightarrow> u64 \<Rightarrow> wdg_state \<Rightarrow> wdg_state option"
  where "watchdog_tick rcc cycles d =
    (let w = wd_wwdg d;
         after_w = (if wwdg_clock_enabled rcc \<and> ww_counter w \<noteq> 0 \<and> ww_regs w 0 AND 0x80 \<noteq> 0 then
             wwdg_loop (wwdg_step w) (w\<lparr>ww_accum := ww_accum w + cycles\<rparr>, wd_nvic d)
           else Some ((w, wd_nvic d), False))
     in case after_w of
          None \<Rightarrow> None
        | Some ((w, g), r1) \<Rightarrow>
            (let d = d\<lparr>wd_wwdg := w, wd_nvic := g, wd_reset_requested := wd_reset_requested d \<or> r1\<rparr>; iw = wd_iwdg d in
             if iw_running iw then
               (case iwdg_loop (iwdg_cycles_per_tick (rcc_cpu_hz rcc) iw) (iw\<lparr>iw_accum := iw_accum iw + cycles\<rparr>) of
                  None \<Rightarrow> None
                | Some (iw, r2) \<Rightarrow> Some (d\<lparr>wd_iwdg := iw, wd_reset_requested := wd_reset_requested d \<or> r2\<rparr>))
             else Some d))"

subsection \<open>The watchdog loops end\<close>

lemma wwdg_loop_returns: "step \<noteq> 0 \<Longrightarrow> \<exists>s'. wwdg_loop step s = Some s'"
proof (induction "unat (ww_accum (fst s))" arbitrary: s rule: less_induct)
  case less
  show ?case
  proof (cases "step \<le> ww_accum (fst s)")
    case True
    have "ww_accum (fst (fst (wwdg_round step s))) = ww_accum (fst s) - step"
      by (cases s) (auto simp: wwdg_round_def Let_def)
    moreover have "unat (ww_accum (fst s) - step) < unat (ww_accum (fst s))"
      using True less.prems by (simp add: unat_sub unat_gt_0 word_le_nat_alt) (metis diff_less le_zero_eq not_gr_zero unat_eq_zero)
    ultimately show ?thesis
      using less.hyps [of "fst (wwdg_round step s)"] less.prems
      by (subst wwdg_loop.simps) (auto simp: Let_def case_prod_beta)
  next
    case False
    then have "wwdg_loop step s = Some (s, False)" by (subst wwdg_loop.simps) simp
    then show ?thesis by blast
  qed
qed

text \<open>The independent watchdog counts whole ticks, and requests a reset on the tick that reaches zero.\<close>

lemma iwdg_loop_ticks:
  assumes "p \<noteq> 0" "iw_counter w \<noteq> 0"
  shows "\<exists>w'. iwdg_loop p w = Some (w', unat (iw_counter w) \<le> unat (iw_accum w) div unat p)"
  using assms
proof (induction "unat (iw_accum w)" arbitrary: w rule: less_induct)
  case less
  have p: "0 < unat p" using less.prems by (simp add: unat_gt_0)
  show ?case
  proof (cases "p \<le> iw_accum w")
    case True
    define w' where "w' = w\<lparr>iw_accum := iw_accum w - p, iw_counter := iw_counter w - 1\<rparr>"
    have r: "iwdg_round p w = (w', iw_counter w = 1)"
      using less.prems by (simp add: iwdg_round_def w'_def Let_def word_neq_0_conv)
    have a: "unat (iw_accum w') = unat (iw_accum w) - unat p" using True by (simp add: w'_def unat_sub)
    have ge: "unat p \<le> unat (iw_accum w)" using True by (simp add: word_le_nat_alt)
    have d: "unat (iw_accum w) div unat p = Suc (unat (iw_accum w') div unat p)"
      unfolding a using ge p by (simp add: le_div_geq)
    show ?thesis
    proof (cases "iw_counter w = 1")
      case one: True
      then show ?thesis using True d by (subst iwdg_loop.simps) (simp add: r)
    next
      case False
      have c: "unat (iw_counter w') = unat (iw_counter w) - 1" "iw_counter w' \<noteq> 0" "unat (iw_counter w) \<noteq> 0"
        using less.prems(2) False by (simp_all add: w'_def unat_minus_one unat_eq_0)
      have "unat (iw_accum w') < unat (iw_accum w)" using a ge p by simp
      then obtain w'' where "iwdg_loop p w' = Some (w'', unat (iw_counter w') \<le> unat (iw_accum w') div unat p)"
        using less.hyps less.prems(1) c(2) by blast
      then show ?thesis using True False c d by (subst iwdg_loop.simps) (auto simp: r)
    qed
  next
    case False
    then have "unat (iw_accum w) div unat p = 0" by (simp add: word_le_nat_alt)
    then show ?thesis using False less.prems(2) by (subst iwdg_loop.simps) (simp add: unat_eq_0)
  qed
qed

lemma iwdg_loop_returns: "p \<noteq> 0 \<Longrightarrow> \<exists>s'. iwdg_loop p w = Some s'"
proof (cases "iw_counter w = 0")
  case True
  assume "p \<noteq> 0"
  have "iwdg_loop p w = Some (if p \<le> iw_accum w then (w\<lparr>iw_accum := iw_accum w - p\<rparr>, True) else (w, False))"
    using True by (subst iwdg_loop.simps) (simp add: iwdg_round_def Let_def)
  then show ?thesis by blast
next
  case False
  assume "p \<noteq> 0"
  then show ?thesis using iwdg_loop_ticks [of p w] False by blast
qed

lemma cycles_per_tick_pos: "iwdg_cycles_per_tick hz w \<noteq> 0"
  by (simp add: iwdg_cycles_per_tick_def Let_def)

lemma wwdg_step_pos: "wwdg_step w \<noteq> 0"
proof -
  have all: "\<forall>k \<in> set [0..<8]. (4096 :: u64) * to_u64 (push_bit k (1 :: u32)) \<noteq> 0" by code_simp
  have "unat (drop_bit 11 (ww_regs w 1) AND 0x7) \<in> set [0..<8]"
    using word_and_le1 [of "drop_bit 11 (ww_regs w 1)" "0x7"] by (simp add: word_le_nat_alt)
  with all show ?thesis unfolding wwdg_step_def by (rule bspec)
qed

text \<open>The watchdog tick returns, however many cycles it is given: both of its loops end.\<close>

lemma watchdog_tick_returns: "\<exists>d'. watchdog_tick rcc cycles d = Some d'"
proof -
  let ?w = "wd_wwdg d" and ?on = "wwdg_clock_enabled rcc \<and> ww_counter (wd_wwdg d) \<noteq> 0 \<and> ww_regs (wd_wwdg d) 0 AND 0x80 \<noteq> 0"
  obtain a where a: "wwdg_loop (wwdg_step ?w) (?w\<lparr>ww_accum := ww_accum ?w + cycles\<rparr>, wd_nvic d) = Some a"
    using wwdg_loop_returns [OF wwdg_step_pos] by blast
  obtain b where b: "iwdg_loop (iwdg_cycles_per_tick (rcc_cpu_hz rcc) (wd_iwdg d))
      ((wd_iwdg d)\<lparr>iw_accum := iw_accum (wd_iwdg d) + cycles\<rparr>) = Some b"
    using iwdg_loop_returns [OF cycles_per_tick_pos] by blast
  show ?thesis
    unfolding watchdog_tick_def Let_def a
    by (cases a; cases "fst a"; cases b; cases ?on) (auto simp: b)
qed

text \<open>C24: a running independent watchdog requests a system reset exactly when the elapsed cycles, with
  those left over from before, make up as many watchdog ticks as the counter holds; until then it
  requests none, so firmware that reloads the counter in time is not reset.\<close>

theorem iwdg_fires_exactly:
  assumes off: "\<not> wwdg_clock_enabled rcc" and run: "iw_running (wd_iwdg d)" "iw_counter (wd_iwdg d) \<noteq> 0"
    and clear: "\<not> wd_reset_requested d" and fits: "unat (iw_accum (wd_iwdg d)) + unat cycles < 2 ^ 64"
  shows "\<exists>d'. watchdog_tick rcc cycles d = Some d' \<and>
    (wd_reset_requested d' \<longleftrightarrow>
      unat (iw_counter (wd_iwdg d)) * unat (iwdg_cycles_per_tick (rcc_cpu_hz rcc) (wd_iwdg d))
        \<le> unat (iw_accum (wd_iwdg d)) + unat cycles)"
proof -
  let ?p = "iwdg_cycles_per_tick (rcc_cpu_hz rcc) (wd_iwdg d)"
  let ?w = "(wd_iwdg d)\<lparr>iw_accum := iw_accum (wd_iwdg d) + cycles\<rparr>"
  obtain w' where "iwdg_loop ?p ?w = Some (w', unat (iw_counter ?w) \<le> unat (iw_accum ?w) div unat ?p)"
    using iwdg_loop_ticks [of ?p ?w] run cycles_per_tick_pos by auto
  moreover have "unat (iw_accum ?w) = unat (iw_accum (wd_iwdg d)) + unat cycles"
    using fits by (simp add: unat_word_ariths)
  moreover have "0 < unat ?p" using cycles_per_tick_pos by (simp add: unat_gt_0)
  ultimately show ?thesis
    using off run clear by (simp add: watchdog_tick_def Let_def less_eq_div_iff_mult_less_eq)
qed

definition demo_wdg :: wdg_state
  where "demo_wdg = \<lparr>wd_wwdg = \<lparr>ww_regs = (\<lambda>_. 0), ww_counter = 0, ww_accum = 0\<rparr>,
    wd_iwdg = \<lparr>iw_regs = (\<lambda>_. 0), iw_counter = 3, iw_running = True, iw_write_access = False, iw_accum = 0\<rparr>,
    wd_nvic = None, wd_reset_requested = False\<rparr>"

theorem iwdg_fires_exactly_witness:
  "\<exists>d'. watchdog_tick \<lparr>rcc_regs = (\<lambda>_. 0), rcc_cpu_hz = 8000\<rparr> 3 demo_wdg = Some d' \<and> wd_reset_requested d'"
proof -
  have p: "iwdg_cycles_per_tick 8000 (wd_iwdg demo_wdg) = 1" by code_simp
  show ?thesis
    using iwdg_fires_exactly [of "\<lparr>rcc_regs = (\<lambda>_. 0), rcc_cpu_hz = 8000\<rparr>" demo_wdg 3]
    by (simp add: p) (simp add: demo_wdg_def wwdg_clock_enabled_def)
qed

subsection \<open>Flash programming\<close>

lemma set_fls_fields [simp]:
  "fls_flash (set_fls_reg o' v f) = fls_flash f" "fls_size (set_fls_reg o' v f) = fls_size f"
  "fls_flags (set_fls_reg o' v f) = fls_flags f" "fls_base_s (set_fls_reg o' v f) = fls_base_s f"
  "fls_regs (set_fls_reg o' v f) = (fls_regs f)(unat o' div 4 := v)"
  by (simp_all add: set_fls_reg_def)

abbreviation keyr_of :: "mm_sec_state \<Rightarrow> u32"
  where "keyr_of sec \<equiv> if sec = MM_SECURE then FLASH_SECKEYR else FLASH_NSKEYR"

abbreviation cr_of :: "mm_sec_state \<Rightarrow> u32"
  where "cr_of sec \<equiv> if sec = MM_SECURE then FLASH_SECCR else FLASH_NSCR"

definition key_stage :: "mm_sec_state \<Rightarrow> flash_state \<Rightarrow> u8"
  where "key_stage sec f = (if sec = MM_SECURE then fls_sec_key_stage f else fls_ns_key_stage f)"

text \<open>The keys in order unlock the control register of their state.\<close>

lemma unlock_sequence:
  assumes "key_stage sec f = 0"
  shows "let g = snd (flash_write (snd (flash_write f (keyr_of sec) 4 FLASH_KEY1)) (keyr_of sec) 4 FLASH_KEY2)
    in flash_is_unlocked g (cr_of sec) \<and> fls_flash g = fls_flash f \<and> fls_size g = fls_size f \<and>
      fls_flags g = fls_flags f \<and> fls_base_s g = fls_base_s f"
  using assms
  by (cases sec)
    (simp_all add: flash_write_def bad_size_def flash_handle_key_def key_step_def key_stage_def flash_is_unlocked_def
      Let_def and.assoc)

lemma enable_programming:
  assumes "flash_is_unlocked f (cr_of sec)"
  shows "let g = snd (flash_write f (cr_of sec) 4 0x2)
    in flash_is_unlocked g (cr_of sec) \<and> fls_reg g (cr_of sec) AND 0x2 \<noteq> 0 \<and> fls_flash g = fls_flash f \<and>
      fls_size g = fls_size f \<and> fls_flags g = fls_flags f \<and> fls_base_s g = fls_base_s f"
  using assms by (cases sec) (simp_all add: flash_write_def bad_size_def flash_is_unlocked_def Let_def store_word)


definition demo_fls :: flash_state
  where "demo_fls = \<lparr>fls_regs = (\<lambda>w. if w = 10 \<or> w = 11 then 1 else 0), fls_flash = Some (replicate 256 0xFF),
    fls_size = 256, fls_base_s = 0x0C000000, fls_base_ns = 0x08000000, fls_persist = False, fls_flags = 0,
    fls_ns_key_stage = 0, fls_sec_key_stage = 0, fls_flushed = []\<rparr>"


text \<open>The lock bit does not protect the flash from erasure.  A write to the control register that
  keeps the lock bit set while it requests a mass erase is accepted by a locked controller, with no
  key written, and erases the whole array.\<close>

theorem stm_flash_locked_erase:
  assumes "\<not> flash_is_unlocked f FLASH_NSCR" "fls_flash f = Some d" "length d = unat (fls_size f)"
    "flash_sector_size f \<noteq> 0"
  shows "fls_flash (snd (flash_write f FLASH_NSCR 4 0x29)) = Some (replicate (length d) 0xFF)"
proof -
  have "fls_size f \<noteq> 0" using assms(4) by (auto simp: flash_sector_size_def)
  then show ?thesis
    using assms
    by (simp add: flash_write_def bad_size_def Let_def store_word flash_apply_erase_def flash_erase_range_def
        flash_set_busy_def flash_set_eop_def flash_persist_range_def flash_sector_size_def)
qed

theorem stm_flash_locked_erase_witness:
  "fls_flash (snd (flash_write (demo_fls\<lparr>fls_flash := Some (replicate 256 0)\<rparr>) FLASH_NSCR 4 0x29)) =
    Some (replicate 256 0xFF)"
  using stm_flash_locked_erase [of "demo_fls\<lparr>fls_flash := Some (replicate 256 0)\<rparr>" "replicate 256 0"]
  by (simp add: demo_fls_def flash_is_unlocked_def flash_sector_size_def)

end
