(* ===== verification/Stm32_Timers.thy ===== *)
theory Stm32_Timers
imports Soc_Regs
begin

text \<open>
  The general-purpose timers of the STM32 models, \<^verbatim>\<open>cpu/stm32h563/stm32h563_timers.c\<close>.  The STM32U585 has
  the same file, the STM32L552 differs in the RCC register that gates the clocks.

  A handler works on one timer; what it reaches by pointer is an argument: the RCC registers
  (None for a null pointer), the word that holds its security bit, the active security state and
  the interrupt controller, which is passed through.
\<close>

abbreviation "TIM_CR1 \<equiv> (0x00 :: u32)"
abbreviation "TIM_DIER \<equiv> (0x0C :: u32)"
abbreviation "TIM_SR \<equiv> (0x10 :: u32)"
abbreviation "TIM_EGR \<equiv> (0x14 :: u32)"
abbreviation "TIM_CNT \<equiv> (0x24 :: u32)"
abbreviation "TIM_PSC \<equiv> (0x28 :: u32)"
abbreviation "TIM_ARR \<equiv> (0x2C :: u32)"

record tim_inst =
  tm_base :: u32
  tm_cr1 :: u32
  tm_dier :: u32
  tm_sr :: u32
  tm_cnt :: u32
  tm_psc :: u32
  tm_arr :: u32
  tm_arr_mask :: u32
  tm_psc_accum :: u64
  tm_irq :: u32
  tm_index :: nat
  tm_sec_bitmask :: u32
  tm_secure_only :: bool
  tm_current_sec :: mm_sec_state

definition tim_clock_enabled :: "regs option \<Rightarrow> tim_inst \<Rightarrow> bool"
  where "tim_clock_enabled rcc_regs t =
    (case rcc_regs of
       None \<Rightarrow> True
     | Some r \<Rightarrow> if tm_index t > 3 then True else drop_bit (tm_index t) (r (0x9C div 4)) AND 1 \<noteq> 0)"

definition tim_access_allowed :: "mm_sec_state \<Rightarrow> u32 option \<Rightarrow> tim_inst \<Rightarrow> bool \<times> tim_inst"
  where "tim_access_allowed asec sec_reg t =
    (let t = t\<lparr>tm_current_sec := asec,
               tm_secure_only := (case sec_reg of None \<Rightarrow> False | Some w \<Rightarrow> w AND tm_sec_bitmask t \<noteq> 0)\<rparr>
     in (\<not> (tm_secure_only t \<and> tm_current_sec t = MM_NONSECURE), t))"

definition tim_raise_update :: "tim_inst \<times> mm_nvic option \<Rightarrow> tim_inst \<times> mm_nvic option"
  where "tim_raise_update s =
    (let (t, g_nvic) = s in
     if tm_cr1 t AND 0x2 \<noteq> 0 then (t, g_nvic)
     else
       (let t = t\<lparr>tm_sr := tm_sr t OR 1\<rparr>;
            g_nvic = (if tm_dier t AND 1 \<noteq> 0 then map_option (\<lambda>n. mm_nvic_set_pending n (tm_irq t) True) g_nvic
                      else g_nvic)
        in (if tm_cr1 t AND 0x8 \<noteq> 0 then t\<lparr>tm_cr1 := tm_cr1 t AND NOT 1\<rparr> else t, g_nvic)))"

definition tim_apply_tick_up :: "u64 \<Rightarrow> tim_inst \<times> mm_nvic option \<Rightarrow> tim_inst \<times> mm_nvic option"
  where "tim_apply_tick_up ticks s =
    (let (t, g_nvic) = s in
     if ticks = 0 then s
     else
       (let arr = to_u64 (tm_arr t AND tm_arr_mask t);
            cnt = to_u64 (tm_cnt t AND tm_arr_mask t);
            period = arr + 1
        in if period = 0 then s
           else
             (let cnt = (if cnt > arr then arr else cnt);
                  to_overflow = arr - cnt + 1;
                  (cnt, wraps) =
                    (if ticks \<ge> to_overflow then
                       (let remaining = ticks - to_overflow
                        in if remaining \<ge> period then (remaining mod period, 1 + remaining div period)
                           else (remaining, 1))
                     else (cnt + ticks, 0));
                  t = t\<lparr>tm_cnt := to_u32 (cnt AND to_u64 (tm_arr_mask t))\<rparr>
              in if wraps \<noteq> 0 then tim_raise_update (t, g_nvic) else (t, g_nvic))))"

definition tim_apply_tick_down :: "u64 \<Rightarrow> tim_inst \<times> mm_nvic option \<Rightarrow> tim_inst \<times> mm_nvic option"
  where "tim_apply_tick_down ticks s =
    (let (t, g_nvic) = s in
     if ticks = 0 then s
     else
       (let arr = to_u64 (tm_arr t AND tm_arr_mask t);
            cnt = to_u64 (tm_cnt t AND tm_arr_mask t);
            period = arr + 1
        in if period = 0 then s
           else
             (let cnt = (if cnt > arr then arr else cnt);
                  to_underflow = cnt + 1;
                  (cnt, wraps) =
                    (if ticks \<ge> to_underflow then
                       (let remaining = ticks - to_underflow;
                            (remaining, wraps) =
                              (if remaining \<ge> period then (remaining mod period, 1 + remaining div period)
                               else (remaining, 1))
                        in (if remaining = 0 then arr else arr - remaining, wraps))
                     else (cnt - ticks, 0));
                  t = t\<lparr>tm_cnt := to_u32 (cnt AND to_u64 (tm_arr_mask t))\<rparr>
              in if wraps \<noteq> 0 then tim_raise_update (t, g_nvic) else (t, g_nvic))))"

definition tim_tick :: "regs option \<Rightarrow> u64 \<Rightarrow> tim_inst \<times> mm_nvic option \<Rightarrow> tim_inst \<times> mm_nvic option"
  where "tim_tick rcc_regs cycles s =
    (let (t, g_nvic) = s in
     if tm_cr1 t AND 1 = 0 then s
     else if \<not> tim_clock_enabled rcc_regs t then s
     else
       (let dvs = to_u64 (tm_psc t + 1) in
        if dvs = 0 then s
        else
          (let total = tm_psc_accum t + cycles;
               ticks = total div dvs;
               t = t\<lparr>tm_psc_accum := total mod dvs\<rparr>
           in if tm_cr1 t AND 0x10 \<noteq> 0 then tim_apply_tick_down ticks (t, g_nvic)
              else tim_apply_tick_up ticks (t, g_nvic))))"

text \<open>The access lies inside the register at \<^verbatim>\<open>reg\<close>.\<close>

definition in_reg :: "u32 \<Rightarrow> u32 \<Rightarrow> u32 \<Rightarrow> bool"
  where "in_reg reg offset size_bytes = (offset \<ge> reg \<and> offset + size_bytes \<le> reg + 4)"

definition tim_read :: "mm_sec_state \<Rightarrow> u32 option \<Rightarrow> u32 \<Rightarrow> u32 \<Rightarrow> tim_inst \<Rightarrow> u32 option \<times> tim_inst"
  where "tim_read asec sec_reg offset size_bytes t =
    (if bad_size size_bytes then (None, t)
     else
       (let (ok, t) = tim_access_allowed asec sec_reg t in
        if \<not> ok then (Some 0, t)
        else if offset \<ge> 0x400 then (None, t)
        else
          (Some
            (if in_reg TIM_CR1 offset size_bytes then read_slice (tm_cr1 t AND 0xFFFF) (offset - TIM_CR1) size_bytes
             else if in_reg TIM_DIER offset size_bytes then read_slice (tm_dier t AND 0xFFFF) (offset - TIM_DIER) size_bytes
             else if in_reg TIM_SR offset size_bytes then read_slice (tm_sr t AND 0xFFFF) (offset - TIM_SR) size_bytes
             else if in_reg TIM_EGR offset size_bytes then 0
             else if in_reg TIM_CNT offset size_bytes then
               read_slice (tm_cnt t AND tm_arr_mask t) (offset - TIM_CNT) size_bytes
             else if in_reg TIM_PSC offset size_bytes then read_slice (tm_psc t AND 0xFFFF) (offset - TIM_PSC) size_bytes
             else if in_reg TIM_ARR offset size_bytes then
               read_slice (tm_arr t AND tm_arr_mask t) (offset - TIM_ARR) size_bytes
             else 0), t)))"

definition tim_write ::
  "mm_sec_state \<Rightarrow> u32 option \<Rightarrow> u32 \<Rightarrow> u32 \<Rightarrow> u32 \<Rightarrow> tim_inst \<times> mm_nvic option \<Rightarrow> bool \<times> tim_inst \<times> mm_nvic option"
  where "tim_write asec sec_reg offset size_bytes v s =
    (let (t, g_nvic) = s in
     if bad_size size_bytes then (False, s)
     else
       (let (ok, t) = tim_access_allowed asec sec_reg t in
        if \<not> ok then (True, t, g_nvic)
        else if offset \<ge> 0x400 then (False, t, g_nvic)
        else if in_reg TIM_CR1 offset size_bytes then
          (True, t\<lparr>tm_cr1 := apply_write (tm_cr1 t) (offset - TIM_CR1) size_bytes v AND 0xFFFF\<rparr>, g_nvic)
        else if in_reg TIM_DIER offset size_bytes then
          (True, t\<lparr>tm_dier := apply_write (tm_dier t) (offset - TIM_DIER) size_bytes v AND 0xFFFF\<rparr>, g_nvic)
        else if in_reg TIM_SR offset size_bytes then
          (let shift = unat ((offset - TIM_SR) * 8); msk = slice_mask size_bytes;
               write_mask = push_bit shift msk; value_shifted = push_bit shift (v AND msk);
               clear_bits = write_mask AND NOT value_shifted
           in (True, t\<lparr>tm_sr := tm_sr t AND NOT clear_bits\<rparr>, g_nvic))
        else if in_reg TIM_EGR offset size_bytes then
          (let egr = apply_write 0 (offset - TIM_EGR) size_bytes v in
           (True, if egr AND 1 \<noteq> 0 then tim_raise_update (t\<lparr>tm_cnt := 0, tm_psc_accum := 0\<rparr>, g_nvic) else (t, g_nvic)))
        else if in_reg TIM_CNT offset size_bytes then
          (True, t\<lparr>tm_cnt := apply_write (tm_cnt t) (offset - TIM_CNT) size_bytes v AND tm_arr_mask t\<rparr>, g_nvic)
        else if in_reg TIM_PSC offset size_bytes then
          (True, t\<lparr>tm_psc := apply_write (tm_psc t) (offset - TIM_PSC) size_bytes v AND 0xFFFF\<rparr>, g_nvic)
        else if in_reg TIM_ARR offset size_bytes then
          (True, t\<lparr>tm_arr := apply_write (tm_arr t) (offset - TIM_ARR) size_bytes v AND tm_arr_mask t\<rparr>, g_nvic)
        else (True, t, g_nvic)))"

text \<open>All four timers, and a timer as \<^verbatim>\<open>mm_stm32h563_timers_init\<close> leaves it.\<close>

fun timers_tick :: "regs option \<Rightarrow> u64 \<Rightarrow> tim_inst list \<Rightarrow> mm_nvic option \<Rightarrow> tim_inst list \<times> mm_nvic option" where
  "timers_tick rcc_regs cycles [] g_nvic = ([], g_nvic)"
| "timers_tick rcc_regs cycles (t # ts) g_nvic =
    (let (t, g_nvic) = tim_tick rcc_regs cycles (t, g_nvic);
         (ts, g_nvic) = timers_tick rcc_regs cycles ts g_nvic
     in (t # ts, g_nvic))"

definition tim_init :: "nat \<Rightarrow> tim_inst"
  where "tim_init i =
    (let arr_mask = (if i = 0 \<or> i = 3 then 0xFFFFFFFF else 0xFFFF)
     in \<lparr>tm_base = [0x40000000, 0x40000400, 0x40000800, 0x40000C00] ! i, tm_cr1 = 0, tm_dier = 0, tm_sr = 0,
         tm_cnt = 0, tm_psc = 0, tm_arr = arr_mask, tm_arr_mask = arr_mask, tm_psc_accum = 0,
         tm_irq = [45, 46, 47, 48] ! i, tm_index = i, tm_sec_bitmask = push_bit i 1,
         tm_secure_only = False, tm_current_sec = MM_SECURE\<rparr>)"

definition timers_init :: "tim_inst list"
  where "timers_init = map tim_init [0..<4]"

subsection \<open>Counting modulo the period\<close>

text \<open>The reference: a position that moves by the number of ticks modulo the period, counted from the
  bottom when counting up and from the top when counting down; passing the end raises an update.\<close>

abbreviation counts_down :: "tim_inst \<Rightarrow> bool"
  where "counts_down t \<equiv> tm_cr1 t AND 0x10 \<noteq> 0"

definition tim_top :: "tim_inst \<Rightarrow> nat"
  where "tim_top t = unat (tm_arr t AND tm_arr_mask t)"

definition tim_pos :: "tim_inst \<Rightarrow> nat"
  where "tim_pos t =
    (let c = min (unat (tm_cnt t AND tm_arr_mask t)) (tim_top t) in if counts_down t then tim_top t - c else c)"

definition tim_set_pos :: "nat \<Rightarrow> tim_inst \<Rightarrow> tim_inst"
  where "tim_set_pos k t = t\<lparr>tm_cnt := of_nat (if counts_down t then tim_top t - k else k)\<rparr>"

definition tim_step :: "nat \<Rightarrow> tim_inst \<times> mm_nvic option \<Rightarrow> tim_inst \<times> mm_nvic option"
  where "tim_step n s =
    (let (t, g_nvic) = s; q = tim_pos t + n; p = Suc (tim_top t) in
     if n = 0 then s
     else if q \<ge> p then tim_raise_update (tim_set_pos (q mod p) t, g_nvic)
     else (tim_set_pos q t, g_nvic))"

text \<open>The masks that \<^verbatim>\<open>mm_stm32h563_timers_init\<close> gives the timers.\<close>

definition tim_ok :: "tim_inst \<Rightarrow> bool"
  where "tim_ok t = (tm_arr_mask t = 0xFFFF \<or> tm_arr_mask t = 0xFFFFFFFF)"

lemma tim_top_less: "tim_top t < 2 ^ 32"
  using unat_u32_less [of "tm_arr t AND tm_arr_mask t"] by (simp add: tim_top_def)

lemma masked_below:
  assumes "tim_ok t" "k \<le> tim_top t"
  shows "to_u32 ((of_nat k :: u64) AND to_u64 (tm_arr_mask t)) = of_nat k"
proof -
  have k: "k \<le> unat (tm_arr_mask t)"
    using assms(2) word_and_le1 [of "tm_arr t" "tm_arr_mask t"] by (simp add: tim_top_def word_le_nat_alt)
  have "(of_nat k :: u64) AND mask j = of_nat k" if "k < 2 ^ j" for j
    using that by (simp add: take_bit_of_nat take_bit_nat_eq_self flip: take_bit_eq_mask)
  moreover have "to_u64 (0xFFFF :: u32) = mask 16" "to_u64 (0xFFFFFFFF :: u32) = mask 32"
    by (simp_all add: to_u64_def mask_eq_exp_minus_1)
  ultimately have "(of_nat k :: u64) AND to_u64 (tm_arr_mask t) = of_nat k"
    using assms(1) k by (auto simp: tim_ok_def)
  then show ?thesis by (simp add: to_u32_of_nat)
qed

lemma nat64: "x < 2 ^ 64 \<Longrightarrow> unat (of_nat x :: u64) = x"
  by (simp add: unsigned_of_nat take_bit_nat_eq_self)

lemma nat64_ops:
  assumes "x < 2 ^ 64" "y < 2 ^ 64"
  shows "(of_nat x :: u64) \<le> of_nat y \<longleftrightarrow> x \<le> y" "(of_nat x :: u64) < of_nat y \<longleftrightarrow> x < y"
    "(of_nat x :: u64) mod of_nat y = of_nat (x mod y)" "(of_nat x :: u64) div of_nat y = of_nat (x div y)"
    "(of_nat x :: u64) = of_nat y \<longleftrightarrow> x = y"
  using assms by (simp_all add: word_le_nat_alt word_less_nat_alt word_unat_eq_iff unat_mod unat_div nat64
      order.strict_trans1 [OF mod_less_eq_dividend] order.strict_trans1 [OF div_le_dividend])

lemma u64_of: "to_u64 w = of_nat (unat w)" for w :: u32
  by (simp add: to_u64_def)

text \<open>The branches of the two routines, on natural numbers.\<close>

lemma wrap_split:
  assumes "c \<le> a" "Suc a \<le> c + n"
  shows "(if c + n - Suc a \<ge> Suc a then (c + n - Suc a) mod Suc a else c + n - Suc a) = (c + n) mod Suc a"
proof -
  have "(c + n) mod Suc a = (c + n - Suc a) mod Suc a" using assms(2) by (simp add: le_mod_geq)
  then show ?thesis by simp
qed

lemma wraps_nonzero: "k < 2 ^ 64 - 1 \<Longrightarrow> 1 + of_nat (k div p) \<noteq> (0 :: u64)"
proof -
  assume "k < 2 ^ 64 - 1"
  then have "Suc (k div p) < 2 ^ 64" using div_le_dividend [of k p] by linarith
  then have "(of_nat (Suc (k div p)) :: u64) \<noteq> of_nat 0" by (subst nat64_ops(5)) simp_all
  then show ?thesis by simp
qed

lemma wrap_words:
  assumes b: "c \<le> a" "a < 2 ^ 32" "n < 2 ^ 64" and wrap: "Suc a \<le> c + n"
  shows "\<exists>w. w \<noteq> 0 \<and>
    (if (of_nat (c + n - Suc a) :: u64) \<ge> of_nat (Suc a)
     then (of_nat (c + n - Suc a) mod of_nat (Suc a), 1 + of_nat (c + n - Suc a) div of_nat (Suc a))
     else (of_nat (c + n - Suc a), 1)) = ((of_nat ((c + n) mod Suc a), w) :: u64 \<times> u64)"
proof -
  have "c + n - Suc a < n" using b wrap by linarith
  then have small: "c + n - Suc a < 2 ^ 64 - 1" "c + n - Suc a < 2 ^ 64" "Suc a < 2 ^ 64" using b by simp_all
  show ?thesis
  proof (cases "Suc a \<le> c + n - Suc a")
    case True
    then show ?thesis
      using wrap_split [OF b(1) wrap] small wraps_nonzero [OF small(1), of "Suc a"]
      by (simp only: nat64_ops [OF small(2,3)] nat64_ops [OF small(3,2)] if_True) auto
  next
    case False
    then have no: "\<not> (of_nat (Suc a) :: u64) \<le> of_nat (c + n - Suc a)" by (subst nat64_ops(1) [OF small(3,2)])
    show ?thesis
      unfolding if_not_P [OF no] using wrap_split [OF b(1) wrap] False by (intro exI [of _ 1]) simp
  qed
qed

text \<open>The operands of the two routines.\<close>

lemma tick_operands:
  assumes "a = tim_top t" "c = min (unat (tm_cnt t AND tm_arr_mask t)) a"
  shows "to_u64 (tm_arr t AND tm_arr_mask t) = of_nat a"
    and "(if to_u64 (tm_cnt t AND tm_arr_mask t) > of_nat a then of_nat a else to_u64 (tm_cnt t AND tm_arr_mask t))
      = (of_nat c :: u64)"
    and "of_nat a + 1 = (of_nat (Suc a) :: u64)" "(of_nat (Suc a) :: u64) \<noteq> 0" "c \<le> a" "a < 2 ^ 32"
proof -
  define x where "x = unat (tm_cnt t AND tm_arr_mask t)"
  have x: "to_u64 (tm_cnt t AND tm_arr_mask t) = of_nat x" by (simp only: u64_of x_def)
  have b: "x < 2 ^ 64" "a < 2 ^ 64" using unat_u32_less [of "tm_cnt t AND tm_arr_mask t"] tim_top_less [of t] assms(1)
    by (simp_all add: x_def)
  show "to_u64 (tm_arr t AND tm_arr_mask t) = of_nat a" by (simp only: u64_of assms tim_top_def)
  show "(if to_u64 (tm_cnt t AND tm_arr_mask t) > of_nat a then of_nat a else to_u64 (tm_cnt t AND tm_arr_mask t))
      = (of_nat c :: u64)"
    unfolding x nat64_ops(2) [OF b(2,1)] assms(2) x_def [symmetric] by (simp add: min_def)
  show "of_nat a + 1 = (of_nat (Suc a) :: u64)" by simp
  show "(of_nat (Suc a) :: u64) \<noteq> 0"
    using nat64_ops(5) [of "Suc a" 0] tim_top_less [of t] assms(1) by simp
  show "c \<le> a" "a < 2 ^ 32" using assms tim_top_less [of t] by simp_all
qed

lemma tick_up_step:
  assumes t: "tim_ok t" "\<not> counts_down t"
  shows "tim_apply_tick_up ticks (t, g) = tim_step (unat ticks) (t, g)"
proof (cases "ticks = 0")
  case False
  define n where "n = unat ticks"
  define a where "a = tim_top t"
  define c where "c = min (unat (tm_cnt t AND tm_arr_mask t)) a"
  note op = tick_operands [OF a_def c_def]
  have n: "ticks = of_nat n" "0 < n" "n < 2 ^ 64" using False unat_u64_less [of ticks] by (simp_all add: n_def unat_gt_0)
  have nz: "(of_nat n :: u64) \<noteq> 0" using False n(1) by simp
  have over: "of_nat a - of_nat c + 1 = (of_nat (Suc a - c) :: u64)" using op(5) by (simp add: of_nat_diff Suc_diff_le)
  have small: "Suc a - c < 2 ^ 64" using op(6) by simp
  have ge: "(of_nat (Suc a - c) :: u64) \<le> of_nat n \<longleftrightarrow> Suc a \<le> c + n" unfolding nat64_ops(1) [OF small n(3)] by auto
  have step: "tim_step n (t, g) = (if Suc a \<le> c + n then tim_raise_update (tim_set_pos ((c + n) mod Suc a) t, g)
      else (tim_set_pos (c + n) t, g))"
  proof -
    have "tim_pos t = c" using t(2) by (simp add: tim_pos_def a_def c_def Let_def)
    then show ?thesis using n by (simp add: tim_step_def Let_def flip: a_def)
  qed
  have set: "t\<lparr>tm_cnt := to_u32 ((of_nat k :: u64) AND to_u64 (tm_arr_mask t))\<rparr> = tim_set_pos k t" if "k \<le> a" for k
    using masked_below [OF t(1), of k] that t(2) by (simp add: tim_set_pos_def a_def)
  have "tim_apply_tick_up (of_nat n) (t, g) = tim_step n (t, g)"
  proof (cases "Suc a \<le> c + n")
    case True
    then have rem: "of_nat n - of_nat (Suc a - c) = (of_nat (c + n - Suc a) :: u64)"
      using op(5) by (simp add: of_nat_diff)
    obtain w where "w \<noteq> 0" and w: "(if (of_nat (c + n - Suc a) :: u64) \<ge> of_nat (Suc a)
        then (of_nat (c + n - Suc a) mod of_nat (Suc a), 1 + of_nat (c + n - Suc a) div of_nat (Suc a))
        else (of_nat (c + n - Suc a), 1)) = ((of_nat ((c + n) mod Suc a), w) :: u64 \<times> u64)"
      using wrap_words [OF op(5,6) n(3) True] by blast
    have k: "(c + n) mod Suc a \<le> a" by (simp add: less_Suc_eq_le [symmetric])
    show ?thesis
      unfolding tim_apply_tick_up_def Let_def prod.case op(1-3) over ge step rem w set [OF k]
        if_P [OF True] if_not_P [OF nz] if_not_P [OF op(4)] prod.case if_P [OF \<open>w \<noteq> 0\<close>] set [OF k] ..
  next
    case False
    then have k: "c + n \<le> a" by simp
    have sum: "of_nat c + of_nat n = (of_nat (c + n) :: u64)" by simp
    show ?thesis
      unfolding tim_apply_tick_up_def Let_def prod.case op(1-3) over ge step sum
        if_not_P [OF False] if_not_P [OF nz] if_not_P [OF op(4)] prod.case set [OF k] by simp
  qed
  then show ?thesis by (simp add: n_def)
qed (simp add: tim_apply_tick_up_def tim_step_def)

lemma tick_down_step:
  assumes t: "tim_ok t" "counts_down t"
  shows "tim_apply_tick_down ticks (t, g) = tim_step (unat ticks) (t, g)"
proof (cases "ticks = 0")
  case False
  define n where "n = unat ticks"
  define a where "a = tim_top t"
  define c where "c = min (unat (tm_cnt t AND tm_arr_mask t)) a"
  note op = tick_operands [OF a_def c_def]
  have n: "ticks = of_nat n" "0 < n" "n < 2 ^ 64" using False unat_u64_less [of ticks] by (simp_all add: n_def unat_gt_0)
  have nz: "(of_nat n :: u64) \<noteq> 0" using False n(1) by simp
  have under: "of_nat c + 1 = (of_nat (Suc c) :: u64)" by simp
  have small: "Suc c < 2 ^ 64" using op(5,6) by simp
  have ge: "(of_nat (Suc c) :: u64) \<le> of_nat n \<longleftrightarrow> Suc a \<le> (a - c) + n" unfolding nat64_ops(1) [OF small n(3)] using op(5) by auto
  have step: "tim_step n (t, g) = (if Suc a \<le> (a - c) + n then tim_raise_update (tim_set_pos (((a - c) + n) mod Suc a) t, g)
      else (tim_set_pos ((a - c) + n) t, g))"
  proof -
    have "tim_pos t = a - c" using t(2) by (simp add: tim_pos_def a_def c_def Let_def)
    then show ?thesis using n by (simp add: tim_step_def Let_def flip: a_def)
  qed
  have set: "t\<lparr>tm_cnt := to_u32 ((of_nat (a - k) :: u64) AND to_u64 (tm_arr_mask t))\<rparr> = tim_set_pos k t" for k
    using masked_below [OF t(1), of "a - k"] t(2) by (simp add: tim_set_pos_def a_def)
  have "tim_apply_tick_down (of_nat n) (t, g) = tim_step n (t, g)"
  proof (cases "Suc a \<le> (a - c) + n")
    case True
    then have rem: "of_nat n - of_nat (Suc c) = (of_nat ((a - c) + n - Suc a) :: u64)"
      using op(5) by (simp add: of_nat_diff)
    obtain w where "w \<noteq> 0" and w: "(if (of_nat ((a - c) + n - Suc a) :: u64) \<ge> of_nat (Suc a)
        then (of_nat ((a - c) + n - Suc a) mod of_nat (Suc a), 1 + of_nat ((a - c) + n - Suc a) div of_nat (Suc a))
        else (of_nat ((a - c) + n - Suc a), 1)) = ((of_nat (((a - c) + n) mod Suc a), w) :: u64 \<times> u64)"
      using wrap_words [OF diff_le_self op(6) n(3) True] by blast
    have k: "((a - c) + n) mod Suc a \<le> a" by (simp add: less_Suc_eq_le [symmetric])
    have small: "((a - c) + n) mod Suc a < 2 ^ 64" by (rule le_less_trans [OF k]) (use op(6) in simp)
    have top: "(if (of_nat (((a - c) + n) mod Suc a) :: u64) = 0 then of_nat a else of_nat a - of_nat (((a - c) + n) mod Suc a))
        = (of_nat (a - ((a - c) + n) mod Suc a) :: u64)"
      using k nat64_ops(5) [OF small, of 0] by (auto simp: of_nat_diff)
    show ?thesis
      unfolding tim_apply_tick_down_def Let_def prod.case op(1-3) under ge step rem w top
        if_P [OF True] if_not_P [OF nz] if_not_P [OF op(4)] prod.case if_P [OF \<open>w \<noteq> 0\<close>] set ..
  next
    case False
    then have k: "n \<le> c" "c - n = a - ((a - c) + n)" using op(5) by auto
    have sub: "of_nat c - of_nat n = (of_nat (a - ((a - c) + n)) :: u64)"
      unfolding k(2) [symmetric] using k(1) by (simp add: of_nat_diff)
    show ?thesis
      unfolding tim_apply_tick_down_def Let_def prod.case op(1-3) under ge step sub
        if_not_P [OF False] if_not_P [OF nz] if_not_P [OF op(4)] prod.case set by simp
  qed
  then show ?thesis by (simp add: n_def)
qed (simp add: tim_apply_tick_down_def tim_step_def)

subsection \<open>Batches of cycles\<close>

lemma set_pos_top [simp]: "tim_top (tim_set_pos k t) = tim_top t" "tim_ok (tim_set_pos k t) = tim_ok t"
  "tm_cr1 (tim_set_pos k t) = tm_cr1 t" "tim_set_pos j (tim_set_pos k t) = tim_set_pos j t"
  by (simp_all add: tim_set_pos_def tim_top_def tim_ok_def)

lemma set_pos_pos:
  assumes "tim_ok t" "k \<le> tim_top t"
  shows "tim_pos (tim_set_pos k t) = k"
proof -
  have m: "unat ((of_nat j :: u32) AND tm_arr_mask t) = j" if "j \<le> tim_top t" for j
  proof -
    have j: "j \<le> unat (tm_arr_mask t)"
      using that word_and_le1 [of "tm_arr t" "tm_arr_mask t"] by (simp add: tim_top_def word_le_nat_alt)
    have "(of_nat j :: u32) AND mask i = of_nat j" if "j < 2 ^ i" for i
      using that by (simp add: take_bit_of_nat take_bit_nat_eq_self flip: take_bit_eq_mask)
    moreover obtain i where i: "tm_arr_mask t = mask i" "unat (mask i :: u32) < 2 ^ i"
    proof -
      have m: "(0xFFFF :: u32) = mask 16" "(0xFFFFFFFF :: u32) = mask 32" by (simp_all add: mask_eq_exp_minus_1)
      have "unat (mask 16 :: u32) < 2 ^ 16" "unat (mask 32 :: u32) < 2 ^ 32" unfolding m [symmetric] by simp_all
      then show thesis using assms(1) that unfolding tim_ok_def m by blast
    qed
    ultimately have "(of_nat j :: u32) AND tm_arr_mask t = of_nat j"
      using j by (metis le_less_trans)
    then show ?thesis using that tim_top_less [of t] by (simp add: unsigned_of_nat take_bit_nat_eq_self)
  qed
  have "tim_top (tim_set_pos k t) = tim_top t" by simp
  then show ?thesis
    using assms m [of k] m [of "tim_top t - k"] by (auto simp: tim_pos_def Let_def) (auto simp: tim_set_pos_def)
qed

text \<open>An update without one-pulse mode touches the flag and the pending bit only, and raising it twice
  is raising it once.\<close>

definition tim_flag :: "tim_inst \<times> mm_nvic option \<Rightarrow> tim_inst \<times> mm_nvic option"
  where "tim_flag s =
    (let (t, g) = s in
     if tm_cr1 t AND 0x2 \<noteq> 0 then s
     else (t\<lparr>tm_sr := tm_sr t OR 1\<rparr>, if tm_dier t AND 1 \<noteq> 0 then map_option (\<lambda>n. mm_nvic_set_pending n (tm_irq t) True) g else g))"

lemma raise_flag: "tm_cr1 (fst s) AND 0x8 = 0 \<Longrightarrow> tim_raise_update s = tim_flag s"
  by (cases s) (simp add: tim_raise_update_def tim_flag_def Let_def)

lemma flag_simps:
  "tim_top (fst (tim_flag s)) = tim_top (fst s)" "tim_pos (fst (tim_flag s)) = tim_pos (fst s)"
  "tim_ok (fst (tim_flag s)) = tim_ok (fst s)" "tm_cr1 (fst (tim_flag s)) = tm_cr1 (fst s)"
  "(tim_set_pos k (fst (tim_flag s)), snd (tim_flag s)) = tim_flag (tim_set_pos k (fst s), snd s)"
  "tim_flag (tim_flag s) = tim_flag s"
  by (cases s; cases "snd s"; auto simp: tim_flag_def tim_top_def tim_pos_def tim_ok_def tim_set_pos_def Let_def or.assoc set_pending_idem)+

lemma step_0 [simp]: "tim_step 0 s = s"
  by (cases s) (simp add: tim_step_def)

lemma step_add:
  assumes t: "tim_ok (fst s)" "tm_cr1 (fst s) AND 0x8 = 0"
  shows "tim_step (m + n) s = tim_step n (tim_step m s)"
proof (cases "m = 0 \<or> n = 0")
  case False
  obtain t g where s: "s = (t, g)" by (cases s)
  define p where "p = Suc (tim_top t)"
  define q where "q = tim_pos t + m"
  have step: "tim_step k (u, h) = (if tim_pos u + k \<ge> p then tim_flag (tim_set_pos ((tim_pos u + k) mod p) u, h)
      else (tim_set_pos (tim_pos u + k) u, h))" if "0 < k" "tim_top u = tim_top t" "tm_cr1 u AND 0x8 = 0" for k u h
    using that by (simp add: tim_step_def Let_def p_def raise_flag)
  have pos: "tim_pos (tim_set_pos k t) = k" if "k < p" for k using t that s by (simp add: set_pos_pos p_def)
  have p: "0 < p" by (simp add: p_def)
  show ?thesis
  proof (cases "q \<ge> p")
    case True
    define u where "u = tim_flag (tim_set_pos (q mod p) t, g)"
    have u: "tim_top (fst u) = tim_top t" "tm_cr1 (fst u) AND 0x8 = 0" "tim_pos (fst u) = q mod p"
      using t s pos [of "q mod p"] p by (simp_all add: u_def flag_simps)
    have up: "(tim_set_pos k (fst u), snd u) = tim_flag (tim_set_pos k t, g)" for k by (simp add: u_def flag_simps)
    have "tim_step n (tim_step m s) = tim_step n (fst u, snd u)"
      using step [of m t g] False t s True by (simp add: u_def q_def)
    also have "\<dots> = tim_flag (tim_set_pos ((q + n) mod p) t, g)"
    proof -
      have "\<not> p \<le> q mod p + n \<Longrightarrow> (q + n) mod p = q mod p + n" by (metis mod_add_left_eq mod_less not_le)
      then show ?thesis using step [of n "fst u" "snd u"] False u by (auto simp: up flag_simps mod_add_left_eq)
    qed
    also have "\<dots> = tim_step (m + n) s"
      using step [of "m + n" t g] False t s True by (simp add: q_def add.assoc)
    finally show ?thesis by simp
  next
    case no: False
    have u: "tim_step m s = (tim_set_pos q t, g)" using step [of m t g] False t s no by (simp add: q_def)
    have "tim_step n (tim_set_pos q t, g) =
        (if p \<le> q + n then tim_flag (tim_set_pos ((q + n) mod p) t, g) else (tim_set_pos (q + n) t, g))"
      using step [of n "tim_set_pos q t" g] False t s no pos [of q] by simp
    then show ?thesis
      using step [of "m + n" t g] False t s unfolding u by (simp add: q_def add.assoc)
  qed
qed auto

text \<open>The prescaler in front of the counter.\<close>

abbreviation with_accum :: "u64 \<Rightarrow> tim_inst \<times> mm_nvic option \<Rightarrow> tim_inst \<times> mm_nvic option"
  where "with_accum x s \<equiv> ((fst s)\<lparr>tm_psc_accum := x\<rparr>, snd s)"

lemma accum_simps [simp]:
  "tim_top (t\<lparr>tm_psc_accum := x\<rparr>) = tim_top t" "tim_pos (t\<lparr>tm_psc_accum := x\<rparr>) = tim_pos t"
  "tim_ok (t\<lparr>tm_psc_accum := x\<rparr>) = tim_ok t" "tim_set_pos k (t\<lparr>tm_psc_accum := x\<rparr>) = (tim_set_pos k t)\<lparr>tm_psc_accum := x\<rparr>"
  by (simp_all add: tim_top_def tim_pos_def tim_ok_def tim_set_pos_def Let_def)

lemma step_accum: "tim_step n (with_accum x s) = with_accum x (tim_step n s)"
  by (cases s) (auto simp: tim_step_def tim_raise_update_def Let_def)

lemma step_accum_pair: "tim_step n (t\<lparr>tm_psc_accum := x\<rparr>, g) = with_accum x (tim_step n (t, g))"
  using step_accum [of n x "(t, g)"] by simp

lemma step_keeps:
  assumes "tm_cr1 (fst s) AND 0x8 = 0"
  shows "tm_cr1 (fst (tim_step n s)) = tm_cr1 (fst s)" "tm_psc (fst (tim_step n s)) = tm_psc (fst s)"
    "tm_index (fst (tim_step n s)) = tm_index (fst s)" "tim_ok (fst (tim_step n s)) = tim_ok (fst s)"
    "tm_psc_accum (fst (tim_step n s)) = tm_psc_accum (fst s)"
  using assms by (cases s; auto simp: tim_step_def Let_def raise_flag tim_flag_def tim_set_pos_def tim_ok_def)+

lemma tick_step:
  assumes "tim_ok (fst s)"
  shows "tim_tick r cycles s =
    (let t = fst s; d = unat (to_u64 (tm_psc t + 1)) in
     if tm_cr1 t AND 1 = 0 \<or> \<not> tim_clock_enabled r t \<or> d = 0 then s
     else tim_step (unat (tm_psc_accum t + cycles) div d)
       (with_accum (of_nat (unat (tm_psc_accum t + cycles) mod d)) s))"
proof -
  have "(tm_psc_accum (fst s) + cycles) mod x = of_nat (unat (tm_psc_accum (fst s) + cycles) mod unat x)" for x
    by (simp flip: unat_mod)
  then show ?thesis
    using assms by (cases s) (simp add: tim_tick_def Let_def tick_up_step tick_down_step unat_div unat_eq_0)
qed

text \<open>The timers do not depend on how elapsed cycles are batched.  Advancing a timer by a number of
  cycles in one call, as the main loop does when it skips over sleep, leaves it and the interrupt
  controller in the same state as advancing it in two calls, counting up or down and through any
  number of periods, provided one-pulse mode is off.\<close>

theorem tim_tick_batches:
  assumes t: "tim_ok t" "tm_cr1 t AND 0x8 = 0" and fits: "unat (tm_psc_accum t) + unat a + unat b < 2 ^ 64"
  shows "tim_tick r (a + b) (t, g) = tim_tick r b (tim_tick r a (t, g))"
proof -
  define d where "d = unat (to_u64 (tm_psc t + 1))"
  show ?thesis
  proof (cases "tm_cr1 t AND 1 = 0 \<or> \<not> tim_clock_enabled r t \<or> d = 0")
    case True
    then show ?thesis using t by (simp add: tick_step Let_def flip: d_def)
  next
    case False
    define x where "x = unat (tm_psc_accum t)"
    have u: "unat (tm_psc_accum t + a) = x + unat a" "unat (tm_psc_accum t + (a + b)) = x + unat a + unat b"
      using fits by (simp_all add: x_def unat_word_ariths)
    define y where "y = (x + unat a) mod d"
    have "y < 2 ^ 64" using fits mod_less_eq_dividend [of "x + unat a" d] unfolding y_def x_def by linarith
    moreover have "y \<le> x + unat a" by (simp add: y_def)
    ultimately have y: "unat (of_nat y + b) = y + unat b"
      using fits nat64 [of y] by (simp add: unat_word_ariths x_def)
    define s where "s = (t, g)"
    define s1 where "s1 = with_accum (of_nat y) (tim_step ((x + unat a) div d) s)"
    have one: "tim_tick r a s = s1"
      using False t by (simp add: tick_step s_def s1_def y_def u Let_def step_accum_pair flip: d_def)
    have k: "tim_ok (fst s1)" "tm_cr1 (fst s1) = tm_cr1 t" "tm_psc (fst s1) = tm_psc t" "tm_index (fst s1) = tm_index t"
      "tm_psc_accum (fst s1) = of_nat y"
      using step_keeps [of s] t by (simp_all add: s1_def s_def)
    have en: "tim_clock_enabled r (fst s1) = tim_clock_enabled r t" unfolding tim_clock_enabled_def k ..
    have "tim_tick r b s1 = tim_step ((y + unat b) div d) (with_accum (of_nat ((y + unat b) mod d)) s1)"
      using False k en by (simp add: tick_step Let_def y flip: d_def)
    also have "\<dots> = with_accum (of_nat ((y + unat b) mod d))
        (tim_step ((y + unat b) div d) (tim_step ((x + unat a) div d) s))"
      unfolding s1_def step_accum by simp
    also have "\<dots> = with_accum (of_nat ((x + unat a + unat b) mod d)) (tim_step ((x + unat a + unat b) div d) s)"
    proof -
      have "(x + unat a + unat b) mod d = (y + unat b) mod d" by (simp add: y_def mod_add_left_eq)
      moreover have "(x + unat a + unat b) div d = (x + unat a) div d + (y + unat b) div d"
        unfolding y_def using False by (metis div_mult_self3 mult.commute div_mult_mod_eq add.assoc)
      ultimately show ?thesis using t by (simp add: step_add s_def)
    qed
    also have "\<dots> = tim_tick r (a + b) s"
      using False t by (simp add: tick_step s_def u Let_def step_accum_pair flip: d_def)
    finally show ?thesis using one by (simp add: s_def)
  qed
qed

definition demo_tim :: tim_inst
  where "demo_tim = (tim_init 1)\<lparr>tm_cr1 := 0x11, tm_dier := 1, tm_psc := 1, tm_arr := 9, tm_cnt := 3\<rparr>"

theorem tim_tick_batches_witness:
  "tim_tick None 25 (demo_tim, None) = tim_tick None 10 (tim_tick None 15 (demo_tim, None)) \<and>
   tm_sr (fst (tim_tick None 25 (demo_tim, None))) = 1 \<and> tm_cnt (fst (tim_tick None 25 (demo_tim, None))) = 1"
proof -
  have "tim_tick None (15 + 10) (demo_tim, None) = tim_tick None 10 (tim_tick None 15 (demo_tim, None))"
    by (rule tim_tick_batches) (simp_all add: demo_tim_def tim_init_def tim_ok_def)
  moreover have "tm_sr (fst (tim_tick None 25 (demo_tim, None))) = 1 \<and> tm_cnt (fst (tim_tick None 25 (demo_tim, None))) = 1"
    by code_simp
  ultimately show ?thesis by simp
qed

text \<open>A secure timer is out of reach of the Non-secure state: reads give zero and writes change nothing
  but the record of the access.\<close>

lemma tim_secure_hidden:
  assumes "w AND tm_sec_bitmask t \<noteq> 0" "\<not> bad_size n"
  shows "tim_read MM_NONSECURE (Some w) offset n t = (Some 0, t\<lparr>tm_current_sec := MM_NONSECURE, tm_secure_only := True\<rparr>)"
    and "tim_write MM_NONSECURE (Some w) offset n v (t, g) =
      (True, t\<lparr>tm_current_sec := MM_NONSECURE, tm_secure_only := True\<rparr>, g)"
  using assms by (simp_all add: tim_read_def tim_write_def tim_access_allowed_def Let_def)

end
