(* ===== verification/Stm32_Soc.thy ===== *)
theory Stm32_Soc
imports Mem_Prot Stm32_Flash Stm32_Timers
begin

text \<open>
  The STM32H563 as a whole: the state behind its system blocks in one record, the reset and the
  registration of the blocks on the MMIO bus (\<^verbatim>\<open>stm32h563_mmio.c\<close>), the timers on the bus and the
  tick of timers and watchdogs (\<^verbatim>\<open>stm32h563_timers.c\<close>), and the target description
  (\<^verbatim>\<open>cpu_config.h\<close>).

  The NVIC is one object; the modules hold pointers to it that are null until they are set, which
  is what the three flags say.  The regions that \<^verbatim>\<open>mm_stm32h563_register_mmio\<close> adds for USB and
  Ethernet at its end belong to modules that are not modelled: what they do to the bus is an
  argument.
\<close>

record soc =
  so_rcc :: rcc_state
  so_pwr :: regs
  so_tzsc_s :: regs
  so_tzsc_ns :: regs
  so_tzic_s :: regs
  so_tzic_ns :: regs
  so_mpcbb :: "nat \<Rightarrow> regs"
  so_rng :: rng_state
  so_exti :: regs
  so_iwdg :: iwdg_state
  so_wwdg :: wwdg_state
  so_flash :: flash_state
  so_gpio :: "nat \<Rightarrow> gpio_state"
  so_gpdma1 :: regs
  so_gpdma2 :: regs
  so_timers :: "tim_inst list"
  so_nvic :: mm_nvic
  so_exti_nvic :: bool
  so_rng_nvic :: bool
  so_tim_nvic :: bool
  so_reset_requested :: bool

abbreviation "zero_regs \<equiv> (\<lambda>_ :: nat. 0 :: u32)"

definition nvic_ptr :: "bool \<Rightarrow> 'a soc_scheme \<Rightarrow> mm_nvic option"
  where "nvic_ptr bound s = (if bound then Some (so_nvic s) else None)"

definition put_nvic :: "mm_nvic option \<Rightarrow> 'a soc_scheme \<Rightarrow> 'a soc_scheme"
  where "put_nvic g s = (case g of None \<Rightarrow> s | Some n \<Rightarrow> s\<lparr>so_nvic := n\<rparr>)"

subsection \<open>Reset\<close>

text \<open>The blocks cleared and given the reset values that both \<^verbatim>\<open>mm_stm32h563_mmio_reset\<close> and
  \<^verbatim>\<open>mm_stm32h563_register_mmio\<close> write; the entropy source is outside the cleared state.\<close>

definition soc_defaults :: "'a soc_scheme \<Rightarrow> 'a soc_scheme"
  where "soc_defaults s = s\<lparr>
    so_rcc := rcc_update_sysclk (rcc_update_ready \<lparr>rcc_regs = (zero_regs)(0 := 1), rcc_cpu_hz = 0\<rparr>),
    so_pwr := zero_regs, so_tzsc_s := zero_regs, so_tzsc_ns := zero_regs, so_tzic_s := zero_regs, so_tzic_ns := zero_regs,
    so_mpcbb := mpcbb_init_defaults,
    so_rng := \<lparr>rng_regs = (zero_regs)(0 := 0x00871F00, 0x10 div 4 := 0x000072AC), rng_dr = 0, rng_dr_valid = False,
      rng_entropy = rng_entropy (so_rng s), rng_drawn = rng_drawn (so_rng s)\<rparr>,
    so_exti := (zero_regs)(0x080 div 4 := 0xFFFE0000),
    so_iwdg := \<lparr>iw_regs = (zero_regs)(0x008 div 4 := 0x0FFF, 0x010 div 4 := 0x0FFF), iw_counter = 0,
      iw_running = False, iw_write_access = False, iw_accum = 0\<rparr>,
    so_wwdg := \<lparr>ww_regs = (zero_regs)(0 := 0x7F, 1 := 0x7F), ww_counter = 0x7F, ww_accum = 0\<rparr>,
    so_flash := \<lparr>fls_regs = (zero_regs)(0 := 0x13, unat FLASH_NSCR div 4 := 1, unat FLASH_SECCR div 4 := 1),
      fls_flash = None, fls_size = 0, fls_base_s = 0, fls_base_ns = 0, fls_persist = False, fls_flags = 0,
      fls_ns_key_stage = 0, fls_sec_key_stage = 0, fls_flushed = fls_flushed (so_flash s)\<rparr>,
    so_gpio := (\<lambda>_. \<lparr>gpio_regs = zero_regs, gpio_oob = False\<rparr>),
    so_gpdma1 := zero_regs, so_gpdma2 := zero_regs\<rparr>"

definition stm32h563_mmio_reset :: "'a soc_scheme \<Rightarrow> 'a soc_scheme"
  where "stm32h563_mmio_reset s = (let s = soc_defaults s in s\<lparr>so_pwr := pwr_update_vos (so_pwr s)\<rparr>)"

text \<open>The callbacks that the reset installs for the GPIO views.\<close>

definition soc_gpio_readers :: "'a soc_scheme \<Rightarrow> mm_gpio_readers \<Rightarrow> mm_gpio_readers"
  where "soc_gpio_readers s g =
    mm_gpio_bank_set_seccfgr_reader (Some (gpio_bank_read_seccfgr (so_gpio s)))
      (mm_gpio_bank_set_clock_reader (Some (gpio_bank_clock (so_rcc s)))
        (mm_gpio_bank_set_moder_reader (Some (gpio_bank_read_moder (so_gpio s)))
          (mm_gpio_bank_set_reader (Some (gpio_bank_read (so_gpio s))) g)))"

definition stm32h563_cpu_hz :: "'a soc_scheme \<Rightarrow> u64"
  where "stm32h563_cpu_hz s = rcc_cpu_hz (so_rcc s)"

subsection \<open>The blocks on the bus\<close>

text \<open>A handler pair lifted to the whole state, for blocks whose read changes nothing.\<close>

definition block_region ::
  "u32 \<Rightarrow> u32 \<Rightarrow> ('a soc_scheme \<Rightarrow> u32 \<Rightarrow> u32 \<Rightarrow> u32 option) \<Rightarrow> (u32 \<Rightarrow> u32 \<Rightarrow> u32 \<Rightarrow> 'a soc_scheme \<Rightarrow> bool \<times> 'a soc_scheme) \<Rightarrow> 'a soc_scheme mmio_region"
  where "block_region base sz rd wr =
    \<lparr>mr_base = base, mr_size = sz, mr_read = Some (\<lambda>_ offset n s. (rd s offset n, s)), mr_write = Some (\<lambda>_. wr)\<rparr>"

definition rcc_region :: "u32 \<Rightarrow> 'a soc_scheme mmio_region"
  where "rcc_region base = block_region base 0x400 (\<lambda>s. rcc_read (so_rcc s))
    (\<lambda>offset n v s. let (ok, r) = rcc_write (so_rcc s) offset n v in (ok, s\<lparr>so_rcc := r\<rparr>))"

definition pwr_region :: "u32 \<Rightarrow> 'a soc_scheme mmio_region"
  where "pwr_region base = block_region base 0x400 (\<lambda>s. pwr_read (so_pwr s))
    (\<lambda>offset n v s. let (ok, r) = pwr_write (so_pwr s) offset n v in (ok, s\<lparr>so_pwr := r\<rparr>))"

definition flash_region :: "u32 \<Rightarrow> 'a soc_scheme mmio_region"
  where "flash_region base = block_region base 0x400 (\<lambda>s. flash_read (so_flash s))
    (\<lambda>offset n v s. let (ok, r) = flash_write (so_flash s) offset n v in (ok, s\<lparr>so_flash := r\<rparr>))"

definition simple_region :: "u32 \<Rightarrow> ('a soc_scheme \<Rightarrow> regs) \<Rightarrow> ((regs \<Rightarrow> regs) \<Rightarrow> 'a soc_scheme \<Rightarrow> 'a soc_scheme) \<Rightarrow> 'a soc_scheme mmio_region"
  where "simple_region base get upd = block_region base 0x400 (\<lambda>s. simple_blk_read (get s))
    (\<lambda>offset n v s. let (ok, r) = simple_blk_write (get s) offset n v in (ok, upd (\<lambda>_. r) s))"

definition mpcbb_region :: "u32 \<Rightarrow> nat \<Rightarrow> 'a soc_scheme mmio_region"
  where "mpcbb_region base k = block_region base 0x400 (\<lambda>s. mpcbb_read (so_mpcbb s k))
    (\<lambda>offset n v s. let (ok, r) = mpcbb_write (so_mpcbb s k) offset n v in (ok, s\<lparr>so_mpcbb := (so_mpcbb s)(k := r)\<rparr>))"

definition rng_region :: "u32 \<Rightarrow> bool \<Rightarrow> 'a soc_scheme mmio_region"
  where "rng_region base secure_alias =
    \<lparr>mr_base = base, mr_size = 0x400,
     mr_read = Some (\<lambda>_ offset n s.
       let (v, r, g) = rng_read h563_rng secure_alias (so_rcc s) (so_tzsc_s s) offset n (so_rng s, nvic_ptr (so_rng_nvic s) s)
       in (v, put_nvic g (s\<lparr>so_rng := r\<rparr>))),
     mr_write = Some (\<lambda>_ offset n v s.
       let (ok, r, g) = rng_write h563_rng secure_alias (so_rcc s) (so_tzsc_s s) offset n v (so_rng s, nvic_ptr (so_rng_nvic s) s)
       in (ok, put_nvic g (s\<lparr>so_rng := r\<rparr>)))\<rparr>"

definition exti_region :: "u32 \<Rightarrow> 'a soc_scheme mmio_region"
  where "exti_region base = block_region base 0x400 (\<lambda>s. exti_read (so_exti s))
    (\<lambda>offset n v s. let (ok, e, g) = exti_write (so_exti s, nvic_ptr (so_exti_nvic s) s) offset n v
      in (ok, put_nvic g (s\<lparr>so_exti := e\<rparr>)))"

definition iwdg_region :: "u32 \<Rightarrow> 'a soc_scheme mmio_region"
  where "iwdg_region base = block_region base 0x400 (\<lambda>s. iwdg_read (so_iwdg s))
    (\<lambda>offset n v s. let (ok, w) = iwdg_write (so_iwdg s) offset n v in (ok, s\<lparr>so_iwdg := w\<rparr>))"

definition wwdg_region :: "u32 \<Rightarrow> 'a soc_scheme mmio_region"
  where "wwdg_region base = block_region base 0x400 (\<lambda>s. wwdg_read (so_rcc s) (so_wwdg s))
    (\<lambda>offset n v s. let (ok, w) = wwdg_write (so_rcc s) (so_wwdg s) offset n v in (ok, s\<lparr>so_wwdg := w\<rparr>))"

definition gpdma_region :: "u32 \<Rightarrow> ('a soc_scheme \<Rightarrow> regs) \<Rightarrow> ((regs \<Rightarrow> regs) \<Rightarrow> 'a soc_scheme \<Rightarrow> 'a soc_scheme) \<Rightarrow> 'a soc_scheme mmio_region"
  where "gpdma_region base get upd = block_region base 0x1000 (\<lambda>s. gpdma_read (get s))
    (\<lambda>offset n v s. let (ok, r) = gpdma_write (get s) offset n v in (ok, upd (\<lambda>_. r) s))"

definition gpio_region :: "u32 \<Rightarrow> bool \<Rightarrow> nat \<Rightarrow> 'a soc_scheme mmio_region"
  where "gpio_region base secure_alias i =
    \<lparr>mr_base = base, mr_size = 0x400,
     mr_read = Some (\<lambda>_ offset n s.
       let (v, g) = gpio_read secure_alias (so_rcc s) i (so_gpio s i) offset n in (v, s\<lparr>so_gpio := (so_gpio s)(i := g)\<rparr>)),
     mr_write = Some (\<lambda>_ offset n v s.
       let (ok, g, e, nv) = gpio_write secure_alias (so_rcc s) i offset n v
             (so_gpio s i, so_exti s, nvic_ptr (so_exti_nvic s) s)
       in (ok, put_nvic nv (s\<lparr>so_gpio := (so_gpio s)(i := g), so_exti := e\<rparr>)))\<rparr>"

definition soc_regions :: "soc mmio_region list"
  where "soc_regions =
    [rcc_region 0x44020C00, rcc_region 0x54020C00, pwr_region 0x44020800, pwr_region 0x54020800,
     flash_region 0x40022000, flash_region 0x50022000,
     simple_region 0x50032400 so_tzsc_s so_tzsc_s_update, simple_region 0x40032400 so_tzsc_ns so_tzsc_ns_update,
     simple_region 0x50032800 so_tzic_s so_tzic_s_update, simple_region 0x40032800 so_tzic_ns so_tzic_ns_update,
     mpcbb_region 0x40032C00 0, mpcbb_region 0x50032C00 0, mpcbb_region 0x40033000 1, mpcbb_region 0x50033000 1,
     mpcbb_region 0x40033400 2, mpcbb_region 0x50033400 2,
     rng_region 0x420C0800 False, rng_region 0x520C0800 True,
     exti_region 0x44022000, exti_region 0x54022000, iwdg_region 0x40003000, iwdg_region 0x50003000,
     wwdg_region 0x40002C00, wwdg_region 0x50002C00,
     gpdma_region 0x40020000 so_gpdma1 so_gpdma1_update, gpdma_region 0x50020000 so_gpdma1 so_gpdma1_update,
     gpdma_region 0x40021000 so_gpdma2 so_gpdma2_update, gpdma_region 0x50021000 so_gpdma2 so_gpdma2_update] @
    concat (map (\<lambda>i. [gpio_region (0x42020000 + of_nat i * 0x400) False i, gpio_region (0x52020000 + of_nat i * 0x400) True i])
      [0..<9])"

definition stm32h563_register_mmio ::
  "(soc mmio_bus \<Rightarrow> bool \<times> soc mmio_bus) \<Rightarrow> soc mmio_bus \<times> soc \<Rightarrow> bool \<times> soc mmio_bus \<times> soc"
  where "stm32h563_register_mmio usb_eth_register x =
    (let (bus, s) = x; s = soc_defaults s; (ok, bus) = register_seq soc_regions bus in
     if \<not> ok then (False, bus, s)
     else (let (ok, bus) = usb_eth_register bus in (ok, bus, s)))"

subsection \<open>Timers\<close>

definition tim_region :: "u32 \<Rightarrow> nat \<Rightarrow> 'a soc_scheme mmio_region"
  where "tim_region base i =
    \<lparr>mr_base = base, mr_size = 0x400,
     mr_read = Some (\<lambda>asec offset n s.
       let (v, t) = tim_read asec (if so_tim_nvic s then Some (so_tzsc_s s (0x10 div 4)) else None) offset n (so_timers s ! i)
       in (v, s\<lparr>so_timers := (so_timers s)[i := t]\<rparr>)),
     mr_write = Some (\<lambda>asec offset n v s.
       let (ok, t, g) = tim_write asec (if so_tim_nvic s then Some (so_tzsc_s s (0x10 div 4)) else None) offset n v
             (so_timers s ! i, nvic_ptr (so_tim_nvic s) s)
       in (ok, put_nvic g (s\<lparr>so_timers := (so_timers s)[i := t]\<rparr>)))\<rparr>"

definition tim_base :: "nat \<Rightarrow> u32"
  where "tim_base i = [0x40000000, 0x40000400, 0x40000800, 0x40000C00] ! i"

definition tim_regions :: "'a soc_scheme mmio_region list"
  where "tim_regions = concat (map (\<lambda>i. [tim_region (tim_base i) i, tim_region (tim_base i + 0x10000000) i]) [0..<4])"

text \<open>The initialisation sets the pointers to the NVIC and, in each timer, to the clock and TrustZone
  registers; the results of the registrations are ignored.\<close>

definition stm32h563_timers_init :: "'a soc_scheme mmio_bus \<times> 'a soc_scheme \<Rightarrow> 'a soc_scheme mmio_bus \<times> 'a soc_scheme"
  where "stm32h563_timers_init x =
    (let (bus, s) = x
     in (register_all bus tim_regions, s\<lparr>so_timers := timers_init, so_tim_nvic := True, so_exti_nvic := True\<rparr>))"

definition stm32h563_timers_reset :: "'a soc_scheme \<Rightarrow> 'a soc_scheme"
  where "stm32h563_timers_reset s = s\<lparr>so_tim_nvic := False, so_timers := map (\<lambda>t. \<lparr>tm_base = 0, tm_cr1 = 0, tm_dier = 0,
    tm_sr = 0, tm_cnt = 0, tm_psc = 0, tm_arr = 0, tm_arr_mask = 0, tm_psc_accum = 0, tm_irq = 0, tm_index = tm_index t,
    tm_sec_bitmask = 0, tm_secure_only = False, tm_current_sec = MM_NONSECURE\<rparr>) (so_timers s)\<rparr>"

definition stm32h563_watchdog_tick :: "u64 \<Rightarrow> 'a soc_scheme \<Rightarrow> 'a soc_scheme option"
  where "stm32h563_watchdog_tick cycles s =
    (case watchdog_tick (so_rcc s) cycles \<lparr>wd_wwdg = so_wwdg s, wd_iwdg = so_iwdg s,
         wd_nvic = nvic_ptr (so_exti_nvic s) s, wd_reset_requested = so_reset_requested s\<rparr> of
       None \<Rightarrow> None
     | Some d \<Rightarrow> Some (put_nvic (wd_nvic d) (s\<lparr>so_wwdg := wd_wwdg d, so_iwdg := wd_iwdg d,
         so_reset_requested := wd_reset_requested d\<rparr>)))"

definition stm32h563_timers_tick :: "u64 \<Rightarrow> 'a soc_scheme \<Rightarrow> 'a soc_scheme option"
  where "stm32h563_timers_tick cycles s =
    (let rcc = (if so_tim_nvic s then Some (rcc_regs (so_rcc s)) else None);
         (ts, g) = timers_tick rcc cycles (so_timers s) (nvic_ptr (so_tim_nvic s) s)
     in stm32h563_watchdog_tick cycles (put_nvic g (s\<lparr>so_timers := ts\<rparr>)))"

subsection \<open>Target description\<close>

definition STM32H563_RAM_REGIONS :: "mm_ram_region list"
  where "STM32H563_RAM_REGIONS =
    [\<lparr>rr_base_s = 0x30000000, rr_base_ns = 0x20000000, rr_size = 0x00040000, rr_mpcbb_index = 0\<rparr>,
     \<lparr>rr_base_s = 0x30040000, rr_base_ns = 0x20040000, rr_size = 0x00010000, rr_mpcbb_index = 1\<rparr>,
     \<lparr>rr_base_s = 0x30050000, rr_base_ns = 0x20050000, rr_size = 0x00050000, rr_mpcbb_index = 2\<rparr>]"

definition stm32h563_cfg :: "soc \<Rightarrow> mm_target_cfg"
  where "stm32h563_cfg s = \<lparr>cfg_flash_base_s = 0x0C000000, cfg_flash_size_s = 0x00200000,
    cfg_flash_base_ns = 0x08000000, cfg_flash_size_ns = 0x00200000,
    cfg_ram_base_s = 0x30000000, cfg_ram_size_s = 0x000A0000, cfg_ram_base_ns = 0x20000000, cfg_ram_size_ns = 0x000A0000,
    cfg_ram_regions = STM32H563_RAM_REGIONS, cfg_mpcbb_block_size = 512,
    cfg_mpcbb_block_secure = Some (mpcbb_block_secure (so_mpcbb s))\<rparr>"

subsection \<open>The bus of the machine\<close>

text \<open>The bus of 128 regions as the boot sequence leaves it, without the regions of USB and Ethernet.\<close>

definition soc_boot :: "soc \<Rightarrow> soc mmio_bus \<times> soc"
  where "soc_boot s =
    stm32h563_timers_init (snd (stm32h563_register_mmio (\<lambda>bus. (True, bus))
      (mmio_bus_init 128, stm32h563_timers_reset (stm32h563_mmio_reset s))))"

lemmas region_defs = block_region_def rcc_region_def pwr_region_def flash_region_def simple_region_def mpcbb_region_def
  rng_region_def exti_region_def iwdg_region_def wwdg_region_def gpdma_region_def gpio_region_def tim_region_def

lemma soc_spans: "map span_of (soc_regions @ tim_regions) =
  [(0x44020C00, 0x400), (0x54020C00, 0x400), (0x44020800, 0x400), (0x54020800, 0x400), (0x40022000, 0x400),
   (0x50022000, 0x400), (0x50032400, 0x400), (0x40032400, 0x400), (0x50032800, 0x400), (0x40032800, 0x400),
   (0x40032C00, 0x400), (0x50032C00, 0x400), (0x40033000, 0x400), (0x50033000, 0x400), (0x40033400, 0x400),
   (0x50033400, 0x400), (0x420C0800, 0x400), (0x520C0800, 0x400), (0x44022000, 0x400), (0x54022000, 0x400),
   (0x40003000, 0x400), (0x50003000, 0x400), (0x40002C00, 0x400), (0x50002C00, 0x400), (0x40020000, 0x1000),
   (0x50020000, 0x1000), (0x40021000, 0x1000), (0x50021000, 0x1000), (0x42020000, 0x400), (0x52020000, 0x400),
   (0x42020400, 0x400), (0x52020400, 0x400), (0x42020800, 0x400), (0x52020800, 0x400), (0x42020C00, 0x400),
   (0x52020C00, 0x400), (0x42021000, 0x400), (0x52021000, 0x400), (0x42021400, 0x400), (0x52021400, 0x400),
   (0x42021800, 0x400), (0x52021800, 0x400), (0x42021C00, 0x400), (0x52021C00, 0x400), (0x42022000, 0x400),
   (0x52022000, 0x400), (0x40000000, 0x400), (0x50000000, 0x400), (0x40000400, 0x400), (0x50000400, 0x400),
   (0x40000800, 0x400), (0x50000800, 0x400), (0x40000C00, 0x400), (0x50000C00, 0x400)]"
  by (simp add: soc_regions_def tim_regions_def region_defs tim_base_def upt_rec span_of_def)

lemma soc_no_wrap: "list_all no_wrap (soc_regions @ tim_regions)"
  by (rule spans_no_wrap) (simp only: soc_spans, simp)

lemma soc_apart: "sorted_wrt apart (soc_regions @ tim_regions)"
  by (rule apart_spans [OF soc_no_wrap]) (simp add: soc_spans del: map_append)

definition soc_bus :: "soc mmio_bus"
  where "soc_bus = \<lparr>mb_regions = soc_regions @ tim_regions, mb_capacity = 128\<rparr>"

lemma soc_region_count: "length soc_regions = 46" "length (tim_regions :: 'a soc_scheme mmio_region list) = 8"
  by (simp_all add: soc_regions_def tim_regions_def upt_rec)

lemma soc_boot_bus: "fst (soc_boot s) = soc_bus"
proof -
  let ?b = "\<lparr>mb_regions = soc_regions, mb_capacity = 128\<rparr> :: soc mmio_bus"
  have "register_seq soc_regions (mmio_bus_init 128) = (True, ?b)"
    by (rule register_seq_first [OF soc_apart]) (simp add: soc_region_count)
  moreover have "register_seq tim_regions ?b = (True, soc_bus)"
    unfolding soc_bus_def by (rule register_seq_append [OF soc_apart]) (simp add: soc_region_count)
  ultimately show ?thesis
    by (simp add: soc_boot_def stm32h563_register_mmio_def stm32h563_timers_init_def register_all_seq Let_def)
qed

lemma soc_bus_ok: "bus_ok soc_bus"
  unfolding soc_bus_def by (rule apart_bus_ok [OF soc_no_wrap soc_apart]) (simp add: soc_region_count)

lemma soc_bus_find:
  "r \<in> set (soc_regions @ tim_regions) \<Longrightarrow> unat addr \<in> region_span r \<Longrightarrow> mmio_bus_find soc_bus addr = Some r"
  using bus_find_unique [OF soc_bus_ok, of addr r] by (simp add: soc_bus_def)


lemma mpcbb_regions:
  "{mpcbb_region 0x40032C00 0 :: soc mmio_region, mpcbb_region 0x50032C00 0, mpcbb_region 0x40033000 1, mpcbb_region 0x50033000 1,
    mpcbb_region 0x40033400 2, mpcbb_region 0x50033400 2} \<subseteq> set (soc_regions @ tim_regions)"
  by (simp add: soc_regions_def)


subsection \<open>RAM attribution\<close>

text \<open>The base of the registers of an MPCBB bank in each alias.\<close>

definition mpcbb_base :: "bool \<Rightarrow> nat \<Rightarrow> u32"
  where "mpcbb_base secure_alias k = (if secure_alias then 0x50032C00 else 0x40032C00) + of_nat k * 0x400"

lemma less_3_cases: "k < 3 \<longleftrightarrow> k = 0 \<or> k = 1 \<or> k = (2 :: nat)"
  by auto

lemma mpcbb_bus_write:
  assumes "k < 3" "w < 32"
  shows "mmio_bus_write soc_bus asec (mpcbb_base al k + 0x100 + 4 * w) 4 v s =
    (True, s\<lparr>so_mpcbb := (so_mpcbb s)(k := snd (mpcbb_write (so_mpcbb s k) (0x100 + 4 * w) 4 v))\<rparr>)"
proof -
  have b: "mpcbb_region (mpcbb_base al k) k \<in> set (soc_regions @ tim_regions)"
    using mpcbb_regions assms(1) by (auto simp: mpcbb_base_def less_3_cases)
  have u: "unat (4 * w) = 4 * unat w" "unat w < 32" "unat (0x100 + 4 * w) = 0x100 + 4 * unat w"
    using assms(2) by (simp_all add: unat_word_ariths word_less_nat_alt)
  have "unat (mpcbb_base al k + (0x100 + 4 * w)) = unat (mpcbb_base al k) + (0x100 + 4 * unat w)"
    using u assms(1) by (auto simp: mpcbb_base_def less_3_cases unat_word_ariths)
  then have "unat (mpcbb_base al k + 0x100 + 4 * w) \<in> region_span (mpcbb_region (mpcbb_base al k) k)"
    using u(2) by (simp add: region_span_def mpcbb_region_def block_region_def add.assoc)
  from soc_bus_find [OF b this] have "mmio_bus_write soc_bus asec (mpcbb_base al k + 0x100 + 4 * w) 4 v s =
      (let (ok, r) = mpcbb_write (so_mpcbb s k) (0x100 + 4 * w) 4 v in (ok, s\<lparr>so_mpcbb := (so_mpcbb s)(k := r)\<rparr>))"
    by (simp add: mmio_bus_write_def mpcbb_region_def block_region_def)
  moreover have "fst (mpcbb_write (so_mpcbb s k) (0x100 + 4 * w) 4 v)"
  proof -
    have "unat (0x100 + 4 * w + 4) = 0x104 + 4 * unat w" using u by (simp add: unat_word_ariths)
    then show ?thesis using u(2) by (simp add: mpcbb_write_def bad_size_def word_less_nat_alt)
  qed
  ultimately show ?thesis by (simp add: case_prod_beta)
qed

definition attr_of :: "bool \<Rightarrow> mm_sau_attr \<times> mm_sec_state"
  where "attr_of sec = (if sec then MM_SAU_SECURE else MM_SAU_NONSECURE, if sec then MM_SECURE else MM_NONSECURE)"

lemma window_iff: "b \<le> a \<and> a - b < n \<longleftrightarrow> unat b \<le> unat a \<and> unat a < unat b + unat n" for a b n :: u32
  by (auto simp: word_le_nat_alt word_less_nat_alt unat_sub)

lemma scan_windows:
  "mpcbb_scan bs 512 STM32H563_RAM_REGIONS a =
    (let n = unat a in
     if 0x30000000 \<le> n \<and> n < 0x30040000 then Some (bs 0 ((a - 0x30000000) div 512))
     else if 0x20000000 \<le> n \<and> n < 0x20040000 then Some (bs 0 ((a - 0x20000000) div 512))
     else if 0x30040000 \<le> n \<and> n < 0x30050000 then Some (bs 1 ((a - 0x30040000) div 512))
     else if 0x20040000 \<le> n \<and> n < 0x20050000 then Some (bs 1 ((a - 0x20040000) div 512))
     else if 0x30050000 \<le> n \<and> n < 0x300A0000 then Some (bs 2 ((a - 0x30050000) div 512))
     else if 0x20050000 \<le> n \<and> n < 0x200A0000 then Some (bs 2 ((a - 0x20050000) div 512))
     else None)"
  by (simp add: STM32H563_RAM_REGIONS_def window_iff Let_def)

lemma ram_scan:
  assumes "k < 3" "off < rr_size (STM32H563_RAM_REGIONS ! k)"
    "addr = rr_base_s (STM32H563_RAM_REGIONS ! k) + off \<or> addr = rr_base_ns (STM32H563_RAM_REGIONS ! k) + off"
  shows "mpcbb_scan bs 512 STM32H563_RAM_REGIONS addr = Some (bs (int k) (off div 512))"
proof -
  have o: "unat off < unat (rr_size (STM32H563_RAM_REGIONS ! k))" using assms(2) by (simp add: word_less_nat_alt)
  consider "k = 0" "addr = 0x30000000 + off" | "k = 0" "addr = 0x20000000 + off"
    | "k = 1" "addr = 0x30040000 + off" | "k = 1" "addr = 0x20040000 + off"
    | "k = 2" "addr = 0x30050000 + off" | "k = 2" "addr = 0x20050000 + off"
    using assms(1,3) by (auto simp: less_3_cases STM32H563_RAM_REGIONS_def)
  then show ?thesis
    by cases (use o in \<open>simp_all add: STM32H563_RAM_REGIONS_def scan_windows [unfolded STM32H563_RAM_REGIONS_def]
      Let_def unat_word_ariths del: mpcbb_scan.simps\<close>)
qed

lemma ram_attr:
  assumes "k < 3" "off < rr_size (STM32H563_RAM_REGIONS ! k)"
    "addr = rr_base_s (STM32H563_RAM_REGIONS ! k) + off \<or> addr = rr_base_ns (STM32H563_RAM_REGIONS ! k) + off"
  shows "mpcbb_attr_for_addr (mm_prot_init (stm32h563_cfg s)) addr =
    Some (attr_of (mpcbb_block_secure (so_mpcbb s) (int k) (off div 512)))"
  using ram_scan [OF assms]
  by (simp add: mpcbb_attr_for_addr_def mm_prot_init_def stm32h563_cfg_def attr_of_def Let_def)
   (simp add: STM32H563_RAM_REGIONS_def)


text \<open>A state with every block Secure.\<close>

definition demo_soc :: soc
  where "demo_soc = soc_defaults \<lparr>so_rcc = \<lparr>rcc_regs = zero_regs, rcc_cpu_hz = 0\<rparr>, so_pwr = zero_regs, so_tzsc_s = zero_regs,
    so_tzsc_ns = zero_regs, so_tzic_s = zero_regs, so_tzic_ns = zero_regs, so_mpcbb = (\<lambda>_. zero_regs),
    so_rng = \<lparr>rng_regs = zero_regs, rng_dr = 0, rng_dr_valid = False, rng_entropy = (\<lambda>_. None), rng_drawn = 0\<rparr>,
    so_exti = zero_regs, so_iwdg = \<lparr>iw_regs = zero_regs, iw_counter = 0, iw_running = False, iw_write_access = False, iw_accum = 0\<rparr>,
    so_wwdg = \<lparr>ww_regs = zero_regs, ww_counter = 0, ww_accum = 0\<rparr>,
    so_flash = \<lparr>fls_regs = zero_regs, fls_flash = None, fls_size = 0, fls_base_s = 0, fls_base_ns = 0, fls_persist = False,
      fls_flags = 0, fls_ns_key_stage = 0, fls_sec_key_stage = 0, fls_flushed = []\<rparr>,
    so_gpio = (\<lambda>_. \<lparr>gpio_regs = zero_regs, gpio_oob = False\<rparr>), so_gpdma1 = zero_regs, so_gpdma2 = zero_regs,
    so_timers = timers_init, so_nvic = mm_nvic_init, so_exti_nvic = False, so_rng_nvic = False, so_tim_nvic = False,
    so_reset_requested = False\<rparr>"


lemma all_ones_bit:
  assumes "n < 32"
  shows "drop_bit n (0xFFFFFFFF :: u32) AND 1 \<noteq> 0"
proof -
  have "bit (mask 32 :: u32) n" using assms by (simp add: bit_mask_iff)
  moreover have "(0xFFFFFFFF :: u32) = mask 32" by (simp add: mask_eq_exp_minus_1)
  ultimately show ?thesis by (metis and_one_eq bit_iff_odd_drop_bit odd_iff_mod_2_eq_one zero_neq_one)
qed

text \<open>The machine starts with all of its RAM Secure, the flash controller locked on both sides, the
  independent watchdog stopped, no reset requested by the reset itself, and a core clock of 64 MHz.\<close>

theorem soc_boot_state:
  assumes "k < 3" "off < rr_size (STM32H563_RAM_REGIONS ! k)"
    "addr = rr_base_s (STM32H563_RAM_REGIONS ! k) + off \<or> addr = rr_base_ns (STM32H563_RAM_REGIONS ! k) + off"
  shows "let s' = snd (soc_boot s)
    in mpcbb_attr_for_addr (mm_prot_init (stm32h563_cfg s')) addr = Some (MM_SAU_SECURE, MM_SECURE) \<and>
       \<not> flash_is_unlocked (so_flash s') FLASH_NSCR \<and> \<not> flash_is_unlocked (so_flash s') FLASH_SECCR \<and>
       \<not> iw_running (so_iwdg s') \<and> so_reset_requested s' = so_reset_requested s \<and> stm32h563_cpu_hz s' = 64000000"
proof -
  define s1 where "s1 = snd (soc_boot s)"
  have s1: "so_mpcbb s1 = mpcbb_init_defaults" "so_flash s1 = so_flash (soc_defaults s)" "so_iwdg s1 = so_iwdg (soc_defaults s)"
    "so_rcc s1 = so_rcc (soc_defaults s)" "so_reset_requested s1 = so_reset_requested s"
    by (simp_all add: s1_def soc_boot_def stm32h563_register_mmio_def stm32h563_timers_init_def stm32h563_timers_reset_def
      stm32h563_mmio_reset_def soc_defaults_def Let_def case_prod_beta)
  have "unat off < 0x50000"
    using assms(1,2) by (auto simp: less_3_cases STM32H563_RAM_REGIONS_def word_less_nat_alt)
  then have "unat (off div 512 div 32) < 32" by (simp add: unat_div_distrib)
  moreover have "unat (off div 512 mod 32) < 32" by (simp add: unat_mod_distrib)
  ultimately have "mpcbb_block_secure (so_mpcbb s1) (int k) (off div 512)"
    using assms(1) all_ones_bit [of "unat (off div 512 mod 32)"]
    by (simp add: s1 mpcbb_block_secure_def mpcbb_init_defaults_def Let_def word_le_nat_alt not_le [symmetric])
  then show ?thesis
    using ram_attr [OF assms, of s1] unfolding s1_def [symmetric] Let_def
    by (simp add: s1 attr_of_def)
     (simp add: soc_defaults_def flash_is_unlocked_def stm32h563_cpu_hz_def rcc_update_sysclk_def rcc_update_ready_def
       mirror_bit_def hpre_div_def to_u64_def Let_def s1)
qed

theorem soc_boot_state_witness:
  "let s' = snd (soc_boot demo_soc)
   in mpcbb_attr_for_addr (mm_prot_init (stm32h563_cfg s')) 0x20050004 = Some (MM_SAU_SECURE, MM_SECURE) \<and>
      stm32h563_cpu_hz s' = 64000000"
  using soc_boot_state [of 2 4 "0x20050004" demo_soc] by (simp add: STM32H563_RAM_REGIONS_def Let_def)

text \<open>The boot sequence loses the power-ready flags.  The reset reports the voltage scaling as ready,
  but the registration that follows clears the power controller again without repeating that, so the
  machine starts with VOSSR zero and firmware that waits for VOSRDY before it writes VOSCR waits
  for ever.\<close>

theorem soc_boot_power_flags:
  "so_pwr (stm32h563_mmio_reset s) (0x14 div 4) = 0x2008 \<and> so_pwr (snd (soc_boot s)) (0x14 div 4) = 0"
  by (simp add: soc_boot_def stm32h563_register_mmio_def stm32h563_timers_init_def stm32h563_mmio_reset_def
    soc_defaults_def pwr_update_vos_def Let_def case_prod_beta)

text \<open>On any state that extends that of this SoC the loops of the tick come to an end.\<close>

lemma tick_completes: "\<exists>s'. stm32h563_timers_tick cycles (s :: 'a soc_scheme) = Some s'"
proof -
  have "\<exists>s'. stm32h563_watchdog_tick cycles x = Some s'" for x :: "'a soc_scheme"
    unfolding stm32h563_watchdog_tick_def
    using watchdog_tick_returns [of "so_rcc x" cycles "\<lparr>wd_wwdg = so_wwdg x, wd_iwdg = so_iwdg x,
      wd_nvic = nvic_ptr (so_exti_nvic x) x, wd_reset_requested = so_reset_requested x\<rparr>"] by auto
  then show ?thesis by (simp add: stm32h563_timers_tick_def Let_def case_prod_beta)
qed

text \<open>C23: the tick of the SoC always completes: whatever the registers, prescalers, counters and cycle
  count, the four timers and both watchdog loops come to an end.\<close>

theorem soc_tick_returns: "\<exists>s'. stm32h563_timers_tick cycles (s :: soc) = Some s'"
  by (rule tick_completes)

end
