(* ===== verification/Nrf_Timers.thy ===== *)
theory Nrf_Timers
imports Soc_Regs
begin

text \<open>
  The timers and watchdogs of the nRF5340, \<^verbatim>\<open>cpu/nrf5340/nrf5340_timers.c\<close> and
  \<^verbatim>\<open>cpu/nrf5340/nrf5340_wdt.c\<close>.  An operation works on one instance; the interrupt controller is None
  while its pointer is null.  The tick adds any number of cycles at once and compares the interval
  it jumps over with the six compare registers; \<^verbatim>\<open>nrf_timer_step\<close> is the reference, one count at a
  time.
\<close>

subsection \<open>Timers\<close>

abbreviation "NRF_TIMER_SIZE \<equiv> (0x1000 :: u32)"
abbreviation "TIMER_MAX_CC \<equiv> (6 :: nat)"
abbreviation "INTENSET_WORD \<equiv> (0x304 div 4 :: nat)"

record nrf_timer =
  nt_regs :: regs
  nt_cc :: "nat \<Rightarrow> u32"
  nt_counter :: u32
  nt_accum :: u64
  nt_running :: bool
  nt_irq :: u32

definition timer_bitmask :: "nrf_timer \<Rightarrow> u32"
  where "timer_bitmask t =
    (let m = nt_regs t (0x508 div 4) AND 0x3 in
     if m = 0 then 0xFFFF else if m = 1 then 0xFF else if m = 2 then 0xFFFFFF else 0xFFFFFFFF)"

definition timer_raise_irq :: "nat \<Rightarrow> nrf_timer \<times> mm_nvic option \<Rightarrow> nrf_timer \<times> mm_nvic option"
  where "timer_raise_irq ch x =
    (let (t, g_nvic) = x in
     if nt_regs t INTENSET_WORD AND push_bit ch 1 = 0 then x
     else (t, map_option (\<lambda>n. mm_nvic_set_pending n (nt_irq t) True) g_nvic))"

definition event_word :: "nat \<Rightarrow> nat"
  where "event_word ch = (0x140 + ch * 4) div 4"

definition timer_set_event :: "nat \<Rightarrow> nrf_timer \<times> mm_nvic option \<Rightarrow> nrf_timer \<times> mm_nvic option"
  where "timer_set_event ch x =
    (let (t, g_nvic) = x in timer_raise_irq ch (t\<lparr>nt_regs := (nt_regs t)(event_word ch := 1)\<rparr>, g_nvic))"

definition nrf_timer_read :: "u32 \<Rightarrow> u32 \<Rightarrow> nrf_timer \<Rightarrow> u32 option"
  where "nrf_timer_read offset size_bytes t =
    (if bad_size size_bytes then None
     else if offset + size_bytes > NRF_TIMER_SIZE then None
     else if offset \<ge> 0x540 \<and> offset < 0x540 + 24 \<and> size_bytes = 4 then Some (nt_cc t (unat ((offset - 0x540) div 4)))
     else if offset = 0x008 \<and> size_bytes = 4 then Some (nt_counter t)
     else Some (nt_regs t (unat (offset div 4))))"

definition nrf_timer_write :: "u32 \<Rightarrow> u32 \<Rightarrow> u32 \<Rightarrow> nrf_timer \<Rightarrow> bool \<times> nrf_timer"
  where "nrf_timer_write offset size_bytes v t =
    (if bad_size size_bytes then (False, t)
     else if offset + size_bytes > NRF_TIMER_SIZE then (False, t)
     else (True,
       let w = (size_bytes = 4); set = (\<lambda>i x. t\<lparr>nt_regs := (nt_regs t)(i := x)\<rparr>) in
       if offset = 0x000 \<and> w then (if v AND 1 \<noteq> 0 then t\<lparr>nt_running := True\<rparr> else t)
       else if offset = 0x004 \<and> w then (if v AND 1 \<noteq> 0 then t\<lparr>nt_running := False\<rparr> else t)
       else if offset = 0x00C \<and> w then (if v AND 1 \<noteq> 0 then t\<lparr>nt_counter := 0\<rparr> else t)
       else if offset = 0x008 \<and> w then
         (if v AND 1 \<noteq> 0 then t\<lparr>nt_counter := (nt_counter t + 1) AND timer_bitmask t\<rparr> else t)
       else if offset = 0x010 \<and> w then (if v AND 1 \<noteq> 0 then t\<lparr>nt_running := False\<rparr> else t)
       else if offset \<ge> 0x140 \<and> offset < 0x140 + 24 \<and> w then set (unat (offset div 4)) v
       else if offset = 0x304 \<and> w then set INTENSET_WORD (nt_regs t INTENSET_WORD OR v)
       else if offset = 0x308 \<and> w then set INTENSET_WORD (nt_regs t INTENSET_WORD AND NOT v)
       else if offset \<ge> 0x540 \<and> offset < 0x540 + 24 \<and> w then
         t\<lparr>nt_cc := (nt_cc t)(unat ((offset - 0x540) div 4) := v)\<rparr>
       else set (unat (offset div 4)) v))"

definition zero_nrf_timer :: nrf_timer
  where "zero_nrf_timer = \<lparr>nt_regs = (\<lambda>_. 0), nt_cc = (\<lambda>_. 0), nt_counter = 0, nt_accum = 0, nt_running = False, nt_irq = 0\<rparr>"

definition nrf_timers_fresh :: "nrf_timer list"
  where "nrf_timers_fresh = map (\<lambda>irq. zero_nrf_timer\<lparr>nt_irq := irq\<rparr>) [15, 16, 17]"

text \<open>Whether the interval the counter jumped over contains a compare value.\<close>

definition crossed :: "u32 \<Rightarrow> u32 \<Rightarrow> u32 \<Rightarrow> bool"
  where "crossed old now cc = (if old \<le> now then cc > old \<and> cc \<le> now else cc > old \<or> cc \<le> now)"

definition nrf_timer_div :: "nrf_timer \<Rightarrow> u64"
  where "nrf_timer_div t =
    (let prescaler = nt_regs t (0x510 div 4) AND 0xF; dv = push_bit (unat prescaler) 1 in if dv = 0 then 1 else dv)"

definition nrf_timer_tick :: "bool \<Rightarrow> u64 \<Rightarrow> nrf_timer \<times> mm_nvic option \<Rightarrow> nrf_timer \<times> mm_nvic option"
  where "nrf_timer_tick hf_running cycles x =
    (let (t, g_nvic) = x in
     if \<not> nt_running t then x
     else if \<not> hf_running then x
     else
       (let dv = nrf_timer_div t;
            accum = nt_accum t + cycles;
            ticks = accum div dv;
            t = t\<lparr>nt_accum := accum mod dv\<rparr>
        in if ticks = 0 then (t, g_nvic)
           else
             (let msk = timer_bitmask t; old = nt_counter t; now = (old + to_u32 ticks) AND msk
              in fold (\<lambda>ch x. if crossed old now (nt_cc t ch AND msk) then timer_set_event ch x else x) [0..<TIMER_MAX_CC]
                   (t\<lparr>nt_counter := now\<rparr>, g_nvic))))"

fun nrf_timers_each :: "bool \<Rightarrow> u64 \<Rightarrow> nrf_timer list \<Rightarrow> mm_nvic option \<Rightarrow> nrf_timer list \<times> mm_nvic option" where
  "nrf_timers_each hf cycles [] g = ([], g)"
| "nrf_timers_each hf cycles (t # ts) g =
    (let (t, g) = nrf_timer_tick hf cycles (t, g); (ts, g) = nrf_timers_each hf cycles ts g in (t # ts, g))"

subsection \<open>Watchdogs\<close>

abbreviation "WDT_SIZE \<equiv> (0x1000 :: u32)"

record nrf_wdt =
  nw_regs :: regs
  nw_crv :: u32
  nw_counter :: u32
  nw_accum :: u64
  nw_running :: bool
  nw_irq :: u32

definition wdt_cycles_per_tick :: "u64 \<Rightarrow> u64"
  where "wdt_cycles_per_tick hz = (if hz = 0 then 1 else hz div 32768)"

definition wdt_raise_irq :: "nrf_wdt \<Rightarrow> mm_nvic option \<Rightarrow> mm_nvic option"
  where "wdt_raise_irq w g_nvic =
    (if nw_regs w INTENSET_WORD AND 1 = 0 then g_nvic
     else map_option (\<lambda>n. mm_nvic_set_pending n (nw_irq w) True) g_nvic)"

definition wdt_read :: "u32 \<Rightarrow> u32 \<Rightarrow> nrf_wdt \<Rightarrow> u32 option"
  where "wdt_read offset size_bytes w =
    (if bad_size size_bytes then None
     else if offset + size_bytes > WDT_SIZE then None
     else if offset = 0x400 \<and> size_bytes = 4 then Some (if nw_running w then 1 else 0)
     else if offset = 0x404 \<and> size_bytes = 4 then Some (if nw_running w then nw_regs w (0x508 div 4) AND 0xFF else 0)
     else if offset = 0x504 \<and> size_bytes = 4 then Some (nw_crv w)
     else Some (nw_regs w (unat (offset div 4))))"

definition wdt_reload :: "nrf_wdt \<Rightarrow> nrf_wdt"
  where "wdt_reload w = w\<lparr>nw_counter := nw_crv w, nw_regs := (nw_regs w)(0x100 div 4 := 0)\<rparr>"

definition wdt_write :: "u32 \<Rightarrow> u32 \<Rightarrow> u32 \<Rightarrow> nrf_wdt \<Rightarrow> bool \<times> nrf_wdt"
  where "wdt_write offset size_bytes v w =
    (if bad_size size_bytes then (False, w)
     else if offset + size_bytes > WDT_SIZE then (False, w)
     else (True,
       let word = (size_bytes = 4); set = (\<lambda>i x. w\<lparr>nw_regs := (nw_regs w)(i := x)\<rparr>) in
       if offset = 0x000 \<and> word then (if v AND 1 \<noteq> 0 then wdt_reload (w\<lparr>nw_running := True\<rparr>) else w)
       else if offset = 0x004 \<and> word then (if v AND 1 \<noteq> 0 then w\<lparr>nw_running := False\<rparr> else w)
       else if offset = 0x504 \<and> word then w\<lparr>nw_crv := v\<rparr>
       else if offset = 0x508 \<and> word then set (0x508 div 4) (v AND 0xFF)
       else if offset = 0x304 \<and> word then set INTENSET_WORD (nw_regs w INTENSET_WORD OR v)
       else if offset = 0x308 \<and> word then set INTENSET_WORD (nw_regs w INTENSET_WORD AND NOT v)
       else if offset = 0x100 \<and> word then set (0x100 div 4) v
       else if offset = 0x600 \<and> word then wdt_reload w
       else set (unat (offset div 4)) v))"

definition nrf_wdt_fresh :: "u32 \<Rightarrow> nrf_wdt"
  where "nrf_wdt_fresh irq = \<lparr>nw_regs = (\<lambda>_. 0)(0x508 div 4 := 1), nw_crv = 0xFFFFFFFF, nw_counter = 0, nw_accum = 0,
    nw_running = False, nw_irq = irq\<rparr>"

definition nrf_wdt_reset :: "nrf_wdt list \<Rightarrow> nrf_wdt list"
  where "nrf_wdt_reset ws = map (\<lambda>w. nrf_wdt_fresh (nw_irq w)) ws"

text \<open>The state of the tick: the watchdog, the interrupt controller and the request for a reset.\<close>

definition nrf_wdt_tick :: "u64 \<Rightarrow> u64 \<Rightarrow> nrf_wdt \<times> mm_nvic option \<times> bool \<Rightarrow> nrf_wdt \<times> mm_nvic option \<times> bool"
  where "nrf_wdt_tick hz cycles x =
    (let (w, g_nvic, reset) = x; dv = wdt_cycles_per_tick hz; dv = (if dv = 0 then 1 else dv) in
     if \<not> nw_running w then x
     else
       (let accum = nw_accum w + cycles; ticks = accum div dv; w = w\<lparr>nw_accum := accum mod dv\<rparr> in
        if ticks = 0 then (w, g_nvic, reset)
        else if to_u64 (nw_counter w) \<le> ticks then
          (let w = w\<lparr>nw_counter := 0, nw_regs := (nw_regs w)(0x100 div 4 := 1)\<rparr> in (w, wdt_raise_irq w g_nvic, True))
        else (w\<lparr>nw_counter := nw_counter w - to_u32 ticks\<rparr>, g_nvic, reset)))"

fun nrf_wdts_each ::
  "u64 \<Rightarrow> u64 \<Rightarrow> nrf_wdt list \<Rightarrow> mm_nvic option \<times> bool \<Rightarrow> nrf_wdt list \<times> mm_nvic option \<times> bool" where
  "nrf_wdts_each hz cycles [] g = ([], g)"
| "nrf_wdts_each hz cycles (w # ws) g =
    (let (w, g) = nrf_wdt_tick hz cycles (w, g); (ws, g) = nrf_wdts_each hz cycles ws g in (w # ws, g))"

subsection \<open>Counting one at a time\<close>

text \<open>The reference: one count, with an event for each compare register that the counter reaches.\<close>

definition nrf_timer_step :: "nrf_timer \<times> mm_nvic option \<Rightarrow> nrf_timer \<times> mm_nvic option"
  where "nrf_timer_step x =
    (let (t, g_nvic) = x; msk = timer_bitmask t; now = (nt_counter t + 1) AND msk
     in fold (\<lambda>ch x. if nt_cc t ch AND msk = now then timer_set_event ch x else x) [0..<TIMER_MAX_CC]
          (t\<lparr>nt_counter := now\<rparr>, g_nvic))"

text \<open>The joint effect of the events of a set of channels.\<close>

definition fire :: "nat set \<Rightarrow> nrf_timer \<times> mm_nvic option \<Rightarrow> nrf_timer \<times> mm_nvic option"
  where "fire A x =
    (let (t, g) = x
     in (t\<lparr>nt_regs := override_on (nt_regs t) (\<lambda>_. 1) (event_word ` A)\<rparr>,
         if \<exists>ch\<in>A. nt_regs t INTENSET_WORD AND push_bit ch 1 \<noteq> 0
         then map_option (\<lambda>n. mm_nvic_set_pending n (nt_irq t) True) g else g))"

lemma pending_opt_idem:
  "map_option (\<lambda>n. mm_nvic_set_pending n i True) (map_option (\<lambda>n. mm_nvic_set_pending n i True) g) =
   map_option (\<lambda>n. mm_nvic_set_pending n i True) g"
  by (cases g) (simp_all add: set_pending_idem)

lemma event_word_inset: "ch < 6 \<Longrightarrow> event_word ch \<noteq> INTENSET_WORD"
  by (simp add: event_word_def)

lemma fire_inset: "A \<subseteq> {..<6} \<Longrightarrow> override_on r f (event_word ` A) INTENSET_WORD = r INTENSET_WORD"
  using event_word_inset by (intro override_on_apply_notin) (metis imageE lessThan_iff subsetD)

lemma set_event_fire: "timer_set_event ch x = fire {ch} x" if "ch < 6"
  using event_word_inset [OF that]
  by (cases x) (simp add: timer_set_event_def timer_raise_irq_def fire_def override_on_insert')

lemma fire_fire: "A \<subseteq> {..<6} \<Longrightarrow> fire B (fire A x) = fire (A \<union> B) x"
proof -
  assume A: "A \<subseteq> {..<6}"
  have "override_on (override_on r (\<lambda>_. 1) (event_word ` A)) (\<lambda>_. 1) (event_word ` B) =
      override_on r (\<lambda>_. 1) (event_word ` (A \<union> B))" for r :: regs
    by (intro ext) (auto simp: override_on_def)
  moreover have "override_on r f (event_word ` A) 193 = r 193" for r f :: regs using fire_inset [OF A] by simp
  ultimately show ?thesis by (cases x) (simp add: fire_def pending_opt_idem ball_Un bex_Un)
qed

lemma fire_none [simp]: "fire {} x = x"
  by (cases x) (simp add: fire_def)

lemma fold_fire:
  "n \<le> 6 \<Longrightarrow> fold (\<lambda>ch x. if C ch then timer_set_event ch x else x) [0..<n] x = fire {ch. ch < n \<and> C ch} x"
proof (induction n)
  case (Suc n)
  have "{ch. ch < n \<and> C ch} \<union> {n} = {ch. ch < Suc n \<and> C ch}" if "C n" using that by auto
  moreover have "{ch. ch < n \<and> C ch} = {ch. ch < Suc n \<and> C ch}" if "\<not> C n" using that by (auto simp: less_Suc_eq)
  moreover have "{ch. ch < n \<and> C ch} \<subseteq> {..<6}" using Suc.prems by auto
  ultimately show ?case using Suc by (simp add: set_event_fire fire_fire)
qed simp

lemma step_fire:
  "nrf_timer_step (t, g) =
    (let msk = timer_bitmask t; now = (nt_counter t + 1) AND msk
     in fire {ch. ch < 6 \<and> nt_cc t ch AND msk = now} (t\<lparr>nt_counter := now\<rparr>, g))"
  by (simp add: nrf_timer_step_def fold_fire Let_def)

lemma fire_fields [simp]:
  "nt_counter (fst (fire A x)) = nt_counter (fst x)" "nt_cc (fst (fire A x)) = nt_cc (fst x)"
  by (simp_all add: fire_def case_prod_beta)

lemma fire_bitmask [simp]: "A \<subseteq> {..<6} \<Longrightarrow> timer_bitmask (fst (fire A x)) = timer_bitmask (fst x)"
proof -
  assume "A \<subseteq> {..<6}"
  then have "0x508 div 4 \<notin> event_word ` A" by (auto simp: event_word_def)
  then show ?thesis by (simp add: fire_def timer_bitmask_def case_prod_beta override_on_def)
qed

lemma fire_counter:
  "(fst (fire A x))\<lparr>nt_counter := c\<rparr> = fst (fire A ((fst x)\<lparr>nt_counter := c\<rparr>, snd x))"
  "snd (fire A ((fst x)\<lparr>nt_counter := c\<rparr>, snd x)) = snd (fire A x)"
  by (simp_all add: fire_def case_prod_beta)

lemma bitmask_mask: "\<exists>w. timer_bitmask t = mask w \<and> w \<le> 32 \<and> 8 \<le> w"
proof -
  have "(0xFF :: u32) = mask 8" "(0xFFFF :: u32) = mask 16" "(0xFFFFFF :: u32) = mask 24" "(0xFFFFFFFF :: u32) = mask 32"
    by (simp_all add: mask_eq_exp_minus_1)
  then show ?thesis unfolding timer_bitmask_def Let_def by (auto intro: exI [of _ 8] exI [of _ 16] exI [of _ 24] exI [of _ 32])
qed

lemma unat_masked: "w \<le> 32 \<Longrightarrow> unat (x AND mask w) = unat x mod 2 ^ w" for x :: u32
  by (simp only: take_bit_eq_mask [symmetric] unsigned_take_bit_eq) (simp add: take_bit_eq_mod)

lemma masked_next: "w \<le> 32 \<Longrightarrow> ((x AND mask w) + 1) AND mask w = (x + 1) AND mask w" for x :: u32
proof -
  assume w: "w \<le> 32"
  then have "(2 :: nat) ^ w dvd 2 ^ 32" by (rule le_imp_power_dvd)
  then have "n mod 2 ^ 32 mod 2 ^ w = n mod 2 ^ w" for n :: nat by (rule mod_mod_cancel)
  then have "unat (((x AND mask w) + 1) AND mask w) = unat ((x + 1) AND mask w)"
    unfolding unat_masked [OF w] unat_word_ariths by (simp add: mod_Suc_eq)
  then show ?thesis by (simp add: word_unat_eq_iff)
qed

lemma step_iterate:
  assumes m: "timer_bitmask t = mask w" "w \<le> 32" and c: "nt_counter t AND mask w = nt_counter t"
  shows "(nrf_timer_step ^^ k) (t, g) =
    fire {ch. ch < 6 \<and> (\<exists>j. 0 < j \<and> j \<le> k \<and> (nt_counter t + of_nat j) AND mask w = nt_cc t ch AND mask w)}
      (t\<lparr>nt_counter := (nt_counter t + of_nat k) AND mask w\<rparr>, g)"
proof (induction k)
  case 0
  have "{ch. ch < 6 \<and> (\<exists>j. 0 < j \<and> j \<le> 0 \<and> (nt_counter t + of_nat j) AND mask w = nt_cc t ch AND mask w)} = {}" by simp
  then show ?case using c by simp
next
  case (Suc k)
  define hit where "hit = (\<lambda>j ch. (nt_counter t + of_nat j) AND mask w = nt_cc t ch AND mask w)"
  define A where "A = (\<lambda>k. {ch. ch < 6 \<and> (\<exists>j. 0 < j \<and> j \<le> k \<and> hit j ch)})"
  define x where "x = fire (A k) (t\<lparr>nt_counter := (nt_counter t + of_nat k) AND mask w\<rparr>, g)"
  have A: "A k \<subseteq> {..<6}" by (auto simp: A_def)
  have msk: "timer_bitmask (fst x) = mask w" using A m(1) by (simp add: x_def) (simp add: timer_bitmask_def)
  have cnt: "(nt_counter (fst x) + 1) AND mask w = (nt_counter t + of_nat (Suc k)) AND mask w"
    using masked_next [OF m(2), of "nt_counter t + of_nat k"] by (simp add: x_def add.commute add.left_commute)
  have "A k \<union> {ch. ch < 6 \<and> nt_cc t ch AND mask w = (nt_counter t + of_nat (Suc k)) AND mask w} = A (Suc k)"
    by (auto simp: A_def hit_def le_Suc_eq)
  moreover have "nt_cc (fst x) = nt_cc t" by (simp add: x_def)
  moreover have "((fst x)\<lparr>nt_counter := c\<rparr>, snd x) = fire (A k) (t\<lparr>nt_counter := c\<rparr>, g)" for c
    using fire_counter [where A = "A k" and x = "(t\<lparr>nt_counter := (nt_counter t + of_nat k) AND mask w\<rparr>, g)" and c = c]
    by (simp add: x_def prod_eq_iff)
  ultimately have "nrf_timer_step x = fire (A (Suc k)) (t\<lparr>nt_counter := (nt_counter t + of_nat (Suc k)) AND mask w\<rparr>, g)"
    using step_fire [of "fst x" "snd x"] fire_fire [OF A] by (simp add: msk cnt Let_def)
  then show ?case using Suc by (simp add: x_def A_def hit_def)
qed

lemma crossed_iff:
  assumes "0 < n" "n < 2 ^ w" "unat old < 2 ^ w" "unat cc < 2 ^ w" "unat now = (unat old + n) mod 2 ^ w"
  shows "crossed old now cc \<longleftrightarrow> (\<exists>j. 0 < j \<and> j \<le> n \<and> (unat old + j) mod 2 ^ w = unat cc)"
proof (cases "unat old + n < 2 ^ w")
  case True
  then have now: "unat now = unat old + n" using assms(5) by simp
  have "(\<exists>j. 0 < j \<and> j \<le> n \<and> (unat old + j) mod 2 ^ w = unat cc) \<longleftrightarrow> unat old < unat cc \<and> unat cc \<le> unat old + n"
  proof
    assume "\<exists>j. 0 < j \<and> j \<le> n \<and> (unat old + j) mod 2 ^ w = unat cc"
    then obtain j where "0 < j" "j \<le> n" "(unat old + j) mod 2 ^ w = unat cc" by blast
    then show "unat old < unat cc \<and> unat cc \<le> unat old + n" using True by simp
  next
    assume "unat old < unat cc \<and> unat cc \<le> unat old + n"
    then show "\<exists>j. 0 < j \<and> j \<le> n \<and> (unat old + j) mod 2 ^ w = unat cc"
      using assms(4) by (intro exI [of _ "unat cc - unat old"]) auto
  qed
  then show ?thesis using now assms(1) by (simp add: crossed_def word_less_nat_alt word_le_nat_alt)
next
  case False
  have "(unat old + n) mod 2 ^ w = unat old + n - 2 ^ w" using False assms(2,3) by (simp add: mod_if)
  then have now: "unat now = unat old + n - 2 ^ w" using assms(5) by simp
  have "(\<exists>j. 0 < j \<and> j \<le> n \<and> (unat old + j) mod 2 ^ w = unat cc) \<longleftrightarrow> unat old < unat cc \<or> unat cc \<le> unat old + n - 2 ^ w"
  proof
    assume "\<exists>j. 0 < j \<and> j \<le> n \<and> (unat old + j) mod 2 ^ w = unat cc"
    then obtain j where j: "0 < j" "j \<le> n" "(unat old + j) mod 2 ^ w = unat cc" by blast
    have "unat cc = (if unat old + j < 2 ^ w then unat old + j else unat old + j - 2 ^ w)"
      using j assms(2,3) by (simp add: le_mod_geq not_less flip: j(3))
    then show "unat old < unat cc \<or> unat cc \<le> unat old + n - 2 ^ w" using j by (auto split: if_splits)
  next
    assume d: "unat old < unat cc \<or> unat cc \<le> unat old + n - 2 ^ w"
    show "\<exists>j. 0 < j \<and> j \<le> n \<and> (unat old + j) mod 2 ^ w = unat cc"
    proof (cases "unat old < unat cc")
      case True
      then show ?thesis using assms(4) False by (intro exI [of _ "unat cc - unat old"]) simp
    next
      case F: False
      then show ?thesis using d assms(3,4) False by (intro exI [of _ "2 ^ w - unat old + unat cc"]) auto
    qed
  qed
  then show ?thesis using now False assms(2,3) by (simp add: crossed_def word_less_nat_alt word_le_nat_alt) linarith
qed

lemma unat_masked_add: "w \<le> 32 \<Longrightarrow> unat ((x + of_nat n) AND mask w) = (unat x + n) mod 2 ^ w" for x :: u32
proof -
  assume w: "w \<le> 32"
  then have "(2 :: nat) ^ w dvd 2 ^ 32" by (rule le_imp_power_dvd)
  then have "k mod 2 ^ 32 mod 2 ^ w = k mod 2 ^ w" for k :: nat by (rule mod_mod_cancel)
  then show ?thesis unfolding unat_masked [OF w] unat_word_ariths by (simp add: unat_of_nat mod_simps)
qed

lemma masked_less: "w \<le> 32 \<Longrightarrow> unat (x AND mask w) < 2 ^ w" for x :: u32
  by (simp add: unat_masked)

lemma crossed_masked:
  assumes "w \<le> 32" "0 < n" "n < 2 ^ w" "old AND mask w = old"
  shows "crossed old ((old + of_nat n) AND mask w) (cc AND mask w) \<longleftrightarrow>
    (\<exists>j. 0 < j \<and> j \<le> n \<and> (old + of_nat j) AND mask w = cc AND mask w)"
proof -
  have "(old + of_nat j) AND mask w = cc AND mask w \<longleftrightarrow> (unat old + j) mod 2 ^ w = unat (cc AND mask w)" for j
    by (simp add: word_unat_eq_iff unat_masked_add [OF assms(1)])
  moreover have "unat old < 2 ^ w" using masked_less [OF assms(1), of old] assms(4) by simp
  ultimately show ?thesis
    using crossed_iff [OF assms(2,3), of old "cc AND mask w" "(old + of_nat n) AND mask w"] masked_less [OF assms(1), of cc]
    by (simp add: unat_masked_add [OF assms(1)])
qed

text \<open>C27: advancing an nRF timer by a batch of cycles is the same as counting one by one.  For a running
  timer whose counter is within its width and a batch of fewer than a full period of counts, the
  tick leaves exactly the counter, the compare events and the pending interrupts that stepping the
  counter one count at a time leaves, in every width and with every prescaler.\<close>

theorem nrf_timer_tick_is_stepping:
  assumes "nt_running t" "nt_counter t AND timer_bitmask t = nt_counter t"
    "ticks = (nt_accum t + cycles) div nrf_timer_div t" "unat ticks \<le> unat (timer_bitmask t)"
  shows "nrf_timer_tick True cycles (t, g) =
    (nrf_timer_step ^^ unat ticks) (t\<lparr>nt_accum := (nt_accum t + cycles) mod nrf_timer_div t\<rparr>, g)"
proof -
  obtain w where w: "timer_bitmask t = mask w" "w \<le> 32" using bitmask_mask by blast
  define t1 where "t1 = t\<lparr>nt_accum := (nt_accum t + cycles) mod nrf_timer_div t\<rparr>"
  have t1: "timer_bitmask t1 = mask w" "nt_counter t1 = nt_counter t" "nt_cc t1 = nt_cc t"
    using w(1) by (simp_all add: t1_def timer_bitmask_def)
  have n: "unat ticks < 2 ^ w" using assms(4) masked_less [OF w(2), of "mask w"] w(1) by simp
  have c: "nt_counter t AND mask w = nt_counter t" using assms(2) w(1) by simp
  have tick: "nrf_timer_tick True cycles (t, g) =
      (if ticks = 0 then (t1, g)
       else fire {ch. ch < 6 \<and> crossed (nt_counter t) ((nt_counter t + to_u32 ticks) AND mask w) (nt_cc t ch AND mask w)}
         (t1\<lparr>nt_counter := (nt_counter t + to_u32 ticks) AND mask w\<rparr>, g))"
    using assms(1) t1 by (simp add: nrf_timer_tick_def fold_fire Let_def flip: t1_def assms(3))
  have "to_u32 ticks = of_nat (unat ticks)" by (simp add: to_u32_def)
  then show ?thesis
    using step_iterate [OF t1(1) w(2), of "unat ticks" g] crossed_masked [OF w(2) _ n c] c unat_gt_0 [of ticks]
    by (auto simp: tick t1 simp flip: t1_def)
qed

definition demo_nrf_timer :: nrf_timer
  where "demo_nrf_timer = zero_nrf_timer\<lparr>nt_regs := (\<lambda>_. 0)(0x508 div 4 := 1, 0x510 div 4 := 2), nt_cc := (\<lambda>_. 0)(3 := 7),
    nt_counter := 250, nt_running := True\<rparr>"

lemma demo_timer_facts: "timer_bitmask demo_nrf_timer = 0xFF" "nrf_timer_div demo_nrf_timer = 4"
  by (simp_all add: timer_bitmask_def nrf_timer_div_def demo_nrf_timer_def zero_nrf_timer_def)

theorem nrf_timer_tick_is_stepping_witness:
  "nrf_timer_tick True 83 (demo_nrf_timer, None) = (nrf_timer_step ^^ 20) (demo_nrf_timer\<lparr>nt_accum := 3\<rparr>, None)"
proof -
  have a: "nt_accum demo_nrf_timer = 0" by (simp add: demo_nrf_timer_def zero_nrf_timer_def)
  have "nrf_timer_tick True 83 (demo_nrf_timer, None) =
      (nrf_timer_step ^^ unat (20 :: u64)) (demo_nrf_timer\<lparr>nt_accum := (nt_accum demo_nrf_timer + 83) mod nrf_timer_div demo_nrf_timer\<rparr>, None)"
    by (rule nrf_timer_tick_is_stepping)
     (simp_all add: demo_timer_facts a, simp_all add: demo_nrf_timer_def zero_nrf_timer_def)
  then show ?thesis by (simp add: demo_timer_facts a)
qed

text \<open>A batch of exactly one period leaves the counter where it was and is taken for no counts at all:
  the compare event in between is lost.\<close>

lemma nrf_timer_full_period_lost:
  "nt_regs (fst (nrf_timer_tick True 1024 (demo_nrf_timer, None))) (event_word 3) = 0"
  by (simp add: nrf_timer_tick_def demo_timer_facts fold_fire Let_def)
   (simp add: demo_nrf_timer_def zero_nrf_timer_def crossed_def timer_bitmask_def to_u32_def event_word_def)

subsection \<open>When the watchdog fires\<close>

text \<open>Ticks in sequence, and the number of watchdog counts they make.\<close>

fun nrf_wdt_run :: "u64 \<Rightarrow> u64 list \<Rightarrow> nrf_wdt \<times> mm_nvic option \<times> bool \<Rightarrow> nrf_wdt \<times> mm_nvic option \<times> bool" where
  "nrf_wdt_run hz [] x = x"
| "nrf_wdt_run hz (c # cs) x = nrf_wdt_run hz cs (nrf_wdt_tick hz c x)"

lemma reset_stays: "snd (snd x) \<Longrightarrow> snd (snd (nrf_wdt_tick hz c x))"
  by (simp add: nrf_wdt_tick_def Let_def case_prod_beta)

lemma run_reset_stays: "snd (snd x) \<Longrightarrow> snd (snd (nrf_wdt_run hz cs x))"
  by (induction cs arbitrary: x) (simp_all add: reset_stays)

text \<open>The watchdog fires exactly when it has run down.  A running watchdog of the nRF5340 that is not
  reloaded requests a reset, over any sequence of ticks whose cycles do not overflow the 64-bit
  accumulator, exactly if the accumulated cycles make at least one count and as many counts of the
  32768 Hz clock as the counter holds.\<close>

theorem nrf_wdt_fires_exactly:
  assumes "nw_running w" "unat (nw_accum w) < 3906" "unat (nw_accum w) + sum_list (map unat cs) < 2 ^ 64"
  shows "snd (snd (nrf_wdt_run 128000000 cs (w, g, False))) \<longleftrightarrow>
    max 1 (unat (nw_counter w)) \<le> (unat (nw_accum w) + sum_list (map unat cs)) div 3906"
  using assms
proof (induction cs arbitrary: w g)
  case (Cons c cs)
  define tot where "tot = unat (nw_accum w) + unat c"
  define rest where "rest = sum_list (map unat cs)"
  have tot: "unat (nw_accum w + c) = tot" using Cons.prems(3) by (simp add: tot_def unat_word_ariths)
  have ticks: "unat ((nw_accum w + c) div 3906) = tot div 3906" "unat ((nw_accum w + c) mod 3906) = tot mod 3906"
    by (simp_all add: unat_div unat_mod tot)
  have "tot + rest = tot mod 3906 + rest + tot div 3906 * 3906" by simp
  then have split: "(tot + rest) div 3906 = tot div 3906 + (tot mod 3906 + rest) div 3906"
    by (metis div_mult_self1 zero_neq_numeral)
  have all: "unat (nw_accum w) + sum_list (map unat (c # cs)) = tot + rest" by (simp add: tot_def rest_def)
  note c32 = unat_to_u64 [of "nw_counter w"]
  note tick = nrf_wdt_tick_def wdt_cycles_per_tick_def Let_def
  consider (none) "tot div 3906 = 0" | (fire) "tot div 3906 \<noteq> 0" "unat (nw_counter w) \<le> tot div 3906"
    | (count) "tot div 3906 \<noteq> 0" "tot div 3906 < unat (nw_counter w)" by linarith
  then show ?case
  proof cases
    case none
    then have "(nw_accum w + c) div 3906 = 0" "tot < 3906" using ticks by (auto simp: unat_eq_0)
    then have "nrf_wdt_tick 128000000 c (w, g, False) = (w\<lparr>nw_accum := (nw_accum w + c) mod 3906\<rparr>, g, False)"
      using Cons.prems(1) by (simp add: tick)
    then show ?thesis
      unfolding all
      using Cons.IH [of "w\<lparr>nw_accum := (nw_accum w + c) mod 3906\<rparr>" g] Cons.prems(1,3) ticks(2) \<open>tot < 3906\<close>
      unfolding all by (simp add: rest_def)
  next
    case fire
    then have "(nw_accum w + c) div 3906 \<noteq> 0" "to_u64 (nw_counter w) \<le> (nw_accum w + c) div 3906"
      using ticks c32 by (auto simp: word_le_nat_alt)
    then have "snd (snd (nrf_wdt_tick 128000000 c (w, g, False)))" using Cons.prems(1) by (simp add: tick)
    then show ?thesis unfolding all using fire split by (simp add: run_reset_stays)
  next
    case count
    let ?k = "to_u32 ((nw_accum w + c) div 3906)"
    have k: "unat ?k = tot div 3906"
      using count(2) ticks(1) unat_u32_less [of "nw_counter w"] by (simp add: to_u32_def unsigned_ucast_eq take_bit_nat_eq_self)
    then have sub: "unat (nw_counter w - ?k) = unat (nw_counter w) - tot div 3906"
      using count(2) by (simp add: unat_sub word_le_nat_alt)
    have "(nw_accum w + c) div 3906 \<noteq> 0" "\<not> to_u64 (nw_counter w) \<le> (nw_accum w + c) div 3906"
      using ticks c32 count by (auto simp: word_le_nat_alt)
    then have "nrf_wdt_tick 128000000 c (w, g, False) =
        (w\<lparr>nw_accum := (nw_accum w + c) mod 3906, nw_counter := nw_counter w - ?k\<rparr>, g, False)"
      using Cons.prems(1) by (simp add: tick)
    moreover have "tot mod 3906 + rest < 2 ^ 64"
      using Cons.prems(3) mod_less_eq_dividend [of tot 3906] unfolding all by linarith
    ultimately show ?thesis
      unfolding all
      using Cons.IH [of "w\<lparr>nw_accum := (nw_accum w + c) mod 3906, nw_counter := nw_counter w - ?k\<rparr>" g] Cons.prems(1)
        count split sub ticks(2)
      by (simp flip: rest_def) linarith
  qed
qed simp

theorem nrf_wdt_fires_exactly_witness:
  "\<forall>g. \<not> snd (snd (nrf_wdt_run 128000000 [10000, 20000] ((nrf_wdt_fresh 24)\<lparr>nw_running := True, nw_counter := 10\<rparr>, g, False))) \<and>
     snd (snd (nrf_wdt_run 128000000 [10000, 30000] ((nrf_wdt_fresh 24)\<lparr>nw_running := True, nw_counter := 10\<rparr>, g, False)))"
  using nrf_wdt_fires_exactly [of "(nrf_wdt_fresh 24)\<lparr>nw_running := True, nw_counter := 10\<rparr>" "[10000, 20000]"]
    nrf_wdt_fires_exactly [of "(nrf_wdt_fresh 24)\<lparr>nw_running := True, nw_counter := 10\<rparr>" "[10000, 30000]"]
  by (simp add: nrf_wdt_fresh_def)

end
