(* ===== verification/Nrf_Mmio.thy ===== *)
theory Nrf_Mmio
imports Nrf_Timers Memmap
begin

text \<open>
  The system blocks of the nRF5340, \<^verbatim>\<open>cpu/nrf5340/nrf5340_mmio.c\<close>: clock, GPIO, flash controller (NVMC),
  random numbers and SPU, with the reset, the table of regions with the timers and watchdogs of
  \<^verbatim>\<open>Nrf_Timers\<close>, and the tick.  The calls of \<^verbatim>\<open>getrandom\<close> answer from a sequence, None for a call that
  fails; flushing a flash range to its file is recorded.
\<close>

record clock_state =
  ck_regs :: regs
  ck_hfclk_on :: bool

record gpio_bank =
  gb_regs :: regs
  gb_pin_cnf :: "nat \<Rightarrow> u32"

record nvmc_state =
  nv_regs :: regs
  nv_flash :: "u8 list option"
  nv_flash_size :: u32
  nv_persist :: bool
  nv_flags :: u32
  nv_base_s :: u32
  nv_base_ns :: u32
  nv_flushed :: "(u32 \<times> u32) list"

record nrf_rng =
  nr_regs :: regs
  nr_value :: u8
  nr_running :: bool
  nr_entropy :: "nat \<Rightarrow> u8 option"
  nr_drawn :: nat

text \<open>The checks at the head of every handler.\<close>

definition bad_access :: "u32 \<Rightarrow> u32 \<Rightarrow> u32 \<Rightarrow> bool"
  where "bad_access sz offset size_bytes = (bad_size size_bytes \<or> offset + size_bytes > sz)"

definition slice_read :: "regs \<Rightarrow> u32 \<Rightarrow> u32 \<Rightarrow> u32"
  where "slice_read r offset size_bytes = read_slice (r (unat (offset div 4))) (offset AND 3) size_bytes"

definition slice_write :: "regs \<Rightarrow> u32 \<Rightarrow> u32 \<Rightarrow> u32 \<Rightarrow> regs"
  where "slice_write r offset size_bytes v =
    r(unat (offset div 4) := apply_write (r (unat (offset div 4))) (offset AND 3) size_bytes v)"

subsection \<open>Clock\<close>

definition clock_read :: "clock_state \<Rightarrow> u32 \<Rightarrow> u32 \<Rightarrow> u32 option"
  where "clock_read c offset size_bytes =
    (if bad_access 0x1000 offset size_bytes then None
     else if (offset = 0x408 \<or> offset = 0x40C) \<and> size_bytes = 4 then Some (if ck_hfclk_on c then 1 else 0)
     else Some (slice_read (ck_regs c) offset size_bytes))"

definition clock_write :: "clock_state \<Rightarrow> u32 \<Rightarrow> u32 \<Rightarrow> u32 \<Rightarrow> bool \<times> clock_state"
  where "clock_write c offset size_bytes v =
    (if bad_access 0x1000 offset size_bytes then (False, c)
     else (True,
       if offset = 0x000 \<and> size_bytes = 4 then
         (if v AND 1 \<noteq> 0 then c\<lparr>ck_hfclk_on := True, ck_regs := (ck_regs c)(0x100 div 4 := 1)\<rparr> else c)
       else if offset = 0x004 \<and> size_bytes = 4 then (if v AND 1 \<noteq> 0 then c\<lparr>ck_hfclk_on := False\<rparr> else c)
       else if offset = 0x100 \<and> size_bytes = 4 then c\<lparr>ck_regs := (ck_regs c)(0x100 div 4 := v)\<rparr>
       else c\<lparr>ck_regs := slice_write (ck_regs c) offset size_bytes v\<rparr>))"

subsection \<open>GPIO\<close>

definition gpio_sync_inputs :: "gpio_bank \<Rightarrow> gpio_bank"
  where "gpio_sync_inputs g = g\<lparr>gb_regs := (gb_regs g)(0x010 div 4 := gb_regs g (0x004 div 4))\<rparr>"

definition nrf_gpio_read :: "gpio_bank \<Rightarrow> u32 \<Rightarrow> u32 \<Rightarrow> u32 option \<times> gpio_bank"
  where "nrf_gpio_read g offset size_bytes =
    (if bad_access 0x300 offset size_bytes then (None, g)
     else if offset \<ge> 0x200 \<and> size_bytes = 4 \<and> (offset - 0x200) div 4 < 32 then
       (Some (gb_pin_cnf g (unat ((offset - 0x200) div 4))), g)
     else
       (let g = (if offset = 0x010 \<and> size_bytes = 4 then gpio_sync_inputs g else g)
        in (Some (slice_read (gb_regs g) offset size_bytes), g)))"

definition set_gpio :: "gpio_bank \<Rightarrow> nat \<Rightarrow> u32 \<Rightarrow> gpio_bank"
  where "set_gpio g i v = g\<lparr>gb_regs := (gb_regs g)(i := v)\<rparr>"

definition nrf_gpio_write :: "gpio_bank \<Rightarrow> u32 \<Rightarrow> u32 \<Rightarrow> u32 \<Rightarrow> bool \<times> gpio_bank"
  where "nrf_gpio_write g offset size_bytes v =
    (if bad_access 0x300 offset size_bytes then (False, g)
     else (True,
       let w = (size_bytes = 4); out = 0x004 div 4; dir = 0x014 div 4 in
       if offset \<ge> 0x200 \<and> w \<and> (offset - 0x200) div 4 < 32 then
         g\<lparr>gb_pin_cnf := (gb_pin_cnf g)(unat ((offset - 0x200) div 4) := v)\<rparr>
       else if offset = 0x004 \<and> w then gpio_sync_inputs (set_gpio g out v)
       else if offset = 0x008 \<and> w then gpio_sync_inputs (set_gpio g out (gb_regs g out OR v))
       else if offset = 0x00C \<and> w then gpio_sync_inputs (set_gpio g out (gb_regs g out AND NOT v))
       else if offset = 0x014 \<and> w then set_gpio g dir v
       else if offset = 0x018 \<and> w then set_gpio g dir (gb_regs g dir OR v)
       else if offset = 0x01C \<and> w then set_gpio g dir (gb_regs g dir AND NOT v)
       else g\<lparr>gb_regs := slice_write (gb_regs g) offset size_bytes v\<rparr>))"

definition nrf_gpio_bank_read :: "(nat \<Rightarrow> gpio_bank) \<Rightarrow> int \<Rightarrow> u32"
  where "nrf_gpio_bank_read gs bank = (if bank < 0 \<or> bank \<ge> 2 then 0 else gb_regs (gs (nat bank)) (0x004 div 4))"

definition nrf_gpio_bank_read_moder :: "(nat \<Rightarrow> gpio_bank) \<Rightarrow> int \<Rightarrow> u32"
  where "nrf_gpio_bank_read_moder gs bank =
    (if bank < 0 \<or> bank \<ge> 2 then 0
     else
       (let dir = gb_regs (gs (nat bank)) (0x014 div 4)
        in fold (\<lambda>pin moder. moder OR push_bit (pin * 2) (if drop_bit pin dir AND 1 \<noteq> 0 then 1 else 0)) [0..<16] 0))"

subsection \<open>Flash controller\<close>

definition nvmc_wen :: "nvmc_state \<Rightarrow> u32"
  where "nvmc_wen n =
    (let wen = nv_regs n (0x504 div 4) AND 0x7 in if wen = 0 then nv_regs n (0x584 div 4) AND 0x3 else wen)"

definition nvmc_base :: "nvmc_state \<Rightarrow> u32 \<Rightarrow> u32"
  where "nvmc_base n addr = (if addr \<ge> nv_base_s n then nv_base_s n else nv_base_ns n)"

definition nvmc_flush :: "u32 \<Rightarrow> u32 \<Rightarrow> nvmc_state \<Rightarrow> nvmc_state"
  where "nvmc_flush addr sz n = (if nv_persist n then n\<lparr>nv_flushed := nv_flushed n @ [(addr, sz)]\<rparr> else n)"

text \<open>The array after programming: bits are only cleared.\<close>

definition nvmc_program :: "u8 list \<Rightarrow> nat \<Rightarrow> u32 \<Rightarrow> u32 \<Rightarrow> u8 list option"
  where "nvmc_program d o' size_bytes v =
    (let byte = (\<lambda>i. to_u32 (d ! (o' + i))) in
     if size_bytes = 4 then
       (let cur = byte 0 OR push_bit 8 (byte 1) OR push_bit 16 (byte 2) OR push_bit 24 (byte 3); nxt = cur AND v
        in Some (d[o' := to_u8 (nxt AND 0xFF), o' + 1 := to_u8 (drop_bit 8 nxt AND 0xFF),
             o' + 2 := to_u8 (drop_bit 16 nxt AND 0xFF), o' + 3 := to_u8 (drop_bit 24 nxt AND 0xFF)]))
     else if size_bytes = 2 then
       (let cur = byte 0 OR push_bit 8 (byte 1); nxt = cur AND v
        in Some (d[o' := to_u8 (nxt AND 0xFF), o' + 1 := to_u8 (drop_bit 8 nxt AND 0xFF)]))
     else if size_bytes = 1 then Some (d[o' := d ! o' AND to_u8 (v AND 0xFF)])
     else None)"

definition nvmc_write_cb :: "nvmc_state \<Rightarrow> u32 \<Rightarrow> u32 \<Rightarrow> u32 \<Rightarrow> bool \<times> nvmc_state"
  where "nvmc_write_cb n addr size_bytes v =
    (case nv_flash n of
       None \<Rightarrow> (False, n)
     | Some d \<Rightarrow>
       if nvmc_wen n \<noteq> 1 then (False, n)
       else
         (let base = nvmc_base n addr in
          if addr < base then (False, n)
          else if (addr - base) + size_bytes > nv_flash_size n then (False, n)
          else case nvmc_program d (unat (addr - base)) size_bytes v of
            None \<Rightarrow> (False, n)
          | Some d \<Rightarrow> (True, nvmc_flush addr size_bytes (n\<lparr>nv_flash := Some d\<rparr>))))"

definition nvmc_erase_all :: "nvmc_state \<Rightarrow> nvmc_state"
  where "nvmc_erase_all n =
    (case nv_flash n of
       None \<Rightarrow> n
     | Some d \<Rightarrow> nvmc_flush (nv_base_ns n) (nv_flash_size n) (n\<lparr>nv_flash := Some (erased 0 (unat (nv_flash_size n)) d)\<rparr>))"

definition nvmc_erase_page :: "nvmc_state \<Rightarrow> u32 \<Rightarrow> nvmc_state"
  where "nvmc_erase_page n addr =
    (case nv_flash n of
       None \<Rightarrow> n
     | Some d \<Rightarrow>
       (let base = nvmc_base n addr; offset = addr - base; page_base = (offset div 0x1000) * 0x1000 in
        if addr < base then n
        else if offset \<ge> nv_flash_size n then n
        else if page_base + 0x1000 > nv_flash_size n then n
        else nvmc_flush (base + page_base) 0x1000 (n\<lparr>nv_flash := Some (erased (unat page_base) 0x1000 d)\<rparr>)))"

definition nvmc_read :: "nvmc_state \<Rightarrow> u32 \<Rightarrow> u32 \<Rightarrow> u32 option"
  where "nvmc_read n offset size_bytes =
    (if bad_access 0x1000 offset size_bytes then None
     else if (offset = 0x400 \<or> offset = 0x408) \<and> size_bytes = 4 then Some 1
     else Some (slice_read (nv_regs n) offset size_bytes))"

definition nvmc_write :: "nvmc_state \<Rightarrow> u32 \<Rightarrow> u32 \<Rightarrow> u32 \<Rightarrow> bool \<times> nvmc_state"
  where "nvmc_write n offset size_bytes v =
    (if bad_access 0x1000 offset size_bytes then (False, n)
     else (True,
       if offset = 0x50C \<and> size_bytes = 4 then (if nvmc_wen n = 2 \<and> v AND 1 \<noteq> 0 then nvmc_erase_all n else n)
       else if offset = 0x508 \<and> size_bytes = 4 then (if nvmc_wen n = 2 then nvmc_erase_page n v else n)
       else n\<lparr>nv_regs := slice_write (nv_regs n) offset size_bytes v\<rparr>))"

definition nrf_flash_bind :: "u32 \<Rightarrow> u32 \<Rightarrow> u8 list \<Rightarrow> u32 \<Rightarrow> bool \<Rightarrow> u32 \<Rightarrow> nvmc_state \<Rightarrow> nvmc_state"
  where "nrf_flash_bind map_base_s map_base_ns flash flash_size persist flags n =
    n\<lparr>nv_flash := Some flash, nv_flash_size := flash_size, nv_persist := persist, nv_flags := flags,
      nv_base_s := map_base_s, nv_base_ns := map_base_ns\<rparr>"

subsection \<open>Random numbers and SPU\<close>

definition nrf_rng_draw :: "nrf_rng \<Rightarrow> nrf_rng"
  where "nrf_rng_draw r =
    r\<lparr>nr_value := (case nr_entropy r (nr_drawn r) of None \<Rightarrow> nr_value r | Some b \<Rightarrow> b), nr_drawn := Suc (nr_drawn r),
      nr_regs := (nr_regs r)(0x100 div 4 := 1)\<rparr>"

definition nrf_rng_read :: "nrf_rng \<Rightarrow> u32 \<Rightarrow> u32 \<Rightarrow> u32 option \<times> nrf_rng"
  where "nrf_rng_read r offset size_bytes =
    (if bad_access 0x1000 offset size_bytes then (None, r)
     else if offset = 0x508 \<and> size_bytes = 4 then
       (let r = (if nr_running r then nrf_rng_draw r else r) in (Some (to_u32 (nr_value r)), r))
     else (Some (slice_read (nr_regs r) offset size_bytes), r))"

definition nrf_rng_write :: "nrf_rng \<Rightarrow> u32 \<Rightarrow> u32 \<Rightarrow> u32 \<Rightarrow> bool \<times> nrf_rng"
  where "nrf_rng_write r offset size_bytes v =
    (if bad_access 0x1000 offset size_bytes then (False, r)
     else (True,
       let set = (\<lambda>i x. r\<lparr>nr_regs := (nr_regs r)(i := x)\<rparr>); w = (size_bytes = 4) in
       if offset = 0x000 \<and> w then (if v AND 1 \<noteq> 0 then nrf_rng_draw (r\<lparr>nr_running := True\<rparr>) else r)
       else if offset = 0x004 \<and> w then (if v AND 1 \<noteq> 0 then r\<lparr>nr_running := False\<rparr> else r)
       else if offset = 0x100 \<and> w then set (0x100 div 4) v
       else if offset = 0x304 \<and> w then set (0x304 div 4) (nr_regs r (0x304 div 4) OR v)
       else if offset = 0x308 \<and> w then set (0x304 div 4) (nr_regs r (0x304 div 4) AND NOT v)
       else r\<lparr>nr_regs := slice_write (nr_regs r) offset size_bytes v\<rparr>))"

definition spu_read :: "regs \<Rightarrow> u32 \<Rightarrow> u32 \<Rightarrow> u32 option"
  where "spu_read r offset size_bytes =
    (if bad_access 0x1000 offset size_bytes then None else Some (slice_read r offset size_bytes))"

definition spu_write :: "regs \<Rightarrow> u32 \<Rightarrow> u32 \<Rightarrow> u32 \<Rightarrow> bool \<times> regs"
  where "spu_write r offset size_bytes v =
    (if bad_access 0x1000 offset size_bytes then (False, r) else (True, slice_write r offset size_bytes v))"

subsection \<open>The SoC\<close>

text \<open>All blocks in one record.  The timers and the watchdogs hold pointers to the one interrupt
  controller, null until the timers are initialised.\<close>

record nrf_soc =
  ns_clock :: clock_state
  ns_gpio :: "nat \<Rightarrow> gpio_bank"
  ns_nvmc :: nvmc_state
  ns_rng :: nrf_rng
  ns_spu :: regs
  ns_wdts :: "nrf_wdt list"
  ns_timers :: "nrf_timer list"
  ns_nvic :: mm_nvic
  ns_nvic_set :: bool
  ns_reset_requested :: bool

definition nrf_nvic_ptr :: "nrf_soc \<Rightarrow> mm_nvic option"
  where "nrf_nvic_ptr s = (if ns_nvic_set s then Some (ns_nvic s) else None)"

definition nrf_put_nvic :: "mm_nvic option \<Rightarrow> nrf_soc \<Rightarrow> nrf_soc"
  where "nrf_put_nvic g s = (case g of None \<Rightarrow> s | Some n \<Rightarrow> s\<lparr>ns_nvic := n\<rparr>)"

definition nrf_clock_hf_running :: "nrf_soc \<Rightarrow> bool"
  where "nrf_clock_hf_running s = ck_hfclk_on (ns_clock s)"

definition nrf_cpu_hz :: u64
  where "nrf_cpu_hz = 128000000"

text \<open>Clock, GPIO, RNG and SPU cleared, as both the reset and the registration do; the entropy source is
  outside the cleared state.\<close>

definition nrf_defaults :: "nrf_soc \<Rightarrow> nrf_soc"
  where "nrf_defaults s = s\<lparr>ns_clock := \<lparr>ck_regs = (\<lambda>_. 0), ck_hfclk_on = True\<rparr>,
    ns_gpio := (\<lambda>_. \<lparr>gb_regs = (\<lambda>_. 0), gb_pin_cnf = (\<lambda>_. 0)\<rparr>),
    ns_rng := \<lparr>nr_regs = (\<lambda>_. 0), nr_value = 0, nr_running = False, nr_entropy = nr_entropy (ns_rng s),
      nr_drawn = nr_drawn (ns_rng s)\<rparr>,
    ns_spu := (\<lambda>_. 0)\<rparr>"

definition nrf5340_mmio_reset :: "nrf_soc \<Rightarrow> nrf_soc"
  where "nrf5340_mmio_reset s =
    (let s = nrf_defaults s
     in s\<lparr>ns_nvmc := (ns_nvmc s)\<lparr>nv_regs := (\<lambda>_. 0)(0x400 div 4 := 1, 0x408 div 4 := 1)\<rparr>, ns_wdts := nrf_wdt_reset (ns_wdts s)\<rparr>)"

definition nvmc_cleared :: "nvmc_state \<Rightarrow> nvmc_state"
  where "nvmc_cleared n = n\<lparr>nv_regs := (\<lambda>_. 0), nv_flash := None, nv_flash_size := 0, nv_persist := False, nv_flags := 0,
    nv_base_s := 0, nv_base_ns := 0\<rparr>"

definition nrf_clock_region :: "u32 \<Rightarrow> nrf_soc mmio_region"
  where "nrf_clock_region base = \<lparr>mr_base = base, mr_size = 0x1000,
    mr_read = Some (\<lambda>_ offset n s. (clock_read (ns_clock s) offset n, s)),
    mr_write = Some (\<lambda>_ offset n v s. let (ok, c) = clock_write (ns_clock s) offset n v in (ok, s\<lparr>ns_clock := c\<rparr>))\<rparr>"

definition nrf_gpio_region :: "u32 \<Rightarrow> nat \<Rightarrow> nrf_soc mmio_region"
  where "nrf_gpio_region base i = \<lparr>mr_base = base, mr_size = 0x300,
    mr_read = Some (\<lambda>_ offset n s. let (v, g) = nrf_gpio_read (ns_gpio s i) offset n in (v, s\<lparr>ns_gpio := (ns_gpio s)(i := g)\<rparr>)),
    mr_write = Some (\<lambda>_ offset n v s.
      let (ok, g) = nrf_gpio_write (ns_gpio s i) offset n v in (ok, s\<lparr>ns_gpio := (ns_gpio s)(i := g)\<rparr>))\<rparr>"

definition nvmc_region :: "u32 \<Rightarrow> nrf_soc mmio_region"
  where "nvmc_region base = \<lparr>mr_base = base, mr_size = 0x1000,
    mr_read = Some (\<lambda>_ offset n s. (nvmc_read (ns_nvmc s) offset n, s)),
    mr_write = Some (\<lambda>_ offset n v s. let (ok, c) = nvmc_write (ns_nvmc s) offset n v in (ok, s\<lparr>ns_nvmc := c\<rparr>))\<rparr>"

definition nrf_rng_region :: "u32 \<Rightarrow> nrf_soc mmio_region"
  where "nrf_rng_region base = \<lparr>mr_base = base, mr_size = 0x1000,
    mr_read = Some (\<lambda>_ offset n s. let (v, r) = nrf_rng_read (ns_rng s) offset n in (v, s\<lparr>ns_rng := r\<rparr>)),
    mr_write = Some (\<lambda>_ offset n v s. let (ok, r) = nrf_rng_write (ns_rng s) offset n v in (ok, s\<lparr>ns_rng := r\<rparr>))\<rparr>"

definition spu_region :: "u32 \<Rightarrow> nrf_soc mmio_region"
  where "spu_region base = \<lparr>mr_base = base, mr_size = 0x1000,
    mr_read = Some (\<lambda>_ offset n s. (spu_read (ns_spu s) offset n, s)),
    mr_write = Some (\<lambda>_ offset n v s. let (ok, r) = spu_write (ns_spu s) offset n v in (ok, s\<lparr>ns_spu := r\<rparr>))\<rparr>"

definition wdt_region :: "u32 \<Rightarrow> nat \<Rightarrow> nrf_soc mmio_region"
  where "wdt_region base i = \<lparr>mr_base = base, mr_size = WDT_SIZE,
    mr_read = Some (\<lambda>_ offset n s. (wdt_read offset n (ns_wdts s ! i), s)),
    mr_write = Some (\<lambda>_ offset n v s.
      let (ok, w) = wdt_write offset n v (ns_wdts s ! i) in (ok, s\<lparr>ns_wdts := (ns_wdts s)[i := w]\<rparr>))\<rparr>"

definition nrf_timer_region :: "u32 \<Rightarrow> nat \<Rightarrow> nrf_soc mmio_region"
  where "nrf_timer_region base i = \<lparr>mr_base = base, mr_size = NRF_TIMER_SIZE,
    mr_read = Some (\<lambda>_ offset n s. (nrf_timer_read offset n (ns_timers s ! i), s)),
    mr_write = Some (\<lambda>_ offset n v s.
      let (ok, t) = nrf_timer_write offset n v (ns_timers s ! i) in (ok, s\<lparr>ns_timers := (ns_timers s)[i := t]\<rparr>))\<rparr>"

definition nrf_block_regions :: "nrf_soc mmio_region list"
  where "nrf_block_regions =
    [nrf_clock_region 0x40005000, nrf_clock_region 0x50005000,
     nrf_gpio_region 0x40842500 0, nrf_gpio_region 0x50842500 0, nrf_gpio_region 0x40842800 1, nrf_gpio_region 0x50842800 1,
     nvmc_region 0x40039000, nvmc_region 0x50039000, nrf_rng_region 0x40845000, nrf_rng_region 0x50845000,
     spu_region 0x50003000]"

definition wdt_regions :: "nrf_soc mmio_region list"
  where "wdt_regions = [wdt_region 0x40018000 0, wdt_region 0x50018000 0, wdt_region 0x40019000 1, wdt_region 0x50019000 1]"

definition nrf_timer_regions :: "nrf_soc mmio_region list"
  where "nrf_timer_regions =
    [nrf_timer_region 0x4000F000 0, nrf_timer_region 0x5000F000 0, nrf_timer_region 0x40010000 1,
     nrf_timer_region 0x50010000 1, nrf_timer_region 0x40011000 2, nrf_timer_region 0x50011000 2]"

definition nrf5340_wdt_register :: "nrf_soc mmio_bus \<times> nrf_soc \<Rightarrow> bool \<times> nrf_soc mmio_bus \<times> nrf_soc"
  where "nrf5340_wdt_register x =
    (let (bus, s) = x; s = s\<lparr>ns_wdts := map nrf_wdt_fresh [24, 25]\<rparr>; (ok, bus) = register_seq wdt_regions bus in (ok, bus, s))"

definition nrf5340_register_mmio :: "nrf_soc mmio_bus \<times> nrf_soc \<Rightarrow> bool \<times> nrf_soc mmio_bus \<times> nrf_soc"
  where "nrf5340_register_mmio x =
    (let (bus, s) = x; s = nrf_defaults s; s = s\<lparr>ns_nvmc := nvmc_cleared (ns_nvmc s)\<rparr>;
         (ok, bus) = register_seq nrf_block_regions bus
     in if \<not> ok then (False, bus, s) else nrf5340_wdt_register (bus, s))"

definition nrf5340_timers_init :: "nrf_soc mmio_bus \<times> nrf_soc \<Rightarrow> nrf_soc mmio_bus \<times> nrf_soc"
  where "nrf5340_timers_init x =
    (let (bus, s) = x; s = s\<lparr>ns_nvic_set := True, ns_timers := nrf_timers_fresh\<rparr>
     in (snd (register_seq nrf_timer_regions bus), s))"

definition nrf5340_timers_reset :: "nrf_soc \<Rightarrow> nrf_soc"
  where "nrf5340_timers_reset s = s\<lparr>ns_timers := replicate 3 zero_nrf_timer\<rparr>"

definition nrf5340_timers_tick :: "u64 \<Rightarrow> nrf_soc \<Rightarrow> nrf_soc"
  where "nrf5340_timers_tick cycles s =
    (let (ts, g) = nrf_timers_each (nrf_clock_hf_running s) cycles (ns_timers s) (nrf_nvic_ptr s);
         s = nrf_put_nvic g (s\<lparr>ns_timers := ts\<rparr>);
         (ws, g, reset) = nrf_wdts_each nrf_cpu_hz cycles (ns_wdts s) (nrf_nvic_ptr s, ns_reset_requested s)
     in nrf_put_nvic g (s\<lparr>ns_wdts := ws, ns_reset_requested := reset\<rparr>))"

text \<open>The boot sequence of the main loop on this target, without the serial blocks.\<close>

definition nrf_boot :: "nrf_soc \<Rightarrow> nrf_soc mmio_bus \<times> nrf_soc"
  where "nrf_boot s =
    nrf5340_timers_init (snd (nrf5340_register_mmio (mmio_bus_init 128, nrf5340_timers_reset (nrf5340_mmio_reset s))))"

subsection \<open>The memory map\<close>

abbreviation "nrf_regions \<equiv> nrf_block_regions @ wdt_regions @ nrf_timer_regions"

lemmas nrf_region_defs = nrf_clock_region_def nrf_gpio_region_def nvmc_region_def nrf_rng_region_def spu_region_def
  wdt_region_def nrf_timer_region_def

lemma nrf_spans: "map span_of nrf_regions =
  [(0x40005000, 0x1000), (0x50005000, 0x1000), (0x40842500, 0x300), (0x50842500, 0x300), (0x40842800, 0x300), (0x50842800, 0x300),
   (0x40039000, 0x1000), (0x50039000, 0x1000), (0x40845000, 0x1000), (0x50845000, 0x1000), (0x50003000, 0x1000),
   (0x40018000, 0x1000), (0x50018000, 0x1000), (0x40019000, 0x1000), (0x50019000, 0x1000),
   (0x4000F000, 0x1000), (0x5000F000, 0x1000), (0x40010000, 0x1000), (0x50010000, 0x1000), (0x40011000, 0x1000), (0x50011000, 0x1000)]"
  by (simp add: nrf_block_regions_def wdt_regions_def nrf_timer_regions_def nrf_region_defs span_of_def)

lemma nrf_no_wrap: "list_all no_wrap nrf_regions"
  by (rule spans_no_wrap) (simp only: nrf_spans, simp)

lemma nrf_apart: "sorted_wrt apart nrf_regions"
  by (rule apart_spans [OF nrf_no_wrap]) (simp add: nrf_spans del: map_append)

lemma nrf_region_count: "length nrf_block_regions = 11" "length wdt_regions = 4" "length nrf_timer_regions = 6"
  by (simp_all add: nrf_block_regions_def wdt_regions_def nrf_timer_regions_def)

lemma nrf_boot_bus: "fst (nrf_boot s) = \<lparr>mb_regions = nrf_regions, mb_capacity = 128\<rparr>"
proof -
  let ?b = "\<lambda>rs. \<lparr>mb_regions = rs, mb_capacity = 128\<rparr> :: nrf_soc mmio_bus"
  have "register_seq nrf_block_regions (mmio_bus_init 128) = (True, ?b nrf_block_regions)"
    by (rule register_seq_first [OF nrf_apart]) (simp add: nrf_region_count)
  moreover have "register_seq wdt_regions (?b nrf_block_regions) = (True, ?b (nrf_block_regions @ wdt_regions))"
    using nrf_apart by (intro register_seq_append) (simp_all add: sorted_wrt_append nrf_region_count)
  moreover have "register_seq nrf_timer_regions (?b (nrf_block_regions @ wdt_regions)) = (True, ?b nrf_regions)"
    using nrf_apart register_seq_append [of "nrf_block_regions @ wdt_regions" nrf_timer_regions 128] by (simp add: nrf_region_count)
  ultimately show ?thesis
    by (simp add: nrf_boot_def nrf5340_register_mmio_def nrf5340_wdt_register_def nrf5340_timers_init_def Let_def)
qed

lemma nrf_bus_ok: "bus_ok (fst (nrf_boot s))"
  unfolding nrf_boot_bus by (rule apart_bus_ok [OF nrf_no_wrap nrf_apart]) (simp add: nrf_region_count)

lemma nrf_bus_find:
  "r \<in> set nrf_regions \<Longrightarrow> unat addr \<in> region_span r \<Longrightarrow> mmio_bus_find (fst (nrf_boot s)) addr = Some r"
  using bus_find_unique [OF nrf_bus_ok [of s], of addr r] unfolding nrf_boot_bus by simp

text \<open>The memory map of the nRF5340 is sound: booting registers the eleven block regions, the watchdogs and the
  timers without a refusal, and every address inside a region reaches that region.\<close>

theorem nrf_memory_map:
  assumes "r \<in> set nrf_regions" "unat addr \<in> region_span r"
  shows "let (bus, s') = nrf_boot s in mb_regions bus = nrf_regions \<and> mmio_bus_find bus addr = Some r"
  using nrf_bus_find [OF assms, of s] nrf_boot_bus [of s] by (simp add: case_prod_beta)

subsection \<open>Flash programming\<close>

lemma program_word:
  assumes "length d > o' + 3"
  shows "\<exists>d'. nvmc_program d o' 4 v = Some d' \<and> length d' = length d \<and>
    (\<forall>i < length d. d' ! i = (if o' \<le> i \<and> i < o' + 4 then d ! i AND to_u8 (drop_bit (8 * (i - o')) v) else d ! i))"
proof -
  have m: "to_u8 (x AND 0xFF) = to_u8 x" for x :: u32
  proof -
    have ff: "(0xFF :: u32) = mask 8" by (simp add: mask_eq_exp_minus_1)
    show ?thesis unfolding ff by (auto simp: to_u8_def bit_simps intro!: bit_word_eqI)
  qed
  define cur where "cur = to_u32 (d ! o') OR push_bit 8 (to_u32 (d ! (o' + 1))) OR push_bit 16 (to_u32 (d ! (o' + 2))) OR
    push_bit 24 (to_u32 (d ! (o' + 3)))"
  have c: "to_u8 (drop_bit (8 * k) cur) = d ! (o' + k)" if "k < 4" for k
  proof (rule bit_word_eqI)
    fix i assume i: "i < LENGTH(8)"
    have "k = 0 \<or> k = 1 \<or> k = 2 \<or> k = 3" using that by auto
    then show "bit (to_u8 (drop_bit (8 * k) cur)) i = bit (d ! (o' + k)) i"
      using i by (elim disjE) (auto simp: cur_def to_u8_def to_u32_def bit_simps dest: bit_imp_le_length)
  qed
  have n: "to_u8 (drop_bit (8 * k) (cur AND v)) = d ! (o' + k) AND to_u8 (drop_bit (8 * k) v)" if "k < 4" for k
    unfolding c [OF that, symmetric] by (auto simp: to_u8_def bit_simps intro!: bit_word_eqI)
  have b: "to_u8 (cur AND v) = d ! o' AND to_u8 v" "to_u8 (drop_bit 8 (cur AND v)) = d ! (o' + 1) AND to_u8 (drop_bit 8 v)"
    "to_u8 (drop_bit 16 (cur AND v)) = d ! (o' + 2) AND to_u8 (drop_bit 16 v)"
    "to_u8 (drop_bit 24 (cur AND v)) = d ! (o' + 3) AND to_u8 (drop_bit 24 v)"
    using n [of 0] n [of 1] n [of 2] n [of 3] by simp_all
  define d' where "d' = d[o' := d ! o' AND to_u8 v, o' + 1 := d ! (o' + 1) AND to_u8 (drop_bit 8 v),
    o' + 2 := d ! (o' + 2) AND to_u8 (drop_bit 16 v), o' + 3 := d ! (o' + 3) AND to_u8 (drop_bit 24 v)]"
  have "nvmc_program d o' 4 v = Some d'"
    unfolding nvmc_program_def d'_def b [symmetric] by (simp add: m cur_def Let_def)
  moreover have "d' ! i = (if o' \<le> i \<and> i < o' + 4 then d ! i AND to_u8 (drop_bit (8 * (i - o')) v) else d ! i)"
    if "i < length d" for i
  proof -
    consider "i = o'" | "i = o' + 1" | "i = o' + 2" | "i = o' + 3" | "i < o' \<or> o' + 4 \<le> i" by linarith
    then show ?thesis using assms by cases (auto simp: d'_def)
  qed
  ultimately show ?thesis by (simp add: d'_def)
qed

lemma apply_write_word: "apply_write c 0 4 v = v"
proof -
  have "slice_mask 4 = - 1" by (simp add: slice_mask_def)
  then show ?thesis by (simp add: apply_write_def)
qed

lemma wen_set: "w = 1 \<or> w = 2 \<Longrightarrow> nvmc_wen (snd (nvmc_write n 0x504 4 w)) = w"
  by (auto simp: nvmc_wen_def nvmc_write_def bad_access_def bad_size_def slice_write_def apply_write_word Let_def)

text \<open>The part of the controller that decides where a flash access goes.\<close>

definition same_flash :: "nvmc_state \<Rightarrow> nvmc_state \<Rightarrow> bool"
  where "same_flash n n' = (nv_flash_size n' = nv_flash_size n \<and> nv_base_s n' = nv_base_s n \<and> nv_base_ns n' = nv_base_ns n \<and>
    nv_persist n' = nv_persist n)"

lemma config_keeps:
  "same_flash n (snd (nvmc_write n 0x504 4 w))" "nv_flash (snd (nvmc_write n 0x504 4 w)) = nv_flash n"
  by (simp_all add: same_flash_def nvmc_write_def bad_access_def bad_size_def)

lemma flush_keeps [simp]:
  "same_flash n (nvmc_flush a sz m) = same_flash n m" "nv_flash (nvmc_flush a sz m) = nv_flash m"
  "nv_regs (nvmc_flush a sz m) = nv_regs m"
  by (simp_all add: same_flash_def nvmc_flush_def)

lemma page_erase:
  assumes "nv_flash n = Some d" "nvmc_wen n = 2" "base = nvmc_base n addr" "base \<le> addr"
    "page = unat (addr - base) div 0x1000 * 0x1000" "page + 0x1000 \<le> unat (nv_flash_size n)"
  shows "nv_flash (snd (nvmc_write n 0x508 4 addr)) = Some (erased page 0x1000 d) \<and> same_flash n (snd (nvmc_write n 0x508 4 addr))"
proof -
  let ?p = "(addr - base) div 0x1000 * 0x1000"
  have sz: "unat (nv_flash_size n) < 2 ^ 32" using unsigned_less [of "nv_flash_size n"] by simp
  have p: "unat ?p = page" using assms(5,6) sz by (simp add: unat_word_ariths unat_div_distrib)
  have pe: "unat (?p + 0x1000) = page + 0x1000 \<or> page + 0x1000 = 2 ^ 32"
    using p assms(6) sz by (simp add: unat_word_ariths)
  have "unat (addr - base) < page + 0x1000" using assms(5) by (simp add: dividend_less_div_times)
  then have "\<not> addr - base \<ge> nv_flash_size n" using assms(6) by (simp add: word_le_nat_alt)
  moreover have "\<not> ?p + 0x1000 > nv_flash_size n" using pe assms(6) sz by (auto simp: word_less_nat_alt)
  ultimately show ?thesis
    using assms(1,2) leD [OF assms(4)] assms(3) [symmetric] p
    by (simp add: nvmc_write_def bad_access_def bad_size_def nvmc_erase_page_def Let_def same_flash_def nvmc_flush_def)
qed

text \<open>C28: what firmware erases and programs through the flash controller of the nRF5340 is what the flash
  then holds.  With erasing enabled in CONFIG, a page erased, and writing enabled, a word stored at
  any aligned address of that page, in either alias, is accepted; the flash then holds the word at that
  address, ones in the rest of the page, and its old contents everywhere else.\<close>

theorem nrf_erase_program_roundtrip:
  assumes "nv_flash n = Some d" "length d = unat (nv_flash_size n)" "base = nvmc_base n addr" "base \<le> addr"
    "off = unat (addr - base)" "4 dvd off" "page = off div 0x1000 * 0x1000" "page + 0x1000 \<le> length d"
  shows "let n = snd (nvmc_write n 0x504 4 2); n = snd (nvmc_write n 0x508 4 addr); n = snd (nvmc_write n 0x504 4 1);
      (ok, n) = nvmc_write_cb n addr 4 v
    in ok \<and> (\<exists>d'. nv_flash n = Some d' \<and> length d' = length d \<and>
      (\<forall>i < length d. d' ! i =
        (if off \<le> i \<and> i < off + 4 then to_u8 (drop_bit (8 * (i - off)) v)
         else if page \<le> i \<and> i < page + 0x1000 then 0xFF else d ! i)))"
proof -
  define n1 where "n1 = snd (nvmc_write n 0x504 4 2)"
  define n2 where "n2 = snd (nvmc_write n1 0x508 4 addr)"
  define n3 where "n3 = snd (nvmc_write n2 0x504 4 1)"
  have n1: "nv_flash n1 = Some d" "same_flash n n1" "nvmc_wen n1 = 2"
    using assms(1) by (simp_all add: n1_def config_keeps wen_set)
  have b1: "nvmc_base n1 addr = base" using assms(3) n1(2) by (simp add: nvmc_base_def same_flash_def)
  have "page + 0x1000 \<le> unat (nv_flash_size n1)" using assms(2,8) n1(2) by (simp add: same_flash_def)
  then have n2: "nv_flash n2 = Some (erased page 0x1000 d)" "same_flash n1 n2"
    using page_erase [OF n1(1,3) b1 [symmetric] assms(4)] assms(5,7) by (simp_all add: n2_def)
  have n3: "nv_flash n3 = Some (erased page 0x1000 d)" "same_flash n2 n3" "nvmc_wen n3 = 1"
    using n2 by (simp_all add: n3_def config_keeps wen_set)
  have s3: "nvmc_base n3 addr = base" "nv_flash_size n3 = nv_flash_size n"
    using assms(3) n1(2) n2(2) n3(2) by (simp_all add: nvmc_base_def same_flash_def)
  have inp: "page \<le> off" "off + 4 \<le> page + 0x1000"
  proof -
    obtain k where k: "off = 4 * k" using assms(6) by blast
    have "off = page + off mod 0x1000" using assms(7) by simp
    moreover have "off mod 0x1000 = 4 * (k mod 0x400)" unfolding k by (simp add: mult_mod_right)
    ultimately show "page \<le> off" "off + 4 \<le> page + 0x1000" using mod_less_divisor [of "0x400" k] by linarith+
  qed
  obtain d' where d': "nvmc_program (erased page 0x1000 d) off 4 v = Some d'" "length d' = length d"
    "\<And>i. i < length d \<Longrightarrow> d' ! i = (if off \<le> i \<and> i < off + 4
        then erased page 0x1000 d ! i AND to_u8 (drop_bit (8 * (i - off)) v) else erased page 0x1000 d ! i)"
    using program_word [of off "erased page 0x1000 d" v] inp assms(8) by auto
  have ff: "(0xFF :: u8) AND x = x" for x
  proof -
    have f: "(0xFF :: u8) = mask 8" by (simp add: mask_eq_exp_minus_1)
    show ?thesis unfolding f by (auto simp: bit_simps intro!: bit_word_eqI)
  qed
  have "d' ! i = (if off \<le> i \<and> i < off + 4 then to_u8 (drop_bit (8 * (i - off)) v)
      else if page \<le> i \<and> i < page + 0x1000 then 0xFF else d ! i)" if "i < length d" for i
    using d'(3) [OF that] inp that by (auto simp: erased_nth ff)
  moreover have "unat (nv_flash_size n) < 2 ^ 32" using unsigned_less [of "nv_flash_size n"] by simp
  then have "unat (addr - base + 4) = off + 4"
    using assms(2,5,8) inp by (simp add: unat_word_ariths)
  then have "\<not> addr - base + 4 > nv_flash_size n"
    using inp assms(2,8) by (auto simp: word_less_nat_alt)
  then have "nvmc_write_cb n3 addr 4 v = (True, nvmc_flush addr 4 (n3\<lparr>nv_flash := Some d'\<rparr>))"
    using n3 s3 assms(4) d'(1) unfolding assms(5) by (simp add: nvmc_write_cb_def Let_def)
  ultimately show ?thesis
    using d'(2) unfolding n1_def [symmetric] n2_def [symmetric] n3_def [symmetric] Let_def by simp
qed

definition demo_nvmc :: nvmc_state
  where "demo_nvmc = nrf_flash_bind 0x10000000 0 (replicate 0x2000 0) 0x2000 False 0
    \<lparr>nv_regs = (\<lambda>_. 0), nv_flash = None, nv_flash_size = 0, nv_persist = False, nv_flags = 0, nv_base_s = 0, nv_base_ns = 0,
     nv_flushed = []\<rparr>"

theorem nrf_erase_program_roundtrip_witness:
  "let n = snd (nvmc_write demo_nvmc 0x504 4 2); n = snd (nvmc_write n 0x508 4 0x10001008); n = snd (nvmc_write n 0x504 4 1);
     (ok, n) = nvmc_write_cb n 0x10001008 4 0x12345678
   in ok \<and> (\<exists>d'. nv_flash n = Some d' \<and> d' ! 0x1008 = 0x78 \<and> d' ! 0x100B = 0x12 \<and> d' ! 0x100C = 0xFF \<and> d' ! 0xFFF = 0)"
proof -
  have "nv_flash demo_nvmc = Some (replicate 0x2000 0)" "nv_flash_size demo_nvmc = 0x2000" "nvmc_base demo_nvmc 0x10001008 = 0x10000000"
    by (simp_all add: demo_nvmc_def nrf_flash_bind_def nvmc_base_def)
  then show ?thesis
    using nrf_erase_program_roundtrip [of demo_nvmc "replicate 0x2000 0" "0x10000000" "0x10001008" "0x1008" "0x1000" "0x12345678"]
    by (fastforce simp: Let_def case_prod_beta to_u8_def)
qed

text \<open>Nothing else changes the flash: a register write leaves the array alone unless erasing is enabled and
  it is one of the two erase tasks, and a store is refused unless writing is enabled.\<close>

theorem nrf_flash_protected:
  "nvmc_wen n \<noteq> 2 \<or> (offset \<noteq> 0x508 \<and> offset \<noteq> 0x50C) \<Longrightarrow> nv_flash (snd (nvmc_write n offset sz v)) = nv_flash n"
  "nvmc_wen n \<noteq> 1 \<Longrightarrow> nvmc_write_cb n addr sz v = (False, n)"
  by (auto simp: nvmc_write_def nvmc_write_cb_def split: option.splits)

end
