(* ===== verification/Nrf_Serial.thy ===== *)
theory Nrf_Serial
imports Soc_Regs Spi_Bus Target_Hal
begin

text \<open>
  The serial blocks of the nRF5340, \<^verbatim>\<open>cpu/nrf5340/nrf5340_uart_spi.c\<close>: five instances, each a UART and an
  SPI master with DMA behind one set of registers.

  An operation works on one instance and on the world around it: the interrupt controller, the state
  of the high-frequency clock, the SPI devices, the current memory map (None when there is none) and
  the host side of the UARTs.  The DMA goes through the memory map's byte accesses; a DMA address
  inside the serial blocks themselves, which would re-enter their handlers, is not covered: the bus of
  the memory map does not contain the instance it is called from.  None is the result of an operation
  whose flush of the UART does not return.  The labels shown in the user interface are left out.

  The locale \<^verbatim>\<open>byte_store\<close> is what the DMA relies on, byte addresses that can be read and written
  independently; RAM behind the memory map provides it.
\<close>

abbreviation "SERIAL_SIZE \<equiv> (0x1000 :: u32)"
abbreviation "SERIAL_INTEN \<equiv> (0x304 div 4 :: nat)"
abbreviation "SERIAL_ENABLE \<equiv> (0x500 div 4 :: nat)"
abbreviation "RXD_PTR \<equiv> (0x534 div 4 :: nat)"
abbreviation "RXD_MAXCNT \<equiv> (0x538 div 4 :: nat)"
abbreviation "RXD_AMOUNT \<equiv> (0x53C div 4 :: nat)"
abbreviation "TXD_PTR \<equiv> (0x544 div 4 :: nat)"
abbreviation "TXD_MAXCNT \<equiv> (0x548 div 4 :: nat)"
abbreviation "TXD_AMOUNT \<equiv> (0x54C div 4 :: nat)"
abbreviation "ORC \<equiv> (0x5C0 div 4 :: nat)"

record serial_inst =
  sr_base :: u32
  sr_regs :: regs
  sr_bus_index :: u32
  sr_irq :: u32
  sr_has_uarte :: bool
  sr_rx_running :: bool
  sr_io :: mm_uart_io

record ('d, 'e) serial_world =
  sw_nvic :: "mm_nvic option"
  sw_hf :: bool
  sw_devs :: "'d mm_spi_device list"
  sw_dev :: 'd
  sw_map :: "'e mm_memmap option"
  sw_host :: uart_host

definition set_serial :: "nat \<Rightarrow> u32 \<Rightarrow> serial_inst \<Rightarrow> serial_inst"
  where "set_serial i v s = s\<lparr>sr_regs := (sr_regs s)(i := v)\<rparr>"

subsection \<open>DMA\<close>

definition dma_read8 :: "'e mm_memmap option \<Rightarrow> u32 \<Rightarrow> u8 option \<times> 'e mm_memmap option"
  where "dma_read8 g addr =
    (case g of None \<Rightarrow> (None, None)
     | Some m \<Rightarrow> (let (v, m) = mm_memmap_read8 m (mm_active_sec m) addr in (v, Some m)))"

definition dma_write8 :: "'e mm_memmap option \<Rightarrow> u32 \<Rightarrow> u8 \<Rightarrow> bool \<times> 'e mm_memmap option"
  where "dma_write8 g addr v =
    (case g of None \<Rightarrow> (False, None)
     | Some m \<Rightarrow> (let (ok, m) = mm_memmap_write8 m (mm_active_sec m) addr v in (ok, Some m)))"

definition serial_raise_irq :: "u32 \<Rightarrow> serial_inst \<times> ('d, 'e) serial_world \<Rightarrow> serial_inst \<times> ('d, 'e) serial_world"
  where "serial_raise_irq msk x =
    (let (s, w) = x in
     if sr_regs s SERIAL_INTEN AND msk = 0 then x
     else (s, w\<lparr>sw_nvic := map_option (\<lambda>n. mm_nvic_set_pending n (sr_irq s) True) (sw_nvic w)\<rparr>))"

definition serial_event_set :: "nat \<Rightarrow> u32 \<Rightarrow> serial_inst \<times> ('d, 'e) serial_world \<Rightarrow> serial_inst \<times> ('d, 'e) serial_world"
  where "serial_event_set i msk x = (let (s, w) = x in serial_raise_irq msk (set_serial i 1 s, w))"

subsection \<open>SPI\<close>

text \<open>The transfer loop from byte \<^verbatim>\<open>i\<close> on, over the byte accesses of a memory and the exchange with the bus.\<close>

fun spim_loop ::
  "('m \<Rightarrow> u32 \<Rightarrow> u8 option \<times> 'm) \<Rightarrow> ('m \<Rightarrow> u32 \<Rightarrow> u8 \<Rightarrow> bool \<times> 'm) \<Rightarrow> ('d \<Rightarrow> u8 \<Rightarrow> u8 \<times> 'd) \<Rightarrow>
   u32 \<times> u32 \<Rightarrow> u32 \<times> u32 \<Rightarrow> u8 \<Rightarrow> nat \<Rightarrow> u32 \<Rightarrow> 'm \<times> 'd \<Rightarrow> 'm \<times> 'd" where
  "spim_loop rd wr xfer tx rx orc 0 i x = x"
| "spim_loop rd wr xfer (tx_ptr, tx_cnt) (rx_ptr, rx_cnt) orc (Suc k) i (m, d) =
    (let (out, m) = (if i < tx_cnt then (let (v, m) = rd m (tx_ptr + i) in (case v of None \<Rightarrow> orc | Some b \<Rightarrow> b, m)) else (orc, m));
         (inb, d) = xfer d out;
         m = (if i < rx_cnt then snd (wr m (rx_ptr + i) inb) else m)
     in spim_loop rd wr xfer (tx_ptr, tx_cnt) (rx_ptr, rx_cnt) orc k (i + 1) (m, d))"

definition serial_spim_run :: "serial_inst \<times> ('d, 'e) serial_world \<Rightarrow> serial_inst \<times> ('d, 'e) serial_world"
  where "serial_spim_run x =
    (let (s, w) = x in
     if \<not> sw_hf w then x
     else if sr_regs s SERIAL_ENABLE AND 0xF \<noteq> 7 then x
     else
       (let tx_cnt = sr_regs s TXD_MAXCNT; rx_cnt = sr_regs s RXD_MAXCNT;
            tx_ptr = sr_regs s TXD_PTR; rx_ptr = sr_regs s RXD_PTR;
            orc = to_u8 (sr_regs s ORC AND 0xFF); bus = int (unat (sr_bus_index s));
            total = (if tx_cnt > rx_cnt then tx_cnt else rx_cnt);
            (m, d) = spim_loop dma_read8 dma_write8 (\<lambda>d b. mm_spi_bus_xfer (sw_devs w) bus b d)
              (tx_ptr, tx_cnt) (rx_ptr, rx_cnt) orc (unat total) 0 (sw_map w, sw_dev w);
            s = set_serial RXD_AMOUNT rx_cnt (set_serial TXD_AMOUNT tx_cnt s);
            (s, w) = serial_event_set (0x120 div 4) 0x100 (s, w\<lparr>sw_map := m, sw_dev := d\<rparr>);
            (s, w) = serial_event_set (0x110 div 4) 0x10 (s, w);
            (s, w) = serial_event_set (0x118 div 4) 0x110 (s, w)
        in (s, w\<lparr>sw_dev := mm_spi_bus_end (sw_devs w) bus (sw_dev w)\<rparr>)))"

subsection \<open>UART\<close>

lemma inc_unat: "unat (a + 1) = Suc (unat a)" if "a < n" for a n :: u32
proof -
  have "unat a < unat n" "unat n < 2 ^ 32" using that unsigned_less [of n] by (simp_all add: word_less_nat_alt)
  then show ?thesis by (simp add: unat_word_ariths)
qed

text \<open>The receive loop: it ends because every round moves \<^verbatim>\<open>amount\<close> towards the count.\<close>

function uarte_rx_loop ::
  "u32 \<Rightarrow> u32 \<Rightarrow> u32 \<Rightarrow> serial_inst \<times> ('d, 'e) serial_world \<Rightarrow> u32 \<times> serial_inst \<times> ('d, 'e) serial_world" where
  "uarte_rx_loop rx_ptr rx_cnt amount (s, w) =
    (if amount < rx_cnt \<and> mm_uart_io_has_rx (sr_io s) then
       (let (byte, io) = mm_uart_io_read (sr_io s);
            m = snd (dma_write8 (sw_map w) (rx_ptr + amount) byte)
        in uarte_rx_loop rx_ptr rx_cnt (amount + 1) (serial_event_set (0x108 div 4) 0x4 (s\<lparr>sr_io := io\<rparr>, w\<lparr>sw_map := m\<rparr>)))
     else (amount, s, w))"
  by pat_completeness auto

termination
  by (relation "measure (\<lambda>(rx_ptr, rx_cnt, amount, x). unat rx_cnt - unat amount)") (auto simp: inc_unat word_less_nat_alt)

declare uarte_rx_loop.simps [simp del]

definition serial_uarte_try_rx :: "serial_inst \<times> ('d, 'e) serial_world \<Rightarrow> serial_inst \<times> ('d, 'e) serial_world"
  where "serial_uarte_try_rx x =
    (let (s, w) = x in
     if \<not> sr_rx_running s then x
     else if \<not> sw_hf w then x
     else if sr_regs s SERIAL_ENABLE AND 0xF \<noteq> 8 then x
     else
       (let rx_cnt = sr_regs s RXD_MAXCNT;
            (amount, s, w) = uarte_rx_loop (sr_regs s RXD_PTR) rx_cnt (sr_regs s RXD_AMOUNT) (s, w);
            s = set_serial RXD_AMOUNT amount s
        in if amount \<ge> rx_cnt \<and> rx_cnt \<noteq> 0
           then serial_event_set (0x110 div 4) 0x10 (s\<lparr>sr_rx_running := False\<rparr>, w) else (s, w)))"

fun uarte_tx_loop ::
  "('m \<Rightarrow> u32 \<Rightarrow> u8 option \<times> 'm) \<Rightarrow> u32 \<Rightarrow> nat \<Rightarrow> mm_uart_io \<times> 'm \<Rightarrow> mm_uart_io \<times> 'm" where
  "uarte_tx_loop rd a 0 x = x"
| "uarte_tx_loop rd a (Suc k) (io, m) =
    (let (v, m) = rd m a in uarte_tx_loop rd (a + 1) k (mm_uart_io_queue_tx io (case v of None \<Rightarrow> 0 | Some b \<Rightarrow> b), m))"

definition serial_uarte_start_tx ::
  "serial_inst \<times> ('d, 'e) serial_world \<Rightarrow> (serial_inst \<times> ('d, 'e) serial_world) option"
  where "serial_uarte_start_tx x =
    (let (s, w) = x in
     if \<not> sw_hf w then Some x
     else if sr_regs s SERIAL_ENABLE AND 0xF \<noteq> 8 then Some x
     else
       (let tx_cnt = sr_regs s TXD_MAXCNT;
            (io, m) = uarte_tx_loop dma_read8 (sr_regs s TXD_PTR) (unat tx_cnt) (sr_io s, sw_map w)
        in case mm_uart_io_flush (io, sw_host w) of
             None \<Rightarrow> None
           | Some (_, io, h) \<Rightarrow> Some (serial_event_set (0x120 div 4) 0x100
               (set_serial TXD_AMOUNT tx_cnt (s\<lparr>sr_io := io\<rparr>), w\<lparr>sw_map := m, sw_host := h\<rparr>))))"

subsection \<open>Registers\<close>

definition serial_read :: "u32 \<Rightarrow> u32 \<Rightarrow> serial_inst \<Rightarrow> u32 option"
  where "serial_read offset size_bytes s =
    (if bad_size size_bytes then None
     else if offset + size_bytes > SERIAL_SIZE then None
     else Some (sr_regs s (unat (offset div 4))))"

definition serial_write ::
  "u32 \<Rightarrow> u32 \<Rightarrow> u32 \<Rightarrow> serial_inst \<times> ('d, 'e) serial_world \<Rightarrow> (bool \<times> serial_inst \<times> ('d, 'e) serial_world) option"
  where "serial_write offset size_bytes v x =
    (let (s, w) = x; word = (size_bytes = 4); on = (v AND 1 \<noteq> 0) in
     if bad_size size_bytes then Some (False, x)
     else if offset + size_bytes > SERIAL_SIZE then Some (False, x)
     else map_option (Pair True)
       (if offset = 0x304 \<and> word then Some (set_serial SERIAL_INTEN (sr_regs s SERIAL_INTEN OR v) s, w)
        else if offset = 0x308 \<and> word then Some (set_serial SERIAL_INTEN (sr_regs s SERIAL_INTEN AND NOT v) s, w)
        else if offset = 0x000 \<and> word then
          Some (if on then serial_uarte_try_rx (set_serial RXD_AMOUNT 0 (s\<lparr>sr_rx_running := True\<rparr>), w) else x)
        else if offset = 0x004 \<and> word then Some (if on then (s\<lparr>sr_rx_running := False\<rparr>, w) else x)
        else if offset = 0x008 \<and> word then (if on then serial_uarte_start_tx x else Some x)
        else if offset = 0x00C \<and> word then Some x
        else if offset = 0x02C \<and> word then Some (if on then serial_uarte_try_rx x else x)
        else if offset = 0x010 \<and> word then Some (if on then serial_spim_run x else x)
        else if offset = 0x014 \<and> word then
          Some (if on then (s, w\<lparr>sw_dev := mm_spi_bus_end (sw_devs w) (int (unat (sr_bus_index s))) (sw_dev w)\<rparr>) else x)
        else Some (set_serial (unat (offset div 4)) v s, w)))"

subsection \<open>Initialisation, reset and poll\<close>

record nrf_serials =
  sl_list :: "serial_inst list"
  sl_init_done :: bool

definition zero_serial :: serial_inst
  where "zero_serial = \<lparr>sr_base = 0, sr_regs = (\<lambda>_. 0), sr_bus_index = 0, sr_irq = 0, sr_has_uarte = False,
    sr_rx_running = False, sr_io = zero_uart_io\<rparr>"

definition serial_base :: "nat \<Rightarrow> u32"
  where "serial_base i = [0x40008000, 0x40009000, 0x4000B000, 0x4000C000, 0x4000A000] ! i"

definition serial_setup :: "nat \<Rightarrow> uart_host \<Rightarrow> serial_inst \<times> uart_host"
  where "serial_setup i h =
    (let s = zero_serial\<lparr>sr_base := serial_base i, sr_bus_index := of_nat i, sr_irq := [8, 9, 11, 12, 10] ! i,
           sr_has_uarte := [True, True, True, True, False] ! i, sr_regs := (\<lambda>_. 0)(ORC := 0xFF)\<rparr>
     in if sr_has_uarte s then (let (_, io, h) = mm_uart_io_open (mm_uart_io_init, h) in (s\<lparr>sr_io := io\<rparr>, h)) else (s, h))"

text \<open>A region of the serial blocks, given the handlers of instance \<^verbatim>\<open>i\<close> on the state behind the bus.\<close>

type_synonym 'b handlers =
  "nat \<Rightarrow> (mm_sec_state \<Rightarrow> u32 \<Rightarrow> u32 \<Rightarrow> 'b \<Rightarrow> u32 option \<times> 'b) \<times> (mm_sec_state \<Rightarrow> u32 \<Rightarrow> u32 \<Rightarrow> u32 \<Rightarrow> 'b \<Rightarrow> bool \<times> 'b)"

definition serial_region :: "'b handlers \<Rightarrow> u32 \<Rightarrow> nat \<Rightarrow> 'b mmio_region"
  where "serial_region hs base i =
    \<lparr>mr_base = base, mr_size = SERIAL_SIZE, mr_read = Some (fst (hs i)), mr_write = Some (snd (hs i))\<rparr>"

fun serial_register_loop ::
  "'b handlers \<Rightarrow> nat list \<Rightarrow> 'b mmio_bus \<times> serial_inst list \<times> uart_host \<Rightarrow> bool \<times> 'b mmio_bus \<times> serial_inst list \<times> uart_host" where
  "serial_register_loop hs [] x = (True, x)"
| "serial_register_loop hs (i # is) (bus, ss, h) =
    (let (s, h) = serial_setup i h; ss = ss[i := s];
         (ok, bus) = register_seq [serial_region hs (serial_base i) i, serial_region hs (serial_base i + 0x10000000) i] bus
     in if ok then serial_register_loop hs is (bus, ss, h) else (False, bus, ss, h))"

text \<open>The state of the module with the bus and the world.\<close>

type_synonym ('b, 'd, 'e) serial_sys = "'b mmio_bus \<times> nrf_serials \<times> ('d, 'e) serial_world"

definition serial_register_all :: "'b handlers \<Rightarrow> mm_nvic \<Rightarrow> ('b, 'd, 'e) serial_sys \<Rightarrow> ('b, 'd, 'e) serial_sys"
  where "serial_register_all hs nvic x =
    (let (bus, sl, w) = x in
     if sl_init_done sl then x
     else
       (let (ok, bus, ss, h) = serial_register_loop hs [0..<5] (bus, replicate 5 zero_serial, sw_host w)
        in (bus, sl\<lparr>sl_list := ss, sl_init_done := ok\<rparr>, w\<lparr>sw_nvic := Some nvic, sw_host := h\<rparr>)))"

definition serial_reset_all :: "('b, 'd, 'e) serial_sys \<Rightarrow> ('b, 'd, 'e) serial_sys"
  where "serial_reset_all x =
    (let (bus, sl, w) = x;
         h = foldl (\<lambda>h s. if sr_has_uarte s then snd (mm_uart_io_close (sr_io s, h)) else h) (sw_host w) (sl_list sl)
     in (bus, \<lparr>sl_list = replicate 5 zero_serial, sl_init_done = False\<rparr>, w\<lparr>sw_host := h\<rparr>))"

definition nrf5340_usart_init :: "'b handlers \<Rightarrow> mm_nvic \<Rightarrow> ('b, 'd, 'e) serial_sys \<Rightarrow> ('b, 'd, 'e) serial_sys"
  where "nrf5340_usart_init = serial_register_all"

definition nrf5340_usart_reset :: "('b, 'd, 'e) serial_sys \<Rightarrow> ('b, 'd, 'e) serial_sys"
  where "nrf5340_usart_reset = serial_reset_all"

fun serial_poll_each ::
  "serial_inst list \<Rightarrow> ('d, 'e) serial_world \<Rightarrow> (serial_inst list \<times> ('d, 'e) serial_world) option" where
  "serial_poll_each [] w = Some ([], w)"
| "serial_poll_each (s # ss) w =
    (case (if sr_has_uarte s then
             (case mm_uart_io_poll (sr_io s, sw_host w) of None \<Rightarrow> None
              | Some (got, io, h) \<Rightarrow>
                (let x = (s\<lparr>sr_io := io\<rparr>, w\<lparr>sw_host := h\<rparr>) in Some (if got then serial_uarte_try_rx x else x)))
           else Some (s, w)) of
       None \<Rightarrow> None
     | Some (s, w) \<Rightarrow> map_option (\<lambda>(ss, w). (s # ss, w)) (serial_poll_each ss w))"

definition nrf5340_usart_poll :: "('b, 'd, 'e) serial_sys \<Rightarrow> ('b, 'd, 'e) serial_sys option"
  where "nrf5340_usart_poll x =
    (let (bus, sl, w) = x in
     if \<not> sl_init_done sl then Some x
     else map_option (\<lambda>(ss, w). (bus, sl\<lparr>sl_list := ss\<rparr>, w)) (serial_poll_each (sl_list sl) w))"

definition nrf5340_spi_init :: "'b handlers \<Rightarrow> mm_nvic \<Rightarrow> ('b, 'd, 'e) serial_sys \<Rightarrow> ('b, 'd, 'e) serial_sys"
  where "nrf5340_spi_init = serial_register_all"

definition nrf5340_spi_reset :: "('b, 'd, 'e) serial_sys \<Rightarrow> ('b, 'd, 'e) serial_sys"
  where "nrf5340_spi_reset = serial_reset_all"

definition nrf5340_spi_poll :: "('b, 'd, 'e) serial_sys \<Rightarrow> ('b, 'd, 'e) serial_sys option"
  where "nrf5340_spi_poll = nrf5340_usart_poll"

text \<open>The four calls of the boot sequence in the main loop, in its order.\<close>

definition nrf_serial_boot :: "'b handlers \<Rightarrow> mm_nvic \<Rightarrow> ('b, 'd, 'e) serial_sys \<Rightarrow> ('b, 'd, 'e) serial_sys"
  where "nrf_serial_boot hs nvic x =
    nrf5340_spi_init hs nvic (nrf5340_spi_reset (nrf5340_usart_init hs nvic (nrf5340_usart_reset x)))"

subsection \<open>Booting\<close>

text \<open>Whether the bus refuses every region with this base and size, and that it then always will.\<close>

definition refuses :: "u32 \<Rightarrow> u32 \<Rightarrow> 'b mmio_bus \<Rightarrow> bool"
  where "refuses base sz bus = (mb_capacity bus \<le> length (mb_regions bus) \<or>
    (\<exists>r \<in> set (mb_regions bus). mmio_regions_overlap (mr_base r) (mr_size r) base sz))"

lemma refuses_register: "refuses base sz bus \<Longrightarrow> refuses base sz (snd (mmio_bus_register_region bus r))"
  by (auto simp: refuses_def mmio_bus_register_region_def)

lemma refuses_seq: "refuses base sz bus \<Longrightarrow> refuses base sz (snd (register_seq rs bus))"
proof (induction rs arbitrary: bus)
  case (Cons r rs)
  have "refuses base sz (snd (mmio_bus_register_region bus r))" using Cons.prems by (rule refuses_register)
  with Cons.IH show ?case by (auto simp: Let_def split: prod.splits)
qed simp

lemma refuses_loop: "refuses base sz bus \<Longrightarrow> refuses base sz (fst (snd (serial_register_loop hs is (bus, ss, h))))"
proof (induction "is" arbitrary: bus ss h)
  case (Cons i "is")
  let ?rs = "[serial_region hs (serial_base i) i, serial_region hs (serial_base i + 0x10000000) i]"
  have "refuses base sz (snd (register_seq ?rs bus))" using Cons.prems by (rule refuses_seq)
  with Cons.IH show ?case by (simp add: Let_def case_prod_beta del: register_seq.simps)
qed simp

lemma refuses_self:
  assumes "mr_base r < mr_base r + mr_size r"
  shows "refuses (mr_base r) (mr_size r) (snd (mmio_bus_register_region bus r))"
  using assms by (auto simp: refuses_def mmio_bus_register_region_def mmio_regions_overlap_def Let_def)

lemma refused: "refuses (mr_base r) (mr_size r) bus \<Longrightarrow> register_seq (r # rs) bus = (False, bus)"
  by (auto simp: refuses_def mmio_bus_register_region_def)

lemma refuses_first: "refuses (serial_base i) SERIAL_SIZE (fst (snd (serial_register_loop hs (i # is) (bus, ss, h))))" if "i < 5"
proof -
  let ?r = "serial_region hs (serial_base i) i" and ?r' = "serial_region hs (serial_base i + 0x10000000) i"
  have "i = 0 \<or> i = 1 \<or> i = 2 \<or> i = 3 \<or> i = 4" using that by auto
  then have "serial_base i < serial_base i + SERIAL_SIZE" by (auto simp: serial_base_def)
  then have "refuses (serial_base i) SERIAL_SIZE (snd (mmio_bus_register_region bus ?r))"
    using refuses_self [of ?r bus] by (simp add: serial_region_def)
  then have "refuses (serial_base i) SERIAL_SIZE (snd (register_seq [?r, ?r'] bus))"
    using refuses_seq [of _ _ "snd (mmio_bus_register_region bus ?r)" "[?r']"] by (simp add: Let_def case_prod_beta)
  then show ?thesis
    by (simp add: refuses_loop Let_def case_prod_beta del: register_seq.simps)
qed

text \<open>C31: the boot sequence leaves the serial blocks of the nRF5340 half initialised, whatever the state it
  starts from.  The UART and the SPI hooks share one module, and the SPI reset that follows the UART's
  initialisation clears it although its regions stay on the bus: the second registration is
  refused at the first region.  The module then never counts as initialised, so no poll does
  anything and no byte from the host is ever received, and the instances after the first stay
  zero: they have no interrupt number, no UART and send zeros instead of ones as filler.\<close>

theorem nrf_serial_boot_incomplete:
  "let (bus, sl, w) = nrf_serial_boot hs nvic x
   in \<not> sl_init_done sl \<and> tl (sl_list sl) = replicate 4 zero_serial \<and>
      nrf5340_usart_poll (bus, sl, w) = Some (bus, sl, w) \<and> nrf5340_spi_poll (bus, sl, w) = Some (bus, sl, w)"
proof -
  obtain bus sl w where r: "nrf5340_usart_reset x = (bus, sl, w)" by (cases "nrf5340_usart_reset x")
  then have d: "\<not> sl_init_done sl" by (auto simp: nrf5340_usart_reset_def serial_reset_all_def Let_def case_prod_beta)
  have five: "[0..<5] = 0 # [1..<5]" by (simp add: upt_rec)
  obtain bus1 sl1 w1 where i: "nrf5340_usart_init hs nvic (bus, sl, w) = (bus1, sl1, w1)"
    by (cases "nrf5340_usart_init hs nvic (bus, sl, w)")
  have "bus1 = fst (snd (serial_register_loop hs (0 # [1..<5]) (bus, replicate 5 zero_serial, sw_host w)))"
    using i d unfolding five [symmetric] by (auto simp: nrf5340_usart_init_def serial_register_all_def Let_def case_prod_beta)
  then have ref: "refuses (serial_base 0) SERIAL_SIZE bus1" using refuses_first [of 0] by simp
  obtain h2 where s: "nrf5340_spi_reset (bus1, sl1, w1) = (bus1, \<lparr>sl_list = replicate 5 zero_serial, sl_init_done = False\<rparr>, w1\<lparr>sw_host := h2\<rparr>)"
    by (simp add: nrf5340_spi_reset_def serial_reset_all_def Let_def)
  have "register_seq [serial_region hs (serial_base 0) 0, serial_region hs (serial_base 0 + 0x10000000) 0] bus1 = (False, bus1)"
    using ref by (intro refused) (simp add: serial_region_def)
  then have "\<exists>ss h. serial_register_loop hs [0..<5] (bus1, replicate 5 zero_serial, h2) = (False, bus1, (replicate 5 zero_serial)[0 := ss], h)"
    unfolding five by (auto simp: Let_def case_prod_beta simp del: register_seq.simps)
  then obtain s0 h3 where l: "serial_register_loop hs [0..<5] (bus1, replicate 5 zero_serial, h2) = (False, bus1, (replicate 5 zero_serial)[0 := s0], h3)"
    by blast
  have tl5: "tl ((replicate 5 z)[0 := y]) = replicate 4 z" for y z :: serial_inst by (simp add: numeral_eq_Suc)
  show ?thesis
    by (simp add: nrf_serial_boot_def r i s)
     (simp add: nrf5340_spi_init_def serial_register_all_def l nrf5340_spi_poll_def nrf5340_usart_poll_def tl5)
qed

subsection \<open>Bytes of memory\<close>

locale byte_store =
  fixes ok :: "'m \<Rightarrow> u32 \<Rightarrow> bool"
    and rd :: "'m \<Rightarrow> u32 \<Rightarrow> u8 option \<times> 'm"
    and wr :: "'m \<Rightarrow> u32 \<Rightarrow> u8 \<Rightarrow> bool \<times> 'm"
    and byte :: "'m \<Rightarrow> u32 \<Rightarrow> u8"
  assumes rd_ok: "ok m a \<Longrightarrow> rd m a = (Some (byte m a), m)"
    and wr_keeps: "ok m a \<Longrightarrow> ok m b \<Longrightarrow> ok (snd (wr m a v)) b"
    and wr_byte: "ok m a \<Longrightarrow> ok m b \<Longrightarrow> byte (snd (wr m a v)) b = (if a = b then v else byte m b)"
begin

lemma tx_loop_bytes:
  assumes "\<And>i. i < k \<Longrightarrow> ok m (a + of_nat i)"
  shows "uarte_tx_loop rd a k (io, m) = (foldl mm_uart_io_queue_tx io (map (\<lambda>i. byte m (a + of_nat i)) [0..<k]), m)"
  using assms
proof (induction k arbitrary: a io)
  case (Suc k)
  have "map (\<lambda>i. byte m (a + of_nat i)) [0..<Suc k] = byte m a # map (\<lambda>i. byte m (a + 1 + of_nat i)) [0..<k]"
    unfolding upt_conv_Cons [OF zero_less_Suc] map_Suc_upt [symmetric] by (simp add: algebra_simps)
  moreover have "ok m (a + 1 + of_nat i)" if "i < k" for i using Suc.prems [of "Suc i"] that by (simp add: algebra_simps)
  ultimately show ?case using Suc.IH [of "a + 1"] rd_ok [of m a] Suc.prems [of 0] by simp
qed simp

text \<open>The bytes that the SPI master sends from index \<^verbatim>\<open>i\<close> on: those in memory, then the filler.\<close>

definition spim_outs :: "u32 \<Rightarrow> nat \<Rightarrow> u8 \<Rightarrow> nat \<Rightarrow> nat \<Rightarrow> 'm \<Rightarrow> u8 list"
  where "spim_outs tx_ptr tn orc i k m = map (\<lambda>j. if j < tn then byte m (tx_ptr + of_nat j) else orc) [i..<i + k]"

lemma spim_loop_exchange:
  assumes "i + k < 2 ^ 32" "\<And>j. j < unat tx_cnt \<Longrightarrow> ok m (tx_ptr + of_nat j)" "\<And>j. j < unat rx_cnt \<Longrightarrow> ok m (rx_ptr + of_nat j)"
    "\<And>j l. j < unat rx_cnt \<Longrightarrow> j < l \<Longrightarrow> l < unat tx_cnt \<Longrightarrow> rx_ptr + of_nat j \<noteq> tx_ptr + of_nat l"
    "spi_shift xfer d (spim_outs tx_ptr (unat tx_cnt) orc i k m) = (replies, d')"
  shows "\<exists>m'. spim_loop rd wr xfer (tx_ptr, tx_cnt) (rx_ptr, rx_cnt) orc k (of_nat i) (m, d) = (m', d') \<and>
    (\<forall>j. i \<le> j \<and> j < i + k \<and> j < unat rx_cnt \<longrightarrow> byte m' (rx_ptr + of_nat j) = replies ! (j - i)) \<and>
    (\<forall>a. ok m a \<longrightarrow> ok m' a \<and> ((\<forall>j. i \<le> j \<and> j < i + k \<and> j < unat rx_cnt \<longrightarrow> a \<noteq> rx_ptr + of_nat j) \<longrightarrow> byte m' a = byte m a))"
  using assms
proof (induction k arbitrary: i m d replies)
  case (Suc k)
  define b where "b = (if i < unat tx_cnt then byte m (tx_ptr + of_nat i) else orc)"
  obtain r d1 where r: "xfer d b = (r, d1)" by fastforce
  define m1 where "m1 = (if i < unat rx_cnt then snd (wr m (rx_ptr + of_nat i) r) else m)"
  have i: "unat (of_nat i :: u32) = i" using Suc.prems(1) by (simp add: unat_of_nat)
  have lt: "(of_nat i :: u32) < tx_cnt \<longleftrightarrow> i < unat tx_cnt" "(of_nat i :: u32) < rx_cnt \<longleftrightarrow> i < unat rx_cnt"
    by (simp_all add: word_less_nat_alt i)
  have ok1: "ok m1 a" if "ok m a" for a using that Suc.prems(3) by (simp add: m1_def wr_keeps)
  have by1: "byte m1 a = (if i < unat rx_cnt \<and> a = rx_ptr + of_nat i then r else byte m a)" if "ok m a" for a
    using that Suc.prems(3) by (auto simp: m1_def wr_byte)
  have outs: "spim_outs tx_ptr (unat tx_cnt) orc i (Suc k) m = b # spim_outs tx_ptr (unat tx_cnt) orc (Suc i) k m1"
  proof -
    have "byte m1 (tx_ptr + of_nat j) = byte m (tx_ptr + of_nat j)" if "j < unat tx_cnt" "i < j" for j
      using by1 [OF Suc.prems(2) [OF that(1)]] Suc.prems(4) [of i j] that by metis
    then show ?thesis by (simp add: spim_outs_def b_def upt_conv_Cons del: upt_Suc)
  qed
  obtain rs where rs: "spi_shift xfer d1 (spim_outs tx_ptr (unat tx_cnt) orc (Suc i) k m1) = (rs, d')" "replies = r # rs"
    using Suc.prems(5) unfolding outs by (auto simp: r split: prod.splits)
  obtain m' where m': "spim_loop rd wr xfer (tx_ptr, tx_cnt) (rx_ptr, rx_cnt) orc k (of_nat (Suc i)) (m1, d1) = (m', d')"
    "\<And>j. Suc i \<le> j \<Longrightarrow> j < Suc i + k \<Longrightarrow> j < unat rx_cnt \<Longrightarrow> byte m' (rx_ptr + of_nat j) = rs ! (j - Suc i)"
    "\<And>a. ok m1 a \<Longrightarrow> ok m' a"
    "\<And>a. ok m1 a \<Longrightarrow> (\<forall>j. Suc i \<le> j \<and> j < Suc i + k \<and> j < unat rx_cnt \<longrightarrow> a \<noteq> rx_ptr + of_nat j) \<Longrightarrow> byte m' a = byte m1 a"
    using Suc.IH [of "Suc i" m1 d1 rs] Suc.prems(1-4) ok1 rs(1) by auto
  have "spim_loop rd wr xfer (tx_ptr, tx_cnt) (rx_ptr, rx_cnt) orc (Suc k) (of_nat i) (m, d) = (m', d')"
  proof -
    have "(if of_nat i < tx_cnt then (let (v, m) = rd m (tx_ptr + of_nat i) in (case v of None \<Rightarrow> orc | Some b \<Rightarrow> b, m)) else (orc, m)) = (b, m)"
      using rd_ok [OF Suc.prems(2)] by (simp add: lt b_def)
    with m'(1) show ?thesis by (simp add: r lt m1_def add.commute Let_def)
  qed
  moreover have "byte m' (rx_ptr + of_nat j) = replies ! (j - i)" if j: "i \<le> j" "j < i + Suc k" "j < unat rx_cnt" for j
  proof (cases "j = i")
    case True
    have "(of_nat i :: u32) \<noteq> of_nat l" if "Suc i \<le> l" "l < Suc i + k" for l
    proof -
      have "unat (of_nat l :: u32) = l" using that Suc.prems(1) by (simp add: unat_of_nat)
      then show ?thesis using i that(1) by auto
    qed
    then show ?thesis using True m'(4) [OF ok1 [OF Suc.prems(3) [OF j(3)]]] by1 [OF Suc.prems(3) [OF j(3)]] j rs(2) by auto
  next
    case False
    then have "j - i = Suc (j - Suc i)" using j(1) by simp
    then show ?thesis using False j m'(2) [of j] rs(2) by simp
  qed
  moreover have "ok m' a \<and> ((\<forall>j. i \<le> j \<and> j < i + Suc k \<and> j < unat rx_cnt \<longrightarrow> a \<noteq> rx_ptr + of_nat j) \<longrightarrow> byte m' a = byte m a)"
    if a: "ok m a" for a
    using m'(3,4) [OF ok1 [OF a]] by1 [OF a] by auto
  ultimately show ?case by blast
qed (auto simp: spim_outs_def)

end

subsection \<open>RAM as a byte store\<close>

definition flash_hit :: "'e mm_memmap \<Rightarrow> u32 \<Rightarrow> bool"
  where "flash_hit m a = (m_buffer (mm_flash m) \<noteq> None \<and>
    (\<exists>w. fst (flash_win m w) \<le> a \<and> a - fst (flash_win m w) < snd (flash_win m w)))"

definition grants8 :: "'e mm_memmap \<Rightarrow> u32 \<Rightarrow> bool"
  where "grants8 m a = (case mm_interceptor m of None \<Rightarrow> True
     | Some f \<Rightarrow> f MM_ACCESS_READ (mm_active_sec m) a 1 (mm_env m) = (True, mm_env m) \<and>
         f MM_ACCESS_WRITE (mm_active_sec m) a 1 (mm_env m) = (True, mm_env m))"

lemma grants8_intercept:
  "grants8 m a \<Longrightarrow> t = MM_ACCESS_READ \<or> t = MM_ACCESS_WRITE \<Longrightarrow> intercept_ok m t (mm_active_sec m) a 1 = (True, m)"
  by (auto simp: grants8_def intercept_ok_def split: option.splits)

text \<open>A byte of the RAM window that starts at \<^verbatim>\<open>base\<close>, granted by the interceptor.\<close>

definition dma_ok :: "u32 \<Rightarrow> 'e mm_memmap option \<Rightarrow> u32 \<Rightarrow> bool"
  where "dma_ok base g a = (\<exists>m b. g = Some m \<and> m_buffer (mm_ram m) = Some b \<and> unat (a - base) < length b \<and>
    ram_offset_for_addr m a 1 = Some (a - base) \<and> \<not> flash_hit m a \<and> grants8 m a)"

definition dma_byte :: "u32 \<Rightarrow> 'e mm_memmap option \<Rightarrow> u32 \<Rightarrow> u8"
  where "dma_byte base g a = the (m_buffer (mm_ram (the g))) ! unat (a - base)"

lemma flash8_skip: "\<not> flash_hit m a \<Longrightarrow> try_flash8 m w a other = other"
  by (auto simp: try_flash8_def flash_hit_def split: prod.splits option.splits) (metis fst_conv snd_conv)

lemma dma_read_ram: "dma_ok base g a \<Longrightarrow> dma_read8 g a = (Some (dma_byte base g a), g)"
  by (auto simp: dma_ok_def dma_read8_def mm_memmap_read8_def grants8_intercept flash8_skip dma_byte_def buf_byte_def buf_oob_def
    u8_u32)

lemma dma_write_ram:
  assumes "dma_ok base g a"
  obtains m b where "g = Some m" "m_buffer (mm_ram m) = Some b" "unat (a - base) < length b"
    "snd (dma_write8 g a v) = Some (m\<lparr>mm_ram := (mm_ram m)\<lparr>m_buffer := Some (b[unat (a - base) := v])\<rparr>\<rparr>)"
  using assms by (auto simp: dma_ok_def dma_write8_def mm_memmap_write8_def grants8_intercept ram_store_def buf_put_def buf_oob_def)

lemma dma_ok_after:
  assumes "dma_ok base (Some m) c" "m_buffer (mm_ram m) = Some b"
  shows "dma_ok base (Some (m\<lparr>mm_ram := (mm_ram m)\<lparr>m_buffer := Some (b[k := v])\<rparr>\<rparr>)) c"
  using assms by (simp add: dma_ok_def flash_hit_def grants8_def cong: option.case_cong)

interpretation dma: byte_store "dma_ok base" dma_read8 dma_write8 "dma_byte base" for base
proof
  fix g :: "'e mm_memmap option" and a c :: u32 and v :: u8
  assume a: "dma_ok base g a"
  then show "dma_read8 g a = (Some (dma_byte base g a), g)" by (rule dma_read_ram)
  obtain m b where w: "g = Some m" "m_buffer (mm_ram m) = Some b" "unat (a - base) < length b"
    "snd (dma_write8 g a v) = Some (m\<lparr>mm_ram := (mm_ram m)\<lparr>m_buffer := Some (b[unat (a - base) := v])\<rparr>\<rparr>)"
    using a by (rule dma_write_ram)
  assume c: "dma_ok base g c"
  then show "dma_ok base (snd (dma_write8 g a v)) c" using dma_ok_after [OF _ w(2)] w(1,4) by metis
  have "a - base = c - base \<longleftrightarrow> a = c" by simp
  then have "unat (a - base) = unat (c - base) \<longleftrightarrow> a = c" by (simp only: word_unat_eq_iff)
  with c w(1-3) show "dma_byte base (snd (dma_write8 g a v)) c = (if a = c then v else dma_byte base g c)"
    unfolding w(4) by (auto simp: dma_byte_def nth_list_update dma_ok_def)
qed

subsection \<open>Transfers\<close>

lemma event_set_keeps [simp]:
  "sw_map (snd (serial_event_set i msk x)) = sw_map (snd x)" "sw_dev (snd (serial_event_set i msk x)) = sw_dev (snd x)"
  "sw_devs (snd (serial_event_set i msk x)) = sw_devs (snd x)" "sw_host (snd (serial_event_set i msk x)) = sw_host (snd x)"
  "sw_hf (snd (serial_event_set i msk x)) = sw_hf (snd x)"
  "sr_regs (fst (serial_event_set i msk x)) = (sr_regs (fst x))(i := 1)"
  "sr_io (fst (serial_event_set i msk x)) = sr_io (fst x)" "sr_rx_running (fst (serial_event_set i msk x)) = sr_rx_running (fst x)"
  by (simp_all add: serial_event_set_def serial_raise_irq_def set_serial_def case_prod_beta Let_def)

lemma set_serial_sel [simp]:
  "sr_regs (set_serial i v s) = (sr_regs s)(i := v)" "sr_io (set_serial i v s) = sr_io s"
  "sr_rx_running (set_serial i v s) = sr_rx_running s" "sr_bus_index (set_serial i v s) = sr_bus_index s"
  by (simp_all add: set_serial_def)

text \<open>C29: an SPI transfer by DMA is an exchange between memory and the device.  With the clock running and
  the block enabled as SPI master, the start task sends the bytes of the transmit buffer in RAM,
  continued with the over-read character when the receive buffer is longer, and ends the frame;
  afterwards the receive buffer holds the replies of the device in order, every other byte of RAM
  is as it was, both amounts are the programmed counts and the three end events are set.  The
  buffers may be the same; no byte of the receive buffer may be a later byte of the transmit buffer.\<close>

theorem nrf_spim_exchange:
  assumes "sw_hf w" "sr_regs s SERIAL_ENABLE AND 0xF = 7"
    "tp = sr_regs s TXD_PTR" "tn = unat (sr_regs s TXD_MAXCNT)" "rp = sr_regs s RXD_PTR" "rn = unat (sr_regs s RXD_MAXCNT)"
    "\<And>j. j < tn \<Longrightarrow> dma_ok base (sw_map w) (tp + of_nat j)" "\<And>j. j < rn \<Longrightarrow> dma_ok base (sw_map w) (rp + of_nat j)"
    "\<And>j l. j < rn \<Longrightarrow> j < l \<Longrightarrow> l < tn \<Longrightarrow> rp + of_nat j \<noteq> tp + of_nat l"
    "outs = map (\<lambda>j. if j < tn then dma_byte base (sw_map w) (tp + of_nat j) else to_u8 (sr_regs s ORC AND 0xFF)) [0..<max tn rn]"
    "bus = int (unat (sr_bus_index s))"
    "spi_shift (\<lambda>d b. mm_spi_bus_xfer (sw_devs w) bus b d) (sw_dev w) outs = (replies, d')"
  shows "let (s', w') = serial_spim_run (s, w)
    in sw_dev w' = mm_spi_bus_end (sw_devs w) bus d' \<and>
       (\<forall>j < rn. dma_byte base (sw_map w') (rp + of_nat j) = replies ! j) \<and>
       (\<forall>a. dma_ok base (sw_map w) a \<and> (\<forall>j < rn. a \<noteq> rp + of_nat j) \<longrightarrow>
          dma_byte base (sw_map w') a = dma_byte base (sw_map w) a) \<and>
       unat (sr_regs s' TXD_AMOUNT) = tn \<and> unat (sr_regs s' RXD_AMOUNT) = rn \<and>
       sr_regs s' (0x120 div 4) = 1 \<and> sr_regs s' (0x110 div 4) = 1 \<and> sr_regs s' (0x118 div 4) = 1"
proof -
  let ?tc = "sr_regs s TXD_MAXCNT" and ?rc = "sr_regs s RXD_MAXCNT"
  have t: "unat (if ?tc > ?rc then ?tc else ?rc) = max tn rn" by (simp add: assms(4,6) max_def word_less_nat_alt)
  have "tn < 2 ^ 32" "rn < 2 ^ 32" using unsigned_less [of ?tc] unsigned_less [of ?rc] by (simp_all add: assms(4,6))
  then have b: "0 + max tn rn < 2 ^ 32" by simp
  have o: "outs = dma.spim_outs base tp (unat ?tc) (to_u8 (sr_regs s ORC AND 0xFF)) 0 (max tn rn) (sw_map w)"
    by (simp add: assms(10,4) dma.spim_outs_def)
  obtain m' where m': "spim_loop dma_read8 dma_write8 (\<lambda>d b. mm_spi_bus_xfer (sw_devs w) bus b d) (tp, ?tc) (rp, ?rc)
      (to_u8 (sr_regs s ORC AND 0xFF)) (max tn rn) 0 (sw_map w, sw_dev w) = (m', d')"
    "\<And>j. j < rn \<Longrightarrow> dma_byte base m' (rp + of_nat j) = replies ! j"
    "\<And>a. dma_ok base (sw_map w) a \<Longrightarrow> (\<forall>j < rn. a \<noteq> rp + of_nat j) \<Longrightarrow> dma_byte base m' a = dma_byte base (sw_map w) a"
    using dma.spim_loop_exchange [where i = 0 and k = "max tn rn" and base = base, OF b, of ?tc "sw_map w" tp ?rc rp _ "sw_dev w",
      OF _ _ _ assms(12) [unfolded o]] assms(4,6-9) by auto
  define s1 where "s1 = set_serial RXD_AMOUNT ?rc (set_serial TXD_AMOUNT ?tc s)"
  define x where "x = serial_event_set (0x118 div 4) 0x110 (serial_event_set (0x110 div 4) 0x10
    (serial_event_set (0x120 div 4) 0x100 (s1, w\<lparr>sw_map := m', sw_dev := d'\<rparr>)))"
  have "serial_spim_run (s, w) = (fst x, (snd x)\<lparr>sw_dev := mm_spi_bus_end (sw_devs (snd x)) bus (sw_dev (snd x))\<rparr>)"
    using m'(1) [folded t, unfolded assms(3,5,11)] assms(1,2)
    by (simp only: serial_spim_run_def Let_def prod.case case_prod_beta fst_conv snd_conv prod.collapse x_def s1_def assms(11)
      not_True_eq_False if_False simp_thms)
  then show ?thesis
    using m'(2,3) by (simp add: x_def s1_def assms(4,6))
qed

text \<open>A UART transmission by DMA puts the bytes of the buffer out in order, but only the last 1023 of
  them: the task queues the whole buffer on the host ring before it flushes, so the head of a longer
  transmission is overwritten, while TXD.AMOUNT reports all bytes as sent.  The task returns against
  every host that obeys POSIX, and what reaches the descriptor is a prefix of the last 1023 bytes of
  what was waiting followed by the buffer; the rest stays queued or, after a hard error, is
  dropped.\<close>

theorem nrf_uarte_tx:
  assumes "sw_hf w" "sr_regs s SERIAL_ENABLE AND 0xF = 8" "io_ok (sr_io s)" "posix_write (sw_host w)" "0 \<le> io_fd (sr_io s)"
    "tp = sr_regs s TXD_PTR" "tn = unat (sr_regs s TXD_MAXCNT)" "\<And>j. j < tn \<Longrightarrow> dma_ok base (sw_map w) (tp + of_nat j)"
    "bs = map (\<lambda>j. dma_byte base (sw_map w) (tp + of_nat j)) [0..<tn]"
  shows "\<exists>s' w' sent rest. serial_uarte_start_tx (s, w) = Some (s', w') \<and>
    keep_last 1023 (tx_contents (sr_io s) @ bs) = sent @ rest \<and>
    uh_out (sw_host w') (io_fd (sr_io s)) = uh_out (sw_host w) (io_fd (sr_io s)) @ sent \<and>
    (tx_contents (sr_io s') \<noteq> [] \<longrightarrow> tx_contents (sr_io s') = rest) \<and>
    unat (sr_regs s' TXD_AMOUNT) = tn \<and> sr_regs s' (0x120 div 4) = 1"
proof -
  have l: "uarte_tx_loop dma_read8 tp tn (sr_io s, sw_map w) = (foldl mm_uart_io_queue_tx (sr_io s) bs, sw_map w)"
    unfolding assms(9) by (rule dma.tx_loop_bytes [where base = base]) (rule assms(8))
  have ok: "io_ok (foldl mm_uart_io_queue_tx (sr_io s) bs)" by (rule tx_ring.puts_ok [OF assms(3)])
  obtain r io' h' sent rest where f: "flush_loop (foldl mm_uart_io_queue_tx (sr_io s) bs) (sw_host w) = Some (r, io', h')"
    "tx_contents (foldl mm_uart_io_queue_tx (sr_io s) bs) = sent @ rest"
    "uh_out h' = (uh_out (sw_host w))(io_fd (sr_io s) := uh_out (sw_host w) (io_fd (sr_io s)) @ sent)"
    "r \<longrightarrow> rest = [] \<and> tx_contents io' = []" "\<not> r \<longrightarrow> tx_contents io' \<in> {rest, []}"
    using flush_spec [OF ok assms(4)] unfolding puts_fd by blast
  have "mm_uart_io_flush (foldl mm_uart_io_queue_tx (sr_io s) bs, sw_host w) = Some (r, io', h')"
    using f(1) assms(5) by (simp add: mm_uart_io_flush_def puts_fd)
  then have "serial_uarte_start_tx (s, w) = Some (serial_event_set (0x120 div 4) 0x100
      (set_serial TXD_AMOUNT (sr_regs s TXD_MAXCNT) (s\<lparr>sr_io := io'\<rparr>), w\<lparr>sw_host := h'\<rparr>))"
    using assms(1,2) l unfolding assms(6,7) by (simp add: serial_uarte_start_tx_def Let_def)
  moreover define s' w' where "s' = fst (serial_event_set (0x120 div 4) 0x100
      (set_serial TXD_AMOUNT (sr_regs s TXD_MAXCNT) (s\<lparr>sr_io := io'\<rparr>), w\<lparr>sw_host := h'\<rparr>))"
    and "w' = snd (serial_event_set (0x120 div 4) 0x100
      (set_serial TXD_AMOUNT (sr_regs s TXD_MAXCNT) (s\<lparr>sr_io := io'\<rparr>), w\<lparr>sw_host := h'\<rparr>))"
  ultimately have "serial_uarte_start_tx (s, w) = Some (s', w')" by simp
  moreover have "sr_io s' = io'" "sw_host w' = h'" "unat (sr_regs s' TXD_AMOUNT) = tn" "sr_regs s' (0x120 div 4) = 1"
    by (simp_all add: s'_def w'_def assms(7))
  moreover have "tx_contents io' \<noteq> [] \<longrightarrow> tx_contents io' = rest" using f(4,5) by auto
  moreover have "keep_last 1023 (tx_contents (sr_io s) @ bs) = sent @ rest" using f(2) puts_keep_last [OF assms(3), of bs] by simp
  ultimately show ?thesis using f(3) by auto
qed

subsection \<open>Reception\<close>

text \<open>A byte from the host that the UART has taken from its descriptor.\<close>

definition serial_receive :: "serial_inst \<times> ('d, 'e) serial_world \<Rightarrow> u8 \<Rightarrow> serial_inst \<times> ('d, 'e) serial_world"
  where "serial_receive x b =
    (let (s, w) = x in serial_uarte_try_rx (s\<lparr>sr_io := (sr_io s)\<lparr>io_rx_byte := b, io_rx_pending := True\<rparr>\<rparr>, w))"

text \<open>The block is receiving, with its next byte at index \<^verbatim>\<open>a\<close> of \<^verbatim>\<open>n\<close>.\<close>

definition receiving :: "u32 \<Rightarrow> nat \<Rightarrow> nat \<Rightarrow> serial_inst \<times> ('d, 'e) serial_world \<Rightarrow> bool"
  where "receiving rp a n x = (let (s, w) = x in
    sw_hf w \<and> sr_regs s SERIAL_ENABLE AND 0xF = 8 \<and> \<not> io_stdout_only (sr_io s) \<and> (a < n \<longrightarrow> sr_rx_running s) \<and>
    sr_regs s RXD_PTR = rp \<and> unat (sr_regs s RXD_AMOUNT) = a \<and> unat (sr_regs s RXD_MAXCNT) = n)"

lemma rx_one:
  assumes "a < n" "\<not> io_stdout_only io"
  shows "uarte_rx_loop rp n a (s\<lparr>sr_io := io\<lparr>io_rx_byte := b, io_rx_pending := True\<rparr>\<rparr>, w) =
    (a + 1, serial_event_set (0x108 div 4) 0x4 (s\<lparr>sr_io := io\<lparr>io_rx_byte := b, io_rx_pending := False\<rparr>\<rparr>,
       w\<lparr>sw_map := snd (dma_write8 (sw_map w) (rp + a) b)\<rparr>))"
proof -
  define x where "x = serial_event_set (0x108 div 4) 0x4 (s\<lparr>sr_io := io\<lparr>io_rx_byte := b, io_rx_pending := False\<rparr>\<rparr>,
       w\<lparr>sw_map := snd (dma_write8 (sw_map w) (rp + a) b)\<rparr>)"
  have "\<not> io_rx_pending (sr_io (fst x))" by (simp add: x_def)
  then have stop: "uarte_rx_loop rp n (a + 1) x = (a + 1, x)"
    by (cases x) (simp add: uarte_rx_loop.simps mm_uart_io_has_rx_def)
  show ?thesis
    using assms stop unfolding x_def
    by (subst uarte_rx_loop.simps) (simp add: mm_uart_io_has_rx_def mm_uart_io_read_def)
qed

lemma receive_one:
  assumes "receiving rp a n x" "a < n"
  shows "receiving rp (Suc a) n (serial_receive x b)"
    and "sw_map (snd (serial_receive x b)) = snd (dma_write8 (sw_map (snd x)) (rp + of_nat a) b)"
    and "Suc a = n \<longrightarrow> \<not> sr_rx_running (fst (serial_receive x b)) \<and> sr_regs (fst (serial_receive x b)) (0x110 div 4) = 1"
proof -
  obtain s w where x: "x = (s, w)" by fastforce
  note r = assms(1) [unfolded receiving_def x Let_def prod.case]
  let ?a = "sr_regs s RXD_AMOUNT" and ?n = "sr_regs s RXD_MAXCNT"
  have lt: "?a < ?n" using r assms(2) by (simp add: word_less_nat_alt)
  have ofn: "of_nat a = ?a" using r by (metis word_of_nat_eq_iff of_nat_unat ucast_id)
  have a1: "unat (?a + 1) = Suc a" using inc_unat [OF lt] r by simp
  have ge: "?a + 1 \<ge> ?n \<and> ?n \<noteq> 0 \<longleftrightarrow> Suc a = n" using a1 r assms(2) by (auto simp: word_le_nat_alt)
  define y where "y = serial_event_set (0x108 div 4) 0x4 (s\<lparr>sr_io := (sr_io s)\<lparr>io_rx_byte := b, io_rx_pending := False\<rparr>\<rparr>,
       w\<lparr>sw_map := snd (dma_write8 (sw_map w) (rp + ?a) b)\<rparr>)"
  define z where "z = (set_serial RXD_AMOUNT (?a + 1) (fst y), snd y)"
  have "uarte_rx_loop rp ?n ?a (s\<lparr>sr_io := (sr_io s)\<lparr>io_rx_byte := b, io_rx_pending := True\<rparr>\<rparr>, w) = (?a + 1, y)"
    unfolding y_def by (rule rx_one [OF lt]) (use r in simp)
  then have e: "serial_receive x b = (if Suc a = n then serial_event_set (0x110 div 4) 0x10 ((fst z)\<lparr>sr_rx_running := False\<rparr>, snd z) else z)"
    using r assms(2) ge
    by (cases "Suc a = n") (auto simp: serial_receive_def serial_uarte_try_rx_def x Let_def case_prod_beta z_def)
  show "receiving rp (Suc a) n (serial_receive x b)"
    using r assms(2) a1 unfolding e by (auto simp: receiving_def z_def y_def case_prod_beta)
  show "sw_map (snd (serial_receive x b)) = snd (dma_write8 (sw_map (snd x)) (rp + of_nat a) b)"
    unfolding e ofn by (simp add: z_def y_def x)
  show "Suc a = n \<longrightarrow> \<not> sr_rx_running (fst (serial_receive x b)) \<and> sr_regs (fst (serial_receive x b)) (0x110 div 4) = 1"
    unfolding e by (simp add: z_def y_def)
qed

text \<open>A UART reception by DMA stores what arrives, in order.  While a reception runs, a sequence of bytes
  from the host that fits in what is left of the buffer is stored in RAM from the current amount on
  and counted, nothing else in RAM changes, and the reception stops and signals its end exactly
  when the buffer is full.\<close>

theorem nrf_uarte_rx:
  assumes "receiving rp a n x" "a + length bs \<le> n" "bs \<noteq> []"
    "\<And>j. a \<le> j \<Longrightarrow> j < a + length bs \<Longrightarrow> dma_ok base (sw_map (snd x)) (rp + of_nat j)"
  shows "let x' = foldl serial_receive x bs
    in receiving rp (a + length bs) n x' \<and>
       (a + length bs = n \<longrightarrow> \<not> sr_rx_running (fst x') \<and> sr_regs (fst x') (0x110 div 4) = 1) \<and>
       (\<forall>j < length bs. dma_byte base (sw_map (snd x')) (rp + of_nat (a + j)) = bs ! j) \<and>
       (\<forall>c. dma_ok base (sw_map (snd x)) c \<and> (\<forall>j < length bs. c \<noteq> rp + of_nat (a + j)) \<longrightarrow>
          dma_byte base (sw_map (snd x')) c = dma_byte base (sw_map (snd x)) c)"
  using assms
proof (induction bs arbitrary: a x)
  case (Cons b bs)
  define x1 where "x1 = serial_receive x b"
  have a: "a < n" using Cons.prems(2) by simp
  have "n = unat (sr_regs (fst x) RXD_MAXCNT)" using Cons.prems(1) by (simp add: receiving_def case_prod_beta Let_def)
  then have n: "n < 2 ^ 32" using unsigned_less [of "sr_regs (fst x) RXD_MAXCNT"] by simp
  note one = receive_one [OF Cons.prems(1) a, of b, folded x1_def]
  have ok0: "dma_ok base (sw_map (snd x)) (rp + of_nat a)" using Cons.prems(4) [of a] by simp
  have ok1: "dma_ok base (sw_map (snd x1)) c" if "dma_ok base (sw_map (snd x)) c" for c
    unfolding one(2) using dma.wr_keeps [OF ok0 that] .
  have by1: "dma_byte base (sw_map (snd x1)) c = (if rp + of_nat a = c then b else dma_byte base (sw_map (snd x)) c)"
    if "dma_ok base (sw_map (snd x)) c" for c
    unfolding one(2) using dma.wr_byte [OF ok0 that] .
  have ne: "rp + of_nat a \<noteq> rp + of_nat (Suc a + j)" if "j < length bs" for j
  proof -
    have "unat (of_nat a :: u32) = a" "unat (of_nat (Suc a + j) :: u32) = Suc a + j"
      using that Cons.prems(2) n by (simp_all only: unat_of_nat length_Cons) simp_all
    then have "(of_nat a :: u32) \<noteq> of_nat (Suc a + j)" by (metis add_Suc less_add_Suc1 nat_neq_iff)
    then show ?thesis by (metis add_left_cancel)
  qed
  show ?case
  proof (cases "bs = []")
    case True
    then show ?thesis using one by1 [OF ok0] by1 by (simp add: Let_def flip: x1_def)
  next
    case False
    have ok': "dma_ok base (sw_map (snd x1)) (rp + of_nat j)" if "Suc a \<le> j" "j < Suc a + length bs" for j
      using that Cons.prems(4) [of j] ok1 by simp
    have len: "Suc a + length bs \<le> n" using Cons.prems(2) by simp
    define x' where "x' = foldl serial_receive x1 bs"
    note ih = Cons.IH [OF one(1) len False ok', folded x'_def, unfolded Let_def]
    have first: "dma_byte base (sw_map (snd x')) (rp + of_nat a) = b"
      using ih ok1 [OF ok0] ne by1 [OF ok0] by auto
    have "dma_byte base (sw_map (snd x')) (rp + of_nat (a + j)) = (b # bs) ! j" if "j < length (b # bs)" for j
      using that ih first by (cases j) auto
    moreover have "dma_byte base (sw_map (snd x')) c = dma_byte base (sw_map (snd x)) c"
      if c: "dma_ok base (sw_map (snd x)) c" "\<forall>j < length (b # bs). c \<noteq> rp + of_nat (a + j)" for c
    proof -
      have "c \<noteq> rp + of_nat (Suc a + j)" if "j < length bs" for j
        using c(2) [rule_format, of "Suc j"] that by simp
      then have "dma_byte base (sw_map (snd x')) c = dma_byte base (sw_map (snd x1)) c"
        using ih ok1 [OF c(1)] by blast
      then show ?thesis using by1 [OF c(1)] c(2) [rule_format, of 0] by simp
    qed
    ultimately show ?thesis using ih by (simp add: Let_def flip: x1_def x'_def)
  qed
qed simp

subsection \<open>A small machine\<close>

text \<open>Eight bytes of RAM, the complementing device on bus 0, and the first instance.\<close>

definition demo_serial :: "u32 \<Rightarrow> u32 \<Rightarrow> u32 \<Rightarrow> u32 \<Rightarrow> u32 \<Rightarrow> serial_inst"
  where "demo_serial en tp tn rp rn = zero_serial\<lparr>sr_regs := (\<lambda>_. 0)(SERIAL_ENABLE := en, TXD_PTR := tp, TXD_MAXCNT := tn,
    RXD_PTR := rp, RXD_MAXCNT := rn, ORC := 0xFF), sr_io := mm_uart_io_init\<lparr>io_fd := 5\<rparr>\<rparr>"

definition demo_world :: "(nat, unit) serial_world"
  where "demo_world = \<lparr>sw_nvic = None, sw_hf = True, sw_devs = [\<lparr>spd_bus = 0, spd_xfer = Some (\<lambda>e b. (b XOR 0xFF, Suc e)),
    spd_end = None, spd_cs_level = None\<rparr>], sw_dev = 0, sw_map = Some demo_map, sw_host = demo_uart_host\<rparr>"

lemma demo_dma: "dma_ok 0x30000000 (sw_map demo_world) (0x30000000 + of_nat j)" "dma_byte 0x30000000 (sw_map demo_world) (0x30000000 + of_nat j) = 0"
  if "j < 8" for j
proof -
  have "j = 0 \<or> j = 1 \<or> j = 2 \<or> j = 3 \<or> j = 4 \<or> j = 5 \<or> j = 6 \<or> j = 7" using that by auto
  then show "dma_ok 0x30000000 (sw_map demo_world) (0x30000000 + of_nat j)"
    by (auto simp: demo_world_def dma_ok_def demo_map_simps grants8_def flash_hit_def)
       (auto simp: demo_map_def demo_cfg_def mm_memmap_configure_ram_def mm_memmap_init_def ram_offset_for_addr_def in_window_def)
  show "dma_byte 0x30000000 (sw_map demo_world) (0x30000000 + of_nat j) = 0"
    using that by (simp add: demo_world_def dma_byte_def demo_map_simps unat_of_nat)
qed

theorem nrf_spim_exchange_witness:
  "let (s', w') = serial_spim_run (demo_serial 7 0x30000000 1 0x30000004 2, demo_world)
   in sw_dev w' = 2 \<and> dma_byte 0x30000000 (sw_map w') (0x30000004 + of_nat 0) = 0xFF \<and>
      dma_byte 0x30000000 (sw_map w') (0x30000004 + of_nat 1) = 0 \<and> sr_regs s' (0x118 div 4) = 1"
proof -
  let ?s = "demo_serial 7 0x30000000 1 0x30000004 2" and ?d = "\<lambda>d b. mm_spi_bus_xfer (sw_devs demo_world) 0 b d"
  have regs: "sr_regs ?s SERIAL_ENABLE = 7" "sr_regs ?s TXD_PTR = 0x30000000" "sr_regs ?s TXD_MAXCNT = 1"
    "sr_regs ?s RXD_PTR = 0x30000004" "sr_regs ?s RXD_MAXCNT = 2" "sr_regs ?s ORC = 0xFF" "sr_bus_index ?s = 0"
    by (simp_all add: demo_serial_def zero_serial_def)
  have outs: "[0 :: u8, 0xFF] = map (\<lambda>j. if j < 1 then dma_byte 0x30000000 (sw_map demo_world) (0x30000000 + of_nat j)
      else to_u8 (sr_regs ?s ORC AND 0xFF)) [0..<max 1 2]"
    using demo_dma(2) [of 0] by (simp add: demo_serial_def upt_rec to_u8_def)
  have sh: "spi_shift ?d (sw_dev demo_world) [0, 0xFF] = ([0xFF, 0], 2)" "mm_spi_bus_end (sw_devs demo_world) 0 (2 :: nat) = 2"
    by (simp_all add: demo_world_def mm_spi_bus_xfer_def spi_bus_select_def)
  have rx: "dma_ok 0x30000000 (sw_map demo_world) (0x30000004 + of_nat j)" if "j < 2" for j
    using demo_dma(1) [of "4 + j"] that by (simp add: add.assoc [symmetric])
  have hf: "sw_hf demo_world" by (simp add: demo_world_def)
  have tx: "dma_ok 0x30000000 (sw_map demo_world) (0x30000000 + of_nat j)" if "j < 1" for j
    using demo_dma(1) [of j] that by simp
  have far: "0x30000004 + of_nat j \<noteq> 0x30000000 + (of_nat l :: u32)" if "j < 2" "j < l" "l < 1" for j l :: nat
    using that by simp
  have cfg: "sr_regs ?s SERIAL_ENABLE AND 0xF = 7" "0x30000000 = sr_regs ?s TXD_PTR" "1 = unat (sr_regs ?s TXD_MAXCNT)"
    "0x30000004 = sr_regs ?s RXD_PTR" "2 = unat (sr_regs ?s RXD_MAXCNT)" "0 = int (unat (sr_bus_index ?s))"
    by (simp_all only: regs) simp_all
  note t = nrf_spim_exchange [OF hf cfg(1-5) tx rx far outs cfg(6) sh(1), unfolded sh(2)]
  then have "\<And>s' w'. serial_spim_run (?s, demo_world) = (s', w') \<Longrightarrow>
      sw_dev w' = 2 \<and> (\<forall>j < 2. dma_byte 0x30000000 (sw_map w') (0x30000004 + of_nat j) = [0xFF, 0] ! j) \<and> sr_regs s' (0x118 div 4) = 1"
    by (auto simp: Let_def split: prod.splits)
  then show ?thesis
    by (cases "serial_spim_run (?s, demo_world)") (simp only: Let_def prod.case, force)
qed

theorem nrf_uarte_tx_witness:
  "\<exists>s' w' sent rest. serial_uarte_start_tx (demo_serial 8 0x30000000 3 0 0, demo_world) = Some (s', w') \<and>
    [0, 0, 0] = sent @ rest \<and> uh_out (sw_host w') 5 = sent \<and> sr_regs s' (0x120 div 4) = 1"
proof -
  let ?s = "demo_serial 8 0x30000000 3 0 0"
  have ok: "io_ok (sr_io ?s)" "tx_contents (sr_io ?s) = []" "io_fd (sr_io ?s) = 5" "0 \<le> io_fd (sr_io ?s)"
    using init_ok by (simp_all add: demo_serial_def io_ok_def tx_contents_def)
  have host: "posix_write (sw_host demo_world)" "uh_out (sw_host demo_world) i = []" "sw_hf demo_world" for i
    by (simp_all add: posix_write_def demo_uart_host_def demo_world_def)
  have cfg: "sr_regs ?s SERIAL_ENABLE AND 0xF = 8" "0x30000000 = sr_regs ?s TXD_PTR" "3 = unat (sr_regs ?s TXD_MAXCNT)"
    by (simp_all add: demo_serial_def zero_serial_def)
  have tx: "dma_ok 0x30000000 (sw_map demo_world) (0x30000000 + of_nat j)" if "j < 3" for j
    using demo_dma(1) [of j] that by simp
  have bs: "[0, 0, 0] = map (\<lambda>j. dma_byte 0x30000000 (sw_map demo_world) (0x30000000 + of_nat j)) [0..<3]"
    using demo_dma(2) [of 0] demo_dma(2) [of 1] demo_dma(2) [of 2] by (simp add: upt_rec)
  have "keep_last 1023 ([] @ [0, 0, 0 :: u8]) = [0, 0, 0]" by (simp add: keep_last_def)
  with nrf_uarte_tx [OF host(3) cfg(1) ok(1) host(1) ok(4) cfg(2,3) tx bs] show ?thesis
    unfolding ok(2,3) host(2) by auto
qed

theorem nrf_uarte_rx_witness:
  "let x' = foldl serial_receive ((demo_serial 8 0 0 0x30000004 2)\<lparr>sr_rx_running := True\<rparr>, demo_world) [0x12, 0x34]
   in dma_byte 0x30000000 (sw_map (snd x')) 0x30000004 = 0x12 \<and> dma_byte 0x30000000 (sw_map (snd x')) 0x30000005 = 0x34 \<and>
      \<not> sr_rx_running (fst x')"
proof -
  let ?x = "((demo_serial 8 0 0 0x30000004 2)\<lparr>sr_rx_running := True\<rparr>, demo_world)"
  have r: "receiving 0x30000004 0 2 ?x"
    by (simp add: receiving_def demo_world_def) (simp add: demo_serial_def mm_uart_io_init_def zero_uart_io_def zero_serial_def)
  have ok: "dma_ok 0x30000000 (sw_map (snd ?x)) (0x30000004 + of_nat j)" if "0 \<le> j" "j < 0 + length [0x12 :: u8, 0x34]" for j
    using demo_dma(1) [of "4 + j"] that by (simp add: add.assoc [symmetric])
  have n: "0 + length [0x12 :: u8, 0x34] = 2" by simp
  have *: "(0 + length [0x12 :: u8, 0x34] = 2 \<longrightarrow> \<not> P) \<and> (\<forall>j < length [0x12 :: u8, 0x34]. f j = [0x12 :: u8, 0x34] ! j) \<Longrightarrow>
    f 0 = 0x12 \<and> f 1 = 0x34 \<and> \<not> P" for P and f :: "nat \<Rightarrow> u8" by force
  show ?thesis
    using nrf_uarte_rx [OF r _ _ ok] * [of "sr_rx_running (fst (foldl serial_receive ?x [0x12, 0x34]))"
      "\<lambda>j. dma_byte 0x30000000 (sw_map (snd (foldl serial_receive ?x [0x12, 0x34]))) (0x30000004 + of_nat (0 + j))"]
    by (simp add: Let_def del: foldl.simps) 
qed

end
