(* ===== verification/Gdb_Codec.thy ===== *)
theory Gdb_Codec
imports Prelude
begin

text \<open>
  The text layer of the debugger stub, first part of \<^verbatim>\<open>src/gdbstub.c\<close>: hexadecimal digits, the packet
  format with its checksum in both directions, and the numbers that the commands carry.

  A C string is the list of its bytes before the terminating zero.  The connection is a record of
  the bytes still to be received, after which the peer has closed, and the bytes sent.  Numbers
  are read by \<^verbatim>\<open>sscanf\<close> with \<^verbatim>\<open>%lx\<close>, modelled for a 64-bit \<^verbatim>\<open>unsigned long\<close>: white space, a sign and the
  prefix \<^verbatim>\<open>0x\<close> are accepted, and a number too large gives the largest one.
\<close>

type_synonym cstr = "u8 list"

abbreviation "GDB_BUF_SIZE \<equiv> (1024 :: nat)"

subsection \<open>Hexadecimal\<close>

definition hex_to_nibble :: "u8 \<Rightarrow> int"
  where "hex_to_nibble c =
    (if 0x30 \<le> c \<and> c \<le> 0x39 then uint c - 0x30
     else if 0x61 \<le> c \<and> c \<le> 0x66 then uint c - 0x61 + 10
     else if 0x41 \<le> c \<and> c \<le> 0x46 then uint c - 0x41 + 10
     else -1)"

definition nibble_to_hex :: "u8 \<Rightarrow> u8"
  where "nibble_to_hex v =
    [0x30, 0x31, 0x32, 0x33, 0x34, 0x35, 0x36, 0x37, 0x38, 0x39, 0x61, 0x62, 0x63, 0x64, 0x65, 0x66] ! unat (v AND 0x0F)"

definition hex_byte :: "u8 \<Rightarrow> cstr"
  where "hex_byte b = [nibble_to_hex (drop_bit 4 b), nibble_to_hex (b AND 0x0F)]"

definition hex_encode_u32 :: "u32 \<Rightarrow> cstr"
  where "hex_encode_u32 val = concat (map (\<lambda>i. hex_byte (to_u8 (drop_bit (i * 8) val AND 0xFF))) [0..<4])"

text \<open>The encoders return the characters stored, none standing for the result 0.\<close>

definition hex_encode_bytes :: "u8 list \<Rightarrow> nat \<Rightarrow> cstr"
  where "hex_encode_bytes bs out_cap = (if out_cap < length bs * 2 + 1 then [] else concat (map hex_byte bs))"

fun hex_decode_pairs :: "cstr \<Rightarrow> u8 list option" where
  "hex_decode_pairs [] = Some []"
| "hex_decode_pairs [c] = None"
| "hex_decode_pairs (c1 # c2 # cs) =
    (let h1 = hex_to_nibble c1; h2 = hex_to_nibble c2 in
     if h1 < 0 \<or> h2 < 0 then None
     else map_option ((#) (of_int (h1 * 16 + h2))) (hex_decode_pairs cs))"

definition hex_decode_bytes :: "cstr \<Rightarrow> nat \<Rightarrow> u8 list"
  where "hex_decode_bytes cs out_cap =
    (if odd (length cs) then []
     else if out_cap < length cs div 2 + 1 then []
     else case hex_decode_pairs cs of None \<Rightarrow> [] | Some bs \<Rightarrow> bs)"

fun parse_hex_from :: "u32 \<Rightarrow> cstr \<Rightarrow> u32 option" where
  "parse_hex_from v [] = Some v"
| "parse_hex_from v (c # cs) =
    (let n = hex_to_nibble c in if n < 0 then None else parse_hex_from (push_bit 4 v OR of_int n) cs)"

definition parse_hex_u32 :: "cstr \<Rightarrow> u32 option"
  where "parse_hex_u32 s = parse_hex_from 0 s"

subsection \<open>Numbers read by sscanf\<close>

definition is_space :: "u8 \<Rightarrow> bool"
  where "is_space c = (c = 0x20 \<or> 0x09 \<le> c \<and> c \<le> 0x0D)"

definition hex_digit :: "u8 \<Rightarrow> bool"
  where "hex_digit c = (hex_to_nibble c \<ge> 0)"

definition scan_sign :: "cstr \<Rightarrow> bool \<times> cstr"
  where "scan_sign s =
    (case s of [] \<Rightarrow> (False, s) | c # cs \<Rightarrow> if c = 0x2D then (True, cs) else if c = 0x2B then (False, cs) else (False, s))"

definition scan_prefix :: "cstr \<Rightarrow> cstr"
  where "scan_prefix s =
    (case s of c # x # cs \<Rightarrow> if c = 0x30 \<and> (x = 0x78 \<or> x = 0x58) then cs else s | _ \<Rightarrow> s)"

definition scan_lx :: "cstr \<Rightarrow> (u64 \<times> cstr) option"
  where "scan_lx s =
    (let (neg, s) = scan_sign (dropWhile is_space s); s = scan_prefix s; ds = takeWhile hex_digit s;
         n = foldl (\<lambda>v c. v * 16 + nat (hex_to_nibble c)) 0 ds
     in if ds = [] then None
        else Some (if n \<ge> 2 ^ 64 then -1 else if neg then - of_nat n else of_nat n, dropWhile hex_digit s))"

text \<open>The format \<^verbatim>\<open>%lx,%lx\<close>, both numbers or neither.\<close>

definition scan_lx_lx :: "cstr \<Rightarrow> (u64 \<times> u64) option"
  where "scan_lx_lx s =
    (case scan_lx s of
       Some (a, c # cs) \<Rightarrow> if c = 0x2C then map_option (\<lambda>(b, _). (a, b)) (scan_lx cs) else None
     | _ \<Rightarrow> None)"

subsection \<open>Packets\<close>

record gdb_conn =
  gc_in :: "u8 list"
  gc_out :: "u8 list"

text \<open>The packet for a payload: the body is cut at the size of the buffer.\<close>

definition gdb_packet :: "cstr \<Rightarrow> u8 list"
  where "gdb_packet payload =
    (let body = take (GDB_BUF_SIZE - 5) payload; csum = sum_list body
     in 0x24 # body @ [0x23, nibble_to_hex (drop_bit 4 csum AND 0x0F), nibble_to_hex (csum AND 0x0F)])"

definition gdb_send_packet :: "cstr \<Rightarrow> gdb_conn \<Rightarrow> gdb_conn"
  where "gdb_send_packet payload c = c\<lparr>gc_out := gc_out c @ gdb_packet payload\<rparr>"

text \<open>The outcome of reading from the client: closed by the peer, the interrupt character, or a value
  with what is left of the input.\<close>

datatype 'a recv = Closed | Interrupt "u8 list" | Got 'a "u8 list"

fun recv_start :: "u8 list \<Rightarrow> unit recv" where
  "recv_start [] = Closed"
| "recv_start (ch # s) = (if ch = 0x03 then Interrupt s else if ch = 0x24 then Got () s else recv_start s)"

fun recv_body :: "nat \<Rightarrow> cstr \<Rightarrow> u8 \<Rightarrow> u8 list \<Rightarrow> (cstr \<times> u8) recv" where
  "recv_body out_cap out sm [] = Closed"
| "recv_body out_cap out sm (ch # s) =
    (if ch = 0x03 then Interrupt s
     else if ch = 0x23 then Got (out, sm) s
     else recv_body out_cap (if length out + 1 < out_cap then out @ [ch] else out) (sm + ch) s)"

text \<open>The checksum digits: a character that is no digit counts as -1, converted to a byte.\<close>

definition recv_expect :: "u8 \<Rightarrow> u8 \<Rightarrow> u8"
  where "recv_expect c1 c2 = of_int (hex_to_nibble c1 * 16) OR of_int (hex_to_nibble c2)"

datatype packet_result = Packet cstr | Bad_Checksum | Interrupted | Peer_Closed

definition gdb_recv :: "nat \<Rightarrow> gdb_conn \<Rightarrow> packet_result \<times> gdb_conn"
  where "gdb_recv out_cap c =
    (case recv_start (gc_in c) of
       Closed \<Rightarrow> (Peer_Closed, c\<lparr>gc_in := []\<rparr>)
     | Interrupt s \<Rightarrow> (Interrupted, c\<lparr>gc_in := s\<rparr>)
     | Got _ s \<Rightarrow>
         (case recv_body out_cap [] 0 s of
            Closed \<Rightarrow> (Peer_Closed, c\<lparr>gc_in := []\<rparr>)
          | Interrupt s \<Rightarrow> (Interrupted, c\<lparr>gc_in := s\<rparr>)
          | Got (out, sm) (c1 # c2 # s) \<Rightarrow>
              if sm \<noteq> recv_expect c1 c2 then (Bad_Checksum, c\<lparr>gc_in := s, gc_out := gc_out c @ [0x2D]\<rparr>)
              else (Packet out, c\<lparr>gc_in := s, gc_out := gc_out c @ [0x2B]\<rparr>)
          | Got _ _ \<Rightarrow> (Peer_Closed, c\<lparr>gc_in := []\<rparr>)))"

subsection \<open>Digits\<close>

lemma nibble_hex: "hex_to_nibble (nibble_to_hex v) = uint (v AND 0x0F)"
proof -
  have "\<forall>i\<in>set [0..<16]. hex_to_nibble ([0x30, 0x31, 0x32, 0x33, 0x34, 0x35, 0x36, 0x37, 0x38, 0x39, 0x61, 0x62,
      0x63, 0x64, 0x65, 0x66] ! i) = int i"
    by (simp add: hex_to_nibble_def upt_rec)
  moreover have "unat (v AND 0x0F) \<in> set [0..<16]"
    using word_and_le1 [of v "0x0F"] by (simp add: word_le_nat_alt)
  ultimately show ?thesis unfolding nibble_to_hex_def by (simp add: unsigned_of_nat)
qed

lemma split_byte:
  "uint (drop_bit 4 b AND 0x0F) * 16 + uint (b AND 0x0F) = uint b"
  "(drop_bit 4 b AND 0x0F) * 16 OR b AND 0x0F = b" for b :: u8
proof -
  have f: "(0x0F :: u8) = mask 4" by (simp add: mask_eq_exp_minus_1)
  have "0 \<le> uint b div 16" "uint b div 16 < 16" using uint_lt2p [of b] by (simp_all add: pos_imp_zdiv_nonneg_iff)
  then have "uint (drop_bit 4 b AND 0x0F) = uint b div 16"
    unfolding f
    by (simp add: drop_bit_eq_div take_bit_eq_mod uint_mod uint_div flip: take_bit_eq_mask)
  moreover have "uint (b AND 0x0F) = uint b mod 16"
    unfolding f by (simp add: take_bit_eq_mod uint_mod flip: take_bit_eq_mask)
  ultimately show "uint (drop_bit 4 b AND 0x0F) * 16 + uint (b AND 0x0F) = uint b" by simp
  have "(drop_bit 4 b AND 0x0F) * 16 = push_bit 4 (drop_bit 4 b AND 0x0F)" by (simp add: push_bit_eq_mult)
  then show "(drop_bit 4 b AND 0x0F) * 16 OR b AND 0x0F = b"
    unfolding f by (intro bit_word_eqI) (auto simp: bit_simps)
qed

lemma decode_hex_bytes: "hex_decode_pairs (concat (map hex_byte bs) ) = Some bs"
  by (induction bs) (simp_all add: hex_byte_def nibble_hex split_byte)

subsection \<open>Packets come through\<close>

lemma recv_start_skip:
  "(\<And>c. c \<in> set junk \<Longrightarrow> c \<noteq> 0x24 \<and> c \<noteq> 0x03) \<Longrightarrow> recv_start (junk @ 0x24 # s) = Got () s"
  by (induction junk) simp_all

lemma recv_body_plain:
  "(\<And>c. c \<in> set p \<Longrightarrow> c \<noteq> 0x23 \<and> c \<noteq> 0x03) \<Longrightarrow> length out + length p < out_cap \<Longrightarrow>
   recv_body out_cap out sm (p @ 0x23 # s) = Got (out @ p, sm + sum_list p) s"
proof (induction p arbitrary: out sm)
  case (Cons c p)
  then show ?case using Cons.IH [of "out @ [c]" "sm + c"] by (simp add: add.assoc)
qed simp

lemma expect_sum: "recv_expect (nibble_to_hex (drop_bit 4 v AND 0x0F)) (nibble_to_hex (v AND 0x0F)) = v"
  by (simp add: recv_expect_def nibble_hex split_byte and.assoc)

text \<open>The text before a packet that a receiver skips, and the payloads that fit into one.\<close>

definition skippable :: "u8 list \<Rightarrow> bool"
  where "skippable junk = list_all (\<lambda>c. c \<noteq> 0x24 \<and> c \<noteq> 0x03) junk"

definition plain_payload :: "cstr \<Rightarrow> bool"
  where "plain_payload p = (length p \<le> GDB_BUF_SIZE - 5 \<and> list_all (\<lambda>c. c \<noteq> 0x23 \<and> c \<noteq> 0x03) p)"

text \<open>C36: the packet layer is a faithful channel.  A payload without the characters that frame packets,
  of up to 1019 bytes, is received exactly as it was sent, after any text without a packet start,
  is acknowledged, and nothing behind the packet is consumed; and when its checksum bytes are
  replaced by the digits of another value the packet is refused with a negative acknowledgement.\<close>

theorem gdb_packet_roundtrip:
  assumes "plain_payload p" "skippable junk" "bad \<noteq> sum_list p"
  shows "gdb_recv GDB_BUF_SIZE \<lparr>gc_in = junk @ gdb_packet p @ rest, gc_out = out\<rparr> =
      (Packet p, \<lparr>gc_in = rest, gc_out = out @ [0x2B]\<rparr>) \<and>
    gdb_recv GDB_BUF_SIZE \<lparr>gc_in = junk @ 0x24 # p @ 0x23 # hex_byte bad @ rest, gc_out = out\<rparr> =
      (Bad_Checksum, \<lparr>gc_in = rest, gc_out = out @ [0x2D]\<rparr>)"
proof -
  have b: "recv_body GDB_BUF_SIZE [] 0 (p @ 0x23 # s) = Got (p, sum_list p) s" for s
    using recv_body_plain [of p "[]" GDB_BUF_SIZE 0 s] assms(1) by (auto simp: plain_payload_def list_all_iff)
  have j: "recv_start (junk @ 0x24 # s) = Got () s" for s
    by (rule recv_start_skip) (use assms(2) in \<open>auto simp: skippable_def list_all_iff\<close>)
  have e: "recv_expect (nibble_to_hex (drop_bit 4 bad)) (nibble_to_hex (bad AND 0x0F)) = bad"
    by (simp add: recv_expect_def nibble_hex split_byte and.assoc)
  have "take (GDB_BUF_SIZE - 5) p = p" using assms(1) by (simp add: plain_payload_def)
  then show ?thesis
    using assms(3) by (simp add: gdb_recv_def gdb_packet_def hex_byte_def Let_def j b e expect_sum)
qed

theorem gdb_packet_roundtrip_witness:
  "gdb_recv GDB_BUF_SIZE \<lparr>gc_in = [0x2B] @ gdb_packet [0x67] @ [0x24], gc_out = []\<rparr> =
    (Packet [0x67], \<lparr>gc_in = [0x24], gc_out = [0x2B]\<rparr>)"
  using gdb_packet_roundtrip [of "[0x67]" "[0x2B]" 0 "[0x24]" "[]"] by (simp add: plain_payload_def skippable_def)

end
