(* ===== verification/Gdb_Stub.thy ===== *)
theory Gdb_Stub
imports Gdb_Codec Fetch
begin

text \<open>
  The debugger stub, second part of \<^verbatim>\<open>src/gdbstub.c\<close>: memory access for the debugger, software
  breakpoints, run control and the command interpreter.

  A command works on one record: the stub, its connection, the processor, the memory map, whether
  the Capstone cross-check is available and on, and \<^verbatim>\<open>gw_overrun\<close>, which records that the command
  wrote past a local variable of the handler.  The sockets are left out: whether there is a client
  is the descriptor in the stub, accepting one is an argument, and a command is handled when the
  main loop has found input.  Log output is left out.
\<close>

definition chars :: "string \<Rightarrow> cstr"
  where "chars s = map of_char s"

subsection \<open>The stub\<close>

record gdb_breakpoint =
  bp_addr :: u32
  bp_len :: nat
  bp_orig :: "u8 list"
  bp_valid :: bool

record mm_gdb_stub =
  gs_listen_fd :: int
  gs_client_fd :: int
  gs_connected :: bool
  gs_to_interrupt :: bool
  gs_running :: bool
  gs_step_pending :: bool
  gs_alive :: bool
  gs_request_reset :: bool
  gs_request_quit :: bool
  gs_breakpoints :: "gdb_breakpoint list"
  gs_rearm_valid :: bool
  gs_rearm_addr :: u32
  gs_exec_path :: cstr
  gs_cpu_name :: cstr

record 'e gdb_world =
  gw_stub :: mm_gdb_stub
  gw_conn :: gdb_conn
  gw_cpu :: mm_cpu
  gw_map :: "'e mm_memmap"
  gw_capstone :: "bool option"
  gw_overrun :: bool

definition mm_gdb_stub_init :: "mm_gdb_stub \<Rightarrow> mm_gdb_stub"
  where "mm_gdb_stub_init s = \<lparr>gs_listen_fd = -1, gs_client_fd = -1, gs_connected = False, gs_to_interrupt = False,
    gs_running = False, gs_step_pending = False, gs_alive = True, gs_request_reset = False, gs_request_quit = False,
    gs_breakpoints = map (\<lambda>b. b\<lparr>bp_valid := False, bp_len := 0, bp_addr := 0\<rparr>) (gs_breakpoints s),
    gs_rearm_valid = False, gs_rearm_addr = 0, gs_exec_path = [], gs_cpu_name = []\<rparr>"

definition mm_gdb_stub_set_exec_path :: "cstr \<Rightarrow> mm_gdb_stub \<Rightarrow> mm_gdb_stub"
  where "mm_gdb_stub_set_exec_path path s = s\<lparr>gs_exec_path := take 255 path\<rparr>"

definition mm_gdb_stub_set_cpu_name :: "cstr \<Rightarrow> mm_gdb_stub \<Rightarrow> mm_gdb_stub"
  where "mm_gdb_stub_set_cpu_name name s = s\<lparr>gs_cpu_name := take 63 name\<rparr>"

definition mm_gdb_stub_take_reset :: "mm_gdb_stub \<Rightarrow> bool \<times> mm_gdb_stub"
  where "mm_gdb_stub_take_reset s = (gs_request_reset s, s\<lparr>gs_request_reset := False\<rparr>)"

definition mm_gdb_stub_take_quit :: "mm_gdb_stub \<Rightarrow> bool \<times> mm_gdb_stub"
  where "mm_gdb_stub_take_quit s = (gs_request_quit s, s\<lparr>gs_request_quit := False\<rparr>)"

text \<open>The arguments of the next two are what the system calls answer: the descriptor of
  \<^verbatim>\<open>socket\<close>, the results of \<^verbatim>\<open>bind\<close> and \<^verbatim>\<open>listen\<close>, and the descriptor of \<^verbatim>\<open>accept\<close>.\<close>

definition mm_gdb_stub_start :: "int \<Rightarrow> int \<Rightarrow> int \<Rightarrow> mm_gdb_stub \<Rightarrow> bool \<times> mm_gdb_stub"
  where "mm_gdb_stub_start fd bound listening s =
    (if fd < 0 then (False, s)
     else if bound < 0 then (False, s)
     else if listening < 0 then (False, s)
     else (True, s\<lparr>gs_listen_fd := fd\<rparr>))"

definition mm_gdb_stub_wait_client :: "int \<Rightarrow> mm_gdb_stub \<Rightarrow> bool \<times> mm_gdb_stub"
  where "mm_gdb_stub_wait_client cfd s =
    (if gs_listen_fd s < 0 then (False, s)
     else if cfd < 0 then (False, s)
     else (True, s\<lparr>gs_client_fd := cfd, gs_connected := True, gs_running := False, gs_step_pending := False\<rparr>))"

definition gdb_send :: "cstr \<Rightarrow> 'e gdb_world \<Rightarrow> 'e gdb_world"
  where "gdb_send payload w =
    (if gs_client_fd (gw_stub w) < 0 then w else w\<lparr>gw_conn := gdb_send_packet payload (gw_conn w)\<rparr>)"

text \<open>Console output: pieces of 511 characters, in hexadecimal behind an O.\<close>

function console_chunks :: "cstr \<Rightarrow> cstr list" where
  "console_chunks msg = (if msg = [] then [] else take 511 msg # console_chunks (drop 511 msg))"
  by auto

termination console_chunks
  by (relation "measure length") auto

declare console_chunks.simps [simp del]

definition gdb_send_console :: "cstr \<Rightarrow> 'e gdb_world \<Rightarrow> 'e gdb_world"
  where "gdb_send_console msg w =
    (if gs_client_fd (gw_stub w) < 0 then w
     else fold (\<lambda>chunk. gdb_send (0x4F # hex_encode_bytes chunk (GDB_BUF_SIZE - 1))) (console_chunks msg) w)"

definition mm_gdb_stub_notify_stop :: "int \<Rightarrow> 'e gdb_world \<Rightarrow> 'e gdb_world"
  where "mm_gdb_stub_notify_stop sig w =
    (let w = gdb_send (0x53 # hex_byte (of_int sig)) w
     in w\<lparr>gw_stub := (gw_stub w)\<lparr>gs_running := False, gs_step_pending := False\<rparr>\<rparr>)"

definition mm_gdb_stub_close :: "mm_gdb_stub \<Rightarrow> mm_gdb_stub"
  where "mm_gdb_stub_close s = s\<lparr>gs_client_fd := (if gs_client_fd s \<ge> 0 then -1 else gs_client_fd s),
    gs_listen_fd := (if gs_listen_fd s \<ge> 0 then -1 else gs_listen_fd s), gs_connected := False, gs_running := False\<rparr>"

definition gdb_send_ok :: "'e gdb_world \<Rightarrow> 'e gdb_world"
  where "gdb_send_ok = gdb_send [0x4F, 0x4B]"

definition gdb_send_error :: "u8 \<Rightarrow> 'e gdb_world \<Rightarrow> 'e gdb_world"
  where "gdb_send_error code = gdb_send (0x45 # hex_byte code)"

subsection \<open>Registers\<close>

definition gdb_regs :: "mm_cpu \<Rightarrow> u32 list"
  where "gdb_regs c =
    map (\<lambda>i. cpu_r c (of_nat i)) [0..<13] @
    [mm_cpu_get_active_sp c, cpu_r c 14, cpu_r c 15, xpsr c, msp_s c, psp_s c, 0, control_s c,
     msplim_s c, psplim_s c, msplim_ns c, psplim_ns c]"

definition gdb_encode_registers :: "mm_cpu \<Rightarrow> cstr"
  where "gdb_encode_registers c = concat (map hex_encode_u32 (gdb_regs c))"

text \<open>The switch of the command that reads one register.\<close>

definition gdb_one_reg :: "mm_cpu \<Rightarrow> u32 \<Rightarrow> u32"
  where "gdb_one_reg c idx =
    (if idx \<le> 12 then cpu_r c (to_u8 idx)
     else if idx = 13 then mm_cpu_get_active_sp c
     else if idx = 14 then cpu_r c 14
     else if idx = 15 then cpu_r c 15
     else if idx = 16 then xpsr c
     else if idx = 17 then msp_s c
     else if idx = 18 then psp_s c
     else if idx = 19 then 0
     else if idx = 20 then control_s c
     else if idx = 21 then msplim_s c
     else if idx = 22 then psplim_s c
     else if idx = 23 then msplim_ns c
     else if idx = 24 then psplim_ns c
     else 0)"

subsection \<open>Memory\<close>

definition other_sec :: "mm_sec_state \<Rightarrow> mm_sec_state"
  where "other_sec sec = (if sec = MM_SECURE then MM_NONSECURE else MM_SECURE)"

text \<open>A byte, tried in the current security state and then in the other.\<close>

definition gdb_read8 :: "'e mm_memmap \<Rightarrow> mm_sec_state \<Rightarrow> u32 \<Rightarrow> u8 option \<times> 'e mm_memmap"
  where "gdb_read8 m sec addr =
    (case mm_memmap_read8 m sec addr of
       (Some b, m) \<Rightarrow> (Some b, m) | (None, m) \<Rightarrow> mm_memmap_read8 m (other_sec sec) addr)"

text \<open>Whether all bytes could be read, and the bytes stored until then.\<close>

fun gdb_read_bytes :: "'e mm_memmap \<Rightarrow> mm_sec_state \<Rightarrow> u32 \<Rightarrow> nat \<Rightarrow> bool \<times> u8 list \<times> 'e mm_memmap" where
  "gdb_read_bytes m sec addr 0 = (True, [], m)"
| "gdb_read_bytes m sec addr (Suc n) =
    (case gdb_read8 m sec addr of
       (None, m) \<Rightarrow> (False, [], m)
     | (Some b, m) \<Rightarrow> (let (ok, bs, m) = gdb_read_bytes m sec (addr + 1) n in (ok, b # bs, m)))"

text \<open>The window of a buffer for a security state, with the fall-back to the whole buffer.\<close>

definition gdb_window :: "u32 \<Rightarrow> u32 \<Rightarrow> mm_mem \<Rightarrow> u32 \<times> u32"
  where "gdb_window base sz mem = (if sz = 0 \<and> m_length mem > 0 then (m_base mem, of_nat (m_length mem)) else (base, sz))"

definition gdb_ram_window :: "'e mm_memmap \<Rightarrow> mm_sec_state \<Rightarrow> u32 \<times> u32"
  where "gdb_ram_window m sec =
    (if sec = MM_NONSECURE then gdb_window (ram_base_ns m) (ram_size_ns m) (mm_ram m)
     else gdb_window (ram_base_s m) (ram_size_s m) (mm_ram m))"

definition gdb_flash_window :: "'e mm_memmap \<Rightarrow> mm_sec_state \<Rightarrow> u32 \<times> u32"
  where "gdb_flash_window m sec =
    (if sec = MM_NONSECURE then gdb_window (flash_base_ns m) (flash_size_ns m) (mm_flash m)
     else gdb_window (flash_base_s m) (flash_size_s m) (mm_flash m))"

definition gdb_hits :: "u32 \<times> u32 \<Rightarrow> u32 \<Rightarrow> nat \<Rightarrow> bool"
  where "gdb_hits win addr len = (addr \<ge> fst win \<and> unat (addr - fst win) + len \<le> unat (snd win))"

fun patch :: "u8 list \<Rightarrow> nat \<Rightarrow> u8 list \<Rightarrow> u8 list" where
  "patch b off [] = b"
| "patch b off (x # xs) = patch (b[off := x]) (Suc off) xs"

definition gdb_write8 :: "'e mm_memmap \<Rightarrow> mm_sec_state \<Rightarrow> u32 \<Rightarrow> u8 \<Rightarrow> bool \<times> 'e mm_memmap"
  where "gdb_write8 m sec addr v =
    (case mm_memmap_write8 m sec addr v of
       (True, m) \<Rightarrow> (True, m) | (False, m) \<Rightarrow> mm_memmap_write8 m (other_sec sec) addr v)"

fun gdb_write_slow :: "'e mm_memmap \<Rightarrow> mm_sec_state \<Rightarrow> u32 \<Rightarrow> u8 list \<Rightarrow> bool \<times> 'e mm_memmap" where
  "gdb_write_slow m sec addr [] = (True, m)"
| "gdb_write_slow m sec addr (b # bs) =
    (let (ok, m) = gdb_write8 m sec addr b in if ok then gdb_write_slow m sec (addr + 1) bs else (False, m))"

definition gdb_write_bytes :: "'e mm_memmap \<Rightarrow> mm_sec_state \<Rightarrow> u32 \<Rightarrow> u8 list \<Rightarrow> bool \<times> 'e mm_memmap"
  where "gdb_write_bytes m sec addr bs =
    (let rw = gdb_ram_window m sec; fw = gdb_flash_window m sec; n = length bs;
         flash = (case m_buffer (mm_flash m) of
             Some b \<Rightarrow>
               if gdb_hits fw addr n then
                 (let off = unat (addr - fst fw)
                  in (True, note_oob (off + n > length b) (m\<lparr>mm_flash := (mm_flash m)\<lparr>m_buffer := Some (patch b off bs)\<rparr>\<rparr>)))
               else gdb_write_slow m sec addr bs
           | None \<Rightarrow> gdb_write_slow m sec addr bs)
     in case m_buffer (mm_ram m) of
          Some b \<Rightarrow>
            if gdb_hits rw addr n then
              (let off = unat (addr - fst rw)
               in (True, note_oob (off + n > length b) (m\<lparr>mm_ram := (mm_ram m)\<lparr>m_buffer := Some (patch b off bs)\<rparr>\<rparr>)))
            else flash
        | None \<Rightarrow> flash)"

text \<open>The length is taken from the packet; the bound of the reply buffer is computed in 32 bits, and
  what passes it is stored into the buffer.\<close>

definition gdb_handle_memory_read :: "cstr \<Rightarrow> 'e gdb_world \<Rightarrow> 'e gdb_world"
  where "gdb_handle_memory_read payload w =
    (case scan_lx_lx (drop 1 payload) of
       None \<Rightarrow> gdb_send_error 1 w
     | Some (taddr, tlen) \<Rightarrow>
         (let addr = ucast taddr; len = ucast tlen :: u32;
              len = (if unat (len * 2 + 4) \<ge> GDB_BUF_SIZE then of_nat ((GDB_BUF_SIZE - 4) div 2) else len);
              (ok, bs, m) = gdb_read_bytes (gw_map w) (sec_state (gw_cpu w)) addr (unat len);
              w = w\<lparr>gw_map := m,
                    gw_overrun := gw_overrun w \<or> length bs > GDB_BUF_SIZE \<or> ok \<and> unat len * 2 + 1 > GDB_BUF_SIZE\<rparr>
          in if ok then gdb_send (concat (map hex_byte bs)) w else gdb_send_error 2 w))"

definition char_at :: "cstr \<Rightarrow> nat \<Rightarrow> u8"
  where "char_at s i = (if i < length s then s ! i else 0)"

fun gdb_data_bytes :: "cstr \<Rightarrow> nat \<Rightarrow> u8 list option" where
  "gdb_data_bytes s 0 = Some []"
| "gdb_data_bytes s (Suc n) =
    (let h1 = hex_to_nibble (char_at s 0); h2 = hex_to_nibble (char_at s 1) in
     if h1 < 0 \<or> h2 < 0 then None else map_option ((#) (of_int (h1 * 16 + h2))) (gdb_data_bytes (drop 2 s) n))"

definition gdb_handle_memory_write :: "cstr \<Rightarrow> 'e gdb_world \<Rightarrow> 'e gdb_world"
  where "gdb_handle_memory_write payload w =
    (let rest = dropWhile (\<lambda>c. c \<noteq> 0x3A) payload in
     if rest = [] then gdb_send_error 1 w
     else case scan_lx_lx (drop 1 payload) of
       None \<Rightarrow> gdb_send_error 1 w
     | Some (taddr, tlen) \<Rightarrow>
         (let addr = ucast taddr; len = ucast tlen :: u32; len = (if len > 256 then 256 else len) in
          case gdb_data_bytes (tl rest) (unat len) of
            None \<Rightarrow> gdb_send_error 1 w
          | Some bs \<Rightarrow>
              (let (ok, m) = gdb_write_bytes (gw_map w) (sec_state (gw_cpu w)) addr bs; w = w\<lparr>gw_map := m\<rparr>
               in if ok then gdb_send_ok w else gdb_send_error 3 w)))"

subsection \<open>Breakpoints\<close>

definition gdb_fetch_hw1 :: "'e mm_memmap \<Rightarrow> mm_sec_state \<Rightarrow> u32 \<Rightarrow> u16 option \<times> 'e mm_memmap"
  where "gdb_fetch_hw1 m sec addr =
    (case gdb_read8 m sec addr of
       (None, m) \<Rightarrow> (None, m)
     | (Some b0, m) \<Rightarrow>
         (case gdb_read8 m sec (addr + 1) of
            (None, m) \<Rightarrow> (None, m)
          | (Some b1, m) \<Rightarrow> (Some (ucast b0 OR push_bit 8 (ucast b1)), m)))"

text \<open>The first entry of the table that satisfies a condition.\<close>

fun find_slot :: "(gdb_breakpoint \<Rightarrow> bool) \<Rightarrow> gdb_breakpoint list \<Rightarrow> nat option" where
  "find_slot P [] = None"
| "find_slot P (b # bs) = (if P b then Some 0 else map_option Suc (find_slot P bs))"

definition bkpt_patch :: "u8 list"
  where "bkpt_patch = [0x00, 0xBE, 0x00, 0xBE]"

definition gdb_install_breakpoint ::
  "mm_sec_state \<Rightarrow> u32 \<Rightarrow> mm_gdb_stub \<times> 'e mm_memmap \<Rightarrow> bool \<times> mm_gdb_stub \<times> 'e mm_memmap"
  where "gdb_install_breakpoint sec addr x =
    (let (s, m) = x; even_addr = addr AND NOT 1 in
     if find_slot (\<lambda>b. bp_valid b \<and> bp_addr b = even_addr) (gs_breakpoints s) \<noteq> None then (True, s, m)
     else case gdb_fetch_hw1 m sec even_addr of
       (None, m) \<Rightarrow> (False, s, m)
     | (Some hw1, m) \<Rightarrow>
         (let len = (if t32_is_32bit_prefix hw1 then 4 else 2) in
          case gdb_read_bytes m sec even_addr len of
            (False, _, m) \<Rightarrow> (False, s, m)
          | (True, orig, m) \<Rightarrow>
              (let (ok, m) = gdb_write_bytes m sec even_addr (take len bkpt_patch) in
               if \<not> ok then (False, s, m)
               else case find_slot (\<lambda>b. \<not> bp_valid b) (gs_breakpoints s) of
                 None \<Rightarrow> (False, s, m)
               | Some i \<Rightarrow>
                   (True, s\<lparr>gs_breakpoints := (gs_breakpoints s)[i :=
                      \<lparr>bp_addr = even_addr OR 1, bp_len = len, bp_orig = orig, bp_valid = True\<rparr>]\<rparr>, m))))"

definition gdb_remove_breakpoint ::
  "mm_sec_state \<Rightarrow> u32 \<Rightarrow> mm_gdb_stub \<times> 'e mm_memmap \<Rightarrow> bool \<times> mm_gdb_stub \<times> 'e mm_memmap"
  where "gdb_remove_breakpoint sec addr x =
    (let (s, m) = x; even_addr = addr AND NOT 1 in
     case find_slot (\<lambda>b. bp_valid b \<and> bp_addr b = even_addr OR 1) (gs_breakpoints s) of
       None \<Rightarrow> (False, s, m)
     | Some i \<Rightarrow>
         (let b = gs_breakpoints s ! i; (ok, m) = gdb_write_bytes m sec even_addr (take (bp_len b) (bp_orig b)) in
          if \<not> ok then (False, s, m)
          else (True, s\<lparr>gs_breakpoints := (gs_breakpoints s)[i := b\<lparr>bp_valid := False, bp_len := 0\<rparr>]\<rparr>, m)))"

definition mm_gdb_stub_breakpoint_hit :: "mm_gdb_stub \<Rightarrow> u32 \<Rightarrow> bool"
  where "mm_gdb_stub_breakpoint_hit s pc = (find_slot (\<lambda>b. bp_valid b \<and> bp_addr b = pc OR 1) (gs_breakpoints s) \<noteq> None)"

definition mm_gdb_stub_should_run :: "mm_gdb_stub \<Rightarrow> bool"
  where "mm_gdb_stub_should_run s = gs_running s"

definition mm_gdb_stub_should_step :: "mm_gdb_stub \<Rightarrow> bool"
  where "mm_gdb_stub_should_step s = gs_step_pending s"

definition mm_gdb_stub_maybe_rearm ::
  "mm_sec_state \<Rightarrow> u32 \<Rightarrow> mm_gdb_stub \<times> 'e mm_memmap \<Rightarrow> mm_gdb_stub \<times> 'e mm_memmap"
  where "mm_gdb_stub_maybe_rearm sec pc x =
    (let (s, m) = x in
     if \<not> gs_rearm_valid s then x
     else if pc OR 1 = gs_rearm_addr s then x
     else (let (ok, s', m) = gdb_install_breakpoint sec (gs_rearm_addr s) x
           in (if ok then s'\<lparr>gs_rearm_valid := False\<rparr> else s', m)))"

subsection \<open>Queries\<close>

definition target_xml :: cstr
  where \<open>target_xml = chars (
    ''<?xml version="1.0"?>'' @
    ''<!DOCTYPE target SYSTEM "gdb-target.dtd">'' @
    ''<target>'' @
    ''<architecture>arm</architecture>'' @
    ''<feature name="org.gnu.gdb.arm.m-profile">'' @
    ''<reg name="r0" bitsize="32"/>'' @
    ''<reg name="r1" bitsize="32"/>'' @
    ''<reg name="r2" bitsize="32"/>'' @
    ''<reg name="r3" bitsize="32"/>'' @
    ''<reg name="r4" bitsize="32"/>'' @
    ''<reg name="r5" bitsize="32"/>'' @
    ''<reg name="r6" bitsize="32"/>'' @
    ''<reg name="r7" bitsize="32"/>'' @
    ''<reg name="r8" bitsize="32"/>'' @
    ''<reg name="r9" bitsize="32"/>'' @
    ''<reg name="r10" bitsize="32"/>'' @
    ''<reg name="r11" bitsize="32"/>'' @
    ''<reg name="r12" bitsize="32"/>'' @
    ''<reg name="sp" bitsize="32" type="data_ptr"/>'' @
    ''<reg name="lr" bitsize="32"/>'' @
    ''<reg name="pc" bitsize="32"/>'' @
    ''<reg name="xpsr" bitsize="32"/>'' @
    ''<reg name="msp" bitsize="32"/>'' @
    ''<reg name="psp" bitsize="32"/>'' @
    ''<reg name="primask" bitsize="32"/>'' @
    ''<reg name="control" bitsize="32"/>'' @
    ''<reg name="msplim" bitsize="32"/>'' @
    ''<reg name="psplim" bitsize="32"/>'' @
    ''<reg name="msplim_ns" bitsize="32"/>'' @
    ''<reg name="psplim_ns" bitsize="32"/>'' @
    ''</feature>'' @
    ''</target>'')\<close>

definition starts_with :: "string \<Rightarrow> cstr \<Rightarrow> bool"
  where "starts_with lit s = (take (length lit) s = chars lit)"

text \<open>The format \<^verbatim>\<open>0x%08lx\<close> of a 32-bit number.\<close>

definition fmt_08lx :: "u32 \<Rightarrow> cstr"
  where "fmt_08lx v = map (\<lambda>i. nibble_to_hex (ucast (drop_bit (4 * (7 - i)) v))) [0..<8]"

definition info_line :: "string \<Rightarrow> u32 \<Rightarrow> u32 \<Rightarrow> cstr"
  where "info_line name base sz =
    chars name @ chars '': 0x'' @ fmt_08lx base @ chars '' +0x'' @ fmt_08lx sz @ [0x0A]"

definition gdb_info :: "'e gdb_world \<Rightarrow> cstr"
  where "gdb_info w =
    (let m = gw_map w; name = gs_cpu_name (gw_stub w)
     in take 511 (chars ''CPU: '' @ (if name \<noteq> [] then name else chars ''unknown'') @ [0x0A] @
          info_line ''Flash S'' (flash_base_s m) (flash_size_s m) @
          info_line ''Flash NS'' (flash_base_ns m) (flash_size_ns m) @
          info_line ''RAM S'' (ram_base_s m) (ram_size_s m) @
          info_line ''RAM NS'' (ram_base_ns m) (ram_size_ns m)))"

definition gdb_capstone :: "bool \<Rightarrow> 'e gdb_world \<Rightarrow> 'e gdb_world"
  where "gdb_capstone enable w =
    (case gw_capstone w of
       None \<Rightarrow> gdb_send_console (chars ''capstone not initialized (run with --capstone)'' @ [0x0A]) w
     | Some _ \<Rightarrow>
         gdb_send_console (chars (if enable then ''capstone cross-check enabled'' else ''capstone cross-check disabled'') @ [0x0A])
           (w\<lparr>gw_capstone := Some enable\<rparr>))"

definition gdb_rcmd :: "cstr \<Rightarrow> 'e gdb_world \<Rightarrow> 'e gdb_world"
  where "gdb_rcmd arg w =
    (let bytes = hex_decode_bytes arg 256; cmd = takeWhile (\<lambda>c. c \<noteq> 0) bytes;
         is = (\<lambda>name. cmd = chars (''monitor '' @ name) \<or> cmd = chars name) in
     if bytes = [] then gdb_send_error 1 w
     else gdb_send_ok
       (if is ''info'' then gdb_send_console (gdb_info w) w
        else if is ''capstone on'' then gdb_capstone True w
        else if is ''capstone off'' then gdb_capstone False w
        else if is ''reset'' then w\<lparr>gw_stub := (gw_stub w)\<lparr>gs_request_reset := True\<rparr>\<rparr>
        else if is ''quit'' then w\<lparr>gw_stub := (gw_stub w)\<lparr>gs_request_quit := True\<rparr>\<rparr>
        else w))"

text \<open>The two transfers scan into 32-bit variables through pointers to \<^verbatim>\<open>unsigned long\<close>; the first
  number scanned already overruns its variable.\<close>

definition gdb_xfer_features :: "cstr \<Rightarrow> 'e gdb_world \<Rightarrow> 'e gdb_world"
  where "gdb_xfer_features obj w =
    (let name = takeWhile (\<lambda>c. c \<noteq> 0x3A) obj; after = dropWhile (\<lambda>c. c \<noteq> 0x3A) obj;
         is = (\<lambda>lit. name = take (length name) (chars lit)) in
     if after = [] \<or> \<not> (is ''target.xml'' \<or> is ''target-features'') then gdb_send_error 1 w
     else let w = w\<lparr>gw_overrun := gw_overrun w \<or> scan_lx (tl after) \<noteq> None\<rparr> in
       case scan_lx_lx (tl after) of
       None \<Rightarrow> gdb_send_error 1 w
     | Some (o64, l64) \<Rightarrow>
         (let offset = ucast o64 :: u32; len = ucast l64 :: u32;
              xml_len = length target_xml in
          if unat offset \<ge> xml_len then gdb_send [0x6C] w
          else
            (let more = (unat (offset + len) < xml_len);
                 len = (if more then len else of_nat (xml_len - unat offset)) in
             if unat (len + 2) < GDB_BUF_SIZE then
               gdb_send ((if more then 0x6D else 0x6C) # take (unat len) (drop (unat offset) target_xml)) w
             else gdb_send_error 1 w)))"

definition gdb_xfer_exec_file :: "cstr \<Rightarrow> 'e gdb_world \<Rightarrow> 'e gdb_world"
  where "gdb_xfer_exec_file p w =
    (let path = gs_exec_path (gw_stub w) in
     if path = [] then gdb_send_error 1 w
     else let w = w\<lparr>gw_overrun := gw_overrun w \<or> scan_lx p \<noteq> None\<rparr> in
       case scan_lx_lx p of
       None \<Rightarrow> gdb_send_error 1 w
     | Some (o64, l64) \<Rightarrow>
         (let offset = ucast o64 :: u32; len = ucast l64 :: u32 in
          if unat offset \<ge> length path then gdb_send [0x6C] w
          else
            (let len = (if unat (offset + len) > length path then of_nat (length path - unat offset) else len) in
             if unat (len + 2) < GDB_BUF_SIZE then
               gdb_send ((if unat (offset + len) < length path then 0x6D else 0x6C) # take (unat len) (drop (unat offset) path)) w
             else gdb_send_error 1 w)))"

definition gdb_query :: "cstr \<Rightarrow> 'e gdb_world \<Rightarrow> 'e gdb_world"
  where "gdb_query buf w =
    (if starts_with ''qSupported'' buf then
       gdb_send (chars ''PacketSize=3ff;qXfer:features:read+;qXfer:exec-file:read+;swbreak+;hwbreak+'') w
     else if starts_with ''qRcmd,'' buf then gdb_rcmd (drop 6 buf) w
     else if starts_with ''qXfer:features:read:'' buf then gdb_xfer_features (drop 20 buf) w
     else if starts_with ''qXfer:exec-file:read:'' buf then gdb_xfer_exec_file (drop 21 buf) w
     else gdb_send [] w)"

subsection \<open>The command interpreter\<close>

text \<open>The continue and step commands.\<close>

definition gdb_resume :: "bool \<Rightarrow> cstr \<Rightarrow> 'e gdb_world \<Rightarrow> 'e gdb_world"
  where "gdb_resume step buf w =
    (let w = (case parse_hex_u32 (drop 1 buf) of
                Some addr \<Rightarrow> if length buf > 1
                  then w\<lparr>gw_cpu := (gw_cpu w)\<lparr>cpu_r := (cpu_r (gw_cpu w))(15 := addr OR 1)\<rparr>\<rparr> else w
              | None \<Rightarrow> w);
         pc = cpu_r (gw_cpu w) 15;
         w = (if mm_gdb_stub_breakpoint_hit (gw_stub w) pc then
                (let (ok, s, m) = gdb_remove_breakpoint (sec_state (gw_cpu w)) pc (gw_stub w, gw_map w)
                 in w\<lparr>gw_stub := (if ok then s\<lparr>gs_rearm_valid := True, gs_rearm_addr := pc\<rparr> else s), gw_map := m\<rparr>)
              else w)
     in w\<lparr>gw_stub := (gw_stub w)\<lparr>gs_running := True, gs_step_pending := step\<rparr>\<rparr>)"

text \<open>The commands that set and clear a breakpoint.\<close>

definition gdb_breakpoint_cmd ::
  "(mm_sec_state \<Rightarrow> u32 \<Rightarrow> mm_gdb_stub \<times> 'e mm_memmap \<Rightarrow> bool \<times> mm_gdb_stub \<times> 'e mm_memmap) \<Rightarrow> cstr \<Rightarrow>
   'e gdb_world \<Rightarrow> 'e gdb_world"
  where "gdb_breakpoint_cmd op buf w =
    (if char_at buf 1 = 0x30 \<or> char_at buf 1 = 0x31 then
       (case (if char_at buf 2 = 0x2C then scan_lx (drop 3 buf) else None) of
          None \<Rightarrow> gdb_send_error 1 w
        | Some (taddr, _) \<Rightarrow>
            (let (ok, s, m) = op (sec_state (gw_cpu w)) (ucast taddr) (gw_stub w, gw_map w);
                 w = w\<lparr>gw_stub := s, gw_map := m\<rparr>
             in if ok then gdb_send_ok w else gdb_send_error 1 w))
     else w)"

definition gdb_read_reg :: "cstr \<Rightarrow> 'e gdb_world \<Rightarrow> 'e gdb_world"
  where "gdb_read_reg buf w =
    (case scan_lx (drop 1 buf) of
       None \<Rightarrow> gdb_send_error 1 w
     | Some (i, _) \<Rightarrow>
         (let w = w\<lparr>gw_overrun := True\<rparr>; idx = ucast i :: u32 in
          if idx < 25 then gdb_send (hex_encode_u32 (gdb_one_reg (gw_cpu w) idx)) w else gdb_send_error 1 w))"

definition gdb_command :: "cstr \<Rightarrow> 'e gdb_world \<Rightarrow> 'e gdb_world"
  where "gdb_command buf w =
    (let c = char_at buf 0 in
     if c = 0x71 then gdb_query buf w
     else if c = 0x3F then mm_gdb_stub_notify_stop 5 w
     else if c = 0x67 then gdb_send (gdb_encode_registers (gw_cpu w)) w
     else if c = 0x70 then gdb_read_reg buf w
     else if c = 0x6D then gdb_handle_memory_read buf w
     else if c = 0x4D then gdb_handle_memory_write buf w
     else if c = 0x63 then gdb_resume False buf w
     else if c = 0x73 then gdb_resume True buf w
     else if c = 0x5A then gdb_breakpoint_cmd gdb_install_breakpoint buf w
     else if c = 0x7A then gdb_breakpoint_cmd gdb_remove_breakpoint buf w
     else if c = 0x44 then (let w = gdb_send_ok w in w\<lparr>gw_stub := mm_gdb_stub_close (gw_stub w)\<rparr>)
     else if c = 0x6B then w\<lparr>gw_stub := mm_gdb_stub_close (gw_stub w)\<rparr>
     else gdb_send [] w)"

definition gdb_recv_packet :: "'e gdb_world \<Rightarrow> cstr option \<times> 'e gdb_world"
  where "gdb_recv_packet w =
    (if gs_client_fd (gw_stub w) < 0 then (None, w)
     else
       (let (r, c) = gdb_recv GDB_BUF_SIZE (gw_conn w); w = w\<lparr>gw_conn := c\<rparr> in
        case r of
          Packet p \<Rightarrow> (Some p, w)
        | Bad_Checksum \<Rightarrow> (None, w)
        | Interrupted \<Rightarrow> (None, w\<lparr>gw_stub := (gw_stub w)\<lparr>gs_to_interrupt := True\<rparr>\<rparr>)
        | Peer_Closed \<Rightarrow> (None, w\<lparr>gw_stub := mm_gdb_stub_close (gw_stub w)\<rparr>)))"

text \<open>The argument is what \<^verbatim>\<open>poll\<close> answers: its result and whether input is ready.\<close>

definition mm_gdb_stub_poll :: "int \<times> bool \<Rightarrow> mm_gdb_stub \<Rightarrow> bool"
  where "mm_gdb_stub_poll ans s = (gs_client_fd s \<ge> 0 \<and> fst ans > 0 \<and> snd ans)"

definition mm_gdb_stub_handle :: "'e gdb_world \<Rightarrow> 'e gdb_world"
  where "mm_gdb_stub_handle w =
    (if \<not> gs_connected (gw_stub w) \<or> gs_client_fd (gw_stub w) < 0 then w
     else case gdb_recv_packet w of
       (None, w) \<Rightarrow> w
     | (Some buf, w) \<Rightarrow> gdb_command (takeWhile (\<lambda>c. c \<noteq> 0) buf) w)"

subsection \<open>Registers agree\<close>

lemma regs_nth: "i < 25 \<Longrightarrow> gdb_regs c ! unat i = gdb_one_reg c i" for i :: u32
proof -
  assume i: "i < 25"
  have "\<forall>k\<in>set [0..<25]. gdb_regs c ! k = gdb_one_reg c (of_nat k)"
    by (simp add: gdb_regs_def gdb_one_reg_def upt_rec nth_Cons' to_u8_def)
  moreover have "unat i \<in> set [0..<25]" using i by (simp add: word_less_nat_alt)
  ultimately show "gdb_regs c ! unat i = gdb_one_reg c i" by fastforce
qed

lemma hex_u32_length: "length (hex_encode_u32 v) = 8"
  by (simp add: hex_encode_u32_def hex_byte_def upt_rec)

lemma concat_slot: "(\<And>v. length (f v) = n) \<Longrightarrow> k < length vs \<Longrightarrow> take n (drop (n * k) (concat (map f vs))) = f (vs ! k)"
proof (induction vs arbitrary: k)
  case (Cons v vs)
  then show ?case by (cases k) (simp_all add: algebra_simps)
qed simp

text \<open>The two ways to read registers agree.  The reply to the command that reads register \<^verbatim>\<open>i\<close> is the
  packet of exactly the eight digits that stand for that register in the reply to the command that
  reads all of them.\<close>

theorem gdb_register_packets_agree:
  assumes "char_at p 0 = 0x70" "scan_lx (drop 1 p) = Some (v, rest)" "(ucast v :: u32) < 25"
    "char_at q 0 = 0x67" "0 \<le> gs_client_fd (gw_stub w)"
  shows "gc_out (gw_conn (gdb_command q w)) = gc_out (gw_conn w) @ gdb_packet (gdb_encode_registers (gw_cpu w)) \<and>
    gc_out (gw_conn (gdb_command p w)) = gc_out (gw_conn w) @
      gdb_packet (take 8 (drop (8 * unat (ucast v :: u32)) (gdb_encode_registers (gw_cpu w))))"
proof -
  have "length (gdb_regs (gw_cpu w)) = 25" by (simp add: gdb_regs_def)
  moreover have "unat (ucast v :: u32) < 25" using assms(3) by (simp add: word_less_nat_alt)
  ultimately have "take 8 (drop (8 * unat (ucast v :: u32)) (gdb_encode_registers (gw_cpu w))) =
      hex_encode_u32 (gdb_one_reg (gw_cpu w) (ucast v))"
    using assms(3) by (simp add: gdb_encode_registers_def concat_slot hex_u32_length regs_nth)
  with assms show ?thesis
    by (simp add: gdb_command_def gdb_read_reg_def gdb_send_def gdb_send_packet_def)
qed

subsection \<open>Memory as the debugger sees it\<close>

lemma patch_length [simp]: "length (patch b off xs) = length b"
  by (induction xs arbitrary: b off) simp_all

lemma patch_nth: "i < length b \<Longrightarrow> patch b off xs ! i = (if off \<le> i \<and> i < off + length xs then xs ! (i - off) else b ! i)"
proof (induction xs arbitrary: b off)
  case (Cons x xs)
  then show ?case by (auto simp: nth_list_update nth_Cons' Suc_diff_le not_less_eq_eq le_Suc_eq)
qed auto

lemma patch_back:
  assumes "length xs = length ys" "off + length ys \<le> length b" "\<And>k. k < length ys \<Longrightarrow> ys ! k = b ! (off + k)"
  shows "patch (patch b off xs) off ys = b"
  using assms by (intro nth_equalityI) (auto simp: patch_nth)

text \<open>Four bytes of flash that the debugger reads and patches in place: the security state's window
  holds them and is backed by the buffer, no other window catches the access first, and the
  access check lets reads through.\<close>

definition gdb_flash_at :: "'e mm_memmap \<Rightarrow> mm_sec_state \<Rightarrow> u32 \<Rightarrow> u8 list \<Rightarrow> nat \<Rightarrow> bool"
  where "gdb_flash_at m sec a b off =
    (m_buffer (mm_flash m) = Some b \<and> off = unat (a - fst (flash_win m sec)) \<and> off + 4 \<le> length b \<and>
     gdb_hits (flash_win m sec) a 4 \<and> unat a + 4 \<le> 2 ^ 32 \<and>
     (m_buffer (mm_ram m) = None \<or> \<not> gdb_hits (gdb_ram_window m sec) a 2) \<and>
     (\<forall>k<4. sec = MM_NONSECURE \<longrightarrow> \<not> gdb_hits (flash_win m MM_SECURE) (a + of_nat k) 1) \<and>
     (\<forall>k<4. intercept_ok m MM_ACCESS_READ sec (a + of_nat k) 1 = (True, m)))"

lemma flash_window_same: "gdb_flash_window m sec = flash_win m sec"
  by (cases sec) (simp_all add: gdb_flash_window_def gdb_window_def flash_win_def Let_def)

lemma hits_mono: "gdb_hits win a n \<Longrightarrow> k \<le> n \<Longrightarrow> gdb_hits win a k"
  by (simp add: gdb_hits_def)

lemma hits_one: "gdb_hits win a 1 \<longleftrightarrow> fst win \<le> a \<and> a - fst win < snd win"
  by (simp add: gdb_hits_def word_less_nat_alt Suc_le_eq)

lemma hits_shift:
  assumes "gdb_hits win a n" "k < n" "unat a + n \<le> 2 ^ 32"
  shows "gdb_hits win (a + of_nat k) 1" "unat (a + of_nat k - fst win) = unat (a - fst win) + k"
proof -
  have a: "fst win \<le> a" "unat (a - fst win) + n \<le> unat (snd win)" using assms(1) by (simp_all add: gdb_hits_def)
  have k: "unat (a + of_nat k) = unat a + k" "unat (of_nat k :: u32) = k"
    using assms(2,3) by (simp_all add: unat_word_ariths unat_of_nat)
  have le: "fst win \<le> a + of_nat k" using a(1) k(1) by (simp add: word_le_nat_alt)
  show d: "unat (a + of_nat k - fst win) = unat (a - fst win) + k"
    using a(1) le k(1) by (simp add: unat_sub word_le_nat_alt)
  show "gdb_hits win (a + of_nat k) 1" using a(2) le d assms(2) by (simp add: gdb_hits_def)
qed

lemma flash_at_read8:
  assumes "gdb_flash_at m sec a b off" "k < 4"
  shows "mm_memmap_read8 m sec (a + of_nat k) = (Some (b ! (off + k)), m)"
proof -
  have w: "m_buffer (mm_flash m) = Some b" "off = unat (a - fst (flash_win m sec))" "off + 4 \<le> length b"
    "gdb_hits (flash_win m sec) a 4" "unat a + 4 \<le> 2 ^ 32"
    "intercept_ok m MM_ACCESS_READ sec (a + of_nat k) 1 = (True, m)"
    "sec = MM_NONSECURE \<longrightarrow> \<not> gdb_hits (flash_win m MM_SECURE) (a + of_nat k) 1"
    using assms by (auto simp: gdb_flash_at_def)
  note h = hits_shift [OF w(4) assms(2) w(5)]
  have cast: "to_u8 (to_u32 v) = v" for v by (rule bit_word_eqI) (simp add: to_u8_def to_u32_def bit_simps)
  have "try_flash8 m sec (a + of_nat k) x = (Some (b ! (off + k)), m)" for x
    using h(1) [unfolded hits_one] h(2) w(1-3) assms(2)
    by (simp add: try_flash8_def case_prod_beta buf_byte_def buf_oob_def cast)
  moreover have "try_flash8 m MM_SECURE (a + of_nat k) x = x" if "sec = MM_NONSECURE" for x
    using w(7) that unfolding hits_one by (auto simp: try_flash8_def case_prod_beta w(1))
  ultimately show ?thesis using w(6) by (cases sec) (simp_all add: mm_memmap_read8_def)
qed

lemma flash_at_bytes:
  assumes "gdb_flash_at m sec a b off"
  shows "j + n \<le> 4 \<Longrightarrow> gdb_read_bytes m sec (a + of_nat j) n = (True, take n (drop (off + j) b), m)"
proof (induction n arbitrary: j)
  case (Suc n)
  have "gdb_read8 m sec (a + of_nat j) = (Some (b ! (off + j)), m)"
    using flash_at_read8 [OF assms, of j] Suc.prems by (simp add: gdb_read8_def)
  moreover have "take (Suc n) (drop (off + j) b) = b ! (off + j) # take n (drop (off + Suc j) b)"
    using Suc.prems assms by (simp add: gdb_flash_at_def take_Suc_conv_app_nth Cons_nth_drop_Suc [symmetric])
  ultimately show ?case using Suc.IH [of "Suc j"] Suc.prems by (simp add: add.assoc add.commute [of 1])
qed simp

lemma flash_at_write:
  assumes "gdb_flash_at m sec a b off" "length bs = 2 \<or> length bs = 4"
  shows "gdb_write_bytes m sec a bs = (True, m\<lparr>mm_flash := (mm_flash m)\<lparr>m_buffer := Some (patch b off bs)\<rparr>\<rparr>)"
proof -
  have "m_buffer (mm_ram m) = None \<or> \<not> gdb_hits (gdb_ram_window m sec) a (length bs)"
    using assms hits_mono [of "gdb_ram_window m sec" a "length bs" 2] by (auto simp: gdb_flash_at_def)
  moreover have "gdb_hits (flash_win m sec) a (length bs)"
    using assms hits_mono [of "flash_win m sec" a 4 "length bs"] by (auto simp: gdb_flash_at_def)
  moreover have "m_buffer (mm_flash m) = Some b" "off = unat (a - fst (flash_win m sec))" "\<not> off + length bs > length b"
    using assms by (auto simp: gdb_flash_at_def)
  ultimately show ?thesis
    by (cases "m_buffer (mm_ram m)") (simp_all add: gdb_write_bytes_def Let_def flash_window_same)
qed

text \<open>Patching the flash buffer keeps the place.\<close>

lemma flash_at_patched:
  assumes "gdb_flash_at m sec a b off" "length b' = length b"
  shows "gdb_flash_at (m\<lparr>mm_flash := (mm_flash m)\<lparr>m_buffer := Some b'\<rparr>\<rparr>) sec a b' off"
proof -
  let ?m = "m\<lparr>mm_flash := (mm_flash m)\<lparr>m_buffer := Some b'\<rparr>\<rparr>"
  have "intercept_ok ?m t s x n = (True, ?m)" if "intercept_ok m t s x n = (True, m)" for t s x n
  proof (cases "mm_interceptor m")
    case (Some f)
    obtain ok e where f: "f t s x n (mm_env m) = (ok, e)" by fastforce
    have "(ok, m\<lparr>mm_env := e\<rparr>) = (True, m)" using that Some f by (simp add: intercept_ok_def)
    then have ok: "ok" and "mm_env (m\<lparr>mm_env := e\<rparr>) = mm_env m" by (rule Pair_inject, metis)+
    from this(2) have "e = mm_env m" by simp
    with f Some ok show ?thesis by (simp add: intercept_ok_def)
  qed (simp add: intercept_ok_def)
  moreover have "flash_win ?m s = flash_win m s" "gdb_ram_window ?m s = gdb_ram_window m s" for s
    by (simp_all add: flash_win_def gdb_ram_window_def Let_def)
  ultimately show ?thesis using assms(1,2) unfolding gdb_flash_at_def by simp
qed

subsection \<open>Breakpoints come and go\<close>

lemma find_slot_None: "find_slot P bs = None \<longleftrightarrow> (\<forall>b\<in>set bs. \<not> P b)"
  by (induction bs) auto

lemma find_slot_Some: "find_slot P bs = Some i \<Longrightarrow> i < length bs \<and> P (bs ! i) \<and> (\<forall>j<i. \<not> P (bs ! j))"
proof (induction bs arbitrary: i)
  case (Cons b bs)
  then show ?case by (cases i) (auto simp: nth_Cons' split: if_splits)
qed simp

lemma find_slot_upd:
  assumes "i < length bs" "\<forall>b\<in>set bs. \<not> P b" "P x"
  shows "find_slot P (bs[i := x]) = Some i"
  using assms
proof (induction bs arbitrary: i)
  case (Cons b bs)
  then show ?case by (cases i) auto
qed simp

definition bp_len_at :: "u8 list \<Rightarrow> nat \<Rightarrow> nat"
  where "bp_len_at b off = (if t32_is_32bit_prefix (ucast (b ! off) OR push_bit 8 (ucast (b ! Suc off))) then 4 else 2)"

lemma install_at:
  assumes "gdb_flash_at m sec a b off" "a AND NOT 1 = a"
    "\<forall>p\<in>set (gs_breakpoints s). bp_valid p \<longrightarrow> bp_addr p \<noteq> a"
    "find_slot (\<lambda>p. \<not> bp_valid p) (gs_breakpoints s) = Some i"
  defines "n \<equiv> bp_len_at b off"
  shows "gdb_install_breakpoint sec a (s, m) =
    (True, s\<lparr>gs_breakpoints := (gs_breakpoints s)[i := \<lparr>bp_addr = a OR 1, bp_len = n, bp_orig = take n (drop off b), bp_valid = True\<rparr>]\<rparr>,
     m\<lparr>mm_flash := (mm_flash m)\<lparr>m_buffer := Some (patch b off (take n bkpt_patch))\<rparr>\<rparr>)"
proof -
  have r: "gdb_read8 m sec (a + of_nat k) = (Some (b ! (off + k)), m)" if "k < 4" for k
    using flash_at_read8 [OF assms(1) that] by (simp add: gdb_read8_def)
  have f: "gdb_fetch_hw1 m sec a = (Some (ucast (b ! off) OR push_bit 8 (ucast (b ! Suc off))), m)"
    using r [of 0] r [of 1] by (simp add: gdb_fetch_hw1_def)
  have g: "gdb_read_bytes m sec a n = (True, take n (drop off b), m)"
    using flash_at_bytes [OF assms(1), of 0 n] by (simp add: n_def bp_len_at_def)
  have w: "gdb_write_bytes m sec a (take n bkpt_patch) =
      (True, m\<lparr>mm_flash := (mm_flash m)\<lparr>m_buffer := Some (patch b off (take n bkpt_patch))\<rparr>\<rparr>)"
    by (rule flash_at_write [OF assms(1)]) (simp add: n_def bp_len_at_def bkpt_patch_def)
  have "find_slot (\<lambda>p. bp_valid p \<and> bp_addr p = a) (gs_breakpoints s) = None"
    using assms(3) by (auto simp: find_slot_None)
  with f g w assms(2,4) show ?thesis
    by (simp add: gdb_install_breakpoint_def Let_def bp_len_at_def [of b off, folded n_def, symmetric])
qed

text \<open>C37: setting a breakpoint and clearing it leaves no trace.  On an instruction in flash, with a free
  entry and no breakpoint there, setting writes the BKPT encoding over the whole instruction, of
  two or four bytes, and the address counts as hit; clearing restores the memory map exactly and
  the address is no longer hit.\<close>

theorem breakpoint_restores:
  assumes "gdb_flash_at m sec a b off" "a AND NOT 1 = a"
    "\<forall>p\<in>set (gs_breakpoints s). bp_valid p \<longrightarrow> bp_addr p \<noteq> a \<and> bp_addr p \<noteq> a OR 1"
    "\<exists>p\<in>set (gs_breakpoints s). \<not> bp_valid p"
  shows "let (ok1, s1, m1) = gdb_install_breakpoint sec a (s, m); (ok2, s2, m2) = gdb_remove_breakpoint sec a (s1, m1)
    in ok1 \<and> ok2 \<and> m2 = m \<and> mm_gdb_stub_breakpoint_hit s1 a \<and> \<not> mm_gdb_stub_breakpoint_hit s2 a \<and>
       m_buffer (mm_flash m1) = Some (patch b off (take (bp_len_at b off) bkpt_patch))"
proof -
  define n where "n = bp_len_at b off"
  have n: "n = 2 \<or> n = 4" by (simp add: n_def bp_len_at_def)
  obtain i where i: "find_slot (\<lambda>p. \<not> bp_valid p) (gs_breakpoints s) = Some i"
    using assms(4) by (cases "find_slot (\<lambda>p. \<not> bp_valid p) (gs_breakpoints s)") (auto simp: find_slot_None)
  define e where "e = \<lparr>bp_addr = a OR 1, bp_len = n, bp_orig = take n (drop off b), bp_valid = True\<rparr>"
  define s1 where "s1 = s\<lparr>gs_breakpoints := (gs_breakpoints s)[i := e]\<rparr>"
  define b1 where "b1 = patch b off (take n bkpt_patch)"
  define m1 where "m1 = m\<lparr>mm_flash := (mm_flash m)\<lparr>m_buffer := Some b1\<rparr>\<rparr>"
  have ins: "gdb_install_breakpoint sec a (s, m) = (True, s1, m1)"
    using install_at [OF assms(1,2) _ i] assms(3) by (simp add: s1_def m1_def b1_def e_def n_def)
  have len: "i < length (gs_breakpoints s)" using find_slot_Some [OF i] by simp
  have slot: "find_slot (\<lambda>p. bp_valid p \<and> bp_addr p = a OR 1) (gs_breakpoints s1) = Some i"
    unfolding s1_def using assms(3) len by (simp add: find_slot_upd e_def)
  have fit: "off + 4 \<le> length b" and bufb: "m_buffer (mm_flash m) = Some b" using assms(1) by (auto simp: gdb_flash_at_def)
  have undone: "patch b1 off (take n (drop off b)) = b"
    unfolding b1_def using n fit by (intro patch_back) (auto simp: bkpt_patch_def)
  have at1: "gdb_flash_at m1 sec a b1 off" unfolding m1_def by (rule flash_at_patched [OF assms(1)]) (simp add: b1_def)
  have "gdb_write_bytes m1 sec a (take n (drop off b)) = (True, m1\<lparr>mm_flash := (mm_flash m1)\<lparr>m_buffer := Some b\<rparr>\<rparr>)"
    using flash_at_write [OF at1, of "take n (drop off b)"] n fit undone by auto
  moreover have "m1\<lparr>mm_flash := (mm_flash m1)\<lparr>m_buffer := Some b\<rparr>\<rparr> = m" using bufb by (simp add: m1_def)
  ultimately have rem: "gdb_remove_breakpoint sec a (s1, m1) =
      (True, s1\<lparr>gs_breakpoints := (gs_breakpoints s1)[i := e\<lparr>bp_valid := False, bp_len := 0\<rparr>]\<rparr>, m)"
    using slot assms(2) len by (simp add: gdb_remove_breakpoint_def s1_def e_def)
  have "\<not> mm_gdb_stub_breakpoint_hit (s1\<lparr>gs_breakpoints := (gs_breakpoints s1)[i := e\<lparr>bp_valid := False, bp_len := 0\<rparr>]\<rparr>) a"
    using assms(3) by (auto simp: mm_gdb_stub_breakpoint_hit_def find_slot_None s1_def dest!: set_update_subset_insert [THEN subsetD])
  moreover have "mm_gdb_stub_breakpoint_hit s1 a" using slot by (simp add: mm_gdb_stub_breakpoint_hit_def)
  moreover have "m_buffer (mm_flash m1) = Some (patch b off (take (bp_len_at b off) bkpt_patch))"
    by (simp add: m1_def b1_def n_def)
  ultimately show ?thesis by (simp add: ins rem)
qed

text \<open>A memory map with eight bytes of flash and a stub with one free entry.\<close>

definition demo_gdb_map :: "unit mm_memmap"
  where "demo_gdb_map = (mm_memmap_init 0 ())\<lparr>flash_base_s := 0x0C000000, flash_size_s := 8,
    mm_flash := \<lparr>m_buffer = Some [0x70, 0x47, 0x00, 0xBF, 0x70, 0x47, 0x00, 0xBF], m_length = 8, m_base = 0x0C000000\<rparr>\<rparr>"

definition demo_gdb_stub :: mm_gdb_stub
  where "demo_gdb_stub = mm_gdb_stub_init \<lparr>gs_listen_fd = 3, gs_client_fd = 4, gs_connected = True, gs_to_interrupt = False,
    gs_running = False, gs_step_pending = False, gs_alive = True, gs_request_reset = False, gs_request_quit = False,
    gs_breakpoints = replicate 16 \<lparr>bp_addr = 0, bp_len = 0, bp_orig = [], bp_valid = False\<rparr>,
    gs_rearm_valid = False, gs_rearm_addr = 0, gs_exec_path = [], gs_cpu_name = []\<rparr>"

lemma demo_gdb_at:
  "gdb_flash_at demo_gdb_map MM_SECURE 0x0C000002 [0x70, 0x47, 0x00, 0xBF, 0x70, 0x47, 0x00, 0xBF] 2"
  by (simp add: gdb_flash_at_def demo_gdb_map_def mm_memmap_init_def flash_win_def gdb_hits_def intercept_ok_def)

theorem breakpoint_restores_witness:
  "let (ok1, s1, m1) = gdb_install_breakpoint MM_SECURE 0x0C000002 (demo_gdb_stub, demo_gdb_map);
       (ok2, s2, m2) = gdb_remove_breakpoint MM_SECURE 0x0C000002 (s1, m1)
   in ok1 \<and> ok2 \<and> m2 = demo_gdb_map \<and> mm_gdb_stub_breakpoint_hit s1 0x0C000002"
  using breakpoint_restores [OF demo_gdb_at, of demo_gdb_stub]
  by (auto simp: demo_gdb_stub_def mm_gdb_stub_init_def)

theorem gdb_register_packets_agree_witness:
  "\<forall>c. let w = \<lparr>gw_stub = demo_gdb_stub\<lparr>gs_client_fd := 4\<rparr>, gw_conn = \<lparr>gc_in = [], gc_out = []\<rparr>, gw_cpu = c,
          gw_map = demo_gdb_map, gw_capstone = None, gw_overrun = False\<rparr>
     in gc_out (gw_conn (gdb_command [0x70, 0x66] w)) = gdb_packet (take 8 (drop 120 (gdb_encode_registers c)))"
proof
  fix c
  let ?w = "\<lparr>gw_stub = demo_gdb_stub\<lparr>gs_client_fd := 4\<rparr>, gw_conn = \<lparr>gc_in = [], gc_out = []\<rparr>, gw_cpu = c,
          gw_map = demo_gdb_map, gw_capstone = None, gw_overrun = False\<rparr>"
  have "scan_lx (drop 1 [0x70, 0x66]) = Some (15, [])"
    by (simp add: scan_lx_def scan_sign_def scan_prefix_def is_space_def hex_digit_def hex_to_nibble_def)
  from gdb_register_packets_agree [OF _ this, of "[0x67]" ?w]
  show "let w = ?w in gc_out (gw_conn (gdb_command [0x70, 0x66] w)) = gdb_packet (take 8 (drop 120 (gdb_encode_registers c)))"
    by (simp add: char_at_def)
qed

text \<open>The table records addresses with bit 0 set but the test for an existing breakpoint compares with
  the even address, so a second request at the same address is not recognised: it saves the BKPT
  bytes as the original instruction, and clearing both leaves BKPT in memory with no entry for it.\<close>

lemma breakpoint_twice_sticks:
  "let (_, s1, m1) = gdb_install_breakpoint MM_SECURE 0x0C000002 (demo_gdb_stub, demo_gdb_map);
       (_, s2, m2) = gdb_install_breakpoint MM_SECURE 0x0C000002 (s1, m1);
       (_, s3, m3) = gdb_remove_breakpoint MM_SECURE 0x0C000002 (s2, m2);
       (_, s4, m4) = gdb_remove_breakpoint MM_SECURE 0x0C000002 (s3, m3)
   in m_buffer (mm_flash m4) = Some [0x70, 0x47, 0x00, 0xBE, 0x70, 0x47, 0x00, 0xBF] \<and>
      \<not> mm_gdb_stub_breakpoint_hit s4 0x0C000002"
  by code_simp

subsection \<open>Writing and reading memory\<close>

text \<open>Bytes of RAM that the debugger writes in place and reads back at the same offset.\<close>

definition gdb_ram_at :: "'e mm_memmap \<Rightarrow> mm_sec_state \<Rightarrow> u32 \<Rightarrow> u8 list \<Rightarrow> nat \<Rightarrow> nat \<Rightarrow> bool"
  where "gdb_ram_at m sec a b off n =
    (m_buffer (mm_ram m) = Some b \<and> off = unat (a - fst (gdb_ram_window m sec)) \<and> off + n \<le> length b \<and>
     length b < 2 ^ 32 \<and> gdb_hits (gdb_ram_window m sec) a n \<and>
     (\<forall>k<n. intercept_ok m MM_ACCESS_READ sec (a + of_nat k) 1 = (True, m) \<and>
        (m_buffer (mm_flash m) = None \<or> \<not> gdb_hits (flash_win m MM_SECURE) (a + of_nat k) 1 \<and>
          \<not> gdb_hits (flash_win m MM_NONSECURE) (a + of_nat k) 1) \<and>
        ram_offset_for_addr m (a + of_nat k) 1 = Some (of_nat (off + k))))"

lemma intercept_buffer:
  assumes "intercept_ok m t s x n = (True, m)"
  shows "intercept_ok (m\<lparr>mm_ram := r\<rparr>) t s x n = (True, m\<lparr>mm_ram := r\<rparr>)"
proof (cases "mm_interceptor m")
  case (Some f)
  obtain ok e where f: "f t s x n (mm_env m) = (ok, e)" by fastforce
  have "(ok, m\<lparr>mm_env := e\<rparr>) = (True, m)" using assms Some f by (simp add: intercept_ok_def)
  then have ok: "ok" and "mm_env (m\<lparr>mm_env := e\<rparr>) = mm_env m" by (rule Pair_inject, metis)+
  from this(2) have "e = mm_env m" by simp
  with f Some ok show ?thesis by (simp add: intercept_ok_def)
qed (simp add: intercept_ok_def)

lemma ram_at_patched:
  assumes "gdb_ram_at m sec a b off n" "length b' = length b"
  shows "gdb_ram_at (m\<lparr>mm_ram := (mm_ram m)\<lparr>m_buffer := Some b'\<rparr>\<rparr>) sec a b' off n"
proof -
  let ?m = "m\<lparr>mm_ram := (mm_ram m)\<lparr>m_buffer := Some b'\<rparr>\<rparr>"
  have "flash_win ?m s = flash_win m s" "gdb_ram_window ?m s = gdb_ram_window m s"
    "ram_offset_for_addr ?m x y = ram_offset_for_addr m x y" for s x y
    by (simp_all add: flash_win_def gdb_ram_window_def gdb_window_def Let_def)
  then show ?thesis using assms intercept_buffer [of m] unfolding gdb_ram_at_def by simp
qed

lemma ram_at_read8:
  assumes "gdb_ram_at m sec a b off n" "k < n"
  shows "gdb_read8 m sec (a + of_nat k) = (Some (b ! (off + k)), m)"
proof -
  have w: "m_buffer (mm_ram m) = Some b" "off + n \<le> length b" "length b < 2 ^ 32"
    "intercept_ok m MM_ACCESS_READ sec (a + of_nat k) 1 = (True, m)"
    "m_buffer (mm_flash m) = None \<or> \<not> gdb_hits (flash_win m MM_SECURE) (a + of_nat k) 1 \<and>
      \<not> gdb_hits (flash_win m MM_NONSECURE) (a + of_nat k) 1"
    "ram_offset_for_addr m (a + of_nat k) 1 = Some (of_nat (off + k))"
    using assms by (auto simp: gdb_ram_at_def)
  have cast: "to_u8 (to_u32 v) = v" for v by (rule bit_word_eqI) (simp add: to_u8_def to_u32_def bit_simps)
  have fl: "try_flash8 m s (a + of_nat k) x = x" for s x
    using w(5) unfolding hits_one by (cases s) (auto simp: try_flash8_def case_prod_beta split: option.split)
  have "unat (of_nat (off + k) :: u32) = off + k" using w(2,3) assms(2) by (simp add: unat_of_nat del: of_nat_add)
  then show ?thesis
    using w assms(2) by (simp add: gdb_read8_def mm_memmap_read8_def fl buf_byte_def buf_oob_def cast)
qed

lemma ram_at_bytes:
  assumes "gdb_ram_at m sec a b off n"
  shows "j + i \<le> n \<Longrightarrow> gdb_read_bytes m sec (a + of_nat j) i = (True, take i (drop (off + j) b), m)"
proof (induction i arbitrary: j)
  case (Suc i)
  have "gdb_read8 m sec (a + of_nat j) = (Some (b ! (off + j)), m)"
    using ram_at_read8 [OF assms, of j] Suc.prems by simp
  moreover have "take (Suc i) (drop (off + j) b) = b ! (off + j) # take i (drop (off + Suc j) b)"
    using Suc.prems assms by (simp add: gdb_ram_at_def Cons_nth_drop_Suc [symmetric])
  ultimately show ?case using Suc.IH [of "Suc j"] Suc.prems by (simp add: add.assoc add.commute [of 1])
qed simp

lemma data_bytes_hex: "gdb_data_bytes (concat (map hex_byte bs)) (length bs) = Some bs"
  by (induction bs) (simp_all add: hex_byte_def char_at_def nibble_hex split_byte)

lemma patch_take: "off + length xs \<le> length b \<Longrightarrow> take (length xs) (drop off (patch b off xs)) = xs"
  by (intro nth_equalityI) (simp_all add: patch_nth)

text \<open>What the debugger writes it reads back.  A memory write command with the digits of up to 256
  bytes for RAM is answered by OK, and the memory read command for the same place then returns the
  packet of exactly these digits; neither command overruns the buffers of its handler.\<close>

theorem gdb_memory_roundtrip:
  assumes "gdb_ram_at (gw_map w) (sec_state (gw_cpu w)) a b off (length bs)" "length bs \<le> 256"
    "0 \<le> gs_client_fd (gw_stub w)"
    "char_at wr 0 = 0x4D" "scan_lx_lx (drop 1 wr) = Some (ucast a, of_nat (length bs))"
    "dropWhile (\<lambda>c. c \<noteq> 0x3A) wr = 0x3A # concat (map hex_byte bs)"
    "char_at rd 0 = 0x6D" "scan_lx_lx (drop 1 rd) = Some (ucast a, of_nat (length bs))"
  shows "let w' = gdb_command rd (gdb_command wr w)
    in gc_out (gw_conn w') = gc_out (gw_conn w) @ gdb_packet [0x4F, 0x4B] @ gdb_packet (concat (map hex_byte bs)) \<and>
       gw_overrun w' = gw_overrun w"
proof -
  define m1 where "m1 = (gw_map w)\<lparr>mm_ram := (mm_ram (gw_map w))\<lparr>m_buffer := Some (patch b off bs)\<rparr>\<rparr>"
  define w1 where "w1 = w\<lparr>gw_map := m1, gw_conn := gdb_send_packet [0x4F, 0x4B] (gw_conn w)\<rparr>"
  have a: "ucast (ucast a :: u64) = a" by (rule bit_word_eqI) (simp add: bit_simps)
  have n: "unat (ucast (of_nat (length bs) :: u64) :: u32) = length bs" "length bs * 2 + 4 < 2 ^ 32"
    using assms(2) by (simp_all add: unat_of_nat unsigned_of_nat take_bit_nat_eq_self)
  then have n2: "unat (ucast (of_nat (length bs) :: u64) * 2 + 4 :: u32) = length bs * 2 + 4"
    by (simp add: unat_word_ariths)
  have "\<not> (ucast (of_nat (length bs) :: u64) :: u32) > 256" using assms(2) n(1) by (simp add: word_less_nat_alt)
  moreover have "gdb_write_bytes (gw_map w) (sec_state (gw_cpu w)) a bs = (True, m1)"
    using assms(1) by (simp add: gdb_write_bytes_def Let_def gdb_ram_at_def m1_def)
  ultimately have wr: "gdb_command wr w = w1"
    using assms(3-6) a n(1)
    by (simp add: gdb_command_def gdb_handle_memory_write_def data_bytes_hex gdb_send_ok_def gdb_send_def w1_def)
  have "gdb_ram_at m1 (sec_state (gw_cpu w)) a (patch b off bs) off (length bs)"
    unfolding m1_def by (rule ram_at_patched [OF assms(1)]) simp
  from ram_at_bytes [OF this, of 0 "length bs"]
  have "gdb_read_bytes m1 (sec_state (gw_cpu w)) a (length bs) = (True, bs, m1)"
    using assms(1) by (simp add: patch_take gdb_ram_at_def)
  then have "gdb_command rd w1 = w1\<lparr>gw_conn := gdb_send_packet (concat (map hex_byte bs)) (gw_conn w1)\<rparr>"
    using assms(2,3,7,8) a n n2
    by (simp add: gdb_command_def gdb_handle_memory_read_def gdb_send_def w1_def Let_def)
  then show ?thesis by (simp add: wr Let_def w1_def gdb_send_packet_def)
qed

definition demo_gdb_world :: "mm_cpu \<Rightarrow> unit gdb_world"
  where "demo_gdb_world c = \<lparr>gw_stub = demo_gdb_stub\<lparr>gs_client_fd := 4\<rparr>, gw_conn = \<lparr>gc_in = [], gc_out = []\<rparr>,
    gw_cpu = c\<lparr>sec_state := MM_SECURE\<rparr>,
    gw_map = (mm_memmap_init 0 ())\<lparr>ram_base_s := 0x30000000, ram_size_s := 8,
      mm_ram := \<lparr>m_buffer = Some (replicate 8 0), m_length = 8, m_base = 0x30000000\<rparr>\<rparr>,
    gw_capstone = None, gw_overrun = False\<rparr>"

text \<open>The commands \<^verbatim>\<open>M30000001,2:cafe\<close> and \<^verbatim>\<open>m30000001,2\<close>.\<close>

theorem gdb_memory_roundtrip_witness:
  "\<forall>c. gc_out (gw_conn (gdb_command [0x6D, 0x33, 0x30, 0x30, 0x30, 0x30, 0x30, 0x30, 0x31, 0x2C, 0x32]
      (gdb_command [0x4D, 0x33, 0x30, 0x30, 0x30, 0x30, 0x30, 0x30, 0x31, 0x2C, 0x32, 0x3A, 0x63, 0x61, 0x66, 0x65]
        (demo_gdb_world c)))) = gdb_packet [0x4F, 0x4B] @ gdb_packet [0x63, 0x61, 0x66, 0x65]"
proof
  fix c
  let ?rd = "[0x6D, 0x33, 0x30, 0x30, 0x30, 0x30, 0x30, 0x30, 0x31, 0x2C, 0x32] :: u8 list"
  let ?wr = "[0x4D, 0x33, 0x30, 0x30, 0x30, 0x30, 0x30, 0x30, 0x31, 0x2C, 0x32, 0x3A, 0x63, 0x61, 0x66, 0x65] :: u8 list"
  have hex: "concat (map hex_byte [0xCA, 0xFE]) = [0x63, 0x61, 0x66, 0x65]"
    by (simp add: hex_byte_def nibble_to_hex_def)
  have scan: "scan_lx_lx (drop 1 ?rd) = Some (ucast (0x30000001 :: u32), of_nat (length [0xCA :: u8, 0xFE]))"
    "scan_lx_lx (drop 1 ?wr) = Some (ucast (0x30000001 :: u32), of_nat (length [0xCA :: u8, 0xFE]))"
    by (simp_all add: scan_lx_lx_def scan_lx_def scan_sign_def scan_prefix_def is_space_def hex_digit_def hex_to_nibble_def)
  have "gdb_ram_at (gw_map (demo_gdb_world c)) (sec_state (gw_cpu (demo_gdb_world c))) 0x30000001 (replicate 8 0) 1
      (length [0xCA :: u8, 0xFE])"
    by (auto simp: gdb_ram_at_def demo_gdb_world_def mm_memmap_init_def gdb_ram_window_def gdb_window_def gdb_hits_def
      intercept_ok_def ram_offset_for_addr_def in_window_def less_Suc_eq)
  from gdb_memory_roundtrip [OF this _ _ _ scan(2) _ _ scan(1)]
  show "gc_out (gw_conn (gdb_command ?rd (gdb_command ?wr (demo_gdb_world c)))) =
      gdb_packet [0x4F, 0x4B] @ gdb_packet [0x63, 0x61, 0x66, 0x65]"
    using hex by (simp add: demo_gdb_world_def char_at_def Let_def)
qed

end
