(* ===== verification/Tpm_Tis.thy ===== *)
theory Tpm_Tis
imports Spi_Flash
begin

text \<open>
  The TPM behind the SPI bus (\<^verbatim>\<open>src/m33mu/tpm_tis.c\<close>): the frames of the TIS protocol, the registers
  and the command and response buffers, the storage that the TPM library is given, and the table of
  attached devices.  The trace output is left out.

  The TPM itself is libtpms, which is not part of the program: \<^verbatim>\<open>tpm_lib\<close> stands for
  \<^verbatim>\<open>TPMLIB_Process\<close>, None for a build without the library; it maps a command and the library's own
  state, of arbitrary type, to a result code, a response and a new state.  Lengths and buffer
  indices are natural numbers; the invariant \<^verbatim>\<open>tpm_ok\<close> bounds them by the buffer sizes.  Memory
  allocation succeeds.
\<close>

subsection \<open>State\<close>

definition TPM_TIS_MAX :: nat where "TPM_TIS_MAX = 4"
definition TPM_CMD_MAX :: nat where "TPM_CMD_MAX = 4096"
definition TPM_RSP_MAX :: nat where "TPM_RSP_MAX = 4096"

record tpm_nv_entry =
  ne_name :: string
  ne_data :: "u8 list option"

record tpm_nv_store =
  nv_use_file :: bool
  nv_base :: string
  nv_entries :: "tpm_nv_entry list"

record mm_tpm_tis =
  tt_bus :: int
  tt_cs_valid :: bool
  tt_cs_bank :: int
  tt_cs_pin :: int
  tt_cs_mask :: u32
  tt_cs_level :: u8
  tt_header :: "u8 list"
  tt_hdr_have :: nat
  tt_addr :: u16
  tt_len :: nat
  tt_is_read :: bool
  tt_wait_phase :: bool
  tt_burst_count :: u16
  tt_locality_active :: bool
  tt_cmd_buf :: "u8 list"
  tt_cmd_len :: nat
  tt_cmd_expected :: nat
  tt_rsp_buf :: "u8 list"
  tt_rsp_len :: nat
  tt_rsp_read :: nat
  tt_nv :: tpm_nv_store

type_synonym 'l tpm_lib = "(u8 list \<Rightarrow> 'l \<Rightarrow> u32 \<times> u8 list \<times> 'l) option"

subsection \<open>Chip select\<close>

definition tpm_sample_cs :: "mm_gpio_readers \<Rightarrow> mm_tpm_tis \<Rightarrow> u8 \<times> mm_tpm_tis"
  where "tpm_sample_cs g t =
    (if \<not> tt_cs_valid t then (0, t)
     else if \<not> mm_gpio_bank_reader_present g then (1, t)
     else
       (let moder = mm_gpio_bank_read_moder g (tt_cs_bank t);
            mode_bits = drop_bit (nat (tt_cs_pin t * 2)) moder AND 0x3;
            level = (if mode_bits \<noteq> 1 then 1
                     else if mm_gpio_bank_read g (tt_cs_bank t) AND tt_cs_mask t \<noteq> 0 then 1 else 0)
        in (level, if level \<noteq> tt_cs_level t then t\<lparr>tt_cs_level := level\<rparr> else t)))"

definition tpm_cs_level :: "mm_gpio_readers \<Rightarrow> mm_tpm_tis \<Rightarrow> u8 \<times> mm_tpm_tis"
  where "tpm_cs_level g t = (if \<not> tt_cs_valid t then (0, t) else tpm_sample_cs g t)"

subsection \<open>Registers\<close>

definition tpm_reset :: "mm_tpm_tis \<Rightarrow> mm_tpm_tis"
  where "tpm_reset t = t\<lparr>tt_hdr_have := 0, tt_addr := 0, tt_len := 0, tt_is_read := False, tt_wait_phase := False,
    tt_burst_count := 64, tt_locality_active := False, tt_cmd_len := 0, tt_cmd_expected := 0, tt_rsp_len := 0,
    tt_rsp_read := 0\<rparr>"

definition in_fifo :: "u16 \<Rightarrow> bool"
  where "in_fifo addr = (addr \<ge> 0x24 \<and> addr < 0x28)"

definition tpm_sts :: "mm_tpm_tis \<Rightarrow> u8"
  where "tpm_sts t = 0x80 OR 0x40 OR
    (if tt_cmd_expected t = 0 \<or> tt_cmd_len t < tt_cmd_expected t then 0x08 else 0) OR
    (if tt_rsp_len t > tt_rsp_read t then 0x10 else 0)"

definition tpm_read_fifo :: "mm_tpm_tis \<Rightarrow> u8 \<times> mm_tpm_tis"
  where "tpm_read_fifo t =
    (if tt_rsp_read t < tt_rsp_len t then
       (let v = tt_rsp_buf t ! tt_rsp_read t; t = t\<lparr>tt_rsp_read := Suc (tt_rsp_read t)\<rparr>
        in (v, if tt_rsp_read t \<ge> tt_rsp_len t
               then t\<lparr>tt_cmd_len := 0, tt_cmd_expected := 0, tt_rsp_len := 0, tt_rsp_read := 0\<rparr> else t))
     else (0xFF, t))"

definition tpm_read_reg :: "mm_tpm_tis \<Rightarrow> u16 \<Rightarrow> u8 \<times> mm_tpm_tis"
  where "tpm_read_reg t addr =
    (if addr = 0 then (0x80 OR (if tt_locality_active t then 0x20 else 0), t)
     else if addr = 0x18 then (tpm_sts t, t)
     else if addr = 0x19 then (ucast (tt_burst_count t AND 0xFF), t)
     else if addr = 0x1A then (ucast (drop_bit 8 (tt_burst_count t) AND 0xFF), t)
     else if addr = 0xF00 then (0xD1, t)
     else if addr = 0xF01 then (0x15, t)
     else if addr = 0xF02 then (0x00, t)
     else if addr = 0xF03 then (0x01, t)
     else if addr = 0xF04 then (0x00, t)
     else if in_fifo addr then tpm_read_fifo t
     else (0xFF, t))"

definition tpm_fail_response :: "u8 list"
  where "tpm_fail_response = [0x80, 0x01, 0x00, 0x00, 0x00, 0x0A, 0x00, 0x00, 0x01, 0x01]"

text \<open>A copy to the front of a buffer.\<close>

definition copied :: "u8 list \<Rightarrow> u8 list \<Rightarrow> u8 list"
  where "copied xs b = xs @ drop (length xs) b"

text \<open>What the library is asked and what goes into the response buffer.\<close>

definition tpm_backend_process :: "'l tpm_lib \<Rightarrow> mm_tpm_tis \<times> 'l \<Rightarrow> mm_tpm_tis \<times> 'l"
  where "tpm_backend_process lib x =
    (let (t, l) = x in
     if tt_cmd_len t = 0 then x
     else
       (let t = t\<lparr>tt_rsp_len := 0, tt_rsp_read := 0\<rparr>;
            answer = (\<lambda>bs. t\<lparr>tt_rsp_buf := copied bs (tt_rsp_buf t), tt_rsp_len := length bs\<rparr>) in
        case lib of
          None \<Rightarrow> (answer tpm_fail_response, l)
        | Some process \<Rightarrow>
            (let (rc, resp, l) = process (take (tt_cmd_len t) (tt_cmd_buf t)) l
             in (answer (if rc = 0 \<and> resp \<noteq> [] then take TPM_RSP_MAX resp else tpm_fail_response), l))))"

definition tpm_write_fifo :: "u8 \<Rightarrow> mm_tpm_tis \<Rightarrow> mm_tpm_tis"
  where "tpm_write_fifo v t =
    (if tt_cmd_len t < TPM_CMD_MAX then
       (let t = t\<lparr>tt_cmd_buf := (tt_cmd_buf t)[tt_cmd_len t := v], tt_cmd_len := Suc (tt_cmd_len t)\<rparr>; b = tt_cmd_buf t in
        if tt_cmd_expected t = 0 \<and> tt_cmd_len t \<ge> 6 then
          (let size = push_bit 24 (to_u32 (b ! 2)) OR push_bit 16 (to_u32 (b ! 3)) OR push_bit 8 (to_u32 (b ! 4)) OR
                 to_u32 (b ! 5)
           in if size \<ge> 10 \<and> unat size \<le> TPM_CMD_MAX then t\<lparr>tt_cmd_expected := unat size\<rparr> else t)
        else t)
     else t)"

definition tpm_write_reg :: "'l tpm_lib \<Rightarrow> u16 \<Rightarrow> u8 \<Rightarrow> mm_tpm_tis \<times> 'l \<Rightarrow> mm_tpm_tis \<times> 'l"
  where "tpm_write_reg lib addr v x =
    (let (t, l) = x in
     if addr = 0 then
       (if v AND 0x02 \<noteq> 0 then (t\<lparr>tt_locality_active := True\<rparr>, l)
        else if v AND 0x20 \<noteq> 0 then (t\<lparr>tt_locality_active := False\<rparr>, l)
        else x)
     else if addr = 0x18 then
       (let t = (if v AND 0x40 \<noteq> 0
                 then t\<lparr>tt_cmd_len := 0, tt_cmd_expected := 0, tt_rsp_len := 0, tt_rsp_read := 0\<rparr> else t)
        in if v AND 0x20 \<noteq> 0 then tpm_backend_process lib (t, l) else (t, l))
     else if in_fifo addr then (tpm_write_fifo v t, l)
     else x)"

subsection \<open>Frames\<close>

definition tpm_header_byte :: "u8 \<Rightarrow> mm_tpm_tis \<Rightarrow> mm_tpm_tis"
  where "tpm_header_byte out t =
    (let t = t\<lparr>tt_header := (tt_header t)[tt_hdr_have t := out], tt_hdr_have := Suc (tt_hdr_have t)\<rparr>; h = tt_header t in
     if tt_hdr_have t = 4 then
       t\<lparr>tt_is_read := (h ! 0 AND 0x80 \<noteq> 0), tt_len := unat (h ! 0 AND 0x7F) + 1,
         tt_addr := push_bit 8 (ucast (h ! 2)) OR ucast (h ! 3), tt_wait_phase := True\<rparr>
     else t)"

text \<open>After a data byte: the address moves on outside the FIFO, and the last byte ends the frame.\<close>

definition tpm_advance :: "mm_tpm_tis \<Rightarrow> mm_tpm_tis"
  where "tpm_advance t =
    (let t = (if \<not> in_fifo (tt_addr t) then t\<lparr>tt_addr := tt_addr t + 1\<rparr> else t) in
     if tt_len t > 0 then
       (let t = t\<lparr>tt_len := tt_len t - 1\<rparr> in if tt_len t = 0 then t\<lparr>tt_hdr_have := 0, tt_wait_phase := False\<rparr> else t)
     else t)"

definition tpm_spi_xfer :: "'l tpm_lib \<Rightarrow> mm_gpio_readers \<Rightarrow> mm_tpm_tis \<times> 'l \<Rightarrow> u8 \<Rightarrow> u8 \<times> mm_tpm_tis \<times> 'l"
  where "tpm_spi_xfer lib g x out =
    (let (t, l) = x; (cs_level, t) = tpm_sample_cs g t in
     if tt_cs_valid t \<and> cs_level \<noteq> 0 then (0xFF, t, l)
     else if tt_hdr_have t < 4 then (0xFF, tpm_header_byte out t, l)
     else if tt_wait_phase t then
       (if tt_is_read t \<and> tt_addr t = 0x24 \<and> tt_rsp_len t = 0 then (0x00, t, l)
        else (0x01, t\<lparr>tt_wait_phase := False\<rparr>, l))
     else if tt_is_read t then (let (v, t) = tpm_read_reg t (tt_addr t) in (v, tpm_advance t, l))
     else (let (t, l) = tpm_write_reg lib (tt_addr t) out (t, l) in (0xFF, tpm_advance t, l)))"

definition tpm_spi_end :: "mm_tpm_tis \<times> 'l \<Rightarrow> mm_tpm_tis \<times> 'l"
  where "tpm_spi_end x = x"

subsection \<open>Storage for the library\<close>

datatype tpm_result = TPM_SUCCESS | TPM_FAIL | TPM_RETRY

text \<open>The files of the host, and which paths can be opened for writing.\<close>

record nv_host =
  nh_files :: "string \<Rightarrow> u8 list option"
  nh_can_write :: "string \<Rightarrow> bool"

fun index_of :: "('a \<Rightarrow> bool) \<Rightarrow> 'a list \<Rightarrow> nat option" where
  "index_of P [] = None"
| "index_of P (x # xs) = (if P x then Some 0 else map_option Suc (index_of P xs))"

definition tpm_nv_free_entry :: "tpm_nv_entry \<Rightarrow> tpm_nv_entry"
  where "tpm_nv_free_entry e = e\<lparr>ne_data := None, ne_name := []\<rparr>"

definition tpm_nv_find :: "tpm_nv_store \<Rightarrow> string \<Rightarrow> nat option"
  where "tpm_nv_find nv name = index_of (\<lambda>e. ne_name e \<noteq> [] \<and> ne_name e = name) (nv_entries nv)"

definition set_entry :: "nat \<Rightarrow> tpm_nv_entry \<Rightarrow> tpm_nv_store \<Rightarrow> tpm_nv_store"
  where "set_entry i e nv = nv\<lparr>nv_entries := (nv_entries nv)[i := e]\<rparr>"

definition tpm_nv_alloc :: "tpm_nv_store \<Rightarrow> string \<Rightarrow> (nat \<times> tpm_nv_store) option"
  where "tpm_nv_alloc nv name =
    map_option (\<lambda>i. (i, set_entry i ((nv_entries nv ! i)\<lparr>ne_name := take 63 name\<rparr>) nv))
      (index_of (\<lambda>e. ne_name e = []) (nv_entries nv))"

definition char_in :: "nat \<Rightarrow> nat \<Rightarrow> char \<Rightarrow> bool"
  where "char_in lo hi c = (lo \<le> of_char c \<and> of_char c \<le> hi)"

definition tpm_nv_sanitize :: "nat \<Rightarrow> string \<Rightarrow> string"
  where "tpm_nv_sanitize out_len name =
    map (\<lambda>c. if char_in 97 122 c \<or> char_in 65 90 c \<or> char_in 48 57 c \<or> c = CHR ''_'' \<or> c = CHR ''-'' then c
             else CHR ''_'') (take (out_len - 1) name)"

definition tpm_nv_path :: "tpm_nv_store \<Rightarrow> string \<Rightarrow> string"
  where "tpm_nv_path nv name =
    (let clean = tpm_nv_sanitize 96 name in if nv_base nv = [] then clean else nv_base nv @ ''.'' @ clean)"

definition tpm_nvram_loaddata :: "nv_host \<Rightarrow> tpm_nv_store \<Rightarrow> string \<Rightarrow> tpm_result \<times> u8 list"
  where "tpm_nvram_loaddata h nv name =
    (case Option.bind (tpm_nv_find nv name) (\<lambda>i. ne_data (nv_entries nv ! i)) of
       Some bs \<Rightarrow> (TPM_SUCCESS, bs)
     | None \<Rightarrow>
         if nv_use_file nv then
           (case nh_files h (tpm_nv_path nv name) of
              None \<Rightarrow> (TPM_RETRY, [])
            | Some bs \<Rightarrow> if bs = [] then (TPM_RETRY, []) else (TPM_SUCCESS, bs))
         else (TPM_RETRY, []))"

definition tpm_nv_write_file :: "nv_host \<Rightarrow> tpm_nv_store \<Rightarrow> string \<Rightarrow> u8 list \<Rightarrow> tpm_result \<times> nv_host"
  where "tpm_nv_write_file h nv name bs =
    (if nv_use_file nv then
       (let path = tpm_nv_path nv name in
        if nh_can_write h path then (TPM_SUCCESS, h\<lparr>nh_files := (nh_files h)(path := Some bs)\<rparr>) else (TPM_FAIL, h))
     else (TPM_SUCCESS, h))"

definition tpm_nvram_storedata ::
  "u8 list \<Rightarrow> string \<Rightarrow> nv_host \<times> tpm_nv_store \<Rightarrow> tpm_result \<times> nv_host \<times> tpm_nv_store"
  where "tpm_nvram_storedata bs name x =
    (let (h, nv) = x in
     case (case tpm_nv_find nv name of Some i \<Rightarrow> Some (i, nv) | None \<Rightarrow> tpm_nv_alloc nv name) of
       None \<Rightarrow> (TPM_FAIL, h, nv)
     | Some (i, nv) \<Rightarrow>
         (let e = tpm_nv_free_entry (nv_entries nv ! i);
              nv = set_entry i (if bs \<noteq> [] then e\<lparr>ne_data := Some bs\<rparr> else e) nv;
              (r, h) = tpm_nv_write_file h nv name bs
          in (r, h, nv)))"

definition tpm_nvram_deletename ::
  "string \<Rightarrow> bool \<Rightarrow> nv_host \<times> tpm_nv_store \<Rightarrow> tpm_result \<times> nv_host \<times> tpm_nv_store"
  where "tpm_nvram_deletename name mustExist x =
    (let (h, nv) = x; found = tpm_nv_find nv name in
     if found = None \<and> mustExist then (TPM_FAIL, x)
     else
       (let nv = (case found of Some i \<Rightarrow> set_entry i (tpm_nv_free_entry (nv_entries nv ! i)) nv | None \<Rightarrow> nv);
            h = (if nv_use_file nv then h\<lparr>nh_files := (nh_files h)(tpm_nv_path nv name := None)\<rparr> else h)
        in (TPM_SUCCESS, h, nv)))"

subsection \<open>Attached devices\<close>

record mm_tpm_tis_cfg =
  tc_bus :: int
  tc_cs_valid :: bool
  tc_cs_bank :: int
  tc_cs_pin :: int
  tc_has_nv_path :: bool
  tc_nv_path :: string

text \<open>The table \<^verbatim>\<open>g_tpm\<close>, the readers of the GPIO pins and the state of the library, the state behind
  the callbacks; the \<^verbatim>\<open>opaque\<close> pointer of a callback is an index into the table.\<close>

record 'l tpm_world =
  g_tpm :: "mm_tpm_tis list"
  g_nv_store :: "nat option"
  tw_gpio :: mm_gpio_readers
  tw_lib :: 'l

definition tpm_device :: "'l tpm_lib \<Rightarrow> int \<Rightarrow> nat \<Rightarrow> 'l tpm_world mm_spi_device"
  where "tpm_device lib bus i =
    \<lparr>spd_bus = bus,
     spd_xfer = Some (\<lambda>w out.
       (let (v, t, l) = tpm_spi_xfer lib (tw_gpio w) (g_tpm w ! i, tw_lib w) out
        in (v, w\<lparr>g_tpm := (g_tpm w)[i := t], tw_lib := l\<rparr>))),
     spd_end = Some (\<lambda>w. (let (t, l) = tpm_spi_end (g_tpm w ! i, tw_lib w)
        in w\<lparr>g_tpm := (g_tpm w)[i := t], tw_lib := l\<rparr>)),
     spd_cs_level = Some (\<lambda>w. (let (v, t) = tpm_cs_level (tw_gpio w) (g_tpm w ! i)
        in (v, w\<lparr>g_tpm := (g_tpm w)[i := t]\<rparr>)))\<rparr>"

text \<open>The cleared record with the fields of the configuration.\<close>

definition tpm_fresh :: "bool \<Rightarrow> mm_tpm_tis_cfg \<Rightarrow> mm_tpm_tis"
  where "tpm_fresh has_lib cfg =
    \<lparr>tt_bus = tc_bus cfg, tt_cs_valid = tc_cs_valid cfg, tt_cs_bank = tc_cs_bank cfg, tt_cs_pin = tc_cs_pin cfg,
     tt_cs_mask = (if tc_cs_valid cfg \<and> tc_cs_pin cfg \<ge> 0 then push_bit (nat (tc_cs_pin cfg)) 1 else 0),
     tt_cs_level = 1, tt_header = replicate 4 0, tt_hdr_have = 0, tt_addr = 0, tt_len = 0, tt_is_read = False,
     tt_wait_phase = False, tt_burst_count = 64, tt_locality_active = False,
     tt_cmd_buf = replicate TPM_CMD_MAX 0, tt_cmd_len = 0, tt_cmd_expected = 0,
     tt_rsp_buf = replicate TPM_RSP_MAX 0, tt_rsp_len = 0, tt_rsp_read = 0,
     tt_nv = \<lparr>nv_use_file = (has_lib \<and> tc_has_nv_path cfg),
       nv_base = (if has_lib \<and> tc_has_nv_path cfg then take 255 (tc_nv_path cfg) else []),
       nv_entries = replicate 16 \<lparr>ne_name = [], ne_data = None\<rparr>\<rparr>\<rparr>"

text \<open>The library initialises itself once the storage callbacks are in place (\<^verbatim>\<open>main_init\<close>).\<close>

definition mm_tpm_tis_register_cfg ::
  "'l tpm_lib \<Rightarrow> ('l \<Rightarrow> 'l) \<Rightarrow> mm_tpm_tis_cfg \<Rightarrow> 'l tpm_world \<Rightarrow> 'l tpm_world mm_spi_device list \<Rightarrow>
   bool \<times> 'l tpm_world \<times> 'l tpm_world mm_spi_device list"
  where "mm_tpm_tis_register_cfg lib main_init cfg w devs =
    (let i = length (g_tpm w) in
     if i \<ge> TPM_TIS_MAX then (False, w, devs)
     else
       (let t = tpm_fresh (lib \<noteq> None) cfg;
            w = w\<lparr>g_tpm := g_tpm w @ [t]\<rparr>;
            w = (if lib \<noteq> None then w\<lparr>g_nv_store := Some i, tw_lib := main_init (tw_lib w)\<rparr> else w);
            (ok, devs) = mm_spi_bus_register_device devs (tpm_device lib (tt_bus t) i)
        in (ok, w, devs)))"

definition mm_tpm_tis_reset_all :: "'l tpm_world \<Rightarrow> 'l tpm_world"
  where "mm_tpm_tis_reset_all w = w\<lparr>g_tpm := map tpm_reset (g_tpm w)\<rparr>"

definition mm_tpm_tis_shutdown_all :: "('l \<Rightarrow> 'l) \<Rightarrow> 'l tpm_world \<Rightarrow> 'l tpm_world"
  where "mm_tpm_tis_shutdown_all terminate w = w\<lparr>g_tpm := [], tw_lib := terminate (tw_lib w)\<rparr>"

definition mm_tpm_tis_count :: "'l tpm_world \<Rightarrow> nat"
  where "mm_tpm_tis_count w = length (g_tpm w)"

definition mm_tpm_tis_get_info :: "'l tpm_world \<Rightarrow> nat \<Rightarrow> mm_tpm_tis_cfg option"
  where "mm_tpm_tis_get_info w i =
    (if i \<ge> length (g_tpm w) then None
     else
       (let t = g_tpm w ! i in
        Some \<lparr>tc_bus = tt_bus t, tc_cs_valid = tt_cs_valid t, tc_cs_bank = tt_cs_bank t, tc_cs_pin = tt_cs_pin t,
              tc_has_nv_path = nv_use_file (tt_nv t),
              tc_nv_path = (if nv_use_file (tt_nv t) then nv_base (tt_nv t) else [])\<rparr>))"

subsection \<open>Invariant\<close>

definition tpm_ok :: "mm_tpm_tis \<Rightarrow> bool"
  where "tpm_ok t =
    (length (tt_header t) = 4 \<and> tt_hdr_have t \<le> 4 \<and> (tt_hdr_have t = 4 \<longrightarrow> 0 < tt_len t \<and> tt_len t \<le> 128) \<and>
     length (tt_cmd_buf t) = TPM_CMD_MAX \<and> tt_cmd_len t \<le> TPM_CMD_MAX \<and> tt_cmd_expected t \<le> TPM_CMD_MAX \<and>
     length (tt_rsp_buf t) = TPM_RSP_MAX \<and> tt_rsp_len t \<le> TPM_RSP_MAX \<and> tt_rsp_read t \<le> tt_rsp_len t)"

lemma tpm_ok_control [simp]:
  "tpm_ok (t\<lparr>tt_cs_level := v\<rparr>) = tpm_ok t" "tpm_ok (t\<lparr>tt_locality_active := b\<rparr>) = tpm_ok t"
  "tpm_ok (t\<lparr>tt_wait_phase := b\<rparr>) = tpm_ok t" "tpm_ok (t\<lparr>tt_addr := a\<rparr>) = tpm_ok t"
  by (simp_all add: tpm_ok_def)

lemma tpm_fresh_ok: "tpm_ok (tpm_fresh b cfg)"
  by (simp add: tpm_ok_def tpm_fresh_def)

lemma copied_length [simp]: "length xs \<le> length b \<Longrightarrow> length (copied xs b) = length b"
  by (simp add: copied_def)

lemma sample_cs_ok: "tpm_ok t \<Longrightarrow> tpm_ok (snd (tpm_sample_cs g t))"
  by (simp add: tpm_sample_cs_def Let_def)

lemma masked_len: "unat (b AND 0x7F) + 1 \<le> 128" for b :: u8
  using word_and_le1 [of b "0x7F"] by (simp add: word_le_nat_alt)

lemma header_byte_ok: "tpm_ok t \<Longrightarrow> tt_hdr_have t < 4 \<Longrightarrow> tpm_ok (tpm_header_byte b t)"
  using masked_len by (simp add: tpm_ok_def tpm_header_byte_def Let_def)

lemma advance_ok: "tpm_ok t \<Longrightarrow> tpm_ok (tpm_advance t)"
  by (auto simp: tpm_ok_def tpm_advance_def Let_def)

lemma read_reg_ok: "tpm_ok t \<Longrightarrow> tpm_ok (snd (tpm_read_reg t a))"
  by (simp add: tpm_read_reg_def tpm_read_fifo_def tpm_ok_def Let_def)

lemma write_fifo_ok: "tpm_ok t \<Longrightarrow> tpm_ok (tpm_write_fifo v t)"
  by (simp add: tpm_ok_def tpm_write_fifo_def Let_def)

lemma answer_length: "length (if c then take TPM_RSP_MAX r else tpm_fail_response) \<le> TPM_RSP_MAX"
  by (simp add: tpm_fail_response_def TPM_RSP_MAX_def)

lemma backend_ok: "tpm_ok t \<Longrightarrow> tpm_ok (fst (tpm_backend_process lib (t, l)))"
  using answer_length [of False] answer_length
  by (auto simp: tpm_ok_def tpm_backend_process_def Let_def case_prod_beta split: option.split)

lemma write_reg_ok: "tpm_ok t \<Longrightarrow> tpm_ok (fst (tpm_write_reg lib a v (t, l)))"
proof -
  assume t: "tpm_ok t"
  then have "tpm_ok (t\<lparr>tt_cmd_len := 0, tt_cmd_expected := 0, tt_rsp_len := 0, tt_rsp_read := 0\<rparr>)"
    by (simp add: tpm_ok_def)
  with t show ?thesis by (simp add: tpm_write_reg_def write_fifo_ok backend_ok Let_def)
qed

lemma tpm_xfer_ok: "tpm_ok (fst x) \<Longrightarrow> tpm_ok (fst (snd (tpm_spi_xfer lib g x b)))"
proof -
  assume "tpm_ok (fst x)"
  then have t: "tpm_ok (snd (tpm_sample_cs g (fst x)))" by (rule sample_cs_ok)
  note write_reg_ok [OF t, of lib, THEN advance_ok] read_reg_ok [OF t, THEN advance_ok] header_byte_ok [OF t]
  with t show ?thesis by (simp add: tpm_spi_xfer_def case_prod_beta Let_def)
qed

interpretation tpm: serial_device "tpm_spi_xfer lib g" tpm_spi_end "\<lambda>_. True" "\<lambda>x. tpm_ok (fst x)" for lib g
  by unfold_locales (simp_all add: tpm_xfer_ok tpm_spi_end_def)

text \<open>C20: the TPM interface never indexes outside its buffers.  In every state that a sequence of bytes
  and frame ends leads to, whatever the library answers, the header, command and response
  positions are inside their arrays, and a frame in progress has between 1 and 128 bytes left.\<close>

theorem tpm_buffers_safe:
  "tpm_ok (fst (spi_events (tpm_spi_xfer lib g) tpm_spi_end (tpm_fresh b cfg, l) evs))"
  by (rule tpm.events_keep) (simp_all add: tpm_fresh_ok)

subsection \<open>Frames of the protocol\<close>

text \<open>The host's view: a header of direction, length and address, one byte for the wait state, and
  the data.\<close>

definition tpm_frame :: "bool \<Rightarrow> u16 \<Rightarrow> u8 list \<Rightarrow> u8 list"
  where "tpm_frame rd addr bs =
    [(if rd then 0x80 else 0) OR (of_nat (length bs) - 1), 0xD4, ucast (drop_bit 8 addr), ucast addr, 0] @ bs"

definition tpm_selected :: "mm_gpio_readers \<Rightarrow> mm_tpm_tis \<Rightarrow> bool"
  where "tpm_selected g t =
    (tt_cs_valid t \<longrightarrow> mm_gpio_bank_reader_present g \<and>
       drop_bit (nat (tt_cs_pin t * 2)) (mm_gpio_bank_read_moder g (tt_cs_bank t)) AND 0x3 = 1 \<and>
       mm_gpio_bank_read g (tt_cs_bank t) AND tt_cs_mask t = 0 \<and> tt_cs_level t = 0)"

lemma selected_sample: "tpm_selected g t \<Longrightarrow> tpm_sample_cs g t = (0, t)"
  by (auto simp: tpm_selected_def tpm_sample_cs_def Let_def)

lemma selected_same:
  "tt_cs_valid t' = tt_cs_valid t \<Longrightarrow> tt_cs_pin t' = tt_cs_pin t \<Longrightarrow> tt_cs_bank t' = tt_cs_bank t \<Longrightarrow>
   tt_cs_mask t' = tt_cs_mask t \<Longrightarrow> tt_cs_level t' = tt_cs_level t \<Longrightarrow> tpm_selected g t' = tpm_selected g t"
  by (simp add: tpm_selected_def)

definition tpm_ready :: "mm_gpio_readers \<Rightarrow> mm_tpm_tis \<Rightarrow> bool"
  where "tpm_ready g t = (tpm_ok t \<and> tpm_selected g t \<and> tt_hdr_have t = 0)"

text \<open>A device whose header is complete and whose wait state is over.\<close>

definition tpm_data :: "mm_gpio_readers \<Rightarrow> bool \<Rightarrow> u16 \<Rightarrow> nat \<Rightarrow> mm_tpm_tis \<Rightarrow> bool"
  where "tpm_data g rd a n t =
    (tpm_ok t \<and> tpm_selected g t \<and> tt_hdr_have t = 4 \<and> \<not> tt_wait_phase t \<and> tt_is_read t = rd \<and>
     tt_addr t = a \<and> tt_len t = n)"

text \<open>The fields that a header changes.\<close>

definition addressed_tpm :: "u8 list \<Rightarrow> bool \<Rightarrow> u16 \<Rightarrow> nat \<Rightarrow> mm_tpm_tis \<Rightarrow> mm_tpm_tis"
  where "addressed_tpm h rd a n t = t\<lparr>tt_header := h, tt_hdr_have := 4, tt_is_read := rd, tt_len := n, tt_addr := a,
    tt_wait_phase := False\<rparr>"

lemma header_length:
  assumes "0 < n" "n \<le> 128"
  shows "unat (((if rd then 0x80 else 0) OR (of_nat n - 1)) AND 0x7F :: u8) + 1 = n"
    and "((if rd then 0x80 else 0) OR (of_nat n - 1)) AND (0x80 :: u8) \<noteq> 0 \<longleftrightarrow> rd"
proof -
  define y :: u8 where "y = of_nat n - 1"
  have "unat (of_nat (n - 1) :: u8) = n - 1" using assms by (subst unat_of_nat) simp
  then have y: "unat y = n - 1" using assms by (simp add: y_def of_nat_diff)
  have "take_bit 7 y = y" using assms y by (simp add: word_unat_eq_iff unsigned_take_bit_eq take_bit_nat_eq_self)
  then have "y AND mask 7 = y" by (simp add: take_bit_eq_mask)
  then have low: "y AND 0x7F = y" by (simp add: mask_eq_exp_minus_1)
  have "y AND 0x80 = y AND (0x7F AND 0x80)" using low by (metis and.assoc)
  then have high: "y AND 0x80 = 0" by simp
  show "unat (((if rd then 0x80 else 0) OR (of_nat n - 1)) AND 0x7F :: u8) + 1 = n"
    using y low assms by (simp add: bit.conj_disj_distrib2 flip: y_def)
  show "((if rd then 0x80 else 0) OR (of_nat n - 1)) AND (0x80 :: u8) \<noteq> 0 \<longleftrightarrow> rd"
    using high by (simp add: bit.conj_disj_distrib2 flip: y_def)
qed

lemma split_addr: "push_bit 8 (ucast (ucast (drop_bit 8 a) :: u8)) OR ucast (ucast a :: u8) = a" for a :: u16
  by (rule bit_word_eqI) (auto simp: bit_simps)

lemma selected_updates [simp]:
  "tpm_selected g (t\<lparr>tt_header := h\<rparr>) = tpm_selected g t" "tpm_selected g (t\<lparr>tt_hdr_have := n\<rparr>) = tpm_selected g t"
  "tpm_selected g (t\<lparr>tt_wait_phase := b\<rparr>) = tpm_selected g t" "tpm_selected g (t\<lparr>tt_len := n\<rparr>) = tpm_selected g t"
  "tpm_selected g (addressed_tpm h b a n t) = tpm_selected g t" "tpm_selected g (t\<lparr>tt_addr := a\<rparr>) = tpm_selected g t"
  "tpm_selected g (t\<lparr>tt_is_read := b\<rparr>) = tpm_selected g t"
  by (simp_all add: tpm_selected_def addressed_tpm_def)

lemma xfer_selected:
  "tpm_selected g t \<Longrightarrow> tpm_spi_xfer lib g (t, l) out =
    (if tt_hdr_have t < 4 then (0xFF, tpm_header_byte out t, l)
     else if tt_wait_phase t then
       (if tt_is_read t \<and> tt_addr t = 0x24 \<and> tt_rsp_len t = 0 then (0x00, t, l)
        else (0x01, t\<lparr>tt_wait_phase := False\<rparr>, l))
     else if tt_is_read t then (let (v, t) = tpm_read_reg t (tt_addr t) in (v, tpm_advance t, l))
     else (let (t, l) = tpm_write_reg lib (tt_addr t) out (t, l) in (0xFF, tpm_advance t, l)))"
  by (simp add: tpm_spi_xfer_def selected_sample)

lemma header_phase:
  assumes t: "tpm_ready g t" and n: "0 < n" "n \<le> 128" and w: "rd \<Longrightarrow> a = 0x24 \<Longrightarrow> tt_rsp_len t \<noteq> 0"
  shows "\<exists>h. length h = 4 \<and>
    spi_shift (tpm_spi_xfer lib g) (t, l)
      [(if rd then 0x80 else 0) OR (of_nat n - 1), 0xD4, ucast (drop_bit 8 a), ucast a, 0] =
    ([0xFF, 0xFF, 0xFF, 0xFF, 0x01], addressed_tpm h rd a n t, l)"
proof -
  define b0 :: u8 where "b0 = (if rd then 0x80 else 0) OR (of_nat n - 1)"
  define h where "h = [b0, 0xD4, ucast (drop_bit 8 a), ucast a]"
  have b0: "unat (b0 AND 0x7F) + 1 = n" "b0 AND 0x80 \<noteq> 0 \<longleftrightarrow> rd" unfolding b0_def by (rule header_length [OF n])+
  obtain h0 h1 h2 h3 where hs: "tt_header t = [h0, h1, h2, h3]"
    using t by (auto simp: tpm_ready_def tpm_ok_def length_Suc_conv numeral_eq_Suc)
  have t0: "t = t\<lparr>tt_header := [h0, h1, h2, h3], tt_hdr_have := 0\<rparr>" using hs t by (simp add: tpm_ready_def)
  have sel: "tpm_selected g t" using t by (simp add: tpm_ready_def)
  have step: "tpm_spi_xfer lib g (t\<lparr>tt_header := x, tt_hdr_have := k\<rparr>, l) b =
      (0xFF, t\<lparr>tt_header := x[k := b], tt_hdr_have := Suc k\<rparr>, l)" if "k < 3" for x k b
    using that sel by (simp add: xfer_selected tpm_header_byte_def)
  have last: "tpm_spi_xfer lib g (t\<lparr>tt_header := [b0, 0xD4, ucast (drop_bit 8 a), h3], tt_hdr_have := 3\<rparr>, l) (ucast a) =
      (0xFF, (addressed_tpm h rd a n t)\<lparr>tt_wait_phase := True\<rparr>, l)"
    using sel b0 by (simp add: xfer_selected tpm_header_byte_def addressed_tpm_def split_addr h_def)
  have wait: "tpm_spi_xfer lib g ((addressed_tpm h rd a n t)\<lparr>tt_wait_phase := True\<rparr>, l) 0 = (0x01, addressed_tpm h rd a n t, l)"
    using sel w by (auto simp: xfer_selected addressed_tpm_def)
  have "spi_shift (tpm_spi_xfer lib g) (t, l) [b0, 0xD4, ucast (drop_bit 8 a), ucast a, 0] =
      ([0xFF, 0xFF, 0xFF, 0xFF, 0x01], addressed_tpm h rd a n t, l)"
    by (subst t0) (simp add: step last wait numeral_3_eq_3 [symmetric])
  then show ?thesis unfolding b0_def by (intro exI [of _ h]) (simp add: h_def)
qed

subsection \<open>Command and response\<close>

text \<open>What a device holds: the command bytes received and the response bytes not yet read.\<close>

definition tpm_command :: "mm_tpm_tis \<Rightarrow> u8 list"
  where "tpm_command t = take (tt_cmd_len t) (tt_cmd_buf t)"

definition tpm_response :: "mm_tpm_tis \<Rightarrow> u8 list"
  where "tpm_response t = drop (tt_rsp_read t) (take (tt_rsp_len t) (tt_rsp_buf t))"

text \<open>The bus position, which the buffers do not depend on.\<close>

definition at_frame :: "u8 list \<Rightarrow> bool \<Rightarrow> u16 \<Rightarrow> nat \<Rightarrow> nat \<Rightarrow> mm_tpm_tis \<Rightarrow> mm_tpm_tis"
  where "at_frame h rd a k n t = t\<lparr>tt_header := h, tt_hdr_have := k, tt_is_read := rd, tt_len := n, tt_addr := a,
    tt_wait_phase := False\<rparr>"

lemma at_frame_fields [simp]:
  "tt_hdr_have (at_frame h rd a k n t) = k" "tt_is_read (at_frame h rd a k n t) = rd"
  "tt_len (at_frame h rd a k n t) = n" "tt_addr (at_frame h rd a k n t) = a"
  "\<not> tt_wait_phase (at_frame h rd a k n t)" "tpm_selected g (at_frame h rd a k n t) = tpm_selected g t"
  "tt_header (at_frame h rd a k n t) = h"
  "tpm_command (at_frame h rd a k n t) = tpm_command t" "tpm_response (at_frame h rd a k n t) = tpm_response t"
  "tt_rsp_len (at_frame h rd a k n t) = tt_rsp_len t"
  "at_frame h' rd' a' k' n' (at_frame h rd a k n t) = at_frame h' rd' a' k' n' t"
  by (simp_all add: at_frame_def tpm_selected_def tpm_command_def tpm_response_def)

lemma at_frame_ok: "tpm_ok t \<Longrightarrow> length h = 4 \<Longrightarrow> k \<le> 4 \<Longrightarrow> (k = 4 \<longrightarrow> 0 < n \<and> n \<le> 128) \<Longrightarrow> tpm_ok (at_frame h rd a k n t)"
  by (simp add: tpm_ok_def at_frame_def)

lemma addressed_at: "addressed_tpm h rd a n t = at_frame h rd a 4 n t"
  by (simp add: addressed_tpm_def at_frame_def)

lemma advance_at:
  "tpm_advance (at_frame h rd a 4 (Suc n) t) =
    at_frame h rd (if in_fifo a then a else a + 1) (if n = 0 then 0 else 4) n t"
  by (simp add: tpm_advance_def at_frame_def Let_def)

lemma fifo_at: "tpm_write_fifo v (at_frame h rd a k n t) = at_frame h rd a k n (tpm_write_fifo v t)"
  by (simp add: tpm_write_fifo_def at_frame_def Let_def)

lemma read_fifo_at:
  "tpm_read_fifo (at_frame h rd a k n t) = (fst (tpm_read_fifo t), at_frame h rd a k n (snd (tpm_read_fifo t)))"
  by (simp add: tpm_read_fifo_def at_frame_def Let_def)

lemma fifo_selected [simp]: "tpm_selected g (tpm_write_fifo v t) = tpm_selected g t"
  by (rule selected_same) (simp_all add: tpm_write_fifo_def Let_def)

lemma read_fifo_selected [simp]: "tpm_selected g (snd (tpm_read_fifo t)) = tpm_selected g t"
  by (rule selected_same) (simp_all add: tpm_read_fifo_def Let_def)

lemma read_fifo_ok: "tpm_ok t \<Longrightarrow> tpm_ok (snd (tpm_read_fifo t))"
  by (simp add: tpm_read_fifo_def tpm_ok_def Let_def)

lemma write_fifo_command:
  "tpm_ok t \<Longrightarrow> length (tpm_command t) < TPM_CMD_MAX \<Longrightarrow> tpm_command (tpm_write_fifo v t) = tpm_command t @ [v]"
  by (auto simp: tpm_ok_def tpm_command_def tpm_write_fifo_def Let_def take_Suc_conv_app_nth)

lemma fifo_write_data:
  "tpm_selected g t \<Longrightarrow> bs \<noteq> [] \<Longrightarrow>
   snd (spi_shift (tpm_spi_xfer lib g) (at_frame h False 0x24 4 (length bs) t, l) bs) =
     (at_frame h False 0x24 0 0 (fold tpm_write_fifo bs t), l)"
proof (induction bs arbitrary: t)
  case (Cons b bs)
  have "tpm_spi_xfer lib g (at_frame h False 0x24 4 (Suc (length bs)) t, l) b =
      (0xFF, at_frame h False 0x24 (if bs = [] then 0 else 4) (length bs) (tpm_write_fifo b t), l)"
    using Cons.prems by (simp add: xfer_selected tpm_write_reg_def in_fifo_def fifo_at advance_at)
  then show ?case using Cons.IH [of "tpm_write_fifo b t"] Cons.prems by (cases "bs = []") (simp_all add: case_prod_beta)
qed simp

text \<open>A number of bytes read from the FIFO.\<close>

fun fifo_reads :: "nat \<Rightarrow> mm_tpm_tis \<Rightarrow> u8 list \<times> mm_tpm_tis" where
  "fifo_reads 0 t = ([], t)"
| "fifo_reads (Suc n) t = (let (v, t) = tpm_read_fifo t; (vs, t) = fifo_reads n t in (v # vs, t))"

lemma fifo_read_data:
  "tpm_selected g t \<Longrightarrow> xs \<noteq> [] \<Longrightarrow>
   spi_shift (tpm_spi_xfer lib g) (at_frame h True 0x24 4 (length xs) t, l) xs =
     (let (vs, t) = fifo_reads (length xs) t in (vs, at_frame h True 0x24 0 0 t, l))"
proof (induction xs arbitrary: t)
  case (Cons x xs)
  let ?t = "snd (tpm_read_fifo t)"
  have "tpm_spi_xfer lib g (at_frame h True 0x24 4 (Suc (length xs)) t, l) x =
      (fst (tpm_read_fifo t), at_frame h True 0x24 (if xs = [] then 0 else 4) (length xs) ?t, l)"
    using Cons.prems by (simp add: xfer_selected tpm_read_reg_def in_fifo_def read_fifo_at advance_at)
  then show ?case using Cons.IH [of ?t] Cons.prems by (cases "xs = []") (simp_all add: case_prod_beta Let_def)
qed simp

lemma read_fifo_response:
  assumes "tpm_ok t" "tpm_response t \<noteq> []"
  shows "fst (tpm_read_fifo t) = hd (tpm_response t)" "tpm_response (snd (tpm_read_fifo t)) = tl (tpm_response t)"
    "tpm_command (snd (tpm_read_fifo t)) = (if tl (tpm_response t) = [] then [] else tpm_command t)"
proof -
  have less: "tt_rsp_read t < tt_rsp_len t" "tt_rsp_len t \<le> length (tt_rsp_buf t)"
    using assms by (auto simp: tpm_response_def tpm_ok_def)
  then have "tpm_response t = tt_rsp_buf t ! tt_rsp_read t # drop (Suc (tt_rsp_read t)) (take (tt_rsp_len t) (tt_rsp_buf t))"
    by (simp add: tpm_response_def Cons_nth_drop_Suc [symmetric])
  with less show "fst (tpm_read_fifo t) = hd (tpm_response t)" "tpm_response (snd (tpm_read_fifo t)) = tl (tpm_response t)"
    "tpm_command (snd (tpm_read_fifo t)) = (if tl (tpm_response t) = [] then [] else tpm_command t)"
    by (auto simp: tpm_read_fifo_def Let_def tpm_response_def [of "tt_rsp_len_update _ _"]
        tpm_response_def [of "tt_rsp_read_update _ _"] tpm_command_def)
qed

lemma fifo_reads_response:
  "tpm_ok t \<Longrightarrow> n \<le> length (tpm_response t) \<Longrightarrow>
   fst (fifo_reads n t) = take n (tpm_response t) \<and> tpm_response (snd (fifo_reads n t)) = drop n (tpm_response t) \<and>
   tpm_ok (snd (fifo_reads n t)) \<and> tpm_selected g (snd (fifo_reads n t)) = tpm_selected g t \<and>
   (0 < n \<and> n = length (tpm_response t) \<longrightarrow> tpm_command (snd (fifo_reads n t)) = [])"
proof (induction n arbitrary: t)
  case (Suc n)
  from Suc.prems obtain r rs where r: "tpm_response t = r # rs" by (cases "tpm_response t") auto
  note one = read_fifo_response [OF Suc.prems(1), unfolded r, simplified]
  have ok: "tpm_ok (snd (tpm_read_fifo t))" using Suc.prems(1) by (rule read_fifo_ok)
  show ?case using Suc.IH [OF ok] Suc.prems(2) one r by (cases n) (auto simp: case_prod_beta Let_def)
qed simp

lemma ready_frame: "tpm_ok t \<Longrightarrow> tpm_selected g t \<Longrightarrow> length h = 4 \<Longrightarrow> tpm_ready g (at_frame h rd a 0 0 t)"
  by (simp add: tpm_ready_def at_frame_ok)

lemma write_frame:
  assumes t: "tpm_ready g t" and bs: "bs \<noteq> []" "length bs \<le> 128"
  shows "\<exists>h. length h = 4 \<and> snd (spi_shift (tpm_spi_xfer lib g) (t, l) (tpm_frame False 0x24 bs)) =
    (at_frame h False 0x24 0 0 (fold tpm_write_fifo bs t), l)"
proof -
  have "\<exists>h. length h = 4 \<and> spi_shift (tpm_spi_xfer lib g) (t, l)
      [(if False then 0x80 else 0) OR (of_nat (length bs) - 1), 0xD4, ucast (drop_bit 8 (0x24 :: u16)), ucast (0x24 :: u16), 0] =
      ([0xFF, 0xFF, 0xFF, 0xFF, 0x01], addressed_tpm h False 0x24 (length bs) t, l)"
    by (rule header_phase [OF t]) (use bs in simp_all)
  then obtain h where h: "length h = 4" "spi_shift (tpm_spi_xfer lib g) (t, l)
      [(if False then 0x80 else 0) OR (of_nat (length bs) - 1), 0xD4, ucast (drop_bit 8 (0x24 :: u16)), ucast (0x24 :: u16), 0] =
      ([0xFF, 0xFF, 0xFF, 0xFF, 0x01], at_frame h False 0x24 4 (length bs) t, l)"
    unfolding addressed_at by blast
  have sel: "tpm_selected g t" using t by (simp add: tpm_ready_def)
  show ?thesis
    unfolding tpm_frame_def spi_shift_append h(2)
    using fifo_write_data [OF sel bs(1), of lib h l] h(1) by (auto simp: case_prod_beta Let_def)
qed

lemma fold_fifo:
  "tpm_ok t \<Longrightarrow> length (tpm_command t) + length bs \<le> TPM_CMD_MAX \<Longrightarrow>
   tpm_ok (fold tpm_write_fifo bs t) \<and> tpm_command (fold tpm_write_fifo bs t) = tpm_command t @ bs \<and>
   tpm_selected g (fold tpm_write_fifo bs t) = tpm_selected g t"
  by (induction bs arbitrary: t) (simp_all add: write_fifo_ok write_fifo_command)

lemma write_frames:
  "tpm_ready g t \<Longrightarrow> \<forall>c\<in>set cs. c \<noteq> [] \<and> length c \<le> 128 \<Longrightarrow>
   length (tpm_command t) + length (concat cs) \<le> TPM_CMD_MAX \<Longrightarrow>
   \<exists>t'. tpm_ready g t' \<and> tpm_command t' = tpm_command t @ concat cs \<and>
     snd (spi_shift (tpm_spi_xfer lib g) (t, l) (concat (map (tpm_frame False 0x24) cs))) = (t', l)"
proof (induction cs arbitrary: t)
  case (Cons c cs)
  then have c: "c \<noteq> []" "length c \<le> 128" by simp_all
  from write_frame [OF Cons.prems(1) this, of lib l] obtain h where h: "length h = 4"
    "snd (spi_shift (tpm_spi_xfer lib g) (t, l) (tpm_frame False 0x24 c)) =
      (at_frame h False 0x24 0 0 (fold tpm_write_fifo c t), l)" by blast
  define t1 where "t1 = at_frame h False 0x24 0 0 (fold tpm_write_fifo c t)"
  have "tpm_ready g t1" "tpm_command t1 = tpm_command t @ c"
    using fold_fifo [of t c g] Cons.prems h(1) by (simp_all add: t1_def ready_frame tpm_ready_def at_frame_ok)
  with Cons.IH [of t1] Cons.prems obtain t' where "tpm_ready g t'" "tpm_command t' = tpm_command t @ c @ concat cs"
    "snd (spi_shift (tpm_spi_xfer lib g) (t1, l) (concat (map (tpm_frame False 0x24) cs))) = (t', l)" by auto
  then show ?case using h(2) by (auto simp: spi_shift_append case_prod_beta Let_def t1_def)
qed auto

lemma backend_at:
  "tpm_backend_process lib (at_frame h rd a k n t, l) =
    (at_frame h rd a k n (fst (tpm_backend_process lib (t, l))), snd (tpm_backend_process lib (t, l)))"
  by (simp add: tpm_backend_process_def at_frame_def Let_def case_prod_beta split: option.split)

lemma clear_at:
  "(at_frame h rd a k n t)\<lparr>tt_cmd_len := 0, tt_cmd_expected := 0, tt_rsp_len := 0, tt_rsp_read := 0\<rparr> =
    at_frame h rd a k n (t\<lparr>tt_cmd_len := 0, tt_cmd_expected := 0, tt_rsp_len := 0, tt_rsp_read := 0\<rparr>)"
  by (simp add: at_frame_def)

lemma sts_frame:
  assumes t: "tpm_ready g t"
  shows "\<exists>h. length h = 4 \<and> snd (spi_shift (tpm_spi_xfer lib g) (t, l) (tpm_frame False 0x18 [v])) =
    (at_frame h False 0x19 0 0 (fst (tpm_write_reg lib 0x18 v (t, l))), snd (tpm_write_reg lib 0x18 v (t, l)))"
proof -
  have "\<exists>h. length h = 4 \<and> spi_shift (tpm_spi_xfer lib g) (t, l)
      [(if False then 0x80 else 0) OR (of_nat 1 - 1), 0xD4, ucast (drop_bit 8 (0x18 :: u16)), ucast (0x18 :: u16), 0] =
      ([0xFF, 0xFF, 0xFF, 0xFF, 0x01], addressed_tpm h False 0x18 1 t, l)"
    by (rule header_phase [OF t]) simp_all
  then obtain h where h: "length h = 4" "spi_shift (tpm_spi_xfer lib g) (t, l)
      [(if False then 0x80 else 0) OR (of_nat (length [v]) - 1), 0xD4, ucast (drop_bit 8 (0x18 :: u16)), ucast (0x18 :: u16), 0] =
      ([0xFF, 0xFF, 0xFF, 0xFF, 0x01], at_frame h False 0x18 4 (Suc 0) t, l)"
    unfolding addressed_at by auto
  have sel: "tpm_selected g t" using t by (simp add: tpm_ready_def)
  have "tpm_write_reg lib 0x18 v (at_frame h False 0x18 4 (Suc 0) t, l) =
      (at_frame h False 0x18 4 (Suc 0) (fst (tpm_write_reg lib 0x18 v (t, l))), snd (tpm_write_reg lib 0x18 v (t, l)))"
    by (simp add: tpm_write_reg_def Let_def backend_at clear_at)
  then show ?thesis
    unfolding tpm_frame_def spi_shift_append h(2)
    using sel h(1) by (auto simp: xfer_selected advance_at in_fifo_def)
qed

text \<open>Frames that read the FIFO; the reply to the data bytes follows five bytes of header and wait.\<close>

fun read_frames :: "('s \<Rightarrow> u8 \<Rightarrow> u8 \<times> 's) \<Rightarrow> 's \<Rightarrow> u8 list list \<Rightarrow> u8 list \<times> 's" where
  "read_frames xfer s [] = ([], s)"
| "read_frames xfer s (c # cs) =
    (let (r, s) = spi_shift xfer s (tpm_frame True 0x24 c); (rs, s) = read_frames xfer s cs in (drop 5 r @ rs, s))"

lemma read_frame:
  assumes t: "tpm_ready g t" and bs: "bs \<noteq> []" "length bs \<le> 128" and r: "tpm_response t \<noteq> []"
  shows "\<exists>h. length h = 4 \<and> spi_shift (tpm_spi_xfer lib g) (t, l) (tpm_frame True 0x24 bs) =
    ([0xFF, 0xFF, 0xFF, 0xFF, 0x01] @ fst (fifo_reads (length bs) t),
     at_frame h True 0x24 0 0 (snd (fifo_reads (length bs) t)), l)"
proof -
  have "tt_rsp_len t \<noteq> 0" using r by (auto simp: tpm_response_def)
  then have "\<exists>h. length h = 4 \<and> spi_shift (tpm_spi_xfer lib g) (t, l)
      [(if True then 0x80 else 0) OR (of_nat (length bs) - 1), 0xD4, ucast (drop_bit 8 (0x24 :: u16)), ucast (0x24 :: u16), 0] =
      ([0xFF, 0xFF, 0xFF, 0xFF, 0x01], addressed_tpm h True 0x24 (length bs) t, l)"
    by (intro header_phase [OF t]) (use bs in simp_all)
  then obtain h where h: "length h = 4" "spi_shift (tpm_spi_xfer lib g) (t, l)
      [(if True then 0x80 else 0) OR (of_nat (length bs) - 1), 0xD4, ucast (drop_bit 8 (0x24 :: u16)), ucast (0x24 :: u16), 0] =
      ([0xFF, 0xFF, 0xFF, 0xFF, 0x01], at_frame h True 0x24 4 (length bs) t, l)"
    unfolding addressed_at by blast
  have sel: "tpm_selected g t" using t by (simp add: tpm_ready_def)
  show ?thesis
    unfolding tpm_frame_def spi_shift_append h(2)
    using fifo_read_data [OF sel bs(1), of lib h l] h(1) by (auto simp: case_prod_beta Let_def)
qed

lemma read_all:
  "tpm_ready g t \<Longrightarrow> \<forall>c\<in>set cs. c \<noteq> [] \<and> length c \<le> 128 \<Longrightarrow> length (concat cs) = length (tpm_response t) \<Longrightarrow>
   cs \<noteq> [] \<Longrightarrow> \<exists>t'. tpm_ready g t' \<and> tpm_command t' = [] \<and>
     read_frames (tpm_spi_xfer lib g) (t, l) cs = (tpm_response t, t', l)"
proof (induction cs arbitrary: t)
  case (Cons c cs)
  have c: "c \<noteq> []" "length c \<le> 128" "length c \<le> length (tpm_response t)" "tpm_response t \<noteq> []" "tpm_ok t"
    using Cons.prems by (auto simp: tpm_ready_def)
  from read_frame [OF Cons.prems(1) c(1,2,4), of lib l] obtain h where h: "length h = 4"
    "spi_shift (tpm_spi_xfer lib g) (t, l) (tpm_frame True 0x24 c) =
      ([0xFF, 0xFF, 0xFF, 0xFF, 0x01] @ fst (fifo_reads (length c) t),
       at_frame h True 0x24 0 0 (snd (fifo_reads (length c) t)), l)" by blast
  define t1 where "t1 = at_frame h True 0x24 0 0 (snd (fifo_reads (length c) t))"
  note f = fifo_reads_response [OF c(5,3), of g]
  have t1: "tpm_ready g t1" "tpm_response t1 = drop (length c) (tpm_response t)"
    "length c = length (tpm_response t) \<Longrightarrow> tpm_command t1 = []"
    using f h(1) c(1,4) Cons.prems(1) by (simp_all add: t1_def ready_frame tpm_ready_def at_frame_ok)
  show ?case
  proof (cases "cs = []")
    case True
    then show ?thesis using Cons.prems(3) t1 f h(2) by (auto simp: t1_def)
  next
    case False
    have "length (concat cs) = length (tpm_response t1)" using Cons.prems(3) t1(2) by simp
    with Cons.IH [OF t1(1) _ _ False] Cons.prems(2) obtain t' where "tpm_ready g t'" "tpm_command t' = []"
      "read_frames (tpm_spi_xfer lib g) (t1, l) cs = (tpm_response t1, t', l)" by auto
    then show ?thesis using h(2) f t1(2) by (auto simp: t1_def)
  qed
qed simp

lemma ready_command:
  assumes "tpm_ready g t"
  shows "tpm_ok (fst (tpm_write_reg lib 0x18 0x40 (t, l)))" "tpm_selected g (fst (tpm_write_reg lib 0x18 0x40 (t, l)))"
    "tpm_command (fst (tpm_write_reg lib 0x18 0x40 (t, l))) = []" "snd (tpm_write_reg lib 0x18 0x40 (t, l)) = l"
  using assms write_reg_ok [of t lib "0x18" "0x40" l]
  by (simp_all add: tpm_ready_def tpm_write_reg_def tpm_selected_def tpm_command_def)

lemma go_command:
  assumes "tpm_ready g t" "tpm_command t \<noteq> []" "process (tpm_command t) l = (0, resp, l')" "resp \<noteq> []"
    "length resp \<le> TPM_RSP_MAX"
  shows "tpm_ok (fst (tpm_write_reg (Some process) 0x18 0x20 (t, l)))"
    "tpm_selected g (fst (tpm_write_reg (Some process) 0x18 0x20 (t, l)))"
    "tpm_response (fst (tpm_write_reg (Some process) 0x18 0x20 (t, l))) = resp"
    "snd (tpm_write_reg (Some process) 0x18 0x20 (t, l)) = l'"
  using assms write_reg_ok [of t "Some process" "0x18" "0x20" l]
  by (auto simp: tpm_ready_def tpm_write_reg_def tpm_backend_process_def tpm_selected_def tpm_command_def tpm_response_def
      tpm_ok_def copied_def Let_def)

text \<open>C19: a command sent to the TPM returns the response of the library.  After the command-ready
  frame, the bytes of the command in frames of up to 128 bytes and the go frame, frames that read
  as many bytes as the response has deliver exactly the response that the library computes for
  exactly the bytes sent; the library is called once, and the device is ready for the next command.\<close>

theorem tpm_command_response:
  assumes "tpm_ready g t" "\<forall>c\<in>set cs. c \<noteq> [] \<and> length c \<le> 128" "concat cs \<noteq> []" "length (concat cs) \<le> TPM_CMD_MAX"
    "process (concat cs) l = (0, resp, l')" "resp \<noteq> []" "length resp \<le> TPM_RSP_MAX"
    "\<forall>x\<in>set xs. x \<noteq> [] \<and> length x \<le> 128" "length (concat xs) = length resp"
  shows "let xfer = tpm_spi_xfer (Some process) g;
      (_, x) = spi_shift xfer (t, l)
        (tpm_frame False 0x18 [0x40] @ concat (map (tpm_frame False 0x24) cs) @ tpm_frame False 0x18 [0x20]);
      (reply, t', l'') = read_frames xfer x xs
    in reply = resp \<and> l'' = l' \<and> tpm_ready g t' \<and> tpm_command t' = []"
proof -
  let ?xfer = "tpm_spi_xfer (Some process) g"
  from sts_frame [OF assms(1), of "Some process" l "0x40"] obtain h where h: "length h = 4"
    "snd (spi_shift ?xfer (t, l) (tpm_frame False 0x18 [0x40])) =
      (at_frame h False 0x19 0 0 (fst (tpm_write_reg (Some process) 0x18 0x40 (t, l))), l)"
    using ready_command(4) [OF assms(1), of "Some process" l] by auto
  define t1 where "t1 = at_frame h False 0x19 0 0 (fst (tpm_write_reg (Some process) 0x18 0x40 (t, l)))"
  have t1: "tpm_ready g t1" "tpm_command t1 = []"
    using ready_command [OF assms(1), of "Some process" l] h(1) by (simp_all add: t1_def ready_frame)
  from write_frames [OF t1(1) assms(2), of "Some process" l] t1(2) assms(4) obtain t2
    where t2: "tpm_ready g t2" "tpm_command t2 = concat cs"
      "snd (spi_shift ?xfer (t1, l) (concat (map (tpm_frame False 0x24) cs))) = (t2, l)" by auto
  note go = go_command [OF t2(1), of process l resp l'] assms(3,5-7) t2(2)
  from sts_frame [OF t2(1), of "Some process" l "0x20"] obtain k where k: "length k = 4"
    "snd (spi_shift ?xfer (t2, l) (tpm_frame False 0x18 [0x20])) =
      (at_frame k False 0x19 0 0 (fst (tpm_write_reg (Some process) 0x18 0x20 (t2, l))), l')"
    using go by auto
  define t3 where "t3 = at_frame k False 0x19 0 0 (fst (tpm_write_reg (Some process) 0x18 0x20 (t2, l)))"
  have t3: "tpm_ready g t3" "tpm_response t3 = resp" using go k(1) by (simp_all add: t3_def ready_frame)
  have "xs \<noteq> []" using assms(6,9) by auto
  with read_all [OF t3(1) assms(8), of "Some process" l'] t3(2) assms(9) obtain t4
    where t4: "tpm_ready g t4" "tpm_command t4 = []" "read_frames ?xfer (t3, l') xs = (resp, t4, l')" by auto
  have "snd (spi_shift ?xfer (t, l)
      (tpm_frame False 0x18 [0x40] @ concat (map (tpm_frame False 0x24) cs) @ tpm_frame False 0x18 [0x20])) = (t3, l')"
    using h(2) t2(3) k(2) by (simp add: spi_shift_append case_prod_beta Let_def t1_def t3_def)
  then show ?thesis using t4 by (simp add: case_prod_beta Let_def)
qed

definition demo_tpm :: mm_tpm_tis
  where "demo_tpm = tpm_fresh True \<lparr>tc_bus = 1, tc_cs_valid = False, tc_cs_bank = 0, tc_cs_pin = 0,
    tc_has_nv_path = False, tc_nv_path = []\<rparr>"

text \<open>A library that echoes the command with one byte behind it and counts its calls.\<close>

definition echo_tpm :: "u8 list \<Rightarrow> nat \<Rightarrow> u32 \<times> u8 list \<times> nat"
  where "echo_tpm c n = (0, c @ [0xAA], Suc n)"

theorem tpm_command_response_witness:
  "\<forall>g. let xfer = tpm_spi_xfer (Some echo_tpm) g;
      (_, x) = spi_shift xfer (demo_tpm, 0)
        (tpm_frame False 0x18 [0x40] @ concat (map (tpm_frame False 0x24) [[0x80, 0x01], [0x00]]) @ tpm_frame False 0x18 [0x20]);
      (reply, t', n) = read_frames xfer x [[0], [0, 0, 0]]
    in reply = [0x80, 0x01, 0x00, 0xAA] \<and> n = 1 \<and> tpm_ready g t' \<and> tpm_command t' = []"
proof
  fix g
  have "tpm_ready g demo_tpm"
    using tpm_fresh_ok by (simp add: tpm_ready_def demo_tpm_def) (simp add: tpm_fresh_def tpm_selected_def)
  from tpm_command_response [OF this, of "[[0x80, 0x01], [0x00]]" echo_tpm 0 "[0x80, 0x01, 0x00, 0xAA]" 1 "[[0], [0, 0, 0]]"]
  show "let xfer = tpm_spi_xfer (Some echo_tpm) g;
      (_, x) = spi_shift xfer (demo_tpm, 0)
        (tpm_frame False 0x18 [0x40] @ concat (map (tpm_frame False 0x24) [[0x80, 0x01], [0x00]]) @ tpm_frame False 0x18 [0x20]);
      (reply, t', n) = read_frames xfer x [[0], [0, 0, 0]]
    in reply = [0x80, 0x01, 0x00, 0xAA] \<and> n = 1 \<and> tpm_ready g t' \<and> tpm_command t' = []"
    by (simp add: echo_tpm_def TPM_CMD_MAX_def TPM_RSP_MAX_def)
qed

subsection \<open>Stored data\<close>

text \<open>Freeing an entry before it is filled also clears its name, so no entry ever has one.\<close>

definition nv_unnamed :: "tpm_nv_store \<Rightarrow> bool"
  where "nv_unnamed nv = (nv_entries nv \<noteq> [] \<and> (\<forall>e\<in>set (nv_entries nv). ne_name e = []))"

lemma unnamed_find: "nv_unnamed nv \<Longrightarrow> tpm_nv_find nv name = None"
proof -
  have none: "(\<forall>e\<in>set es. ne_name e = []) \<Longrightarrow> index_of (\<lambda>e. ne_name e \<noteq> [] \<and> ne_name e = name) es = None" for es
    by (induction es) auto
  show "nv_unnamed nv \<Longrightarrow> tpm_nv_find nv name = None" unfolding tpm_nv_find_def by (rule none) (simp add: nv_unnamed_def)
qed

lemma unnamed_alloc:
  assumes "nv_unnamed nv"
  obtains e es where "nv_entries nv = e # es" "ne_name e = []" "\<forall>e\<in>set es. ne_name e = []"
    "tpm_nv_alloc nv name = Some (0, nv\<lparr>nv_entries := e\<lparr>ne_name := take 63 name\<rparr> # es\<rparr>)"
  using assms by (cases "nv_entries nv") (auto simp: nv_unnamed_def tpm_nv_alloc_def set_entry_def)

lemma unnamed_store:
  assumes "nv_unnamed nv" "tpm_nvram_storedata bs name (h, nv) = (r, h', nv')"
  shows "nv_unnamed nv'" "nv_use_file nv' = nv_use_file nv" "nv_base nv' = nv_base nv"
    "(r, h') = tpm_nv_write_file h nv name bs"
proof -
  obtain e es where e: "nv_entries nv = e # es" "ne_name e = []" "\<forall>e\<in>set es. ne_name e = []"
    "tpm_nv_alloc nv name = Some (0, nv\<lparr>nv_entries := e\<lparr>ne_name := take 63 name\<rparr> # es\<rparr>)"
    by (rule unnamed_alloc [OF assms(1)])
  have path: "tpm_nv_write_file h (nv\<lparr>nv_entries := x\<rparr>) name bs = tpm_nv_write_file h nv name bs" for x
    by (simp add: tpm_nv_write_file_def tpm_nv_path_def Let_def)
  show "nv_unnamed nv'" "nv_use_file nv' = nv_use_file nv" "nv_base nv' = nv_base nv"
    "(r, h') = tpm_nv_write_file h nv name bs"
    using assms(2) e unnamed_find [OF assms(1), of name]
    by (auto simp: tpm_nvram_storedata_def set_entry_def tpm_nv_free_entry_def path nv_unnamed_def Let_def
        split: prod.splits if_splits)
qed

lemma unnamed_delete:
  "nv_unnamed nv \<Longrightarrow> snd (snd (tpm_nvram_deletename name m (h, nv))) = nv"
  by (simp add: tpm_nvram_deletename_def unnamed_find Let_def)

lemma fresh_unnamed: "nv_unnamed (tt_nv (tpm_fresh b cfg))"
  by (simp add: nv_unnamed_def tpm_fresh_def)

text \<open>The storage callbacks in any order.\<close>

datatype nv_call = Store "u8 list" string | Delete string bool

fun nv_calls :: "nv_call list \<Rightarrow> nv_host \<times> tpm_nv_store \<Rightarrow> nv_host \<times> tpm_nv_store" where
  "nv_calls [] x = x"
| "nv_calls (Store bs name # cs) x = nv_calls cs (snd (tpm_nvram_storedata bs name x))"
| "nv_calls (Delete name m # cs) x = nv_calls cs (snd (tpm_nvram_deletename name m x))"

lemma calls_unnamed: "nv_unnamed (snd x) \<Longrightarrow> nv_unnamed (snd (nv_calls cs x)) \<and>
    nv_use_file (snd (nv_calls cs x)) = nv_use_file (snd x) \<and> nv_base (snd (nv_calls cs x)) = nv_base (snd x)"
proof (induction cs x rule: nv_calls.induct)
  case (2 bs name cs x)
  obtain r h' nv' where s: "tpm_nvram_storedata bs name (fst x, snd x) = (r, h', nv')" by (rule prod_cases3)
  show ?case using 2 unnamed_store [OF 2(2) s] s by simp
next
  case (3 name m cs x)
  then show ?case using unnamed_delete [of "snd x" name m "fst x"] by simp
qed simp

text \<open>With a storage file configured, what the library stores it loads again.  After any sequence
  of storage calls on a new device, storing a non-empty value under a name whose file can be
  written succeeds, and loading that name then returns exactly the value.\<close>

theorem tpm_nv_roundtrip:
  assumes "nv_calls cs (h, tt_nv (tpm_fresh b cfg)) = (h1, nv1)" "nv_use_file nv1" "bs \<noteq> []"
    "nh_can_write h1 (tpm_nv_path nv1 name)"
  shows "case tpm_nvram_storedata bs name (h1, nv1) of
    (r, h2, nv2) \<Rightarrow> r = TPM_SUCCESS \<and> tpm_nvram_loaddata h2 nv2 name = (TPM_SUCCESS, bs)"
proof -
  have u: "nv_unnamed nv1" using calls_unnamed [of "(h, tt_nv (tpm_fresh b cfg))" cs] fresh_unnamed assms(1) by simp
  obtain r h2 nv2 where s: "tpm_nvram_storedata bs name (h1, nv1) = (r, h2, nv2)" by (rule prod_cases3)
  note st = unnamed_store [OF u s]
  have "tpm_nv_path nv2 name = tpm_nv_path nv1 name" by (simp add: tpm_nv_path_def st Let_def)
  then show ?thesis
    using st(2,4) assms(2-4) unnamed_find [OF st(1), of name] s
    by (simp add: tpm_nvram_loaddata_def tpm_nv_write_file_def Let_def)
qed

theorem tpm_nv_roundtrip_witness:
  "case tpm_nvram_storedata [1, 2, 3] ''permall''
      (\<lparr>nh_files = (\<lambda>_. None), nh_can_write = (\<lambda>_. True)\<rparr>,
       tt_nv (tpm_fresh True \<lparr>tc_bus = 1, tc_cs_valid = False, tc_cs_bank = 0, tc_cs_pin = 0,
         tc_has_nv_path = True, tc_nv_path = ''tpm''\<rparr>)) of
    (r, h2, nv2) \<Rightarrow> r = TPM_SUCCESS \<and> tpm_nvram_loaddata h2 nv2 ''permall'' = (TPM_SUCCESS, [1, 2, 3])"
  by (rule tpm_nv_roundtrip [of "[]", OF nv_calls.simps(1)]) (simp_all add: tpm_fresh_def)

text \<open>Without a file nothing is ever loaded: the value just stored is already lost.\<close>

lemma tpm_nv_memory_lost:
  assumes "nv_calls cs (h, tt_nv (tpm_fresh b cfg)) = (h1, nv1)" "\<not> nv_use_file nv1"
  shows "case tpm_nvram_storedata bs name (h1, nv1) of
    (r, h2, nv2) \<Rightarrow> r = TPM_SUCCESS \<and> tpm_nvram_loaddata h2 nv2 name = (TPM_RETRY, [])"
proof -
  have u: "nv_unnamed nv1" using calls_unnamed [of "(h, tt_nv (tpm_fresh b cfg))" cs] fresh_unnamed assms(1) by simp
  obtain r h2 nv2 where s: "tpm_nvram_storedata bs name (h1, nv1) = (r, h2, nv2)" by (rule prod_cases3)
  note st = unnamed_store [OF u s]
  show ?thesis
    using st(2,4) assms(2) unnamed_find [OF st(1), of name] s
    by (simp add: tpm_nvram_loaddata_def tpm_nv_write_file_def)
qed

end
