(* ===== verification/Stm32_U585.thy ===== *)
theory Stm32_U585
imports Stm32_Soc Stm32_Spi Stm32_Usart
begin

text \<open>
  The STM32U585, \<^verbatim>\<open>cpu/stm32u585/\<close>.  Most functions of its four files have, word for word, the text of the
  function of that name for the STM32H563; each is a definition here, equal to the one that
  translates that text.  What differs is translated below: the base addresses, a second TrustZone
  controller, a fourth bank of block-based protection, the interrupt and security bit of the random
  number generator, the USARTs and the SPI instances.

  The state extends \<^verbatim>\<open>soc\<close> by the blocks of the second TrustZone controller; \<^verbatim>\<open>so_gpdma2\<close> is not used.
\<close>

subsection \<open>Functions shared with the STM32H563\<close>

text \<open>From \<^verbatim>\<open>stm32u585_mmio.c\<close>:\<close>

definition u585_gpio_bank_clock
  where "u585_gpio_bank_clock = gpio_bank_clock"

definition u585_gpio_bank_read
  where "u585_gpio_bank_read = gpio_bank_read"

definition u585_gpio_bank_read_moder
  where "u585_gpio_bank_read_moder = gpio_bank_read_moder"

definition u585_gpio_bank_read_seccfgr
  where "u585_gpio_bank_read_seccfgr = gpio_bank_read_seccfgr"

definition u585_exti_gpio_update
  where "u585_exti_gpio_update = exti_gpio_update"

definition u585_exti_line_bank
  where "u585_exti_line_bank = exti_line_bank"

definition u585_exti_raise_irq
  where "u585_exti_raise_irq = exti_raise_irq"

definition u585_exti_read
  where "u585_exti_read = exti_read"

definition u585_exti_set_pending_fall
  where "u585_exti_set_pending_fall = exti_set_pending_fall"

definition u585_exti_set_pending_rise
  where "u585_exti_set_pending_rise = exti_set_pending_rise"

definition u585_exti_write
  where "u585_exti_write = exti_write"

definition u585_flash_apply_erase
  where "u585_flash_apply_erase = flash_apply_erase"

definition u585_flash_clear_eop
  where "u585_flash_clear_eop = flash_clear_eop"

definition u585_flash_handle_key
  where "u585_flash_handle_key = flash_handle_key"

definition u585_flash_is_unlocked
  where "u585_flash_is_unlocked = flash_is_unlocked"

definition u585_flash_read
  where "u585_flash_read = flash_read"

definition u585_flash_sector_size
  where "u585_flash_sector_size = flash_sector_size"

definition u585_flash_set_busy
  where "u585_flash_set_busy = flash_set_busy"

definition u585_flash_set_eop
  where "u585_flash_set_eop = flash_set_eop"

definition u585_flash_write
  where "u585_flash_write = flash_write"

definition u585_flash_write_cb
  where "u585_flash_write_cb = flash_write_cb"

definition u585_gpdma_read
  where "u585_gpdma_read = gpdma_read"

definition u585_gpdma_write
  where "u585_gpdma_write = gpdma_write"

definition u585_gpio_apply_brr
  where "u585_gpio_apply_brr = gpio_apply_brr"

definition u585_gpio_apply_bsrr
  where "u585_gpio_apply_bsrr = gpio_apply_bsrr"

definition u585_gpio_clock_enabled
  where "u585_gpio_clock_enabled = gpio_clock_enabled"

definition u585_gpio_mask_to_2bit
  where "u585_gpio_mask_to_2bit = gpio_mask_to_2bit"

definition u585_gpio_read
  where "u585_gpio_read = gpio_read"

definition u585_gpio_sync_odr
  where "u585_gpio_sync_odr = gpio_sync_odr"

definition u585_gpio_write
  where "u585_gpio_write = gpio_write"

definition u585_iwdg_apply_key
  where "u585_iwdg_apply_key = iwdg_apply_key"

definition u585_iwdg_read
  where "u585_iwdg_read = iwdg_read"

definition u585_iwdg_write
  where "u585_iwdg_write = iwdg_write"

definition u585_cpu_hz
  where "u585_cpu_hz = stm32h563_cpu_hz"

definition u585_flash_bind
  where "u585_flash_bind = flash_bind"

definition u585_watchdog_tick
  where "u585_watchdog_tick = stm32h563_watchdog_tick"

definition u585_mpcbb_read
  where "u585_mpcbb_read = mpcbb_read"

definition u585_mpcbb_write
  where "u585_mpcbb_write = mpcbb_write"

definition u585_pwr_read
  where "u585_pwr_read = pwr_read"

definition u585_pwr_update_vos
  where "u585_pwr_update_vos = pwr_update_vos"

definition u585_pwr_write
  where "u585_pwr_write = pwr_write"

definition u585_rcc_pll1_p_clk
  where "u585_rcc_pll1_p_clk = rcc_pll1_p_clk"

definition u585_rcc_read
  where "u585_rcc_read = rcc_read"

definition u585_rcc_update_ready
  where "u585_rcc_update_ready = rcc_update_ready"

definition u585_rcc_update_sysclk
  where "u585_rcc_update_sysclk = rcc_update_sysclk"

definition u585_rcc_write
  where "u585_rcc_write = rcc_write"

definition u585_rng_clock_enabled
  where "u585_rng_clock_enabled = rng_clock_enabled"

definition u585_simple_blk_read
  where "u585_simple_blk_read = simple_blk_read"

definition u585_simple_blk_write
  where "u585_simple_blk_write = simple_blk_write"

definition u585_wwdg_clock_enabled
  where "u585_wwdg_clock_enabled = wwdg_clock_enabled"

definition u585_wwdg_read
  where "u585_wwdg_read = wwdg_read"

definition u585_wwdg_write
  where "u585_wwdg_write = wwdg_write"

text \<open>From \<^verbatim>\<open>stm32u585_timers.c\<close>:\<close>

definition u585_apply_write
  where "u585_apply_write = apply_write"

definition u585_timers_init
  where "u585_timers_init = stm32h563_timers_init"

definition u585_timers_reset
  where "u585_timers_reset = stm32h563_timers_reset"

definition u585_timers_tick
  where "u585_timers_tick = stm32h563_timers_tick"

definition u585_read_slice
  where "u585_read_slice = read_slice"

definition u585_tim_access_allowed
  where "u585_tim_access_allowed = tim_access_allowed"

definition u585_tim_apply_tick_down
  where "u585_tim_apply_tick_down = tim_apply_tick_down"

definition u585_tim_apply_tick_up
  where "u585_tim_apply_tick_up = tim_apply_tick_up"

definition u585_tim_clock_enabled
  where "u585_tim_clock_enabled = tim_clock_enabled"

definition u585_tim_raise_update
  where "u585_tim_raise_update = tim_raise_update"

definition u585_tim_read
  where "u585_tim_read = tim_read"

definition u585_tim_tick
  where "u585_tim_tick = tim_tick"

definition u585_tim_write
  where "u585_tim_write = tim_write"

text \<open>From \<^verbatim>\<open>stm32u585_spi.c\<close>:\<close>

definition u585_fifo_count
  where "u585_fifo_count = fifo_count"

definition u585_fifo_pop
  where "u585_fifo_pop = fifo_pop"

definition u585_fifo_push
  where "u585_fifo_push = fifo_push"

definition u585_spi_poll
  where "u585_spi_poll = spi_poll"

definition u585_spi_poll_instance
  where "u585_spi_poll_instance = spi_poll_instance"

definition u585_spi_frame_bytes
  where "u585_spi_frame_bytes = spi_frame_bytes"

definition u585_spi_handle_tx
  where "u585_spi_handle_tx = spi_handle_tx"

definition u585_spi_read
  where "u585_spi_read = spi_read"

definition u585_spi_set_enabled
  where "u585_spi_set_enabled = spi_set_enabled"

definition u585_spi_start_transfer
  where "u585_spi_start_transfer = spi_start_transfer"

definition u585_spi_write
  where "u585_spi_write = spi_write"

definition u585_spi_xfer_byte
  where "u585_spi_xfer_byte = spi_xfer_byte"

definition u585_update_sr
  where "u585_update_sr = update_sr"

text \<open>From \<^verbatim>\<open>stm32u585_usart.c\<close>:\<close>

definition u585_clock_apb2_usart1
  where "u585_clock_apb2_usart1 = clock_apb2_usart1"

definition u585_ensure_enabled
  where "u585_ensure_enabled = ensure_enabled"

definition u585_usart_poll
  where "u585_usart_poll = usart_poll"

definition u585_usart_reset
  where "u585_usart_reset = usart_reset"

definition u585_usart_poll_instance
  where "u585_usart_poll_instance = usart_poll_instance"

definition u585_usart_read
  where "u585_usart_read = usart_read"

definition u585_usart_write
  where "u585_usart_write = usart_write"

subsection \<open>Random numbers and block-based protection\<close>

definition u585_rng_requires_secure :: "regs \<Rightarrow> bool"
  where "u585_rng_requires_secure tzsc = (drop_bit 13 (tzsc (0x18 div 4)) AND 1 \<noteq> 0)"

definition u585_rng :: rng_hw
  where "u585_rng = \<lparr>rh_irq = 94, rh_requires_secure = u585_rng_requires_secure, rh_clock_enabled = u585_rng_clock_enabled\<rparr>"

definition u585_rng_fill where "u585_rng_fill = rng_fill u585_rng"

definition u585_rng_read where "u585_rng_read = rng_read u585_rng"

definition u585_rng_write where "u585_rng_write = rng_write u585_rng"

text \<open>The number of words of each bank.\<close>

definition u585_mpcbb_words :: "nat list"
  where "u585_mpcbb_words = [32, 32, 32, 1]"

definition u585_mpcbb_init_defaults :: "nat \<Rightarrow> regs"
  where "u585_mpcbb_init_defaults bank =
    (\<lambda>w. if 0x100 div 4 \<le> w \<and> w < 0x100 div 4 + u585_mpcbb_words ! bank then 0xFFFFFFFF else 0)"

definition u585_mpcbb_block_secure :: "(nat \<Rightarrow> regs) \<Rightarrow> int \<Rightarrow> u32 \<Rightarrow> bool"
  where "u585_mpcbb_block_secure mpcbb bank block_index =
    (if bank < 0 \<or> bank \<ge> 4 then False
     else
       (let word = block_index div 32 in
        if unat word \<ge> u585_mpcbb_words ! nat bank then False
        else
          (let b = block_index mod 32; val = mpcbb (nat bank) (0x100 div 4 + unat word);
               sec = (drop_bit (unat b) val AND 1 \<noteq> 0)
           in if mpcbb (nat bank) 0 AND push_bit 30 1 \<noteq> 0 then \<not> sec else sec)))"

subsection \<open>Serial instances\<close>

definition u585_spi_init :: "spi_inst list"
  where "u585_spi_init = map (\<lambda>i. set_spi_reg SPI_SR SR_TXP (zero_spi\<lparr>sp_base := [0x40013000, 0x40003800, 0x46002000] ! i,
    sp_bus_index := int i + 1, sp_irq := [59, 60, 99] ! i\<rparr>)) [0..<3]"

definition u585_spi_reset :: "spi_inst list"
  where "u585_spi_reset = replicate 3 zero_spi"

definition u585_clock_apb1enr1_generic :: "nat \<Rightarrow> usart_clock"
  where "u585_clock_apb1enr1_generic i =
    (case map_of [(1, 17), (2, 18), (3, 19), (4, 20)] i of None \<Rightarrow> CLOCK_NONE | Some b \<Rightarrow> CLOCK_AT 0x9C b)"

definition u585_clock_apb3_lpuart1 :: usart_clock
  where "u585_clock_apb3_lpuart1 = CLOCK_AT 0xA8 6"

text \<open>The security register of the last instance, LPUART1, is in the second controller.\<close>

definition u585_usart_init_inst :: "nat \<Rightarrow> usart_inst"
  where "u585_usart_init_inst i =
    (let u = set_usart_reg USART_ISR ISR_TXE ((zero_usart i)\<lparr>
           us_base := [0x40013800, 0x40004400, 0x40004800, 0x40004C00, 0x40005000, 0x46002400] ! i,
           us_io := mm_uart_io_init, us_irq := [61, 62, 63, 64, 65, 66] ! i,
           us_rcc := True, us_current_sec := MM_SECURE, us_watch_macro := (i = 2), us_sec_reg := Some (0x10 div 4)\<rparr>)
     in if i = 0 then u\<lparr>us_clock_on := CLOCK_APB2, us_sec_bitmask := 0x8, us_sec_reg := Some (0x14 div 4)\<rparr>
        else if 1 \<le> i \<and> i \<le> 4 then u\<lparr>us_clock_on := u585_clock_apb1enr1_generic i, us_sec_bitmask := push_bit (i + 8) 1\<rparr>
        else u\<lparr>us_clock_on := u585_clock_apb3_lpuart1, us_sec_bitmask := 0x2, us_sec_reg := Some (0x10 div 4)\<rparr>)"

definition u585_usart_init :: "usart_inst list"
  where "u585_usart_init = map u585_usart_init_inst [0..<6]"

subsection \<open>Reset and registration\<close>

record u585 = soc +
  u5_tzsc2_s :: regs
  u5_tzsc2_ns :: regs
  u5_tzic2_s :: regs
  u5_tzic2_ns :: regs

definition u585_defaults :: "u585 \<Rightarrow> u585"
  where "u585_defaults s = (soc_defaults s)\<lparr>so_mpcbb := u585_mpcbb_init_defaults, u5_tzsc2_s := zero_regs,
    u5_tzsc2_ns := zero_regs, u5_tzic2_s := zero_regs, u5_tzic2_ns := zero_regs\<rparr>"

definition u585_mmio_reset :: "u585 \<Rightarrow> u585"
  where "u585_mmio_reset s = (let s = u585_defaults s in s\<lparr>so_pwr := u585_pwr_update_vos (so_pwr s)\<rparr>)"

definition u585_rng_region :: "u32 \<Rightarrow> bool \<Rightarrow> u585 mmio_region"
  where "u585_rng_region base secure_alias =
    \<lparr>mr_base = base, mr_size = 0x400,
     mr_read = Some (\<lambda>_ offset n s.
       let (v, r, g) = u585_rng_read secure_alias (so_rcc s) (so_tzsc_s s) offset n (so_rng s, nvic_ptr (so_rng_nvic s) s)
       in (v, put_nvic g (s\<lparr>so_rng := r\<rparr>))),
     mr_write = Some (\<lambda>_ offset n v s.
       let (ok, r, g) = u585_rng_write secure_alias (so_rcc s) (so_tzsc_s s) offset n v (so_rng s, nvic_ptr (so_rng_nvic s) s)
       in (ok, put_nvic g (s\<lparr>so_rng := r\<rparr>)))\<rparr>"

definition u585_regions :: "u585 mmio_region list"
  where "u585_regions =
    [rcc_region 0x46020C00, rcc_region 0x56020C00, pwr_region 0x46020800, pwr_region 0x56020800,
     flash_region 0x40022000, flash_region 0x50022000,
     simple_region 0x50032400 so_tzsc_s so_tzsc_s_update, simple_region 0x40032400 so_tzsc_ns so_tzsc_ns_update,
     simple_region 0x50032800 so_tzic_s so_tzic_s_update, simple_region 0x40032800 so_tzic_ns so_tzic_ns_update,
     simple_region 0x56023000 u5_tzsc2_s u5_tzsc2_s_update, simple_region 0x46023000 u5_tzsc2_ns u5_tzsc2_ns_update,
     simple_region 0x56023400 u5_tzic2_s u5_tzic2_s_update, simple_region 0x46023400 u5_tzic2_ns u5_tzic2_ns_update,
     mpcbb_region 0x40032C00 0, mpcbb_region 0x50032C00 0, mpcbb_region 0x40033000 1, mpcbb_region 0x50033000 1,
     mpcbb_region 0x40033400 2, mpcbb_region 0x50033400 2, mpcbb_region 0x46023800 3, mpcbb_region 0x56023800 3,
     u585_rng_region 0x420C0800 False, u585_rng_region 0x520C0800 True,
     exti_region 0x46022000, exti_region 0x56022000, iwdg_region 0x40003000, iwdg_region 0x50003000,
     wwdg_region 0x40002C00, wwdg_region 0x50002C00,
     gpdma_region 0x40020000 so_gpdma1 so_gpdma1_update, gpdma_region 0x50020000 so_gpdma1 so_gpdma1_update] @
    concat (map (\<lambda>i. [gpio_region (0x42020000 + of_nat i * 0x400) False i, gpio_region (0x52020000 + of_nat i * 0x400) True i])
      [0..<9])"

definition u585_register_mmio :: "u585 mmio_bus \<times> u585 \<Rightarrow> bool \<times> u585 mmio_bus \<times> u585"
  where "u585_register_mmio x =
    (let (bus, s) = x; s = u585_defaults s; (ok, bus) = register_seq u585_regions bus in (ok, bus, s))"

definition U585_RAM_REGIONS :: "mm_ram_region list"
  where "U585_RAM_REGIONS =
    [\<lparr>rr_base_s = 0x30000000, rr_base_ns = 0x20000000, rr_size = 0x00030000, rr_mpcbb_index = 0\<rparr>,
     \<lparr>rr_base_s = 0x30030000, rr_base_ns = 0x20030000, rr_size = 0x00010000, rr_mpcbb_index = 1\<rparr>,
     \<lparr>rr_base_s = 0x30040000, rr_base_ns = 0x20040000, rr_size = 0x00080000, rr_mpcbb_index = 2\<rparr>,
     \<lparr>rr_base_s = 0x38000000, rr_base_ns = 0x28000000, rr_size = 0x00004000, rr_mpcbb_index = 3\<rparr>]"

definition u585_cfg :: "u585 \<Rightarrow> mm_target_cfg"
  where "u585_cfg s = \<lparr>cfg_flash_base_s = 0x0C000000, cfg_flash_size_s = 0x00200000,
    cfg_flash_base_ns = 0x08000000, cfg_flash_size_ns = 0x00200000,
    cfg_ram_base_s = 0x30000000, cfg_ram_size_s = 0x000C0000, cfg_ram_base_ns = 0x20000000, cfg_ram_size_ns = 0x000C0000,
    cfg_ram_regions = U585_RAM_REGIONS, cfg_mpcbb_block_size = 512,
    cfg_mpcbb_block_secure = Some (u585_mpcbb_block_secure (so_mpcbb s))\<rparr>"

definition u585_boot :: "u585 \<Rightarrow> u585 mmio_bus \<times> u585"
  where "u585_boot s =
    u585_timers_init (snd (u585_register_mmio (mmio_bus_init 128, u585_timers_reset (u585_mmio_reset s))))"

subsection \<open>The memory map\<close>

lemma u585_spans: "map span_of (u585_regions @ tim_regions) =
  [(0x46020C00, 0x400), (0x56020C00, 0x400), (0x46020800, 0x400), (0x56020800, 0x400), (0x40022000, 0x400),
   (0x50022000, 0x400), (0x50032400, 0x400), (0x40032400, 0x400), (0x50032800, 0x400), (0x40032800, 0x400),
   (0x56023000, 0x400), (0x46023000, 0x400), (0x56023400, 0x400), (0x46023400, 0x400),
   (0x40032C00, 0x400), (0x50032C00, 0x400), (0x40033000, 0x400), (0x50033000, 0x400), (0x40033400, 0x400),
   (0x50033400, 0x400), (0x46023800, 0x400), (0x56023800, 0x400), (0x420C0800, 0x400), (0x520C0800, 0x400),
   (0x46022000, 0x400), (0x56022000, 0x400),
   (0x40003000, 0x400), (0x50003000, 0x400), (0x40002C00, 0x400), (0x50002C00, 0x400), (0x40020000, 0x1000),
   (0x50020000, 0x1000), (0x42020000, 0x400), (0x52020000, 0x400),
   (0x42020400, 0x400), (0x52020400, 0x400), (0x42020800, 0x400), (0x52020800, 0x400), (0x42020C00, 0x400),
   (0x52020C00, 0x400), (0x42021000, 0x400), (0x52021000, 0x400), (0x42021400, 0x400), (0x52021400, 0x400),
   (0x42021800, 0x400), (0x52021800, 0x400), (0x42021C00, 0x400), (0x52021C00, 0x400), (0x42022000, 0x400),
   (0x52022000, 0x400), (0x40000000, 0x400), (0x50000000, 0x400), (0x40000400, 0x400), (0x50000400, 0x400),
   (0x40000800, 0x400), (0x50000800, 0x400), (0x40000C00, 0x400), (0x50000C00, 0x400)]"
  by (simp add: u585_regions_def tim_regions_def region_defs u585_rng_region_def tim_base_def upt_rec span_of_def)

lemma u585_no_wrap: "list_all no_wrap (u585_regions @ tim_regions)"
  by (rule spans_no_wrap) (simp only: u585_spans, simp)

lemma u585_apart: "sorted_wrt apart (u585_regions @ tim_regions)"
  by (rule apart_spans [OF u585_no_wrap]) (simp add: u585_spans del: map_append)

lemma u585_region_count: "length u585_regions = 50"
  by (simp add: u585_regions_def upt_rec)

lemma u585_boot_bus: "fst (u585_boot s) = \<lparr>mb_regions = u585_regions @ tim_regions, mb_capacity = 128\<rparr>"
proof -
  let ?b = "\<lparr>mb_regions = u585_regions, mb_capacity = 128\<rparr> :: u585 mmio_bus"
  have "register_seq u585_regions (mmio_bus_init 128) = (True, ?b)"
    by (rule register_seq_first [OF u585_apart]) (simp add: u585_region_count)
  moreover have "register_seq tim_regions ?b = (True, \<lparr>mb_regions = u585_regions @ tim_regions, mb_capacity = 128\<rparr>)"
    by (rule register_seq_append [OF u585_apart]) (simp add: u585_region_count soc_region_count)
  ultimately show ?thesis
    by (simp add: u585_boot_def u585_register_mmio_def u585_timers_init_def stm32h563_timers_init_def register_all_seq Let_def)
qed

text \<open>Booting registers all regions without a refusal, and every address inside a region reaches it.\<close>

theorem u585_memory_map:
  assumes "r \<in> set (u585_regions @ tim_regions)" "unat addr \<in> region_span r"
  shows "mmio_bus_find (fst (u585_boot s)) addr = Some r"
proof -
  have "bus_ok (fst (u585_boot s))"
    unfolding u585_boot_bus by (rule apart_bus_ok [OF u585_no_wrap u585_apart]) (simp add: u585_region_count soc_region_count)
  from bus_find_unique [OF this, of addr r] assms show ?thesis by (simp add: u585_boot_bus)
qed

text \<open>The tick always completes.\<close>

theorem u585_tick_returns: "\<exists>s'. u585_timers_tick cycles (s :: u585) = Some s'"
  unfolding u585_timers_tick_def by (rule tick_completes)

text \<open>After booting all RAM is Secure: each of the four banks covers its memory, the fourth with one word.\<close>

lemma u585_windows:
  "mpcbb_scan bs 512 U585_RAM_REGIONS a =
    (let n = unat a in
     if 0x30000000 \<le> n \<and> n < 0x30030000 then Some (bs 0 ((a - 0x30000000) div 512))
     else if 0x20000000 \<le> n \<and> n < 0x20030000 then Some (bs 0 ((a - 0x20000000) div 512))
     else if 0x30030000 \<le> n \<and> n < 0x30040000 then Some (bs 1 ((a - 0x30030000) div 512))
     else if 0x20030000 \<le> n \<and> n < 0x20040000 then Some (bs 1 ((a - 0x20030000) div 512))
     else if 0x30040000 \<le> n \<and> n < 0x300C0000 then Some (bs 2 ((a - 0x30040000) div 512))
     else if 0x20040000 \<le> n \<and> n < 0x200C0000 then Some (bs 2 ((a - 0x20040000) div 512))
     else if 0x38000000 \<le> n \<and> n < 0x38004000 then Some (bs 3 ((a - 0x38000000) div 512))
     else if 0x28000000 \<le> n \<and> n < 0x28004000 then Some (bs 3 ((a - 0x28000000) div 512))
     else None)"
  by (simp add: U585_RAM_REGIONS_def window_iff Let_def)

lemma u585_scan:
  assumes "k < 4" "off < rr_size (U585_RAM_REGIONS ! k)"
    "addr = rr_base_s (U585_RAM_REGIONS ! k) + off \<or> addr = rr_base_ns (U585_RAM_REGIONS ! k) + off"
  shows "mpcbb_scan bs 512 U585_RAM_REGIONS addr = Some (bs (int k) (off div 512))"
proof -
  have o: "unat off < unat (rr_size (U585_RAM_REGIONS ! k))" using assms(2) by (simp add: word_less_nat_alt)
  consider "k = 0" "addr = 0x30000000 + off" | "k = 0" "addr = 0x20000000 + off"
    | "k = 1" "addr = 0x30030000 + off" | "k = 1" "addr = 0x20030000 + off"
    | "k = 2" "addr = 0x30040000 + off" | "k = 2" "addr = 0x20040000 + off"
    | "k = 3" "addr = 0x38000000 + off" | "k = 3" "addr = 0x28000000 + off"
    using assms(1,3) by (auto simp: less_Suc_eq numeral_eq_Suc U585_RAM_REGIONS_def)
  then show ?thesis
    by cases (use o in \<open>simp_all add: U585_RAM_REGIONS_def u585_windows [unfolded U585_RAM_REGIONS_def]
      Let_def unat_word_ariths del: mpcbb_scan.simps\<close>)
qed

theorem u585_boot_secure:
  assumes "k < 4" "off < rr_size (U585_RAM_REGIONS ! k)"
    "addr = rr_base_s (U585_RAM_REGIONS ! k) + off \<or> addr = rr_base_ns (U585_RAM_REGIONS ! k) + off"
  shows "mpcbb_attr_for_addr (mm_prot_init (u585_cfg (snd (u585_boot s)))) addr = Some (MM_SAU_SECURE, MM_SECURE)"
proof -
  have m: "so_mpcbb (snd (u585_boot s)) = u585_mpcbb_init_defaults"
    by (simp add: u585_boot_def u585_register_mmio_def u585_timers_init_def stm32h563_timers_init_def u585_defaults_def
      Let_def case_prod_beta)
  have k: "k = 0 \<or> k = 1 \<or> k = 2 \<or> k = 3" using assms(1) by auto
  have o: "unat off < unat (rr_size (U585_RAM_REGIONS ! k))" using assms(2) by (simp add: word_less_nat_alt)
  have w: "unat (off div 512 div 32) < u585_mpcbb_words ! k"
    using k o by (auto simp: unat_div_distrib U585_RAM_REGIONS_def u585_mpcbb_words_def)
  have b: "drop_bit n (0xFFFFFFFF :: u32) AND 1 \<noteq> 0" if "n < 32" for n
    using all_ones_bit [OF that] .
  have "u585_mpcbb_block_secure u585_mpcbb_init_defaults (int k) (off div 512)"
    using k w b [of "unat (off div 512 mod 32)"]
    by (auto simp: u585_mpcbb_block_secure_def u585_mpcbb_init_defaults_def Let_def unat_mod_distrib)
  then show ?thesis
    using u585_scan [OF assms]
    by (simp add: mpcbb_attr_for_addr_def mm_prot_init_def u585_cfg_def m Let_def) (simp add: U585_RAM_REGIONS_def)
qed

end
