(* ===== verification/Stm32_L552.thy ===== *)
theory Stm32_L552
imports Stm32_Soc Stm32_Spi Stm32_Usart
begin

text \<open>
  The STM32L552, \<^verbatim>\<open>cpu/stm32l552/\<close>.  As for the STM32U585, the functions that have the text of the
  STM32H563's are equal to its definitions.  The clock controller is different: its own registers and
  frequencies, and other offsets of the clock enable registers.  The functions that differ only in
  such an offset are the STM32H563's on a view of the clock registers, \<^verbatim>\<open>l552_enables\<close>, that holds the two
  enable words at the STM32H563's offsets.

  The state is \<^verbatim>\<open>soc\<close>; \<^verbatim>\<open>so_gpdma2\<close> is not used.
\<close>

subsection \<open>Functions shared with the STM32H563\<close>

text \<open>From \<^verbatim>\<open>stm32l552_mmio.c\<close>:\<close>

definition l552_gpio_bank_read
  where "l552_gpio_bank_read = gpio_bank_read"

definition l552_gpio_bank_read_moder
  where "l552_gpio_bank_read_moder = gpio_bank_read_moder"

definition l552_gpio_bank_read_seccfgr
  where "l552_gpio_bank_read_seccfgr = gpio_bank_read_seccfgr"

definition l552_exti_gpio_update
  where "l552_exti_gpio_update = exti_gpio_update"

definition l552_exti_line_bank
  where "l552_exti_line_bank = exti_line_bank"

definition l552_exti_raise_irq
  where "l552_exti_raise_irq = exti_raise_irq"

definition l552_exti_read
  where "l552_exti_read = exti_read"

definition l552_exti_set_pending_fall
  where "l552_exti_set_pending_fall = exti_set_pending_fall"

definition l552_exti_set_pending_rise
  where "l552_exti_set_pending_rise = exti_set_pending_rise"

definition l552_exti_write
  where "l552_exti_write = exti_write"

definition l552_flash_apply_erase
  where "l552_flash_apply_erase = flash_apply_erase"

definition l552_flash_clear_eop
  where "l552_flash_clear_eop = flash_clear_eop"

definition l552_flash_handle_key
  where "l552_flash_handle_key = flash_handle_key"

definition l552_flash_is_unlocked
  where "l552_flash_is_unlocked = flash_is_unlocked"

definition l552_flash_read
  where "l552_flash_read = flash_read"

definition l552_flash_sector_size
  where "l552_flash_sector_size = flash_sector_size"

definition l552_flash_set_busy
  where "l552_flash_set_busy = flash_set_busy"

definition l552_flash_set_eop
  where "l552_flash_set_eop = flash_set_eop"

definition l552_flash_write
  where "l552_flash_write = flash_write"

definition l552_flash_write_cb
  where "l552_flash_write_cb = flash_write_cb"

definition l552_gpdma_read
  where "l552_gpdma_read = gpdma_read"

definition l552_gpdma_write
  where "l552_gpdma_write = gpdma_write"

definition l552_gpio_apply_brr
  where "l552_gpio_apply_brr = gpio_apply_brr"

definition l552_gpio_apply_bsrr
  where "l552_gpio_apply_bsrr = gpio_apply_bsrr"

definition l552_gpio_mask_to_2bit
  where "l552_gpio_mask_to_2bit = gpio_mask_to_2bit"

definition l552_gpio_sync_odr
  where "l552_gpio_sync_odr = gpio_sync_odr"

definition l552_iwdg_apply_key
  where "l552_iwdg_apply_key = iwdg_apply_key"

definition l552_iwdg_read
  where "l552_iwdg_read = iwdg_read"

definition l552_iwdg_write
  where "l552_iwdg_write = iwdg_write"

definition l552_cpu_hz
  where "l552_cpu_hz = stm32h563_cpu_hz"

definition l552_flash_bind
  where "l552_flash_bind = flash_bind"

definition l552_mpcbb_read
  where "l552_mpcbb_read = mpcbb_read"

definition l552_mpcbb_write
  where "l552_mpcbb_write = mpcbb_write"

definition l552_pwr_read
  where "l552_pwr_read = pwr_read"

definition l552_pwr_update_vos
  where "l552_pwr_update_vos = pwr_update_vos"

definition l552_pwr_write
  where "l552_pwr_write = pwr_write"

definition l552_rcc_read
  where "l552_rcc_read = rcc_read"

definition l552_simple_blk_read
  where "l552_simple_blk_read = simple_blk_read"

definition l552_simple_blk_write
  where "l552_simple_blk_write = simple_blk_write"

text \<open>From \<^verbatim>\<open>stm32l552_timers.c\<close>:\<close>

definition l552_apply_write
  where "l552_apply_write = apply_write"

definition l552_timers_init
  where "l552_timers_init = stm32h563_timers_init"

definition l552_timers_reset
  where "l552_timers_reset = stm32h563_timers_reset"

definition l552_read_slice
  where "l552_read_slice = read_slice"

definition l552_tim_access_allowed
  where "l552_tim_access_allowed = tim_access_allowed"

definition l552_tim_apply_tick_down
  where "l552_tim_apply_tick_down = tim_apply_tick_down"

definition l552_tim_apply_tick_up
  where "l552_tim_apply_tick_up = tim_apply_tick_up"

definition l552_tim_raise_update
  where "l552_tim_raise_update = tim_raise_update"

definition l552_tim_read
  where "l552_tim_read = tim_read"

definition l552_tim_write
  where "l552_tim_write = tim_write"

text \<open>From \<^verbatim>\<open>stm32l552_spi.c\<close>:\<close>

definition l552_fifo_count
  where "l552_fifo_count = fifo_count"

definition l552_fifo_pop
  where "l552_fifo_pop = fifo_pop"

definition l552_fifo_push
  where "l552_fifo_push = fifo_push"

definition l552_spi_poll
  where "l552_spi_poll = spi_poll"

definition l552_spi_poll_instance
  where "l552_spi_poll_instance = spi_poll_instance"

definition l552_spi_frame_bytes
  where "l552_spi_frame_bytes = spi_frame_bytes"

definition l552_spi_handle_tx
  where "l552_spi_handle_tx = spi_handle_tx"

definition l552_spi_read
  where "l552_spi_read = spi_read"

definition l552_spi_set_enabled
  where "l552_spi_set_enabled = spi_set_enabled"

definition l552_spi_start_transfer
  where "l552_spi_start_transfer = spi_start_transfer"

definition l552_spi_write
  where "l552_spi_write = spi_write"

definition l552_spi_xfer_byte
  where "l552_spi_xfer_byte = spi_xfer_byte"

definition l552_update_sr
  where "l552_update_sr = update_sr"

text \<open>From \<^verbatim>\<open>stm32l552_usart.c\<close>:\<close>

definition l552_ensure_enabled
  where "l552_ensure_enabled = ensure_enabled"

definition l552_usart_poll
  where "l552_usart_poll = usart_poll"

definition l552_usart_reset
  where "l552_usart_reset = usart_reset"

definition l552_usart_poll_instance
  where "l552_usart_poll_instance = usart_poll_instance"

definition l552_usart_read
  where "l552_usart_read = usart_read"

definition l552_usart_write
  where "l552_usart_write = usart_write"

subsection \<open>Clocks\<close>

definition l552_rcc_update_ready :: "rcc_state \<Rightarrow> rcc_state"
  where "l552_rcc_update_ready r =
    (let cr = rcc_regs r 0; cr = mirror_bit 0 1 cr; cr = mirror_bit 8 10 cr; cr = mirror_bit 16 17 cr; cr = mirror_bit 24 25 cr
     in r\<lparr>rcc_regs := (rcc_regs r)(0 := cr)\<rparr>)"

definition l552_rcc_msi_hz :: "rcc_state \<Rightarrow> u64"
  where "l552_rcc_msi_hz r =
    (let ranges = [100000, 200000, 400000, 800000, 1000000, 2000000, 4000000, 8000000, 16000000, 24000000, 32000000, 48000000];
         idx = drop_bit 4 (rcc_regs r 0) AND 0x0F;
         idx = (if unat idx \<ge> length ranges then 6 else idx)
     in ranges ! unat idx)"

definition l552_rcc_pll_p_clk :: "rcc_state \<Rightarrow> u64"
  where "l552_rcc_pll_p_clk r =
    (let pllcfgr = rcc_regs r (0x00C div 4); src = pllcfgr AND 0x3; divm = drop_bit 4 pllcfgr AND 0x0F;
         n = drop_bit 8 pllcfgr AND 0x7F; rdiv_sel = drop_bit 25 pllcfgr AND 0x3
     in if pllcfgr AND push_bit 24 1 = 0 then 0
        else
          (let fin = (if src = 1 then l552_rcc_msi_hz r else if src = 2 then 16000000 else if src = 3 then 8000000 else 0);
               rdiv = (if rdiv_sel = 0 then 2 else if rdiv_sel = 1 then 4 else if rdiv_sel = 2 then 6
                       else if rdiv_sel = 3 then 8 else 2 :: u32)
           in if fin = 0 \<or> divm = 0 \<or> n = 0 \<or> rdiv = 0 then 0 else (fin div to_u64 divm) * to_u64 n div to_u64 rdiv))"

definition l552_rcc_update_sysclk :: "rcc_state \<Rightarrow> rcc_state"
  where "l552_rcc_update_sysclk r =
    (let cfgr = rcc_regs r (0x008 div 4); sw = cfgr AND 0x3; hpre = drop_bit 4 cfgr AND 0xF;
         sys = (if sw = 0 then l552_rcc_msi_hz r else if sw = 1 then 16000000 else if sw = 2 then 8000000
                else if sw = 3 then l552_rcc_pll_p_clk r else 0);
         hz = (if sys = 0 then 0
               else (let hz = sys div to_u64 (hpre_div hpre) in if hz = 0 then 1 else hz))
     in r\<lparr>rcc_cpu_hz := hz,
          rcc_regs := (rcc_regs r)(0x008 div 4 := (cfgr AND NOT (push_bit 2 0x3)) OR push_bit 2 sw)\<rparr>)"

definition l552_rcc_write :: "rcc_state \<Rightarrow> u32 \<Rightarrow> u32 \<Rightarrow> u32 \<Rightarrow> bool \<times> rcc_state"
  where "l552_rcc_write r offset size_bytes v =
    (if bad_size size_bytes then (False, r) else if offset + size_bytes > RCC_SIZE then (False, r)
     else
       (let r = r\<lparr>rcc_regs := regs_store (rcc_regs r) (unat offset) (unat size_bytes) v\<rparr>;
            r = (if offset = 0x000 then l552_rcc_update_ready r else r)
        in (True, if offset = 0x008 \<or> offset = 0x00C \<or> offset = 0x000 then l552_rcc_update_sysclk r else r)))"

text \<open>The enable words of AHB2 and APB1 moved from 0x4C and 0x58 to where the STM32H563 has them.\<close>

definition l552_enables :: "regs \<Rightarrow> regs"
  where "l552_enables r = r(0x8C div 4 := r (0x4C div 4), 0x9C div 4 := r (0x58 div 4))"

definition l552_view :: "rcc_state \<Rightarrow> rcc_state"
  where "l552_view r = r\<lparr>rcc_regs := l552_enables (rcc_regs r)\<rparr>"

definition l552_gpio_clock_enabled :: "rcc_state \<Rightarrow> nat \<Rightarrow> bool"
  where "l552_gpio_clock_enabled rcc index = gpio_clock_enabled (l552_view rcc) index"

lemma l552_gpio_clock: "l552_gpio_clock_enabled rcc i = (drop_bit i (rcc_regs rcc (0x4C div 4)) AND 1 \<noteq> 0)"
  by (simp add: l552_gpio_clock_enabled_def gpio_clock_enabled_def l552_view_def l552_enables_def)

definition l552_gpio_bank_clock :: "rcc_state \<Rightarrow> int \<Rightarrow> bool"
  where "l552_gpio_bank_clock rcc bank = gpio_bank_clock (l552_view rcc) bank"

definition l552_gpio_read :: "bool \<Rightarrow> rcc_state \<Rightarrow> nat \<Rightarrow> gpio_state \<Rightarrow> u32 \<Rightarrow> u32 \<Rightarrow> u32 option \<times> gpio_state"
  where "l552_gpio_read secure_alias rcc = gpio_read secure_alias (l552_view rcc)"

definition l552_gpio_write ::
  "bool \<Rightarrow> rcc_state \<Rightarrow> nat \<Rightarrow> u32 \<Rightarrow> u32 \<Rightarrow> u32 \<Rightarrow> gpio_state \<times> exti_state \<Rightarrow> bool \<times> gpio_state \<times> exti_state"
  where "l552_gpio_write secure_alias rcc = gpio_write secure_alias (l552_view rcc)"

definition l552_rng_clock_enabled :: "rcc_state \<Rightarrow> bool"
  where "l552_rng_clock_enabled rcc = rng_clock_enabled (l552_view rcc)"

definition l552_wwdg_clock_enabled :: "rcc_state \<Rightarrow> bool"
  where "l552_wwdg_clock_enabled rcc = wwdg_clock_enabled (l552_view rcc)"

definition l552_wwdg_read :: "rcc_state \<Rightarrow> wwdg_state \<Rightarrow> u32 \<Rightarrow> u32 \<Rightarrow> u32 option"
  where "l552_wwdg_read rcc = wwdg_read (l552_view rcc)"

definition l552_wwdg_write :: "rcc_state \<Rightarrow> wwdg_state \<Rightarrow> u32 \<Rightarrow> u32 \<Rightarrow> u32 \<Rightarrow> bool \<times> wwdg_state"
  where "l552_wwdg_write rcc = wwdg_write (l552_view rcc)"

lemma l552_clocks:
  "l552_rng_clock_enabled rcc = (drop_bit 18 (rcc_regs rcc (0x4C div 4)) AND 1 \<noteq> 0)"
  "l552_wwdg_clock_enabled rcc = (drop_bit 11 (rcc_regs rcc (0x58 div 4)) AND 1 \<noteq> 0)"
  by (simp_all add: l552_rng_clock_enabled_def rng_clock_enabled_def l552_wwdg_clock_enabled_def wwdg_clock_enabled_def
    l552_view_def l552_enables_def)

subsection \<open>Random numbers and block-based protection\<close>

definition l552_rng_requires_secure :: "regs \<Rightarrow> bool"
  where "l552_rng_requires_secure tzsc = (drop_bit 14 (tzsc (0x14 div 4)) AND 1 \<noteq> 0)"

definition l552_rng :: rng_hw
  where "l552_rng = \<lparr>rh_irq = 94, rh_requires_secure = l552_rng_requires_secure, rh_clock_enabled = l552_rng_clock_enabled\<rparr>"

definition l552_rng_fill where "l552_rng_fill = rng_fill l552_rng"

definition l552_rng_read where "l552_rng_read = rng_read l552_rng"

definition l552_rng_write where "l552_rng_write = rng_write l552_rng"

definition l552_mpcbb_words :: "nat list"
  where "l552_mpcbb_words = [32, 32]"

definition l552_mpcbb_init_defaults :: "nat \<Rightarrow> regs"
  where "l552_mpcbb_init_defaults bank =
    (\<lambda>w. if bank < 2 \<and> 0x100 div 4 \<le> w \<and> w < 0x100 div 4 + l552_mpcbb_words ! bank then 0xFFFFFFFF else 0)"

definition l552_mpcbb_block_secure :: "(nat \<Rightarrow> regs) \<Rightarrow> int \<Rightarrow> u32 \<Rightarrow> bool"
  where "l552_mpcbb_block_secure mpcbb bank block_index =
    (if bank < 0 \<or> bank \<ge> 2 then False
     else
       (let word = block_index div 32 in
        if unat word \<ge> l552_mpcbb_words ! nat bank then False
        else
          (let b = block_index mod 32; val = mpcbb (nat bank) (0x100 div 4 + unat word);
               sec = (drop_bit (unat b) val AND 1 \<noteq> 0)
           in if mpcbb (nat bank) 0 AND push_bit 30 1 \<noteq> 0 then \<not> sec else sec)))"

subsection \<open>Timers and serial instances\<close>

definition l552_tim_clock_enabled :: "regs option \<Rightarrow> tim_inst \<Rightarrow> bool"
  where "l552_tim_clock_enabled r t = tim_clock_enabled (map_option l552_enables r) t"

definition l552_tim_tick :: "regs option \<Rightarrow> u64 \<Rightarrow> tim_inst \<times> mm_nvic option \<Rightarrow> tim_inst \<times> mm_nvic option"
  where "l552_tim_tick r = tim_tick (map_option l552_enables r)"

definition l552_spi_init :: "spi_inst list"
  where "l552_spi_init = map (\<lambda>i. set_spi_reg SPI_SR SR_TXP (zero_spi\<lparr>sp_base := [0x40013000, 0x40003800, 0x40003C00] ! i,
    sp_bus_index := int i + 1, sp_irq := [59, 60, 99] ! i\<rparr>)) [0..<3]"

definition l552_spi_reset :: "spi_inst list"
  where "l552_spi_reset = replicate 3 zero_spi"

definition l552_clock_apb2_usart1 :: usart_clock
  where "l552_clock_apb2_usart1 = CLOCK_AT 0x60 14"

definition l552_clock_apb1enr1_generic :: "nat \<Rightarrow> usart_clock"
  where "l552_clock_apb1enr1_generic i =
    (case map_of [(1, 17), (2, 18), (3, 19), (4, 20)] i of None \<Rightarrow> CLOCK_NONE | Some b \<Rightarrow> CLOCK_AT 0x58 b)"

definition l552_clock_apb3_lpuart1 :: usart_clock
  where "l552_clock_apb3_lpuart1 = CLOCK_AT 0x5C 0"

definition l552_usart_init_inst :: "nat \<Rightarrow> usart_inst"
  where "l552_usart_init_inst i =
    (let u = set_usart_reg USART_ISR ISR_TXE ((zero_usart i)\<lparr>
           us_base := [0x40013800, 0x40004400, 0x40004800, 0x40004C00, 0x40005000, 0x40008000] ! i,
           us_io := mm_uart_io_init, us_irq := [61, 62, 63, 64, 65, 66] ! i,
           us_rcc := True, us_current_sec := MM_SECURE, us_watch_macro := (i = 2), us_sec_reg := Some (0x10 div 4)\<rparr>)
     in if i = 0 then u\<lparr>us_clock_on := l552_clock_apb2_usart1, us_sec_bitmask := 0x2, us_sec_reg := Some (0x14 div 4)\<rparr>
        else if 1 \<le> i \<and> i \<le> 4 then u\<lparr>us_clock_on := l552_clock_apb1enr1_generic i, us_sec_bitmask := push_bit (i + 9) 1\<rparr>
        else u\<lparr>us_clock_on := l552_clock_apb3_lpuart1, us_sec_bitmask := push_bit 21 1, us_sec_reg := Some (0x10 div 4)\<rparr>)"

definition l552_usart_init :: "usart_inst list"
  where "l552_usart_init = map l552_usart_init_inst [0..<6]"

subsection \<open>Reset and registration\<close>

text \<open>The reset and the registration differ in the reset value of the clock control register.\<close>

definition l552_defaults :: "u32 \<Rightarrow> soc \<Rightarrow> soc"
  where "l552_defaults cr s = (soc_defaults s)\<lparr>
    so_rcc := l552_rcc_update_sysclk (l552_rcc_update_ready \<lparr>rcc_regs = (zero_regs)(0 := cr), rcc_cpu_hz = 0\<rparr>),
    so_mpcbb := l552_mpcbb_init_defaults\<rparr>"

definition l552_mmio_reset :: "soc \<Rightarrow> soc"
  where "l552_mmio_reset s = (let s = l552_defaults 1 s in s\<lparr>so_pwr := l552_pwr_update_vos (so_pwr s)\<rparr>)"

definition l552_rcc_region :: "u32 \<Rightarrow> soc mmio_region"
  where "l552_rcc_region base = block_region base 0x400 (\<lambda>s. l552_rcc_read (so_rcc s))
    (\<lambda>offset n v s. let (ok, r) = l552_rcc_write (so_rcc s) offset n v in (ok, s\<lparr>so_rcc := r\<rparr>))"

definition l552_rng_region :: "u32 \<Rightarrow> bool \<Rightarrow> soc mmio_region"
  where "l552_rng_region base secure_alias =
    \<lparr>mr_base = base, mr_size = 0x400,
     mr_read = Some (\<lambda>_ offset n s.
       let (v, r, g) = l552_rng_read secure_alias (so_rcc s) (so_tzsc_s s) offset n (so_rng s, nvic_ptr (so_rng_nvic s) s)
       in (v, put_nvic g (s\<lparr>so_rng := r\<rparr>))),
     mr_write = Some (\<lambda>_ offset n v s.
       let (ok, r, g) = l552_rng_write secure_alias (so_rcc s) (so_tzsc_s s) offset n v (so_rng s, nvic_ptr (so_rng_nvic s) s)
       in (ok, put_nvic g (s\<lparr>so_rng := r\<rparr>)))\<rparr>"

definition l552_wwdg_region :: "u32 \<Rightarrow> soc mmio_region"
  where "l552_wwdg_region base = block_region base 0x400 (\<lambda>s. l552_wwdg_read (so_rcc s) (so_wwdg s))
    (\<lambda>offset n v s. let (ok, w) = l552_wwdg_write (so_rcc s) (so_wwdg s) offset n v in (ok, s\<lparr>so_wwdg := w\<rparr>))"

definition l552_gpio_region :: "u32 \<Rightarrow> bool \<Rightarrow> nat \<Rightarrow> soc mmio_region"
  where "l552_gpio_region base secure_alias i =
    \<lparr>mr_base = base, mr_size = 0x400,
     mr_read = Some (\<lambda>_ offset n s.
       let (v, g) = l552_gpio_read secure_alias (so_rcc s) i (so_gpio s i) offset n in (v, s\<lparr>so_gpio := (so_gpio s)(i := g)\<rparr>)),
     mr_write = Some (\<lambda>_ offset n v s.
       let (ok, g, e, nv) = l552_gpio_write secure_alias (so_rcc s) i offset n v
             (so_gpio s i, so_exti s, nvic_ptr (so_exti_nvic s) s)
       in (ok, put_nvic nv (s\<lparr>so_gpio := (so_gpio s)(i := g), so_exti := e\<rparr>)))\<rparr>"

definition l552_regions :: "soc mmio_region list"
  where "l552_regions =
    [l552_rcc_region 0x40021000, l552_rcc_region 0x50021000, pwr_region 0x40007000, pwr_region 0x50007000,
     flash_region 0x40022000, flash_region 0x50022000,
     simple_region 0x50032400 so_tzsc_s so_tzsc_s_update, simple_region 0x40032400 so_tzsc_ns so_tzsc_ns_update,
     simple_region 0x50032800 so_tzic_s so_tzic_s_update, simple_region 0x40032800 so_tzic_ns so_tzic_ns_update,
     mpcbb_region 0x40032C00 0, mpcbb_region 0x50032C00 0, mpcbb_region 0x40033000 1, mpcbb_region 0x50033000 1,
     l552_rng_region 0x420C0800 False, l552_rng_region 0x520C0800 True,
     exti_region 0x4002F400, exti_region 0x5002F400, iwdg_region 0x40003000, iwdg_region 0x50003000,
     l552_wwdg_region 0x40002C00, l552_wwdg_region 0x50002C00,
     gpdma_region 0x40020000 so_gpdma1 so_gpdma1_update, gpdma_region 0x50020000 so_gpdma1 so_gpdma1_update] @
    concat (map (\<lambda>i. [l552_gpio_region (0x42020000 + of_nat i * 0x400) False i,
                      l552_gpio_region (0x52020000 + of_nat i * 0x400) True i]) [0..<9])"

definition l552_register_mmio :: "soc mmio_bus \<times> soc \<Rightarrow> bool \<times> soc mmio_bus \<times> soc"
  where "l552_register_mmio x =
    (let (bus, s) = x; s = l552_defaults 0x63 s; (ok, bus) = register_seq l552_regions bus in (ok, bus, s))"

text \<open>The ticks, on the view of the clock registers.\<close>

definition on_view :: "(soc \<Rightarrow> soc option) \<Rightarrow> soc \<Rightarrow> soc option"
  where "on_view f s = map_option (\<lambda>s'. s'\<lparr>so_rcc := so_rcc s\<rparr>) (f (s\<lparr>so_rcc := l552_view (so_rcc s)\<rparr>))"

definition l552_watchdog_tick :: "u64 \<Rightarrow> soc \<Rightarrow> soc option"
  where "l552_watchdog_tick cycles = on_view (stm32h563_watchdog_tick cycles)"

definition l552_timers_tick :: "u64 \<Rightarrow> soc \<Rightarrow> soc option"
  where "l552_timers_tick cycles = on_view (stm32h563_timers_tick cycles)"

definition l552_cfg :: "soc \<Rightarrow> mm_target_cfg"
  where "l552_cfg s = \<lparr>cfg_flash_base_s = 0x0C000000, cfg_flash_size_s = 0x00080000,
    cfg_flash_base_ns = 0x08000000, cfg_flash_size_ns = 0x00080000,
    cfg_ram_base_s = 0x30000000, cfg_ram_size_s = 0x00040000, cfg_ram_base_ns = 0x20000000, cfg_ram_size_ns = 0x00040000,
    cfg_ram_regions = [], cfg_mpcbb_block_size = 0,
    cfg_mpcbb_block_secure = Some (l552_mpcbb_block_secure (so_mpcbb s))\<rparr>"

definition l552_boot :: "soc \<Rightarrow> soc mmio_bus \<times> soc"
  where "l552_boot s =
    l552_timers_init (snd (l552_register_mmio (mmio_bus_init 128, l552_timers_reset (l552_mmio_reset s))))"

subsection \<open>The memory map\<close>

lemma l552_spans: "map span_of (l552_regions @ tim_regions) =
  [(0x40021000, 0x400), (0x50021000, 0x400), (0x40007000, 0x400), (0x50007000, 0x400), (0x40022000, 0x400),
   (0x50022000, 0x400), (0x50032400, 0x400), (0x40032400, 0x400), (0x50032800, 0x400), (0x40032800, 0x400),
   (0x40032C00, 0x400), (0x50032C00, 0x400), (0x40033000, 0x400), (0x50033000, 0x400),
   (0x420C0800, 0x400), (0x520C0800, 0x400), (0x4002F400, 0x400), (0x5002F400, 0x400),
   (0x40003000, 0x400), (0x50003000, 0x400), (0x40002C00, 0x400), (0x50002C00, 0x400), (0x40020000, 0x1000),
   (0x50020000, 0x1000), (0x42020000, 0x400), (0x52020000, 0x400),
   (0x42020400, 0x400), (0x52020400, 0x400), (0x42020800, 0x400), (0x52020800, 0x400), (0x42020C00, 0x400),
   (0x52020C00, 0x400), (0x42021000, 0x400), (0x52021000, 0x400), (0x42021400, 0x400), (0x52021400, 0x400),
   (0x42021800, 0x400), (0x52021800, 0x400), (0x42021C00, 0x400), (0x52021C00, 0x400), (0x42022000, 0x400),
   (0x52022000, 0x400), (0x40000000, 0x400), (0x50000000, 0x400), (0x40000400, 0x400), (0x50000400, 0x400),
   (0x40000800, 0x400), (0x50000800, 0x400), (0x40000C00, 0x400), (0x50000C00, 0x400)]"
  by (simp add: l552_regions_def tim_regions_def region_defs l552_rcc_region_def l552_rng_region_def l552_wwdg_region_def
    l552_gpio_region_def tim_base_def upt_rec span_of_def)

lemma l552_no_wrap: "list_all no_wrap (l552_regions @ tim_regions)"
  by (rule spans_no_wrap) (simp only: l552_spans, simp)

lemma l552_apart: "sorted_wrt apart (l552_regions @ tim_regions)"
  by (rule apart_spans [OF l552_no_wrap]) (simp add: l552_spans del: map_append)

lemma l552_region_count: "length l552_regions = 42"
  by (simp add: l552_regions_def upt_rec)

lemma l552_boot_bus: "fst (l552_boot s) = \<lparr>mb_regions = l552_regions @ tim_regions, mb_capacity = 128\<rparr>"
proof -
  let ?b = "\<lparr>mb_regions = l552_regions, mb_capacity = 128\<rparr> :: soc mmio_bus"
  have "register_seq l552_regions (mmio_bus_init 128) = (True, ?b)"
    by (rule register_seq_first [OF l552_apart]) (simp add: l552_region_count)
  moreover have "register_seq tim_regions ?b = (True, \<lparr>mb_regions = l552_regions @ tim_regions, mb_capacity = 128\<rparr>)"
    by (rule register_seq_append [OF l552_apart]) (simp add: l552_region_count soc_region_count)
  ultimately show ?thesis
    by (simp add: l552_boot_def l552_register_mmio_def l552_timers_init_def stm32h563_timers_init_def register_all_seq Let_def)
qed

text \<open>Booting registers all regions without a refusal, and every address inside a region reaches it.\<close>

theorem l552_memory_map:
  assumes "r \<in> set (l552_regions @ tim_regions)" "unat addr \<in> region_span r"
  shows "mmio_bus_find (fst (l552_boot s)) addr = Some r"
proof -
  have "bus_ok (fst (l552_boot s))"
    unfolding l552_boot_bus by (rule apart_bus_ok [OF l552_no_wrap l552_apart]) (simp add: l552_region_count soc_region_count)
  from bus_find_unique [OF this, of addr r] assms show ?thesis by (simp add: l552_boot_bus)
qed

text \<open>The tick always completes.\<close>

theorem l552_tick_returns: "\<exists>s'. l552_timers_tick cycles s = Some s'"
  using tick_completes [of cycles "s\<lparr>so_rcc := l552_view (so_rcc s)\<rparr>"] by (auto simp: l552_timers_tick_def on_view_def)

text \<open>The registers of the block-based protection have no effect on this part: its description names no RAM
  regions, so whatever they hold no address gets an attribution from them.\<close>

theorem l552_no_block_protection: "mpcbb_attr_for_addr (mm_prot_init (l552_cfg s)) addr = None"
  by (simp add: mpcbb_attr_for_addr_def mm_prot_init_def l552_cfg_def Let_def)

text \<open>The system clock after booting is the 4 MHz of the reset value.\<close>

theorem l552_boot_clock: "rcc_cpu_hz (so_rcc (snd (l552_boot s))) = 4000000"
  by (simp add: l552_boot_def l552_register_mmio_def l552_timers_init_def stm32h563_timers_init_def l552_defaults_def
    l552_rcc_update_sysclk_def l552_rcc_update_ready_def l552_rcc_msi_hz_def mirror_bit_def hpre_div_def to_u64_def Let_def case_prod_beta)

end
