(* ===== verification/Stm32_Eth.thy ===== *)
theory Stm32_Eth
imports Soc_Regs Stack_Memory
begin

text \<open>
  The Ethernet block of the STM32H563, \<^verbatim>\<open>cpu/stm32h563/stm32h563_eth.c\<close>, and the network behind it,
  \<^verbatim>\<open>src/m33mu/eth_backend.c\<close>, as built without libvdeplug.

  The block keeps its registers, the registers of the PHY, the MAC address and the places in the two
  rings of descriptors; the link is the state of the backend with the host.  The host is a record of
  the answers to its system calls, by number of the call, and of what was sent and closed; a datagram
  longer than the buffer of the reader is cut, as a TAP device does.  The clock registers are an
  argument, None before the registration.  The DMA goes through the memory map (None when there is
  none) as Non-secure, then as Secure; a DMA address inside the block's own registers is not covered.
  The transmit buffer is not initialised by the code; what it held before is the argument \<^verbatim>\<open>stale\<close>.

  The loops over the rings are proved for any memory of words, in the locale \<^verbatim>\<open>word_store\<close>.
\<close>

subsection \<open>The backend\<close>

datatype mm_eth_backend_type = MM_ETH_BACKEND_NONE | MM_ETH_BACKEND_TAP | MM_ETH_BACKEND_VDE

record eth_backend_state =
  eb_type :: mm_eth_backend_type
  eb_fd :: int
  eb_spec :: "u8 list"

record eth_host =
  eh_calls :: nat
  eh_open :: "nat \<Rightarrow> int"
  eh_ioctl :: "nat \<Rightarrow> u8 list \<Rightarrow> int"
  eh_write :: "nat \<Rightarrow> u8 list \<Rightarrow> int"
  eh_read :: "nat \<Rightarrow> u8 list option"
  eh_getrandom :: "nat \<Rightarrow> u64 option"
  eh_rand :: "nat \<Rightarrow> u32"
  eh_sent :: "u8 list list"
  eh_closed :: "int list"

type_synonym eth_link = "eth_backend_state \<times> eth_host"

definition called :: "eth_host \<Rightarrow> eth_host"
  where "called h = h\<lparr>eh_calls := Suc (eh_calls h)\<rparr>"

definition closed :: "int \<Rightarrow> eth_host \<Rightarrow> eth_host"
  where "closed fd h = h\<lparr>eh_closed := eh_closed h @ [fd]\<rparr>"

definition eth_backend_reset :: eth_backend_state
  where "eth_backend_reset = \<lparr>eb_type = MM_ETH_BACKEND_NONE, eb_fd = -1, eb_spec = []\<rparr>"

definition mm_eth_backend_type_get :: "eth_backend_state \<Rightarrow> mm_eth_backend_type"
  where "mm_eth_backend_type_get b = eb_type b"

definition mm_eth_backend_spec :: "eth_backend_state \<Rightarrow> u8 list"
  where "mm_eth_backend_spec b = (if eb_type b = MM_ETH_BACKEND_NONE then [] else eb_spec b)"

definition mm_eth_backend_config ::
  "mm_eth_backend_type \<Rightarrow> u8 list option \<Rightarrow> eth_backend_state \<Rightarrow> bool \<times> eth_backend_state"
  where "mm_eth_backend_config ty spec b =
    (if ty = MM_ETH_BACKEND_NONE then (True, eth_backend_reset)
     else case spec of None \<Rightarrow> (False, b)
          | Some s \<Rightarrow> if s = [] then (False, b) else (True, \<lparr>eb_type = ty, eb_fd = -1, eb_spec = take 127 s\<rparr>))"

definition eth_backend_open_tap :: "u8 list \<Rightarrow> eth_link \<Rightarrow> bool \<times> eth_link"
  where "eth_backend_open_tap name l =
    (let (b, h) = l; fd = eh_open h (eh_calls h); h = called h in
     if fd < 0 then (False, b, h)
     else if name = [] \<or> length name \<ge> 16 then (False, b, closed fd h)
     else
       (let r = eh_ioctl h (eh_calls h) name; h = called h
        in if r < 0 then (False, b, closed fd h) else (True, b\<lparr>eb_fd := fd\<rparr>, h)))"

definition mm_eth_backend_start :: "eth_link \<Rightarrow> bool \<times> eth_link"
  where "mm_eth_backend_start l =
    (case eb_type (fst l) of
       MM_ETH_BACKEND_NONE \<Rightarrow> (True, l)
     | MM_ETH_BACKEND_TAP \<Rightarrow> eth_backend_open_tap (eb_spec (fst l)) l
     | MM_ETH_BACKEND_VDE \<Rightarrow> (False, l))"

definition mm_eth_backend_stop :: "eth_link \<Rightarrow> eth_link"
  where "mm_eth_backend_stop l =
    (let (b, h) = l;
         (b, h) = (if eb_type b = MM_ETH_BACKEND_TAP \<and> eb_fd b \<ge> 0 then (b\<lparr>eb_fd := -1\<rparr>, closed (eb_fd b) h) else (b, h))
     in (b\<lparr>eb_type := MM_ETH_BACKEND_NONE\<rparr>, h))"

definition mm_eth_backend_is_up :: "eth_backend_state \<Rightarrow> bool"
  where "mm_eth_backend_is_up b = (eb_type b = MM_ETH_BACKEND_TAP \<and> eb_fd b \<ge> 0)"

definition mm_eth_backend_send :: "u8 list \<Rightarrow> eth_link \<Rightarrow> bool \<times> eth_link"
  where "mm_eth_backend_send data l =
    (let (b, h) = l in
     if data = [] then (False, l)
     else if eb_type b \<noteq> MM_ETH_BACKEND_TAP \<or> eb_fd b < 0 then (False, l)
     else
       (let n = eh_write h (eh_calls h) data;
            h = called (if n < 0 then h else h\<lparr>eh_sent := eh_sent h @ [take (nat n) data]\<rparr>)
        in (n = int (length data), b, h)))"

definition mm_eth_backend_recv :: "nat \<Rightarrow> eth_link \<Rightarrow> u8 list \<times> eth_link"
  where "mm_eth_backend_recv len l =
    (let (b, h) = l in
     if len = 0 \<or> eb_type b \<noteq> MM_ETH_BACKEND_TAP \<or> eb_fd b < 0 then ([], l)
     else (case eh_read h (eh_calls h) of None \<Rightarrow> [] | Some d \<Rightarrow> take len d, b, called h))"

subsection \<open>Registers\<close>

abbreviation "ETH_SIZE \<equiv> (0x11F0 :: u32)"
abbreviation (input) "MACCR \<equiv> (0 :: nat)"
abbreviation "MACMDIOAR \<equiv> (0x200 div 4 :: nat)"
abbreviation "MACMDIODR \<equiv> (0x204 div 4 :: nat)"
abbreviation "MACA0HR \<equiv> (0x300 div 4 :: nat)"
abbreviation "MACA0LR \<equiv> (0x304 div 4 :: nat)"
abbreviation "DMAMR \<equiv> (0x1000 div 4 :: nat)"
abbreviation "DMAISR \<equiv> (0x1008 div 4 :: nat)"
abbreviation "DMACTXCR \<equiv> (0x1104 div 4 :: nat)"
abbreviation "DMACRXCR \<equiv> (0x1108 div 4 :: nat)"
abbreviation "DMACTXDLAR \<equiv> (0x1114 div 4 :: nat)"
abbreviation "DMACRXDLAR \<equiv> (0x111C div 4 :: nat)"
abbreviation "DMACTXRLR \<equiv> (0x112C div 4 :: nat)"
abbreviation "DMACRXRLR \<equiv> (0x1130 div 4 :: nat)"
abbreviation "DMACIER \<equiv> (0x1134 div 4 :: nat)"
abbreviation "DMACSR \<equiv> (0x1160 div 4 :: nat)"

record stm32h563_eth =
  et_regs :: regs
  et_phy :: "nat \<Rightarrow> u16"
  et_mac :: "u8 list"
  et_tx_idx :: u32
  et_rx_idx :: u32
  et_nvic :: "mm_nvic option"

definition set_eth :: "nat \<Rightarrow> u32 \<Rightarrow> stm32h563_eth \<Rightarrow> stm32h563_eth"
  where "set_eth i v e = e\<lparr>et_regs := (et_regs e)(i := v)\<rparr>"

definition eth_clock_enabled :: "regs option \<Rightarrow> bool"
  where "eth_clock_enabled rcc = (case rcc of None \<Rightarrow> True | Some r \<Rightarrow> drop_bit 19 (r (0x88 div 4)) AND 1 \<noteq> 0)"

definition eth_tx_clock_enabled :: "regs option \<Rightarrow> bool"
  where "eth_tx_clock_enabled rcc = (case rcc of None \<Rightarrow> True | Some r \<Rightarrow> drop_bit 20 (r (0x88 div 4)) AND 1 \<noteq> 0)"

definition eth_rx_clock_enabled :: "regs option \<Rightarrow> bool"
  where "eth_rx_clock_enabled rcc = (case rcc of None \<Rightarrow> True | Some r \<Rightarrow> drop_bit 21 (r (0x88 div 4)) AND 1 \<noteq> 0)"

definition eth_raise_irq :: "stm32h563_eth \<Rightarrow> stm32h563_eth"
  where "eth_raise_irq e = e\<lparr>et_nvic := map_option (\<lambda>n. mm_nvic_set_pending n 106 True) (et_nvic e)\<rparr>"

definition eth_update_irq :: "stm32h563_eth \<Rightarrow> stm32h563_eth"
  where "eth_update_irq e =
    (let csr = et_regs e DMACSR; ier = et_regs e DMACIER; on = (\<lambda>n. csr AND push_bit n 1 \<noteq> 0 \<and> ier AND push_bit n 1 \<noteq> 0);
         normal = (on 0 \<or> on 2 \<or> on 6); abnormal = on 7
     in if (normal \<and> ier AND push_bit 15 1 \<noteq> 0) \<or> (abnormal \<and> ier AND push_bit 14 1 \<noteq> 0)
        then eth_raise_irq (set_eth DMAISR (et_regs e DMAISR OR 1) e) else e)"

definition eth_generate_mac :: "eth_host \<Rightarrow> u8 list \<times> eth_host"
  where "eth_generate_mac h =
    (let (v, h) = (case eh_getrandom h (eh_calls h) of
           Some v \<Rightarrow> (v, called h)
         | None \<Rightarrow> (let h = called h in
             (push_bit 32 (ucast (eh_rand h (eh_calls h))) XOR ucast (eh_rand h (Suc (eh_calls h))), called (called h))));
         mac = map (\<lambda>i. to_u8 (drop_bit (8 * i) (v :: u64) AND 0xFF)) [0..<6]
     in (mac[0 := (mac ! 0 AND 0xFE) OR 0x02], h))"

definition eth_phy_reset :: "stm32h563_eth \<Rightarrow> stm32h563_eth"
  where "eth_phy_reset e = e\<lparr>et_phy := (\<lambda>_. 0)(1 := 0x782D, 2 := 0x0007, 3 := 0xC0F0, 4 := 0x01E1)\<rparr>"

definition eth_apply_mac :: "stm32h563_eth \<Rightarrow> stm32h563_eth"
  where "eth_apply_mac e =
    (let m = (\<lambda>i. to_u32 (et_mac e ! i)) in
     set_eth MACA0LR (push_bit 24 (m 3) OR push_bit 16 (m 2) OR push_bit 8 (m 1) OR m 0)
       (set_eth MACA0HR (push_bit 8 (m 5) OR m 4) e))"

definition stm32h563_eth_reset :: "stm32h563_eth \<times> eth_host \<Rightarrow> stm32h563_eth \<times> eth_host"
  where "stm32h563_eth_reset x =
    (let (e, h) = x; (mac, h) = eth_generate_mac h
     in (eth_phy_reset (eth_apply_mac (e\<lparr>et_regs := (\<lambda>_. 0), et_tx_idx := 0, et_rx_idx := 0, et_mac := mac\<rparr>)), h))"

definition stm32h563_eth_set_nvic :: "mm_nvic option \<Rightarrow> stm32h563_eth \<Rightarrow> stm32h563_eth"
  where "stm32h563_eth_set_nvic nvic e = e\<lparr>et_nvic := nvic\<rparr>"

definition stm32h563_eth_init :: "mm_nvic option \<Rightarrow> stm32h563_eth \<Rightarrow> stm32h563_eth"
  where "stm32h563_eth_init nvic e = stm32h563_eth_set_nvic nvic e"

definition eth_handle_mdio :: "eth_backend_state \<Rightarrow> stm32h563_eth \<Rightarrow> stm32h563_eth"
  where "eth_handle_mdio b e =
    (let mdioar = et_regs e MACMDIOAR in
     if mdioar AND 1 = 0 then e
     else
       (let goc = drop_bit 2 mdioar AND 0x3; reg = unat (drop_bit 16 mdioar AND 0x1F); phy = drop_bit 21 mdioar AND 0x1F;
            e = (if phy \<noteq> 0 then set_eth MACMDIODR 0xFFFF e
                 else if goc = 3 then
                   (let val = et_phy e reg;
                        val = (if reg = 1 then (if mm_eth_backend_is_up b then val OR 0x4 else val AND NOT 0x4) OR 0x20 else val)
                    in set_eth MACMDIODR (to_u32 val) e)
                 else if goc = 1 then
                   (let e = e\<lparr>et_phy := (et_phy e)(reg := to_u16 (et_regs e MACMDIODR AND 0xFFFF))\<rparr>
                    in if reg = 0 \<and> et_phy e 0 AND push_bit 15 1 \<noteq> 0
                       then (let e = eth_phy_reset e in e\<lparr>et_phy := (et_phy e)(0 := et_phy e 0 AND NOT (push_bit 15 1))\<rparr>) else e)
                 else e)
        in set_eth MACMDIOAR (et_regs e MACMDIOAR AND NOT 1) e))"

definition eth_read :: "regs option \<Rightarrow> eth_backend_state \<Rightarrow> u32 \<Rightarrow> u32 \<Rightarrow> stm32h563_eth \<Rightarrow> u32 option \<times> stm32h563_eth"
  where "eth_read rcc b offset size_bytes e =
    (if size_bytes \<noteq> 4 then (None, e)
     else if \<not> eth_clock_enabled rcc then (Some 0, e)
     else if offset \<ge> ETH_SIZE then (None, e)
     else
       (let i = unat (offset div 4);
            e = (if offset = 0x200 then eth_handle_mdio b e else e);
            e = (if offset = 0x300 \<or> offset = 0x304 then eth_apply_mac e else e)
        in (Some (et_regs e i), e)))"

definition eth_dma_reset :: "stm32h563_eth \<Rightarrow> stm32h563_eth"
  where "eth_dma_reset e = (set_eth DMAISR 0 (set_eth DMACSR 0 e))\<lparr>et_tx_idx := 0, et_rx_idx := 0\<rparr>"

definition eth_write ::
  "regs option \<Rightarrow> u32 \<Rightarrow> u32 \<Rightarrow> u32 \<Rightarrow> stm32h563_eth \<times> eth_link \<Rightarrow> bool \<times> stm32h563_eth \<times> eth_link"
  where "eth_write rcc offset size_bytes v x =
    (let (e, b, h) = x; i = unat (offset div 4) in
     if size_bytes \<noteq> 4 then (False, x)
     else if offset \<ge> ETH_SIZE then (False, x)
     else if \<not> eth_clock_enabled rcc then (True, x)
     else if offset = 0x1000 then
       (let e = set_eth i v e in
        if v AND 1 = 0 then (True, e, b, h)
        else (let (e, h) = stm32h563_eth_reset (eth_dma_reset e, h)
              in (True, set_eth DMAMR (et_regs e DMAMR AND NOT 1) e, b, h)))
     else if offset = 0x1160 then (True, eth_update_irq (set_eth i (et_regs e i AND NOT v) e), b, h)
     else if offset = 0x200 then (True, eth_handle_mdio b (set_eth i v e), b, h)
     else
       (let e = set_eth i v e; byte = (\<lambda>n. to_u8 (drop_bit n v AND 0xFF));
            e = (if offset = 0x300 then e\<lparr>et_mac := (et_mac e)[5 := byte 8, 4 := byte 0]\<rparr>
                 else if offset = 0x304 then e\<lparr>et_mac := (et_mac e)[3 := byte 24, 2 := byte 16, 1 := byte 8, 0 := byte 0]\<rparr>
                 else e)
        in (True, e, b, h)))"

subsection \<open>Descriptors\<close>

definition eth_dma_read32 :: "'e mm_memmap option \<Rightarrow> u32 \<Rightarrow> u32 option \<times> 'e mm_memmap option"
  where "eth_dma_read32 g addr =
    (case g of None \<Rightarrow> (None, None)
     | Some m \<Rightarrow> (let (v, m) = mm_memmap_read m MM_NONSECURE addr 4 in
         if v \<noteq> None then (v, Some m) else (let (v, m) = mm_memmap_read m MM_SECURE addr 4 in (v, Some m))))"

definition eth_dma_write32 :: "'e mm_memmap option \<Rightarrow> u32 \<Rightarrow> u32 \<Rightarrow> bool \<times> 'e mm_memmap option"
  where "eth_dma_write32 g addr v =
    (case g of None \<Rightarrow> (False, None)
     | Some m \<Rightarrow> (let (ok, m) = mm_memmap_write m MM_NONSECURE addr 4 v in
         if ok then (True, Some m) else (let (ok, m) = mm_memmap_write m MM_SECURE addr 4 v in (ok, Some m))))"

record eth_desc =
  des0 :: u32
  des1 :: u32
  des2 :: u32
  des3 :: u32

text \<open>The four words in the order of their addresses; the first failure ends the access.\<close>

definition eth_dma_read_desc :: "('m \<Rightarrow> u32 \<Rightarrow> u32 option \<times> 'm) \<Rightarrow> u32 \<Rightarrow> 'm \<Rightarrow> eth_desc option \<times> 'm"
  where "eth_dma_read_desc rd addr m =
    (let (ws, m) = pop_words rd m addr 4
     in (map_option (\<lambda>ws. \<lparr>des0 = ws ! 0, des1 = ws ! 1, des2 = ws ! 2, des3 = ws ! 3\<rparr>) ws, m))"

definition eth_dma_write_desc :: "('m \<Rightarrow> u32 \<Rightarrow> u32 \<Rightarrow> bool \<times> 'm) \<Rightarrow> u32 \<Rightarrow> eth_desc \<Rightarrow> 'm \<Rightarrow> bool \<times> 'm"
  where "eth_dma_write_desc wr addr d m = store_words wr m addr [des0 d, des1 d, des2 d, des3 d]"

definition eth_desc_count :: "u32 \<Rightarrow> u32"
  where "eth_desc_count rlr = (let cnt = (rlr AND 0x3FF) + 1 in if cnt \<noteq> 0 then cnt else 1)"

subsection \<open>Transmission\<close>

text \<open>The bytes from \<^verbatim>\<open>j\<close> on as far as the memory answers, and the second word of the descriptor, into
  which every word of the buffer is read.\<close>

fun tx_bytes :: "('m \<Rightarrow> u32 \<Rightarrow> u32 option \<times> 'm) \<Rightarrow> u32 \<Rightarrow> u32 \<Rightarrow> nat \<Rightarrow> u32 \<Rightarrow> 'm \<Rightarrow> u8 list \<times> u32 \<times> 'm" where
  "tx_bytes rd d0 d1 0 j m = ([], d1, m)"
| "tx_bytes rd d0 d1 (Suc k) j m =
    (let (v, m) = rd m (d0 + (j AND NOT 3)) in
     case v of None \<Rightarrow> ([], d1, m)
     | Some w \<Rightarrow> (let (bs, d1, m) = tx_bytes rd d0 w k (j + 1) m
                  in (to_u8 (drop_bit (unat ((j AND 3) * 8)) w AND 0xFF) # bs, d1, m)))"

definition eth_tx_one ::
  "('m \<Rightarrow> u32 \<Rightarrow> u32 option \<times> 'm) \<Rightarrow> ('m \<Rightarrow> u32 \<Rightarrow> u32 \<Rightarrow> bool \<times> 'm) \<Rightarrow> u8 list \<Rightarrow> u32 \<Rightarrow> u32 \<Rightarrow>
   'm \<times> stm32h563_eth \<times> eth_link \<Rightarrow> bool \<times> 'm \<times> stm32h563_eth \<times> eth_link"
  where "eth_tx_one rd wr stale base cnt x =
    (let (m, e, l) = x; idx = et_tx_idx e; addr = base + idx * 16; (d, m) = eth_dma_read_desc rd addr m in
     case d of None \<Rightarrow> (False, m, e, l)
     | Some d \<Rightarrow>
         if des3 d AND push_bit 31 1 = 0 then (False, m, e, l)
         else
           (let len = min (unat (des2 d AND 0x3FFF)) 1600;
                (bs, d1, m) = tx_bytes rd (des0 d) (des1 d) len 0 m;
                (_, l) = mm_eth_backend_send (bs @ take (len - length bs) (drop (length bs) stale)) l;
                (_, m) = eth_dma_write_desc wr addr (d\<lparr>des1 := d1, des3 := des3 d AND NOT (push_bit 31 1)\<rparr>) m;
                e = eth_update_irq (set_eth DMACSR (et_regs e DMACSR OR 1) e)
            in (True, m, e\<lparr>et_tx_idx := (idx + 1) mod cnt\<rparr>, l)))"

fun eth_tx_loop ::
  "('m \<Rightarrow> u32 \<Rightarrow> u32 option \<times> 'm) \<Rightarrow> ('m \<Rightarrow> u32 \<Rightarrow> u32 \<Rightarrow> bool \<times> 'm) \<Rightarrow> u8 list \<Rightarrow> u32 \<Rightarrow> u32 \<Rightarrow> nat \<Rightarrow>
   'm \<times> stm32h563_eth \<times> eth_link \<Rightarrow> 'm \<times> stm32h563_eth \<times> eth_link" where
  "eth_tx_loop rd wr stale base cnt 0 x = x"
| "eth_tx_loop rd wr stale base cnt (Suc k) x =
    (let (go, x) = eth_tx_one rd wr stale base cnt x in if go then eth_tx_loop rd wr stale base cnt k x else x)"

type_synonym 'e eth_sys = "'e mm_memmap option \<times> stm32h563_eth \<times> eth_link"

definition eth_tx_poll :: "u8 list \<Rightarrow> regs option \<Rightarrow> 'e eth_sys \<Rightarrow> 'e eth_sys"
  where "eth_tx_poll stale rcc x =
    (let (m, e, l) = x in
     if \<not> eth_clock_enabled rcc \<or> \<not> eth_tx_clock_enabled rcc then x
     else if et_regs e MACCR AND push_bit 1 1 = 0 then x
     else if et_regs e DMACTXCR AND 1 = 0 then x
     else (let cnt = eth_desc_count (et_regs e DMACTXRLR)
           in eth_tx_loop eth_dma_read32 eth_dma_write32 stale (et_regs e DMACTXDLAR) cnt (unat cnt) x))"

subsection \<open>Reception\<close>

definition eth_rx_buf_len :: "stm32h563_eth \<Rightarrow> eth_desc \<Rightarrow> u32"
  where "eth_rx_buf_len e d =
    (let len = des3 d AND 0x3FFF in if len = 0 then drop_bit 1 (et_regs e DMACRXCR) AND 0x3FFF else len)"

fun rx_bytes ::
  "('m \<Rightarrow> u32 \<Rightarrow> u32 option \<times> 'm) \<Rightarrow> ('m \<Rightarrow> u32 \<Rightarrow> u32 \<Rightarrow> bool \<times> 'm) \<Rightarrow> u32 \<Rightarrow> u32 \<Rightarrow> u8 list \<Rightarrow> 'm \<Rightarrow> 'm" where
  "rx_bytes rd wr d0 i [] m = m"
| "rx_bytes rd wr d0 i (b # bs) m =
    (let word_addr = d0 + (i AND NOT 3); (v, m) = rd m word_addr; word = (case v of None \<Rightarrow> 0 | Some w \<Rightarrow> w);
         shift = unat ((i AND 3) * 8);
         word = (word AND NOT (push_bit shift 0xFF)) OR push_bit shift (to_u32 b)
     in rx_bytes rd wr d0 (i + 1) bs (snd (wr m word_addr word)))"

definition eth_rx_frame ::
  "('m \<Rightarrow> u32 \<Rightarrow> u32 option \<times> 'm) \<Rightarrow> ('m \<Rightarrow> u32 \<Rightarrow> u32 \<Rightarrow> bool \<times> 'm) \<Rightarrow> u8 list \<Rightarrow> 'm \<times> stm32h563_eth \<Rightarrow> 'm \<times> stm32h563_eth"
  where "eth_rx_frame rd wr frame x =
    (let (m, e) = x; cnt = eth_desc_count (et_regs e DMACRXRLR); addr = et_regs e DMACRXDLAR + et_rx_idx e * 16;
         (d, m) = eth_dma_read_desc rd addr m in
     case d of None \<Rightarrow> (m, e)
     | Some d \<Rightarrow>
         if des3 d AND push_bit 31 1 = 0 then (m, eth_update_irq (set_eth DMACSR (et_regs e DMACSR OR push_bit 7 1) e))
         else
           (let len = eth_rx_buf_len e d in
            if len = 0 then (m, e)
            else
              (let bs = take (unat len) frame;
                   m = rx_bytes rd wr (des0 d) 0 bs m;
                   d3 = (des3 d AND push_bit 24 1) OR push_bit 29 1 OR push_bit 28 1 OR (of_nat (length bs) AND 0x3FFF);
                   m = snd (eth_dma_write_desc wr addr (d\<lparr>des3 := d3\<rparr>) m);
                   e = eth_update_irq (set_eth DMACSR (et_regs e DMACSR OR push_bit 6 1) e)
               in (m, e\<lparr>et_rx_idx := (et_rx_idx e + 1) mod cnt\<rparr>))))"

definition eth_rx_poll :: "regs option \<Rightarrow> 'e eth_sys \<Rightarrow> 'e eth_sys"
  where "eth_rx_poll rcc x =
    (let (m, e, l) = x in
     if \<not> eth_clock_enabled rcc \<or> \<not> eth_rx_clock_enabled rcc then x
     else if et_regs e MACCR AND 1 = 0 then x
     else if et_regs e DMACRXCR AND 1 = 0 then x
     else
       (let (frame, l) = mm_eth_backend_recv 1600 l in
        if frame = [] then (m, e, l)
        else (let (m, e) = eth_rx_frame eth_dma_read32 eth_dma_write32 frame (m, e) in (m, e, l))))"

definition stm32h563_eth_poll :: "u8 list \<Rightarrow> regs option \<Rightarrow> 'e eth_sys \<Rightarrow> 'e eth_sys"
  where "stm32h563_eth_poll stale rcc x =
    (if \<not> eth_clock_enabled rcc then x else eth_rx_poll rcc (eth_tx_poll stale rcc x))"

definition stm32h563_eth_get_mac :: "stm32h563_eth \<Rightarrow> u8 list"
  where "stm32h563_eth_get_mac e = et_mac e"

text \<open>The registration, given the handlers on the state behind the bus.\<close>

definition stm32h563_eth_register_mmio ::
  "(mm_sec_state \<Rightarrow> u32 \<Rightarrow> u32 \<Rightarrow> 'b \<Rightarrow> u32 option \<times> 'b) \<Rightarrow> (mm_sec_state \<Rightarrow> u32 \<Rightarrow> u32 \<Rightarrow> u32 \<Rightarrow> 'b \<Rightarrow> bool \<times> 'b) \<Rightarrow>
   'b mmio_bus \<Rightarrow> bool \<times> 'b mmio_bus"
  where "stm32h563_eth_register_mmio rd wr bus =
    register_seq (map (\<lambda>base. \<lparr>mr_base = base, mr_size = ETH_SIZE, mr_read = Some rd, mr_write = Some wr\<rparr>) [0x40028000, 0x50028000]) bus"

subsection \<open>Bytes of a buffer\<close>

text \<open>Byte \<^verbatim>\<open>j\<close> of a buffer that starts at \<^verbatim>\<open>d0\<close>, and the address of the word that holds it.\<close>

definition buf_addr :: "u32 \<Rightarrow> nat \<Rightarrow> u32"
  where "buf_addr d0 j = d0 + (of_nat j AND NOT 3)"

definition buf_lane :: "nat \<Rightarrow> nat"
  where "buf_lane j = unat ((of_nat j AND 3 :: u32) * 8)"

definition frame_byte :: "(u32 \<Rightarrow> u32) \<Rightarrow> u32 \<Rightarrow> nat \<Rightarrow> u8"
  where "frame_byte rd d0 j = to_u8 (drop_bit (buf_lane j) (rd (buf_addr d0 j)) AND 0xFF)"

definition frame_bytes :: "(u32 \<Rightarrow> u32) \<Rightarrow> u32 \<Rightarrow> nat \<Rightarrow> u8 list"
  where "frame_bytes rd d0 k = map (frame_byte rd d0) [0..<k]"

lemma and_three: "unat (x AND 3) = unat x mod 4" "x AND NOT 3 = x - (x AND 3)" for x :: u32
proof -
  have "(3 :: u32) = mask 2" by (simp add: mask_eq_exp_minus_1)
  then have t: "x AND 3 = take_bit 2 x" by (simp only: take_bit_eq_mask)
  show "unat (x AND 3) = unat x mod 4" by (simp only: t unsigned_take_bit_eq) (simp add: take_bit_eq_mod)
  have "NOT x AND (x AND 3) = 0" by (simp add: and.assoc [symmetric])
  then have "x - (x AND 3) = x AND NOT (x AND 3)" by (rule disjunctive_diff_eq_and_not)
  also have "\<dots> = x AND NOT 3" by (rule bit_word_eqI) (auto simp: bit_and_iff bit_not_iff bit_or_iff)
  finally show "x AND NOT 3 = x - (x AND 3)" ..
qed

lemma buf_lane_mod: "j < 2 ^ 32 \<Longrightarrow> buf_lane j = 8 * (j mod 4)"
  by (simp add: buf_lane_def unat_word_ariths and_three unat_of_nat)

lemma buf_addr_div:
  assumes "j < 2 ^ 32"
  shows "buf_addr d0 j = d0 + of_nat (4 * (j div 4))"
proof -
  have "unat (of_nat j AND 3 :: u32) = j mod 4" using assms by (simp add: and_three unat_of_nat)
  moreover have "(of_nat j AND 3 :: u32) = of_nat (unat (of_nat j AND 3 :: u32))" by simp
  ultimately have "(of_nat j AND 3 :: u32) = of_nat (j mod 4)" by (simp only:)
  then have "(of_nat j AND NOT 3 :: u32) = of_nat j - of_nat (j mod 4)" by (simp only: and_three(2))
  also have "\<dots> = of_nat (4 * (j div 4))" by (simp add: of_nat_diff [symmetric] minus_mod_eq_mult_div)
  finally show ?thesis by (simp add: buf_addr_def)
qed

lemma lane_put:
  fixes w :: u32 and v :: u8
  assumes "a < 4" "b < 4"
  shows "to_u8 (drop_bit (8 * b) ((w AND NOT (push_bit (8 * a) 0xFF)) OR push_bit (8 * a) (to_u32 v)) AND 0xFF) =
    (if a = b then v else to_u8 (drop_bit (8 * b) w AND 0xFF))"
proof (rule bit_word_eqI)
  fix n :: nat
  assume "n < LENGTH(8)"
  then have n: "n < 8" by simp
  have ff: "bit (0xFF :: u32) m \<longleftrightarrow> m < 8" for m by (simp add: bit_numeral_word_iff bits) auto
  have lt: "8 * b + n < 32" using assms(2) n by simp
  have eq: "8 * a \<le> 8 * b + n \<and> 8 * b + n - 8 * a < 8 \<longleftrightarrow> a = b" using n by presburger
  then have put: "bit (push_bit (8 * a) (0xFF :: u32)) (8 * b + n) \<longleftrightarrow> a = b"
    using lt by (simp only: bit_simps ff) auto
  have new: "bit (push_bit (8 * a) (to_u32 v)) (8 * b + n) \<longleftrightarrow> a = b \<and> bit v n"
  proof (cases "a = b")
    case True
    then show ?thesis using lt n by (simp add: bit_simps to_u32_def)
  next
    case False
    have "\<not> bit v (8 * b + n - 8 * a)" if "8 * a \<le> 8 * b + n"
      using eq False that bit_imp_le_length [of v] by fastforce
    then show ?thesis using False by (auto simp: bit_simps to_u32_def)
  qed
  show "bit (to_u8 (drop_bit (8 * b) ((w AND NOT (push_bit (8 * a) 0xFF)) OR push_bit (8 * a) (to_u32 v)) AND 0xFF)) n =
    bit (if a = b then v else to_u8 (drop_bit (8 * b) w AND 0xFF)) n"
    using n lt by (simp add: to_u8_def bit_unsigned_iff bit_and_iff bit_or_iff bit_drop_bit_eq bit_not_iff put new ff del: bit_numeral_word_iff)
qed

lemma lane_same_word:
  fixes w :: u32 and v :: u8
  assumes "i < 2 ^ 32" "j < 2 ^ 32" "i div 4 = j div 4"
  shows "to_u8 (drop_bit (buf_lane j) ((w AND NOT (push_bit (buf_lane i) 0xFF)) OR push_bit (buf_lane i) (to_u32 v)) AND 0xFF) =
    (if i = j then v else to_u8 (drop_bit (buf_lane j) w AND 0xFF))"
proof -
  have "i = j \<longleftrightarrow> i mod 4 = j mod 4" using assms(3) div_mult_mod_eq [of i 4] div_mult_mod_eq [of j 4] by metis
  then show ?thesis using lane_put [of "i mod 4" "j mod 4" w v] assms by (simp add: buf_lane_mod)
qed

lemma buf_addr_apart:
  assumes "i < k" "j < k" "unat d0 + k + 4 \<le> 2 ^ 32" "i div 4 \<noteq> j div 4"
  shows "words_apart (buf_addr d0 i) (buf_addr d0 j)"
proof -
  have u: "unat (buf_addr d0 x) = unat d0 + 4 * (x div 4)" if "x < k" for x
  proof -
    have "4 * (x div 4) \<le> x" by simp
    then show ?thesis using that assms(3) by (simp add: buf_addr_div unat_word_ariths unat_of_nat)
  qed
  have "4 * (i div 4) + 4 \<le> 4 * (j div 4) \<or> 4 * (j div 4) + 4 \<le> 4 * (i div 4)" using assms(4) by auto
  then show ?thesis by (auto simp: words_apart_def u assms(1,2))
qed

context word_store
begin

lemma tx_bytes_frame:
  assumes "\<And>i. j \<le> i \<Longrightarrow> i < j + k \<Longrightarrow> ok m (buf_addr d0 i)"
  shows "\<exists>d1'. tx_bytes rd d0 d1 k (of_nat j) m = (map (frame_byte (word m) d0) [j..<j + k], d1', m)"
  using assms
proof (induction k arbitrary: j d1)
  case (Suc k)
  have "rd m (d0 + (of_nat j AND NOT 3)) = (Some (word m (buf_addr d0 j)), m)"
    using rd_ok [OF Suc.prems [of j]] by (simp add: buf_addr_def)
  moreover obtain d1' where "tx_bytes rd d0 (word m (buf_addr d0 j)) k (of_nat (Suc j)) m =
      (map (frame_byte (word m) d0) [Suc j..<Suc j + k], d1', m)"
    using Suc.IH [of "Suc j"] Suc.prems by fastforce
  ultimately show ?case
    by (simp add: upt_conv_Cons frame_byte_def buf_lane_def add.commute del: upt_Suc)
qed simp

text \<open>Reading the buffer of a frame overwrites the second word of its descriptor, which is then written
  back: a firmware that keeps the address of a second buffer there finds data instead.\<close>

lemma tx_bytes_second_word:
  assumes "\<And>i. j \<le> i \<Longrightarrow> i \<le> j + k \<Longrightarrow> ok m (buf_addr d0 i)"
  shows "fst (snd (tx_bytes rd d0 d1 (Suc k) (of_nat j) m)) = word m (buf_addr d0 (j + k))"
  using assms
proof (induction k arbitrary: j d1)
  case 0
  then show ?case using rd_ok [of m "buf_addr d0 j"] by (simp add: buf_addr_def)
next
  case (Suc k)
  have "rd m (d0 + (of_nat j AND NOT 3)) = (Some (word m (buf_addr d0 j)), m)"
    using rd_ok [OF Suc.prems [of j]] by (simp add: buf_addr_def)
  moreover have "fst (snd (tx_bytes rd d0 (word m (buf_addr d0 j)) (Suc k) (of_nat (Suc j)) m)) = word m (buf_addr d0 (Suc j + k))"
    using Suc.prems by (intro Suc.IH) auto
  ultimately show ?case
    unfolding tx_bytes.simps(2) [of _ _ _ "Suc k"] by (simp add: case_prod_beta add.commute del: tx_bytes.simps)
qed

text \<open>Writing received bytes changes these bytes only, among all bytes of the buffer and all words apart from it.\<close>

lemma rx_bytes_frame:
  assumes "i + length bs \<le> k" "unat d0 + k + 4 \<le> 2 ^ 32" "\<And>j. j < k \<Longrightarrow> ok m (buf_addr d0 j)"
  shows "\<exists>m'. rx_bytes rd wr d0 (of_nat i) bs m = m' \<and> (\<forall>a. ok m a \<longrightarrow> ok m' a) \<and>
    (\<forall>j < k. frame_byte (word m') d0 j = (if i \<le> j \<and> j < i + length bs then bs ! (j - i) else frame_byte (word m) d0 j)) \<and>
    (\<forall>a. ok m a \<and> (\<forall>j < k. words_apart (buf_addr d0 j) a) \<longrightarrow> word m' a = word m a)"
  using assms
proof (induction bs arbitrary: i m)
  case (Cons b bs)
  let ?a = "buf_addr d0 i"
  have i: "i < k" using Cons.prems(1) by simp
  have oki: "ok m ?a" by (rule Cons.prems(3) [OF i])
  define w where "w = (word m ?a AND NOT (push_bit (buf_lane i) 0xFF)) OR push_bit (buf_lane i) (to_u32 b)"
  define m1 where "m1 = snd (wr m ?a w)"
  have one: "rx_bytes rd wr d0 (of_nat i) (b # bs) m = rx_bytes rd wr d0 (of_nat (Suc i)) bs m1"
    using rd_ok [OF oki] by (simp add: buf_addr_def buf_lane_def w_def m1_def add.commute Let_def)
  have ok1: "ok m1 a" if "ok m a" for a using wr_keeps_ok [OF oki that] by (simp add: m1_def)
  have other: "word m1 a = word m a" if "ok m a" "words_apart ?a a" for a using wr_other [OF oki that] by (simp add: m1_def)
  have byte: "frame_byte (word m1) d0 j = (if i = j then b else frame_byte (word m) d0 j)" if j: "j < k" for j
  proof (cases "i div 4 = j div 4")
    case True
    have lt: "i < 2 ^ 32" "j < 2 ^ 32" using i j Cons.prems(2) by simp_all
    then have a: "buf_addr d0 j = ?a" using True by (simp add: buf_addr_div)
    have "word m1 ?a = w" using wr_same [OF oki] by (simp add: m1_def)
    then show ?thesis using lane_same_word [OF lt True, of "word m ?a" b] by (simp add: frame_byte_def a w_def)
  next
    case False
    then have "word m1 (buf_addr d0 j) = word m (buf_addr d0 j)"
      using buf_addr_apart [OF i j Cons.prems(2)] Cons.prems(3) [OF j] by (intro other)
    then show ?thesis using False by (auto simp: frame_byte_def)
  qed
  obtain m' where m': "rx_bytes rd wr d0 (of_nat (Suc i)) bs m1 = m'" "\<And>a. ok m1 a \<Longrightarrow> ok m' a"
    "\<And>j. j < k \<Longrightarrow> frame_byte (word m') d0 j = (if Suc i \<le> j \<and> j < Suc i + length bs then bs ! (j - Suc i) else frame_byte (word m1) d0 j)"
    "\<And>a. ok m1 a \<Longrightarrow> (\<forall>j < k. words_apart (buf_addr d0 j) a) \<Longrightarrow> word m' a = word m1 a"
    using Cons.IH [of "Suc i" m1] Cons.prems ok1 by auto
  have "frame_byte (word m') d0 j =
      (if i \<le> j \<and> j < i + length (b # bs) then (b # bs) ! (j - i) else frame_byte (word m) d0 j)" if "j < k" for j
    using m'(3) [OF that] byte [OF that] by (auto simp: nth_Cons')
  then show ?case using one m'(1,2,4) ok1 other i by auto
qed auto

end

subsection \<open>The transmit ring\<close>

definition ring_word :: "u32 \<Rightarrow> nat \<Rightarrow> nat \<Rightarrow> u32"
  where "ring_word base i q = base + of_nat i * 16 + of_nat (4 * q)"

definition desc_at :: "(u32 \<Rightarrow> u32) \<Rightarrow> u32 \<Rightarrow> nat \<Rightarrow> eth_desc"
  where "desc_at g base i = \<lparr>des0 = g (ring_word base i 0), des1 = g (ring_word base i 1), des2 = g (ring_word base i 2),
    des3 = g (ring_word base i 3)\<rparr>"

definition desc_owned :: "eth_desc \<Rightarrow> bool"
  where "desc_owned d = (des3 d AND push_bit 31 1 \<noteq> 0)"

definition tx_len :: "eth_desc \<Rightarrow> nat"
  where "tx_len d = min (unat (des2 d AND 0x3FFF)) 1600"

definition tx_frame :: "(u32 \<Rightarrow> u32) \<Rightarrow> u32 \<Rightarrow> nat \<Rightarrow> u8 list"
  where "tx_frame g base i = frame_bytes g (des0 (desc_at g base i)) (tx_len (desc_at g base i))"

text \<open>The words of the ring are good memory, and the buffers of its descriptors are and do not overlap it.\<close>

definition ring_ok :: "('m \<Rightarrow> u32 \<Rightarrow> bool) \<Rightarrow> 'm \<Rightarrow> u32 \<Rightarrow> nat \<Rightarrow> bool"
  where "ring_ok ok m base n = (unat base + 16 * n \<le> 2 ^ 32 \<and> (\<forall>i < n. \<forall>q < 4. ok m (ring_word base i q)))"

definition bufs_ok :: "('m \<Rightarrow> u32 \<Rightarrow> bool) \<Rightarrow> ('m \<Rightarrow> u32 \<Rightarrow> u32) \<Rightarrow> 'm \<Rightarrow> u32 \<Rightarrow> nat \<Rightarrow> bool"
  where "bufs_ok ok word m base n = (\<forall>i < n. \<forall>j < tx_len (desc_at (word m) base i).
    ok m (buf_addr (des0 (desc_at (word m) base i)) j) \<and>
    (\<forall>s < n. \<forall>q < 4. words_apart (ring_word base s q) (buf_addr (des0 (desc_at (word m) base i)) j)))"

lemma ring_word_unat:
  assumes "unat base + 16 * n \<le> 2 ^ 32" "i < n" "q < 4"
  shows "unat (ring_word base i q) = unat base + 16 * i + 4 * q"
proof -
  have "unat (of_nat i * 16 + of_nat (4 * q) :: u32) = 16 * i + 4 * q"
  proof -
    have e: "of_nat i * 16 + of_nat (4 * q) = (of_nat (16 * i + 4 * q) :: u32)" by simp
    have "16 * i + 4 * q < 2 ^ 32" using assms by linarith
    then show ?thesis unfolding e by (simp add: unat_of_nat del: of_nat_add of_nat_mult)
  qed
  then show ?thesis unfolding ring_word_def add.assoc using assms by (simp add: unat_word_ariths)
qed

lemma ring_words_apart:
  assumes "unat base + 16 * n \<le> 2 ^ 32" "i < n" "j < n" "q < 4" "p < 4" "i \<noteq> j"
  shows "words_apart (ring_word base i q) (ring_word base j p)"
proof -
  have "16 * i + 16 \<le> 16 * j \<or> 16 * j + 16 \<le> 16 * i" using assms(6) by linarith
  then show ?thesis using assms(4,5) by (auto simp: words_apart_def ring_word_unat [OF assms(1)] assms(2,3))
qed

lemma mod_step: "t < n \<Longrightarrow> 0 < d \<Longrightarrow> d < n \<Longrightarrow> (t + d) mod n \<noteq> t" for t :: nat
  by (cases "t + d < n") (auto simp: mod_if)

lemma less_4: "(q :: nat) < 4 \<longleftrightarrow> q = 0 \<or> q = 1 \<or> q = 2 \<or> q = 3"
  by auto

lemma idx_step:
  assumes "t < n" "n \<le> 1024"
  shows "(of_nat t + 1 :: u32) mod of_nat n = of_nat ((t + 1) mod n)"
proof -
  have "unat (of_nat t + 1 :: u32) = t + 1" using assms by (simp add: unat_word_ariths unat_of_nat)
  moreover have "(t + 1) mod n < n" "n < 2 ^ 32" using assms by simp_all
  then have "(t + 1) mod n < 2 ^ 32" by (rule less_trans)
  ultimately have "unat ((of_nat t + 1 :: u32) mod of_nat n) = unat (of_nat ((t + 1) mod n) :: u32)"
    using assms by (simp add: unat_mod_distrib unat_of_nat)
  then show ?thesis by (simp only: word_unat_eq_iff)
qed

context word_store
begin

lemma store_other:
  "(\<And>i. i < length ws \<Longrightarrow> ok m (a + of_nat (4 * i)) \<and> words_apart (a + of_nat (4 * i)) b) \<Longrightarrow> ok m b \<Longrightarrow>
   word (snd (store_words wr m a ws)) b = word m b"
proof (induction ws arbitrary: m a)
  case (Cons w ws)
  have a: "ok m a" "words_apart a b" using Cons.prems(1) [of 0] by simp_all
  obtain m1 where m1: "wr m a w = (True, m1)" using wr_ok [OF a(1), of w] by (cases "wr m a w") auto
  have "ok m1 (a + 4 + of_nat (4 * i)) \<and> words_apart (a + 4 + of_nat (4 * i)) b" if "i < length ws" for i
    using Cons.prems(1) [of "Suc i"] that wr_keeps_ok [OF a(1), of "a + 4 + of_nat (4 * i)" w] m1 by (simp add: algebra_simps)
  moreover have "ok m1 b" "word m1 b = word m b"
    using wr_keeps_ok [OF a(1) Cons.prems(2), of w] wr_other [OF a(1) Cons.prems(2) a(2), of w] m1 by simp_all
  ultimately show ?case using Cons.IH [of m1 "a + 4"] m1 by simp
qed simp

lemma read_desc:
  assumes "ring_ok ok m base n" "t < n"
  shows "eth_dma_read_desc rd (base + of_nat t * 16) m = (Some (desc_at (word m) base t), m)"
proof -
  have "pop_words rd m (base + of_nat t * 16) (length (map (\<lambda>q. word m (ring_word base t q)) [0..<4])) =
      (Some (map (\<lambda>q. word m (ring_word base t q)) [0..<4]), m)"
    by (rule pop_state) (use assms in \<open>simp add: ring_ok_def ring_word_def\<close>)
  then show ?thesis by (simp add: eth_dma_read_desc_def desc_at_def numeral_2_eq_2)
qed

lemma write_desc:
  assumes "ring_ok ok m base n" "t < n"
  shows "\<exists>m'. eth_dma_write_desc wr (base + of_nat t * 16) d m = (True, m') \<and> (\<forall>a. ok m a \<longrightarrow> ok m' a) \<and>
    desc_at (word m') base t = d \<and> (\<forall>a. ok m a \<and> (\<forall>q < 4. words_apart (ring_word base t q) a) \<longrightarrow> word m' a = word m a)"
proof -
  let ?ws = "[des0 d, des1 d, des2 d, des3 d]" and ?a = "base + of_nat t * 16"
  have w: "?a + of_nat (4 * q) = ring_word base t q" for q by (simp add: ring_word_def)
  have "unat ?a + 4 * length ?ws \<le> 2 ^ 32"
    using ring_word_unat [of base n t 0] assms by (simp add: ring_ok_def ring_word_def)
  moreover have "ok m (?a + of_nat (4 * i))" if "i < length ?ws" for i using assms that unfolding w by (simp add: ring_ok_def)
  ultimately obtain m' where m': "store_words wr m ?a ?ws = (True, m')" "\<And>b. ok m b \<Longrightarrow> ok m' b"
    "\<And>i. i < length ?ws \<Longrightarrow> word m' (?a + of_nat (4 * i)) = ?ws ! i"
    using store_state [of ?a ?ws m] by blast
  have "desc_at (word m') base t = d"
    using m'(3) [of 0] m'(3) [of 1] m'(3) [of 2] m'(3) [of 3] unfolding w by (cases d) (simp add: desc_at_def)
  moreover have "word m' b = word m b" if "ok m b" "\<forall>q < 4. words_apart (ring_word base t q) b" for b
  proof -
    have "ok m (?a + of_nat (4 * i)) \<and> words_apart (?a + of_nat (4 * i)) b" if "i < length ?ws" for i
      using that assms \<open>\<forall>q < 4. words_apart (ring_word base t q) b\<close> unfolding w by (simp add: ring_ok_def)
    from store_other [of ?ws m ?a b, OF this] \<open>ok m b\<close> m'(1) show ?thesis by simp
  qed
  ultimately show ?thesis using m'(1,2) by (auto simp: eth_dma_write_desc_def)
qed

lemma tx_one:
  assumes "ring_ok ok m base n" "bufs_ok ok word m base n" "t < n" "n \<le> 1024" "et_tx_idx e = of_nat t" "desc_owned (desc_at (word m) base t)"
  shows "\<exists>m' e'. eth_tx_one rd wr stale base (of_nat n) (m, e, l) =
      (True, m', e', snd (mm_eth_backend_send (tx_frame (word m) base t) l)) \<and>
    et_tx_idx e' = of_nat ((t + 1) mod n) \<and> bit (et_regs e' DMACSR) 0 \<and>
    ring_ok ok m' base n \<and> bufs_ok ok word m' base n \<and> \<not> desc_owned (desc_at (word m') base t) \<and>
    (\<forall>s < n. s \<noteq> t \<longrightarrow> desc_at (word m') base s = desc_at (word m) base s \<and> tx_frame (word m') base s = tx_frame (word m) base s)"
proof -
  let ?d = "desc_at (word m) base t"
  have r: "eth_dma_read_desc rd (base + of_nat t * 16) m = (Some ?d, m)" by (rule read_desc [OF assms(1,3)])
  have "\<exists>d1. tx_bytes rd (des0 ?d) (des1 ?d) (tx_len ?d) (of_nat 0) m = (map (frame_byte (word m) (des0 ?d)) [0..<0 + tx_len ?d], d1, m)"
    using assms(2,3) by (intro tx_bytes_frame) (auto simp: bufs_ok_def)
  then obtain d1 where b: "tx_bytes rd (des0 ?d) (des1 ?d) (tx_len ?d) 0 m = (tx_frame (word m) base t, d1, m)"
    by (auto simp: tx_frame_def frame_bytes_def)
  obtain m' where m': "eth_dma_write_desc wr (base + of_nat t * 16) (?d\<lparr>des1 := d1, des3 := des3 ?d AND NOT (push_bit 31 1)\<rparr>) m = (True, m')"
    "\<And>a. ok m a \<Longrightarrow> ok m' a" "desc_at (word m') base t = ?d\<lparr>des1 := d1, des3 := des3 ?d AND NOT (push_bit 31 1)\<rparr>"
    "\<And>a. ok m a \<Longrightarrow> (\<forall>q < 4. words_apart (ring_word base t q) a) \<Longrightarrow> word m' a = word m a"
    using write_desc [OF assms(1,3)] by blast
  have len: "length (tx_frame (word m) base t) = tx_len ?d" by (simp add: tx_frame_def frame_bytes_def)
  have other: "desc_at (word m') base s = desc_at (word m) base s" if "s < n" "s \<noteq> t" for s
    using assms(1) that ring_words_apart [of base n t s] assms(3) by (auto simp: ring_ok_def desc_at_def intro!: m'(4))
  have keep: "des0 (desc_at (word m') base s) = des0 (desc_at (word m) base s)" "tx_len (desc_at (word m') base s) = tx_len (desc_at (word m) base s)"
    if "s < n" for s
    using other [OF that] m'(3) by (cases "s = t"; simp add: tx_len_def)+
  have buf: "frame_byte (word m') (des0 (desc_at (word m) base s)) j = frame_byte (word m) (des0 (desc_at (word m) base s)) j"
    if "s < n" "j < tx_len (desc_at (word m) base s)" for s j
    using that assms(2,3) by (auto simp: bufs_ok_def frame_byte_def intro!: arg_cong [where f = "\<lambda>w. to_u8 (drop_bit _ w AND 0xFF)"] m'(4))
  have "tx_frame (word m') base s = tx_frame (word m) base s" if "s < n" for s
    using keep [OF that] buf [OF that] by (simp add: tx_frame_def frame_bytes_def)
  moreover have "ring_ok ok m' base n" "bufs_ok ok word m' base n"
    using assms(1,2) m'(2) keep by (auto simp: ring_ok_def bufs_ok_def)
  moreover have "\<not> desc_owned (desc_at (word m') base t)" by (simp add: m'(3) desc_owned_def and.assoc)
  moreover have "eth_tx_one rd wr stale base (of_nat n) (m, e, l) = (True, m',
      (eth_update_irq (set_eth DMACSR (et_regs e DMACSR OR 1) e))\<lparr>et_tx_idx := of_nat ((t + 1) mod n)\<rparr>,
      snd (mm_eth_backend_send (tx_frame (word m) base t) l))"
    using assms(6) r b m'(1) len idx_step [OF assms(3,4)] unfolding eth_tx_one_def desc_owned_def assms(5)
    by (simp add: Let_def case_prod_beta assms(5) tx_len_def [symmetric])
  moreover have "bit (et_regs (eth_update_irq (set_eth DMACSR (et_regs e DMACSR OR 1) e)) DMACSR) 0"
    by (simp add: eth_update_irq_def eth_raise_irq_def set_eth_def bit_or_iff Let_def)
  ultimately show ?thesis using other by auto
qed

text \<open>A run over \<^verbatim>\<open>k\<close> descriptors of the software that stops at the first that is not owned, or after a round.\<close>

lemma tx_loop:
  assumes "ring_ok ok m base n" "bufs_ok ok word m base n" "t < n" "n \<le> 1024" "et_tx_idx e = of_nat t"
    "\<And>i. i < k \<Longrightarrow> desc_owned (desc_at (word m) base ((t + i) mod n))" "k \<le> n" "k \<le> f"
    "f = k \<or> k < n \<and> \<not> desc_owned (desc_at (word m) base ((t + k) mod n))"
  shows "\<exists>m' e'. eth_tx_loop rd wr stale base (of_nat n) f (m, e, l) =
      (m', e', fold (\<lambda>i l. snd (mm_eth_backend_send (tx_frame (word m) base ((t + i) mod n)) l)) [0..<k] l) \<and>
    et_tx_idx e' = of_nat ((t + k) mod n) \<and> (0 < k \<or> bit (et_regs e DMACSR) 0 \<longrightarrow> bit (et_regs e' DMACSR) 0) \<and>
    (\<forall>i < k. \<not> desc_owned (desc_at (word m') base ((t + i) mod n))) \<and>
    (\<forall>s < n. (\<forall>i < k. s \<noteq> (t + i) mod n) \<longrightarrow> desc_at (word m') base s = desc_at (word m) base s)"
  using assms(1-3,5-)
proof (induction k arbitrary: m e l t f)
  case 0
  show ?case
  proof (cases f)
    case (Suc g)
    then have "\<not> desc_owned (desc_at (word m) base t)" using 0 by simp
    then have "eth_tx_one rd wr stale base (of_nat n) (m, e, l) = (False, m, e, l)"
      using read_desc [OF 0(1,3)] unfolding eth_tx_one_def 0(4) desc_owned_def by (simp add: 0(4) Let_def)
    then show ?thesis using 0(3,4) Suc by simp
  qed (use 0(3,4) in simp)
next
  case (Suc k)
  obtain g where f: "f = Suc g" using Suc.prems(7) by (cases f) auto
  have "desc_owned (desc_at (word m) base t)" using Suc.prems(3) Suc.prems(5) [of 0] by simp
  then obtain m1 e1 where 1: "eth_tx_one rd wr stale base (of_nat n) (m, e, l) =
      (True, m1, e1, snd (mm_eth_backend_send (tx_frame (word m) base t) l))"
    "et_tx_idx e1 = of_nat ((t + 1) mod n)" "bit (et_regs e1 DMACSR) 0" "ring_ok ok m1 base n" "bufs_ok ok word m1 base n"
    "\<not> desc_owned (desc_at (word m1) base t)"
    "\<And>s. s < n \<Longrightarrow> s \<noteq> t \<Longrightarrow> desc_at (word m1) base s = desc_at (word m) base s \<and> tx_frame (word m1) base s = tx_frame (word m) base s"
    using tx_one [OF Suc.prems(1-3) assms(4) Suc.prems(4)] by blast
  define t1 where "t1 = (t + 1) mod n"
  have t: "t1 < n" "(t1 + i) mod n = (t + Suc i) mod n" for i
    using Suc.prems(3) mod_less_divisor [of n "t + 1"] by (simp_all add: t1_def mod_add_left_eq)
  have ne: "(t + Suc i) mod n \<noteq> t" if "Suc i < n" for i using mod_step [OF Suc.prems(3) _ that] by simp
  have lt: "x mod n < n" for x using Suc.prems(3) by simp
  have "desc_owned (desc_at (word m1) base ((t1 + i) mod n))" if "i < k" for i
    using Suc.prems(5) [of "Suc i"] 1(7) [OF lt ne [of i]] that Suc.prems(6) by (simp add: t(2))
  moreover have "g = k \<or> k < n \<and> \<not> desc_owned (desc_at (word m1) base ((t1 + k) mod n))"
    using Suc.prems(8) f 1(7) [OF lt ne [of k]] by (auto simp: t(2))
  moreover have "k \<le> n" "k \<le> g" using Suc.prems(6,7) f by simp_all
  ultimately obtain m' e' where 2: "eth_tx_loop rd wr stale base (of_nat n) g (m1, e1, snd (mm_eth_backend_send (tx_frame (word m) base t) l)) =
      (m', e', fold (\<lambda>i l. snd (mm_eth_backend_send (tx_frame (word m1) base ((t1 + i) mod n)) l)) [0..<k]
        (snd (mm_eth_backend_send (tx_frame (word m) base t) l)))"
    "et_tx_idx e' = of_nat ((t1 + k) mod n)" "bit (et_regs e' DMACSR) 0"
    "\<And>i. i < k \<Longrightarrow> \<not> desc_owned (desc_at (word m') base ((t1 + i) mod n))"
    "\<And>s. s < n \<Longrightarrow> (\<forall>i < k. s \<noteq> (t1 + i) mod n) \<Longrightarrow> desc_at (word m') base s = desc_at (word m1) base s"
    using 1(3) Suc.IH [where f = g and l = "snd (mm_eth_backend_send (tx_frame (word m) base t) l)", OF 1(4,5) t(1) 1(2) [folded t1_def]] by blast
  have fr: "tx_frame (word m1) base ((t1 + i) mod n) = tx_frame (word m) base ((t + Suc i) mod n)" if "i < k" for i
    using 1(7) [OF lt ne [of i]] that Suc.prems(6) by (simp add: t(2))
  have fold_eq: "fold (\<lambda>i l. snd (mm_eth_backend_send (tx_frame (word m1) base ((t1 + i) mod n)) l)) [0..<k]
        (snd (mm_eth_backend_send (tx_frame (word m) base t) l)) =
      fold (\<lambda>i l. snd (mm_eth_backend_send (tx_frame (word m) base ((t + i) mod n)) l)) [0..<Suc k] l"
  proof -
    have "[0..<Suc k] = 0 # map Suc [0..<k]" by (simp add: map_Suc_upt upt_conv_Cons del: upt_Suc)
    moreover have "fold (\<lambda>i l. snd (mm_eth_backend_send (tx_frame (word m1) base ((t1 + i) mod n)) l)) [0..<k] x =
      fold (\<lambda>i l. snd (mm_eth_backend_send (tx_frame (word m) base ((t + Suc i) mod n)) l)) [0..<k] x" for x
      by (rule fold_cong) (simp_all add: fr)
    ultimately show ?thesis using Suc.prems(3) by (simp add: fold_map comp_def del: upt_Suc)
  qed
  have nk: "t \<noteq> (t1 + i) mod n" if "i < k" for i using ne [of i] that Suc.prems(6) by (simp add: t(2))
  have "\<not> desc_owned (desc_at (word m') base ((t + i) mod n))" if "i < Suc k" for i
  proof (cases i)
    case 0
    then show ?thesis using 2(5) [OF Suc.prems(3)] nk 1(6) Suc.prems(3) by simp
  next
    case (Suc j)
    then show ?thesis using 2(4) [of j] that by (simp add: t(2))
  qed
  moreover have "desc_at (word m') base s = desc_at (word m) base s" if "s < n" "\<forall>i < Suc k. s \<noteq> (t + i) mod n" for s
  proof -
    have "s \<noteq> t" using that(2) Suc.prems(3) by (metis add.right_neutral mod_less zero_less_Suc)
    moreover have "\<forall>i < k. s \<noteq> (t1 + i) mod n" using that(2) unfolding t(2) by auto
    ultimately show ?thesis using 2(5) [OF that(1)] 1(7) [OF that(1)] by simp
  qed
  ultimately show ?case using 2(1,2,3) 1(1) fold_eq f by (auto simp: t(2))
qed

end

subsection \<open>Reception into a ring\<close>

lemma eth_idx_keeps: "et_rx_idx (eth_update_irq (set_eth i v e)) = et_rx_idx e"
  by (simp add: eth_update_irq_def eth_raise_irq_def set_eth_def Let_def)

context word_store
begin

text \<open>A frame that arrives is stored in the buffer of the descriptor, which goes back to the software.\<close>

lemma rx_frame:
  assumes "ring_ok ok m rb n" "t < n" "n \<le> 1024" "et_rx_idx e = of_nat t" "rb = et_regs e DMACRXDLAR"
    "of_nat n = eth_desc_count (et_regs e DMACRXRLR)" "d = desc_at (word m) rb t" "desc_owned d"
    "L = unat (eth_rx_buf_len e d)" "0 < L" "k = min (length frame) L" "k < 0x4000" "unat (des0 d) + k + 4 \<le> 2 ^ 32"
    "\<And>j. j < k \<Longrightarrow> ok m (buf_addr (des0 d) j)"
    "\<And>j s q. j < k \<Longrightarrow> s < n \<Longrightarrow> q < 4 \<Longrightarrow> words_apart (buf_addr (des0 d) j) (ring_word rb s q)"
    "\<And>j s q. j < k \<Longrightarrow> s < n \<Longrightarrow> q < 4 \<Longrightarrow> words_apart (ring_word rb s q) (buf_addr (des0 d) j)"
  shows "\<exists>m' e'. eth_rx_frame rd wr frame (m, e) = (m', e') \<and> frame_bytes (word m') (des0 d) k = take k frame \<and>
    et_rx_idx e' = of_nat ((t + 1) mod n) \<and> bit (et_regs e' DMACSR) 6 \<and>
    \<not> desc_owned (desc_at (word m') rb t) \<and> unat (des3 (desc_at (word m') rb t) AND 0x3FFF) = k \<and>
    (\<forall>s < n. s \<noteq> t \<longrightarrow> desc_at (word m') rb s = desc_at (word m) rb s)"
proof -
  have r: "eth_dma_read_desc rd (rb + of_nat t * 16) m = (Some d, m)" unfolding assms(7) by (rule read_desc [OF assms(1,2)])
  have tk: "take (unat (eth_rx_buf_len e d)) frame = take k frame" using assms(9,11) by (simp add: min_def)
  obtain m1 where m1: "rx_bytes rd wr (des0 d) (of_nat 0) (take k frame) m = m1" "\<And>a. ok m a \<Longrightarrow> ok m1 a"
    "\<And>j. j < k \<Longrightarrow> frame_byte (word m1) (des0 d) j = (if 0 \<le> j \<and> j < 0 + length (take k frame) then take k frame ! (j - 0) else frame_byte (word m) (des0 d) j)"
    "\<And>a. ok m a \<Longrightarrow> (\<forall>j < k. words_apart (buf_addr (des0 d) j) a) \<Longrightarrow> word m1 a = word m a"
    using rx_bytes_frame [of 0 "take k frame" k "des0 d" m] assms(13,14) by auto
  have len: "length (take k frame) = k" using assms(11) by simp
  have ring1: "ring_ok ok m1 rb n" using assms(1) m1(2) by (simp add: ring_ok_def)
  have d1: "desc_at (word m1) rb s = desc_at (word m) rb s" if "s < n" for s
    using that assms(1,15) by (auto simp: desc_at_def ring_ok_def intro!: m1(4))
  define d3 where "d3 = (des3 d AND push_bit 24 1) OR push_bit 29 1 OR push_bit 28 1 OR (of_nat k AND 0x3FFF)"
  obtain m2 where m2: "eth_dma_write_desc wr (rb + of_nat t * 16) (d\<lparr>des3 := d3\<rparr>) m1 = (True, m2)"
    "desc_at (word m2) rb t = d\<lparr>des3 := d3\<rparr>"
    "\<And>a. ok m1 a \<Longrightarrow> (\<forall>q < 4. words_apart (ring_word rb t q) a) \<Longrightarrow> word m2 a = word m1 a"
    using write_desc [OF ring1 assms(2)] by blast
  have "desc_at (word m2) rb s = desc_at (word m) rb s" if "s < n" "s \<noteq> t" for s
  proof -
    have "word m2 (ring_word rb s q) = word m1 (ring_word rb s q)" if "q < 4" for q
      using ring1 that \<open>s < n\<close> \<open>s \<noteq> t\<close> ring_words_apart [of rb n t s] assms(2) by (auto simp: ring_ok_def intro!: m2(3))
    then show ?thesis using d1 [OF that(1)] by (simp add: desc_at_def)
  qed
  moreover have "frame_bytes (word m2) (des0 d) k = take k frame"
  proof (rule nth_equalityI)
    fix j assume "j < length (frame_bytes (word m2) (des0 d) k)"
    then have j: "j < k" by (simp add: frame_bytes_def)
    have "word m2 (buf_addr (des0 d) j) = word m1 (buf_addr (des0 d) j)" using m1(2) assms(2,14,16) j by (intro m2(3)) auto
    then show "frame_bytes (word m2) (des0 d) k ! j = take k frame ! j"
      using m1(3) [OF j] j assms(11) by (simp add: frame_bytes_def frame_byte_def)
  qed (simp add: frame_bytes_def assms(11))
  moreover have "unat (d3 AND 0x3FFF) = k"
  proof -
    have m14: "(0x3FFF :: u32) = mask 14" by (simp add: mask_eq_exp_minus_1)
    have "d3 AND 0x3FFF = of_nat k AND 0x3FFF"
      unfolding d3_def m14 by (rule bit_word_eqI, unfold bit_and_iff bit_or_iff bit_push_bit_iff bit_1_iff bit_mask_iff) auto
    also have "\<dots> = of_nat k" unfolding m14 using assms(12)
      by (simp add: take_bit_eq_mask [symmetric] of_nat_take_bit [symmetric] take_bit_nat_eq_self del: of_nat_take_bit)
    finally show ?thesis using assms(12) by (simp add: unat_of_nat)
  qed
  moreover have "\<not> desc_owned (d\<lparr>des3 := d3\<rparr>)"
    unfolding desc_owned_def and_bit_nonzero d3_def using assms(12)
    by (simp add: bit_or_iff bit_and_iff bit_push_bit_iff bit_1_iff)
  moreover have "eth_rx_frame rd wr frame (m, e) =
      (m2, (eth_update_irq (set_eth DMACSR (et_regs e DMACSR OR push_bit 6 1) e))\<lparr>et_rx_idx := of_nat ((t + 1) mod n)\<rparr>)"
  proof -
    have addr: "et_regs e DMACRXDLAR + et_rx_idx e * 16 = rb + of_nat t * 16" by (simp only: assms(4) assms(5) [symmetric])
    have l: "eth_rx_buf_len e d \<noteq> 0" using assms(9,10) by auto
    have own: "des3 d AND push_bit 31 1 \<noteq> 0" using assms(8) unfolding desc_owned_def .
    have rx: "rx_bytes rd wr (des0 d) 0 (take k frame) m = m1" using m1(1) by simp
    have nx: "(et_rx_idx (eth_update_irq (set_eth DMACSR (et_regs e DMACSR OR push_bit 6 1) e)) + 1) mod of_nat n = of_nat ((t + 1) mod n)"
      using idx_step [OF assms(2,3)] by (simp only: eth_idx_keeps assms(4))
    show ?thesis
      unfolding eth_rx_frame_def Let_def prod.case addr r option.case if_not_P [OF own] if_not_P [OF l] tk rx len
        assms(6) [symmetric] nx d3_def [symmetric] m2(1) snd_conv ..
  qed
  moreover have "bit (et_regs (eth_update_irq (set_eth DMACSR (et_regs e DMACSR OR push_bit 6 1) e)) DMACSR) 6"
    by (simp add: eth_update_irq_def eth_raise_irq_def set_eth_def bit_or_iff bit_push_bit_iff Let_def)
  ultimately show ?thesis using m2(2) by auto
qed

end

subsection \<open>RAM as the memory of the DMA\<close>

text \<open>A word of RAM that Non-secure accesses reach.\<close>

definition eth_ok :: "u32 \<Rightarrow> 'e mm_memmap option \<Rightarrow> u32 \<Rightarrow> bool"
  where "eth_ok base g a = (case g of None \<Rightarrow> False | Some m \<Rightarrow> ram_word MM_NONSECURE base m a)"

definition eth_word :: "u32 \<Rightarrow> 'e mm_memmap option \<Rightarrow> u32 \<Rightarrow> u32"
  where "eth_word base g a = ram_contents base (the g) a"

interpretation eth: word_store "eth_ok base" eth_dma_read32 eth_dma_write32 "eth_word base" for base
proof
  fix g :: "'e mm_memmap option" and a c :: u32 and v :: u32
  assume a: "eth_ok base g a"
  then obtain m where m: "g = Some m" "ram_word MM_NONSECURE base m a" by (auto simp: eth_ok_def split: option.splits)
  show "eth_dma_read32 g a = (Some (eth_word base g a), g)"
    using ram.rd_ok [OF m(2)] by (simp add: m(1) eth_dma_read32_def eth_word_def rd32_def)
  obtain m' where w: "wr32 MM_NONSECURE m a v = (True, m')"
    using ram.wr_ok [OF m(2), of v] by (cases "wr32 MM_NONSECURE m a v") auto
  then have w': "eth_dma_write32 g a v = (True, Some m')" by (simp add: m(1) eth_dma_write32_def wr32_def)
  show "fst (eth_dma_write32 g a v)" by (simp add: w')
  show "eth_word base (snd (eth_dma_write32 g a v)) a = v"
    using ram.wr_same [OF m(2), of v] w by (simp add: w' eth_word_def)
  assume c: "eth_ok base g c"
  then have c': "ram_word MM_NONSECURE base m c" by (simp add: eth_ok_def m(1))
  show "eth_ok base (snd (eth_dma_write32 g a v)) c"
    using ram.wr_keeps_ok [OF m(2) c', of v] w by (simp add: w' eth_ok_def)
  assume "words_apart a c"
  then show "eth_word base (snd (eth_dma_write32 g a v)) c = eth_word base g c"
    using ram.wr_other [OF m(2) c', of v] w by (simp add: w' [unfolded m(1)] eth_word_def m(1))
qed

subsection \<open>Frames on the link\<close>

text \<open>A link that is up, on a host that takes every frame.\<close>

definition link_up :: "eth_link \<Rightarrow> bool"
  where "link_up l = (eb_type (fst l) = MM_ETH_BACKEND_TAP \<and> eb_fd (fst l) \<ge> 0 \<and>
    (\<forall>i d. eh_write (snd l) i d = int (length d)))"

lemma send_up:
  assumes "link_up l" "data \<noteq> []"
  shows "link_up (snd (mm_eth_backend_send data l))" "eh_sent (snd (snd (mm_eth_backend_send data l))) = eh_sent (snd l) @ [data]"
  using assms by (auto simp: link_up_def mm_eth_backend_send_def called_def split: prod.splits)

lemma sends_up:
  "link_up l \<Longrightarrow> (\<And>i. i \<in> set is \<Longrightarrow> f i \<noteq> []) \<Longrightarrow>
   eh_sent (snd (fold (\<lambda>i l. snd (mm_eth_backend_send (f i) l)) is l)) = eh_sent (snd l) @ map f is"
proof (induction "is" arbitrary: l)
  case (Cons i "is")
  have "f i \<noteq> []" using Cons.prems(2) by simp
  from send_up [OF Cons.prems(1) this] Cons.IH [of "snd (mm_eth_backend_send (f i) l)"] Cons.prems(2) show ?case by simp
qed simp

lemma mod_small: "t < n \<Longrightarrow> n \<le> 1024 \<Longrightarrow> x mod n < 2 ^ 32" for t n x :: nat
  by (rule less_trans [of _ n]) simp_all

lemma desc_count: "unat (eth_desc_count r) \<le> 1024" "0 < unat (eth_desc_count r)"
proof -
  have "(r AND 0x3FF) \<le> 0x3FF" by (rule word_and_le1)
  then have u: "unat (r AND 0x3FF) \<le> 1023" by (simp add: word_le_nat_alt)
  then have "unat ((r AND 0x3FF) + 1) = unat (r AND 0x3FF) + 1" by (simp add: unat_word_ariths)
  then have "eth_desc_count r = (r AND 0x3FF) + 1" "unat ((r AND 0x3FF) + 1) = unat (r AND 0x3FF) + 1"
    by (auto simp: eth_desc_count_def Let_def)
  with u show "unat (eth_desc_count r) \<le> 1024" "0 < unat (eth_desc_count r)" by simp_all
qed

text \<open>C22: the transmitter sends what the firmware put into the ring.  With the clocks, the transmitter and
  its DMA on, and a link that takes frames, let the next descriptors of the ring belong to the DMA,
  up to the first that does not or a whole round.  One poll sends exactly the frames in their buffers,
  in order and nothing else, gives all these descriptors back, moves on to the one
  behind them, and reports the completion in the status register.\<close>

theorem eth_tx_sends:
  assumes "eth_clock_enabled rcc" "eth_tx_clock_enabled rcc" "et_regs e MACCR AND push_bit 1 1 \<noteq> 0" "et_regs e DMACTXCR AND 1 \<noteq> 0"
    "n = unat (eth_desc_count (et_regs e DMACTXRLR))" "rb = et_regs e DMACTXDLAR" "t = unat (et_tx_idx e)" "t < n"
    "ring_ok (eth_ok base) g rb n" "bufs_ok (eth_ok base) (eth_word base) g rb n"
    "\<forall>i < k. desc_owned (desc_at (eth_word base g) rb ((t + i) mod n)) \<and> 0 < tx_len (desc_at (eth_word base g) rb ((t + i) mod n))"
    "k = n \<or> k < n \<and> \<not> desc_owned (desc_at (eth_word base g) rb ((t + k) mod n))" "link_up l"
  shows "let (g', e', l') = eth_tx_poll stale rcc (g, e, l) in
    eh_sent (snd l') = eh_sent (snd l) @ map (\<lambda>i. tx_frame (eth_word base g) rb ((t + i) mod n)) [0..<k] \<and>
    unat (et_tx_idx e') = (t + k) mod n \<and> (0 < k \<longrightarrow> bit (et_regs e' DMACSR) 0) \<and>
    (\<forall>i < k. \<not> desc_owned (desc_at (eth_word base g') rb ((t + i) mod n)))"
proof -
  have n: "n \<le> 1024" "(of_nat n :: u32) = eth_desc_count (et_regs e DMACTXRLR)" using desc_count assms(5) by simp_all
  have idx: "et_tx_idx e = of_nat t" using assms(7) by simp
  obtain g' e' where p: "eth_tx_loop eth_dma_read32 eth_dma_write32 stale rb (of_nat n) n (g, e, l) =
      (g', e', fold (\<lambda>i l. snd (mm_eth_backend_send (tx_frame (eth_word base g) rb ((t + i) mod n)) l)) [0..<k] l)"
    "et_tx_idx e' = of_nat ((t + k) mod n)" "0 < k \<or> bit (et_regs e DMACSR) 0 \<longrightarrow> bit (et_regs e' DMACSR) 0"
    "\<forall>i < k. \<not> desc_owned (desc_at (eth_word base g') rb ((t + i) mod n))"
    using eth.tx_loop [OF assms(9,10,8) n(1) idx, of k n stale l] assms(11,12) by auto
  have "tx_frame (eth_word base g) rb ((t + i) mod n) \<noteq> []" if "i < k" for i
    using assms(11) that by (simp add: tx_frame_def frame_bytes_def)
  then have "eh_sent (snd (fold (\<lambda>i l. snd (mm_eth_backend_send (tx_frame (eth_word base g) rb ((t + i) mod n)) l)) [0..<k] l)) =
      eh_sent (snd l) @ map (\<lambda>i. tx_frame (eth_word base g) rb ((t + i) mod n)) [0..<k]"
    by (intro sends_up [OF assms(13)]) simp
  moreover have "(t + k) mod n < 2 ^ 32" using mod_small [OF assms(8) n(1)] .
  then have "unat (et_tx_idx e') = (t + k) mod n" by (simp add: p(2) unat_of_nat)
  moreover have "eth_tx_poll stale rcc (g, e, l) = eth_tx_loop eth_dma_read32 eth_dma_write32 stale rb (of_nat n) n (g, e, l)"
    using assms(1-6) n(2) by (simp add: eth_tx_poll_def Let_def)
  ultimately show ?thesis using p by simp
qed

text \<open>C35: the receiver stores what arrives.  With the clocks, the receiver and its DMA on, a frame that waits
  on the host, and a descriptor of the ring that belongs to the DMA, one poll puts the frame, cut to
  the length of the buffer, into the buffer, gives the descriptor back with the length stored,
  leaves the other descriptors alone, moves on to the next and reports the reception.\<close>

theorem eth_rx_stores:
  assumes "eth_clock_enabled rcc" "eth_rx_clock_enabled rcc" "et_regs e MACCR AND 1 \<noteq> 0" "et_regs e DMACRXCR AND 1 \<noteq> 0"
    "eb_type b = MM_ETH_BACKEND_TAP" "0 \<le> eb_fd b" "eh_read h (eh_calls h) = Some frame" "frame \<noteq> []" "length frame \<le> 1600"
    "n = unat (eth_desc_count (et_regs e DMACRXRLR))" "rb = et_regs e DMACRXDLAR" "t = unat (et_rx_idx e)" "t < n"
    "ring_ok (eth_ok base) g rb n" "d = desc_at (eth_word base g) rb t" "desc_owned d"
    "L = unat (eth_rx_buf_len e d)" "0 < L" "k = min (length frame) L" "unat (des0 d) + k + 4 \<le> 2 ^ 32"
    "\<forall>j < k. eth_ok base g (buf_addr (des0 d) j)"
    "\<forall>j < k. \<forall>s < n. \<forall>q < 4. words_apart (buf_addr (des0 d) j) (ring_word rb s q)"
  shows "let (g', e', l') = eth_rx_poll rcc (g, e, b, h); d' = desc_at (eth_word base g') rb t in
    frame_bytes (eth_word base g') (des0 d) k = take k frame \<and> \<not> desc_owned d' \<and> unat (des3 d' AND 0x3FFF) = k \<and>
    unat (et_rx_idx e') = (t + 1) mod n \<and> bit (et_regs e' DMACSR) 6 \<and>
    (\<forall>s < n. s \<noteq> t \<longrightarrow> desc_at (eth_word base g') rb s = desc_at (eth_word base g) rb s)"
proof -
  have n: "n \<le> 1024" "of_nat n = eth_desc_count (et_regs e DMACRXRLR)" using desc_count assms(10) by simp_all
  have idx: "et_rx_idx e = of_nat t" using assms(12) by simp
  have k: "k < 0x4000" using assms(9,19) by simp
  have apart: "words_apart (ring_word rb s q) (buf_addr (des0 d) j)" if "j < k" "s < n" "q < 4" for j s q
    using assms(22) that by (auto simp: words_apart_def)
  obtain g' e' where p: "eth_rx_frame eth_dma_read32 eth_dma_write32 frame (g, e) = (g', e')"
    "frame_bytes (eth_word base g') (des0 d) k = take k frame" "et_rx_idx e' = of_nat ((t + 1) mod n)" "bit (et_regs e' DMACSR) 6"
    "\<not> desc_owned (desc_at (eth_word base g') rb t)" "unat (des3 (desc_at (eth_word base g') rb t) AND 0x3FFF) = k"
    "\<forall>s < n. s \<noteq> t \<longrightarrow> desc_at (eth_word base g') rb s = desc_at (eth_word base g) rb s"
    using eth.rx_frame [OF assms(14,13) n(1) idx assms(11) n(2) assms(15-19) k assms(20)] assms(21,22) apart by blast
  have "mm_eth_backend_recv 1600 (b, h) = (frame, b, called h)"
    using assms(5-9) by (simp add: mm_eth_backend_recv_def)
  then have "eth_rx_poll rcc (g, e, b, h) = (g', e', b, called h)"
    using assms(1-4,8) p(1) by (simp add: eth_rx_poll_def Let_def)
  moreover have "(t + 1) mod n < 2 ^ 32" using mod_small [OF assms(13) n(1)] .
  then have "unat (et_rx_idx e') = (t + 1) mod n" by (simp add: p(3) unat_of_nat)
  ultimately show ?thesis using p by simp
qed

subsection \<open>A small ring\<close>

text \<open>Thirty-two bytes of RAM: a ring of one descriptor with its buffer of two bytes behind it, owned by the DMA.\<close>

definition eth_demo_map :: "unit mm_memmap"
  where "eth_demo_map = mm_memmap_configure_ram (mm_memmap_init 4 ()) (demo_cfg\<lparr>cfg_ram_size_s := 32, cfg_ram_size_ns := 32\<rparr>)
    ([0x10, 0, 0, 0x20, 0, 0, 0, 0, 2, 0, 0, 0, 0, 0, 0, 0x80, 0xAA, 0xBB] @ replicate 14 0) True"

definition eth_demo :: stm32h563_eth
  where "eth_demo = \<lparr>et_regs = (\<lambda>_. 0)(MACCR := 3, DMACTXCR := 1, DMACRXCR := 5, DMACTXDLAR := 0x20000000, DMACRXDLAR := 0x20000000),
    et_phy = (\<lambda>_. 0), et_mac = replicate 6 0, et_tx_idx = 0, et_rx_idx = 0, et_nvic = None\<rparr>"

definition link_demo :: eth_link
  where "link_demo = (\<lparr>eb_type = MM_ETH_BACKEND_TAP, eb_fd = 3, eb_spec = [0x74]\<rparr>,
    \<lparr>eh_calls = 0, eh_open = (\<lambda>_. 3), eh_ioctl = (\<lambda>_ _. 0), eh_write = (\<lambda>_ d. int (length d)), eh_read = (\<lambda>_. Some [7, 8, 9]),
     eh_getrandom = (\<lambda>_. None), eh_rand = (\<lambda>_. 0), eh_sent = [], eh_closed = []\<rparr>)"

lemma eth_demo_ok: "q < 8 \<Longrightarrow> eth_ok 0x20000000 (Some eth_demo_map) (0x20000000 + of_nat (4 * q))"
proof -
  assume "q < 8"
  then have "q = 0 \<or> q = 1 \<or> q = 2 \<or> q = 3 \<or> q = 4 \<or> q = 5 \<or> q = 6 \<or> q = 7" by linarith
  then show ?thesis
    by (elim disjE) (simp_all add: eth_ok_def ram_word_def eth_demo_map_def demo_cfg_def mm_memmap_configure_ram_def
      mm_memmap_init_def map_ok_def ram_ok_def flash_ok_def in_flash_def grants32_def ram_offset_for_addr_def in_window_def)
qed

lemma eth_demo_ring: "ring_word 0x20000000 0 q = 0x20000000 + of_nat (4 * q)"
  by (simp add: ring_word_def)

lemma eth_demo_words:
  "desc_at (eth_word 0x20000000 (Some eth_demo_map)) 0x20000000 0 = \<lparr>des0 = 0x20000010, des1 = 0, des2 = 2, des3 = 0x80000000\<rparr>"
  "eth_word 0x20000000 (Some eth_demo_map) 0x20000010 = 0xBBAA"
  by (simp_all add: desc_at_def eth_demo_ring eth_word_def ram_contents_def eth_demo_map_def demo_cfg_def
    mm_memmap_configure_ram_def mm_memmap_init_def read_buf_le_def buf_byte_def to_u32_def)

lemma eth_demo_buf: "buf_addr 0x20000010 0 = 0x20000010" "buf_addr 0x20000010 (Suc 0) = 0x20000010" "buf_lane 0 = 0" "buf_lane (Suc 0) = 8"
  by (simp_all add: buf_addr_def buf_lane_def)

lemma eth_demo_rings: "ring_ok (eth_ok 0x20000000) (Some eth_demo_map) 0x20000000 1"
  using eth_demo_ok by (simp add: ring_ok_def eth_demo_ring)

lemma eth_demo_apart: "q < 4 \<Longrightarrow> words_apart (ring_word 0x20000000 0 q) 0x20000010 \<and> words_apart 0x20000010 (ring_word 0x20000000 0 q)"
  by (auto simp: less_4 eth_demo_ring words_apart_def)

theorem eth_tx_sends_witness:
  "let (g', e', l') = eth_tx_poll [] None (Some eth_demo_map, eth_demo, link_demo)
   in eh_sent (snd l') = [[0xAA, 0xBB]] \<and> bit (et_regs e' DMACSR) 0"
proof -
  let ?g = "Some eth_demo_map" and ?b = "0x20000000 :: u32"
  have d: "desc_owned (desc_at (eth_word ?b ?g) ?b 0)" "tx_len (desc_at (eth_word ?b ?g) ?b 0) = 2"
    "tx_len \<lparr>des0 = 0x20000010, des1 = 0, des2 = 2, des3 = 0x80000000\<rparr> = 2"
    by (simp_all add: eth_demo_words desc_owned_def tx_len_def)
  have f: "tx_frame (eth_word ?b ?g) ?b 0 = [0xAA, 0xBB]"
    by (simp add: tx_frame_def d(3) frame_bytes_def frame_byte_def eth_demo_words eth_demo_buf upt_rec to_u8_def)
  have bufs: "bufs_ok (eth_ok ?b) (eth_word ?b) ?g ?b 1"
    using eth_demo_ok [of 4] eth_demo_apart by (auto simp: bufs_ok_def d(3) eth_demo_words less_2_cases_iff eth_demo_buf)
  have up: "link_up link_demo" by (simp add: link_up_def link_demo_def)
  have regs: "1 = unat (eth_desc_count (et_regs eth_demo DMACTXRLR))" "?b = et_regs eth_demo DMACTXDLAR" "0 = unat (et_tx_idx eth_demo)"
    "et_regs eth_demo MACCR AND push_bit 1 1 \<noteq> 0" "et_regs eth_demo DMACTXCR AND 1 \<noteq> 0" "eth_clock_enabled None" "eth_tx_clock_enabled None"
    by (simp_all add: eth_demo_def eth_desc_count_def eth_clock_enabled_def eth_tx_clock_enabled_def)
  have "let (g', e', l') = eth_tx_poll [] None (?g, eth_demo, link_demo) in
      eh_sent (snd l') = eh_sent (snd link_demo) @ map (\<lambda>i. tx_frame (eth_word ?b ?g) ?b ((0 + i) mod 1)) [0..<1] \<and>
      unat (et_tx_idx e') = (0 + 1) mod 1 \<and> (0 < (1 :: nat) \<longrightarrow> bit (et_regs e' DMACSR) 0) \<and>
      (\<forall>i < 1. \<not> desc_owned (desc_at (eth_word ?b g') ?b ((0 + i) mod 1)))"
    by (rule eth_tx_sends [OF regs(6,7,4,5,1,2,3) _ eth_demo_rings bufs _ _ up]) (use d in simp_all)
  then show ?thesis by (auto simp: f link_demo_def Let_def)
qed

theorem eth_rx_stores_witness:
  "let (g', e', l') = eth_rx_poll None (Some eth_demo_map, eth_demo, link_demo)
   in frame_bytes (eth_word 0x20000000 g') 0x20000010 2 = [7, 8] \<and> bit (et_regs e' DMACSR) 6"
proof -
  let ?g = "Some eth_demo_map" and ?b = "0x20000000 :: u32" and ?d = "\<lparr>des0 = 0x20000010, des1 = 0, des2 = 2, des3 = 0x80000000\<rparr>"
  obtain b h where l: "link_demo = (b, h)" by fastforce
  then have link: "eb_type b = MM_ETH_BACKEND_TAP" "0 \<le> eb_fd b" "eh_read h (eh_calls h) = Some [7, 8, 9]" by (auto simp: link_demo_def)
  have regs: "1 = unat (eth_desc_count (et_regs eth_demo DMACRXRLR))" "?b = et_regs eth_demo DMACRXDLAR" "0 = unat (et_rx_idx eth_demo)"
    "et_regs eth_demo MACCR AND 1 \<noteq> 0" "et_regs eth_demo DMACRXCR AND 1 \<noteq> 0" "eth_clock_enabled None" "eth_rx_clock_enabled None"
    "2 = unat (eth_rx_buf_len eth_demo ?d)" "desc_owned ?d"
    by (simp_all add: eth_demo_def eth_desc_count_def eth_clock_enabled_def eth_rx_clock_enabled_def eth_rx_buf_len_def desc_owned_def)
  have "let (g', e', l') = eth_rx_poll None (?g, eth_demo, b, h); d' = desc_at (eth_word ?b g') ?b 0 in
      frame_bytes (eth_word ?b g') (des0 ?d) 2 = take 2 [7, 8, 9] \<and> \<not> desc_owned d' \<and> unat (des3 d' AND 0x3FFF) = 2 \<and>
      unat (et_rx_idx e') = (0 + 1) mod 1 \<and> bit (et_regs e' DMACSR) 6 \<and>
      (\<forall>s < 1. s \<noteq> 0 \<longrightarrow> desc_at (eth_word ?b g') ?b s = desc_at (eth_word ?b ?g) ?b s)"
    by (rule eth_rx_stores [OF regs(6,7,4,5) link _ _ regs(1-3) _ eth_demo_rings eth_demo_words(1) [symmetric] regs(9,8)])
      (use eth_demo_ok [of 4] eth_demo_apart in \<open>auto simp: less_2_cases_iff eth_demo_buf\<close>)
  then show ?thesis by (auto simp: l Let_def)
qed

text \<open>The MAC address that firmware writes is the one it reads back and the one of the block.\<close>

lemma eth_mac_roundtrip:
  assumes "eth_clock_enabled rcc" "length (et_mac e) = 6"
  shows "let (_, e, b, h) = eth_write rcc 0x300 4 hi (e, b, h); (_, e, b, h) = eth_write rcc 0x304 4 lo (e, b, h)
    in fst (eth_read rcc b 0x304 4 e) = Some lo \<and> fst (eth_read rcc b 0x300 4 e) = Some (hi AND 0xFFFF)"
proof -
  obtain a0 a1 a2 a3 a4 a5 where m: "et_mac e = [a0, a1, a2, a3, a4, a5]"
    using assms(2) by (auto simp: numeral_eq_Suc length_Suc_conv)
  have lo: "push_bit 24 (to_u32 (to_u8 (drop_bit 24 lo AND 0xFF))) OR push_bit 16 (to_u32 (to_u8 (drop_bit 16 lo AND 0xFF))) OR
      push_bit 8 (to_u32 (to_u8 (drop_bit 8 lo AND 0xFF))) OR to_u32 (to_u8 (lo AND 0xFF)) = lo"
  proof (rule bit_word_eqI)
    fix n :: nat
    assume "n < LENGTH(32)"
    then consider "n < 8" | "8 \<le> n" "n < 16" | "16 \<le> n" "n < 24" | "24 \<le> n" "n < 32" by fastforce
    then show "bit (push_bit 24 (to_u32 (to_u8 (drop_bit 24 lo AND 0xFF))) OR push_bit 16 (to_u32 (to_u8 (drop_bit 16 lo AND 0xFF))) OR
        push_bit 8 (to_u32 (to_u8 (drop_bit 8 lo AND 0xFF))) OR to_u32 (to_u8 (lo AND 0xFF))) n = bit lo n"
      by cases (auto simp: casts bit_simps bits)
  qed
  have hi: "push_bit 8 (to_u32 (to_u8 (drop_bit 8 hi AND 0xFF))) OR to_u32 (to_u8 (hi AND 0xFF)) = hi AND 0xFFFF"
  proof (rule bit_word_eqI)
    fix n :: nat
    assume "n < LENGTH(32)"
    then consider "n < 8" | "8 \<le> n" "n < 16" | "16 \<le> n" "n < 32" by fastforce
    then show "bit (push_bit 8 (to_u32 (to_u8 (drop_bit 8 hi AND 0xFF))) OR to_u32 (to_u8 (hi AND 0xFF))) n = bit (hi AND 0xFFFF) n"
      by cases (auto simp: casts bit_simps bits)
  qed
  show ?thesis using assms(1) lo hi
    by (simp add: eth_write_def eth_read_def eth_apply_mac_def set_eth_def m Let_def)
qed

end
