(* ===== verification/Images.thy ===== *)
theory Images
imports Gdb_Codec "HOL-Library.Multiset"
begin

text \<open>
  Firmware images: the parsers of the command line that name them and the loader (\<^verbatim>\<open>src/main.c\<close>), and
  the files that keep the flash between runs (\<^verbatim>\<open>src/flash_persist.c\<close>).

  The host's files are a record: the contents by name, the names that can be opened for writing, and
  for each the number of bytes that it can take.  The flash is the list of its bytes.  A C string is
  the list of its bytes before the terminating zero; \<^verbatim>\<open>strtoul\<close> is modelled for base 0, a 64-bit
  \<^verbatim>\<open>unsigned long\<close>, and the prefixes of C99.  Messages are left out.
\<close>

subsection \<open>Numbers and file names on the command line\<close>

definition oct_digit :: "u8 \<Rightarrow> bool"
  where "oct_digit c = (0x30 \<le> c \<and> c \<le> 0x37)"

definition dec_digit :: "u8 \<Rightarrow> bool"
  where "dec_digit c = (0x30 \<le> c \<and> c \<le> 0x39)"

definition digits_value :: "nat \<Rightarrow> cstr \<Rightarrow> nat"
  where "digits_value b ds = foldl (\<lambda>v c. v * b + nat (hex_to_nibble c)) 0 ds"

text \<open>The base by the prefix, its digits, and the string behind the prefix.\<close>

definition number_prefix :: "cstr \<Rightarrow> nat \<times> (u8 \<Rightarrow> bool) \<times> cstr"
  where "number_prefix s =
    (if length s > 2 \<and> s ! 0 = 0x30 \<and> (s ! 1 = 0x78 \<or> s ! 1 = 0x58) \<and> hex_digit (s ! 2) then (16, hex_digit, drop 2 s)
     else if s \<noteq> [] \<and> s ! 0 = 0x30 then (8, oct_digit, s) else (10, dec_digit, s))"

text \<open>The value and the rest of the string; a string without digits is returned as it is.\<close>

definition strtoul0 :: "cstr \<Rightarrow> u64 \<times> cstr"
  where "strtoul0 s0 =
    (let (neg, s) = scan_sign (dropWhile is_space s0);
         (b, dig, s) = number_prefix s;
         ds = takeWhile dig s; n = digits_value b ds
     in if ds = [] then (0, s0)
        else (if n \<ge> 2 ^ 64 then -1 else if neg then - of_nat n else of_nat n, dropWhile dig s))"

definition main_parse_hex_u32 :: "cstr \<Rightarrow> u32 option"
  where "main_parse_hex_u32 s = (let (v, endp) = strtoul0 s in if endp = s then None else Some (to_u32 v))"

definition parse_u32 :: "cstr \<Rightarrow> u32 option"
  where "parse_u32 s = (let (v, endp) = strtoul0 s in if endp = s \<or> endp \<noteq> [] then None else Some (to_u32 v))"

text \<open>The part after the first occurrence of a character.\<close>

definition strchr :: "u8 \<Rightarrow> cstr \<Rightarrow> cstr option"
  where "strchr c s = (case dropWhile (\<lambda>x. x \<noteq> c) s of [] \<Rightarrow> None | _ # cs \<Rightarrow> Some cs)"

definition parse_pc_trace_range :: "cstr \<Rightarrow> (u32 \<times> u32) option"
  where "parse_pc_trace_range s =
    (case strchr 0x2D s of None \<Rightarrow> None
     | Some r \<Rightarrow> (case main_parse_hex_u32 s of None \<Rightarrow> None | Some a \<Rightarrow> map_option (Pair a) (main_parse_hex_u32 r)))"

definition parse_addr_size :: "cstr \<Rightarrow> (u32 \<times> u32) option"
  where "parse_addr_size s =
    (case strchr 0x3A s of None \<Rightarrow> map_option (\<lambda>a. (a, 4)) (main_parse_hex_u32 s)
     | Some r \<Rightarrow> (case main_parse_hex_u32 s of None \<Rightarrow> None
        | Some a \<Rightarrow> map_option (\<lambda>z. (a, if z = 0 then 4 else z)) (main_parse_hex_u32 r)))"

definition parse_usb_spec :: "cstr \<Rightarrow> u32 option"
  where "parse_usb_spec s =
    (if take 5 s \<noteq> [0x70, 0x6F, 0x72, 0x74, 0x3D] then None
     else case parse_u32 (drop 5 s) of None \<Rightarrow> None
          | Some port \<Rightarrow> if port = 0 \<or> port > 65535 then None else Some port)"

text \<open>The name and the offset: what follows the last colon when it starts with a digit and is a number.\<close>

definition parse_image_spec :: "cstr \<Rightarrow> cstr \<times> u32"
  where "parse_image_spec spec =
    (let r = rev spec; os = rev (takeWhile (\<lambda>x. x \<noteq> 0x3A) r) in
     case dropWhile (\<lambda>x. x \<noteq> 0x3A) r of
       [] \<Rightarrow> (spec, 0)
     | _ # p \<Rightarrow> (case os of [] \<Rightarrow> (spec, 0)
         | c # _ \<Rightarrow> if dec_digit c then (case parse_u32 os of None \<Rightarrow> (spec, 0) | Some off \<Rightarrow> (rev p, off))
                   else (spec, 0)))"

subsection \<open>Loading\<close>

record host_files =
  hf_files :: "cstr \<Rightarrow> u8 list option"
  hf_can_write :: "cstr \<Rightarrow> bool"
  hf_room :: "cstr \<Rightarrow> nat"

record mm_image_spec =
  im_path :: cstr
  im_offset :: u32
  im_loaded :: nat

text \<open>The destination is the flash from the byte \<^verbatim>\<open>at\<close> on.\<close>

definition load_file :: "host_files \<Rightarrow> cstr \<Rightarrow> nat \<Rightarrow> nat \<Rightarrow> u8 list \<Rightarrow> (u8 list \<times> nat) option"
  where "load_file h path at max_len dst =
    (case hf_files h path of None \<Rightarrow> None
     | Some c \<Rightarrow> (let n = min (length c) max_len in Some (take at dst @ take n c @ drop (at + n) dst, n)))"

definition load_file_at :: "host_files \<Rightarrow> cstr \<Rightarrow> nat \<Rightarrow> u32 \<Rightarrow> u8 list \<Rightarrow> (u8 list \<times> nat) option"
  where "load_file_at h path max_len offset dst =
    (if unat offset > max_len then None else load_file h path (unat offset) (max_len - unat offset) dst)"

text \<open>The loop over the images: whether all were loaded, the images, the flash, and the two totals.\<close>

fun load_loop ::
  "host_files \<Rightarrow> nat \<Rightarrow> mm_image_spec list \<Rightarrow> u8 list \<times> nat \<times> nat \<Rightarrow> bool \<times> mm_image_spec list \<times> u8 list \<times> nat \<times> nat" where
  "load_loop h sz [] x = (True, [], x)"
| "load_loop h sz (im # ims) (flash, tot, max_end) =
    (case load_file_at h (im_path im) sz (im_offset im) flash of
       None \<Rightarrow> (False, im # ims, flash, tot, max_end)
     | Some (flash, n) \<Rightarrow>
         (let (ok, ims, x) = load_loop h sz ims (flash, tot + n, max max_end (unat (im_offset im) + n))
          in (ok, im\<lparr>im_loaded := n\<rparr> # ims, x)))"

definition reload_images ::
  "host_files \<Rightarrow> nat \<Rightarrow> mm_image_spec list \<times> u8 list \<times> nat \<times> nat \<Rightarrow> bool \<times> mm_image_spec list \<times> u8 list \<times> nat \<times> nat"
  where "reload_images h sz x =
    (let (ims, flash, tot, max_end) = x;
         flash = replicate (min sz (length flash)) 0xFF @ drop sz flash;
         (ok, ims, flash, t, e) = load_loop h sz ims (flash, 0, 0)
     in if ok then (True, ims, flash, t, e) else (False, ims, flash, tot, max_end))"

subsection \<open>Ranges\<close>

record persist_range =
  pr_path :: cstr
  pr_offset :: u32
  pr_length :: u32

record mm_flash_persist =
  fp_enabled :: bool
  fp_flash_size :: u32
  fp_ranges :: "persist_range list"

definition sort_swap :: "u32 list \<Rightarrow> nat \<Rightarrow> nat \<Rightarrow> nat list \<Rightarrow> nat list"
  where "sort_swap offsets i j idx =
    (if offsets ! (idx ! j) < offsets ! (idx ! i) then idx[i := idx ! j, j := idx ! i] else idx)"

definition sort_indices :: "u32 list \<Rightarrow> nat \<Rightarrow> nat list"
  where "sort_indices offsets cnt =
    fold (\<lambda>i. fold (sort_swap offsets i) [Suc i..<cnt]) [0..<cnt] [0..<cnt]"

definition persist_empty :: mm_flash_persist
  where "persist_empty = \<lparr>fp_enabled = False, fp_flash_size = 0, fp_ranges = []\<rparr>"

definition persist_one :: "u32 \<Rightarrow> cstr list \<Rightarrow> u32 list \<Rightarrow> nat list \<Rightarrow> nat \<Rightarrow> persist_range"
  where "persist_one flash_size paths offsets idx i =
    (let cur = idx ! i; start = offsets ! cur;
         e = (if i + 1 < length idx then offsets ! (idx ! (i + 1)) else flash_size);
         e = (if e < start then start else e);
         e = (if e > flash_size then flash_size else e)
     in \<lparr>pr_path = paths ! cur, pr_offset = start, pr_length = e - start\<rparr>)"

definition mm_flash_persist_build :: "u32 \<Rightarrow> cstr list \<Rightarrow> u32 list \<Rightarrow> mm_flash_persist"
  where "mm_flash_persist_build flash_size paths offsets =
    (if paths = [] then persist_empty
     else (let cnt = min (length paths) 16; idx = sort_indices offsets cnt
           in \<lparr>fp_enabled = True, fp_flash_size = flash_size,
               fp_ranges = map (persist_one flash_size paths offsets idx) [0..<cnt]\<rparr>))"

text \<open>Opening for writing empties the file; \<^verbatim>\<open>fwrite\<close> then stores what fits.\<close>

definition persist_write :: "u8 list \<Rightarrow> persist_range \<Rightarrow> host_files \<Rightarrow> host_files"
  where "persist_write flash r h =
    (if \<not> hf_can_write h (pr_path r) then h
     else h\<lparr>hf_files := (hf_files h)(pr_path r :=
       Some (take (hf_room h (pr_path r)) (take (unat (pr_length r)) (drop (unat (pr_offset r)) flash))))\<rparr>)"

definition persist_touched :: "u32 \<Rightarrow> u32 \<Rightarrow> persist_range \<Rightarrow> bool"
  where "persist_touched addr sz r =
    (let start = pr_offset r; e = start + pr_length r; a0 = addr; a1 = addr + sz in \<not> (a1 \<le> start \<or> a0 \<ge> e))"

definition mm_flash_persist_flush :: "mm_flash_persist \<Rightarrow> u8 list \<Rightarrow> u32 \<Rightarrow> u32 \<Rightarrow> host_files \<Rightarrow> host_files"
  where "mm_flash_persist_flush p flash addr sz h =
    (if \<not> fp_enabled p \<or> sz = 0 then h
     else fold (\<lambda>r h. if persist_touched addr sz r then persist_write flash r h else h) (fp_ranges p) h)"

subsection \<open>The sorted order of the ranges\<close>

lemma sort_swap_length [simp]: "length (sort_swap offsets i j idx) = length idx"
  by (simp add: sort_swap_def)

lemma sort_swap_mset: "i < length idx \<Longrightarrow> j < length idx \<Longrightarrow> mset (sort_swap offsets i j idx) = mset idx"
  using mset_swap [of j idx i] by (simp add: sort_swap_def)

text \<open>The places before \<^verbatim>\<open>k\<close> hold the least keys, in order.\<close>

definition sorted_upto :: "u32 list \<Rightarrow> nat \<Rightarrow> nat list \<Rightarrow> bool"
  where "sorted_upto offsets k idx = (\<forall>a b. a < k \<longrightarrow> a < b \<longrightarrow> b < length idx \<longrightarrow> offsets ! (idx ! a) \<le> offsets ! (idx ! b))"

lemma sort_inner:
  assumes "i < length idx" "m \<le> length idx" "sorted_upto offsets i idx"
  shows "let idx' = fold (sort_swap offsets i) [Suc i..<m] idx in
    length idx' = length idx \<and> mset idx' = mset idx \<and> sorted_upto offsets i idx' \<and>
    (\<forall>b. i < b \<and> b < m \<longrightarrow> offsets ! (idx' ! i) \<le> offsets ! (idx' ! b))"
  using assms(2)
proof (induction m)
  case (Suc m)
  define idx1 where "idx1 = fold (sort_swap offsets i) [Suc i..<m] idx"
  have IH: "length idx1 = length idx" "mset idx1 = mset idx" "sorted_upto offsets i idx1"
    "\<And>b. i < b \<Longrightarrow> b < m \<Longrightarrow> offsets ! (idx1 ! i) \<le> offsets ! (idx1 ! b)"
    using Suc by (auto simp: idx1_def Let_def)
  show ?case
  proof (cases "Suc i \<le> m")
    case True
    let ?s = "sort_swap offsets i m idx1"
    have m: "m < length idx1" "i < length idx1" "i \<noteq> m" "i < m" using Suc.prems IH(1) assms(1) True by auto
    have "sorted_upto offsets i ?s"
      using IH(3) m by (auto simp: sorted_upto_def sort_swap_def nth_list_update)
    moreover have "offsets ! (?s ! i) \<le> offsets ! (?s ! b)" if "i < b" "b < Suc m" for b
    proof (cases "b = m")
      case True
      then show ?thesis using m by (auto simp: sort_swap_def nth_list_update)
    next
      case False
      then have "offsets ! (idx1 ! i) \<le> offsets ! (idx1 ! b)" using IH(4) that by simp
      then show ?thesis using m False that by (auto simp: sort_swap_def nth_list_update)
    qed
    ultimately show ?thesis using IH(1,2) m True sort_swap_mset [OF m(2,1)] by (simp add: idx1_def [symmetric] Let_def)
  next
    case False
    then have "[Suc i..<Suc m] = []" by simp
    moreover have "[Suc i..<m] = []" using False by simp
    ultimately show ?thesis using IH False unfolding idx1_def Let_def by auto
  qed
qed (use assms in simp)

lemma sort_indices_outer:
  assumes "k \<le> n"
  shows "let idx = fold (\<lambda>i. fold (sort_swap offsets i) [Suc i..<n]) [0..<k] [0..<n] in
    length idx = n \<and> mset idx = mset [0..<n] \<and> sorted_upto offsets k idx"
  using assms
proof (induction k)
  case (Suc k)
  define idx where "idx = fold (\<lambda>i. fold (sort_swap offsets i) [Suc i..<n]) [0..<k] [0..<n]"
  have IH: "length idx = n" "mset idx = mset [0..<n]" "sorted_upto offsets k idx"
    using Suc by (auto simp: idx_def Let_def)
  have "let idx' = fold (sort_swap offsets k) [Suc k..<n] idx in
    length idx' = length idx \<and> mset idx' = mset idx \<and> sorted_upto offsets k idx' \<and>
    (\<forall>b. k < b \<and> b < n \<longrightarrow> offsets ! (idx' ! k) \<le> offsets ! (idx' ! b))"
    using Suc.prems IH by (intro sort_inner) auto
  moreover have "fold (\<lambda>i. fold (sort_swap offsets i) [Suc i..<n]) [0..<Suc k] [0..<n] = fold (sort_swap offsets k) [Suc k..<n] idx"
    by (simp add: idx_def)
  ultimately show ?case using IH(1,2) by (auto simp: sorted_upto_def less_Suc_eq Let_def)
qed (simp add: sorted_upto_def Let_def)

lemma sort_indices_correct:
  "length (sort_indices offsets n) = n" "set (sort_indices offsets n) = {0..<n}" "distinct (sort_indices offsets n)"
  "a < b \<Longrightarrow> b < n \<Longrightarrow> offsets ! (sort_indices offsets n ! a) \<le> offsets ! (sort_indices offsets n ! b)"
proof -
  have *: "length (sort_indices offsets n) = n" "mset (sort_indices offsets n) = mset [0..<n]"
    "sorted_upto offsets n (sort_indices offsets n)"
    using sort_indices_outer [of n n offsets] by (simp_all add: sort_indices_def Let_def)
  then show "length (sort_indices offsets n) = n" "set (sort_indices offsets n) = {0..<n}" "distinct (sort_indices offsets n)"
    using mset_eq_setD [OF *(2)] mset_eq_imp_distinct_iff [OF *(2)] by auto
  show "a < b \<Longrightarrow> b < n \<Longrightarrow> offsets ! (sort_indices offsets n ! a) \<le> offsets ! (sort_indices offsets n ! b)"
    using * by (simp add: sorted_upto_def)
qed

text \<open>What the ranges are when the offsets differ: in the order of the flash, apart, each inside the
  flash, with the names and offsets of the images, and without a gap behind the first.\<close>

abbreviation pr_start :: "persist_range \<Rightarrow> nat"
  where "pr_start r \<equiv> unat (pr_offset r)"

abbreviation pr_len :: "persist_range \<Rightarrow> nat"
  where "pr_len r \<equiv> unat (pr_length r)"

definition ranges_ok :: "nat \<Rightarrow> persist_range list \<Rightarrow> bool"
  where "ranges_ok n rs = (sorted_wrt (\<lambda>r q. pr_start r + pr_len r \<le> pr_start q) rs \<and>
    list_all (\<lambda>r. pr_start r + pr_len r \<le> n) rs \<and> distinct (map pr_path rs))"

lemma build_range:
  assumes "distinct offsets" "length offsets = length paths" "length paths \<le> 16" "\<And>z. z \<in> set offsets \<Longrightarrow> z \<le> fsz"
    "i < length paths" "idx = sort_indices offsets (length paths)"
  shows "let r = persist_one fsz paths offsets idx i in pr_path r = paths ! (idx ! i) \<and> pr_offset r = offsets ! (idx ! i) \<and>
    pr_start r + pr_len r = (if i + 1 < length paths then unat (offsets ! (idx ! (i + 1))) else unat fsz)"
proof -
  have idx: "length idx = length paths" "\<And>j. j < length paths \<Longrightarrow> idx ! j < length paths"
    using sort_indices_correct(1,2) [of offsets "length paths"] nth_mem [of _ idx] by (auto simp: assms(6))
  let ?e = "if i + 1 < length paths then offsets ! (idx ! (i + 1)) else fsz"
  have "offsets ! (idx ! i) \<le> ?e"
    using sort_indices_correct(4) [of i "i + 1" "length paths" offsets] assms(2,5) assms(4) [OF nth_mem] idx(2) [OF assms(5)]
    by (simp add: assms(6) [symmetric])
  moreover have "?e \<le> fsz" using assms(2) assms(4) [OF nth_mem] idx(2) [of "i + 1"] by simp
  ultimately have "persist_one fsz paths offsets idx i =
    \<lparr>pr_path = paths ! (idx ! i), pr_offset = offsets ! (idx ! i), pr_length = ?e - offsets ! (idx ! i)\<rparr>"
    by (simp add: persist_one_def idx(1) Let_def not_less [symmetric])
  then show ?thesis using \<open>offsets ! (idx ! i) \<le> ?e\<close>
    by (simp add: Let_def unat_sub word_le_nat_alt)
qed

lemma build_ranges:
  assumes "distinct offsets" "distinct paths" "length offsets = length paths" "paths \<noteq> []" "length paths \<le> 16"
    "\<And>z. z \<in> set offsets \<Longrightarrow> z \<le> fsz"
  defines "rs \<equiv> fp_ranges (mm_flash_persist_build fsz paths offsets)"
  shows "ranges_ok (unat fsz) rs"
    "k < length paths \<Longrightarrow> \<exists>r \<in> set rs. pr_path r = paths ! k \<and> pr_offset r = offsets ! k"
    "r \<in> set rs \<Longrightarrow> \<exists>k < length paths. pr_path r = paths ! k \<and> pr_offset r = offsets ! k"
    "z \<in> set offsets \<Longrightarrow> unat z \<le> x \<Longrightarrow> x < unat fsz \<Longrightarrow> \<exists>r \<in> set rs. pr_start r \<le> x \<and> x < pr_start r + pr_len r"
proof -
  define n where "n = length paths"
  define idx where "idx = sort_indices offsets n"
  note S = sort_indices_correct [where offsets = offsets and n = n, folded idx_def]
  have rs: "rs = map (persist_one fsz paths offsets idx) [0..<n]"
    using assms(4,5) by (simp add: rs_def mm_flash_persist_build_def n_def idx_def Let_def min_def)
  have lt: "idx ! i < n" if "i < n" for i using S(1,2) nth_mem [of i idx] that by auto
  define r where "r = persist_one fsz paths offsets idx"
  have R: "pr_path (r i) = paths ! (idx ! i)" "pr_offset (r i) = offsets ! (idx ! i)"
    "pr_start (r i) + pr_len (r i) = (if i + 1 < n then unat (offsets ! (idx ! (i + 1))) else unat fsz)" if "i < n" for i
    using build_range [OF assms(1,3,5,6), of i idx] that unfolding r_def Let_def n_def [symmetric] idx_def [symmetric] by blast+
  have inj: "idx ! i = idx ! j \<longleftrightarrow> i = j" if "i < n" "j < n" for i j using S(1,3) that by (simp add: nth_eq_iff_index_eq)
  have le: "unat (offsets ! (idx ! i)) \<le> unat (offsets ! (idx ! j))" if "i \<le> j" "j < n" for i j
    using S(4) [of i j] that by (cases "i = j") (simp_all add: word_le_nat_alt)
  have ends: "pr_start (r i) + pr_len (r i) \<le> pr_start (r j)" if "i < j" "j < n" for i j
    using R [of i] R(2) [of j] le [of "i + 1" j] that by simp
  have top: "pr_start (r i) + pr_len (r i) \<le> unat fsz" if "i < n" for i
    using R(3) [OF that] lt [of "i + 1"] assms(3) assms(6) [OF nth_mem] by (simp add: n_def word_le_nat_alt [symmetric])
  have "sorted_wrt (\<lambda>r q. pr_start r + pr_len r \<le> pr_start q) rs"
    unfolding rs r_def [symmetric] sorted_wrt_map by (rule sorted_wrt_mono_rel [OF _ sorted_wrt_upt]) (auto intro: ends)
  moreover have "distinct (map pr_path rs)"
    unfolding rs r_def [symmetric] using R(1) assms(2) lt inj
    by (auto simp: distinct_map inj_on_def n_def nth_eq_iff_index_eq)
  ultimately show "ranges_ok (unat fsz) rs" by (auto simp: ranges_ok_def list_all_iff rs r_def [symmetric] top)
  show "\<exists>r \<in> set rs. pr_path r = paths ! k \<and> pr_offset r = offsets ! k" if "k < length paths"
  proof -
    have "k \<in> set idx" using S(2) that by (simp add: n_def)
    then obtain i where "i < n" "idx ! i = k" using S(1) by (auto simp: in_set_conv_nth)
    then show ?thesis using R(1,2) [of i] unfolding rs r_def [symmetric] by auto
  qed
  show "\<exists>k < length paths. pr_path r = paths ! k \<and> pr_offset r = offsets ! k" if q: "r \<in> set rs" for r
  proof -
    obtain i where "i < n" "r = persist_one fsz paths offsets idx i" using q unfolding rs by auto
    then show ?thesis using R(1,2) lt unfolding r_def n_def by blast
  qed
  show "\<exists>r \<in> set rs. pr_start r \<le> x \<and> x < pr_start r + pr_len r" if o: "z \<in> set offsets" "unat z \<le> x" "x < unat fsz"
  proof -
    define P where "P i = (i < n \<and> unat (offsets ! (idx ! i)) \<le> x)" for i
    obtain k where "k < n" "offsets ! k = z" using o(1) assms(3) by (auto simp: in_set_conv_nth n_def)
    moreover from this have "k \<in> set idx" using S(2) by simp
    ultimately obtain i where "P i" using S(1) o(2) by (auto simp: in_set_conv_nth P_def)
    define m where "m = (GREATEST i. P i)"
    have m: "P m" "\<And>i. P i \<Longrightarrow> i \<le> m"
      unfolding m_def using GreatestI_nat [of P i n] Greatest_le_nat [of P _ n] \<open>P i\<close> by (auto simp: P_def)
    have "x < pr_start (r m) + pr_len (r m)"
    proof (cases "m + 1 < n")
      case True
      then have "\<not> P (m + 1)" using m(2) [of "m + 1"] by auto
      then show ?thesis using True R(3) [of m] m(1) by (auto simp: P_def)
    qed (use R(3) [of m] m(1) o(3) in \<open>auto simp: P_def\<close>)
    then show ?thesis using m(1) R(2) [of m] unfolding rs r_def [symmetric]
      by (intro bexI [of _ "r m"]) (auto simp: P_def)
  qed
qed

subsection \<open>Surviving a restart\<close>

text \<open>The bytes that a file gives to its range: its contents, then erased flash.\<close>

definition range_content :: "host_files \<Rightarrow> persist_range \<Rightarrow> nat \<Rightarrow> u8"
  where "range_content h r x = (let c = the (hf_files h (pr_path r)) in if x < length c then c ! x else 0xFF)"

text \<open>The file of a range is there, fits, and the flash holds what it gives.\<close>

definition fits :: "host_files \<Rightarrow> persist_range \<Rightarrow> bool"
  where "fits h r = (\<exists>c. hf_files h (pr_path r) = Some c \<and> length c \<le> pr_len r)"

definition holds :: "host_files \<Rightarrow> u8 list \<Rightarrow> persist_range \<Rightarrow> bool"
  where "holds h flash r = (\<forall>x < pr_len r. flash ! (pr_start r + x) = range_content h r x)"

definition in_step :: "host_files \<Rightarrow> persist_range list \<Rightarrow> u8 list \<Rightarrow> bool"
  where "in_step h rs flash = (\<forall>r \<in> set rs. fits h r \<and> holds h flash r)"

lemma ranges_apart:
  assumes "ranges_ok n rs" "r \<in> set rs" "q \<in> set rs"
  shows "r = q \<or> pr_start r + pr_len r \<le> pr_start q \<or> pr_start q + pr_len q \<le> pr_start r" "pr_path r = pr_path q \<longleftrightarrow> r = q"
    "pr_start r + pr_len r \<le> n"
proof -
  obtain i j where "i < length rs" "r = rs ! i" "j < length rs" "q = rs ! j" using assms(2,3) by (auto simp: in_set_conv_nth)
  then show "r = q \<or> pr_start r + pr_len r \<le> pr_start q \<or> pr_start q + pr_len q \<le> pr_start r"
    using assms(1) by (cases i j rule: linorder_cases) (auto simp: ranges_ok_def sorted_wrt_iff_nth_less)
  show "pr_path r = pr_path q \<longleftrightarrow> r = q" using assms by (auto simp: ranges_ok_def distinct_map inj_on_def)
  show "pr_start r + pr_len r \<le> n" using assms by (auto simp: ranges_ok_def list_all_iff)
qed

text \<open>Loading one image writes the range it belongs to and nothing else of the ranges.\<close>

lemma load_one:
  assumes "ranges_ok n rs" "r \<in> set rs" "fits h r" "length flash = n" "pr_path r = p" "pr_offset r = off"
  shows "\<exists>flash' k. load_file_at h p n off flash = Some (flash', k) \<and> length flash' = n \<and>
    (\<forall>x < pr_len r. flash' ! (pr_start r + x) = (if x < k then range_content h r x else flash ! (pr_start r + x))) \<and>
    k = length (the (hf_files h p)) \<and>
    (\<forall>q \<in> set rs. q \<noteq> r \<longrightarrow> (\<forall>x < pr_len q. flash' ! (pr_start q + x) = flash ! (pr_start q + x)))"
proof -
  obtain c where c: "hf_files h p = Some c" "length c \<le> pr_len r" using assms(3,5) by (auto simp: fits_def)
  have b: "pr_start r + pr_len r \<le> n" by (rule ranges_apart(3) [OF assms(1,2,2)])
  define flash' where "flash' = take (pr_start r) flash @ c @ drop (pr_start r + length c) flash"
  have "length c \<le> n - pr_start r" using c(2) b by linarith
  then have "load_file_at h p n off flash = Some (flash', length c)"
    using c b assms(6) by (simp add: load_file_at_def load_file_def flash'_def min_def Let_def)
  moreover have "length flash' = n" using b c assms(4) by (simp add: flash'_def)
  moreover have "flash' ! (pr_start r + x) = (if x < length c then range_content h r x else flash ! (pr_start r + x))"
    if "x < pr_len r" for x
    using that b c assms(4,5) by (simp add: flash'_def nth_append range_content_def)
  moreover have "flash' ! (pr_start q + x) = flash ! (pr_start q + x)" if "q \<in> set rs" "q \<noteq> r" "x < pr_len q" for q x
    using ranges_apart(1) [OF assms(1) that(1) assms(2)] ranges_apart(3) [OF assms(1) that(1) that(1)] that(2,3) b c assms(4)
    by (auto simp: flash'_def nth_append)
  ultimately show ?thesis using c(1) by auto
qed

lemma load_loop_holds:
  assumes "ranges_ok n rs" "\<And>r. r \<in> set rs \<Longrightarrow> fits h r"
    "\<And>im. im \<in> set ims \<Longrightarrow> \<exists>r \<in> set rs. pr_path r = im_path im \<and> pr_offset r = im_offset im"
    "length flash = n"
    "\<And>r. r \<in> set rs \<Longrightarrow> holds h flash r \<or>
       (\<exists>im \<in> set ims. pr_path r = im_path im) \<and> (\<forall>x < pr_len r. flash ! (pr_start r + x) = 0xFF)"
  shows "\<exists>ims' flash' t' e'. load_loop h n ims (flash, t, e) = (True, ims', flash', t', e') \<and> length flash' = n \<and>
    (\<forall>r \<in> set rs. holds h flash' r)"
  using assms(3-5)
proof (induction ims arbitrary: flash t e)
  case (Cons im ims)
  obtain r where r: "r \<in> set rs" "pr_path r = im_path im" "pr_offset r = im_offset im" using Cons.prems(1) by auto
  obtain flash1 k where l: "load_file_at h (im_path im) n (im_offset im) flash = Some (flash1, k)" "length flash1 = n"
    "\<And>x. x < pr_len r \<Longrightarrow> flash1 ! (pr_start r + x) = (if x < k then range_content h r x else flash ! (pr_start r + x))"
    "k = length (the (hf_files h (im_path im)))"
    "\<And>q x. q \<in> set rs \<Longrightarrow> q \<noteq> r \<Longrightarrow> x < pr_len q \<Longrightarrow> flash1 ! (pr_start q + x) = flash ! (pr_start q + x)"
    using load_one [OF assms(1) r(1) assms(2) [OF r(1)] Cons.prems(2) r(2,3)] by blast
  have one: "holds h flash1 r"
    using Cons.prems(3) [OF r(1)] l(3,4) r(2) by (auto simp: holds_def range_content_def Let_def)
  have keep: "holds h flash1 q" if "q \<in> set rs" "q \<noteq> r" "holds h flash q" for q
    using that l(5) by (simp add: holds_def)
  have "holds h flash1 q \<or> (\<exists>im \<in> set ims. pr_path q = im_path im) \<and> (\<forall>x < pr_len q. flash1 ! (pr_start q + x) = 0xFF)"
    if q: "q \<in> set rs" for q
  proof (cases "q = r")
    case False
    then have "pr_path q \<noteq> im_path im" using ranges_apart(2) [OF assms(1) q r(1)] r(2) by simp
    then show ?thesis using Cons.prems(3) [OF q] keep [OF q False] l(5) [OF q False] by auto
  qed (use one in simp)
  then have "\<exists>ims' flash' t' e'. load_loop h n ims (flash1, t + k, max e (unat (im_offset im) + k)) = (True, ims', flash', t', e') \<and>
      length flash' = n \<and> (\<forall>r \<in> set rs. holds h flash' r)"
    using Cons.prems(1) by (intro Cons.IH l(2)) auto
  then show ?case using l(1) by auto
qed simp

text \<open>Flushing the bytes that changed keeps files and flash in step.\<close>

lemma flush_file:
  assumes "ranges_ok n rs" "\<And>f. hf_can_write h f \<and> n \<le> hf_room h f" "length flash = n" "q \<in> set rs"
  shows "hf_files (fold (\<lambda>r h. if P r then persist_write flash r h else h) rs h) (pr_path q) =
    (if P q then Some (take (pr_len q) (drop (pr_start q) flash)) else hf_files h (pr_path q))"
  using assms
proof (induction rs arbitrary: h)
  case (Cons r rs)
  have ok: "ranges_ok n rs" using Cons.prems(1) by (simp add: ranges_ok_def)
  have other: "hf_files (fold (\<lambda>r h. if P r then persist_write flash r h else h) rs h) p = hf_files h p"
    if "p \<notin> pr_path ` set rs" for p h
    using that by (induction rs arbitrary: h) (auto simp: persist_write_def)
  have w: "hf_files (persist_write flash r h) = (hf_files h)(pr_path r := Some (take (pr_len r) (drop (pr_start r) flash)))"
  proof -
    have "take (hf_room h (pr_path r)) (take (pr_len r) (drop (pr_start r) flash)) = take (pr_len r) (drop (pr_start r) flash)"
      using Cons.prems(2) [of "pr_path r"] Cons.prems(3) by (intro take_all) (auto simp: min_def)
    then show ?thesis using Cons.prems(2) [of "pr_path r"] by (simp add: persist_write_def del: take_take)
  qed
  have w2: "hf_can_write (persist_write flash r h) f \<and> n \<le> hf_room (persist_write flash r h) f" for f
    using Cons.prems(2) by (simp add: persist_write_def)
  show ?case
  proof (cases "q = r")
    case True
    have "pr_path r \<notin> pr_path ` set rs" using Cons.prems(1) by (auto simp: ranges_ok_def)
    then show ?thesis using True w by (simp add: other)
  next
    case False
    then have q: "q \<in> set rs" using Cons.prems(4) by simp
    moreover have "pr_path r \<notin> pr_path ` set rs" using Cons.prems(1) by (auto simp: ranges_ok_def)
    ultimately have "pr_path q \<noteq> pr_path r" by (metis image_eqI)
    then show ?thesis
      using Cons.IH [OF ok Cons.prems(2,3) q] Cons.IH [OF ok w2 Cons.prems(3) q] w by simp
  qed
qed simp

lemma flush_hosts: "hf_can_write (mm_flash_persist_flush p flash a s h) = hf_can_write h"
  "hf_room (mm_flash_persist_flush p flash a s h) = hf_room h"
proof -
  have "hf_can_write (fold (\<lambda>r h. if P r then persist_write flash r h else h) rs h) = hf_can_write h \<and>
    hf_room (fold (\<lambda>r h. if P r then persist_write flash r h else h) rs h) = hf_room h" for P rs
    by (induction rs arbitrary: h) (simp_all add: persist_write_def)
  then show "hf_can_write (mm_flash_persist_flush p flash a s h) = hf_can_write h"
    "hf_room (mm_flash_persist_flush p flash a s h) = hf_room h" by (simp_all add: mm_flash_persist_flush_def)
qed

text \<open>A store of the machine: the bytes change in the flash and the flash controller flushes them.\<close>

definition persist_store :: "mm_flash_persist \<Rightarrow> u32 \<times> u8 list \<Rightarrow> u8 list \<times> host_files \<Rightarrow> u8 list \<times> host_files"
  where "persist_store p st x =
    (let (a, bs) = st; (flash, h) = x; flash = take (unat a) flash @ bs @ drop (unat a + length bs) flash
     in (flash, mm_flash_persist_flush p flash a (of_nat (length bs)) h))"

lemma store_in_step:
  assumes "ranges_ok n (fp_ranges p)" "fp_enabled p" "n < 2 ^ 32" "length flash = n" "\<And>f. hf_can_write h f \<and> n \<le> hf_room h f"
    "in_step h (fp_ranges p) flash" "unat a + length bs \<le> n"
  shows "let (flash', h') = persist_store p (a, bs) (flash, h) in
    length flash' = n \<and> in_step h' (fp_ranges p) flash' \<and> hf_can_write h' = hf_can_write h \<and> hf_room h' = hf_room h"
proof (cases "bs = []")
  case False
  define flash' where "flash' = take (unat a) flash @ bs @ drop (unat a + length bs) flash"
  define z :: u32 where "z = of_nat (length bs)"
  have z: "unat z = length bs" "z \<noteq> 0" "unat (a + z) = unat a + length bs"
  proof -
    show "unat z = length bs" using assms(3,7) by (simp add: z_def unat_of_nat)
    then show "unat (a + z) = unat a + length bs" using assms(3,7) by (simp add: unat_word_ariths)
    show "z \<noteq> 0" using \<open>unat z = length bs\<close> False by auto
  qed
  have len: "length flash' = n" using assms(4,7) by (simp add: flash'_def)
  have out: "flash' ! i = flash ! i" if "i < unat a \<or> unat a + length bs \<le> i" "i < n" for i
    using that assms(4,7) by (auto simp: flash'_def nth_append)
  define h' where "h' = mm_flash_persist_flush p flash' a z h"
  have fl: "hf_files h' (pr_path r) = (if persist_touched a z r then Some (take (pr_len r) (drop (pr_start r) flash'))
      else hf_files h (pr_path r))" if "r \<in> set (fp_ranges p)" for r
    using flush_file [OF assms(1,5) len that, of "persist_touched a z"] assms(2) z(2)
    by (simp add: h'_def mm_flash_persist_flush_def)
  have "fits h' r \<and> holds h' flash' r" if r: "r \<in> set (fp_ranges p)" for r
  proof (cases "persist_touched a z r")
    case True
    have "pr_start r + pr_len r \<le> n" by (rule ranges_apart(3) [OF assms(1) r r])
    then show ?thesis using fl [OF r] True len by (simp add: fits_def holds_def range_content_def)
  next
    case False
    have b: "pr_start r + pr_len r \<le> n" by (rule ranges_apart(3) [OF assms(1) r r])
    then have "unat (pr_offset r + pr_length r) = pr_start r + pr_len r" using assms(3) by (simp add: unat_word_ariths)
    then have "unat a + length bs \<le> pr_start r \<or> pr_start r + pr_len r \<le> unat a"
      using False z by (simp add: persist_touched_def Let_def word_le_nat_alt)
    then have "flash' ! (pr_start r + x) = flash ! (pr_start r + x)" if "x < pr_len r" for x
      using that b by (intro out) auto
    then show ?thesis using assms(6) r fl [OF r] False by (simp add: in_step_def fits_def holds_def range_content_def)
  qed
  then show ?thesis using len
    by (simp add: persist_store_def flash'_def [symmetric] z_def [symmetric] h'_def [symmetric] in_step_def)
      (simp add: h'_def flush_hosts)
qed (use assms in \<open>simp add: persist_store_def mm_flash_persist_flush_def\<close>)

lemma stores_in_step:
  assumes "ranges_ok n (fp_ranges p)" "fp_enabled p" "n < 2 ^ 32" "length flash = n" "\<And>f. hf_can_write h f \<and> n \<le> hf_room h f"
    "in_step h (fp_ranges p) flash" "\<And>a bs. (a, bs) \<in> set ws \<Longrightarrow> unat a + length bs \<le> n"
  shows "let (flash', h') = fold (persist_store p) ws (flash, h) in length flash' = n \<and> in_step h' (fp_ranges p) flash'"
  using assms(4-)
proof (induction ws arbitrary: flash h)
  case (Cons w ws)
  obtain a bs where w: "w = (a, bs)" by fastforce
  obtain flash1 h1 where 1: "persist_store p w (flash, h) = (flash1, h1)" by fastforce
  then have "length flash1 = n \<and> in_step h1 (fp_ranges p) flash1 \<and> hf_can_write h1 = hf_can_write h \<and> hf_room h1 = hf_room h"
    using store_in_step [OF assms(1-3) Cons.prems(1,2,3), of a bs] Cons.prems(4) [of a bs] by (simp add: w)
  then show ?case using Cons.IH [of flash1 h1] Cons.prems(2,4) 1 by simp
qed simp

lemma reload_holds:
  assumes "ranges_ok n rs" "\<And>r. r \<in> set rs \<Longrightarrow> fits h r" "length flash0 = n"
    "\<And>im. im \<in> set ims \<Longrightarrow> \<exists>r \<in> set rs. pr_path r = im_path im \<and> pr_offset r = im_offset im"
    "\<And>r. r \<in> set rs \<Longrightarrow> \<exists>im \<in> set ims. pr_path r = im_path im"
  shows "\<exists>ims' flash t e. reload_images h n (ims, flash0, t0, e0) = (True, ims', flash, t, e) \<and> length flash = n \<and>
    in_step h rs flash"
proof -
  have "pr_start r + x < n" if "r \<in> set rs" "x < pr_len r" for r x
    using ranges_apart(3) [OF assms(1) that(1) that(1)] that(2) by simp
  then have "\<exists>ims' flash' t' e'. load_loop h n ims (replicate n 0xFF, 0, 0) = (True, ims', flash', t', e') \<and> length flash' = n \<and>
      (\<forall>r \<in> set rs. holds h flash' r)"
    using assms(4,5) by (intro load_loop_holds [OF assms(1,2)]) auto
  then show ?thesis using assms(2,3) by (auto simp: reload_images_def in_step_def)
qed

text \<open>C14: what the firmware stores in its flash survives a restart.  Let at most 16 images with different
  files and different offsets have been loaded, none reaching into the next one, and let the host's
  files be writable.  After any sequence of stores that stay inside the flash, each followed by the
  flush that the flash controllers make, a restart that reloads the images succeeds and finds in
  the flash, from the first image on, exactly the bytes that were there.\<close>

theorem persist_survives_restart:
  assumes "ims \<noteq> []" "length ims \<le> 16" "distinct (map im_path ims)" "distinct (map im_offset ims)"
    "\<forall>im \<in> set ims. im_offset im \<le> fsz" "length flash0 = unat fsz"
    "p = mm_flash_persist_build fsz (map im_path ims) (map im_offset ims)"
    "\<forall>r \<in> set (fp_ranges p). fits h r" "\<forall>f. hf_can_write h f \<and> unat fsz \<le> hf_room h f"
    "\<forall>(a, bs) \<in> set ws. unat a + length bs \<le> unat fsz"
    "reload_images h (unat fsz) (ims, flash0, t0, e0) = (True, ims1, flash, t1, e1)"
    "im \<in> set ims" "unat (im_offset im) \<le> x" "x < unat fsz"
  shows "let (flash', h') = fold (persist_store p) ws (flash, h);
             (ok, _, flash'', _) = reload_images h' (unat fsz) (ims, flash', t1, e1)
         in ok \<and> flash'' ! x = flash' ! x"
proof -
  let ?rs = "fp_ranges p" and ?n = "unat fsz"
  have B: "ranges_ok ?n ?rs" "\<And>im. im \<in> set ims \<Longrightarrow> \<exists>r \<in> set ?rs. pr_path r = im_path im \<and> pr_offset r = im_offset im"
    "\<And>r. r \<in> set ?rs \<Longrightarrow> \<exists>im \<in> set ims. pr_path r = im_path im" "\<exists>r \<in> set ?rs. pr_start r \<le> x \<and> x < pr_start r + pr_len r"
  proof -
    note R = build_ranges [OF assms(4,3), of fsz, folded assms(7)]
    have z: "\<And>z. z \<in> set (map im_offset ims) \<Longrightarrow> z \<le> fsz" using assms(5) by auto
    show "ranges_ok ?n ?rs" using R(1) assms(1,2) z by simp
    show "\<exists>r \<in> set ?rs. pr_path r = im_path im \<and> pr_offset r = im_offset im" if im: "im \<in> set ims" for im
    proof -
      obtain k where "k < length ims" "im = ims ! k" using im by (auto simp: in_set_conv_nth)
      then show ?thesis using R(2) [of k] assms(1,2) z by simp
    qed
    show "\<exists>im \<in> set ims. pr_path r = im_path im" if r: "r \<in> set ?rs" for r
      using R(3) [OF _ _ _ _ r] assms(1,2) z by auto
    show "\<exists>r \<in> set ?rs. pr_start r \<le> x \<and> x < pr_start r + pr_len r"
      using R(4) [of "im_offset im" x] assms(1,2,12,13,14) z by simp
  qed
  have fit: "\<And>r. r \<in> set ?rs \<Longrightarrow> fits h r" using assms(8) by blast
  have step: "in_step h ?rs flash \<and> length flash = ?n"
    using reload_holds [OF B(1) fit assms(6) B(2,3), of t0 e0] assms(11) by auto
  have en: "fp_enabled p" using assms(1) by (simp add: assms(7) mm_flash_persist_build_def Let_def)
  have n32: "unat fsz < 2 ^ 32" using unsigned_less [of fsz] by simp
  obtain flash' h' where w: "fold (persist_store p) ws (flash, h) = (flash', h')" by fastforce
  have st: "length flash' = ?n \<and> in_step h' ?rs flash'"
    using stores_in_step [OF B(1) en n32, of flash h ws] step assms(9,10) w by fastforce
  then have fit': "\<And>r. r \<in> set ?rs \<Longrightarrow> fits h' r" by (simp add: in_step_def)
  obtain ims2 flash'' t2 e2 where l: "reload_images h' ?n (ims, flash', t1, e1) = (True, ims2, flash'', t2, e2)"
    "in_step h' ?rs flash''"
    using reload_holds [OF B(1) fit' _ B(2,3), of flash' t1 e1] st by auto
  obtain r where r: "r \<in> set ?rs" "pr_start r \<le> x" "x < pr_start r + pr_len r" using B(4) by blast
  then have k: "x - pr_start r < pr_len r" "pr_start r + (x - pr_start r) = x" by simp_all
  have "holds h' flash'' r" "holds h' flash' r" using l(2) st r(1) by (simp_all add: in_step_def)
  then have "flash'' ! (pr_start r + (x - pr_start r)) = flash' ! (pr_start r + (x - pr_start r))"
    using k(1) by (simp add: holds_def del: le_add_diff_inverse)
  then show ?thesis using l(1) w k(2) by simp
qed

text \<open>Two images, loaded from files of two and one bytes at the offsets 0 and 4 of a flash of 8 bytes.\<close>

definition demo_images :: "mm_image_spec list"
  where "demo_images = [\<lparr>im_path = [0x61], im_offset = 0, im_loaded = 0\<rparr>, \<lparr>im_path = [0x62], im_offset = 4, im_loaded = 0\<rparr>]"

definition demo_files :: host_files
  where "demo_files = \<lparr>hf_files = [[0x61] \<mapsto> [1, 2], [0x62] \<mapsto> [3]], hf_can_write = (\<lambda>_. True), hf_room = (\<lambda>_. 8)\<rparr>"

lemma demo_ranges: "fp_ranges (mm_flash_persist_build 8 (map im_path demo_images) (map im_offset demo_images)) =
  [\<lparr>pr_path = [0x61], pr_offset = 0, pr_length = 4\<rparr>, \<lparr>pr_path = [0x62], pr_offset = 4, pr_length = 4\<rparr>]"
  by (simp add: mm_flash_persist_build_def demo_images_def sort_indices_def sort_swap_def persist_one_def upt_rec Let_def)

lemma demo_reload: "reload_images demo_files 8 (demo_images, replicate 8 0, 0, 0) =
  (True, [\<lparr>im_path = [0x61], im_offset = 0, im_loaded = 2\<rparr>, \<lparr>im_path = [0x62], im_offset = 4, im_loaded = 1\<rparr>],
   [1, 2, 0xFF, 0xFF, 3, 0xFF, 0xFF, 0xFF], 3, 5)"
  by code_simp

theorem persist_survives_restart_witness:
  "let p = mm_flash_persist_build 8 (map im_path demo_images) (map im_offset demo_images);
       (flash', h') = fold (persist_store p) [(3, [9, 9])] ([1, 2, 0xFF, 0xFF, 3, 0xFF, 0xFF, 0xFF], demo_files);
       (ok, _, flash'', _) = reload_images h' 8 (demo_images, flash', 3, 5)
   in ok \<and> flash'' ! 4 = flash' ! 4"
proof -
  have "fits demo_files \<lparr>pr_path = [0x61], pr_offset = 0, pr_length = 4\<rparr>" "fits demo_files \<lparr>pr_path = [0x62], pr_offset = 4, pr_length = 4\<rparr>"
    by (simp_all add: fits_def demo_files_def)
  moreover have "\<forall>f. hf_can_write demo_files f \<and> 8 \<le> hf_room demo_files f" by (simp add: demo_files_def)
  moreover have "demo_images \<noteq> []" "length demo_images \<le> 16" "distinct (map im_path demo_images)" "distinct (map im_offset demo_images)"
    "\<forall>im \<in> set demo_images. im_offset im \<le> 8" "demo_images ! 0 \<in> set demo_images" "im_offset (demo_images ! 0) = 0"
    by (simp_all add: demo_images_def)
  ultimately show ?thesis
    using persist_survives_restart [of demo_images 8 "replicate 8 0" _ demo_files "[(3, [9, 9])]" 0 0 _ _ 3 5 "demo_images ! 0" 4,
      OF _ _ _ _ _ _ refl]
    by (simp add: demo_ranges demo_reload Let_def)
qed

text \<open>Two images at one offset: the first in the order of the ranges gets an empty range, and a store
  that begins before it and ends behind it empties the file.\<close>

lemma persist_equal_offsets:
  "let p = mm_flash_persist_build 8 [[0x61], [0x62]] [4, 4];
       h = demo_files\<lparr>hf_files := [[0x61] \<mapsto> [1, 2], [0x62] \<mapsto> [3]]\<rparr>
   in hf_files (snd (persist_store p (3, [9, 9]) (replicate 8 0xFF, h))) [0x61] = Some []"
  by (simp add: mm_flash_persist_build_def sort_indices_def sort_swap_def persist_one_def upt_rec Let_def persist_store_def
    mm_flash_persist_flush_def persist_touched_def persist_write_def demo_files_def)

subsection \<open>Reading image specifications\<close>

text \<open>Decimal numbers as a user writes them.\<close>

fun dec_string :: "nat \<Rightarrow> cstr" where
  "dec_string n = (if n < 10 then [0x30 + of_nat n] else dec_string (n div 10) @ [0x30 + of_nat (n mod 10)])"

declare dec_string.simps [simp del]

lemma dec_char:
  assumes "d < 10"
  shows "dec_digit (0x30 + of_nat d)" "nat (hex_to_nibble (0x30 + of_nat d)) = d" "(of_nat d :: u8) = 0 \<longleftrightarrow> d = 0"
proof -
  have "d \<in> {0, 1, 2, 3, 4, 5, 6, 7, 8, 9}" using assms by auto
  then show "dec_digit (0x30 + of_nat d)" "nat (hex_to_nibble (0x30 + of_nat d)) = d" "(of_nat d :: u8) = 0 \<longleftrightarrow> d = 0"
    by (auto simp: dec_digit_def hex_to_nibble_def oct_digit_def)
qed

lemma digits_snoc: "digits_value b (ds @ [c]) = digits_value b ds * b + nat (hex_to_nibble c)"
  by (simp add: digits_value_def)

lemma dec_string_digits:
  "dec_string n \<noteq> []" "list_all dec_digit (dec_string n)" "digits_value 10 (dec_string n) = n"
  "0 < n \<Longrightarrow> hd (dec_string n) \<noteq> 0x30"
proof (induction n rule: dec_string.induct)
  case (1 n)
  let ?c = "0x30 + of_nat (n mod 10) :: u8"
  { case 1 show ?case by (simp add: dec_string.simps [of n]) }
  { case 2 show ?case using "1.IH"(2) by (simp add: dec_string.simps [of n] dec_char) }
  { case 3 show ?case
      using "1.IH"(3) by (simp add: dec_string.simps [of n] digits_snoc dec_char) (simp add: digits_value_def dec_char) }
  { case 4 then show ?case using "1.IH"(1,4) by (simp add: dec_string.simps [of n] dec_char hd_append) }
qed

lemma dec_not_others: "dec_digit c \<Longrightarrow> \<not> is_space c \<and> c \<noteq> 0x2D \<and> c \<noteq> 0x2B \<and> c \<noteq> 0x3A \<and> c \<noteq> 0x78 \<and> c \<noteq> 0x58"
  by (auto simp: dec_digit_def is_space_def word_le_nat_alt)

lemma strtoul_dec:
  assumes "n < 2 ^ 64"
  shows "strtoul0 (dec_string n) = (of_nat n, [])"
proof (cases "n = 0")
  case True
  then show ?thesis
    by (simp add: dec_string.simps strtoul0_def number_prefix_def is_space_def scan_sign_def oct_digit_def digits_value_def hex_to_nibble_def)
next
  case False
  obtain c cs where d: "dec_string n = c # cs" using dec_string_digits(1) [of n] by (cases "dec_string n") auto
  have all: "list_all dec_digit (c # cs)" "digits_value 10 (c # cs) = n" "c \<noteq> 0x30"
    using dec_string_digits [of n] False by (simp_all add: d)
  have c: "\<not> is_space c" "scan_sign (c # cs) = (False, c # cs)" using all(1) dec_not_others by (auto simp: scan_sign_def)
  have "takeWhile dec_digit (c # cs) = c # cs" "dropWhile dec_digit (c # cs) = []"
    using all(1) by (simp_all add: list_all_iff takeWhile_eq_all_conv dropWhile_eq_Nil_conv)
  moreover have "dropWhile is_space (c # cs) = c # cs" using c(1) by simp
  moreover have "number_prefix (c # cs) = (10, dec_digit, c # cs)" using all(3) by (simp add: number_prefix_def)
  ultimately show ?thesis using c(2) all(2) assms unfolding strtoul0_def d
    by (simp only: Let_def prod.case) simp
qed

text \<open>The image argument means what it says: for every file name, colons included, and every offset of
  32 bits, the argument made of the name, a colon and the offset in decimal is read as that name and offset.\<close>

theorem image_spec_roundtrip: "parse_image_spec (path @ 0x3A # dec_string (unat off)) = (path, off)"
proof -
  let ?ds = "dec_string (unat off)"
  have all: "list_all dec_digit ?ds" by (rule dec_string_digits(2))
  then have nc: "\<forall>c \<in> set (rev ?ds). c \<noteq> 0x3A" using dec_not_others by (auto simp: list_all_iff)
  have t: "takeWhile (\<lambda>x. x \<noteq> 0x3A) (rev ?ds @ 0x3A # rev path) = rev ?ds" "dropWhile (\<lambda>x. x \<noteq> 0x3A) (rev ?ds @ 0x3A # rev path) = 0x3A # rev path"
    using nc by (auto simp: takeWhile_append dropWhile_append)
  have "unat off < 2 ^ 32" using unsigned_less [of off] by simp
  then have "unat off < 2 ^ 64" by simp
  then have "strtoul0 ?ds = (of_nat (unat off), [])" by (rule strtoul_dec)
  moreover have "to_u32 (of_nat (unat off) :: u64) = off" by (rule bit_word_eqI) (auto simp: to_u32_def bit_simps)
  ultimately have p: "parse_u32 ?ds = Some off" using dec_string_digits(1) [of "unat off"] by (simp add: parse_u32_def Let_def)
  obtain c cs where d: "?ds = c # cs" using dec_string_digits(1) [of "unat off"] by (cases ?ds) auto
  have "dec_digit c" using all by (simp add: d)
  with t p show ?thesis unfolding d by (simp add: parse_image_spec_def Let_def)
qed

text \<open>An offset that does not fit in 32 bits is not refused but cut: the image goes to the start of the flash.\<close>

lemma image_spec_offset_cut:
  "parse_image_spec ([0x66] @ 0x3A # dec_string 4294967296) = ([0x66], 0)"
proof -
  have "dec_string 4294967296 = [0x34, 0x32, 0x39, 0x34, 0x39, 0x36, 0x37, 0x32, 0x39, 0x36]"
    by (simp add: dec_string.simps)
  moreover have "strtoul0 (dec_string 4294967296) = (0x100000000, [])" by (subst strtoul_dec) simp_all
  ultimately show ?thesis by (simp add: parse_image_spec_def parse_u32_def dec_digit_def to_u32_def Let_def)
qed

end
