(* ===== verification/Mcxw_Soc.thy ===== *)
theory Mcxw_Soc
imports Soc_Regs Spi_Bus Target_Hal Mem_Prot
begin

text \<open>
  The MCXW71C, \<^verbatim>\<open>cpu/mcxw71c/\<close>: the module control (MRCC) with the clock and reset bits of every
  block, GPIO with its edge interrupts, the pin multiplexers (PORT), the interval timer (LPIT), two SPI
  masters (LPSPI) and two UARTs (LPUART), all in one record with the interrupt controller, the SPI devices and
  the host.

  The handlers of a block get the MRCC registers as an argument, since each begins with the test that its clock
  is on and its reset released.  A write to a UART whose flush does not return leaves
  \<^verbatim>\<open>mx_stuck\<close> set; it never is on a host that obeys POSIX (\<^verbatim>\<open>mcx_uart_write_returns\<close>).  The texts for the user
  interface are left out.
\<close>

record port_state =
  po_regs :: regs
  po_pcr :: "nat \<Rightarrow> u32"
  po_last_pdir :: u32

record lpit_state =
  lt_regs :: regs
  lt_tval :: "nat \<Rightarrow> u32"
  lt_cval :: "nat \<Rightarrow> u32"
  lt_tctrl :: "nat \<Rightarrow> u32"

record lpspi_inst =
  ls_base :: u32
  ls_regs :: regs
  ls_bus_index :: int
  ls_last_rx :: u8
  ls_rx_valid :: bool
  ls_enabled :: bool
  ls_mrcc_offset :: u32

record lpuart_inst =
  lu_base :: u32
  lu_regs :: regs
  lu_io :: mm_uart_io
  lu_enabled :: bool
  lu_mrcc_offset :: u32

record 'd mcx_soc =
  mx_mrcc :: regs
  mx_gpio :: "nat \<Rightarrow> regs"
  mx_ports :: "nat \<Rightarrow> port_state"
  mx_lpit :: lpit_state
  mx_spis :: "lpspi_inst list"
  mx_spi_count :: nat
  mx_uarts :: "lpuart_inst list"
  mx_uart_count :: nat
  mx_nvic :: mm_nvic
  mx_gpio_nvic :: bool
  mx_lpit_nvic :: bool
  mx_devs :: "'d mm_spi_device list"
  mx_dev :: 'd
  mx_host :: uart_host
  mx_stuck :: bool

abbreviation "MRCC_LPIT0 \<equiv> (0xBC :: u32)"
abbreviation "MRCC_SIZE \<equiv> (0x800 :: u32)"
abbreviation "MCX_GPIO_SIZE \<equiv> (0x200 :: u32)"
abbreviation "PDOR \<equiv> (0x40 div 4 :: nat)"
abbreviation "PDIR \<equiv> (0x50 div 4 :: nat)"
abbreviation "PDDR \<equiv> (0x54 div 4 :: nat)"
abbreviation "GPIO_ISFR \<equiv> (0x120 div 4 :: nat)"
abbreviation "PORT_EDFR \<equiv> (0x40 div 4 :: nat)"
abbreviation "PORT_EDIER \<equiv> (0x44 div 4 :: nat)"

subsection \<open>Module control\<close>

definition mcx_mrcc_clock_on :: "regs \<Rightarrow> u32 \<Rightarrow> bool"
  where "mcx_mrcc_clock_on m offset = (if offset \<ge> MRCC_SIZE then False else m (unat (offset div 4)) AND 0x3 \<noteq> 0)"

definition mcx_mrcc_reset_released :: "regs \<Rightarrow> u32 \<Rightarrow> bool"
  where "mcx_mrcc_reset_released m offset =
    (if offset \<ge> MRCC_SIZE then False else drop_bit 30 (m (unat (offset div 4))) AND 1 \<noteq> 0)"

definition mrcc_read :: "regs \<Rightarrow> u32 \<Rightarrow> u32 \<Rightarrow> u32 option"
  where "mrcc_read m offset size_bytes = block_read MRCC_SIZE m offset size_bytes"

definition mrcc_write :: "regs \<Rightarrow> u32 \<Rightarrow> u32 \<Rightarrow> u32 \<Rightarrow> bool \<times> regs"
  where "mrcc_write m offset size_bytes v =
    (if bad_size size_bytes then (False, m)
     else if offset + size_bytes > MRCC_SIZE then (False, m)
     else if size_bytes \<noteq> 4 then (False, m)
     else (True, m(unat (offset div 4) := v OR 0x80000000)))"

text \<open>The test at the head of the handlers.\<close>

definition mcx_on :: "regs \<Rightarrow> u32 \<Rightarrow> bool"
  where "mcx_on m offset = (mcx_mrcc_clock_on m offset \<and> mcx_mrcc_reset_released m offset)"

subsection \<open>GPIO\<close>

definition mcx_gpio_bank_enabled :: "regs \<Rightarrow> nat \<Rightarrow> bool"
  where "mcx_gpio_bank_enabled m bank =
    (if bank = 0 then mcx_on m 0x404 else if bank = 1 then mcx_on m 0x408 else if bank = 2 then mcx_on m 0x40C else True)"

definition port_index_for_bank :: "nat \<Rightarrow> nat option"
  where "port_index_for_bank bank = (if bank < 3 then Some bank else None)"

definition mcx_set_gpio :: "nat \<Rightarrow> nat \<Rightarrow> u32 \<Rightarrow> 'd mcx_soc \<Rightarrow> 'd mcx_soc"
  where "mcx_set_gpio bank i v s = s\<lparr>mx_gpio := (mx_gpio s)(bank := (mx_gpio s bank)(i := v))\<rparr>"

text \<open>Each bank has two interrupts, for its lower and its upper sixteen pins.\<close>

definition mcx_gpio_raise_irq :: "nat \<Rightarrow> 'd mcx_soc \<Rightarrow> 'd mcx_soc"
  where "mcx_gpio_raise_irq bank s =
    (if \<not> mx_gpio_nvic s then s
     else if bank \<ge> 4 then s
     else
       (let isfr = mx_gpio s bank GPIO_ISFR; low = isfr AND 0xFFFF; high = isfr AND 0xFFFF0000;
            irq0 = [59, 61, 63, 65] ! bank; irq1 = [60, 62, 64, 66] ! bank
        in s\<lparr>mx_nvic := mm_nvic_set_pending (mm_nvic_set_pending (mx_nvic s) irq0 (low \<noteq> 0)) irq1 (high \<noteq> 0)\<rparr>))"

definition mcx_gpio_update_edges :: "nat \<Rightarrow> u32 \<Rightarrow> u32 \<Rightarrow> 'd mcx_soc \<Rightarrow> 'd mcx_soc"
  where "mcx_gpio_update_edges bank old_pdir new_pdir s =
    (let delta = old_pdir XOR new_pdir in
     if delta = 0 then s
     else case port_index_for_bank bank of
       Some i \<Rightarrow>
         (let p = mx_ports s i; fired = delta AND po_regs p PORT_EDIER in
          if fired \<noteq> 0 then
            (let s = s\<lparr>mx_ports := (mx_ports s)(i := p\<lparr>po_regs := (po_regs p)(PORT_EDFR := po_regs p PORT_EDFR OR fired)\<rparr>)\<rparr>
             in mcx_gpio_raise_irq bank (mcx_set_gpio bank GPIO_ISFR (mx_gpio s bank GPIO_ISFR OR fired) s))
          else s)
     | None \<Rightarrow> mcx_gpio_raise_irq bank (mcx_set_gpio bank GPIO_ISFR (mx_gpio s bank GPIO_ISFR OR delta) s))"

definition mcx_gpio_read :: "nat \<Rightarrow> u32 \<Rightarrow> u32 \<Rightarrow> 'd mcx_soc \<Rightarrow> u32 option"
  where "mcx_gpio_read bank offset size_bytes s =
    (if bad_size size_bytes then None
     else if \<not> mcx_gpio_bank_enabled (mx_mrcc s) bank then None
     else if offset + size_bytes > MCX_GPIO_SIZE then None
     else Some (regs_load (mx_gpio s bank) (unat offset) (unat size_bytes)))"

definition gpio_sync_pdir :: "nat \<Rightarrow> 'd mcx_soc \<Rightarrow> 'd mcx_soc"
  where "gpio_sync_pdir bank s = mcx_set_gpio bank PDIR (mx_gpio s bank PDOR) s"

text \<open>The four output registers: a new value of the pins, and the edges it makes.\<close>

definition mcx_gpio_output :: "nat \<Rightarrow> u32 \<Rightarrow> 'd mcx_soc \<Rightarrow> 'd mcx_soc"
  where "mcx_gpio_output bank v s =
    (let old_pdir = mx_gpio s bank PDIR; s = gpio_sync_pdir bank (mcx_set_gpio bank PDOR v s)
     in mcx_gpio_update_edges bank old_pdir (mx_gpio s bank PDIR) s)"

definition mcx_gpio_write :: "nat \<Rightarrow> u32 \<Rightarrow> u32 \<Rightarrow> u32 \<Rightarrow> 'd mcx_soc \<Rightarrow> bool \<times> 'd mcx_soc"
  where "mcx_gpio_write bank offset size_bytes v s =
    (if bad_size size_bytes then (False, s)
     else if \<not> mcx_gpio_bank_enabled (mx_mrcc s) bank then (False, s)
     else if offset + size_bytes > MCX_GPIO_SIZE then (False, s)
     else (True,
       let out = mx_gpio s bank PDOR; w = (size_bytes = 4) in
       if offset = 0x120 \<and> w then mcx_gpio_raise_irq bank (mcx_set_gpio bank GPIO_ISFR (mx_gpio s bank GPIO_ISFR AND NOT v) s)
       else if offset = 0x40 \<and> w then mcx_gpio_output bank v s
       else if offset = 0x44 \<and> w then mcx_gpio_output bank (out OR v) s
       else if offset = 0x48 \<and> w then mcx_gpio_output bank (out AND NOT v) s
       else if offset = 0x4C \<and> w then mcx_gpio_output bank (out XOR v) s
       else if offset = 0x54 \<and> w then
         (let old_pdir = mx_gpio s bank PDIR; s = mcx_set_gpio bank PDDR v s
          in mcx_gpio_update_edges bank old_pdir (mx_gpio s bank PDIR) s)
       else s\<lparr>mx_gpio := (mx_gpio s)(bank := regs_store (mx_gpio s bank) (unat offset) (unat size_bytes) v)\<rparr>))"

subsection \<open>Pin multiplexers\<close>

definition port_enabled :: "regs \<Rightarrow> nat \<Rightarrow> bool"
  where "port_enabled m idx =
    (if idx = 0 then mcx_on m 0x108 else if idx = 1 then mcx_on m 0x10C else if idx = 2 then mcx_on m 0x110 else True)"

definition port_read :: "regs \<Rightarrow> nat \<Rightarrow> u32 \<Rightarrow> u32 \<Rightarrow> port_state \<Rightarrow> u32 option"
  where "port_read m idx offset size_bytes p =
    (if bad_size size_bytes then None
     else if \<not> port_enabled m idx then None
     else if offset + size_bytes > 0x200 then None
     else if size_bytes = 4 \<and> offset \<ge> 0x80 \<and> offset < 0x80 + 0x18 then Some (po_pcr p (unat ((offset - 0x80) div 4)))
     else if size_bytes = 4 \<and> offset \<ge> 0xC0 \<and> offset < 0xC0 + 0x1C then Some (po_pcr p (16 + unat ((offset - 0xC0) div 4)))
     else Some (regs_load (po_regs p) (unat offset) (unat size_bytes)))"

definition port_write_pcr :: "nat \<Rightarrow> u32 \<Rightarrow> port_state \<Rightarrow> port_state"
  where "port_write_pcr pin v p = (if pin \<ge> 32 then p else p\<lparr>po_pcr := (po_pcr p)(pin := v)\<rparr>)"

text \<open>The two registers that write the lower halves of the pin registers selected by a mask, from pin
  \<^verbatim>\<open>first\<close> on.\<close>

definition port_global_write :: "nat \<Rightarrow> u32 \<Rightarrow> port_state \<Rightarrow> port_state"
  where "port_global_write first v p =
    (let gpwe = v AND 0xFFFF; gpwd = drop_bit 16 v AND 0xFFFF
     in fold (\<lambda>pin p. if drop_bit pin gpwe AND 1 \<noteq> 0
                      then port_write_pcr (first + pin) ((po_pcr p (first + pin) AND 0xFFFF0000) OR gpwd) p else p)
          [0..<16] p)"

definition port_write :: "regs \<Rightarrow> nat \<Rightarrow> u32 \<Rightarrow> u32 \<Rightarrow> u32 \<Rightarrow> port_state \<Rightarrow> bool \<times> port_state"
  where "port_write m idx offset size_bytes v p =
    (if bad_size size_bytes then (False, p)
     else if \<not> port_enabled m idx then (False, p)
     else if offset + size_bytes > 0x200 then (False, p)
     else (True,
       let w = (size_bytes = 4) in
       if w \<and> offset \<ge> 0x80 \<and> offset < 0x80 + 0x18 then port_write_pcr (unat ((offset - 0x80) div 4)) v p
       else if w \<and> offset \<ge> 0xC0 \<and> offset < 0xC0 + 0x1C then port_write_pcr (16 + unat ((offset - 0xC0) div 4)) v p
       else if w \<and> offset = 0x10 then port_global_write 0 v p
       else if w \<and> offset = 0x14 then port_global_write 16 v p
       else if w \<and> offset = 0x40 then p\<lparr>po_regs := (po_regs p)(PORT_EDFR := po_regs p PORT_EDFR AND NOT v)\<rparr>
       else p\<lparr>po_regs := regs_store (po_regs p) (unat offset) (unat size_bytes) v\<rparr>))"

text \<open>The views of the banks for the user interface.\<close>

definition mcx_gpio_bank_read :: "'d mcx_soc \<Rightarrow> int \<Rightarrow> u32"
  where "mcx_gpio_bank_read s bank = (if bank < 0 \<or> bank \<ge> 4 then 0 else mx_gpio s (nat bank) PDOR)"

definition mcx_gpio_bank_read_moder :: "'d mcx_soc \<Rightarrow> int \<Rightarrow> u32"
  where "mcx_gpio_bank_read_moder s bank =
    (if bank < 0 \<or> bank \<ge> 4 then 0
     else
       (let pddr = mx_gpio s (nat bank) PDDR
        in fold (\<lambda>pin moder.
             let mux = (case port_index_for_bank (nat bank) of None \<Rightarrow> 0
                        | Some i \<Rightarrow> drop_bit 8 (po_pcr (mx_ports s i) pin AND 0xF00))
             in if mux = 0 then moder
                else if mux = 1 then (if drop_bit pin pddr AND 1 \<noteq> 0 then moder OR push_bit (pin * 2) 1 else moder)
                else moder OR push_bit (pin * 2) 2) [0..<16] 0))"

definition mcx_gpio_bank_clock :: "'d mcx_soc \<Rightarrow> int \<Rightarrow> bool"
  where "mcx_gpio_bank_clock s bank =
    (let m = mx_mrcc s in
     if bank = 0 then mcx_on m 0x404 else if bank = 1 then mcx_on m 0x408 else if bank = 2 then mcx_on m 0x40C else True)"

definition mcx_gpio_bank_read_seccfgr :: "int \<Rightarrow> u32"
  where "mcx_gpio_bank_read_seccfgr bank = 0"

subsection \<open>Interval timer\<close>

abbreviation "LPIT_MCR \<equiv> (0x08 div 4 :: nat)"
abbreviation "LPIT_MSR \<equiv> (0x0C div 4 :: nat)"
abbreviation "LPIT_MIER \<equiv> (0x10 div 4 :: nat)"

definition lpit_get_ch_index :: "u32 \<Rightarrow> u32"
  where "lpit_get_ch_index offset =
    (if offset < 0x20 then 0xFFFFFFFF
     else let offset = offset - 0x20 in if offset \<ge> 0x10 * 4 then 0xFFFFFFFF else offset div 0x10)"

definition lpit_read :: "regs \<Rightarrow> u32 \<Rightarrow> u32 \<Rightarrow> lpit_state \<Rightarrow> u32 option"
  where "lpit_read m offset size_bytes l =
    (if bad_size size_bytes then None
     else if \<not> mcx_mrcc_clock_on m MRCC_LPIT0 \<or> \<not> mcx_mrcc_reset_released m MRCC_LPIT0 then None
     else if offset + size_bytes > 0x1000 then None
     else
       (let ch = lpit_get_ch_index offset; coff = offset - (0x20 + ch * 0x10); c = unat ch;
            sel = (size_bytes = 4 \<and> ch \<noteq> 0xFFFFFFFF)
        in Some (if sel \<and> coff = 0x00 then lt_tval l c
                 else if sel \<and> coff = 0x04 then lt_cval l c
                 else if sel \<and> coff = 0x08 then lt_tctrl l c
                 else regs_load (lt_regs l) (unat offset) (unat size_bytes))))"

text \<open>Setting and clearing the enable bits of the channels in a mask.\<close>

definition lpit_setten :: "u32 \<Rightarrow> lpit_state \<Rightarrow> lpit_state"
  where "lpit_setten v l =
    fold (\<lambda>i l. if drop_bit i (v AND 0x0F) AND 1 \<noteq> 0
                then (let l = l\<lparr>lt_tctrl := (lt_tctrl l)(i := lt_tctrl l i OR 1)\<rparr>
                      in if lt_cval l i = 0 then l\<lparr>lt_cval := (lt_cval l)(i := lt_tval l i)\<rparr> else l)
                else l) [0..<4] l"

definition lpit_clrten :: "u32 \<Rightarrow> lpit_state \<Rightarrow> lpit_state"
  where "lpit_clrten v l =
    fold (\<lambda>i l. if drop_bit i (v AND 0x0F) AND 1 \<noteq> 0 then l\<lparr>lt_tctrl := (lt_tctrl l)(i := lt_tctrl l i AND NOT 1)\<rparr> else l)
      [0..<4] l"

definition lpit_write :: "regs \<Rightarrow> u32 \<Rightarrow> u32 \<Rightarrow> u32 \<Rightarrow> lpit_state \<Rightarrow> bool \<times> lpit_state"
  where "lpit_write m offset size_bytes v l =
    (if bad_size size_bytes then (False, l)
     else if \<not> mcx_mrcc_clock_on m MRCC_LPIT0 \<or> \<not> mcx_mrcc_reset_released m MRCC_LPIT0 then (False, l)
     else if offset + size_bytes > 0x1000 then (False, l)
     else
       (let ch = lpit_get_ch_index offset; coff = offset - (0x20 + ch * 0x10); c = unat ch; w = (size_bytes = 4);
            sel = (w \<and> ch \<noteq> 0xFFFFFFFF)
        in (True,
            if sel \<and> coff = 0x00 then
              (let l = l\<lparr>lt_tval := (lt_tval l)(c := v)\<rparr>
               in if lt_tctrl l c AND 1 = 0 then l\<lparr>lt_cval := (lt_cval l)(c := v)\<rparr> else l)
            else if sel \<and> coff = 0x08 then
              (let l = l\<lparr>lt_tctrl := (lt_tctrl l)(c := v)\<rparr>
               in if v AND 1 \<noteq> 0 \<and> lt_cval l c = 0 then l\<lparr>lt_cval := (lt_cval l)(c := lt_tval l c)\<rparr> else l)
            else if w \<and> offset = 0x0C then
              l\<lparr>lt_regs := (lt_regs l)(LPIT_MSR := lt_regs l LPIT_MSR AND NOT (v AND 0x0F))\<rparr>
            else if w \<and> offset = 0x14 then lpit_setten v l
            else if w \<and> offset = 0x18 then lpit_clrten v l
            else l\<lparr>lt_regs := regs_store (lt_regs l) (unat offset) (unat size_bytes) v\<rparr>)))"

text \<open>One channel in a tick, with the status bits collected so far.\<close>

definition lpit_channel :: "u32 \<Rightarrow> nat \<Rightarrow> lpit_state \<times> u32 \<Rightarrow> lpit_state \<times> u32"
  where "lpit_channel step i x =
    (let (l, msr) = x in
     if lt_tctrl l i AND 1 = 0 then x
     else if lt_tctrl l i AND 2 \<noteq> 0 then x
     else if lt_cval l i > step then (l\<lparr>lt_cval := (lt_cval l)(i := lt_cval l i - step)\<rparr>, msr)
     else (l\<lparr>lt_cval := (lt_cval l)(i := lt_tval l i)\<rparr>, msr OR push_bit i 1))"

definition mcx_timers_tick :: "u64 \<Rightarrow> 'd mcx_soc \<Rightarrow> 'd mcx_soc"
  where "mcx_timers_tick cycles s =
    (let l = mx_lpit s; mcr_en = lt_regs l LPIT_MCR AND 1; msr = lt_regs l LPIT_MSR; mier = lt_regs l LPIT_MIER AND 0x0F;
         step = (if cycles > 0xFFFFFFFF then 0xFFFFFFFF else ucast cycles :: u32) in
     if \<not> mcx_mrcc_clock_on (mx_mrcc s) MRCC_LPIT0 \<or> \<not> mcx_mrcc_reset_released (mx_mrcc s) MRCC_LPIT0 then s
     else if mcr_en = 0 \<or> step = 0 then s
     else
       (let (l, msr) = fold (lpit_channel step) [0..<4] (l, msr);
            s = s\<lparr>mx_lpit := l\<lparr>lt_regs := (lt_regs l)(LPIT_MSR := msr)\<rparr>\<rparr>
        in if mx_lpit_nvic s \<and> msr AND mier \<noteq> 0 then s\<lparr>mx_nvic := mm_nvic_set_pending (mx_nvic s) 36 True\<rparr> else s))"

subsection \<open>SPI\<close>

abbreviation "LPSPI_CR \<equiv> (0x10 div 4 :: nat)"
abbreviation "LPSPI_SR \<equiv> (0x14 div 4 :: nat)"
abbreviation "LPSPI_TCR \<equiv> (0x60 div 4 :: nat)"
abbreviation "SR_RDF \<equiv> (0x2 :: u32)"

definition set_lpspi :: "nat \<Rightarrow> u32 \<Rightarrow> lpspi_inst \<Rightarrow> lpspi_inst"
  where "set_lpspi i v s = s\<lparr>ls_regs := (ls_regs s)(i := v)\<rparr>"

definition lpspi_update_sr :: "lpspi_inst \<Rightarrow> lpspi_inst"
  where "lpspi_update_sr s =
    (let sr = ls_regs s LPSPI_SR; sr = sr OR 0x1; sr = (if ls_rx_valid s then sr OR SR_RDF else sr) in set_lpspi LPSPI_SR sr s)"

definition lpspi_read :: "regs \<Rightarrow> u32 \<Rightarrow> u32 \<Rightarrow> lpspi_inst \<Rightarrow> u32 option \<times> lpspi_inst"
  where "lpspi_read m offset size_bytes s =
    (if bad_size size_bytes then (None, s)
     else if \<not> mcx_mrcc_clock_on m (ls_mrcc_offset s) \<or> \<not> mcx_mrcc_reset_released m (ls_mrcc_offset s) then (None, s)
     else if offset + size_bytes > 0x80 then (None, s)
     else if offset = 0x74 \<and> size_bytes = 4 then
       (let v = (if ls_rx_valid s then to_u32 (ls_last_rx s) else 0); s = s\<lparr>ls_rx_valid := False\<rparr>
        in (Some v, set_lpspi LPSPI_SR (ls_regs s LPSPI_SR AND NOT SR_RDF) s))
     else (Some (regs_load (ls_regs s) (unat offset) (unat size_bytes)), s))"

text \<open>A write to the transmit register of an enabled controller.\<close>

definition lpspi_transmit :: "'d mm_spi_device list \<Rightarrow> u8 \<Rightarrow> lpspi_inst \<times> 'd \<Rightarrow> lpspi_inst \<times> 'd"
  where "lpspi_transmit devs out x =
    (let (s, d) = x; tcr = ls_regs s LPSPI_TCR;
         (inb, d) = (if tcr AND 0x40000 = 0 then mm_spi_bus_xfer devs (ls_bus_index s) out d else (0xFF, d));
         s = (if tcr AND 0x80000 = 0
              then (let s = s\<lparr>ls_last_rx := inb, ls_rx_valid := True\<rparr> in set_lpspi LPSPI_SR (ls_regs s LPSPI_SR OR SR_RDF) s) else s);
         s = set_lpspi LPSPI_SR (ls_regs s LPSPI_SR OR 0x400) s
     in (s, if tcr AND 0x200000 = 0 then mm_spi_bus_end devs (ls_bus_index s) d else d))"

definition lpspi_write :: "regs \<Rightarrow> 'd mm_spi_device list \<Rightarrow> u32 \<Rightarrow> u32 \<Rightarrow> u32 \<Rightarrow> lpspi_inst \<times> 'd \<Rightarrow> bool \<times> lpspi_inst \<times> 'd"
  where "lpspi_write m devs offset size_bytes v x =
    (let (s, d) = x in
     if bad_size size_bytes then (False, x)
     else if \<not> mcx_mrcc_clock_on m (ls_mrcc_offset s) \<or> \<not> mcx_mrcc_reset_released m (ls_mrcc_offset s) then (False, x)
     else if offset + size_bytes > 0x80 then (False, x)
     else if offset = 0x10 \<and> size_bytes = 4 then
       (let s = set_lpspi LPSPI_CR v s;
            s = (if v AND 0x200 \<noteq> 0
                 then (let s = s\<lparr>ls_rx_valid := False\<rparr> in set_lpspi LPSPI_SR (ls_regs s LPSPI_SR AND NOT SR_RDF) s) else s);
            d = (if v AND 1 = 0 then mm_spi_bus_end devs (ls_bus_index s) d else d)
        in (True, lpspi_update_sr s, d))
     else if offset = 0x64 \<and> size_bytes = 4 then
       (let (s, d) = (if ls_regs s LPSPI_CR AND 1 \<noteq> 0 then lpspi_transmit devs (to_u8 (v AND 0xFF)) (s, d) else (s, d))
        in (True, lpspi_update_sr s, d))
     else (True, lpspi_update_sr (s\<lparr>ls_regs := regs_store (ls_regs s) (unat offset) (unat size_bytes) v\<rparr>), d))"

definition zero_lpspi :: lpspi_inst
  where "zero_lpspi = \<lparr>ls_base = 0, ls_regs = (\<lambda>_. 0), ls_bus_index = 0, ls_last_rx = 0, ls_rx_valid = False,
    ls_enabled = False, ls_mrcc_offset = 0\<rparr>"

definition lpspi_setup :: "nat \<Rightarrow> lpspi_inst"
  where "lpspi_setup i = zero_lpspi\<lparr>ls_base := [0x40036000, 0x40037000] ! i, ls_bus_index := int i,
    ls_mrcc_offset := [0xD8, 0xDC] ! i, ls_regs := (\<lambda>_. 0)(LPSPI_SR := 0x1)\<rparr>"

definition mcx_spi_poll :: "'d mcx_soc \<Rightarrow> 'd mcx_soc"
  where "mcx_spi_poll s = s\<lparr>mx_spis := map lpspi_update_sr (take (mx_spi_count s) (mx_spis s)) @ drop (mx_spi_count s) (mx_spis s)\<rparr>"

definition mcx_spi_reset :: "'d mcx_soc \<Rightarrow> 'd mcx_soc"
  where "mcx_spi_reset s = s\<lparr>mx_spis := replicate 2 zero_lpspi, mx_spi_count := 0\<rparr>"

subsection \<open>UART\<close>

abbreviation "LPUART_STAT \<equiv> (0x14 div 4 :: nat)"
abbreviation "LPUART_CTRL \<equiv> (0x18 div 4 :: nat)"

definition set_lpuart :: "nat \<Rightarrow> u32 \<Rightarrow> lpuart_inst \<Rightarrow> lpuart_inst"
  where "set_lpuart i v u = u\<lparr>lu_regs := (lu_regs u)(i := v)\<rparr>"

definition lpuart_update_status :: "lpuart_inst \<Rightarrow> lpuart_inst"
  where "lpuart_update_status u =
    (let u = (if mm_uart_io_tx_empty (lu_io u) then set_lpuart LPUART_STAT (lu_regs u LPUART_STAT OR 0xC00000) u else u)
     in if mm_uart_io_has_rx (lu_io u) then set_lpuart LPUART_STAT (lu_regs u LPUART_STAT OR 0x200000) u else u)"

definition lpuart_read :: "regs \<Rightarrow> u32 \<Rightarrow> u32 \<Rightarrow> lpuart_inst \<Rightarrow> u32 option \<times> lpuart_inst"
  where "lpuart_read m offset size_bytes u =
    (if bad_size size_bytes then (None, u)
     else if \<not> mcx_mrcc_clock_on m (lu_mrcc_offset u) \<or> \<not> mcx_mrcc_reset_released m (lu_mrcc_offset u) then (None, u)
     else if offset + size_bytes > 0x40 then (None, u)
     else if offset = 0x1C \<and> size_bytes = 4 then
       (let (v, io) = (if mm_uart_io_has_rx (lu_io u) then mm_uart_io_read (lu_io u) else (0, lu_io u)); u = u\<lparr>lu_io := io\<rparr>
        in (Some (to_u32 v), set_lpuart LPUART_STAT (lu_regs u LPUART_STAT AND NOT 0x200000) u))
     else (Some (regs_load (lu_regs u) (unat offset) (unat size_bytes)), u))"

definition lpuart_write ::
  "regs \<Rightarrow> u32 \<Rightarrow> u32 \<Rightarrow> u32 \<Rightarrow> lpuart_inst \<times> uart_host \<Rightarrow> (bool \<times> lpuart_inst \<times> uart_host) option"
  where "lpuart_write m offset size_bytes v x =
    (let (u, h) = x in
     if bad_size size_bytes then Some (False, x)
     else if \<not> mcx_mrcc_clock_on m (lu_mrcc_offset u) \<or> \<not> mcx_mrcc_reset_released m (lu_mrcc_offset u) then Some (False, x)
     else if offset + size_bytes > 0x40 then Some (False, x)
     else if offset = 0x1C \<and> size_bytes = 4 then
       (if lu_regs u LPUART_CTRL AND 0x80000 \<noteq> 0 then
          (case mm_uart_io_flush (mm_uart_io_queue_tx (lu_io u) (to_u8 (v AND 0xFF)), h) of
             None \<Rightarrow> None
           | Some (_, io, h) \<Rightarrow>
               Some (True, set_lpuart LPUART_STAT (lu_regs u LPUART_STAT OR 0xC00000) (u\<lparr>lu_io := io\<rparr>), h))
        else Some (True, u, h))
     else Some (True, u\<lparr>lu_regs := regs_store (lu_regs u) (unat offset) (unat size_bytes) v\<rparr>, h))"

definition zero_lpuart :: lpuart_inst
  where "zero_lpuart = \<lparr>lu_base = 0, lu_regs = (\<lambda>_. 0), lu_io = zero_uart_io, lu_enabled = False, lu_mrcc_offset = 0\<rparr>"

definition lpuart_setup :: "nat \<Rightarrow> uart_host \<Rightarrow> lpuart_inst \<times> uart_host"
  where "lpuart_setup i h =
    (let (_, io, h) = mm_uart_io_open (mm_uart_io_init, h)
     in (zero_lpuart\<lparr>lu_base := [0x40038000, 0x40039000] ! i, lu_mrcc_offset := [0xE0, 0xE4] ! i, lu_io := io,
           lu_regs := (\<lambda>_. 0)(LPUART_STAT := 0xD00000)\<rparr>, h))"

fun lpuart_poll_each :: "lpuart_inst list \<Rightarrow> uart_host \<Rightarrow> (lpuart_inst list \<times> uart_host) option" where
  "lpuart_poll_each [] h = Some ([], h)"
| "lpuart_poll_each (u # us) h =
    (case mm_uart_io_poll (lu_io u, h) of
       None \<Rightarrow> None
     | Some (got, io, h) \<Rightarrow>
         (let u = u\<lparr>lu_io := io\<rparr>; u = (if got then lpuart_update_status u else u)
          in map_option (\<lambda>(us, h). (u # us, h)) (lpuart_poll_each us h)))"

definition mcx_usart_poll :: "'d mcx_soc \<Rightarrow> 'd mcx_soc option"
  where "mcx_usart_poll s =
    map_option (\<lambda>(us, h). s\<lparr>mx_uarts := us @ drop (mx_uart_count s) (mx_uarts s), mx_host := h\<rparr>)
      (lpuart_poll_each (take (mx_uart_count s) (mx_uarts s)) (mx_host s))"

definition mcx_usart_reset :: "'d mcx_soc \<Rightarrow> 'd mcx_soc"
  where "mcx_usart_reset s =
    s\<lparr>mx_host := fold (\<lambda>u h. snd (mm_uart_io_close (lu_io u, h))) (mx_uarts s) (mx_host s),
      mx_uarts := replicate 2 zero_lpuart, mx_uart_count := 0\<rparr>"

subsection \<open>The SoC\<close>

text \<open>The regions of the blocks, each with its Secure alias.\<close>

definition mrcc_region :: "u32 \<Rightarrow> 'd mcx_soc mmio_region"
  where "mrcc_region base = \<lparr>mr_base = base, mr_size = MRCC_SIZE,
    mr_read = Some (\<lambda>_ offset n s. (mrcc_read (mx_mrcc s) offset n, s)),
    mr_write = Some (\<lambda>_ offset n v s. let (ok, m) = mrcc_write (mx_mrcc s) offset n v in (ok, s\<lparr>mx_mrcc := m\<rparr>))\<rparr>"

definition mcx_gpio_region :: "u32 \<Rightarrow> nat \<Rightarrow> 'd mcx_soc mmio_region"
  where "mcx_gpio_region base bank = \<lparr>mr_base = base, mr_size = MCX_GPIO_SIZE,
    mr_read = Some (\<lambda>_ offset n s. (mcx_gpio_read bank offset n s, s)),
    mr_write = Some (\<lambda>_. mcx_gpio_write bank)\<rparr>"

definition port_region :: "u32 \<Rightarrow> nat \<Rightarrow> 'd mcx_soc mmio_region"
  where "port_region base i = \<lparr>mr_base = base, mr_size = 0x200,
    mr_read = Some (\<lambda>_ offset n s. (port_read (mx_mrcc s) i offset n (mx_ports s i), s)),
    mr_write = Some (\<lambda>_ offset n v s.
      let (ok, p) = port_write (mx_mrcc s) i offset n v (mx_ports s i) in (ok, s\<lparr>mx_ports := (mx_ports s)(i := p)\<rparr>))\<rparr>"

definition lpit_region :: "u32 \<Rightarrow> 'd mcx_soc mmio_region"
  where "lpit_region base = \<lparr>mr_base = base, mr_size = 0x1000,
    mr_read = Some (\<lambda>_ offset n s. (lpit_read (mx_mrcc s) offset n (mx_lpit s), s)),
    mr_write = Some (\<lambda>_ offset n v s.
      let (ok, l) = lpit_write (mx_mrcc s) offset n v (mx_lpit s) in (ok, s\<lparr>mx_lpit := l\<rparr>))\<rparr>"

definition lpspi_region :: "u32 \<Rightarrow> nat \<Rightarrow> 'd mcx_soc mmio_region"
  where "lpspi_region base i = \<lparr>mr_base = base, mr_size = 0x1000,
    mr_read = Some (\<lambda>_ offset n s.
      let (v, p) = lpspi_read (mx_mrcc s) offset n (mx_spis s ! i) in (v, s\<lparr>mx_spis := (mx_spis s)[i := p]\<rparr>)),
    mr_write = Some (\<lambda>_ offset n v s.
      let (ok, p, d) = lpspi_write (mx_mrcc s) (mx_devs s) offset n v (mx_spis s ! i, mx_dev s)
      in (ok, s\<lparr>mx_spis := (mx_spis s)[i := p], mx_dev := d\<rparr>))\<rparr>"

definition lpuart_region :: "u32 \<Rightarrow> nat \<Rightarrow> 'd mcx_soc mmio_region"
  where "lpuart_region base i = \<lparr>mr_base = base, mr_size = 0x1000,
    mr_read = Some (\<lambda>_ offset n s.
      let (v, u) = lpuart_read (mx_mrcc s) offset n (mx_uarts s ! i) in (v, s\<lparr>mx_uarts := (mx_uarts s)[i := u]\<rparr>)),
    mr_write = Some (\<lambda>_ offset n v s.
      case lpuart_write (mx_mrcc s) offset n v (mx_uarts s ! i, mx_host s) of
        None \<Rightarrow> (False, s\<lparr>mx_stuck := True\<rparr>)
      | Some (ok, u, h) \<Rightarrow> (ok, s\<lparr>mx_uarts := (mx_uarts s)[i := u], mx_host := h\<rparr>))\<rparr>"

text \<open>A region and its Secure alias.\<close>

definition aliased :: "(u32 \<Rightarrow> 'd mcx_soc mmio_region) \<Rightarrow> u32 \<Rightarrow> 'd mcx_soc mmio_region list"
  where "aliased region base = [region base, region (base + 0x10000000)]"

definition mcx_block_regions :: "'d mcx_soc mmio_region list"
  where "mcx_block_regions = aliased mrcc_region 0x4001C000 @
    aliased (\<lambda>b. mcx_gpio_region b 0) 0x48010000 @ aliased (\<lambda>b. mcx_gpio_region b 1) 0x48020000 @
    aliased (\<lambda>b. mcx_gpio_region b 2) 0x48030000 @ aliased (\<lambda>b. mcx_gpio_region b 3) 0x40046000 @
    aliased (\<lambda>b. port_region b 0) 0x40042000 @ aliased (\<lambda>b. port_region b 1) 0x40043000 @
    aliased (\<lambda>b. port_region b 2) 0x40044000"

definition lpuart_regions :: "'d mcx_soc mmio_region list"
  where "lpuart_regions = aliased (\<lambda>b. lpuart_region b 0) 0x40038000 @ aliased (\<lambda>b. lpuart_region b 1) 0x40039000"

definition lpspi_regions :: "'d mcx_soc mmio_region list"
  where "lpspi_regions = aliased (\<lambda>b. lpspi_region b 0) 0x40036000 @ aliased (\<lambda>b. lpspi_region b 1) 0x40037000"

definition lpit_regions :: "'d mcx_soc mmio_region list"
  where "lpit_regions = aliased lpit_region 0x4002F000"

definition mcx_register_mmio :: "'d mcx_soc mmio_bus \<Rightarrow> bool \<times> 'd mcx_soc mmio_bus"
  where "mcx_register_mmio bus = register_seq mcx_block_regions bus"

definition mcx_mmio_reset :: "'d mcx_soc \<Rightarrow> 'd mcx_soc"
  where "mcx_mmio_reset s = s\<lparr>mx_gpio := (\<lambda>_ _. 0),
    mx_ports := (\<lambda>_. \<lparr>po_regs = (\<lambda>_. 0), po_pcr = (\<lambda>_. 0), po_last_pdir = 0\<rparr>), mx_gpio_nvic := False,
    mx_mrcc := fold (\<lambda>offset m. m(offset div 4 := 0x80000000))
      [0xBC, 0xD8, 0xDC, 0xE0, 0xE4, 0x108, 0x10C, 0x110, 0x404, 0x408, 0x40C] (\<lambda>_. 0)\<rparr>"

text \<open>The callbacks that the reset installs.\<close>

definition mcx_gpio_readers :: "'d mcx_soc \<Rightarrow> mm_gpio_readers \<Rightarrow> mm_gpio_readers"
  where "mcx_gpio_readers s g =
    mm_gpio_bank_set_seccfgr_reader (Some mcx_gpio_bank_read_seccfgr)
      (mm_gpio_bank_set_clock_reader (Some (mcx_gpio_bank_clock s))
        (mm_gpio_bank_set_moder_reader (Some (mcx_gpio_bank_read_moder s))
          (mm_gpio_bank_set_reader (Some (mcx_gpio_bank_read s)) g)))"

definition mcx_gpio_set_nvic :: "bool \<Rightarrow> 'd mcx_soc \<Rightarrow> 'd mcx_soc"
  where "mcx_gpio_set_nvic nvic s = s\<lparr>mx_gpio_nvic := nvic\<rparr>"

definition zero_lpit :: lpit_state
  where "zero_lpit = \<lparr>lt_regs = (\<lambda>_. 0), lt_tval = (\<lambda>_. 0), lt_cval = (\<lambda>_. 0), lt_tctrl = (\<lambda>_. 0)\<rparr>"

definition mcx_timers_init :: "'d mcx_soc mmio_bus \<times> 'd mcx_soc \<Rightarrow> 'd mcx_soc mmio_bus \<times> 'd mcx_soc"
  where "mcx_timers_init x =
    (let (bus, s) = x
     in (register_all bus lpit_regions, (mcx_gpio_set_nvic True (s\<lparr>mx_lpit_nvic := True\<rparr>))\<lparr>mx_lpit := zero_lpit\<rparr>))"

definition mcx_timers_reset :: "'d mcx_soc \<Rightarrow> 'd mcx_soc"
  where "mcx_timers_reset s = s\<lparr>mx_lpit := zero_lpit, mx_lpit_nvic := False\<rparr>"

definition mcx_spi_init :: "'d mcx_soc mmio_bus \<times> 'd mcx_soc \<Rightarrow> 'd mcx_soc mmio_bus \<times> 'd mcx_soc"
  where "mcx_spi_init x =
    (let (bus, s) = x in (register_all bus lpspi_regions, s\<lparr>mx_spi_count := 2, mx_spis := map lpspi_setup [0..<2]\<rparr>))"

definition mcx_usart_init :: "'d mcx_soc mmio_bus \<times> 'd mcx_soc \<Rightarrow> 'd mcx_soc mmio_bus \<times> 'd mcx_soc"
  where "mcx_usart_init x =
    (let (bus, s) = x; (u0, h) = lpuart_setup 0 (mx_host s); (u1, h) = lpuart_setup 1 h
     in (register_all bus lpuart_regions, s\<lparr>mx_uart_count := 2, mx_uarts := [u0, u1], mx_host := h\<rparr>))"

definition mcx_flash_bind :: "u8 list \<Rightarrow> u32 \<Rightarrow> bool \<Rightarrow> u32 \<Rightarrow> 'd mcx_soc \<Rightarrow> 'd mcx_soc"
  where "mcx_flash_bind flash flash_size persist flags s = s"

definition mcx_cpu_hz :: u64
  where "mcx_cpu_hz = 48000000"

definition mcxw71c_cfg :: mm_target_cfg
  where "mcxw71c_cfg = \<lparr>cfg_flash_base_s = 0x10000000, cfg_flash_size_s = 0x00100000,
    cfg_flash_base_ns = 0x00000000, cfg_flash_size_ns = 0x00100000,
    cfg_ram_base_s = 0x30000000, cfg_ram_size_s = 0x0001C000, cfg_ram_base_ns = 0x20000000, cfg_ram_size_ns = 0x0001C000,
    cfg_ram_regions = [], cfg_mpcbb_block_size = 0, cfg_mpcbb_block_secure = None\<rparr>"

text \<open>The boot sequence of the main loop on this target.\<close>

definition mcx_boot :: "'d mcx_soc \<Rightarrow> 'd mcx_soc mmio_bus \<times> 'd mcx_soc"
  where "mcx_boot s =
    (let s = mcx_timers_reset (mcx_mmio_reset s); bus = snd (mcx_register_mmio (mmio_bus_init 128));
         (bus, s) = mcx_usart_init (bus, mcx_usart_reset s); (bus, s) = mcx_spi_init (bus, mcx_spi_reset s)
     in mcx_timers_init (bus, s))"

subsection \<open>The memory map\<close>

abbreviation "mcx_regions \<equiv> mcx_block_regions @ lpuart_regions @ lpspi_regions @ lpit_regions"

lemmas mcx_region_defs = mrcc_region_def mcx_gpio_region_def port_region_def lpit_region_def lpspi_region_def lpuart_region_def
lemmas mcx_table_defs = mcx_block_regions_def lpuart_regions_def lpspi_regions_def lpit_regions_def aliased_def

lemma mcx_spans: "map span_of mcx_regions =
  [(0x4001C000, 0x800), (0x5001C000, 0x800), (0x48010000, 0x200), (0x58010000, 0x200), (0x48020000, 0x200), (0x58020000, 0x200),
   (0x48030000, 0x200), (0x58030000, 0x200), (0x40046000, 0x200), (0x50046000, 0x200), (0x40042000, 0x200), (0x50042000, 0x200),
   (0x40043000, 0x200), (0x50043000, 0x200), (0x40044000, 0x200), (0x50044000, 0x200), (0x40038000, 0x1000), (0x50038000, 0x1000),
   (0x40039000, 0x1000), (0x50039000, 0x1000), (0x40036000, 0x1000), (0x50036000, 0x1000), (0x40037000, 0x1000), (0x50037000, 0x1000),
   (0x4002F000, 0x1000), (0x5002F000, 0x1000)]"
  by (simp add: mcx_table_defs mcx_region_defs span_of_def)

lemma mcx_no_wrap: "list_all no_wrap (mcx_regions :: 'd mcx_soc mmio_region list)"
  by (rule spans_no_wrap) (simp only: mcx_spans, simp)

lemma mcx_apart: "sorted_wrt apart (mcx_regions :: 'd mcx_soc mmio_region list)"
  by (rule apart_spans [OF mcx_no_wrap]) (simp add: mcx_spans del: map_append)

lemma mcx_region_count:
  "length (mcx_block_regions :: 'd mcx_soc mmio_region list) = 16" "length (lpuart_regions :: 'd mcx_soc mmio_region list) = 4"
  "length (lpspi_regions :: 'd mcx_soc mmio_region list) = 4" "length (lpit_regions :: 'd mcx_soc mmio_region list) = 2"
  by (simp_all add: mcx_table_defs)

lemma register_all_append:
  assumes "sorted_wrt apart (xs @ ys)" "length (xs @ ys) \<le> n"
  shows "register_all \<lparr>mb_regions = xs, mb_capacity = n\<rparr> ys = \<lparr>mb_regions = xs @ ys, mb_capacity = n\<rparr>"
  by (rule register_all_seq [OF register_seq_append [OF assms]])

lemma sorted_prefix: "sorted_wrt P (xs @ ys) \<Longrightarrow> sorted_wrt P xs"
  by (simp add: sorted_wrt_append)

lemma mcx_boot_bus: "fst (mcx_boot s) = \<lparr>mb_regions = mcx_regions, mb_capacity = 128\<rparr>"
proof -
  let ?b = "\<lambda>rs. \<lparr>mb_regions = rs, mb_capacity = 128\<rparr> :: 'a mcx_soc mmio_bus"
  have apart: "sorted_wrt apart (mcx_regions :: 'a mcx_soc mmio_region list)" by (rule mcx_apart)
  have "register_seq mcx_block_regions (mmio_bus_init 128) = (True, ?b mcx_block_regions)"
    by (rule register_seq_first [OF mcx_apart]) (simp add: mcx_region_count)
  moreover have "register_all (?b mcx_block_regions) lpuart_regions = ?b (mcx_block_regions @ lpuart_regions)"
    by (rule register_all_append [OF sorted_prefix [of _ _ "lpspi_regions @ lpit_regions"]]) (use apart in \<open>simp_all add: mcx_region_count\<close>)
  moreover have "register_all (?b (mcx_block_regions @ lpuart_regions)) lpspi_regions =
      ?b ((mcx_block_regions @ lpuart_regions) @ lpspi_regions)"
    by (rule register_all_append [OF sorted_prefix [of _ _ lpit_regions]]) (use apart in \<open>simp_all add: mcx_region_count\<close>)
  moreover have "register_all (?b ((mcx_block_regions @ lpuart_regions) @ lpspi_regions)) lpit_regions =
      ?b (((mcx_block_regions @ lpuart_regions) @ lpspi_regions) @ lpit_regions)"
    by (rule register_all_append) (use apart in \<open>simp_all add: mcx_region_count\<close>)
  ultimately show ?thesis
    by (simp add: mcx_boot_def mcx_register_mmio_def mcx_usart_init_def mcx_spi_init_def mcx_timers_init_def Let_def case_prod_beta)
qed

text \<open>All regions of the MCXW71C are accepted by the bus, and every address inside one reaches it.\<close>

theorem mcx_memory_map:
  fixes s :: "'d mcx_soc"
  assumes "r \<in> set mcx_regions" "unat addr \<in> region_span r"
  shows "let (bus, s') = mcx_boot s in mb_regions bus = mcx_regions \<and> mmio_bus_find bus addr = Some r"
proof -
  have "bus_ok (fst (mcx_boot s))"
    unfolding mcx_boot_bus by (rule apart_bus_ok [OF mcx_no_wrap mcx_apart]) (simp add: mcx_region_count)
  from bus_find_unique [OF this, of addr r] show ?thesis
    using assms mcx_boot_bus [of s] by (simp add: case_prod_beta)
qed

subsection \<open>Clock gating\<close>

lemma mrcc_write_on:
  assumes "4 dvd unat offset" "offset < MRCC_SIZE"
  shows "fst (mrcc_write m offset 4 v) \<and>
    (mcx_on (snd (mrcc_write m offset 4 v)) offset \<longleftrightarrow> v AND 3 \<noteq> 0 \<and> bit v 30)"
proof -
  obtain k where k: "unat offset = 4 * k" using assms(1) by blast
  have "unat offset < 0x800" using assms(2) by (simp add: word_less_nat_alt)
  then have "unat offset \<le> 0x7FC" using k by simp
  moreover from this have "unat (offset + 4) = unat offset + 4" by (simp add: unat_word_ariths)
  ultimately have "\<not> offset + 4 > MRCC_SIZE" by (simp add: word_less_nat_alt)
  moreover have "(v OR 0x80000000) AND 3 = v AND 3" by (simp add: bit.conj_disj_distrib2)
  moreover have "drop_bit 30 (v OR 0x80000000) AND 1 \<noteq> 0 \<longleftrightarrow> bit v 30"
    unfolding drop_and_one by (simp add: bit_or_iff)
  ultimately show ?thesis
    using assms(2) [unfolded not_le [symmetric]]
    by (simp add: mrcc_write_def bad_size_def mcx_on_def mcx_mrcc_clock_on_def mcx_mrcc_reset_released_def)
qed

text \<open>The documented control register of each block, by the base address of its Non-secure alias; the
  MRCC itself and GPIOD have none.\<close>

definition mcx_gate :: "u32 \<Rightarrow> u32 option"
  where "mcx_gate base = map_of
    [(0x48010000, 0x404), (0x48020000, 0x408), (0x48030000, 0x40C), (0x40042000, 0x108), (0x40043000, 0x10C), (0x40044000, 0x110),
     (0x40038000, 0xE0), (0x40039000, 0xE4), (0x40036000, 0xD8), (0x40037000, 0xDC), (0x4002F000, 0xBC)] (base AND NOT 0x10000000)"

text \<open>The instances as the initialisation leaves them: their control registers are those of their place, the
  rings are well formed, and the host obeys POSIX.\<close>

definition mcx_ok :: "'d mcx_soc \<Rightarrow> bool"
  where "mcx_ok s = (map ls_mrcc_offset (mx_spis s) = [0xD8, 0xDC] \<and> map lu_mrcc_offset (mx_uarts s) = [0xE0, 0xE4] \<and>
    list_all (\<lambda>u. io_ok (lu_io u)) (mx_uarts s) \<and> posix_write (mx_host s) \<and> \<not> mx_stuck s \<and> mx_uart_count s = 2)"

lemma map_update_same: "f y = map f xs ! i \<Longrightarrow> i < length xs \<Longrightarrow> map f (xs[i := y]) = map f xs"
  by (simp add: map_update list_update_same_conv)

lemma two_elements:
  assumes "map f xs = [a, b]"
  shows "f (xs ! 0) = a" "f (xs ! Suc 0) = b" "length xs = 2" "xs = [xs ! 0, xs ! Suc 0]"
  using assms by (auto simp: map_eq_Cons_conv)

lemma lpspi_keeps [simp]:
  "ls_mrcc_offset (lpspi_update_sr p) = ls_mrcc_offset p"
  "ls_mrcc_offset (snd (lpspi_read m offset n p)) = ls_mrcc_offset p"
  "ls_mrcc_offset (fst (snd (lpspi_write m devs offset n v (p, d)))) = ls_mrcc_offset p"
  by (auto simp: lpspi_update_sr_def lpspi_read_def lpspi_write_def lpspi_transmit_def set_lpspi_def Let_def split: prod.splits)

lemma lpuart_read_keeps:
  "lu_mrcc_offset (snd (lpuart_read m offset n u)) = lu_mrcc_offset u" "io_ok (lu_io u) \<Longrightarrow> io_ok (lu_io (snd (lpuart_read m offset n u)))"
  by (auto simp: lpuart_read_def set_lpuart_def mm_uart_io_read_def io_ok_def Let_def)

text \<open>On a host that obeys POSIX a write to a UART always returns.\<close>

theorem mcx_uart_write_returns:
  assumes "io_ok (lu_io u)" "posix_write h"
  shows "\<exists>ok u' h'. lpuart_write m offset n v (u, h) = Some (ok, u', h') \<and> lu_mrcc_offset u' = lu_mrcc_offset u \<and>
    io_ok (lu_io u') \<and> posix_write h'"
proof -
  obtain r io' h' where "mm_uart_io_flush (mm_uart_io_queue_tx (lu_io u) (to_u8 (v AND 0xFF)), h) = Some (r, io', h')"
    "io_ok io'" "posix_write h'" using flush_total [OF queue_ok [OF assms(1)] assms(2)] by blast
  then show ?thesis
    using assms by (auto simp: lpuart_write_def set_lpuart_def)
qed

lemma poll_total:
  assumes "io_ok io" "posix_write h"
  obtains r io' h' where "mm_uart_io_poll (io, h) = Some (r, io', h')" "io_ok io'" "posix_write h'"
proof -
  obtain r io' h' where f: "mm_uart_io_flush (io, h) = Some (r, io', h')" "io_ok io'" "posix_write h'"
    using flush_total [OF assms] by blast
  show thesis
    by (rule that [of "fst (the (mm_uart_io_poll (io, h)))" "fst (snd (the (mm_uart_io_poll (io, h))))" "snd (snd (the (mm_uart_io_poll (io, h))))"])
       (use f assms in \<open>auto simp: mm_uart_io_poll_def poll_rx_def io_ok_def posix_write_def Let_def split: option.splits\<close>)
qed

lemma lpuart_polls:
  assumes "list_all (\<lambda>u. io_ok (lu_io u)) us" "posix_write h"
  shows "\<exists>us' h'. lpuart_poll_each us h = Some (us', h') \<and> map lu_mrcc_offset us' = map lu_mrcc_offset us \<and>
    list_all (\<lambda>u. io_ok (lu_io u)) us' \<and> posix_write h'"
  using assms
proof (induction us arbitrary: h)
  case (Cons u us)
  obtain r io h1 where p: "mm_uart_io_poll (lu_io u, h) = Some (r, io, h1)" "io_ok io" "posix_write h1"
    using poll_total [of "lu_io u" h] Cons.prems by auto
  obtain us' h' where "lpuart_poll_each us h1 = Some (us', h')" "map lu_mrcc_offset us' = map lu_mrcc_offset us"
    "list_all (\<lambda>u. io_ok (lu_io u)) us'" "posix_write h'" using Cons.IH [of h1] Cons.prems(1) p(3) by auto
  with p show ?case by (auto simp: lpuart_update_status_def set_lpuart_def Let_def)
qed simp

text \<open>What firmware and the main loop can do to the SoC once it has booted.\<close>

inductive mcx_reach :: "'d mcx_soc mmio_bus \<Rightarrow> 'd mcx_soc \<Rightarrow> 'd mcx_soc \<Rightarrow> bool" for bus s0 where
  start: "mcx_reach bus s0 s0"
| bus_read: "mcx_reach bus s0 s \<Longrightarrow> mcx_reach bus s0 (snd (mmio_bus_read bus asec addr n s))"
| bus_write: "mcx_reach bus s0 s \<Longrightarrow> mcx_reach bus s0 (snd (mmio_bus_write bus asec addr n v s))"
| tick: "mcx_reach bus s0 s \<Longrightarrow> mcx_reach bus s0 (mcx_timers_tick cycles s)"
| spi_poll: "mcx_reach bus s0 s \<Longrightarrow> mcx_reach bus s0 (mcx_spi_poll s)"
| usart_poll: "mcx_reach bus s0 s \<Longrightarrow> mcx_usart_poll s = Some s' \<Longrightarrow> mcx_reach bus s0 s'"

lemma mcx_ok_cong:
  "mx_spis s' = mx_spis s \<Longrightarrow> mx_uarts s' = mx_uarts s \<Longrightarrow> mx_host s' = mx_host s \<Longrightarrow> mx_stuck s' = mx_stuck s \<Longrightarrow>
   mx_uart_count s' = mx_uart_count s \<Longrightarrow> mcx_ok s' = mcx_ok s"
  by (simp add: mcx_ok_def)

lemma gpio_ok [simp]:
  "mcx_ok (mcx_set_gpio bank i v s) = mcx_ok s" "mcx_ok (gpio_sync_pdir bank s) = mcx_ok s"
  "mcx_ok (mcx_gpio_raise_irq bank s) = mcx_ok s" "mcx_ok (s\<lparr>mx_ports := ps\<rparr>) = mcx_ok s" "mcx_ok (s\<lparr>mx_gpio := gs\<rparr>) = mcx_ok s"
  "mcx_ok (s\<lparr>mx_mrcc := m\<rparr>) = mcx_ok s" "mcx_ok (s\<lparr>mx_lpit := l\<rparr>) = mcx_ok s"
  by (rule mcx_ok_cong; simp add: mcx_set_gpio_def gpio_sync_pdir_def mcx_gpio_raise_irq_def Let_def)+

lemma edges_ok [simp]: "mcx_ok (mcx_gpio_update_edges bank old new s) = mcx_ok s"
  by (simp add: mcx_gpio_update_edges_def Let_def split: option.split)

lemma output_ok [simp]: "mcx_ok (mcx_gpio_output bank v s) = mcx_ok s"
  by (simp add: mcx_gpio_output_def Let_def)

lemma gpio_keeps_ok: "mcx_ok (snd (mcx_gpio_write bank offset n v s)) = mcx_ok s"
  by (simp add: mcx_gpio_write_def Let_def)

lemma tick_keeps_ok: "mcx_ok (mcx_timers_tick c s) = mcx_ok s"
  by (rule mcx_ok_cong) (simp_all add: mcx_timers_tick_def Let_def case_prod_beta)

lemma spi_poll_keeps_ok: "mcx_ok s \<Longrightarrow> mcx_ok (mcx_spi_poll s)"
proof -
  have "map ls_mrcc_offset (mx_spis (mcx_spi_poll s)) = map ls_mrcc_offset (mx_spis s)"
    unfolding mcx_spi_poll_def
    by (simp add: comp_def) (metis append_take_drop_id map_append)
  then show "mcx_ok s \<Longrightarrow> mcx_ok (mcx_spi_poll s)" by (simp add: mcx_ok_def mcx_spi_poll_def)
qed

text \<open>In such a state the poll of the UARTs returns and keeps it.\<close>

lemma usart_poll_ok: "mcx_ok s \<Longrightarrow> \<exists>s'. mcx_usart_poll s = Some s' \<and> mcx_ok s'"
proof -
  assume ok: "mcx_ok s"
  then have l: "length (mx_uarts s) = 2" by (metis mcx_ok_def two_elements(3))
  obtain us' h' where "lpuart_poll_each (mx_uarts s) (mx_host s) = Some (us', h')"
    "map lu_mrcc_offset us' = map lu_mrcc_offset (mx_uarts s)" "list_all (\<lambda>u. io_ok (lu_io u)) us'" "posix_write h'"
    using lpuart_polls [of "mx_uarts s" "mx_host s"] ok by (auto simp: mcx_ok_def)
  with ok l show ?thesis by (simp add: mcx_usart_poll_def mcx_ok_def)
qed

lemma list_all_update: "list_all P xs \<Longrightarrow> P y \<Longrightarrow> list_all P (xs[i := y])"
  by (auto simp: list_all_iff dest!: set_update_subset_insert [THEN subsetD])

lemma lpspi_region_keeps:
  assumes "mcx_ok s" "i < 2"
  shows "mcx_ok (s\<lparr>mx_spis := (mx_spis s)[i := snd (lpspi_read m offset n (mx_spis s ! i))]\<rparr>)"
    "mcx_ok (s\<lparr>mx_spis := (mx_spis s)[i := fst (snd (lpspi_write m devs offset n v (mx_spis s ! i, d)))], mx_dev := d'\<rparr>)"
proof -
  have l: "length (mx_spis s) = 2" using assms(1) by (metis mcx_ok_def two_elements(3))
  then have "map ls_mrcc_offset ((mx_spis s)[i := p]) = map ls_mrcc_offset (mx_spis s)"
    if "ls_mrcc_offset p = ls_mrcc_offset (mx_spis s ! i)" for p
    using that assms(2) by (intro map_update_same) simp_all
  with assms(1) show "mcx_ok (s\<lparr>mx_spis := (mx_spis s)[i := snd (lpspi_read m offset n (mx_spis s ! i))]\<rparr>)"
    "mcx_ok (s\<lparr>mx_spis := (mx_spis s)[i := fst (snd (lpspi_write m devs offset n v (mx_spis s ! i, d)))], mx_dev := d'\<rparr>)"
    by (simp_all add: mcx_ok_def)
qed

lemma lpuart_update_keeps:
  assumes "mcx_ok s" "i < 2" "lu_mrcc_offset u = lu_mrcc_offset (mx_uarts s ! i)" "io_ok (lu_io u)" "posix_write h"
  shows "mcx_ok (s\<lparr>mx_uarts := (mx_uarts s)[i := u], mx_host := h\<rparr>)"
proof -
  have "length (mx_uarts s) = 2" using assms(1) by (metis mcx_ok_def two_elements(3))
  then have "map lu_mrcc_offset ((mx_uarts s)[i := u]) = map lu_mrcc_offset (mx_uarts s)"
    using assms(2,3) by (intro map_update_same) simp_all
  with assms show ?thesis by (simp add: mcx_ok_def list_all_update)
qed

text \<open>The handlers of a region keep the invariant, and a gated region refuses every access.\<close>

definition region_keeps :: "'d mcx_soc mmio_region \<Rightarrow> bool"
  where "region_keeps r = (\<forall>asec offset n v s. mcx_ok s \<longrightarrow>
    mcx_ok (snd (the (mr_read r) asec offset n s)) \<and> mcx_ok (snd (the (mr_write r) asec offset n v s)))"

definition region_off :: "'d mcx_soc \<Rightarrow> 'd mcx_soc mmio_region \<Rightarrow> bool"
  where "region_off s r = (\<forall>asec offset n v.
    the (mr_read r) asec offset n s = (None, s) \<and> the (mr_write r) asec offset n v s = (False, s))"

lemma regions_keep:
  "region_keeps (mrcc_region b)" "region_keeps (mcx_gpio_region b k)" "region_keeps (port_region b k)" "region_keeps (lpit_region b)"
  by (simp_all add: region_keeps_def mcx_region_defs gpio_keeps_ok case_prod_beta)

lemma lpspi_region_ok: "i < 2 \<Longrightarrow> region_keeps (lpspi_region b i)"
  by (simp add: region_keeps_def lpspi_region_def lpspi_region_keeps case_prod_beta)

lemma lpuart_region_ok:
  assumes "i < 2" shows "region_keeps (lpuart_region b i)"
  unfolding region_keeps_def
proof (intro allI impI)
  fix asec offset n v and s :: "'a mcx_soc" assume ok: "mcx_ok s"
  then have u: "io_ok (lu_io (mx_uarts s ! i))" "posix_write (mx_host s)"
    using assms two_elements(3) [of lu_mrcc_offset "mx_uarts s"] by (auto simp: mcx_ok_def list_all_length)
  have "mcx_ok (s\<lparr>mx_uarts := (mx_uarts s)[i := snd (lpuart_read (mx_mrcc s) offset n (mx_uarts s ! i))], mx_host := mx_host s\<rparr>)"
    using ok assms u by (intro lpuart_update_keeps) (simp_all add: lpuart_read_keeps)
  moreover obtain r u' h' where "lpuart_write (mx_mrcc s) offset n v (mx_uarts s ! i, mx_host s) = Some (r, u', h')"
    "lu_mrcc_offset u' = lu_mrcc_offset (mx_uarts s ! i)" "io_ok (lu_io u')" "posix_write h'"
    using mcx_uart_write_returns [OF u] by blast
  ultimately show "mcx_ok (snd (the (mr_read (lpuart_region b i)) asec offset n s)) \<and>
      mcx_ok (snd (the (mr_write (lpuart_region b i)) asec offset n v s))"
    using ok assms by (simp add: lpuart_region_def case_prod_beta lpuart_update_keeps)
qed

lemma mcx_regions_keep: "r \<in> set mcx_regions \<Longrightarrow> region_keeps r"
  by (auto simp: mcx_table_defs regions_keep lpspi_region_ok lpuart_region_ok)

lemma gpio_off: "\<not> mcx_gpio_bank_enabled (mx_mrcc s) k \<Longrightarrow> region_off s (mcx_gpio_region b k)"
  by (simp add: region_off_def mcx_gpio_region_def mcx_gpio_read_def mcx_gpio_write_def)

lemma port_off: "\<not> port_enabled (mx_mrcc s) k \<Longrightarrow> region_off s (port_region b k)"
  by (simp add: region_off_def port_region_def port_read_def port_write_def)

lemma lpit_off: "\<not> mcx_on (mx_mrcc s) MRCC_LPIT0 \<Longrightarrow> region_off s (lpit_region b)"
  by (simp add: region_off_def lpit_region_def lpit_read_def lpit_write_def mcx_on_def)

lemma lpspi_off: "\<not> mcx_on (mx_mrcc s) (ls_mrcc_offset (mx_spis s ! k)) \<Longrightarrow> region_off s (lpspi_region b k)"
  by (simp add: region_off_def lpspi_region_def lpspi_read_def lpspi_write_def mcx_on_def)

lemma lpuart_off: "\<not> mcx_on (mx_mrcc s) (lu_mrcc_offset (mx_uarts s ! k)) \<Longrightarrow> region_off s (lpuart_region b k)"
  by (simp add: region_off_def lpuart_region_def lpuart_read_def lpuart_write_def mcx_on_def)

lemmas block_offs = gpio_off port_off lpit_off lpspi_off lpuart_off

lemma gate_refuses:
  assumes "r \<in> set mcx_regions" "mcx_gate (mr_base r) = Some off" "mcx_ok s" "\<not> mcx_on (mx_mrcc s) off"
  shows "region_off s r"
proof -
  have i: "ls_mrcc_offset (mx_spis s ! 0) = 0xD8" "ls_mrcc_offset (mx_spis s ! Suc 0) = 0xDC"
    "lu_mrcc_offset (mx_uarts s ! 0) = 0xE0" "lu_mrcc_offset (mx_uarts s ! Suc 0) = 0xE4"
    using assms(3) by (simp_all add: mcx_ok_def two_elements)
  show ?thesis
    using assms(1,2,4) unfolding mcx_table_defs
    by (auto simp: mcx_gate_def mcx_region_defs [THEN arg_cong [of _ _ mr_base]] i mcx_gpio_bank_enabled_def port_enabled_def
        intro!: block_offs)
qed

lemma close_posix [simp]: "posix_write (snd (mm_uart_io_close (io, h))) = posix_write h"
  by (simp add: mm_uart_io_close_def posix_write_def)

lemma setup_ok:
  assumes "posix_write h"
  shows "io_ok (lu_io (fst (lpuart_setup i h)))" "posix_write (snd (lpuart_setup i h))"
    "lu_mrcc_offset (fst (lpuart_setup i h)) = [0xE0, 0xE4] ! i"
  using assms init_ok(1) by (auto simp: lpuart_setup_def mm_uart_io_open_def io_ok_def posix_write_def Let_def case_prod_beta)

lemma boot_ok:
  assumes "posix_write (mx_host s)" "\<not> mx_stuck s"
  shows "mcx_ok (snd (mcx_boot s))"
proof -
  have c: "posix_write (fold (\<lambda>u h. snd (mm_uart_io_close (lu_io u, h))) us h) = posix_write h" for us h
    by (induction us arbitrary: h) simp_all
  have r: "posix_write (mx_host (mcx_usart_reset (mcx_timers_reset (mcx_mmio_reset s))))" "\<not> mx_stuck (mcx_usart_reset (mcx_timers_reset (mcx_mmio_reset s)))"
    using assms by (simp_all add: c mcx_usart_reset_def mcx_timers_reset_def mcx_mmio_reset_def)
  show ?thesis
    using r setup_ok [OF r(1)] setup_ok [OF setup_ok(2) [OF r(1)]]
    by (simp add: mcx_boot_def mcx_usart_init_def mcx_spi_init_def mcx_spi_reset_def mcx_timers_init_def mcx_gpio_set_nvic_def
        mcx_ok_def lpspi_setup_def zero_lpspi_def Let_def case_prod_beta upt_conv_Cons)
qed

lemma bus_access_ok:
  assumes "\<And>r. r \<in> set (mb_regions bus) \<Longrightarrow> region_keeps r" "mcx_ok s"
  shows "mcx_ok (snd (mmio_bus_read bus asec addr n s))" "mcx_ok (snd (mmio_bus_write bus asec addr n v s))"
proof -
  have "region_keeps r" if "mmio_bus_find bus addr = Some r" for r
    using that by (intro assms(1)) (auto simp: mmio_bus_find_def find_Some_iff)
  with assms(2) show "mcx_ok (snd (mmio_bus_read bus asec addr n s))" "mcx_ok (snd (mmio_bus_write bus asec addr n v s))"
    by (fastforce simp: mmio_bus_read_def mmio_bus_write_def region_keeps_def split: option.split)+
qed

lemma reach_ok:
  assumes "mcx_reach (fst (mcx_boot s0)) (snd (mcx_boot s0)) s" "posix_write (mx_host s0)" "\<not> mx_stuck s0"
  shows "mcx_ok s"
  using assms(1)
proof induction
  case start
  show ?case using assms(2,3) by (rule boot_ok)
next
  case (bus_read s asec addr n)
  then show ?case by (intro bus_access_ok) (simp_all add: mcx_boot_bus mcx_regions_keep)
next
  case (bus_write s asec addr n v)
  then show ?case by (intro bus_access_ok) (simp_all add: mcx_boot_bus mcx_regions_keep)
next
  case (usart_poll s s')
  then show ?case using usart_poll_ok [of s] by simp
qed (simp_all add: tick_keeps_ok spi_poll_keeps_ok)

text \<open>C30: in no state that the machine can reach does a block respond while its clock is off or its reset
  held.  After booting, whatever accesses, ticks and polls came before, a read or a write at any address of a
  block whose MRCC register has no clock selected or the reset bit clear is refused and changes nothing.\<close>

theorem mcx_gating:
  fixes s s0 :: "'d mcx_soc" and r :: "'d mcx_soc mmio_region"
  assumes "posix_write (mx_host s0)" "\<not> mx_stuck s0" "mcx_reach (fst (mcx_boot s0)) (snd (mcx_boot s0)) s"
    "r \<in> set mcx_regions" "unat addr \<in> region_span r" "mcx_gate (mr_base r) = Some off" "\<not> mcx_on (mx_mrcc s) off"
  shows "mmio_bus_read (fst (mcx_boot s0)) asec addr n s = (None, s) \<and>
    mmio_bus_write (fst (mcx_boot s0)) asec addr n v s = (False, s)"
proof -
  have f: "mmio_bus_find (fst (mcx_boot s0)) addr = Some r"
    using mcx_memory_map [OF assms(4,5), of s0] by (simp add: case_prod_beta)
  have "region_off s r" using assms(4,6) reach_ok [OF assms(3,1,2)] assms(7) by (rule gate_refuses)
  moreover obtain rd wr where "mr_read r = Some rd" "mr_write r = Some wr"
    using assms(4) by (auto simp: mcx_table_defs mcx_region_defs)
  ultimately show ?thesis by (simp add: mmio_bus_read_def mmio_bus_write_def f region_off_def)
qed

text \<open>And on a POSIX host no write to a UART hangs, and its poll returns.\<close>

theorem mcx_serial_returns:
  assumes "posix_write (mx_host s0)" "\<not> mx_stuck s0" "mcx_reach (fst (mcx_boot s0)) (snd (mcx_boot s0)) s"
  shows "\<not> mx_stuck s \<and> (\<exists>s'. mcx_usart_poll s = Some s')"
  using reach_ok [OF assms(3,1,2)] usart_poll_ok [of s] by (auto simp: mcx_ok_def)

text \<open>Booting leaves every gated block off.\<close>

lemma mcx_boot_mrcc: "mx_mrcc (snd (mcx_boot s)) = mx_mrcc (mcx_mmio_reset s)"
  by (simp add: mcx_boot_def mcx_usart_init_def mcx_spi_init_def mcx_spi_reset_def mcx_timers_init_def mcx_gpio_set_nvic_def
      mcx_timers_reset_def mcx_usart_reset_def Let_def case_prod_beta)

theorem mcx_boot_gated:
  assumes "mcx_gate base = Some off" shows "\<not> mcx_on (mx_mrcc (snd (mcx_boot s))) off"
proof -
  have "off \<in> {0x404, 0x408, 0x40C, 0x108, 0x10C, 0x110, 0xE0, 0xE4, 0xD8, 0xDC, 0xBC}"
    using map_of_SomeD [OF assms [unfolded mcx_gate_def]] by auto
  then show ?thesis
    by (auto simp: mcx_boot_mrcc mcx_mmio_reset_def mcx_on_def mcx_mrcc_clock_on_def)
qed

definition demo_mcx :: "nat mcx_soc"
  where "demo_mcx = \<lparr>mx_mrcc = (\<lambda>_. 0), mx_gpio = (\<lambda>_ _. 0), mx_ports = (\<lambda>_. \<lparr>po_regs = (\<lambda>_. 0), po_pcr = (\<lambda>_. 0), po_last_pdir = 0\<rparr>),
    mx_lpit = zero_lpit, mx_spis = [], mx_spi_count = 0, mx_uarts = [], mx_uart_count = 0, mx_nvic = mm_nvic_init,
    mx_gpio_nvic = False, mx_lpit_nvic = False, mx_devs = [], mx_dev = 0, mx_host = demo_uart_host, mx_stuck = False\<rparr>"

theorem mcx_gating_witness:
  "let (bus, s) = mcx_boot demo_mcx; s' = mcx_timers_tick 5 s
   in mmio_bus_read bus MM_SECURE 0x5002F00C 4 s' = (None, s') \<and> mmio_bus_write bus MM_SECURE 0x5002F00C 4 1 s' = (False, s')"
proof -
  let ?b = "fst (mcx_boot demo_mcx)" and ?s = "snd (mcx_boot demo_mcx)"
  have h: "posix_write (mx_host demo_mcx)" "\<not> mx_stuck demo_mcx" by (simp_all add: demo_mcx_def posix_write_def demo_uart_host_def)
  have r: "mcx_reach ?b ?s (mcx_timers_tick 5 ?s)" by (intro mcx_reach.tick mcx_reach.start)
  have g: "mcx_gate (mr_base (lpit_region 0x5002F000 :: nat mcx_soc mmio_region)) = Some 0xBC"
    by (simp add: mcx_gate_def lpit_region_def)
  have off: "\<not> mcx_on (mx_mrcc ?s) 0xBC" by (rule mcx_boot_gated) (rule g)
  then have t: "mcx_timers_tick 5 ?s = ?s" by (simp add: mcx_timers_tick_def mcx_on_def)
  have "lpit_region 0x5002F000 \<in> set (mcx_regions :: nat mcx_soc mmio_region list)" by (simp add: mcx_table_defs)
  moreover have "unat (0x5002F00C :: u32) \<in> region_span (lpit_region 0x5002F000 :: nat mcx_soc mmio_region)"
    by (simp add: lpit_region_def region_span_def)
  ultimately have "mmio_bus_read ?b MM_SECURE 0x5002F00C 4 (mcx_timers_tick 5 ?s) = (None, mcx_timers_tick 5 ?s) \<and>
      mmio_bus_write ?b MM_SECURE 0x5002F00C 4 1 (mcx_timers_tick 5 ?s) = (False, mcx_timers_tick 5 ?s)"
    using off by (intro mcx_gating [OF h r _ _ g]) (simp_all only: t not_False_eq_True)
  then show ?thesis by (simp add: case_prod_beta Let_def)
qed

end
