(* ===== verification/Mcxw_Blocks.thy ===== *)
theory Mcxw_Blocks
imports Mcxw_Soc
begin

text \<open>
  What the blocks of the MCXW71C do, on the definitions of \<^verbatim>\<open>Mcxw_Soc\<close>: the interval timer ticked at once
  or cycle by cycle, polled transfers through the SPI controllers, and the output registers of the GPIO banks with
  their edge interrupts.
\<close>

subsection \<open>The interval timer\<close>

definition lpit_running :: "lpit_state \<Rightarrow> nat \<Rightarrow> bool"
  where "lpit_running l i = (lt_tctrl l i AND 1 \<noteq> 0 \<and> lt_tctrl l i AND 2 = 0)"

definition lpit_cval_after :: "u32 \<Rightarrow> nat set \<Rightarrow> lpit_state \<Rightarrow> nat \<Rightarrow> u32"
  where "lpit_cval_after step I l i =
    (if i \<in> I \<and> lpit_running l i then if lt_cval l i > step then lt_cval l i - step else lt_tval l i else lt_cval l i)"

definition lpit_msr_after :: "u32 \<Rightarrow> lpit_state \<Rightarrow> nat \<Rightarrow> u32 \<Rightarrow> u32"
  where "lpit_msr_after step l i msr = (if lpit_running l i \<and> \<not> lt_cval l i > step then msr OR push_bit i 1 else msr)"

lemma channels_after:
  "distinct is \<Longrightarrow> fold (lpit_channel step) is (l, msr) =
    (l\<lparr>lt_cval := lpit_cval_after step (set is) l\<rparr>, fold (lpit_msr_after step l) is msr)"
proof (induction "is" arbitrary: l msr)
  case Nil
  then show ?case by (simp add: lpit_cval_after_def [abs_def])
next
  case (Cons i "is")
  define l1 where "l1 = l\<lparr>lt_cval := (lt_cval l)(i := lpit_cval_after step {i} l i)\<rparr>"
  have "lpit_channel step i (l, msr) = (l1, lpit_msr_after step l i msr)"
    by (simp add: lpit_channel_def l1_def lpit_cval_after_def lpit_msr_after_def lpit_running_def)
  moreover have "lpit_msr_after step l1 j = lpit_msr_after step l j" if "j \<in> set is" for j
    using that Cons.prems by (auto simp: lpit_msr_after_def l1_def lpit_running_def)
  then have "fold (lpit_msr_after step l1) is m = fold (lpit_msr_after step l) is m" for m by (intro fold_cong) auto
  moreover have "lpit_cval_after step (set is) l1 = lpit_cval_after step (set (i # is)) l"
    using Cons.prems by (auto simp: lpit_cval_after_def l1_def lpit_running_def)
  ultimately show ?case using Cons by (simp add: l1_def)
qed

text \<open>A tick of a running timer in closed form.\<close>

definition lpit_after :: "u32 \<Rightarrow> 'd mcx_soc \<Rightarrow> 'd mcx_soc"
  where "lpit_after step s =
    (let l = mx_lpit s; msr = fold (lpit_msr_after step l) [0..<4] (lt_regs l LPIT_MSR)
     in s\<lparr>mx_lpit := l\<lparr>lt_cval := lpit_cval_after step {..<4} l, lt_regs := (lt_regs l)(LPIT_MSR := msr)\<rparr>,
          mx_nvic := (if mx_lpit_nvic s \<and> msr AND (lt_regs l LPIT_MIER AND 0xF) \<noteq> 0
                      then mm_nvic_set_pending (mx_nvic s) 36 True else mx_nvic s)\<rparr>)"

definition lpit_on :: "'d mcx_soc \<Rightarrow> bool"
  where "lpit_on s = (mcx_on (mx_mrcc s) MRCC_LPIT0 \<and> lt_regs (mx_lpit s) LPIT_MCR AND 1 \<noteq> 0)"

lemma tick_off: "\<not> lpit_on s \<Longrightarrow> mcx_timers_tick c s = s"
  by (auto simp: mcx_timers_tick_def lpit_on_def mcx_on_def Let_def)

lemma tick_on:
  assumes "lpit_on s" "0 < n" "n < 2 ^ 32"
  shows "mcx_timers_tick (of_nat n) s = lpit_after (of_nat n) s"
proof -
  have u: "unat (of_nat n :: u64) = n" "unat (of_nat n :: u32) = n" using assms(3) by (simp_all add: unat_of_nat)
  have "ucast (of_nat n :: u64) = (of_nat n :: u32)" 
    using assms(3) by (simp add: unsigned_of_nat take_bit_nat_eq_self)
  moreover have "\<not> (of_nat n :: u64) > 0xFFFFFFFF" using assms(3) by (simp add: word_less_nat_alt u)
  moreover have "(of_nat n :: u32) \<noteq> 0" using assms(2) u(2) by (metis neq0_conv unat_0)
  moreover have "set [0..<4] = {..<4 :: nat}" by auto
  ultimately show ?thesis
    using assms(1) by (simp add: mcx_timers_tick_def lpit_on_def mcx_on_def lpit_after_def channels_after Let_def del: upt_rec_numeral upt_conv_Cons)
qed

lemma msr_grows: "msr AND m \<noteq> 0 \<Longrightarrow> fold (lpit_msr_after step l) is msr AND m \<noteq> 0"
proof (induction "is" arbitrary: msr)
  case (Cons i "is")
  have "lpit_msr_after step l i msr AND m \<noteq> 0"
    using Cons.prems by (auto simp: lpit_msr_after_def bit.conj_disj_distrib2 or_eq_0_iff)
  then show ?case using Cons.IH by simp
qed simp

text \<open>Stepping once and then by \<^verbatim>\<open>n\<close>, as long as no running channel is passed.\<close>

lemma after_after:
  assumes "\<forall>i<4. lpit_running (mx_lpit s) i \<longrightarrow> n < unat (lt_cval (mx_lpit s) i)" "0 < n" "n < 2 ^ 32 - 1"
  shows "lpit_after (of_nat n) (lpit_after 1 s) = lpit_after (of_nat (Suc n)) s"
proof -
  let ?l = "mx_lpit s"
  define l1 where "l1 = ?l\<lparr>lt_cval := lpit_cval_after 1 {..<4} ?l\<rparr>"
  have n: "unat (of_nat n :: u32) = n" "unat (of_nat (Suc n) :: u32) = Suc n" using assms(3) by (simp_all add: unat_of_nat del: of_nat_Suc)
  have big: "lt_cval ?l i > 1" "\<not> lt_cval ?l i \<le> 1" "lt_cval l1 i = lt_cval ?l i - 1" "unat (lt_cval l1 i) = unat (lt_cval ?l i) - 1"
    if "i < 4" "lpit_running ?l i" for i
  proof -
    have g: "unat (lt_cval ?l i) > 1" using assms(1,2) that by fastforce
    then show "lt_cval ?l i > 1" "\<not> lt_cval ?l i \<le> 1" by (simp_all add: word_less_nat_alt word_le_nat_alt)
    then show e: "lt_cval l1 i = lt_cval ?l i - 1" using that by (simp add: l1_def lpit_cval_after_def)
    show "unat (lt_cval l1 i) = unat (lt_cval ?l i) - 1" unfolding e using g by (simp add: unat_minus_one unat_eq_0 flip: unat_gt_0)
  qed
  have run: "lpit_running l1 i = lpit_running ?l i" for i by (simp add: l1_def lpit_running_def)
  have cmp: "lt_cval l1 i > of_nat n \<longleftrightarrow> lt_cval ?l i > of_nat (Suc n)" if "i < 4" "lpit_running ?l i" for i
    using big(1,4) [OF that] assms(1) that unfolding word_less_nat_alt n by auto
  have m1: "fold (lpit_msr_after 1 ?l) [0..<4] m = m" for m
  proof -
    have "fold (lpit_msr_after 1 ?l) [0..<4] m = fold (\<lambda>_. id) [0..<4] m"
      by (rule fold_cong) (use big(1) in \<open>auto simp: lpit_msr_after_def fun_eq_iff\<close>)
    then show ?thesis by (simp add: fold_id)
  qed
  have m2: "fold (lpit_msr_after (of_nat n) l1) [0..<4] m = fold (lpit_msr_after (of_nat (Suc n)) ?l) [0..<4] m" for m
    by (rule fold_cong) (use cmp run in \<open>auto simp: lpit_msr_after_def fun_eq_iff\<close>)
  have c: "lpit_cval_after (of_nat n) {..<4} l1 = lpit_cval_after (of_nat (Suc n)) {..<4} ?l"
  proof
    fix i
    show "lpit_cval_after (of_nat n) {..<4} l1 i = lpit_cval_after (of_nat (Suc n)) {..<4} ?l i"
    proof (cases "i < 4 \<and> lpit_running ?l i")
      case True
      then show ?thesis using cmp [of i] big(3) [of i] run by (simp add: lpit_cval_after_def) (simp add: l1_def)
    next
      case False
      then show ?thesis using run by (auto simp: lpit_cval_after_def l1_def)
    qed
  qed
  define mier where "mier = lt_regs ?l LPIT_MIER AND 0xF"
  define pend where "pend = (\<lambda>msr g. if mx_lpit_nvic s \<and> msr AND mier \<noteq> 0 then mm_nvic_set_pending g 36 True else g)"
  let ?m = "lt_regs ?l LPIT_MSR" and ?m' = "fold (lpit_msr_after (of_nat (Suc n)) ?l) [0..<4] (lt_regs ?l LPIT_MSR)"
  have after: "lpit_after step t =
      t\<lparr>mx_lpit := (mx_lpit t)\<lparr>lt_cval := lpit_cval_after step {..<4} (mx_lpit t), lt_regs := (lt_regs ?l)
         (LPIT_MSR := fold (lpit_msr_after step (mx_lpit t)) [0..<4] ?m)\<rparr>,
        mx_nvic := pend (fold (lpit_msr_after step (mx_lpit t)) [0..<4] ?m) (mx_nvic t)\<rparr>"
    if "lt_regs (mx_lpit t) = lt_regs ?l" "mx_lpit_nvic t = mx_lpit_nvic s" for t :: "'a mcx_soc" and step
    by (simp only: lpit_after_def Let_def that pend_def mier_def)
  have "lpit_after 1 s = s\<lparr>mx_lpit := l1\<lparr>lt_regs := (lt_regs ?l)(LPIT_MSR := ?m)\<rparr>, mx_nvic := pend ?m (mx_nvic s)\<rparr>"
    unfolding after [OF refl refl] m1 by (simp only: l1_def)
  then have s1: "lpit_after 1 s = s\<lparr>mx_lpit := l1, mx_nvic := pend ?m (mx_nvic s)\<rparr>" by (simp only: fun_upd_triv) (simp add: l1_def)
  have r1: "lt_regs l1 = lt_regs ?l" by (simp add: l1_def)
  have "pend ?m' (pend ?m (mx_nvic s)) = pend ?m' (mx_nvic s)"
    using msr_grows [of ?m mier] by (simp add: pend_def set_pending_idem)
  moreover have "lpit_after (of_nat n) (lpit_after 1 s) =
    s\<lparr>mx_lpit := l1\<lparr>lt_cval := lpit_cval_after (of_nat (Suc n)) {..<4} ?l, lt_regs := (lt_regs ?l)(LPIT_MSR := ?m')\<rparr>,
      mx_nvic := pend ?m' (pend ?m (mx_nvic s))\<rparr>"
    unfolding s1 by (subst after) (simp_all add: r1 m2 c del: of_nat_Suc)
  moreover have "lpit_after (of_nat (Suc n)) s =
    s\<lparr>mx_lpit := ?l\<lparr>lt_cval := lpit_cval_after (of_nat (Suc n)) {..<4} ?l, lt_regs := (lt_regs ?l)(LPIT_MSR := ?m')\<rparr>,
      mx_nvic := pend ?m' (mx_nvic s)\<rparr>"
    by (rule after [OF refl refl])
  moreover have "l1\<lparr>lt_cval := x, lt_regs := y\<rparr> = ?l\<lparr>lt_cval := x, lt_regs := y\<rparr>" for x y by (simp add: l1_def)
  ultimately show ?thesis by (simp only:)
qed

text \<open>The time that passes while the core sleeps is given to the timer in one tick, and otherwise a cycle
  at a time.  Both lead to the same counters, flags and interrupt as long as no running channel has
  fewer cycles left than the tick.\<close>

lemma after_on: "lpit_on s \<Longrightarrow> lpit_on (lpit_after step s)"
  by (simp add: lpit_on_def lpit_after_def Let_def)

theorem lpit_tick_is_stepping:
  assumes "\<forall>i<4. lpit_running (mx_lpit s) i \<longrightarrow> n \<le> unat (lt_cval (mx_lpit s) i)" "0 < n" "n < 2 ^ 32"
  shows "mcx_timers_tick (of_nat n) s = (mcx_timers_tick 1 ^^ n) s"
proof (cases "lpit_on s")
  case False
  then have "(mcx_timers_tick 1 ^^ k) s = s" for k by (induction k) (simp_all add: tick_off)
  then show ?thesis using False by (simp add: tick_off)
next
  case True
  from assms True show ?thesis
  proof (induction n arbitrary: s)
    case (Suc n)
    have t1: "mcx_timers_tick 1 s = lpit_after 1 s" using tick_on [OF Suc.prems(4), of 1] by simp
    show ?case
    proof (cases "n = 0")
      case False
      have le: "n < unat (lt_cval (mx_lpit s) i)" if "i < 4" "lpit_running (mx_lpit s) i" for i
        using Suc.prems(1) that by fastforce
      have "\<forall>i<4. lpit_running (mx_lpit (lpit_after 1 s)) i \<longrightarrow> n \<le> unat (lt_cval (mx_lpit (lpit_after 1 s)) i)"
      proof (intro allI impI)
        fix i :: nat assume i: "i < 4" "lpit_running (mx_lpit (lpit_after 1 s)) i"
        then have r: "lpit_running (mx_lpit s) i" by (simp add: lpit_after_def lpit_running_def Let_def)
        then have g: "unat (lt_cval (mx_lpit s) i) > n" "unat (lt_cval (mx_lpit s) i) > 1" using le [OF i(1)] False by fastforce+
        then have "lt_cval (mx_lpit (lpit_after 1 s)) i = lt_cval (mx_lpit s) i - 1"
          using i(1) r by (simp add: lpit_after_def lpit_cval_after_def Let_def word_less_nat_alt)
        then show "n \<le> unat (lt_cval (mx_lpit (lpit_after 1 s)) i)"
          using g by (simp add: unat_minus_one flip: unat_gt_0)
      qed
      then have "mcx_timers_tick (of_nat n) (lpit_after 1 s) = (mcx_timers_tick 1 ^^ n) (lpit_after 1 s)"
        using Suc.prems(3,4) False by (intro Suc.IH) (simp_all add: after_on)
      moreover have "mcx_timers_tick (of_nat n) (lpit_after 1 s) = lpit_after (of_nat n) (lpit_after 1 s)"
        using Suc.prems(3,4) False by (intro tick_on) (simp_all add: after_on)
      moreover have "\<dots> = lpit_after (of_nat (Suc n)) s"
        using Suc.prems(3) False le by (intro after_after) simp_all
      moreover have "mcx_timers_tick (of_nat (Suc n)) s = lpit_after (of_nat (Suc n)) s"
        using Suc.prems(3,4) by (intro tick_on) simp_all
      ultimately show ?thesis unfolding funpow_Suc_right comp_def t1 by simp
    qed simp
  qed simp
qed

text \<open>Beyond that the cycles left over after a reload are lost: with one cycle left and a period of ten, a tick of two
  leaves ten cycles where two single ticks leave nine.\<close>

lemma lpit_tick_excess:
  assumes "lpit_on s" "lpit_running (mx_lpit s) 0" "lt_cval (mx_lpit s) 0 = 1" "lt_tval (mx_lpit s) 0 = 10"
  shows "lt_cval (mx_lpit (mcx_timers_tick 2 s)) 0 = 10" "lt_cval (mx_lpit (mcx_timers_tick 1 (mcx_timers_tick 1 s))) 0 = 9"
proof -
  have "mcx_timers_tick 2 s = lpit_after 2 s" "mcx_timers_tick 1 s = lpit_after 1 s"
    "mcx_timers_tick 1 (lpit_after 1 s) = lpit_after 1 (lpit_after 1 s)"
    using tick_on [OF assms(1), of 2] tick_on [OF assms(1), of 1] tick_on [OF after_on [OF assms(1)], of 1] by simp_all
  moreover have "lpit_running (mx_lpit (lpit_after 1 s)) 0" using assms(2) by (simp add: lpit_after_def lpit_running_def Let_def)
  ultimately show "lt_cval (mx_lpit (mcx_timers_tick 2 s)) 0 = 10" "lt_cval (mx_lpit (mcx_timers_tick 1 (mcx_timers_tick 1 s))) 0 = 9"
    using assms by (simp_all add: lpit_after_def lpit_cval_after_def Let_def)
qed

subsection \<open>SPI transfers\<close>

text \<open>A byte written to TDR and the reply read from RDR, and what the device sees of it: a byte shifted and,
  without CONT, the end of the frame.\<close>

definition lpspi_exchange :: "regs \<Rightarrow> 'd mm_spi_device list \<Rightarrow> lpspi_inst \<times> 'd \<Rightarrow> u8 \<Rightarrow> u8 \<times> lpspi_inst \<times> 'd"
  where "lpspi_exchange m devs x b =
    (let (ok, s, d) = lpspi_write m devs 0x64 4 (to_u32 b) x; (v, s) = lpspi_read m 0x74 4 s in (to_u8 (the v), s, d))"

definition bus_frame :: "'d mm_spi_device list \<Rightarrow> int \<Rightarrow> bool \<Rightarrow> 'd \<Rightarrow> u8 \<Rightarrow> u8 \<times> 'd"
  where "bus_frame devs bus cont d b =
    (let (r, d) = mm_spi_bus_xfer devs bus b d in (r, if cont then d else mm_spi_bus_end devs bus d))"

definition lpspi_ready :: "regs \<Rightarrow> int \<Rightarrow> bool \<Rightarrow> lpspi_inst \<Rightarrow> bool"
  where "lpspi_ready m bus cont s = (mcx_on m (ls_mrcc_offset s) \<and> ls_regs s LPSPI_CR AND 1 \<noteq> 0 \<and>
    ls_regs s LPSPI_TCR AND 0x40000 = 0 \<and> ls_regs s LPSPI_TCR AND 0x80000 = 0 \<and>
    (ls_regs s LPSPI_TCR AND 0x200000 \<noteq> 0) = cont \<and> ls_bus_index s = bus)"

lemma exchange_one:
  assumes "lpspi_ready m bus cont s"
  shows "\<exists>s'. lpspi_exchange m devs (s, d) b = (fst (bus_frame devs bus cont d b), s', snd (bus_frame devs bus cont d b)) \<and>
    lpspi_ready m bus cont s'"
  using assms
  by (auto simp: lpspi_exchange_def lpspi_ready_def bus_frame_def mcx_on_def lpspi_write_def lpspi_read_def bad_size_def lpspi_transmit_def
      set_lpspi_def lpspi_update_sr_def u8_u32 Let_def case_prod_beta)

text \<open>What a polled transfer through the controller returns is what the device answers to the bytes in order,
  and the device ends in the state that it reaches on the bytes alone; the controller stays ready.\<close>

theorem lpspi_transfer_exchanges:
  assumes "lpspi_ready m bus cont s"
  shows "\<exists>s'. spi_shift (lpspi_exchange m devs) (s, d) bs =
      (fst (spi_shift (bus_frame devs bus cont) d bs), s', snd (spi_shift (bus_frame devs bus cont) d bs)) \<and> lpspi_ready m bus cont s'"
  using assms
proof (induction bs arbitrary: s d)
  case (Cons b bs)
  obtain s1 where s1: "lpspi_exchange m devs (s, d) b = (fst (bus_frame devs bus cont d b), s1, snd (bus_frame devs bus cont d b))"
    "lpspi_ready m bus cont s1" using exchange_one [OF Cons.prems, of devs d b] by blast
  from Cons.IH [OF s1(2), of "snd (bus_frame devs bus cont d b)"] show ?case
    by (auto simp: s1(1) case_prod_beta Let_def)
qed auto

subsection \<open>Pins\<close>

lemma gpio_irqs:
  assumes "mx_gpio_nvic s" "bank < 4"
  shows "mm_nvic_is_pending (mx_nvic (mcx_gpio_raise_irq bank s)) (59 + 2 * of_nat bank) \<longleftrightarrow> mx_gpio s bank GPIO_ISFR AND 0xFFFF \<noteq> 0"
    "mm_nvic_is_pending (mx_nvic (mcx_gpio_raise_irq bank s)) (60 + 2 * of_nat bank) \<longleftrightarrow> mx_gpio s bank GPIO_ISFR AND 0xFFFF0000 \<noteq> 0"
proof -
  have p: "mm_nvic_is_pending (mm_nvic_set_pending n i x) k = (if k = i then x else mm_nvic_is_pending n k)" if "i < 128" for n i x k
    using that mask_bit_bitop [OF that] by (auto simp: mm_nvic_is_pending_def mm_nvic_set_pending_def div32_less_4)
  consider "bank = 0" | "bank = 1" | "bank = 2" | "bank = 3" using assms(2) by linarith
  then show "mm_nvic_is_pending (mx_nvic (mcx_gpio_raise_irq bank s)) (59 + 2 * of_nat bank) \<longleftrightarrow> mx_gpio s bank GPIO_ISFR AND 0xFFFF \<noteq> 0"
    "mm_nvic_is_pending (mx_nvic (mcx_gpio_raise_irq bank s)) (60 + 2 * of_nat bank) \<longleftrightarrow> mx_gpio s bank GPIO_ISFR AND 0xFFFF0000 \<noteq> 0"
    using assms(1) by (cases; simp add: mcx_gpio_raise_irq_def p Let_def)+
qed

lemma raise_irq_keeps [simp]:
  "mx_gpio (mcx_gpio_raise_irq bank s) = mx_gpio s" "mx_ports (mcx_gpio_raise_irq bank s) = mx_ports s"
  by (simp_all add: mcx_gpio_raise_irq_def Let_def)

text \<open>The result of an output register: pins and input register take the new value, the pins that changed and have
  edge detection are flagged in the GPIO and in the PORT, and the interrupts of the bank follow the flags.\<close>

definition pins_set :: "nat \<Rightarrow> u32 \<Rightarrow> 'd mcx_soc \<Rightarrow> 'd mcx_soc \<Rightarrow> bool"
  where "pins_set bank new s s' =
    (let fired = (mx_gpio s bank PDIR XOR new) AND po_regs (mx_ports s bank) PORT_EDIER; flags = mx_gpio s bank GPIO_ISFR OR fired
     in mx_gpio s' = (mx_gpio s)(bank := (mx_gpio s bank)(PDOR := new, PDIR := new, GPIO_ISFR := flags)) \<and>
        po_regs (mx_ports s' bank) PORT_EDFR = (po_regs (mx_ports s bank) PORT_EDFR OR fired) \<and>
        (fired \<noteq> 0 \<longrightarrow>
          mm_nvic_is_pending (mx_nvic s') (59 + 2 * of_nat bank) = (flags AND 0xFFFF \<noteq> 0) \<and>
          mm_nvic_is_pending (mx_nvic s') (60 + 2 * of_nat bank) = (flags AND 0xFFFF0000 \<noteq> 0)))"

lemma output_pins:
  assumes "mx_gpio_nvic s" "bank < 3"
  shows "pins_set bank new s (mcx_gpio_output bank new s)"
proof -
  define fired where "fired = (mx_gpio s bank PDIR XOR new) AND po_regs (mx_ports s bank) PORT_EDIER"
  define s1 where "s1 = gpio_sync_pdir bank (mcx_set_gpio bank PDOR new s)"
  define s2 where "s2 = mcx_set_gpio bank GPIO_ISFR (mx_gpio s1 bank GPIO_ISFR OR fired) (s1\<lparr>mx_ports := (mx_ports s1)(bank :=
    (mx_ports s1 bank)\<lparr>po_regs := (po_regs (mx_ports s1 bank))(PORT_EDFR := po_regs (mx_ports s1 bank) PORT_EDFR OR fired)\<rparr>)\<rparr>)"
  have s1: "mx_gpio s1 = (mx_gpio s)(bank := (mx_gpio s bank)(PDOR := new, PDIR := new))" "mx_ports s1 = mx_ports s"
    "mx_gpio_nvic s1 = mx_gpio_nvic s"
    by (simp_all add: s1_def gpio_sync_pdir_def mcx_set_gpio_def)
  have "mcx_gpio_output bank new s = mcx_gpio_update_edges bank (mx_gpio s bank PDIR) (mx_gpio s1 bank PDIR) s1"
    by (simp only: mcx_gpio_output_def Let_def s1_def)
  also have "\<dots> = (if fired = 0 then s1 else mcx_gpio_raise_irq bank s2)"
    using assms(2) s1 by (auto simp: mcx_gpio_update_edges_def port_index_for_bank_def fired_def s2_def Let_def)
  finally have o: "mcx_gpio_output bank new s = (if fired = 0 then s1 else mcx_gpio_raise_irq bank s2)" .
  have s2: "mx_gpio s2 = (mx_gpio s)(bank := (mx_gpio s bank)(PDOR := new, PDIR := new, GPIO_ISFR := mx_gpio s bank GPIO_ISFR OR fired))"
    "po_regs (mx_ports s2 bank) PORT_EDFR = (po_regs (mx_ports s bank) PORT_EDFR OR fired)" "mx_gpio_nvic s2"
    using s1 assms(1) by (simp_all add: s2_def mcx_set_gpio_def)
  show ?thesis
  proof (cases "fired = 0")
    case True
    have "(mx_gpio s bank)(PDOR := new, PDIR := new, GPIO_ISFR := mx_gpio s bank GPIO_ISFR) = (mx_gpio s bank)(PDOR := new, PDIR := new)"
      by (simp add: fun_eq_iff)
    with True s1 o show ?thesis unfolding pins_set_def Let_def fired_def [symmetric] by simp
  next
    case False
    then show ?thesis
      using s2 o gpio_irqs [of s2 bank] assms(2) unfolding pins_set_def Let_def fired_def [symmetric] by simp
  qed
qed

text \<open>The output registers of the banks with a PORT: PDOR takes a word, PSOR, PCOR and PTOR set, clear and toggle
  the pins of a mask.\<close>

theorem mcx_gpio_outputs:
  assumes "mx_gpio_nvic s" "bank < 3" "mcx_gpio_bank_enabled (mx_mrcc s) bank"
  shows "fst (mcx_gpio_write bank 0x40 4 v s) \<and> pins_set bank v s (snd (mcx_gpio_write bank 0x40 4 v s))"
    "fst (mcx_gpio_write bank 0x44 4 v s) \<and> pins_set bank (mx_gpio s bank PDOR OR v) s (snd (mcx_gpio_write bank 0x44 4 v s))"
    "fst (mcx_gpio_write bank 0x48 4 v s) \<and> pins_set bank (mx_gpio s bank PDOR AND NOT v) s (snd (mcx_gpio_write bank 0x48 4 v s))"
    "fst (mcx_gpio_write bank 0x4C 4 v s) \<and> pins_set bank (mx_gpio s bank PDOR XOR v) s (snd (mcx_gpio_write bank 0x4C 4 v s))"
  using assms output_pins by (auto simp: mcx_gpio_write_def bad_size_def Let_def)

end
