(* ===== verification/Spec2Isabelle.thy ===== *)
theory Spec2Isabelle
imports Decode Run_Props Spi_Flash Stm32_Usart Stm32_Spi Stm32_Soc Nrf_Mmio Nrf_Serial Gdb_Stub Tpm_Tis Stm32_U585 Stm32_L552 Stm32_Eth Images Mcxw_Blocks
begin

text \<open>
  Verification of m33mu, an emulator of the Cortex-M33 (ARMv8-M with TrustZone).

  \<^bold>\<open>The program.\<close>  m33mu runs firmware images on an emulated microcontroller.  Its \<^verbatim>\<open>main.c\<close>
  builds the machine (memory map, protection regions, system control space, interrupt controller,
  the peripherals of the chosen SoC), resets the processor from the vector table, and then loops:
  wake from sleep, enter a pending exception or interrupt, or advance the timers by one cycle,
  fetch, decode and execute an instruction.  The executor calls back into \<^verbatim>\<open>main.c\<close> to enter
  exceptions, to raise faults and to interpret writes of PC; memory accesses go through the memory
  map, which asks the protection interceptor and then serves RAM, flash or the MMIO bus, on which
  the system control space is one device.

  \<^bold>\<open>Theories, in the order of dependence.\<close>  All paths are below \<^verbatim>\<open>src/\<close>.
  \<^item> \<^verbatim>\<open>Prelude\<close>: the fixed-width integers as words, C casts and shifts, bit-level lemmas and the
    collections of simplification rules.
  \<^item> \<^verbatim>\<open>Cpu_State\<close> (\<^verbatim>\<open>src/m33mu/cpu.c\<close>, \<^verbatim>\<open>include/m33mu/cpu.h\<close>): \<^verbatim>\<open>struct mm_cpu\<close> as the record
    \<^verbatim>\<open>mm_cpu\<close>, with one definition per accessor.  The locale \<^verbatim>\<open>banked\<close> is the contract of a register
    with one copy per security state; it is interpreted on MSP, PSP, CONTROL and VTOR.
  \<^item> \<^verbatim>\<open>Exec_Helpers\<close> (\<^verbatim>\<open>src/m33mu/exec_helpers.c\<close>): addition with carry, shifts, immediates, flags.
  \<^item> \<^verbatim>\<open>Decode_Types\<close>, \<^verbatim>\<open>Decode16\<close>, \<^verbatim>\<open>Decode32\<close>, \<^verbatim>\<open>Decode\<close> (\<^verbatim>\<open>src/m33mu/decode.c\<close>): every encoding
    pattern in the order of the source, one definition per pattern or routine.
  \<^item> \<^verbatim>\<open>Core_Interfaces\<close> (\<^verbatim>\<open>src/core_interfaces.c\<close>): the MMIO bus, interrupt lines, and the event
    scheduler with its contract, the locale \<^verbatim>\<open>timed_queue\<close>.
  \<^item> \<^verbatim>\<open>Memmap\<close> (\<^verbatim>\<open>src/memmap.c\<close>): windows, aliases and access paths for data and code.
  \<^item> \<^verbatim>\<open>Scs_State\<close> (\<^verbatim>\<open>include/m33mu/scs.h\<close>, \<^verbatim>\<open>src/m33mu/sau.c\<close>, \<^verbatim>\<open>src/m33mu/mpu.c\<close>): the record
    \<^verbatim>\<open>mm_scs\<close> and the two region lookups; both are instances of the locale \<^verbatim>\<open>region_priority\<close>.
  \<^item> \<^verbatim>\<open>Mem_Prot\<close> (\<^verbatim>\<open>src/m33mu/mem_prot.c\<close>): attribution, permissions and fault recording.
  \<^item> \<^verbatim>\<open>Nvic\<close> (\<^verbatim>\<open>src/nvic.c\<close>): masks (the locale \<^verbatim>\<open>bit_array\<close>, interpreted three times) and selection.
  \<^item> \<^verbatim>\<open>Scs\<close> (\<^verbatim>\<open>src/scs.c\<close>): the register page as seen by both states, and SysTick.
  \<^item> \<^verbatim>\<open>It_State\<close>: the two representations of the IT block in \<^verbatim>\<open>src/execute.c\<close>.
  \<^item> \<^verbatim>\<open>Stack_Memory\<close>: the locale \<^verbatim>\<open>word_store\<close>, what the stacking loops need of memory, proved of RAM
    behind the memory map.
  \<^item> \<^verbatim>\<open>Exceptions\<close> (\<^verbatim>\<open>src/vector.c\<close>, \<^verbatim>\<open>src/exc_return.c\<close>, \<^verbatim>\<open>src/m33mu/exception.c\<close> and the exception
    functions of \<^verbatim>\<open>src/main.c\<close>): the record \<^verbatim>\<open>mach\<close> holds the processor, the memory map with the
    devices behind it and the variables of the main loop that the executor reaches by pointer.
  \<^item> \<^verbatim>\<open>Fetch\<close> (\<^verbatim>\<open>src/m33mu/mem.c\<close>, \<^verbatim>\<open>fetch.c\<close>, \<^verbatim>\<open>table_branch.c\<close>): fetching over the locale \<^verbatim>\<open>halfwords\<close>,
    interpreted on the flat buffer and on the memory map.
  \<^item> \<^verbatim>\<open>Tz\<close> (\<^verbatim>\<open>src/m33mu/tz.c\<close>): SG, BXNS, BLXNS and the return from a Non-secure call.
  \<^item> \<^verbatim>\<open>Exec_Alu\<close>, \<^verbatim>\<open>Exec_Ctl\<close>, \<^verbatim>\<open>Exec_Mem\<close>, \<^verbatim>\<open>Execute\<close> (\<^verbatim>\<open>src/execute.c\<close>): one definition
    per case of the switch, grouped by what a case may touch: the register file, the machine's
    control state, memory.  \<^verbatim>\<open>Execute\<close> assembles the table and the dispatch.
  \<^item> \<^verbatim>\<open>Run_Loop\<close> (\<^verbatim>\<open>src/main.c\<close>, \<^verbatim>\<open>src/timer.c\<close>, \<^verbatim>\<open>src/core_sys.c\<close>, \<^verbatim>\<open>src/runloop.c\<close>): reset of the
    machine, one iteration of the main loop, and its repetition.
  \<^item> \<^verbatim>\<open>Machine_Inv\<close>: the locale \<^verbatim>\<open>cpu_invariant\<close>, which lifts a predicate kept by the primitive
    changes of the processor to the whole loop; interpreted for the nesting depths and for the
    privilege bits.
  \<^item> \<^verbatim>\<open>Run_Props\<close>: properties of whole runs.
  \<^item> \<^verbatim>\<open>Spi_Bus\<close> (\<^verbatim>\<open>src/m33mu/spi_bus.c\<close>) and \<^verbatim>\<open>Spi_Flash\<close> (\<^verbatim>\<open>src/m33mu/spiflash.c\<close>): the table of bus
    devices, and the command machine of the SPI flash with its image file; reachable states are an
    inductive predicate over bytes, chip select and frame ends.
  \<^item> \<^verbatim>\<open>Ring_Buffer\<close>: the byte rings of the peripherals as lists, and the locale \<^verbatim>\<open>bounded_queue\<close> for
    rings that drop what does not fit, interpreted on the receive ring of the SPI controllers.
  \<^item> \<^verbatim>\<open>Target_Hal\<close> (\<^verbatim>\<open>src/target_hal.c\<close>): the host side of a UART and the dispatch of the hooks of a
    target; the answers of the host's system calls are a record of functions.
  \<^item> \<^verbatim>\<open>Soc_Regs\<close>: register arrays with byte lanes, which all peripheral blocks share.
  \<^item> \<^verbatim>\<open>Stm32_Timers\<close>, \<^verbatim>\<open>Stm32_Sys\<close>, \<^verbatim>\<open>Stm32_Flash\<close>, \<^verbatim>\<open>Stm32_Spi\<close>, \<^verbatim>\<open>Stm32_Usart\<close>, \<^verbatim>\<open>Stm32_Soc\<close>
    (\<^verbatim>\<open>cpu/stm32h563/\<close>): the STM32H563.  Each has one record per block and one definition per
    register handler: timers; clocks, power, TrustZone controllers, EXTI and GPIO; the flash
    controller, random numbers and the two watchdogs; SPI; USARTs.  \<^verbatim>\<open>Stm32_Soc\<close> puts the blocks
    into one record and models their reset, the table of regions and its registration on the MMIO
    bus of \<^verbatim>\<open>Core_Interfaces\<close>, the tick of timers and watchdogs, and the memory configuration that
    \<^verbatim>\<open>Mem_Prot\<close> consults for the attribution of RAM blocks.
  \<^item> \<^verbatim>\<open>Stm32_U585\<close>, \<^verbatim>\<open>Stm32_L552\<close> (\<^verbatim>\<open>cpu/stm32u585/\<close>, \<^verbatim>\<open>cpu/stm32l552/\<close>): two more SoCs.  A function that
    has the text of the STM32H563's is equal to its definition; what differs (addresses, clock
    controller, enable bits, interrupts, banks of block protection) is translated.
  \<^item> \<^verbatim>\<open>Nrf_Timers\<close>, \<^verbatim>\<open>Nrf_Mmio\<close>, \<^verbatim>\<open>Nrf_Serial\<close> (\<^verbatim>\<open>cpu/nrf5340/\<close>): the nRF5340: timers and watchdogs; clock,
    GPIO, flash controller, random numbers and SPU with the region table; the serial blocks, whose
    DMA goes through the memory map.  The locale \<^verbatim>\<open>byte_store\<close> is what the DMA loops need of memory,
    interpreted on the memory map's byte accesses.
  \<^item> \<^verbatim>\<open>Mcxw_Soc\<close>, \<^verbatim>\<open>Mcxw_Blocks\<close> (\<^verbatim>\<open>cpu/mcxw71c/\<close>): the MCXW71C: module control, GPIO and PORT, interval timer,
    SPI and UART in one record, with their registration, the boot sequence and, as an inductive predicate,
    the states that bus accesses, ticks and polls reach; \<^verbatim>\<open>Mcxw_Blocks\<close> has what the blocks do.
  \<^item> \<^verbatim>\<open>Tpm_Tis\<close> (\<^verbatim>\<open>src/m33mu/tpm_tis.c\<close>): the TPM behind SPI: frames, localities, the command and
    response buffers and the state of the interface.  libtpms is the argument \<^verbatim>\<open>tpm_lib\<close>.
  \<^item> \<^verbatim>\<open>Stm32_Eth\<close> (\<^verbatim>\<open>cpu/stm32h563/stm32h563_eth.c\<close>, \<^verbatim>\<open>src/m33mu/eth_backend.c\<close>): the Ethernet block and
    the network device behind it.  Its two descriptor rings are proved in the locale \<^verbatim>\<open>word_store\<close>,
    interpreted on the memory map as the DMA uses it.
  \<^item> \<^verbatim>\<open>Images\<close> (\<^verbatim>\<open>src/main.c\<close>, \<^verbatim>\<open>src/flash_persist.c\<close>): the image arguments, loading, and the files
    that keep the flash; the host's files are a record.
  \<^item> \<^verbatim>\<open>Gdb_Codec\<close>, \<^verbatim>\<open>Gdb_Stub\<close> (\<^verbatim>\<open>src/gdbstub.c\<close>): the packet codec and number scanning, and the
    command interpreter with registers, memory, breakpoints and queries, on the processor of
    \<^verbatim>\<open>Cpu_State\<close> and the memory map of \<^verbatim>\<open>Memmap\<close>; the connection is a pair of byte streams.

  \<^bold>\<open>What is shown.\<close>
  \<^item> Invariants: from reset on, whatever firmware and peripherals do, the nesting depths stay
    inside their arrays and the privilege bits agree with CONTROL; on a bus built by registration an
    address belongs to at most one region.
  \<^item> Isolation: Non-secure accesses are granted only where the attribution permits; Non-secure
    writes to the system control space leave the Secure configuration alone; the stack limit check
    holds for every checked write of SP; data-processing instructions change nothing but their
    destinations and flags; the security state changes only by the three TrustZone instructions.
  \<^item> Functional behaviour and equivalences: comparison followed by a conditional branch decides the
    named relation for all operands, carry chains are 64-bit arithmetic, SysTick fast-forward
    equals stepping, the immediate expansions of decoder and executor agree, the interrupt selected
    is the best, IT slots execute as the architecture says, the switch is complete.
  \<^item> Round trips: exception entry and return, PUSH and POP, BLXNS and its return, RAM stores and
    loads, register writes and reads, EXC_RETURN and ITSTATE encodings.
  \<^item> Progress: the timer fires after exactly the predicted cycles, and a sleeping processor wakes
    at that event in one iteration.
  \<^item> Peripherals: what is erased and programmed is what the SPI flash returns, and without the write
    enable byte nothing changes it; every reachable state of the flash is well formed; a sized SPI
    transfer exchanges its bytes in order; UART output reaches the host in order and the macro
    watch recognises exactly its text; ticking a timer in pieces equals ticking it at once; the
    independent watchdog fires exactly when its count has run down, and the ticks always return;
    the flash controller programs exactly the stored bytes after its unlock sequence; the region
    table of the SoC is accepted by the bus and every address reaches its region; a write to a
    block-based protection controller decides the attribution of exactly its 32 blocks; pins owned
    by the Secure state are not moved by the set and reset registers of the Non-secure alias.
  \<^item> Other SoCs: the timers of the nRF5340 give the same result ticked at once or cycle by cycle; its
    flash returns what was programmed after an erase; a SPI master exchange stores the answer of the
    device for every byte sent, and a UART receive stores the bytes in order; the boot sequence
    of the machine leaves its serial blocks without registration.  The region tables of all
    modelled SoCs are accepted by the bus; the STM32U585 starts with all RAM Secure, and the
    block protection of the STM32L552 has no effect.  On the MCXW71C no block responds, in any reachable
    state, while its clock is off or its reset held; its interval timer ticks like single cycles up to the
    end of a period, its SPI controllers exchange bytes in order, and its output registers move the pins
    and raise the interrupts of the edges.
  \<^item> Ethernet and persistence: the transmitter sends exactly the frames of the ring in order, the
    receiver stores what arrives, the MAC address reads back; what firmware stores in the flash
    survives a restart that reloads the image files, and an image argument is read as it was written.
  \<^item> TPM: a command that is written through frames reaches the library unchanged and its response is
    read back, and no sequence of frames leaves the buffers of the interface.
  \<^item> Debugger: packets survive the codec, a breakpoint that is set and cleared leaves memory as it
    was, memory written is read back, both register commands give the same values.
  \<^item> Behaviour that departs from the architecture or from the evident intent is stated as a theorem
    where it decides a property: accesses that wrap the address space or straddle a security
    boundary, AIRCR and ICER banking, the ITSTATE step, division of the least integer by minus one,
    the branch of the stand-alone stepper, the erase of a locked flash controller, GPIO and block
    protection registers open to the Non-secure state, a breakpoint that is set twice.

  \<^bold>\<open>Conventions, bounds and fuel.\<close>  Integers keep their width, so wrap-around is that of the words.
  A C array indexed by a variable is a function on \<^verbatim>\<open>nat\<close> or a list; where the index could leave a
  host buffer the memory map records it in the ghost flag \<^verbatim>\<open>mm_host_oob\<close>, and the executor status
  \<^verbatim>\<open>HOST_UB\<close> marks the one expression whose C value is undefined.  Callbacks and peripherals act on an
  environment of arbitrary type that carries the system control space; the functions that an SoC
  supplies are the record \<^verbatim>\<open>target_hooks\<close>, an argument of the loop.  Theorems that need these
  functions to leave the core's registers alone say so (\<^verbatim>\<open>core_untouched\<close>).  The main loop ends only
  when the firmware or the user stops it, so \<^verbatim>\<open>run_loop\<close> takes the number of iterations; its
  theorems hold for every number.  The loops of the two watchdogs and of the UART flush end only
  under conditions on their state or on the host; they are partial functions to \<^verbatim>\<open>option\<close>, and that
  they return is proved (for the flush: on every host whose \<^verbatim>\<open>write\<close> never reports more bytes than
  it was given).  All other loops are structural recursions, recursions with a measure, or bounded
  by a constant of the source.

  \<^bold>\<open>Not modelled.\<close>  The terminal user interface, Capstone cross-checking, trace output, the loop over
  the command-line options, and the pacing against host time do not take part
  in the emulated machine's behaviour; the calls of the debugger stub are left out of an iteration
  (a stop is recorded).  The USB/IP server is input and output.  The USB and Ethernet blocks of the
  STM32H563 enter its registration as an argument, the Ethernet block being modelled by itself.  libtpms is not part of
  the repository and an argument of the TPM's definitions.  All SoCs are modelled; the main loop
  itself is proved for arbitrary \<^verbatim>\<open>target_hooks\<close>.  The serial instances
  of the STM32 parts are modelled with their handlers, initialisation and poll, but not put on the
  bus of the SoC record: their registration is a loop of the same shape as that of the timers.

  \<^bold>\<open>What is left.\<close>  The USB block is the front end of a server on the host network, and the user interface works on
  a terminal.
\<close>

end
